(* ===== verification/Prelude.thy ===== *)
theory Prelude
  imports Main "HOL-Library.Word" "HOL-Library.Finite_Map" "HOL-Library.Multiset"
    "HOL-Library.List_Lexorder" "HOL-Library.Char_ord" "HOL-Library.Product_Lexorder"
begin

text \<open>
  What every theory of the development shares: the Go types the program uses and the Isabelle
  types that stand for them, the byte encodings of the standard library (\<open>binary.AppendUvarint\<close>,
  \<open>binary.BigEndian\<close>), sums over finite maps, and two interfaces: \<open>prefix_code\<close> (an encoding that
  can be read back off the front of a byte string) and \<open>state_machine\<close> (a step function that keeps
  an invariant).

  A Go \<open>string\<close> is a byte sequence and so is an Isabelle \<open>string\<close> (its characters are bytes); a
  \<open>[]byte\<close> is a list of 8-bit words. \<open>uint32\<close> and \<open>uint64\<close> are words of their width, so that
  arithmetic on them wraps as in Go. A \<open>time.Time\<close> is its distance in nanoseconds from the zero
  time (1 January of year 1), so \<open>IsZero\<close> is \<open>= 0\<close>; a \<open>time.Duration\<close> is an integer number of
  nanoseconds. A Go map is a finite map.
\<close>

named_theorems codec_simps \<open>how the byte encodings are read back\<close>
named_theorems fmsum_simps \<open>sums over finite maps after an update or a deletion\<close>

type_synonym u8 = "8 word"
type_synonym u16 = "16 word"
type_synonym u32 = "32 word"
type_synonym u64 = "64 word"
type_synonym bytes = "8 word list"
type_synonym gotime = int
type_synonym duration = int

section \<open>Strings and byte slices\<close>

definition byte_of_char :: "char \<Rightarrow> u8" where
  "byte_of_char c = of_nat (of_char c)"

definition char_of_byte :: "u8 \<Rightarrow> char" where
  "char_of_byte b = char_of (unat b)"

definition bytes_of_string :: "string \<Rightarrow> bytes" where
  "bytes_of_string s = map byte_of_char s"

definition string_of_bytes :: "bytes \<Rightarrow> string" where
  "string_of_bytes bs = map char_of_byte bs"

lemma char_of_byte_of_char [simp]: "char_of_byte (byte_of_char c) = c"
  by (simp add: char_of_byte_def byte_of_char_def unat_of_nat)

lemma byte_of_char_of_byte [simp]: "byte_of_char (char_of_byte b) = b"
proof -
  have "unat b < 256" using unsigned_less [of b, where ?'a = nat] by simp
  then show ?thesis
    by (simp add: char_of_byte_def byte_of_char_def)
qed

lemma string_of_bytes_of_string [simp]: "string_of_bytes (bytes_of_string s) = s"
  by (simp add: string_of_bytes_def bytes_of_string_def o_def)

lemma bytes_of_string_of_bytes [simp]: "bytes_of_string (string_of_bytes bs) = bs"
  by (simp add: string_of_bytes_def bytes_of_string_def o_def)

lemma length_bytes_of_string [simp]: "length (bytes_of_string s) = length s"
  by (simp add: bytes_of_string_def)

lemma bytes_of_string_inject [simp]: "bytes_of_string s = bytes_of_string t \<longleftrightarrow> s = t"
  by (metis string_of_bytes_of_string)

lemma string_of_bytes_inject [simp]: "string_of_bytes s = string_of_bytes t \<longleftrightarrow> s = t"
  by (metis bytes_of_string_of_bytes)

section \<open>Prefix codes\<close>

text \<open>
  An encoding with a decoder that reads one value off the front and returns the rest. What is
  encoded one after the other can then be told apart.
\<close>

locale prefix_code =
  fixes enc :: "'a \<Rightarrow> bytes"
    and dec :: "bytes \<Rightarrow> ('a \<times> bytes) option"
    and ok :: "'a \<Rightarrow> bool"
  assumes dec_enc: "ok x \<Longrightarrow> dec (enc x @ rest) = Some (x, rest)"
begin

lemma enc_append_inject:
  assumes "ok x" and "ok y" and eq: "enc x @ s = enc y @ t"
  shows "x = y \<and> s = t"
proof -
  have "Some (x, s) = dec (enc y @ t)"
    using dec_enc [OF assms(1), of s] by (simp only: eq)
  also have "\<dots> = Some (y, t)"
    by (rule dec_enc [OF assms(2)])
  finally show ?thesis by simp
qed

lemma enc_inject: "ok x \<Longrightarrow> ok y \<Longrightarrow> enc x = enc y \<Longrightarrow> x = y"
  using enc_append_inject [of x y "[]" "[]"] by simp

lemma concat_enc_inject:
  assumes "length xs = length ys" and "list_all ok xs" and "list_all ok ys"
    and "concat (map enc xs) @ s = concat (map enc ys) @ t"
  shows "xs = ys \<and> s = t"
  using assms
proof (induction xs ys rule: list_induct2)
  case Nil
  then show ?case by simp
next
  case (Cons x xs y ys)
  from Cons.prems have "x = y \<and> concat (map enc xs) @ s = concat (map enc ys) @ t"
    using enc_append_inject [of x y] by simp
  with Cons.prems Cons.IH show ?case by simp
qed

end

section \<open>State machines\<close>

text \<open>A step function and an invariant every step keeps, for the commands the callers build.\<close>

locale state_machine =
  fixes step :: "'s \<Rightarrow> 'c \<Rightarrow> 's \<times> 'r"
    and inv :: "'s \<Rightarrow> bool"
    and allowed :: "'c \<Rightarrow> bool"
  assumes step_inv: "inv s \<Longrightarrow> allowed c \<Longrightarrow> inv (fst (step s c))"
begin

primrec run :: "'s \<Rightarrow> 'c list \<Rightarrow> 's" where
  "run s [] = s"
| "run s (c # cs) = run (fst (step s c)) cs"

lemma run_inv: "inv s \<Longrightarrow> list_all allowed cs \<Longrightarrow> inv (run s cs)"
  by (induction cs arbitrary: s) (auto intro: step_inv)

lemma run_append: "run s (cs @ ds) = run (run s cs) ds"
  by (induction cs arbitrary: s) auto

end

section \<open>encoding/binary\<close>

subsection \<open>Unsigned varints\<close>

text \<open>
  \<open>binary.AppendUvarint\<close>: seven bits per byte, least significant first, the top bit set on every
  byte but the last. The argument is a natural number; the callers pass a value below \<open>2^64\<close>.
\<close>

fun put_uvarint :: "nat \<Rightarrow> bytes" where
  "put_uvarint x =
     (if x < 128 then [of_nat x] else of_nat (x mod 128 + 128) # put_uvarint (x div 128))"

declare put_uvarint.simps [simp del]

fun get_uvarint :: "bytes \<Rightarrow> (nat \<times> bytes) option" where
  "get_uvarint [] = None"
| "get_uvarint (b # bs) =
     (if unat b < 128 then Some (unat b, bs)
      else case get_uvarint bs of
             None \<Rightarrow> None
           | Some (n, r) \<Rightarrow> Some (unat b - 128 + 128 * n, r))"

lemma unat_of_nat_len: "n < 2 ^ LENGTH('a) \<Longrightarrow> unat (of_nat n :: 'a::len word) = n"
  by (simp add: unat_of_nat)

lemma unat_of_nat_byte: "n < 256 \<Longrightarrow> unat (of_nat n :: u8) = n"
  by (simp add: unat_of_nat)

lemma get_put_uvarint [simp, codec_simps]: "get_uvarint (put_uvarint x @ rest) = Some (x, rest)"
proof (induction x arbitrary: rest rule: put_uvarint.induct)
  case (1 x)
  show ?case
  proof (cases "x < 128")
    case True
    then show ?thesis by (simp add: put_uvarint.simps [of x] unat_of_nat_byte)
  next
    case False
    have "x mod 128 + 128 < 256" by simp
    then have "unat (of_nat (x mod 128 + 128) :: u8) = x mod 128 + 128"
      by (rule unat_of_nat_byte)
    with False "1.IH" show ?thesis
      by (simp add: put_uvarint.simps [of x] del: of_nat_add)
  qed
qed

lemma put_uvarint_not_Nil [simp]: "put_uvarint x \<noteq> []"
  by (subst put_uvarint.simps) simp

lemma length_put_uvarint_pos [simp]: "0 < length (put_uvarint x)"
  by simp

interpretation uvarint: prefix_code put_uvarint get_uvarint "\<lambda>_. True"
  by unfold_locales simp

subsection \<open>Length-prefixed byte strings\<close>

definition put_part :: "string \<Rightarrow> bytes" where
  "put_part s = put_uvarint (length s) @ bytes_of_string s"

definition get_part :: "bytes \<Rightarrow> (string \<times> bytes) option" where
  "get_part bs =
     (case get_uvarint bs of
        None \<Rightarrow> None
      | Some (n, r) \<Rightarrow>
          if length r < n then None else Some (string_of_bytes (take n r), drop n r))"

interpretation part: prefix_code put_part get_part "\<lambda>_. True"
  by unfold_locales (simp add: put_part_def get_part_def)

subsection \<open>Big-endian integers\<close>

primrec be_put :: "nat \<Rightarrow> nat \<Rightarrow> bytes" where
  "be_put 0 x = []"
| "be_put (Suc n) x = be_put n (x div 256) @ [of_nat (x mod 256)]"

definition be_get :: "bytes \<Rightarrow> nat" where
  "be_get bs = foldl (\<lambda>a b. 256 * a + unat b) 0 bs"

lemma length_be_put [simp]: "length (be_put n x) = n"
  by (induction n arbitrary: x) simp_all

lemma be_get_be_put: "be_get (be_put n x) = x mod 256 ^ n"
proof (induction n arbitrary: x)
  case 0
  then show ?case by (simp add: be_get_def)
next
  case (Suc n)
  have "be_get (be_put (Suc n) x) = 256 * be_get (be_put n (x div 256)) + x mod 256"
    by (simp add: be_get_def unat_of_nat_byte)
  also have "\<dots> = 256 * (x div 256 mod 256 ^ n) + x mod 256"
    by (simp add: Suc)
  also have "\<dots> = x mod 256 ^ Suc n"
    by (simp add: mod_mult2_eq)
  finally show ?case .
qed

definition put_u16 :: "u16 \<Rightarrow> bytes" where "put_u16 w = be_put 2 (unat w)"
definition put_u32 :: "u32 \<Rightarrow> bytes" where "put_u32 w = be_put 4 (unat w)"
definition put_u64 :: "u64 \<Rightarrow> bytes" where "put_u64 w = be_put 8 (unat w)"
definition get_u16 :: "bytes \<Rightarrow> u16" where "get_u16 bs = of_nat (be_get bs)"
definition get_u32 :: "bytes \<Rightarrow> u32" where "get_u32 bs = of_nat (be_get bs)"
definition get_u64 :: "bytes \<Rightarrow> u64" where "get_u64 bs = of_nat (be_get bs)"

lemma length_put_uint [simp]:
  "length (put_u16 a) = 2" "length (put_u32 b) = 4" "length (put_u64 c) = 8"
  by (simp_all add: put_u16_def put_u32_def put_u64_def)

lemma get_put_u16 [simp, codec_simps]: "get_u16 (put_u16 w) = w"
  using unsigned_less [of w, where ?'a = nat] by (simp add: get_u16_def put_u16_def be_get_be_put)

lemma get_put_u32 [simp, codec_simps]: "get_u32 (put_u32 w) = w"
  using unsigned_less [of w, where ?'a = nat] by (simp add: get_u32_def put_u32_def be_get_be_put)

lemma get_put_u64 [simp, codec_simps]: "get_u64 (put_u64 w) = w"
  using unsigned_less [of w, where ?'a = nat] by (simp add: get_u64_def put_u64_def be_get_be_put)

section \<open>Sums over finite maps\<close>

definition fmsum :: "('k \<Rightarrow> 'v \<Rightarrow> 'a::comm_monoid_add) \<Rightarrow> ('k, 'v) fmap \<Rightarrow> 'a" where
  "fmsum f m = (\<Sum>k\<in>fset (fmdom m). f k (the (fmlookup m k)))"

lemma fmsum_empty [simp, fmsum_simps]: "fmsum f fmempty = 0"
  by (simp add: fmsum_def)

lemma in_fset_fmdom [simp]: "k \<in> fset (fmdom m) \<longleftrightarrow> fmlookup m k \<noteq> None"
  by (simp add: fmlookup_dom_iff)

lemma fmsum_fresh [fmsum_simps]:
  assumes "fmlookup m k = None"
  shows "fmsum f (fmupd k v m) = f k v + fmsum f m"
proof -
  have "(\<Sum>j\<in>fset (fmdom m). f j (the (fmlookup (fmupd k v m) j)))
        = (\<Sum>j\<in>fset (fmdom m). f j (the (fmlookup m j)))"
    by (rule sum.cong) (use assms in auto)
  with assms show ?thesis by (simp add: fmsum_def)
qed

lemma fmsum_split:
  assumes "fmlookup m k = Some v"
  shows "fmsum f m = f k v + fmsum f (fmdrop k m)"
proof -
  have "fmsum f m = f k (the (fmlookup m k)) +
      (\<Sum>j\<in>fset (fmdom m) - {k}. f j (the (fmlookup m j)))"
    unfolding fmsum_def by (rule sum.remove) (use assms in auto)
  moreover have "(\<Sum>j\<in>fset (fmdom m) - {k}. f j (the (fmlookup m j))) = fmsum f (fmdrop k m)"
    unfolding fmsum_def by (rule sum.cong) auto
  ultimately show ?thesis using assms by simp
qed

lemma fmsum_drop [fmsum_simps]:
  fixes f :: "'k \<Rightarrow> 'v \<Rightarrow> 'a::ab_group_add"
  assumes "fmlookup m k = Some v"
  shows "fmsum f (fmdrop k m) = fmsum f m - f k v"
  by (simp add: fmsum_split [OF assms])

lemma fmdrop_fmupd_id: "fmlookup m k = Some v \<Longrightarrow> fmdrop k (fmupd k w m) = fmdrop k m"
  by (rule fmap_ext) simp

lemma fmsum_upd [fmsum_simps]:
  fixes f :: "'k \<Rightarrow> 'v \<Rightarrow> 'a::ab_group_add"
  assumes "fmlookup m k = Some v"
  shows "fmsum f (fmupd k w m) = fmsum f m - f k v + f k w"
  using fmsum_split [of "fmupd k w m" k w f] assms
  by (simp add: fmsum_split [OF assms] fmdrop_fmupd_id)

lemma fmsum_cong:
  "(\<And>k v. fmlookup m k = Some v \<Longrightarrow> f k v = g k v) \<Longrightarrow> fmsum f m = fmsum g m"
  unfolding fmsum_def by (rule sum.cong) auto

section \<open>Lists\<close>

lemma distinct_submset:
  assumes "distinct ys" and "mset xs \<subseteq># mset ys"
  shows "distinct xs"
proof -
  from assms(2) obtain zs where "mset ys = mset (xs @ zs)"
    by (metis ex_mset mset_append subset_mset.le_iff_add)
  then have "distinct (xs @ zs)" using assms(1) mset_eq_imp_distinct_iff by blast
  then show ?thesis by simp
qed

section \<open>The container library's Range and Sort\<close>

text \<open>
  The program keeps its maps and lists in \<open>github.com/arcgolabs/collectionx\<close>, which is not part of
  the repository. A map there is a finite map; the order in which its \<open>Range\<close> visits the entries is
  not specified, so it is a parameter \<open>rng\<close> of the definitions that iterate, and \<open>enumerates rng\<close>
  says that an iteration visits each entry once. In the same way \<open>srt\<close> is the library's \<open>Sort\<close>
  and \<open>sorts srt\<close> says that it permutes its argument into the order of the comparison it is given,
  with no promise on ties.
\<close>

definition enumerates :: "(('k, 'v) fmap \<Rightarrow> ('k \<times> 'v) list) \<Rightarrow> bool" where
  "enumerates rng \<longleftrightarrow>
     (\<forall>m. distinct (map fst (rng m)) \<and> set (rng m) = {(k, v). fmlookup m k = Some v})"

definition total_cmp :: "('a \<Rightarrow> 'a \<Rightarrow> int) \<Rightarrow> bool" where
  "total_cmp cmp \<longleftrightarrow>
     (\<forall>x y. cmp x y \<le> 0 \<or> cmp y x \<le> 0) \<and>
     (\<forall>x y z. cmp x y \<le> 0 \<longrightarrow> cmp y z \<le> 0 \<longrightarrow> cmp x z \<le> 0)"

definition sorts :: "(('a \<Rightarrow> 'a \<Rightarrow> int) \<Rightarrow> 'a list \<Rightarrow> 'a list) \<Rightarrow> bool" where
  "sorts srt \<longleftrightarrow>
     (\<forall>cmp xs. total_cmp cmp \<longrightarrow>
        mset (srt cmp xs) = mset xs \<and> sorted_wrt (\<lambda>x y. cmp x y \<le> 0) (srt cmp xs))"

lemma enumeratesD:
  assumes "enumerates rng"
  shows "distinct (map fst (rng m))" and "set (rng m) = {(k, v). fmlookup m k = Some v}"
  using assms by (auto simp: enumerates_def)

lemma enumerates_mem: "enumerates rng \<Longrightarrow> (k, v) \<in> set (rng m) \<longleftrightarrow> fmlookup m k = Some v"
  by (simp add: enumeratesD)

lemma sortsD:
  assumes "sorts srt" and "total_cmp cmp"
  shows "mset (srt cmp xs) = mset xs" and "set (srt cmp xs) = set xs"
    and "sorted_wrt (\<lambda>x y. cmp x y \<le> 0) (srt cmp xs)"
proof -
  show m: "mset (srt cmp xs) = mset xs" using assms by (simp add: sorts_def)
  show "set (srt cmp xs) = set xs" by (rule mset_eq_setD [OF m])
  show "sorted_wrt (\<lambda>x y. cmp x y \<le> 0) (srt cmp xs)" using assms by (simp add: sorts_def)
qed

text \<open>An iteration order and a sort that satisfy the two, to evaluate concrete runs with.\<close>

lemma enumerates_sorted_list_of_fmap: "enumerates sorted_list_of_fmap"
  unfolding enumerates_def
proof
  fix m :: "('a::linorder, 'b) fmap"
  have "map fst (sorted_list_of_fmap m) = sorted_list_of_fset (fmdom m)"
    by (simp add: sorted_list_of_fmap_def o_def)
  moreover have "set (sorted_list_of_fmap m) = {(k, v). fmlookup m k = Some v}"
    by (auto simp: sorted_list_of_fmap_def)
  ultimately show "distinct (map fst (sorted_list_of_fmap m)) \<and>
      set (sorted_list_of_fmap m) = {(k, v). fmlookup m k = Some v}"
    by (simp add: sorted_list_of_fset.rep_eq)
qed

fun insert_by :: "('a \<Rightarrow> 'a \<Rightarrow> int) \<Rightarrow> 'a \<Rightarrow> 'a list \<Rightarrow> 'a list" where
  "insert_by cmp x [] = [x]"
| "insert_by cmp x (y # ys) = (if cmp x y \<le> 0 then x # y # ys else y # insert_by cmp x ys)"

fun sort_by :: "('a \<Rightarrow> 'a \<Rightarrow> int) \<Rightarrow> 'a list \<Rightarrow> 'a list" where
  "sort_by cmp [] = []"
| "sort_by cmp (x # xs) = insert_by cmp x (sort_by cmp xs)"

lemma mset_insert_by [simp]: "mset (insert_by cmp x xs) = add_mset x (mset xs)"
  by (induction xs) auto

lemma set_insert_by [simp]: "set (insert_by cmp x xs) = insert x (set xs)"
  by (induction xs) auto

lemma mset_sort_by [simp]: "mset (sort_by cmp xs) = mset xs"
  by (induction xs) auto

lemma sorted_insert_by:
  assumes "total_cmp cmp" and "sorted_wrt (\<lambda>x y. cmp x y \<le> 0) xs"
  shows "sorted_wrt (\<lambda>x y. cmp x y \<le> 0) (insert_by cmp x xs)"
  using assms(2)
proof (induction xs)
  case Nil
  then show ?case by simp
next
  case (Cons y ys)
  from assms(1) have tot: "cmp x y \<le> 0 \<or> cmp y x \<le> 0"
    and tr: "\<And>z. cmp x y \<le> 0 \<Longrightarrow> cmp y z \<le> 0 \<Longrightarrow> cmp x z \<le> 0"
    unfolding total_cmp_def by blast+
  from Cons tot tr show ?case by auto
qed

lemma sorts_sort_by: "sorts sort_by"
proof -
  have "sorted_wrt (\<lambda>x y. cmp x y \<le> 0) (sort_by cmp xs)" if "total_cmp cmp"
    for cmp :: "'a \<Rightarrow> 'a \<Rightarrow> int" and xs
    by (induction xs) (simp_all add: sorted_insert_by that)
  then show ?thesis by (simp add: sorts_def)
qed

end
