(* ===== verification/Frame.thy ===== *)
theory Frame
  imports Prelude
begin

text \<open>
  The TCP frame codec (\<open>protocol/frame.go\<close>). An \<open>io.Writer\<close> is a parameter: its state and its
  \<open>Write\<close> operation, which returns the number of bytes written and whether it failed. An
  \<open>io.Reader\<close> is the list of bytes it delivers before the end of the stream; \<open>io.ReadFull\<close> takes
  a fixed number of them or fails.
\<close>

definition Magic :: u32 where "Magic = 0x4e535041"
definition FrameVersion :: u8 where "FrameVersion = 1"
definition FixedHeaderSize :: nat where "FixedHeaderSize = 32"
definition DefaultMaxMetadataBytes :: u32 where "DefaultMaxMetadataBytes = 1048576"
definition DefaultMaxPayloadBytes :: u32 where "DefaultMaxPayloadBytes = 67108864"

datatype frame_error =
    ErrInvalidMagic
  | ErrUnsupportedVersion u8
  | ErrFrameTooLarge
  | ErrInvalidFrame
  | ErrReadHeader
  | ErrReadMetadata
  | ErrReadPayload
  | ErrWrite
  | ErrShortWrite

record Frame =
  fr_Flags :: u8
  fr_Op :: u16
  fr_RequestID :: u64
  fr_RouteEpoch :: u64
  fr_Metadata :: bytes
  fr_Payload :: bytes

record Codec =
  MaxMetadataBytes :: u32
  MaxPayloadBytes :: u32

definition NewCodec :: "(Codec \<Rightarrow> Codec) list \<Rightarrow> Codec" where
  "NewCodec opts =
     foldl (\<lambda>c opt. opt c)
       \<lparr>MaxMetadataBytes = DefaultMaxMetadataBytes, MaxPayloadBytes = DefaultMaxPayloadBytes\<rparr> opts"

definition WithMaxMetadataBytes :: "u32 \<Rightarrow> Codec \<Rightarrow> Codec" where
  "WithMaxMetadataBytes limit c = c\<lparr>MaxMetadataBytes := limit\<rparr>"

definition WithMaxPayloadBytes :: "u32 \<Rightarrow> Codec \<Rightarrow> Codec" where
  "WithMaxPayloadBytes limit c = c\<lparr>MaxPayloadBytes := limit\<rparr>"

definition limits :: "Codec \<Rightarrow> u32 \<times> u32" where
  "limits c =
     (if MaxMetadataBytes c = 0 then DefaultMaxMetadataBytes else MaxMetadataBytes c,
      if MaxPayloadBytes c = 0 then DefaultMaxPayloadBytes else MaxPayloadBytes c)"

definition validateLengths :: "Codec \<Rightarrow> u32 \<Rightarrow> u32 \<Rightarrow> frame_error option" where
  "validateLengths c metaLen payloadLen =
     (let (maxMetadataBytes, maxPayloadBytes) = limits c in
      if metaLen > maxMetadataBytes then Some ErrFrameTooLarge
      else if payloadLen > maxPayloadBytes then Some ErrFrameTooLarge
      else None)"

definition checkedLengths :: "nat \<Rightarrow> nat \<Rightarrow> frame_error + (u32 \<times> u32)" where
  "checkedLengths metaLen payloadLen =
     (if metaLen > 2 ^ 32 - 1 then Inl ErrFrameTooLarge
      else if payloadLen > 2 ^ 32 - 1 then Inl ErrFrameTooLarge
      else Inr (of_nat metaLen, of_nat payloadLen))"

type_synonym 'w writer = "'w \<Rightarrow> bytes \<Rightarrow> 'w \<times> nat \<times> bool"

definition writeFull :: "'w writer \<Rightarrow> 'w \<Rightarrow> bytes \<Rightarrow> 'w \<times> frame_error option" where
  "writeFull wr w p =
     (let (w', n, failed) = wr w p in
      if failed then (w', Some ErrWrite)
      else if n \<noteq> length p then (w', Some ErrShortWrite)
      else (w', None))"

definition frameHeader :: "Frame \<Rightarrow> u32 \<Rightarrow> u32 \<Rightarrow> bytes" where
  "frameHeader frame metaLen payloadLen =
     put_u32 Magic @ [FrameVersion] @ [fr_Flags frame] @ put_u16 (fr_Op frame) @
     put_u64 (fr_RequestID frame) @ put_u64 (fr_RouteEpoch frame) @
     put_u32 metaLen @ put_u32 payloadLen"

definition EncodeFrame :: "Codec \<Rightarrow> 'w writer \<Rightarrow> 'w \<Rightarrow> Frame \<Rightarrow> 'w \<times> frame_error option" where
  "EncodeFrame c wr w frame =
     (if fr_Op frame = 0 then (w, Some ErrInvalidFrame)
      else case checkedLengths (length (fr_Metadata frame)) (length (fr_Payload frame)) of
        Inl e \<Rightarrow> (w, Some e)
      | Inr (metaLen, payloadLen) \<Rightarrow>
          (case validateLengths c metaLen payloadLen of
             Some e \<Rightarrow> (w, Some e)
           | None \<Rightarrow>
               (case writeFull wr w (frameHeader frame metaLen payloadLen) of
                  (w1, Some e) \<Rightarrow> (w1, Some e)
                | (w1, None) \<Rightarrow>
                    (case (if length (fr_Metadata frame) > 0 then writeFull wr w1 (fr_Metadata frame)
                           else (w1, None)) of
                       (w2, Some e) \<Rightarrow> (w2, Some e)
                     | (w2, None) \<Rightarrow>
                         (if length (fr_Payload frame) > 0 then writeFull wr w2 (fr_Payload frame)
                          else (w2, None))))))"

definition ReadFull :: "nat \<Rightarrow> bytes \<Rightarrow> (bytes \<times> bytes) option" where
  "ReadFull n r = (if length r < n then None else Some (take n r, drop n r))"

definition readHeader :: "bytes \<Rightarrow> frame_error + (bytes \<times> bytes)" where
  "readHeader r =
     (case ReadFull FixedHeaderSize r of None \<Rightarrow> Inl ErrReadHeader | Some x \<Rightarrow> Inr x)"

definition readFrameBody :: "bytes \<Rightarrow> Frame \<Rightarrow> u32 \<Rightarrow> u32 \<Rightarrow> frame_error + (Frame \<times> bytes)" where
  "readFrameBody r frame metaLen payloadLen =
     (case (if metaLen > 0 then ReadFull (unat metaLen) r else Some ([], r)) of
        None \<Rightarrow> Inl ErrReadMetadata
      | Some (meta, r1) \<Rightarrow>
          (case (if payloadLen > 0 then ReadFull (unat payloadLen) r1 else Some ([], r1)) of
             None \<Rightarrow> Inl ErrReadPayload
           | Some (payload, r2) \<Rightarrow>
               Inr (frame\<lparr>fr_Metadata := meta, fr_Payload := payload\<rparr>, r2)))"

definition slice :: "bytes \<Rightarrow> nat \<Rightarrow> nat \<Rightarrow> bytes" where
  "slice bs i j = take (j - i) (drop i bs)"

definition DecodeFrame :: "Codec \<Rightarrow> bytes \<Rightarrow> frame_error + (Frame \<times> bytes)" where
  "DecodeFrame c r =
     (case readHeader r of
        Inl e \<Rightarrow> Inl e
      | Inr (header, r1) \<Rightarrow>
          if get_u32 (slice header 0 4) \<noteq> Magic then Inl ErrInvalidMagic
          else if header ! 4 \<noteq> FrameVersion then Inl (ErrUnsupportedVersion (header ! 4))
          else
            let metaLen = get_u32 (slice header 24 28);
                payloadLen = get_u32 (slice header 28 32)
            in case validateLengths c metaLen payloadLen of
                 Some e \<Rightarrow> Inl e
               | None \<Rightarrow>
                   let frame = \<lparr>fr_Flags = header ! 5, fr_Op = get_u16 (slice header 6 8),
                         fr_RequestID = get_u64 (slice header 8 16),
                         fr_RouteEpoch = get_u64 (slice header 16 24),
                         fr_Metadata = [], fr_Payload = []\<rparr>
                   in if fr_Op frame = 0 then Inl ErrInvalidFrame
                      else readFrameBody r1 frame metaLen payloadLen)"

text \<open>\<open>bytes.Buffer\<close>: a writer that appends what it is given and never fails.\<close>

definition buffer_write :: "bytes writer" where
  "buffer_write w p = (w @ p, length p, False)"

section \<open>Lemmas\<close>

text \<open>The frames a codec can carry, and the bytes of such a frame.\<close>

definition frame_ok :: "Codec \<Rightarrow> Frame \<Rightarrow> bool" where
  "frame_ok c f \<longleftrightarrow> fr_Op f \<noteq> 0 \<and>
     length (fr_Metadata f) \<le> unat (fst (limits c)) \<and> length (fr_Payload f) \<le> unat (snd (limits c))"

definition frame_bytes :: "Frame \<Rightarrow> bytes" where
  "frame_bytes f =
     frameHeader f (of_nat (length (fr_Metadata f))) (of_nat (length (fr_Payload f))) @
     fr_Metadata f @ fr_Payload f"

lemma length_frameHeader [simp]: "length (frameHeader f m p) = 32"
  by (simp add: frameHeader_def)

lemma header_fields:
  "slice (frameHeader f m p) 0 4 = put_u32 Magic"
  "frameHeader f m p ! 4 = FrameVersion"
  "frameHeader f m p ! 5 = fr_Flags f"
  "slice (frameHeader f m p) 6 8 = put_u16 (fr_Op f)"
  "slice (frameHeader f m p) 8 16 = put_u64 (fr_RequestID f)"
  "slice (frameHeader f m p) 16 24 = put_u64 (fr_RouteEpoch f)"
  "slice (frameHeader f m p) 24 28 = put_u32 m"
  "slice (frameHeader f m p) 28 32 = put_u32 p"
  by (simp_all add: frameHeader_def slice_def nth_append)

lemma unat_of_nat_le: "n \<le> unat (w :: u32) \<Longrightarrow> unat (of_nat n :: u32) = n"
  by (rule unat_of_nat_len) (meson le_less_trans unsigned_less)

lemma frame_ok_lengths:
  assumes "frame_ok c f"
  shows "validateLengths c (of_nat (length (fr_Metadata f))) (of_nat (length (fr_Payload f))) = None"
    and "unat (of_nat (length (fr_Metadata f)) :: u32) = length (fr_Metadata f)"
    and "unat (of_nat (length (fr_Payload f)) :: u32) = length (fr_Payload f)"
proof -
  have m: "length (fr_Metadata f) \<le> unat (fst (limits c))"
    and p: "length (fr_Payload f) \<le> unat (snd (limits c))"
    using assms by (simp_all add: frame_ok_def)
  show um: "unat (of_nat (length (fr_Metadata f)) :: u32) = length (fr_Metadata f)"
    using m by (rule unat_of_nat_le)
  show up: "unat (of_nat (length (fr_Payload f)) :: u32) = length (fr_Payload f)"
    using p by (rule unat_of_nat_le)
  show "validateLengths c (of_nat (length (fr_Metadata f))) (of_nat (length (fr_Payload f))) = None"
    using m p by (simp add: validateLengths_def split_beta word_less_nat_alt um up)
qed

lemma of_nat_pos_iff: "unat (of_nat n :: u32) = n \<Longrightarrow> 0 < (of_nat n :: u32) \<longleftrightarrow> 0 < n"
  by (simp add: word_less_nat_alt)

lemma readFrameBody_bytes:
  assumes "frame_ok c f"
  shows "readFrameBody (fr_Metadata f @ fr_Payload f @ rest) 
           \<lparr>fr_Flags = fr_Flags f, fr_Op = fr_Op f, fr_RequestID = fr_RequestID f,
             fr_RouteEpoch = fr_RouteEpoch f, fr_Metadata = [], fr_Payload = []\<rparr>
           (of_nat (length (fr_Metadata f))) (of_nat (length (fr_Payload f))) = Inr (f, rest)"
  using frame_ok_lengths(2,3) [OF assms]
  by (cases f) (simp add: readFrameBody_def ReadFull_def of_nat_pos_iff)

lemma DecodeFrame_bytes:
  assumes "frame_ok c f"
  shows "DecodeFrame c (frame_bytes f @ rest) = Inr (f, rest)"
proof -
  let ?m = "of_nat (length (fr_Metadata f)) :: u32" and ?p = "of_nat (length (fr_Payload f)) :: u32"
  have "readHeader (frame_bytes f @ rest) =
      Inr (frameHeader f ?m ?p, fr_Metadata f @ fr_Payload f @ rest)"
    by (simp add: readHeader_def ReadFull_def FixedHeaderSize_def frame_bytes_def)
  moreover have "fr_Op f \<noteq> 0" using assms by (simp add: frame_ok_def)
  ultimately show ?thesis
    using frame_ok_lengths(1) [OF assms] readFrameBody_bytes [OF assms, of rest]
    by (simp add: DecodeFrame_def header_fields)
qed

interpretation frame: prefix_code frame_bytes
    "\<lambda>r. case DecodeFrame c r of Inl e \<Rightarrow> None | Inr x \<Rightarrow> Some x" "frame_ok c" for c
  by unfold_locales (simp add: DecodeFrame_bytes)

lemma EncodeFrame_buffer:
  "EncodeFrame c buffer_write w f =
     (if frame_ok c f then (w @ frame_bytes f, None)
      else (w, Some (if fr_Op f = 0 then ErrInvalidFrame else ErrFrameTooLarge)))"
proof -
  have lim: "unat (fst (limits c)) < 2 ^ 32" "unat (snd (limits c)) < 2 ^ 32"
    using unsigned_less [where ?'a = nat, of "fst (limits c)"]
      unsigned_less [where ?'a = nat, of "snd (limits c)"] by simp_all
  show ?thesis
  proof (cases "frame_ok c f")
    case True
    then show ?thesis
      using lim frame_ok_lengths(1) [OF True]
      by (auto simp: EncodeFrame_def checkedLengths_def frame_ok_def writeFull_def buffer_write_def
          frame_bytes_def split: prod.splits)
  next
    case False
    have "validateLengths c (of_nat (length (fr_Metadata f))) (of_nat (length (fr_Payload f)))
        = Some ErrFrameTooLarge"
      if "fr_Op f \<noteq> 0" "length (fr_Metadata f) < 2 ^ 32" "length (fr_Payload f) < 2 ^ 32"
      using that False
      by (auto simp: frame_ok_def validateLengths_def split_beta word_less_nat_alt unat_of_nat_len)
    with False show ?thesis
      by (auto simp: EncodeFrame_def checkedLengths_def frame_ok_def)
  qed
qed

lemma ReadFull_length: "ReadFull n r = Some (x, r') \<Longrightarrow> length r' \<le> length r"
  by (auto simp: ReadFull_def split: if_splits)

lemma DecodeFrame_consumes:
  assumes "DecodeFrame c r = Inr (f, rest)"
  shows "length rest < length r"
proof -
  obtain header r1 where h: "readHeader r = Inr (header, r1)"
    using assms by (auto simp: DecodeFrame_def split: sum.splits prod.splits)
  then have "length r1 < length r"
    by (auto simp: readHeader_def ReadFull_def FixedHeaderSize_def split: option.splits if_splits)
  moreover obtain frame m p where "readFrameBody r1 frame m p = Inr (f, rest)"
    using assms h by (auto simp: DecodeFrame_def Let_def split: option.splits if_splits)
  then have "length rest \<le> length r1"
    by (auto simp: readFrameBody_def dest!: ReadFull_length split: option.splits if_splits)
  ultimately show ?thesis by simp
qed

lemma be_put_be_get: "length bs = n \<Longrightarrow> be_put n (be_get bs) = bs"
proof (induction n arbitrary: bs)
  case 0
  then show ?case by simp
next
  case (Suc n)
  then obtain xs b where bs: "bs = xs @ [b]" and n: "length xs = n"
    by (metis length_Suc_conv_rev)
  have "be_get bs = 256 * be_get xs + unat b" by (simp add: be_get_def bs)
  moreover have "unat b < 256" using unsigned_less [of b, where ?'a = nat] by simp
  ultimately show ?case using Suc.IH [OF n] by (simp add: bs)
qed

end
