(* ===== verification/Control_API.thy ===== *)
theory Control_API
  imports Prelude
begin

text \<open>
  The data the control plane exchanges (\<open>controlapi/types.go\<close>): nodes, catalog objects, routes,
  rebalance events and migration plans, with the number of virtual slots. A field \<open>F\<close> of a Go
  struct is a record field with a short prefix, so that structs sharing field names can be told
  apart. \<open>int64\<close> Unix times are integers.
\<close>

definition VSlotCount :: u32 where "VSlotCount = 65536"
definition VSlotMax :: u32 where "VSlotMax = VSlotCount - 1"

lemma VSlotMax_eq [simp]: "VSlotMax = 65535"
  by (simp add: VSlotMax_def VSlotCount_def)

record NodeBody =
  nd_NodeID :: string
  nd_Addr :: string
  nd_State :: string
  nd_LastSeenUnix :: int

record NamespaceBody =
  ns_Namespace :: string
  ns_Version :: u64
  ns_CreatedAtUnix :: int

record SpaceBody =
  sp_Namespace :: string
  sp_Space :: string
  sp_Version :: u64
  sp_CreatedAtUnix :: int

record EntityBody =
  en_Namespace :: string
  en_Space :: string
  en_Entity :: string
  en_CreatedAtUnix :: int

record RouteReplicaBody =
  rr_NodeID :: string
  rr_Addr :: string
  rr_Weight :: u32

record RouteBody =
  rt_Namespace :: string
  rt_Space :: string
  rt_VSlotStart :: u32
  rt_VSlotEnd :: u32
  rt_NodeID :: string
  rt_Addr :: string
  rt_Weight :: u32
  rt_Replicas :: "RouteReplicaBody list"

record RebalanceEventBody =
  ev_ID :: u64
  ev_Revision :: u64
  ev_Type :: string
  ev_Reason :: string
  ev_NodeID :: string
  ev_Addr :: string
  ev_State :: string
  ev_Namespace :: string
  ev_Space :: string
  ev_RouteCount :: nat
  ev_CreatedAtUnix :: int

record MigrationTaskBody =
  mt_PlanID :: u64
  mt_TaskID :: u64
  mt_Revision :: u64
  mt_Namespace :: string
  mt_Space :: string
  mt_VSlotStart :: u32
  mt_VSlotEnd :: u32
  mt_SourceNodeID :: string
  mt_SourceAddr :: string
  mt_TargetNodeID :: string
  mt_TargetAddr :: string
  mt_State :: string
  mt_CreatedAtUnix :: int
  mt_StartedAtUnix :: int
  mt_CutoverAtUnix :: int
  mt_FinishedAtUnix :: int
  mt_ImportedEntries :: u64
  mt_DeletedEntries :: u64
  mt_Attempts :: u64
  mt_NextRetryUnix :: int
  mt_Error :: string

record MigrationPlanBody =
  mp_ID :: u64
  mp_Revision :: u64
  mp_Reason :: string
  mp_State :: string
  mp_CreatedAtUnix :: int
  mp_Tasks :: "MigrationTaskBody list"


section \<open>Answers\<close>

record StateBody =
  sb_ClusterID :: string
  sb_Revision :: u64
  sb_Mode :: string

record SnapshotBody =
  cs_ClusterID :: string
  cs_Revision :: u64
  cs_Mode :: string
  cs_Namespaces :: "NamespaceBody list"
  cs_Spaces :: "SpaceBody list"
  cs_Entities :: "EntityBody list"
  cs_Nodes :: "NodeBody list"
  cs_Routes :: "RouteBody list"

record RebalanceEventsBody =
  res_Revision :: u64
  res_Events :: "RebalanceEventBody list"

record MigrationPlansBody =
  mps_Revision :: u64
  mps_Plans :: "MigrationPlanBody list"

record NodesBody =
  nds_Revision :: u64
  nds_Nodes :: "NodeBody list"

record NamespacesBody =
  nss_Revision :: u64
  nss_Namespaces :: "NamespaceBody list"

record SpacesBody =
  spl_Revision :: u64
  spl_Spaces :: "SpaceBody list"

record EntitiesBody =
  ens_Revision :: u64
  ens_Entities :: "EntityBody list"

record CreateNamespaceResponse =
  cn_Revision :: u64
  cn_Namespace :: NamespaceBody

record BumpNamespaceVersionResponse =
  bn_Revision :: u64
  bn_Namespace :: NamespaceBody

record CreateSpaceResponse =
  csp_Revision :: u64
  csp_Space :: SpaceBody

record BumpSpaceVersionResponse =
  bs_Revision :: u64
  bs_Space :: SpaceBody

record CreateEntityResponse =
  ce_Revision :: u64
  ce_Entity :: EntityBody

record RegisterNodeResponse =
  rn_Revision :: u64
  rn_Node :: NodeBody

record HeartbeatResponse =
  hb_Revision :: u64
  hb_Node :: NodeBody

record RemoveNodeResponse =
  rm_Revision :: u64
  rm_Node :: NodeBody

text \<open>Go zero values.\<close>

definition zeroNode :: NodeBody where
  "zeroNode = \<lparr>nd_NodeID = [], nd_Addr = [], nd_State = [], nd_LastSeenUnix = 0\<rparr>"

definition zeroNamespace :: NamespaceBody where
  "zeroNamespace = \<lparr>ns_Namespace = [], ns_Version = 0, ns_CreatedAtUnix = 0\<rparr>"

definition zeroSpace :: SpaceBody where
  "zeroSpace = \<lparr>sp_Namespace = [], sp_Space = [], sp_Version = 0, sp_CreatedAtUnix = 0\<rparr>"

definition zeroEntity :: EntityBody where
  "zeroEntity = \<lparr>en_Namespace = [], en_Space = [], en_Entity = [], en_CreatedAtUnix = 0\<rparr>"

definition zeroTask :: MigrationTaskBody where
  "zeroTask =
     \<lparr>mt_PlanID = 0, mt_TaskID = 0, mt_Revision = 0, mt_Namespace = [], mt_Space = [],
      mt_VSlotStart = 0, mt_VSlotEnd = 0, mt_SourceNodeID = [], mt_SourceAddr = [],
      mt_TargetNodeID = [], mt_TargetAddr = [], mt_State = [], mt_CreatedAtUnix = 0,
      mt_StartedAtUnix = 0, mt_CutoverAtUnix = 0, mt_FinishedAtUnix = 0, mt_ImportedEntries = 0,
      mt_DeletedEntries = 0, mt_Attempts = 0, mt_NextRetryUnix = 0, mt_Error = []\<rparr>"

end
