(* ===== verification/Routing.thy ===== *)
theory Routing
  imports Control_API
begin

unbundle bit_operations_syntax

text \<open>
  Key routing (\<open>routing/routing.go\<close>): the virtual slot of a key, the 64-bit FNV-1a hash of its
  length-prefixed parts, and the choice of a route for it.
\<close>

section \<open>hash/fnv\<close>

definition fnv_offset64 :: u64 where "fnv_offset64 = 14695981039346656037"
definition fnv_prime64 :: u64 where "fnv_prime64 = 1099511628211"

definition fnv_step :: "u64 \<Rightarrow> u8 \<Rightarrow> u64" where
  "fnv_step h b = (h XOR ucast b) * fnv_prime64"

definition fnv_write :: "u64 \<Rightarrow> bytes \<Rightarrow> u64" where
  "fnv_write h bs = foldl fnv_step h bs"

lemma fnv_write_append: "fnv_write (fnv_write h xs) ys = fnv_write h (xs @ ys)"
  by (simp add: fnv_write_def)

section \<open>Virtual slots\<close>

definition writeHashPart :: "u64 \<Rightarrow> string \<Rightarrow> u64" where
  "writeHashPart h value = fnv_write (fnv_write h (put_uvarint (length value))) (bytes_of_string value)"

definition VSlotFor :: "string \<Rightarrow> string \<Rightarrow> string \<Rightarrow> u32" where
  "VSlotFor namespace space key =
     (let h0 = fnv_offset64;
          h1 = writeHashPart h0 namespace;
          h2 = writeHashPart h1 space;
          h3 = writeHashPart h2 key
      in ucast (h3 mod ucast VSlotCount))"

lemma writeHashPart_part: "writeHashPart h v = fnv_write h (put_part v)"
  by (simp add: writeHashPart_def put_part_def fnv_write_append)

section \<open>Choosing a route\<close>

definition normalizedRange :: "RouteBody \<Rightarrow> u32 \<times> u32" where
  "normalizedRange route =
     (if rt_VSlotStart route = 0 \<and> rt_VSlotEnd route = 0 then (0, VSlotMax)
      else (rt_VSlotStart route, rt_VSlotEnd route))"

definition ContainsVSlot :: "RouteBody \<Rightarrow> u32 \<Rightarrow> bool" where
  "ContainsVSlot route vslot =
     (let (start, end) = normalizedRange route in vslot \<ge> start \<and> vslot \<le> end)"

datatype matchKind = noRoute | exactRoute | namespaceRoute | wildcardRoute

definition routeMatch :: "RouteBody \<Rightarrow> string \<Rightarrow> string \<Rightarrow> matchKind" where
  "routeMatch route namespace space =
     (if rt_Namespace route = namespace \<and> rt_Space route = space then exactRoute
      else if rt_Namespace route = namespace \<and> rt_Space route = '''' then namespaceRoute
      else if rt_Namespace route = '''' \<and> rt_Space route = '''' then wildcardRoute
      else noRoute)"

definition selectable :: "RouteBody \<Rightarrow> u32 \<Rightarrow> bool" where
  "selectable route vslot \<longleftrightarrow> rt_Addr route \<noteq> '''' \<and> ContainsVSlot route vslot"

record routeCandidates =
  namespaceMatch :: "RouteBody option"
  wildcard :: "RouteBody option"

definition addCandidate :: "routeCandidates \<Rightarrow> matchKind \<Rightarrow> RouteBody \<Rightarrow> routeCandidates" where
  "addCandidate c kind route =
     (case kind of
        namespaceRoute \<Rightarrow>
          if namespaceMatch c = None then c\<lparr>namespaceMatch := Some route\<rparr> else c
      | wildcardRoute \<Rightarrow> if wildcard c = None then c\<lparr>wildcard := Some route\<rparr> else c
      | exactRoute \<Rightarrow> c
      | noRoute \<Rightarrow> c)"

fun firstRoute :: "RouteBody option list \<Rightarrow> RouteBody option" where
  "firstRoute [] = None"
| "firstRoute (r # rs) = (if r \<noteq> None then r else firstRoute rs)"

fun selectLoop ::
  "u32 \<Rightarrow> string \<Rightarrow> string \<Rightarrow> routeCandidates \<Rightarrow> RouteBody list \<Rightarrow> RouteBody option" where
  "selectLoop vslot namespace space c [] = firstRoute [namespaceMatch c, wildcard c]"
| "selectLoop vslot namespace space c (route # routes) =
     (if \<not> selectable route vslot then selectLoop vslot namespace space c routes
      else if routeMatch route namespace space = exactRoute then Some route
      else selectLoop vslot namespace space
             (addCandidate c (routeMatch route namespace space) route) routes)"

definition Select :: "RouteBody list \<Rightarrow> string \<Rightarrow> string \<Rightarrow> string \<Rightarrow> RouteBody option" where
  "Select routes namespace space key =
     selectLoop (VSlotFor namespace space key) namespace space
       \<lparr>namespaceMatch = None, wildcard = None\<rparr> routes"

fun namespaceVersionLoop :: "NamespaceBody list \<Rightarrow> string \<Rightarrow> u64 option" where
  "namespaceVersionLoop [] namespace = None"
| "namespaceVersionLoop (item # items) namespace =
     (if ns_Namespace item = namespace then Some (ns_Version item)
      else namespaceVersionLoop items namespace)"

definition NamespaceVersion :: "NamespaceBody list \<Rightarrow> string \<Rightarrow> u64 option" where
  "NamespaceVersion namespaces namespace =
     (if namespaces = [] then Some 0 else namespaceVersionLoop namespaces namespace)"

fun spaceVersionLoop :: "SpaceBody list \<Rightarrow> string \<Rightarrow> string \<Rightarrow> u64 option" where
  "spaceVersionLoop [] namespace space = None"
| "spaceVersionLoop (item # items) namespace space =
     (if sp_Namespace item = namespace \<and> sp_Space item = space then Some (sp_Version item)
      else spaceVersionLoop items namespace space)"

definition SpaceVersion :: "SpaceBody list \<Rightarrow> string \<Rightarrow> string \<Rightarrow> u64 option" where
  "SpaceVersion spaces namespace space =
     (if spaces = [] then Some 0 else spaceVersionLoop spaces namespace space)"

section \<open>Lemmas\<close>

lemma unat_ucast_less: "unat x < 2 ^ 32 \<Longrightarrow> unat (ucast (x :: u64) :: u32) = unat x"
  by (simp add: unsigned_ucast_eq take_bit_nat_eq_self)

lemma unat_VSlotFor: "unat (VSlotFor namespace space key) < 65536"
proof -
  have *: "unat (h mod ucast VSlotCount :: u64) < 65536" for h
    by (simp add: VSlotCount_def unat_mod_distrib)
  have "unat (ucast (h mod ucast VSlotCount :: u64) :: u32) < 65536" for h
    using * [of h] by (subst unat_ucast_less) simp_all
  then show ?thesis by (simp add: VSlotFor_def Let_def)
qed

lemma VSlotFor_hash:
  "VSlotFor namespace space key =
     ucast (fnv_write fnv_offset64 (concat (map put_part [namespace, space, key]))
            mod ucast VSlotCount)"
  by (simp add: VSlotFor_def Let_def writeHashPart_part fnv_write_append)

lemma selectLoop_finds:
  "selectLoop vslot namespace space c routes =
     (case find (\<lambda>r. selectable r vslot \<and> routeMatch r namespace space = exactRoute) routes of
        Some r \<Rightarrow> Some r
      | None \<Rightarrow>
          firstRoute
            [firstRoute [namespaceMatch c, find (\<lambda>r. selectable r vslot \<and>
                routeMatch r namespace space = namespaceRoute) routes],
             firstRoute [wildcard c, find (\<lambda>r. selectable r vslot \<and>
                routeMatch r namespace space = wildcardRoute) routes]])"
proof (induction routes arbitrary: c)
  case Nil
  then show ?case by (cases "namespaceMatch c") (auto split: option.splits)
next
  case (Cons route routes)
  show ?case
  proof (cases "selectable route vslot \<and> routeMatch route namespace space \<noteq> exactRoute")
    case True
    then show ?thesis
      by (cases "routeMatch route namespace space"; cases "namespaceMatch c"; cases "wildcard c")
        (simp_all add: Cons.IH addCandidate_def split: option.splits)
  next
    case False
    then consider "\<not> selectable route vslot"
      | "selectable route vslot" "routeMatch route namespace space = exactRoute" by blast
    then show ?thesis by cases (simp_all add: Cons.IH split: option.splits)
  qed
qed

lemma Select_finds:
  "Select routes namespace space key =
     (let sel = (\<lambda>k. find (\<lambda>r. selectable r (VSlotFor namespace space key) \<and>
                              routeMatch r namespace space = k) routes)
      in firstRoute [sel exactRoute, sel namespaceRoute, sel wildcardRoute])"
  by (simp add: Select_def selectLoop_finds split: option.splits)

lemma firstRoute_Some: "firstRoute rs = Some r \<Longrightarrow> Some r \<in> set rs"
  by (induction rs) (auto split: if_splits)

lemma firstRoute_None: "firstRoute rs = None \<longleftrightarrow> set rs \<subseteq> {None}"
  by (induction rs) auto

lemma find_SomeD: "find P xs = Some x \<Longrightarrow> x \<in> set xs \<and> P x"
  by (induction xs) (auto split: if_splits)

end
