(* ===== verification/Properties_Wire.thy ===== *)
theory Properties_Wire
  imports Frame Routing
begin

text \<open>The properties of the frame codec and of route selection.\<close>

section \<open>Frames\<close>

lemma be_get_less: "be_get bs < 256 ^ length bs"
proof (induction bs rule: rev_induct)
  case (snoc b bs)
  have "unat b < 256" using unsigned_less [of b, where ?'a = nat] by simp
  moreover have "be_get bs + 1 \<le> 256 ^ length bs" using snoc by simp
  then have "256 * (be_get bs + 1) \<le> 256 * 256 ^ length bs" by (rule mult_le_mono2)
  ultimately show ?case by (simp add: be_get_def)
qed (simp add: be_get_def)

lemma put_get_words:
  "length bs = 2 \<Longrightarrow> put_u16 (get_u16 bs) = bs"
  "length bs = 4 \<Longrightarrow> put_u32 (get_u32 bs) = bs"
  "length bs = 8 \<Longrightarrow> put_u64 (get_u64 bs) = bs"
  using be_get_less [of bs] be_put_be_get [of bs]
  by (simp_all add: put_u16_def get_u16_def put_u32_def get_u32_def put_u64_def get_u64_def unat_of_nat_len)

lemma slice_append: "i \<le> j \<Longrightarrow> j \<le> k \<Longrightarrow> slice h i j @ slice h j k = slice h i k"
  using take_add [of "j - i" "k - j" "drop i h"] by (simp add: slice_def)

lemma slice_one: "i < length h \<Longrightarrow> [h ! i] = slice h i (Suc i)"
  by (simp add: slice_def take_Suc_conv_app_nth hd_drop_conv_nth take_Suc)

lemma header_slices:
  assumes "length h = 32"
  shows "h = slice h 0 4 @ [h ! 4] @ [h ! 5] @ slice h 6 8 @ slice h 8 16 @ slice h 16 24 @
    slice h 24 28 @ slice h 28 32"
proof -
  have "[h ! 4] = slice h 4 5" "[h ! 5] = slice h 5 6" using assms slice_one [of 4 h] slice_one [of 5 h] by simp_all
  moreover have "slice h 0 32 = h" using assms by (simp add: slice_def)
  ultimately show ?thesis by (simp add: slice_append)
qed

fun decodeFrames :: "Codec \<Rightarrow> nat \<Rightarrow> bytes \<Rightarrow> frame_error + Frame list \<times> bytes" where
  "decodeFrames c 0 r = Inr ([], r)"
| "decodeFrames c (Suc n) r =
     (case DecodeFrame c r of
        Inl e \<Rightarrow> Inl e
      | Inr (f, r) \<Rightarrow> (case decodeFrames c n r of Inl e \<Rightarrow> Inl e | Inr (fs, r) \<Rightarrow> Inr (f # fs, r)))"

lemma encode_stream:
  "list_all (frame_ok c) fs \<Longrightarrow>
     foldl (\<lambda>w f. fst (EncodeFrame c buffer_write w f)) w fs = w @ concat (map frame_bytes fs)"
  by (induction fs arbitrary: w) (simp_all add: EncodeFrame_buffer)

text \<open>
  C33: frames written one after the other to a buffer are read back one after the other, equal to those
  written, and what follows them in the stream is left untouched.
\<close>

theorem frame_stream_roundtrip:
  assumes "list_all (frame_ok c) fs"
  shows "decodeFrames c (length fs)
    (foldl (\<lambda>w f. fst (EncodeFrame c buffer_write w f)) [] fs @ rest) = Inr (fs, rest)"
proof -
  have "decodeFrames c (length fs) (concat (map frame_bytes fs) @ rest) = Inr (fs, rest)"
    using assms by (induction fs) (simp_all add: DecodeFrame_bytes)
  with encode_stream [OF assms, of "[]"] show ?thesis by simp
qed

definition sampleFrame :: "u16 \<Rightarrow> Frame" where
  "sampleFrame op = \<lparr>fr_Flags = 3, fr_Op = op, fr_RequestID = 7, fr_RouteEpoch = 9,
     fr_Metadata = [1, 2], fr_Payload = [5, 6, 7]\<rparr>"

lemma sampleFrame_ok: "op \<noteq> 0 \<Longrightarrow> frame_ok (NewCodec []) (sampleFrame op)"
  by (simp add: frame_ok_def sampleFrame_def limits_def NewCodec_def DefaultMaxMetadataBytes_def
      DefaultMaxPayloadBytes_def)

theorem frame_stream_roundtrip_witness:
  "decodeFrames (NewCodec []) 2
     (foldl (\<lambda>w f. fst (EncodeFrame (NewCodec []) buffer_write w f)) [] [sampleFrame 1, sampleFrame 2] @ [255]) =
   Inr ([sampleFrame 1, sampleFrame 2], [255])"
  using frame_stream_roundtrip [of "NewCodec []" "[sampleFrame 1, sampleFrame 2]" "[255]"]
  by (simp add: sampleFrame_ok numeral_2_eq_2)

text \<open>
  writing a frame to a buffer either appends exactly its bytes, when its operation is set and its
  parts are within the codec's limits, or writes nothing and reports an invalid or a too large frame.
\<close>

theorem encode_frame_total:
  "EncodeFrame c buffer_write w f =
     (if fr_Op f = 0 then (w, Some ErrInvalidFrame)
      else if length (fr_Metadata f) \<le> unat (fst (limits c)) \<and> length (fr_Payload f) \<le> unat (snd (limits c))
      then (w @ frame_bytes f, None)
      else (w, Some ErrFrameTooLarge))"
  by (auto simp: EncodeFrame_buffer frame_ok_def)

lemma readFrameBody_Inr:
  assumes "readFrameBody r frame m p = Inr (f, rest)"
  shows "r = fr_Metadata f @ fr_Payload f @ rest \<and> length (fr_Metadata f) = unat m \<and>
    length (fr_Payload f) = unat p \<and> fr_Flags f = fr_Flags frame \<and> fr_Op f = fr_Op frame \<and>
    fr_RequestID f = fr_RequestID frame \<and> fr_RouteEpoch f = fr_RouteEpoch frame"
  using assms
  by (auto simp: readFrameBody_def ReadFull_def word_gt_0 simp flip: drop_drop split: option.splits if_splits)

text \<open>
  The decoder accepts only canonical input: a frame it returns is within the limits, and the bytes
  it consumed are exactly the encoding of that frame, so no two byte strings decode to one frame.
\<close>

theorem decode_frame_canonical:
  assumes "DecodeFrame c r = Inr (f, rest)"
  shows "frame_ok c f \<and> r = frame_bytes f @ rest"
proof -
  define h where "h = take 32 r"
  define m where "m = get_u32 (slice h 24 28)"
  define p where "p = get_u32 (slice h 28 32)"
  have len: "length h = 32" and r: "r = h @ drop 32 r"
    and magic: "get_u32 (slice h 0 4) = Magic" "h ! 4 = FrameVersion"
    and val: "validateLengths c m p = None" and op: "get_u16 (slice h 6 8) \<noteq> 0"
    and body: "readFrameBody (drop 32 r) \<lparr>fr_Flags = h ! 5, fr_Op = get_u16 (slice h 6 8),
        fr_RequestID = get_u64 (slice h 8 16), fr_RouteEpoch = get_u64 (slice h 16 24),
        fr_Metadata = [], fr_Payload = []\<rparr> m p = Inr (f, rest)"
    using assms
    by (auto simp: DecodeFrame_def readHeader_def ReadFull_def FixedHeaderSize_def Let_def h_def m_def p_def
        split: sum.splits if_splits option.splits)
  note b = readFrameBody_Inr [OF body, simplified]
  have sl: "put_u32 (get_u32 (slice h 0 4)) = slice h 0 4" "put_u16 (get_u16 (slice h 6 8)) = slice h 6 8"
    "put_u64 (get_u64 (slice h 8 16)) = slice h 8 16" "put_u64 (get_u64 (slice h 16 24)) = slice h 16 24"
    "put_u32 m = slice h 24 28" "put_u32 p = slice h 28 32"
    unfolding m_def p_def using len by (auto intro!: put_get_words simp: slice_def)
  have "frameHeader f m p = h"
    using b magic sl header_slices [OF len] by (simp add: frameHeader_def)
  moreover have "of_nat (length (fr_Metadata f)) = m" "of_nat (length (fr_Payload f)) = p"
    using b by simp_all
  ultimately have "r = frame_bytes f @ rest" using r b by (simp add: frame_bytes_def)
  moreover have "frame_ok c f"
    using b op val by (auto simp: frame_ok_def validateLengths_def word_le_nat_alt not_less split: prod.splits if_splits)
  ultimately show ?thesis by blast
qed

theorem decode_frame_canonical_witness:
  "\<exists>r f. DecodeFrame (NewCodec []) r = Inr (f, [9]) \<and> r = frame_bytes f @ [9] \<and> frame_ok (NewCodec []) f"
proof -
  have "DecodeFrame (NewCodec []) (frame_bytes (sampleFrame 4) @ [9]) = Inr (sampleFrame 4, [9])"
    by (simp add: DecodeFrame_bytes sampleFrame_ok)
  from this decode_frame_canonical [OF this] show ?thesis by blast
qed

section \<open>Routes\<close>

fun specificity :: "matchKind \<Rightarrow> nat" where
  "specificity exactRoute = 3"
| "specificity namespaceRoute = 2"
| "specificity wildcardRoute = 1"
| "specificity noRoute = 0"

text \<open>
  C34: route selection picks a most specific route. The route it returns is one of the table, has an
  address, covers the key's virtual slot and matches the namespace and space; no route that does so
  matches more specifically, an exact match before one of the namespace before a wildcard. It returns
  none only if no route does so.
\<close>

theorem select_most_specific:
  "case Select routes namespace space key of
     None \<Rightarrow> \<forall>r \<in> set routes. selectable r (VSlotFor namespace space key) \<longrightarrow> routeMatch r namespace space = noRoute
   | Some r \<Rightarrow> r \<in> set routes \<and> selectable r (VSlotFor namespace space key) \<and> routeMatch r namespace space \<noteq> noRoute \<and>
       (\<forall>r' \<in> set routes. selectable r' (VSlotFor namespace space key) \<longrightarrow>
          specificity (routeMatch r' namespace space) \<le> specificity (routeMatch r namespace space))"
proof -
  let ?v = "VSlotFor namespace space key"
  define sel where "sel k = find (\<lambda>r. selectable r ?v \<and> routeMatch r namespace space = k) routes" for k
  have S: "Select routes namespace space key = firstRoute [sel exactRoute, sel namespaceRoute, sel wildcardRoute]"
    unfolding Select_finds sel_def Let_def ..
  have some: "r \<in> set routes \<and> selectable r ?v \<and> routeMatch r namespace space = k" if "sel k = Some r" for k r
    using find_SomeD [OF that [unfolded sel_def]] by simp
  have none: "\<not> (selectable r ?v \<and> routeMatch r namespace space = k)" if "sel k = None" "r \<in> set routes" for k r
    using that by (auto simp: sel_def find_None_iff)
  have kinds: "routeMatch r namespace space \<in> {exactRoute, namespaceRoute, wildcardRoute, noRoute}" for r
    by (cases "routeMatch r namespace space") simp_all
  show ?thesis
  proof (cases "sel exactRoute")
    case (Some r)
    have "specificity k \<le> 3" for k by (cases k) simp_all
    with Some some [OF Some] show ?thesis by (simp add: S)
  next
    case e: None
    show ?thesis
    proof (cases "sel namespaceRoute")
      case (Some r)
      with e some [OF Some] none [OF e] kinds show ?thesis by (fastforce simp: S)
    next
      case n: None
      show ?thesis
      proof (cases "sel wildcardRoute")
        case (Some r)
        with e n some [OF Some] none [OF e] none [OF n] kinds show ?thesis by (fastforce simp: S)
      next
        case None
        with e n none [OF e] none [OF n] none [OF None] kinds show ?thesis by (fastforce simp: S)
      qed
    qed
  qed
qed

definition sampleRoute :: "string \<Rightarrow> string \<Rightarrow> string \<Rightarrow> RouteBody" where
  "sampleRoute ns sp addr = \<lparr>rt_Namespace = ns, rt_Space = sp, rt_VSlotStart = 0, rt_VSlotEnd = 65535,
     rt_NodeID = ''n1'', rt_Addr = addr, rt_Weight = 1, rt_Replicas = []\<rparr>"

theorem select_most_specific_witness:
  "Select [sampleRoute '''' '''' ''a'', sampleRoute ''n'' ''s'' ''b'', sampleRoute ''n'' '''' ''c''] ''n'' ''s'' ''k'' =
     Some (sampleRoute ''n'' ''s'' ''b'') \<and> selectable (sampleRoute ''n'' ''s'' ''b'') (VSlotFor ''n'' ''s'' ''k'')"
proof -
  let ?rs = "[sampleRoute '''' '''' ''a'', sampleRoute ''n'' ''s'' ''b'', sampleRoute ''n'' '''' ''c'']"
  have s: "Select ?rs ''n'' ''s'' ''k'' = Some (sampleRoute ''n'' ''s'' ''b'')" by code_simp
  with select_most_specific [of ?rs "''n''" "''s''" "''k''"] show ?thesis by simp
qed

end
