(* ===== verification/Engine_Types.thy ===== *)
theory Engine_Types
  imports Prelude
begin

text \<open>
  The types of the storage engine (\<open>cache/engine/engine.go\<close>, \<open>primitive_types.go\<close>,
  \<open>snapshot_types.go\<close>, \<open>migration_types.go\<close>), and the entry helpers of \<open>entry.go\<close>: expiry,
  visibility, the physical key and the cost of an entry. A \<open>float64\<close> is its IEEE 754 bit pattern.
  A shard's \<open>commands\<close> channel is the list of the commands waiting in it; the reply channel of a
  command is the result of the handler.
\<close>

type_synonym float64 = "64 word"

datatype engine_error =
    ErrInvalidKey
  | ErrNotFound
  | ErrClosed
  | ErrNilContext
  | ErrSendFailed
  | ErrWaitFailed
  | ErrInvalidCounter
  | ErrCounterOverflow
  | ErrInvalidPrimitive string
  | ErrInvalidCollection string
  | ErrUnknownCommand

record Key =
  k_Namespace :: string
  k_Space :: string
  k_Entity :: string
  k_Key :: string

record SetOptions =
  so_TTL :: duration
  so_NamespaceVersion :: u64
  so_SpaceVersion :: u64
  so_ExpectedVersion :: u64

record GetOptions =
  go_NamespaceVersion :: u64
  go_SpaceVersion :: u64

record TouchOptions =
  to_TTL :: duration
  to_NamespaceVersion :: u64
  to_SpaceVersion :: u64
  to_ExpectedVersion :: u64

record AdjustOptions =
  ao_Delta :: int
  ao_InitialValue :: int
  ao_TTL :: duration
  ao_NamespaceVersion :: u64
  ao_SpaceVersion :: u64
  ao_ExpectedVersion :: u64

record EvictOptions =
  eo_Namespace :: string
  eo_Space :: string
  eo_TargetBytes :: u64
  eo_Exclude :: Key
  eo_ExcludeActive :: bool
  eo_Now :: gotime

record EvictResult =
  er_RequestedBytes :: u64
  er_FreedBytes :: u64
  er_EvictedObjects :: u64

record Record =
  r_Key :: Key
  r_Value :: bytes
  r_CostBytes :: u64
  r_Version :: u64
  r_NamespaceVersion :: u64
  r_SpaceVersion :: u64
  r_ExpireAt :: gotime
  r_CreatedAt :: gotime
  r_UpdatedAt :: gotime
  r_LastAccessAt :: gotime
  r_AccessCount :: u64

record ShardStats =
  ss_ID :: nat
  ss_Objects :: u64
  ss_MemoryBytes :: u64
  ss_Evictions :: u64
  ss_GetRequests :: u64
  ss_GetHits :: u64
  ss_GetMisses :: u64
  ss_GetExpired :: u64
  ss_TouchRequests :: u64
  ss_TouchHits :: u64
  ss_TouchMisses :: u64
  ss_QueueDepth :: nat

record SpaceStats =
  sps_Namespace :: string
  sps_Space :: string
  sps_Objects :: u64
  sps_MemoryBytes :: u64

record Stats =
  st_Objects :: u64
  st_MemoryBytes :: u64
  st_Evictions :: u64
  st_GetRequests :: u64
  st_GetHits :: u64
  st_GetMisses :: u64
  st_GetExpired :: u64
  st_TouchRequests :: u64
  st_TouchHits :: u64
  st_TouchMisses :: u64
  st_Shards :: "ShardStats list"
  st_Spaces :: "SpaceStats list"

record DeleteOptions =
  do_ExpectedVersion :: u64

datatype PrimitiveKind =
    PrimitiveCounterAdjust
  | PrimitiveMapSet | PrimitiveMapGet | PrimitiveMapDelete | PrimitiveMapGetAll
  | PrimitiveSetAdd | PrimitiveSetRemove | PrimitiveSetContains | PrimitiveSetMembers
  | PrimitiveScoredSetPut | PrimitiveScoredSetRemove | PrimitiveScoredSetRange
  | PrimitiveListPushFront | PrimitiveListPushBack | PrimitiveListPopFront
  | PrimitiveListPopBack | PrimitiveListRange
  | PrimitiveBitmapSetBit | PrimitiveBitmapGetBit | PrimitiveBitmapBitCount
  | PrimitiveHLLAdd | PrimitiveHLLCount | PrimitiveHLLMerge | PrimitiveHLLMembers
  | PrimitiveGeoAdd | PrimitiveGeoDist | PrimitiveGeoRadius
  | PrimitiveOther u8

record PrimitiveOptions =
  po_TTL :: duration
  po_NamespaceVersion :: u64
  po_SpaceVersion :: u64
  po_ExpectedVersion :: u64

record PrimitiveRequest =
  pr_Kind :: PrimitiveKind
  pr_Key :: Key
  pr_Options :: PrimitiveOptions
  pr_Field :: string
  pr_Member :: string
  pr_Value :: bytes
  pr_Delta :: int
  pr_InitialValue :: int
  pr_Score :: float64
  pr_MinScore :: float64
  pr_MaxScore :: float64
  pr_HasMinScore :: bool
  pr_HasMaxScore :: bool
  pr_Limit :: u64
  pr_Start :: int
  pr_Reverse :: bool

record MapField =
  mf_Field :: string
  mf_Value :: bytes

record ScoredMember =
  sm_Member :: string
  sm_Score :: float64

record GeoPoint =
  gp_Longitude :: float64
  gp_Latitude :: float64

record PrimitiveResult =
  ps_Record :: Record
  ps_Found :: bool
  ps_Applied :: bool
  ps_Value :: bytes
  ps_Bool :: bool
  ps_Count :: u64
  ps_Fields :: "MapField list"
  ps_Members :: "string list"
  ps_ScoredMembers :: "ScoredMember list"
  ps_Values :: "bytes list"

record WriteEstimate =
  we_Key :: Key
  we_Applied :: bool
  we_OldCostBytes :: u64
  we_NewCostBytes :: u64

record SnapshotEntry =
  sn_Key :: Key
  sn_Value :: bytes
  sn_Version :: u64
  sn_NamespaceVersion :: u64
  sn_SpaceVersion :: u64
  sn_ExpireAt :: gotime
  sn_CreatedAt :: gotime
  sn_UpdatedAt :: gotime
  sn_LastAccessAt :: gotime
  sn_AccessCount :: u64

record RangeOptions =
  ro_Namespace :: string
  ro_Space :: string
  ro_VSlotStart :: u32
  ro_VSlotEnd :: u32
  ro_Now :: gotime

record entry =
  e_key :: Key
  e_value :: bytes
  e_version :: u64
  e_namespaceVersion :: u64
  e_spaceVersion :: u64
  e_expireAt :: gotime
  e_createdAt :: gotime
  e_updatedAt :: gotime
  e_lastAccessAt :: gotime
  e_accessCount :: u64
  e_costBytes :: u64

type_synonym spaceKey = "string \<times> string"

record spaceUsage =
  su_objects :: u64
  su_memoryBytes :: u64

datatype commandKind =
    commandSet | commandGet | commandDelete | commandTouch | commandAdjust
  | commandAdjustEstimate | commandPrimitive | commandPrimitiveEstimate | commandStats
  | commandSnapshot | commandRestore | commandExport | commandImport | commandDeleteRange
  | commandSweep | commandEvict | commandOther u8

record shardCommand =
  c_kind :: commandKind
  c_physical :: string
  c_key :: Key
  c_value :: bytes
  c_setOpts :: SetOptions
  c_getOpts :: GetOptions
  c_touch :: TouchOptions
  c_adjust :: AdjustOptions
  c_primitive :: PrimitiveRequest
  c_deleteOpts :: DeleteOptions
  c_evict :: EvictOptions
  c_rangeOpts :: RangeOptions
  c_snapshot :: "SnapshotEntry list"
  c_now :: gotime

record shardResult =
  x_record :: Record
  x_found :: bool
  x_deleted :: bool
  x_touched :: bool
  x_primitive :: PrimitiveResult
  x_estimate :: WriteEstimate
  x_stats :: ShardStats
  x_spaces :: "(spaceKey, spaceUsage) fmap"
  x_snapshot :: "SnapshotEntry list"
  x_imported :: u64
  x_deletedRange :: u64
  x_swept :: u64
  x_evicted :: EvictResult
  x_err :: "engine_error option"

record shardWorker =
  sw_id :: nat
  commands :: "shardCommand list"
  entries :: "(string, entry) fmap"
  spaces :: "(spaceKey, spaceUsage) fmap"
  objects :: u64
  memoryBytes :: u64
  evictions :: u64
  gets :: u64
  getHits :: u64
  getMisses :: u64
  getExpired :: u64
  touches :: u64
  touchHits :: u64
  touchMisses :: u64

section \<open>Zero values\<close>

text \<open>The zero values Go gives the fields a composite literal leaves out.\<close>

definition zeroKey :: Key where
  "zeroKey = \<lparr>k_Namespace = '''', k_Space = '''', k_Entity = '''', k_Key = ''''\<rparr>"

definition zeroRecord :: Record where
  "zeroRecord = \<lparr>r_Key = zeroKey, r_Value = [], r_CostBytes = 0, r_Version = 0,
     r_NamespaceVersion = 0, r_SpaceVersion = 0, r_ExpireAt = 0, r_CreatedAt = 0,
     r_UpdatedAt = 0, r_LastAccessAt = 0, r_AccessCount = 0\<rparr>"

definition zeroPrimitiveOptions :: PrimitiveOptions where
  "zeroPrimitiveOptions = \<lparr>po_TTL = 0, po_NamespaceVersion = 0, po_SpaceVersion = 0,
     po_ExpectedVersion = 0\<rparr>"

definition zeroPrimitiveRequest :: PrimitiveRequest where
  "zeroPrimitiveRequest = \<lparr>pr_Kind = PrimitiveOther 0, pr_Key = zeroKey,
     pr_Options = zeroPrimitiveOptions, pr_Field = '''', pr_Member = '''', pr_Value = [],
     pr_Delta = 0, pr_InitialValue = 0, pr_Score = 0, pr_MinScore = 0, pr_MaxScore = 0,
     pr_HasMinScore = False, pr_HasMaxScore = False, pr_Limit = 0, pr_Start = 0,
     pr_Reverse = False\<rparr>"

definition zeroPrimitiveResult :: PrimitiveResult where
  "zeroPrimitiveResult = \<lparr>ps_Record = zeroRecord, ps_Found = False, ps_Applied = False,
     ps_Value = [], ps_Bool = False, ps_Count = 0, ps_Fields = [], ps_Members = [],
     ps_ScoredMembers = [], ps_Values = []\<rparr>"

definition zeroEstimate :: WriteEstimate where
  "zeroEstimate = \<lparr>we_Key = zeroKey, we_Applied = False, we_OldCostBytes = 0, we_NewCostBytes = 0\<rparr>"

definition zeroShardStats :: ShardStats where
  "zeroShardStats = \<lparr>ss_ID = 0, ss_Objects = 0, ss_MemoryBytes = 0, ss_Evictions = 0,
     ss_GetRequests = 0, ss_GetHits = 0, ss_GetMisses = 0, ss_GetExpired = 0,
     ss_TouchRequests = 0, ss_TouchHits = 0, ss_TouchMisses = 0, ss_QueueDepth = 0\<rparr>"

definition zeroEvictResult :: EvictResult where
  "zeroEvictResult = \<lparr>er_RequestedBytes = 0, er_FreedBytes = 0, er_EvictedObjects = 0\<rparr>"

definition zeroEvictOptions :: EvictOptions where
  "zeroEvictOptions = \<lparr>eo_Namespace = '''', eo_Space = '''', eo_TargetBytes = 0,
     eo_Exclude = zeroKey, eo_ExcludeActive = False, eo_Now = 0\<rparr>"

definition zeroRangeOptions :: RangeOptions where
  "zeroRangeOptions = \<lparr>ro_Namespace = '''', ro_Space = '''', ro_VSlotStart = 0, ro_VSlotEnd = 0,
     ro_Now = 0\<rparr>"

definition zeroSetOptions :: SetOptions where
  "zeroSetOptions = \<lparr>so_TTL = 0, so_NamespaceVersion = 0, so_SpaceVersion = 0,
     so_ExpectedVersion = 0\<rparr>"

definition zeroGetOptions :: GetOptions where
  "zeroGetOptions = \<lparr>go_NamespaceVersion = 0, go_SpaceVersion = 0\<rparr>"

definition zeroTouchOptions :: TouchOptions where
  "zeroTouchOptions = \<lparr>to_TTL = 0, to_NamespaceVersion = 0, to_SpaceVersion = 0,
     to_ExpectedVersion = 0\<rparr>"

definition zeroAdjustOptions :: AdjustOptions where
  "zeroAdjustOptions = \<lparr>ao_Delta = 0, ao_InitialValue = 0, ao_TTL = 0, ao_NamespaceVersion = 0,
     ao_SpaceVersion = 0, ao_ExpectedVersion = 0\<rparr>"

definition zeroUsage :: spaceUsage where
  "zeroUsage = \<lparr>su_objects = 0, su_memoryBytes = 0\<rparr>"

definition zeroCommand :: "commandKind \<Rightarrow> shardCommand" where
  "zeroCommand kind = \<lparr>c_kind = kind, c_physical = '''', c_key = zeroKey, c_value = [],
     c_setOpts = zeroSetOptions, c_getOpts = zeroGetOptions, c_touch = zeroTouchOptions,
     c_adjust = zeroAdjustOptions, c_primitive = zeroPrimitiveRequest,
     c_deleteOpts = \<lparr>do_ExpectedVersion = 0\<rparr>, c_evict = zeroEvictOptions,
     c_rangeOpts = zeroRangeOptions, c_snapshot = [], c_now = 0\<rparr>"

definition zeroResult :: shardResult where
  "zeroResult = \<lparr>x_record = zeroRecord, x_found = False, x_deleted = False, x_touched = False,
     x_primitive = zeroPrimitiveResult, x_estimate = zeroEstimate, x_stats = zeroShardStats,
     x_spaces = fmempty, x_snapshot = [], x_imported = 0, x_deletedRange = 0, x_swept = 0,
     x_evicted = zeroEvictResult, x_err = None\<rparr>"

section \<open>Entries\<close>

definition newEntry :: "shardCommand \<Rightarrow> gotime \<Rightarrow> u64 \<Rightarrow> entry" where
  "newEntry cmd expireAt cost =
     \<lparr>e_key = c_key cmd, e_value = c_value cmd, e_version = 1,
      e_namespaceVersion = so_NamespaceVersion (c_setOpts cmd),
      e_spaceVersion = so_SpaceVersion (c_setOpts cmd), e_expireAt = expireAt,
      e_createdAt = c_now cmd, e_updatedAt = c_now cmd, e_lastAccessAt = c_now cmd,
      e_accessCount = 1, e_costBytes = cost\<rparr>"

definition expired :: "entry \<Rightarrow> gotime \<Rightarrow> bool" where
  "expired e now \<longleftrightarrow> e_expireAt e \<noteq> 0 \<and> \<not> e_expireAt e > now"

definition visible :: "entry \<Rightarrow> GetOptions \<Rightarrow> bool" where
  "visible e opts \<longleftrightarrow>
     (if go_NamespaceVersion opts \<noteq> 0 \<and> e_namespaceVersion e \<noteq> go_NamespaceVersion opts then False
      else if go_SpaceVersion opts \<noteq> 0 \<and> e_spaceVersion e \<noteq> go_SpaceVersion opts then False
      else True)"

definition entryRecord :: "entry \<Rightarrow> Record" where
  "entryRecord e =
     \<lparr>r_Key = e_key e, r_Value = e_value e, r_CostBytes = e_costBytes e, r_Version = e_version e,
      r_NamespaceVersion = e_namespaceVersion e, r_SpaceVersion = e_spaceVersion e,
      r_ExpireAt = e_expireAt e, r_CreatedAt = e_createdAt e, r_UpdatedAt = e_updatedAt e,
      r_LastAccessAt = e_lastAccessAt e, r_AccessCount = e_accessCount e\<rparr>"

definition validateKey :: "Key \<Rightarrow> engine_error option" where
  "validateKey key =
     (if k_Namespace key = '''' \<or> k_Space key = '''' \<or> k_Key key = '''' then Some ErrInvalidKey
      else None)"

definition appendKeyPart :: "bytes \<Rightarrow> string \<Rightarrow> bytes" where
  "appendKeyPart raw part = raw @ put_uvarint (length part) @ bytes_of_string part"

definition physicalKey :: "Key \<Rightarrow> string" where
  "physicalKey key =
     (let raw0 = [];
          raw1 = appendKeyPart raw0 (k_Namespace key);
          raw2 = appendKeyPart raw1 (k_Space key);
          raw3 = appendKeyPart raw2 (k_Entity key);
          raw4 = appendKeyPart raw3 (k_Key key)
      in string_of_bytes raw4)"

definition spaceKeyOf :: "Key \<Rightarrow> spaceKey" where
  "spaceKeyOf key = (k_Namespace key, k_Space key)"

definition costOf :: "Key \<Rightarrow> bytes \<Rightarrow> u64" where
  "costOf key value =
     of_nat (length (k_Namespace key) + length (k_Space key) + length (k_Entity key) +
             length (k_Key key) + length value)"

definition EstimateCost :: "Key \<Rightarrow> bytes \<Rightarrow> u64" where
  "EstimateCost key value = costOf key value"

lemma physicalKey_parts:
  "physicalKey key =
     string_of_bytes (concat (map put_part [k_Namespace key, k_Space key, k_Entity key, k_Key key]))"
  by (simp add: physicalKey_def appendKeyPart_def put_part_def Let_def)

lemma physicalKey_inject: "physicalKey a = physicalKey b \<longleftrightarrow> a = b"
proof
  assume "physicalKey a = physicalKey b"
  then have "concat (map put_part [k_Namespace a, k_Space a, k_Entity a, k_Key a]) =
      concat (map put_part [k_Namespace b, k_Space b, k_Entity b, k_Key b])"
    by (simp add: physicalKey_parts del: list.map concat.simps)
  then have "[k_Namespace a, k_Space a, k_Entity a, k_Key a] =
      [k_Namespace b, k_Space b, k_Entity b, k_Key b]"
    using part.concat_enc_inject [of "[k_Namespace a, k_Space a, k_Entity a, k_Key a]"
        "[k_Namespace b, k_Space b, k_Entity b, k_Key b]" "[]" "[]"] by simp
  then show "a = b" by (cases a; cases b) simp
qed simp

lemma physicalKey_not_empty [simp]: "physicalKey key \<noteq> []"
  by (simp add: physicalKey_def appendKeyPart_def Let_def string_of_bytes_def)

end
