(* ===== verification/Shard.thy ===== *)
theory Shard
  imports Engine_Types
begin

text \<open>
  A shard worker's state and its set, get, delete and touch handlers (\<open>cache/engine/worker.go\<close>).
  A handler takes the shard and a command and returns the new shard and the result it sends back.
  An entry is a pointer in the shard's map, so a change of its fields is an update of the map at the
  physical key it was read from. The invariant \<open>shard_inv\<close> says that the entries are stored under
  their own physical keys with their true cost, and that the shard's counters and its usage per
  space are the sums over the entries; the sums are taken modulo \<open>2^64\<close>, as the counters are.
\<close>

section \<open>Accounting\<close>

definition usageOf :: "shardWorker \<Rightarrow> spaceKey \<Rightarrow> spaceUsage" where
  "usageOf s key = (case fmlookup (spaces s) key of None \<Rightarrow> zeroUsage | Some u \<Rightarrow> u)"

definition addSpaceUsage :: "shardWorker \<Rightarrow> spaceKey \<Rightarrow> u64 \<Rightarrow> u64 \<Rightarrow> shardWorker" where
  "addSpaceUsage s key objs mem =
     (let usage = usageOf s key;
          usage = usage\<lparr>su_objects := su_objects usage + objs\<rparr>;
          usage = usage\<lparr>su_memoryBytes := su_memoryBytes usage + mem\<rparr>
      in s\<lparr>spaces := fmupd key usage (spaces s)\<rparr>)"

definition subtractSpaceUsage :: "shardWorker \<Rightarrow> spaceKey \<Rightarrow> u64 \<Rightarrow> u64 \<Rightarrow> shardWorker" where
  "subtractSpaceUsage s key objs mem =
     (let usage = usageOf s key;
          usage = usage\<lparr>su_objects := su_objects usage - objs\<rparr>;
          usage = usage\<lparr>su_memoryBytes := su_memoryBytes usage - mem\<rparr>
      in if su_objects usage = 0 \<and> su_memoryBytes usage = 0
         then s\<lparr>spaces := fmdrop key (spaces s)\<rparr>
         else s\<lparr>spaces := fmupd key usage (spaces s)\<rparr>)"

definition deleteEntry :: "shardWorker \<Rightarrow> string \<Rightarrow> entry \<Rightarrow> shardWorker" where
  "deleteEntry s physical ent =
     (let s = s\<lparr>entries := fmdrop physical (entries s)\<rparr>;
          s = s\<lparr>objects := objects s - 1\<rparr>;
          s = s\<lparr>memoryBytes := memoryBytes s - e_costBytes ent\<rparr>
      in subtractSpaceUsage s (spaceKeyOf (e_key ent)) 1 (e_costBytes ent))"

definition replaceEntryCost :: "shardWorker \<Rightarrow> Key \<Rightarrow> u64 \<Rightarrow> u64 \<Rightarrow> shardWorker" where
  "replaceEntryCost s key oldCost cost =
     (if cost \<ge> oldCost then
        let delta = cost - oldCost;
            s = s\<lparr>memoryBytes := memoryBytes s + delta\<rparr>
        in addSpaceUsage s (spaceKeyOf key) 0 delta
      else
        let delta = oldCost - cost;
            s = s\<lparr>memoryBytes := memoryBytes s - delta\<rparr>
        in subtractSpaceUsage s (spaceKeyOf key) 0 delta)"

text \<open>The four statements that store a fresh entry, which several handlers share.\<close>

definition storeEntry :: "shardWorker \<Rightarrow> string \<Rightarrow> entry \<Rightarrow> shardWorker" where
  "storeEntry s physical ent =
     (let s = s\<lparr>entries := fmupd physical ent (entries s)\<rparr>;
          s = s\<lparr>objects := objects s + 1\<rparr>;
          s = s\<lparr>memoryBytes := memoryBytes s + e_costBytes ent\<rparr>
      in addSpaceUsage s (spaceKeyOf (e_key ent)) 1 (e_costBytes ent))"

section \<open>Handlers\<close>

definition replaceEntry ::
  "shardWorker \<Rightarrow> entry \<Rightarrow> shardCommand \<Rightarrow> gotime \<Rightarrow> u64 \<Rightarrow> shardWorker \<times> entry" where
  "replaceEntry s existing cmd expireAt cost =
     (let s = replaceEntryCost s (e_key existing) (e_costBytes existing) cost;
          ent = existing\<lparr>e_value := c_value cmd,
                  e_version := e_version existing + 1,
                  e_namespaceVersion := so_NamespaceVersion (c_setOpts cmd),
                  e_spaceVersion := so_SpaceVersion (c_setOpts cmd),
                  e_expireAt := expireAt,
                  e_updatedAt := c_now cmd,
                  e_lastAccessAt := c_now cmd,
                  e_accessCount := e_accessCount existing + 1,
                  e_costBytes := cost\<rparr>
      in (s\<lparr>entries := fmupd (c_physical cmd) ent (entries s)\<rparr>, ent))"

definition applySet :: "shardWorker \<Rightarrow> shardCommand \<Rightarrow> shardWorker \<times> shardResult" where
  "applySet s cmd =
     (if so_ExpectedVersion (c_setOpts cmd) > 0 \<and>
         (case fmlookup (entries s) (c_physical cmd) of
            Some existing \<Rightarrow> e_version existing \<noteq> so_ExpectedVersion (c_setOpts cmd)
          | None \<Rightarrow> True)
      then (s, zeroResult\<lparr>x_found := False\<rparr>)
      else
        let expireAt = (if so_TTL (c_setOpts cmd) > 0 then c_now cmd + so_TTL (c_setOpts cmd) else 0);
            cost = costOf (c_key cmd) (c_value cmd)
        in case fmlookup (entries s) (c_physical cmd) of
             Some existing \<Rightarrow>
               let (s, ent) = replaceEntry s existing cmd expireAt cost
               in (s, zeroResult\<lparr>x_record := entryRecord ent, x_found := True\<rparr>)
           | None \<Rightarrow>
               let ent = newEntry cmd expireAt cost
               in (storeEntry s (c_physical cmd) ent,
                   zeroResult\<lparr>x_record := entryRecord ent, x_found := True\<rparr>))"

definition applyGet :: "shardWorker \<Rightarrow> shardCommand \<Rightarrow> shardWorker \<times> shardResult" where
  "applyGet s cmd =
     (let s = s\<lparr>gets := gets s + 1\<rparr> in
      case fmlookup (entries s) (c_physical cmd) of
        None \<Rightarrow> (s\<lparr>getMisses := getMisses s + 1\<rparr>, zeroResult)
      | Some ent \<Rightarrow>
          if expired ent (c_now cmd) then
            let s = deleteEntry s (c_physical cmd) ent;
                s = s\<lparr>getExpired := getExpired s + 1\<rparr>
            in (s\<lparr>getMisses := getMisses s + 1\<rparr>, zeroResult)
          else if \<not> visible ent (c_getOpts cmd) then
            (s\<lparr>getMisses := getMisses s + 1\<rparr>, zeroResult)
          else
            let ent = ent\<lparr>e_lastAccessAt := c_now cmd, e_accessCount := e_accessCount ent + 1\<rparr>;
                s = s\<lparr>entries := fmupd (c_physical cmd) ent (entries s)\<rparr>
            in (s\<lparr>getHits := getHits s + 1\<rparr>,
                zeroResult\<lparr>x_record := entryRecord ent, x_found := True\<rparr>))"

definition applyDelete :: "shardWorker \<Rightarrow> shardCommand \<Rightarrow> shardWorker \<times> shardResult" where
  "applyDelete s cmd =
     (case fmlookup (entries s) (c_physical cmd) of
        None \<Rightarrow> (s, zeroResult)
      | Some ent \<Rightarrow>
          if do_ExpectedVersion (c_deleteOpts cmd) > 0 \<and>
             e_version ent \<noteq> do_ExpectedVersion (c_deleteOpts cmd)
          then (s, zeroResult\<lparr>x_found := False\<rparr>)
          else (deleteEntry s (c_physical cmd) ent, zeroResult\<lparr>x_deleted := True, x_found := True\<rparr>))"

definition applyTouch :: "shardWorker \<Rightarrow> shardCommand \<Rightarrow> shardWorker \<times> shardResult" where
  "applyTouch s cmd =
     (let s = s\<lparr>touches := touches s + 1\<rparr>; opts = c_touch cmd;
          miss = (\<lambda>s. (s\<lparr>touchMisses := touchMisses s + 1\<rparr>, zeroResult)) in
      case fmlookup (entries s) (c_physical cmd) of
        None \<Rightarrow> miss s
      | Some ent \<Rightarrow>
          if to_TTL opts < 0 then miss s
          else if expired ent (c_now cmd) then miss (deleteEntry s (c_physical cmd) ent)
          else if to_ExpectedVersion opts > 0 \<and> e_version ent \<noteq> to_ExpectedVersion opts then miss s
          else if \<not> visible ent \<lparr>go_NamespaceVersion = to_NamespaceVersion opts,
                                go_SpaceVersion = to_SpaceVersion opts\<rparr> then miss s
          else
            let ent = ent\<lparr>e_expireAt := (if to_TTL opts > 0 then c_now cmd + to_TTL opts else 0),
                         e_updatedAt := c_now cmd,
                         e_lastAccessAt := c_now cmd,
                         e_accessCount := e_accessCount ent + 1\<rparr>;
                s = s\<lparr>entries := fmupd (c_physical cmd) ent (entries s)\<rparr>
            in (s\<lparr>touchHits := touchHits s + 1\<rparr>, zeroResult\<lparr>x_touched := True\<rparr>))"

definition checkedUint64 :: "int \<Rightarrow> u64" where
  "checkedUint64 value = (if value < 0 then 0 else of_int value)"

section \<open>The invariant\<close>

definition wf_entry :: "string \<Rightarrow> entry \<Rightarrow> bool" where
  "wf_entry physical e \<longleftrightarrow>
     physical = physicalKey (e_key e) \<and> validateKey (e_key e) = None \<and>
     e_costBytes e = costOf (e_key e) (e_value e)"

definition wf_entries :: "(string, entry) fmap \<Rightarrow> bool" where
  "wf_entries m \<longleftrightarrow> (\<forall>k e. fmlookup m k = Some e \<longrightarrow> wf_entry k e)"

definition in_space :: "spaceKey \<Rightarrow> ('a::zero) \<Rightarrow> entry \<Rightarrow> 'a" where
  "in_space sk x e = (if spaceKeyOf (e_key e) = sk then x else 0)"

definition spaceObjects :: "(string, entry) fmap \<Rightarrow> spaceKey \<Rightarrow> u64" where
  "spaceObjects m sk = fmsum (\<lambda>_ e. in_space sk 1 e) m"

definition spaceBytes :: "(string, entry) fmap \<Rightarrow> spaceKey \<Rightarrow> u64" where
  "spaceBytes m sk = fmsum (\<lambda>_ e. in_space sk (e_costBytes e) e) m"

definition accounted :: "shardWorker \<Rightarrow> bool" where
  "accounted s \<longleftrightarrow>
     objects s = fmsum (\<lambda>_ _. 1) (entries s) \<and>
     memoryBytes s = fmsum (\<lambda>_ e. e_costBytes e) (entries s) \<and>
     (\<forall>sk. su_objects (usageOf s sk) = spaceObjects (entries s) sk \<and>
           su_memoryBytes (usageOf s sk) = spaceBytes (entries s) sk)"

definition shard_inv :: "shardWorker \<Rightarrow> bool" where
  "shard_inv s \<longleftrightarrow> wf_entries (entries s) \<and> accounted s"

lemmas shard_acc_defs = shard_inv_def accounted_def spaceObjects_def spaceBytes_def

lemma usageOf_add [simp]:
  "usageOf (addSpaceUsage s key objs mem) sk =
     (if sk = key
      then \<lparr>su_objects = su_objects (usageOf s key) + objs,
            su_memoryBytes = su_memoryBytes (usageOf s key) + mem\<rparr>
      else usageOf s sk)"
  by (simp add: addSpaceUsage_def usageOf_def Let_def)

lemma usageOf_subtract [simp]:
  "usageOf (subtractSpaceUsage s key objs mem) sk =
     (if sk = key
      then \<lparr>su_objects = su_objects (usageOf s key) - objs,
            su_memoryBytes = su_memoryBytes (usageOf s key) - mem\<rparr>
      else usageOf s sk)"
  by (auto simp: subtractSpaceUsage_def usageOf_def Let_def zeroUsage_def)

lemma space_frame [simp]:
  "entries (addSpaceUsage s key objs mem) = entries s"
  "objects (addSpaceUsage s key objs mem) = objects s"
  "memoryBytes (addSpaceUsage s key objs mem) = memoryBytes s"
  "entries (subtractSpaceUsage s key objs mem) = entries s"
  "objects (subtractSpaceUsage s key objs mem) = objects s"
  "memoryBytes (subtractSpaceUsage s key objs mem) = memoryBytes s"
  by (simp_all add: addSpaceUsage_def subtractSpaceUsage_def Let_def)

lemma usageOf_frame [simp]:
  "usageOf (s\<lparr>entries := m\<rparr>) = usageOf s" "usageOf (s\<lparr>objects := x\<rparr>) = usageOf s"
  "usageOf (s\<lparr>memoryBytes := x\<rparr>) = usageOf s"
  by (simp_all add: usageOf_def fun_eq_iff)

lemma entries_ops [simp]:
  "entries (deleteEntry s k e) = fmdrop k (entries s)"
  "entries (storeEntry s k e) = fmupd k e (entries s)"
  "entries (replaceEntryCost s key oldCost cost) = entries s"
  by (simp_all add: deleteEntry_def storeEntry_def replaceEntryCost_def Let_def)

lemma replaceEntryCost_eq:
  "memoryBytes (replaceEntryCost s key oldCost cost) = memoryBytes s - oldCost + cost"
  "objects (replaceEntryCost s key oldCost cost) = objects s"
  "usageOf (replaceEntryCost s key oldCost cost) sk =
     (if sk = spaceKeyOf key
      then \<lparr>su_objects = su_objects (usageOf s sk),
            su_memoryBytes = su_memoryBytes (usageOf s sk) - oldCost + cost\<rparr>
      else usageOf s sk)"
  by (simp_all add: replaceEntryCost_def Let_def)

lemma wf_entriesD: "wf_entries m \<Longrightarrow> fmlookup m k = Some e \<Longrightarrow> wf_entry k e"
  by (simp add: wf_entries_def)

lemma wf_entries_upd: "wf_entries m \<Longrightarrow> wf_entry k e \<Longrightarrow> wf_entries (fmupd k e m)"
  by (simp add: wf_entries_def)

lemma wf_entries_drop: "wf_entries m \<Longrightarrow> wf_entries (fmdrop k m)"
  by (simp add: wf_entries_def)

lemma storeEntry_inv:
  assumes "shard_inv s" and "fmlookup (entries s) k = None" and "wf_entry k e"
  shows "shard_inv (storeEntry s k e)"
  using assms
  by (simp add: shard_acc_defs wf_entries_upd storeEntry_def Let_def fmsum_simps in_space_def)

lemma deleteEntry_inv:
  assumes "shard_inv s" and "fmlookup (entries s) k = Some e"
  shows "shard_inv (deleteEntry s k e)"
  using assms
  by (simp add: shard_acc_defs wf_entries_drop deleteEntry_def Let_def fmsum_simps in_space_def)

text \<open>Replacing an entry by another with the same key, after the cost difference is accounted.\<close>

lemma rewriteEntry_inv:
  assumes "shard_inv s" and "fmlookup (entries s) k = Some e" and "wf_entry k e'"
    and "e_key e' = e_key e" and "e_costBytes e' = cost" and "spaceKeyOf key = spaceKeyOf (e_key e)"
  shows "shard_inv ((replaceEntryCost s key (e_costBytes e) cost)\<lparr>entries := fmupd k e' (entries s)\<rparr>)"
  using assms
  by (simp add: shard_acc_defs wf_entries_upd fmsum_simps in_space_def replaceEntryCost_eq)

text \<open>Changing an entry's bookkeeping only.\<close>

lemma touchEntry_inv:
  assumes "shard_inv s" and "fmlookup (entries s) k = Some e"
    and "e_key e' = e_key e" and "e_value e' = e_value e" and "e_costBytes e' = e_costBytes e"
  shows "shard_inv (s\<lparr>entries := fmupd k e' (entries s)\<rparr>)"
proof -
  have "wf_entry k e'"
    using assms wf_entriesD [of "entries s" k e] by (simp add: shard_inv_def wf_entry_def)
  with assms show ?thesis
    by (simp add: shard_acc_defs wf_entries_upd fmsum_simps in_space_def)
qed

lemma shard_inv_frame [simp]:
  "shard_inv (s\<lparr>gets := a\<rparr>) = shard_inv s" "shard_inv (s\<lparr>getHits := a\<rparr>) = shard_inv s"
  "shard_inv (s\<lparr>getMisses := a\<rparr>) = shard_inv s" "shard_inv (s\<lparr>getExpired := a\<rparr>) = shard_inv s"
  "shard_inv (s\<lparr>touches := a\<rparr>) = shard_inv s" "shard_inv (s\<lparr>touchHits := a\<rparr>) = shard_inv s"
  "shard_inv (s\<lparr>touchMisses := a\<rparr>) = shard_inv s" "shard_inv (s\<lparr>evictions := a\<rparr>) = shard_inv s"
  "shard_inv (s\<lparr>commands := cs\<rparr>) = shard_inv s"
  by (simp_all add: shard_inv_def accounted_def usageOf_def)

lemma spaceKeyOf_lookup:
  assumes "shard_inv s" and "fmlookup (entries s) (physicalKey key) = Some e"
  shows "e_key e = key"
  using assms wf_entriesD [of "entries s" "physicalKey key" e]
  by (simp add: shard_inv_def wf_entry_def physicalKey_inject)

section \<open>Every handler keeps it\<close>

lemma applySet_inv:
  assumes "shard_inv s" and "c_physical cmd = physicalKey (c_key cmd)"
    and "validateKey (c_key cmd) = None"
  shows "shard_inv (fst (applySet s cmd))"
proof (cases "fmlookup (entries s) (c_physical cmd)")
  case None
  have "wf_entry (c_physical cmd) (newEntry cmd t (costOf (c_key cmd) (c_value cmd)))" for t
    using assms by (simp add: wf_entry_def newEntry_def)
  with None assms show ?thesis by (simp add: applySet_def Let_def storeEntry_inv)
next
  case (Some e)
  then have "e_key e = c_key cmd" using assms spaceKeyOf_lookup [of s "c_key cmd" e] by simp
  with Some assms show ?thesis
    by (auto simp: applySet_def Let_def replaceEntry_def wf_entry_def intro!: rewriteEntry_inv)
qed

lemma applyGet_inv: "shard_inv s \<Longrightarrow> shard_inv (fst (applyGet s cmd))"
  by (auto simp: applyGet_def Let_def split: option.splits intro: deleteEntry_inv
      intro!: touchEntry_inv [where s = "s\<lparr>gets := x\<rparr>" for x, simplified])

lemma applyDelete_inv: "shard_inv s \<Longrightarrow> shard_inv (fst (applyDelete s cmd))"
  by (auto simp: applyDelete_def split: option.splits intro: deleteEntry_inv)

lemma applyTouch_inv: "shard_inv s \<Longrightarrow> shard_inv (fst (applyTouch s cmd))"
  by (auto simp: applyTouch_def Let_def split: option.splits intro: deleteEntry_inv
      intro!: touchEntry_inv [where s = "s\<lparr>touches := x\<rparr>" for x, simplified])

end
