(* ===== verification/GoStrings.thy ===== *)
theory GoStrings
  imports Prelude
begin

text \<open>
  What the program uses of \<open>strings\<close>, \<open>strconv\<close> and \<open>time\<close>: \<open>TrimSpace\<close> over the UTF-8 encodings of the
  Unicode white-space characters, \<open>ParseInt\<close> and \<open>FormatInt\<close> in base 10 with 64 bits. The round trip
  of the last two carries the counters of the engine.
\<close>

section \<open>strings.TrimSpace\<close>

definition utf8 :: "nat list \<Rightarrow> string" where
  "utf8 ns = map char_of ns"

definition space_encodings :: "string list" where
  "space_encodings =
     map utf8 ([[9], [10], [11], [12], [13], [32], [194, 133], [194, 160], [225, 154, 128]] @
       map (\<lambda>n. [226, 128, n]) [128..<139] @
       [[226, 128, 168], [226, 128, 169], [226, 128, 175], [226, 129, 159], [227, 128, 128]])"

lemma space_encodings_code [code]:
  "space_encodings =
     [[CHR 0x09],
      [CHR 0x0A],
      [CHR 0x0B],
      [CHR 0x0C],
      [CHR 0x0D],
      [CHR 0x20],
      [CHR 0xC2, CHR 0x85],
      [CHR 0xC2, CHR 0xA0],
      [CHR 0xE1, CHR 0x9A, CHR 0x80],
      [CHR 0xE2, CHR 0x80, CHR 0x80],
      [CHR 0xE2, CHR 0x80, CHR 0x81],
      [CHR 0xE2, CHR 0x80, CHR 0x82],
      [CHR 0xE2, CHR 0x80, CHR 0x83],
      [CHR 0xE2, CHR 0x80, CHR 0x84],
      [CHR 0xE2, CHR 0x80, CHR 0x85],
      [CHR 0xE2, CHR 0x80, CHR 0x86],
      [CHR 0xE2, CHR 0x80, CHR 0x87],
      [CHR 0xE2, CHR 0x80, CHR 0x88],
      [CHR 0xE2, CHR 0x80, CHR 0x89],
      [CHR 0xE2, CHR 0x80, CHR 0x8A],
      [CHR 0xE2, CHR 0x80, CHR 0xA8],
      [CHR 0xE2, CHR 0x80, CHR 0xA9],
      [CHR 0xE2, CHR 0x80, CHR 0xAF],
      [CHR 0xE2, CHR 0x81, CHR 0x9F],
      [CHR 0xE3, CHR 0x80, CHR 0x80]]"
  by (simp add: space_encodings_def utf8_def upt_rec char_of_def bit_0)

definition drop_prefix :: "string list \<Rightarrow> string \<Rightarrow> string option" where
  "drop_prefix ps s =
     (case filter (\<lambda>p. p \<noteq> [] \<and> take (length p) s = p) ps of
        [] \<Rightarrow> None
      | p # _ \<Rightarrow> Some (drop (length p) s))"

lemma drop_prefix_shorter: "drop_prefix ps s = Some t \<Longrightarrow> length t < length s"
proof -
  assume "drop_prefix ps s = Some t"
  then obtain p qs where "filter (\<lambda>p. p \<noteq> [] \<and> take (length p) s = p) ps = p # qs"
    and t: "t = drop (length p) s"
    by (auto simp: drop_prefix_def split: list.splits)
  then have "p \<in> set (filter (\<lambda>p. p \<noteq> [] \<and> take (length p) s = p) ps)" by simp
  then have "p \<noteq> []" and "take (length p) s = p" by auto
  then have "0 < length p" and "length p \<le> length s"
    by (auto simp: min_def dest: arg_cong [where f = length] split: if_splits)
  with t show ?thesis by (simp only: length_drop)
qed

function trim_left :: "string list \<Rightarrow> string \<Rightarrow> string" where
  "trim_left ps s = (case drop_prefix ps s of None \<Rightarrow> s | Some t \<Rightarrow> trim_left ps t)"
  by pat_completeness auto
termination
  by (relation "measure (\<lambda>(ps, s). length s)") (auto dest: drop_prefix_shorter)

declare trim_left.simps [simp del]

definition TrimSpace :: "string \<Rightarrow> string" where
  "TrimSpace s =
     rev (trim_left (map rev space_encodings) (rev (trim_left space_encodings s)))"

section \<open>strconv\<close>

definition is_digit :: "char \<Rightarrow> bool" where
  "is_digit c \<longleftrightarrow> 48 \<le> (of_char c :: nat) \<and> (of_char c :: nat) \<le> 57"

definition digit_val :: "char \<Rightarrow> nat" where
  "digit_val c = of_char c - 48"

definition digits_val :: "string \<Rightarrow> nat" where
  "digits_val ds = foldl (\<lambda>a c. 10 * a + digit_val c) 0 ds"

definition MaxInt64 :: int where "MaxInt64 = 2 ^ 63 - 1"
definition MinInt64 :: int where "MinInt64 = - (2 ^ 63)"

definition int64 :: "int \<Rightarrow> bool" where
  "int64 i \<longleftrightarrow> MinInt64 \<le> i \<and> i \<le> MaxInt64"

definition ParseInt :: "string \<Rightarrow> int option" where
  "ParseInt s =
     (let (neg, ds) =
        (case s of
           [] \<Rightarrow> (False, [])
         | c # cs \<Rightarrow> if c = CHR ''-'' then (True, cs) else if c = CHR ''+'' then (False, cs)
             else (False, s))
      in if ds = [] \<or> \<not> list_all is_digit ds then None
         else let v = (if neg then - int (digits_val ds) else int (digits_val ds))
              in if int64 v then Some v else None)"

fun nat_digits :: "nat \<Rightarrow> string" where
  "nat_digits n =
     (if n < 10 then [char_of (48 + n)] else nat_digits (n div 10) @ [char_of (48 + n mod 10)])"

declare nat_digits.simps [simp del]

definition FormatInt :: "int \<Rightarrow> string" where
  "FormatInt i = (if i < 0 then CHR ''-'' # nat_digits (nat (- i)) else nat_digits (nat i))"

section \<open>Lemmas\<close>

lemma nat_digits_not_Nil [simp]: "nat_digits n \<noteq> []"
  by (subst nat_digits.simps) simp

lemma digit_char: "n < 10 \<Longrightarrow> is_digit (char_of (48 + n :: nat))"
  "n < 10 \<Longrightarrow> digit_val (char_of (48 + n :: nat)) = n"
  by (simp_all add: is_digit_def digit_val_def)

lemma nat_digits_digits: "list_all is_digit (nat_digits n)"
proof (induction n rule: nat_digits.induct)
  case (1 n)
  then show ?case by (subst nat_digits.simps) (simp add: digit_char)
qed

lemma digits_val_nat_digits: "digits_val (nat_digits n) = n"
proof (induction n rule: nat_digits.induct)
  case (1 n)
  show ?case
  proof (cases "n < 10")
    case True
    then show ?thesis by (simp add: nat_digits.simps [of n] digits_val_def digit_char)
  next
    case False
    then have "digits_val (nat_digits n) = 10 * digits_val (nat_digits (n div 10)) + n mod 10"
      by (simp add: nat_digits.simps [of n] digits_val_def digit_char)
    with False 1 show ?thesis by simp
  qed
qed

lemma digit_not_sign: "is_digit c \<Longrightarrow> c \<noteq> CHR ''-'' \<and> c \<noteq> CHR ''+''"
  by (auto simp: is_digit_def)

lemma ParseInt_digits: "ds \<noteq> [] \<Longrightarrow> list_all is_digit ds \<Longrightarrow>
    ParseInt ds = (if int64 (int (digits_val ds)) then Some (int (digits_val ds)) else None)"
  by (cases ds) (auto simp: ParseInt_def Let_def dest: digit_not_sign)

lemma ParseInt_FormatInt: "int64 i \<Longrightarrow> ParseInt (FormatInt i) = Some i"
proof (cases "i < 0")
  case True
  assume "int64 i"
  with True show ?thesis
    by (simp add: FormatInt_def ParseInt_def nat_digits_digits digits_val_nat_digits)
next
  case False
  assume "int64 i"
  with False show ?thesis
    by (simp add: FormatInt_def ParseInt_digits nat_digits_digits digits_val_nat_digits)
qed

lemma ParseInt_int64: "ParseInt s = Some i \<Longrightarrow> int64 i"
  by (auto simp: ParseInt_def Let_def split: if_splits list.splits)

text \<open>A string whose first and last characters start no white space is left as it is.\<close>

definition ascii_graphic :: "char \<Rightarrow> bool" where
  "ascii_graphic c \<longleftrightarrow> 33 \<le> (of_char c :: nat) \<and> (of_char c :: nat) < 127"

lemma space_encodings_ends:
  "p \<in> set space_encodings \<Longrightarrow> p \<noteq> [] \<and> \<not> ascii_graphic (hd p) \<and> \<not> ascii_graphic (last p)"
  by (auto simp: space_encodings_def utf8_def ascii_graphic_def)

lemma drop_prefix_None:
  assumes "\<And>p. p \<in> set ps \<Longrightarrow> p \<noteq> [] \<and> hd p \<noteq> c"
  shows "drop_prefix ps (c # s) = None"
proof -
  have "filter (\<lambda>p. p \<noteq> [] \<and> take (length p) (c # s) = p) ps = []"
    unfolding filter_empty_conv using assms by (metis hd_take list.sel(1) length_greater_0_conv)
  then show ?thesis by (simp add: drop_prefix_def)
qed

lemma TrimSpace_id:
  assumes "s \<noteq> []" and "ascii_graphic (hd s)" and "ascii_graphic (last s)"
  shows "TrimSpace s = s"
proof -
  have "drop_prefix space_encodings (hd s # tl s) = None"
  proof (rule drop_prefix_None)
    fix p
    assume "p \<in> set space_encodings"
    from space_encodings_ends [OF this] assms(2) show "p \<noteq> [] \<and> hd p \<noteq> hd s" by auto
  qed
  then have l: "trim_left space_encodings s = s"
    using assms(1) by (simp add: trim_left.simps)
  have "drop_prefix (map rev space_encodings) (hd (rev s) # tl (rev s)) = None"
  proof (rule drop_prefix_None)
    fix p
    assume "p \<in> set (map rev space_encodings)"
    then obtain q where q: "q \<in> set space_encodings" and p: "p = rev q" by auto
    from assms(1,3) have "ascii_graphic (hd (rev s))" by (simp add: hd_rev)
    with space_encodings_ends [OF q] p show "p \<noteq> [] \<and> hd p \<noteq> hd (rev s)"
      by (auto simp: hd_rev)
  qed
  then have "trim_left (map rev space_encodings) (rev s) = rev s"
    using assms(1) by (simp add: trim_left.simps)
  with l show ?thesis by (simp add: TrimSpace_def)
qed

lemma is_digit_graphic: "is_digit c \<Longrightarrow> ascii_graphic c"
  by (simp add: is_digit_def ascii_graphic_def)

lemma FormatInt_not_Nil [simp]: "FormatInt i \<noteq> []"
  by (simp add: FormatInt_def)

lemma TrimSpace_FormatInt: "TrimSpace (FormatInt i) = FormatInt i"
proof (rule TrimSpace_id)
  have g: "ascii_graphic c" if "c \<in> set (nat_digits n)" for c n
    using nat_digits_digits [of n] that by (auto simp: list_all_iff intro: is_digit_graphic)
  show "ascii_graphic (hd (FormatInt i))"
    using g [OF hd_in_set [OF nat_digits_not_Nil]]
    by (simp add: FormatInt_def) (simp add: ascii_graphic_def)
  show "ascii_graphic (last (FormatInt i))"
    using g [OF last_in_set [OF nat_digits_not_Nil]] by (simp add: FormatInt_def)
qed simp

section \<open>Time\<close>

text \<open>
  \<open>Time.Unix\<close> and \<open>time.Unix\<close>: seconds since 1970, where a time counts nanoseconds from the year 1.
  \<open>Time.Sub\<close> saturates at the largest and smallest \<open>time.Duration\<close>. \<open>int64_wrap\<close> is the value of an
  \<open>int64\<close> product.
\<close>

definition unixEpoch :: int where "unixEpoch = 62135596800"

definition nanos :: int where "nanos = 1000000000"

definition UnixOf :: "gotime \<Rightarrow> int" where
  "UnixOf t = t div nanos - unixEpoch"

definition TimeUnix :: "int \<Rightarrow> gotime" where
  "TimeUnix sec = (sec + unixEpoch) * nanos"

definition SubTime :: "gotime \<Rightarrow> gotime \<Rightarrow> duration" where
  "SubTime t u = max MinInt64 (min MaxInt64 (t - u))"

definition int64_wrap :: "int \<Rightarrow> int" where
  "int64_wrap i = sint (word_of_int i :: u64)"

lemma int64_wrap_small: "int64 x \<Longrightarrow> int64_wrap x = x"
  by (simp add: int64_def int64_wrap_def MaxInt64_def MinInt64_def sint_sbintrunc' signed_take_bit_int_eq_self)

lemma UnixOf_TimeUnix [simp]: "UnixOf (TimeUnix sec) = sec"
  by (simp add: UnixOf_def TimeUnix_def nanos_def)

text \<open>\<open>Time.UnixMilli\<close> and \<open>time.UnixMilli\<close>.\<close>

definition UnixMilli :: "gotime \<Rightarrow> int" where
  "UnixMilli t = t div 1000000 - unixEpoch * 1000"

definition TimeUnixMilli :: "int \<Rightarrow> gotime" where
  "TimeUnixMilli ms = (ms + unixEpoch * 1000) * 1000000"

lemma UnixMilli_TimeUnixMilli [simp]: "UnixMilli (TimeUnixMilli ms) = ms"
  by (simp add: UnixMilli_def TimeUnixMilli_def)

end
