(* ===== verification/Counter.thy ===== *)
theory Counter
  imports Shard GoStrings
begin

text \<open>
  The counter handlers of a shard (\<open>cache/engine/adjust.go\<close>, \<open>adjust_estimate.go\<close>): a counter is
  an entry whose value is a decimal integer, adjusted with overflow checks. \<open>int64\<close> arguments are
  integers; the code's guards keep every sum in range, so no operation wraps.
\<close>

record counterAdjustment =
  ca_existing :: "entry option"
  ca_next :: int
  ca_expireAt :: gotime

definition safeAdd :: "int \<Rightarrow> int \<Rightarrow> engine_error + int" where
  "safeAdd base delta =
     (if delta > 0 \<and> base > MaxInt64 - delta then Inl ErrCounterOverflow
      else if delta < 0 \<and> base < MinInt64 - delta then Inl ErrCounterOverflow
      else Inr (base + delta))"

definition addToCurrentCounter :: "bytes \<Rightarrow> int \<Rightarrow> engine_error + int" where
  "addToCurrentCounter raw delta =
     (case ParseInt (TrimSpace (string_of_bytes raw)) of
        None \<Rightarrow> Inl ErrInvalidCounter
      | Some current \<Rightarrow> safeAdd current delta)"

definition newCounterAdjustment :: "shardCommand \<Rightarrow> engine_error + counterAdjustment option" where
  "newCounterAdjustment cmd =
     (if ao_ExpectedVersion (c_adjust cmd) > 0 then Inr None
      else case safeAdd (ao_InitialValue (c_adjust cmd)) (ao_Delta (c_adjust cmd)) of
             Inl e \<Rightarrow> Inl e
           | Inr next \<Rightarrow>
               Inr (Some \<lparr>ca_existing = None, ca_next = next,
                      ca_expireAt = (if ao_TTL (c_adjust cmd) > 0
                        then c_now cmd + ao_TTL (c_adjust cmd) else 0)\<rparr>))"

definition prepareCounterAdjustment ::
  "shardWorker \<Rightarrow> shardCommand \<Rightarrow> shardWorker \<times> (engine_error + counterAdjustment option)" where
  "prepareCounterAdjustment s cmd =
     (case fmlookup (entries s) (c_physical cmd) of
        None \<Rightarrow> (s, newCounterAdjustment cmd)
      | Some existing \<Rightarrow>
          if ao_ExpectedVersion (c_adjust cmd) > 0 \<and>
             e_version existing \<noteq> ao_ExpectedVersion (c_adjust cmd)
          then (s, Inr None)
          else if expired existing (c_now cmd)
          then (deleteEntry s (c_physical cmd) existing, Inr None)
          else case addToCurrentCounter (e_value existing) (ao_Delta (c_adjust cmd)) of
                 Inl e \<Rightarrow> (s, Inl e)
               | Inr next \<Rightarrow>
                   (s, Inr (Some \<lparr>ca_existing = Some existing, ca_next = next,
                              ca_expireAt = e_expireAt existing\<rparr>)))"

definition counterValue :: "int \<Rightarrow> bytes" where
  "counterValue next = bytes_of_string (FormatInt next)"

definition applyExistingCounter ::
  "shardWorker \<Rightarrow> shardCommand \<Rightarrow> entry \<Rightarrow> counterAdjustment \<Rightarrow> shardWorker \<times> shardResult" where
  "applyExistingCounter s cmd existing adjustment =
     (let value = counterValue (ca_next adjustment);
          cost = costOf (c_key cmd) value;
          oldCost = e_costBytes existing;
          ent = existing\<lparr>e_value := value,
                  e_version := e_version existing + 1,
                  e_namespaceVersion := ao_NamespaceVersion (c_adjust cmd),
                  e_spaceVersion := ao_SpaceVersion (c_adjust cmd),
                  e_expireAt := ca_expireAt adjustment,
                  e_updatedAt := c_now cmd,
                  e_lastAccessAt := c_now cmd,
                  e_accessCount := e_accessCount existing + 1,
                  e_costBytes := cost\<rparr>;
          s = replaceEntryCost s (c_key cmd) oldCost cost
      in (s\<lparr>entries := fmupd (c_physical cmd) ent (entries s)\<rparr>,
          zeroResult\<lparr>x_record := entryRecord ent, x_found := True\<rparr>))"

definition applyNewCounter ::
  "shardWorker \<Rightarrow> shardCommand \<Rightarrow> counterAdjustment \<Rightarrow> shardWorker \<times> shardResult" where
  "applyNewCounter s cmd adjustment =
     (let value = counterValue (ca_next adjustment);
          cost = costOf (c_key cmd) value;
          ent = \<lparr>e_key = c_key cmd, e_value = value, e_version = 1,
                 e_namespaceVersion = ao_NamespaceVersion (c_adjust cmd),
                 e_spaceVersion = ao_SpaceVersion (c_adjust cmd),
                 e_expireAt = ca_expireAt adjustment,
                 e_createdAt = c_now cmd, e_updatedAt = c_now cmd, e_lastAccessAt = c_now cmd,
                 e_accessCount = 1, e_costBytes = cost\<rparr>
      in (storeEntry s (c_physical cmd) ent,
          zeroResult\<lparr>x_record := entryRecord ent, x_found := True\<rparr>))"

definition applyAdjust :: "shardWorker \<Rightarrow> shardCommand \<Rightarrow> shardWorker \<times> shardResult" where
  "applyAdjust s cmd =
     (case prepareCounterAdjustment s cmd of
        (s, Inl e) \<Rightarrow> (s, zeroResult\<lparr>x_err := Some e\<rparr>)
      | (s, Inr None) \<Rightarrow> (s, zeroResult\<lparr>x_found := False\<rparr>)
      | (s, Inr (Some adjustment)) \<Rightarrow>
          (case ca_existing adjustment of
             Some existing \<Rightarrow> applyExistingCounter s cmd existing adjustment
           | None \<Rightarrow> applyNewCounter s cmd adjustment))"

definition estimateWriteCost :: "shardCommand \<Rightarrow> entry option \<Rightarrow> bytes \<Rightarrow> WriteEstimate" where
  "estimateWriteCost cmd ent value =
     \<lparr>we_Key = c_key cmd, we_Applied = True,
      we_OldCostBytes = (case ent of Some e \<Rightarrow> e_costBytes e | None \<Rightarrow> 0),
      we_NewCostBytes = costOf (c_key cmd) value\<rparr>"

definition applyAdjustEstimate :: "shardWorker \<Rightarrow> shardCommand \<Rightarrow> shardWorker \<times> shardResult" where
  "applyAdjustEstimate s cmd =
     (case prepareCounterAdjustment s cmd of
        (s, Inl e) \<Rightarrow>
          (s, zeroResult\<lparr>x_err := Some e, x_estimate := zeroEstimate\<lparr>we_Key := c_key cmd\<rparr>\<rparr>)
      | (s, Inr None) \<Rightarrow>
          (s, zeroResult\<lparr>x_estimate := zeroEstimate\<lparr>we_Key := c_key cmd\<rparr>\<rparr>)
      | (s, Inr (Some adjustment)) \<Rightarrow>
          (s, zeroResult\<lparr>x_estimate :=
             estimateWriteCost cmd (ca_existing adjustment) (counterValue (ca_next adjustment))\<rparr>))"

section \<open>Lemmas\<close>

lemma safeAdd_int64:
  assumes "int64 base" and "int64 delta"
  shows "safeAdd base delta =
    (if int64 (base + delta) then Inr (base + delta) else Inl ErrCounterOverflow)"
  using assms by (auto simp: safeAdd_def int64_def MaxInt64_def MinInt64_def)

lemma addToCurrentCounter_value:
  "int64 n \<Longrightarrow> addToCurrentCounter (counterValue n) delta = safeAdd n delta"
  by (simp add: addToCurrentCounter_def counterValue_def TrimSpace_FormatInt ParseInt_FormatInt)

lemma prepare_inv: "shard_inv s \<Longrightarrow> shard_inv (fst (prepareCounterAdjustment s cmd))"
  by (auto simp: prepareCounterAdjustment_def split: option.splits sum.splits intro: deleteEntry_inv)

lemma prepare_Some:
  assumes "prepareCounterAdjustment s cmd = (s', Inr (Some adj))"
  shows "s' = s" and "ca_existing adj = fmlookup (entries s) (c_physical cmd)"
  using assms
  by (auto simp: prepareCounterAdjustment_def newCounterAdjustment_def
      split: option.splits sum.splits if_splits)

lemma applyAdjust_inv:
  assumes "shard_inv s" and "c_physical cmd = physicalKey (c_key cmd)"
    and "validateKey (c_key cmd) = None"
  shows "shard_inv (fst (applyAdjust s cmd))"
proof -
  obtain s' r where p: "prepareCounterAdjustment s cmd = (s', r)" by fastforce
  have inv: "shard_inv s'" using prepare_inv [OF assms(1), of cmd] p by simp
  show ?thesis
  proof (cases r)
    case (Inl e)
    with inv p show ?thesis by (simp add: applyAdjust_def)
  next
    case (Inr x)
    show ?thesis
    proof (cases x)
      case None
      with inv p Inr show ?thesis by (simp add: applyAdjust_def)
    next
      case (Some adj)
      with p Inr have "prepareCounterAdjustment s cmd = (s', Inr (Some adj))" by simp
      note adj = this prepare_Some [OF this]
      show ?thesis
      proof (cases "ca_existing adj")
        case None
        with adj assms show ?thesis
          by (auto simp: applyAdjust_def applyNewCounter_def Let_def wf_entry_def
              intro!: storeEntry_inv)
      next
        case (Some e)
        with adj assms have "e_key e = c_key cmd"
          using spaceKeyOf_lookup [of s "c_key cmd" e] by simp
        with Some adj assms show ?thesis
          by (auto simp: applyAdjust_def applyExistingCounter_def Let_def wf_entry_def
              intro!: rewriteEntry_inv)
      qed
    qed
  qed
qed

lemma applyAdjustEstimate_state:
  "fst (applyAdjustEstimate s cmd) = fst (prepareCounterAdjustment s cmd)"
  by (auto simp: applyAdjustEstimate_def split: prod.splits sum.splits option.splits)

lemma applyAdjustEstimate_inv: "shard_inv s \<Longrightarrow> shard_inv (fst (applyAdjustEstimate s cmd))"
  by (simp add: applyAdjustEstimate_state prepare_inv)

end
