(* ===== verification/Eviction.thy ===== *)
theory Eviction
  imports Shard
begin

text \<open>
  Eviction and sweeping in one shard (\<open>cache/engine/eviction.go\<close>). \<open>rng\<close> is the order in which the
  shard's map is visited and \<open>srt\<close> the container library's sort. The lemmas say what an eviction
  frees, what it leaves alone, and that it takes the least recently used entries first.
\<close>

type_synonym range_fn = "(string, entry) fmap \<Rightarrow> (string \<times> entry) list"
type_synonym sort_fn = "(entry \<Rightarrow> entry \<Rightarrow> int) \<Rightarrow> entry list \<Rightarrow> entry list"

definition compareTime :: "gotime \<Rightarrow> gotime \<Rightarrow> int" where
  "compareTime left right = (if left < right then - 1 else if right < left then 1 else 0)"

definition evictionCandidate :: "entry \<Rightarrow> EvictOptions \<Rightarrow> string \<Rightarrow> string \<Rightarrow> bool" where
  "evictionCandidate ent opts physical excludePhysical =
     (if excludePhysical \<noteq> '''' \<and> physical = excludePhysical then False
      else k_Namespace (e_key ent) = eo_Namespace opts \<and> k_Space (e_key ent) = eo_Space opts)"

fun deleteExpired :: "shardWorker \<Rightarrow> (string \<times> entry) list \<Rightarrow> shardWorker" where
  "deleteExpired s [] = s"
| "deleteExpired s ((physical, ent) # items) = deleteExpired (deleteEntry s physical ent) items"

fun collectLoop ::
  "EvictOptions \<Rightarrow> string \<Rightarrow> (string \<times> entry) list \<Rightarrow>
     entry list \<times> (string \<times> entry) list \<times> EvictResult \<Rightarrow>
     entry list \<times> (string \<times> entry) list \<times> EvictResult" where
  "collectLoop opts excludePhysical [] acc = acc"
| "collectLoop opts excludePhysical ((physical, ent) # items) (candidates, exps, result) =
     (if \<not> evictionCandidate ent opts physical excludePhysical
      then collectLoop opts excludePhysical items (candidates, exps, result)
      else if expired ent (eo_Now opts)
      then collectLoop opts excludePhysical items
             (candidates, exps @ [(physical, ent)],
              result\<lparr>er_FreedBytes := er_FreedBytes result + e_costBytes ent,
                     er_EvictedObjects := er_EvictedObjects result + 1\<rparr>)
      else collectLoop opts excludePhysical items (candidates @ [ent], exps, result))"

definition collectEvictionCandidates ::
  "range_fn \<Rightarrow> shardWorker \<Rightarrow> EvictOptions \<Rightarrow> EvictResult \<Rightarrow>
     shardWorker \<times> entry list \<times> EvictResult" where
  "collectEvictionCandidates rng s opts result =
     (let excludePhysical = (if eo_ExcludeActive opts then physicalKey (eo_Exclude opts) else '''');
          (candidates, exps, result) =
            collectLoop opts excludePhysical (rng (entries s)) ([], [], result)
      in (deleteExpired s exps, candidates, result))"

fun evictLoop ::
  "u64 \<Rightarrow> shardWorker \<Rightarrow> entry list \<Rightarrow> EvictResult \<Rightarrow> shardWorker \<times> EvictResult" where
  "evictLoop target s [] result = (s, result)"
| "evictLoop target s (ent # ents) result =
     (if er_FreedBytes result \<ge> target then (s, result)
      else evictLoop target (deleteEntry s (physicalKey (e_key ent)) ent) ents
             (result\<lparr>er_FreedBytes := er_FreedBytes result + e_costBytes ent,
                     er_EvictedObjects := er_EvictedObjects result + 1\<rparr>))"

definition evictCandidates ::
  "shardWorker \<Rightarrow> entry list \<Rightarrow> u64 \<Rightarrow> EvictResult \<Rightarrow> shardWorker \<times> EvictResult" where
  "evictCandidates s candidates target result =
     (let (s, result) = evictLoop target s candidates result in
      if er_EvictedObjects result > 0
      then (s\<lparr>evictions := evictions s + er_EvictedObjects result\<rparr>, result)
      else (s, result))"

definition evictOrder :: "entry \<Rightarrow> entry \<Rightarrow> int" where
  "evictOrder left right =
     (if e_lastAccessAt left = e_lastAccessAt right
      then compareTime (e_createdAt left) (e_createdAt right)
      else compareTime (e_lastAccessAt left) (e_lastAccessAt right))"

definition evict ::
  "range_fn \<Rightarrow> sort_fn \<Rightarrow> shardWorker \<Rightarrow> EvictOptions \<Rightarrow> shardWorker \<times> EvictResult" where
  "evict rng srt s opts =
     (let result = zeroEvictResult\<lparr>er_RequestedBytes := eo_TargetBytes opts\<rparr>;
          (s, candidates, result) = collectEvictionCandidates rng s opts result;
          candidates = srt evictOrder candidates
      in evictCandidates s candidates (eo_TargetBytes opts) result)"

definition sweepExpired :: "range_fn \<Rightarrow> shardWorker \<Rightarrow> gotime \<Rightarrow> shardWorker \<times> u64" where
  "sweepExpired rng s now =
     (let exps = filter (\<lambda>(physical, ent). expired ent now) (rng (entries s))
      in (deleteExpired s exps, checkedUint64 (int (length exps))))"

section \<open>Deleting a list of entries\<close>

definition drop_keys :: "string list \<Rightarrow> (string, entry) fmap \<Rightarrow> (string, entry) fmap" where
  "drop_keys ks m = fmfilter (\<lambda>k. k \<notin> set ks) m"

lemma drop_keys_Nil [simp]: "drop_keys [] m = m"
  by (rule fmap_ext) (simp add: drop_keys_def)

lemma drop_keys_Cons: "drop_keys ks (fmdrop k m) = drop_keys (k # ks) m"
  by (rule fmap_ext) (simp add: drop_keys_def)

lemma lookup_drop_keys [simp]:
  "fmlookup (drop_keys ks m) k = (if k \<in> set ks then None else fmlookup m k)"
  by (simp add: drop_keys_def)

definition present :: "shardWorker \<Rightarrow> (string \<times> entry) list \<Rightarrow> bool" where
  "present s items \<longleftrightarrow>
     distinct (map fst items) \<and> (\<forall>(k, e)\<in>set items. fmlookup (entries s) k = Some e)"

lemma present_Nil [simp]: "present s []"
  by (simp add: present_def)

lemma present_Cons:
  "present s ((k, e) # items) \<longleftrightarrow>
     fmlookup (entries s) k = Some e \<and> k \<notin> fst ` set items \<and> present (deleteEntry s k e) items"
proof -
  have "k \<notin> fst ` set items \<Longrightarrow>
    (\<forall>(j, f)\<in>set items. fmlookup (fmdrop k (entries s)) j = Some f) \<longleftrightarrow>
    (\<forall>(j, f)\<in>set items. fmlookup (entries s) j = Some f)"
    by (force simp: image_iff)
  then show ?thesis by (auto simp: present_def)
qed

lemma deleteExpired_inv:
  "shard_inv s \<Longrightarrow> present s items \<Longrightarrow> shard_inv (deleteExpired s items)"
proof (induction s items rule: deleteExpired.induct)
  case (1 s)
  then show ?case by simp
next
  case (2 s physical ent items)
  then show ?case by (auto simp: present_Cons intro: deleteEntry_inv)
qed

lemma entries_deleteExpired:
  "entries (deleteExpired s items) = drop_keys (map fst items) (entries s)"
  by (induction s items rule: deleteExpired.induct) (simp_all add: drop_keys_Cons)

lemma memoryBytes_deleteEntry [simp]:
  "memoryBytes (deleteEntry s k e) = memoryBytes s - e_costBytes e"
  by (simp add: deleteEntry_def Let_def)

lemma memoryBytes_deleteExpired:
  "memoryBytes (deleteExpired s items) = memoryBytes s - sum_list (map (e_costBytes \<circ> snd) items)"
  by (induction s items rule: deleteExpired.induct) simp_all

section \<open>Collecting the candidates\<close>

definition excludeOf :: "EvictOptions \<Rightarrow> string" where
  "excludeOf opts = (if eo_ExcludeActive opts then physicalKey (eo_Exclude opts) else '''')"

definition candidate :: "EvictOptions \<Rightarrow> string \<times> entry \<Rightarrow> bool" where
  "candidate opts = (\<lambda>(k, e). evictionCandidate e opts k (excludeOf opts))"

definition stale :: "EvictOptions \<Rightarrow> string \<times> entry \<Rightarrow> bool" where
  "stale opts = (\<lambda>(k, e). expired e (eo_Now opts))"

abbreviation costs :: "(string \<times> entry) list \<Rightarrow> u64" where
  "costs items \<equiv> sum_list (map (e_costBytes \<circ> snd) items)"

lemma collectLoop_eq:
  "collectLoop opts (excludeOf opts) items (cs, xs, r) =
     (cs @ map snd (filter (\<lambda>i. candidate opts i \<and> \<not> stale opts i) items),
      xs @ filter (\<lambda>i. candidate opts i \<and> stale opts i) items,
      r\<lparr>er_FreedBytes := er_FreedBytes r +
           costs (filter (\<lambda>i. candidate opts i \<and> stale opts i) items),
        er_EvictedObjects := er_EvictedObjects r +
           of_nat (length (filter (\<lambda>i. candidate opts i \<and> stale opts i) items))\<rparr>)"
  by (induction items arbitrary: cs xs r)
    (auto simp: candidate_def stale_def algebra_simps)

lemma collectEvictionCandidates_eq:
  "collectEvictionCandidates rng s opts r =
     (let items = filter (candidate opts) (rng (entries s)) in
      (deleteExpired s (filter (stale opts) items),
       map snd (filter (\<lambda>i. \<not> stale opts i) items),
       r\<lparr>er_FreedBytes := er_FreedBytes r + costs (filter (stale opts) items),
         er_EvictedObjects := er_EvictedObjects r + of_nat (length (filter (stale opts) items))\<rparr>))"
  by (simp add: collectEvictionCandidates_def collectLoop_eq excludeOf_def [symmetric] Let_def
      conj_commute)

section \<open>Evicting in order\<close>

definition keyed :: "entry \<Rightarrow> string \<times> entry" where
  "keyed e = (physicalKey (e_key e), e)"

lemma evictLoop_take:
  "\<exists>n \<le> length cs.
     evictLoop target s cs r =
       (deleteExpired s (map keyed (take n cs)),
        r\<lparr>er_FreedBytes := er_FreedBytes r + sum_list (map e_costBytes (take n cs)),
          er_EvictedObjects := er_EvictedObjects r + of_nat n\<rparr>) \<and>
     (n < length cs \<longrightarrow> target \<le> er_FreedBytes r + sum_list (map e_costBytes (take n cs))) \<and>
     (\<forall>m < n. er_FreedBytes r + sum_list (map e_costBytes (take m cs)) < target)"
proof (induction cs arbitrary: s r)
  case Nil
  show ?case by (rule exI [of _ 0]) simp
next
  case (Cons e cs)
  show ?case
  proof (cases "er_FreedBytes r \<ge> target")
    case True
    then show ?thesis by (intro exI [of _ 0]) simp
  next
    case False
    let ?r = "r\<lparr>er_FreedBytes := er_FreedBytes r + e_costBytes e,
                er_EvictedObjects := er_EvictedObjects r + 1\<rparr>"
    let ?s = "deleteEntry s (physicalKey (e_key e)) e"
    obtain n where n: "n \<le> length cs"
      and eq: "evictLoop target ?s cs ?r =
         (deleteExpired ?s (map keyed (take n cs)),
          ?r\<lparr>er_FreedBytes := er_FreedBytes ?r + sum_list (map e_costBytes (take n cs)),
            er_EvictedObjects := er_EvictedObjects ?r + of_nat n\<rparr>)"
      and stop: "n < length cs \<Longrightarrow>
         target \<le> er_FreedBytes ?r + sum_list (map e_costBytes (take n cs))"
      and before: "\<And>m. m < n \<Longrightarrow>
         er_FreedBytes ?r + sum_list (map e_costBytes (take m cs)) < target"
      using Cons.IH [of ?s ?r] by blast
    have "er_FreedBytes r + sum_list (map e_costBytes (take m (e # cs))) < target"
      if "m < Suc n" for m
      using that before [of "m - 1"] False by (cases m) (simp_all add: add.assoc)
    with n eq stop False show ?thesis
      by (intro exI [of _ "Suc n"]) (simp add: keyed_def [of e] add.assoc)
  qed
qed

lemma total_cmp_evictOrder: "total_cmp evictOrder"
  by (auto simp: total_cmp_def evictOrder_def compareTime_def)

lemma evictOrder_lru:
  "evictOrder a b \<le> 0 \<Longrightarrow> e_lastAccessAt a \<le> e_lastAccessAt b"
  by (auto simp: evictOrder_def compareTime_def split: if_splits)

definition cands :: "range_fn \<Rightarrow> shardWorker \<Rightarrow> EvictOptions \<Rightarrow> (string \<times> entry) list" where
  "cands rng s opts = filter (candidate opts) (rng (entries s))"

definition inOrder :: "range_fn \<Rightarrow> sort_fn \<Rightarrow> shardWorker \<Rightarrow> EvictOptions \<Rightarrow> (string \<times> entry) list" where
  "inOrder rng srt s opts =
     map keyed (srt evictOrder (map snd (filter (\<lambda>i. \<not> stale opts i) (cands rng s opts))))"

lemma mem_cands:
  "enumerates rng \<Longrightarrow>
     (k, e) \<in> set (cands rng s opts) \<longleftrightarrow> fmlookup (entries s) k = Some e \<and> candidate opts (k, e)"
  by (auto simp: cands_def enumerates_mem)

lemma cands_keyed:
  assumes "enumerates rng" and "shard_inv s" and "i \<in> set (cands rng s opts)"
  shows "keyed (snd i) = i"
  using assms mem_cands [OF assms(1), of "fst i" "snd i" s opts]
  by (auto simp: shard_inv_def wf_entries_def wf_entry_def keyed_def prod_eq_iff)

lemma mset_inOrder:
  assumes "enumerates rng" and "sorts srt" and "shard_inv s"
  shows "mset (inOrder rng srt s opts) = mset (filter (\<lambda>i. \<not> stale opts i) (cands rng s opts))"
proof -
  let ?live = "filter (\<lambda>i. \<not> stale opts i) (cands rng s opts)"
  have "mset (inOrder rng srt s opts) = mset (map keyed (map snd ?live))"
    using sortsD(1) [OF assms(2) total_cmp_evictOrder]
    by (simp add: inOrder_def multiset.map_comp)
  moreover have "map keyed (map snd ?live) = ?live"
    unfolding map_map by (rule map_idI) (use cands_keyed [OF assms(1,3)] in auto)
  ultimately show ?thesis by metis
qed

lemma sorted_inOrder:
  "sorts srt \<Longrightarrow> sorted_wrt (\<lambda>i j. evictOrder (snd i) (snd j) \<le> 0) (inOrder rng srt s opts)"
  using sortsD(3) [OF _ total_cmp_evictOrder] by (simp add: inOrder_def keyed_def sorted_wrt_map)

lemma cands_present:
  assumes "enumerates rng" and "mset xs \<subseteq># mset (cands rng s opts)"
  shows "present s xs"
proof -
  have "distinct (map fst (cands rng s opts))"
    unfolding cands_def by (rule distinct_map_filter) (rule enumeratesD(1) [OF assms(1)])
  moreover have "mset (map fst xs) \<subseteq># mset (map fst (cands rng s opts))"
    using assms(2) by (simp add: image_mset_subseteq_mono)
  ultimately have "distinct (map fst xs)"
    by (rule distinct_submset)
  moreover have "set xs \<subseteq> set (cands rng s opts)"
    using set_mset_mono [OF assms(2)] by simp
  ultimately show ?thesis
    using mem_cands [OF assms(1)] by (fastforce simp: present_def)
qed

lemma deleteExpired_append: "deleteExpired s (xs @ ys) = deleteExpired (deleteExpired s xs) ys"
  by (induction s xs rule: deleteExpired.induct) simp_all

text \<open>
  What an eviction removes: the expired candidates, and the first of the others in the order of
  their last access, as many as the target needs.
\<close>

definition evicted :: "range_fn \<Rightarrow> sort_fn \<Rightarrow> shardWorker \<Rightarrow> EvictOptions \<Rightarrow> nat \<Rightarrow> (string \<times> entry) list"
  where "evicted rng srt s opts n =
     filter (stale opts) (cands rng s opts) @ take n (inOrder rng srt s opts)"

lemma evict_shape:
  assumes "evict rng srt s opts = (s', r)"
  shows "\<exists>n \<le> length (inOrder rng srt s opts). \<exists>v.
     s' = (deleteExpired s (evicted rng srt s opts n))\<lparr>evictions := v\<rparr> \<and>
     er_FreedBytes r = costs (evicted rng srt s opts n) \<and>
     er_EvictedObjects r = of_nat (length (evicted rng srt s opts n)) \<and>
     (n < length (inOrder rng srt s opts) \<longrightarrow> eo_TargetBytes opts \<le> er_FreedBytes r) \<and>
     (\<forall>m < n. costs (evicted rng srt s opts m) < eo_TargetBytes opts)"
proof -
  let ?dead = "filter (stale opts) (cands rng s opts)"
  let ?es = "srt evictOrder (map snd (filter (\<lambda>i. \<not> stale opts i) (cands rng s opts)))"
  let ?r = "zeroEvictResult\<lparr>er_RequestedBytes := eo_TargetBytes opts,
     er_FreedBytes := costs ?dead, er_EvictedObjects := of_nat (length ?dead)\<rparr>"
  have costs_take: "costs (take m (inOrder rng srt s opts)) = sum_list (map e_costBytes (take m ?es))"
    for m by (simp add: inOrder_def take_map keyed_def o_def)
  have len: "length (inOrder rng srt s opts) = length ?es" by (simp add: inOrder_def)
  obtain n where n: "n \<le> length ?es"
    and loop: "evictLoop (eo_TargetBytes opts) (deleteExpired s ?dead) ?es ?r =
       (deleteExpired (deleteExpired s ?dead) (map keyed (take n ?es)),
        ?r\<lparr>er_FreedBytes := er_FreedBytes ?r + sum_list (map e_costBytes (take n ?es)),
          er_EvictedObjects := er_EvictedObjects ?r + of_nat n\<rparr>)"
    and stop: "n < length ?es \<Longrightarrow>
       eo_TargetBytes opts \<le> er_FreedBytes ?r + sum_list (map e_costBytes (take n ?es))"
    and before: "\<And>m. m < n \<Longrightarrow>
       er_FreedBytes ?r + sum_list (map e_costBytes (take m ?es)) < eo_TargetBytes opts"
    using evictLoop_take [of ?es "eo_TargetBytes opts" "deleteExpired s ?dead" ?r] by blast
  have state: "deleteExpired (deleteExpired s ?dead) (map keyed (take n ?es)) =
      deleteExpired s (evicted rng srt s opts n)"
    by (simp add: evicted_def deleteExpired_append inOrder_def take_map)
  have "evict rng srt s opts = evictCandidates (deleteExpired s ?dead) ?es (eo_TargetBytes opts) ?r"
    by (simp add: evict_def collectEvictionCandidates_eq cands_def Let_def zeroEvictResult_def)
  with assms loop state obtain v where
    "s' = (deleteExpired s (evicted rng srt s opts n))\<lparr>evictions := v\<rparr>"
    and "r = ?r\<lparr>er_FreedBytes := er_FreedBytes ?r + sum_list (map e_costBytes (take n ?es)),
          er_EvictedObjects := er_EvictedObjects ?r + of_nat n\<rparr>"
    by (auto simp: evictCandidates_def split: if_splits) (metis shardWorker.surjective shardWorker.update_convs(7))
  with n stop before show ?thesis
    by (intro exI [of _ n]) (auto simp: evicted_def costs_take len min_def)
qed

lemma evicted_cands:
  assumes "enumerates rng" and "sorts srt" and "shard_inv s"
  shows "mset (evicted rng srt s opts n) \<subseteq># mset (cands rng s opts)"
proof -
  have "mset (take n (inOrder rng srt s opts)) \<subseteq># mset (inOrder rng srt s opts)"
    by (metis append_take_drop_id mset_append mset_subset_eq_add_left)
  then have "mset (take n (inOrder rng srt s opts)) \<subseteq>#
      mset (filter (\<lambda>i. \<not> stale opts i) (cands rng s opts))"
    by (simp add: mset_inOrder [OF assms])
  then have "mset (evicted rng srt s opts n) \<subseteq># mset (filter (stale opts) (cands rng s opts)) +
      mset (filter (\<lambda>i. \<not> stale opts i) (cands rng s opts))"
    unfolding evicted_def mset_append by (rule subset_mset.add_left_mono)
  also have "\<dots> = mset (cands rng s opts)"
    using multiset_partition [of "mset (cands rng s opts)" "stale opts"] by simp
  finally show ?thesis .
qed

lemma usage_deleteExpired:
  "su_memoryBytes (usageOf (deleteExpired s items) sk) =
     su_memoryBytes (usageOf s sk) -
     sum_list (map (\<lambda>(k, e). in_space sk (e_costBytes e) e) items)"
  by (induction s items rule: deleteExpired.induct)
    (auto simp: deleteEntry_def Let_def in_space_def)

lemma candidate_space: "candidate opts (k, e) \<Longrightarrow> spaceKeyOf (e_key e) = (eo_Namespace opts, eo_Space opts)"
  by (auto simp: candidate_def evictionCandidate_def spaceKeyOf_def split: if_splits)

lemma costs_in_space:
  assumes "\<And>i. i \<in> set items \<Longrightarrow> candidate opts i"
  shows "sum_list (map (\<lambda>(k, e). in_space sk (e_costBytes e) e) items) =
    (if sk = (eo_Namespace opts, eo_Space opts) then costs items else 0)"
  using assms
proof (induction items)
  case Nil
  then show ?case by simp
next
  case (Cons i items)
  obtain k e where i: "i = (k, e)" by fastforce
  from Cons.prems have "spaceKeyOf (e_key e) = (eo_Namespace opts, eo_Space opts)"
    by (auto simp: i intro: candidate_space)
  with Cons.IH Cons.prems show ?case by (auto simp: i in_space_def o_def)
qed

lemma usageOf_evictions [simp]: "usageOf (s\<lparr>evictions := v\<rparr>) = usageOf s"
  by (simp add: usageOf_def fun_eq_iff)

lemma evict_effect:
  assumes rng: "enumerates rng" and srt: "sorts srt" and inv: "shard_inv s"
    and ev: "evict rng srt s opts = (s', r)"
  shows evict_inv: "shard_inv s'"
    and evict_memory: "memoryBytes s' = memoryBytes s - er_FreedBytes r"
    and evict_usage: "su_memoryBytes (usageOf s' sk) = su_memoryBytes (usageOf s sk) -
      (if sk = (eo_Namespace opts, eo_Space opts) then er_FreedBytes r else 0)"
    and evict_other: "fmlookup (entries s) k = Some e \<Longrightarrow> \<not> candidate opts (k, e) \<Longrightarrow>
      fmlookup (entries s') k = Some e"
    and evict_subset: "fmlookup (entries s') k = Some e \<Longrightarrow> fmlookup (entries s) k = Some e"
    and evict_enough: "eo_TargetBytes opts \<le> er_FreedBytes r \<or>
      (\<forall>k e. fmlookup (entries s') k = Some e \<longrightarrow> \<not> candidate opts (k, e))"
    and evict_lru: "fmlookup (entries s) k = Some e \<Longrightarrow> fmlookup (entries s') k = None \<Longrightarrow>
      fmlookup (entries s') k' = Some e' \<Longrightarrow> candidate opts (k', e') \<Longrightarrow>
      expired e (eo_Now opts) \<or> evictOrder e e' \<le> 0"
proof -
  let ?ord = "inOrder rng srt s opts" and ?dead = "filter (stale opts) (cands rng s opts)"
  obtain n v where n: "n \<le> length ?ord"
    and s': "s' = (deleteExpired s (evicted rng srt s opts n))\<lparr>evictions := v\<rparr>"
    and freed: "er_FreedBytes r = costs (evicted rng srt s opts n)"
    and stop: "n < length ?ord \<longrightarrow> eo_TargetBytes opts \<le> er_FreedBytes r"
    using evict_shape [OF ev] by blast
  define gone where "gone = evicted rng srt s opts n"
  have sub: "mset gone \<subseteq># mset (cands rng s opts)"
    unfolding gone_def by (rule evicted_cands [OF rng srt inv])
  then have in_cands: "set gone \<subseteq> set (cands rng s opts)" by (metis set_mset_mono set_mset_mset)
  have pres: "present s gone" by (rule cands_present [OF rng sub])
  have ent: "entries s' = drop_keys (map fst gone) (entries s)"
    by (simp add: s' gone_def entries_deleteExpired)
  show "shard_inv s'" using deleteExpired_inv [OF inv pres] by (simp add: s' gone_def)
  show "memoryBytes s' = memoryBytes s - er_FreedBytes r"
    by (simp add: s' memoryBytes_deleteExpired freed)
  have cand: "candidate opts i" if "i \<in> set gone" for i
    using in_cands that by (auto simp: cands_def)
  show "su_memoryBytes (usageOf s' sk) = su_memoryBytes (usageOf s sk) -
      (if sk = (eo_Namespace opts, eo_Space opts) then er_FreedBytes r else 0)"
    using costs_in_space [OF cand, of gone] by (simp add: s' usage_deleteExpired freed gone_def)
  show "fmlookup (entries s') k = Some e \<Longrightarrow> fmlookup (entries s) k = Some e"
    by (simp add: ent split: if_splits)
  have gone_entry: "(k, e) \<in> set gone" if "k \<in> fst ` set gone" "fmlookup (entries s) k = Some e" for k e
    using that pres by (force simp: present_def)
  show "fmlookup (entries s) k = Some e \<Longrightarrow> \<not> candidate opts (k, e) \<Longrightarrow> fmlookup (entries s') k = Some e"
    using gone_entry cand by (auto simp: ent)
  have rest: "(k, e) \<in> set (drop n ?ord)"
    if "fmlookup (entries s') k = Some e" "candidate opts (k, e)" for k e
  proof -
    have "k \<notin> fst ` set gone" and l: "fmlookup (entries s) k = Some e"
      using that by (auto simp: ent split: if_splits)
    then have "(k, e) \<notin> set gone" by force
    moreover have "(k, e) \<in> set (cands rng s opts)" using that l mem_cands [OF rng] by simp
    moreover have "set ?ord = set (filter (\<lambda>i. \<not> stale opts i) (cands rng s opts))"
      by (rule mset_eq_setD [OF mset_inOrder [OF rng srt inv]])
    moreover have "set ?ord = set (take n ?ord) \<union> set (drop n ?ord)"
      by (metis append_take_drop_id set_append)
    ultimately show ?thesis by (auto simp: gone_def evicted_def)
  qed
  show "eo_TargetBytes opts \<le> er_FreedBytes r \<or>
      (\<forall>k e. fmlookup (entries s') k = Some e \<longrightarrow> \<not> candidate opts (k, e))"
    using stop rest n by (cases "n < length ?ord") auto
  assume "fmlookup (entries s) k = Some e" "fmlookup (entries s') k = None"
    and k': "fmlookup (entries s') k' = Some e'" "candidate opts (k', e')"
  then have "(k, e) \<in> set gone" using gone_entry by (auto simp: ent split: if_splits)
  then consider "stale opts (k, e)" | "(k, e) \<in> set (take n ?ord)"
    by (auto simp: gone_def evicted_def)
  then show "expired e (eo_Now opts) \<or> evictOrder e e' \<le> 0"
  proof cases
    case 1
    then show ?thesis by (simp add: stale_def)
  next
    case 2
    have "sorted_wrt (\<lambda>i j. evictOrder (snd i) (snd j) \<le> 0) (take n ?ord @ drop n ?ord)"
      using sorted_inOrder [OF srt] by simp
    with 2 rest [OF k'] show ?thesis unfolding sorted_wrt_append by fastforce
  qed
qed

lemma evict_exclude:
  "eo_ExcludeActive opts \<Longrightarrow> \<not> candidate opts (physicalKey (eo_Exclude opts), e)"
  by (simp add: candidate_def evictionCandidate_def excludeOf_def)

lemma sweepExpired_effect:
  assumes "enumerates rng" and "shard_inv s"
  shows "shard_inv (fst (sweepExpired rng s now))"
    and "fmlookup (entries (fst (sweepExpired rng s now))) k =
      (case fmlookup (entries s) k of
         None \<Rightarrow> None | Some e \<Rightarrow> if expired e now then None else Some e)"
proof -
  let ?x = "filter (\<lambda>(physical, ent). expired ent now) (rng (entries s))"
  have "present s ?x"
    using distinct_map_filter [OF enumeratesD(1) [OF assms(1), of "entries s"]]
      enumerates_mem [OF assms(1)] by (auto simp: present_def)
  then show "shard_inv (fst (sweepExpired rng s now))"
    using deleteExpired_inv [OF assms(2)] by (simp add: sweepExpired_def Let_def)
  have "k \<in> fst ` set ?x \<longleftrightarrow> (\<exists>e. fmlookup (entries s) k = Some e \<and> expired e now)"
    using enumerates_mem [OF assms(1), of k _ "entries s"] by force
  then show "fmlookup (entries (fst (sweepExpired rng s now))) k =
      (case fmlookup (entries s) k of
         None \<Rightarrow> None | Some e \<Rightarrow> if expired e now then None else Some e)"
    by (auto simp: sweepExpired_def Let_def entries_deleteExpired split: option.splits)
qed

end
