(* ===== verification/Primitives.thy ===== *)
theory Primitives
  imports Counter Eviction Routing
begin

unbundle bit_operations_syntax

text \<open>
  The collection primitives of a shard (\<open>cache/engine/collection_value.go\<close>, \<open>primitive.go\<close>,
  \<open>primitive_map.go\<close>, \<open>primitive_set.go\<close>, \<open>primitive_scored_set.go\<close>, \<open>primitive_list.go\<close>,
  \<open>primitive_bitmap.go\<close>, \<open>primitive_hll.go\<close>, \<open>primitive_geo.go\<close>, \<open>primitive_validate.go\<close>).
  A collection is stored as an entry whose value is a prefix, a kind byte and the container
  library's own serialisation. That serialisation is not in the repository: \<open>colx\<close> holds its
  \<open>MarshalBinary\<close> and \<open>UnmarshalBinary\<close> for the container types, which may fail, the list's
  \<open>RemoveAt\<close>, and the floating-point great-circle distance. Scores are compared as IEEE 754 numbers.
\<close>

section \<open>float64\<close>

definition f64_mag :: "float64 \<Rightarrow> int" where
  "f64_mag w = uint (w AND 0x7FFFFFFFFFFFFFFF)"

definition f64_key :: "float64 \<Rightarrow> int" where
  "f64_key w = (if bit w 63 then - f64_mag w else f64_mag w)"

definition isNaN :: "float64 \<Rightarrow> bool" where
  "isNaN w \<longleftrightarrow> f64_mag w > 0x7FF0000000000000"

definition isInf :: "float64 \<Rightarrow> bool" where
  "isInf w \<longleftrightarrow> f64_mag w = 0x7FF0000000000000"

definition f64_lt :: "float64 \<Rightarrow> float64 \<Rightarrow> bool" where
  "f64_lt a b \<longleftrightarrow> \<not> isNaN a \<and> \<not> isNaN b \<and> f64_key a < f64_key b"

definition f64_le :: "float64 \<Rightarrow> float64 \<Rightarrow> bool" where
  "f64_le a b \<longleftrightarrow> \<not> isNaN a \<and> \<not> isNaN b \<and> f64_key a \<le> f64_key b"

definition f64_eq :: "float64 \<Rightarrow> float64 \<Rightarrow> bool" where
  "f64_eq a b \<longleftrightarrow> \<not> isNaN a \<and> \<not> isNaN b \<and> f64_key a = f64_key b"

section \<open>Validation\<close>

definition primitiveValidationError :: "string \<Rightarrow> engine_error" where
  "primitiveValidationError reason = ErrInvalidPrimitive reason"

definition invalidFloat :: "float64 \<Rightarrow> bool" where
  "invalidFloat value \<longleftrightarrow> isNaN value \<or> isInf value"

definition validLongitude :: "float64 \<Rightarrow> bool" where
  "validLongitude value \<longleftrightarrow> f64_le 0xC066800000000000 value \<and> f64_le value 0x4066800000000000"

definition validLatitude :: "float64 \<Rightarrow> bool" where
  "validLatitude value \<longleftrightarrow> f64_le 0xC056800000000000 value \<and> f64_le value 0x4056800000000000"

definition requirePrimitiveField :: "PrimitiveRequest \<Rightarrow> engine_error option" where
  "requirePrimitiveField request =
     (if pr_Field request = '''' then Some (primitiveValidationError ''field is required'') else None)"

definition requirePrimitiveMember :: "PrimitiveRequest \<Rightarrow> engine_error option" where
  "requirePrimitiveMember request =
     (if pr_Member request = '''' then Some (primitiveValidationError ''member is required'')
      else None)"

definition validateScoredSetPut :: "PrimitiveRequest \<Rightarrow> engine_error option" where
  "validateScoredSetPut request =
     (case requirePrimitiveMember request of
        Some err \<Rightarrow> Some err
      | None \<Rightarrow>
          if invalidFloat (pr_Score request)
          then Some (primitiveValidationError ''score must be finite'') else None)"

definition validateScoredSetRange :: "PrimitiveRequest \<Rightarrow> engine_error option" where
  "validateScoredSetRange request =
     (if pr_HasMinScore request \<and> invalidFloat (pr_MinScore request)
      then Some (primitiveValidationError ''min score must be finite'')
      else if pr_HasMaxScore request \<and> invalidFloat (pr_MaxScore request)
      then Some (primitiveValidationError ''max score must be finite'')
      else if pr_HasMinScore request \<and> pr_HasMaxScore request \<and>
              f64_lt (pr_MaxScore request) (pr_MinScore request)
      then Some (primitiveValidationError ''min score exceeds max score'')
      else None)"

definition validateListRange :: "PrimitiveRequest \<Rightarrow> engine_error option" where
  "validateListRange request =
     (if pr_Start request < 0 then Some (primitiveValidationError ''start must be non-negative'')
      else None)"

definition validateBitmapOffset :: "PrimitiveRequest \<Rightarrow> engine_error option" where
  "validateBitmapOffset request =
     (if pr_Delta request < 0 then Some (primitiveValidationError ''offset must be non-negative'')
      else if \<not> int64 (pr_Delta request) then Some (primitiveValidationError ''offset is too large'')
      else None)"

definition validateBitmapSetBit :: "PrimitiveRequest \<Rightarrow> engine_error option" where
  "validateBitmapSetBit request =
     (case validateBitmapOffset request of
        Some err \<Rightarrow> Some err
      | None \<Rightarrow>
          if pr_InitialValue request \<noteq> 0 \<and> pr_InitialValue request \<noteq> 1
          then Some (primitiveValidationError ''bit value must be 0 or 1'') else None)"

definition validateBitmapBitCount :: "PrimitiveRequest \<Rightarrow> engine_error option" where
  "validateBitmapBitCount request =
     (if pr_Start request < 0 then Some (primitiveValidationError ''start must be non-negative'')
      else if pr_Limit request > 0x7FFFFFFFFFFFFFFF
      then Some (primitiveValidationError ''limit is too large'')
      else None)"

definition validateGeoAdd :: "PrimitiveRequest \<Rightarrow> engine_error option" where
  "validateGeoAdd request =
     (case requirePrimitiveMember request of
        Some err \<Rightarrow> Some err
      | None \<Rightarrow>
          if \<not> validLongitude (pr_Score request) \<or> \<not> validLatitude (pr_MinScore request)
          then Some (primitiveValidationError ''invalid longitude or latitude'') else None)"

definition validateGeoDist :: "PrimitiveRequest \<Rightarrow> engine_error option" where
  "validateGeoDist request =
     (if pr_Member request = '''' \<or> pr_Field request = ''''
      then Some (primitiveValidationError ''members are required'') else None)"

definition validateGeoRadius :: "PrimitiveRequest \<Rightarrow> engine_error option" where
  "validateGeoRadius request =
     (if \<not> validLongitude (pr_Score request) \<or> \<not> validLatitude (pr_MinScore request)
      then Some (primitiveValidationError ''invalid longitude or latitude'')
      else if f64_lt (pr_MaxScore request) 0
      then Some (primitiveValidationError ''radius must be non-negative'')
      else None)"

fun primitiveValidators :: "PrimitiveKind \<Rightarrow> PrimitiveRequest \<Rightarrow> engine_error option" where
  "primitiveValidators PrimitiveCounterAdjust r = None"
| "primitiveValidators PrimitiveMapSet r = requirePrimitiveField r"
| "primitiveValidators PrimitiveMapGet r = requirePrimitiveField r"
| "primitiveValidators PrimitiveMapDelete r = requirePrimitiveField r"
| "primitiveValidators PrimitiveMapGetAll r = None"
| "primitiveValidators PrimitiveSetAdd r = requirePrimitiveMember r"
| "primitiveValidators PrimitiveSetRemove r = requirePrimitiveMember r"
| "primitiveValidators PrimitiveSetContains r = requirePrimitiveMember r"
| "primitiveValidators PrimitiveSetMembers r = None"
| "primitiveValidators PrimitiveScoredSetPut r = validateScoredSetPut r"
| "primitiveValidators PrimitiveScoredSetRemove r = requirePrimitiveMember r"
| "primitiveValidators PrimitiveScoredSetRange r = validateScoredSetRange r"
| "primitiveValidators PrimitiveListPushFront r = None"
| "primitiveValidators PrimitiveListPushBack r = None"
| "primitiveValidators PrimitiveListPopFront r = None"
| "primitiveValidators PrimitiveListPopBack r = None"
| "primitiveValidators PrimitiveListRange r = validateListRange r"
| "primitiveValidators PrimitiveBitmapSetBit r = validateBitmapSetBit r"
| "primitiveValidators PrimitiveBitmapGetBit r = validateBitmapOffset r"
| "primitiveValidators PrimitiveBitmapBitCount r = validateBitmapBitCount r"
| "primitiveValidators PrimitiveHLLAdd r = requirePrimitiveMember r"
| "primitiveValidators PrimitiveHLLCount r = None"
| "primitiveValidators PrimitiveHLLMerge r = None"
| "primitiveValidators PrimitiveHLLMembers r = None"
| "primitiveValidators PrimitiveGeoAdd r = validateGeoAdd r"
| "primitiveValidators PrimitiveGeoDist r = validateGeoDist r"
| "primitiveValidators PrimitiveGeoRadius r = validateGeoRadius r"
| "primitiveValidators (PrimitiveOther n) r = Some (primitiveValidationError ''unknown kind'')"

definition validatePrimitiveShape :: "PrimitiveRequest \<Rightarrow> engine_error option" where
  "validatePrimitiveShape request = primitiveValidators (pr_Kind request) request"

definition validatePrimitiveRequest :: "PrimitiveRequest \<Rightarrow> engine_error option" where
  "validatePrimitiveRequest request =
     (case validateKey (pr_Key request) of
        Some err \<Rightarrow> Some err
      | None \<Rightarrow>
          if po_TTL (pr_Options request) < 0
          then Some (primitiveValidationError ''negative ttl'')
          else validatePrimitiveShape request)"

fun Mutates :: "PrimitiveKind \<Rightarrow> bool" where
  "Mutates PrimitiveCounterAdjust = True"
| "Mutates PrimitiveMapSet = True"
| "Mutates PrimitiveMapDelete = True"
| "Mutates PrimitiveSetAdd = True"
| "Mutates PrimitiveSetRemove = True"
| "Mutates PrimitiveScoredSetPut = True"
| "Mutates PrimitiveScoredSetRemove = True"
| "Mutates PrimitiveListPushFront = True"
| "Mutates PrimitiveListPushBack = True"
| "Mutates PrimitiveListPopFront = True"
| "Mutates PrimitiveListPopBack = True"
| "Mutates PrimitiveBitmapSetBit = True"
| "Mutates PrimitiveHLLAdd = True"
| "Mutates PrimitiveHLLMerge = True"
| "Mutates PrimitiveGeoAdd = True"
| "Mutates _ = False"

section \<open>Collection values\<close>

record colx =
  marshalMap :: "(string, bytes) fmap \<Rightarrow> bytes option"
  unmarshalMap :: "bytes \<Rightarrow> (string, bytes) fmap option"
  marshalSet :: "string fset \<Rightarrow> bytes option"
  unmarshalSet :: "bytes \<Rightarrow> string fset option"
  marshalScores :: "(string, float64) fmap \<Rightarrow> bytes option"
  unmarshalScores :: "bytes \<Rightarrow> (string, float64) fmap option"
  marshalList :: "bytes list \<Rightarrow> bytes option"
  unmarshalList :: "bytes \<Rightarrow> bytes list option"
  marshalBits :: "int fset \<Rightarrow> bytes option"
  unmarshalBits :: "bytes \<Rightarrow> int fset option"
  marshalGeo :: "(string, GeoPoint) fmap \<Rightarrow> bytes option"
  unmarshalGeo :: "bytes \<Rightarrow> (string, GeoPoint) fmap option"
  listRemoveAt :: "bytes list \<Rightarrow> int \<Rightarrow> (bytes \<times> bytes list) option"
  geoDistanceMeters :: "GeoPoint \<Rightarrow> GeoPoint \<Rightarrow> float64"

datatype collectionKind =
    collectionKindMap | collectionKindSet | collectionKindScoredSet | collectionKindList
  | collectionKindBitmap | collectionKindHLL | collectionKindGeo

fun kindByte :: "collectionKind \<Rightarrow> u8" where
  "kindByte collectionKindMap = 1"
| "kindByte collectionKindSet = 2"
| "kindByte collectionKindScoredSet = 3"
| "kindByte collectionKindList = 4"
| "kindByte collectionKindBitmap = 5"
| "kindByte collectionKindHLL = 6"
| "kindByte collectionKindGeo = 7"

definition collectionValuePrefix :: bytes where
  "collectionValuePrefix = bytes_of_string ''nspac1''"

definition encodeCollectionBody :: "collectionKind \<Rightarrow> bytes \<Rightarrow> bytes" where
  "encodeCollectionBody kind body = collectionValuePrefix @ [kindByte kind] @ body"

definition decodeCollectionBody :: "bytes \<Rightarrow> collectionKind \<Rightarrow> engine_error + bytes" where
  "decodeCollectionBody raw expected =
     (let prefixSize = length collectionValuePrefix in
      if length raw \<le> prefixSize \<or> take prefixSize raw \<noteq> collectionValuePrefix
      then Inl (ErrInvalidCollection ''missing collection prefix'')
      else if raw ! prefixSize \<noteq> kindByte expected
      then Inl (ErrInvalidCollection ''collection kind mismatch'')
      else Inr (drop (prefixSize + 1) raw))"

text \<open>The seven encode and decode functions differ in the kind and the library call only.\<close>

definition encodeColl :: "collectionKind \<Rightarrow> ('c \<Rightarrow> bytes option) \<Rightarrow> 'c \<Rightarrow> engine_error + bytes" where
  "encodeColl kind marshal c =
     (case marshal c of
        None \<Rightarrow> Inl (ErrInvalidCollection ''encode collection'')
      | Some body \<Rightarrow> Inr (encodeCollectionBody kind body))"

definition decodeColl :: "collectionKind \<Rightarrow> (bytes \<Rightarrow> 'c option) \<Rightarrow> bytes \<Rightarrow> engine_error + 'c" where
  "decodeColl kind unmarshal raw =
     (case decodeCollectionBody raw kind of
        Inl err \<Rightarrow> Inl err
      | Inr body \<Rightarrow>
          (case unmarshal body of
             None \<Rightarrow> Inl (ErrInvalidCollection ''decode collection'')
           | Some c \<Rightarrow> Inr c))"

definition encodeMapCollection :: "colx \<Rightarrow> (string, bytes) fmap \<Rightarrow> engine_error + bytes" where
  "encodeMapCollection cx = encodeColl collectionKindMap (marshalMap cx)"

definition decodeMapCollection :: "colx \<Rightarrow> bytes \<Rightarrow> engine_error + (string, bytes) fmap" where
  "decodeMapCollection cx = decodeColl collectionKindMap (unmarshalMap cx)"

definition encodeSetCollection :: "colx \<Rightarrow> string fset \<Rightarrow> engine_error + bytes" where
  "encodeSetCollection cx = encodeColl collectionKindSet (marshalSet cx)"

definition decodeSetCollection :: "colx \<Rightarrow> bytes \<Rightarrow> engine_error + string fset" where
  "decodeSetCollection cx = decodeColl collectionKindSet (unmarshalSet cx)"

definition encodeScoredSetCollection :: "colx \<Rightarrow> (string, float64) fmap \<Rightarrow> engine_error + bytes" where
  "encodeScoredSetCollection cx = encodeColl collectionKindScoredSet (marshalScores cx)"

definition decodeScoredSetCollection :: "colx \<Rightarrow> bytes \<Rightarrow> engine_error + (string, float64) fmap" where
  "decodeScoredSetCollection cx = decodeColl collectionKindScoredSet (unmarshalScores cx)"

definition encodeListCollection :: "colx \<Rightarrow> bytes list \<Rightarrow> engine_error + bytes" where
  "encodeListCollection cx = encodeColl collectionKindList (marshalList cx)"

definition decodeListCollection :: "colx \<Rightarrow> bytes \<Rightarrow> engine_error + bytes list" where
  "decodeListCollection cx = decodeColl collectionKindList (unmarshalList cx)"

definition encodeBitmapCollection :: "colx \<Rightarrow> int fset \<Rightarrow> engine_error + bytes" where
  "encodeBitmapCollection cx = encodeColl collectionKindBitmap (marshalBits cx)"

definition decodeBitmapCollection :: "colx \<Rightarrow> bytes \<Rightarrow> engine_error + int fset" where
  "decodeBitmapCollection cx = decodeColl collectionKindBitmap (unmarshalBits cx)"

definition encodeHLLCollection :: "colx \<Rightarrow> string fset \<Rightarrow> engine_error + bytes" where
  "encodeHLLCollection cx = encodeColl collectionKindHLL (marshalSet cx)"

definition decodeHLLCollection :: "colx \<Rightarrow> bytes \<Rightarrow> engine_error + string fset" where
  "decodeHLLCollection cx = decodeColl collectionKindHLL (unmarshalSet cx)"

definition encodeGeoCollection :: "colx \<Rightarrow> (string, GeoPoint) fmap \<Rightarrow> engine_error + bytes" where
  "encodeGeoCollection cx = encodeColl collectionKindGeo (marshalGeo cx)"

definition decodeGeoCollection :: "colx \<Rightarrow> bytes \<Rightarrow> engine_error + (string, GeoPoint) fmap" where
  "decodeGeoCollection cx = decodeColl collectionKindGeo (unmarshalGeo cx)"


section \<open>Reading and writing the entry of a primitive\<close>

definition primitiveGetOptions :: "PrimitiveOptions \<Rightarrow> GetOptions" where
  "primitiveGetOptions opts =
     \<lparr>go_NamespaceVersion = po_NamespaceVersion opts, go_SpaceVersion = po_SpaceVersion opts\<rparr>"

definition primitiveExpireAt :: "PrimitiveOptions \<Rightarrow> gotime \<Rightarrow> gotime \<Rightarrow> gotime" where
  "primitiveExpireAt opts now existing = (if po_TTL opts > 0 then now + po_TTL opts else existing)"

definition primitiveWriteResult :: "entry \<Rightarrow> u64 \<Rightarrow> PrimitiveResult" where
  "primitiveWriteResult ent cnt =
     zeroPrimitiveResult\<lparr>ps_Record := entryRecord ent, ps_Found := True, ps_Applied := True,
       ps_Count := cnt\<rparr>"

definition primitiveMiss :: shardResult where
  "primitiveMiss = zeroResult\<lparr>x_primitive := zeroPrimitiveResult\<rparr>"

definition primitiveExpectedVersionMatches :: "entry option \<Rightarrow> u64 \<Rightarrow> bool" where
  "primitiveExpectedVersionMatches ent expected =
     (if expected = 0 then True
      else case ent of None \<Rightarrow> False | Some e \<Rightarrow> e_version e = expected)"

definition readPrimitiveEntry :: "shardWorker \<Rightarrow> shardCommand \<Rightarrow> shardWorker \<times> entry option" where
  "readPrimitiveEntry s cmd =
     (case fmlookup (entries s) (c_physical cmd) of
        None \<Rightarrow> (s, None)
      | Some ent \<Rightarrow>
          if expired ent (c_now cmd) then (deleteEntry s (c_physical cmd) ent, None)
          else if \<not> visible ent (primitiveGetOptions (pr_Options (c_primitive cmd))) then (s, None)
          else
            let ent = ent\<lparr>e_lastAccessAt := c_now cmd, e_accessCount := e_accessCount ent + 1\<rparr>
            in (s\<lparr>entries := fmupd (c_physical cmd) ent (entries s)\<rparr>, Some ent))"

text \<open>\<open>None\<close>: the expected version does not match. \<open>Some None\<close>: there is no entry.\<close>

definition mutablePrimitiveEntry ::
  "shardWorker \<Rightarrow> shardCommand \<Rightarrow> shardWorker \<times> entry option option" where
  "mutablePrimitiveEntry s cmd =
     (let ent = fmlookup (entries s) (c_physical cmd) in
      case ent of
        Some e \<Rightarrow>
          if expired e (c_now cmd) then (deleteEntry s (c_physical cmd) e, Some None)
          else if \<not> primitiveExpectedVersionMatches ent (po_ExpectedVersion (pr_Options (c_primitive cmd)))
          then (s, None) else (s, Some ent)
      | None \<Rightarrow>
          if \<not> primitiveExpectedVersionMatches ent (po_ExpectedVersion (pr_Options (c_primitive cmd)))
          then (s, None) else (s, Some None))"

definition replacePrimitiveEntry ::
  "shardWorker \<Rightarrow> entry \<Rightarrow> shardCommand \<Rightarrow> bytes \<Rightarrow> gotime \<Rightarrow> shardWorker \<times> entry" where
  "replacePrimitiveEntry s ent cmd value expireAt =
     (let cost = costOf (c_key cmd) value;
          s = replaceEntryCost s (e_key ent) (e_costBytes ent) cost;
          opts = pr_Options (c_primitive cmd);
          ent = ent\<lparr>e_value := value,
                  e_version := e_version ent + 1,
                  e_namespaceVersion := po_NamespaceVersion opts,
                  e_spaceVersion := po_SpaceVersion opts,
                  e_expireAt := expireAt,
                  e_updatedAt := c_now cmd,
                  e_lastAccessAt := c_now cmd,
                  e_accessCount := e_accessCount ent + 1,
                  e_costBytes := cost\<rparr>
      in (s\<lparr>entries := fmupd (c_physical cmd) ent (entries s)\<rparr>, ent))"

definition writePrimitiveEntry ::
  "shardWorker \<Rightarrow> shardCommand \<Rightarrow> entry \<Rightarrow> bytes \<Rightarrow> u64 \<Rightarrow> shardWorker \<times> PrimitiveResult" where
  "writePrimitiveEntry s cmd ent value cnt =
     (if e_value ent = value then (s, primitiveWriteResult ent cnt)
      else
        let expireAt = primitiveExpireAt (pr_Options (c_primitive cmd)) (c_now cmd) (e_expireAt ent);
            (s, ent) = replacePrimitiveEntry s ent cmd value expireAt
        in (s, primitiveWriteResult ent cnt))"

definition createPrimitiveEntry ::
  "shardWorker \<Rightarrow> shardCommand \<Rightarrow> bytes \<Rightarrow> u64 \<Rightarrow> shardWorker \<times> PrimitiveResult" where
  "createPrimitiveEntry s cmd value cnt =
     (let opts = pr_Options (c_primitive cmd);
          expireAt = primitiveExpireAt opts (c_now cmd) 0;
          cost = costOf (c_key cmd) value;
          ent = \<lparr>e_key = c_key cmd, e_value = value, e_version = 1,
                 e_namespaceVersion = po_NamespaceVersion opts,
                 e_spaceVersion = po_SpaceVersion opts, e_expireAt = expireAt,
                 e_createdAt = c_now cmd, e_updatedAt = c_now cmd, e_lastAccessAt = c_now cmd,
                 e_accessCount = 1, e_costBytes = cost\<rparr>
      in (storeEntry s (c_physical cmd) ent, primitiveWriteResult ent cnt))"

text \<open>
  The \<open>mutable\<close>, \<open>read\<close> and \<open>write\<close> functions of each collection type share their text but for the
  type; \<open>withColl\<close> is the \<open>if err != nil || !ok\<close> return that follows each of them.
\<close>

definition mutableColl ::
  "(bytes \<Rightarrow> engine_error + 'c) \<Rightarrow> 'c \<Rightarrow> shardWorker \<Rightarrow> shardCommand \<Rightarrow>
     shardWorker \<times> (engine_error + ('c \<times> entry option) option)" where
  "mutableColl decode fresh s cmd =
     (case mutablePrimitiveEntry s cmd of
        (s, None) \<Rightarrow> (s, Inr None)
      | (s, Some None) \<Rightarrow> (s, Inr (Some (fresh, None)))
      | (s, Some (Some ent)) \<Rightarrow>
          (case decode (e_value ent) of
             Inl err \<Rightarrow> (s, Inl err)
           | Inr c \<Rightarrow> (s, Inr (Some (c, Some ent)))))"

definition readColl ::
  "(bytes \<Rightarrow> engine_error + 'c) \<Rightarrow> shardWorker \<Rightarrow> shardCommand \<Rightarrow>
     shardWorker \<times> (engine_error + ('c \<times> entry) option)" where
  "readColl decode s cmd =
     (case readPrimitiveEntry s cmd of
        (s, None) \<Rightarrow> (s, Inr None)
      | (s, Some ent) \<Rightarrow>
          (case decode (e_value ent) of
             Inl err \<Rightarrow> (s, Inl err)
           | Inr c \<Rightarrow> (s, Inr (Some (c, ent)))))"

definition writeColl ::
  "('c \<Rightarrow> engine_error + bytes) \<Rightarrow> ('c \<Rightarrow> nat) \<Rightarrow> shardWorker \<Rightarrow> shardCommand \<Rightarrow> entry option \<Rightarrow>
     'c \<Rightarrow> shardWorker \<times> shardResult" where
  "writeColl encode len s cmd ent c =
     (case encode c of
        Inl err \<Rightarrow> (s, zeroResult\<lparr>x_err := Some err\<rparr>)
      | Inr value \<Rightarrow>
          let (s, r) = (case ent of
                None \<Rightarrow> createPrimitiveEntry s cmd value (checkedUint64 (int (len c)))
              | Some e \<Rightarrow> writePrimitiveEntry s cmd e value (checkedUint64 (int (len c))))
          in (s, zeroResult\<lparr>x_primitive := r\<rparr>))"

definition withColl ::
  "shardWorker \<times> (engine_error + 'a option) \<Rightarrow> (shardWorker \<Rightarrow> 'a \<Rightarrow> shardWorker \<times> shardResult) \<Rightarrow>
     shardWorker \<times> shardResult" where
  "withColl r k =
     (case r of
        (s, Inl err) \<Rightarrow> (s, zeroResult\<lparr>x_err := Some err\<rparr>)
      | (s, Inr None) \<Rightarrow> (s, zeroResult)
      | (s, Inr (Some x)) \<Rightarrow> k s x)"

definition setBool :: "bool \<Rightarrow> shardWorker \<times> shardResult \<Rightarrow> shardWorker \<times> shardResult" where
  "setBool b = (\<lambda>(s, r). (s, r\<lparr>x_primitive := (x_primitive r)\<lparr>ps_Bool := b\<rparr>\<rparr>))"

definition unchanged :: "shardWorker \<Rightarrow> entry \<Rightarrow> nat \<Rightarrow> shardWorker \<times> shardResult" where
  "unchanged s ent n =
     (s, zeroResult\<lparr>x_primitive := primitiveWriteResult ent (checkedUint64 (int n))\<rparr>)"

definition fmcount :: "('k, 'v) fmap \<Rightarrow> nat" where
  "fmcount m = fcard (fmdom m)"

definition applyCounterPrimitive :: "shardWorker \<Rightarrow> shardCommand \<Rightarrow> shardWorker \<times> shardResult" where
  "applyCounterPrimitive s cmd =
     (let p = c_primitive cmd;
          next = cmd\<lparr>c_kind := commandAdjust,
            c_adjust := \<lparr>ao_Delta = pr_Delta p, ao_InitialValue = pr_InitialValue p,
              ao_TTL = po_TTL (pr_Options p),
              ao_NamespaceVersion = po_NamespaceVersion (pr_Options p),
              ao_SpaceVersion = po_SpaceVersion (pr_Options p),
              ao_ExpectedVersion = po_ExpectedVersion (pr_Options p)\<rparr>\<rparr>;
          (s, result) = applyAdjust s next
      in if x_err result \<noteq> None \<or> \<not> x_found result
         then (s, zeroResult\<lparr>x_err := x_err result\<rparr>)
         else (s, zeroResult\<lparr>x_primitive := zeroPrimitiveResult\<lparr>ps_Record := x_record result,
                ps_Found := True, ps_Applied := True, ps_Value := r_Value (x_record result)\<rparr>\<rparr>))"

section \<open>Lemmas\<close>

text \<open>What the engine builds for a command that creates or changes an entry.\<close>

definition wf_command :: "shardCommand \<Rightarrow> bool" where
  "wf_command cmd \<longleftrightarrow> c_physical cmd = physicalKey (c_key cmd) \<and> validateKey (c_key cmd) = None"

lemma wf_commandD:
  "wf_command cmd \<Longrightarrow> c_physical cmd = physicalKey (c_key cmd)"
  "wf_command cmd \<Longrightarrow> validateKey (c_key cmd) = None"
  by (simp_all add: wf_command_def)

lemma decode_encodeCollectionBody [simp]:
  "decodeCollectionBody (encodeCollectionBody kind body) expected =
     (if kindByte kind = kindByte expected then Inr body
      else Inl (ErrInvalidCollection ''collection kind mismatch''))"
  by (simp add: decodeCollectionBody_def encodeCollectionBody_def Let_def nth_append)

lemma kindByte_inject [simp]: "kindByte a = kindByte b \<longleftrightarrow> a = b"
  by (cases a; cases b) simp_all

lemma decodeColl_encodeColl:
  assumes "\<And>c b. marshal c = Some b \<Longrightarrow> unmarshal b = Some c" and "encodeColl kind marshal c = Inr v"
  shows "decodeColl kind unmarshal v = Inr c"
  using assms by (auto simp: encodeColl_def decodeColl_def split: option.splits)

lemma readPrimitiveEntry_inv: "shard_inv s \<Longrightarrow> shard_inv (fst (readPrimitiveEntry s cmd))"
  by (auto simp: readPrimitiveEntry_def Let_def split: option.splits
      intro: deleteEntry_inv intro!: touchEntry_inv)

lemma mutablePrimitiveEntry_inv: "shard_inv s \<Longrightarrow> shard_inv (fst (mutablePrimitiveEntry s cmd))"
  by (auto simp: mutablePrimitiveEntry_def Let_def split: option.splits intro: deleteEntry_inv)

lemma mutablePrimitiveEntry_Some:
  "mutablePrimitiveEntry s cmd = (s', Some ent) \<Longrightarrow> fmlookup (entries s') (c_physical cmd) = ent"
  by (auto simp: mutablePrimitiveEntry_def Let_def split: option.splits if_splits)

lemma mutableColl_inv: "shard_inv s \<Longrightarrow> shard_inv (fst (mutableColl decode c s cmd))"
  using mutablePrimitiveEntry_inv [of s cmd]
  by (auto simp: mutableColl_def split: prod.splits option.splits sum.splits)

lemma mutableColl_Some:
  "mutableColl decode c s cmd = (s', Inr (Some (x, ent))) \<Longrightarrow>
     fmlookup (entries s') (c_physical cmd) = ent"
  by (auto simp: mutableColl_def split: prod.splits option.splits sum.splits
      dest: mutablePrimitiveEntry_Some)

lemma readColl_inv: "shard_inv s \<Longrightarrow> shard_inv (fst (readColl decode s cmd))"
  using readPrimitiveEntry_inv [of s cmd]
  by (auto simp: readColl_def split: prod.splits option.splits sum.splits)

lemma createPrimitiveEntry_inv:
  assumes "shard_inv s" and "wf_command cmd" and "fmlookup (entries s) (c_physical cmd) = None"
  shows "shard_inv (fst (createPrimitiveEntry s cmd value cnt))"
  using assms
  by (auto simp: createPrimitiveEntry_def Let_def wf_entry_def wf_commandD intro!: storeEntry_inv)

lemma writePrimitiveEntry_inv:
  assumes "shard_inv s" and "wf_command cmd" and "fmlookup (entries s) (c_physical cmd) = Some e"
  shows "shard_inv (fst (writePrimitiveEntry s cmd e value cnt))"
proof -
  have "e_key e = c_key cmd"
    using assms spaceKeyOf_lookup [of s "c_key cmd" e] by (simp add: wf_commandD)
  with assms show ?thesis
    by (auto simp: writePrimitiveEntry_def replacePrimitiveEntry_def Let_def wf_entry_def wf_commandD
        intro!: rewriteEntry_inv)
qed

lemma writeColl_inv:
  assumes "shard_inv s" and "wf_command cmd" and "fmlookup (entries s) (c_physical cmd) = ent"
  shows "shard_inv (fst (writeColl encode len s cmd ent c))"
  using assms createPrimitiveEntry_inv [OF assms(1,2)] writePrimitiveEntry_inv [OF assms(1,2)]
  by (auto simp: writeColl_def split_beta split: sum.splits option.splits)

lemma fst_setBool [simp]: "fst (setBool b r) = fst r"
  by (simp add: setBool_def split_beta)

lemma fst_unchanged [simp]: "fst (unchanged s e n) = s"
  by (simp add: unchanged_def)

lemma withColl_inv:
  assumes "shard_inv (fst r)"
    and "\<And>s x. r = (s, Inr (Some x)) \<Longrightarrow> shard_inv s \<Longrightarrow> shard_inv (fst (k s x))"
  shows "shard_inv (fst (withColl r k))"
  using assms by (auto simp: withColl_def split: prod.splits sum.splits option.splits)

lemma withColl_mutable_inv:
  assumes "shard_inv s"
    and "\<And>s' x ent. shard_inv s' \<Longrightarrow> fmlookup (entries s') (c_physical cmd) = ent \<Longrightarrow>
      shard_inv (fst (k s' (x, ent)))"
  shows "shard_inv (fst (withColl (mutableColl decode c s cmd) k))"
  by (rule withColl_inv) (auto simp: mutableColl_inv assms dest: mutableColl_Some)

lemma withColl_read_inv:
  assumes "shard_inv s" and "\<And>s' x. fst (k s' x) = s'"
  shows "shard_inv (fst (withColl (readColl decode s cmd) k))"
  by (rule withColl_inv) (auto simp: readColl_inv assms)

lemma applyCounterPrimitive_inv:
  assumes "shard_inv s" and "wf_command cmd"
  shows "shard_inv (fst (applyCounterPrimitive s cmd))"
  using assms applyAdjust_inv [OF assms(1)]
  by (simp add: applyCounterPrimitive_def Let_def split_beta wf_commandD)

end
