(* ===== verification/Primitive_Handlers.thy ===== *)
theory Primitive_Handlers
  imports Primitives
begin

text \<open>
  The handler of each primitive kind, and the table that dispatches on the kind. Every mutating
  handler reads the collection with its \<open>mutable\<close> function, changes it and writes it back with its
  \<open>write\<close> function; every reading handler uses its \<open>read\<close> function.
\<close>

section \<open>Maps\<close>

definition mutableMap :: "colx \<Rightarrow> shardWorker \<Rightarrow> shardCommand \<Rightarrow>
    shardWorker \<times> (engine_error + ((string, bytes) fmap \<times> entry option) option)" where
  "mutableMap cx = mutableColl (decodeMapCollection cx) fmempty"

definition readMap :: "colx \<Rightarrow> shardWorker \<Rightarrow> shardCommand \<Rightarrow>
    shardWorker \<times> (engine_error + ((string, bytes) fmap \<times> entry) option)" where
  "readMap cx = readColl (decodeMapCollection cx)"

definition writeMapCollection :: "colx \<Rightarrow> shardWorker \<Rightarrow> shardCommand \<Rightarrow> entry option \<Rightarrow>
    (string, bytes) fmap \<Rightarrow> shardWorker \<times> shardResult" where
  "writeMapCollection cx = writeColl (encodeMapCollection cx) fmcount"

definition sameMapField :: "(string, bytes) fmap \<Rightarrow> string \<Rightarrow> bytes \<Rightarrow> bool" where
  "sameMapField flds field value \<longleftrightarrow>
     (case fmlookup flds field of None \<Rightarrow> False | Some current \<Rightarrow> current = value)"

definition mapFields :: "(string, bytes) fmap \<Rightarrow> MapField list" where
  "mapFields flds = map (\<lambda>(f, v). \<lparr>mf_Field = f, mf_Value = v\<rparr>) (sorted_list_of_fmap flds)"

definition applyMapSet :: "colx \<Rightarrow> shardWorker \<Rightarrow> shardCommand \<Rightarrow> shardWorker \<times> shardResult" where
  "applyMapSet cx s cmd = withColl (mutableMap cx s cmd) (\<lambda>s (flds, ent).
     let p = c_primitive cmd in
     case ent of
       Some e \<Rightarrow>
         if sameMapField flds (pr_Field p) (pr_Value p) then unchanged s e (fmcount flds)
         else writeMapCollection cx s cmd ent (fmupd (pr_Field p) (pr_Value p) flds)
     | None \<Rightarrow> writeMapCollection cx s cmd ent (fmupd (pr_Field p) (pr_Value p) flds))"

definition applyMapGet :: "colx \<Rightarrow> shardWorker \<Rightarrow> shardCommand \<Rightarrow> shardWorker \<times> shardResult" where
  "applyMapGet cx s cmd = withColl (readMap cx s cmd) (\<lambda>s (flds, ent).
     let value = fmlookup flds (pr_Field (c_primitive cmd));
         result = zeroPrimitiveResult\<lparr>ps_Record := entryRecord ent, ps_Found := (value \<noteq> None),
           ps_Count := checkedUint64 (int (fmcount flds))\<rparr>;
         result = (case value of None \<Rightarrow> result | Some v \<Rightarrow> result\<lparr>ps_Value := v\<rparr>)
     in (s, zeroResult\<lparr>x_primitive := result\<rparr>))"

definition applyMapDelete :: "colx \<Rightarrow> shardWorker \<Rightarrow> shardCommand \<Rightarrow> shardWorker \<times> shardResult" where
  "applyMapDelete cx s cmd = withColl (mutableMap cx s cmd) (\<lambda>s (flds, ent).
     case ent of
       None \<Rightarrow> (s, primitiveMiss)
     | Some e \<Rightarrow>
         if fmlookup flds (pr_Field (c_primitive cmd)) = None
         then setBool False (unchanged s e (fmcount flds))
         else setBool True (writeMapCollection cx s cmd ent
                (fmdrop (pr_Field (c_primitive cmd)) flds)))"

definition applyMapGetAll :: "colx \<Rightarrow> shardWorker \<Rightarrow> shardCommand \<Rightarrow> shardWorker \<times> shardResult" where
  "applyMapGetAll cx s cmd = withColl (readMap cx s cmd) (\<lambda>s (flds, ent).
     (s, zeroResult\<lparr>x_primitive := zeroPrimitiveResult\<lparr>ps_Record := entryRecord ent, ps_Found := True,
        ps_Count := checkedUint64 (int (fmcount flds)), ps_Fields := mapFields flds\<rparr>\<rparr>))"

section \<open>Sets\<close>

definition mutableSet :: "colx \<Rightarrow> shardWorker \<Rightarrow> shardCommand \<Rightarrow>
    shardWorker \<times> (engine_error + (string fset \<times> entry option) option)" where
  "mutableSet cx = mutableColl (decodeSetCollection cx) {||}"

definition readSet :: "colx \<Rightarrow> shardWorker \<Rightarrow> shardCommand \<Rightarrow>
    shardWorker \<times> (engine_error + (string fset \<times> entry) option)" where
  "readSet cx = readColl (decodeSetCollection cx)"

definition writeSetCollection :: "colx \<Rightarrow> shardWorker \<Rightarrow> shardCommand \<Rightarrow> entry option \<Rightarrow>
    string fset \<Rightarrow> shardWorker \<times> shardResult" where
  "writeSetCollection cx = writeColl (encodeSetCollection cx) fcard"

definition sortedMembers :: "string fset \<Rightarrow> string list" where
  "sortedMembers members = sorted_list_of_fset members"

definition applySetAdd :: "colx \<Rightarrow> shardWorker \<Rightarrow> shardCommand \<Rightarrow> shardWorker \<times> shardResult" where
  "applySetAdd cx s cmd = withColl (mutableSet cx s cmd) (\<lambda>s (members, ent).
     let m = pr_Member (c_primitive cmd) in
     case ent of
       Some e \<Rightarrow>
         if m |\<in>| members then setBool False (unchanged s e (fcard members))
         else setBool True (writeSetCollection cx s cmd ent (finsert m members))
     | None \<Rightarrow> setBool True (writeSetCollection cx s cmd ent (finsert m members)))"

definition applySetRemove :: "colx \<Rightarrow> shardWorker \<Rightarrow> shardCommand \<Rightarrow> shardWorker \<times> shardResult" where
  "applySetRemove cx s cmd = withColl (mutableSet cx s cmd) (\<lambda>s (members, ent).
     let m = pr_Member (c_primitive cmd) in
     case ent of
       None \<Rightarrow> (s, primitiveMiss)
     | Some e \<Rightarrow>
         if m |\<notin>| members then setBool False (unchanged s e (fcard members))
         else setBool True (writeSetCollection cx s cmd ent (members |-| {|m|})))"

definition applySetContains :: "colx \<Rightarrow> shardWorker \<Rightarrow> shardCommand \<Rightarrow> shardWorker \<times> shardResult" where
  "applySetContains cx s cmd = withColl (readSet cx s cmd) (\<lambda>s (members, ent).
     (s, zeroResult\<lparr>x_primitive := zeroPrimitiveResult\<lparr>ps_Record := entryRecord ent, ps_Found := True,
        ps_Bool := (pr_Member (c_primitive cmd) |\<in>| members),
        ps_Count := checkedUint64 (int (fcard members))\<rparr>\<rparr>))"

definition applySetMembers :: "colx \<Rightarrow> shardWorker \<Rightarrow> shardCommand \<Rightarrow> shardWorker \<times> shardResult" where
  "applySetMembers cx s cmd = withColl (readSet cx s cmd) (\<lambda>s (members, ent).
     (s, zeroResult\<lparr>x_primitive := zeroPrimitiveResult\<lparr>ps_Record := entryRecord ent, ps_Found := True,
        ps_Count := checkedUint64 (int (fcard members)), ps_Members := sortedMembers members\<rparr>\<rparr>))"

section \<open>Scored sets\<close>

definition mutableScoredSet :: "colx \<Rightarrow> shardWorker \<Rightarrow> shardCommand \<Rightarrow>
    shardWorker \<times> (engine_error + ((string, float64) fmap \<times> entry option) option)" where
  "mutableScoredSet cx = mutableColl (decodeScoredSetCollection cx) fmempty"

definition readScoredSet :: "colx \<Rightarrow> shardWorker \<Rightarrow> shardCommand \<Rightarrow>
    shardWorker \<times> (engine_error + ((string, float64) fmap \<times> entry) option)" where
  "readScoredSet cx = readColl (decodeScoredSetCollection cx)"

definition writeScoredSetCollection :: "colx \<Rightarrow> shardWorker \<Rightarrow> shardCommand \<Rightarrow> entry option \<Rightarrow>
    (string, float64) fmap \<Rightarrow> shardWorker \<times> shardResult" where
  "writeScoredSetCollection cx = writeColl (encodeScoredSetCollection cx) fmcount"

text \<open>Stored scores are finite (\<open>validateScoredSetPut\<close>), so the order of the sort is total.\<close>

definition sortScored :: "ScoredMember list \<Rightarrow> ScoredMember list" where
  "sortScored items = sort_key (\<lambda>m. (f64_key (sm_Score m), sm_Member m)) items"

definition sortedScoredMembers :: "(string, float64) fmap \<Rightarrow> ScoredMember list" where
  "sortedScoredMembers scores =
     sortScored (map (\<lambda>(m, x). \<lparr>sm_Member = m, sm_Score = x\<rparr>) (sorted_list_of_fmap scores))"

fun filterScoredRange :: "ScoredMember list \<Rightarrow> PrimitiveRequest \<Rightarrow> ScoredMember list" where
  "filterScoredRange [] request = []"
| "filterScoredRange (item # items) request =
     (if pr_HasMinScore request \<and> f64_lt (sm_Score item) (pr_MinScore request)
      then filterScoredRange items request
      else if pr_HasMaxScore request \<and> f64_lt (pr_MaxScore request) (sm_Score item)
      then filterScoredRange items request
      else item # filterScoredRange items request)"

function reverseLoop :: "ScoredMember list \<Rightarrow> nat \<Rightarrow> nat \<Rightarrow> ScoredMember list" where
  "reverseLoop items left right =
     (if left < right
      then reverseLoop (items[left := items ! right, right := items ! left]) (left + 1) (right - 1)
      else items)"
  by pat_completeness auto
termination
  by (relation "measure (\<lambda>(items, left, right). right - left)") auto

definition reverseScoredMembers :: "ScoredMember list \<Rightarrow> ScoredMember list" where
  "reverseScoredMembers items = reverseLoop items 0 (length items - 1)"

fun limitLoop :: "nat \<Rightarrow> nat \<Rightarrow> u64 \<Rightarrow> nat \<Rightarrow> nat" where
  "limitLoop 0 index limit end = end"
| "limitLoop (Suc n) index limit end =
     (if checkedUint64 (int index) \<ge> limit then end
      else limitLoop n (index + 1) limit (index + 1))"

definition limitScoredMembers :: "ScoredMember list \<Rightarrow> u64 \<Rightarrow> ScoredMember list" where
  "limitScoredMembers items limit =
     (if limit = 0 \<or> checkedUint64 (int (length items)) \<le> limit then items
      else take (limitLoop (length items) 0 limit 0) items)"

definition scoredRange :: "(string, float64) fmap \<Rightarrow> PrimitiveRequest \<Rightarrow> ScoredMember list" where
  "scoredRange scores request =
     (let items = sortedScoredMembers scores;
          items = filterScoredRange items request;
          items = (if pr_Reverse request then reverseScoredMembers items else items)
      in limitScoredMembers items (pr_Limit request))"

definition applyScoredSetPut :: "colx \<Rightarrow> shardWorker \<Rightarrow> shardCommand \<Rightarrow> shardWorker \<times> shardResult" where
  "applyScoredSetPut cx s cmd = withColl (mutableScoredSet cx s cmd) (\<lambda>s (scores, ent).
     let p = c_primitive cmd;
         current = fmlookup scores (pr_Member p);
         write = (\<lambda>_. setBool (current = None)
           (writeScoredSetCollection cx s cmd ent (fmupd (pr_Member p) (pr_Score p) scores)))
     in case (ent, current) of
          (Some e, Some x) \<Rightarrow>
            if f64_eq x (pr_Score p) then setBool False (unchanged s e (fmcount scores)) else write ()
        | _ \<Rightarrow> write ())"

definition applyScoredSetRemove :: "colx \<Rightarrow> shardWorker \<Rightarrow> shardCommand \<Rightarrow> shardWorker \<times> shardResult" where
  "applyScoredSetRemove cx s cmd = withColl (mutableScoredSet cx s cmd) (\<lambda>s (scores, ent).
     case ent of
       None \<Rightarrow> (s, primitiveMiss)
     | Some e \<Rightarrow>
         if fmlookup scores (pr_Member (c_primitive cmd)) = None
         then setBool False (unchanged s e (fmcount scores))
         else setBool True (writeScoredSetCollection cx s cmd ent
                (fmdrop (pr_Member (c_primitive cmd)) scores)))"

definition applyScoredSetRange :: "colx \<Rightarrow> shardWorker \<Rightarrow> shardCommand \<Rightarrow> shardWorker \<times> shardResult" where
  "applyScoredSetRange cx s cmd = withColl (readScoredSet cx s cmd) (\<lambda>s (scores, ent).
     (s, zeroResult\<lparr>x_primitive := zeroPrimitiveResult\<lparr>ps_Record := entryRecord ent, ps_Found := True,
        ps_Count := checkedUint64 (int (fmcount scores)),
        ps_ScoredMembers := scoredRange scores (c_primitive cmd)\<rparr>\<rparr>))"

section \<open>Lists\<close>

definition mutableList :: "colx \<Rightarrow> shardWorker \<Rightarrow> shardCommand \<Rightarrow>
    shardWorker \<times> (engine_error + (bytes list \<times> entry option) option)" where
  "mutableList cx = mutableColl (decodeListCollection cx) []"

definition readList :: "colx \<Rightarrow> shardWorker \<Rightarrow> shardCommand \<Rightarrow>
    shardWorker \<times> (engine_error + (bytes list \<times> entry) option)" where
  "readList cx = readColl (decodeListCollection cx)"

definition writeListCollection :: "colx \<Rightarrow> shardWorker \<Rightarrow> shardCommand \<Rightarrow> entry option \<Rightarrow>
    bytes list \<Rightarrow> shardWorker \<times> shardResult" where
  "writeListCollection cx = writeColl (encodeListCollection cx) length"

definition applyListPush :: "colx \<Rightarrow> shardWorker \<Rightarrow> shardCommand \<Rightarrow> bool \<Rightarrow> shardWorker \<times> shardResult" where
  "applyListPush cx s cmd front = withColl (mutableList cx s cmd) (\<lambda>s (values, ent).
     let value = pr_Value (c_primitive cmd)
     in writeListCollection cx s cmd ent (if front then value # values else values @ [value]))"

definition applyListPushFront :: "colx \<Rightarrow> shardWorker \<Rightarrow> shardCommand \<Rightarrow> shardWorker \<times> shardResult" where
  "applyListPushFront cx s cmd = applyListPush cx s cmd True"

definition applyListPushBack :: "colx \<Rightarrow> shardWorker \<Rightarrow> shardCommand \<Rightarrow> shardWorker \<times> shardResult" where
  "applyListPushBack cx s cmd = applyListPush cx s cmd False"

definition applyListPop :: "colx \<Rightarrow> shardWorker \<Rightarrow> shardCommand \<Rightarrow> bool \<Rightarrow> shardWorker \<times> shardResult" where
  "applyListPop cx s cmd front = withColl (mutableList cx s cmd) (\<lambda>s (values, ent).
     case ent of
       None \<Rightarrow> (s, primitiveMiss)
     | Some e \<Rightarrow>
         let index = (if front then 0 else int (length values) - 1) in
         (case listRemoveAt cx values index of
            None \<Rightarrow>
              (s, zeroResult\<lparr>x_primitive := zeroPrimitiveResult\<lparr>ps_Record := entryRecord e,
                    ps_Count := checkedUint64 (int (length values))\<rparr>\<rparr>)
          | Some (value, values) \<Rightarrow>
              let (s, result) = writeListCollection cx s cmd ent values
              in (s, result\<lparr>x_primitive := (x_primitive result)\<lparr>ps_Value := value\<rparr>\<rparr>)))"

definition applyListPopFront :: "colx \<Rightarrow> shardWorker \<Rightarrow> shardCommand \<Rightarrow> shardWorker \<times> shardResult" where
  "applyListPopFront cx s cmd = applyListPop cx s cmd True"

definition applyListPopBack :: "colx \<Rightarrow> shardWorker \<Rightarrow> shardCommand \<Rightarrow> shardWorker \<times> shardResult" where
  "applyListPopBack cx s cmd = applyListPop cx s cmd False"

definition listStartIndex :: "int \<Rightarrow> nat \<Rightarrow> nat" where
  "listStartIndex start len =
     (if start < 0 then 0 else if start > int len then len else nat start)"

function listEndLoop :: "nat \<Rightarrow> u64 \<Rightarrow> nat \<Rightarrow> nat" where
  "listEndLoop end limit len =
     (if end < len \<and> limit > 0 then listEndLoop (end + 1) (limit - 1) len else end)"
  by pat_completeness auto
termination
  by (relation "measure (\<lambda>(end, limit, len). len - end)") auto

definition listEndIndex :: "nat \<Rightarrow> u64 \<Rightarrow> nat \<Rightarrow> nat" where
  "listEndIndex start limit len = (if limit = 0 then len else listEndLoop start limit len)"

definition listRangeValues :: "bytes list \<Rightarrow> PrimitiveRequest \<Rightarrow> bytes list" where
  "listRangeValues values request =
     (let items = (if pr_Reverse request then rev values else values);
          start = listStartIndex (pr_Start request) (length items)
      in if start \<ge> length items then []
         else take (listEndIndex start (pr_Limit request) (length items) - start) (drop start items))"

definition applyListRange :: "colx \<Rightarrow> shardWorker \<Rightarrow> shardCommand \<Rightarrow> shardWorker \<times> shardResult" where
  "applyListRange cx s cmd = withColl (readList cx s cmd) (\<lambda>s (values, ent).
     (s, zeroResult\<lparr>x_primitive := zeroPrimitiveResult\<lparr>ps_Record := entryRecord ent, ps_Found := True,
        ps_Count := checkedUint64 (int (length values)),
        ps_Values := listRangeValues values (c_primitive cmd)\<rparr>\<rparr>))"

section \<open>Bitmaps\<close>

definition mutableBitmap :: "colx \<Rightarrow> shardWorker \<Rightarrow> shardCommand \<Rightarrow>
    shardWorker \<times> (engine_error + (int fset \<times> entry option) option)" where
  "mutableBitmap cx = mutableColl (decodeBitmapCollection cx) {||}"

definition readBitmap :: "colx \<Rightarrow> shardWorker \<Rightarrow> shardCommand \<Rightarrow>
    shardWorker \<times> (engine_error + (int fset \<times> entry) option)" where
  "readBitmap cx = readColl (decodeBitmapCollection cx)"

definition writeBitmapCollection :: "colx \<Rightarrow> shardWorker \<Rightarrow> shardCommand \<Rightarrow> entry option \<Rightarrow>
    int fset \<Rightarrow> shardWorker \<times> shardResult" where
  "writeBitmapCollection cx = writeColl (encodeBitmapCollection cx) fcard"

definition applyBitmapSetBit :: "colx \<Rightarrow> shardWorker \<Rightarrow> shardCommand \<Rightarrow> shardWorker \<times> shardResult" where
  "applyBitmapSetBit cx s cmd = withColl (mutableBitmap cx s cmd) (\<lambda>s (bits, ent).
     let offset = pr_Delta (c_primitive cmd);
         previous = (offset |\<in>| bits);
         next = (pr_InitialValue (c_primitive cmd) = 1)
     in if previous = next then
          (case ent of
             Some e \<Rightarrow> setBool previous (unchanged s e (fcard bits))
           | None \<Rightarrow> (s, zeroResult\<lparr>x_primitive :=
                zeroPrimitiveResult\<lparr>ps_Applied := True, ps_Bool := previous\<rparr>\<rparr>))
        else setBool previous (writeBitmapCollection cx s cmd ent
               (if next then finsert offset bits else bits |-| {|offset|})))"

definition applyBitmapGetBit :: "colx \<Rightarrow> shardWorker \<Rightarrow> shardCommand \<Rightarrow> shardWorker \<times> shardResult" where
  "applyBitmapGetBit cx s cmd = withColl (readBitmap cx s cmd) (\<lambda>s (bits, ent).
     (s, zeroResult\<lparr>x_primitive := zeroPrimitiveResult\<lparr>ps_Record := entryRecord ent, ps_Found := True,
        ps_Bool := (pr_Delta (c_primitive cmd) |\<in>| bits),
        ps_Count := checkedUint64 (int (fcard bits))\<rparr>\<rparr>))"

fun bitmapCountLoop :: "u64 \<Rightarrow> u64 \<Rightarrow> u64 \<Rightarrow> int list \<Rightarrow> u64 \<Rightarrow> u64" where
  "bitmapCountLoop startValue end limit [] cnt = cnt"
| "bitmapCountLoop startValue end limit (b # bits) cnt =
     (let value = checkedUint64 b in
      if value < startValue then bitmapCountLoop startValue end limit bits cnt
      else if limit > 0 \<and> value \<ge> end then cnt
      else bitmapCountLoop startValue end limit bits (cnt + 1))"

definition bitmapCount :: "int fset \<Rightarrow> int \<Rightarrow> u64 \<Rightarrow> u64" where
  "bitmapCount bits start limit =
     (if limit = 0 \<and> start = 0 then checkedUint64 (int (fcard bits))
      else
        let startValue = checkedUint64 start;
            end = startValue + limit;
            end = (if end < startValue then - 1 else end)
        in bitmapCountLoop startValue end limit (sorted_list_of_fset bits) 0)"

definition applyBitmapBitCount :: "colx \<Rightarrow> shardWorker \<Rightarrow> shardCommand \<Rightarrow> shardWorker \<times> shardResult" where
  "applyBitmapBitCount cx s cmd = withColl (readBitmap cx s cmd) (\<lambda>s (bits, ent).
     (s, zeroResult\<lparr>x_primitive := zeroPrimitiveResult\<lparr>ps_Record := entryRecord ent, ps_Found := True,
        ps_Count := bitmapCount bits (pr_Start (c_primitive cmd)) (pr_Limit (c_primitive cmd))\<rparr>\<rparr>))"

section \<open>Distinct counters\<close>

definition mutableHLL :: "colx \<Rightarrow> shardWorker \<Rightarrow> shardCommand \<Rightarrow>
    shardWorker \<times> (engine_error + (string fset \<times> entry option) option)" where
  "mutableHLL cx = mutableColl (decodeHLLCollection cx) {||}"

definition readHLL :: "colx \<Rightarrow> shardWorker \<Rightarrow> shardCommand \<Rightarrow>
    shardWorker \<times> (engine_error + (string fset \<times> entry) option)" where
  "readHLL cx = readColl (decodeHLLCollection cx)"

definition writeHLLCollection :: "colx \<Rightarrow> shardWorker \<Rightarrow> shardCommand \<Rightarrow> entry option \<Rightarrow>
    string fset \<Rightarrow> shardWorker \<times> shardResult" where
  "writeHLLCollection cx = writeColl (encodeHLLCollection cx) fcard"

definition hexDigit :: "nat \<Rightarrow> char" where
  "hexDigit n = (if n < 10 then char_of (48 + n) else char_of (87 + n))"

definition hexByte :: "u8 \<Rightarrow> string" where
  "hexByte b = [hexDigit (unat b div 16), hexDigit (unat b mod 16)]"

definition hllHash :: "string \<Rightarrow> string" where
  "hllHash member = concat (map hexByte (put_u64 (fnv_write fnv_offset64 (bytes_of_string member))))"

fun splitZero :: "bytes \<Rightarrow> bytes \<Rightarrow> bytes list" where
  "splitZero acc [] = [acc]"
| "splitZero acc (b # bs) = (if b = 0 then acc # splitZero [] bs else splitZero (acc @ [b]) bs)"

definition decodeHLLHashes :: "bytes \<Rightarrow> string list" where
  "decodeHLLHashes raw =
     (if raw = [] then [] else map string_of_bytes (filter (\<lambda>p. p \<noteq> []) (splitZero [] raw)))"

definition applyHLLAdd :: "colx \<Rightarrow> shardWorker \<Rightarrow> shardCommand \<Rightarrow> shardWorker \<times> shardResult" where
  "applyHLLAdd cx s cmd = withColl (mutableHLL cx s cmd) (\<lambda>s (hashes, ent).
     let hash = hllHash (pr_Member (c_primitive cmd)) in
     case ent of
       Some e \<Rightarrow>
         if hash |\<in>| hashes then setBool False (unchanged s e (fcard hashes))
         else setBool True (writeHLLCollection cx s cmd ent (finsert hash hashes))
     | None \<Rightarrow> setBool True (writeHLLCollection cx s cmd ent (finsert hash hashes)))"

definition applyHLLCount :: "colx \<Rightarrow> shardWorker \<Rightarrow> shardCommand \<Rightarrow> shardWorker \<times> shardResult" where
  "applyHLLCount cx s cmd = withColl (readHLL cx s cmd) (\<lambda>s (hashes, ent).
     (s, zeroResult\<lparr>x_primitive := zeroPrimitiveResult\<lparr>ps_Record := entryRecord ent, ps_Found := True,
        ps_Count := checkedUint64 (int (fcard hashes))\<rparr>\<rparr>))"

definition applyHLLMerge :: "colx \<Rightarrow> shardWorker \<Rightarrow> shardCommand \<Rightarrow> shardWorker \<times> shardResult" where
  "applyHLLMerge cx s cmd = withColl (mutableHLL cx s cmd) (\<lambda>s (hashes, ent).
     writeHLLCollection cx s cmd ent
       (foldl (\<lambda>hs h. finsert h hs) hashes (decodeHLLHashes (pr_Value (c_primitive cmd)))))"

definition applyHLLMembers :: "colx \<Rightarrow> shardWorker \<Rightarrow> shardCommand \<Rightarrow> shardWorker \<times> shardResult" where
  "applyHLLMembers cx s cmd = withColl (readHLL cx s cmd) (\<lambda>s (hashes, ent).
     (s, zeroResult\<lparr>x_primitive := zeroPrimitiveResult\<lparr>ps_Record := entryRecord ent, ps_Found := True,
        ps_Count := checkedUint64 (int (fcard hashes)),
        ps_Members := sorted_list_of_fset hashes\<rparr>\<rparr>))"

section \<open>Geographic sets\<close>

definition mutableGeo :: "colx \<Rightarrow> shardWorker \<Rightarrow> shardCommand \<Rightarrow>
    shardWorker \<times> (engine_error + ((string, GeoPoint) fmap \<times> entry option) option)" where
  "mutableGeo cx = mutableColl (decodeGeoCollection cx) fmempty"

definition readGeo :: "colx \<Rightarrow> shardWorker \<Rightarrow> shardCommand \<Rightarrow>
    shardWorker \<times> (engine_error + ((string, GeoPoint) fmap \<times> entry) option)" where
  "readGeo cx = readColl (decodeGeoCollection cx)"

definition writeGeoCollection :: "colx \<Rightarrow> shardWorker \<Rightarrow> shardCommand \<Rightarrow> entry option \<Rightarrow>
    (string, GeoPoint) fmap \<Rightarrow> shardWorker \<times> shardResult" where
  "writeGeoCollection cx = writeColl (encodeGeoCollection cx) fmcount"

definition geoPointOf :: "PrimitiveRequest \<Rightarrow> GeoPoint" where
  "geoPointOf p = \<lparr>gp_Longitude = pr_Score p, gp_Latitude = pr_MinScore p\<rparr>"

definition applyGeoAdd :: "colx \<Rightarrow> shardWorker \<Rightarrow> shardCommand \<Rightarrow> shardWorker \<times> shardResult" where
  "applyGeoAdd cx s cmd = withColl (mutableGeo cx s cmd) (\<lambda>s (points, ent).
     let p = c_primitive cmd in
     setBool (fmlookup points (pr_Member p) = None)
       (writeGeoCollection cx s cmd ent (fmupd (pr_Member p) (geoPointOf p) points)))"

definition applyGeoDist :: "colx \<Rightarrow> shardWorker \<Rightarrow> shardCommand \<Rightarrow> shardWorker \<times> shardResult" where
  "applyGeoDist cx s cmd = withColl (readGeo cx s cmd) (\<lambda>s (points, ent).
     let p = c_primitive cmd in
     case (fmlookup points (pr_Member p), fmlookup points (pr_Field p)) of
       (Some left, Some right) \<Rightarrow>
         (s, zeroResult\<lparr>x_primitive := zeroPrimitiveResult\<lparr>ps_Record := entryRecord ent,
            ps_Found := True, ps_Count := 1,
            ps_ScoredMembers := [\<lparr>sm_Member = pr_Field p,
              sm_Score = geoDistanceMeters cx left right\<rparr>]\<rparr>\<rparr>)
     | _ \<Rightarrow> (s, zeroResult\<lparr>x_primitive :=
              zeroPrimitiveResult\<lparr>ps_Record := entryRecord ent, ps_Found := False\<rparr>\<rparr>))"

definition geoRadius ::
  "colx \<Rightarrow> (string, GeoPoint) fmap \<Rightarrow> GeoPoint \<Rightarrow> float64 \<Rightarrow> u64 \<Rightarrow> ScoredMember list" where
  "geoRadius cx points center radiusMeters limit =
     (let items = map (\<lambda>(m, pt). \<lparr>sm_Member = m, sm_Score = geoDistanceMeters cx center pt\<rparr>)
            (sorted_list_of_fmap points);
          items = filter (\<lambda>i. f64_le (sm_Score i) radiusMeters) items
      in limitScoredMembers (sortScored items) limit)"

definition applyGeoRadius :: "colx \<Rightarrow> shardWorker \<Rightarrow> shardCommand \<Rightarrow> shardWorker \<times> shardResult" where
  "applyGeoRadius cx s cmd = withColl (readGeo cx s cmd) (\<lambda>s (points, ent).
     (s, zeroResult\<lparr>x_primitive := zeroPrimitiveResult\<lparr>ps_Record := entryRecord ent, ps_Found := True,
        ps_Count := checkedUint64 (int (fmcount points)),
        ps_ScoredMembers := geoRadius cx points (geoPointOf (c_primitive cmd))
          (pr_MaxScore (c_primitive cmd)) (pr_Limit (c_primitive cmd))\<rparr>\<rparr>))"

section \<open>Dispatch\<close>

fun primitiveHandlers ::
  "colx \<Rightarrow> PrimitiveKind \<Rightarrow> shardWorker \<Rightarrow> shardCommand \<Rightarrow> shardWorker \<times> shardResult" where
  "primitiveHandlers cx PrimitiveCounterAdjust = applyCounterPrimitive"
| "primitiveHandlers cx PrimitiveMapSet = applyMapSet cx"
| "primitiveHandlers cx PrimitiveMapGet = applyMapGet cx"
| "primitiveHandlers cx PrimitiveMapDelete = applyMapDelete cx"
| "primitiveHandlers cx PrimitiveMapGetAll = applyMapGetAll cx"
| "primitiveHandlers cx PrimitiveSetAdd = applySetAdd cx"
| "primitiveHandlers cx PrimitiveSetRemove = applySetRemove cx"
| "primitiveHandlers cx PrimitiveSetContains = applySetContains cx"
| "primitiveHandlers cx PrimitiveSetMembers = applySetMembers cx"
| "primitiveHandlers cx PrimitiveScoredSetPut = applyScoredSetPut cx"
| "primitiveHandlers cx PrimitiveScoredSetRemove = applyScoredSetRemove cx"
| "primitiveHandlers cx PrimitiveScoredSetRange = applyScoredSetRange cx"
| "primitiveHandlers cx PrimitiveListPushFront = applyListPushFront cx"
| "primitiveHandlers cx PrimitiveListPushBack = applyListPushBack cx"
| "primitiveHandlers cx PrimitiveListPopFront = applyListPopFront cx"
| "primitiveHandlers cx PrimitiveListPopBack = applyListPopBack cx"
| "primitiveHandlers cx PrimitiveListRange = applyListRange cx"
| "primitiveHandlers cx PrimitiveBitmapSetBit = applyBitmapSetBit cx"
| "primitiveHandlers cx PrimitiveBitmapGetBit = applyBitmapGetBit cx"
| "primitiveHandlers cx PrimitiveBitmapBitCount = applyBitmapBitCount cx"
| "primitiveHandlers cx PrimitiveHLLAdd = applyHLLAdd cx"
| "primitiveHandlers cx PrimitiveHLLCount = applyHLLCount cx"
| "primitiveHandlers cx PrimitiveHLLMerge = applyHLLMerge cx"
| "primitiveHandlers cx PrimitiveHLLMembers = applyHLLMembers cx"
| "primitiveHandlers cx PrimitiveGeoAdd = applyGeoAdd cx"
| "primitiveHandlers cx PrimitiveGeoDist = applyGeoDist cx"
| "primitiveHandlers cx PrimitiveGeoRadius = applyGeoRadius cx"
| "primitiveHandlers cx (PrimitiveOther n) =
     (\<lambda>s cmd. (s, zeroResult\<lparr>x_err := Some (primitiveValidationError ''unknown kind'')\<rparr>))"

definition applyPrimitive :: "colx \<Rightarrow> shardWorker \<Rightarrow> shardCommand \<Rightarrow> shardWorker \<times> shardResult" where
  "applyPrimitive cx s cmd = primitiveHandlers cx (pr_Kind (c_primitive cmd)) s cmd"

section \<open>Every primitive keeps the invariant\<close>

lemmas mutable_defs = mutableMap_def mutableSet_def mutableScoredSet_def mutableList_def
  mutableBitmap_def mutableHLL_def mutableGeo_def

lemmas read_defs = readMap_def readSet_def readScoredSet_def readList_def readBitmap_def
  readHLL_def readGeo_def

lemmas write_defs = writeMapCollection_def writeSetCollection_def writeScoredSetCollection_def
  writeListCollection_def writeBitmapCollection_def writeHLLCollection_def writeGeoCollection_def

lemmas handler_defs = applyMapSet_def applyMapGet_def applyMapDelete_def applyMapGetAll_def
  applySetAdd_def applySetRemove_def applySetContains_def applySetMembers_def
  applyScoredSetPut_def applyScoredSetRemove_def applyScoredSetRange_def applyListPushFront_def
  applyListPushBack_def applyListPush_def applyListPopFront_def applyListPopBack_def
  applyListPop_def applyListRange_def applyBitmapSetBit_def applyBitmapGetBit_def
  applyBitmapBitCount_def applyHLLAdd_def applyHLLCount_def applyHLLMerge_def
  applyHLLMembers_def applyGeoAdd_def applyGeoDist_def applyGeoRadius_def

lemma applyPrimitive_inv:
  assumes "shard_inv s" and "wf_command cmd"
  shows "shard_inv (fst (applyPrimitive cx s cmd))"
  unfolding applyPrimitive_def using assms
  by (cases "pr_Kind (c_primitive cmd)")
    (auto simp: handler_defs mutable_defs read_defs write_defs Let_def split_beta applyCounterPrimitive_inv
      split: option.splits prod.splits
      intro!: withColl_mutable_inv withColl_read_inv intro: writeColl_inv)

end
