(* ===== verification/Primitive_Estimate.thy ===== *)
theory Primitive_Estimate
  imports Primitive_Handlers
begin

text \<open>
  The cost estimates the quota admission asks for (\<open>cache/engine/primitive_estimate.go\<close> and the
  \<open>primitive_*_estimate.go\<close> files): each runs its primitive on a decoded copy of the collection and
  reports the cost the entry has and the cost it would have.
\<close>

definition noEstimate :: "shardCommand \<Rightarrow> WriteEstimate" where
  "noEstimate cmd = zeroEstimate\<lparr>we_Key := c_key cmd\<rparr>"

definition unchangedPrimitiveEstimate :: "shardCommand \<Rightarrow> entry \<Rightarrow> WriteEstimate" where
  "unchangedPrimitiveEstimate cmd ent =
     \<lparr>we_Key = c_key cmd, we_Applied = True, we_OldCostBytes = e_costBytes ent,
      we_NewCostBytes = e_costBytes ent\<rparr>"

definition withEstimate ::
  "shardCommand \<Rightarrow> shardWorker \<times> (engine_error + 'a option) \<Rightarrow> ('a \<Rightarrow> shardResult) \<Rightarrow>
     shardWorker \<times> shardResult" where
  "withEstimate cmd r k =
     (case r of
        (s, Inl err) \<Rightarrow> (s, zeroResult\<lparr>x_err := Some err, x_estimate := noEstimate cmd\<rparr>)
      | (s, Inr None) \<Rightarrow> (s, zeroResult\<lparr>x_estimate := noEstimate cmd\<rparr>)
      | (s, Inr (Some x)) \<Rightarrow> (s, k x))"

text \<open>The map, set, scored set and list estimates drop the key on a failed encoding; the bitmap,
  distinct counter and geographic ones keep it.\<close>

definition estimateEncoded ::
  "shardCommand \<Rightarrow> entry option \<Rightarrow> WriteEstimate \<Rightarrow> engine_error + bytes \<Rightarrow> shardResult" where
  "estimateEncoded cmd ent onError value =
     (case value of
        Inl err \<Rightarrow> zeroResult\<lparr>x_err := Some err, x_estimate := onError\<rparr>
      | Inr v \<Rightarrow> zeroResult\<lparr>x_estimate := estimateWriteCost cmd ent v\<rparr>)"

definition estimateMapCollection ::
  "colx \<Rightarrow> shardCommand \<Rightarrow> (string, bytes) fmap \<Rightarrow> entry option \<Rightarrow> shardResult" where
  "estimateMapCollection cx cmd flds ent =
     estimateEncoded cmd ent zeroEstimate (encodeMapCollection cx flds)"

definition estimateMapSet ::
  "colx \<Rightarrow> shardCommand \<Rightarrow> (string, bytes) fmap \<Rightarrow> entry option \<Rightarrow> shardResult" where
  "estimateMapSet cx cmd flds ent =
     (let p = c_primitive cmd;
          write = (\<lambda>_. estimateMapCollection cx cmd (fmupd (pr_Field p) (pr_Value p) flds) ent)
      in case ent of
           Some e \<Rightarrow>
             if sameMapField flds (pr_Field p) (pr_Value p)
             then zeroResult\<lparr>x_estimate := unchangedPrimitiveEstimate cmd e\<rparr> else write ()
         | None \<Rightarrow> write ())"

definition estimateMapDelete ::
  "colx \<Rightarrow> shardCommand \<Rightarrow> (string, bytes) fmap \<Rightarrow> entry option \<Rightarrow> shardResult" where
  "estimateMapDelete cx cmd flds ent =
     (case ent of
        None \<Rightarrow> zeroResult\<lparr>x_estimate := noEstimate cmd\<rparr>
      | Some e \<Rightarrow>
          if fmlookup flds (pr_Field (c_primitive cmd)) = None
          then zeroResult\<lparr>x_estimate := unchangedPrimitiveEstimate cmd e\<rparr>
          else estimateMapCollection cx cmd (fmdrop (pr_Field (c_primitive cmd)) flds) ent)"

definition estimateMapPrimitive :: "colx \<Rightarrow> shardWorker \<Rightarrow> shardCommand \<Rightarrow> shardWorker \<times> shardResult" where
  "estimateMapPrimitive cx s cmd = withEstimate cmd (mutableMap cx s cmd) (\<lambda>(flds, ent).
     if pr_Kind (c_primitive cmd) = PrimitiveMapSet then estimateMapSet cx cmd flds ent
     else if pr_Kind (c_primitive cmd) = PrimitiveMapDelete then estimateMapDelete cx cmd flds ent
     else zeroResult\<lparr>x_err := Some (primitiveValidationError ''unknown map kind'')\<rparr>)"

definition estimateSetCollection ::
  "colx \<Rightarrow> shardCommand \<Rightarrow> string fset \<Rightarrow> entry option \<Rightarrow> shardResult" where
  "estimateSetCollection cx cmd members ent =
     estimateEncoded cmd ent zeroEstimate (encodeSetCollection cx members)"

definition estimateSetAdd ::
  "colx \<Rightarrow> shardCommand \<Rightarrow> string fset \<Rightarrow> entry option \<Rightarrow> shardResult" where
  "estimateSetAdd cx cmd members ent =
     (let m = pr_Member (c_primitive cmd);
          write = (\<lambda>_. estimateSetCollection cx cmd (finsert m members) ent)
      in case ent of
           Some e \<Rightarrow>
             if m |\<in>| members then zeroResult\<lparr>x_estimate := unchangedPrimitiveEstimate cmd e\<rparr>
             else write ()
         | None \<Rightarrow> write ())"

definition estimateSetRemove ::
  "colx \<Rightarrow> shardCommand \<Rightarrow> string fset \<Rightarrow> entry option \<Rightarrow> shardResult" where
  "estimateSetRemove cx cmd members ent =
     (let m = pr_Member (c_primitive cmd) in
      case ent of
        None \<Rightarrow> zeroResult\<lparr>x_estimate := noEstimate cmd\<rparr>
      | Some e \<Rightarrow>
          if m |\<notin>| members then zeroResult\<lparr>x_estimate := unchangedPrimitiveEstimate cmd e\<rparr>
          else estimateSetCollection cx cmd (members |-| {|m|}) ent)"

definition estimateSetPrimitive :: "colx \<Rightarrow> shardWorker \<Rightarrow> shardCommand \<Rightarrow> shardWorker \<times> shardResult" where
  "estimateSetPrimitive cx s cmd = withEstimate cmd (mutableSet cx s cmd) (\<lambda>(members, ent).
     if pr_Kind (c_primitive cmd) = PrimitiveSetAdd then estimateSetAdd cx cmd members ent
     else if pr_Kind (c_primitive cmd) = PrimitiveSetRemove then estimateSetRemove cx cmd members ent
     else zeroResult\<lparr>x_err := Some (primitiveValidationError ''unknown set kind'')\<rparr>)"

definition estimateScoredSetCollection ::
  "colx \<Rightarrow> shardCommand \<Rightarrow> (string, float64) fmap \<Rightarrow> entry option \<Rightarrow> shardResult" where
  "estimateScoredSetCollection cx cmd scores ent =
     estimateEncoded cmd ent zeroEstimate (encodeScoredSetCollection cx scores)"

definition estimateScoredSetPut ::
  "colx \<Rightarrow> shardCommand \<Rightarrow> (string, float64) fmap \<Rightarrow> entry option \<Rightarrow> shardResult" where
  "estimateScoredSetPut cx cmd scores ent =
     (let p = c_primitive cmd;
          current = fmlookup scores (pr_Member p);
          write = (\<lambda>_. estimateScoredSetCollection cx cmd (fmupd (pr_Member p) (pr_Score p) scores) ent)
      in case (ent, current) of
           (Some e, Some x) \<Rightarrow>
             if f64_eq x (pr_Score p)
             then zeroResult\<lparr>x_estimate := unchangedPrimitiveEstimate cmd e\<rparr> else write ()
         | _ \<Rightarrow> write ())"

definition estimateScoredSetRemove ::
  "colx \<Rightarrow> shardCommand \<Rightarrow> (string, float64) fmap \<Rightarrow> entry option \<Rightarrow> shardResult" where
  "estimateScoredSetRemove cx cmd scores ent =
     (case ent of
        None \<Rightarrow> zeroResult\<lparr>x_estimate := noEstimate cmd\<rparr>
      | Some e \<Rightarrow>
          if fmlookup scores (pr_Member (c_primitive cmd)) = None
          then zeroResult\<lparr>x_estimate := unchangedPrimitiveEstimate cmd e\<rparr>
          else estimateScoredSetCollection cx cmd (fmdrop (pr_Member (c_primitive cmd)) scores) ent)"

definition estimateScoredSetPrimitive ::
  "colx \<Rightarrow> shardWorker \<Rightarrow> shardCommand \<Rightarrow> shardWorker \<times> shardResult" where
  "estimateScoredSetPrimitive cx s cmd = withEstimate cmd (mutableScoredSet cx s cmd) (\<lambda>(scores, ent).
     if pr_Kind (c_primitive cmd) = PrimitiveScoredSetPut then estimateScoredSetPut cx cmd scores ent
     else if pr_Kind (c_primitive cmd) = PrimitiveScoredSetRemove
     then estimateScoredSetRemove cx cmd scores ent
     else zeroResult\<lparr>x_err := Some (primitiveValidationError ''unknown scored set kind'')\<rparr>)"

definition estimateListCollection ::
  "colx \<Rightarrow> shardCommand \<Rightarrow> bytes list \<Rightarrow> entry option \<Rightarrow> shardResult" where
  "estimateListCollection cx cmd values ent =
     estimateEncoded cmd ent zeroEstimate (encodeListCollection cx values)"

definition estimateListPush ::
  "colx \<Rightarrow> shardCommand \<Rightarrow> bytes list \<Rightarrow> entry option \<Rightarrow> bool \<Rightarrow> shardResult" where
  "estimateListPush cx cmd values ent front =
     (let value = pr_Value (c_primitive cmd)
      in estimateListCollection cx cmd (if front then value # values else values @ [value]) ent)"

definition estimateListPop ::
  "colx \<Rightarrow> shardCommand \<Rightarrow> bytes list \<Rightarrow> entry option \<Rightarrow> bool \<Rightarrow> shardResult" where
  "estimateListPop cx cmd values ent front =
     (case ent of
        None \<Rightarrow> zeroResult\<lparr>x_estimate := noEstimate cmd\<rparr>
      | Some e \<Rightarrow>
          let index = (if front then 0 else int (length values) - 1) in
          (case listRemoveAt cx values index of
             None \<Rightarrow> zeroResult\<lparr>x_estimate := unchangedPrimitiveEstimate cmd e\<rparr>
           | Some (_, values) \<Rightarrow> estimateListCollection cx cmd values ent))"

definition estimateListMutation ::
  "colx \<Rightarrow> shardCommand \<Rightarrow> bytes list \<Rightarrow> entry option \<Rightarrow> shardResult" where
  "estimateListMutation cx cmd values ent =
     (let kind = pr_Kind (c_primitive cmd) in
      if kind = PrimitiveListPushFront then estimateListPush cx cmd values ent True
      else if kind = PrimitiveListPushBack then estimateListPush cx cmd values ent False
      else if kind = PrimitiveListPopFront then estimateListPop cx cmd values ent True
      else if kind = PrimitiveListPopBack then estimateListPop cx cmd values ent False
      else zeroResult\<lparr>x_err := Some (primitiveValidationError ''unknown list kind'')\<rparr>)"

definition estimateListPrimitive :: "colx \<Rightarrow> shardWorker \<Rightarrow> shardCommand \<Rightarrow> shardWorker \<times> shardResult" where
  "estimateListPrimitive cx s cmd = withEstimate cmd (mutableList cx s cmd) (\<lambda>(values, ent).
     estimateListMutation cx cmd values ent)"

definition estimateBitmapPrimitive :: "colx \<Rightarrow> shardWorker \<Rightarrow> shardCommand \<Rightarrow> shardWorker \<times> shardResult" where
  "estimateBitmapPrimitive cx s cmd = withEstimate cmd (mutableBitmap cx s cmd) (\<lambda>(bits, ent).
     let offset = pr_Delta (c_primitive cmd);
         next = (pr_InitialValue (c_primitive cmd) = 1)
     in estimateEncoded cmd ent (noEstimate cmd) (encodeBitmapCollection cx
          (if next then finsert offset bits else bits |-| {|offset|})))"

definition estimateHLLPrimitive :: "colx \<Rightarrow> shardWorker \<Rightarrow> shardCommand \<Rightarrow> shardWorker \<times> shardResult" where
  "estimateHLLPrimitive cx s cmd = withEstimate cmd (mutableHLL cx s cmd) (\<lambda>(hashes, ent).
     let p = c_primitive cmd;
         hashes = (if pr_Kind p = PrimitiveHLLAdd then finsert (hllHash (pr_Member p)) hashes
                   else hashes);
         hashes = (if pr_Kind p = PrimitiveHLLMerge
                   then foldl (\<lambda>hs h. finsert h hs) hashes (decodeHLLHashes (pr_Value p))
                   else hashes)
     in estimateEncoded cmd ent (noEstimate cmd) (encodeHLLCollection cx hashes))"

definition estimateGeoPrimitive :: "colx \<Rightarrow> shardWorker \<Rightarrow> shardCommand \<Rightarrow> shardWorker \<times> shardResult" where
  "estimateGeoPrimitive cx s cmd = withEstimate cmd (mutableGeo cx s cmd) (\<lambda>(points, ent).
     let p = c_primitive cmd
     in estimateEncoded cmd ent (noEstimate cmd)
          (encodeGeoCollection cx (fmupd (pr_Member p) (geoPointOf p) points)))"

definition estimateCounterPrimitive :: "shardWorker \<Rightarrow> shardCommand \<Rightarrow> shardWorker \<times> shardResult" where
  "estimateCounterPrimitive s cmd =
     (let p = c_primitive cmd;
          next = cmd\<lparr>c_adjust := \<lparr>ao_Delta = pr_Delta p, ao_InitialValue = pr_InitialValue p,
              ao_TTL = po_TTL (pr_Options p),
              ao_NamespaceVersion = po_NamespaceVersion (pr_Options p),
              ao_SpaceVersion = po_SpaceVersion (pr_Options p),
              ao_ExpectedVersion = po_ExpectedVersion (pr_Options p)\<rparr>\<rparr>
      in withEstimate cmd (prepareCounterAdjustment s next) (\<lambda>adjustment.
           zeroResult\<lparr>x_estimate := estimateWriteCost cmd (ca_existing adjustment)
             (counterValue (ca_next adjustment))\<rparr>))"

fun mutatingPrimitiveEstimateHandlers ::
  "colx \<Rightarrow> PrimitiveKind \<Rightarrow> (shardWorker \<Rightarrow> shardCommand \<Rightarrow> shardWorker \<times> shardResult) option" where
  "mutatingPrimitiveEstimateHandlers cx PrimitiveCounterAdjust = Some estimateCounterPrimitive"
| "mutatingPrimitiveEstimateHandlers cx PrimitiveMapSet = Some (estimateMapPrimitive cx)"
| "mutatingPrimitiveEstimateHandlers cx PrimitiveMapDelete = Some (estimateMapPrimitive cx)"
| "mutatingPrimitiveEstimateHandlers cx PrimitiveSetAdd = Some (estimateSetPrimitive cx)"
| "mutatingPrimitiveEstimateHandlers cx PrimitiveSetRemove = Some (estimateSetPrimitive cx)"
| "mutatingPrimitiveEstimateHandlers cx PrimitiveScoredSetPut = Some (estimateScoredSetPrimitive cx)"
| "mutatingPrimitiveEstimateHandlers cx PrimitiveScoredSetRemove = Some (estimateScoredSetPrimitive cx)"
| "mutatingPrimitiveEstimateHandlers cx PrimitiveListPushFront = Some (estimateListPrimitive cx)"
| "mutatingPrimitiveEstimateHandlers cx PrimitiveListPushBack = Some (estimateListPrimitive cx)"
| "mutatingPrimitiveEstimateHandlers cx PrimitiveListPopFront = Some (estimateListPrimitive cx)"
| "mutatingPrimitiveEstimateHandlers cx PrimitiveListPopBack = Some (estimateListPrimitive cx)"
| "mutatingPrimitiveEstimateHandlers cx PrimitiveBitmapSetBit = Some (estimateBitmapPrimitive cx)"
| "mutatingPrimitiveEstimateHandlers cx PrimitiveHLLAdd = Some (estimateHLLPrimitive cx)"
| "mutatingPrimitiveEstimateHandlers cx PrimitiveHLLMerge = Some (estimateHLLPrimitive cx)"
| "mutatingPrimitiveEstimateHandlers cx PrimitiveGeoAdd = Some (estimateGeoPrimitive cx)"
| "mutatingPrimitiveEstimateHandlers cx _ = None"

definition applyPrimitiveEstimate :: "colx \<Rightarrow> shardWorker \<Rightarrow> shardCommand \<Rightarrow> shardWorker \<times> shardResult" where
  "applyPrimitiveEstimate cx s cmd =
     (if \<not> Mutates (pr_Kind (c_primitive cmd))
      then (s, zeroResult\<lparr>x_estimate := noEstimate cmd\<rparr>)
      else case mutatingPrimitiveEstimateHandlers cx (pr_Kind (c_primitive cmd)) of
             Some handler \<Rightarrow> handler s cmd
           | None \<Rightarrow> (s, zeroResult\<lparr>x_err := Some (primitiveValidationError ''unknown kind'')\<rparr>))"

section \<open>Estimates keep the invariant\<close>

lemma fst_withEstimate [simp]: "fst (withEstimate cmd r k) = fst r"
  by (auto simp: withEstimate_def split: prod.splits sum.splits option.splits)

lemmas estimate_defs = estimateMapPrimitive_def estimateSetPrimitive_def
  estimateScoredSetPrimitive_def estimateListPrimitive_def estimateBitmapPrimitive_def
  estimateHLLPrimitive_def estimateGeoPrimitive_def

lemma applyPrimitiveEstimate_inv:
  "shard_inv s \<Longrightarrow> shard_inv (fst (applyPrimitiveEstimate cx s cmd))"
  by (cases "pr_Kind (c_primitive cmd)")
    (simp_all add: applyPrimitiveEstimate_def estimate_defs mutable_defs mutableColl_inv
      estimateCounterPrimitive_def Let_def prepare_inv)

end
