(* ===== verification/Shard_Snapshot.thy ===== *)
theory Shard_Snapshot
  imports Eviction Routing
begin

text \<open>
  Snapshots, range export, import and range deletion in one shard (\<open>cache/engine/snapshot.go\<close>,
  \<open>snapshot_entry.go\<close>, \<open>migration.go\<close>). Copying a byte slice is the identity on values, so
  \<open>cloneSnapshotEntry\<close> is. Reading and writing snapshot files is input and output and left out.
\<close>

definition cloneSnapshotEntry :: "SnapshotEntry \<Rightarrow> SnapshotEntry" where
  "cloneSnapshotEntry item = item\<lparr>sn_Value := [] @ sn_Value item\<rparr>"

definition snapshotEntryFromEntry :: "entry \<Rightarrow> SnapshotEntry" where
  "snapshotEntryFromEntry ent =
     \<lparr>sn_Key = e_key ent, sn_Value = e_value ent, sn_Version = e_version ent,
      sn_NamespaceVersion = e_namespaceVersion ent, sn_SpaceVersion = e_spaceVersion ent,
      sn_ExpireAt = e_expireAt ent, sn_CreatedAt = e_createdAt ent,
      sn_UpdatedAt = e_updatedAt ent, sn_LastAccessAt = e_lastAccessAt ent,
      sn_AccessCount = e_accessCount ent\<rparr>"

definition entryFromSnapshot :: "SnapshotEntry \<Rightarrow> engine_error + entry" where
  "entryFromSnapshot item =
     (case validateKey (sn_Key item) of
        Some err \<Rightarrow> Inl err
      | None \<Rightarrow>
          let ent = \<lparr>e_key = sn_Key item, e_value = sn_Value item, e_version = sn_Version item,
                e_namespaceVersion = sn_NamespaceVersion item,
                e_spaceVersion = sn_SpaceVersion item, e_expireAt = sn_ExpireAt item,
                e_createdAt = sn_CreatedAt item, e_updatedAt = sn_UpdatedAt item,
                e_lastAccessAt = sn_LastAccessAt item, e_accessCount = sn_AccessCount item,
                e_costBytes = 0\<rparr>;
              ent = ent\<lparr>e_costBytes := costOf (e_key ent) (e_value ent)\<rparr>;
              ent = (if e_version ent = 0 then ent\<lparr>e_version := 1\<rparr> else ent)
          in Inr ent)"

definition snapshotEntries :: "range_fn \<Rightarrow> shardWorker \<Rightarrow> SnapshotEntry list" where
  "snapshotEntries rng s = map (\<lambda>(_, ent). snapshotEntryFromEntry ent) (rng (entries s))"

fun restoreLoop :: "shardWorker \<Rightarrow> SnapshotEntry list \<Rightarrow> shardWorker \<times> engine_error option" where
  "restoreLoop s [] = (s, None)"
| "restoreLoop s (item # items) =
     (case entryFromSnapshot item of
        Inl err \<Rightarrow> (s, Some err)
      | Inr ent \<Rightarrow> restoreLoop (storeEntry s (physicalKey (e_key ent)) ent) items)"

definition restoreEntries ::
  "shardWorker \<Rightarrow> SnapshotEntry list \<Rightarrow> shardWorker \<times> engine_error option" where
  "restoreEntries s items =
     restoreLoop
       (s\<lparr>entries := fmempty, spaces := fmempty, objects := 0, memoryBytes := 0, evictions := 0,
          gets := 0, getHits := 0, getMisses := 0, getExpired := 0, touches := 0,
          touchHits := 0, touchMisses := 0\<rparr>) items"

definition entryInRange :: "Key \<Rightarrow> RangeOptions \<Rightarrow> bool" where
  "entryInRange key opts =
     (if k_Namespace key \<noteq> ro_Namespace opts \<or> k_Space key \<noteq> ro_Space opts then False
      else let slot = VSlotFor (k_Namespace key) (k_Space key) (k_Key key)
           in slot \<ge> ro_VSlotStart opts \<and> slot \<le> ro_VSlotEnd opts)"

definition exportEntries :: "range_fn \<Rightarrow> shardWorker \<Rightarrow> RangeOptions \<Rightarrow> SnapshotEntry list" where
  "exportEntries rng s opts =
     map (\<lambda>(_, ent). snapshotEntryFromEntry ent)
       (filter (\<lambda>(_, ent). \<not> (expired ent (ro_Now opts) \<or> \<not> entryInRange (e_key ent) opts))
          (rng (entries s)))"

definition shouldImportEntry :: "entry \<Rightarrow> entry \<Rightarrow> bool" where
  "shouldImportEntry existing incoming =
     (if e_version incoming \<noteq> e_version existing then e_version incoming > e_version existing
      else e_updatedAt incoming > e_updatedAt existing)"

definition replaceImportedEntry ::
  "shardWorker \<Rightarrow> string \<Rightarrow> entry \<Rightarrow> entry \<Rightarrow> shardWorker \<times> bool" where
  "replaceImportedEntry s physical existing ent =
     (if \<not> shouldImportEntry existing ent then (s, False)
      else
        let s = replaceEntryCost s (e_key existing) (e_costBytes existing) (e_costBytes ent)
        in (s\<lparr>entries := fmupd physical ent (entries s)\<rparr>, True))"

definition importEntry :: "shardWorker \<Rightarrow> SnapshotEntry \<Rightarrow> shardWorker \<times> (engine_error + bool)" where
  "importEntry s item =
     (case entryFromSnapshot item of
        Inl err \<Rightarrow> (s, Inl err)
      | Inr ent \<Rightarrow>
          let physical = physicalKey (e_key ent) in
          (case fmlookup (entries s) physical of
             Some existing \<Rightarrow>
               let (s, ok) = replaceImportedEntry s physical existing ent in (s, Inr ok)
           | None \<Rightarrow> (storeEntry s physical ent, Inr True)))"

fun importEntries ::
  "shardWorker \<Rightarrow> SnapshotEntry list \<Rightarrow> u64 \<Rightarrow> shardWorker \<times> u64 \<times> engine_error option" where
  "importEntries s [] imported = (s, imported, None)"
| "importEntries s (item # items) imported =
     (case importEntry s item of
        (s, Inl err) \<Rightarrow> (s, imported, Some err)
      | (s, Inr ok) \<Rightarrow> importEntries s items (if ok then imported + 1 else imported))"

definition rangeDeleteTargets :: "range_fn \<Rightarrow> shardWorker \<Rightarrow> RangeOptions \<Rightarrow> (string \<times> entry) list" where
  "rangeDeleteTargets rng s opts =
     filter (\<lambda>(_, ent). entryInRange (e_key ent) opts) (rng (entries s))"

definition deleteRange :: "range_fn \<Rightarrow> shardWorker \<Rightarrow> RangeOptions \<Rightarrow> shardWorker \<times> u64" where
  "deleteRange rng s opts =
     (let targets = rangeDeleteTargets rng s opts
      in (deleteExpired s targets, of_nat (length targets)))"

section \<open>Lemmas\<close>

lemma cloneSnapshotEntry_id [simp]: "cloneSnapshotEntry item = item"
  by (simp add: cloneSnapshotEntry_def)

lemma entryFromSnapshot_wf:
  "entryFromSnapshot item = Inr ent \<Longrightarrow>
     wf_entry (physicalKey (e_key ent)) ent \<and> e_key ent = sn_Key item \<and> e_version ent \<noteq> 0"
  by (auto simp: entryFromSnapshot_def wf_entry_def Let_def split: option.splits if_splits)

lemma entryFromSnapshot_inverse:
  assumes "wf_entry k e" and "e_version e \<noteq> 0"
  shows "entryFromSnapshot (snapshotEntryFromEntry e) = Inr e"
  using assms by (simp add: entryFromSnapshot_def snapshotEntryFromEntry_def wf_entry_def)

lemma shard_inv_empty:
  "shard_inv (s\<lparr>entries := fmempty, spaces := fmempty, objects := 0, memoryBytes := 0, evictions := 0,
     gets := 0, getHits := 0, getMisses := 0, getExpired := 0, touches := 0,
     touchHits := 0, touchMisses := 0\<rparr>)"
  by (simp add: shard_acc_defs wf_entries_def usageOf_def zeroUsage_def)

lemma importEntry_inv: "shard_inv s \<Longrightarrow> shard_inv (fst (importEntry s item))"
proof (cases "entryFromSnapshot item")
  case (Inl err)
  assume "shard_inv s"
  with Inl show ?thesis by (simp add: importEntry_def)
next
  case (Inr ent)
  assume inv: "shard_inv s"
  note wf = entryFromSnapshot_wf [OF Inr]
  show ?thesis
  proof (cases "fmlookup (entries s) (physicalKey (e_key ent))")
    case None
    with inv wf Inr show ?thesis by (auto simp: importEntry_def intro!: storeEntry_inv)
  next
    case (Some existing)
    with inv have "e_key existing = e_key ent" by (rule spaceKeyOf_lookup)
    with Some inv wf Inr show ?thesis
      by (auto simp: importEntry_def replaceImportedEntry_def Let_def intro!: rewriteEntry_inv)
  qed
qed

lemma importEntries_inv: "shard_inv s \<Longrightarrow> shard_inv (fst (importEntries s items n))"
proof (induction items arbitrary: s n)
  case Nil
  then show ?case by simp
next
  case (Cons item items)
  then show ?case
    using importEntry_inv [of s item] by (auto split: prod.splits sum.splits)
qed

lemma restoreLoop_inv:
  assumes "shard_inv s" and "distinct (map (physicalKey \<circ> sn_Key) items)"
    and "\<And>item. item \<in> set items \<Longrightarrow> fmlookup (entries s) (physicalKey (sn_Key item)) = None"
  shows "shard_inv (fst (restoreLoop s items))"
  using assms
proof (induction items arbitrary: s)
  case Nil
  then show ?case by simp
next
  case (Cons item items)
  show ?case
  proof (cases "entryFromSnapshot item")
    case (Inl err)
    with Cons.prems show ?thesis by simp
  next
    case (Inr ent)
    note wf = entryFromSnapshot_wf [OF Inr]
    with Cons.prems have "shard_inv (storeEntry s (physicalKey (e_key ent)) ent)"
      by (auto intro!: storeEntry_inv)
    with Cons.prems wf have "shard_inv (fst (restoreLoop (storeEntry s (physicalKey (e_key ent)) ent) items))"
      by (intro Cons.IH) (auto simp: image_iff)
    with Inr show ?thesis by simp
  qed
qed

lemma restoreEntries_inv:
  "distinct (map (physicalKey \<circ> sn_Key) items) \<Longrightarrow> shard_inv (fst (restoreEntries s items))"
  unfolding restoreEntries_def by (rule restoreLoop_inv [OF shard_inv_empty]) simp_all

lemma deleteRange_effect:
  assumes "enumerates rng" and "shard_inv s"
  shows "shard_inv (fst (deleteRange rng s opts))"
    and "fmlookup (entries (fst (deleteRange rng s opts))) k =
      (case fmlookup (entries s) k of
         None \<Rightarrow> None | Some e \<Rightarrow> if entryInRange (e_key e) opts then None else Some e)"
proof -
  have "present s (rangeDeleteTargets rng s opts)"
    using distinct_map_filter [OF enumeratesD(1) [OF assms(1), of "entries s"]]
      enumerates_mem [OF assms(1)] by (auto simp: present_def rangeDeleteTargets_def)
  then show "shard_inv (fst (deleteRange rng s opts))"
    using deleteExpired_inv [OF assms(2)] by (simp add: deleteRange_def Let_def)
  have "k \<in> fst ` set (rangeDeleteTargets rng s opts) \<longleftrightarrow>
      (\<exists>e. fmlookup (entries s) k = Some e \<and> entryInRange (e_key e) opts)"
    using enumerates_mem [OF assms(1), of k _ "entries s"] by (force simp: rangeDeleteTargets_def)
  then show "fmlookup (entries (fst (deleteRange rng s opts))) k =
      (case fmlookup (entries s) k of
         None \<Rightarrow> None | Some e \<Rightarrow> if entryInRange (e_key e) opts then None else Some e)"
    by (auto simp: deleteRange_def Let_def entries_deleteExpired split: option.splits)
qed

end
