(* ===== verification/Worker.thy ===== *)
theory Worker
  imports Primitive_Estimate Shard_Snapshot
begin

text \<open>
  A shard worker as a whole (\<open>cache/engine/worker.go\<close>): the table of command handlers, and the loop
  that takes commands from the shard's channel one at a time. \<open>deps\<close> collects what the handlers use
  of the container library.
\<close>

record deps =
  d_range :: range_fn
  d_sort :: sort_fn
  d_colx :: colx

definition deps_ok :: "deps \<Rightarrow> bool" where
  "deps_ok d \<longleftrightarrow> enumerates (d_range d) \<and> sorts (d_sort d)"

section \<open>Commands\<close>

definition statsResult :: "shardWorker \<Rightarrow> shardResult" where
  "statsResult s =
     zeroResult\<lparr>x_stats := \<lparr>ss_ID = sw_id s, ss_Objects = objects s, ss_MemoryBytes = memoryBytes s,
         ss_Evictions = evictions s, ss_GetRequests = gets s, ss_GetHits = getHits s,
         ss_GetMisses = getMisses s, ss_GetExpired = getExpired s, ss_TouchRequests = touches s,
         ss_TouchHits = touchHits s, ss_TouchMisses = touchMisses s,
         ss_QueueDepth = length (commands s)\<rparr>,
       x_spaces := spaces s\<rparr>"

definition applyStatsCommand :: "shardWorker \<Rightarrow> shardCommand \<Rightarrow> shardWorker \<times> shardResult" where
  "applyStatsCommand s cmd = (s, statsResult s)"

definition applySnapshotCommand :: "deps \<Rightarrow> shardWorker \<Rightarrow> shardCommand \<Rightarrow> shardWorker \<times> shardResult" where
  "applySnapshotCommand d s cmd = (s, zeroResult\<lparr>x_snapshot := snapshotEntries (d_range d) s\<rparr>)"

definition applyRestoreCommand :: "shardWorker \<Rightarrow> shardCommand \<Rightarrow> shardWorker \<times> shardResult" where
  "applyRestoreCommand s cmd =
     (let (s, err) = restoreEntries s (c_snapshot cmd) in (s, zeroResult\<lparr>x_err := err\<rparr>))"

definition applyExportCommand :: "deps \<Rightarrow> shardWorker \<Rightarrow> shardCommand \<Rightarrow> shardWorker \<times> shardResult" where
  "applyExportCommand d s cmd =
     (s, zeroResult\<lparr>x_snapshot := exportEntries (d_range d) s (c_rangeOpts cmd)\<rparr>)"

definition applyImportCommand :: "shardWorker \<Rightarrow> shardCommand \<Rightarrow> shardWorker \<times> shardResult" where
  "applyImportCommand s cmd =
     (let (s, imported, err) = importEntries s (c_snapshot cmd) 0
      in (s, zeroResult\<lparr>x_imported := imported, x_err := err\<rparr>))"

definition applyDeleteRangeCommand :: "deps \<Rightarrow> shardWorker \<Rightarrow> shardCommand \<Rightarrow> shardWorker \<times> shardResult" where
  "applyDeleteRangeCommand d s cmd =
     (let (s, n) = deleteRange (d_range d) s (c_rangeOpts cmd)
      in (s, zeroResult\<lparr>x_deletedRange := n\<rparr>))"

definition applySweepCommand :: "deps \<Rightarrow> shardWorker \<Rightarrow> shardCommand \<Rightarrow> shardWorker \<times> shardResult" where
  "applySweepCommand d s cmd =
     (let (s, n) = sweepExpired (d_range d) s (c_now cmd) in (s, zeroResult\<lparr>x_swept := n\<rparr>))"

definition applyEvictCommand :: "deps \<Rightarrow> shardWorker \<Rightarrow> shardCommand \<Rightarrow> shardWorker \<times> shardResult" where
  "applyEvictCommand d s cmd =
     (let (s, r) = evict (d_range d) (d_sort d) s (c_evict cmd) in (s, zeroResult\<lparr>x_evicted := r\<rparr>))"

fun commandHandlers ::
  "deps \<Rightarrow> commandKind \<Rightarrow> shardWorker \<Rightarrow> shardCommand \<Rightarrow> shardWorker \<times> shardResult" where
  "commandHandlers d commandSet = applySet"
| "commandHandlers d commandGet = applyGet"
| "commandHandlers d commandDelete = applyDelete"
| "commandHandlers d commandTouch = applyTouch"
| "commandHandlers d commandAdjust = applyAdjust"
| "commandHandlers d commandAdjustEstimate = applyAdjustEstimate"
| "commandHandlers d commandPrimitive = applyPrimitive (d_colx d)"
| "commandHandlers d commandPrimitiveEstimate = applyPrimitiveEstimate (d_colx d)"
| "commandHandlers d commandStats = applyStatsCommand"
| "commandHandlers d commandSnapshot = applySnapshotCommand d"
| "commandHandlers d commandRestore = applyRestoreCommand"
| "commandHandlers d commandExport = applyExportCommand d"
| "commandHandlers d commandImport = applyImportCommand"
| "commandHandlers d commandDeleteRange = applyDeleteRangeCommand d"
| "commandHandlers d commandSweep = applySweepCommand d"
| "commandHandlers d commandEvict = applyEvictCommand d"
| "commandHandlers d (commandOther n) = (\<lambda>s cmd. (s, zeroResult\<lparr>x_err := Some ErrUnknownCommand\<rparr>))"

definition applyCommand :: "deps \<Rightarrow> shardWorker \<Rightarrow> shardCommand \<Rightarrow> shardWorker \<times> shardResult" where
  "applyCommand d s cmd = commandHandlers d (c_kind cmd) s cmd"

section \<open>The worker loop\<close>

text \<open>
  A worker with its channel: the callers send commands into a channel of bounded capacity, the
  worker takes the oldest and replies, until the engine is closed. \<open>w_sent\<close> and \<open>w_served\<close>
  remember what was sent and what was answered.
\<close>

record workerState =
  w_shard :: shardWorker
  w_done :: bool
  w_sent :: "shardCommand list"
  w_served :: "(shardCommand \<times> shardResult) list"

inductive worker_step :: "deps \<Rightarrow> nat \<Rightarrow> workerState \<Rightarrow> workerState \<Rightarrow> bool" for d queueSize where
  send: "length (commands (w_shard w)) < queueSize \<Longrightarrow>
    worker_step d queueSize w
      (w\<lparr>w_shard := (w_shard w)\<lparr>commands := commands (w_shard w) @ [cmd]\<rparr>,
         w_sent := w_sent w @ [cmd]\<rparr>)"
| serve: "\<not> w_done w \<Longrightarrow> commands (w_shard w) = cmd # rest \<Longrightarrow>
    applyCommand d ((w_shard w)\<lparr>commands := rest\<rparr>) cmd = (s, r) \<Longrightarrow>
    worker_step d queueSize w (w\<lparr>w_shard := s, w_served := w_served w @ [(cmd, r)]\<rparr>)"
| close: "worker_step d queueSize w (w\<lparr>w_done := True\<rparr>)"

inductive_cases worker_stepE: "worker_step d queueSize w w'"

definition newWorker :: "nat \<Rightarrow> shardWorker" where
  "newWorker i = \<lparr>sw_id = i, commands = [], entries = fmempty, spaces = fmempty, objects = 0,
     memoryBytes = 0, evictions = 0, gets = 0, getHits = 0, getMisses = 0, getExpired = 0,
     touches = 0, touchHits = 0, touchMisses = 0\<rparr>"

section \<open>Lemmas\<close>

text \<open>What the engine guarantees of the commands it sends.\<close>

definition allowed_command :: "shardCommand \<Rightarrow> bool" where
  "allowed_command cmd =
     (case c_kind cmd of
        commandSet \<Rightarrow> wf_command cmd
      | commandAdjust \<Rightarrow> wf_command cmd
      | commandPrimitive \<Rightarrow> wf_command cmd
      | commandRestore \<Rightarrow> distinct (map (physicalKey \<circ> sn_Key) (c_snapshot cmd))
      | _ \<Rightarrow> True)"

lemma applyCommand_inv:
  assumes "deps_ok d" and "shard_inv s" and "allowed_command cmd"
  shows "shard_inv (fst (applyCommand d s cmd))"
proof -
  have e: "enumerates (d_range d)" and o: "sorts (d_sort d)"
    using assms(1) by (simp_all add: deps_ok_def)
  have ev: "shard_inv (fst (evict (d_range d) (d_sort d) s opts))" for opts
    using evict_inv [OF e o assms(2)] by (metis prod.collapse)
  from assms ev show ?thesis
    by (cases "c_kind cmd")
      (auto simp: applyCommand_def allowed_command_def applySet_inv applyGet_inv applyDelete_inv
        applyTouch_inv applyAdjust_inv applyAdjustEstimate_inv applyPrimitive_inv
        applyPrimitiveEstimate_inv applyStatsCommand_def applySnapshotCommand_def
        applyRestoreCommand_def applyExportCommand_def applyImportCommand_def
        applyDeleteRangeCommand_def applySweepCommand_def applyEvictCommand_def split_beta Let_def
        restoreEntries_inv importEntries_inv deleteRange_effect [OF e] sweepExpired_effect [OF e]
        wf_commandD)
qed

lemma shard_inv_newWorker: "shard_inv (newWorker i)"
  by (simp add: newWorker_def shard_acc_defs wf_entries_def usageOf_def zeroUsage_def)

lemma commands_ops [simp]:
  "commands (addSpaceUsage s key a b) = commands s"
  "commands (subtractSpaceUsage s key a b) = commands s"
  "commands (deleteEntry s k e) = commands s"
  "commands (storeEntry s k e) = commands s"
  "commands (replaceEntryCost s key' old new) = commands s"
  by (simp_all add: addSpaceUsage_def subtractSpaceUsage_def deleteEntry_def storeEntry_def
      replaceEntryCost_def Let_def)

lemma commands_deleteExpired [simp]: "commands (deleteExpired s items) = commands s"
  by (induction s items rule: deleteExpired.induct) simp_all

lemma commands_restoreLoop [simp]: "commands (fst (restoreLoop s items)) = commands s"
  by (induction items arbitrary: s) (simp_all split: sum.split)

lemma commands_importEntry [simp]: "commands (fst (importEntry s item)) = commands s"
  by (auto simp: importEntry_def replaceImportedEntry_def Let_def split: sum.split option.split)

lemma commands_importEntries [simp]: "commands (fst (importEntries s items n)) = commands s"
proof (induction items arbitrary: s n)
  case (Cons item items)
  have "commands (fst (importEntry s item)) = commands s" by simp
  with Cons show ?case by (auto simp del: commands_importEntry split: prod.splits sum.splits)
qed simp

lemma commands_evict [simp]: "commands (fst (evict rng srt s opts)) = commands s"
proof -
  obtain s' r where e: "evict rng srt s opts = (s', r)" by fastforce
  from evict_shape [OF this] show ?thesis by (auto simp: e)
qed

lemma commands_prepare [simp]: "commands (fst (prepareCounterAdjustment s cmd)) = commands s"
  by (auto simp: prepareCounterAdjustment_def split: option.split sum.split)

lemma commands_applyAdjust [simp]: "commands (fst (applyAdjust s cmd)) = commands s"
  using commands_prepare [of s cmd]
  by (auto simp: applyAdjust_def applyExistingCounter_def applyNewCounter_def Let_def
      simp del: commands_prepare split: prod.splits sum.splits option.splits)

lemma commands_mutable [simp]: "commands (fst (mutableColl decode c s cmd)) = commands s"
  by (auto simp: mutableColl_def mutablePrimitiveEntry_def Let_def
      split: prod.splits sum.splits option.splits if_splits)

lemma commands_read [simp]: "commands (fst (readColl decode s cmd)) = commands s"
  by (auto simp: readColl_def readPrimitiveEntry_def Let_def
      split: prod.splits sum.splits option.splits if_splits)

lemma commands_writeColl [simp]: "commands (fst (writeColl encode len s cmd ent c)) = commands s"
  by (auto simp: writeColl_def createPrimitiveEntry_def writePrimitiveEntry_def
      replacePrimitiveEntry_def Let_def split: sum.split option.split)

lemma commands_withColl:
  assumes "\<And>s x. commands (fst (k s x)) = commands s"
  shows "commands (fst (withColl r k)) = commands (fst r)"
  using assms by (auto simp: withColl_def split: prod.split sum.split option.split)

lemma commands_applyPrimitive [simp]: "commands (fst (applyPrimitive cx s cmd)) = commands s"
  unfolding applyPrimitive_def
  by (cases "pr_Kind (c_primitive cmd)")
    (auto simp: handler_defs mutable_defs read_defs write_defs Let_def split_beta
      applyCounterPrimitive_def commands_withColl split: option.split)

lemma commands_applyPrimitiveEstimate [simp]:
  "commands (fst (applyPrimitiveEstimate cx s cmd)) = commands s"
  by (cases "pr_Kind (c_primitive cmd)")
    (simp_all add: applyPrimitiveEstimate_def estimate_defs mutable_defs
      estimateCounterPrimitive_def Let_def)

lemma commands_applyCommand [simp]: "commands (fst (applyCommand d s cmd)) = commands s"
  by (cases "c_kind cmd")
    (auto simp: applyCommand_def applySet_def applyGet_def applyDelete_def applyTouch_def
      replaceEntry_def applyAdjustEstimate_state applyStatsCommand_def applySnapshotCommand_def
      applyRestoreCommand_def restoreEntries_def applyExportCommand_def applyImportCommand_def
      applyDeleteRangeCommand_def deleteRange_def applySweepCommand_def sweepExpired_def
      applyEvictCommand_def split_beta Let_def split: option.split)

interpretation shard: state_machine "applyCommand d" shard_inv
    "\<lambda>cmd. deps_ok d \<and> allowed_command cmd" for d
  by unfold_locales (auto intro: applyCommand_inv)

definition worker_inv :: "workerState \<Rightarrow> bool" where
  "worker_inv w \<longleftrightarrow> map fst (w_served w) @ commands (w_shard w) = w_sent w \<and>
     (list_all allowed_command (w_sent w) \<longrightarrow> shard_inv (w_shard w))"

lemma worker_step_inv:
  assumes "deps_ok d" and "worker_step d queueSize w w'" and "worker_inv w"
  shows "worker_inv w'"
  using assms(2)
proof (rule worker_stepE)
  fix cmd
  assume "w' = w\<lparr>w_shard := (w_shard w)\<lparr>commands := commands (w_shard w) @ [cmd]\<rparr>,
         w_sent := w_sent w @ [cmd]\<rparr>"
  with assms(3) show ?thesis by (simp add: worker_inv_def flip: append_assoc)
next
  fix cmd rest s r
  assume w': "w' = w\<lparr>w_shard := s, w_served := w_served w @ [(cmd, r)]\<rparr>"
    and c: "commands (w_shard w) = cmd # rest"
    and a: "applyCommand d ((w_shard w)\<lparr>commands := rest\<rparr>) cmd = (s, r)"
  have s: "commands s = rest" using commands_applyCommand [of d "(w_shard w)\<lparr>commands := rest\<rparr>" cmd] a
    by simp
  from assms(3) c have sent: "w_sent w = map fst (w_served w) @ cmd # rest"
    by (simp add: worker_inv_def)
  have "shard_inv s" if "list_all allowed_command (w_sent w)"
    using applyCommand_inv [OF assms(1), of "(w_shard w)\<lparr>commands := rest\<rparr>" cmd] that assms(3) a sent
    by (simp add: worker_inv_def)
  with w' s sent show ?thesis by (simp add: worker_inv_def)
next
  assume "w' = w\<lparr>w_done := True\<rparr>"
  with assms(3) show ?thesis by (simp add: worker_inv_def)
qed

end
