(* ===== verification/Engine.thy ===== *)
theory Engine
  imports Worker
begin

text \<open>
  The in-memory engine (\<open>cache/engine/memory.go\<close>, \<open>stats.go\<close> and the engine methods of
  \<open>snapshot.go\<close>, \<open>migration.go\<close>, \<open>adjust_estimate.go\<close>, \<open>primitive_estimate.go\<close>): a fixed list of
  shard workers, a key's shard chosen by the hash of its physical key. An operation sends one command
  to a shard, or one to each shard in turn. What happens to a command on its way is the caller's
  context: \<open>ctx_delivery\<close> says, for each shard, whether the command was answered, whether the
  context was done or the engine closed before it was sent, or while waiting for the reply; in the last
  case the worker may have applied it. The clock \<open>e.now()\<close> is an argument.
\<close>

datatype delivery = Delivered | SendFailed | SendClosed | WaitFailed bool | WaitClosed bool

record callContext =
  ctx_nil :: bool
  ctx_delivery :: "nat \<Rightarrow> delivery"

definition live :: callContext where
  "live = \<lparr>ctx_nil = False, ctx_delivery = (\<lambda>_. Delivered)\<rparr>"

record Config =
  cfg_ShardCount :: int
  cfg_QueueSize :: int

record MemoryEngine =
  shards :: "shardWorker list"
  me_closed :: bool
  me_queueSize :: nat

definition NewMemory :: "Config \<Rightarrow> MemoryEngine" where
  "NewMemory cfg =
     (let shardCount = (if cfg_ShardCount cfg \<le> 0 then 16 else cfg_ShardCount cfg);
          queueSize = (if cfg_QueueSize cfg \<le> 0 then 1024 else cfg_QueueSize cfg)
      in \<lparr>shards = map newWorker [0..<nat shardCount], me_closed = False,
          me_queueSize = nat queueSize\<rparr>)"

section \<open>Sending commands\<close>

definition shardIndex :: "nat \<Rightarrow> string \<Rightarrow> nat" where
  "shardIndex n physical =
     (let idx64 = fnv_write fnv_offset64 (bytes_of_string physical) mod of_nat n in
      case find (\<lambda>idx. (of_nat idx :: u64) = idx64) [0..<n] of Some idx \<Rightarrow> idx | None \<Rightarrow> 0)"

definition shardFor :: "MemoryEngine \<Rightarrow> string \<Rightarrow> nat" where
  "shardFor e physical = shardIndex (length (shards e)) physical"

definition executeOn ::
  "deps \<Rightarrow> callContext \<Rightarrow> MemoryEngine \<Rightarrow> nat \<Rightarrow> shardCommand \<Rightarrow>
     MemoryEngine \<times> (engine_error + shardResult)" where
  "executeOn d ctx e i cmd =
     (if ctx_nil ctx then (e, Inl ErrNilContext)
      else if me_closed e then (e, Inl ErrClosed)
      else
        let (s, r) = applyCommand d (shards e ! i) cmd;
            e' = e\<lparr>shards := (shards e)[i := s]\<rparr>
        in case ctx_delivery ctx i of
             Delivered \<Rightarrow> (e', Inr r)
           | SendFailed \<Rightarrow> (e, Inl ErrSendFailed)
           | SendClosed \<Rightarrow> (e, Inl ErrClosed)
           | WaitFailed applied \<Rightarrow> (if applied then e' else e, Inl ErrWaitFailed)
           | WaitClosed applied \<Rightarrow> (if applied then e' else e, Inl ErrClosed))"

definition execute ::
  "deps \<Rightarrow> callContext \<Rightarrow> MemoryEngine \<Rightarrow> shardCommand \<Rightarrow> MemoryEngine \<times> (engine_error + shardResult)" where
  "execute d ctx e cmd = executeOn d ctx e (shardFor e (c_physical cmd)) cmd"

definition EngineClose :: "MemoryEngine \<Rightarrow> MemoryEngine" where
  "EngineClose e = e\<lparr>me_closed := True\<rparr>"

definition finish ::
  "MemoryEngine \<times> (engine_error + shardResult) \<Rightarrow> (shardResult \<Rightarrow> 'a) \<Rightarrow> MemoryEngine \<times> (engine_error + 'a)" where
  "finish x f =
     (case x of
        (e, Inl err) \<Rightarrow> (e, Inl err)
      | (e, Inr r) \<Rightarrow> (case x_err r of Some err \<Rightarrow> (e, Inl err) | None \<Rightarrow> (e, Inr (f r))))"

section \<open>Operations on one key\<close>

definition EngineSet ::
  "deps \<Rightarrow> callContext \<Rightarrow> gotime \<Rightarrow> MemoryEngine \<Rightarrow> Key \<Rightarrow> bytes \<Rightarrow> SetOptions \<Rightarrow>
     MemoryEngine \<times> (engine_error + Record \<times> bool)" where
  "EngineSet d ctx now e key value opts =
     (case validateKey key of
        Some err \<Rightarrow> (e, Inl err)
      | None \<Rightarrow>
          finish (execute d ctx e ((zeroCommand commandSet)\<lparr>c_physical := physicalKey key,
              c_key := key, c_value := value, c_setOpts := opts, c_now := now\<rparr>))
            (\<lambda>r. (x_record r, x_found r)))"

definition EngineGet ::
  "deps \<Rightarrow> callContext \<Rightarrow> gotime \<Rightarrow> MemoryEngine \<Rightarrow> Key \<Rightarrow> GetOptions \<Rightarrow>
     MemoryEngine \<times> (engine_error + Record \<times> bool)" where
  "EngineGet d ctx now e key opts =
     (case validateKey key of
        Some err \<Rightarrow> (e, Inl err)
      | None \<Rightarrow>
          finish (execute d ctx e ((zeroCommand commandGet)\<lparr>c_physical := physicalKey key,
              c_getOpts := opts, c_now := now\<rparr>))
            (\<lambda>r. (x_record r, x_found r)))"

definition EngineDelete ::
  "deps \<Rightarrow> callContext \<Rightarrow> MemoryEngine \<Rightarrow> Key \<Rightarrow> DeleteOptions \<Rightarrow>
     MemoryEngine \<times> (engine_error + bool \<times> bool)" where
  "EngineDelete d ctx e key opts =
     (case validateKey key of
        Some err \<Rightarrow> (e, Inl err)
      | None \<Rightarrow>
          finish (execute d ctx e ((zeroCommand commandDelete)\<lparr>c_physical := physicalKey key,
              c_deleteOpts := opts\<rparr>))
            (\<lambda>r. (x_deleted r, x_found r)))"

definition EngineExists ::
  "deps \<Rightarrow> callContext \<Rightarrow> gotime \<Rightarrow> MemoryEngine \<Rightarrow> Key \<Rightarrow> GetOptions \<Rightarrow>
     MemoryEngine \<times> (engine_error + bool)" where
  "EngineExists d ctx now e key opts =
     (case EngineGet d ctx now e key opts of
        (e, Inl err) \<Rightarrow> (e, Inl err)
      | (e, Inr (_, ok)) \<Rightarrow> (e, Inr ok))"

definition EngineTouch ::
  "deps \<Rightarrow> callContext \<Rightarrow> gotime \<Rightarrow> MemoryEngine \<Rightarrow> Key \<Rightarrow> TouchOptions \<Rightarrow>
     MemoryEngine \<times> (engine_error + bool)" where
  "EngineTouch d ctx now e key opts =
     (case validateKey key of
        Some err \<Rightarrow> (e, Inl err)
      | None \<Rightarrow>
          finish (execute d ctx e ((zeroCommand commandTouch)\<lparr>c_physical := physicalKey key,
              c_touch := opts, c_now := now\<rparr>))
            (\<lambda>r. x_touched r))"

definition EngineAdjust ::
  "deps \<Rightarrow> callContext \<Rightarrow> gotime \<Rightarrow> MemoryEngine \<Rightarrow> Key \<Rightarrow> AdjustOptions \<Rightarrow>
     MemoryEngine \<times> (engine_error + Record \<times> bool)" where
  "EngineAdjust d ctx now e key opts =
     (case validateKey key of
        Some err \<Rightarrow> (e, Inl err)
      | None \<Rightarrow>
          finish (execute d ctx e ((zeroCommand commandAdjust)\<lparr>c_physical := physicalKey key,
              c_key := key, c_adjust := opts, c_now := now\<rparr>))
            (\<lambda>r. (x_record r, x_found r)))"

definition EngineEstimateAdjust ::
  "deps \<Rightarrow> callContext \<Rightarrow> gotime \<Rightarrow> MemoryEngine \<Rightarrow> Key \<Rightarrow> AdjustOptions \<Rightarrow>
     MemoryEngine \<times> (engine_error + WriteEstimate)" where
  "EngineEstimateAdjust d ctx now e key opts =
     (case validateKey key of
        Some err \<Rightarrow> (e, Inl err)
      | None \<Rightarrow>
          finish (execute d ctx e ((zeroCommand commandAdjustEstimate)\<lparr>c_physical := physicalKey key,
              c_key := key, c_adjust := opts, c_now := now\<rparr>))
            x_estimate)"

definition EnginePrimitive ::
  "deps \<Rightarrow> callContext \<Rightarrow> gotime \<Rightarrow> MemoryEngine \<Rightarrow> PrimitiveRequest \<Rightarrow>
     MemoryEngine \<times> (engine_error + PrimitiveResult)" where
  "EnginePrimitive d ctx now e request =
     (case validatePrimitiveRequest request of
        Some err \<Rightarrow> (e, Inl err)
      | None \<Rightarrow>
          finish (execute d ctx e ((zeroCommand commandPrimitive)\<lparr>
              c_physical := physicalKey (pr_Key request), c_key := pr_Key request,
              c_primitive := request, c_now := now\<rparr>))
            x_primitive)"

definition EngineEstimatePrimitive ::
  "deps \<Rightarrow> callContext \<Rightarrow> gotime \<Rightarrow> MemoryEngine \<Rightarrow> PrimitiveRequest \<Rightarrow>
     MemoryEngine \<times> (engine_error + WriteEstimate)" where
  "EngineEstimatePrimitive d ctx now e request =
     (case validatePrimitiveRequest request of
        Some err \<Rightarrow> (e, Inl err)
      | None \<Rightarrow>
          finish (execute d ctx e ((zeroCommand commandPrimitiveEstimate)\<lparr>
              c_physical := physicalKey (pr_Key request), c_key := pr_Key request,
              c_primitive := request, c_now := now\<rparr>))
            x_estimate)"

section \<open>Operations on every shard\<close>

text \<open>The loops that send one command to each shard and stop at the first error.\<close>

fun eachShard ::
  "deps \<Rightarrow> callContext \<Rightarrow> (nat \<Rightarrow> shardCommand) \<Rightarrow> ('a \<Rightarrow> nat \<Rightarrow> shardResult \<Rightarrow> 'a) \<Rightarrow>
     MemoryEngine \<Rightarrow> 'a \<Rightarrow> nat list \<Rightarrow> MemoryEngine \<times> 'a \<times> engine_error option" where
  "eachShard d ctx cmd add e acc [] = (e, acc, None)"
| "eachShard d ctx cmd add e acc (i # is) =
     (case executeOn d ctx e i (cmd i) of
        (e, Inl err) \<Rightarrow> (e, acc, Some err)
      | (e, Inr r) \<Rightarrow>
          (case x_err r of
             Some err \<Rightarrow> (e, acc, Some err)
           | None \<Rightarrow> eachShard d ctx cmd add e (add acc i r) is))"

abbreviation indices :: "MemoryEngine \<Rightarrow> nat list" where
  "indices e \<equiv> [0..<length (shards e)]"

definition zeroStats :: "nat \<Rightarrow> Stats" where
  "zeroStats n = \<lparr>st_Objects = 0, st_MemoryBytes = 0, st_Evictions = 0, st_GetRequests = 0,
     st_GetHits = 0, st_GetMisses = 0, st_GetExpired = 0, st_TouchRequests = 0, st_TouchHits = 0,
     st_TouchMisses = 0, st_Shards = replicate n zeroShardStats, st_Spaces = []\<rparr>"

definition addShardStats :: "Stats \<Rightarrow> ShardStats \<Rightarrow> Stats" where
  "addShardStats stats shard =
     stats\<lparr>st_Objects := st_Objects stats + ss_Objects shard,
       st_MemoryBytes := st_MemoryBytes stats + ss_MemoryBytes shard,
       st_Evictions := st_Evictions stats + ss_Evictions shard,
       st_GetRequests := st_GetRequests stats + ss_GetRequests shard,
       st_GetHits := st_GetHits stats + ss_GetHits shard,
       st_GetMisses := st_GetMisses stats + ss_GetMisses shard,
       st_GetExpired := st_GetExpired stats + ss_GetExpired shard,
       st_TouchRequests := st_TouchRequests stats + ss_TouchRequests shard,
       st_TouchHits := st_TouchHits stats + ss_TouchHits shard,
       st_TouchMisses := st_TouchMisses stats + ss_TouchMisses shard\<rparr>"

definition addUsage ::
  "(spaceKey, spaceUsage) fmap \<Rightarrow> spaceKey \<times> spaceUsage \<Rightarrow> (spaceKey, spaceUsage) fmap" where
  "addUsage acc ku =
     (let (key, usage) = ku;
          next = (case fmlookup acc key of None \<Rightarrow> zeroUsage | Some u \<Rightarrow> u)
      in fmupd key \<lparr>su_objects = su_objects next + su_objects usage,
                    su_memoryBytes = su_memoryBytes next + su_memoryBytes usage\<rparr> acc)"

definition addSpaceStats ::
  "(spaceKey, spaceUsage) fmap \<Rightarrow> (spaceKey, spaceUsage) fmap \<Rightarrow> (spaceKey, spaceUsage) fmap" where
  "addSpaceStats acc shard = foldl addUsage acc (sorted_list_of_fmap shard)"

definition buildSpaceStats :: "(spaceKey, spaceUsage) fmap \<Rightarrow> SpaceStats list" where
  "buildSpaceStats sps =
     map (\<lambda>((ns, sp), u). \<lparr>sps_Namespace = ns, sps_Space = sp, sps_Objects = su_objects u,
            sps_MemoryBytes = su_memoryBytes u\<rparr>) (sorted_list_of_fmap sps)"

definition EngineStats ::
  "deps \<Rightarrow> callContext \<Rightarrow> MemoryEngine \<Rightarrow> MemoryEngine \<times> (engine_error + Stats)" where
  "EngineStats d ctx e =
     (case eachShard d ctx (\<lambda>_. zeroCommand commandStats)
        (\<lambda>(stats, sps) i r.
           ((addShardStats stats (x_stats r))\<lparr>st_Shards := (st_Shards stats)[i := x_stats r]\<rparr>,
            addSpaceStats sps (x_spaces r)))
        e (zeroStats (length (shards e)), fmempty) (indices e) of
        (e, _, Some err) \<Rightarrow> (e, Inl err)
      | (e, (stats, sps), None) \<Rightarrow> (e, Inr (stats\<lparr>st_Spaces := buildSpaceStats sps\<rparr>)))"

definition EngineSweepExpired ::
  "deps \<Rightarrow> callContext \<Rightarrow> MemoryEngine \<Rightarrow> gotime \<Rightarrow> MemoryEngine \<times> u64 \<times> engine_error option" where
  "EngineSweepExpired d ctx e now =
     eachShard d ctx (\<lambda>_. (zeroCommand commandSweep)\<lparr>c_now := now\<rparr>)
       (\<lambda>deleted i r. deleted + x_swept r) e 0 (indices e)"

fun evictShards ::
  "deps \<Rightarrow> callContext \<Rightarrow> EvictOptions \<Rightarrow> MemoryEngine \<Rightarrow> EvictResult \<Rightarrow> nat list \<Rightarrow>
     MemoryEngine \<times> EvictResult \<times> engine_error option" where
  "evictShards d ctx opts e acc [] = (e, acc, None)"
| "evictShards d ctx opts e acc (i # is) =
     (if er_FreedBytes acc \<ge> eo_TargetBytes opts then (e, acc, None)
      else
        let shardOpts = opts\<lparr>eo_TargetBytes := eo_TargetBytes opts - er_FreedBytes acc\<rparr> in
        (case executeOn d ctx e i ((zeroCommand commandEvict)\<lparr>c_evict := shardOpts, c_now := eo_Now opts\<rparr>) of
           (e, Inl err) \<Rightarrow> (e, acc, Some err)
         | (e, Inr r) \<Rightarrow>
             (case x_err r of
                Some err \<Rightarrow> (e, acc, Some err)
              | None \<Rightarrow>
                  evictShards d ctx opts e
                    (acc\<lparr>er_FreedBytes := er_FreedBytes acc + er_FreedBytes (x_evicted r),
                      er_EvictedObjects := er_EvictedObjects acc + er_EvictedObjects (x_evicted r)\<rparr>)
                    is)))"

definition evictFromShards ::
  "deps \<Rightarrow> callContext \<Rightarrow> MemoryEngine \<Rightarrow> EvictOptions \<Rightarrow> MemoryEngine \<times> EvictResult \<times> engine_error option" where
  "evictFromShards d ctx e opts =
     evictShards d ctx opts e (zeroEvictResult\<lparr>er_RequestedBytes := eo_TargetBytes opts\<rparr>) (indices e)"

definition EngineEvict ::
  "deps \<Rightarrow> callContext \<Rightarrow> gotime \<Rightarrow> MemoryEngine \<Rightarrow> EvictOptions \<Rightarrow>
     MemoryEngine \<times> EvictResult \<times> engine_error option" where
  "EngineEvict d ctx now e opts =
     (if eo_TargetBytes opts = 0 then (e, zeroEvictResult, None)
      else if eo_Namespace opts = '''' \<or> eo_Space opts = '''' then (e, zeroEvictResult, Some ErrInvalidKey)
      else evictFromShards d ctx e (if eo_Now opts = 0 then opts\<lparr>eo_Now := now\<rparr> else opts))"

definition sortSnapshotEntries :: "SnapshotEntry list \<Rightarrow> SnapshotEntry list" where
  "sortSnapshotEntries items = sort_key (\<lambda>item. physicalKey (sn_Key item)) items"

definition EngineSnapshot ::
  "deps \<Rightarrow> callContext \<Rightarrow> MemoryEngine \<Rightarrow> MemoryEngine \<times> (engine_error + SnapshotEntry list)" where
  "EngineSnapshot d ctx e =
     (case eachShard d ctx (\<lambda>_. zeroCommand commandSnapshot) (\<lambda>acc i r. acc @ x_snapshot r) e [] (indices e) of
        (e, _, Some err) \<Rightarrow> (e, Inl err)
      | (e, items, None) \<Rightarrow> (e, Inr (sortSnapshotEntries items)))"

definition snapshotEntriesByShard :: "MemoryEngine \<Rightarrow> SnapshotEntry list \<Rightarrow> nat \<Rightarrow> SnapshotEntry list" where
  "snapshotEntriesByShard e items i =
     map cloneSnapshotEntry (filter (\<lambda>item. shardFor e (physicalKey (sn_Key item)) = i) items)"

definition EngineRestore ::
  "deps \<Rightarrow> callContext \<Rightarrow> MemoryEngine \<Rightarrow> SnapshotEntry list \<Rightarrow> MemoryEngine \<times> engine_error option" where
  "EngineRestore d ctx e items =
     (case eachShard d ctx
        (\<lambda>i. (zeroCommand commandRestore)\<lparr>c_snapshot := snapshotEntriesByShard e items i\<rparr>)
        (\<lambda>acc i r. acc) e () (indices e) of
        (e, _, err) \<Rightarrow> (e, err))"

definition validateRangeOptions :: "RangeOptions \<Rightarrow> engine_error option" where
  "validateRangeOptions opts =
     (if ro_Namespace opts = '''' \<or> ro_Space opts = '''' \<or> ro_VSlotStart opts > ro_VSlotEnd opts
      then Some ErrInvalidKey else None)"

definition EngineExport ::
  "deps \<Rightarrow> callContext \<Rightarrow> gotime \<Rightarrow> MemoryEngine \<Rightarrow> RangeOptions \<Rightarrow>
     MemoryEngine \<times> (engine_error + SnapshotEntry list)" where
  "EngineExport d ctx now e opts =
     (case validateRangeOptions opts of
        Some err \<Rightarrow> (e, Inl err)
      | None \<Rightarrow>
          let opts = (if ro_Now opts = 0 then opts\<lparr>ro_Now := now\<rparr> else opts) in
          (case eachShard d ctx (\<lambda>_. (zeroCommand commandExport)\<lparr>c_rangeOpts := opts\<rparr>)
             (\<lambda>acc i r. acc @ x_snapshot r) e [] (indices e) of
             (e, _, Some err) \<Rightarrow> (e, Inl err)
           | (e, items, None) \<Rightarrow> (e, Inr (sortSnapshotEntries items))))"

definition EngineImport ::
  "deps \<Rightarrow> callContext \<Rightarrow> MemoryEngine \<Rightarrow> SnapshotEntry list \<Rightarrow> MemoryEngine \<times> u64 \<times> engine_error option" where
  "EngineImport d ctx e items =
     eachShard d ctx
       (\<lambda>i. (zeroCommand commandImport)\<lparr>c_snapshot := snapshotEntriesByShard e items i\<rparr>)
       (\<lambda>acc i r. acc + x_imported r) e 0 (indices e)"

definition EngineDeleteRange ::
  "deps \<Rightarrow> callContext \<Rightarrow> MemoryEngine \<Rightarrow> RangeOptions \<Rightarrow> MemoryEngine \<times> u64 \<times> engine_error option" where
  "EngineDeleteRange d ctx e opts =
     (case validateRangeOptions opts of
        Some err \<Rightarrow> (e, 0, Some err)
      | None \<Rightarrow>
          eachShard d ctx (\<lambda>_. (zeroCommand commandDeleteRange)\<lparr>c_rangeOpts := opts\<rparr>)
            (\<lambda>acc i r. acc + x_deletedRange r) e 0 (indices e))"

end
