(* ===== verification/Engine_Inv.thy ===== *)
theory Engine_Inv
  imports Engine
begin

text \<open>
  Lemmas on the engine: which keys a command can change (the frame of each handler), the invariant of
  the sharded store, and its contents as one map from physical keys to entries.
\<close>

section \<open>Frames of the shard commands\<close>

definition only_key :: "string \<Rightarrow> shardWorker \<Rightarrow> shardWorker \<Rightarrow> bool" where
  "only_key k s s' \<longleftrightarrow> (\<forall>k'. k' \<noteq> k \<longrightarrow> fmlookup (entries s') k' = fmlookup (entries s) k')"

lemma only_keyD: "only_key k s s' \<Longrightarrow> k' \<noteq> k \<Longrightarrow> fmlookup (entries s') k' = fmlookup (entries s) k'"
  by (simp add: only_key_def)

lemma only_key_refl [simp]: "only_key k s s"
  by (simp add: only_key_def)

lemma only_key_trans: "only_key k s s' \<Longrightarrow> only_key k s' s'' \<Longrightarrow> only_key k s s''"
  by (simp add: only_key_def)

lemma only_key_fields [simp]:
  "only_key k s (s'\<lparr>gets := a\<rparr>) = only_key k s s'" "only_key k (s\<lparr>gets := a\<rparr>) s' = only_key k s s'"
  "only_key k s (s'\<lparr>getHits := a\<rparr>) = only_key k s s'" "only_key k s (s'\<lparr>getMisses := a\<rparr>) = only_key k s s'"
  "only_key k s (s'\<lparr>getExpired := a\<rparr>) = only_key k s s'" "only_key k s (s'\<lparr>touches := a\<rparr>) = only_key k s s'"
  "only_key k (s\<lparr>touches := a\<rparr>) s' = only_key k s s'"
  "only_key k s (s'\<lparr>touchHits := a\<rparr>) = only_key k s s'" "only_key k s (s'\<lparr>touchMisses := a\<rparr>) = only_key k s s'"
  by (simp_all add: only_key_def)

lemma only_key_upd [simp]:
  "only_key k s (s'\<lparr>entries := fmupd k e m\<rparr>) \<longleftrightarrow>
     (\<forall>k'. k' \<noteq> k \<longrightarrow> fmlookup m k' = fmlookup (entries s) k')"
  "only_key k s (deleteEntry s' k e) = only_key k s s'"
  "only_key k s (storeEntry s' k e) = only_key k s s'"
  "only_key k s (replaceEntryCost s' key' old new) = only_key k s s'"
  by (auto simp: only_key_def)

lemma only_key_prepare [simp]: "only_key (c_physical cmd) s (fst (prepareCounterAdjustment s cmd))"
  by (auto simp: prepareCounterAdjustment_def Let_def split: option.split sum.split)

lemma only_key_mutable [simp]: "only_key (c_physical cmd) s (fst (mutableColl decode c s cmd))"
  by (auto simp: mutableColl_def mutablePrimitiveEntry_def Let_def
      split: prod.splits sum.splits option.splits if_splits)

lemma only_key_read [simp]: "only_key (c_physical cmd) s (fst (readColl decode s cmd))"
  by (auto simp: readColl_def readPrimitiveEntry_def Let_def
      split: prod.splits sum.splits option.splits if_splits)

lemma only_key_writeColl [simp]:
  "only_key (c_physical cmd) s (fst (writeColl encode len s cmd ent c))"
  by (auto simp: writeColl_def createPrimitiveEntry_def writePrimitiveEntry_def
      replacePrimitiveEntry_def Let_def split: sum.split option.split)

lemma only_key_withColl:
  assumes "\<And>s x. only_key k s (fst (f s x))" and "only_key k s (fst r)"
  shows "only_key k s (fst (withColl r f))"
  using assms by (auto simp: withColl_def intro: only_key_trans split: prod.split sum.split option.split)

lemma only_key_applyAdjust:
  "c_physical cmd = k \<Longrightarrow> only_key k s (fst (applyAdjust s cmd))"
  using only_key_prepare [of cmd s]
  by (auto simp: applyAdjust_def applyExistingCounter_def applyNewCounter_def Let_def only_key_def
      simp del: only_key_prepare split: prod.splits sum.splits option.splits)

lemma only_key_prepare': "c_physical cmd = k \<Longrightarrow> only_key k s (fst (prepareCounterAdjustment s cmd))"
  by auto

lemma only_key_applyPrimitive: "only_key (c_physical cmd) s (fst (applyPrimitive cx s cmd))"
  unfolding applyPrimitive_def
  by (cases "pr_Kind (c_primitive cmd)")
    (auto simp: handler_defs mutable_defs read_defs write_defs Let_def split_beta
      applyCounterPrimitive_def intro!: only_key_withColl only_key_applyAdjust split: option.split)

lemma only_key_applyPrimitiveEstimate:
  "only_key (c_physical cmd) s (fst (applyPrimitiveEstimate cx s cmd))"
  by (cases "pr_Kind (c_primitive cmd)")
    (auto simp: applyPrimitiveEstimate_def estimate_defs mutable_defs
      estimateCounterPrimitive_def Let_def intro: only_key_withColl only_key_prepare')

text \<open>A command for one key leaves every other entry of its shard alone.\<close>

fun keyed_kind :: "commandKind \<Rightarrow> bool" where
  "keyed_kind commandRestore = False"
| "keyed_kind commandImport = False"
| "keyed_kind commandDeleteRange = False"
| "keyed_kind commandSweep = False"
| "keyed_kind commandEvict = False"
| "keyed_kind _ = True"

lemma applyCommand_only_key:
  "keyed_kind (c_kind cmd) \<Longrightarrow> only_key (c_physical cmd) s (fst (applyCommand d s cmd))"
  by (cases "c_kind cmd")
    (auto simp: applyCommand_def applySet_def applyGet_def applyDelete_def applyTouch_def
      replaceEntry_def applyAdjustEstimate_state applyStatsCommand_def applySnapshotCommand_def
      applyExportCommand_def split_beta Let_def only_key_applyAdjust only_key_applyPrimitive
      only_key_applyPrimitiveEstimate split: option.split)

section \<open>Keys that can appear in a shard\<close>

abbreviation item_key :: "SnapshotEntry \<Rightarrow> string" where
  "item_key \<equiv> physicalKey \<circ> sn_Key"

lemma restoreLoop_new:
  "k \<notin> item_key ` set items \<Longrightarrow>
     fmlookup (entries (fst (restoreLoop s items))) k = fmlookup (entries s) k"
proof (induction items arbitrary: s)
  case (Cons item items)
  show ?case
  proof (cases "entryFromSnapshot item")
    case (Inr ent)
    with Cons show ?thesis using entryFromSnapshot_wf [OF Inr] by auto
  qed simp
qed simp

lemma importEntry_new:
  assumes "k \<noteq> item_key item"
  shows "fmlookup (entries (fst (importEntry s item))) k = fmlookup (entries s) k"
proof (cases "entryFromSnapshot item")
  case (Inr ent)
  with assms show ?thesis using entryFromSnapshot_wf [OF Inr]
    by (auto simp: importEntry_def replaceImportedEntry_def Let_def split: option.splits)
qed (simp add: importEntry_def)

lemma importEntries_new:
  "k \<notin> item_key ` set items \<Longrightarrow>
     fmlookup (entries (fst (importEntries s items n))) k = fmlookup (entries s) k"
proof (induction items arbitrary: s n)
  case (Cons item items)
  moreover have "fmlookup (entries (fst (importEntry s item))) k = fmlookup (entries s) k"
    using Cons.prems by (intro importEntry_new) auto
  ultimately show ?case by (auto split: prod.splits sum.splits)
qed simp

lemma applyCommand_new:
  assumes "deps_ok d" and "shard_inv s" and "k \<noteq> c_physical cmd"
    and "k \<notin> item_key ` set (c_snapshot cmd)" and "fmlookup (entries s) k = None"
  shows "fmlookup (entries (fst (applyCommand d s cmd))) k = None"
proof (cases "keyed_kind (c_kind cmd)")
  case True
  with assms show ?thesis using only_keyD [OF applyCommand_only_key [OF True]] by force
next
  case False
  have e: "enumerates (d_range d)" and o: "sorts (d_sort d)"
    using assms(1) by (simp_all add: deps_ok_def)
  have ev: "fmlookup (entries (fst (evict (d_range d) (d_sort d) s opts))) k = None" for opts
    using evict_subset [OF e o assms(2) prod.collapse [symmetric]] assms(5)
    by (metis not_Some_eq option.distinct(1))
  show ?thesis
    using False assms ev
    by (cases "c_kind cmd")
      (simp_all add: applyCommand_def applyRestoreCommand_def restoreEntries_def applyImportCommand_def
        applyDeleteRangeCommand_def applySweepCommand_def applyEvictCommand_def split_beta Let_def
        deleteRange_effect [OF e] sweepExpired_effect [OF e] importEntries_new restoreLoop_new)
qed

section \<open>The invariant of the engine\<close>

definition engine_inv :: "MemoryEngine \<Rightarrow> bool" where
  "engine_inv e \<longleftrightarrow> shards e \<noteq> [] \<and>
     (\<forall>i < length (shards e). shard_inv (shards e ! i) \<and>
        (\<forall>k. fmlookup (entries (shards e ! i)) k \<noteq> None \<longrightarrow> shardFor e k = i))"

lemma engine_invD:
  assumes "engine_inv e" and "i < length (shards e)"
  shows "shard_inv (shards e ! i)"
    and "fmlookup (entries (shards e ! i)) k = Some ent \<Longrightarrow> shardFor e k = i"
  using assms by (auto simp: engine_inv_def)

lemma shardIndex_less: "0 < n \<Longrightarrow> shardIndex n k < n"
  by (auto simp: shardIndex_def Let_def split: option.split dest!: find_SomeD)

lemma shardFor_less: "engine_inv e \<Longrightarrow> shardFor e k < length (shards e)"
  by (simp add: engine_inv_def shardFor_def shardIndex_less)

text \<open>A command at home in shard \<open>i\<close>: it can only create entries whose keys belong there.\<close>

definition home :: "MemoryEngine \<Rightarrow> nat \<Rightarrow> shardCommand \<Rightarrow> bool" where
  "home e i cmd \<longleftrightarrow> allowed_command cmd \<and>
     (c_physical cmd \<noteq> '''' \<longrightarrow> shardFor e (c_physical cmd) = i) \<and>
     (\<forall>item \<in> set (c_snapshot cmd). shardFor e (item_key item) = i)"

definition applied :: "deps \<Rightarrow> MemoryEngine \<Rightarrow> nat \<Rightarrow> shardCommand \<Rightarrow> MemoryEngine" where
  "applied d e i cmd = e\<lparr>shards := (shards e)[i := fst (applyCommand d (shards e ! i) cmd)]\<rparr>"

lemma executeOn_cases:
  "fst (executeOn d ctx e i cmd) = e \<or> fst (executeOn d ctx e i cmd) = applied d e i cmd"
  by (auto simp: executeOn_def applied_def Let_def split_beta split: delivery.split)

lemma executeOn_Inr:
  assumes "executeOn d ctx e i cmd = (e', Inr r)"
  shows "e' = applied d e i cmd" and "r = snd (applyCommand d (shards e ! i) cmd)"
  using assms
  by (auto simp: executeOn_def applied_def Let_def split_beta split: delivery.splits if_splits)

lemma shards_applied [simp]:
  "length (shards (applied d e i cmd)) = length (shards e)"
  "shardFor (applied d e i cmd) k = shardFor e k"
  "home (applied d e i cmd) j c = home e j c"
  "me_closed (applied d e i cmd) = me_closed e"
  by (simp_all add: applied_def shardFor_def home_def)

lemma applied_nth:
  "i < length (shards e) \<Longrightarrow> shards (applied d e i cmd) ! j =
     (if j = i then fst (applyCommand d (shards e ! i) cmd) else shards e ! j)"
  by (simp add: applied_def nth_list_update)

lemma physical_not_empty: "shard_inv s \<Longrightarrow> fmlookup (entries s) '''' = None"
  using physicalKey_not_empty by (metis not_None_eq shard_inv_def wf_entriesD wf_entry_def)

lemma applied_inv:
  assumes "deps_ok d" and "engine_inv e" and "i < length (shards e)" and "home e i cmd"
  shows "engine_inv (applied d e i cmd)"
proof -
  let ?s = "shards e ! i" and ?s' = "fst (applyCommand d (shards e ! i) cmd)"
  have s: "shard_inv ?s" by (rule engine_invD(1) [OF assms(2,3)])
  moreover have s': "shard_inv ?s'"
    using assms s by (auto simp: home_def intro: applyCommand_inv)
  moreover have "shardFor e k = i" if k: "fmlookup (entries ?s') k \<noteq> None" for k
  proof (cases "fmlookup (entries ?s) k")
    case None
    have "k \<noteq> ''''" using k physical_not_empty [OF s'] by auto
    with applyCommand_new [OF assms(1) s _ _ None, of cmd] k assms(4) show ?thesis
      by (fastforce simp: home_def)
  qed (use engine_invD(2) [OF assms(2,3)] in simp)
  ultimately show ?thesis
    using assms(2,3) engine_invD [OF assms(2)]
    by (simp add: engine_inv_def applied_nth) (auto simp: applied_def)
qed

lemma executeOn_inv:
  assumes "deps_ok d" and "engine_inv e" and "i < length (shards e)" and "home e i cmd"
  shows "engine_inv (fst (executeOn d ctx e i cmd))"
  using executeOn_cases [of d ctx e i cmd] applied_inv [OF assms] assms(2) by auto

lemma executeOn_home [simp]:
  "home (fst (executeOn d ctx e i cmd)) j c = home e j c"
  "length (shards (fst (executeOn d ctx e i cmd))) = length (shards e)"
  "shardFor (fst (executeOn d ctx e i cmd)) k = shardFor e k"
  using executeOn_cases [of d ctx e i cmd] by auto

lemma eachShard_inv:
  assumes "deps_ok d" and "engine_inv e" and "\<And>i. home e i (cmd i)"
    and "\<And>i. i \<in> set is \<Longrightarrow> i < length (shards e)"
  shows "engine_inv (fst (eachShard d ctx cmd add e acc is))"
  using assms(2-)
proof (induction "is" arbitrary: e acc)
  case (Cons i "is")
  let ?x = "executeOn d ctx e i (cmd i)"
  have "engine_inv (fst ?x)" using Cons.prems by (intro executeOn_inv [OF assms(1)]) auto
  moreover have "engine_inv (fst (eachShard d ctx cmd add (fst ?x) a is))" for a
    using Cons.prems calculation by (intro Cons.IH) auto
  ultimately show ?case by (auto split: prod.split sum.split option.split)
qed simp

subsection \<open>Every operation keeps it\<close>

lemma finish_state [simp]: "fst (finish x f) = fst x"
  by (auto simp: finish_def split: prod.split sum.split option.split)

lemma execute_inv:
  assumes "deps_ok d" and "engine_inv e" and "allowed_command cmd" and "c_snapshot cmd = []"
  shows "engine_inv (fst (execute d ctx e cmd))"
  unfolding execute_def using assms
  by (intro executeOn_inv shardFor_less) (auto simp: home_def)

lemmas engine_key_ops = EngineSet_def EngineGet_def EngineDelete_def EngineTouch_def
  EngineAdjust_def EngineEstimateAdjust_def EnginePrimitive_def EngineEstimatePrimitive_def

lemma key_ops_inv:
  assumes "deps_ok d" and "engine_inv e"
  shows "engine_inv (fst (EngineSet d ctx now e key val so))"
    and "engine_inv (fst (EngineGet d ctx now e key g))"
    and "engine_inv (fst (EngineDelete d ctx e key del))"
    and "engine_inv (fst (EngineTouch d ctx now e key t))"
    and "engine_inv (fst (EngineAdjust d ctx now e key a))"
    and "engine_inv (fst (EngineEstimateAdjust d ctx now e key a))"
    and "engine_inv (fst (EnginePrimitive d ctx now e req))"
    and "engine_inv (fst (EngineEstimatePrimitive d ctx now e req))"
  using assms
  by (auto simp: engine_key_ops allowed_command_def zeroCommand_def wf_command_def
      validatePrimitiveRequest_def split: option.split if_splits intro!: execute_inv)

lemma zeroCommand_home [simp]:
  "c_physical (zeroCommand kind) = ''''" "c_snapshot (zeroCommand kind) = []"
  "c_kind (zeroCommand kind) = kind"
  by (simp_all add: zeroCommand_def)

lemma home_every:
  "c_physical cmd = '''' \<Longrightarrow> c_snapshot cmd = [] \<Longrightarrow>
     c_kind cmd \<in> {commandStats, commandSweep, commandEvict, commandSnapshot, commandExport,
       commandDeleteRange} \<Longrightarrow> home e i cmd"
  by (auto simp: home_def allowed_command_def)

lemma home_import:
  "home e i ((zeroCommand commandImport)\<lparr>c_snapshot := snapshotEntriesByShard e items i\<rparr>)"
  by (auto simp: home_def allowed_command_def snapshotEntriesByShard_def)

lemma home_restore:
  "distinct (map item_key items) \<Longrightarrow>
     home e i ((zeroCommand commandRestore)\<lparr>c_snapshot := snapshotEntriesByShard e items i\<rparr>)"
  by (auto simp: home_def allowed_command_def snapshotEntriesByShard_def distinct_map_filter comp_def)

lemma indices_less: "i \<in> set (indices e) \<Longrightarrow> i < length (shards e)"
  by simp

lemma evictShards_inv:
  assumes "deps_ok d" and "engine_inv e" and "\<And>i. i \<in> set is \<Longrightarrow> i < length (shards e)"
  shows "engine_inv (fst (evictShards d ctx opts e acc is))"
  using assms(2-)
proof (induction "is" arbitrary: e acc)
  case (Cons i "is")
  let ?x = "executeOn d ctx e i ((zeroCommand commandEvict)
    \<lparr>c_evict := opts\<lparr>eo_TargetBytes := eo_TargetBytes opts - er_FreedBytes acc\<rparr>, c_now := eo_Now opts\<rparr>)"
  have "engine_inv (fst ?x)"
    using Cons.prems by (intro executeOn_inv [OF assms(1)] home_every) auto
  moreover have "engine_inv (fst (evictShards d ctx opts (fst ?x) a is))" for a
    using Cons.prems calculation by (intro Cons.IH) auto
  ultimately show ?case using Cons.prems by (auto simp: Let_def split: prod.split sum.split option.split)
qed simp

lemma eachShard_all_inv:
  "deps_ok d \<Longrightarrow> engine_inv e \<Longrightarrow> \<forall>i. home e i (cmd i) \<Longrightarrow>
     engine_inv (fst (eachShard d ctx cmd add e acc (indices e)))"
  by (rule eachShard_inv) auto

lemma evictShards_all_inv:
  "deps_ok d \<Longrightarrow> engine_inv e \<Longrightarrow> engine_inv (fst (evictShards d ctx opts e acc (indices e)))"
  by (rule evictShards_inv) auto

lemma all_ops_inv:
  assumes "deps_ok d" and "engine_inv e"
  shows "engine_inv (fst (EngineStats d ctx e))"
    and "engine_inv (fst (EngineSweepExpired d ctx e now))"
    and "engine_inv (fst (EngineEvict d ctx now e eo))"
    and "engine_inv (fst (EngineSnapshot d ctx e))"
    and "engine_inv (fst (EngineExport d ctx now e ro))"
    and "engine_inv (fst (EngineImport d ctx e items))"
    and "engine_inv (fst (EngineDeleteRange d ctx e ro))"
    and "distinct (map item_key items) \<Longrightarrow> engine_inv (fst (EngineRestore d ctx e items))"
  using assms
  by (simp_all add: EngineStats_def EngineSweepExpired_def EngineEvict_def evictFromShards_def
      EngineSnapshot_def EngineExport_def EngineImport_def EngineDeleteRange_def EngineRestore_def
      eachShard_all_inv evictShards_all_inv home_import home_restore split_beta Let_def home_every
      split: option.split)

subsection \<open>The engine as a state machine\<close>

datatype engineCall =
    CallSet callContext gotime Key bytes SetOptions
  | CallGet callContext gotime Key GetOptions
  | CallDelete callContext Key DeleteOptions
  | CallTouch callContext gotime Key TouchOptions
  | CallAdjust callContext gotime Key AdjustOptions
  | CallEstimateAdjust callContext gotime Key AdjustOptions
  | CallPrimitive callContext gotime PrimitiveRequest
  | CallEstimatePrimitive callContext gotime PrimitiveRequest
  | CallStats callContext
  | CallSweepExpired callContext gotime
  | CallEvict callContext gotime EvictOptions
  | CallSnapshot callContext
  | CallRestore callContext "SnapshotEntry list"
  | CallExport callContext gotime RangeOptions
  | CallImport callContext "SnapshotEntry list"
  | CallDeleteRange callContext RangeOptions
  | CallClose

fun engineStep :: "deps \<Rightarrow> MemoryEngine \<Rightarrow> engineCall \<Rightarrow> MemoryEngine" where
  "engineStep d e (CallSet ctx now key val opts) = fst (EngineSet d ctx now e key val opts)"
| "engineStep d e (CallGet ctx now key opts) = fst (EngineGet d ctx now e key opts)"
| "engineStep d e (CallDelete ctx key opts) = fst (EngineDelete d ctx e key opts)"
| "engineStep d e (CallTouch ctx now key opts) = fst (EngineTouch d ctx now e key opts)"
| "engineStep d e (CallAdjust ctx now key opts) = fst (EngineAdjust d ctx now e key opts)"
| "engineStep d e (CallEstimateAdjust ctx now key opts) = fst (EngineEstimateAdjust d ctx now e key opts)"
| "engineStep d e (CallPrimitive ctx now req) = fst (EnginePrimitive d ctx now e req)"
| "engineStep d e (CallEstimatePrimitive ctx now req) = fst (EngineEstimatePrimitive d ctx now e req)"
| "engineStep d e (CallStats ctx) = fst (EngineStats d ctx e)"
| "engineStep d e (CallSweepExpired ctx now) = fst (EngineSweepExpired d ctx e now)"
| "engineStep d e (CallEvict ctx now opts) = fst (EngineEvict d ctx now e opts)"
| "engineStep d e (CallSnapshot ctx) = fst (EngineSnapshot d ctx e)"
| "engineStep d e (CallRestore ctx items) = fst (EngineRestore d ctx e items)"
| "engineStep d e (CallExport ctx now opts) = fst (EngineExport d ctx now e opts)"
| "engineStep d e (CallImport ctx items) = fst (EngineImport d ctx e items)"
| "engineStep d e (CallDeleteRange ctx opts) = fst (EngineDeleteRange d ctx e opts)"
| "engineStep d e CallClose = EngineClose e"

fun allowedCall :: "engineCall \<Rightarrow> bool" where
  "allowedCall (CallRestore ctx items) = distinct (map item_key items)"
| "allowedCall _ = True"

lemma EngineClose_inv: "engine_inv e \<Longrightarrow> engine_inv (EngineClose e)"
  by (simp add: EngineClose_def engine_inv_def shardFor_def)

interpretation engine: state_machine "\<lambda>e c. (engineStep d e c, ())" engine_inv
    "\<lambda>c. deps_ok d \<and> allowedCall c" for d
proof unfold_locales
  show "engine_inv (fst (engineStep d e c, ()))" if "engine_inv e" "deps_ok d \<and> allowedCall c" for e c
    using that by (cases c) (auto simp: key_ops_inv all_ops_inv EngineClose_inv)
qed

lemma engine_inv_NewMemory: "engine_inv (NewMemory cfg)"
proof -
  have "entries (newWorker i) = fmempty" for i by (simp add: newWorker_def)
  then show ?thesis by (auto simp: engine_inv_def NewMemory_def Let_def shard_inv_newWorker)
qed

end
