(* ===== verification/Engine_Store.thy ===== *)
theory Engine_Store
  imports Engine_Inv
begin

text \<open>
  The engine seen as one store: \<open>contents\<close> maps physical keys to entries whatever shard holds them,
  \<open>bytesWhere\<close> is the memory cost of the entries of the spaces a predicate selects, as a natural number.
  The lemmas say what each operation does to the two, and that the statistics report them.
\<close>

definition contents :: "MemoryEngine \<Rightarrow> string \<Rightarrow> entry option" where
  "contents e k = fmlookup (entries (shards e ! shardFor e k)) k"

definition mapBytes :: "(spaceKey \<Rightarrow> bool) \<Rightarrow> (string, entry) fmap \<Rightarrow> nat" where
  "mapBytes P m = fmsum (\<lambda>_ ent. if P (spaceKeyOf (e_key ent)) then unat (e_costBytes ent) else 0) m"

definition bytesWhere :: "(spaceKey \<Rightarrow> bool) \<Rightarrow> MemoryEngine \<Rightarrow> nat" where
  "bytesWhere P e = (\<Sum>s\<leftarrow>shards e. mapBytes P (entries s))"

section \<open>Sums over a shard and over the engine\<close>

lemma fmsum_hom:
  assumes "\<And>x y. h (x + y) = h x + h y" and "h 0 = 0"
  shows "h (fmsum f m) = fmsum (\<lambda>k v. h (f k v)) m"
proof -
  have "h (\<Sum>k\<in>A. f k (the (fmlookup m k))) = (\<Sum>k\<in>A. h (f k (the (fmlookup m k))))"
    if "finite A" for A
    using that by induction (simp_all add: assms)
  then show ?thesis by (simp add: fmsum_def)
qed

lemma fmsum_mono:
  fixes f :: "'k \<Rightarrow> 'v \<Rightarrow> nat"
  assumes "\<And>k v. fmlookup m' k = Some v \<Longrightarrow> fmlookup m k = Some v"
  shows "fmsum f m' \<le> fmsum f m"
proof -
  have "fmsum f m' = (\<Sum>k\<in>fset (fmdom m'). f k (the (fmlookup m k)))"
    unfolding fmsum_def by (rule sum.cong) (use assms in force)+
  also have "\<dots> \<le> fmsum f m"
    unfolding fmsum_def by (rule sum_mono2) (use assms in force)+
  finally show ?thesis .
qed

lemma shard_inv_usage: "shard_inv s \<Longrightarrow> su_memoryBytes (usageOf s sk) = spaceBytes (entries s) sk"
  unfolding shard_inv_def accounted_def by blast

lemma mapBytes_word:
  "of_nat (mapBytes P m) =
     fmsum (\<lambda>_ ent. if P (spaceKeyOf (e_key ent)) then e_costBytes ent else (0 :: u64)) m"
proof -
  have "(of_nat (mapBytes P m) :: u64) = fmsum (\<lambda>_ ent. of_nat
      (if P (spaceKeyOf (e_key ent)) then unat (e_costBytes ent) else 0)) m"
    unfolding mapBytes_def by (rule fmsum_hom) simp_all
  also have "\<dots> = fmsum (\<lambda>_ ent. if P (spaceKeyOf (e_key ent)) then e_costBytes ent else (0 :: u64)) m"
    by (rule fmsum_cong) simp
  finally show ?thesis .
qed

lemma mapBytes_space: "of_nat (mapBytes (\<lambda>x. x = sk) m) = spaceBytes m sk"
  unfolding mapBytes_word spaceBytes_def by (rule fmsum_cong) (simp add: in_space_def)

lemma mapBytes_spaces:
  assumes "finite F" and "\<And>k ent. fmlookup m k = Some ent \<Longrightarrow> P (spaceKeyOf (e_key ent)) \<Longrightarrow> spaceKeyOf (e_key ent) \<in> F"
    and "\<And>sk. sk \<in> F \<Longrightarrow> P sk"
  shows "(\<Sum>sk\<in>F. spaceBytes m sk) = of_nat (mapBytes P m)"
proof -
  have "(\<Sum>sk\<in>F. spaceBytes m sk) =
      (\<Sum>k\<in>fset (fmdom m). \<Sum>sk\<in>F. in_space sk (e_costBytes (the (fmlookup m k))) (the (fmlookup m k)))"
    by (simp add: spaceBytes_def fmsum_def sum.swap [of _ F])
  also have "\<dots> = of_nat (mapBytes P m)"
    unfolding mapBytes_word fmsum_def using assms
    by (intro sum.cong) (auto simp: in_space_def sum.delta)
  finally show ?thesis .
qed

lemma mapBytes_upd:
  "mapBytes P (fmupd k ent m) + (case fmlookup m k of None \<Rightarrow> 0 | Some old \<Rightarrow>
       if P (spaceKeyOf (e_key old)) then unat (e_costBytes old) else 0) =
     mapBytes P m + (if P (spaceKeyOf (e_key ent)) then unat (e_costBytes ent) else 0)"
proof (cases "fmlookup m k")
  case (Some old)
  then show ?thesis
    using fmsum_split [of "fmupd k ent m" k ent "\<lambda>_ ent. if P (spaceKeyOf (e_key ent)) then unat (e_costBytes ent) else 0"]
      fmsum_split [OF Some, of "\<lambda>_ ent. if P (spaceKeyOf (e_key ent)) then unat (e_costBytes ent) else 0"]
    by (simp add: mapBytes_def fmdrop_fmupd_id)
qed (simp add: mapBytes_def fmsum_fresh)

lemma bytesWhere_update:
  assumes "i < length (shards e)" and "shards e' = (shards e)[i := s]"
  shows "bytesWhere P e' + mapBytes P (entries (shards e ! i)) = bytesWhere P e + mapBytes P (entries s)"
proof -
  have "mapBytes P (entries (shards e ! i)) \<le> bytesWhere P e"
    unfolding bytesWhere_def using assms(1) by (intro member_le_sum_list) auto
  then show ?thesis
    using assms by (simp add: bytesWhere_def map_update sum_list_update)
qed

section \<open>Contents after a command\<close>

lemma contents_applied:
  assumes "engine_inv e" and "i < length (shards e)"
  shows "contents (applied d e i cmd) k =
    (if shardFor e k = i then fmlookup (entries (fst (applyCommand d (shards e ! i) cmd))) k else contents e k)"
  using assms by (simp add: contents_def applied_nth)

lemma contents_entry:
  assumes "engine_inv e" and "contents e (physicalKey key) = Some ent"
  shows "e_key ent = key" and "e_costBytes ent = costOf key (e_value ent)"
proof -
  have inv: "shard_inv (shards e ! shardFor e (physicalKey key))"
    using assms by (simp add: engine_invD shardFor_less)
  with assms(2) show key: "e_key ent = key" by (simp add: contents_def spaceKeyOf_lookup)
  have "wf_entry (physicalKey key) ent"
    using inv assms(2) by (auto simp: contents_def shard_inv_def intro: wf_entriesD)
  with key show "e_costBytes ent = costOf key (e_value ent)" by (simp add: wf_entry_def)
qed

lemma finish_Inr:
  "finish x f = (e', Inr v) \<longleftrightarrow> (\<exists>r. x = (e', Inr r) \<and> x_err r = None \<and> v = f r)"
  by (auto simp: finish_def split: prod.splits sum.splits option.splits)

lemma execute_Inr:
  assumes "engine_inv e" and "execute d ctx e cmd = (e', Inr r)"
  defines "s \<equiv> shards e ! shardFor e (c_physical cmd)"
  shows "r = snd (applyCommand d s cmd)"
    and "fmlookup (entries s) (c_physical cmd) = contents e (c_physical cmd)"
    and "contents e' (c_physical cmd) = fmlookup (entries (fst (applyCommand d s cmd))) (c_physical cmd)"
    and "keyed_kind (c_kind cmd) \<Longrightarrow> k \<noteq> c_physical cmd \<Longrightarrow> contents e' k = contents e k"
    and "bytesWhere P e' + mapBytes P (entries s) =
      bytesWhere P e + mapBytes P (entries (fst (applyCommand d s cmd)))"
proof -
  note x = executeOn_Inr [OF assms(2) [unfolded execute_def]]
  have i: "shardFor e (c_physical cmd) < length (shards e)" by (rule shardFor_less [OF assms(1)])
  show "r = snd (applyCommand d s cmd)" using x by (simp add: s_def)
  show "fmlookup (entries s) (c_physical cmd) = contents e (c_physical cmd)"
    by (simp add: s_def contents_def)
  show "contents e' (c_physical cmd) = fmlookup (entries (fst (applyCommand d s cmd))) (c_physical cmd)"
    using x contents_applied [OF assms(1) i] by (simp add: s_def)
  show "keyed_kind (c_kind cmd) \<Longrightarrow> k \<noteq> c_physical cmd \<Longrightarrow> contents e' k = contents e k"
    using x contents_applied [OF assms(1) i] only_keyD [OF applyCommand_only_key]
    by (simp add: contents_def)
  show "bytesWhere P e' + mapBytes P (entries s) =
      bytesWhere P e + mapBytes P (entries (fst (applyCommand d s cmd)))"
    using x i by (intro bytesWhere_update [OF i, folded s_def]) (simp add: applied_def s_def)
qed

section \<open>Set, get and delete\<close>

definition keyCost :: "entry option \<Rightarrow> u64" where
  "keyCost old = (case old of None \<Rightarrow> 0 | Some ent \<Rightarrow> e_costBytes ent)"

definition share :: "(spaceKey \<Rightarrow> bool) \<Rightarrow> Key \<Rightarrow> u64 \<Rightarrow> nat" where
  "share P key cost = (if P (spaceKeyOf key) then unat cost else 0)"

definition setEntry :: "gotime \<Rightarrow> Key \<Rightarrow> bytes \<Rightarrow> SetOptions \<Rightarrow> entry option \<Rightarrow> entry" where
  "setEntry now key val opts old =
     \<lparr>e_key = key, e_value = val,
      e_version = (case old of None \<Rightarrow> 1 | Some ent \<Rightarrow> e_version ent + 1),
      e_namespaceVersion = so_NamespaceVersion opts, e_spaceVersion = so_SpaceVersion opts,
      e_expireAt = (if so_TTL opts > 0 then now + so_TTL opts else 0),
      e_createdAt = (case old of None \<Rightarrow> now | Some ent \<Rightarrow> e_createdAt ent),
      e_updatedAt = now, e_lastAccessAt = now,
      e_accessCount = (case old of None \<Rightarrow> 1 | Some ent \<Rightarrow> e_accessCount ent + 1),
      e_costBytes = costOf key val\<rparr>"

definition setApplies :: "SetOptions \<Rightarrow> entry option \<Rightarrow> bool" where
  "setApplies opts old \<longleftrightarrow>
     so_ExpectedVersion opts = 0 \<or> (\<exists>ent. old = Some ent \<and> e_version ent = so_ExpectedVersion opts)"

lemma applySet_eq:
  assumes "fmlookup (entries s) (c_physical cmd) = old" and "\<And>ent. old = Some ent \<Longrightarrow> e_key ent = c_key cmd"
  defines "ent \<equiv> setEntry (c_now cmd) (c_key cmd) (c_value cmd) (c_setOpts cmd) old"
  shows "entries (fst (applySet s cmd)) =
      (if setApplies (c_setOpts cmd) old then fmupd (c_physical cmd) ent (entries s) else entries s)"
    and "snd (applySet s cmd) =
      (if setApplies (c_setOpts cmd) old then zeroResult\<lparr>x_record := entryRecord ent, x_found := True\<rparr>
       else zeroResult)"
proof -
  have new: "setEntry (c_now cmd) (c_key cmd) (c_value cmd) (c_setOpts cmd) None =
      newEntry cmd (if so_TTL (c_setOpts cmd) > 0 then c_now cmd + so_TTL (c_setOpts cmd) else 0)
        (costOf (c_key cmd) (c_value cmd))"
    by (simp add: setEntry_def newEntry_def)
  have repl: "snd (replaceEntry s x cmd (if so_TTL (c_setOpts cmd) > 0 then c_now cmd + so_TTL (c_setOpts cmd) else 0)
        (costOf (c_key cmd) (c_value cmd))) =
      setEntry (c_now cmd) (c_key cmd) (c_value cmd) (c_setOpts cmd) (Some x)"
    if "e_key x = c_key cmd" for x
    using that by (cases x) (simp add: replaceEntry_def setEntry_def Let_def)
  have ents: "entries (fst (replaceEntry s x cmd t c)) =
      fmupd (c_physical cmd) (snd (replaceEntry s x cmd t c)) (entries s)" for x t c
    by (simp add: replaceEntry_def Let_def)
  show "entries (fst (applySet s cmd)) =
      (if setApplies (c_setOpts cmd) old then fmupd (c_physical cmd) ent (entries s) else entries s)"
    using assms(1,2) unfolding ent_def
    by (cases old)
      (simp_all add: applySet_def setApplies_def new repl ents word_gt_0 split_beta Let_def)
  show "snd (applySet s cmd) =
      (if setApplies (c_setOpts cmd) old then zeroResult\<lparr>x_record := entryRecord ent, x_found := True\<rparr>
       else zeroResult)"
    using assms(1,2) unfolding ent_def
    by (cases old)
      (simp_all add: applySet_def setApplies_def new repl word_gt_0 split_beta Let_def zeroResult_def)
qed

lemma mapBytes_set:
  assumes "\<And>old. fmlookup m k = Some old \<Longrightarrow> e_key old = key" and "e_key ent = key"
  shows "mapBytes P (fmupd k ent m) + share P key (keyCost (fmlookup m k)) =
    mapBytes P m + share P key (e_costBytes ent)"
  using mapBytes_upd [of P k ent m] assms
  by (auto simp: share_def keyCost_def split: option.splits if_splits)

lemma keyed_lookup:
  assumes "engine_inv e"
  shows "fmlookup (entries (shards e ! shardFor e (physicalKey key))) (physicalKey key) = Some ent \<Longrightarrow> e_key ent = key"
  using contents_entry(1) [OF assms, of key ent] by (simp add: contents_def)

lemma EngineSet_spec:
  assumes inv: "engine_inv e" and set: "EngineSet d ctx now e key val opts = (e', Inr (rec, ok))"
  defines "old \<equiv> contents e (physicalKey key)"
  defines "ent \<equiv> setEntry now key val opts old"
  shows EngineSet_ok: "ok = setApplies opts old"
    and EngineSet_record: "ok \<Longrightarrow> rec = entryRecord ent"
    and EngineSet_contents: "contents e' k = (if ok \<and> k = physicalKey key then Some ent else contents e k)"
    and EngineSet_bytes: "bytesWhere P e' + (if ok then share P key (keyCost old) else 0) =
      bytesWhere P e + (if ok then share P key (costOf key val) else 0)"
proof -
  let ?cmd = "(zeroCommand commandSet)\<lparr>c_physical := physicalKey key, c_key := key,
    c_value := val, c_setOpts := opts, c_now := now\<rparr>"
  let ?s = "shards e ! shardFor e (physicalKey key)"
  from set obtain r where x: "execute d ctx e ?cmd = (e', Inr r)" and r: "rec = x_record r" "ok = x_found r"
    by (auto simp: EngineSet_def finish_Inr split: option.splits)
  note ex = execute_Inr [OF inv x, simplified]
  have old: "fmlookup (entries ?s) (physicalKey key) = old" using ex(2) by (simp add: old_def)
  have ac: "applyCommand d ?s ?cmd = applySet ?s ?cmd" by (simp add: applyCommand_def)
  note eq = applySet_eq [of ?s ?cmd old, folded ac, simplified, folded ent_def, OF old]
  have k: "old = Some x \<Longrightarrow> e_key x = key" for x using old keyed_lookup [OF inv] by auto
  note eq = eq [OF k]
  show ok: "ok = setApplies opts old" using ex(1) r eq(2) by (auto simp: zeroResult_def)
  show "ok \<Longrightarrow> rec = entryRecord ent" using ex(1) r eq(2) ok by (simp add: zeroResult_def ent_def)
  show "contents e' k = (if ok \<and> k = physicalKey key then Some ent else contents e k)"
    using ex(3,4) eq(1) ok old
    by (cases "k = physicalKey key") (simp_all add: old_def ent_def)
  show "bytesWhere P e' + (if ok then share P key (keyCost old) else 0) =
      bytesWhere P e + (if ok then share P key (costOf key val) else 0)"
    using ex(5) [of P] eq(1) ok old mapBytes_set [of "entries ?s" "physicalKey key" key ent P] k
    by (auto simp: ent_def setEntry_def split: if_splits)
qed

definition readAt :: "gotime \<Rightarrow> entry \<Rightarrow> entry" where
  "readAt now ent = ent\<lparr>e_lastAccessAt := now, e_accessCount := e_accessCount ent + 1\<rparr>"

definition getOutcome :: "gotime \<Rightarrow> GetOptions \<Rightarrow> entry option \<Rightarrow> entry option \<times> entry option" where
  "getOutcome now opts old =
     (case old of
        None \<Rightarrow> (None, None)
      | Some ent \<Rightarrow>
          if expired ent now then (None, None)
          else if visible ent opts then (Some (readAt now ent), Some (readAt now ent))
          else (Some ent, None))"

lemma mapBytes_drop:
  assumes "\<And>old. fmlookup m k = Some old \<Longrightarrow> e_key old = key"
  shows "mapBytes P (fmdrop k m) + share P key (keyCost (fmlookup m k)) = mapBytes P m"
proof (cases "fmlookup m k")
  case None
  have "fmdrop k m = m" by (rule fmap_ext) (simp add: None)
  with None show ?thesis by (simp add: share_def keyCost_def)
next
  case (Some old)
  show ?thesis
    using fmsum_split [OF Some, of "\<lambda>_ ent. if P (spaceKeyOf (e_key ent)) then unat (e_costBytes ent) else 0"]
      by (simp add: mapBytes_def share_def keyCost_def Some assms [OF Some])
qed

lemma keyCost_simps [simp]: "keyCost None = 0" "keyCost (Some ent) = e_costBytes ent"
  by (simp_all add: keyCost_def)

lemma share_0 [simp]: "share P key 0 = 0"
  by (simp add: share_def)

lemma mapBytes_same:
  assumes "fmlookup m k = Some old" and "e_key ent = e_key old" and "e_costBytes ent = e_costBytes old"
  shows "mapBytes P (fmupd k ent m) = mapBytes P m"
  using mapBytes_upd [of P k ent m] assms by (simp split: if_splits)

lemma EngineGet_spec:
  assumes inv: "engine_inv e" and get: "EngineGet d ctx now e key opts = (e', Inr (rec, ok))"
  defines "old \<equiv> contents e (physicalKey key)"
  shows EngineGet_found: "ok = (snd (getOutcome now opts old) \<noteq> None)"
    and EngineGet_record: "rec = (case snd (getOutcome now opts old) of None \<Rightarrow> zeroRecord | Some ent \<Rightarrow> entryRecord ent)"
    and EngineGet_contents: "contents e' k = (if k = physicalKey key then fst (getOutcome now opts old) else contents e k)"
    and EngineGet_bytes: "bytesWhere P e' + share P key (keyCost old) =
      bytesWhere P e + share P key (keyCost (contents e' (physicalKey key)))"
proof -
  let ?cmd = "(zeroCommand commandGet)\<lparr>c_physical := physicalKey key, c_getOpts := opts, c_now := now\<rparr>"
  let ?s = "shards e ! shardFor e (physicalKey key)"
  from get obtain r where x: "execute d ctx e ?cmd = (e', Inr r)" and r: "rec = x_record r" "ok = x_found r"
    by (auto simp: EngineGet_def finish_Inr split: option.splits)
  note ex = execute_Inr [OF inv x, simplified]
  have old: "fmlookup (entries ?s) (physicalKey key) = old" using ex(2) by (simp add: old_def)
  have ac: "applyCommand d ?s ?cmd = applyGet ?s ?cmd" by (simp add: applyCommand_def)
  have k: "old = Some x \<Longrightarrow> e_key x = key" for x using old keyed_lookup [OF inv] by auto
  show "ok = (snd (getOutcome now opts old) \<noteq> None)"
    using ex(1) r old
    by (cases old) (auto simp: ac applyGet_def Let_def getOutcome_def zeroResult_def)
  show "rec = (case snd (getOutcome now opts old) of None \<Rightarrow> zeroRecord | Some ent \<Rightarrow> entryRecord ent)"
    using ex(1) r old
    by (cases old) (auto simp: ac applyGet_def Let_def getOutcome_def zeroResult_def readAt_def)
  show c: "contents e' k = (if k = physicalKey key then fst (getOutcome now opts old) else contents e k)" for k
  proof (cases "k = physicalKey key")
    case True
    with ex(3) old show ?thesis
      by (cases old) (simp_all add: ac applyGet_def Let_def getOutcome_def readAt_def)
  qed (use ex(4) in simp)
  show "bytesWhere P e' + share P key (keyCost old) =
      bytesWhere P e + share P key (keyCost (contents e' (physicalKey key)))"
  proof (cases old)
    case None
    with ex(5) [of P] old show ?thesis by (simp add: c ac applyGet_def Let_def getOutcome_def)
  next
    case (Some ent)
    with old have l: "fmlookup (entries ?s) (physicalKey key) = Some ent" by simp
    have "e_key ent = key" using Some by (rule k)
    then have "mapBytes P (fmdrop (physicalKey key) (entries ?s)) + share P key (e_costBytes ent) =
        mapBytes P (entries ?s)"
      using mapBytes_drop [of "entries ?s" "physicalKey key" key P] l by simp
    with ex(5) [of P] l Some show ?thesis
      by (simp add: c ac applyGet_def Let_def getOutcome_def readAt_def mapBytes_same split: if_splits)
  qed
qed

lemma EngineDelete_spec:
  assumes inv: "engine_inv e" and del: "EngineDelete d ctx e key opts = (e', Inr (deleted, found))"
  defines "old \<equiv> contents e (physicalKey key)"
  shows EngineDelete_ok: "deleted = (\<exists>ent. old = Some ent \<and>
      (do_ExpectedVersion opts = 0 \<or> e_version ent = do_ExpectedVersion opts))"
    and EngineDelete_found: "found = deleted"
    and EngineDelete_contents: "contents e' k = (if deleted \<and> k = physicalKey key then None else contents e k)"
proof -
  let ?cmd = "(zeroCommand commandDelete)\<lparr>c_physical := physicalKey key, c_deleteOpts := opts\<rparr>"
  let ?s = "shards e ! shardFor e (physicalKey key)"
  from del obtain r where x: "execute d ctx e ?cmd = (e', Inr r)" and r: "deleted = x_deleted r" "found = x_found r"
    by (auto simp: EngineDelete_def finish_Inr split: option.splits)
  note ex = execute_Inr [OF inv x, simplified]
  have old: "fmlookup (entries ?s) (physicalKey key) = old" using ex(2) by (simp add: old_def)
  have ac: "applyCommand d ?s ?cmd = applyDelete ?s ?cmd" by (simp add: applyCommand_def)
  show d: "deleted = (\<exists>ent. old = Some ent \<and>
      (do_ExpectedVersion opts = 0 \<or> e_version ent = do_ExpectedVersion opts))"
    using ex(1) r old
    by (cases old) (auto simp: ac applyDelete_def zeroResult_def word_gt_0)
  show "found = deleted" using ex(1) r old
    by (cases old) (auto simp: ac applyDelete_def zeroResult_def)
  show "contents e' k = (if deleted \<and> k = physicalKey key then None else contents e k)"
  proof (cases "k = physicalKey key")
    case True
    with ex(3) old d show ?thesis
      by (cases old) (auto simp: ac applyDelete_def word_gt_0 old_def [symmetric])
  qed (use ex(4) in simp)
qed

section \<open>Statistics\<close>

lemma eachShard_read:
  assumes "\<And>s i. fst (applyCommand d s (cmd i)) = s"
    and "eachShard d ctx cmd add e acc is = (e', acc', None)"
  shows "e' = e \<and> acc' = foldl (\<lambda>a i. add a i (snd (applyCommand d (shards e ! i) (cmd i)))) acc is"
  using assms(2)
proof (induction "is" arbitrary: acc)
  case (Cons i "is")
  then obtain e1 r where x: "executeOn d ctx e i (cmd i) = (e1, Inr r)" and "x_err r = None"
    and rest: "eachShard d ctx cmd add e1 (add acc i r) is = (e', acc', None)"
    by (auto split: prod.splits sum.splits option.splits)
  have e1: "e1 = e" using executeOn_Inr(1) [OF x] assms(1) by (simp add: applied_def)
  from Cons.IH [OF rest [unfolded e1]] executeOn_Inr(2) [OF x] show ?case by simp
qed simp

definition usageIn :: "(spaceKey, spaceUsage) fmap \<Rightarrow> spaceKey \<Rightarrow> spaceUsage" where
  "usageIn m sk = (case fmlookup m sk of None \<Rightarrow> zeroUsage | Some u \<Rightarrow> u)"

lemma usageIn_addUsage:
  "su_memoryBytes (usageIn (addUsage m (k, u)) sk) =
     su_memoryBytes (usageIn m sk) + (if k = sk then su_memoryBytes u else 0)"
  by (simp add: usageIn_def addUsage_def Let_def)

lemma usageIn_foldl:
  "distinct (map fst xs) \<Longrightarrow> su_memoryBytes (usageIn (foldl addUsage m xs) sk) =
     su_memoryBytes (usageIn m sk) + (case map_of xs sk of None \<Rightarrow> 0 | Some u \<Rightarrow> su_memoryBytes u)"
proof (induction xs arbitrary: m)
  case (Cons x xs)
  obtain k u where x: "x = (k, u)" by fastforce
  have "map_of xs k = None" if "k = sk" using Cons.prems x that by (simp add: map_of_eq_None_iff)
  with Cons x show ?case by (auto simp: usageIn_addUsage split: option.splits)
qed simp

lemma usageIn_addSpaceStats:
  "su_memoryBytes (usageIn (addSpaceStats m (spaces s)) sk) =
     su_memoryBytes (usageIn m sk) + su_memoryBytes (usageOf s sk)"
  unfolding addSpaceStats_def
  by (subst usageIn_foldl)
    (auto simp: usageOf_def zeroUsage_def enumeratesD(1) [OF enumerates_sorted_list_of_fmap] split: option.split)

lemma usageIn_shards:
  "su_memoryBytes (usageIn (foldl (\<lambda>m s. addSpaceStats m (spaces s)) m ss) sk) =
     su_memoryBytes (usageIn m sk) + (\<Sum>s\<leftarrow>ss. su_memoryBytes (usageOf s sk))"
  by (induction ss arbitrary: m) (simp_all add: usageIn_addSpaceStats ac_simps)

lemma foldl_indices: "foldl (\<lambda>a i. f a (xs ! i)) a [0..<length xs] = foldl f a xs"
  using foldl_map [of f a "(!) xs" "[0..<length xs]"] by (simp add: map_nth)

lemma EngineStats_spaces:
  assumes "EngineStats d ctx e = (e', Inr st)"
  shows "e' = e" and "st_Spaces st = buildSpaceStats (foldl (\<lambda>m s. addSpaceStats m (spaces s)) fmempty (shards e))"
proof -
  let ?add = "\<lambda>(stats, sps) i r.
      ((addShardStats stats (x_stats r))\<lparr>st_Shards := (st_Shards stats)[i := x_stats r]\<rparr>,
       addSpaceStats sps (x_spaces r))"
  let ?cmd = "\<lambda>_. zeroCommand commandStats"
  from assms obtain acc where each: "eachShard d ctx ?cmd ?add e (zeroStats (length (shards e)), fmempty) (indices e) = (e', acc, None)"
    and st: "st = (fst acc)\<lparr>st_Spaces := buildSpaceStats (snd acc)\<rparr>"
    by (auto simp: EngineStats_def split: prod.splits option.splits)
  have read: "fst (applyCommand d s (?cmd i)) = s" for s i
    by (simp add: applyCommand_def applyStatsCommand_def)
  note x = eachShard_read [OF read each]
  then show "e' = e" by simp
  have "snd (foldl (\<lambda>a i. ?add a i (snd (applyCommand d (shards e ! i) (?cmd i)))) (z, m) is) =
      foldl (\<lambda>m i. addSpaceStats m (spaces (shards e ! i))) m is" for z m "is"
    by (induction "is" arbitrary: z m)
      (simp_all add: applyCommand_def applyStatsCommand_def statsResult_def)
  with x st show "st_Spaces st = buildSpaceStats (foldl (\<lambda>m s. addSpaceStats m (spaces s)) fmempty (shards e))"
    using foldl_indices [of "\<lambda>m s. addSpaceStats m (spaces s)" "shards e" fmempty] by simp
qed

lemma sum_buildSpaceStats:
  "(\<Sum>item\<leftarrow>filter (\<lambda>item. P (sps_Namespace item, sps_Space item)) (buildSpaceStats m). sps_MemoryBytes item) =
     (\<Sum>sk\<in>{sk \<in> fset (fmdom m). P sk}. su_memoryBytes (usageIn m sk))"
proof -
  have "(\<Sum>item\<leftarrow>filter (\<lambda>item. P (sps_Namespace item, sps_Space item)) (buildSpaceStats m). sps_MemoryBytes item) =
      (\<Sum>sk\<leftarrow>filter P (sorted_list_of_fset (fmdom m)). su_memoryBytes (the (fmlookup m sk)))"
    by (simp add: buildSpaceStats_def sorted_list_of_fmap_def filter_map o_def split_beta)
  also have "\<dots> = (\<Sum>sk\<in>{sk \<in> fset (fmdom m). P sk}. su_memoryBytes (the (fmlookup m sk)))"
    by (subst sum_list_distinct_conv_sum_set) (simp_all add: sorted_list_of_fset.rep_eq Collect_conj_eq Int_commute)
  also have "\<dots> = (\<Sum>sk\<in>{sk \<in> fset (fmdom m). P sk}. su_memoryBytes (usageIn m sk))"
    by (rule sum.cong) (auto simp: usageIn_def)
  finally show ?thesis .
qed

lemma sum_list_swap:
  fixes f :: "'a \<Rightarrow> 'b \<Rightarrow> 'c::comm_monoid_add"
  shows "(\<Sum>y\<in>F. \<Sum>x\<leftarrow>xs. f x y) = (\<Sum>x\<leftarrow>xs. \<Sum>y\<in>F. f x y)"
  by (induction xs) (simp_all add: sum.distrib)

lemma of_nat_sum_list: "of_nat (\<Sum>x\<leftarrow>xs. f x) = (\<Sum>x\<leftarrow>xs. of_nat (f x))"
  by (induction xs) simp_all

lemma EngineStats_usage:
  assumes inv: "engine_inv e" and stats: "EngineStats d ctx e = (e', Inr st)"
  shows "(\<Sum>item\<leftarrow>filter (\<lambda>item. P (sps_Namespace item, sps_Space item)) (st_Spaces st). sps_MemoryBytes item) =
    of_nat (bytesWhere P e)"
proof -
  define m where "m = foldl (\<lambda>m s. addSpaceStats m (spaces s)) fmempty (shards e)"
  have use: "su_memoryBytes (usageIn m sk) = (\<Sum>s\<leftarrow>shards e. su_memoryBytes (usageOf s sk))" for sk
    by (simp add: m_def usageIn_shards) (simp add: usageIn_def zeroUsage_def)
  define K where "K = (\<Union>s\<in>set (shards e). (\<lambda>ent. spaceKeyOf (e_key ent)) ` fset (fmran (entries s)))"
  define F where "F = {sk \<in> fset (fmdom m) \<union> K. P sk}"
  have "finite K" unfolding K_def by (intro finite_UN_I finite_imageI) simp_all
  then have fin: "finite F" by - (rule finite_subset [of F "fset (fmdom m) \<union> K"], auto simp: F_def)
  have "(\<Sum>item\<leftarrow>filter (\<lambda>item. P (sps_Namespace item, sps_Space item)) (st_Spaces st). sps_MemoryBytes item) =
      (\<Sum>sk\<in>{sk \<in> fset (fmdom m). P sk}. su_memoryBytes (usageIn m sk))"
    unfolding EngineStats_spaces(2) [OF stats] m_def by (rule sum_buildSpaceStats)
  also have "\<dots> = (\<Sum>sk\<in>F. su_memoryBytes (usageIn m sk))"
    using fin by (intro sum.mono_neutral_left) (auto simp: F_def usageIn_def zeroUsage_def split: option.splits)
  also have "\<dots> = (\<Sum>s\<leftarrow>shards e. \<Sum>sk\<in>F. su_memoryBytes (usageOf s sk))"
    unfolding use by (rule sum_list_swap)
  also have "\<dots> = (\<Sum>s\<leftarrow>shards e. of_nat (mapBytes P (entries s)))"
  proof (intro arg_cong [where f = sum_list] map_cong refl)
    fix s assume s: "s \<in> set (shards e)"
    with inv have "shard_inv s" by (auto simp: engine_inv_def in_set_conv_nth)
    then have "(\<Sum>sk\<in>F. su_memoryBytes (usageOf s sk)) = (\<Sum>sk\<in>F. spaceBytes (entries s) sk)"
      by (simp add: shard_inv_usage)
    also have "\<dots> = of_nat (mapBytes P (entries s))"
    proof (rule mapBytes_spaces [OF fin])
      fix k ent assume "fmlookup (entries s) k = Some ent" and "P (spaceKeyOf (e_key ent))"
      moreover from this s have "spaceKeyOf (e_key ent) \<in> K" using fmranI unfolding K_def by fastforce
      ultimately show "spaceKeyOf (e_key ent) \<in> F" by (simp add: F_def)
    qed (simp add: F_def)
    finally show "(\<Sum>sk\<in>F. su_memoryBytes (usageOf s sk)) = of_nat (mapBytes P (entries s))" .
  qed
  also have "\<dots> = of_nat (bytesWhere P e)"
    by (simp add: bytesWhere_def of_nat_sum_list)
  finally show ?thesis .
qed

section \<open>Eviction\<close>

lemma mapBytes_split:
  "mapBytes P m = mapBytes (\<lambda>x. P x \<and> x \<noteq> sk) m + (if P sk then mapBytes (\<lambda>x. x = sk) m else 0)"
proof -
  have "mapBytes P m = fmsum (\<lambda>_ ent.
      (if P (spaceKeyOf (e_key ent)) \<and> spaceKeyOf (e_key ent) \<noteq> sk then unat (e_costBytes ent) else 0) +
      (if P sk then if spaceKeyOf (e_key ent) = sk then unat (e_costBytes ent) else 0 else 0)) m"
    unfolding mapBytes_def by (rule fmsum_cong) auto
  also have "\<dots> = mapBytes (\<lambda>x. P x \<and> x \<noteq> sk) m + (if P sk then mapBytes (\<lambda>x. x = sk) m else 0)"
    by (simp add: mapBytes_def fmsum_def sum.distrib)
  finally show ?thesis .
qed

lemma mapBytes_sub:
  assumes sub: "\<And>k ent. fmlookup m' k = Some ent \<Longrightarrow> fmlookup m k = Some ent"
    and other: "\<And>k ent. fmlookup m k = Some ent \<Longrightarrow> spaceKeyOf (e_key ent) \<noteq> sk \<Longrightarrow> fmlookup m' k = Some ent"
  shows "mapBytes P m' + (if P sk then mapBytes (\<lambda>x. x = sk) m - mapBytes (\<lambda>x. x = sk) m' else 0) = mapBytes P m"
    and "mapBytes P m' \<le> mapBytes P m"
proof -
  let ?w = "\<lambda>ent. if P (spaceKeyOf (e_key ent)) \<and> spaceKeyOf (e_key ent) \<noteq> sk then unat (e_costBytes ent) else 0"
  have same: "mapBytes (\<lambda>x. P x \<and> x \<noteq> sk) m' = mapBytes (\<lambda>x. P x \<and> x \<noteq> sk) m"
  proof -
    have "(\<Sum>k\<in>fset (fmdom m'). ?w (the (fmlookup m' k))) = (\<Sum>k\<in>fset (fmdom m'). ?w (the (fmlookup m k)))"
    proof (rule sum.cong)
      fix k assume "k \<in> fset (fmdom m')"
      then obtain ent where "fmlookup m' k = Some ent" by auto
      with sub [OF this] show "?w (the (fmlookup m' k)) = ?w (the (fmlookup m k))" by simp
    qed simp
    also have "\<dots> = (\<Sum>k\<in>fset (fmdom m). ?w (the (fmlookup m k)))"
    proof (rule sum.mono_neutral_left)
      show "fset (fmdom m') \<subseteq> fset (fmdom m)" using sub by fastforce
      show "\<forall>k\<in>fset (fmdom m) - fset (fmdom m'). ?w (the (fmlookup m k)) = 0"
        using other by fastforce
    qed simp
    finally show ?thesis by (simp add: mapBytes_def fmsum_def)
  qed
  have le: "mapBytes Q m' \<le> mapBytes Q m" for Q
    unfolding mapBytes_def by (rule fmsum_mono [OF sub])
  show "mapBytes P m' \<le> mapBytes P m" by (rule le)
  show "mapBytes P m' + (if P sk then mapBytes (\<lambda>x. x = sk) m - mapBytes (\<lambda>x. x = sk) m' else 0) = mapBytes P m"
    using same le [of "\<lambda>x. x = sk"] mapBytes_split [of P m sk] mapBytes_split [of P m' sk] by simp
qed

lemma unat_diff_of_nat:
  fixes x :: u64
  assumes "x = of_nat a - of_nat b" and "b \<le> a" and "a < 2 ^ 64"
  shows "unat x = a - b"
proof -
  have "x = of_nat (a - b)" using assms(1,2) by simp
  with assms(3) show ?thesis by (simp add: unat_of_nat_len)
qed

lemma evict_bytes:
  assumes "deps_ok d" and "shard_inv s" and ev: "evict (d_range d) (d_sort d) s opts = (s', r)"
  defines "sk \<equiv> (eo_Namespace opts, eo_Space opts)"
  assumes small: "mapBytes (\<lambda>x. x = sk) (entries s) < 2 ^ 64"
  shows "mapBytes P (entries s') + (if P sk then unat (er_FreedBytes r) else 0) = mapBytes P (entries s)"
proof -
  have e: "enumerates (d_range d)" and o: "sorts (d_sort d)" using assms(1) by (simp_all add: deps_ok_def)
  note eff = evict_effect [OF e o assms(2) ev]
  have sub: "fmlookup (entries s') k = Some ent \<Longrightarrow> fmlookup (entries s) k = Some ent" for k ent
    by (rule eff(5))
  have other: "fmlookup (entries s) k = Some ent \<Longrightarrow> spaceKeyOf (e_key ent) \<noteq> sk \<Longrightarrow>
      fmlookup (entries s') k = Some ent" for k ent
    using eff(4) candidate_space [of opts k ent] by (auto simp: sk_def)
  have u: "su_memoryBytes (usageOf x sk) = of_nat (mapBytes (\<lambda>x. x = sk) (entries x))" if "shard_inv x" for x
    using that by (simp add: shard_inv_usage mapBytes_space)
  have "(of_nat (mapBytes (\<lambda>x. x = sk) (entries s')) :: u64) =
      of_nat (mapBytes (\<lambda>x. x = sk) (entries s)) - er_FreedBytes r"
    using eff(3) [of sk] u [OF assms(2)] u [OF eff(1)] by (simp add: sk_def)
  then have freed: "er_FreedBytes r = of_nat (mapBytes (\<lambda>x. x = sk) (entries s)) -
      of_nat (mapBytes (\<lambda>x. x = sk) (entries s'))"
    by simp
  have "unat (er_FreedBytes r) = mapBytes (\<lambda>x. x = sk) (entries s) - mapBytes (\<lambda>x. x = sk) (entries s')"
    by (rule unat_diff_of_nat [OF freed mapBytes_sub(2) [OF sub other] small])
  with mapBytes_sub(1) [where sk = sk and P = P, OF sub other] show ?thesis by (cases "P sk") simp_all
qed

lemma candidate_target [simp]: "candidate (opts\<lparr>eo_TargetBytes := t\<rparr>) = candidate opts"
  by (simp add: fun_eq_iff candidate_def evictionCandidate_def excludeOf_def)

abbreviation evictSpace :: "EvictOptions \<Rightarrow> spaceKey" where
  "evictSpace opts \<equiv> (eo_Namespace opts, eo_Space opts)"

text \<open>One shard's part of an eviction, seen from the engine.\<close>

lemma evict_applied:
  fixes t :: u64 and now :: gotime
  assumes d: "deps_ok d" and inv: "engine_inv e" and i: "i < length (shards e)"
    and small: "bytesWhere (\<lambda>x. x = evictSpace opts) e < 2 ^ 64"
  defines "cmd \<equiv> (zeroCommand commandEvict)\<lparr>c_evict := opts\<lparr>eo_TargetBytes := t\<rparr>, c_now := now\<rparr>"
  defines "freed \<equiv> er_FreedBytes (x_evicted (snd (applyCommand d (shards e ! i) cmd)))"
  shows "engine_inv (applied d e i cmd)"
    and "contents (applied d e i cmd) k = Some ent \<Longrightarrow> contents e k = Some ent"
    and "contents e k = Some ent \<Longrightarrow> \<not> candidate opts (k, ent) \<Longrightarrow> contents (applied d e i cmd) k = Some ent"
    and "bytesWhere P (applied d e i cmd) + (if P (evictSpace opts) then unat freed else 0) = bytesWhere P e"
    and "t \<le> freed \<or> (\<forall>k ent. contents (applied d e i cmd) k = Some ent \<longrightarrow> shardFor e k = i \<longrightarrow> \<not> candidate opts (k, ent))"
proof -
  let ?s = "shards e ! i"
  obtain s' r where ev: "evict (d_range d) (d_sort d) ?s (opts\<lparr>eo_TargetBytes := t\<rparr>) = (s', r)" by fastforce
  have ac: "applyCommand d ?s cmd = (s', zeroResult\<lparr>x_evicted := r\<rparr>)"
    by (simp add: cmd_def applyCommand_def applyEvictCommand_def ev)
  have s: "shard_inv ?s" by (rule engine_invD(1) [OF inv i])
  have e: "enumerates (d_range d)" and o: "sorts (d_sort d)" using d by (simp_all add: deps_ok_def)
  note eff = evict_effect [OF e o s ev]
  have c: "contents (applied d e i cmd) k = (if shardFor e k = i then fmlookup (entries s') k else contents e k)" for k
    using contents_applied [OF inv i, of d cmd k] by (simp add: ac)
  have at: "contents e k = fmlookup (entries ?s) k" if "shardFor e k = i" for k
    using that by (simp add: contents_def)
  show "engine_inv (applied d e i cmd)"
    by (intro applied_inv [OF d inv i] home_every) (simp_all add: cmd_def)
  show "contents (applied d e i cmd) k = Some ent \<Longrightarrow> contents e k = Some ent"
    using eff(5) at by (simp add: c split: if_splits)
  show "contents e k = Some ent \<Longrightarrow> \<not> candidate opts (k, ent) \<Longrightarrow> contents (applied d e i cmd) k = Some ent"
    using eff(4) at by (auto simp: c)
  have le: "mapBytes Q (entries ?s) \<le> bytesWhere Q e" for Q
    unfolding bytesWhere_def using i by (intro member_le_sum_list) auto
  have "mapBytes P (entries s') + (if P (evictSpace opts) then unat (er_FreedBytes r) else 0) = mapBytes P (entries ?s)"
    using evict_bytes [OF d s ev, where P = P] le [of "\<lambda>x. x = evictSpace opts"] small by simp
  with bytesWhere_update [OF i, of "applied d e i cmd" s' P]
  show "bytesWhere P (applied d e i cmd) + (if P (evictSpace opts) then unat freed else 0) = bytesWhere P e"
    by (auto simp: applied_def freed_def ac split: if_splits)
  show "t \<le> freed \<or> (\<forall>k ent. contents (applied d e i cmd) k = Some ent \<longrightarrow> shardFor e k = i \<longrightarrow> \<not> candidate opts (k, ent))"
    using eff(6) by (auto simp: c freed_def ac)
qed

lemma evictShards_spec:
  assumes d: "deps_ok d" and inv: "engine_inv e" and "\<And>i. i \<in> set is \<Longrightarrow> i < length (shards e)"
    and small: "bytesWhere (\<lambda>x. x = evictSpace opts) e + unat (er_FreedBytes acc) < 2 ^ 64"
    and ev: "evictShards d ctx opts e acc is = (e', res, None)"
  shows "engine_inv e'
    \<and> (\<forall>k ent. contents e' k = Some ent \<longrightarrow> contents e k = Some ent)
    \<and> (\<forall>k ent. contents e k = Some ent \<longrightarrow> \<not> candidate opts (k, ent) \<longrightarrow> contents e' k = Some ent)
    \<and> unat (er_FreedBytes acc) \<le> unat (er_FreedBytes res)
    \<and> (\<forall>P. bytesWhere P e' + (if P (evictSpace opts) then unat (er_FreedBytes res) - unat (er_FreedBytes acc) else 0) = bytesWhere P e)
    \<and> (eo_TargetBytes opts \<le> er_FreedBytes res \<or>
        (\<forall>k ent. contents e' k = Some ent \<longrightarrow> shardFor e k \<in> set is \<longrightarrow> \<not> candidate opts (k, ent)))"
  using inv assms(3) small ev
proof (induction "is" arbitrary: e acc)
  case (Cons i "is")
  show ?case
  proof (cases "er_FreedBytes acc \<ge> eo_TargetBytes opts")
    case True
    with Cons.prems show ?thesis by simp
  next
    case False
    define t where "t = eo_TargetBytes opts - er_FreedBytes acc"
    define cmd where "cmd = (zeroCommand commandEvict)\<lparr>c_evict := opts\<lparr>eo_TargetBytes := t\<rparr>, c_now := eo_Now opts\<rparr>"
    define e1 where "e1 = applied d e i cmd"
    define freed where "freed = er_FreedBytes (x_evicted (snd (applyCommand d (shards e ! i) cmd)))"
    define acc1 where "acc1 = er_FreedBytes acc + freed"
    from Cons.prems(4) False obtain r e2 where x: "executeOn d ctx e i cmd = (e2, Inr r)"
      and rest: "evictShards d ctx opts e2
        (acc\<lparr>er_FreedBytes := er_FreedBytes acc + er_FreedBytes (x_evicted r),
             er_EvictedObjects := er_EvictedObjects acc + er_EvictedObjects (x_evicted r)\<rparr>) is = (e', res, None)"
      by (auto simp: t_def cmd_def Let_def split: prod.splits sum.splits option.splits)
    have i: "i < length (shards e)" using Cons.prems by simp
    have small: "bytesWhere (\<lambda>x. x = evictSpace opts) e < 2 ^ 64" using Cons.prems(3) by simp
    note step = evict_applied [OF d Cons.prems(1) i small, where t = t and now = "eo_Now opts", folded cmd_def, folded freed_def e1_def]
    have b: "bytesWhere (\<lambda>x. x = evictSpace opts) e1 + unat freed = bytesWhere (\<lambda>x. x = evictSpace opts) e"
      using step(4) [where P = "\<lambda>x. x = evictSpace opts"] by simp
    have acc1: "unat acc1 = unat (er_FreedBytes acc) + unat freed"
      unfolding acc1_def using b Cons.prems(3) by (subst unat_plus_if_size) (simp add: word_size)
    have IH: "engine_inv e'
      \<and> (\<forall>k ent. contents e' k = Some ent \<longrightarrow> contents e1 k = Some ent)
      \<and> (\<forall>k ent. contents e1 k = Some ent \<longrightarrow> \<not> candidate opts (k, ent) \<longrightarrow> contents e' k = Some ent)
      \<and> unat acc1 \<le> unat (er_FreedBytes res)
      \<and> (\<forall>P. bytesWhere P e' + (if P (evictSpace opts) then unat (er_FreedBytes res) - unat acc1 else 0) = bytesWhere P e1)
      \<and> (eo_TargetBytes opts \<le> er_FreedBytes res \<or>
          (\<forall>k ent. contents e' k = Some ent \<longrightarrow> shardFor e1 k \<in> set is \<longrightarrow> \<not> candidate opts (k, ent)))"
    proof -
      have r: "er_FreedBytes (x_evicted r) = freed" and e2: "e2 = e1"
        using executeOn_Inr [OF x] by (simp_all add: freed_def e1_def)
      define accr where "accr = acc\<lparr>er_FreedBytes := er_FreedBytes acc + er_FreedBytes (x_evicted r),
             er_EvictedObjects := er_EvictedObjects acc + er_EvictedObjects (x_evicted r)\<rparr>"
      have f: "er_FreedBytes accr = acc1" by (simp add: accr_def acc1_def r)
      have len: "j \<in> set is \<Longrightarrow> j < length (shards e1)" for j using Cons.prems(2) by (simp add: e1_def)
      have small1: "bytesWhere (\<lambda>x. x = evictSpace opts) e1 + unat (er_FreedBytes accr) < 2 ^ 64"
        using b acc1 Cons.prems(3) unfolding f by linarith
      show ?thesis
        using Cons.IH [OF step(1) len small1 rest [unfolded e2, folded accr_def]] unfolding f by blast
    qed
    have enough: "eo_TargetBytes opts \<le> er_FreedBytes res" if "t \<le> freed"
    proof -
      have "unat t = unat (eo_TargetBytes opts) - unat (er_FreedBytes acc)"
        unfolding t_def using False by (intro unat_sub) simp
      moreover have "unat acc1 \<le> unat (er_FreedBytes res)" using IH by blast
      ultimately show ?thesis using that acc1 by (simp add: word_le_nat_alt)
    qed
    have fr: "shardFor e1 k = shardFor e k" for k by (simp add: e1_def)
    have "bytesWhere P e' + (if P (evictSpace opts) then unat (er_FreedBytes res) - unat (er_FreedBytes acc) else 0) = bytesWhere P e" for P
    proof -
      have "bytesWhere P e' + (if P (evictSpace opts) then unat (er_FreedBytes res) - unat acc1 else 0) = bytesWhere P e1"
        and "unat acc1 \<le> unat (er_FreedBytes res)"
        using IH by blast+
      with step(4) [where P = P] acc1 show ?thesis by (cases "P (evictSpace opts)") simp_all
    qed
    moreover have "contents e' k = Some ent \<longrightarrow> contents e k = Some ent" for k ent
      using IH step(2) by blast
    moreover have "contents e k = Some ent \<longrightarrow> \<not> candidate opts (k, ent) \<longrightarrow> contents e' k = Some ent" for k ent
      using IH step(3) by blast
    moreover have "unat (er_FreedBytes acc) \<le> unat (er_FreedBytes res)" using IH acc1 by simp
    moreover have "eo_TargetBytes opts \<le> er_FreedBytes res \<or>
        (\<forall>k ent. contents e' k = Some ent \<longrightarrow> shardFor e k \<in> set (i # is) \<longrightarrow> \<not> candidate opts (k, ent))"
    proof (cases "eo_TargetBytes opts \<le> er_FreedBytes res")
      case False
      with step(5) enough have a: "contents e1 k = Some ent \<Longrightarrow> shardFor e k = i \<Longrightarrow> \<not> candidate opts (k, ent)" for k ent
        by blast
      from False IH have b: "contents e' k = Some ent \<Longrightarrow> shardFor e k \<in> set is \<Longrightarrow> \<not> candidate opts (k, ent)" for k ent
        unfolding fr by blast
      from IH have "contents e' k = Some ent \<Longrightarrow> contents e1 k = Some ent" for k ent by blast
      with a b show ?thesis by (metis set_ConsD)
    qed simp
    ultimately show ?thesis using IH by blast
  qed
qed simp

lemma EngineEvict_spec:
  assumes d: "deps_ok d" and inv: "engine_inv e"
    and small: "bytesWhere (\<lambda>x. x = evictSpace opts) e < 2 ^ 64"
    and ev: "EngineEvict d ctx now e opts = (e', res, None)"
  defines "opts' \<equiv> if eo_Now opts = 0 then opts\<lparr>eo_Now := now\<rparr> else opts"
  shows EngineEvict_inv: "engine_inv e'"
    and EngineEvict_subset: "contents e' k = Some ent \<Longrightarrow> contents e k = Some ent"
    and EngineEvict_keeps: "contents e k = Some ent \<Longrightarrow> \<not> candidate opts' (k, ent) \<Longrightarrow> contents e' k = Some ent"
    and EngineEvict_bytes: "bytesWhere P e' + (if P (evictSpace opts) then unat (er_FreedBytes res) else 0) = bytesWhere P e"
    and EngineEvict_enough: "eo_TargetBytes opts \<le> er_FreedBytes res \<or>
      (\<forall>k ent. contents e' k = Some ent \<longrightarrow> \<not> candidate opts' (k, ent))"
proof -
  show "engine_inv e'" using all_ops_inv(3) [OF d inv, of ctx now opts] ev by simp
  consider (none) "eo_TargetBytes opts = 0" "e' = e" "res = zeroEvictResult"
    | (run) "evictShards d ctx opts' e (zeroEvictResult\<lparr>er_RequestedBytes := eo_TargetBytes opts'\<rparr>) (indices e) = (e', res, None)"
    using ev unfolding EngineEvict_def evictFromShards_def opts'_def [symmetric]
    by (cases "eo_TargetBytes opts = 0"; cases "eo_Namespace opts = [] \<or> eo_Space opts = []") simp_all
  then have "(\<forall>k ent. contents e' k = Some ent \<longrightarrow> contents e k = Some ent)
    \<and> (\<forall>k ent. contents e k = Some ent \<longrightarrow> \<not> candidate opts' (k, ent) \<longrightarrow> contents e' k = Some ent)
    \<and> (\<forall>P. bytesWhere P e' + (if P (evictSpace opts) then unat (er_FreedBytes res) else 0) = bytesWhere P e)
    \<and> (eo_TargetBytes opts \<le> er_FreedBytes res \<or>
        (\<forall>k ent. contents e' k = Some ent \<longrightarrow> \<not> candidate opts' (k, ent)))"
  proof cases
    case none
    then show ?thesis by (simp add: zeroEvictResult_def)
  next
    case run
    have o: "evictSpace opts' = evictSpace opts" "eo_TargetBytes opts' = eo_TargetBytes opts"
      by (simp_all add: opts'_def)
    have z: "er_FreedBytes (zeroEvictResult\<lparr>er_RequestedBytes := t\<rparr>) = 0" for t
      by (simp add: zeroEvictResult_def)
    have ix: "shardFor e k \<in> set (indices e)" for k using shardFor_less [OF inv] by simp
    have "bytesWhere (\<lambda>x. x = evictSpace opts') e +
        unat (er_FreedBytes (zeroEvictResult\<lparr>er_RequestedBytes := eo_TargetBytes opts'\<rparr>)) < 2 ^ 64"
      using small unfolding o z by simp
    from evictShards_spec [OF d inv indices_less this run] ix
    show ?thesis unfolding o z unsigned_0 diff_zero by blast
  qed
  then show "contents e' k = Some ent \<Longrightarrow> contents e k = Some ent"
    and "contents e k = Some ent \<Longrightarrow> \<not> candidate opts' (k, ent) \<Longrightarrow> contents e' k = Some ent"
    and "bytesWhere P e' + (if P (evictSpace opts) then unat (er_FreedBytes res) else 0) = bytesWhere P e"
    and "eo_TargetBytes opts \<le> er_FreedBytes res \<or>
      (\<forall>k ent. contents e' k = Some ent \<longrightarrow> \<not> candidate opts' (k, ent))"
    by blast+
qed

section \<open>What an operation leaves alone\<close>

fun callKey :: "engineCall \<Rightarrow> Key option" where
  "callKey (CallSet ctx now key val opts) = Some key"
| "callKey (CallGet ctx now key opts) = Some key"
| "callKey (CallDelete ctx key opts) = Some key"
| "callKey (CallTouch ctx now key opts) = Some key"
| "callKey (CallAdjust ctx now key opts) = Some key"
| "callKey (CallEstimateAdjust ctx now key opts) = Some key"
| "callKey (CallPrimitive ctx now req) = Some (pr_Key req)"
| "callKey (CallEstimatePrimitive ctx now req) = Some (pr_Key req)"
| "callKey _ = None"

lemma execute_frame:
  assumes "engine_inv e" and "keyed_kind (c_kind cmd)" and "k \<noteq> c_physical cmd"
  shows "contents (fst (execute d ctx e cmd)) k = contents e k"
proof -
  have i: "shardFor e (c_physical cmd) < length (shards e)" by (rule shardFor_less [OF assms(1)])
  have "contents (applied d e (shardFor e (c_physical cmd)) cmd) k = contents e k"
    using contents_applied [OF assms(1) i] only_keyD [OF applyCommand_only_key [OF assms(2)] assms(3)]
    by (simp add: contents_def)
  with executeOn_cases [of d ctx e "shardFor e (c_physical cmd)" cmd] show ?thesis
    by (auto simp: execute_def)
qed

lemma engineStep_frame:
  assumes "engine_inv e" and "callKey call = Some key" and "k \<noteq> physicalKey key"
  shows "contents (engineStep d e call) k = contents e k"
  using assms
  by (cases call) (auto simp: engine_key_ops execute_frame split: option.split)

lemma eachShard_read_state:
  assumes "\<And>s i. fst (applyCommand d s (cmd i)) = s"
  shows "fst (eachShard d ctx cmd add e acc is) = e"
proof (induction "is" arbitrary: acc)
  case (Cons i "is")
  have "fst (executeOn d ctx e i (cmd i)) = e"
    using executeOn_cases [of d ctx e i "cmd i"] assms by (auto simp: applied_def)
  with Cons show ?case by (auto split: prod.split sum.split option.split)
qed simp

lemma EngineStats_state: "fst (EngineStats d ctx e) = e"
proof -
  let ?add = "\<lambda>(stats, sps) i r.
      ((addShardStats stats (x_stats r))\<lparr>st_Shards := (st_Shards stats)[i := x_stats r]\<rparr>,
       addSpaceStats sps (x_spaces r))"
  have "fst (applyCommand d s (zeroCommand commandStats)) = s" for s
    by (simp add: applyCommand_def applyStatsCommand_def)
  then have "fst (eachShard d ctx (\<lambda>_. zeroCommand commandStats) ?add e (zeroStats (length (shards e)), fmempty) (indices e)) = e"
    by (intro eachShard_read_state)
  then show ?thesis
    by (cases "eachShard d ctx (\<lambda>_. zeroCommand commandStats) ?add e (zeroStats (length (shards e)), fmempty) (indices e)")
      (auto simp: EngineStats_def split: option.split)
qed

lemma evict_frame:
  assumes d: "deps_ok d" and inv: "engine_inv e" and i: "i < length (shards e)"
    and other: "k_Namespace key \<noteq> eo_Namespace opts"
  shows "contents (applied d e i ((zeroCommand commandEvict)\<lparr>c_evict := opts, c_now := now\<rparr>)) (physicalKey key) =
    contents e (physicalKey key)"
proof -
  let ?s = "shards e ! i" and ?k = "physicalKey key"
  let ?cmd = "(zeroCommand commandEvict)\<lparr>c_evict := opts, c_now := now\<rparr>"
  obtain s' r where ev: "evict (d_range d) (d_sort d) ?s opts = (s', r)" by fastforce
  have ac: "fst (applyCommand d ?s ?cmd) = s'" by (simp add: applyCommand_def applyEvictCommand_def ev)
  have ds: "enumerates (d_range d)" "sorts (d_sort d)" using d by (simp_all add: deps_ok_def)
  note eff = evict_effect [OF ds engine_invD(1) [OF inv i] ev]
  have "fmlookup (entries s') ?k = fmlookup (entries ?s) ?k" if home: "shardFor e ?k = i"
  proof -
    have at: "contents e ?k = fmlookup (entries ?s) ?k" using home by (simp add: contents_def)
    have "\<not> candidate opts (?k, ent)" if "contents e ?k = Some ent" for ent
      using contents_entry(1) [OF inv that] other by (auto simp: candidate_def evictionCandidate_def)
    then show ?thesis using eff(4,5) [of ?k] at by (metis option.exhaust)
  qed
  then show ?thesis using contents_applied [OF inv i, of d ?cmd ?k] by (auto simp: ac contents_def)
qed

lemma evictShards_frame:
  assumes "deps_ok d" and "engine_inv e" and "\<And>i. i \<in> set is \<Longrightarrow> i < length (shards e)"
    and "k_Namespace key \<noteq> eo_Namespace opts"
  shows "contents (fst (evictShards d ctx opts e acc is)) (physicalKey key) = contents e (physicalKey key)"
  using assms(2,3)
proof (induction "is" arbitrary: e acc)
  case (Cons i "is")
  let ?x = "executeOn d ctx e i ((zeroCommand commandEvict)
    \<lparr>c_evict := opts\<lparr>eo_TargetBytes := eo_TargetBytes opts - er_FreedBytes acc\<rparr>, c_now := eo_Now opts\<rparr>)"
  have "engine_inv (fst ?x)" using Cons.prems by (intro executeOn_inv [OF assms(1)] home_every) auto
  moreover have "contents (fst ?x) (physicalKey key) = contents e (physicalKey key)"
  proof -
    have "contents (applied d e i ((zeroCommand commandEvict)\<lparr>c_evict := opts\<lparr>eo_TargetBytes := t\<rparr>, c_now := eo_Now opts\<rparr>))
        (physicalKey key) = contents e (physicalKey key)" for t
      using Cons.prems assms(4) by (intro evict_frame [OF assms(1)]) simp_all
    then show ?thesis using executeOn_cases by metis
  qed
  moreover have "contents (fst (evictShards d ctx opts (fst ?x) a is)) (physicalKey key) = contents (fst ?x) (physicalKey key)" for a
    using Cons.prems calculation by (intro Cons.IH) auto
  ultimately show ?case using Cons.prems by (auto simp: Let_def split: prod.split sum.split option.split)
qed simp

lemma EngineEvict_frame:
  assumes "deps_ok d" and "engine_inv e" and "k_Namespace key \<noteq> eo_Namespace opts"
  shows "contents (fst (EngineEvict d ctx now e opts)) (physicalKey key) = contents e (physicalKey key)"
proof -
  have "contents (fst (evictShards d ctx opts' e acc (indices e))) (physicalKey key) = contents e (physicalKey key)"
    if "eo_Namespace opts' = eo_Namespace opts" for opts' acc
    using assms that by (intro evictShards_frame) auto
  then show ?thesis by (simp add: EngineEvict_def evictFromShards_def)
qed

end
