(* ===== verification/Cache_Service.thy ===== *)
theory Cache_Service
  imports Engine_Store
begin

text \<open>
  The cache service (\<open>cache/service.go\<close>, \<open>quota.go\<close>, \<open>ops.go\<close>, \<open>batch.go\<close>, \<open>migration.go\<close>,
  \<open>primitive_service.go\<close>, \<open>transaction.go\<close>) over an engine. The Go interface \<open>engine.Engine\<close> is a record
  of functions on an engine state \<open>'e\<close>; every engine call gets the outcome of its context and the
  clock reading it sees, and \<open>env n\<close> is what the \<open>n\<close>-th engine call of a service operation gets.
  The service holds its lock for the whole of an operation that writes, so one operation is one
  function from the engine state to the next. The option structs of the service have the fields of the
  engine's and are copied field by field; one record serves for both.
\<close>

section \<open>The engine interface\<close>

record callEnv =
  ce_ctx :: callContext
  ce_now :: gotime

type_synonym callEnvs = "nat \<Rightarrow> callEnv"

record 'e engineOps =
  op_Set :: "callEnv \<Rightarrow> 'e \<Rightarrow> Key \<Rightarrow> bytes \<Rightarrow> SetOptions \<Rightarrow> 'e \<times> (engine_error + Record \<times> bool)"
  op_Get :: "callEnv \<Rightarrow> 'e \<Rightarrow> Key \<Rightarrow> GetOptions \<Rightarrow> 'e \<times> (engine_error + Record \<times> bool)"
  op_Delete :: "callEnv \<Rightarrow> 'e \<Rightarrow> Key \<Rightarrow> DeleteOptions \<Rightarrow> 'e \<times> (engine_error + bool \<times> bool)"
  op_Exists :: "callEnv \<Rightarrow> 'e \<Rightarrow> Key \<Rightarrow> GetOptions \<Rightarrow> 'e \<times> (engine_error + bool)"
  op_Touch :: "callEnv \<Rightarrow> 'e \<Rightarrow> Key \<Rightarrow> TouchOptions \<Rightarrow> 'e \<times> (engine_error + bool)"
  op_Adjust :: "callEnv \<Rightarrow> 'e \<Rightarrow> Key \<Rightarrow> AdjustOptions \<Rightarrow> 'e \<times> (engine_error + Record \<times> bool)"
  op_EstimateAdjust :: "callEnv \<Rightarrow> 'e \<Rightarrow> Key \<Rightarrow> AdjustOptions \<Rightarrow> 'e \<times> (engine_error + WriteEstimate)"
  op_Primitive :: "callEnv \<Rightarrow> 'e \<Rightarrow> PrimitiveRequest \<Rightarrow> 'e \<times> (engine_error + PrimitiveResult)"
  op_EstimatePrimitive :: "callEnv \<Rightarrow> 'e \<Rightarrow> PrimitiveRequest \<Rightarrow> 'e \<times> (engine_error + WriteEstimate)"
  op_Stats :: "callEnv \<Rightarrow> 'e \<Rightarrow> 'e \<times> (engine_error + Stats)"
  op_Evict :: "callEnv \<Rightarrow> 'e \<Rightarrow> EvictOptions \<Rightarrow> 'e \<times> EvictResult \<times> engine_error option"
  op_Export :: "callEnv \<Rightarrow> 'e \<Rightarrow> RangeOptions \<Rightarrow> 'e \<times> (engine_error + SnapshotEntry list)"
  op_Import :: "callEnv \<Rightarrow> 'e \<Rightarrow> SnapshotEntry list \<Rightarrow> 'e \<times> u64 \<times> engine_error option"
  op_DeleteRange :: "callEnv \<Rightarrow> 'e \<Rightarrow> RangeOptions \<Rightarrow> 'e \<times> u64 \<times> engine_error option"

text \<open>The memory engine as an engine.\<close>

definition memoryOps :: "deps \<Rightarrow> MemoryEngine engineOps" where
  "memoryOps d = \<lparr>
     op_Set = (\<lambda>c e. EngineSet d (ce_ctx c) (ce_now c) e),
     op_Get = (\<lambda>c e. EngineGet d (ce_ctx c) (ce_now c) e),
     op_Delete = (\<lambda>c e. EngineDelete d (ce_ctx c) e),
     op_Exists = (\<lambda>c e. EngineExists d (ce_ctx c) (ce_now c) e),
     op_Touch = (\<lambda>c e. EngineTouch d (ce_ctx c) (ce_now c) e),
     op_Adjust = (\<lambda>c e. EngineAdjust d (ce_ctx c) (ce_now c) e),
     op_EstimateAdjust = (\<lambda>c e. EngineEstimateAdjust d (ce_ctx c) (ce_now c) e),
     op_Primitive = (\<lambda>c e. EnginePrimitive d (ce_ctx c) (ce_now c) e),
     op_EstimatePrimitive = (\<lambda>c e. EngineEstimatePrimitive d (ce_ctx c) (ce_now c) e),
     op_Stats = (\<lambda>c e. EngineStats d (ce_ctx c) e),
     op_Evict = (\<lambda>c e. EngineEvict d (ce_ctx c) (ce_now c) e),
     op_Export = (\<lambda>c e. EngineExport d (ce_ctx c) (ce_now c) e),
     op_Import = (\<lambda>c e. EngineImport d (ce_ctx c) e),
     op_DeleteRange = (\<lambda>c e. EngineDeleteRange d (ce_ctx c) e)\<rparr>"

section \<open>Quotas\<close>

datatype quotaScope = QuotaSpace string string | QuotaNamespace string

datatype cache_error =
    ErrQuotaExceeded quotaScope u64 u64 u64
  | ErrEngine string engine_error
  | ErrWrapped string cache_error
  | ErrNestedTransactionUnsupported

record QuotaConfig =
  DefaultNamespaceMemoryBytes :: u64
  DefaultSpaceMemoryBytes :: u64
  Namespaces :: "(string, u64) fmap"
  Spaces :: "(spaceKey, u64) fmap"

record EvictRequest =
  evr_Namespace :: string
  evr_Space :: string
  evr_TargetBytes :: u64
  evr_Exclude :: Key

definition hasQuotaLimits :: "QuotaConfig \<Rightarrow> bool" where
  "hasQuotaLimits q \<longleftrightarrow>
     DefaultNamespaceMemoryBytes q > 0 \<or> DefaultSpaceMemoryBytes q > 0 \<or>
     Namespaces q \<noteq> fmempty \<or> Spaces q \<noteq> fmempty"

definition namespaceLimit :: "QuotaConfig \<Rightarrow> string \<Rightarrow> u64" where
  "namespaceLimit q namespace =
     (case fmlookup (Namespaces q) namespace of
        Some quota \<Rightarrow> quota | None \<Rightarrow> DefaultNamespaceMemoryBytes q)"

definition spaceLimit :: "QuotaConfig \<Rightarrow> string \<Rightarrow> string \<Rightarrow> u64" where
  "spaceLimit q namespace space =
     (case fmlookup (Spaces q) (namespace, space) of
        Some quota \<Rightarrow> quota | None \<Rightarrow> DefaultSpaceMemoryBytes q)"

definition usageStep :: "string \<Rightarrow> string \<Rightarrow> u64 \<times> u64 \<Rightarrow> SpaceStats \<Rightarrow> u64 \<times> u64" where
  "usageStep namespace space usage item =
     (let (nsUsage, spUsage) = usage in
      if sps_Namespace item \<noteq> namespace then (nsUsage, spUsage)
      else
        let nsUsage = nsUsage + sps_MemoryBytes item
        in (nsUsage, if sps_Space item = space then spUsage + sps_MemoryBytes item else spUsage))"

definition usageFor :: "Stats \<Rightarrow> string \<Rightarrow> string \<Rightarrow> u64 \<times> u64" where
  "usageFor stats namespace space = foldl (usageStep namespace space) (0, 0) (st_Spaces stats)"

definition minUint64 :: "u64 \<Rightarrow> u64 \<Rightarrow> u64" where
  "minUint64 a b = (if a < b then a else b)"

definition expectedVersionWillApply :: "bool \<Rightarrow> u64 \<Rightarrow> u64 \<Rightarrow> bool" where
  "expectedVersionWillApply found version expected \<longleftrightarrow> expected = 0 \<or> found \<and> version = expected"

definition evictLocked ::
  "'e engineOps \<Rightarrow> callEnv \<Rightarrow> 'e \<Rightarrow> EvictRequest \<Rightarrow> 'e \<times> (cache_error + EvictResult)" where
  "evictLocked ops c e request =
     (case op_Evict ops c e \<lparr>eo_Namespace = evr_Namespace request, eo_Space = evr_Space request,
             eo_TargetBytes = evr_TargetBytes request, eo_Exclude = evr_Exclude request,
             eo_ExcludeActive = (k_Key (evr_Exclude request) \<noteq> ''''), eo_Now = 0\<rparr> of
        (e, result, Some err) \<Rightarrow> (e, Inl (ErrEngine ''evict engine records'' err))
      | (e, result, None) \<Rightarrow> (e, Inr result))"

definition ensureSpaceQuota ::
  "'e engineOps \<Rightarrow> QuotaConfig \<Rightarrow> callEnv \<Rightarrow> 'e \<Rightarrow> Key \<Rightarrow> u64 \<Rightarrow> u64 \<Rightarrow> u64 \<Rightarrow>
     'e \<times> (cache_error + u64 \<times> u64)" where
  "ensureSpaceQuota ops q c e key nsUsage spUsage delta =
     (let limit = spaceLimit q (k_Namespace key) (k_Space key) in
      if limit = 0 \<or> spUsage + delta \<le> limit then (e, Inr (nsUsage, spUsage))
      else
        case evictLocked ops c e
            \<lparr>evr_Namespace = k_Namespace key, evr_Space = k_Space key,
             evr_TargetBytes = spUsage + delta - limit, evr_Exclude = key\<rparr> of
          (e, Inl err) \<Rightarrow> (e, Inl err)
        | (e, Inr gone) \<Rightarrow>
            let spUsage = spUsage - minUint64 spUsage (er_FreedBytes gone);
                nsUsage = nsUsage - minUint64 nsUsage (er_FreedBytes gone)
            in if spUsage + delta > limit
               then (e, Inl (ErrQuotaExceeded (QuotaSpace (k_Namespace key) (k_Space key)) spUsage delta limit))
               else (e, Inr (nsUsage, spUsage)))"

definition ensureNamespaceQuota :: "QuotaConfig \<Rightarrow> Key \<Rightarrow> u64 \<Rightarrow> u64 \<Rightarrow> cache_error option" where
  "ensureNamespaceQuota q key nsUsage delta =
     (let limit = namespaceLimit q (k_Namespace key) in
      if limit > 0 \<and> nsUsage + delta > limit
      then Some (ErrQuotaExceeded (QuotaNamespace (k_Namespace key)) nsUsage delta limit)
      else None)"

text \<open>The statistics are engine call 1 of an operation, the eviction is call 2.\<close>

definition admitCostGrowth ::
  "'e engineOps \<Rightarrow> QuotaConfig \<Rightarrow> callEnvs \<Rightarrow> 'e \<Rightarrow> Key \<Rightarrow> u64 \<Rightarrow> u64 \<Rightarrow> 'e \<times> cache_error option" where
  "admitCostGrowth ops q env e key oldCost nextCost =
     (if nextCost \<le> oldCost then (e, None)
      else
        let delta = nextCost - oldCost in
        case op_Stats ops (env 1) e of
          (e, Inl err) \<Rightarrow> (e, Some (ErrEngine ''read engine stats for admission'' err))
        | (e, Inr stats) \<Rightarrow>
            let (nsUsage, spUsage) = usageFor stats (k_Namespace key) (k_Space key) in
            (case ensureSpaceQuota ops q (env 2) e key nsUsage spUsage delta of
               (e, Inl err) \<Rightarrow> (e, Some err)
             | (e, Inr (nsUsage, _)) \<Rightarrow> (e, ensureNamespaceQuota q key nsUsage delta)))"

definition currentRecord ::
  "'e engineOps \<Rightarrow> callEnv \<Rightarrow> 'e \<Rightarrow> Key \<Rightarrow> 'e \<times> (cache_error + Record \<times> bool)" where
  "currentRecord ops c e key =
     (case op_Get ops c e key \<lparr>go_NamespaceVersion = 0, go_SpaceVersion = 0\<rparr> of
        (e, Inl err) \<Rightarrow> (e, Inl (ErrEngine ''get engine record for admission'' err))
      | (e, Inr r) \<Rightarrow> (e, Inr r))"

definition admitSet ::
  "'e engineOps \<Rightarrow> QuotaConfig \<Rightarrow> callEnvs \<Rightarrow> 'e \<Rightarrow> Key \<Rightarrow> bytes \<Rightarrow> SetOptions \<Rightarrow> 'e \<times> cache_error option" where
  "admitSet ops q env e key value opts =
     (if \<not> hasQuotaLimits q then (e, None)
      else
        let nextCost = EstimateCost key value in
        case currentRecord ops (env 0) e key of
          (e, Inl err) \<Rightarrow> (e, Some err)
        | (e, Inr (current, found)) \<Rightarrow>
            if \<not> expectedVersionWillApply found (r_Version current) (so_ExpectedVersion opts) then (e, None)
            else admitCostGrowth ops q env e key (r_CostBytes current) nextCost)"

definition admitAdjust ::
  "'e engineOps \<Rightarrow> QuotaConfig \<Rightarrow> callEnvs \<Rightarrow> 'e \<Rightarrow> Key \<Rightarrow> AdjustOptions \<Rightarrow> 'e \<times> cache_error option" where
  "admitAdjust ops q env e key opts =
     (if \<not> hasQuotaLimits q then (e, None)
      else
        case op_EstimateAdjust ops (env 0) e key opts of
          (e, Inl err) \<Rightarrow> (e, Some (ErrEngine ''estimate engine adjust for admission'' err))
        | (e, Inr estimate) \<Rightarrow>
            if \<not> we_Applied estimate then (e, None)
            else admitCostGrowth ops q env e key (we_OldCostBytes estimate) (we_NewCostBytes estimate))"

definition admitPrimitive ::
  "'e engineOps \<Rightarrow> QuotaConfig \<Rightarrow> callEnvs \<Rightarrow> 'e \<Rightarrow> PrimitiveRequest \<Rightarrow> 'e \<times> cache_error option" where
  "admitPrimitive ops q env e request =
     (if \<not> hasQuotaLimits q \<or> \<not> Mutates (pr_Kind request) then (e, None)
      else
        case op_EstimatePrimitive ops (env 0) e request of
          (e, Inl err) \<Rightarrow> (e, Some (ErrEngine ''estimate engine primitive for admission'' err))
        | (e, Inr estimate) \<Rightarrow>
            if \<not> we_Applied estimate then (e, None)
            else admitCostGrowth ops q env e (pr_Key request)
                   (we_OldCostBytes estimate) (we_NewCostBytes estimate))"

section \<open>Operations\<close>

text \<open>The engine call an operation is for is call 3.\<close>

definition wrapError :: "string \<Rightarrow> 'e \<times> (engine_error + 'a) \<Rightarrow> 'e \<times> (cache_error + 'a)" where
  "wrapError what x =
     (case x of (e, Inl err) \<Rightarrow> (e, Inl (ErrEngine what err)) | (e, Inr v) \<Rightarrow> (e, Inr v))"

definition setLocked ::
  "'e engineOps \<Rightarrow> QuotaConfig \<Rightarrow> callEnvs \<Rightarrow> 'e \<Rightarrow> Key \<Rightarrow> bytes \<Rightarrow> SetOptions \<Rightarrow>
     'e \<times> (cache_error + Record \<times> bool)" where
  "setLocked ops q env e key value opts =
     (case admitSet ops q env e key value opts of
        (e, Some err) \<Rightarrow> (e, Inl err)
      | (e, None) \<Rightarrow> wrapError ''set engine record'' (op_Set ops (env 3) e key value opts))"

definition getLocked ::
  "'e engineOps \<Rightarrow> callEnvs \<Rightarrow> 'e \<Rightarrow> Key \<Rightarrow> GetOptions \<Rightarrow> 'e \<times> (cache_error + Record \<times> bool)" where
  "getLocked ops env e key opts = wrapError ''get engine record'' (op_Get ops (env 3) e key opts)"

definition deleteLocked ::
  "'e engineOps \<Rightarrow> callEnvs \<Rightarrow> 'e \<Rightarrow> Key \<Rightarrow> DeleteOptions \<Rightarrow> 'e \<times> (cache_error + bool \<times> bool)" where
  "deleteLocked ops env e key opts = wrapError ''delete engine record'' (op_Delete ops (env 3) e key opts)"

definition existsLocked ::
  "'e engineOps \<Rightarrow> callEnvs \<Rightarrow> 'e \<Rightarrow> Key \<Rightarrow> GetOptions \<Rightarrow> 'e \<times> (cache_error + bool)" where
  "existsLocked ops env e key opts = wrapError ''check engine record'' (op_Exists ops (env 3) e key opts)"

definition touchLocked ::
  "'e engineOps \<Rightarrow> callEnvs \<Rightarrow> 'e \<Rightarrow> Key \<Rightarrow> TouchOptions \<Rightarrow> 'e \<times> (cache_error + bool)" where
  "touchLocked ops env e key opts = wrapError ''touch engine record'' (op_Touch ops (env 3) e key opts)"

definition adjustLocked ::
  "'e engineOps \<Rightarrow> QuotaConfig \<Rightarrow> callEnvs \<Rightarrow> 'e \<Rightarrow> Key \<Rightarrow> AdjustOptions \<Rightarrow>
     'e \<times> (cache_error + Record \<times> bool)" where
  "adjustLocked ops q env e key opts =
     (case admitAdjust ops q env e key opts of
        (e, Some err) \<Rightarrow> (e, Inl err)
      | (e, None) \<Rightarrow> wrapError ''adjust engine record'' (op_Adjust ops (env 3) e key opts))"

definition executePrimitive ::
  "'e engineOps \<Rightarrow> callEnvs \<Rightarrow> 'e \<Rightarrow> PrimitiveRequest \<Rightarrow> 'e \<times> (cache_error + PrimitiveResult)" where
  "executePrimitive ops env e request =
     wrapError ''execute engine primitive'' (op_Primitive ops (env 3) e request)"

definition primitiveLocked ::
  "'e engineOps \<Rightarrow> QuotaConfig \<Rightarrow> callEnvs \<Rightarrow> 'e \<Rightarrow> PrimitiveRequest \<Rightarrow>
     'e \<times> (cache_error + PrimitiveResult)" where
  "primitiveLocked ops q env e request =
     (case admitPrimitive ops q env e request of
        (e, Some err) \<Rightarrow> (e, Inl err)
      | (e, None) \<Rightarrow> executePrimitive ops env e request)"

definition statsLocked :: "'e engineOps \<Rightarrow> callEnvs \<Rightarrow> 'e \<Rightarrow> 'e \<times> (cache_error + Stats)" where
  "statsLocked ops env e = wrapError ''read engine stats'' (op_Stats ops (env 3) e)"

definition exportLocked ::
  "'e engineOps \<Rightarrow> callEnvs \<Rightarrow> 'e \<Rightarrow> RangeOptions \<Rightarrow> 'e \<times> (cache_error + SnapshotEntry list)" where
  "exportLocked ops env e opts = wrapError ''export engine range'' (op_Export ops (env 3) e opts)"

definition wrapCount :: "string \<Rightarrow> 'e \<times> 'a \<times> engine_error option \<Rightarrow> 'e \<times> (cache_error + 'a)" where
  "wrapCount what x =
     (case x of (e, _, Some err) \<Rightarrow> (e, Inl (ErrEngine what err)) | (e, n, None) \<Rightarrow> (e, Inr n))"

definition importLocked ::
  "'e engineOps \<Rightarrow> callEnvs \<Rightarrow> 'e \<Rightarrow> SnapshotEntry list \<Rightarrow> 'e \<times> (cache_error + u64)" where
  "importLocked ops env e items = wrapCount ''import engine snapshot'' (op_Import ops (env 3) e items)"

definition deleteRangeLocked ::
  "'e engineOps \<Rightarrow> callEnvs \<Rightarrow> 'e \<Rightarrow> RangeOptions \<Rightarrow> 'e \<times> (cache_error + u64)" where
  "deleteRangeLocked ops env e opts = wrapCount ''delete engine range'' (op_DeleteRange ops (env 3) e opts)"

section \<open>Batches\<close>

text \<open>
  Every batch runs its requests in order, stops at the first error and returns what it has so far
  with the error. Request \<open>i\<close> gets the environments \<open>env (4 * i)\<close> and following.
\<close>

fun batchLoop ::
  "(callEnvs \<Rightarrow> 'e \<Rightarrow> 'r \<Rightarrow> 'e \<times> (cache_error + 'a)) \<Rightarrow> callEnvs \<Rightarrow> 'e \<Rightarrow> 'r list \<Rightarrow>
     'e \<times> 'a list \<times> cache_error option" where
  "batchLoop f env e [] = (e, [], None)"
| "batchLoop f env e (request # requests) =
     (case f env e request of
        (e, Inl err) \<Rightarrow> (e, [], Some err)
      | (e, Inr result) \<Rightarrow>
          let (e, results, err) = batchLoop f (\<lambda>n. env (n + 4)) e requests
          in (e, result # results, err))"

definition batchSetLocked ::
  "'e engineOps \<Rightarrow> QuotaConfig \<Rightarrow> callEnvs \<Rightarrow> 'e \<Rightarrow> (Key \<times> bytes \<times> SetOptions) list \<Rightarrow>
     'e \<times> (Record \<times> bool) list \<times> cache_error option" where
  "batchSetLocked ops q =
     batchLoop (\<lambda>env e (key, value, opts). setLocked ops q env e key value opts)"

definition batchGetLocked ::
  "'e engineOps \<Rightarrow> callEnvs \<Rightarrow> 'e \<Rightarrow> (Key \<times> GetOptions) list \<Rightarrow>
     'e \<times> (Record \<times> bool) list \<times> cache_error option" where
  "batchGetLocked ops = batchLoop (\<lambda>env e (key, opts). getLocked ops env e key opts)"

definition batchDeleteLocked ::
  "'e engineOps \<Rightarrow> callEnvs \<Rightarrow> 'e \<Rightarrow> (Key \<times> u64) list \<Rightarrow>
     'e \<times> (bool \<times> bool) list \<times> cache_error option" where
  "batchDeleteLocked ops = batchLoop (\<lambda>env e (key, expected).
     case deleteLocked ops env e key \<lparr>do_ExpectedVersion = expected\<rparr> of
       (e, Inl err) \<Rightarrow> (e, Inl (ErrWrapped ''delete engine batch record'' err))
     | (e, Inr (deleted, found)) \<Rightarrow> (e, Inr (deleted \<and> found, found)))"

definition batchExistsLocked ::
  "'e engineOps \<Rightarrow> callEnvs \<Rightarrow> 'e \<Rightarrow> (Key \<times> GetOptions) list \<Rightarrow>
     'e \<times> bool list \<times> cache_error option" where
  "batchExistsLocked ops = batchLoop (\<lambda>env e (key, opts). existsLocked ops env e key opts)"

definition batchTouchLocked ::
  "'e engineOps \<Rightarrow> callEnvs \<Rightarrow> 'e \<Rightarrow> (Key \<times> TouchOptions) list \<Rightarrow>
     'e \<times> bool list \<times> cache_error option" where
  "batchTouchLocked ops = batchLoop (\<lambda>env e (key, opts). touchLocked ops env e key opts)"

definition batchPrimitiveLocked ::
  "'e engineOps \<Rightarrow> QuotaConfig \<Rightarrow> callEnvs \<Rightarrow> 'e \<Rightarrow> PrimitiveRequest list \<Rightarrow>
     'e \<times> PrimitiveResult list \<times> cache_error option" where
  "batchPrimitiveLocked ops q = batchLoop (primitiveLocked ops q)"

definition primitiveBatchMutates :: "PrimitiveRequest list \<Rightarrow> bool" where
  "primitiveBatchMutates requests = list_ex (\<lambda>request. Mutates (pr_Kind request)) requests"

section \<open>Calls and transactions\<close>

text \<open>
  The methods of the \<open>Service\<close> interface as calls, with their replies. A transaction's function is a
  program that makes calls one after the other, each depending on the replies so far, and returns an
  error or none; it runs under the service's exclusive lock, on the \<open>Locked\<close> operations.
\<close>

datatype serviceCall =
    SSet Key bytes SetOptions
  | SGet Key GetOptions
  | SDelete Key DeleteOptions
  | SExists Key GetOptions
  | STouch Key TouchOptions
  | SAdjust Key AdjustOptions
  | SPrimitive PrimitiveRequest
  | SBatchPrimitive "PrimitiveRequest list"
  | SBatchSet "(Key \<times> bytes \<times> SetOptions) list"
  | SBatchGet "(Key \<times> GetOptions) list"
  | SBatchDelete "(Key \<times> u64) list"
  | SBatchExists "(Key \<times> GetOptions) list"
  | SBatchTouch "(Key \<times> TouchOptions) list"
  | STransaction
  | SStats
  | SEvict EvictRequest
  | SExport RangeOptions
  | SImport "SnapshotEntry list"
  | SDeleteRange RangeOptions

datatype serviceReply =
    RRecord "cache_error + Record \<times> bool"
  | RDeleted "cache_error + bool \<times> bool"
  | RFlag "cache_error + bool"
  | RPrimitive "cache_error + PrimitiveResult"
  | RPrimitives "PrimitiveResult list" "cache_error option"
  | RRecords "(Record \<times> bool) list" "cache_error option"
  | RDeletes "(bool \<times> bool) list" "cache_error option"
  | RFlags "bool list" "cache_error option"
  | RError "cache_error option"
  | RStats "cache_error + Stats"
  | REvict "cache_error + EvictResult"
  | RExport "cache_error + SnapshotEntry list"
  | RCount "cache_error + u64"

definition reply :: "('a \<Rightarrow> serviceReply) \<Rightarrow> 'e \<times> 'a \<Rightarrow> 'e \<times> serviceReply" where
  "reply f x = (fst x, f (snd x))"

fun transactionService ::
  "'e engineOps \<Rightarrow> QuotaConfig \<Rightarrow> callEnvs \<Rightarrow> 'e \<Rightarrow> serviceCall \<Rightarrow> 'e \<times> serviceReply" where
  "transactionService ops q env e (SSet key value opts) = reply RRecord (setLocked ops q env e key value opts)"
| "transactionService ops q env e (SGet key opts) = reply RRecord (getLocked ops env e key opts)"
| "transactionService ops q env e (SDelete key opts) = reply RDeleted (deleteLocked ops env e key opts)"
| "transactionService ops q env e (SExists key opts) = reply RFlag (existsLocked ops env e key opts)"
| "transactionService ops q env e (STouch key opts) = reply RFlag (touchLocked ops env e key opts)"
| "transactionService ops q env e (SAdjust key opts) = reply RRecord (adjustLocked ops q env e key opts)"
| "transactionService ops q env e (SPrimitive request) = reply RPrimitive (primitiveLocked ops q env e request)"
| "transactionService ops q env e (SBatchPrimitive requests) =
     reply (\<lambda>(rs, err). RPrimitives rs err) (batchPrimitiveLocked ops q env e requests)"
| "transactionService ops q env e (SBatchSet requests) =
     reply (\<lambda>(rs, err). RRecords rs err) (batchSetLocked ops q env e requests)"
| "transactionService ops q env e (SBatchGet requests) =
     reply (\<lambda>(rs, err). RRecords rs err) (batchGetLocked ops env e requests)"
| "transactionService ops q env e (SBatchDelete requests) =
     reply (\<lambda>(rs, err). RDeletes rs err) (batchDeleteLocked ops env e requests)"
| "transactionService ops q env e (SBatchExists requests) =
     reply (\<lambda>(rs, err). RFlags rs err) (batchExistsLocked ops env e requests)"
| "transactionService ops q env e (SBatchTouch requests) =
     reply (\<lambda>(rs, err). RFlags rs err) (batchTouchLocked ops env e requests)"
| "transactionService ops q env e STransaction = (e, RError (Some ErrNestedTransactionUnsupported))"
| "transactionService ops q env e SStats = reply RStats (statsLocked ops env e)"
| "transactionService ops q env e (SEvict request) = reply REvict (evictLocked ops (env 3) e request)"
| "transactionService ops q env e (SExport opts) = reply RExport (exportLocked ops env e opts)"
| "transactionService ops q env e (SImport items) = reply RCount (importLocked ops env e items)"
| "transactionService ops q env e (SDeleteRange opts) = reply RCount (deleteRangeLocked ops env e opts)"

datatype TransactionFunc =
    TxReturn "cache_error option"
  | TxCall callEnvs serviceCall "serviceReply \<Rightarrow> TransactionFunc"

primrec runTransaction ::
  "'e engineOps \<Rightarrow> QuotaConfig \<Rightarrow> TransactionFunc \<Rightarrow> 'e \<Rightarrow> 'e \<times> cache_error option" where
  "runTransaction ops q (TxReturn err) e = (e, err)"
| "runTransaction ops q (TxCall env call k) e =
     (let (e, r) = transactionService ops q env e call in runTransaction ops q (k r) e)"

definition Transaction ::
  "'e engineOps \<Rightarrow> QuotaConfig \<Rightarrow> 'e \<Rightarrow> TransactionFunc option \<Rightarrow> 'e \<times> cache_error option" where
  "Transaction ops q e fn = (case fn of None \<Rightarrow> (e, None) | Some f \<Rightarrow> runTransaction ops q f e)"

text \<open>
  The public methods take the lock, exclusively for the calls below and shared for the others, and run
  the same operations.
\<close>

fun exclusive :: "serviceCall \<Rightarrow> bool" where
  "exclusive (SGet _ _) = False"
| "exclusive (SExists _ _) = False"
| "exclusive (SBatchGet _) = False"
| "exclusive (SBatchExists _) = False"
| "exclusive SStats = False"
| "exclusive (SExport _) = False"
| "exclusive (SPrimitive request) = Mutates (pr_Kind request)"
| "exclusive (SBatchPrimitive requests) = primitiveBatchMutates requests"
| "exclusive _ = True"

end
