(* ===== verification/Cache_Quota.thy ===== *)
theory Cache_Quota
  imports Cache_Service
begin

text \<open>
  What the cache service relies on of an engine, as a locale, the quota theorem proved from it, and
  the memory engine as an instance. \<open>view\<close> is the engine's contents by physical key and \<open>used\<close> the
  bytes of the entries in the spaces a predicate selects.
\<close>

section \<open>Invariants of the engine under the service\<close>

locale engine_keeps =
  fixes ops :: "'e engineOps"
    and inv :: "'e \<Rightarrow> bool"
  assumes set_keeps: "inv e \<Longrightarrow> inv (fst (op_Set ops c e key val so))"
    and get_keeps: "inv e \<Longrightarrow> inv (fst (op_Get ops c e key go))"
    and delete_keeps: "inv e \<Longrightarrow> inv (fst (op_Delete ops c e key del))"
    and exists_keeps: "inv e \<Longrightarrow> inv (fst (op_Exists ops c e key go))"
    and touch_keeps: "inv e \<Longrightarrow> inv (fst (op_Touch ops c e key to))"
    and adjust_keeps: "inv e \<Longrightarrow> inv (fst (op_Adjust ops c e key ao))"
    and estimate_adjust_keeps: "inv e \<Longrightarrow> inv (fst (op_EstimateAdjust ops c e key ao))"
    and primitive_keeps: "inv e \<Longrightarrow> inv (fst (op_Primitive ops c e pr))"
    and estimate_primitive_keeps: "inv e \<Longrightarrow> inv (fst (op_EstimatePrimitive ops c e pr))"
    and stats_keeps: "inv e \<Longrightarrow> inv (fst (op_Stats ops c e))"
    and evict_keeps: "inv e \<Longrightarrow> inv (fst (op_Evict ops c e eo))"
    and export_keeps: "inv e \<Longrightarrow> inv (fst (op_Export ops c e ro))"
    and import_keeps: "inv e \<Longrightarrow> inv (fst (op_Import ops c e items))"
    and delete_range_keeps: "inv e \<Longrightarrow> inv (fst (op_DeleteRange ops c e ro))"
begin

lemmas op_keeps = set_keeps get_keeps delete_keeps exists_keeps touch_keeps adjust_keeps
  estimate_adjust_keeps primitive_keeps estimate_primitive_keeps stats_keeps evict_keeps
  export_keeps import_keeps delete_range_keeps

lemma wrap_keeps: "inv (fst (wrapError w x)) = inv (fst x)" "inv (fst (wrapCount w y)) = inv (fst y)"
  by (auto simp: wrapError_def wrapCount_def split: prod.split sum.split option.split)

lemma evictLocked_keeps: "inv e \<Longrightarrow> inv (fst (evictLocked ops c e request))"
  unfolding evictLocked_def using evict_keeps by (fastforce split: prod.split option.split dest: arg_cong [where f = fst])

lemma ensureSpaceQuota_keeps: "inv e \<Longrightarrow> inv (fst (ensureSpaceQuota ops q c e key a b delta))"
  using evictLocked_keeps
  by (fastforce simp: ensureSpaceQuota_def Let_def split: prod.split sum.split dest: arg_cong [where f = fst])

lemma admitCostGrowth_keeps: "inv e \<Longrightarrow> inv (fst (admitCostGrowth ops q env e key a b))"
  using stats_keeps ensureSpaceQuota_keeps
  by (fastforce simp: admitCostGrowth_def Let_def split: prod.split sum.split dest: arg_cong [where f = fst])

lemma admit_keeps:
  assumes "inv e"
  shows "inv (fst (admitSet ops q env e key val so))"
    and "inv (fst (admitAdjust ops q env e key ao))"
    and "inv (fst (admitPrimitive ops q env e pr))"
proof -
  have grow: "inv (fst (admitCostGrowth ops q env (fst (op_Get ops c e key go)) k a b))"
    "inv (fst (admitCostGrowth ops q env (fst (op_EstimateAdjust ops c e key ao)) k a b))"
    "inv (fst (admitCostGrowth ops q env (fst (op_EstimatePrimitive ops c e pr)) k a b))" for c key go ao pr k a b
    using assms by (simp_all add: op_keeps admitCostGrowth_keeps)
  show "inv (fst (admitSet ops q env e key val so))"
    using assms grow(1) get_keeps [OF assms]
    by (simp add: admitSet_def currentRecord_def Let_def split_beta split: prod.split sum.split)
  show "inv (fst (admitAdjust ops q env e key ao))"
    using assms grow(2) estimate_adjust_keeps [OF assms]
    by (simp add: admitAdjust_def split_beta split: sum.split)
  show "inv (fst (admitPrimitive ops q env e pr))"
    using assms grow(3) estimate_primitive_keeps [OF assms]
    by (simp add: admitPrimitive_def split_beta split: sum.split)
qed

lemma admitted_keeps:
  assumes "inv (fst x)" and "\<And>e. inv e \<Longrightarrow> inv (fst (f e))"
  shows "inv (fst (case x of (e, Some err) \<Rightarrow> (e, Inl err) | (e, None) \<Rightarrow> f e))"
  using assms by (auto split: prod.split option.split)

lemma locked_keeps:
  assumes "inv e"
  shows "inv (fst (setLocked ops q env e key val so))"
    and "inv (fst (getLocked ops env e key go))"
    and "inv (fst (deleteLocked ops env e key del))"
    and "inv (fst (existsLocked ops env e key go))"
    and "inv (fst (touchLocked ops env e key to))"
    and "inv (fst (adjustLocked ops q env e key ao))"
    and "inv (fst (primitiveLocked ops q env e pr))"
    and "inv (fst (statsLocked ops env e))"
    and "inv (fst (exportLocked ops env e ro))"
    and "inv (fst (importLocked ops env e items))"
    and "inv (fst (deleteRangeLocked ops env e ro))"
  using assms
  by (simp_all add: setLocked_def getLocked_def deleteLocked_def existsLocked_def touchLocked_def
      adjustLocked_def primitiveLocked_def executePrimitive_def statsLocked_def exportLocked_def
      importLocked_def deleteRangeLocked_def wrap_keeps op_keeps admit_keeps admitted_keeps)

lemma batchLoop_keeps:
  assumes "\<And>env e r. inv e \<Longrightarrow> inv (fst (f env e r))"
  shows "inv e \<Longrightarrow> inv (fst (batchLoop f env e rs))"
proof (induction rs arbitrary: env e)
  case (Cons r rs)
  have "inv (fst (f env e r))" by (rule assms [OF Cons.prems])
  with Cons.IH [of "fst (f env e r)"] show ?case by (auto simp: split_beta Let_def split: sum.split)
qed simp

lemma batch_keeps:
  assumes "inv e"
  shows "inv (fst (batchSetLocked ops q env e sets))"
    and "inv (fst (batchGetLocked ops env e gs))"
    and "inv (fst (batchDeleteLocked ops env e dels))"
    and "inv (fst (batchExistsLocked ops env e gs))"
    and "inv (fst (batchTouchLocked ops env e ts))"
    and "inv (fst (batchPrimitiveLocked ops q env e prs))"
proof -
  have del: "inv (fst (case deleteLocked ops env e key del of
       (e, Inl err) \<Rightarrow> (e, Inl (w err)) | (e, Inr (deleted, found)) \<Rightarrow> (e, Inr (deleted \<and> found, found))))"
    if "inv e" for env e key del w
    using locked_keeps(3) [OF that, of env key del] by (auto split: prod.split sum.split)
  show "inv (fst (batchSetLocked ops q env e sets))"
    and "inv (fst (batchGetLocked ops env e gs))"
    and "inv (fst (batchDeleteLocked ops env e dels))"
    and "inv (fst (batchExistsLocked ops env e gs))"
    and "inv (fst (batchTouchLocked ops env e ts))"
    and "inv (fst (batchPrimitiveLocked ops q env e prs))"
    unfolding batchSetLocked_def batchGetLocked_def batchDeleteLocked_def batchExistsLocked_def
      batchTouchLocked_def batchPrimitiveLocked_def
    by (intro batchLoop_keeps [OF _ assms]; auto simp: locked_keeps intro: del)+
qed

lemma service_keeps: "inv e \<Longrightarrow> inv (fst (transactionService ops q env e call))"
  by (cases call) (simp_all add: reply_def locked_keeps batch_keeps evictLocked_keeps)

lemma transaction_keeps: "inv e \<Longrightarrow> inv (fst (runTransaction ops q fn e))"
proof (induction fn arbitrary: e)
  case (TxCall env call k)
  have "inv (fst (transactionService ops q env e call))" by (rule service_keeps [OF TxCall.prems])
  with TxCall.IH show ?case by (auto simp: Let_def split: prod.split)
qed simp

end

section \<open>Quotas\<close>

locale engine_contract = engine_keeps ops inv
  for ops :: "'e engineOps"
    and inv :: "'e \<Rightarrow> bool" +
  fixes view :: "'e \<Rightarrow> string \<Rightarrow> entry option"
    and used :: "(spaceKey \<Rightarrow> bool) \<Rightarrow> 'e \<Rightarrow> nat"
  assumes get_law: "inv e \<Longrightarrow>
      op_Get ops c e key \<lparr>go_NamespaceVersion = 0, go_SpaceVersion = 0\<rparr> = (e', Inr (rec, found)) \<Longrightarrow>
      inv e' \<and> validateKey key = None \<and> found = (view e' (physicalKey key) \<noteq> None) \<and>
      r_CostBytes rec = keyCost (view e' (physicalKey key)) \<and>
      (\<forall>ent. view e' (physicalKey key) = Some ent \<longrightarrow> r_Version rec = e_version ent) \<and>
      used P e' \<le> used P e"
    and stats_law: "inv e \<Longrightarrow> op_Stats ops c e = (e', Inr st) \<Longrightarrow>
      e' = e \<and>
      (\<Sum>item\<leftarrow>filter (\<lambda>item. P (sps_Namespace item, sps_Space item)) (st_Spaces st). sps_MemoryBytes item) =
        of_nat (used P e)"
    and evict_law: "inv e \<Longrightarrow> used (\<lambda>x. x = evictSpace eo) e < 2 ^ 64 \<Longrightarrow>
      op_Evict ops c e eo = (e', res, None) \<Longrightarrow>
      inv e' \<and> used P e' + (if P (evictSpace eo) then unat (er_FreedBytes res) else 0) = used P e \<and>
      (eo_ExcludeActive eo \<longrightarrow>
         view e' (physicalKey (eo_Exclude eo)) = view e (physicalKey (eo_Exclude eo)))"
    and set_law: "inv e \<Longrightarrow> op_Set ops c e key val so = (e', Inr (rec, ok)) \<Longrightarrow>
      inv e' \<and> ok = setApplies so (view e (physicalKey key)) \<and>
      used P e' + (if ok then share P key (keyCost (view e (physicalKey key))) else 0) =
        used P e + (if ok then share P key (costOf key val) else 0)"
begin

lemma usageFor_used:
  assumes "inv e" and "op_Stats ops c e = (e', Inr st)"
  shows "usageFor st ns sp = (of_nat (used (\<lambda>x. fst x = ns) e), of_nat (used (\<lambda>x. x = (ns, sp)) e))"
proof -
  have "foldl (usageStep ns sp) (a, b) items =
      (a + (\<Sum>item\<leftarrow>filter (\<lambda>item. sps_Namespace item = ns) items. sps_MemoryBytes item),
       b + (\<Sum>item\<leftarrow>filter (\<lambda>item. sps_Namespace item = ns \<and> sps_Space item = sp) items. sps_MemoryBytes item))"
    for a b items
    by (induction items arbitrary: a b) (auto simp: usageStep_def Let_def)
  then show ?thesis
    using stats_law [OF assms, of "\<lambda>x. fst x = ns"] stats_law [OF assms, of "\<lambda>x. x = (ns, sp)"]
    by (simp add: usageFor_def)
qed

lemma unat_minus_min:
  fixes u f :: u64
  assumes "unat f \<le> unat u"
  shows "unat (u - minUint64 u f) = unat u - unat f"
proof -
  have "f \<le> u" using assms by (simp add: word_le_nat_alt)
  then show ?thesis by (simp add: minUint64_def unat_sub)
qed

lemma unat_add_small:
  fixes u v :: u64
  assumes "unat u + unat v < 2 ^ 64"
  shows "unat (u + v) = unat u + unat v"
  using assms by (subst unat_plus_if_size) (simp add: word_size)

lemma ensureSpaceQuota_ok:
  assumes inv: "inv e" and key: "validateKey key = None"
    and ok: "ensureSpaceQuota ops q c e key nsUsage spUsage delta = (e', Inr (nsUsage', spUsage'))"
    and sp: "unat spUsage = used (\<lambda>x. x = spaceKeyOf key) e"
    and ns: "unat nsUsage = used (\<lambda>x. fst x = k_Namespace key) e"
    and small: "unat spUsage + unat delta < 2 ^ 64"
  shows "inv e' \<and> view e' (physicalKey key) = view e (physicalKey key) \<and> used P e' \<le> used P e
    \<and> unat nsUsage' = used (\<lambda>x. fst x = k_Namespace key) e'
    \<and> (spaceLimit q (k_Namespace key) (k_Space key) \<noteq> 0 \<longrightarrow>
        used (\<lambda>x. x = spaceKeyOf key) e' + unat delta \<le> unat (spaceLimit q (k_Namespace key) (k_Space key)))"
proof -
  define limit where "limit = spaceLimit q (k_Namespace key) (k_Space key)"
  show ?thesis
  proof (cases "limit = 0 \<or> spUsage + delta \<le> limit")
    case True
    then have "e' = e" "nsUsage' = nsUsage" using ok by (auto simp: ensureSpaceQuota_def Let_def limit_def)
    with True inv ns sp unat_add_small [OF small] show ?thesis
      by (auto simp: limit_def word_le_nat_alt)
  next
    case False
    define opts where "opts = \<lparr>eo_Namespace = k_Namespace key, eo_Space = k_Space key,
      eo_TargetBytes = spUsage + delta - limit, eo_Exclude = key,
      eo_ExcludeActive = (k_Key key \<noteq> []), eo_Now = 0\<rparr>"
    from ok False obtain res where ev: "op_Evict ops c e opts = (e', res, None)"
      and ns': "nsUsage' = nsUsage - minUint64 nsUsage (er_FreedBytes res)"
      and le: "spUsage - minUint64 spUsage (er_FreedBytes res) + delta \<le> limit"
      by (auto simp: ensureSpaceQuota_def evictLocked_def Let_def limit_def opts_def
          split: prod.splits sum.splits option.splits if_splits)
    have sk: "evictSpace opts = spaceKeyOf key" by (simp add: opts_def spaceKeyOf_def)
    have "used (\<lambda>x. x = evictSpace opts) e < 2 ^ 64" using sp small unfolding sk by linarith
    note law = evict_law [OF inv this ev, unfolded sk]
    have freed: "used (\<lambda>x. x = spaceKeyOf key) e' + unat (er_FreedBytes res) = used (\<lambda>x. x = spaceKeyOf key) e"
      "used (\<lambda>x. fst x = k_Namespace key) e' + unat (er_FreedBytes res) = used (\<lambda>x. fst x = k_Namespace key) e"
      using law [of "\<lambda>x. x = spaceKeyOf key"] law [of "\<lambda>x. fst x = k_Namespace key"] by (simp_all add: spaceKeyOf_def)
    have nsn: "unat nsUsage' = used (\<lambda>x. fst x = k_Namespace key) e'"
      using freed ns unat_minus_min [of "er_FreedBytes res" nsUsage] by (simp add: ns')
    have spn: "unat (spUsage - minUint64 spUsage (er_FreedBytes res)) = used (\<lambda>x. x = spaceKeyOf key) e'"
      using freed sp unat_minus_min [of "er_FreedBytes res" spUsage] by simp
    have "used (\<lambda>x. x = spaceKeyOf key) e' + unat delta \<le> unat limit"
      using le unat_add_small [of "spUsage - minUint64 spUsage (er_FreedBytes res)" delta] spn freed sp small
      by (simp add: word_le_nat_alt)
    moreover have "k_Key key \<noteq> []" using key by (auto simp: validateKey_def split: if_splits)
    then have "view e' (physicalKey key) = view e (physicalKey key)"
      using law [of "\<lambda>_. False"] by (simp add: opts_def)
    ultimately show ?thesis using law [of P] nsn by (auto simp: limit_def)
  qed
qed

abbreviation spaceUsed :: "Key \<Rightarrow> 'e \<Rightarrow> nat" where
  "spaceUsed key \<equiv> used (\<lambda>x. x = spaceKeyOf key)"

abbreviation namespaceUsed :: "Key \<Rightarrow> 'e \<Rightarrow> nat" where
  "namespaceUsed key \<equiv> used (\<lambda>x. fst x = k_Namespace key)"

lemma unat_of_used: "n < 2 ^ 64 \<Longrightarrow> unat (of_nat n :: u64) = n"
  by (simp add: unat_of_nat_len)

lemma admitCostGrowth_ok:
  assumes inv: "inv e" and key: "validateKey key = None" and grow: "oldCost < nextCost"
    and ok: "admitCostGrowth ops q env e key oldCost nextCost = (e', None)"
    and small: "\<And>P. used P e + unat nextCost < 2 ^ 64"
  shows "inv e' \<and> view e' (physicalKey key) = view e (physicalKey key) \<and> used P e' \<le> used P e
    \<and> (spaceLimit q (k_Namespace key) (k_Space key) \<noteq> 0 \<longrightarrow>
        spaceUsed key e' + unat (nextCost - oldCost) \<le> unat (spaceLimit q (k_Namespace key) (k_Space key)))
    \<and> (namespaceLimit q (k_Namespace key) \<noteq> 0 \<longrightarrow>
        namespaceUsed key e' + unat (nextCost - oldCost) \<le> unat (namespaceLimit q (k_Namespace key)))"
proof -
  define delta where "delta = nextCost - oldCost"
  have d: "unat delta = unat nextCost - unat oldCost"
    unfolding delta_def using grow by (intro unat_sub) simp
  have ng: "\<not> nextCost \<le> oldCost" using grow by simp
  obtain e1 st where stats: "op_Stats ops (env 1) e = (e1, Inr st)"
    using ok ng by (auto simp: admitCostGrowth_def Let_def simp del: One_nat_def split: prod.splits sum.splits)
  have e1: "e1 = e" using stats_law [OF inv stats] by simp
  define sp :: u64 where "sp = of_nat (spaceUsed key e)"
  define ns :: u64 where "ns = of_nat (namespaceUsed key e)"
  have sp: "unat sp = spaceUsed key e" and ns: "unat ns = namespaceUsed key e"
    unfolding sp_def ns_def
    using small [of "\<lambda>x. x = spaceKeyOf key"] small [of "\<lambda>x. fst x = k_Namespace key"]
    by (auto intro!: unat_of_used)
  have use: "usageFor st (k_Namespace key) (k_Space key) = (ns, sp)"
    using usageFor_used [OF inv stats] by (simp add: sp_def ns_def spaceKeyOf_def)
  from ok ng obtain ns' sp' where es: "ensureSpaceQuota ops q (env 2) e key ns sp delta = (e', Inr (ns', sp'))"
    and en: "ensureNamespaceQuota q key ns' delta = None"
    by (auto simp: admitCostGrowth_def stats e1 use delta_def Let_def simp del: One_nat_def split: prod.splits sum.splits)
  have "unat sp + unat delta < 2 ^ 64" using sp d small [of "\<lambda>x. x = spaceKeyOf key"] by simp
  note q = ensureSpaceQuota_ok [OF inv key es sp ns this]
  have "unat ns' + unat delta < 2 ^ 64"
    using conjunct1 [OF conjunct2 [OF conjunct2 [OF q]], of "\<lambda>x. fst x = k_Namespace key"]
      conjunct1 [OF conjunct2 [OF conjunct2 [OF conjunct2 [OF q]]]] small [of "\<lambda>x. fst x = k_Namespace key"] d
    by linarith
  from en unat_add_small [OF this] q
  have "namespaceLimit q (k_Namespace key) \<noteq> 0 \<longrightarrow>
      namespaceUsed key e' + unat delta \<le> unat (namespaceLimit q (k_Namespace key))"
    by (auto simp: ensureNamespaceQuota_def Let_def word_gt_0 not_less word_le_nat_alt split: if_splits)
  with q [of P] show ?thesis unfolding delta_def by blast
qed

lemma limits_hasQuota:
  "spaceLimit q ns sp \<noteq> 0 \<or> namespaceLimit q ns \<noteq> 0 \<Longrightarrow> hasQuotaLimits q"
  by (auto simp: spaceLimit_def namespaceLimit_def hasQuotaLimits_def word_gt_0 split: option.splits)

text \<open>A set that is applied leaves the space and the namespace within their limits, unless it did
  not grow the entry, and then it did not grow them.\<close>

lemma setLocked_within_quota:
  assumes inv: "inv e" and set: "setLocked ops q env e key val opts = (e', Inr (rec, True))"
    and small: "\<And>P. used P e + unat (costOf key val) < 2 ^ 64"
    and lim: "spaceLimit q (k_Namespace key) (k_Space key) \<noteq> 0 \<or> namespaceLimit q (k_Namespace key) \<noteq> 0"
  shows "inv e'
    \<and> (spaceLimit q (k_Namespace key) (k_Space key) \<noteq> 0 \<longrightarrow>
        spaceUsed key e' \<le> max (spaceUsed key e) (unat (spaceLimit q (k_Namespace key) (k_Space key))))
    \<and> (namespaceLimit q (k_Namespace key) \<noteq> 0 \<longrightarrow>
        namespaceUsed key e' \<le> max (namespaceUsed key e) (unat (namespaceLimit q (k_Namespace key))))"
proof -
  define cost where "cost = costOf key val"
  from set obtain e2 where adm: "admitSet ops q env e key val opts = (e2, None)"
    and op: "op_Set ops (env 3) e2 key val opts = (e', Inr (rec, True))"
    by (auto simp: setLocked_def wrapError_def split: prod.splits option.splits sum.splits)
  from adm limits_hasQuota [OF lim] obtain e1 cur found
    where get: "op_Get ops (env 0) e key \<lparr>go_NamespaceVersion = 0, go_SpaceVersion = 0\<rparr> = (e1, Inr (cur, found))"
      and rest: "(if \<not> expectedVersionWillApply found (r_Version cur) (so_ExpectedVersion opts) then (e1, None)
            else admitCostGrowth ops q env e1 key (r_CostBytes cur) (costOf key val)) = (e2, None)"
    by (auto simp: admitSet_def currentRecord_def EstimateCost_def Let_def
        split: prod.splits sum.splits)
  note gl = get_law [OF inv get]
  define old where "old = view e1 (physicalKey key)"
  have inv1: "inv e1" and cur: "r_CostBytes cur = keyCost old" and le1: "used P e1 \<le> used P e" for P
    using gl by (auto simp: old_def)
  have will: "expectedVersionWillApply found (r_Version cur) (so_ExpectedVersion opts) = setApplies opts old"
    using gl by (cases old) (auto simp: expectedVersionWillApply_def setApplies_def old_def)
  have valid_key: "validateKey key = None" using gl by simp
  have two: "inv e2 \<and> view e2 (physicalKey key) = old \<and> used P e2 \<le> used P e1 \<and>
     (keyCost old < cost \<longrightarrow> setApplies opts old \<longrightarrow>
      (spaceLimit q (k_Namespace key) (k_Space key) \<noteq> 0 \<longrightarrow>
        spaceUsed key e2 + unat (cost - keyCost old) \<le> unat (spaceLimit q (k_Namespace key) (k_Space key)))
      \<and> (namespaceLimit q (k_Namespace key) \<noteq> 0 \<longrightarrow>
        namespaceUsed key e2 + unat (cost - keyCost old) \<le> unat (namespaceLimit q (k_Namespace key))))" for P
  proof (cases "setApplies opts old \<and> keyCost old < cost")
    case False
    then have "e2 = e1" using rest by (auto simp: will cur cost_def admitCostGrowth_def split: if_splits)
    with False inv1 show ?thesis by (auto simp: old_def)
  next
    case True
    then have grow: "admitCostGrowth ops q env e1 key (keyCost old) cost = (e2, None)"
      using rest by (simp add: will cur cost_def)
    have s1: "used P e1 + unat cost < 2 ^ 64" for P
      using small [of P] le1 [of P] by (simp add: cost_def)
    show ?thesis using admitCostGrowth_ok [OF inv1 valid_key _ grow s1] True by (auto simp: old_def)
  qed
  note sl = set_law [OF conjunct1 [OF two] op, folded cost_def]
  have eq: "used P e' + share P key (keyCost old) = used P e2 + share P key cost" for P
    using sl [of P] two by simp
  have app: "setApplies opts old" using sl two by simp
  have num: "spaceUsed key e' + unat (keyCost old) = spaceUsed key e2 + unat cost"
    and numN: "namespaceUsed key e' + unat (keyCost old) = namespaceUsed key e2 + unat cost"
    using eq [of "\<lambda>x. x = spaceKeyOf key"] eq [of "\<lambda>x. fst x = k_Namespace key"]
    by (simp_all add: share_def spaceKeyOf_def)
  have cost: "unat (cost - keyCost old) = unat cost - unat (keyCost old)" if "keyCost old < cost"
    using that by (intro unat_sub) simp
  have le2: "used P e2 \<le> used P e" for P using two [of P] le1 [of P] by simp
  have "inv e'" using sl by blast
  show ?thesis
  proof (cases "keyCost old < cost")
    case True
    with two app have "spaceLimit q (k_Namespace key) (k_Space key) \<noteq> 0 \<longrightarrow>
        spaceUsed key e2 + unat (cost - keyCost old) \<le> unat (spaceLimit q (k_Namespace key) (k_Space key))"
      "namespaceLimit q (k_Namespace key) \<noteq> 0 \<longrightarrow>
        namespaceUsed key e2 + unat (cost - keyCost old) \<le> unat (namespaceLimit q (k_Namespace key))"
      by blast+
    with num numN cost [OF True] \<open>inv e'\<close> show ?thesis by auto
  next
    case False
    then have "unat cost \<le> unat (keyCost old)" by (simp add: word_le_nat_alt not_less)
    with num numN le2 [of "\<lambda>x. x = spaceKeyOf key"] le2 [of "\<lambda>x. fst x = k_Namespace key"] \<open>inv e'\<close>
    show ?thesis by auto
  qed
qed

end

section \<open>The memory engine provides the contract\<close>

lemma EngineExists_state [simp]: "fst (EngineExists d ctx now e key opts) = fst (EngineGet d ctx now e key opts)"
  by (auto simp: EngineExists_def split: prod.split sum.split)

interpretation memory_keeps: engine_keeps "memoryOps d" "\<lambda>e. deps_ok d \<and> engine_inv e" for d
  by unfold_locales (auto simp: memoryOps_def key_ops_inv all_ops_inv)

lemma bytesWhere_drop:
  "bytesWhere P e' + share P key (keyCost old) = bytesWhere P e + share P key (keyCost new) \<Longrightarrow>
     keyCost new \<le> keyCost old \<Longrightarrow> bytesWhere P e' \<le> bytesWhere P e"
  by (auto simp: share_def word_le_nat_alt split: if_splits)

lemma memory_get_law:
  assumes inv: "engine_inv e" and d: "deps_ok d"
    and get: "EngineGet d ctx now e key \<lparr>go_NamespaceVersion = 0, go_SpaceVersion = 0\<rparr> = (e', Inr (rec, found))"
  shows "engine_inv e' \<and> validateKey key = None \<and> found = (contents e' (physicalKey key) \<noteq> None) \<and>
      r_CostBytes rec = keyCost (contents e' (physicalKey key)) \<and>
      (\<forall>ent. contents e' (physicalKey key) = Some ent \<longrightarrow> r_Version rec = e_version ent) \<and>
      bytesWhere P e' \<le> bytesWhere P e"
proof -
  note spec = EngineGet_spec [OF inv get]
  let ?old = "contents e (physicalKey key)"
  let ?new = "fst (getOutcome now \<lparr>go_NamespaceVersion = 0, go_SpaceVersion = 0\<rparr> ?old)"
  have vis: "visible x \<lparr>go_NamespaceVersion = 0, go_SpaceVersion = 0\<rparr>" for x by (simp add: visible_def)
  have new: "contents e' (physicalKey key) = ?new" using spec(3) by simp
  have "keyCost ?new \<le> keyCost ?old"
    by (auto simp: getOutcome_def readAt_def split: option.split)
  with spec(4) [of P] have le: "bytesWhere P e' \<le> bytesWhere P e"
    unfolding new by (rule bytesWhere_drop)
  have "engine_inv e'" using key_ops_inv(2) [OF d inv] get by (metis fst_conv)
  moreover have "validateKey key = None" using get by (auto simp: EngineGet_def split: option.splits)
  moreover have "found = (?new \<noteq> None) \<and> r_CostBytes rec = keyCost ?new \<and>
      (\<forall>ent. ?new = Some ent \<longrightarrow> r_Version rec = e_version ent)"
    using spec(1,2)
    by (auto simp: getOutcome_def vis readAt_def entryRecord_def zeroRecord_def split: option.splits)
  ultimately show ?thesis using le unfolding new by blast
qed

lemma memory_evict_law:
  assumes d: "deps_ok d" and inv: "engine_inv e" and small: "bytesWhere (\<lambda>x. x = evictSpace opts) e < 2 ^ 64"
    and ev: "EngineEvict d ctx now e opts = (e', res, None)" and ex: "eo_ExcludeActive opts"
  shows "contents e' (physicalKey (eo_Exclude opts)) = contents e (physicalKey (eo_Exclude opts))"
proof -
  note spec = EngineEvict_spec [OF d inv small ev]
  let ?o = "if eo_Now opts = 0 then opts\<lparr>eo_Now := now\<rparr> else opts"
  have o: "eo_Exclude ?o = eo_Exclude opts" "eo_ExcludeActive ?o" using ex by simp_all
  have "\<not> candidate ?o (physicalKey (eo_Exclude opts), ent)" for ent
    using evict_exclude [OF o(2)] unfolding o(1) .
  then show ?thesis using spec(2,3) by (metis option.exhaust)
qed

interpretation memory: engine_contract "memoryOps d" "\<lambda>e. deps_ok d \<and> engine_inv e" contents bytesWhere for d
proof unfold_locales
  fix e :: MemoryEngine and P c key e' rec found
  assume inv: "deps_ok d \<and> engine_inv e"
  {
    assume "op_Get (memoryOps d) c e key \<lparr>go_NamespaceVersion = 0, go_SpaceVersion = 0\<rparr> = (e', Inr (rec, found))"
    with inv memory_get_law [of e d "ce_ctx c" "ce_now c" key e' rec found P]
    show "(deps_ok d \<and> engine_inv e') \<and> validateKey key = None \<and> found = (contents e' (physicalKey key) \<noteq> None) \<and>
      r_CostBytes rec = keyCost (contents e' (physicalKey key)) \<and>
      (\<forall>ent. contents e' (physicalKey key) = Some ent \<longrightarrow> r_Version rec = e_version ent) \<and>
      bytesWhere P e' \<le> bytesWhere P e"
      by (simp add: memoryOps_def)
  next
    fix st assume "op_Stats (memoryOps d) c e = (e', Inr st)"
    then have s: "EngineStats d (ce_ctx c) e = (e', Inr st)" by (simp add: memoryOps_def)
    show "e' = e \<and>
      (\<Sum>item\<leftarrow>filter (\<lambda>item. P (sps_Namespace item, sps_Space item)) (st_Spaces st). sps_MemoryBytes item) =
        of_nat (bytesWhere P e)"
      using EngineStats_spaces(1) [OF s] EngineStats_usage [OF conjunct2 [OF inv] s] by simp
  next
    fix eo res assume small: "bytesWhere (\<lambda>x. x = evictSpace eo) e < 2 ^ 64"
      and "op_Evict (memoryOps d) c e eo = (e', res, None)"
    then have ev: "EngineEvict d (ce_ctx c) (ce_now c) e eo = (e', res, None)" by (simp add: memoryOps_def)
    show "(deps_ok d \<and> engine_inv e') \<and>
      bytesWhere P e' + (if P (evictSpace eo) then unat (er_FreedBytes res) else 0) = bytesWhere P e \<and>
      (eo_ExcludeActive eo \<longrightarrow>
         contents e' (physicalKey (eo_Exclude eo)) = contents e (physicalKey (eo_Exclude eo)))"
      using EngineEvict_inv [OF _ _ small ev] EngineEvict_bytes [OF _ _ small ev, of P]
        memory_evict_law [OF _ _ small ev] inv by blast
  next
    fix val so ok assume "op_Set (memoryOps d) c e key val so = (e', Inr (rec, ok))"
    then have s: "EngineSet d (ce_ctx c) (ce_now c) e key val so = (e', Inr (rec, ok))"
      by (simp add: memoryOps_def)
    have "engine_inv e'"
      using key_ops_inv(1) [of d e "ce_ctx c" "ce_now c" key val so] inv s by simp
    with EngineSet_spec(1,4) [OF conjunct2 [OF inv] s] inv
    show "(deps_ok d \<and> engine_inv e') \<and> ok = setApplies so (contents e (physicalKey key)) \<and>
      bytesWhere P e' + (if ok then share P key (keyCost (contents e (physicalKey key))) else 0) =
        bytesWhere P e + (if ok then share P key (costOf key val) else 0)"
      by simp
  }
qed

interpretation service: state_machine "\<lambda>e (env, call). transactionService (memoryOps d) q env e call"
    "\<lambda>e. deps_ok d \<and> engine_inv e" "\<lambda>_. True" for d q
  by unfold_locales (simp add: split_beta memory_keeps.service_keeps)

end
