(* ===== verification/Engine_Transfer.thy ===== *)
theory Engine_Transfer
  imports Engine_Store "HOL-Library.Option_ord"
begin

text \<open>
  Moving entries between engines: snapshot and restore, export, import and range deletion over all
  shards. An import keeps the entry with the larger stamp, the pair of version and update time in
  lexicographic order.
\<close>

section \<open>Commands that reach every shard\<close>

lemma eachShard_done:
  assumes "eachShard d ctx cmd add e acc is = (e', acc', None)" and "distinct is"
    and "\<And>i. i \<in> set is \<Longrightarrow> i < length (shards e)"
  shows "length (shards e') = length (shards e) \<and>
    (\<forall>j < length (shards e). shards e' ! j =
       (if j \<in> set is then fst (applyCommand d (shards e ! j) (cmd j)) else shards e ! j)) \<and>
    (\<forall>j \<in> set is. x_err (snd (applyCommand d (shards e ! j) (cmd j))) = None) \<and>
    acc' = foldl (\<lambda>a i. add a i (snd (applyCommand d (shards e ! i) (cmd i)))) acc is"
  using assms
proof (induction "is" arbitrary: e acc)
  case (Cons i "is")
  then obtain e1 r where x: "executeOn d ctx e i (cmd i) = (e1, Inr r)" and err: "x_err r = None"
    and rest: "eachShard d ctx cmd add e1 (add acc i r) is = (e', acc', None)"
    by (auto split: prod.splits sum.splits option.splits)
  have e1: "e1 = applied d e i (cmd i)" and r: "r = snd (applyCommand d (shards e ! i) (cmd i))"
    by (rule executeOn_Inr [OF x])+
  have i: "i < length (shards e)" and fresh: "i \<notin> set is" using Cons.prems by auto
  have same: "shards e1 ! j = shards e ! j" if "j \<in> set is" for j
    using that fresh i by (auto simp: e1 applied_nth)
  have "foldl (\<lambda>a i. add a i (snd (applyCommand d (shards e1 ! i) (cmd i)))) a is =
      foldl (\<lambda>a i. add a i (snd (applyCommand d (shards e ! i) (cmd i)))) a is" for a
    using same by (intro foldl_cong) simp_all
  moreover note Cons.IH [OF rest]
  ultimately show ?case
    using Cons.prems i fresh same err r by (auto simp: e1 applied_nth)
qed simp

lemma all_shards_done:
  assumes "eachShard d ctx cmd add e acc (indices e) = (e', acc', None)"
  shows "length (shards e') = length (shards e)"
    and "i < length (shards e) \<Longrightarrow> shards e' ! i = fst (applyCommand d (shards e ! i) (cmd i))"
    and "i < length (shards e) \<Longrightarrow> x_err (snd (applyCommand d (shards e ! i) (cmd i))) = None"
    and "acc' = foldl (\<lambda>a i. add a i (snd (applyCommand d (shards e ! i) (cmd i)))) acc (indices e)"
  using eachShard_done [OF assms] by auto

lemma contents_all_shards:
  fixes k :: string
  assumes "eachShard d ctx cmd add e acc (indices e) = (e', acc', None)" and "shards e \<noteq> []"
  defines "i \<equiv> shardFor e k"
  shows "contents e' k = fmlookup (entries (fst (applyCommand d (shards e ! i) (cmd i)))) k"
proof -
  have i: "shardFor e k < length (shards e)" using assms(2) by (simp add: shardFor_def shardIndex_less)
  have "shardFor e' k = shardFor e k" using all_shards_done(1) [OF assms(1)] by (simp add: shardFor_def)
  with all_shards_done(2) [OF assms(1) i] show ?thesis by (simp add: contents_def i_def)
qed

section \<open>Import\<close>

type_synonym stamp = "u64 \<times> gotime"

definition stampOf :: "entry \<Rightarrow> stamp" where
  "stampOf ent = (e_version ent, e_updatedAt ent)"

definition itemStamp :: "SnapshotEntry \<Rightarrow> stamp" where
  "itemStamp item = ((if sn_Version item = 0 then 1 else sn_Version item), sn_UpdatedAt item)"

definition mergeStamp :: "string \<Rightarrow> SnapshotEntry \<Rightarrow> stamp option \<Rightarrow> stamp option" where
  "mergeStamp k item m = (if item_key item = k then max m (Some (itemStamp item)) else m)"

lemma shouldImport_stamp: "shouldImportEntry existing incoming \<longleftrightarrow> stampOf existing < stampOf incoming"
  by (auto simp: shouldImportEntry_def stampOf_def)

lemma entryFromSnapshot_stamp:
  "entryFromSnapshot item = Inr ent \<Longrightarrow> stampOf ent = itemStamp item \<and> e_key ent = sn_Key item"
  by (auto simp: entryFromSnapshot_def stampOf_def itemStamp_def Let_def split: option.splits if_splits)

lemma importEntry_stamp:
  assumes "importEntry s item = (s', Inr ok)"
  shows "map_option stampOf (fmlookup (entries s') k) =
    mergeStamp k item (map_option stampOf (fmlookup (entries s) k))"
proof -
  from assms obtain ent where ent: "entryFromSnapshot item = Inr ent"
    by (auto simp: importEntry_def split: sum.splits)
  note st = entryFromSnapshot_stamp [OF ent]
  show ?thesis
  proof (cases "fmlookup (entries s) (physicalKey (e_key ent))")
    case None
    with assms ent st show ?thesis
      by (auto simp: importEntry_def mergeStamp_def max_def)
  next
    case (Some old)
    with assms ent st show ?thesis
      by (auto simp: importEntry_def replaceImportedEntry_def shouldImport_stamp mergeStamp_def Let_def
          max_def split: if_splits)
  qed
qed

lemma importEntries_stamp:
  "importEntries s items n = (s', n', None) \<Longrightarrow>
     map_option stampOf (fmlookup (entries s') k) =
       fold (mergeStamp k) items (map_option stampOf (fmlookup (entries s) k))"
proof (induction items arbitrary: s n)
  case (Cons item items)
  then obtain s1 ok where "importEntry s item = (s1, Inr ok)"
    and "importEntries s1 items (if ok then n + 1 else n) = (s', n', None)"
    by (auto split: prod.splits sum.splits)
  with Cons.IH importEntry_stamp show ?case by (metis fold_simps(2))
qed simp

lemma importEntries_from:
  "importEntries s items n = (s', n', None) \<Longrightarrow> fmlookup (entries s') k = Some ent \<Longrightarrow>
     fmlookup (entries s) k = Some ent \<or>
     (\<exists>item \<in> set items. item_key item = k \<and> entryFromSnapshot item = Inr ent)"
proof (induction items arbitrary: s n)
  case (Cons item items)
  then obtain s1 ok where one: "importEntry s item = (s1, Inr ok)"
    and "importEntries s1 items (if ok then n + 1 else n) = (s', n', None)"
    by (auto split: prod.splits sum.splits)
  from Cons.IH [OF this(2) Cons.prems(2)] consider "fmlookup (entries s1) k = Some ent"
    | "\<exists>item \<in> set items. item_key item = k \<and> entryFromSnapshot item = Inr ent" by blast
  then show ?case
  proof cases
    case 1
    obtain new where new: "entryFromSnapshot item = Inr new"
      using one by (auto simp: importEntry_def split: sum.splits)
    have "fmlookup (entries s) k = Some ent \<or> physicalKey (e_key new) = k \<and> ent = new"
      using 1 one new
      by (auto simp: importEntry_def replaceImportedEntry_def Let_def split: option.splits if_splits)
    with new entryFromSnapshot_stamp [OF new] show ?thesis by auto
  qed auto
qed simp

lemma fold_mergeStamp_filter:
  "(\<And>item. item \<in> set items \<Longrightarrow> item_key item = k \<Longrightarrow> P item) \<Longrightarrow>
     fold (mergeStamp k) (filter P items) m = fold (mergeStamp k) items m"
  by (induction items arbitrary: m) (auto simp: mergeStamp_def)

lemma snapshotEntriesByShard_set:
  "set (snapshotEntriesByShard e items i) = {item \<in> set items. shardFor e (item_key item) = i}"
  by (auto simp: snapshotEntriesByShard_def)

lemma EngineImport_spec:
  assumes inv: "engine_inv e" and imp: "EngineImport d ctx e items = (e', n, None)"
  shows EngineImport_stamp: "map_option stampOf (contents e' k) =
      fold (mergeStamp k) items (map_option stampOf (contents e k))"
    and EngineImport_from: "contents e' k = Some ent \<Longrightarrow> contents e k = Some ent \<or>
      (\<exists>item \<in> set items. item_key item = k \<and> entryFromSnapshot item = Inr ent)"
proof -
  let ?cmd = "\<lambda>i. (zeroCommand commandImport)\<lparr>c_snapshot := snapshotEntriesByShard e items i\<rparr>"
  let ?i = "shardFor e k"
  let ?s = "shards e ! ?i" and ?its = "snapshotEntriesByShard e items (shardFor e k)"
  note each = imp [unfolded EngineImport_def]
  have i: "?i < length (shards e)" by (rule shardFor_less [OF inv])
  obtain s' m err where ie: "importEntries ?s ?its 0 = (s', m, err)" by (metis prod.exhaust)
  have ac: "applyCommand d ?s (?cmd ?i) = (s', zeroResult\<lparr>x_imported := m, x_err := err\<rparr>)"
    by (simp add: applyCommand_def applyImportCommand_def ie)
  have err: "err = None" using all_shards_done(3) [OF each i] by (simp add: ac)
  have "shards e \<noteq> []" using inv by (simp add: engine_inv_def)
  from contents_all_shards [OF each this, of k]
  have c: "contents e' k = fmlookup (entries s') k" by (simp add: ac)
  have old: "contents e k = fmlookup (entries ?s) k" by (simp add: contents_def)
  have its: "?its = filter (\<lambda>item. shardFor e (item_key item) = ?i) items"
    by (simp add: snapshotEntriesByShard_def map_idI)
  show "map_option stampOf (contents e' k) = fold (mergeStamp k) items (map_option stampOf (contents e k))"
    unfolding c old importEntries_stamp [OF ie [unfolded err]] unfolding its
    by (rule fold_mergeStamp_filter) simp
  show "contents e' k = Some ent \<Longrightarrow> contents e k = Some ent \<or>
      (\<exists>item \<in> set items. item_key item = k \<and> entryFromSnapshot item = Inr ent)"
    using importEntries_from [OF ie [unfolded err], of k ent] by (auto simp: c old its)
qed

lemma fold_mergeStamp_absorb:
  "fold (mergeStamp k) items (fold (mergeStamp k) items m) = fold (mergeStamp k) items m"
proof -
  have up: "m \<le> fold (mergeStamp k) xs m" for xs m
    by (induction xs arbitrary: m) (auto simp: mergeStamp_def intro: order_trans [OF max.cobounded1])
  have id: "fold (mergeStamp k) xs m = m"
    if "\<And>item. item \<in> set xs \<Longrightarrow> item_key item = k \<Longrightarrow> Some (itemStamp item) \<le> m" for xs m
    using that by (induction xs) (auto simp: mergeStamp_def max_absorb1)
  have "Some (itemStamp item) \<le> fold (mergeStamp k) xs m" if "item \<in> set xs" "item_key item = k" for item xs m
    using that
  proof (induction xs arbitrary: m)
    case (Cons x xs)
    have "Some (itemStamp item) \<le> mergeStamp k item m" using Cons.prems by (simp add: mergeStamp_def)
    also have "\<dots> \<le> fold (mergeStamp k) xs (mergeStamp k item m)" by (rule up)
    finally show ?case using Cons by auto
  qed simp
  then show ?thesis by (intro id) blast
qed

lemma fold_mergeStamp_perm:
  "mset xs = mset ys \<Longrightarrow> fold (mergeStamp k) xs m = fold (mergeStamp k) ys m"
proof -
  assume m: "mset xs = mset ys"
  have "fold (mergeStamp k) xs = fold (mergeStamp k) ys"
    by (rule fold_multiset_equiv [OF _ m]) (auto simp: mergeStamp_def fun_eq_iff max.left_commute max.commute)
  then show ?thesis by simp
qed

section \<open>Snapshot, restore and export\<close>

lemma foldl_append: "foldl (\<lambda>a i. a @ f i) acc is = acc @ concat (map f is)"
  by (induction "is" arbitrary: acc) simp_all

lemma distinct_map_sort: "distinct (map f (sort_key g xs)) = distinct (map f xs)"
  by (rule mset_eq_imp_distinct_iff) simp

lemma entries_index:
  assumes "engine_inv e"
  shows "(\<exists>i < length (shards e). fmlookup (entries (shards e ! i)) k = Some ent) \<longleftrightarrow> contents e k = Some ent"
  using assms engine_invD(2) [OF assms] shardFor_less [OF assms] by (metis contents_def)

text \<open>The items a range over the shards collects, sorted by physical key.\<close>

lemma collected_items:
  fixes P :: "entry \<Rightarrow> bool"
  assumes d: "deps_ok d" and inv: "engine_inv e"
  defines "items \<equiv> sortSnapshotEntries (concat (map (\<lambda>i. map (\<lambda>(_, ent). snapshotEntryFromEntry ent)
      (filter (\<lambda>(_, ent). P ent) (d_range d (entries (shards e ! i))))) (indices e)))"
  shows collected_set: "item \<in> set items \<longleftrightarrow>
      (\<exists>ent. contents e (item_key item) = Some ent \<and> P ent \<and> item = snapshotEntryFromEntry ent)"
    and collected_distinct: "distinct (map item_key items)"
proof -
  have r: "enumerates (d_range d)" using d by (simp add: deps_ok_def)
  let ?part = "\<lambda>i. map (\<lambda>(_, ent). snapshotEntryFromEntry ent) (filter (\<lambda>(_, ent). P ent) (d_range d (entries (shards e ! i))))"
  have key: "item_key (snapshotEntryFromEntry ent) = k" if "fmlookup (entries (shards e ! i)) k = Some ent" "i < length (shards e)" for k ent i
    using engine_invD(1) [OF inv that(2)] wf_entriesD [OF _ that(1)]
    by (simp add: shard_inv_def wf_entry_def snapshotEntryFromEntry_def)
  show "item \<in> set items \<longleftrightarrow>
      (\<exists>ent. contents e (item_key item) = Some ent \<and> P ent \<and> item = snapshotEntryFromEntry ent)"
  proof -
    have "item \<in> set items \<longleftrightarrow> (\<exists>i < length (shards e). \<exists>k ent. fmlookup (entries (shards e ! i)) k = Some ent \<and>
        P ent \<and> item = snapshotEntryFromEntry ent)"
      by (fastforce simp: items_def sortSnapshotEntries_def enumerates_mem [OF r])
    also have "\<dots> \<longleftrightarrow> (\<exists>ent. contents e (item_key item) = Some ent \<and> P ent \<and> item = snapshotEntryFromEntry ent)"
      using entries_index [OF inv] key by metis
    finally show ?thesis .
  qed
  have keys: "map item_key (?part i) = map fst (filter (\<lambda>(_, ent). P ent) (d_range d (entries (shards e ! i))))"
    if "i < length (shards e)" for i
    using key [unfolded comp_apply] that by (auto simp: enumerates_mem [OF r])
  have dist: "distinct (map item_key (?part i))" if "i < length (shards e)" for i
    unfolding keys [OF that] by (rule distinct_map_filter [OF enumeratesD(1) [OF r]])
  have home: "shardFor e k = i" if "k \<in> set (map item_key (?part i))" "i < length (shards e)" for k i
    using that(1) engine_invD(2) [OF inv that(2)] unfolding keys [OF that(2)]
    by (auto simp: enumerates_mem [OF r])
  define ks where "ks = (\<lambda>i. map item_key (?part i))"
  have "distinct (concat (map ks is))"
    if "distinct is" "\<And>i. i \<in> set is \<Longrightarrow> i < length (shards e)" for "is"
    using that
  proof (induction "is")
    case (Cons i "is")
    have "set (ks i) \<inter> set (concat (map ks is)) = {}"
    proof (rule ccontr)
      assume "set (ks i) \<inter> set (concat (map ks is)) \<noteq> {}"
      then obtain k j where "k \<in> set (ks i)" "j \<in> set is" "k \<in> set (ks j)" by auto
      with home [of k i] home [of k j] Cons.prems have "i = j" by (simp add: ks_def)
      with Cons.prems \<open>j \<in> set is\<close> show False by simp
    qed
    moreover have "distinct (ks i)" using dist Cons.prems by (simp add: ks_def)
    ultimately show ?case using Cons by (simp del: set_concat)
  qed simp
  from this [of "indices e"] have "distinct (concat (map ks (indices e)))" by simp
  then show "distinct (map item_key items)"
    by (simp add: items_def sortSnapshotEntries_def distinct_map_sort map_concat o_def ks_def)
qed

lemma EngineSnapshot_spec:
  assumes d: "deps_ok d" and inv: "engine_inv e" and sn: "EngineSnapshot d ctx e = (e', Inr items)"
  shows "e' = e"
    and "item \<in> set items \<longleftrightarrow> (\<exists>ent. contents e (item_key item) = Some ent \<and> item = snapshotEntryFromEntry ent)"
    and "distinct (map item_key items)"
proof -
  let ?cmd = "\<lambda>i::nat. zeroCommand commandSnapshot"
  from sn obtain acc where each: "eachShard d ctx ?cmd (\<lambda>acc i r. acc @ x_snapshot r) e [] (indices e) = (e', acc, None)"
    and items: "items = sortSnapshotEntries acc"
    by (auto simp: EngineSnapshot_def split: prod.splits option.splits)
  have read: "fst (applyCommand d s (?cmd i)) = s" for s i
    by (simp add: applyCommand_def applySnapshotCommand_def)
  have it: "items = sortSnapshotEntries (concat (map (\<lambda>i. map (\<lambda>(_, ent). snapshotEntryFromEntry ent)
      (filter (\<lambda>(_, ent). True) (d_range d (entries (shards e ! i))))) (indices e)))"
    using eachShard_read [OF read each]
    by (simp add: items foldl_append applyCommand_def applySnapshotCommand_def snapshotEntries_def split_beta)
  show "e' = e" using eachShard_read [OF read each] by simp
  show "item \<in> set items \<longleftrightarrow> (\<exists>ent. contents e (item_key item) = Some ent \<and> item = snapshotEntryFromEntry ent)"
    unfolding it collected_set [OF d inv] by simp
  show "distinct (map item_key items)" unfolding it by (rule collected_distinct [OF d inv])
qed

lemma EngineExport_spec:
  assumes d: "deps_ok d" and inv: "engine_inv e" and ex: "EngineExport d ctx now e opts = (e', Inr items)"
  defines "t \<equiv> if ro_Now opts = 0 then now else ro_Now opts"
  shows "e' = e"
    and "item \<in> set items \<longleftrightarrow> (\<exists>ent. contents e (item_key item) = Some ent \<and>
      (\<not> expired ent t \<and> entryInRange (e_key ent) opts) \<and> item = snapshotEntryFromEntry ent)"
    and "distinct (map item_key items)"
proof -
  define o' where "o' = (if ro_Now opts = 0 then opts\<lparr>ro_Now := now\<rparr> else opts)"
  let ?cmd = "\<lambda>i::nat. (zeroCommand commandExport)\<lparr>c_rangeOpts := o'\<rparr>"
  from ex obtain acc where each: "eachShard d ctx ?cmd (\<lambda>acc i r. acc @ x_snapshot r) e [] (indices e) = (e', acc, None)"
    and items: "items = sortSnapshotEntries acc"
    unfolding EngineExport_def Let_def o'_def [symmetric]
    by (auto split: prod.splits option.splits)
  have read: "fst (applyCommand d s (?cmd i)) = s" for s i
    by (simp add: applyCommand_def applyExportCommand_def)
  have o: "ro_Now o' = t" "entryInRange k o' = entryInRange k opts" for k
    by (simp_all add: o'_def t_def entryInRange_def)
  have it: "items = sortSnapshotEntries (concat (map (\<lambda>i. map (\<lambda>(_, ent). snapshotEntryFromEntry ent)
      (filter (\<lambda>(_, ent). \<not> expired ent t \<and> entryInRange (e_key ent) opts) (d_range d (entries (shards e ! i))))) (indices e)))"
    using eachShard_read [OF read each]
    by (simp add: items foldl_append applyCommand_def applyExportCommand_def exportEntries_def o)
  show "e' = e" using eachShard_read [OF read each] by simp
  show "item \<in> set items \<longleftrightarrow> (\<exists>ent. contents e (item_key item) = Some ent \<and>
      (\<not> expired ent t \<and> entryInRange (e_key ent) opts) \<and> item = snapshotEntryFromEntry ent)"
    unfolding it by (rule collected_set [OF d inv])
  show "distinct (map item_key items)" unfolding it by (rule collected_distinct [OF d inv])
qed

lemma EngineDeleteRange_spec:
  assumes d: "deps_ok d" and inv: "engine_inv e" and del: "EngineDeleteRange d ctx e opts = (e', n, None)"
  shows "contents e' k = (case contents e k of None \<Rightarrow> None
    | Some ent \<Rightarrow> if entryInRange (e_key ent) opts then None else Some ent)"
proof -
  let ?cmd = "\<lambda>i::nat. (zeroCommand commandDeleteRange)\<lparr>c_rangeOpts := opts\<rparr>"
  have r: "enumerates (d_range d)" using d by (simp add: deps_ok_def)
  from del have each: "eachShard d ctx ?cmd (\<lambda>acc i r. acc + x_deletedRange r) e 0 (indices e) = (e', n, None)"
    by (auto simp: EngineDeleteRange_def split: option.splits)
  have "shards e \<noteq> []" using inv by (simp add: engine_inv_def)
  have s: "shard_inv (shards e ! shardFor e k)" by (intro engine_invD(1) [OF inv] shardFor_less [OF inv])
  have "fst (applyCommand d (shards e ! shardFor e k) (?cmd (shardFor e k))) =
      fst (deleteRange (d_range d) (shards e ! shardFor e k) opts)"
    by (simp add: applyCommand_def applyDeleteRangeCommand_def split_beta)
  with contents_all_shards [OF each \<open>shards e \<noteq> []\<close>, of k] deleteRange_effect(2) [OF r s, of opts k]
  show ?thesis by (simp add: contents_def)
qed

text \<open>Restoring distinct items gives the map of their entries.\<close>

lemma restoreLoop_lookup:
  assumes "restoreLoop s items = (s', None)" and "distinct (map item_key items)"
    and "item \<in> set items"
  shows "\<exists>ent. entryFromSnapshot item = Inr ent \<and> fmlookup (entries s') (item_key item) = Some ent"
  using assms
proof (induction items arbitrary: s)
  case (Cons x xs)
  then obtain ent where ent: "entryFromSnapshot x = Inr ent"
    and rest: "restoreLoop (storeEntry s (physicalKey (e_key ent)) ent) xs = (s', None)"
    by (auto split: sum.splits)
  show ?case
  proof (cases "item = x")
    case True
    have k: "physicalKey (e_key ent) = item_key x" using entryFromSnapshot_stamp [OF ent] by simp
    have "item_key x \<notin> item_key ` set xs" using Cons.prems by simp
    from restoreLoop_new [OF this, of "storeEntry s (physicalKey (e_key ent)) ent"] rest k ent True
    show ?thesis by simp
  next
    case False
    with Cons rest show ?thesis by simp
  qed
qed simp

lemma EngineRestore_spec:
  assumes inv: "engine_inv e" and re: "EngineRestore d ctx e items = (e', None)"
    and dist: "distinct (map item_key items)"
  shows "item \<in> set items \<Longrightarrow> \<exists>ent. entryFromSnapshot item = Inr ent \<and> contents e' (item_key item) = Some ent"
    and "k \<notin> item_key ` set items \<Longrightarrow> contents e' k = None"
proof -
  let ?cmd = "\<lambda>i. (zeroCommand commandRestore)\<lparr>c_snapshot := snapshotEntriesByShard e items i\<rparr>"
  from re have each: "eachShard d ctx ?cmd (\<lambda>acc i r. acc) e () (indices e) = (e', (), None)"
    by (auto simp: EngineRestore_def split: prod.splits)
  have ne: "shards e \<noteq> []" using inv by (simp add: engine_inv_def)
  have part: "set (snapshotEntriesByShard e items i) = {item \<in> set items. shardFor e (item_key item) = i}"
    "distinct (map item_key (snapshotEntriesByShard e items i))" for i
    using dist by (auto simp: snapshotEntriesByShard_def distinct_map_filter map_idI)
  have one: "\<exists>s0. entries s0 = fmempty \<and> restoreLoop s0 (snapshotEntriesByShard e items (shardFor e k)) =
      (fst (applyCommand d (shards e ! shardFor e k) (?cmd (shardFor e k))), None)" for k
  proof -
    let ?s0 = "(shards e ! shardFor e k)\<lparr>entries := fmempty, spaces := fmempty, objects := 0, memoryBytes := 0,
      evictions := 0, gets := 0, getHits := 0, getMisses := 0, getExpired := 0, touches := 0, touchHits := 0,
      touchMisses := 0\<rparr>"
    have "snd (restoreLoop ?s0 (snapshotEntriesByShard e items (shardFor e k))) = None"
      using all_shards_done(3) [OF each shardFor_less [OF inv], of k]
      by (simp add: applyCommand_def applyRestoreCommand_def restoreEntries_def split_beta Let_def)
    then show ?thesis
      by (intro exI [of _ ?s0])
        (simp add: applyCommand_def applyRestoreCommand_def restoreEntries_def split_beta Let_def prod_eq_iff)
  qed
  show "item \<in> set items \<Longrightarrow> \<exists>ent. entryFromSnapshot item = Inr ent \<and> contents e' (item_key item) = Some ent"
  proof -
    assume "item \<in> set items"
    then have "item \<in> set (snapshotEntriesByShard e items (shardFor e (item_key item)))" by (simp add: part)
    with one [of "item_key item"] restoreLoop_lookup part(2) contents_all_shards [OF each ne, of "item_key item"]
    show ?thesis by metis
  qed
  show "k \<notin> item_key ` set items \<Longrightarrow> contents e' k = None"
  proof -
    assume "k \<notin> item_key ` set items"
    then have "k \<notin> item_key ` set (snapshotEntriesByShard e items (shardFor e k))" by (auto simp: part)
    with one [of k] restoreLoop_new contents_all_shards [OF each ne, of k]
    show ?thesis by (metis fmempty_lookup fst_conv)
  qed
qed

section \<open>Ranges\<close>

text \<open>The keys of a range of slots of a space.\<close>

definition keyInRange :: "Key \<Rightarrow> RangeOptions \<Rightarrow> bool" where
  "keyInRange key opts \<longleftrightarrow>
     k_Namespace key = ro_Namespace opts \<and> k_Space key = ro_Space opts \<and>
     ro_VSlotStart opts \<le> VSlotFor (k_Namespace key) (k_Space key) (k_Key key) \<and>
     VSlotFor (k_Namespace key) (k_Space key) (k_Key key) \<le> ro_VSlotEnd opts"

lemma keyInRange_entry: "keyInRange key opts = entryInRange key opts"
  by (auto simp: keyInRange_def entryInRange_def Let_def)

end
