(* ===== verification/Samples.thy ===== *)
theory Samples
  imports Cache_Quota Engine_Transfer
begin

text \<open>
  Concrete inputs the properties are applied at: a small engine, keys, options, and an instance of
  the container library with a list codec that writes each element with its length.
\<close>

primrec put_values :: "bytes list \<Rightarrow> bytes" where
  "put_values [] = []"
| "put_values (v # vs) = put_part (string_of_bytes v) @ put_values vs"

definition sampleColx :: colx where
  "sampleColx = \<lparr>marshalMap = (\<lambda>_. None), unmarshalMap = (\<lambda>_. None), marshalSet = (\<lambda>_. None),
     unmarshalSet = (\<lambda>_. None), marshalScores = (\<lambda>_. None), unmarshalScores = (\<lambda>_. None),
     marshalList = (\<lambda>vs. Some (put_values vs)), unmarshalList = (\<lambda>_. None),
     marshalBits = (\<lambda>_. None), unmarshalBits = (\<lambda>_. None), marshalGeo = (\<lambda>_. None),
     unmarshalGeo = (\<lambda>_. None), listRemoveAt = (\<lambda>i xs. None), geoDistanceMeters = (\<lambda>_ _. 0)\<rparr>"

definition sampleDeps :: deps where
  "sampleDeps = \<lparr>d_range = sorted_list_of_fmap, d_sort = sort_by, d_colx = sampleColx\<rparr>"

lemma sampleDeps_ok: "deps_ok sampleDeps"
  by (simp add: sampleDeps_def deps_ok_def enumerates_sorted_list_of_fmap sorts_sort_by)

definition sampleConfig :: Config where
  "sampleConfig = \<lparr>cfg_ShardCount = 2, cfg_QueueSize = 4\<rparr>"

definition sampleKey :: Key where
  "sampleKey = \<lparr>k_Namespace = ''n'', k_Space = ''s'', k_Entity = ''e'', k_Key = ''k''\<rparr>"

definition otherKey :: Key where
  "otherKey = sampleKey\<lparr>k_Key := ''q''\<rparr>"

definition plainSet :: SetOptions where
  "plainSet = \<lparr>so_TTL = 0, so_NamespaceVersion = 0, so_SpaceVersion = 0, so_ExpectedVersion = 0\<rparr>"

definition plainGet :: GetOptions where
  "plainGet = \<lparr>go_NamespaceVersion = 0, go_SpaceVersion = 0\<rparr>"

end
