(* ===== verification/Properties_Engine.thy ===== *)
theory Properties_Engine
  imports Samples
begin

text \<open>The properties of the storage engine, with the inputs they are applied at.\<close>

section \<open>Helpers\<close>

lemma executeOn_live:
  "\<not> me_closed e \<Longrightarrow>
     executeOn d live e i cmd = (applied d e i cmd, Inr (snd (applyCommand d (shards e ! i) cmd)))"
  by (simp add: executeOn_def live_def applied_def split_beta Let_def)

lemma EngineSet_live:
  assumes "\<not> me_closed e" and "validateKey key = None"
  shows "\<exists>e' rec ok. EngineSet d live now e key val opts = (e', Inr (rec, ok)) \<and> \<not> me_closed e'"
  using assms
  by (auto simp: EngineSet_def execute_def executeOn_live finish_def applyCommand_def applySet_def
      replaceEntry_def Let_def zeroResult_def split_beta split: option.split)

lemma EngineGet_live:
  assumes "\<not> me_closed e" and "validateKey key = None"
  shows "\<exists>e' rec ok. EngineGet d live now e key opts = (e', Inr (rec, ok)) \<and> \<not> me_closed e'"
  using assms
  by (auto simp: EngineGet_def execute_def executeOn_live finish_def applyCommand_def applyGet_def
      Let_def zeroResult_def split: option.split)

lemma EngineDelete_live:
  assumes "\<not> me_closed e" and "validateKey key = None"
  shows "\<exists>e' del ok. EngineDelete d live e key opts = (e', Inr (del, ok)) \<and> \<not> me_closed e'"
  using assms
  by (auto simp: EngineDelete_def execute_def executeOn_live finish_def applyCommand_def applyDelete_def
      zeroResult_def split: option.split)

lemma sample_engine: "engine_inv (NewMemory cfg)" "\<not> me_closed (NewMemory cfg)"
  by (rule engine_inv_NewMemory) (simp add: NewMemory_def Let_def)

lemma sample_keys: "validateKey sampleKey = None" "validateKey otherKey = None"
  by (simp_all add: sampleKey_def otherKey_def validateKey_def)

lemma contents_new: "contents (NewMemory cfg) k = None"
proof -
  have "shardFor (NewMemory cfg) k < length (shards (NewMemory cfg))"
    by (rule shardFor_less [OF engine_inv_NewMemory])
  moreover have "entries (newWorker i) = fmempty" for i by (simp add: newWorker_def)
  ultimately show ?thesis by (simp add: contents_def NewMemory_def Let_def)
qed

lemma sample_calls:
  obtains e1 rec1 where "EngineSet sampleDeps live 100 (NewMemory sampleConfig) sampleKey [1, 2] plainSet = (e1, Inr (rec1, True))"
    and "engine_inv e1" and "\<not> me_closed e1"
proof -
  obtain e1 rec ok where s: "EngineSet sampleDeps live 100 (NewMemory sampleConfig) sampleKey [1, 2] plainSet = (e1, Inr (rec, ok))"
    and c: "\<not> me_closed e1"
    using EngineSet_live [OF sample_engine(2) sample_keys(1)] by blast
  have "ok" using EngineSet_ok [OF sample_engine(1) s] by (simp add: setApplies_def plainSet_def)
  moreover have "engine_inv e1"
    using key_ops_inv(1) [OF sampleDeps_ok sample_engine(1), of live 100 sampleConfig sampleKey "[1, 2]" plainSet] s by simp
  ultimately show thesis using that s c by simp
qed

section \<open>Keys\<close>

text \<open>
  two keys with the same physical key are the same key: namespaces, spaces, entities and keys are
  told apart whatever bytes they hold.
\<close>

theorem physicalKey_injective: "inj physicalKey"
  by (simp add: inj_def physicalKey_inject)

section \<open>Reading and writing\<close>

text \<open>
  C1: the engine implements a map from keys to entries. On an engine that is open, with a context
  that stays live, a set returns the new record and whether it applied, which it does when no version
  is expected or the stored entry has the expected one; it then stores the entry the specification
  gives and leaves every other key as it was. If it does not apply, nothing changes.
\<close>

theorem set_refines_map:
  assumes "engine_inv e" and "\<not> me_closed e" and "validateKey key = None"
  defines "old \<equiv> contents e (physicalKey key)"
  shows "\<exists>e' rec. EngineSet d live now e key val opts = (e', Inr (rec, setApplies opts old))
    \<and> (setApplies opts old \<longrightarrow> rec = entryRecord (setEntry now key val opts old))
    \<and> contents e' = (if setApplies opts old
        then (contents e)(physicalKey key \<mapsto> setEntry now key val opts old) else contents e)"
proof -
  obtain e' rec ok where s: "EngineSet d live now e key val opts = (e', Inr (rec, ok))"
    using EngineSet_live [OF assms(2,3)] by blast
  note spec = EngineSet_spec [OF assms(1) s]
  show ?thesis using s spec(1-3) by (auto simp: old_def fun_eq_iff)
qed

theorem set_refines_map_witness:
  "\<exists>e' rec. EngineSet sampleDeps live 100 (NewMemory sampleConfig) sampleKey [1, 2] plainSet = (e', Inr (rec, True))
    \<and> contents e' (physicalKey sampleKey) = Some (setEntry 100 sampleKey [1, 2] plainSet None)"
  using set_refines_map [OF sample_engine(1,2) sample_keys(1), of sampleDeps 100 sampleConfig "[1, 2]" plainSet]
  by (auto simp: contents_new setApplies_def plainSet_def)



text \<open>
  C30: a get that finds a record returns the value stored under that very key, and only while it is
  neither expired nor hidden by the versions asked for; reading changes no stored value or version,
  here or under any other key.
\<close>

theorem get_sound:
  assumes inv: "engine_inv e" and get: "EngineGet d ctx now e key opts = (e', Inr (rec, True))"
  shows "\<exists>ent. contents e (physicalKey key) = Some ent \<and> \<not> expired ent now \<and> visible ent opts
    \<and> r_Key rec = key \<and> r_Value rec = e_value ent \<and> r_Version rec = e_version ent
    \<and> contents e' = (contents e)(physicalKey key \<mapsto> readAt now ent)"
proof -
  note spec = EngineGet_spec [OF inv get]
  from spec(1) obtain ent where ent: "contents e (physicalKey key) = Some ent" "\<not> expired ent now" "visible ent opts"
    by (auto simp: getOutcome_def split: option.splits if_splits)
  have "e_key ent = key" by (rule contents_entry(1) [OF inv ent(1)])
  with ent spec(2,3) show ?thesis
    by (intro exI [of _ ent]) (auto simp: getOutcome_def entryRecord_def readAt_def fun_eq_iff)
qed

theorem get_sound_witness:
  "\<exists>e1 e2 rec. EngineGet sampleDeps live 150 e1 sampleKey plainGet = (e2, Inr (rec, True))
    \<and> (\<exists>ent. contents e1 (physicalKey sampleKey) = Some ent \<and> r_Value rec = e_value ent)"
proof (rule sample_calls)
  fix e1 rec1 assume s: "EngineSet sampleDeps live 100 (NewMemory sampleConfig) sampleKey [1, 2] plainSet = (e1, Inr (rec1, True))"
    and inv: "engine_inv e1" and c: "\<not> me_closed e1"
  obtain e2 rec' found where g: "EngineGet sampleDeps live 150 e1 sampleKey plainGet = (e2, Inr (rec', found))"
    using EngineGet_live [OF c sample_keys(1)] by blast
  have "contents e1 (physicalKey sampleKey) = Some (setEntry 100 sampleKey [1, 2] plainSet None)"
    using EngineSet_contents [OF sample_engine(1) s] by (simp add: contents_new)
  then have "found"
    using EngineGet_found [OF inv g] by (simp add: getOutcome_def setEntry_def plainSet_def plainGet_def expired_def visible_def)
  with g have g': "EngineGet sampleDeps live 150 e1 sampleKey plainGet = (e2, Inr (rec', True))" by simp
  from get_sound [OF inv g'] g' show ?thesis by blast
qed

text \<open>
  compare and set is exclusive: once a set that expects a version has applied, a second set that
  expects the same version does not apply and leaves the stored entries as they are.
\<close>

theorem cas_exclusive:
  assumes inv: "deps_ok d" "engine_inv e"
    and one: "EngineSet d ctx now e key val opts = (e1, Inr (rec, True))"
    and exp: "so_ExpectedVersion opts \<noteq> 0"
    and two: "EngineSet d ctx' now' e1 key val' opts' = (e2, Inr (rec', ok))"
    and same: "so_ExpectedVersion opts' = so_ExpectedVersion opts"
  shows "\<not> ok \<and> contents e2 = contents e1"
proof -
  have inv1: "engine_inv e1" using key_ops_inv(1) [OF inv, of ctx now key val opts] one by simp
  from EngineSet_ok [OF inv(2) one] exp obtain ent
    where ent: "contents e (physicalKey key) = Some ent" "e_version ent = so_ExpectedVersion opts"
    by (auto simp: setApplies_def)
  have c: "contents e1 (physicalKey key) = Some (setEntry now key val opts (Some ent))"
    using EngineSet_contents [OF inv(2) one] ent by simp
  have "\<not> ok" using EngineSet_ok [OF inv1 two] exp same ent
    by (simp add: c setApplies_def setEntry_def)
  with EngineSet_contents [OF inv1 two] show ?thesis by (simp add: fun_eq_iff)
qed

theorem cas_exclusive_witness:
  "\<exists>e1 e2 e3 rec rec' rec''.
     EngineSet sampleDeps live 100 (NewMemory sampleConfig) sampleKey [1, 2] plainSet = (e1, Inr (rec, True)) \<and>
     EngineSet sampleDeps live 110 e1 sampleKey [3] (plainSet\<lparr>so_ExpectedVersion := 1\<rparr>) = (e2, Inr (rec', True)) \<and>
     EngineSet sampleDeps live 120 e2 sampleKey [4] (plainSet\<lparr>so_ExpectedVersion := 1\<rparr>) = (e3, Inr (rec'', False))"
proof (rule sample_calls)
  fix e1 rec assume s: "EngineSet sampleDeps live 100 (NewMemory sampleConfig) sampleKey [1, 2] plainSet = (e1, Inr (rec, True))"
    and inv: "engine_inv e1" and c: "\<not> me_closed e1"
  let ?o = "plainSet\<lparr>so_ExpectedVersion := 1\<rparr>"
  obtain e2 rec' ok where s2: "EngineSet sampleDeps live 110 e1 sampleKey [3] ?o = (e2, Inr (rec', ok))" and c2: "\<not> me_closed e2"
    using EngineSet_live [OF c sample_keys(1)] by blast
  have "contents e1 (physicalKey sampleKey) = Some (setEntry 100 sampleKey [1, 2] plainSet None)"
    using EngineSet_contents [OF sample_engine(1) s] by (simp add: contents_new)
  then have ok: "ok = True" using EngineSet_ok [OF inv s2] by (simp add: setApplies_def setEntry_def)
  obtain e3 rec'' ok' where s3: "EngineSet sampleDeps live 120 e2 sampleKey [4] ?o = (e3, Inr (rec'', ok'))"
    using EngineSet_live [OF c2 sample_keys(1)] by blast
  have "\<not> ok' \<and> contents e3 = contents e2"
    by (rule cas_exclusive [OF sampleDeps_ok inv s2 [unfolded ok] _ s3]) simp_all
  with s s2 s3 ok show ?thesis by auto
qed

text \<open>
  a delete that reports success removes the entry, so that the next get of the key finds nothing,
  and it touches no other key.
\<close>

theorem delete_removes:
  assumes inv: "deps_ok d" "engine_inv e"
    and del: "EngineDelete d ctx e key opts = (e1, Inr (True, found))"
    and get: "EngineGet d ctx' now e1 key g = (e2, Inr (rec, ok))"
  shows "\<not> ok \<and> rec = zeroRecord \<and> (\<forall>k. k \<noteq> physicalKey key \<longrightarrow> contents e1 k = contents e k)"
proof -
  have inv1: "engine_inv e1" using key_ops_inv(3) [OF inv, of ctx key opts] del by simp
  have "contents e1 (physicalKey key) = None" using EngineDelete_contents [OF inv(2) del] by simp
  then have "snd (getOutcome now g (contents e1 (physicalKey key))) = None" by (simp add: getOutcome_def)
  with EngineGet_spec(1,2) [OF inv1 get] EngineDelete_contents [OF inv(2) del] show ?thesis by simp
qed

theorem delete_removes_witness:
  "\<exists>e1 e2 e3 found rec. EngineDelete sampleDeps live e1 sampleKey \<lparr>do_ExpectedVersion = 0\<rparr> = (e2, Inr (True, found)) \<and>
     EngineGet sampleDeps live 150 e2 sampleKey plainGet = (e3, Inr (rec, False))"
proof (rule sample_calls)
  fix e1 rec assume s: "EngineSet sampleDeps live 100 (NewMemory sampleConfig) sampleKey [1, 2] plainSet = (e1, Inr (rec, True))"
    and inv: "engine_inv e1" and c: "\<not> me_closed e1"
  obtain e2 del found where d: "EngineDelete sampleDeps live e1 sampleKey \<lparr>do_ExpectedVersion = 0\<rparr> = (e2, Inr (del, found))"
    and c2: "\<not> me_closed e2" using EngineDelete_live [OF c sample_keys(1)] by blast
  have "contents e1 (physicalKey sampleKey) = Some (setEntry 100 sampleKey [1, 2] plainSet None)"
    using EngineSet_contents [OF sample_engine(1) s] by (simp add: contents_new)
  then have del: "del = True" using EngineDelete_ok [OF inv d] by simp
  obtain e3 rec' ok where g: "EngineGet sampleDeps live 150 e2 sampleKey plainGet = (e3, Inr (rec', ok))"
    using EngineGet_live [OF c2 sample_keys(1)] by blast
  have "\<not> ok \<and> rec' = zeroRecord \<and> (\<forall>k. k \<noteq> physicalKey sampleKey \<longrightarrow> contents e2 k = contents e1 k)"
    by (rule delete_removes [OF sampleDeps_ok inv d [unfolded del] g])
  with d g del show ?thesis by auto
qed

section \<open>Invariants of any run\<close>

text \<open>
  An operation on one key changes the entry of no other key, whether it succeeds, fails, or is
  cut off by its context while the shard may or may not have applied it.
\<close>

theorem key_isolation:
  assumes "engine_inv e" and "callKey call = Some key" and "k \<noteq> physicalKey key"
  shows "contents (engineStep d e call) k = contents e k"
  using assms by (rule engineStep_frame)

theorem key_isolation_witness:
  "contents (engineStep sampleDeps (NewMemory sampleConfig) (CallSet live 100 sampleKey [1, 2] plainSet)) (physicalKey otherKey) =
     contents (NewMemory sampleConfig) (physicalKey otherKey)"
  by (rule key_isolation [OF sample_engine(1), where key = sampleKey])
    (simp_all add: physicalKey_inject otherKey_def sampleKey_def)



lemma memory_total: "shard_inv s \<Longrightarrow> memoryBytes s = of_nat (mapBytes (\<lambda>_. True) (entries s))"
  by (simp add: mapBytes_word shard_inv_def accounted_def)

lemma stats_fold:
  "st_MemoryBytes (fst (foldl (\<lambda>a i. (\<lambda>(stats, sps) i r.
        ((addShardStats stats (x_stats r))\<lparr>st_Shards := (st_Shards stats)[i := x_stats r]\<rparr>,
         addSpaceStats sps (x_spaces r))) a i (snd (applyCommand d (ss ! i) (zeroCommand commandStats)))) (z, m) ixs)) =
     st_MemoryBytes z + (\<Sum>i\<leftarrow>ixs. memoryBytes (ss ! i))"
  "st_Objects (fst (foldl (\<lambda>a i. (\<lambda>(stats, sps) i r.
        ((addShardStats stats (x_stats r))\<lparr>st_Shards := (st_Shards stats)[i := x_stats r]\<rparr>,
         addSpaceStats sps (x_spaces r))) a i (snd (applyCommand d (ss ! i) (zeroCommand commandStats)))) (z, m) ixs)) =
     st_Objects z + (\<Sum>i\<leftarrow>ixs. objects (ss ! i))"
  by (induction ixs arbitrary: z m)
    (simp_all add: applyCommand_def applyStatsCommand_def statsResult_def addShardStats_def ac_simps)

lemma map_indices: "map (\<lambda>i. f (xs ! i)) [0..<length xs] = map f xs"
  by (rule nth_equalityI) simp_all



end
