(* ===== verification/Properties_Storage.thy ===== *)
theory Properties_Storage
  imports Properties_Engine
begin

text \<open>
  The properties of eviction, of a shard's worker, of counters, and of snapshots, imports and
  migrations, with the inputs they are applied at.
\<close>

definition sampleStore :: MemoryEngine where
  "sampleStore = fst (EngineSet sampleDeps live 110
     (fst (EngineSet sampleDeps live 100 (NewMemory sampleConfig) sampleKey [1, 2] plainSet)) otherKey [3] plainSet)"

lemma sampleStore_inv: "engine_inv sampleStore"
  by (simp add: sampleStore_def key_ops_inv sampleDeps_ok sample_engine)

lemma sampleStore_contents:
  "contents sampleStore k =
     (if k = physicalKey otherKey then Some (setEntry 110 otherKey [3] plainSet None)
      else if k = physicalKey sampleKey then Some (setEntry 100 sampleKey [1, 2] plainSet None) else None)"
proof (rule sample_calls)
  fix e1 rec1 assume s: "EngineSet sampleDeps live 100 (NewMemory sampleConfig) sampleKey [1, 2] plainSet = (e1, Inr (rec1, True))"
    and inv: "engine_inv e1" and c: "\<not> me_closed e1"
  obtain e2 rec ok where s2: "EngineSet sampleDeps live 110 e1 otherKey [3] plainSet = (e2, Inr (rec, ok))"
    using EngineSet_live [OF c sample_keys(2)] by blast
  have ok: "ok" using EngineSet_ok [OF inv s2] by (simp add: setApplies_def plainSet_def)
  have "sampleStore = e2" by (simp add: sampleStore_def s s2)
  moreover have "physicalKey otherKey \<noteq> physicalKey sampleKey"
    by (simp add: physicalKey_inject otherKey_def sampleKey_def)
  ultimately show ?thesis
    using EngineSet_contents [OF inv s2] EngineSet_contents [OF sample_engine(1) s] ok by (simp add: contents_new)
qed

definition sampleEvict :: EvictOptions where
  "sampleEvict = \<lparr>eo_Namespace = ''n'', eo_Space = ''s'', eo_TargetBytes = 1,
     eo_Exclude = sampleKey, eo_ExcludeActive = True, eo_Now = 0\<rparr>"

section \<open>Eviction\<close>

lemma candidate_now [simp]: "candidate (opts\<lparr>eo_Now := t\<rparr>) = candidate opts"
  by (simp add: fun_eq_iff candidate_def evictionCandidate_def excludeOf_def)

text \<open>
  C26: an eviction that reports no error has freed at least the bytes asked for, or there is nothing
  left in the space that it may evict. It only removes entries, of the given space and never the
  excluded key, and the bytes it reports are exactly those the space lost; no other space changes.
\<close>

theorem eviction_makes_room:
  assumes "deps_ok d" and "engine_inv e"
    and "bytesWhere (\<lambda>x. x = (eo_Namespace opts, eo_Space opts)) e < 2 ^ 64"
    and "EngineEvict d ctx now e opts = (e', res, None)"
  shows "(eo_TargetBytes opts \<le> er_FreedBytes res \<or>
        (\<forall>k ent. contents e' k = Some ent \<longrightarrow> \<not> candidate opts (k, ent)))
    \<and> (\<forall>k ent. contents e' k = Some ent \<longrightarrow> contents e k = Some ent)
    \<and> (\<forall>k ent. contents e k = Some ent \<longrightarrow> \<not> candidate opts (k, ent) \<longrightarrow> contents e' k = Some ent)
    \<and> (\<forall>P. bytesWhere P e' +
        (if P (eo_Namespace opts, eo_Space opts) then unat (er_FreedBytes res) else 0) = bytesWhere P e)"
proof -
  have "candidate (if eo_Now opts = 0 then opts\<lparr>eo_Now := now\<rparr> else opts) = candidate opts" by simp
  from EngineEvict_spec [OF assms, unfolded this] show ?thesis by blast
qed

theorem eviction_makes_room_witness:
  "\<exists>e' res. EngineEvict sampleDeps live 120 sampleStore sampleEvict = (e', res, None) \<and>
     (1 \<le> er_FreedBytes res \<or> (\<forall>k ent. contents e' k = Some ent \<longrightarrow> \<not> candidate sampleEvict (k, ent)))"
proof -
  have b: "bytesWhere (\<lambda>x. x = (eo_Namespace sampleEvict, eo_Space sampleEvict)) sampleStore < 2 ^ 64"
  proof -
    have "bytesWhere (\<lambda>x. x = (eo_Namespace sampleEvict, eo_Space sampleEvict)) sampleStore < 400"
      by code_simp
    then show ?thesis by simp
  qed
  have "snd (snd (EngineEvict sampleDeps live 120 sampleStore sampleEvict)) = None" by code_simp
  then obtain e' res where ev: "EngineEvict sampleDeps live 120 sampleStore sampleEvict = (e', res, None)"
    by (metis prod.collapse)
  have t: "eo_TargetBytes sampleEvict = 1" by (simp add: sampleEvict_def)
  from eviction_makes_room [OF sampleDeps_ok sampleStore_inv b ev] ev show ?thesis unfolding t by blast
qed

text \<open>
  C27: eviction within a shard is least recently used first: an entry it removes was expired, or was
  last accessed no later than any candidate it left in place, and among entries last accessed at the
  same time it was created no later.
\<close>

theorem eviction_lru:
  assumes "deps_ok d" and "shard_inv s" and "evict (d_range d) (d_sort d) s opts = (s', r)"
    and "fmlookup (entries s) k = Some gone" and "fmlookup (entries s') k = None"
    and "fmlookup (entries s') k' = Some kept" and "candidate opts (k', kept)"
  shows "expired gone (eo_Now opts) \<or>
    (e_lastAccessAt gone, e_createdAt gone) \<le> (e_lastAccessAt kept, e_createdAt kept)"
proof -
  have "expired gone (eo_Now opts) \<or> evictOrder gone kept \<le> 0"
    using assms by (intro evict_lru [of "d_range d" "d_sort d" s opts s' r]) (simp_all add: deps_ok_def)
  then show ?thesis by (auto simp: evictOrder_def compareTime_def split: if_splits)
qed

definition sampleShard :: shardWorker where
  "sampleShard =
     (let set = (\<lambda>s key now. fst (applySet s ((zeroCommand commandSet)\<lparr>c_physical := physicalKey key,
            c_key := key, c_value := [7], c_setOpts := plainSet, c_now := now\<rparr>)))
      in set (set (newWorker 0) sampleKey 100) otherKey 110)"

lemma sampleShard_inv: "shard_inv sampleShard"
  unfolding sampleShard_def Let_def
  by (intro applySet_inv shard_inv_newWorker) (simp_all add: sample_keys)

theorem eviction_lru_witness:
  "\<exists>s' r gone kept. evict (d_range sampleDeps) (d_sort sampleDeps) sampleShard (sampleEvict\<lparr>eo_ExcludeActive := False\<rparr>) = (s', r)
     \<and> fmlookup (entries sampleShard) (physicalKey sampleKey) = Some gone
     \<and> fmlookup (entries s') (physicalKey sampleKey) = None
     \<and> fmlookup (entries s') (physicalKey otherKey) = Some kept
     \<and> (expired gone 0 \<or> (e_lastAccessAt gone, e_createdAt gone) \<le> (e_lastAccessAt kept, e_createdAt kept))"
proof -
  let ?o = "sampleEvict\<lparr>eo_ExcludeActive := False\<rparr>"
  obtain s' r where ev: "evict (d_range sampleDeps) (d_sort sampleDeps) sampleShard ?o = (s', r)" by fastforce
  have "case fmlookup (entries sampleShard) (physicalKey sampleKey) of None \<Rightarrow> False | Some _ \<Rightarrow> True"
    by code_simp
  moreover have "case evict (d_range sampleDeps) (d_sort sampleDeps) sampleShard ?o of (s', _) \<Rightarrow>
      fmlookup (entries s') (physicalKey sampleKey) = None \<and>
      (case fmlookup (entries s') (physicalKey otherKey) of None \<Rightarrow> False
       | Some kept \<Rightarrow> candidate ?o (physicalKey otherKey, kept))"
    by code_simp
  ultimately obtain gone kept where g: "fmlookup (entries sampleShard) (physicalKey sampleKey) = Some gone"
    and n: "fmlookup (entries s') (physicalKey sampleKey) = None"
    and k: "fmlookup (entries s') (physicalKey otherKey) = Some kept" "candidate ?o (physicalKey otherKey, kept)"
    using ev by (auto split: option.splits)
  from eviction_lru [OF sampleDeps_ok sampleShard_inv ev g n k] ev g n k(1) show ?thesis
    by (auto simp: sampleEvict_def)
qed

section \<open>The worker loop\<close>

definition freshWorker :: "nat \<Rightarrow> workerState" where
  "freshWorker i = \<lparr>w_shard = newWorker i, w_done = False, w_sent = [], w_served = []\<rparr>"



section \<open>Counters\<close>

lemma EngineAdjust_run:
  fixes opts :: AdjustOptions and now :: gotime
  assumes inv: "engine_inv e" and "\<not> me_closed e" and "validateKey key = None"
  defines "cmd \<equiv> (zeroCommand commandAdjust)\<lparr>c_physical := physicalKey key, c_key := key, c_adjust := opts, c_now := now\<rparr>"
    and "s \<equiv> shards e ! shardFor e (physicalKey key)"
  shows "EngineAdjust d live now e key opts =
      finish (applied d e (shardFor e (physicalKey key)) cmd, Inr (snd (applyAdjust s cmd))) (\<lambda>r. (x_record r, x_found r))"
    and "contents (applied d e (shardFor e (physicalKey key)) cmd) k =
      (if k = physicalKey key then fmlookup (entries (fst (applyAdjust s cmd))) k else contents e k)"
proof -
  have ac: "applyCommand d s cmd = applyAdjust s cmd" by (simp add: cmd_def applyCommand_def)
  show "EngineAdjust d live now e key opts =
      finish (applied d e (shardFor e (physicalKey key)) cmd, Inr (snd (applyAdjust s cmd))) (\<lambda>r. (x_record r, x_found r))"
    using assms(2,3) ac
    by (simp add: EngineAdjust_def cmd_def [symmetric] execute_def executeOn_live s_def) (simp add: cmd_def)
  have "contents (fst (execute d live e cmd)) k = contents e k" if "k \<noteq> physicalKey key"
    using that by (intro execute_frame [OF inv]) (simp_all add: cmd_def)
  moreover have "fst (execute d live e cmd) = applied d e (shardFor e (physicalKey key)) cmd"
    using assms(2) by (simp add: execute_def executeOn_live) (simp add: cmd_def)
  ultimately show "contents (applied d e (shardFor e (physicalKey key)) cmd) k =
      (if k = physicalKey key then fmlookup (entries (fst (applyAdjust s cmd))) k else contents e k)"
    using contents_applied [OF inv shardFor_less [OF inv], of d "physicalKey key" cmd k] ac
    by (auto simp: s_def)
qed

text \<open>
  C31: adjusting a counter adds the delta in 64-bit arithmetic without ever wrapping: if the sum is
  in range, the record returned and stored holds it in decimal and the version goes up by one; if it
  is not, the operation reports the overflow and the entry stays as it was.
\<close>

theorem adjust_counter:
  assumes inv: "engine_inv e" and op: "\<not> me_closed e" "validateKey key = None"
    and ent: "contents e (physicalKey key) = Some ent" "e_value ent = counterValue n" "\<not> expired ent now"
    and num: "int64 n" "int64 (ao_Delta opts)"
    and ver: "ao_ExpectedVersion opts = 0 \<or> ao_ExpectedVersion opts = e_version ent"
  shows "\<exists>e' r. EngineAdjust d live now e key opts = (e', r) \<and>
    (if int64 (n + ao_Delta opts)
     then \<exists>rec new. r = Inr (rec, True) \<and> contents e' = (contents e)(physicalKey key \<mapsto> new) \<and>
            rec = entryRecord new \<and> e_value new = counterValue (n + ao_Delta opts) \<and>
            e_version new = e_version ent + 1
     else r = Inl ErrCounterOverflow \<and> contents e' = contents e)"
proof -
  let ?cmd = "(zeroCommand commandAdjust)\<lparr>c_physical := physicalKey key, c_key := key, c_adjust := opts, c_now := now\<rparr>"
  let ?s = "shards e ! shardFor e (physicalKey key)"
  let ?e' = "applied d e (shardFor e (physicalKey key)) ?cmd"
  note run = EngineAdjust_run [OF inv op, where opts = opts and now = now and d = d]
  have l: "fmlookup (entries ?s) (physicalKey key) = Some ent" using ent(1) by (simp add: contents_def)
  have prep: "prepareCounterAdjustment ?s ?cmd = (?s, (case safeAdd n (ao_Delta opts) of Inl er \<Rightarrow> Inl er
      | Inr next \<Rightarrow> Inr (Some \<lparr>ca_existing = Some ent, ca_next = next, ca_expireAt = e_expireAt ent\<rparr>)))"
    using ent ver num by (auto simp: prepareCounterAdjustment_def l addToCurrentCounter_value word_gt_0 split: sum.split)
  show ?thesis
  proof (cases "int64 (n + ao_Delta opts)")
    case True
    let ?new = "ent\<lparr>e_value := counterValue (n + ao_Delta opts), e_version := e_version ent + 1,
      e_namespaceVersion := ao_NamespaceVersion opts, e_spaceVersion := ao_SpaceVersion opts,
      e_expireAt := e_expireAt ent, e_updatedAt := now, e_lastAccessAt := now,
      e_accessCount := e_accessCount ent + 1, e_costBytes := costOf key (counterValue (n + ao_Delta opts))\<rparr>"
    have aa: "entries (fst (applyAdjust ?s ?cmd)) = fmupd (physicalKey key) ?new (entries ?s)"
      "snd (applyAdjust ?s ?cmd) = zeroResult\<lparr>x_record := entryRecord ?new, x_found := True\<rparr>"
      using True by (simp_all add: applyAdjust_def prep safeAdd_int64 [OF num] applyExistingCounter_def Let_def)
    show ?thesis
      using True run aa
      by (intro exI [of _ ?e'] exI [of _ "Inr (entryRecord ?new, True)"])
        (auto simp: finish_def zeroResult_def fun_eq_iff intro!: exI [of _ ?new])
  next
    case False
    have aa: "applyAdjust ?s ?cmd = (?s, zeroResult\<lparr>x_err := Some ErrCounterOverflow\<rparr>)"
      using False by (simp add: applyAdjust_def prep safeAdd_int64 [OF num])
    show ?thesis
      using False run l ent(1)
      by (intro exI [of _ ?e'] exI [of _ "Inl ErrCounterOverflow"]) (auto simp: aa finish_def fun_eq_iff)
  qed
qed

definition plainAdjust :: "int \<Rightarrow> AdjustOptions" where
  "plainAdjust delta = \<lparr>ao_Delta = delta, ao_InitialValue = 0, ao_TTL = 0, ao_NamespaceVersion = 0,
     ao_SpaceVersion = 0, ao_ExpectedVersion = 0\<rparr>"

theorem adjust_counter_witness:
  "\<exists>e1 rec e2 rec' new. EngineSet sampleDeps live 100 (NewMemory sampleConfig) sampleKey (counterValue 41) plainSet = (e1, Inr (rec, True))
    \<and> EngineAdjust sampleDeps live 150 e1 sampleKey (plainAdjust 1) = (e2, Inr (rec', True))
    \<and> rec' = entryRecord new \<and> e_value new = counterValue 42"
proof -
  obtain e1 rec ok where s: "EngineSet sampleDeps live 100 (NewMemory sampleConfig) sampleKey (counterValue 41) plainSet = (e1, Inr (rec, ok))"
    and c: "\<not> me_closed e1"
    using EngineSet_live [OF sample_engine(2) sample_keys(1)] by blast
  have ok: "ok = True" using EngineSet_ok [OF sample_engine(1) s] by (simp add: setApplies_def plainSet_def)
  have inv: "engine_inv e1"
    using key_ops_inv(1) [OF sampleDeps_ok sample_engine(1), of live 100 sampleConfig sampleKey "counterValue 41" plainSet] s by simp
  let ?ent = "setEntry 100 sampleKey (counterValue 41) plainSet None"
  have ent: "contents e1 (physicalKey sampleKey) = Some ?ent"
    using EngineSet_contents [OF sample_engine(1) s] ok by (simp add: contents_new)
  have "\<exists>e' r. EngineAdjust sampleDeps live 150 e1 sampleKey (plainAdjust 1) = (e', r) \<and>
    (if int64 (41 + ao_Delta (plainAdjust 1))
     then \<exists>rec new. r = Inr (rec, True) \<and> contents e' = (contents e1)(physicalKey sampleKey \<mapsto> new) \<and>
            rec = entryRecord new \<and> e_value new = counterValue (41 + ao_Delta (plainAdjust 1)) \<and>
            e_version new = e_version ?ent + 1
     else r = Inl ErrCounterOverflow \<and> contents e' = contents e1)"
    by (rule adjust_counter [OF inv c sample_keys(1) ent])
      (simp_all add: setEntry_def plainSet_def plainAdjust_def expired_def int64_def MaxInt64_def MinInt64_def)
  then show ?thesis using s ok
    by (auto simp: plainAdjust_def int64_def MaxInt64_def MinInt64_def)
qed

lemma prepare_cong:
  "c_physical cmd' = c_physical cmd \<Longrightarrow> c_adjust cmd' = c_adjust cmd \<Longrightarrow> c_now cmd' = c_now cmd \<Longrightarrow>
     prepareCounterAdjustment s cmd' = prepareCounterAdjustment s cmd"
  by (simp add: prepareCounterAdjustment_def newCounterAdjustment_def split: option.split sum.split)

lemma adjust_estimate_shard:
  assumes "prepareCounterAdjustment s cmd = (s1, Inr (Some adj))"
  shows "snd (applyAdjustEstimate s cmd) = zeroResult\<lparr>x_estimate :=
      estimateWriteCost cmd (ca_existing adj) (counterValue (ca_next adj))\<rparr>"
    and "x_found (snd (applyAdjust s cmd))"
    and "r_CostBytes (x_record (snd (applyAdjust s cmd))) = costOf (c_key cmd) (counterValue (ca_next adj))"
    and "x_err (snd (applyAdjust s cmd)) = None"
  using assms
  by (simp_all add: applyAdjustEstimate_def applyAdjust_def applyExistingCounter_def applyNewCounter_def
      entryRecord_def zeroResult_def Let_def split: option.split)

text \<open>
  the cost estimate that quota admission relies on is exact: if the estimate of an adjustment says
  it applies, then the adjustment itself, at the same time on the state the estimate leaves, applies,
  and the estimated costs are the cost of the stored entry and the cost of the record it returns.
\<close>

theorem adjust_estimate_exact:
  assumes inv: "engine_inv e"
    and est: "EngineEstimateAdjust d ctx now e key opts = (e1, Inr est)" and app: "we_Applied est"
    and adj: "EngineAdjust d ctx' now e1 key opts = (e2, Inr (rec, ok))"
  shows "ok \<and> we_OldCostBytes est = keyCost (contents e (physicalKey key)) \<and>
    we_NewCostBytes est = r_CostBytes rec \<and> contents e1 = contents e"
proof -
  let ?i = "shardFor e (physicalKey key)"
  let ?s = "shards e ! ?i"
  let ?cmd = "(zeroCommand commandAdjustEstimate)\<lparr>c_physical := physicalKey key, c_key := key, c_adjust := opts, c_now := now\<rparr>"
  let ?cmd2 = "(zeroCommand commandAdjust)\<lparr>c_physical := physicalKey key, c_key := key, c_adjust := opts, c_now := now\<rparr>"
  from est obtain r where x: "execute d ctx e ?cmd = (e1, Inr r)" and r: "est = x_estimate r" "x_err r = None"
    by (auto simp: EngineEstimateAdjust_def finish_Inr split: option.splits)
  note ex = execute_Inr [OF inv x, simplified]
  have ac: "applyCommand d ?s ?cmd = applyAdjustEstimate ?s ?cmd" by (simp add: applyCommand_def)
  obtain s1 res where p: "prepareCounterAdjustment ?s ?cmd = (s1, res)" by fastforce
  have "\<exists>a. res = Inr (Some a)"
    using p r app ex(1) by (auto simp: ac applyAdjustEstimate_def zeroEstimate_def zeroResult_def split: sum.splits option.splits)
  then obtain a where a: "prepareCounterAdjustment ?s ?cmd = (s1, Inr (Some a))" using p by auto
  have s1: "s1 = ?s" and ca: "ca_existing a = fmlookup (entries ?s) (physicalKey key)"
    using prepare_Some [OF a] by simp_all
  have e1: "e1 = e"
    using executeOn_Inr(1) [OF x [unfolded execute_def]] s1 a
    by (simp add: applied_def ac applyAdjustEstimate_state)
  have p2: "prepareCounterAdjustment ?s ?cmd2 = (s1, Inr (Some a))"
    using a prepare_cong [of ?cmd2 ?cmd] by simp
  from adj obtain r2 where x2: "execute d ctx' e ?cmd2 = (e2, Inr r2)" and r2: "rec = x_record r2" "ok = x_found r2"
    by (auto simp: EngineAdjust_def finish_Inr e1 split: option.splits)
  have "r2 = snd (applyAdjust ?s ?cmd2)"
    using execute_Inr(1) [OF inv x2] by (simp add: applyCommand_def)
  with adjust_estimate_shard [OF p2] adjust_estimate_shard(1) [OF a] r r2 ex(1) ac ca e1
  show ?thesis by (simp add: estimateWriteCost_def keyCost_def contents_def zeroResult_def split: option.split)
qed

theorem adjust_estimate_exact_witness:
  "\<exists>e1 est e2 rec. EngineEstimateAdjust sampleDeps live 100 (NewMemory sampleConfig) sampleKey (plainAdjust 5) = (e1, Inr est)
    \<and> EngineAdjust sampleDeps live 100 e1 sampleKey (plainAdjust 5) = (e2, Inr (rec, True))
    \<and> we_NewCostBytes est = r_CostBytes rec"
proof -
  have "case EngineEstimateAdjust sampleDeps live 100 (NewMemory sampleConfig) sampleKey (plainAdjust 5) of
      (e1, Inl _) \<Rightarrow> False
    | (e1, Inr est) \<Rightarrow> we_Applied est \<and>
        (case EngineAdjust sampleDeps live 100 e1 sampleKey (plainAdjust 5) of (e2, Inl _) \<Rightarrow> False | (e2, Inr _) \<Rightarrow> True)"
    by code_simp
  then obtain e1 est e2 rec ok where
    1: "EngineEstimateAdjust sampleDeps live 100 (NewMemory sampleConfig) sampleKey (plainAdjust 5) = (e1, Inr est)" "we_Applied est"
      "EngineAdjust sampleDeps live 100 e1 sampleKey (plainAdjust 5) = (e2, Inr (rec, ok))"
    by (auto split: prod.splits sum.splits)
  from adjust_estimate_exact [OF sample_engine(1) 1] 1 show ?thesis by auto
qed

section \<open>Snapshots and migration\<close>

text \<open>
  A snapshot taken from one engine and restored into another, with any number of shards and any
  earlier contents, makes the second engine hold exactly the entries of the first.
\<close>

lemma snapshot_restore:
  assumes d: "deps_ok d" and inv: "engine_inv e" "engine_inv f"
    and sn: "EngineSnapshot d ctx e = (e', Inr items)"
    and re: "EngineRestore d ctx' f items = (f', None)"
    and ver: "\<And>k ent. contents e k = Some ent \<Longrightarrow> e_version ent \<noteq> 0"
  shows "contents f' = contents e"
proof
  fix k
  note snap = EngineSnapshot_spec [OF d inv(1) sn]
  note rest = EngineRestore_spec [OF inv(2) re snap(3)]
  show "contents f' k = contents e k"
  proof (cases "contents e k")
    case None
    then have "k \<notin> item_key ` set items" using snap(2) by auto
    with None rest(2) show ?thesis by simp
  next
    case (Some ent)
    have s: "shard_inv (shards e ! shardFor e k)"
      by (intro engine_invD(1) [OF inv(1)] shardFor_less [OF inv(1)])
    with Some have wf: "wf_entry k ent" by (auto simp: contents_def shard_inv_def intro: wf_entriesD)
    let ?item = "snapshotEntryFromEntry ent"
    have key: "item_key ?item = k" using wf by (simp add: snapshotEntryFromEntry_def wf_entry_def)
    have "?item \<in> set items" unfolding snap(2) key using Some by blast
    from rest(1) [OF this] entryFromSnapshot_inverse [OF wf ver [OF Some]] key Some show ?thesis by simp
  qed
qed

lemma sampleStore_restores:
  obtains e' items f' where "EngineSnapshot sampleDeps live sampleStore = (e', Inr items)"
    and "EngineRestore sampleDeps live (NewMemory \<lparr>cfg_ShardCount = 3, cfg_QueueSize = 4\<rparr>) items = (f', None)"
proof -
  have "case EngineSnapshot sampleDeps live sampleStore of (e', Inl _) \<Rightarrow> False
    | (e', Inr items) \<Rightarrow> snd (EngineRestore sampleDeps live (NewMemory \<lparr>cfg_ShardCount = 3, cfg_QueueSize = 4\<rparr>) items) = None"
    by code_simp
  then show ?thesis using that by (auto split: prod.splits sum.splits simp: prod_eq_iff)
qed


definition sampleItems :: "SnapshotEntry list" where
  "sampleItems = map (\<lambda>(key, v). \<lparr>sn_Key = key, sn_Value = [9], sn_Version = v, sn_NamespaceVersion = 0,
     sn_SpaceVersion = 0, sn_ExpireAt = 0, sn_CreatedAt = 1, sn_UpdatedAt = 2, sn_LastAccessAt = 3,
     sn_AccessCount = 1\<rparr>) [(sampleKey, 4), (otherKey, 1), (sampleKey, 2)]"


lemma fold_mergeStamp_none:
  "fold (mergeStamp k) items m = None \<longleftrightarrow> m = None \<and> k \<notin> item_key ` set items"
proof (induction items arbitrary: m)
  case (Cons item items)
  have "max m (Some s) \<noteq> None" for s :: stamp by (cases m) (auto simp: max_def)
  with Cons show ?case by (auto simp: mergeStamp_def)
qed simp

text \<open>
  C5: moving a range of slots from one engine to another loses and invents nothing: after the range is
  exported from the source, imported into a target that holds none of its keys, and deleted at the
  source, the target holds every entry of the range that had not expired, unchanged, together with
  what it held before, and the source holds exactly its entries outside the range.
\<close>

theorem migration_moves_range:
  assumes d: "deps_ok d" and inv: "engine_inv src" "engine_inv dst"
    and ex: "EngineExport d ctx now src opts = (src1, Inr items)"
    and im: "EngineImport d ctx1 dst items = (dst1, n, None)"
    and de: "EngineDeleteRange d ctx2 src1 opts = (src2, m, None)"
    and fresh: "\<And>k ent. contents src k = Some ent \<Longrightarrow> keyInRange (e_key ent) opts \<Longrightarrow> contents dst k = None"
    and ver: "\<And>k ent. contents src k = Some ent \<Longrightarrow> e_version ent \<noteq> 0"
  shows "contents dst1 k = (case contents src k of None \<Rightarrow> contents dst k
      | Some ent \<Rightarrow> if keyInRange (e_key ent) opts \<and> \<not> expired ent (if ro_Now opts = 0 then now else ro_Now opts)
                   then Some ent else contents dst k)
    \<and> contents src2 k = (case contents src k of None \<Rightarrow> None
      | Some ent \<Rightarrow> if keyInRange (e_key ent) opts then None else Some ent)"
proof -
  define t where "t = (if ro_Now opts = 0 then now else ro_Now opts)"
  note exp = EngineExport_spec [OF d inv(1) ex, folded t_def]
  have src2: "contents src2 k = (case contents src k of None \<Rightarrow> None
      | Some ent \<Rightarrow> if entryInRange (e_key ent) opts then None else Some ent)"
    using EngineDeleteRange_spec [OF d _ de] inv(1) exp(1) by simp
  have none: "contents dst1 k = None \<longleftrightarrow> contents dst k = None \<and> k \<notin> item_key ` set items"
    using EngineImport_stamp [OF inv(2) im, of k] fold_mergeStamp_none by (metis map_option_is_None)
  show ?thesis
  proof (cases "\<exists>ent. contents src k = Some ent \<and> \<not> expired ent t \<and> entryInRange (e_key ent) opts")
    case True
    then obtain ent where ent: "contents src k = Some ent" "\<not> expired ent t" "entryInRange (e_key ent) opts" by blast
    have "shard_inv (shards src ! shardFor src k)"
      by (intro engine_invD(1) [OF inv(1)] shardFor_less [OF inv(1)])
    with ent(1) have wf: "wf_entry k ent" by (auto simp: contents_def shard_inv_def intro: wf_entriesD)
    let ?item = "snapshotEntryFromEntry ent"
    have key: "item_key ?item = k" using wf by (simp add: snapshotEntryFromEntry_def wf_entry_def)
    have "?item \<in> set items" unfolding exp(2) key using ent by blast
    then have "contents dst1 k \<noteq> None" unfolding none using key by blast
    then obtain x where x: "contents dst1 k = Some x" by blast
    have "contents dst k = None" by (rule fresh [unfolded keyInRange_entry, OF ent(1,3)])
    with EngineImport_from [OF inv(2) im x] obtain item
      where it: "item \<in> set items" "item_key item = k" "entryFromSnapshot item = Inr x" by auto
    have "item = ?item" using it(1) ent(1) unfolding exp(2) it(2) by auto
    with it(3) entryFromSnapshot_inverse [OF wf ver [OF ent(1)]] have "x = ent" by simp
    with x ent src2 show ?thesis unfolding t_def [symmetric] by (simp add: keyInRange_entry)
  next
    case False
    have k: "k \<notin> item_key ` set items" using False exp(2) by fastforce
    have "contents dst1 k = contents dst k"
    proof (cases "contents dst1 k")
      case None
      with none show ?thesis by simp
    next
      case (Some x)
      with EngineImport_from [OF inv(2) im Some] k show ?thesis by auto
    qed
    with False src2 show ?thesis
      unfolding t_def [symmetric] by (auto simp: keyInRange_entry split: option.split)
  qed
qed

definition sampleRange :: RangeOptions where
  "sampleRange = \<lparr>ro_Namespace = ''n'', ro_Space = ''s'', ro_VSlotStart = 0, ro_VSlotEnd = 65535, ro_Now = 0\<rparr>"

theorem migration_moves_range_witness:
  "\<exists>items dst1 n src2 m. EngineExport sampleDeps live 120 sampleStore sampleRange = (sampleStore, Inr items)
    \<and> EngineImport sampleDeps live (NewMemory sampleConfig) items = (dst1, n, None)
    \<and> EngineDeleteRange sampleDeps live sampleStore sampleRange = (src2, m, None)
    \<and> contents dst1 (physicalKey sampleKey) = contents sampleStore (physicalKey sampleKey)
    \<and> contents src2 (physicalKey sampleKey) = None"
proof -
  have "case EngineExport sampleDeps live 120 sampleStore sampleRange of (src1, Inl _) \<Rightarrow> False
    | (src1, Inr items) \<Rightarrow> snd (snd (EngineImport sampleDeps live (NewMemory sampleConfig) items)) = None \<and>
        snd (snd (EngineDeleteRange sampleDeps live src1 sampleRange)) = None"
    by code_simp
  then obtain src1 items dst1 n src2 m where
    1: "EngineExport sampleDeps live 120 sampleStore sampleRange = (src1, Inr items)"
      "EngineImport sampleDeps live (NewMemory sampleConfig) items = (dst1, n, None)"
      "EngineDeleteRange sampleDeps live src1 sampleRange = (src2, m, None)"
    by (auto split: prod.splits sum.splits simp: prod_eq_iff)
  have src1: "src1 = sampleStore" by (rule EngineExport_spec(1) [OF sampleDeps_ok sampleStore_inv 1(1)])
  have v: "e_version ent \<noteq> 0" if "contents sampleStore k = Some ent" for k ent
    using that by (auto simp: sampleStore_contents setEntry_def split: if_splits)
  have "keyInRange sampleKey sampleRange" by code_simp
  moreover have ent: "contents sampleStore (physicalKey sampleKey) = Some (setEntry 100 sampleKey [1, 2] plainSet None)"
    by (simp add: sampleStore_contents physicalKey_inject otherKey_def sampleKey_def)
  moreover note migration_moves_range [where k = "physicalKey sampleKey", OF sampleDeps_ok sampleStore_inv engine_inv_NewMemory 1 contents_new v]
  ultimately have "contents dst1 (physicalKey sampleKey) = contents sampleStore (physicalKey sampleKey)
      \<and> contents src2 (physicalKey sampleKey) = None"
    by (simp add: contents_new setEntry_def plainSet_def expired_def)
  with 1 src1 show ?thesis by blast
qed

end
