(* ===== verification/Properties_Cache.thy ===== *)
theory Properties_Cache
  imports Properties_Storage
begin

text \<open>The properties of the cache service over the memory engine.\<close>

definition sampleEnv :: "gotime \<Rightarrow> callEnvs" where
  "sampleEnv now = (\<lambda>_. \<lparr>ce_ctx = live, ce_now = now\<rparr>)"

definition noQuota :: QuotaConfig where
  "noQuota = \<lparr>DefaultNamespaceMemoryBytes = 0, DefaultSpaceMemoryBytes = 0, Namespaces = fmempty, Spaces = fmempty\<rparr>"

definition spaceQuota :: "u64 \<Rightarrow> QuotaConfig" where
  "spaceQuota limit = noQuota\<lparr>DefaultSpaceMemoryBytes := limit\<rparr>"

lemma mapBytes_mono: "mapBytes P m \<le> mapBytes (\<lambda>_. True) m"
  unfolding mapBytes_def fmsum_def by (rule sum_mono) simp

lemma bytesWhere_mono: "bytesWhere P e \<le> bytesWhere (\<lambda>_. True) e"
  unfolding bytesWhere_def by (rule sum_list_mono) (rule mapBytes_mono)

section \<open>Quotas\<close>



section \<open>Calls, batches and transactions\<close>

text \<open>
  every call of the service, and every transaction made of such calls, keeps the engine's
  invariant, with quotas or without, whatever the outcome of each engine call.
\<close>

theorem service_keeps_invariant:
  assumes "deps_ok d" and "engine_inv e"
  shows "engine_inv (fst (transactionService (memoryOps d) q env e call))
    \<and> engine_inv (fst (Transaction (memoryOps d) q e fn))"
proof -
  have "engine_inv (fst (transactionService (memoryOps d) q env e call))"
    using memory_keeps.service_keeps [of d e q env call] assms by blast
  moreover have "engine_inv (fst (Transaction (memoryOps d) q e fn))"
    using memory_keeps.transaction_keeps [of d e q] assms by (auto simp: Transaction_def split: option.split)
  ultimately show ?thesis by blast
qed

theorem service_keeps_invariant_witness:
  "engine_inv (fst (Transaction (memoryOps sampleDeps) (spaceQuota 13) sampleStore
     (Some (TxCall (sampleEnv 120) (SSet sampleKey [1, 2, 3] plainSet)
       (\<lambda>_. TxCall (sampleEnv 130) STransaction (\<lambda>_. TxReturn None))))))"
  using service_keeps_invariant [OF sampleDeps_ok sampleStore_inv, of "spaceQuota 13" "sampleEnv 120" SStats] by blast

lemma batchLoop_split:
  "batchLoop f env e (xs @ ys) =
     (case batchLoop f env e xs of
        (e1, rs, Some err) \<Rightarrow> (e1, rs, Some err)
      | (e1, rs, None) \<Rightarrow>
          let (e2, rs2, err) = batchLoop f (\<lambda>n. env (n + 4 * length xs)) e1 ys in (e2, rs @ rs2, err))"
  by (induction xs arbitrary: env e) (simp_all add: Let_def ac_simps split: prod.split sum.split option.split)

lemma batchLoop_lengths:
  "batchLoop f env e xs = (e', rs, err) \<Longrightarrow>
     length rs \<le> length xs \<and> (err = None \<longleftrightarrow> length rs = length xs)"
proof (induction xs arbitrary: env e e' rs err)
  case (Cons x xs)
  then show ?case by (fastforce simp: Let_def split: prod.splits sum.splits)
qed simp

text \<open>
  a batch of sets is the sequence of its sets: it has one result per request unless one fails, and
  then the results of those before it; and running it is the same as running its first part as a batch
  and, if that has no error, the rest as another.
\<close>

theorem batch_is_sequential:
  assumes "batchSetLocked ops q env e (xs @ ys) = (e', rs, err)"
  shows "length rs \<le> length xs + length ys \<and> (err = None \<longleftrightarrow> length rs = length xs + length ys)
    \<and> (case batchSetLocked ops q env e xs of
         (e1, rs1, Some err1) \<Rightarrow> (e', rs, err) = (e1, rs1, Some err1)
       | (e1, rs1, None) \<Rightarrow> \<exists>rs2. rs = rs1 @ rs2 \<and>
           batchSetLocked ops q (\<lambda>n. env (n + 4 * length xs)) e1 ys = (e', rs2, err))"
  using assms batchLoop_lengths [OF assms [unfolded batchSetLocked_def]]
  unfolding batchSetLocked_def batchLoop_split
  by (auto simp: Let_def split: prod.splits option.splits)

theorem batch_is_sequential_witness:
  "\<exists>e' rs err. batchSetLocked (memoryOps sampleDeps) (spaceQuota 13) (sampleEnv 120) sampleStore
      ([(sampleKey, [1], plainSet)] @ [(otherKey, replicate 20 1, plainSet)]) = (e', rs, err) \<and>
    length rs = 1 \<and> err \<noteq> None"
proof -
  let ?b = "batchSetLocked (memoryOps sampleDeps) (spaceQuota 13) (sampleEnv 120) sampleStore
      ([(sampleKey, [1], plainSet)] @ [(otherKey, replicate 20 1, plainSet)])"
  obtain e' rs err where b: "?b = (e', rs, err)" by (metis prod.exhaust)
  have "case ?b of (_, rs, _) \<Rightarrow> length rs = 1" by code_simp
  then have "length rs = 1" by (simp only: b prod.case)
  with batch_is_sequential [OF b] b show ?thesis by simp
qed

text \<open>
  a transaction cannot be nested: a call of \<open>Transaction\<close> inside one returns
  \<open>ErrNestedTransactionUnsupported\<close> and changes nothing, and the outer transaction goes on with it.
\<close>

theorem nested_transaction_refused:
  "runTransaction ops q (TxCall env STransaction k) e =
     runTransaction ops q (k (RError (Some ErrNestedTransactionUnsupported))) e"
  by simp

section \<open>What expiry does to conditional writes\<close>

text \<open>
  whether a compare and set applies to an expired record depends on whether quotas are
  configured. Without them the shard compares versions only and replaces the record; with them the
  admission read deletes the expired record first, and the set does not apply.
\<close>

theorem cas_on_expired_depends_on_quota:
  "\<exists>e. engine_inv e \<and>
     (case setLocked (memoryOps sampleDeps) noQuota (sampleEnv 200) e sampleKey [2] (plainSet\<lparr>so_ExpectedVersion := 1\<rparr>) of
        (e1, Inl _) \<Rightarrow> False | (e1, Inr (rec, ok)) \<Rightarrow> ok) \<and>
     (case setLocked (memoryOps sampleDeps) (spaceQuota 1000) (sampleEnv 200) e sampleKey [2] (plainSet\<lparr>so_ExpectedVersion := 1\<rparr>) of
        (e1, Inl _) \<Rightarrow> False | (e1, Inr (rec, ok)) \<Rightarrow> \<not> ok)"
proof (intro exI conjI)
  let ?e = "fst (EngineSet sampleDeps live 100 (NewMemory sampleConfig) sampleKey [1] (plainSet\<lparr>so_TTL := 50\<rparr>))"
  show "engine_inv ?e" by (simp add: key_ops_inv sampleDeps_ok sample_engine)
  show "case setLocked (memoryOps sampleDeps) noQuota (sampleEnv 200) ?e sampleKey [2] (plainSet\<lparr>so_ExpectedVersion := 1\<rparr>) of
        (e1, Inl _) \<Rightarrow> False | (e1, Inr (rec, ok)) \<Rightarrow> ok"
    by code_simp
  show "case setLocked (memoryOps sampleDeps) (spaceQuota 1000) (sampleEnv 200) ?e sampleKey [2] (plainSet\<lparr>so_ExpectedVersion := 1\<rparr>) of
        (e1, Inl _) \<Rightarrow> False | (e1, Inr (rec, ok)) \<Rightarrow> \<not> ok"
    by code_simp
qed

text \<open>
  an adjustment of an expired counter escapes the quota: the estimate removes the expired entry
  and reports that nothing will be applied, so admission lets the adjustment through, which then finds
  no entry and creates one. Here a space within its limit ends above it without an error.
\<close>

theorem adjust_escapes_quota:
  "\<exists>e. engine_inv e \<and> bytesWhere (\<lambda>x. x = spaceKeyOf sampleKey) e \<le> 5 \<and>
     (case adjustLocked (memoryOps sampleDeps) (spaceQuota 5) (sampleEnv 200) e sampleKey
          ((plainAdjust 1)\<lparr>ao_InitialValue := 99\<rparr>) of
        (e1, Inl _) \<Rightarrow> False
      | (e1, Inr (rec, ok)) \<Rightarrow> ok \<and> bytesWhere (\<lambda>x. x = spaceKeyOf sampleKey) e1 > 5)"
proof (intro exI conjI)
  let ?e = "fst (EngineSet sampleDeps live 100 (NewMemory sampleConfig) sampleKey (counterValue 1) (plainSet\<lparr>so_TTL := 50\<rparr>))"
  show "engine_inv ?e" by (simp add: key_ops_inv sampleDeps_ok sample_engine)
  show "bytesWhere (\<lambda>x. x = spaceKeyOf sampleKey) ?e \<le> 5" by code_simp
  show "case adjustLocked (memoryOps sampleDeps) (spaceQuota 5) (sampleEnv 200) ?e sampleKey
          ((plainAdjust 1)\<lparr>ao_InitialValue := 99\<rparr>) of
        (e1, Inl _) \<Rightarrow> False
      | (e1, Inr (rec, ok)) \<Rightarrow> ok \<and> bytesWhere (\<lambda>x. x = spaceKeyOf sampleKey) e1 > 5"
    by code_simp
qed

end
