(* ===== verification/Control_Names.thy ===== *)
theory Control_Names
  imports GoStrings Control_API
begin

text \<open>
  The names the control plane accepts (\<open>control/catalog_validation.go\<close>,
  \<open>control/node_validation.go\<close>): catalog names, node identifiers and node addresses, with the
  errors of the control plane. An error carries the name of its Go variable and the text that is
  wrapped around it, without the values formatted into that text.

  The catalog check of the code runs over the runes of the name and accepts only ASCII characters.
  A byte above 127 always belongs to a rune that is not accepted, so the check over the bytes
  accepts the same names.
\<close>

datatype control_error =
  ErrInvalidNamespace string
| ErrInvalidSpace string
| ErrInvalidEntity string
| ErrNamespaceNotFound string
| ErrSpaceNotFound string string
| ErrInvalidNode string
| ErrNodeNotFound
| ErrMigrationTaskNotFound u64 u64
| ErrUnknownCommand string

section \<open>Catalog names\<close>

definition catalogNameRune :: "char \<Rightarrow> bool" where
  "catalogNameRune item \<longleftrightarrow>
     (CHR ''a'' \<le> item \<and> item \<le> CHR ''z'') \<or>
     (CHR ''A'' \<le> item \<and> item \<le> CHR ''Z'') \<or>
     (CHR ''0'' \<le> item \<and> item \<le> CHR ''9'') \<or>
     item = CHR ''-'' \<or> item = CHR ''_'' \<or> item = CHR ''.''"

definition NUL :: char where "NUL = char_of (0 :: nat)"

definition validateCatalogName :: "string \<Rightarrow> (string \<Rightarrow> control_error) \<Rightarrow> control_error option" where
  "validateCatalogName name kind =
     (if name = [] then Some (kind ''name is required'')
      else if length name > 128 then Some (kind ''name length must be <= 128'')
      else if NUL \<in> set name then Some (kind ''name contains NUL'')
      else if \<not> list_all catalogNameRune name then Some (kind ''name contains invalid character'')
      else None)"

definition normalizeNamespace :: "string \<Rightarrow> control_error + string" where
  "normalizeNamespace namespace =
     (let namespace = TrimSpace namespace in
      case validateCatalogName namespace ErrInvalidNamespace of
        Some err \<Rightarrow> Inl err
      | None \<Rightarrow> Inr namespace)"

definition normalizeSpaceIdentity :: "string \<Rightarrow> string \<Rightarrow> control_error + string \<times> string" where
  "normalizeSpaceIdentity namespace space =
     (case normalizeNamespace namespace of
        Inl err \<Rightarrow> Inl err
      | Inr namespace \<Rightarrow>
          (let space = TrimSpace space in
           case validateCatalogName space ErrInvalidSpace of
             Some err \<Rightarrow> Inl err
           | None \<Rightarrow> Inr (namespace, space)))"

definition normalizeEntityIdentity ::
  "string \<Rightarrow> string \<Rightarrow> string \<Rightarrow> control_error + string \<times> string \<times> string" where
  "normalizeEntityIdentity namespace space entity =
     (case normalizeSpaceIdentity namespace space of
        Inl err \<Rightarrow> Inl err
      | Inr (namespace, space) \<Rightarrow>
          (let entity = TrimSpace entity in
           case validateCatalogName entity ErrInvalidEntity of
             Some err \<Rightarrow> Inl err
           | None \<Rightarrow> Inr (namespace, space, entity)))"

definition namespaceNotFound :: "string \<Rightarrow> control_error" where
  "namespaceNotFound namespace = ErrNamespaceNotFound namespace"

definition spaceNotFound :: "string \<Rightarrow> string \<Rightarrow> control_error" where
  "spaceNotFound namespace space = ErrSpaceNotFound namespace space"

section \<open>Nodes\<close>

text \<open>\<open>strings.Contains\<close> and the positions of a byte in a string.\<close>

fun contains :: "string \<Rightarrow> string \<Rightarrow> bool" where
  "contains [] pat \<longleftrightarrow> pat = []"
| "contains (c # s) pat \<longleftrightarrow> take (length pat) (c # s) = pat \<or> contains s pat"

fun indexByte :: "string \<Rightarrow> char \<Rightarrow> nat option" where
  "indexByte [] b = None"
| "indexByte (c # s) b = (if c = b then Some 0 else map_option Suc (indexByte s b))"

definition lastIndexByte :: "string \<Rightarrow> char \<Rightarrow> nat option" where
  "lastIndexByte s b = map_option (\<lambda>i. length s - 1 - i) (indexByte (rev s) b)"

text \<open>
  \<open>net.SplitHostPort\<close> of the standard library: the port is what follows the last colon, the host
  may stand in brackets. \<open>None\<close> is any of its errors.
\<close>

definition SplitHostPort :: "string \<Rightarrow> (string \<times> string) option" where
  "SplitHostPort hostport =
     (case lastIndexByte hostport CHR '':'' of
        None \<Rightarrow> None
      | Some i \<Rightarrow>
          if hd hostport = CHR ''['' then
            (case indexByte hostport CHR '']'' of
               None \<Rightarrow> None
             | Some e \<Rightarrow>
                 if e + 1 \<noteq> i \<or> CHR ''['' \<in> set (drop 1 hostport)
                   \<or> CHR '']'' \<in> set (drop (e + 1) hostport) then None
                 else Some (take (e - 1) (drop 1 hostport), drop (i + 1) hostport))
          else if CHR '':'' \<in> set (take i hostport) \<or> CHR ''['' \<in> set hostport
            \<or> CHR '']'' \<in> set hostport then None
          else Some (take i hostport, drop (i + 1) hostport))"

definition validateNodePort :: "string \<Rightarrow> control_error option" where
  "validateNodePort portText =
     (case ParseInt portText of
        None \<Rightarrow> Some (ErrInvalidNode ''addr port must be numeric'')
      | Some port \<Rightarrow>
          if port \<le> 0 \<or> port > 65535 then Some (ErrInvalidNode ''addr port must be 1-65535'')
          else None)"

definition normalizeNodeID :: "string \<Rightarrow> control_error + string" where
  "normalizeNodeID nodeID =
     (let nodeID = TrimSpace nodeID in
      if nodeID = [] then Inl (ErrInvalidNode ''node_id is required'')
      else if NUL \<in> set nodeID then Inl (ErrInvalidNode ''node_id contains NUL'')
      else Inr nodeID)"

definition normalizeNodeIdentity :: "string \<Rightarrow> control_error + string" where
  "normalizeNodeIdentity nodeID = normalizeNodeID nodeID"

definition normalizeNodeAddr :: "string \<Rightarrow> control_error + string" where
  "normalizeNodeAddr addr =
     (let addr = TrimSpace addr in
      if addr = [] then Inl (ErrInvalidNode ''addr is required'')
      else if contains addr ''://'' \<or> NUL \<in> set addr
      then Inl (ErrInvalidNode ''addr must be host:port'')
      else case SplitHostPort addr of
             None \<Rightarrow> Inl (ErrInvalidNode ''addr must be host:port'')
           | Some (host, portText) \<Rightarrow>
               if TrimSpace host = [] then Inl (ErrInvalidNode ''addr host is required'')
               else case validateNodePort portText of
                      Some err \<Rightarrow> Inl err
                    | None \<Rightarrow> Inr addr)"

definition validateNodeIdentity :: "string \<Rightarrow> string \<Rightarrow> control_error + string \<times> string" where
  "validateNodeIdentity nodeID addr =
     (case normalizeNodeID nodeID of
        Inl err \<Rightarrow> Inl err
      | Inr nodeID \<Rightarrow>
          (case normalizeNodeAddr addr of
             Inl err \<Rightarrow> Inl err
           | Inr addr \<Rightarrow> Inr (nodeID, addr)))"

section \<open>Normalising twice\<close>

lemma drop_prefix_None_iff:
  "drop_prefix ps s = None \<longleftrightarrow> (\<forall>p\<in>set ps. p \<noteq> [] \<longrightarrow> take (length p) s \<noteq> p)"
proof -
  have "drop_prefix ps s = None \<longleftrightarrow> filter (\<lambda>p. p \<noteq> [] \<and> take (length p) s = p) ps = []"
    by (simp add: drop_prefix_def split: list.split)
  then show ?thesis by (auto simp: filter_empty_conv)
qed

lemma drop_prefix_trim_left: "drop_prefix ps (trim_left ps s) = None"
  by (induction ps s rule: trim_left.induct) (subst trim_left.simps, simp split: option.splits)

lemma trim_left_id: "drop_prefix ps s = None \<Longrightarrow> trim_left ps s = s"
  by (simp add: trim_left.simps)

lemma trim_left_suffix: "\<exists>us. s = us @ trim_left ps s"
proof (induction ps s rule: trim_left.induct)
  case (1 ps s)
  show ?case
  proof (cases "drop_prefix ps s")
    case None
    then show ?thesis by (simp add: trim_left_id)
  next
    case (Some t)
    then obtain n where t: "t = drop n s" by (auto simp: drop_prefix_def split: list.splits)
    from Some 1 obtain us where "t = us @ trim_left ps t" by blast
    then have "s = (take n s @ us) @ trim_left ps t"
      using append_take_drop_id [of n s] t by simp
    moreover have "trim_left ps s = trim_left ps t" using Some by (subst trim_left.simps) simp
    ultimately show ?thesis by metis
  qed
qed

lemma TrimSpace_idem [simp]: "TrimSpace (TrimSpace s) = TrimSpace s"
proof -
  let ?l = "trim_left space_encodings s"
  let ?r = "trim_left (map rev space_encodings) (rev ?l)"
  obtain us where us: "rev ?l = us @ ?r" using trim_left_suffix by blast
  then have l: "?l = rev ?r @ rev us" by (metis rev_append rev_rev_ident)
  have "drop_prefix space_encodings (rev ?r) = None"
    using drop_prefix_trim_left [of space_encodings s] unfolding drop_prefix_None_iff
    by (subst (asm) l) (metis append_take_drop_id append.assoc append_eq_conv_conj)
  then show ?thesis
    by (simp add: TrimSpace_def trim_left_id drop_prefix_trim_left)
qed

lemma normalizeNamespace_Inr:
  "normalizeNamespace x = Inr n \<Longrightarrow> n = TrimSpace x \<and> normalizeNamespace n = Inr n"
  by (auto simp: normalizeNamespace_def Let_def split: option.splits)

lemma normalizeSpaceIdentity_Inr:
  "normalizeSpaceIdentity x y = Inr (n, sp) \<Longrightarrow>
     normalizeNamespace n = Inr n \<and> normalizeSpaceIdentity n sp = Inr (n, sp)"
  by (auto simp: normalizeSpaceIdentity_def Let_def dest: normalizeNamespace_Inr
      split: sum.splits option.splits)

lemma normalizeEntityIdentity_Inr:
  "normalizeEntityIdentity x y z = Inr (n, sp, e) \<Longrightarrow>
     normalizeSpaceIdentity n sp = Inr (n, sp) \<and> normalizeEntityIdentity n sp e = Inr (n, sp, e)"
  by (auto simp: normalizeEntityIdentity_def Let_def dest: normalizeSpaceIdentity_Inr
      split: sum.splits option.splits)

lemma normalizeNodeAddr_Inr:
  "normalizeNodeAddr x = Inr a \<Longrightarrow> a = TrimSpace x \<and> a \<noteq> [] \<and> normalizeNodeAddr a = Inr a"
  by (auto simp: normalizeNodeAddr_def Let_def split: option.splits if_splits prod.splits)

lemma validateNodeIdentity_Inr:
  "validateNodeIdentity x y = Inr (n, a) \<Longrightarrow>
     a \<noteq> [] \<and> n \<noteq> [] \<and> validateNodeIdentity n a = Inr (n, a)"
  by (auto simp: validateNodeIdentity_def normalizeNodeID_def Let_def dest: normalizeNodeAddr_Inr
      split: sum.splits if_splits)

lemma validateNodeIdentity_idem:
  "validateNodeIdentity x y = Inr (n, a) \<Longrightarrow> validateNodeIdentity n a = Inr (n, a)"
  by (simp add: validateNodeIdentity_Inr)

lemma normalizeNamespace_not_Nil: "normalizeNamespace x = Inr n \<Longrightarrow> n \<noteq> []"
  by (auto simp: normalizeNamespace_def validateCatalogName_def Let_def
      split: option.splits if_splits)

end
