(* ===== verification/Control_Routes.thy ===== *)
theory Control_Routes
  imports Routing
begin

text \<open>
  The route table (\<open>control/routing.go\<close>, \<open>control/migration_routes.go\<close>): the slots of each space
  are cut into one range per healthy node, and the ranges that a pending migration still owes to
  another node are given back to that node.

  The lemmas show that the ranges partition the slots, and that after the overrides every slot of a
  space is still in exactly one range, whose node is the source of the last pending task over the
  slot, or else the node the slot was cut for.
\<close>

definition nodeStateHealthy :: string where "nodeStateHealthy = ''healthy''"
definition nodeStateSuspect :: string where "nodeStateSuspect = ''suspect''"
definition nodeStateDead :: string where "nodeStateDead = ''dead''"

definition migrationTaskPlanned :: string where "migrationTaskPlanned = ''planned''"
definition migrationTaskRunning :: string where "migrationTaskRunning = ''running''"
definition migrationTaskCleanup :: string where "migrationTaskCleanup = ''cleanup''"
definition migrationTaskDone :: string where "migrationTaskDone = ''done''"
definition migrationTaskFailed :: string where "migrationTaskFailed = ''failed''"

lemmas node_states = nodeStateHealthy_def nodeStateSuspect_def nodeStateDead_def
lemmas task_states = migrationTaskPlanned_def migrationTaskRunning_def migrationTaskCleanup_def
  migrationTaskDone_def migrationTaskFailed_def

section \<open>Cutting the slots\<close>

definition checkedUint64 :: "int \<Rightarrow> u64" where
  "checkedUint64 value = (if value < 0 then 0 else word_of_int value)"

definition checkedVSlot :: "u64 \<Rightarrow> u32" where
  "checkedVSlot value = (if value > ucast VSlotMax then VSlotMax else ucast value)"

definition vslotRange :: "int \<Rightarrow> int \<Rightarrow> u32 \<times> u32" where
  "vslotRange index cnt =
     (let start = checkedUint64 index * ucast VSlotCount div checkedUint64 cnt;
          end = (checkedUint64 (index + 1) * ucast VSlotCount) div checkedUint64 cnt - 1
      in (checkedVSlot start, checkedVSlot end))"

definition healthyNodes :: "NodeBody list \<Rightarrow> NodeBody list" where
  "healthyNodes nodes = filter (\<lambda>node. nd_State node = nodeStateHealthy) nodes"

definition defaultRouteReplicaCount :: int where "defaultRouteReplicaCount = 1"

definition routeReplicaLimit :: "int \<Rightarrow> int \<Rightarrow> int" where
  "routeReplicaLimit nodeCount replicaCount =
     (if nodeCount \<le> 1 \<or> replicaCount \<le> 0 then 0
      else if replicaCount \<ge> nodeCount then nodeCount - 1
      else replicaCount)"

definition routeReplicas :: "NodeBody list \<Rightarrow> nat \<Rightarrow> int \<Rightarrow> RouteReplicaBody list" where
  "routeReplicas nodes primaryIndex replicaCount =
     (let limit = nat (routeReplicaLimit (int (length nodes)) replicaCount) in
      map (\<lambda>offset. let node = nodes ! ((primaryIndex + offset) mod length nodes) in
             \<lparr>rr_NodeID = nd_NodeID node, rr_Addr = nd_Addr node, rr_Weight = 1\<rparr>)
        [1..<limit + 1])"

definition routesForSpace :: "NodeBody list \<Rightarrow> SpaceBody \<Rightarrow> RouteBody list" where
  "routesForSpace healthy space =
     map (\<lambda>(index, node).
            let (start, end) = vslotRange (int index) (int (length healthy)) in
            \<lparr>rt_Namespace = sp_Namespace space, rt_Space = sp_Space space,
             rt_VSlotStart = start, rt_VSlotEnd = end,
             rt_NodeID = nd_NodeID node, rt_Addr = nd_Addr node, rt_Weight = 1,
             rt_Replicas = routeReplicas healthy index defaultRouteReplicaCount\<rparr>)
       (enumerate 0 healthy)"

definition routesForNodes :: "NodeBody list \<Rightarrow> SpaceBody list \<Rightarrow> RouteBody list" where
  "routesForNodes nodes spaces =
     (let healthy = healthyNodes nodes in
      if healthy = [] then []
      else if spaces = [] then routesForSpace healthy zeroSpace
      else concat (map (routesForSpace healthy) spaces))"

section \<open>Routes during a migration\<close>

definition minUint32 :: "u32 \<Rightarrow> u32 \<Rightarrow> u32" where
  "minUint32 left right = (if left < right then left else right)"

definition maxUint32 :: "u32 \<Rightarrow> u32 \<Rightarrow> u32" where
  "maxUint32 left right = (if left > right then left else right)"

definition taskRouteOverlap :: "RouteBody \<Rightarrow> MigrationTaskBody \<Rightarrow> u32 \<times> u32 \<times> bool" where
  "taskRouteOverlap route task =
     (if rt_Namespace route \<noteq> mt_Namespace task \<or> rt_Space route \<noteq> mt_Space task
      then (0, 0, False)
      else let start = maxUint32 (rt_VSlotStart route) (mt_VSlotStart task);
               end = minUint32 (rt_VSlotEnd route) (mt_VSlotEnd task)
           in (start, end, start \<le> end))"

definition sourceRouteForTask :: "MigrationTaskBody \<Rightarrow> RouteBody" where
  "sourceRouteForTask task =
     \<lparr>rt_Namespace = mt_Namespace task, rt_Space = mt_Space task, rt_VSlotStart = 0,
      rt_VSlotEnd = 0, rt_NodeID = mt_SourceNodeID task, rt_Addr = mt_SourceAddr task,
      rt_Weight = 1, rt_Replicas = []\<rparr>"

definition appendRouteSegment ::
  "RouteBody list \<Rightarrow> RouteBody \<Rightarrow> u32 \<Rightarrow> u32 \<Rightarrow> RouteBody list" where
  "appendRouteSegment routes route start end =
     (if start > end then routes
      else routes @ [route\<lparr>rt_VSlotStart := start, rt_VSlotEnd := end\<rparr>])"

definition overrideRoute ::
  "MigrationTaskBody \<Rightarrow> RouteBody list \<Rightarrow> RouteBody \<Rightarrow> RouteBody list" where
  "overrideRoute task out route =
     (let (start, end, ok) = taskRouteOverlap route task in
      if \<not> ok then out @ [route]
      else let out = (if rt_VSlotStart route < start
                      then appendRouteSegment out route (rt_VSlotStart route) (start - 1) else out);
               out = appendRouteSegment out (sourceRouteForTask task) start end
           in if end < rt_VSlotEnd route
              then appendRouteSegment out route (end + 1) (rt_VSlotEnd route) else out)"

definition overrideRouteRange :: "RouteBody list \<Rightarrow> MigrationTaskBody \<Rightarrow> RouteBody list" where
  "overrideRouteRange routes task = foldl (overrideRoute task) [] routes"

definition migrationTaskRoutesSource :: "MigrationTaskBody \<Rightarrow> bool" where
  "migrationTaskRoutesSource task \<longleftrightarrow>
     mt_CutoverAtUnix task = 0 \<and> mt_State task \<noteq> migrationTaskDone"

text \<open>
  \<open>sort.Slice\<close> permutes its argument into the order of the comparison and promises nothing on ties;
  \<open>srt\<close> is a sort with this contract.
\<close>

definition routeLess :: "RouteBody \<Rightarrow> RouteBody \<Rightarrow> bool" where
  "routeLess l r =
     (if rt_Namespace l \<noteq> rt_Namespace r then rt_Namespace l < rt_Namespace r
      else if rt_Space l \<noteq> rt_Space r then rt_Space l < rt_Space r
      else rt_VSlotStart l < rt_VSlotStart r)"

definition routeOrder :: "RouteBody \<Rightarrow> RouteBody \<Rightarrow> int" where
  "routeOrder l r = (if routeLess l r then -1 else if routeLess r l then 1 else 0)"

type_synonym route_sort = "(RouteBody \<Rightarrow> RouteBody \<Rightarrow> int) \<Rightarrow> RouteBody list \<Rightarrow> RouteBody list"

definition sortRoutes :: "route_sort \<Rightarrow> RouteBody list \<Rightarrow> RouteBody list" where
  "sortRoutes srt routes = srt routeOrder routes"

definition overrideTask :: "RouteBody list \<Rightarrow> MigrationTaskBody \<Rightarrow> RouteBody list" where
  "overrideTask out task =
     (if migrationTaskRoutesSource task then overrideRouteRange out task else out)"

definition applyMigrationRouteOverrides ::
  "route_sort \<Rightarrow> RouteBody list \<Rightarrow> MigrationPlanBody list \<Rightarrow> RouteBody list" where
  "applyMigrationRouteOverrides srt routes plans =
     sortRoutes srt (foldl (\<lambda>out plan. foldl overrideTask out (mp_Tasks plan)) routes plans)"

section \<open>The ranges partition the slots\<close>

lemma vslotRange_unat:
  assumes "i < n" and "n \<le> 65536"
  shows "unat (fst (vslotRange (int i) (int n))) = i * 65536 div n"
    and "unat (snd (vslotRange (int i) (int n))) = (i + 1) * 65536 div n - 1"
    and "i * 65536 div n < (i + 1) * 65536 div n"
proof -
  have n0: "0 < n" using assms by simp
  have le: "(i + 1) * 65536 div n \<le> 65536"
  proof -
    have "(i + 1) * 65536 \<le> n * 65536" using assms by (intro mult_right_mono) auto
    then have "(i + 1) * 65536 div n \<le> n * 65536 div n" by (rule div_le_mono)
    then show ?thesis using n0 by simp
  qed
  have "(i * 65536 + n) div n \<le> (i + 1) * 65536 div n"
    using assms by (intro div_le_mono) simp
  then show step: "i * 65536 div n < (i + 1) * 65536 div n" using n0 by simp
  have u: "unat (checkedUint64 (int k)) = k" if "k \<le> 65536" for k
    using that by (simp add: checkedUint64_def unat_of_nat)
  have m: "unat (checkedUint64 (int k) * ucast VSlotCount) = k * 65536" if "k \<le> 65536" for k
  proof -
    have "k * 65536 < 2 ^ 64" using that by simp
    then show ?thesis using u [OF that] by (simp add: VSlotCount_def unat_word_ariths)
  qed
  have q: "unat (checkedUint64 (int k) * ucast VSlotCount div checkedUint64 (int n)) = k * 65536 div n"
    if "k \<le> 65536" for k
    using that assms by (simp add: unat_div_distrib m u)
  have v: "unat (checkedVSlot w) = unat w" if "unat w \<le> 65535" for w
    using that by (simp add: checkedVSlot_def unat_ucast_less word_less_nat_alt)
  have s: "unat (checkedUint64 (int i) * ucast VSlotCount div checkedUint64 (int n)) = i * 65536 div n"
    using q [of i] assms by simp
  show "unat (fst (vslotRange (int i) (int n))) = i * 65536 div n"
    using s step le by (simp add: vslotRange_def Let_def v)
  have e: "unat (checkedUint64 (int i + 1) * ucast VSlotCount div checkedUint64 (int n))
      = (i + 1) * 65536 div n"
    using q [of "i + 1"] assms by (simp add: add.commute)
  then have "unat (checkedUint64 (int i + 1) * ucast VSlotCount div checkedUint64 (int n) - 1)
      = (i + 1) * 65536 div n - 1"
    using step by (simp add: unat_sub word_le_nat_alt)
  then show "unat (snd (vslotRange (int i) (int n))) = (i + 1) * 65536 div n - 1"
    using le by (simp add: vslotRange_def Let_def v)
qed

lemma one_step_contains:
  fixes f :: "nat \<Rightarrow> nat"
  assumes "\<And>i. i < n \<Longrightarrow> f i < f (i + 1)" and "f 0 \<le> v"
  shows "length (filter (\<lambda>i. f i \<le> v \<and> v < f (i + 1)) [0..<n]) = (if v < f n then 1 else 0)"
  using assms(1)
proof (induction n)
  case 0
  then show ?case using assms(2) by simp
next
  case (Suc n)
  have "f n < f (Suc n)" using Suc.prems [of n] by simp
  moreover have "length (filter (\<lambda>i. f i \<le> v \<and> v < f (i + 1)) [0..<n]) = (if v < f n then 1 else 0)"
    using Suc by simp
  ultimately show ?case by (cases "v < f n") auto
qed

definition inSlot :: "string \<Rightarrow> string \<Rightarrow> u32 \<Rightarrow> RouteBody \<Rightarrow> bool" where
  "inSlot namespace space vslot route \<longleftrightarrow>
     rt_Namespace route = namespace \<and> rt_Space route = space \<and>
     rt_VSlotStart route \<le> vslot \<and> vslot \<le> rt_VSlotEnd route"

definition target :: "RouteBody \<Rightarrow> string \<times> string" where
  "target route = (rt_NodeID route, rt_Addr route)"

definition owners :: "RouteBody list \<Rightarrow> string \<Rightarrow> string \<Rightarrow> u32 \<Rightarrow> (string \<times> string) list" where
  "owners routes namespace space vslot = map target (filter (inSlot namespace space vslot) routes)"

lemma owners_append:
  "owners (xs @ ys) namespace space vslot =
     owners xs namespace space vslot @ owners ys namespace space vslot"
  by (simp add: owners_def)

lemma length_filter_enumerate:
  "length (filter (\<lambda>p. Q (fst p)) (enumerate k xs)) = length (filter Q [k..<k + length xs])"
proof -
  have "map fst (filter (\<lambda>p. Q (fst p)) (enumerate k xs)) = filter Q (map fst (enumerate k xs))"
    by (induction xs arbitrary: k) auto
  then show ?thesis by (metis length_map map_fst_enumerate)
qed

lemma vslotRange_contains:
  assumes "i < n" and "n \<le> 65536"
  shows "fst (vslotRange (int i) (int n)) \<le> v \<and> v \<le> snd (vslotRange (int i) (int n)) \<longleftrightarrow>
    i * 65536 div n \<le> unat v \<and> unat v < (i + 1) * 65536 div n"
  using vslotRange_unat [OF assms] by (auto simp: word_le_nat_alt)

lemma owners_routesForSpace:
  assumes "healthy \<noteq> []" and "length healthy \<le> 65536" and "unat v < 65536"
  shows "length (owners (routesForSpace healthy space) (sp_Namespace space) (sp_Space space) v) = 1"
    and "namespace \<noteq> sp_Namespace space \<or> name \<noteq> sp_Space space \<Longrightarrow>
      owners (routesForSpace healthy space) namespace name v = []"
proof -
  let ?n = "length healthy"
  let ?f = "\<lambda>i. i * 65536 div ?n"
  have "length (owners (routesForSpace healthy space) (sp_Namespace space) (sp_Space space) v)
      = length (filter (\<lambda>p. let r = vslotRange (int (fst p)) (int ?n) in fst r \<le> v \<and> v \<le> snd r)
          (enumerate 0 healthy))"
    by (simp add: owners_def routesForSpace_def filter_map o_def inSlot_def split_beta Let_def)
  also have "\<dots> = length (filter
      (\<lambda>i. let r = vslotRange (int i) (int ?n) in fst r \<le> v \<and> v \<le> snd r) [0..<?n])"
    using length_filter_enumerate [where k = 0] by simp
  also have "filter (\<lambda>i. let r = vslotRange (int i) (int ?n) in fst r \<le> v \<and> v \<le> snd r) [0..<?n]
      = filter (\<lambda>i. ?f i \<le> unat v \<and> unat v < ?f (i + 1)) [0..<?n]"
    using assms(2) by (intro filter_cong) (auto simp: Let_def vslotRange_contains)
  also have "length \<dots> = 1"
    using vslotRange_unat(3) [OF _ assms(2)] assms
    by (subst one_step_contains [where f = ?f]) auto
  finally show "length (owners (routesForSpace healthy space)
      (sp_Namespace space) (sp_Space space) v) = 1" .
  show "owners (routesForSpace healthy space) namespace name v = []"
    if "namespace \<noteq> sp_Namespace space \<or> name \<noteq> sp_Space space"
    using that
    by (auto simp: owners_def routesForSpace_def inSlot_def filter_empty_conv split_beta Let_def)
qed

lemma owners_concat:
  "owners (concat xss) namespace space v = concat (map (\<lambda>xs. owners xs namespace space v) xss)"
  by (induction xss) (simp_all add: owners_append, simp add: owners_def)

definition spaceKey :: "SpaceBody \<Rightarrow> string \<times> string" where
  "spaceKey sp = (sp_Namespace sp, sp_Space sp)"

lemma one_owner:
  assumes "healthyNodes nodes \<noteq> []" and "length (healthyNodes nodes) \<le> 65536"
    and "distinct (map spaceKey spaces)" and "space \<in> set spaces" and "unat v < 65536"
  shows "length (owners (routesForNodes nodes spaces) (sp_Namespace space) (sp_Space space) v) = 1"
proof -
  let ?own = "\<lambda>sp. owners (routesForSpace (healthyNodes nodes) sp) (sp_Namespace space) (sp_Space space) v"
  obtain us vs where s: "spaces = us @ space # vs" using assms(4) by (meson split_list)
  have other: "?own sp = []" if "sp \<in> set us \<union> set vs" for sp
  proof (rule owners_routesForSpace(2) [OF assms(1,2,5)])
    from assms(3) s that have "spaceKey sp \<noteq> spaceKey space" by (auto simp: rev_image_eqI)
    then show "sp_Namespace space \<noteq> sp_Namespace sp \<or> sp_Space space \<noteq> sp_Space sp"
      by (auto simp: spaceKey_def)
  qed
  have "map ?own us = map (\<lambda>_. []) us" and "map ?own vs = map (\<lambda>_. []) vs"
    using other by auto
  then have "concat (map ?own us) = []" and "concat (map ?own vs) = []" by (simp_all only:) simp_all
  then have "owners (routesForNodes nodes spaces) (sp_Namespace space) (sp_Space space) v = ?own space"
    using assms(1) s by (simp add: routesForNodes_def Let_def owners_concat owners_append o_def
        del: concat_eq_Nil_conv)
  then show ?thesis using owners_routesForSpace(1) [OF assms(1,2,5)] by simp
qed

section \<open>What an override does to the owner of a slot\<close>

definition taskCovers :: "string \<Rightarrow> string \<Rightarrow> u32 \<Rightarrow> MigrationTaskBody \<Rightarrow> bool" where
  "taskCovers namespace space vslot task \<longleftrightarrow>
     mt_Namespace task = namespace \<and> mt_Space task = space \<and>
     mt_VSlotStart task \<le> vslot \<and> vslot \<le> mt_VSlotEnd task"

definition taskSource :: "MigrationTaskBody \<Rightarrow> string \<times> string" where
  "taskSource task = (mt_SourceNodeID task, mt_SourceAddr task)"

lemma word_pred_le: "a < (b :: 'a::len word) \<Longrightarrow> v \<le> b - 1 \<longleftrightarrow> v < b"
proof -
  assume "a < b"
  then have "b \<noteq> 0" by auto
  then have "unat (b - 1) = unat b - 1" and "0 < unat b"
    by (simp_all add: unat_minus_one unat_gt_0)
  then show ?thesis by (auto simp: word_le_nat_alt word_less_nat_alt)
qed

lemma word_succ_le: "a < (b :: 'a::len word) \<Longrightarrow> a + 1 \<le> v \<longleftrightarrow> a < v"
proof -
  assume ab: "a < b"
  have "1 + a \<noteq> 0"
  proof
    assume "1 + a = 0"
    then have "a = - 1" by (metis add.commute eq_neg_iff_add_eq_0)
    with ab show False by (metis leD word_order.extremum)
  qed
  then have "unat (a + 1) = Suc (unat a)" by (simp add: unatSuc add.commute)
  then show ?thesis by (auto simp: word_le_nat_alt word_less_nat_alt)
qed

lemma owners_overrideRoute:
  "owners (overrideRoute task out route) namespace space v =
     owners out namespace space v @
       (if taskCovers namespace space v task
        then map (\<lambda>_. taskSource task) (owners [route] namespace space v)
        else owners [route] namespace space v)"
proof (cases "snd (snd (taskRouteOverlap route task))")
  case False
  then have "overrideRoute task out route = out @ [route]"
    by (auto simp: overrideRoute_def split_beta)
  moreover have "\<not> (taskCovers namespace space v task \<and> inSlot namespace space v route)"
    using False
    by (auto simp: taskRouteOverlap_def taskCovers_def inSlot_def maxUint32_def minUint32_def Let_def
        split: if_splits)
  ultimately show ?thesis by (auto simp: owners_append owners_def)
next
  case True
  define s where "s = maxUint32 (rt_VSlotStart route) (mt_VSlotStart task)"
  define e where "e = minUint32 (rt_VSlotEnd route) (mt_VSlotEnd task)"
  from True have scope: "rt_Namespace route = mt_Namespace task" "rt_Space route = mt_Space task"
    and se: "s \<le> e" and ov: "taskRouteOverlap route task = (s, e, True)"
    by (auto simp: taskRouteOverlap_def s_def e_def Let_def split: if_splits)
  have bounds: "rt_VSlotStart route \<le> s" "mt_VSlotStart task \<le> s"
      "e \<le> rt_VSlotEnd route" "e \<le> mt_VSlotEnd task"
    by (auto simp: s_def e_def maxUint32_def minUint32_def)
  let ?seg = "\<lambda>r a b. r\<lparr>rt_VSlotStart := a, rt_VSlotEnd := b\<rparr>"
  let ?L = "if rt_VSlotStart route < s then [?seg route (rt_VSlotStart route) (s - 1)] else []"
  let ?R = "if e < rt_VSlotEnd route then [?seg route (e + 1) (rt_VSlotEnd route)] else []"
  let ?in = "rt_Namespace route = namespace \<and> rt_Space route = space"
  have cut: "rt_VSlotStart route < s \<Longrightarrow> \<not> s - 1 < rt_VSlotStart route"
    "e < rt_VSlotEnd route \<Longrightarrow> \<not> rt_VSlotEnd route < e + 1"
    by (simp_all add: not_less word_pred_le word_succ_le)
  then have out: "overrideRoute task out route =
      (out @ ?L) @ [?seg (sourceRouteForTask task) s e] @ ?R"
    using se by (simp add: overrideRoute_def ov appendRouteSegment_def Let_def)
  have L: "owners ?L namespace space v =
      (if ?in \<and> rt_VSlotStart route \<le> v \<and> v < s then [target route] else [])"
    by (auto simp: owners_def inSlot_def target_def word_pred_le)
  have R: "owners ?R namespace space v =
      (if ?in \<and> e < v \<and> v \<le> rt_VSlotEnd route then [target route] else [])"
    by (auto simp: owners_def inSlot_def target_def word_succ_le)
  have M: "owners [?seg (sourceRouteForTask task) s e] namespace space v =
      (if ?in \<and> s \<le> v \<and> v \<le> e then [taskSource task] else [])"
    using scope by (auto simp: owners_def inSlot_def target_def taskSource_def sourceRouteForTask_def)
  have r: "owners [route] namespace space v =
      (if ?in \<and> rt_VSlotStart route \<le> v \<and> v \<le> rt_VSlotEnd route then [target route] else [])"
    by (simp add: owners_def inSlot_def)
  have cov: "taskCovers namespace space v task \<longleftrightarrow>
      ?in \<and> mt_VSlotStart task \<le> v \<and> v \<le> mt_VSlotEnd task"
    using scope by (auto simp: taskCovers_def)
  have sv: "s \<le> v \<longleftrightarrow> rt_VSlotStart route \<le> v \<and> mt_VSlotStart task \<le> v"
    and ev: "v \<le> e \<longleftrightarrow> v \<le> rt_VSlotEnd route \<and> v \<le> mt_VSlotEnd task"
    by (auto simp: s_def e_def maxUint32_def minUint32_def)
  show ?thesis
    using se sv ev unfolding out owners_append L R M r cov
    by (cases "v < s"; cases "e < v") auto
qed

lemma owners_overrideRouteRange:
  "owners (overrideRouteRange routes task) namespace space v =
     (if taskCovers namespace space v task
      then map (\<lambda>_. taskSource task) (owners routes namespace space v)
      else owners routes namespace space v)"
proof -
  have "owners (foldl (overrideRoute task) out routes) namespace space v =
      owners out namespace space v @
        (if taskCovers namespace space v task
         then map (\<lambda>_. taskSource task) (owners routes namespace space v)
         else owners routes namespace space v)" for out
  proof (induction routes arbitrary: out)
    case Nil
    then show ?case by (simp add: owners_def)
  next
    case (Cons r rs)
    have "owners (r # rs) namespace space v = owners [r] namespace space v @ owners rs namespace space v"
      using owners_append [of "[r]" rs] by simp
    then show ?case by (simp add: Cons.IH owners_overrideRoute)
  qed
  from this [of "[]"] show ?thesis by (simp add: overrideRouteRange_def owners_def)
qed

text \<open>
  The owner of a slot in the table: the source of the last task over the slot that is not cut over,
  if there is one.
\<close>

definition pendingTasks :: "MigrationPlanBody list \<Rightarrow> MigrationTaskBody list" where
  "pendingTasks plans = filter migrationTaskRoutesSource (concat (map mp_Tasks plans))"

definition slotOwner ::
  "MigrationTaskBody list \<Rightarrow> string \<Rightarrow> string \<Rightarrow> u32 \<Rightarrow> string \<times> string \<Rightarrow> string \<times> string" where
  "slotOwner tasks namespace space v own =
     (case filter (taskCovers namespace space v) (rev tasks) of
        [] \<Rightarrow> own
      | task # _ \<Rightarrow> taskSource task)"

lemma slotOwner_snoc:
  "slotOwner (tasks @ [task]) namespace space v own =
     (if taskCovers namespace space v task then taskSource task
      else slotOwner tasks namespace space v own)"
  by (simp add: slotOwner_def)

lemma owners_foldl_override:
  "owners (foldl overrideRouteRange routes tasks) namespace space v =
     map (slotOwner tasks namespace space v) (owners routes namespace space v)"
proof (induction tasks rule: rev_induct)
  case Nil
  have "slotOwner [] namespace space v = id" by (rule ext) (simp add: slotOwner_def)
  then show ?case by simp
next
  case (snoc task tasks)
  then show ?case by (simp add: owners_overrideRouteRange slotOwner_snoc o_def)
qed

lemma foldl_overrideTask:
  "foldl overrideTask out tasks = foldl overrideRouteRange out (filter migrationTaskRoutesSource tasks)"
  by (induction tasks arbitrary: out) (simp_all add: overrideTask_def)

lemma foldl_plans:
  "foldl (\<lambda>out plan. foldl overrideTask out (mp_Tasks plan)) routes plans =
     foldl overrideRouteRange routes (pendingTasks plans)"
  by (induction plans arbitrary: routes) (simp_all add: pendingTasks_def foldl_overrideTask)

lemma total_cmp_routeOrder: "total_cmp routeOrder"
proof -
  let ?key = "\<lambda>r. (rt_Namespace r, rt_Space r, rt_VSlotStart r)"
  have less: "routeLess l r \<longleftrightarrow> ?key l < ?key r" for l r
    by (auto simp: routeLess_def less_prod_def')
  have ord: "routeOrder l r \<le> 0 \<longleftrightarrow> ?key l \<le> ?key r" for l r
  proof -
    have "routeOrder l r \<le> 0 \<longleftrightarrow> \<not> ?key r < ?key l"
      using less_not_sym [of "?key l" "?key r"] less [of l r] less [of r l]
      by (cases "routeLess l r"; cases "routeLess r l") (simp_all only: routeOrder_def if_True if_False, simp_all)
    then show ?thesis by (simp only: not_less)
  qed
  show ?thesis unfolding total_cmp_def ord by (meson linear order_trans)
qed

lemma mset_sortRoutes: "sorts srt \<Longrightarrow> mset (sortRoutes srt routes) = mset routes"
  by (simp add: sortRoutes_def sortsD(1) total_cmp_routeOrder)

lemma mset_owners:
  "mset xs = mset ys \<Longrightarrow> mset (owners xs namespace space v) = mset (owners ys namespace space v)"
  by (simp add: owners_def mset_filter)

lemma owners_overrides:
  assumes "sorts srt" and "length (owners routes namespace space v) = 1"
  shows "owners (applyMigrationRouteOverrides srt routes plans) namespace space v =
    [slotOwner (pendingTasks plans) namespace space v (hd (owners routes namespace space v))]"
proof -
  obtain x where x: "owners routes namespace space v = [x]"
    using assms(2) by (auto simp: length_Suc_conv)
  have "mset (owners (applyMigrationRouteOverrides srt routes plans) namespace space v) =
      mset (owners (foldl overrideRouteRange routes (pendingTasks plans)) namespace space v)"
    unfolding applyMigrationRouteOverrides_def foldl_plans
    by (rule mset_owners) (rule mset_sortRoutes [OF assms(1)])
  then show ?thesis by (simp add: owners_foldl_override x)
qed

section \<open>Replicas\<close>

text \<open>The replica of a range is never its primary and is the next node of the table.\<close>

lemma routeReplicas_default:
  "routeReplicas nodes i defaultRouteReplicaCount =
     (if length nodes \<le> 1 then []
      else let node = nodes ! ((i + 1) mod length nodes)
           in [\<lparr>rr_NodeID = nd_NodeID node, rr_Addr = nd_Addr node, rr_Weight = 1\<rparr>])"
proof -
  have "routeReplicaLimit (int (length nodes)) defaultRouteReplicaCount =
      (if length nodes \<le> 1 then 0 else 1)"
    by (auto simp: routeReplicaLimit_def defaultRouteReplicaCount_def)
  then show ?thesis by (simp add: routeReplicas_def Let_def)
qed

lemma routeReplicas_distinct:
  assumes "i < length nodes" and "distinct (map nd_NodeID nodes)" and "0 \<le> k"
  shows "distinct (nd_NodeID (nodes ! i) # map rr_NodeID (routeReplicas nodes i k))"
    and "length (routeReplicas nodes i k) = min (nat k) (length nodes - 1)"
proof -
  let ?n = "length nodes"
  have ne: "nodes \<noteq> []" using assms(1) by auto
  let ?at = "\<lambda>d. nd_NodeID (nodes ! ((i + d) mod ?n))"
  define m where "m = nat (routeReplicaLimit (int ?n) k)"
  have m: "m = min (nat k) (?n - 1)"
    using assms by (auto simp: m_def routeReplicaLimit_def)
  have ids: "nd_NodeID (nodes ! i) # map rr_NodeID (routeReplicas nodes i k) = map ?at [0..<m + 1]"
    using assms(1) ne by (simp add: routeReplicas_def m_def Let_def o_def upt_rec [of 0] del: upt_Suc)
  have "inj_on ?at {0..<m + 1}"
  proof (rule inj_onI)
    fix d e
    assume d: "d \<in> {0..<m + 1}" and e: "e \<in> {0..<m + 1}" and eq: "?at d = ?at e"
    have n0: "0 < ?n" using assms(1) by linarith
    then have "(i + d) mod ?n < ?n" and "(i + e) mod ?n < ?n" by simp_all
    moreover from this eq have "map nd_NodeID nodes ! ((i + d) mod ?n) = map nd_NodeID nodes ! ((i + e) mod ?n)"
      by simp
    ultimately have "(i + d) mod ?n = (i + e) mod ?n"
      using nth_eq_iff_index_eq [OF assms(2)] by simp
    then have "(int i + int d) mod int ?n = (int i + int e) mod int ?n"
      by (metis of_nat_add zmod_int)
    then have "(int d - int e) mod int ?n = 0"
      by (metis add_diff_cancel_left mod_eq_dvd_iff dvd_imp_mod_0)
    then have dvd: "int ?n dvd int d - int e" by auto
    have "m < ?n" using m n0 by linarith
    then have "\<bar>int d - int e\<bar> < int ?n" using d e by auto
    with dvd have "int d - int e = 0" using zdvd_imp_le [of "int ?n" "\<bar>int d - int e\<bar>"] by auto
    then show "d = e" by simp
  qed
  then show "distinct (nd_NodeID (nodes ! i) # map rr_NodeID (routeReplicas nodes i k))"
    unfolding ids by (simp add: distinct_map del: upt_Suc)
  show "length (routeReplicas nodes i k) = min (nat k) (?n - 1)"
    unfolding m [symmetric] by (simp add: routeReplicas_def m_def [symmetric] Let_def del: upt_Suc)
qed

end
