(* ===== verification/Control_State.thy ===== *)
theory Control_State
  imports Control_Names Control_Routes
begin

text \<open>
  The replicated state of the control plane: the catalog of namespaces, spaces and entities
  (\<open>control/catalog.go\<close>), the nodes and their liveness (\<open>control/node_state.go\<close>), and the
  rebalance events and migration plans that a change of the route table records
  (\<open>control/rebalance.go\<close>), on the state of \<open>control/state.go\<close>.

  Every operation runs under the mutex of the state from its first read to its last write, so an
  operation is one function on the state. \<open>now\<close> is the clock of the state, \<open>s.now()\<close>; an operation
  that reads it more than once reads the same time here. The event bus, to which an event is
  published after the state has changed, is left out: a failing publication changes nothing.
  \<open>sort.Slice\<close> over the values of a map sorts by the key of the map, so that no two values tie and
  the result does not depend on the order in which the map was read.
\<close>

section \<open>The state\<close>

type_synonym spaceRef = "string \<times> string"
type_synonym entityRef = "string \<times> string \<times> string"

record ControlState =
  clusterID :: string
  revision :: u64
  namespaces :: "(string, NamespaceBody) fmap"
  spaces :: "(spaceRef, SpaceBody) fmap"
  entities :: "(entityRef, EntityBody) fmap"
  nodes :: "(string, NodeBody) fmap"
  events :: "RebalanceEventBody list"
  plans :: "MigrationPlanBody list"
  nextEvent :: u64
  nextPlan :: u64
  lastRoutes :: "RouteBody list"

definition NewControlState :: "string \<Rightarrow> ControlState" where
  "NewControlState cluster =
     \<lparr>clusterID = cluster, revision = 0, namespaces = fmempty, spaces = fmempty,
      entities = fmempty, nodes = fmempty, events = [], plans = [], nextEvent = 0, nextPlan = 0,
      lastRoutes = []\<rparr>"

definition maxRebalanceEvents :: nat where "maxRebalanceEvents = 128"
definition maxMigrationPlans :: nat where "maxMigrationPlans = 128"
definition controlModeBootstrap :: string where "controlModeBootstrap = ''bootstrap''"

definition valuesOf :: "('k::linorder, 'v) fmap \<Rightarrow> 'v list" where
  "valuesOf m = map snd (sorted_list_of_fmap m)"

definition sortedNamespacesLocked :: "ControlState \<Rightarrow> NamespaceBody list" where
  "sortedNamespacesLocked s = sort_key ns_Namespace (valuesOf (namespaces s))"

definition sortedSpacesLocked :: "ControlState \<Rightarrow> SpaceBody list" where
  "sortedSpacesLocked s = sort_key spaceKey (valuesOf (spaces s))"

definition entityKey :: "EntityBody \<Rightarrow> entityRef" where
  "entityKey e = (en_Namespace e, en_Space e, en_Entity e)"

definition sortedEntitiesLocked :: "ControlState \<Rightarrow> EntityBody list" where
  "sortedEntitiesLocked s = sort_key entityKey (valuesOf (entities s))"

definition sortedNodesLocked :: "ControlState \<Rightarrow> NodeBody list" where
  "sortedNodesLocked s = sort_key nd_NodeID (valuesOf (nodes s))"

section \<open>Rebalance events and migration plans\<close>

definition rebalanceEventRouteTableChanged :: string where
  "rebalanceEventRouteTableChanged = ''route_table_changed''"
definition rebalanceReasonNodeRegistered :: string where
  "rebalanceReasonNodeRegistered = ''node_registered''"
definition rebalanceReasonNodeAddress :: string where
  "rebalanceReasonNodeAddress = ''node_address_changed''"
definition rebalanceReasonNodeRemoved :: string where
  "rebalanceReasonNodeRemoved = ''node_removed''"
definition rebalanceReasonNodeRecovered :: string where
  "rebalanceReasonNodeRecovered = ''node_recovered''"
definition rebalanceReasonNodeSuspect :: string where
  "rebalanceReasonNodeSuspect = ''node_suspect''"
definition rebalanceReasonNodeDead :: string where
  "rebalanceReasonNodeDead = ''node_dead''"
definition rebalanceReasonSpaceCreated :: string where
  "rebalanceReasonSpaceCreated = ''space_created''"

lemmas reason_defs = rebalanceReasonNodeRegistered_def rebalanceReasonNodeAddress_def
  rebalanceReasonNodeRemoved_def rebalanceReasonNodeRecovered_def rebalanceReasonNodeSuspect_def
  rebalanceReasonNodeDead_def rebalanceReasonSpaceCreated_def

record rebalanceEvent =
  rb_reason :: string
  rb_node :: NodeBody
  rb_namespace :: string
  rb_space :: string

definition nodeRegistrationEventReason ::
  "NodeBody \<Rightarrow> bool \<Rightarrow> NodeBody \<Rightarrow> string \<times> bool" where
  "nodeRegistrationEventReason previous exists next =
     (if \<not> exists then (rebalanceReasonNodeRegistered, True)
      else if nd_Addr previous \<noteq> nd_Addr next then (rebalanceReasonNodeAddress, True)
      else if nd_State previous \<noteq> nd_State next then (rebalanceReasonNodeRecovered, True)
      else ([], False))"

definition livenessRebalanceReason :: "string \<Rightarrow> string" where
  "livenessRebalanceReason state =
     (if state = nodeStateSuspect then rebalanceReasonNodeSuspect
      else if state = nodeStateDead then rebalanceReasonNodeDead
      else rebalanceReasonNodeRecovered)"

definition sameRouteScope :: "RouteBody \<Rightarrow> RouteBody \<Rightarrow> bool" where
  "sameRouteScope left right \<longleftrightarrow>
     rt_Namespace left = rt_Namespace right \<and> rt_Space left = rt_Space right"

definition emptyRouteScope :: "RouteBody \<Rightarrow> bool" where
  "emptyRouteScope route \<longleftrightarrow> rt_Namespace route = [] \<and> rt_Space route = []"

definition routeOverlap :: "RouteBody \<Rightarrow> RouteBody \<Rightarrow> u32 \<times> u32 \<times> bool" where
  "routeOverlap left right =
     (let start = maxUint32 (rt_VSlotStart left) (rt_VSlotStart right);
          end = minUint32 (rt_VSlotEnd left) (rt_VSlotEnd right)
      in (start, end, start \<le> end))"

definition migrationTaskRange :: "RouteBody \<Rightarrow> RouteBody \<Rightarrow> u32 \<times> u32 \<times> bool" where
  "migrationTaskRange previous current =
     (if emptyRouteScope previous \<or> \<not> sameRouteScope previous current
        \<or> rt_NodeID previous = rt_NodeID current then (0, 0, False)
      else routeOverlap previous current)"

definition migrationTaskForRoute ::
  "RebalanceEventBody \<Rightarrow> RouteBody \<Rightarrow> RouteBody \<Rightarrow> u32 \<Rightarrow> u32 \<Rightarrow> MigrationTaskBody" where
  "migrationTaskForRoute event previous current start end =
     zeroTask\<lparr>mt_Revision := ev_Revision event, mt_Namespace := rt_Namespace current,
       mt_Space := rt_Space current, mt_VSlotStart := start, mt_VSlotEnd := end,
       mt_SourceNodeID := rt_NodeID previous, mt_SourceAddr := rt_Addr previous,
       mt_TargetNodeID := rt_NodeID current, mt_TargetAddr := rt_Addr current,
       mt_State := migrationTaskPlanned, mt_CreatedAtUnix := ev_CreatedAtUnix event\<rparr>"

fun routeTasks ::
  "RebalanceEventBody \<Rightarrow> RouteBody \<Rightarrow> RouteBody list \<Rightarrow> MigrationTaskBody list" where
  "routeTasks event current [] = []"
| "routeTasks event current (previous # previousRoutes) =
     (let (start, end, ok) = migrationTaskRange previous current in
      if \<not> ok then routeTasks event current previousRoutes
      else migrationTaskForRoute event previous current start end
             # routeTasks event current previousRoutes)"

definition migrationTasksForRoute ::
  "RebalanceEventBody \<Rightarrow> RouteBody list \<Rightarrow> RouteBody \<Rightarrow> MigrationTaskBody list" where
  "migrationTasksForRoute event previousRoutes current =
     (if emptyRouteScope current then [] else routeTasks event current previousRoutes)"

definition buildMigrationTasks ::
  "RebalanceEventBody \<Rightarrow> RouteBody list \<Rightarrow> RouteBody list \<Rightarrow> MigrationTaskBody list" where
  "buildMigrationTasks event previousRoutes currentRoutes =
     concat (map (migrationTasksForRoute event previousRoutes) currentRoutes)"

fun removeOldest :: "nat \<Rightarrow> 'a list \<Rightarrow> 'a list" where
  "removeOldest limit [] = []"
| "removeOldest limit (x # xs) =
     (if length (x # xs) > limit then removeOldest limit xs else x # xs)"

definition recordMigrationPlanLocked ::
  "ControlState \<Rightarrow> RebalanceEventBody \<Rightarrow> RouteBody list \<Rightarrow> RouteBody list \<Rightarrow> ControlState" where
  "recordMigrationPlanLocked s event previousRoutes currentRoutes =
     (let tasks = buildMigrationTasks event previousRoutes currentRoutes in
      if tasks = [] then s
      else
        let s = s\<lparr>nextPlan := nextPlan s + 1\<rparr>;
            tasks = map (\<lambda>(index, task). task\<lparr>mt_PlanID := nextPlan s, mt_TaskID := of_nat (index + 1)\<rparr>)
                      (enumerate 0 tasks);
            plan = \<lparr>mp_ID = nextPlan s, mp_Revision = ev_Revision event, mp_Reason = ev_Reason event,
                    mp_State = ''planned'', mp_CreatedAtUnix = ev_CreatedAtUnix event,
                    mp_Tasks = tasks\<rparr>
        in s\<lparr>plans := removeOldest maxMigrationPlans (plans s @ [plan])\<rparr>)"

definition recordRebalanceEventLocked ::
  "gotime \<Rightarrow> ControlState \<Rightarrow> rebalanceEvent \<Rightarrow> ControlState" where
  "recordRebalanceEventLocked now s event =
     (if rb_reason event = [] then s
      else
        let previousRoutes = lastRoutes s;
            currentRoutes = routesForNodes (sortedNodesLocked s) (sortedSpacesLocked s);
            s = s\<lparr>nextEvent := nextEvent s + 1\<rparr>;
            body = \<lparr>ev_ID = nextEvent s, ev_Revision = revision s,
                    ev_Type = rebalanceEventRouteTableChanged, ev_Reason = rb_reason event,
                    ev_NodeID = nd_NodeID (rb_node event), ev_Addr = nd_Addr (rb_node event),
                    ev_State = nd_State (rb_node event), ev_Namespace = rb_namespace event,
                    ev_Space = rb_space event, ev_RouteCount = length currentRoutes,
                    ev_CreatedAtUnix = UnixOf now\<rparr>;
            s = s\<lparr>events := removeOldest maxRebalanceEvents (events s @ [body])\<rparr>;
            s = recordMigrationPlanLocked s body previousRoutes currentRoutes
        in s\<lparr>lastRoutes := currentRoutes\<rparr>)"

section \<open>The catalog\<close>

definition CreateNamespace ::
  "gotime \<Rightarrow> ControlState \<Rightarrow> string \<Rightarrow> ControlState \<times> (control_error + CreateNamespaceResponse)" where
  "CreateNamespace now s namespace =
     (case normalizeNamespace namespace of
        Inl err \<Rightarrow> (s, Inl err)
      | Inr namespace \<Rightarrow>
          (case fmlookup (namespaces s) namespace of
             Some item \<Rightarrow> (s, Inr \<lparr>cn_Revision = revision s, cn_Namespace = item\<rparr>)
           | None \<Rightarrow>
               let item = \<lparr>ns_Namespace = namespace, ns_Version = 1, ns_CreatedAtUnix = UnixOf now\<rparr>;
                   s = s\<lparr>revision := revision s + 1,
                         namespaces := fmupd namespace item (namespaces s)\<rparr>
               in (s, Inr \<lparr>cn_Revision = revision s, cn_Namespace = item\<rparr>)))"

definition CreateSpace ::
  "gotime \<Rightarrow> ControlState \<Rightarrow> string \<Rightarrow> string \<Rightarrow> ControlState \<times> (control_error + CreateSpaceResponse)" where
  "CreateSpace now s namespace space =
     (case normalizeSpaceIdentity namespace space of
        Inl err \<Rightarrow> (s, Inl err)
      | Inr (namespace, space) \<Rightarrow>
          if fmlookup (namespaces s) namespace = None then (s, Inl (namespaceNotFound namespace))
          else (case fmlookup (spaces s) (namespace, space) of
                  Some item \<Rightarrow> (s, Inr \<lparr>csp_Revision = revision s, csp_Space = item\<rparr>)
                | None \<Rightarrow>
                    let item = \<lparr>sp_Namespace = namespace, sp_Space = space, sp_Version = 1,
                                sp_CreatedAtUnix = UnixOf now\<rparr>;
                        s = s\<lparr>revision := revision s + 1,
                              spaces := fmupd (namespace, space) item (spaces s)\<rparr>;
                        s = recordRebalanceEventLocked now s
                              \<lparr>rb_reason = rebalanceReasonSpaceCreated, rb_node = zeroNode,
                               rb_namespace = namespace, rb_space = space\<rparr>
                    in (s, Inr \<lparr>csp_Revision = revision s, csp_Space = item\<rparr>)))"

definition CreateEntity ::
  "gotime \<Rightarrow> ControlState \<Rightarrow> string \<Rightarrow> string \<Rightarrow> string \<Rightarrow>
     ControlState \<times> (control_error + CreateEntityResponse)" where
  "CreateEntity now s namespace space entity =
     (case normalizeEntityIdentity namespace space entity of
        Inl err \<Rightarrow> (s, Inl err)
      | Inr (namespace, space, entity) \<Rightarrow>
          if fmlookup (namespaces s) namespace = None then (s, Inl (namespaceNotFound namespace))
          else if fmlookup (spaces s) (namespace, space) = None
          then (s, Inl (spaceNotFound namespace space))
          else (case fmlookup (entities s) (namespace, space, entity) of
                  Some item \<Rightarrow> (s, Inr \<lparr>ce_Revision = revision s, ce_Entity = item\<rparr>)
                | None \<Rightarrow>
                    let item = \<lparr>en_Namespace = namespace, en_Space = space, en_Entity = entity,
                                en_CreatedAtUnix = UnixOf now\<rparr>;
                        s = s\<lparr>revision := revision s + 1,
                              entities := fmupd (namespace, space, entity) item (entities s)\<rparr>
                    in (s, Inr \<lparr>ce_Revision = revision s, ce_Entity = item\<rparr>)))"

definition BumpNamespaceVersion ::
  "ControlState \<Rightarrow> string \<Rightarrow> ControlState \<times> (control_error + BumpNamespaceVersionResponse)" where
  "BumpNamespaceVersion s namespace =
     (case normalizeNamespace namespace of
        Inl err \<Rightarrow> (s, Inl err)
      | Inr namespace \<Rightarrow>
          (case fmlookup (namespaces s) namespace of
             None \<Rightarrow> (s, Inl (namespaceNotFound namespace))
           | Some item \<Rightarrow>
               let item = item\<lparr>ns_Version := ns_Version item + 1\<rparr>;
                   s = s\<lparr>revision := revision s + 1,
                         namespaces := fmupd namespace item (namespaces s)\<rparr>
               in (s, Inr \<lparr>bn_Revision = revision s, bn_Namespace = item\<rparr>)))"

definition BumpSpaceVersion ::
  "ControlState \<Rightarrow> string \<Rightarrow> string \<Rightarrow> ControlState \<times> (control_error + BumpSpaceVersionResponse)" where
  "BumpSpaceVersion s namespace space =
     (case normalizeSpaceIdentity namespace space of
        Inl err \<Rightarrow> (s, Inl err)
      | Inr (namespace, space) \<Rightarrow>
          if fmlookup (namespaces s) namespace = None then (s, Inl (namespaceNotFound namespace))
          else (case fmlookup (spaces s) (namespace, space) of
                  None \<Rightarrow> (s, Inl (spaceNotFound namespace space))
                | Some item \<Rightarrow>
                    let item = item\<lparr>sp_Version := sp_Version item + 1\<rparr>;
                        s = s\<lparr>revision := revision s + 1,
                              spaces := fmupd (namespace, space) item (spaces s)\<rparr>
                    in (s, Inr \<lparr>bs_Revision = revision s, bs_Space = item\<rparr>)))"

definition Namespaces :: "ControlState \<Rightarrow> NamespacesBody" where
  "Namespaces s = \<lparr>nss_Revision = revision s, nss_Namespaces = sortedNamespacesLocked s\<rparr>"

definition Spaces :: "ControlState \<Rightarrow> SpacesBody" where
  "Spaces s = \<lparr>spl_Revision = revision s, spl_Spaces = sortedSpacesLocked s\<rparr>"

definition Entities :: "ControlState \<Rightarrow> EntitiesBody" where
  "Entities s = \<lparr>ens_Revision = revision s, ens_Entities = sortedEntitiesLocked s\<rparr>"

section \<open>Nodes\<close>

definition registerNodeAt ::
  "gotime \<Rightarrow> ControlState \<Rightarrow> string \<Rightarrow> string \<Rightarrow> gotime \<Rightarrow>
     ControlState \<times> (control_error + RegisterNodeResponse)" where
  "registerNodeAt clock s nodeID addr now =
     (case validateNodeIdentity nodeID addr of
        Inl err \<Rightarrow> (s, Inl err)
      | Inr (nodeID, addr) \<Rightarrow>
          let node = \<lparr>nd_NodeID = nodeID, nd_Addr = addr, nd_State = nodeStateHealthy,
                      nd_LastSeenUnix = UnixOf now\<rparr>;
              (previous, exists) =
                (case fmlookup (nodes s) nodeID of Some p \<Rightarrow> (p, True) | None \<Rightarrow> (zeroNode, False));
              (reason, changed) = nodeRegistrationEventReason previous exists node;
              s = (if changed then s\<lparr>revision := revision s + 1\<rparr> else s);
              s = s\<lparr>nodes := fmupd nodeID node (nodes s)\<rparr>;
              s = (if changed
                   then recordRebalanceEventLocked clock s
                          \<lparr>rb_reason = reason, rb_node = node, rb_namespace = [], rb_space = []\<rparr>
                   else s)
          in (s, Inr \<lparr>rn_Revision = revision s, rn_Node = node\<rparr>))"

definition RegisterNode ::
  "gotime \<Rightarrow> ControlState \<Rightarrow> string \<Rightarrow> string \<Rightarrow>
     ControlState \<times> (control_error + RegisterNodeResponse)" where
  "RegisterNode clock s nodeID addr = registerNodeAt clock s nodeID addr clock"

definition heartbeatAt ::
  "gotime \<Rightarrow> ControlState \<Rightarrow> string \<Rightarrow> string \<Rightarrow> gotime \<Rightarrow>
     ControlState \<times> (control_error + HeartbeatResponse)" where
  "heartbeatAt clock s nodeID addr now =
     (case validateNodeIdentity nodeID addr of
        Inl err \<Rightarrow> (s, Inl err)
      | Inr (nodeID, addr) \<Rightarrow>
          let (node, s, reason, changed) =
                (case fmlookup (nodes s) nodeID of
                   Some node \<Rightarrow> (node, s, [], False)
                 | None \<Rightarrow>
                     (\<lparr>nd_NodeID = nodeID, nd_Addr = addr, nd_State = nodeStateHealthy,
                       nd_LastSeenUnix = 0\<rparr>,
                      s\<lparr>revision := revision s + 1\<rparr>, rebalanceReasonNodeRegistered, True));
              (node, s, reason, changed) =
                (if nd_Addr node \<noteq> addr
                 then (node\<lparr>nd_Addr := addr\<rparr>, s\<lparr>revision := revision s + 1\<rparr>,
                       rebalanceReasonNodeAddress, True)
                 else (node, s, reason, changed));
              (node, s, reason, changed) =
                (if nd_State node \<noteq> nodeStateHealthy
                 then (node\<lparr>nd_State := nodeStateHealthy\<rparr>, s\<lparr>revision := revision s + 1\<rparr>,
                       rebalanceReasonNodeRecovered, True)
                 else (node, s, reason, changed));
              node = node\<lparr>nd_LastSeenUnix := UnixOf now\<rparr>;
              s = s\<lparr>nodes := fmupd nodeID node (nodes s)\<rparr>;
              s = (if changed
                   then recordRebalanceEventLocked clock s
                          \<lparr>rb_reason = reason, rb_node = node, rb_namespace = [], rb_space = []\<rparr>
                   else s)
          in (s, Inr \<lparr>hb_Revision = revision s, hb_Node = node\<rparr>))"

definition Heartbeat ::
  "gotime \<Rightarrow> ControlState \<Rightarrow> string \<Rightarrow> string \<Rightarrow>
     ControlState \<times> (control_error + HeartbeatResponse)" where
  "Heartbeat clock s nodeID addr = heartbeatAt clock s nodeID addr clock"

definition removeNode ::
  "gotime \<Rightarrow> ControlState \<Rightarrow> string \<Rightarrow> ControlState \<times> (control_error + RemoveNodeResponse)" where
  "removeNode clock s nodeID =
     (case normalizeNodeIdentity nodeID of
        Inl err \<Rightarrow> (s, Inl err)
      | Inr nodeID \<Rightarrow>
          (case fmlookup (nodes s) nodeID of
             None \<Rightarrow> (s, Inl ErrNodeNotFound)
           | Some node \<Rightarrow>
               let s = s\<lparr>nodes := fmdrop nodeID (nodes s)\<rparr>;
                   s = s\<lparr>revision := revision s + 1\<rparr>;
                   s = recordRebalanceEventLocked clock s
                         \<lparr>rb_reason = rebalanceReasonNodeRemoved, rb_node = node,
                          rb_namespace = [], rb_space = []\<rparr>
               in (s, Inr \<lparr>rm_Revision = revision s, rm_Node = node\<rparr>)))"

definition RemoveNode ::
  "gotime \<Rightarrow> ControlState \<Rightarrow> string \<Rightarrow> ControlState \<times> (control_error + RemoveNodeResponse)" where
  "RemoveNode clock s nodeID = removeNode clock s nodeID"

record LivenessResult =
  lv_Revision :: u64
  lv_Changed :: "NodeBody list"

type_synonym node_range = "(string, NodeBody) fmap \<Rightarrow> (string \<times> NodeBody) list"

definition livenessState :: "gotime \<Rightarrow> duration \<Rightarrow> duration \<Rightarrow> NodeBody \<Rightarrow> string" where
  "livenessState now suspectAfter deadAfter node =
     (let age = SubTime now (TimeUnix (nd_LastSeenUnix node)) in
      if deadAfter > 0 \<and> age \<ge> deadAfter then nodeStateDead
      else if suspectAfter > 0 \<and> age \<ge> suspectAfter then nodeStateSuspect
      else nd_State node)"

definition livenessStep ::
  "gotime \<Rightarrow> gotime \<Rightarrow> duration \<Rightarrow> duration \<Rightarrow> ControlState \<times> NodeBody list \<Rightarrow> string \<times> NodeBody \<Rightarrow>
     ControlState \<times> NodeBody list" where
  "livenessStep clock now suspectAfter deadAfter = (\<lambda>(s, changed) (nodeID, node).
     if nd_LastSeenUnix node \<le> 0 then (s, changed)
     else
       let nextState = livenessState now suspectAfter deadAfter node in
       if nd_State node = nextState then (s, changed)
       else
         let node = node\<lparr>nd_State := nextState\<rparr>;
             s = s\<lparr>nodes := fmupd nodeID node (nodes s)\<rparr>;
             s = s\<lparr>revision := revision s + 1\<rparr>;
             s = recordRebalanceEventLocked clock s
                   \<lparr>rb_reason = livenessRebalanceReason nextState, rb_node = node,
                    rb_namespace = [], rb_space = []\<rparr>
         in (s, changed @ [node]))"

definition AdvanceLiveness ::
  "node_range \<Rightarrow> gotime \<Rightarrow> ControlState \<Rightarrow> gotime \<Rightarrow> duration \<Rightarrow> duration \<Rightarrow>
     ControlState \<times> LivenessResult" where
  "AdvanceLiveness rng clock s now suspectAfter deadAfter =
     (let (s, changed) =
            foldl (livenessStep clock now suspectAfter deadAfter) (s, []) (rng (nodes s))
      in (s, \<lparr>lv_Revision = revision s, lv_Changed = changed\<rparr>))"

section \<open>Reads\<close>

definition State :: "ControlState \<Rightarrow> StateBody" where
  "State s = \<lparr>sb_ClusterID = clusterID s, sb_Revision = revision s, sb_Mode = controlModeBootstrap\<rparr>"

definition Nodes :: "ControlState \<Rightarrow> NodesBody" where
  "Nodes s = \<lparr>nds_Revision = revision s, nds_Nodes = sortedNodesLocked s\<rparr>"

definition Revision :: "ControlState \<Rightarrow> u64" where
  "Revision s = revision s"

definition RebalanceEvents :: "ControlState \<Rightarrow> RebalanceEventsBody" where
  "RebalanceEvents s = \<lparr>res_Revision = revision s, res_Events = events s\<rparr>"

definition MigrationPlans :: "ControlState \<Rightarrow> MigrationPlansBody" where
  "MigrationPlans s = \<lparr>mps_Revision = revision s, mps_Plans = plans s\<rparr>"

definition effectiveRoutesLocked :: "route_sort \<Rightarrow> ControlState \<Rightarrow> RouteBody list" where
  "effectiveRoutesLocked srt s =
     (let routes = routesForNodes (sortedNodesLocked s) (sortedSpacesLocked s)
      in applyMigrationRouteOverrides srt routes (plans s))"

definition RouteCount :: "route_sort \<Rightarrow> ControlState \<Rightarrow> nat" where
  "RouteCount srt s = length (effectiveRoutesLocked srt s)"

definition SnapshotOf :: "route_sort \<Rightarrow> ControlState \<Rightarrow> SnapshotBody" where
  "SnapshotOf srt s =
     \<lparr>cs_ClusterID = clusterID s, cs_Revision = revision s, cs_Mode = controlModeBootstrap,
      cs_Namespaces = sortedNamespacesLocked s, cs_Spaces = sortedSpacesLocked s,
      cs_Entities = sortedEntitiesLocked s, cs_Nodes = sortedNodesLocked s,
      cs_Routes = effectiveRoutesLocked srt s\<rparr>"

end
