(* ===== verification/Control_Migration.thy ===== *)
theory Control_Migration
  imports Control_State
begin

text \<open>
  The life of a migration task (\<open>control/migration_state.go\<close>): planned, claimed and running, cut
  over and cleaning up, done, or failed and claimable again after a delay; and the state of a plan
  derived from its tasks.

  The plans are a list that is copied, changed at one position and put back
  (\<open>replacePlansLocked\<close>). The code changes the task inside the slice that the copy shares with the
  stored plan; since the changed plans then replace the stored ones, the state after the operation
  is the same.
\<close>

record MigrationTaskResult =
  mr_Claimed :: bool
  mr_Task :: MigrationTaskBody

definition claimableMigrationTask :: "MigrationTaskBody \<Rightarrow> gotime \<Rightarrow> bool" where
  "claimableMigrationTask task now \<longleftrightarrow>
     (if mt_State task = migrationTaskPlanned \<or> mt_State task = migrationTaskCleanup then True
      else if mt_State task = migrationTaskFailed then mt_NextRetryUnix task \<le> UnixOf now
      else False)"

fun claimableLoop :: "gotime \<Rightarrow> nat \<Rightarrow> MigrationTaskBody list \<Rightarrow> nat option" where
  "claimableLoop now index [] = None"
| "claimableLoop now index (task # tasks) =
     (if claimableMigrationTask task now then Some index else claimableLoop now (index + 1) tasks)"

definition firstClaimableTask :: "MigrationPlanBody \<Rightarrow> gotime \<Rightarrow> nat option" where
  "firstClaimableTask plan now = claimableLoop now 0 (mp_Tasks plan)"

definition markTaskRunning :: "MigrationTaskBody \<Rightarrow> gotime \<Rightarrow> MigrationTaskBody" where
  "markTaskRunning task now =
     (let task = task\<lparr>mt_State := migrationTaskRunning, mt_Error := [], mt_NextRetryUnix := 0\<rparr> in
      if mt_StartedAtUnix task = 0 then task\<lparr>mt_StartedAtUnix := UnixOf now\<rparr> else task)"

fun planStateLoop :: "bool \<Rightarrow> bool \<Rightarrow> MigrationTaskBody list \<Rightarrow> string" where
  "planStateLoop hasRunning hasPlanned [] =
     (if hasRunning \<or> hasPlanned then migrationTaskRunning else migrationTaskDone)"
| "planStateLoop hasRunning hasPlanned (task # tasks) =
     (if mt_State task = migrationTaskFailed then migrationTaskFailed
      else if mt_State task = migrationTaskCleanup \<or> mt_State task = migrationTaskRunning
      then planStateLoop True hasPlanned tasks
      else if mt_State task = migrationTaskPlanned then planStateLoop hasRunning True tasks
      else planStateLoop hasRunning hasPlanned tasks)"

definition deriveMigrationPlanState :: "MigrationPlanBody \<Rightarrow> string" where
  "deriveMigrationPlanState plan = planStateLoop False False (mp_Tasks plan)"

text \<open>Putting a changed task back into its plan.\<close>

definition withTask :: "MigrationPlanBody \<Rightarrow> nat \<Rightarrow> MigrationTaskBody \<Rightarrow> MigrationPlanBody" where
  "withTask plan taskIndex task =
     (let plan = plan\<lparr>mp_Tasks := (mp_Tasks plan)[taskIndex := task]\<rparr>
      in plan\<lparr>mp_State := deriveMigrationPlanState plan\<rparr>)"

definition replacePlansLocked :: "ControlState \<Rightarrow> MigrationPlanBody list \<Rightarrow> ControlState" where
  "replacePlansLocked s ps = s\<lparr>plans := ps\<rparr>"

section \<open>Claiming\<close>

text \<open>The loop over the plans: the changed plans and the claimed task, if a plan has one.\<close>

fun claimLoop ::
  "gotime \<Rightarrow> MigrationPlanBody list \<Rightarrow> (MigrationPlanBody list \<times> MigrationTaskBody) option" where
  "claimLoop now [] = None"
| "claimLoop now (plan # ps) =
     (case firstClaimableTask plan now of
        Some taskIndex \<Rightarrow>
          let task = markTaskRunning (mp_Tasks plan ! taskIndex) now
          in Some (withTask plan taskIndex task # ps, task)
      | None \<Rightarrow>
          (case claimLoop now ps of
             None \<Rightarrow> None
           | Some (ps', task) \<Rightarrow> Some (plan # ps', task)))"

definition ClaimMigrationTask :: "ControlState \<Rightarrow> gotime \<Rightarrow> ControlState \<times> MigrationTaskResult" where
  "ClaimMigrationTask s now =
     (case claimLoop now (plans s) of
        None \<Rightarrow> (s, \<lparr>mr_Claimed = False, mr_Task = zeroTask\<rparr>)
      | Some (ps, task) \<Rightarrow>
          let s = replacePlansLocked s ps;
              s = s\<lparr>revision := revision s + 1\<rparr>
          in (s, \<lparr>mr_Claimed = True, mr_Task = task\<rparr>))"

definition timedOutMigrationTask :: "MigrationTaskBody \<Rightarrow> gotime \<Rightarrow> duration \<Rightarrow> bool" where
  "timedOutMigrationTask task now timeout \<longleftrightarrow>
     (if \<not> (mt_State task = migrationTaskRunning \<or> mt_State task = migrationTaskCleanup) then False
      else if mt_StartedAtUnix task = 0 then False
      else SubTime now (TimeUnix (mt_StartedAtUnix task)) \<ge> timeout)"

definition TimedOutMigrationTasks ::
  "ControlState \<Rightarrow> gotime \<Rightarrow> duration \<Rightarrow> MigrationTaskBody list" where
  "TimedOutMigrationTasks s now timeout =
     (if timeout \<le> 0 then []
      else concat (map (\<lambda>plan. filter (\<lambda>task. timedOutMigrationTask task now timeout) (mp_Tasks plan))
             (plans s)))"

section \<open>Updating a task\<close>

definition migrationTaskNotFound :: "u64 \<Rightarrow> u64 \<Rightarrow> control_error" where
  "migrationTaskNotFound planID taskID = ErrMigrationTaskNotFound planID taskID"

fun taskIndexLoop :: "u64 \<Rightarrow> nat \<Rightarrow> MigrationTaskBody list \<Rightarrow> nat option" where
  "taskIndexLoop taskID index [] = None"
| "taskIndexLoop taskID index (task # tasks) =
     (if mt_TaskID task \<noteq> taskID then taskIndexLoop taskID (index + 1) tasks else Some index)"

fun updateLoop ::
  "u64 \<Rightarrow> u64 \<Rightarrow> (MigrationTaskBody \<Rightarrow> MigrationTaskBody) \<Rightarrow> MigrationPlanBody list \<Rightarrow>
     (MigrationPlanBody list \<times> MigrationTaskBody) option" where
  "updateLoop planID taskID mutate [] = None"
| "updateLoop planID taskID mutate (plan # ps) =
     (case (if mp_ID plan \<noteq> planID then None else taskIndexLoop taskID 0 (mp_Tasks plan)) of
        Some taskIndex \<Rightarrow>
          let task = mutate (mp_Tasks plan ! taskIndex)
          in Some (withTask plan taskIndex task # ps, task)
      | None \<Rightarrow>
          (case updateLoop planID taskID mutate ps of
             None \<Rightarrow> None
           | Some (ps', task) \<Rightarrow> Some (plan # ps', task)))"

definition updateMigrationTask ::
  "ControlState \<Rightarrow> u64 \<Rightarrow> u64 \<Rightarrow> (MigrationTaskBody \<Rightarrow> MigrationTaskBody) \<Rightarrow>
     ControlState \<times> (control_error + MigrationTaskBody)" where
  "updateMigrationTask s planID taskID mutate =
     (case updateLoop planID taskID mutate (plans s) of
        None \<Rightarrow> (s, Inl (migrationTaskNotFound planID taskID))
      | Some (ps, task) \<Rightarrow>
          let s = replacePlansLocked s ps;
              s = s\<lparr>revision := revision s + 1\<rparr>
          in (s, Inr task))"

definition CompleteMigrationTask ::
  "ControlState \<Rightarrow> u64 \<Rightarrow> u64 \<Rightarrow> u64 \<Rightarrow> u64 \<Rightarrow> gotime \<Rightarrow>
     ControlState \<times> (control_error + MigrationTaskBody)" where
  "CompleteMigrationTask s planID taskID imported deleted now =
     updateMigrationTask s planID taskID (\<lambda>task.
       task\<lparr>mt_State := migrationTaskDone, mt_Error := [], mt_ImportedEntries := imported,
            mt_DeletedEntries := deleted, mt_FinishedAtUnix := UnixOf now\<rparr>)"

definition CutoverMigrationTask ::
  "ControlState \<Rightarrow> u64 \<Rightarrow> u64 \<Rightarrow> u64 \<Rightarrow> gotime \<Rightarrow>
     ControlState \<times> (control_error + MigrationTaskBody)" where
  "CutoverMigrationTask s planID taskID imported now =
     updateMigrationTask s planID taskID (\<lambda>task.
       task\<lparr>mt_State := migrationTaskCleanup, mt_Error := [], mt_ImportedEntries := imported,
            mt_CutoverAtUnix := UnixOf now, mt_NextRetryUnix := 0\<rparr>)"

definition migrationTaskNextRetryUnix :: "gotime \<Rightarrow> duration \<Rightarrow> int" where
  "migrationTaskNextRetryUnix now retryAfter =
     (if retryAfter \<le> 0 then UnixOf now
      else if retryAfter < nanos then UnixOf (now + nanos)
      else UnixOf (now + retryAfter))"

definition FailMigrationTask ::
  "ControlState \<Rightarrow> u64 \<Rightarrow> u64 \<Rightarrow> string \<Rightarrow> duration \<Rightarrow> gotime \<Rightarrow>
     ControlState \<times> (control_error + MigrationTaskBody)" where
  "FailMigrationTask s planID taskID message retryAfter now =
     updateMigrationTask s planID taskID (\<lambda>task.
       task\<lparr>mt_State := migrationTaskFailed, mt_Error := message,
            mt_Attempts := mt_Attempts task + 1,
            mt_NextRetryUnix := migrationTaskNextRetryUnix now retryAfter,
            mt_FinishedAtUnix := UnixOf now\<rparr>)"

section \<open>Lemmas\<close>

lemma deriveMigrationPlanState_spec:
  "deriveMigrationPlanState plan =
     (let states = mt_State ` set (mp_Tasks plan) in
      if migrationTaskFailed \<in> states then migrationTaskFailed
      else if states \<inter> {migrationTaskPlanned, migrationTaskRunning, migrationTaskCleanup} \<noteq> {}
      then migrationTaskRunning else migrationTaskDone)"
proof -
  have "planStateLoop r p tasks =
      (let states = mt_State ` set tasks in
       if migrationTaskFailed \<in> states then migrationTaskFailed
       else if r \<or> p \<or> states \<inter> {migrationTaskPlanned, migrationTaskRunning, migrationTaskCleanup} \<noteq> {}
       then migrationTaskRunning else migrationTaskDone)" for r p tasks
    by (induction tasks arbitrary: r p) (auto simp: task_states Let_def)
  then show ?thesis by (simp add: deriveMigrationPlanState_def)
qed

lemma claimableLoop_Some:
  assumes "claimableLoop now k tasks = Some i"
  obtains a x b where "tasks = a @ x # b" and "i = k + length a" and "claimableMigrationTask x now"
    and "\<forall>y\<in>set a. \<not> claimableMigrationTask y now"
proof -
  have "\<exists>a x b. tasks = a @ x # b \<and> i = k + length a \<and> claimableMigrationTask x now \<and>
      (\<forall>y\<in>set a. \<not> claimableMigrationTask y now)"
    using assms
  proof (induction tasks arbitrary: k)
    case Nil
    then show ?case by simp
  next
    case (Cons t ts)
    show ?case
    proof (cases "claimableMigrationTask t now")
      case True
      with Cons.prems show ?thesis by (intro exI [of _ "[]"]) auto
    next
      case False
      with Cons.prems have "claimableLoop now (k + 1) ts = Some i" by simp
      from Cons.IH [OF this] obtain a x b where
        "ts = a @ x # b" "i = k + 1 + length a" "claimableMigrationTask x now"
        "\<forall>y\<in>set a. \<not> claimableMigrationTask y now" by blast
      with False show ?thesis by (intro exI [of _ "t # a"] exI [of _ x] exI [of _ b]) auto
    qed
  qed
  with that show ?thesis by blast
qed

lemma claimableLoop_None:
  "claimableLoop now k tasks = None \<longleftrightarrow> (\<forall>y\<in>set tasks. \<not> claimableMigrationTask y now)"
  by (induction tasks arbitrary: k) auto

lemma withTask_simps [simp]:
  "mp_ID (withTask plan i task) = mp_ID plan"
  "mp_Tasks (withTask plan i task) = (mp_Tasks plan)[i := task]"
  "mp_State (withTask plan i task) = deriveMigrationPlanState (withTask plan i task)"
  "mp_Revision (withTask plan i task) = mp_Revision plan"
  by (simp_all add: withTask_def Let_def deriveMigrationPlanState_def)

text \<open>A claim takes the first claimable task in the order of the plans, and there is none otherwise.\<close>

lemma claimLoop_Some:
  assumes "claimLoop now ps = Some (ps', task)"
  obtains us plan vs a x b where "ps = us @ plan # vs" and "mp_Tasks plan = a @ x # b"
    and "claimableMigrationTask x now"
    and "\<forall>y\<in>set (concat (map mp_Tasks us)) \<union> set a. \<not> claimableMigrationTask y now"
    and "task = markTaskRunning x now" and "ps' = us @ withTask plan (length a) task # vs"
proof -
  have "\<exists>us plan vs a x b. ps = us @ plan # vs \<and> mp_Tasks plan = a @ x # b \<and>
      claimableMigrationTask x now \<and>
      (\<forall>y\<in>set (concat (map mp_Tasks us)) \<union> set a. \<not> claimableMigrationTask y now) \<and>
      task = markTaskRunning x now \<and> ps' = us @ withTask plan (length a) task # vs"
    using assms
  proof (induction ps arbitrary: ps')
    case Nil
    then show ?case by simp
  next
    case (Cons p ps)
    show ?case
    proof (cases "firstClaimableTask p now")
      case (Some i)
      with Cons.prems have t: "task = markTaskRunning (mp_Tasks p ! i) now"
        and ps': "ps' = withTask p i task # ps" by (auto simp: Let_def)
      from Some obtain a x b where "mp_Tasks p = a @ x # b" "i = length a"
        "claimableMigrationTask x now" "\<forall>y\<in>set a. \<not> claimableMigrationTask y now"
        unfolding firstClaimableTask_def by (auto elim!: claimableLoop_Some)
      with t ps' show ?thesis
        by (intro exI [of _ "[]"] exI [of _ p] exI [of _ ps] exI [of _ a] exI [of _ x] exI [of _ b]) auto
    next
      case None
      with Cons.prems obtain qs where q: "claimLoop now ps = Some (qs, task)" and ps': "ps' = p # qs"
        by (auto split: option.splits)
      from None have "\<forall>y\<in>set (mp_Tasks p). \<not> claimableMigrationTask y now"
        by (simp add: firstClaimableTask_def claimableLoop_None)
      moreover from Cons.IH [OF q] obtain us plan vs a x b where
        "ps = us @ plan # vs" "mp_Tasks plan = a @ x # b" "claimableMigrationTask x now"
        "\<forall>y\<in>set (concat (map mp_Tasks us)) \<union> set a. \<not> claimableMigrationTask y now"
        "task = markTaskRunning x now" "qs = us @ withTask plan (length a) task # vs" by blast
      ultimately show ?thesis using ps'
        by (intro exI [of _ "p # us"] exI [of _ plan] exI [of _ vs] exI [of _ a] exI [of _ x]
            exI [of _ b]) auto
    qed
  qed
  with that show ?thesis by blast
qed

lemma claimLoop_None:
  "claimLoop now ps = None \<longleftrightarrow>
     (\<forall>y\<in>set (concat (map mp_Tasks ps)). \<not> claimableMigrationTask y now)"
  by (induction ps)
    (auto simp: firstClaimableTask_def claimableLoop_None Let_def split: option.splits
      elim!: claimableLoop_Some)

lemma taskIndexLoop_Some:
  assumes "taskIndexLoop taskID k tasks = Some i"
  obtains a x b where "tasks = a @ x # b" and "i = k + length a" and "mt_TaskID x = taskID"
    and "taskID \<notin> mt_TaskID ` set a"
proof -
  have "\<exists>a x b. tasks = a @ x # b \<and> i = k + length a \<and> mt_TaskID x = taskID \<and>
      taskID \<notin> mt_TaskID ` set a"
    using assms
  proof (induction tasks arbitrary: k)
    case Nil
    then show ?case by simp
  next
    case (Cons t ts)
    show ?case
    proof (cases "mt_TaskID t = taskID")
      case True
      with Cons.prems show ?thesis by (intro exI [of _ "[]"]) auto
    next
      case False
      with Cons.prems have "taskIndexLoop taskID (k + 1) ts = Some i" by simp
      from Cons.IH [OF this] obtain a x b where
        "ts = a @ x # b" "i = k + 1 + length a" "mt_TaskID x = taskID" "taskID \<notin> mt_TaskID ` set a"
        by blast
      with False show ?thesis by (intro exI [of _ "t # a"] exI [of _ x] exI [of _ b]) auto
    qed
  qed
  with that show ?thesis by blast
qed

lemma taskIndexLoop_None:
  "taskIndexLoop taskID k tasks = None \<longleftrightarrow> taskID \<notin> mt_TaskID ` set tasks"
  by (induction tasks arbitrary: k) auto

lemma updateLoop_Some:
  assumes "updateLoop planID taskID mutate ps = Some (ps', task)"
  obtains us plan vs a x b where "ps = us @ plan # vs" and "mp_ID plan = planID"
    and "mp_Tasks plan = a @ x # b" and "mt_TaskID x = taskID"
    and "task = mutate x" and "ps' = us @ withTask plan (length a) task # vs"
proof -
  have "\<exists>us plan vs a x b. ps = us @ plan # vs \<and> mp_ID plan = planID \<and>
      mp_Tasks plan = a @ x # b \<and> mt_TaskID x = taskID \<and>
      task = mutate x \<and> ps' = us @ withTask plan (length a) task # vs"
    using assms
  proof (induction ps arbitrary: ps')
    case Nil
    then show ?case by simp
  next
    case (Cons p ps)
    let ?i = "if mp_ID p \<noteq> planID then None else taskIndexLoop taskID 0 (mp_Tasks p)"
    show ?case
    proof (cases ?i)
      case (Some i)
      then have id: "mp_ID p = planID" and ti: "taskIndexLoop taskID 0 (mp_Tasks p) = Some i"
        by (auto split: if_splits)
      with Cons.prems have t: "task = mutate (mp_Tasks p ! i)"
        and ps': "ps' = withTask p i task # ps" by (auto simp: Let_def)
      from ti obtain a x b where "mp_Tasks p = a @ x # b" "i = length a" "mt_TaskID x = taskID"
        by (auto elim!: taskIndexLoop_Some)
      with id t ps' show ?thesis
        by (intro exI [of _ "[]"] exI [of _ p] exI [of _ ps] exI [of _ a] exI [of _ x] exI [of _ b]) auto
    next
      case None
      with Cons.prems obtain qs where q: "updateLoop planID taskID mutate ps = Some (qs, task)"
        and ps': "ps' = p # qs" by (auto split: option.splits)
      from Cons.IH [OF q] obtain us plan vs a x b where
        "ps = us @ plan # vs" "mp_ID plan = planID" "mp_Tasks plan = a @ x # b"
        "mt_TaskID x = taskID" "task = mutate x"
        "qs = us @ withTask plan (length a) task # vs" by blast
      with ps' show ?thesis
        by (intro exI [of _ "p # us"] exI [of _ plan] exI [of _ vs] exI [of _ a] exI [of _ x]
            exI [of _ b]) auto
    qed
  qed
  with that show ?thesis by blast
qed

lemma updateLoop_None:
  "updateLoop planID taskID mutate ps = None \<longleftrightarrow>
     \<not> (\<exists>plan\<in>set ps. mp_ID plan = planID \<and> taskID \<in> mt_TaskID ` set (mp_Tasks plan))"
  by (induction ps) (auto simp: taskIndexLoop_None Let_def split: option.splits if_splits
      elim!: taskIndexLoop_Some)

end
