(* ===== verification/Control_FSM.thy ===== *)
theory Control_FSM
  imports Control_Migration
begin

text \<open>
  The state machine that the raft log drives (\<open>control/fsm.go\<close>): a command is applied by the
  handler of its type. With it the snapshot of the state and its restoration
  (\<open>control/snapshot.go\<close>, without the files), and the defaults of the liveness sweep
  (\<open>control/liveness.go\<close>).

  \<open>clock\<close> is the time of the machine that applies the command; it is read where the command carries
  no time of its own, and for the creation times in the catalog and in the events. \<open>rng\<close> is the
  order in which the map of nodes is visited by the liveness sweep.
\<close>

section \<open>Commands\<close>

definition CommandCreateNamespace :: string where "CommandCreateNamespace = ''create_namespace''"
definition CommandCreateSpace :: string where "CommandCreateSpace = ''create_space''"
definition CommandCreateEntity :: string where "CommandCreateEntity = ''create_entity''"
definition CommandBumpNamespace :: string where "CommandBumpNamespace = ''bump_namespace''"
definition CommandBumpSpace :: string where "CommandBumpSpace = ''bump_space''"
definition CommandRegisterNode :: string where "CommandRegisterNode = ''register_node''"
definition CommandHeartbeat :: string where "CommandHeartbeat = ''heartbeat''"
definition CommandRemoveNode :: string where "CommandRemoveNode = ''remove_node''"
definition CommandAdvanceNodeLiveness :: string where
  "CommandAdvanceNodeLiveness = ''advance_node_liveness''"
definition CommandClaimMigrationTask :: string where
  "CommandClaimMigrationTask = ''claim_migration_task''"
definition CommandCutoverMigrationTask :: string where
  "CommandCutoverMigrationTask = ''cutover_migration_task''"
definition CommandCompleteMigrationTask :: string where
  "CommandCompleteMigrationTask = ''complete_migration_task''"
definition CommandFailMigrationTask :: string where
  "CommandFailMigrationTask = ''fail_migration_task''"

record Command =
  cm_Type :: string
  cm_Namespace :: string
  cm_Space :: string
  cm_Entity :: string
  cm_NodeID :: string
  cm_Addr :: string
  cm_NowUnix :: int
  cm_SuspectAfterMS :: int
  cm_DeadAfterMS :: int
  cm_PlanID :: u64
  cm_TaskID :: u64
  cm_ImportedEntries :: u64
  cm_DeletedEntries :: u64
  cm_MigrationError :: string
  cm_RetryAfterMS :: int

definition zeroCommandBody :: Command where
  "zeroCommandBody =
     \<lparr>cm_Type = [], cm_Namespace = [], cm_Space = [], cm_Entity = [], cm_NodeID = [], cm_Addr = [],
      cm_NowUnix = 0, cm_SuspectAfterMS = 0, cm_DeadAfterMS = 0, cm_PlanID = 0, cm_TaskID = 0,
      cm_ImportedEntries = 0, cm_DeletedEntries = 0, cm_MigrationError = [], cm_RetryAfterMS = 0\<rparr>"

record ApplyResult =
  ar_CreateNamespace :: CreateNamespaceResponse
  ar_CreateSpace :: CreateSpaceResponse
  ar_CreateEntity :: CreateEntityResponse
  ar_BumpNamespace :: BumpNamespaceVersionResponse
  ar_BumpSpace :: BumpSpaceVersionResponse
  ar_RegisterNode :: RegisterNodeResponse
  ar_Heartbeat :: HeartbeatResponse
  ar_RemoveNode :: RemoveNodeResponse
  ar_Liveness :: LivenessResult
  ar_MigrationTask :: MigrationTaskResult

definition zeroApplyResult :: ApplyResult where
  "zeroApplyResult =
     \<lparr>ar_CreateNamespace = \<lparr>cn_Revision = 0, cn_Namespace = zeroNamespace\<rparr>,
      ar_CreateSpace = \<lparr>csp_Revision = 0, csp_Space = zeroSpace\<rparr>,
      ar_CreateEntity = \<lparr>ce_Revision = 0, ce_Entity = zeroEntity\<rparr>,
      ar_BumpNamespace = \<lparr>bn_Revision = 0, bn_Namespace = zeroNamespace\<rparr>,
      ar_BumpSpace = \<lparr>bs_Revision = 0, bs_Space = zeroSpace\<rparr>,
      ar_RegisterNode = \<lparr>rn_Revision = 0, rn_Node = zeroNode\<rparr>,
      ar_Heartbeat = \<lparr>hb_Revision = 0, hb_Node = zeroNode\<rparr>,
      ar_RemoveNode = \<lparr>rm_Revision = 0, rm_Node = zeroNode\<rparr>,
      ar_Liveness = \<lparr>lv_Revision = 0, lv_Changed = []\<rparr>,
      ar_MigrationTask = \<lparr>mr_Claimed = False, mr_Task = zeroTask\<rparr>\<rparr>"

section \<open>Handlers\<close>

text \<open>
  A handler returns the zero result with an error, so a result is the error or the answer in its
  field of \<open>ApplyResult\<close>.
\<close>

definition fsmResult ::
  "('a \<Rightarrow> ApplyResult) \<Rightarrow> ControlState \<times> (control_error + 'a) \<Rightarrow>
     ControlState \<times> (control_error + ApplyResult)" where
  "fsmResult f = (\<lambda>(s, r). (s, case r of Inl err \<Rightarrow> Inl err | Inr a \<Rightarrow> Inr (f a)))"

definition commandTime :: "gotime \<Rightarrow> Command \<Rightarrow> gotime" where
  "commandTime clock command =
     (if cm_NowUnix command > 0 then TimeUnix (cm_NowUnix command) else clock)"

definition milliseconds :: "int \<Rightarrow> duration" where
  "milliseconds ms = int64_wrap (ms * 1000000)"

definition applyCreateNamespace ::
  "gotime \<Rightarrow> ControlState \<Rightarrow> Command \<Rightarrow> ControlState \<times> (control_error + ApplyResult)" where
  "applyCreateNamespace clock s command =
     fsmResult (\<lambda>r. zeroApplyResult\<lparr>ar_CreateNamespace := r\<rparr>)
       (CreateNamespace clock s (cm_Namespace command))"

definition applyCreateSpace ::
  "gotime \<Rightarrow> ControlState \<Rightarrow> Command \<Rightarrow> ControlState \<times> (control_error + ApplyResult)" where
  "applyCreateSpace clock s command =
     fsmResult (\<lambda>r. zeroApplyResult\<lparr>ar_CreateSpace := r\<rparr>)
       (CreateSpace clock s (cm_Namespace command) (cm_Space command))"

definition applyCreateEntity ::
  "gotime \<Rightarrow> ControlState \<Rightarrow> Command \<Rightarrow> ControlState \<times> (control_error + ApplyResult)" where
  "applyCreateEntity clock s command =
     fsmResult (\<lambda>r. zeroApplyResult\<lparr>ar_CreateEntity := r\<rparr>)
       (CreateEntity clock s (cm_Namespace command) (cm_Space command) (cm_Entity command))"

definition applyBumpNamespace ::
  "ControlState \<Rightarrow> Command \<Rightarrow> ControlState \<times> (control_error + ApplyResult)" where
  "applyBumpNamespace s command =
     fsmResult (\<lambda>r. zeroApplyResult\<lparr>ar_BumpNamespace := r\<rparr>)
       (BumpNamespaceVersion s (cm_Namespace command))"

definition applyBumpSpace ::
  "ControlState \<Rightarrow> Command \<Rightarrow> ControlState \<times> (control_error + ApplyResult)" where
  "applyBumpSpace s command =
     fsmResult (\<lambda>r. zeroApplyResult\<lparr>ar_BumpSpace := r\<rparr>)
       (BumpSpaceVersion s (cm_Namespace command) (cm_Space command))"

definition applyRegisterNode ::
  "gotime \<Rightarrow> ControlState \<Rightarrow> Command \<Rightarrow> ControlState \<times> (control_error + ApplyResult)" where
  "applyRegisterNode clock s command =
     fsmResult (\<lambda>r. zeroApplyResult\<lparr>ar_RegisterNode := r\<rparr>)
       (registerNodeAt clock s (cm_NodeID command) (cm_Addr command) (commandTime clock command))"

definition applyHeartbeat ::
  "gotime \<Rightarrow> ControlState \<Rightarrow> Command \<Rightarrow> ControlState \<times> (control_error + ApplyResult)" where
  "applyHeartbeat clock s command =
     fsmResult (\<lambda>r. zeroApplyResult\<lparr>ar_Heartbeat := r\<rparr>)
       (heartbeatAt clock s (cm_NodeID command) (cm_Addr command) (commandTime clock command))"

definition applyRemoveNode ::
  "gotime \<Rightarrow> ControlState \<Rightarrow> Command \<Rightarrow> ControlState \<times> (control_error + ApplyResult)" where
  "applyRemoveNode clock s command =
     fsmResult (\<lambda>r. zeroApplyResult\<lparr>ar_RemoveNode := r\<rparr>) (RemoveNode clock s (cm_NodeID command))"

definition applyAdvanceNodeLiveness ::
  "node_range \<Rightarrow> gotime \<Rightarrow> ControlState \<Rightarrow> Command \<Rightarrow> ControlState \<times> (control_error + ApplyResult)" where
  "applyAdvanceNodeLiveness rng clock s command =
     (let (s, result) =
            AdvanceLiveness rng clock s (TimeUnix (cm_NowUnix command))
              (milliseconds (cm_SuspectAfterMS command)) (milliseconds (cm_DeadAfterMS command))
      in (s, Inr (zeroApplyResult\<lparr>ar_Liveness := result\<rparr>)))"

definition applyClaimMigrationTask ::
  "gotime \<Rightarrow> ControlState \<Rightarrow> Command \<Rightarrow> ControlState \<times> (control_error + ApplyResult)" where
  "applyClaimMigrationTask clock s command =
     (let (s, result) = ClaimMigrationTask s (commandTime clock command)
      in (s, Inr (zeroApplyResult\<lparr>ar_MigrationTask := result\<rparr>)))"

definition taskResult :: "MigrationTaskBody \<Rightarrow> ApplyResult" where
  "taskResult task =
     zeroApplyResult\<lparr>ar_MigrationTask := \<lparr>mr_Claimed = (mt_State task \<noteq> []), mr_Task = task\<rparr>\<rparr>"

definition applyCutoverMigrationTask ::
  "gotime \<Rightarrow> ControlState \<Rightarrow> Command \<Rightarrow> ControlState \<times> (control_error + ApplyResult)" where
  "applyCutoverMigrationTask clock s command =
     fsmResult taskResult
       (CutoverMigrationTask s (cm_PlanID command) (cm_TaskID command) (cm_ImportedEntries command)
         (commandTime clock command))"

definition applyCompleteMigrationTask ::
  "gotime \<Rightarrow> ControlState \<Rightarrow> Command \<Rightarrow> ControlState \<times> (control_error + ApplyResult)" where
  "applyCompleteMigrationTask clock s command =
     fsmResult taskResult
       (CompleteMigrationTask s (cm_PlanID command) (cm_TaskID command) (cm_ImportedEntries command)
         (cm_DeletedEntries command) (commandTime clock command))"

definition applyFailMigrationTask ::
  "gotime \<Rightarrow> ControlState \<Rightarrow> Command \<Rightarrow> ControlState \<times> (control_error + ApplyResult)" where
  "applyFailMigrationTask clock s command =
     fsmResult taskResult
       (FailMigrationTask s (cm_PlanID command) (cm_TaskID command) (cm_MigrationError command)
         (milliseconds (cm_RetryAfterMS command)) (commandTime clock command))"

definition Apply ::
  "node_range \<Rightarrow> gotime \<Rightarrow> ControlState \<Rightarrow> Command \<Rightarrow> ControlState \<times> (control_error + ApplyResult)" where
  "Apply rng clock s command =
     (if cm_Type command = CommandCreateNamespace then applyCreateNamespace clock s command
      else if cm_Type command = CommandCreateSpace then applyCreateSpace clock s command
      else if cm_Type command = CommandCreateEntity then applyCreateEntity clock s command
      else if cm_Type command = CommandBumpNamespace then applyBumpNamespace s command
      else if cm_Type command = CommandBumpSpace then applyBumpSpace s command
      else if cm_Type command = CommandRegisterNode then applyRegisterNode clock s command
      else if cm_Type command = CommandHeartbeat then applyHeartbeat clock s command
      else if cm_Type command = CommandRemoveNode then applyRemoveNode clock s command
      else if cm_Type command = CommandAdvanceNodeLiveness
      then applyAdvanceNodeLiveness rng clock s command
      else if cm_Type command = CommandClaimMigrationTask
      then applyClaimMigrationTask clock s command
      else if cm_Type command = CommandCutoverMigrationTask
      then applyCutoverMigrationTask clock s command
      else if cm_Type command = CommandCompleteMigrationTask
      then applyCompleteMigrationTask clock s command
      else if cm_Type command = CommandFailMigrationTask
      then applyFailMigrationTask clock s command
      else (s, Inl (ErrUnknownCommand (cm_Type command))))"

section \<open>Snapshots\<close>

record Snapshot =
  ss_ClusterID :: string
  ss_Revision :: u64
  ss_Mode :: string
  ss_Namespaces :: "NamespaceBody list"
  ss_Spaces :: "SpaceBody list"
  ss_Entities :: "EntityBody list"
  ss_Nodes :: "NodeBody list"
  ss_Events :: "RebalanceEventBody list"
  ss_Plans :: "MigrationPlanBody list"
  ss_NextEvent :: u64
  ss_NextPlan :: u64

definition ExportSnapshot :: "ControlState \<Rightarrow> Snapshot" where
  "ExportSnapshot s =
     \<lparr>ss_ClusterID = clusterID s, ss_Revision = revision s, ss_Mode = controlModeBootstrap,
      ss_Namespaces = sortedNamespacesLocked s, ss_Spaces = sortedSpacesLocked s,
      ss_Entities = sortedEntitiesLocked s, ss_Nodes = sortedNodesLocked s, ss_Events = events s,
      ss_Plans = plans s, ss_NextEvent = nextEvent s, ss_NextPlan = nextPlan s\<rparr>"

text \<open>A loop that validates each item and stores it under its normalised key.\<close>

fun restoreMap ::
  "('v \<Rightarrow> control_error + 'k) \<Rightarrow> ('k, 'v) fmap \<Rightarrow> 'v list \<Rightarrow> control_error + ('k, 'v) fmap" where
  "restoreMap key m [] = Inr m"
| "restoreMap key m (item # items) =
     (case key item of
        Inl err \<Rightarrow> Inl err
      | Inr k \<Rightarrow> restoreMap key (fmupd k item m) items)"

definition restoreNamespaces ::
  "NamespaceBody list \<Rightarrow> control_error + (string, NamespaceBody) fmap" where
  "restoreNamespaces items = restoreMap (\<lambda>item. normalizeNamespace (ns_Namespace item)) fmempty items"

definition restoreSpaces :: "SpaceBody list \<Rightarrow> control_error + (spaceRef, SpaceBody) fmap" where
  "restoreSpaces items =
     restoreMap (\<lambda>item. normalizeSpaceIdentity (sp_Namespace item) (sp_Space item)) fmempty items"

definition restoreEntities :: "EntityBody list \<Rightarrow> control_error + (entityRef, EntityBody) fmap" where
  "restoreEntities items =
     restoreMap (\<lambda>item. normalizeEntityIdentity (en_Namespace item) (en_Space item) (en_Entity item))
       fmempty items"

definition nodeKey :: "NodeBody \<Rightarrow> control_error + string" where
  "nodeKey item = map_sum id fst (validateNodeIdentity (nd_NodeID item) (nd_Addr item))"

definition restoreNodes :: "NodeBody list \<Rightarrow> control_error + (string, NodeBody) fmap" where
  "restoreNodes items = restoreMap nodeKey fmempty items"

fun maxEventID :: "RebalanceEventBody list \<Rightarrow> u64 \<Rightarrow> u64" where
  "maxEventID [] current = current"
| "maxEventID (item # items) current =
     maxEventID items (if ev_ID item > current then ev_ID item else current)"

fun maxPlanID :: "MigrationPlanBody list \<Rightarrow> u64 \<Rightarrow> u64" where
  "maxPlanID [] current = current"
| "maxPlanID (item # items) current =
     maxPlanID items (if mp_ID item > current then mp_ID item else current)"

definition RestoreSnapshot :: "ControlState \<Rightarrow> Snapshot \<Rightarrow> ControlState \<times> control_error option" where
  "RestoreSnapshot s snapshot =
     (case restoreNamespaces (ss_Namespaces snapshot) of
        Inl err \<Rightarrow> (s, Some err)
      | Inr ns \<Rightarrow>
          (case restoreSpaces (ss_Spaces snapshot) of
             Inl err \<Rightarrow> (s, Some err)
           | Inr sps \<Rightarrow>
               (case restoreEntities (ss_Entities snapshot) of
                  Inl err \<Rightarrow> (s, Some err)
                | Inr ens \<Rightarrow>
                    (case restoreNodes (ss_Nodes snapshot) of
                       Inl err \<Rightarrow> (s, Some err)
                     | Inr nds \<Rightarrow>
                         let s = s\<lparr>clusterID := ss_ClusterID snapshot,
                                   revision := ss_Revision snapshot, namespaces := ns,
                                   spaces := sps, entities := ens, nodes := nds,
                                   events := ss_Events snapshot, plans := ss_Plans snapshot,
                                   nextEvent := maxEventID (ss_Events snapshot) (ss_NextEvent snapshot),
                                   nextPlan := maxPlanID (ss_Plans snapshot) (ss_NextPlan snapshot)\<rparr>
                         in (s\<lparr>lastRoutes :=
                                 routesForNodes (sortedNodesLocked s) (sortedSpacesLocked s)\<rparr>, None)))))"

section \<open>The liveness sweep\<close>

record LivenessConfig =
  lc_SweepInterval :: duration
  lc_SuspectAfter :: duration
  lc_DeadAfter :: duration

definition normalizeLivenessConfig :: "LivenessConfig \<Rightarrow> LivenessConfig" where
  "normalizeLivenessConfig cfg =
     (let cfg = (if lc_SweepInterval cfg \<le> 0 then cfg\<lparr>lc_SweepInterval := 5 * nanos\<rparr> else cfg);
          cfg = (if lc_SuspectAfter cfg \<le> 0 then cfg\<lparr>lc_SuspectAfter := 15 * nanos\<rparr> else cfg);
          cfg = (if lc_DeadAfter cfg \<le> 0 then cfg\<lparr>lc_DeadAfter := 30 * nanos\<rparr> else cfg)
      in if lc_DeadAfter cfg < lc_SuspectAfter cfg
         then cfg\<lparr>lc_DeadAfter := lc_SuspectAfter cfg\<rparr> else cfg)"

end
