(* ===== verification/Control_Inv.thy ===== *)
theory Control_Inv
  imports Control_FSM
begin

text \<open>
  The invariant of the control state and its proof for every command: the catalog is closed (a space
  has its namespace, an entity its space), nodes are stored under their own identifiers with a valid
  address, the remembered route table is the one of the current nodes and spaces, and the histories
  are bounded, with well-formed migration tasks.
\<close>

section \<open>Reading a map in order\<close>

definition keyed :: "('v \<Rightarrow> 'k) \<Rightarrow> ('k, 'v) fmap \<Rightarrow> bool" where
  "keyed key m \<longleftrightarrow> (\<forall>k v. fmlookup m k = Some v \<longrightarrow> key v = k)"

lemma keyedD: "keyed key m \<Longrightarrow> fmlookup m k = Some v \<Longrightarrow> key v = k"
  by (simp add: keyed_def)

lemma keyed_empty [simp]: "keyed key fmempty"
  by (simp add: keyed_def)

lemma keyed_upd: "keyed key m \<Longrightarrow> key v = k \<Longrightarrow> keyed key (fmupd k v m)"
  by (simp add: keyed_def)

lemma keyed_drop: "keyed key m \<Longrightarrow> keyed key (fmdrop k m)"
  by (simp add: keyed_def)

lemma valuesOf_map:
  "map f (valuesOf m) = map (\<lambda>k. f (the (fmlookup m k))) (sorted_list_of_fset (fmdom m))"
  by (simp add: valuesOf_def sorted_list_of_fmap_def o_def)

lemma set_valuesOf: "set (valuesOf m) = {v. \<exists>k. fmlookup m k = Some v}"
proof -
  have "set (valuesOf m) = (\<lambda>k. the (fmlookup m k)) ` fset (fmdom m)"
    using valuesOf_map [of id m] by (simp add: sorted_list_of_fset.rep_eq)
  then show ?thesis by (force simp: image_iff)
qed

lemma keyed_values:
  assumes "keyed key m"
  shows "map key (valuesOf m) = sorted_list_of_fset (fmdom m)"
    and "sort_key key (valuesOf m) = valuesOf m"
proof -
  have "map (\<lambda>k. key (the (fmlookup m k))) (sorted_list_of_fset (fmdom m)) =
      map id (sorted_list_of_fset (fmdom m))"
    using assms by (intro map_cong) (auto simp: sorted_list_of_fset.rep_eq dest: keyedD)
  then show m: "map key (valuesOf m) = sorted_list_of_fset (fmdom m)" by (simp add: valuesOf_map)
  have "sorted (map key (valuesOf m))" unfolding m by (simp add: sorted_list_of_fset.rep_eq)
  then show "sort_key key (valuesOf m) = valuesOf m" by (rule sort_key_id_if_sorted)
qed

lemma valuesOf_upd_same:
  assumes "fmlookup m k = Some v" and "f w = f v"
  shows "map f (valuesOf (fmupd k w m)) = map f (valuesOf m)"
proof -
  have "fmdom (fmupd k w m) = fmdom m" using assms(1) by (auto simp: fmdomI finsert_absorb)
  then show ?thesis
    unfolding valuesOf_map using assms by (auto simp: sorted_list_of_fset.rep_eq)
qed

lemma distinct_keyed_values: "keyed key m \<Longrightarrow> distinct (map key (valuesOf m))"
  by (simp add: keyed_values(1) sorted_list_of_fset.rep_eq)

section \<open>What the route table depends on\<close>

definition nodeView :: "NodeBody \<Rightarrow> string \<times> string \<times> string" where
  "nodeView n = (nd_NodeID n, nd_Addr n, nd_State n)"

definition routeView :: "NodeBody \<Rightarrow> string \<times> string" where
  "routeView n = (nd_NodeID n, nd_Addr n)"

lemma routesForSpace_cong:
  assumes "map routeView xs = map routeView ys" and "spaceKey sp = spaceKey sp'"
  shows "routesForSpace xs sp = routesForSpace ys sp'"
proof -
  have len: "length xs = length ys" using assms(1) by (metis length_map)
  have nth: "nd_NodeID (xs ! i) = nd_NodeID (ys ! i)" "nd_Addr (xs ! i) = nd_Addr (ys ! i)"
    if "i < length xs" for i
    using assms(1) len that by (auto simp: list_eq_iff_nth_eq routeView_def)
  have "routeReplicas xs i k = routeReplicas ys i k" if "i < length xs" for i k
  proof -
    from that have "length ys > 0" using len by auto
    then have "(i + d) mod length ys < length xs" for d by (simp add: len)
    then show ?thesis by (simp add: routeReplicas_def Let_def len nth)
  qed
  then have "routesForSpace xs sp ! i = routesForSpace ys sp' ! i" if "i < length xs" for i
    using that assms(2) len
    by (simp add: routesForSpace_def nth nth_enumerate_eq split_beta Let_def spaceKey_def)
  moreover have "length (routesForSpace xs sp) = length (routesForSpace ys sp')"
    by (simp add: routesForSpace_def len)
  ultimately show ?thesis by (intro nth_equalityI) (auto simp: routesForSpace_def)
qed

lemma healthyNodes_view:
  "map nodeView xs = map nodeView ys \<Longrightarrow>
     map routeView (healthyNodes xs) = map routeView (healthyNodes ys)"
proof (induction xs arbitrary: ys)
  case Nil
  then show ?case by (simp add: healthyNodes_def)
next
  case (Cons x xs)
  then obtain y ys' where "ys = y # ys'" "nodeView x = nodeView y"
    "map nodeView xs = map nodeView ys'" by (cases ys) auto
  moreover from this have "nd_State x = nd_State y" "routeView x = routeView y"
    by (simp_all add: nodeView_def routeView_def)
  ultimately show ?case using Cons.IH [of ys'] by (simp add: healthyNodes_def)
qed

lemma routesForNodes_cong:
  assumes "map nodeView xs = map nodeView ys" and "map spaceKey sps = map spaceKey sps'"
  shows "routesForNodes xs sps = routesForNodes ys sps'"
proof -
  note h = healthyNodes_view [OF assms(1)]
  then have e: "healthyNodes xs = [] \<longleftrightarrow> healthyNodes ys = []" by (metis map_is_Nil_conv)
  have s: "sps = [] \<longleftrightarrow> sps' = []" using assms(2) by (metis map_is_Nil_conv)
  have "map (routesForSpace (healthyNodes xs)) sps = map (routesForSpace (healthyNodes ys)) sps'"
    using assms(2)
  proof (induction sps arbitrary: sps')
    case Nil
    then show ?case by simp
  next
    case (Cons a sps)
    then obtain b qs where "sps' = b # qs" "spaceKey a = spaceKey b" "map spaceKey sps = map spaceKey qs"
      by (cases sps') auto
    with Cons.IH [of qs] routesForSpace_cong [OF h, of a b] show ?case by simp
  qed
  with e s routesForSpace_cong [OF h refl] show ?thesis
    by (simp add: routesForNodes_def Let_def)
qed

lemma routesForNodes_targets:
  assumes "r \<in> set (routesForNodes xs sps)"
  shows "\<exists>n\<in>set xs. nd_State n = nodeStateHealthy \<and> target r = routeView n"
proof -
  have "\<exists>n\<in>set hs. target r = routeView n" if "r \<in> set (routesForSpace hs sp)" for hs sp
    using that
    by (auto simp: routesForSpace_def target_def routeView_def split_beta Let_def in_set_enumerate_eq
        dest!: nth_mem)
  with assms show ?thesis
    by (force simp: routesForNodes_def Let_def healthyNodes_def split: if_splits)
qed

section \<open>The invariant\<close>

definition catalog_inv :: "ControlState \<Rightarrow> bool" where
  "catalog_inv s \<longleftrightarrow>
     (\<forall>k item. fmlookup (namespaces s) k = Some item \<longrightarrow>
        ns_Namespace item = k \<and> normalizeNamespace k = Inr k) \<and>
     (\<forall>n sp item. fmlookup (spaces s) (n, sp) = Some item \<longrightarrow>
        spaceKey item = (n, sp) \<and> normalizeSpaceIdentity n sp = Inr (n, sp) \<and>
        fmlookup (namespaces s) n \<noteq> None) \<and>
     (\<forall>n sp e item. fmlookup (entities s) (n, sp, e) = Some item \<longrightarrow>
        entityKey item = (n, sp, e) \<and> normalizeEntityIdentity n sp e = Inr (n, sp, e) \<and>
        fmlookup (spaces s) (n, sp) \<noteq> None)"

definition nodes_inv :: "ControlState \<Rightarrow> bool" where
  "nodes_inv s \<longleftrightarrow>
     (\<forall>k n. fmlookup (nodes s) k = Some n \<longrightarrow>
        nd_NodeID n = k \<and> validateNodeIdentity k (nd_Addr n) = Inr (k, nd_Addr n) \<and>
        nd_State n \<in> {nodeStateHealthy, nodeStateSuspect, nodeStateDead})"

definition currentRoutes :: "ControlState \<Rightarrow> RouteBody list" where
  "currentRoutes s = routesForNodes (sortedNodesLocked s) (sortedSpacesLocked s)"

definition task_ok :: "MigrationTaskBody \<Rightarrow> bool" where
  "task_ok t \<longleftrightarrow>
     mt_VSlotStart t \<le> mt_VSlotEnd t \<and> mt_SourceNodeID t \<noteq> mt_TargetNodeID t \<and>
     mt_SourceAddr t \<noteq> [] \<and> mt_TargetAddr t \<noteq> [] \<and>
     mt_State t \<in> {migrationTaskPlanned, migrationTaskRunning, migrationTaskCleanup,
                    migrationTaskDone, migrationTaskFailed}"

definition plan_ok :: "MigrationPlanBody \<Rightarrow> bool" where
  "plan_ok p \<longleftrightarrow>
     mp_Tasks p \<noteq> [] \<and> list_all task_ok (mp_Tasks p) \<and>
     list_all (\<lambda>t. mt_PlanID t = mp_ID p) (mp_Tasks p) \<and>
     map mt_TaskID (mp_Tasks p) = map (\<lambda>i. of_nat (i + 1)) [0..<length (mp_Tasks p)] \<and>
     (mp_State p = deriveMigrationPlanState p \<or>
      mp_State p = migrationTaskPlanned \<and>
        list_all (\<lambda>t. mt_State t = migrationTaskPlanned) (mp_Tasks p))"

definition history_inv :: "ControlState \<Rightarrow> bool" where
  "history_inv s \<longleftrightarrow>
     length (events s) \<le> maxRebalanceEvents \<and> length (plans s) \<le> maxMigrationPlans \<and>
     list_all plan_ok (plans s)"

definition control_inv :: "ControlState \<Rightarrow> bool" where
  "control_inv s \<longleftrightarrow>
     catalog_inv s \<and> nodes_inv s \<and> history_inv s \<and> lastRoutes s = currentRoutes s"

lemma control_invD:
  assumes "control_inv s"
  shows "catalog_inv s" and "nodes_inv s" and "history_inv s" and "lastRoutes s = currentRoutes s"
  using assms by (simp_all add: control_inv_def)

lemma keyed_nodes: "nodes_inv s \<Longrightarrow> keyed nd_NodeID (nodes s)"
  by (simp add: nodes_inv_def keyed_def)

lemma keyed_namespaces: "catalog_inv s \<Longrightarrow> keyed ns_Namespace (namespaces s)"
  by (simp add: catalog_inv_def keyed_def)

lemma keyed_spaces: "catalog_inv s \<Longrightarrow> keyed spaceKey (spaces s)"
  by (auto simp: catalog_inv_def keyed_def)

lemma keyed_entities: "catalog_inv s \<Longrightarrow> keyed entityKey (entities s)"
  by (auto simp: catalog_inv_def keyed_def)

lemma sortedLocked_values:
  "nodes_inv s \<Longrightarrow> sortedNodesLocked s = valuesOf (nodes s)"
  "catalog_inv s \<Longrightarrow> sortedSpacesLocked s = valuesOf (spaces s)"
  "catalog_inv s \<Longrightarrow> sortedNamespacesLocked s = valuesOf (namespaces s)"
  "catalog_inv s \<Longrightarrow> sortedEntitiesLocked s = valuesOf (entities s)"
  by (simp_all add: sortedNodesLocked_def sortedSpacesLocked_def sortedNamespacesLocked_def
      sortedEntitiesLocked_def keyed_values(2) keyed_nodes keyed_spaces keyed_namespaces keyed_entities)

lemma route_addr:
  assumes "nodes_inv s" and "r \<in> set (currentRoutes s)"
  shows "rt_Addr r \<noteq> []"
proof -
  from routesForNodes_targets [OF assms(2) [unfolded currentRoutes_def]]
  obtain n where "n \<in> set (sortedNodesLocked s)" and t: "target r = routeView n" by blast
  then obtain k where "fmlookup (nodes s) k = Some n"
    by (auto simp: sortedLocked_values(1) [OF assms(1)] set_valuesOf)
  with assms(1) have "nd_Addr n \<noteq> []" by (auto simp: nodes_inv_def dest: validateNodeIdentity_Inr)
  with t show ?thesis by (simp add: target_def routeView_def)
qed

section \<open>Recording a rebalance\<close>

lemma removeOldest_drop: "removeOldest n xs = drop (length xs - n) xs"
  by (induction xs) (auto simp: Suc_diff_le)

lemma routeTasks_mem:
  assumes "t \<in> set (routeTasks event current previousRoutes)"
  obtains previous where "previous \<in> set previousRoutes"
    and "snd (snd (migrationTaskRange previous current))"
    and "t = migrationTaskForRoute event previous current
      (fst (migrationTaskRange previous current)) (fst (snd (migrationTaskRange previous current)))"
  using assms
  by (induction previousRoutes) (auto simp: split_beta Let_def split: if_splits)

lemma buildMigrationTasks_mem:
  assumes "t \<in> set (buildMigrationTasks event previousRoutes current)"
  obtains p c where "p \<in> set previousRoutes" and "c \<in> set current"
    and "\<not> emptyRouteScope c" and "sameRouteScope p c" and "rt_NodeID p \<noteq> rt_NodeID c"
    and "t = migrationTaskForRoute event p c
      (maxUint32 (rt_VSlotStart p) (rt_VSlotStart c)) (minUint32 (rt_VSlotEnd p) (rt_VSlotEnd c))"
    and "maxUint32 (rt_VSlotStart p) (rt_VSlotStart c) \<le> minUint32 (rt_VSlotEnd p) (rt_VSlotEnd c)"
proof -
  from assms obtain c where c: "c \<in> set current" "\<not> emptyRouteScope c"
    and "t \<in> set (routeTasks event c previousRoutes)"
    by (auto simp: buildMigrationTasks_def migrationTasksForRoute_def split: if_splits)
  from this(3) obtain p where "p \<in> set previousRoutes" "snd (snd (migrationTaskRange p c))"
    "t = migrationTaskForRoute event p c (fst (migrationTaskRange p c)) (fst (snd (migrationTaskRange p c)))"
    by (rule routeTasks_mem)
  with c that show ?thesis
    by (auto simp: migrationTaskRange_def routeOverlap_def Let_def split: if_splits)
qed

lemma plan_ok_planned:
  assumes "tasks \<noteq> []" and "\<And>t. t \<in> set tasks \<Longrightarrow> task_ok t \<and> mt_State t = migrationTaskPlanned"
  shows "plan_ok \<lparr>mp_ID = k, mp_Revision = r, mp_Reason = why, mp_State = ''planned'',
      mp_CreatedAtUnix = c,
      mp_Tasks = map (\<lambda>(index, task). task\<lparr>mt_PlanID := k, mt_TaskID := of_nat (index + 1)\<rparr>)
        (enumerate 0 tasks)\<rparr>"
proof -
  have "task_ok (t\<lparr>mt_PlanID := a, mt_TaskID := b\<rparr>) = task_ok t" for t a b by (simp add: task_ok_def)
  moreover have "map mt_TaskID (map (\<lambda>(index, task). task\<lparr>mt_PlanID := k, mt_TaskID := of_nat (index + 1)\<rparr>)
      (enumerate 0 tasks)) = map (\<lambda>i. of_nat (i + 1)) (map fst (enumerate 0 tasks))"
    by (simp add: o_def split_beta del: map_fst_enumerate)
  ultimately show ?thesis
    using assms by (auto simp: plan_ok_def list_all_iff task_states in_set_enumerate_eq)
qed

lemma recordMigrationPlan_frame:
  "recordMigrationPlanLocked s b p c = s\<lparr>nextPlan := nextPlan (recordMigrationPlanLocked s b p c),
     plans := plans (recordMigrationPlanLocked s b p c)\<rparr>"
  by (simp add: recordMigrationPlanLocked_def Let_def)

lemma recordMigrationPlan_history:
  assumes "history_inv s" and "\<And>r. r \<in> set old \<union> set new \<Longrightarrow> rt_Addr r \<noteq> []"
  shows "history_inv (recordMigrationPlanLocked s b old new)"
proof -
  have t: "task_ok t \<and> mt_State t = migrationTaskPlanned"
    if "t \<in> set (buildMigrationTasks b old new)" for t
    using that assms(2)
    by (elim buildMigrationTasks_mem) (simp add: task_ok_def migrationTaskForRoute_def zeroTask_def)
  have "list_all plan_ok (removeOldest maxMigrationPlans (plans s @ [p]))" if "plan_ok p" for p
    using assms(1) that by (auto simp: history_inv_def removeOldest_drop list_all_iff dest!: in_set_dropD)
  moreover have "length (removeOldest maxMigrationPlans (plans s @ [p])) \<le> maxMigrationPlans" for p
    by (simp add: removeOldest_drop)
  ultimately show ?thesis
    using assms(1) plan_ok_planned [OF _ t]
    by (auto simp: recordMigrationPlanLocked_def history_inv_def Let_def)
qed

lemma recordMigrationPlan_simps [simp]:
  "clusterID (recordMigrationPlanLocked s b p c) = clusterID s"
  "revision (recordMigrationPlanLocked s b p c) = revision s"
  "namespaces (recordMigrationPlanLocked s b p c) = namespaces s"
  "spaces (recordMigrationPlanLocked s b p c) = spaces s"
  "entities (recordMigrationPlanLocked s b p c) = entities s"
  "nodes (recordMigrationPlanLocked s b p c) = nodes s"
  "events (recordMigrationPlanLocked s b p c) = events s"
  "nextEvent (recordMigrationPlanLocked s b p c) = nextEvent s"
  by (simp_all add: recordMigrationPlanLocked_def Let_def)

lemma recordRebalanceEvent_simps [simp]:
  "clusterID (recordRebalanceEventLocked now s ev) = clusterID s"
  "revision (recordRebalanceEventLocked now s ev) = revision s"
  "namespaces (recordRebalanceEventLocked now s ev) = namespaces s"
  "spaces (recordRebalanceEventLocked now s ev) = spaces s"
  "entities (recordRebalanceEventLocked now s ev) = entities s"
  "nodes (recordRebalanceEventLocked now s ev) = nodes s"
  by (simp_all add: recordRebalanceEventLocked_def Let_def)

lemma currentRoutes_cong:
  "nodes s = nodes t \<Longrightarrow> spaces s = spaces t \<Longrightarrow> currentRoutes s = currentRoutes t"
  by (simp add: currentRoutes_def sortedNodesLocked_def sortedSpacesLocked_def)

lemma catalog_inv_cong:
  "namespaces s = namespaces t \<Longrightarrow> spaces s = spaces t \<Longrightarrow> entities s = entities t \<Longrightarrow>
     catalog_inv s = catalog_inv t"
  by (simp add: catalog_inv_def)

lemma nodes_inv_cong: "nodes s = nodes t \<Longrightarrow> nodes_inv s = nodes_inv t"
  by (simp add: nodes_inv_def)

lemma history_inv_cong: "events s = events t \<Longrightarrow> plans s = plans t \<Longrightarrow> history_inv s = history_inv t"
  by (simp add: history_inv_def)

lemmas inv_congs = catalog_inv_cong nodes_inv_cong history_inv_cong

lemma recordRebalanceEvent_lastRoutes:
  "rb_reason ev \<noteq> [] \<Longrightarrow> lastRoutes (recordRebalanceEventLocked now s ev) = currentRoutes s"
  by (simp add: recordRebalanceEventLocked_def Let_def currentRoutes_def sortedNodesLocked_def
      sortedSpacesLocked_def)

lemma recordRebalanceEvent_history:
  assumes "history_inv s" and "nodes_inv s" and "\<And>r. r \<in> set (lastRoutes s) \<Longrightarrow> rt_Addr r \<noteq> []"
  shows "history_inv (recordRebalanceEventLocked now s ev)"
proof -
  have "history_inv (s\<lparr>nextEvent := e, events := removeOldest maxRebalanceEvents (events s @ [b])\<rparr>)"
    for e b
    using assms(1) by (simp add: history_inv_def removeOldest_drop)
  from recordMigrationPlan_history [OF this, of "lastRoutes s" "currentRoutes s"]
  have "history_inv (recordMigrationPlanLocked
      (s\<lparr>nextEvent := e, events := removeOldest maxRebalanceEvents (events s @ [b])\<rparr>)
      c (lastRoutes s) (currentRoutes s))" for e b c
    using assms(3) route_addr [OF assms(2)] by blast
  then have h: "history_inv (recordMigrationPlanLocked
      (s\<lparr>nextEvent := e, events := removeOldest maxRebalanceEvents (events s @ [b])\<rparr>)
      c (lastRoutes s) (currentRoutes s)\<lparr>lastRoutes := l\<rparr>)" for e b c l
    by (simp add: history_inv_def)
  show ?thesis
    using assms(1) h
    by (simp add: recordRebalanceEventLocked_def Let_def currentRoutes_def [symmetric]
        sortedNodesLocked_def sortedSpacesLocked_def del: recordMigrationPlan_simps)
      (simp add: currentRoutes_def sortedNodesLocked_def sortedSpacesLocked_def)
qed

text \<open>A change of the nodes or spaces that is then recorded re-establishes the invariant.\<close>

lemma recorded_inv:
  assumes "control_inv s" and "catalog_inv t" and "nodes_inv t"
    and "events t = events s" and "plans t = plans s" and "lastRoutes t = lastRoutes s"
    and "rb_reason ev \<noteq> []"
  shows "control_inv (recordRebalanceEventLocked now t ev)"
proof -
  let ?r = "recordRebalanceEventLocked now t ev"
  have "history_inv t" using control_invD(3) [OF assms(1)] assms(4,5) by (simp add: history_inv_def)
  moreover have "rt_Addr r \<noteq> []" if "r \<in> set (lastRoutes t)" for r
    using that route_addr [OF control_invD(2) [OF assms(1)]] control_invD(4) [OF assms(1)] assms(6)
    by simp
  ultimately have "history_inv ?r" by (intro recordRebalanceEvent_history assms(3)) auto
  moreover have "catalog_inv ?r" and "nodes_inv ?r"
    using assms(2,3) by (simp_all add: catalog_inv_def nodes_inv_def)
  moreover have "lastRoutes ?r = currentRoutes ?r"
    using recordRebalanceEvent_lastRoutes [OF assms(7), of now t] currentRoutes_cong [of ?r t] by simp
  ultimately show ?thesis by (simp add: control_inv_def)
qed

text \<open>A change that keeps what the route table depends on keeps the invariant without a record.\<close>

lemma unrecorded_inv:
  assumes "control_inv s" and "catalog_inv t" and "nodes_inv t"
    and "events t = events s" and "plans t = plans s" and "lastRoutes t = lastRoutes s"
    and "map nodeView (valuesOf (nodes t)) = map nodeView (valuesOf (nodes s))"
    and "map spaceKey (valuesOf (spaces t)) = map spaceKey (valuesOf (spaces s))"
  shows "control_inv t"
proof -
  have "currentRoutes t = currentRoutes s"
    unfolding currentRoutes_def
    using assms(2,3,7,8) control_invD(1,2) [OF assms(1)]
    by (intro routesForNodes_cong) (simp_all add: sortedLocked_values)
  then show ?thesis
    using assms control_invD(3,4) [OF assms(1)] by (simp add: control_inv_def history_inv_def)
qed

lemma valuesOf_empty [simp]: "valuesOf fmempty = []"
  by (simp add: valuesOf_def sorted_list_of_fmap_def sorted_list_of_fset.rep_eq)

lemma control_inv_New: "control_inv (NewControlState c)"
  by (simp add: control_inv_def catalog_inv_def nodes_inv_def history_inv_def NewControlState_def
      currentRoutes_def sortedNodesLocked_def routesForNodes_def healthyNodes_def)

section \<open>Every operation keeps the invariant\<close>

lemma CreateNamespace_inv: "control_inv s \<Longrightarrow> control_inv (fst (CreateNamespace now s x))"
proof (cases "normalizeNamespace x")
  case (Inr n)
  assume s: "control_inv s"
  show ?thesis
  proof (cases "fmlookup (namespaces s) n")
    case None
    define t where "t = s\<lparr>revision := revision s + 1, namespaces := fmupd n
      \<lparr>ns_Namespace = n, ns_Version = 1, ns_CreatedAtUnix = UnixOf now\<rparr> (namespaces s)\<rparr>"
    have "catalog_inv t"
      using control_invD(1) [OF s] normalizeNamespace_Inr [OF Inr]
      by (auto simp: catalog_inv_def t_def)
    then have "control_inv t"
      by (rule unrecorded_inv [OF s])
        (use control_invD(2) [OF s] in \<open>simp_all add: t_def nodes_inv_def\<close>)
    with Inr None show ?thesis by (simp add: CreateNamespace_def t_def Let_def)
  qed (use s Inr in \<open>simp add: CreateNamespace_def\<close>)
qed (simp add: CreateNamespace_def)

lemma CreateSpace_inv: "control_inv s \<Longrightarrow> control_inv (fst (CreateSpace now s x y))"
proof (cases "normalizeSpaceIdentity x y")
  case (Inr k)
  assume s: "control_inv s"
  obtain n sp where k: "k = (n, sp)" by fastforce
  show ?thesis
  proof (cases "fmlookup (namespaces s) n \<noteq> None \<and> fmlookup (spaces s) (n, sp) = None")
    case True
    define t where "t = s\<lparr>revision := revision s + 1, spaces := fmupd (n, sp)
      \<lparr>sp_Namespace = n, sp_Space = sp, sp_Version = 1, sp_CreatedAtUnix = UnixOf now\<rparr> (spaces s)\<rparr>"
    have "catalog_inv t"
      using control_invD(1) [OF s] normalizeSpaceIdentity_Inr [OF Inr [unfolded k]] True
      by (auto simp: catalog_inv_def t_def spaceKey_def)
    then have "control_inv (recordRebalanceEventLocked now t
        \<lparr>rb_reason = rebalanceReasonSpaceCreated, rb_node = zeroNode, rb_namespace = n, rb_space = sp\<rparr>)"
      using control_invD(2) [OF s]
      by (intro recorded_inv [OF s]) (auto simp: t_def nodes_inv_def reason_defs)
    with Inr k True show ?thesis by (auto simp: CreateSpace_def t_def Let_def)
  qed (use s Inr k in \<open>auto simp: CreateSpace_def split: option.splits\<close>)
qed (simp add: CreateSpace_def)

lemma CreateEntity_inv: "control_inv s \<Longrightarrow> control_inv (fst (CreateEntity now s x y z))"
proof (cases "normalizeEntityIdentity x y z")
  case (Inr k)
  assume s: "control_inv s"
  obtain n sp e where k: "k = (n, sp, e)" by (metis prod_cases3)
  show ?thesis
  proof (cases "fmlookup (namespaces s) n \<noteq> None \<and> fmlookup (spaces s) (n, sp) \<noteq> None \<and>
      fmlookup (entities s) (n, sp, e) = None")
    case True
    define t where "t = s\<lparr>revision := revision s + 1, entities := fmupd (n, sp, e)
      \<lparr>en_Namespace = n, en_Space = sp, en_Entity = e, en_CreatedAtUnix = UnixOf now\<rparr> (entities s)\<rparr>"
    have "catalog_inv t"
      using control_invD(1) [OF s] normalizeEntityIdentity_Inr [OF Inr [unfolded k]] True
      by (auto simp: catalog_inv_def t_def entityKey_def)
    then have "control_inv t"
      by (rule unrecorded_inv [OF s])
        (use control_invD(2) [OF s] in \<open>simp_all add: t_def nodes_inv_def\<close>)
    with Inr k True show ?thesis by (auto simp: CreateEntity_def t_def Let_def)
  qed (use s Inr k in \<open>auto simp: CreateEntity_def split: option.splits\<close>)
qed (simp add: CreateEntity_def)

lemma BumpNamespaceVersion_inv: "control_inv s \<Longrightarrow> control_inv (fst (BumpNamespaceVersion s x))"
proof (cases "normalizeNamespace x")
  case (Inr n)
  assume s: "control_inv s"
  show ?thesis
  proof (cases "fmlookup (namespaces s) n")
    case (Some item)
    define t where "t = s\<lparr>revision := revision s + 1,
      namespaces := fmupd n (item\<lparr>ns_Version := ns_Version item + 1\<rparr>) (namespaces s)\<rparr>"
    have "catalog_inv t" using control_invD(1) [OF s] Some by (auto simp: catalog_inv_def t_def)
    then have "control_inv t"
      by (rule unrecorded_inv [OF s])
        (use control_invD(2) [OF s] in \<open>simp_all add: t_def nodes_inv_def\<close>)
    with Inr Some show ?thesis by (simp add: BumpNamespaceVersion_def t_def Let_def)
  qed (use s Inr in \<open>simp add: BumpNamespaceVersion_def\<close>)
qed (simp add: BumpNamespaceVersion_def)

lemma BumpSpaceVersion_inv: "control_inv s \<Longrightarrow> control_inv (fst (BumpSpaceVersion s x y))"
proof (cases "normalizeSpaceIdentity x y")
  case (Inr k)
  assume s: "control_inv s"
  obtain n sp where k: "k = (n, sp)" by fastforce
  show ?thesis
  proof (cases "fmlookup (namespaces s) n = None \<or> fmlookup (spaces s) (n, sp) = None")
    case False
    then obtain item where item: "fmlookup (spaces s) (n, sp) = Some item" by auto
    define t where "t = s\<lparr>revision := revision s + 1,
      spaces := fmupd (n, sp) (item\<lparr>sp_Version := sp_Version item + 1\<rparr>) (spaces s)\<rparr>"
    have "catalog_inv t"
      using control_invD(1) [OF s] item by (auto simp: catalog_inv_def t_def spaceKey_def)
    moreover have "map spaceKey (valuesOf (spaces t)) = map spaceKey (valuesOf (spaces s))"
      using item by (simp add: t_def valuesOf_upd_same spaceKey_def)
    ultimately show ?thesis
      using Inr k False item unrecorded_inv [OF s, of t] control_invD(2) [OF s]
      by (auto simp: BumpSpaceVersion_def t_def Let_def nodes_inv_def)
  qed (use s Inr k in \<open>auto simp: BumpSpaceVersion_def split: option.splits\<close>)
qed (simp add: BumpSpaceVersion_def)

lemma nodes_inv_upd:
  assumes "nodes_inv s" and "nodes t = fmupd k n (nodes s)" and "nd_NodeID n = k"
    and "validateNodeIdentity k (nd_Addr n) = Inr (k, nd_Addr n)"
    and "nd_State n \<in> {nodeStateHealthy, nodeStateSuspect, nodeStateDead}"
  shows "nodes_inv t"
  using assms by (auto simp: nodes_inv_def)

lemma registerNodeAt_inv: "control_inv s \<Longrightarrow> control_inv (fst (registerNodeAt clock s x y now))"
proof (cases "validateNodeIdentity x y")
  case (Inr ka)
  assume s: "control_inv s"
  obtain k a where ka: "ka = (k, a)" by fastforce
  note valid = validateNodeIdentity_idem [OF Inr [unfolded ka]]
  define n where "n = \<lparr>nd_NodeID = k, nd_Addr = a, nd_State = nodeStateHealthy,
    nd_LastSeenUnix = UnixOf now\<rparr>"
  define t where "t r = s\<lparr>revision := r, nodes := fmupd k n (nodes s)\<rparr>" for r
  have nt: "nodes_inv (t r)" for r
    by (rule nodes_inv_upd [OF control_invD(2) [OF s], of _ k n]) (auto simp: t_def n_def valid)
  have ct: "catalog_inv (t r)" for r using control_invD(1) [OF s] by (simp add: t_def catalog_inv_def)
  have rec: "control_inv (recordRebalanceEventLocked clock (t r) ev)" if "rb_reason ev \<noteq> []" for r ev
    by (rule recorded_inv [OF s ct nt]) (auto simp: t_def that)
  have "control_inv (s\<lparr>nodes := fmupd k n (nodes s)\<rparr>)"
    if "fmlookup (nodes s) k = Some p" "nd_Addr p = a" "nd_State p = nodeStateHealthy" for p
  proof -
    have "nodeView n = nodeView p"
      using that control_invD(2) [OF s] by (auto simp: n_def nodeView_def nodes_inv_def)
    then have "control_inv (t (revision s))"
      by (intro unrecorded_inv [OF s ct nt]) (simp_all add: t_def valuesOf_upd_same [OF that(1)])
    then show ?thesis by (simp add: t_def)
  qed
  with rec Inr ka show ?thesis
    by (auto simp: registerNodeAt_def nodeRegistrationEventReason_def Let_def t_def n_def reason_defs
        split: option.splits)
qed (simp add: registerNodeAt_def)

text \<open>A heartbeat that is accepted, in one piece.\<close>

definition heartbeatChanges :: "NodeBody option \<Rightarrow> string \<Rightarrow> u64" where
  "heartbeatChanges old addr =
     (case old of
        None \<Rightarrow> 1
      | Some n \<Rightarrow> of_bool (nd_Addr n \<noteq> addr) + of_bool (nd_State n \<noteq> nodeStateHealthy))"

definition heartbeatReason :: "NodeBody option \<Rightarrow> string \<Rightarrow> string" where
  "heartbeatReason old addr =
     (case old of
        None \<Rightarrow> rebalanceReasonNodeRegistered
      | Some n \<Rightarrow>
          if nd_State n \<noteq> nodeStateHealthy then rebalanceReasonNodeRecovered
          else if nd_Addr n \<noteq> addr then rebalanceReasonNodeAddress
          else [])"

definition healthyNode :: "string \<Rightarrow> string \<Rightarrow> gotime \<Rightarrow> NodeBody" where
  "healthyNode k addr now =
     \<lparr>nd_NodeID = k, nd_Addr = addr, nd_State = nodeStateHealthy, nd_LastSeenUnix = UnixOf now\<rparr>"

lemma heartbeatAt_Inr:
  assumes "validateNodeIdentity x y = Inr (k, a)" and "nodes_inv s"
  shows "heartbeatAt clock s x y now =
    (let old = fmlookup (nodes s) k;
         node = healthyNode k a now;
         t = s\<lparr>revision := revision s + heartbeatChanges old a, nodes := fmupd k node (nodes s)\<rparr>;
         t = recordRebalanceEventLocked clock t
               \<lparr>rb_reason = heartbeatReason old a, rb_node = node, rb_namespace = [], rb_space = []\<rparr>
     in (t, Inr \<lparr>hb_Revision = revision t, hb_Node = node\<rparr>))"
proof -
  have id: "nd_NodeID n = k" if "fmlookup (nodes s) k = Some n" for n
    using assms(2) that by (simp add: nodes_inv_def)
  show ?thesis
  proof (cases "fmlookup (nodes s) k")
    case None
    then show ?thesis
      by (simp add: heartbeatAt_def assms(1) Let_def heartbeatChanges_def heartbeatReason_def
          healthyNode_def)
  next
    case (Some n)
    then obtain ad st ls where n: "fmlookup (nodes s) k =
        Some \<lparr>nd_NodeID = k, nd_Addr = ad, nd_State = st, nd_LastSeenUnix = ls\<rparr>"
      using id [OF Some] by (cases n) simp
    have "recordRebalanceEventLocked clock t \<lparr>rb_reason = [], rb_node = m, rb_namespace = [], rb_space = []\<rparr> = t"
      for t m by (simp add: recordRebalanceEventLocked_def)
    then show ?thesis
      by (cases "ad = a"; cases "st = nodeStateHealthy")
        (simp_all add: heartbeatAt_def assms(1) n Let_def heartbeatChanges_def heartbeatReason_def
          healthyNode_def add.commute [of "revision s" 2])
  qed
qed

lemma heartbeatAt_inv: "control_inv s \<Longrightarrow> control_inv (fst (heartbeatAt clock s x y now))"
proof (cases "validateNodeIdentity x y")
  case (Inr ka)
  assume s: "control_inv s"
  obtain k a where ka: "ka = (k, a)" by fastforce
  note v = Inr [unfolded ka]
  let ?old = "fmlookup (nodes s) k"
  define t where "t = s\<lparr>revision := revision s + heartbeatChanges ?old a,
    nodes := fmupd k (healthyNode k a now) (nodes s)\<rparr>"
  have nt: "nodes_inv t"
    by (rule nodes_inv_upd [OF control_invD(2) [OF s], of _ k "healthyNode k a now"])
      (auto simp: t_def healthyNode_def validateNodeIdentity_idem [OF v])
  have ct: "catalog_inv t" using control_invD(1) [OF s] by (simp add: t_def catalog_inv_def)
  have "control_inv (recordRebalanceEventLocked clock t \<lparr>rb_reason = heartbeatReason ?old a,
      rb_node = healthyNode k a now, rb_namespace = [], rb_space = []\<rparr>)"
  proof (cases "heartbeatReason ?old a = []")
    case True
    then obtain p where p: "?old = Some p" "nd_Addr p = a" "nd_State p = nodeStateHealthy"
      by (auto simp: heartbeatReason_def reason_defs split: option.splits if_splits)
    then have "nodeView (healthyNode k a now) = nodeView p"
      using control_invD(2) [OF s] by (auto simp: healthyNode_def nodeView_def nodes_inv_def)
    then have "control_inv t"
      by (intro unrecorded_inv [OF s ct nt]) (simp_all add: t_def valuesOf_upd_same [OF p(1)])
    with True show ?thesis by (simp add: recordRebalanceEventLocked_def)
  next
    case False
    then show ?thesis by (intro recorded_inv [OF s ct nt]) (simp_all add: t_def)
  qed
  then show ?thesis by (simp add: heartbeatAt_Inr [OF v control_invD(2) [OF s]] t_def Let_def)
qed (simp add: heartbeatAt_def)

lemma removeNode_inv: "control_inv s \<Longrightarrow> control_inv (fst (removeNode clock s x))"
proof (cases "normalizeNodeIdentity x")
  case (Inr k)
  assume s: "control_inv s"
  show ?thesis
  proof (cases "fmlookup (nodes s) k")
    case (Some n)
    define t where "t = s\<lparr>nodes := fmdrop k (nodes s), revision := revision s + 1\<rparr>"
    have "nodes_inv t" and "catalog_inv t"
      using control_invD(1,2) [OF s] by (auto simp: t_def nodes_inv_def catalog_inv_def)
    then have "control_inv (recordRebalanceEventLocked clock t
        \<lparr>rb_reason = rebalanceReasonNodeRemoved, rb_node = n, rb_namespace = [], rb_space = []\<rparr>)"
      by (intro recorded_inv [OF s]) (simp_all add: t_def reason_defs)
    with Inr Some show ?thesis by (simp add: removeNode_def t_def Let_def)
  qed (use s Inr in \<open>simp add: removeNode_def\<close>)
qed (simp add: removeNode_def)

lemma livenessReason_not_Nil [simp]: "livenessRebalanceReason st \<noteq> []"
  by (simp add: livenessRebalanceReason_def reason_defs)

lemma livenessStep_inv:
  assumes s: "control_inv s" and n: "fmlookup (nodes s) k = Some n"
  shows "control_inv (fst (livenessStep clock now sa da (s, c) (k, n)))"
proof (cases "nd_LastSeenUnix n \<le> 0 \<or> nd_State n = livenessState now sa da n")
  case True
  then show ?thesis using s by (auto simp: livenessStep_def Let_def)
next
  case False
  define m where "m = n\<lparr>nd_State := livenessState now sa da n\<rparr>"
  define t where "t = s\<lparr>nodes := fmupd k m (nodes s), revision := revision s + 1\<rparr>"
  have "nd_State m \<in> {nodeStateHealthy, nodeStateSuspect, nodeStateDead}"
    using control_invD(2) [OF s] n
    by (auto simp: m_def livenessState_def Let_def nodes_inv_def split: if_splits)
  then have "nodes_inv t"
    using control_invD(2) [OF s] n
    by (intro nodes_inv_upd [OF control_invD(2) [OF s], of _ k m])
      (auto simp: t_def m_def nodes_inv_def)
  moreover have "catalog_inv t" using control_invD(1) [OF s] by (simp add: t_def catalog_inv_def)
  ultimately have "control_inv (recordRebalanceEventLocked clock t
      \<lparr>rb_reason = livenessRebalanceReason (livenessState now sa da n), rb_node = m,
       rb_namespace = [], rb_space = []\<rparr>)"
    by (intro recorded_inv [OF s]) (simp_all add: t_def)
  with False show ?thesis by (simp add: livenessStep_def t_def m_def Let_def)
qed

lemma livenessStep_nodes:
  "nodes (fst (livenessStep clock now sa da (s, c) (k, n))) =
     (if nd_LastSeenUnix n \<le> 0 \<or> nd_State n = livenessState now sa da n then nodes s
      else fmupd k (n\<lparr>nd_State := livenessState now sa da n\<rparr>) (nodes s))"
  by (auto simp: livenessStep_def Let_def)

lemma liveness_foldl_inv:
  assumes "control_inv s" and "distinct (map fst kns)"
    and "\<And>k n. (k, n) \<in> set kns \<Longrightarrow> fmlookup (nodes s) k = Some n"
  shows "control_inv (fst (foldl (livenessStep clock now sa da) (s, c) kns))"
  using assms
proof (induction kns arbitrary: s c)
  case Nil
  then show ?case by simp
next
  case (Cons kn kns)
  obtain k n where kn: "kn = (k, n)" by fastforce
  obtain t d where td: "livenessStep clock now sa da (s, c) kn = (t, d)" by fastforce
  have "control_inv t"
    using livenessStep_inv [OF Cons.prems(1), of k n] Cons.prems(3) [of k n] td
    by (metis fst_conv kn list.set_intros(1))
  moreover have "fmlookup (nodes t) k' = Some n'" if "(k', n') \<in> set kns" for k' n'
  proof -
    have "k' \<noteq> k" using Cons.prems(2) that kn by (auto simp: rev_image_eqI)
    then show ?thesis
      using Cons.prems(3) [of k' n'] that td livenessStep_nodes [of clock now sa da s c k n]
      by (auto simp: kn split: if_splits)
  qed
  ultimately show ?case using Cons.IH [of t d] Cons.prems(2) td by simp
qed

lemma AdvanceLiveness_inv:
  assumes "control_inv s" and "enumerates rng"
  shows "control_inv (fst (AdvanceLiveness rng clock s now sa da))"
  using liveness_foldl_inv [OF assms(1) enumeratesD(1) [OF assms(2), of "nodes s"],
      of clock now sa da "[]"] enumerates_mem [OF assms(2)]
  by (simp add: AdvanceLiveness_def split_beta Let_def)

section \<open>Migration tasks\<close>

lemma plan_ok_withTask:
  assumes "plan_ok p" and "mp_Tasks p = a @ x # b" and "task_ok y"
    and "mt_PlanID y = mt_PlanID x" and "mt_TaskID y = mt_TaskID x"
  shows "plan_ok (withTask p (length a) y)"
  using assms by (auto simp: plan_ok_def list_all_iff)

lemma plans_inv:
  assumes "control_inv s" and "length ps = length (plans s)" and "list_all plan_ok ps"
  shows "control_inv (replacePlansLocked s ps\<lparr>revision := r\<rparr>)"
  using assms currentRoutes_cong [of "replacePlansLocked s ps\<lparr>revision := r\<rparr>" s]
  by (auto simp: control_inv_def catalog_inv_def nodes_inv_def history_inv_def replacePlansLocked_def)

lemma ClaimMigrationTask_inv:
  assumes s: "control_inv s"
  shows "control_inv (fst (ClaimMigrationTask s now))"
proof (cases "claimLoop now (plans s)")
  case None
  then show ?thesis using s by (simp add: ClaimMigrationTask_def)
next
  case (Some r)
  obtain ps task where r: "r = (ps, task)" by fastforce
  from Some [unfolded r] obtain us p vs a x b where ps: "plans s = us @ p # vs"
    and p: "mp_Tasks p = a @ x # b" and t: "task = markTaskRunning x now"
    and ps': "ps = us @ withTask p (length a) task # vs" by (rule claimLoop_Some) blast
  have ok: "list_all plan_ok (plans s)" using control_invD(3) [OF s] by (simp add: history_inv_def)
  then have "plan_ok p" by (simp add: ps)
  then have "task_ok x" using p by (simp add: plan_ok_def)
  then have "task_ok task" by (simp add: t task_ok_def markTaskRunning_def Let_def)
  then have "plan_ok (withTask p (length a) task)"
    by (intro plan_ok_withTask [OF \<open>plan_ok p\<close> p]) (simp_all add: t markTaskRunning_def Let_def)
  then have "control_inv (replacePlansLocked s ps\<lparr>revision := revision s + 1\<rparr>)"
    using ok by (intro plans_inv [OF s]) (auto simp: ps ps')
  with Some r show ?thesis by (simp add: ClaimMigrationTask_def Let_def replacePlansLocked_def)
qed

lemma updateMigrationTask_inv:
  assumes s: "control_inv s"
    and m: "\<And>t. task_ok t \<Longrightarrow> task_ok (mutate t)" "\<And>t. mt_PlanID (mutate t) = mt_PlanID t"
      "\<And>t. mt_TaskID (mutate t) = mt_TaskID t"
  shows "control_inv (fst (updateMigrationTask s planID taskID mutate))"
proof (cases "updateLoop planID taskID mutate (plans s)")
  case None
  then show ?thesis using s by (simp add: updateMigrationTask_def)
next
  case (Some r)
  obtain ps task where r: "r = (ps, task)" by fastforce
  from Some [unfolded r] obtain us p vs a x b where ps: "plans s = us @ p # vs"
    and p: "mp_Tasks p = a @ x # b" and t: "task = mutate x"
    and ps': "ps = us @ withTask p (length a) task # vs" by (rule updateLoop_Some) blast
  have ok: "list_all plan_ok (plans s)" using control_invD(3) [OF s] by (simp add: history_inv_def)
  then have "plan_ok p" by (simp add: ps)
  then have "task_ok x" using p by (simp add: plan_ok_def)
  then have "plan_ok (withTask p (length a) task)"
    by (intro plan_ok_withTask [OF \<open>plan_ok p\<close> p]) (simp_all add: t m)
  then have "control_inv (replacePlansLocked s ps\<lparr>revision := revision s + 1\<rparr>)"
    using ok by (intro plans_inv [OF s]) (auto simp: ps ps')
  with Some r show ?thesis by (simp add: updateMigrationTask_def Let_def replacePlansLocked_def)
qed

lemma task_updates_inv:
  assumes "control_inv s"
  shows "control_inv (fst (CompleteMigrationTask s p t i d now))"
    and "control_inv (fst (CutoverMigrationTask s p t i now))"
    and "control_inv (fst (FailMigrationTask s p t msg after now))"
  unfolding CompleteMigrationTask_def CutoverMigrationTask_def FailMigrationTask_def
  by (rule updateMigrationTask_inv [OF assms]; simp add: task_ok_def)+

section \<open>The state machine\<close>

lemma fst_fsmResult [simp]: "fst (fsmResult f r) = fst r"
  by (cases r) (simp add: fsmResult_def)

lemma Apply_inv:
  assumes "control_inv s" and "enumerates rng"
  shows "control_inv (fst (Apply rng clock s command))"
  using assms
  by (auto simp: Apply_def applyCreateNamespace_def applyCreateSpace_def applyCreateEntity_def
      applyBumpNamespace_def applyBumpSpace_def applyRegisterNode_def applyHeartbeat_def
      applyRemoveNode_def RemoveNode_def applyAdvanceNodeLiveness_def applyClaimMigrationTask_def
      applyCutoverMigrationTask_def applyCompleteMigrationTask_def applyFailMigrationTask_def
      split_beta Let_def intro!: CreateNamespace_inv CreateSpace_inv CreateEntity_inv
      BumpNamespaceVersion_inv BumpSpaceVersion_inv registerNodeAt_inv heartbeatAt_inv removeNode_inv
      AdvanceLiveness_inv ClaimMigrationTask_inv task_updates_inv)

text \<open>
  A step of the machine is a command with the clock of the replica that applies it and the order in
  which that replica visits its nodes.
\<close>

type_synonym fsmInput = "node_range \<times> gotime \<times> Command"

definition fsmStep :: "ControlState \<Rightarrow> fsmInput \<Rightarrow> ControlState \<times> (control_error + ApplyResult)" where
  "fsmStep s = (\<lambda>(rng, clock, command). Apply rng clock s command)"

interpretation fsm: state_machine fsmStep control_inv "\<lambda>input. enumerates (fst input)"
  by unfold_locales (auto simp: fsmStep_def Apply_inv)

text \<open>The state after a log, as a definition that evaluates.\<close>

primrec applyLog :: "ControlState \<Rightarrow> fsmInput list \<Rightarrow> ControlState" where
  "applyLog s [] = s"
| "applyLog s (input # log) = applyLog (fst (fsmStep s input)) log"

lemma applyLog_run: "applyLog s log = fsm.run s log"
  by (induction log arbitrary: s) simp_all

end
