(* ===== verification/Control_Spec.thy ===== *)
theory Control_Spec
  imports Control_Inv
begin

text \<open>
  What the operations of the control plane do, over the invariant: refused commands change nothing,
  the liveness sweep in terms of single nodes, restoring an exported snapshot, the order of the
  identifiers of events and plans.
\<close>

section \<open>Refused commands\<close>

lemma refused_unchanged:
  "snd (CreateNamespace now s x) = Inl e \<Longrightarrow> fst (CreateNamespace now s x) = s"
  "snd (CreateSpace now s x y) = Inl e \<Longrightarrow> fst (CreateSpace now s x y) = s"
  "snd (CreateEntity now s x y z) = Inl e \<Longrightarrow> fst (CreateEntity now s x y z) = s"
  "snd (BumpNamespaceVersion s x) = Inl e \<Longrightarrow> fst (BumpNamespaceVersion s x) = s"
  "snd (BumpSpaceVersion s x y) = Inl e \<Longrightarrow> fst (BumpSpaceVersion s x y) = s"
  "snd (registerNodeAt clock s x y now) = Inl e \<Longrightarrow> fst (registerNodeAt clock s x y now) = s"
  "snd (heartbeatAt clock s x y now) = Inl e \<Longrightarrow> fst (heartbeatAt clock s x y now) = s"
  "snd (removeNode clock s x) = Inl e \<Longrightarrow> fst (removeNode clock s x) = s"
  "snd (updateMigrationTask s p t m) = Inl e \<Longrightarrow> fst (updateMigrationTask s p t m) = s"
  by (auto simp: CreateNamespace_def CreateSpace_def CreateEntity_def BumpNamespaceVersion_def
      BumpSpaceVersion_def registerNodeAt_def heartbeatAt_def removeNode_def updateMigrationTask_def
      Let_def split: sum.splits option.splits if_splits prod.splits)

lemma snd_fsmResult: "snd (fsmResult f r) = Inl e \<longleftrightarrow> snd r = Inl e"
  by (cases r) (simp add: fsmResult_def split: sum.split)

lemma Apply_cases:
  assumes "P (applyCreateNamespace clock s command)" "P (applyCreateSpace clock s command)"
    "P (applyCreateEntity clock s command)" "P (applyBumpNamespace s command)"
    "P (applyBumpSpace s command)" "P (applyRegisterNode clock s command)"
    "P (applyHeartbeat clock s command)" "P (applyRemoveNode clock s command)"
    "P (applyAdvanceNodeLiveness rng clock s command)" "P (applyClaimMigrationTask clock s command)"
    "P (applyCutoverMigrationTask clock s command)" "P (applyCompleteMigrationTask clock s command)"
    "P (applyFailMigrationTask clock s command)" "P (s, Inl (ErrUnknownCommand (cm_Type command)))"
  shows "P (Apply rng clock s command)"
  using assms by (simp add: Apply_def)

lemmas handler_defs = applyCreateNamespace_def applyCreateSpace_def applyCreateEntity_def
  applyBumpNamespace_def applyBumpSpace_def applyRegisterNode_def applyHeartbeat_def
  applyRemoveNode_def RemoveNode_def applyAdvanceNodeLiveness_def applyClaimMigrationTask_def
  applyCutoverMigrationTask_def applyCompleteMigrationTask_def applyFailMigrationTask_def
  CutoverMigrationTask_def CompleteMigrationTask_def FailMigrationTask_def

lemma Apply_refused: "snd (Apply rng clock s command) = Inl e \<Longrightarrow> fst (Apply rng clock s command) = s"
  by (rule Apply_cases [where P = "\<lambda>r. snd r = Inl e \<longrightarrow> fst r = s", THEN mp])
    (simp_all add: handler_defs snd_fsmResult refused_unchanged split_beta)

section \<open>The liveness sweep\<close>

definition sweptNode :: "gotime \<Rightarrow> duration \<Rightarrow> duration \<Rightarrow> NodeBody \<Rightarrow> NodeBody" where
  "sweptNode now sa da n =
     (if nd_LastSeenUnix n \<le> 0 then n else n\<lparr>nd_State := livenessState now sa da n\<rparr>)"

lemma sweptNode_same: "nd_State n = livenessState now sa da n \<Longrightarrow> sweptNode now sa da n = n"
  by (cases n) (simp add: sweptNode_def)

lemma sweptNode_changed:
  "sweptNode now sa da n \<noteq> n \<longleftrightarrow> nd_LastSeenUnix n > 0 \<and> nd_State n \<noteq> livenessState now sa da n"
  by (cases n) (auto simp: sweptNode_def)

lemma livenessStep_eq:
  "livenessStep clock now sa da (s, c) (k, n) =
     (if sweptNode now sa da n = n then (s, c)
      else (recordRebalanceEventLocked clock
              (s\<lparr>nodes := fmupd k (sweptNode now sa da n) (nodes s), revision := revision s + 1\<rparr>)
              \<lparr>rb_reason = livenessRebalanceReason (livenessState now sa da n),
               rb_node = sweptNode now sa da n, rb_namespace = [], rb_space = []\<rparr>,
            c @ [sweptNode now sa da n]))"
  using sweptNode_changed [of now sa da n]
  by (auto simp: livenessStep_def Let_def sweptNode_def)

lemma liveness_foldl:
  "snd (foldl (livenessStep clock now sa da) (s, c) kns) =
     c @ map (\<lambda>(k, n). sweptNode now sa da n) (filter (\<lambda>(k, n). sweptNode now sa da n \<noteq> n) kns)"
  "revision (fst (foldl (livenessStep clock now sa da) (s, c) kns)) =
     revision s + of_nat (length (filter (\<lambda>(k, n). sweptNode now sa da n \<noteq> n) kns))"
  by (induction kns arbitrary: s c) (auto simp: livenessStep_eq)

lemma liveness_foldl_nodes:
  "distinct (map fst kns) \<Longrightarrow> (\<And>k n. (k, n) \<in> set kns \<Longrightarrow> fmlookup (nodes s) k = Some n) \<Longrightarrow>
     fmlookup (nodes (fst (foldl (livenessStep clock now sa da) (s, c) kns))) k =
       (if k \<in> fst ` set kns then map_option (sweptNode now sa da) (fmlookup (nodes s) k)
        else fmlookup (nodes s) k)"
proof (induction kns arbitrary: s c)
  case Nil
  then show ?case by simp
next
  case (Cons kn kns)
  obtain j n where kn: "kn = (j, n)" by fastforce
  obtain t d where td: "livenessStep clock now sa da (s, c) kn = (t, d)" by fastforce
  have j: "fmlookup (nodes s) j = Some n" using Cons.prems(2) [of j n] kn by simp
  have t: "fmlookup (nodes t) i = (if i = j then Some (sweptNode now sa da n) else fmlookup (nodes s) i)"
    for i
    using td j by (auto simp: kn livenessStep_eq split: if_splits)
  have "j \<notin> fst ` set kns" using Cons.prems(1) kn by auto
  moreover have "fmlookup (nodes t) i = Some m" if "(i, m) \<in> set kns" for i m
    using that Cons.prems(2) [of i m] \<open>j \<notin> fst ` set kns\<close> by (force simp: t)
  ultimately show ?case
    using Cons.IH [of t d] Cons.prems(1) td j by (auto simp: t kn)
qed

lemma AdvanceLiveness_nodes:
  assumes "enumerates rng"
  shows "fmlookup (nodes (fst (AdvanceLiveness rng clock s now sa da))) k =
    map_option (sweptNode now sa da) (fmlookup (nodes s) k)"
proof -
  have "k \<in> fst ` set (rng (nodes s)) \<longleftrightarrow> fmlookup (nodes s) k \<noteq> None"
    by (force simp: enumeratesD(2) [OF assms])
  then show ?thesis
    using liveness_foldl_nodes [OF enumeratesD(1) [OF assms], of "nodes s" s clock now sa da "[]" k]
    by (auto simp: AdvanceLiveness_def split_beta Let_def enumerates_mem [OF assms])
qed

section \<open>Snapshots\<close>

lemma restoreMap_values:
  assumes "distinct (map f items)" and "\<And>v. v \<in> set items \<Longrightarrow> key v = Inr (f v)"
    and "\<And>v. v \<in> set items \<Longrightarrow> fmlookup m (f v) = None"
  shows "\<exists>m'. restoreMap key m items = Inr m' \<and>
    (\<forall>k v. fmlookup m' k = Some v \<longleftrightarrow> fmlookup m k = Some v \<or> v \<in> set items \<and> f v = k)"
  using assms
proof (induction items arbitrary: m)
  case Nil
  then show ?case by simp
next
  case (Cons x items)
  have "fmlookup (fmupd (f x) x m) (f v) = None" if "v \<in> set items" for v
    using that Cons.prems by (auto simp: rev_image_eqI)
  then obtain m' where m': "restoreMap key (fmupd (f x) x m) items = Inr m'"
    and l: "\<And>k v. fmlookup m' k = Some v \<longleftrightarrow>
      fmlookup (fmupd (f x) x m) k = Some v \<or> v \<in> set items \<and> f v = k"
    using Cons.IH [of "fmupd (f x) x m"] Cons.prems(1,2) by auto
  have "restoreMap key m (x # items) = Inr m'" using m' Cons.prems(2) by simp
  moreover have "fmlookup m' k = Some v \<longleftrightarrow> fmlookup m k = Some v \<or> v \<in> set (x # items) \<and> f v = k"
    for k v
    using Cons.prems(3) [of x] by (auto simp: l)
  ultimately show ?case by blast
qed

lemma restoreMap_keyed:
  assumes "keyed f m" and "\<And>k v. fmlookup m k = Some v \<Longrightarrow> key v = Inr k"
  shows "restoreMap key fmempty (valuesOf m) = Inr m"
proof -
  have "key v = Inr (f v)" if "v \<in> set (valuesOf m)" for v
    using that assms(2) keyedD [OF assms(1)] by (fastforce simp: set_valuesOf)
  then obtain m' where m': "restoreMap key fmempty (valuesOf m) = Inr m'"
    and l: "\<And>k v. fmlookup m' k = Some v \<longleftrightarrow> v \<in> set (valuesOf m) \<and> f v = k"
    using restoreMap_values [OF distinct_keyed_values [OF assms(1)], of key fmempty] by auto
  have "fmlookup m' k = fmlookup m k" for k
  proof (cases "fmlookup m k")
    case None
    have "fmlookup m' k \<noteq> Some v" for v
      using None l [of k v] keyedD [OF assms(1)] by (fastforce simp: set_valuesOf)
    with None show ?thesis by (metis not_None_eq)
  next
    case (Some v)
    then show ?thesis using l [of k v] keyedD [OF assms(1) Some] by (auto simp: set_valuesOf)
  qed
  then have "m' = m" by (rule fmap_ext)
  with m' show ?thesis by simp
qed

lemma maxEventID_same: "\<forall>e\<in>set es. ev_ID e \<le> n \<Longrightarrow> maxEventID es n = n"
  by (induction es) auto

lemma maxPlanID_same: "\<forall>p\<in>set ps. mp_ID p \<le> n \<Longrightarrow> maxPlanID ps n = n"
  by (induction ps) auto

lemma RestoreSnapshot_ExportSnapshot:
  assumes "control_inv s" and "\<And>e. e \<in> set (events s) \<Longrightarrow> ev_ID e \<le> nextEvent s"
    and "\<And>p. p \<in> set (plans s) \<Longrightarrow> mp_ID p \<le> nextPlan s"
  shows "RestoreSnapshot s' (ExportSnapshot s) = (s, None)"
proof -
  note inv = control_invD [OF assms(1)]
  have "restoreNamespaces (sortedNamespacesLocked s) = Inr (namespaces s)"
    unfolding restoreNamespaces_def sortedLocked_values(3) [OF inv(1)]
    by (rule restoreMap_keyed [OF keyed_namespaces [OF inv(1)]])
      (use inv(1) in \<open>auto simp: catalog_inv_def\<close>)
  moreover have "restoreSpaces (sortedSpacesLocked s) = Inr (spaces s)"
    unfolding restoreSpaces_def sortedLocked_values(2) [OF inv(1)]
    by (rule restoreMap_keyed [OF keyed_spaces [OF inv(1)]])
      (use inv(1) in \<open>auto simp: catalog_inv_def spaceKey_def\<close>)
  moreover have "restoreEntities (sortedEntitiesLocked s) = Inr (entities s)"
    unfolding restoreEntities_def sortedLocked_values(4) [OF inv(1)]
    by (rule restoreMap_keyed [OF keyed_entities [OF inv(1)]])
      (use inv(1) in \<open>auto simp: catalog_inv_def entityKey_def\<close>)
  moreover have "restoreNodes (sortedNodesLocked s) = Inr (nodes s)"
    unfolding restoreNodes_def sortedLocked_values(1) [OF inv(2)]
    by (rule restoreMap_keyed [OF keyed_nodes [OF inv(2)]])
      (use inv(2) in \<open>auto simp: nodes_inv_def nodeKey_def\<close>)
  ultimately show ?thesis
    using inv(4) assms(2,3)
    by (simp add: RestoreSnapshot_def ExportSnapshot_def maxEventID_same maxPlanID_same Let_def
        currentRoutes_def sortedNodesLocked_def sortedSpacesLocked_def)
qed

section \<open>Identifiers of events and plans\<close>

text \<open>
  Events and plans are numbered by 64-bit counters. As long as a counter has not wrapped, the
  numbers in the history increase and the counter is the largest. \<open>ids_inv n\<close> says so of a state
  whose counters are at most \<open>n\<close>.
\<close>

definition ids_inv :: "nat \<Rightarrow> ControlState \<Rightarrow> bool" where
  "ids_inv n s \<longleftrightarrow>
     unat (nextEvent s) \<le> n \<and> unat (nextPlan s) \<le> n \<and>
     sorted_wrt (<) (map ev_ID (events s)) \<and> (\<forall>e\<in>set (events s). ev_ID e \<le> nextEvent s) \<and>
     sorted_wrt (<) (map mp_ID (plans s)) \<and> (\<forall>p\<in>set (plans s). mp_ID p \<le> nextPlan s)"

lemma ids_inv_mono: "ids_inv n s \<Longrightarrow> n \<le> m \<Longrightarrow> ids_inv m s"
  by (auto simp: ids_inv_def)

lemma ids_inv_cong:
  "ids_inv n s \<Longrightarrow> nextEvent t = nextEvent s \<Longrightarrow> nextPlan t = nextPlan s \<Longrightarrow> events t = events s \<Longrightarrow>
     map mp_ID (plans t) = map mp_ID (plans s) \<Longrightarrow> ids_inv n t"
proof -
  assume a: "ids_inv n s" "nextEvent t = nextEvent s" "nextPlan t = nextPlan s"
    "events t = events s" "map mp_ID (plans t) = map mp_ID (plans s)"
  have "(\<forall>p\<in>set ps. mp_ID p \<le> x) \<longleftrightarrow> (\<forall>i\<in>set (map mp_ID ps). i \<le> x)" for ps x by simp
  with a show ?thesis unfolding ids_inv_def by (metis (no_types, lifting))
qed

lemma counter_next:
  fixes c :: u64
  assumes "unat c \<le> n" and "n < 2 ^ 64 - 1"
  shows "unat (c + 1) = unat c + 1" and "x \<le> c \<Longrightarrow> x < c + 1"
proof -
  have "unat c + 1 < 2 ^ 64" using assms by simp
  then show "unat (c + 1) = unat c + 1" by (simp add: unat_word_ariths(1))
  then show "x \<le> c \<Longrightarrow> x < c + 1" by (simp add: word_le_nat_alt word_less_nat_alt)
qed

lemma sorted_wrt_removeOldest: "sorted_wrt r xs \<Longrightarrow> sorted_wrt r (removeOldest n xs)"
  by (simp add: removeOldest_drop sorted_wrt_drop)

lemma set_removeOldest: "x \<in> set (removeOldest n xs) \<Longrightarrow> x \<in> set xs"
  by (auto simp: removeOldest_drop dest: in_set_dropD)

lemma map_removeOldest: "map f (removeOldest n xs) = removeOldest n (map f xs)"
  by (simp add: removeOldest_drop drop_map)

lemma ids_history:
  fixes c :: u64
  assumes "unat c \<le> n" and "n < 2 ^ 64 - 1" and "f x = c + 1"
    and "sorted_wrt (<) (map f xs)" and "\<forall>y\<in>set xs. f y \<le> c"
  shows "sorted_wrt (<) (map f (removeOldest m (xs @ [x])))"
    and "\<forall>y\<in>set (removeOldest m (xs @ [x])). f y \<le> c + 1"
proof -
  have "\<forall>y\<in>set xs. f y < c + 1" using assms(5) counter_next(2) [OF assms(1,2)] by blast
  then show "sorted_wrt (<) (map f (removeOldest m (xs @ [x])))"
    and "\<forall>y\<in>set (removeOldest m (xs @ [x])). f y \<le> c + 1"
    using assms(3,4)
    by (auto simp: map_removeOldest sorted_wrt_append intro!: sorted_wrt_removeOldest
        dest!: set_removeOldest less_imp_le)
qed

definition newPlan :: "u64 \<Rightarrow> RebalanceEventBody \<Rightarrow> MigrationTaskBody list \<Rightarrow> MigrationPlanBody" where
  "newPlan k event tasks =
     \<lparr>mp_ID = k, mp_Revision = ev_Revision event, mp_Reason = ev_Reason event,
      mp_State = ''planned'', mp_CreatedAtUnix = ev_CreatedAtUnix event,
      mp_Tasks = map (\<lambda>(index, task). task\<lparr>mt_PlanID := k, mt_TaskID := of_nat (index + 1)\<rparr>)
                   (enumerate 0 tasks)\<rparr>"

lemma recordMigrationPlan_eq:
  "recordMigrationPlanLocked s b old new =
     (let tasks = buildMigrationTasks b old new in
      if tasks = [] then s
      else s\<lparr>nextPlan := nextPlan s + 1,
             plans := removeOldest maxMigrationPlans (plans s @ [newPlan (nextPlan s + 1) b tasks])\<rparr>)"
  by (simp add: recordMigrationPlanLocked_def newPlan_def Let_def)

lemma recordMigrationPlan_ids:
  assumes "ids_inv n s" and "n < 2 ^ 64 - 1" and "unat (nextEvent s) \<le> Suc n"
  shows "ids_inv (Suc n) (recordMigrationPlanLocked s b old new)"
proof -
  from assms(1) have le: "unat (nextPlan s) \<le> n" and o: "sorted_wrt (<) (map mp_ID (plans s))"
    and m: "\<forall>p\<in>set (plans s). mp_ID p \<le> nextPlan s" by (simp_all add: ids_inv_def)
  have h: "sorted_wrt (<) (map mp_ID (removeOldest maxMigrationPlans (plans s @ [p]))) \<and>
      (\<forall>q\<in>set (removeOldest maxMigrationPlans (plans s @ [p])). mp_ID q \<le> nextPlan s + 1)"
    if "mp_ID p = nextPlan s + 1" for p
    using ids_history [OF le assms(2), of mp_ID p] that o m by blast
  have u: "unat (nextPlan s + 1) \<le> Suc n" using counter_next(1) [OF le assms(2)] le by simp
  have "mp_ID (newPlan (nextPlan s + 1) b (buildMigrationTasks b old new)) = nextPlan s + 1"
    by (simp add: newPlan_def)
  from h [OF this] u show ?thesis
    using assms(1) ids_inv_mono [OF assms(1), of "Suc n"]
    by (simp add: recordMigrationPlan_eq Let_def ids_inv_def)
qed

lemma recordRebalanceEvent_ids:
  assumes "ids_inv n s" and "n < 2 ^ 64 - 1"
  shows "ids_inv (Suc n) (recordRebalanceEventLocked now s ev)"
proof (cases "rb_reason ev = []")
  case True
  then show ?thesis using ids_inv_mono [OF assms(1)] by (simp add: recordRebalanceEventLocked_def)
next
  case False
  from assms(1) have le: "unat (nextEvent s) \<le> n" and o: "sorted_wrt (<) (map ev_ID (events s))"
    and m: "\<forall>e\<in>set (events s). ev_ID e \<le> nextEvent s" by (simp_all add: ids_inv_def)
  have e: "sorted_wrt (<) (map ev_ID (removeOldest maxRebalanceEvents (events s @ [b])))
      \<and> (\<forall>q\<in>set (removeOldest maxRebalanceEvents (events s @ [b])). ev_ID q \<le> nextEvent s + 1)"
    if "ev_ID b = nextEvent s + 1" for b
    using ids_history [OF le assms(2), of ev_ID b] that o m by blast
  have u: "unat (nextEvent s + 1) \<le> Suc n" using counter_next(1) [OF le assms(2)] le by simp
  have p: "ids_inv (Suc n) (recordMigrationPlanLocked (s\<lparr>nextEvent := nextEvent s + 1,
      events := removeOldest maxRebalanceEvents (events s @ [b])\<rparr>) b old new\<lparr>lastRoutes := l\<rparr>)"
    if "ev_ID b = nextEvent s + 1" for b old new l
  proof -
    let ?old = "recordMigrationPlanLocked s b old new"
    let ?new = "recordMigrationPlanLocked (s\<lparr>nextEvent := nextEvent s + 1,
      events := removeOldest maxRebalanceEvents (events s @ [b])\<rparr>) b old new"
    have "ids_inv (Suc n) ?old" using recordMigrationPlan_ids [OF assms] le by simp
    moreover have "nextPlan ?new = nextPlan ?old" "plans ?new = plans ?old"
      by (simp_all add: recordMigrationPlanLocked_def Let_def)
    ultimately show ?thesis using e [OF that] u by (simp add: ids_inv_def)
  qed
  show ?thesis using False p by (simp add: recordRebalanceEventLocked_def Let_def)
qed

definition same_ids :: "ControlState \<Rightarrow> ControlState \<Rightarrow> bool" where
  "same_ids s t \<longleftrightarrow> nextEvent t = nextEvent s \<and> nextPlan t = nextPlan s \<and> events t = events s \<and>
     map mp_ID (plans t) = map mp_ID (plans s)"

lemma same_ids_simps [simp]:
  "same_ids s s"
  "same_ids s (t\<lparr>revision := r\<rparr>) = same_ids s t"
  "same_ids s (t\<lparr>namespaces := a\<rparr>) = same_ids s t"
  "same_ids s (t\<lparr>spaces := b\<rparr>) = same_ids s t"
  "same_ids s (t\<lparr>entities := c\<rparr>) = same_ids s t"
  "same_ids s (t\<lparr>nodes := d\<rparr>) = same_ids s t"
  by (simp_all add: same_ids_def)

definition at_most_one :: "ControlState \<Rightarrow> ControlState \<Rightarrow> bool" where
  "at_most_one s t \<longleftrightarrow>
     same_ids s t \<or> (\<exists>u now ev. same_ids s u \<and> t = recordRebalanceEventLocked now u ev)"

lemma at_most_oneI:
  "same_ids s t \<Longrightarrow> at_most_one s t"
  "same_ids s t \<Longrightarrow> at_most_one s (recordRebalanceEventLocked now t ev)"
  by (auto simp: at_most_one_def)

lemma at_most_one_ids:
  assumes "ids_inv n s" and "n < 2 ^ 64 - 1" and "at_most_one s t"
  shows "ids_inv (Suc n) t"
proof -
  have *: "ids_inv n u" if "same_ids s u" for u
    using that ids_inv_cong [OF assms(1)] by (simp add: same_ids_def)
  from assms(3) show ?thesis
    unfolding at_most_one_def
    using * recordRebalanceEvent_ids [OF _ assms(2)] ids_inv_mono [of n _ "Suc n"] by auto
qed

lemma at_most_one_ids':
  assumes "ids_inv n s" and "n + Suc k < 2 ^ 64" and "at_most_one s t"
  shows "ids_inv (n + Suc k) t"
  by (rule ids_inv_mono [OF at_most_one_ids [OF assms(1) _ assms(3)]]) (use assms(2) in auto)

lemma updateLoop_ids:
  "updateLoop planID taskID mutate ps = Some (ps', t) \<Longrightarrow> map mp_ID ps' = map mp_ID ps"
  by (elim updateLoop_Some) simp

lemma claimLoop_ids: "claimLoop now ps = Some (ps', t) \<Longrightarrow> map mp_ID ps' = map mp_ID ps"
  by (elim claimLoop_Some) simp

lemma operations_at_most_one:
  "at_most_one s (fst (CreateNamespace now s x))"
  "at_most_one s (fst (CreateSpace now s x y))"
  "at_most_one s (fst (CreateEntity now s x y z))"
  "at_most_one s (fst (BumpNamespaceVersion s x))"
  "at_most_one s (fst (BumpSpaceVersion s x y))"
  "at_most_one s (fst (registerNodeAt clock s x y now))"
  "at_most_one s (fst (removeNode clock s x))"
  "at_most_one s (fst (updateMigrationTask s p t m))"
  "at_most_one s (fst (ClaimMigrationTask s now))"
  by (auto simp: CreateNamespace_def CreateSpace_def CreateEntity_def BumpNamespaceVersion_def
      BumpSpaceVersion_def registerNodeAt_def removeNode_def updateMigrationTask_def
      ClaimMigrationTask_def replacePlansLocked_def Let_def
      split: sum.splits option.splits if_splits prod.splits intro!: at_most_oneI)
    (auto simp: at_most_one_def same_ids_def dest: updateLoop_ids claimLoop_ids)

lemma heartbeatAt_at_most_one: "nodes_inv s \<Longrightarrow> at_most_one s (fst (heartbeatAt clock s x y now))"
proof (cases "validateNodeIdentity x y")
  case (Inr ka)
  assume n: "nodes_inv s"
  obtain k a where "ka = (k, a)" by fastforce
  from heartbeatAt_Inr [OF Inr [unfolded this] n] show ?thesis
    by (auto simp: Let_def intro!: at_most_oneI)
qed (simp add: heartbeatAt_def at_most_oneI)

lemma liveness_foldl_ids:
  "ids_inv n s \<Longrightarrow> n + length kns < 2 ^ 64 \<Longrightarrow>
     ids_inv (n + length kns) (fst (foldl (livenessStep clock now sa da) (s, c) kns))"
proof (induction kns arbitrary: n s c)
  case Nil
  then show ?case by simp
next
  case (Cons kn kns)
  obtain k m where kn: "kn = (k, m)" by fastforce
  obtain t d where td: "livenessStep clock now sa da (s, c) kn = (t, d)" by fastforce
  have "at_most_one s t"
    using td by (auto simp: kn livenessStep_eq split: if_splits intro: at_most_oneI)
  with Cons.prems have "ids_inv (Suc n) t" by (intro at_most_one_ids [of n s]) auto
  from Cons.IH [OF this, of d] Cons.prems show ?case by (simp add: td)
qed

definition nodeCount :: "ControlState \<Rightarrow> nat" where
  "nodeCount s = card (fset (fmdom (nodes s)))"

lemma length_rng_nodes:
  assumes "enumerates rng"
  shows "length (rng (nodes s)) = nodeCount s"
proof -
  have "set (map fst (rng (nodes s))) = fset (fmdom (nodes s))"
    using enumeratesD(2) [OF assms, of "nodes s"] by force
  then show ?thesis
    using distinct_card [OF enumeratesD(1) [OF assms, of "nodes s"]] by (simp add: nodeCount_def)
qed

lemma Apply_ids:
  assumes "control_inv s" and "enumerates rng" and "ids_inv n s" and "n + Suc (nodeCount s) < 2 ^ 64"
  shows "ids_inv (n + Suc (nodeCount s)) (fst (Apply rng clock s command))"
proof (rule Apply_cases [where P = "\<lambda>r. ids_inv (n + Suc (nodeCount s)) (fst r)"])
  show "ids_inv (n + Suc (nodeCount s)) (fst (applyAdvanceNodeLiveness rng clock s command))"
    unfolding applyAdvanceNodeLiveness_def AdvanceLiveness_def split_beta Let_def fst_conv
    using assms(4) length_rng_nodes [OF assms(2), of s]
    by (intro ids_inv_mono [OF liveness_foldl_ids [OF assms(3), of "rng (nodes s)"]]) simp_all
  show "ids_inv (n + Suc (nodeCount s)) (fst (applyHeartbeat clock s command))"
    unfolding applyHeartbeat_def fst_fsmResult
    by (rule at_most_one_ids' [OF assms(3,4) heartbeatAt_at_most_one [OF control_invD(2) [OF assms(1)]]])
qed (simp_all only: handler_defs fst_fsmResult split_beta Let_def fst_conv,
    (rule at_most_one_ids' [OF assms(3,4)],
      (rule operations_at_most_one | rule at_most_oneI(1) [OF same_ids_simps(1)]))+)

lemma card_fmdom_upd: "card (fset (fmdom (fmupd k v m))) \<le> Suc (card (fset (fmdom m)))"
  by (simp add: card_insert_if)

lemma card_fmdom_drop: "card (fset (fmdom (fmdrop k m))) \<le> Suc (card (fset (fmdom m)))"
  by (simp add: card_Diff1_le le_SucI)

lemma operations_nodes:
  "nodes (fst (CreateNamespace now s x)) = nodes s"
  "nodes (fst (CreateSpace now s x y)) = nodes s"
  "nodes (fst (CreateEntity now s x y z)) = nodes s"
  "nodes (fst (BumpNamespaceVersion s x)) = nodes s"
  "nodes (fst (BumpSpaceVersion s x y)) = nodes s"
  "nodes (fst (updateMigrationTask s p t m)) = nodes s"
  "nodes (fst (ClaimMigrationTask s now)) = nodes s"
  by (auto simp: CreateNamespace_def CreateSpace_def CreateEntity_def BumpNamespaceVersion_def
      BumpSpaceVersion_def updateMigrationTask_def ClaimMigrationTask_def replacePlansLocked_def
      Let_def split: sum.splits option.splits prod.splits)

lemma node_operations_count:
  "nodeCount (fst (registerNodeAt clock s x y now)) \<le> Suc (nodeCount s)"
  "nodeCount (fst (removeNode clock s x)) \<le> Suc (nodeCount s)"
  "nodes_inv s \<Longrightarrow> nodeCount (fst (heartbeatAt clock s x y now)) \<le> Suc (nodeCount s)"
proof -
  show "nodeCount (fst (registerNodeAt clock s x y now)) \<le> Suc (nodeCount s)"
    using card_fmdom_upd
    by (auto simp: registerNodeAt_def nodeCount_def Let_def split: sum.splits option.splits prod.splits
        simp del: fmdom_fmupd)
  show "nodeCount (fst (removeNode clock s x)) \<le> Suc (nodeCount s)"
    using card_fmdom_drop
    by (auto simp: removeNode_def nodeCount_def Let_def split: sum.splits option.splits
        simp del: fmdom_drop)
  show "nodeCount (fst (heartbeatAt clock s x y now)) \<le> Suc (nodeCount s)" if "nodes_inv s"
  proof (cases "validateNodeIdentity x y")
    case (Inr ka)
    obtain k a where "ka = (k, a)" by fastforce
    from heartbeatAt_Inr [OF Inr [unfolded this] that] card_fmdom_upd show ?thesis
      by (auto simp: nodeCount_def Let_def simp del: fmdom_fmupd)
  qed (simp add: heartbeatAt_def)
qed

lemma nodeCount_Apply:
  assumes "enumerates rng" and "nodes_inv s"
  shows "nodeCount (fst (Apply rng clock s command)) \<le> Suc (nodeCount s)"
proof (rule Apply_cases [where P = "\<lambda>r. nodeCount (fst r) \<le> Suc (nodeCount s)"])
  have "fset (fmdom (nodes (fst (AdvanceLiveness rng clock s now sa da)))) = fset (fmdom (nodes s))"
    for now sa da
    by (auto simp: AdvanceLiveness_nodes [OF assms(1)])
  then show "nodeCount (fst (applyAdvanceNodeLiveness rng clock s command)) \<le> Suc (nodeCount s)"
    by (simp add: nodeCount_def applyAdvanceNodeLiveness_def split_beta Let_def)
qed (simp_all add: handler_defs split_beta Let_def node_operations_count assms(2),
    simp_all add: nodeCount_def operations_nodes)

text \<open>A log of \<open>n\<close> commands registers at most \<open>n\<close> nodes and records at most \<open>n\<^sup>2\<close> events.\<close>

abbreviation fsmInputs :: "fsmInput list \<Rightarrow> bool" where
  "fsmInputs \<equiv> list_all (\<lambda>input. enumerates (fst input))"

lemma run_ids:
  assumes "fsmInputs log" and "length log * length log < 2 ^ 64"
  shows "ids_inv (length log * length log) (fsm.run (NewControlState c) log) \<and>
    nodeCount (fsm.run (NewControlState c) log) \<le> length log"
  using assms
proof (induction log rule: rev_induct)
  case Nil
  then show ?case by (simp add: ids_inv_def NewControlState_def nodeCount_def)
next
  case (snoc input log)
  let ?s = "fsm.run (NewControlState c) log"
  obtain rng clock command where i: "input = (rng, clock, command)" by (metis prod_cases3)
  have log: "fsmInputs log" and rng: "enumerates rng" using snoc.prems(1) i by auto
  have sq: "length log * length log + Suc (length log) \<le> length (log @ [input]) * length (log @ [input])"
    by simp
  have inv: "control_inv ?s" using fsm.run_inv [OF control_inv_New log] .
  have IH: "ids_inv (length log * length log) ?s" "nodeCount ?s \<le> length log"
    using snoc.IH [OF log] snoc.prems(2) by simp_all
  have step: "fsm.run (NewControlState c) (log @ [input]) = fst (Apply rng clock ?s command)"
    by (simp add: fsm.run_append i fsmStep_def)
  have lt: "length log * length log + Suc (nodeCount ?s) < 2 ^ 64"
    using IH(2) snoc.prems(2) sq by linarith
  have "ids_inv (length (log @ [input]) * length (log @ [input])) (fst (Apply rng clock ?s command))"
    by (rule ids_inv_mono [OF Apply_ids [OF inv rng IH(1) lt]]) (use IH(2) sq in linarith)
  moreover have "nodeCount (fst (Apply rng clock ?s command)) \<le> length (log @ [input])"
    using nodeCount_Apply [OF rng control_invD(2) [OF inv], of clock command] IH(2) by simp
  ultimately show ?case by (simp only: step)
qed

end
