(* ===== verification/Control_Moves.thy ===== *)
theory Control_Moves
  imports Control_Spec
begin

text \<open>
  How a change of the members moves slots: the plan that is recorded has exactly one task for every
  slot whose node changes, from the old node to the new one, and the effective routes keep sending
  the slot to the old node until that task is cut over.
\<close>

section \<open>The tasks over a slot\<close>

definition moveTask :: "RebalanceEventBody \<Rightarrow> RouteBody \<Rightarrow> RouteBody \<Rightarrow> MigrationTaskBody" where
  "moveTask event p c =
     migrationTaskForRoute event p c (maxUint32 (rt_VSlotStart p) (rt_VSlotStart c))
       (minUint32 (rt_VSlotEnd p) (rt_VSlotEnd c))"

lemma overlap_contains:
  fixes v :: u32
  shows "maxUint32 a b \<le> v \<and> v \<le> minUint32 c d \<longleftrightarrow> a \<le> v \<and> b \<le> v \<and> v \<le> c \<and> v \<le> d"
  by (auto simp: maxUint32_def minUint32_def)

lemma routeTasks_over_slot:
  assumes "namespace \<noteq> [] \<or> space \<noteq> []"
  shows "filter (taskCovers namespace space v) (routeTasks event c old) =
    (if inSlot namespace space v c
     then map (\<lambda>p. moveTask event p c)
            (filter (\<lambda>p. inSlot namespace space v p \<and> rt_NodeID p \<noteq> rt_NodeID c) old)
     else [])"
proof (induction old)
  case Nil
  then show ?case by simp
next
  case (Cons p old)
  let ?s = "maxUint32 (rt_VSlotStart p) (rt_VSlotStart c)"
  let ?e = "minUint32 (rt_VSlotEnd p) (rt_VSlotEnd c)"
  have cov: "taskCovers namespace space v (moveTask event p c) \<longleftrightarrow>
      rt_Namespace c = namespace \<and> rt_Space c = space \<and> ?s \<le> v \<and> v \<le> ?e"
    by (simp add: moveTask_def migrationTaskForRoute_def taskCovers_def)
  have range: "migrationTaskRange p c =
      (if emptyRouteScope p \<or> \<not> sameRouteScope p c \<or> rt_NodeID p = rt_NodeID c then (0, 0, False)
       else (?s, ?e, ?s \<le> ?e))"
    by (simp add: migrationTaskRange_def routeOverlap_def Let_def)
  show ?case
  proof (cases "\<not> emptyRouteScope p \<and> sameRouteScope p c \<and> rt_NodeID p \<noteq> rt_NodeID c \<and> ?s \<le> ?e")
    case True
    then have "routeTasks event c (p # old) = moveTask event p c # routeTasks event c old"
      by (simp add: range moveTask_def)
    moreover have "taskCovers namespace space v (moveTask event p c) \<longleftrightarrow>
        inSlot namespace space v p \<and> inSlot namespace space v c"
      using True unfolding cov overlap_contains by (auto simp: inSlot_def sameRouteScope_def)
    ultimately show ?thesis using True Cons.IH by auto
  next
    case False
    then have "routeTasks event c (p # old) = routeTasks event c old"
      by (auto simp: range)
    moreover have "\<not> (inSlot namespace space v p \<and> inSlot namespace space v c \<and>
        rt_NodeID p \<noteq> rt_NodeID c)"
    proof
      assume *: "inSlot namespace space v p \<and> inSlot namespace space v c \<and> rt_NodeID p \<noteq> rt_NodeID c"
      then have "?s \<le> v \<and> v \<le> ?e" unfolding overlap_contains by (simp add: inSlot_def)
      then have "?s \<le> ?e" by (meson order_trans)
      with * False assms show False by (auto simp: inSlot_def emptyRouteScope_def sameRouteScope_def)
    qed
    ultimately show ?thesis using Cons.IH by auto
  qed
qed

lemma tasks_over_slot:
  assumes "namespace \<noteq> [] \<or> space \<noteq> []"
  shows "filter (taskCovers namespace space v) (buildMigrationTasks event old new) =
    concat (map (\<lambda>c. map (\<lambda>p. moveTask event p c)
      (filter (\<lambda>p. rt_NodeID p \<noteq> rt_NodeID c) (filter (inSlot namespace space v) old)))
      (filter (inSlot namespace space v) new))"
proof (induction new)
  case Nil
  then show ?case by (simp add: buildMigrationTasks_def)
next
  case (Cons c new)
  have "filter (taskCovers namespace space v) (migrationTasksForRoute event old c) =
      (if inSlot namespace space v c
       then map (\<lambda>p. moveTask event p c)
              (filter (\<lambda>p. rt_NodeID p \<noteq> rt_NodeID c) (filter (inSlot namespace space v) old))
       else [])"
    using routeTasks_over_slot [OF assms, of v event c old] assms
    by (auto simp: migrationTasksForRoute_def emptyRouteScope_def inSlot_def conj_commute cong: conj_cong)
  with Cons.IH show ?case by (simp add: buildMigrationTasks_def)
qed

lemma one_task_per_move:
  assumes "namespace \<noteq> [] \<or> space \<noteq> []"
    and "filter (inSlot namespace space v) old = [p]" and "filter (inSlot namespace space v) new = [c]"
  shows "filter (taskCovers namespace space v) (buildMigrationTasks event old new) =
    (if rt_NodeID p = rt_NodeID c then [] else [moveTask event p c])"
  using tasks_over_slot [OF assms(1), of v event old new] assms(2,3) by simp

lemma moveTask_simps [simp]:
  "taskSource (moveTask event p c) = target p"
  "mt_TargetNodeID (moveTask event p c) = rt_NodeID c" "mt_TargetAddr (moveTask event p c) = rt_Addr c"
  "migrationTaskRoutesSource (moveTask event p c)"
  by (simp_all add: moveTask_def migrationTaskForRoute_def taskSource_def target_def
      migrationTaskRoutesSource_def zeroTask_def task_states)

section \<open>The owner of a slot after a change\<close>

lemma slotOwner_append:
  "slotOwner (xs @ ys) namespace space v own =
     (case filter (taskCovers namespace space v) (rev ys) of
        [] \<Rightarrow> slotOwner xs namespace space v own
      | task # _ \<Rightarrow> taskSource task)"
  by (simp add: slotOwner_def split: list.split)

text \<open>The numbers a plan gives its tasks do not matter for the routes.\<close>

lemma numbered_task [simp]:
  "taskCovers namespace space v (task\<lparr>mt_PlanID := a, mt_TaskID := b\<rparr>) = taskCovers namespace space v task"
  "taskSource (task\<lparr>mt_PlanID := a, mt_TaskID := b\<rparr>) = taskSource task"
  "migrationTaskRoutesSource (task\<lparr>mt_PlanID := a, mt_TaskID := b\<rparr>) = migrationTaskRoutesSource task"
  by (simp_all add: taskCovers_def taskSource_def migrationTaskRoutesSource_def)

lemma filter_newPlan:
  assumes "\<And>t a b. Q (t\<lparr>mt_PlanID := a, mt_TaskID := b\<rparr>) = Q t"
    and "\<And>t a b. f (t\<lparr>mt_PlanID := a, mt_TaskID := b\<rparr>) = f t"
  shows "map f (filter Q (mp_Tasks (newPlan k b tasks))) = map f (filter Q tasks)"
proof -
  have "map f (filter Q (map (\<lambda>(index, task). task\<lparr>mt_PlanID := k, mt_TaskID := of_nat (index + 1)\<rparr>)
      (enumerate n tasks))) = map f (filter Q tasks)" for n
    by (induction tasks arbitrary: n) (simp_all add: assms)
  then show ?thesis by (simp add: newPlan_def)
qed

lemma slotOwner_last:
  "slotOwner tasks namespace space v own =
     (case rev (map taskSource (filter (taskCovers namespace space v) tasks)) of [] \<Rightarrow> own | x # _ \<Rightarrow> x)"
  by (simp add: slotOwner_def rev_filter rev_map split: list.split)

lemma buildMigrationTasks_pending:
  "t \<in> set (buildMigrationTasks b old new) \<Longrightarrow> migrationTaskRoutesSource t"
  by (elim buildMigrationTasks_mem)
    (simp add: migrationTaskForRoute_def migrationTaskRoutesSource_def zeroTask_def task_states)

lemma pendingTasks_append: "pendingTasks (ps @ qs) = pendingTasks ps @ pendingTasks qs"
  by (simp add: pendingTasks_def)

definition rebalanceBody :: "gotime \<Rightarrow> ControlState \<Rightarrow> rebalanceEvent \<Rightarrow> RebalanceEventBody" where
  "rebalanceBody now t ev =
     \<lparr>ev_ID = nextEvent t + 1, ev_Revision = revision t, ev_Type = rebalanceEventRouteTableChanged,
      ev_Reason = rb_reason ev, ev_NodeID = nd_NodeID (rb_node ev), ev_Addr = nd_Addr (rb_node ev),
      ev_State = nd_State (rb_node ev), ev_Namespace = rb_namespace ev, ev_Space = rb_space ev,
      ev_RouteCount = length (currentRoutes t), ev_CreatedAtUnix = UnixOf now\<rparr>"

lemma recordRebalanceEvent_eq:
  "rb_reason ev \<noteq> [] \<Longrightarrow> recordRebalanceEventLocked now t ev =
     recordMigrationPlanLocked
       (t\<lparr>nextEvent := nextEvent t + 1,
          events := removeOldest maxRebalanceEvents (events t @ [rebalanceBody now t ev])\<rparr>)
       (rebalanceBody now t ev) (lastRoutes t) (currentRoutes t)\<lparr>lastRoutes := currentRoutes t\<rparr>"
  by (simp add: recordRebalanceEventLocked_def Let_def rebalanceBody_def currentRoutes_def
      sortedNodesLocked_def sortedSpacesLocked_def)

lemma recorded_plans:
  fixes now :: gotime
  assumes "rb_reason ev \<noteq> []" and "length (plans t) < maxMigrationPlans"
  defines "b \<equiv> rebalanceBody now t ev"
  shows "plans (recordRebalanceEventLocked now t ev) = plans t @
    (let tasks = buildMigrationTasks b (lastRoutes t) (currentRoutes t)
     in if tasks = [] then [] else [newPlan (nextPlan t + 1) b tasks])"
proof -
  have "removeOldest maxMigrationPlans (plans t @ [x]) = plans t @ [x]" for x
    using assms(2) by (simp add: removeOldest_drop)
  then show ?thesis
    by (simp add: recordRebalanceEvent_eq [OF assms(1)] recordMigrationPlan_eq Let_def b_def)
qed

lemma slotOwner_recorded:
  assumes "rb_reason ev \<noteq> []" and "length (plans t) < maxMigrationPlans"
    and "namespace \<noteq> [] \<or> space \<noteq> []"
    and "filter (inSlot namespace space v) (lastRoutes t) = [p]"
    and "filter (inSlot namespace space v) (currentRoutes t) = [c]"
  shows "slotOwner (pendingTasks (plans (recordRebalanceEventLocked now t ev))) namespace space v own =
    (if rt_NodeID p = rt_NodeID c then slotOwner (pendingTasks (plans t)) namespace space v own
     else target p)"
proof -
  define b where "b = rebalanceBody now t ev"
  note b = recorded_plans [OF assms(1,2), of now, folded b_def]
  let ?tasks = "buildMigrationTasks b (lastRoutes t) (currentRoutes t)"
  let ?new = "pendingTasks [newPlan (nextPlan t + 1) b ?tasks]"
  have "map taskSource (filter (taskCovers namespace space v) ?new) =
      map taskSource (filter (\<lambda>t. migrationTaskRoutesSource t \<and> taskCovers namespace space v t) ?tasks)"
    by (simp add: pendingTasks_def conj_commute filter_newPlan)
  also have "filter (\<lambda>t. migrationTaskRoutesSource t \<and> taskCovers namespace space v t) ?tasks =
      filter (taskCovers namespace space v) ?tasks"
    by (intro filter_cong) (auto dest: buildMigrationTasks_pending)
  finally have new: "map taskSource (filter (taskCovers namespace space v) ?new) =
      (if rt_NodeID p = rt_NodeID c then [] else [target p])"
    by (simp add: one_task_per_move [OF assms(3-5)])
  show ?thesis
  proof (cases "?tasks = []")
    case True
    with one_task_per_move [OF assms(3-5), of b] have "rt_NodeID p = rt_NodeID c"
      by (auto split: if_splits)
    with True b show ?thesis by simp
  next
    case False
    then have "plans (recordRebalanceEventLocked now t ev) =
        plans t @ [newPlan (nextPlan t + 1) b ?tasks]" using b by simp
    then show ?thesis
      using new
      by (auto simp: pendingTasks_append slotOwner_last split: if_splits list.splits)
  qed
qed

section \<open>The effective routes of a reachable state\<close>

lemma owners_one_filter:
  "length (owners routes namespace space v) = 1 \<Longrightarrow>
     \<exists>r. filter (inSlot namespace space v) routes = [r] \<and> owners routes namespace space v = [target r]"
  by (auto simp: owners_def length_Suc_conv)

definition routable :: "ControlState \<Rightarrow> bool" where
  "routable s \<longleftrightarrow>
     (let n = length (healthyNodes (sortedNodesLocked s)) in 0 < n \<and> n \<le> 65536)"

lemma currentRoutes_one:
  assumes "catalog_inv s" and "routable s" and "fmlookup (spaces s) (namespace, space) \<noteq> None"
    and "unat v < 65536"
  shows "length (owners (currentRoutes s) namespace space v) = 1"
proof -
  from assms(3) obtain item where item: "fmlookup (spaces s) (namespace, space) = Some item" by auto
  then have key: "spaceKey item = (namespace, space)" using assms(1) by (simp add: catalog_inv_def)
  then have sk: "sp_Namespace item = namespace" "sp_Space item = space" by (simp_all add: spaceKey_def)
  have "item \<in> set (sortedSpacesLocked s)"
    using item by (auto simp: sortedLocked_values(2) [OF assms(1)] set_valuesOf)
  moreover have "distinct (map spaceKey (sortedSpacesLocked s))"
    using distinct_keyed_values [OF keyed_spaces [OF assms(1)]]
    by (simp add: sortedLocked_values(2) [OF assms(1)])
  ultimately have "length (owners (currentRoutes s) (sp_Namespace item) (sp_Space item) v) = 1"
    unfolding currentRoutes_def using assms(2,4)
    by (intro one_owner) (auto simp: routable_def Let_def)
  then show ?thesis by (simp add: sk)
qed

lemma effective_owner:
  assumes "sorts srt" and "catalog_inv s" and "routable s"
    and "fmlookup (spaces s) (namespace, space) \<noteq> None" and "unat v < 65536"
  shows "owners (effectiveRoutesLocked srt s) namespace space v =
    [slotOwner (pendingTasks (plans s)) namespace space v (hd (owners (currentRoutes s) namespace space v))]"
  unfolding effectiveRoutesLocked_def Let_def currentRoutes_def [symmetric]
  by (rule owners_overrides [OF assms(1) currentRoutes_one [OF assms(2-5)]])

section \<open>Ranges that a route can name\<close>

text \<open>
  A route from slot 0 to slot 0 is read as the full range (\<open>normalizedRange\<close>). Such a route cannot
  come up while there are at most 32768 nodes: no range then starts at slot 1 or ends at slot 0, and
  the tasks and the overrides cut only at the ends of ranges.
\<close>

definition wideRange :: "u32 \<Rightarrow> u32 \<Rightarrow> bool" where
  "wideRange a b \<longleftrightarrow> a \<noteq> 1 \<and> b \<noteq> 0"

definition wideRoute :: "RouteBody \<Rightarrow> bool" where
  "wideRoute r \<longleftrightarrow> wideRange (rt_VSlotStart r) (rt_VSlotEnd r)"

definition wideTask :: "MigrationTaskBody \<Rightarrow> bool" where
  "wideTask t \<longleftrightarrow> wideRange (mt_VSlotStart t) (mt_VSlotEnd t)"

definition wide_inv :: "ControlState \<Rightarrow> bool" where
  "wide_inv s \<longleftrightarrow> (\<forall>p\<in>set (plans s). \<forall>t\<in>set (mp_Tasks p). wideTask t)"

lemma wideRoute_contains: "wideRoute r \<Longrightarrow> ContainsVSlot r v \<longleftrightarrow> rt_VSlotStart r \<le> v \<and> v \<le> rt_VSlotEnd r"
  by (auto simp: wideRoute_def wideRange_def ContainsVSlot_def normalizedRange_def)

lemma vslotRange_wide:
  assumes "i < n" and "n \<le> 32768"
  shows "wideRange (fst (vslotRange (int i) (int n))) (snd (vslotRange (int i) (int n)))"
proof -
  have n: "n \<le> 65536" "0 < n" using assms by simp_all
  note u = vslotRange_unat [OF assms(1) n(1)]
  have two: "2 * j \<le> j * 65536 div n" for j
    using assms(2) n(2) by (simp add: less_eq_div_iff_mult_less_eq)
  have "i * 65536 div n \<noteq> 1" using two [of i] by (cases i) auto
  moreover have "(i + 1) * 65536 div n - 1 \<noteq> 0" using two [of "i + 1"] by simp
  ultimately show ?thesis unfolding wideRange_def using u(1,2) by (metis unat_0 unat_1)
qed

lemma routesForSpace_wide:
  "length hs \<le> 32768 \<Longrightarrow> r \<in> set (routesForSpace hs sp) \<Longrightarrow> wideRoute r"
  using vslotRange_wide [of _ "length hs"]
  by (auto simp: routesForSpace_def wideRoute_def split_beta Let_def in_set_enumerate_eq)

lemma length_healthy_le: "nodes_inv s \<Longrightarrow> length (healthyNodes (sortedNodesLocked s)) \<le> nodeCount s"
proof -
  assume n: "nodes_inv s"
  have "length (sortedNodesLocked s) = nodeCount s"
    using keyed_values(1) [OF keyed_nodes [OF n]]
    by (metis (no_types) sortedLocked_values(1) [OF n] length_map nodeCount_def
        sorted_list_of_fset.rep_eq length_sorted_list_of_set)
  then show ?thesis unfolding healthyNodes_def by (metis length_filter_le)
qed

lemma currentRoutes_wide:
  assumes "nodes_inv s" and "nodeCount s \<le> 32768" and "r \<in> set (currentRoutes s)"
  shows "wideRoute r"
  using order_trans [OF length_healthy_le [OF assms(1)] assms(2)] assms(3) routesForSpace_wide
  by (auto simp: currentRoutes_def routesForNodes_def Let_def split: if_splits)

lemma overlap_wide:
  "wideRange a b \<Longrightarrow> wideRange c d \<Longrightarrow> wideRange (maxUint32 a c) (minUint32 b d)"
  by (simp add: wideRange_def maxUint32_def minUint32_def)

lemma wide_recordMigrationPlan:
  assumes "wide_inv s" and "\<And>r. r \<in> set old \<union> set new \<Longrightarrow> wideRoute r"
  shows "wide_inv (recordMigrationPlanLocked s b old new)"
proof -
  have "wideTask t" if "t \<in> set (buildMigrationTasks b old new)" for t
    using that assms(2)
    by (elim buildMigrationTasks_mem)
      (auto simp: wideTask_def migrationTaskForRoute_def wideRoute_def intro!: overlap_wide)
  then have "wideTask t" if "t \<in> set (mp_Tasks (newPlan k b (buildMigrationTasks b old new)))" for t k
    using that by (auto simp: newPlan_def in_set_enumerate_eq wideTask_def dest!: nth_mem)
  with assms(1) show ?thesis
    by (auto simp: wide_inv_def recordMigrationPlan_eq Let_def dest!: set_removeOldest)
qed

lemma wide_recordRebalanceEvent:
  assumes "wide_inv s" and "nodes_inv s" and "nodeCount s \<le> 32768"
    and "\<And>r. r \<in> set (lastRoutes s) \<Longrightarrow> wideRoute r"
  shows "wide_inv (recordRebalanceEventLocked now s ev)"
proof (cases "rb_reason ev = []")
  case True
  then show ?thesis using assms(1) by (simp add: recordRebalanceEventLocked_def)
next
  case False
  let ?t = "s\<lparr>nextEvent := nextEvent s + 1,
    events := removeOldest maxRebalanceEvents (events s @ [rebalanceBody now s ev])\<rparr>"
  have "wide_inv (recordMigrationPlanLocked ?t (rebalanceBody now s ev) (lastRoutes s) (currentRoutes s))"
    using assms(1,4) currentRoutes_wide [OF assms(2,3)]
    by (intro wide_recordMigrationPlan) (auto simp: wide_inv_def)
  then show ?thesis by (simp add: recordRebalanceEvent_eq [OF False] wide_inv_def)
qed

text \<open>The ranges of the tasks stay as they are, or an event is recorded.\<close>

definition ranges :: "ControlState \<Rightarrow> (u32 \<times> u32) list list" where
  "ranges s = map (\<lambda>p. map (\<lambda>t. (mt_VSlotStart t, mt_VSlotEnd t)) (mp_Tasks p)) (plans s)"

lemma wide_ranges: "wide_inv s \<longleftrightarrow> (\<forall>rs\<in>set (ranges s). \<forall>(a, b)\<in>set rs. wideRange a b)"
  by (auto simp: wide_inv_def ranges_def wideTask_def)

definition recorded_from :: "ControlState \<Rightarrow> ControlState \<Rightarrow> bool" where
  "recorded_from s t \<longleftrightarrow>
     ranges t = ranges s \<or>
     (\<exists>u now ev. t = recordRebalanceEventLocked now u ev \<and> plans u = plans s \<and> lastRoutes u = lastRoutes s)"

definition recorded_plain :: "ControlState \<Rightarrow> ControlState \<Rightarrow> bool" where
  "recorded_plain s t \<longleftrightarrow>
     (plans t = plans s \<and> lastRoutes t = lastRoutes s) \<or>
     (\<exists>u now ev. t = recordRebalanceEventLocked now u ev \<and> plans u = plans s \<and> lastRoutes u = lastRoutes s)"

lemma recorded_plainI:
  "plans t = plans s \<Longrightarrow> lastRoutes t = lastRoutes s \<Longrightarrow> recorded_plain s t"
  "plans u = plans s \<Longrightarrow> lastRoutes u = lastRoutes s \<Longrightarrow>
     recorded_plain s (recordRebalanceEventLocked now u ev)"
  by (auto simp: recorded_plain_def)

lemma recorded_plain_from: "recorded_plain s t \<Longrightarrow> recorded_from s t"
  by (auto simp: recorded_plain_def recorded_from_def ranges_def)

lemma recorded_fromI:
  "ranges t = ranges s \<Longrightarrow> recorded_from s t"
  "plans u = plans s \<Longrightarrow> lastRoutes u = lastRoutes s \<Longrightarrow>
     recorded_from s (recordRebalanceEventLocked now u ev)"
  by (auto simp: recorded_from_def)

lemma recorded_from_wide:
  assumes "recorded_from s t" and "wide_inv s" and "control_inv s" and "nodeCount s \<le> 32768"
    and "nodes_inv t" and "nodeCount t \<le> 32768"
  shows "wide_inv t"
  using assms(1) unfolding recorded_from_def
proof (elim disjE exE conjE)
  assume "ranges t = ranges s"
  then show ?thesis using assms(2) by (simp add: wide_ranges)
next
  fix u now ev
  assume t: "t = recordRebalanceEventLocked now u ev" and u: "plans u = plans s" "lastRoutes u = lastRoutes s"
  have "wide_inv u" "nodes_inv u" "nodeCount u \<le> 32768"
    using assms(2,5,6) by (simp_all add: t u wide_inv_def nodes_inv_def nodeCount_def)
  moreover have "wideRoute r" if "r \<in> set (lastRoutes u)" for r
    using that u currentRoutes_wide [OF control_invD(2) [OF assms(3)] assms(4)] control_invD(4) [OF assms(3)]
    by simp
  ultimately show ?thesis unfolding t by (rule wide_recordRebalanceEvent)
qed

lemma ranges_withTask:
  "mp_Tasks p = a @ x # b \<Longrightarrow> mt_VSlotStart y = mt_VSlotStart x \<Longrightarrow> mt_VSlotEnd y = mt_VSlotEnd x \<Longrightarrow>
     map (\<lambda>t. (mt_VSlotStart t, mt_VSlotEnd t)) (mp_Tasks (withTask p (length a) y)) =
     map (\<lambda>t. (mt_VSlotStart t, mt_VSlotEnd t)) (mp_Tasks p)"
  by simp

lemma updateMigrationTask_ranges:
  assumes "\<And>t. mt_VSlotStart (m t) = mt_VSlotStart t" and "\<And>t. mt_VSlotEnd (m t) = mt_VSlotEnd t"
  shows "ranges (fst (updateMigrationTask s i j m)) = ranges s"
proof (cases "updateLoop i j m (plans s)")
  case (Some r)
  obtain ps task where r: "r = (ps, task)" by fastforce
  from Some [unfolded r] have "ranges (s\<lparr>plans := ps\<rparr>) = ranges s"
    by (elim updateLoop_Some) (simp add: ranges_def assms)
  with Some r show ?thesis
    by (simp add: updateMigrationTask_def replacePlansLocked_def Let_def ranges_def)
qed (simp add: updateMigrationTask_def)

lemma ClaimMigrationTask_ranges: "ranges (fst (ClaimMigrationTask s now)) = ranges s"
proof (cases "claimLoop now (plans s)")
  case (Some r)
  obtain ps task where r: "r = (ps, task)" by fastforce
  from Some [unfolded r] have "ranges (s\<lparr>plans := ps\<rparr>) = ranges s"
    by (elim claimLoop_Some) (simp add: ranges_def markTaskRunning_def Let_def)
  with Some r show ?thesis
    by (simp add: ClaimMigrationTask_def replacePlansLocked_def Let_def ranges_def)
qed (simp add: ClaimMigrationTask_def)

lemma operations_recorded:
  "recorded_plain s (fst (CreateNamespace now s x))"
  "recorded_plain s (fst (CreateSpace now s x y))"
  "recorded_plain s (fst (CreateEntity now s x y z))"
  "recorded_plain s (fst (BumpNamespaceVersion s x))"
  "recorded_plain s (fst (BumpSpaceVersion s x y))"
  "recorded_plain s (fst (registerNodeAt clock s x y now))"
  "recorded_plain s (fst (removeNode clock s x))"
  by (auto simp: CreateNamespace_def CreateSpace_def CreateEntity_def BumpNamespaceVersion_def
      BumpSpaceVersion_def registerNodeAt_def removeNode_def ranges_def Let_def
      split: sum.splits option.splits if_splits prod.splits intro!: recorded_plainI(2) intro: recorded_plainI(1))

lemma heartbeatAt_recorded: "nodes_inv s \<Longrightarrow> recorded_plain s (fst (heartbeatAt clock s x y now))"
proof (cases "validateNodeIdentity x y")
  case (Inr ka)
  assume n: "nodes_inv s"
  obtain k a where "ka = (k, a)" by fastforce
  from heartbeatAt_Inr [OF Inr [unfolded this] n] show ?thesis
    by (auto simp: Let_def intro!: recorded_plainI(2) intro: recorded_plainI(1))
qed (simp add: heartbeatAt_def recorded_plainI)

lemma liveness_foldl_wide:
  assumes "control_inv s" and "wide_inv s" and "nodeCount s \<le> 32768" and "distinct (map fst kns)"
    and "\<And>k n. (k, n) \<in> set kns \<Longrightarrow> fmlookup (nodes s) k = Some n"
  shows "wide_inv (fst (foldl (livenessStep clock now sa da) (s, c) kns))"
  using assms
proof (induction kns arbitrary: s c)
  case Nil
  then show ?case by simp
next
  case (Cons kn kns)
  obtain k n where kn: "kn = (k, n)" by fastforce
  obtain t d where td: "livenessStep clock now sa da (s, c) kn = (t, d)" by fastforce
  have k: "fmlookup (nodes s) k = Some n" using Cons.prems(5) [of k n] kn by simp
  have inv: "control_inv t" using livenessStep_inv [OF Cons.prems(1) k] td by (metis fst_conv kn)
  have l: "fmlookup (nodes t) i = (if i = k then Some (sweptNode now sa da n) else fmlookup (nodes s) i)"
    for i
    using td k by (auto simp: kn livenessStep_eq split: if_splits)
  then have "fset (fmdom (nodes t)) = fset (fmdom (nodes s))" using k by (auto split: if_splits)
  then have cnt: "nodeCount t \<le> 32768" using Cons.prems(3) by (simp add: nodeCount_def)
  have "recorded_from s t"
    using td by (auto simp: kn livenessStep_eq split: if_splits intro: recorded_fromI)
  then have "wide_inv t"
    by (rule recorded_from_wide [OF _ Cons.prems(2,1,3) control_invD(2) [OF inv] cnt])
  moreover have "fmlookup (nodes t) i = Some m" if "(i, m) \<in> set kns" for i m
  proof -
    have "i \<noteq> k" using Cons.prems(4) that kn by (auto simp: rev_image_eqI)
    then show ?thesis using Cons.prems(5) [of i m] that by (simp add: l)
  qed
  ultimately show ?case using Cons.IH [of t d] Cons.prems(4) inv cnt td by simp
qed

lemma Apply_wide:
  assumes "control_inv s" and "enumerates rng" and "wide_inv s" and "nodeCount s \<le> 32768"
    and "nodeCount (fst (Apply rng clock s command)) \<le> 32768"
  shows "wide_inv (fst (Apply rng clock s command))"
proof -
  have "recorded_from s (fst (Apply rng clock s command)) \<or> wide_inv (fst (Apply rng clock s command))"
  proof (rule Apply_cases [where P = "\<lambda>r. recorded_from s (fst r) \<or> wide_inv (fst r)"])
    have "wide_inv (fst (applyAdvanceNodeLiveness rng clock s command))"
      unfolding applyAdvanceNodeLiveness_def AdvanceLiveness_def split_beta Let_def fst_conv
      by (rule liveness_foldl_wide [OF assms(1,3,4) enumeratesD(1) [OF assms(2)]])
        (simp add: enumerates_mem [OF assms(2)])
    then show "recorded_from s (fst (applyAdvanceNodeLiveness rng clock s command)) \<or>
        wide_inv (fst (applyAdvanceNodeLiveness rng clock s command))" ..
  qed (simp_all add: handler_defs split_beta Let_def operations_recorded recorded_fromI(1)
      recorded_plain_from heartbeatAt_recorded control_invD(2) [OF assms(1)] ClaimMigrationTask_ranges
      updateMigrationTask_ranges)
  then show ?thesis
    using recorded_from_wide [OF _ assms(3,1,4) control_invD(2) [OF Apply_inv [OF assms(1,2)]] assms(5)]
    by blast
qed

lemma run_wide:
  assumes "fsmInputs log"
    and "\<forall>n\<le>length log. nodeCount (fsm.run (NewControlState c) (take n log)) \<le> 32768"
  shows "wide_inv (fsm.run (NewControlState c) log)"
  using assms
proof (induction log rule: rev_induct)
  case Nil
  then show ?case by (simp add: wide_inv_def NewControlState_def)
next
  case (snoc input log)
  let ?s = "fsm.run (NewControlState c) log"
  obtain rng clock command where i: "input = (rng, clock, command)" by (metis prod_cases3)
  have log: "fsmInputs log" and rng: "enumerates rng" using snoc.prems(1) i by auto
  have n: "nodeCount (fsm.run (NewControlState c) (take n (log @ [input]))) \<le> 32768"
    if "n \<le> Suc (length log)" for n
    using snoc.prems(2) that by simp
  have "wide_inv ?s" using snoc.IH [OF log] n by (metis le_SucI snoc.prems(2) take_append
        length_append_singleton diff_is_0_eq' take0 append_Nil2)
  moreover have "nodeCount ?s \<le> 32768" using n [of "length log"] by simp
  moreover have step: "fsm.run (NewControlState c) (log @ [input]) = fst (Apply rng clock ?s command)"
    by (simp add: fsm.run_append i fsmStep_def)
  moreover have "nodeCount (fst (Apply rng clock ?s command)) \<le> 32768"
    using n [of "Suc (length log)"] by (simp only: step [symmetric]) simp
  ultimately show ?case
    using Apply_wide [OF fsm.run_inv [OF control_inv_New log] rng] by simp
qed

section \<open>Selecting a route in the effective table\<close>

lemma overrideRoute_mem:
  assumes "x \<in> set (overrideRoute task out r)" and "wideRoute r" and "wideTask task"
    and "\<And>y. y \<in> set out \<Longrightarrow> wideRoute y"
  shows "wideRoute x"
proof -
  define s where "s = maxUint32 (rt_VSlotStart r) (mt_VSlotStart task)"
  define e where "e = minUint32 (rt_VSlotEnd r) (mt_VSlotEnd task)"
  have w: "wideRange s e" using assms(2,3) by (simp add: s_def e_def wideRoute_def wideTask_def overlap_wide)
  have "s - 1 \<noteq> 0" using w by (auto simp: wideRange_def)
  moreover have "e + 1 \<noteq> 1" using w by (simp add: wideRange_def)
  ultimately show ?thesis
    using assms w
    by (auto simp: overrideRoute_def taskRouteOverlap_def appendRouteSegment_def Let_def wideRoute_def
        wideRange_def s_def [symmetric] e_def [symmetric] sourceRouteForTask_def split: if_splits)
qed

lemma overrides_wide:
  assumes "\<And>r. r \<in> set routes \<Longrightarrow> wideRoute r" and "\<And>t. t \<in> set tasks \<Longrightarrow> wideTask t"
    and "x \<in> set (foldl overrideRouteRange routes tasks)"
  shows "wideRoute x"
proof -
  have one: "wideRoute y" if "y \<in> set (foldl (overrideRoute task) out rs)" "wideTask task"
    "\<And>r. r \<in> set rs \<union> set out \<Longrightarrow> wideRoute r" for y task rs out
    using that
  proof (induction rs arbitrary: out)
    case (Cons r rs)
    have "wideRoute z" if "z \<in> set rs \<union> set (overrideRoute task out r)" for z
      using that Cons.prems(2,3) overrideRoute_mem [of z task out r] by auto
    from Cons.IH [OF _ Cons.prems(2) this] Cons.prems(1) show ?case by simp
  qed simp
  show ?thesis using assms
  proof (induction tasks arbitrary: routes)
    case (Cons t ts)
    have "wideRoute y" if "y \<in> set (overrideRouteRange routes t)" for y
      using one [of y t "[]" routes] that Cons.prems(1,2) by (simp add: overrideRouteRange_def)
    from Cons.IH [OF this] Cons.prems show ?case by simp
  qed simp
qed

lemma find_filter: "find P xs = (case filter P xs of [] \<Rightarrow> None | x # _ \<Rightarrow> Some x)"
  by (induction xs) auto

lemma Select_owner:
  assumes "\<And>r. r \<in> set routes \<Longrightarrow> wideRoute r"
    and "owners routes namespace space (VSlotFor namespace space key) = [(node, addr)]" and "addr \<noteq> []"
  shows "\<exists>r. Select routes namespace space key = Some r \<and> rt_NodeID r = node \<and> rt_Addr r = addr"
proof -
  let ?v = "VSlotFor namespace space key"
  obtain r where r: "filter (inSlot namespace space ?v) routes = [r]" "target r = (node, addr)"
    using owners_one_filter [of routes namespace space ?v] assms(2) by auto
  have "selectable x ?v \<and> routeMatch x namespace space = exactRoute \<longleftrightarrow>
      inSlot namespace space ?v x \<and> rt_Addr x \<noteq> []" if "x \<in> set routes" for x
    using wideRoute_contains [OF assms(1) [OF that]]
    by (auto simp: selectable_def routeMatch_def inSlot_def)
  then have "filter (\<lambda>x. selectable x ?v \<and> routeMatch x namespace space = exactRoute) routes =
      filter (\<lambda>x. rt_Addr x \<noteq> []) (filter (inSlot namespace space ?v) routes)"
    by (simp add: conj_commute cong: filter_cong)
  with r assms(3) have "filter (\<lambda>x. selectable x ?v \<and> routeMatch x namespace space = exactRoute) routes = [r]"
    by (simp add: target_def)
  with r(2) show ?thesis by (simp add: Select_finds find_filter target_def)
qed

lemma set_effectiveRoutes:
  "sorts srt \<Longrightarrow> set (effectiveRoutesLocked srt s) =
     set (foldl overrideRouteRange (currentRoutes s) (pendingTasks (plans s)))"
  by (simp add: effectiveRoutesLocked_def applyMigrationRouteOverrides_def foldl_plans currentRoutes_def
      Let_def mset_eq_setD [OF mset_sortRoutes])

lemma pendingTasks_mem: "t \<in> set (pendingTasks ps) \<longleftrightarrow>
    migrationTaskRoutesSource t \<and> (\<exists>p\<in>set ps. t \<in> set (mp_Tasks p))"
  by (auto simp: pendingTasks_def)

lemma effective_wide:
  assumes "sorts srt" and "wide_inv s" and "nodes_inv s" and "nodeCount s \<le> 32768"
    and "r \<in> set (effectiveRoutesLocked srt s)"
  shows "wideRoute r"
proof (rule overrides_wide)
  show "r \<in> set (foldl overrideRouteRange (currentRoutes s) (pendingTasks (plans s)))"
    using assms(1,5) by (simp add: set_effectiveRoutes)
  show "wideRoute x" if "x \<in> set (currentRoutes s)" for x
    by (rule currentRoutes_wide [OF assms(3,4) that])
  show "wideTask t" if "t \<in> set (pendingTasks (plans s))" for t
    using that assms(2) by (auto simp: pendingTasks_mem wide_inv_def)
qed

lemma slotOwner_cases:
  "slotOwner tasks namespace space v own = own \<or>
     (\<exists>t\<in>set tasks. taskCovers namespace space v t \<and> slotOwner tasks namespace space v own = taskSource t)"
proof (cases "filter (taskCovers namespace space v) (rev tasks)")
  case (Cons t ts)
  then have "t \<in> set (filter (taskCovers namespace space v) (rev tasks))" by simp
  then have "t \<in> set tasks" "taskCovers namespace space v t" by simp_all
  with Cons show ?thesis by (auto simp: slotOwner_def)
qed (simp add: slotOwner_def)

lemma slotOwner_addr:
  assumes "control_inv s" and "length (owners (currentRoutes s) namespace space v) = 1"
  shows "snd (slotOwner (pendingTasks (plans s)) namespace space v
    (hd (owners (currentRoutes s) namespace space v))) \<noteq> []"
proof -
  obtain r where r: "filter (inSlot namespace space v) (currentRoutes s) = [r]"
    "owners (currentRoutes s) namespace space v = [target r]"
    using owners_one_filter [OF assms(2)] by blast
  then have "r \<in> set (filter (inSlot namespace space v) (currentRoutes s))" by simp
  then have "r \<in> set (currentRoutes s)" by simp
  then have "rt_Addr r \<noteq> []" using route_addr [OF control_invD(2) [OF assms(1)]] by blast
  moreover have "mt_SourceAddr t \<noteq> []" if "t \<in> set (pendingTasks (plans s))" for t
    using that control_invD(3) [OF assms(1)]
    by (auto simp: pendingTasks_mem history_inv_def list_all_iff plan_ok_def task_ok_def)
  ultimately show ?thesis
    using slotOwner_cases [of "pendingTasks (plans s)" namespace space v "target r"] r(2)
    by (auto simp: target_def taskSource_def)
qed

section \<open>A change of the members leaves traffic where it is\<close>

text \<open>
  The node a slot is routed to, before and after a single recorded change, for a slot that no
  pending task covers.
\<close>

lemma slotOwner_uncovered:
  "\<forall>t\<in>set tasks. \<not> taskCovers namespace space v t \<Longrightarrow> slotOwner tasks namespace space v own = own"
  using slotOwner_cases [of tasks namespace space v own] by auto

lemma recorded_owner:
  assumes s: "control_inv s" and u: "catalog_inv u" "plans u = plans s" "lastRoutes u = lastRoutes s"
    and srt: "sorts srt" and r: "routable s" "routable u" and v: "unat v < 65536"
    and sp: "fmlookup (spaces s) (namespace, space) \<noteq> None"
      "fmlookup (spaces u) (namespace, space) \<noteq> None"
    and idle: "\<forall>t\<in>set (pendingTasks (plans s)). \<not> taskCovers namespace space v t"
    and len: "length (plans s) < maxMigrationPlans" and ev: "rb_reason ev \<noteq> []"
  shows "map fst (owners (effectiveRoutesLocked srt (recordRebalanceEventLocked now u ev)) namespace space v) =
    map fst (owners (effectiveRoutesLocked srt s) namespace space v)"
proof -
  let ?t = "recordRebalanceEventLocked now u ev"
  obtain p where p: "filter (inSlot namespace space v) (currentRoutes s) = [p]"
    "owners (currentRoutes s) namespace space v = [target p]"
    using owners_one_filter [OF currentRoutes_one [OF control_invD(1) [OF s] r(1) sp(1) v]] by blast
  obtain c where c: "filter (inSlot namespace space v) (currentRoutes u) = [c]"
    "owners (currentRoutes u) namespace space v = [target c]"
    using owners_one_filter [OF currentRoutes_one [OF u(1) r(2) sp(2) v]] by blast
  have "normalizeSpaceIdentity namespace space = Inr (namespace, space)"
    using sp(1) control_invD(1) [OF s] by (auto simp: catalog_inv_def)
  then have ns: "namespace \<noteq> [] \<or> space \<noteq> []"
    using normalizeNamespace_not_Nil [of namespace] by (auto dest: normalizeSpaceIdentity_Inr)
  have t: "catalog_inv ?t" "routable ?t" "fmlookup (spaces ?t) (namespace, space) \<noteq> None"
    "currentRoutes ?t = currentRoutes u"
    using u(1) r(2) sp(2) currentRoutes_cong [of ?t u]
    by (simp_all add: catalog_inv_def routable_def sortedNodesLocked_def)
  have new: "owners (effectiveRoutesLocked srt ?t) namespace space v =
      [if rt_NodeID p = rt_NodeID c then target c else target p]"
    using effective_owner [OF srt t(1-3) v] t(4) c(2)
      slotOwner_recorded [OF ev len [folded u(2)] ns, of v p c now] p(1) c(1) u(2,3)
      control_invD(4) [OF s] slotOwner_uncovered [OF idle]
    by simp
  have old: "owners (effectiveRoutesLocked srt s) namespace space v = [target p]"
    using effective_owner [OF srt control_invD(1) [OF s] r(1) sp(1) v] p(2) slotOwner_uncovered [OF idle]
    by simp
  show ?thesis unfolding new old by (simp add: target_def)
qed

lemma plain_owner:
  assumes s: "control_inv s" and t: "control_inv t" "recorded_plain s t"
    and srt: "sorts srt" and r: "routable s" "routable t" and v: "unat v < 65536"
    and sp: "fmlookup (spaces s) (namespace, space) \<noteq> None"
      "fmlookup (spaces t) (namespace, space) \<noteq> None"
    and idle: "\<forall>t\<in>set (pendingTasks (plans s)). \<not> taskCovers namespace space v t"
    and len: "length (plans s) < maxMigrationPlans"
  shows "map fst (owners (effectiveRoutesLocked srt t) namespace space v) =
    map fst (owners (effectiveRoutesLocked srt s) namespace space v)"
proof -
  have same: ?thesis if "plans t = plans s" "lastRoutes t = lastRoutes s"
    using that control_invD(4) [OF s] control_invD(4) [OF t(1)]
    by (simp add: effectiveRoutesLocked_def Let_def currentRoutes_def)
  show ?thesis
  proof (cases "plans t = plans s \<and> lastRoutes t = lastRoutes s")
    case False
    then obtain u now ev where u: "t = recordRebalanceEventLocked now u ev" "plans u = plans s"
      "lastRoutes u = lastRoutes s" using t(2) by (auto simp: recorded_plain_def)
    with False have "rb_reason ev \<noteq> []" by (auto simp: recordRebalanceEventLocked_def)
    moreover have "catalog_inv u" "routable u" "fmlookup (spaces u) (namespace, space) \<noteq> None"
      using control_invD(1) [OF t(1)] r(2) sp(2)
      by (simp_all add: u(1) catalog_inv_def routable_def sortedNodesLocked_def)
    ultimately show ?thesis
      unfolding u(1) by (intro recorded_owner [OF s _ u(2,3) srt r(1) _ v sp(1) _ idle len]) auto
  qed (use same in simp)
qed

definition memberCommand :: "Command \<Rightarrow> bool" where
  "memberCommand command \<longleftrightarrow>
     cm_Type command \<in> {CommandCreateNamespace, CommandCreateSpace, CommandCreateEntity,
       CommandBumpNamespace, CommandBumpSpace, CommandRegisterNode, CommandHeartbeat, CommandRemoveNode}"

lemma member_recorded:
  assumes "memberCommand command" and "nodes_inv s"
  shows "recorded_plain s (fst (Apply rng clock s command))"
  using assms(1) unfolding memberCommand_def
  by (elim insertE emptyE; simp add: Apply_def handler_defs operations_recorded
      heartbeatAt_recorded [OF assms(2)] CommandCreateNamespace_def CommandCreateSpace_def
      CommandCreateEntity_def CommandBumpNamespace_def CommandBumpSpace_def CommandRegisterNode_def
      CommandHeartbeat_def CommandRemoveNode_def)

lemma operations_keep_spaces:
  "fmlookup (spaces s) k \<noteq> None \<Longrightarrow> fmlookup (spaces (fst (Apply rng clock s command))) k \<noteq> None"
proof -
  assume k: "fmlookup (spaces s) k \<noteq> None"
  have same: "spaces (fst (CreateNamespace now s x)) = spaces s"
    "spaces (fst (CreateEntity now s x y z)) = spaces s"
    "spaces (fst (BumpNamespaceVersion s x)) = spaces s"
    "spaces (fst (registerNodeAt clock s x y now)) = spaces s"
    "spaces (fst (heartbeatAt clock s x y now)) = spaces s"
    "spaces (fst (removeNode clock s x)) = spaces s"
    "spaces (fst (updateMigrationTask s p t m)) = spaces s"
    "spaces (fst (ClaimMigrationTask s now)) = spaces s" for now x y z p t m
    by (auto simp: CreateNamespace_def CreateEntity_def BumpNamespaceVersion_def registerNodeAt_def
        heartbeatAt_def removeNode_def updateMigrationTask_def ClaimMigrationTask_def
        replacePlansLocked_def Let_def split: sum.splits option.splits prod.splits)
  have "spaces (fst (foldl (livenessStep clock now sa da) (s, c) kns)) = spaces s" for now sa da c kns
    by (induction kns arbitrary: s c) (auto simp: livenessStep_eq split: if_splits)
  then have live: "spaces (fst (AdvanceLiveness rng clock s now sa da)) = spaces s" for now sa da
    by (simp add: AdvanceLiveness_def split_beta Let_def)
  have "fmlookup (spaces (fst (CreateSpace now s x y))) k \<noteq> None"
    "fmlookup (spaces (fst (BumpSpaceVersion s x y))) k \<noteq> None" for now x y
    using k by (auto simp: CreateSpace_def BumpSpaceVersion_def Let_def split: sum.splits option.splits)
  with k show ?thesis
    by (intro Apply_cases [where P = "\<lambda>r. fmlookup (spaces (fst r)) k \<noteq> None"])
      (simp_all add: handler_defs same live split_beta Let_def)
qed

section \<open>The revision\<close>

text \<open>What an operation that leaves the revision alone may have changed: when a node was last seen.\<close>

definition quiet :: "ControlState \<Rightarrow> ControlState \<Rightarrow> bool" where
  "quiet s t \<longleftrightarrow>
     (\<exists>m. t = s\<lparr>nodes := m\<rparr> \<and>
        (\<forall>k. map_option nodeView (fmlookup m k) = map_option nodeView (fmlookup (nodes s) k)))"

lemma quiet_refl: "quiet s s"
  unfolding quiet_def by (rule exI [of _ "nodes s"]) simp

lemma quiet_upd:
  "fmlookup (nodes s) k = Some p \<Longrightarrow> nodeView n = nodeView p \<Longrightarrow>
     quiet s (s\<lparr>nodes := fmupd k n (nodes s)\<rparr>)"
  unfolding quiet_def by (rule exI [of _ "fmupd k n (nodes s)"]) simp

lemma operations_quiet:
  "revision (fst (CreateNamespace now s x)) = revision s \<Longrightarrow> quiet s (fst (CreateNamespace now s x))"
  "revision (fst (CreateSpace now s x y)) = revision s \<Longrightarrow> quiet s (fst (CreateSpace now s x y))"
  "revision (fst (CreateEntity now s x y z)) = revision s \<Longrightarrow> quiet s (fst (CreateEntity now s x y z))"
  "revision (fst (BumpNamespaceVersion s x)) = revision s \<Longrightarrow> quiet s (fst (BumpNamespaceVersion s x))"
  "revision (fst (BumpSpaceVersion s x y)) = revision s \<Longrightarrow> quiet s (fst (BumpSpaceVersion s x y))"
  "revision (fst (removeNode clock s x)) = revision s \<Longrightarrow> quiet s (fst (removeNode clock s x))"
  "revision (fst (updateMigrationTask s p t m)) = revision s \<Longrightarrow> quiet s (fst (updateMigrationTask s p t m))"
  "revision (fst (ClaimMigrationTask s now)) = revision s \<Longrightarrow> quiet s (fst (ClaimMigrationTask s now))"
  by (auto simp: CreateNamespace_def CreateSpace_def CreateEntity_def BumpNamespaceVersion_def
      BumpSpaceVersion_def removeNode_def updateMigrationTask_def ClaimMigrationTask_def Let_def
      replacePlansLocked_def quiet_refl split: sum.splits option.splits if_splits prod.splits)

lemma registerNodeAt_quiet:
  assumes "nodes_inv s" and "revision (fst (registerNodeAt clock s x y now)) = revision s"
  shows "quiet s (fst (registerNodeAt clock s x y now))"
proof (cases "validateNodeIdentity x y")
  case (Inr ka)
  obtain k a where ka: "ka = (k, a)" by fastforce
  have "nd_NodeID p = k" if "fmlookup (nodes s) k = Some p" for p
    using that assms(1) by (simp add: nodes_inv_def)
  with assms(2) Inr ka show ?thesis
    by (auto simp: registerNodeAt_def nodeRegistrationEventReason_def Let_def nodeView_def
        split: option.splits if_splits intro!: quiet_upd)
qed (simp add: registerNodeAt_def quiet_refl)

lemma heartbeatChanges_zero: "heartbeatChanges old a = 0 \<longleftrightarrow> heartbeatReason old a = []"
  by (auto simp: heartbeatChanges_def heartbeatReason_def reason_defs split: option.splits)

lemma heartbeatAt_quiet:
  assumes "nodes_inv s" and "revision (fst (heartbeatAt clock s x y now)) = revision s"
  shows "quiet s (fst (heartbeatAt clock s x y now))"
proof (cases "validateNodeIdentity x y")
  case (Inr ka)
  obtain k a where ka: "ka = (k, a)" by fastforce
  let ?old = "fmlookup (nodes s) k"
  note h = heartbeatAt_Inr [OF Inr [unfolded ka] assms(1), of clock now]
  from assms(2) h have z: "heartbeatChanges ?old a = 0" by (simp add: Let_def)
  then have r: "heartbeatReason ?old a = []" by (simp add: heartbeatChanges_zero)
  then obtain p where p: "?old = Some p" "nd_Addr p = a" "nd_State p = nodeStateHealthy"
    by (auto simp: heartbeatReason_def reason_defs split: option.splits if_splits)
  moreover have "nd_NodeID p = k" using p(1) assms(1) by (simp add: nodes_inv_def)
  ultimately have "nodeView (healthyNode k a now) = nodeView p" by (simp add: healthyNode_def nodeView_def)
  moreover have "fst (heartbeatAt clock s x y now) = s\<lparr>nodes := fmupd k (healthyNode k a now) (nodes s)\<rparr>"
    using h z r by (simp add: Let_def recordRebalanceEventLocked_def)
  ultimately show ?thesis using quiet_upd [OF p(1)] by simp
qed (simp add: heartbeatAt_def quiet_refl)

lemma AdvanceLiveness_quiet:
  assumes "enumerates rng" and "nodeCount s < 2 ^ 64"
    and "revision (fst (AdvanceLiveness rng clock s now sa da)) = revision s"
  shows "quiet s (fst (AdvanceLiveness rng clock s now sa da))"
proof -
  let ?P = "\<lambda>(k, n). sweptNode now sa da n \<noteq> n"
  have "length (filter ?P (rng (nodes s))) \<le> nodeCount s"
    using length_filter_le [of ?P "rng (nodes s)"] length_rng_nodes [OF assms(1)] by simp
  then have "length (filter ?P (rng (nodes s))) < 2 ^ 64" using assms(2) by linarith
  moreover have "(of_nat (length (filter ?P (rng (nodes s)))) :: u64) = 0"
    using assms(3) liveness_foldl(2) [of clock now sa da s "[]" "rng (nodes s)"]
    by (simp add: AdvanceLiveness_def split_beta Let_def)
  ultimately have none: "filter ?P (rng (nodes s)) = []"
    using unat_of_nat_len [of "length (filter ?P (rng (nodes s)))", where ?'a = 64] by simp
  have "foldl (livenessStep clock now sa da) (s, c) kns = (s, c)" if "filter ?P kns = []" for c kns
    using that by (induction kns) (auto simp: livenessStep_eq split: if_splits prod.splits)
  from this [OF none] show ?thesis by (simp add: AdvanceLiveness_def quiet_refl)
qed

lemma quiet_routes:
  assumes "control_inv s" and "control_inv t" and "quiet s t"
  shows "currentRoutes t = currentRoutes s" and "plans t = plans s"
    and "effectiveRoutesLocked srt t = effectiveRoutesLocked srt s"
proof -
  from assms(3) obtain m where t: "t = s\<lparr>nodes := m\<rparr>" by (auto simp: quiet_def)
  then show "plans t = plans s" by simp
  from t show r: "currentRoutes t = currentRoutes s"
    using control_invD(4) [OF assms(1)] control_invD(4) [OF assms(2)] by simp
  show "effectiveRoutesLocked srt t = effectiveRoutesLocked srt s"
    using r by (simp add: effectiveRoutesLocked_def Let_def currentRoutes_def t)
qed

lemma Apply_quiet:
  assumes "nodes_inv s" and "enumerates rng" and "nodeCount s < 2 ^ 64"
    and "revision (fst (Apply rng clock s command)) = revision s"
  shows "quiet s (fst (Apply rng clock s command))"
  by (rule Apply_cases [where P = "\<lambda>r. revision (fst r) = revision s \<longrightarrow> quiet s (fst r)",
        THEN mp, OF _ _ _ _ _ _ _ _ _ _ _ _ _ _ assms(4)])
    (simp_all add: handler_defs split_beta operations_quiet registerNodeAt_quiet [OF assms(1)]
      heartbeatAt_quiet [OF assms(1)] AdvanceLiveness_quiet [OF assms(2,3)] quiet_refl)

end
