(* ===== verification/Control_Samples.thy ===== *)
theory Control_Samples
  imports Control_Moves
begin

text \<open>A small cluster on which the properties of the control plane are evaluated.\<close>

definition sampleClock :: gotime where "sampleClock = TimeUnix 1000"

definition sampleInput :: "Command \<Rightarrow> fsmInput" where
  "sampleInput command = (sorted_list_of_fmap, sampleClock, command)"

definition cmdNamespace :: "string \<Rightarrow> Command" where
  "cmdNamespace n = zeroCommandBody\<lparr>cm_Type := CommandCreateNamespace, cm_Namespace := n\<rparr>"

definition cmdSpace :: "string \<Rightarrow> string \<Rightarrow> Command" where
  "cmdSpace n sp = zeroCommandBody\<lparr>cm_Type := CommandCreateSpace, cm_Namespace := n, cm_Space := sp\<rparr>"

definition cmdRegister :: "string \<Rightarrow> string \<Rightarrow> Command" where
  "cmdRegister n a = zeroCommandBody\<lparr>cm_Type := CommandRegisterNode, cm_NodeID := n, cm_Addr := a\<rparr>"

definition sampleLog :: "fsmInput list" where
  "sampleLog = map sampleInput
     [cmdNamespace ''a'', cmdSpace ''a'' ''s'', cmdRegister ''n1'' ''h:1'', cmdRegister ''n2'' ''h:2'']"

definition sampleState :: ControlState where
  "sampleState = applyLog (NewControlState ''c'') sampleLog"

end
