(* ===== verification/Properties_Control.thy ===== *)
theory Properties_Control
  imports Control_Samples
begin

text \<open>The properties of the control plane, each with a run of the sample cluster that uses it.\<close>

lemma sampleLog_inputs: "fsmInputs sampleLog"
  by (simp add: sampleLog_def sampleInput_def enumerates_sorted_list_of_fmap)

section \<open>The replicated state\<close>

text \<open>
  C9: After any log of commands, applied with any clock and any order of visiting the nodes, the
  catalog is closed (each space has its namespace, each entity its space), nodes are stored under
  their identifiers with valid addresses and a known state, the remembered route table is the one of
  the current members, and the histories hold at most 128 events and plans with well-formed tasks.
\<close>

theorem control_log_keeps_invariant:
  assumes "fsmInputs log"
  shows "control_inv (applyLog (NewControlState cluster) log)"
  unfolding applyLog_run by (rule fsm.run_inv [OF control_inv_New assms])

theorem control_log_keeps_invariant_witness:
  "control_inv sampleState \<and> fmlookup (spaces sampleState) (''a'', ''s'') \<noteq> None
     \<and> length (plans sampleState) = 1"
proof -
  have "fmlookup (spaces sampleState) (''a'', ''s'') \<noteq> None" by code_simp
  moreover have "length (plans sampleState) = 1" by code_simp
  ultimately show ?thesis
    using control_log_keeps_invariant [OF sampleLog_inputs, of "''c''"] by (simp add: sampleState_def)
qed

text \<open>
  C38: A command that is refused, for a bad name, a missing object or an unknown type, changes
  nothing in the state.
\<close>

theorem refused_command_changes_nothing:
  assumes "snd (Apply rng clock s command) = Inl err"
  shows "fst (Apply rng clock s command) = s"
  using assms by (rule Apply_refused)

theorem refused_command_changes_nothing_witness:
  "fst (Apply sorted_list_of_fmap sampleClock sampleState (cmdSpace ''b'' ''s'')) = sampleState"
proof -
  have "snd (Apply sorted_list_of_fmap sampleClock sampleState (cmdSpace ''b'' ''s'')) =
      Inl (ErrNamespaceNotFound ''b'')" by code_simp
  then show ?thesis by (rule refused_command_changes_nothing)
qed

text \<open>
  C13: Restoring the exported snapshot into any state gives back exactly the state that was exported,
  the route table it remembers included, for every state that fewer than \<open>2^32\<close> commands can reach.
\<close>

theorem control_snapshot_roundtrip:
  assumes "fsmInputs log" and "length log < 2 ^ 32"
  shows "RestoreSnapshot s (ExportSnapshot (applyLog (NewControlState cluster) log)) =
    (applyLog (NewControlState cluster) log, None)"
proof -
  have "length log * length log < 2 ^ 32 * 2 ^ 32" using assms(2) by (intro mult_strict_mono) auto
  then have "length log * length log < 2 ^ 64" by simp
  from run_ids [OF assms(1) this, of cluster]
  show ?thesis
    unfolding applyLog_run
    by (intro RestoreSnapshot_ExportSnapshot fsm.run_inv [OF control_inv_New assms(1)])
      (auto simp: ids_inv_def)
qed

theorem control_snapshot_roundtrip_witness:
  "RestoreSnapshot (NewControlState ''other'') (ExportSnapshot sampleState) = (sampleState, None)
     \<and> length (lastRoutes sampleState) = 2"
proof -
  have "length (lastRoutes sampleState) = 2" by code_simp
  then show ?thesis
    using control_snapshot_roundtrip [OF sampleLog_inputs, of "NewControlState ''other''" "''c''"]
    by (simp add: sampleState_def sampleLog_def)
qed

text \<open>
  A liveness sweep gives every node that was ever seen the state its age calls for (dead, else
  suspect, else unchanged) and touches nothing else of it, whatever the order in which the nodes are
  visited; it reports exactly the nodes it changed and moves the revision once for each.
\<close>

theorem sweep_is_pointwise:
  assumes "enumerates rng"
    and "AdvanceLiveness rng clock s now suspectAfter deadAfter = (t, result)"
  shows "(\<forall>k. fmlookup (nodes t) k =
      map_option (\<lambda>n. if nd_LastSeenUnix n \<le> 0 then n
        else n\<lparr>nd_State := livenessState now suspectAfter deadAfter n\<rparr>) (fmlookup (nodes s) k)) \<and>
    set (lv_Changed result) =
      {n. \<exists>k. fmlookup (nodes t) k = Some n \<and> fmlookup (nodes s) k \<noteq> Some n} \<and>
    revision t = revision s + of_nat (length (lv_Changed result))"
proof (intro conjI)
  let ?f = "sweptNode now suspectAfter deadAfter"
  have t: "fmlookup (nodes t) k = map_option ?f (fmlookup (nodes s) k)" for k
    using AdvanceLiveness_nodes [OF assms(1), of clock s now suspectAfter deadAfter k] assms(2) by simp
  then show "\<forall>k. fmlookup (nodes t) k =
      map_option (\<lambda>n. if nd_LastSeenUnix n \<le> 0 then n
        else n\<lparr>nd_State := livenessState now suspectAfter deadAfter n\<rparr>) (fmlookup (nodes s) k)"
    by (simp add: sweptNode_def [abs_def])
  have c: "lv_Changed result = map (\<lambda>(k, n). ?f n) (filter (\<lambda>(k, n). ?f n \<noteq> n) (rng (nodes s)))"
    using assms(2) liveness_foldl(1) [of clock now suspectAfter deadAfter s "[]" "rng (nodes s)"]
    by (auto simp: AdvanceLiveness_def split_beta Let_def)
  then show "revision t = revision s + of_nat (length (lv_Changed result))"
    using assms(2) liveness_foldl(2) [of clock now suspectAfter deadAfter s "[]" "rng (nodes s)"]
    by (auto simp: AdvanceLiveness_def split_beta Let_def)
  have "set (lv_Changed result) = {m. \<exists>k n. fmlookup (nodes s) k = Some n \<and> m = ?f n \<and> m \<noteq> n}"
    using enumerates_mem [OF assms(1)] by (force simp: c)
  then show "set (lv_Changed result) =
      {n. \<exists>k. fmlookup (nodes t) k = Some n \<and> fmlookup (nodes s) k \<noteq> Some n}"
    by (auto simp: t) metis
qed

theorem sweep_is_pointwise_witness:
  "\<exists>t result. AdvanceLiveness sorted_list_of_fmap sampleClock sampleState (TimeUnix 1020)
      (15 * nanos) (30 * nanos) = (t, result) \<and>
    (\<forall>k. map_option nd_State (fmlookup (nodes t) k) =
      map_option (\<lambda>_. nodeStateSuspect) (fmlookup (nodes sampleState) k)) \<and>
    length (lv_Changed result) = 2 \<and> revision t = revision sampleState + 2"
proof -
  let ?r = "AdvanceLiveness sorted_list_of_fmap sampleClock sampleState (TimeUnix 1020)
    (15 * nanos) (30 * nanos)"
  obtain t result where r: "?r = (t, result)" by fastforce
  have "length (lv_Changed (snd ?r)) = 2" by code_simp
  then have len: "length (lv_Changed result) = 2" by (simp add: r)
  have all: "fmpred (\<lambda>_ n. nd_LastSeenUnix n > 0 \<and>
      livenessState (TimeUnix 1020) (15 * nanos) (30 * nanos) n = nodeStateSuspect) (nodes sampleState)"
    by code_simp
  note p = sweep_is_pointwise [OF enumerates_sorted_list_of_fmap r]
  have "map_option nd_State (fmlookup (nodes t) k) =
      map_option (\<lambda>_. nodeStateSuspect) (fmlookup (nodes sampleState) k)" for k
  proof (cases "fmlookup (nodes sampleState) k")
    case (Some n)
    with p fmpredD [OF all Some] show ?thesis by simp
  qed (use p in simp)
  with p r len show ?thesis by (intro exI [of _ t] exI [of _ result]) simp
qed

section \<open>Routing\<close>

text \<open>
  C2: In every state a log can reach, as long as the cluster has a healthy node and never had more
  than 32768 nodes, a client that selects a route for any key of a registered space finds one: the
  key's slot is in exactly one range of the effective table, and the route leads to the source of
  the last migration task over the slot that is not cut over, or else to the node the slot is cut
  for.
\<close>

theorem every_key_has_one_owner:
  fixes log cluster
  defines "s \<equiv> applyLog (NewControlState cluster) log"
  assumes "fsmInputs log" and "sorts srt"
    and "\<forall>n\<le>length log. nodeCount (applyLog (NewControlState cluster) (take n log)) \<le> 32768"
    and "healthyNodes (sortedNodesLocked s) \<noteq> []"
    and "fmlookup (spaces s) (namespace, space) \<noteq> None"
  shows "\<exists>r. Select (effectiveRoutesLocked srt s) namespace space key = Some r \<and>
    [(rt_NodeID r, rt_Addr r)] =
      owners (effectiveRoutesLocked srt s) namespace space (VSlotFor namespace space key) \<and>
    (rt_NodeID r, rt_Addr r) =
      slotOwner (pendingTasks (plans s)) namespace space (VSlotFor namespace space key)
        (hd (owners (currentRoutes s) namespace space (VSlotFor namespace space key)))"
proof -
  let ?v = "VSlotFor namespace space key"
  have inv: "control_inv s"
    unfolding s_def applyLog_run by (rule fsm.run_inv [OF control_inv_New assms(2)])
  have wide: "wide_inv s"
    using run_wide [OF assms(2)] assms(4) unfolding s_def applyLog_run by blast
  have cnt: "nodeCount s \<le> 32768" using assms(4) unfolding s_def by (metis order_refl take_all_iff)
  then have "routable s"
    using assms(5) length_healthy_le [OF control_invD(2) [OF inv]] by (simp add: routable_def Let_def)
  note one = effective_owner [OF assms(3) control_invD(1) [OF inv] this assms(6) unat_VSlotFor]
    and addr = slotOwner_addr [OF inv currentRoutes_one [OF control_invD(1) [OF inv] this assms(6) unat_VSlotFor]]
  show ?thesis
    using Select_owner [OF effective_wide [OF assms(3) wide control_invD(2) [OF inv] cnt],
        where namespace = namespace and space = space and key = key] one [of namespace space key] addr [of namespace space key]
    by (metis prod.collapse)
qed

theorem every_key_has_one_owner_witness:
  "\<exists>r. Select (effectiveRoutesLocked sort_by sampleState) ''a'' ''s'' ''k'' = Some r \<and>
     rt_NodeID r = ''n1''"
proof -
  have n: "list_all (\<lambda>n. nodeCount (applyLog (NewControlState ''c'') (take n sampleLog)) \<le> 4) [0..<5]"
    by code_simp
  have "length sampleLog = 4" by (simp add: sampleLog_def)
  have "nodeCount (applyLog (NewControlState ''c'') (take k sampleLog)) \<le> 32768"
    if "k \<le> length sampleLog" for k
  proof -
    from that \<open>length sampleLog = 4\<close> have "k \<in> set [0..<5]" by simp
    with n have "nodeCount (applyLog (NewControlState ''c'') (take k sampleLog)) \<le> 4"
      unfolding list_all_iff by blast
    then show ?thesis by simp
  qed
  then have "\<forall>n\<le>length sampleLog. nodeCount (applyLog (NewControlState ''c'') (take n sampleLog)) \<le> 32768"
    by blast
  moreover have "healthyNodes (sortedNodesLocked sampleState) \<noteq> []" by code_simp
  moreover have "fmlookup (spaces sampleState) (''a'', ''s'') \<noteq> None" by code_simp
  moreover have "map fst (owners (effectiveRoutesLocked sort_by sampleState) ''a'' ''s''
      (VSlotFor ''a'' ''s'' ''k'')) = [''n1'']" by code_simp
  ultimately show ?thesis
    using every_key_has_one_owner [OF sampleLog_inputs sorts_sort_by, of "''c''" "''a''" "''s''" "''k''"]
    by (auto simp: sampleState_def [symmetric])
qed


definition oneNode :: ControlState where
  "oneNode = applyLog (NewControlState ''c'') (take 3 sampleLog)"


text \<open>
  A second change before the first migration is done moves traffic away from the data: after two
  joins in a row the entries of slot 50000 are still on the first node, where the first plan will
  export them from, but the table sends the slot to the second node, which holds none of them.
\<close>

theorem second_join_misroutes:
  "map fst (owners (effectiveRoutesLocked sort_by oneNode) ''a'' ''s'' 50000) = [''n1''] \<and>
   map (\<lambda>t. (mt_State t, mt_SourceNodeID t, mt_TargetNodeID t))
     (filter (taskCovers ''a'' ''s'' 50000) (pendingTasks (plans (applyLog oneNode
        (map sampleInput [cmdRegister ''n2'' ''h:2'', cmdRegister ''n3'' ''h:3'']))))) =
     [(''planned'', ''n1'', ''n2''), (''planned'', ''n2'', ''n3'')] \<and>
   map fst (owners (effectiveRoutesLocked sort_by (applyLog oneNode
      (map sampleInput [cmdRegister ''n2'' ''h:2'', cmdRegister ''n3'' ''h:3'']))) ''a'' ''s'' 50000) =
     [''n2'']"
  by code_simp

text \<open>
  C35: Between two states of the cluster, the tasks that are built move exactly the slots that change
  their node: over a slot of a space that both states have there is no task if its node stays, and
  otherwise exactly one, from the address of the old node to the address of the new one.
\<close>

theorem one_task_for_each_moved_slot:
  assumes "control_inv s" and "control_inv t" and "routable s" and "routable t" and "unat v < 65536"
    and "fmlookup (spaces s) (namespace, space) \<noteq> None"
    and "fmlookup (spaces t) (namespace, space) \<noteq> None"
  shows "\<exists>old new. owners (currentRoutes s) namespace space v = [old] \<and>
    owners (currentRoutes t) namespace space v = [new] \<and>
    map (\<lambda>task. (taskSource task, mt_TargetNodeID task, mt_TargetAddr task))
      (filter (taskCovers namespace space v)
        (buildMigrationTasks event (currentRoutes s) (currentRoutes t))) =
    (if fst old = fst new then [] else [(old, new)])"
proof -
  obtain p where p: "filter (inSlot namespace space v) (currentRoutes s) = [p]"
    "owners (currentRoutes s) namespace space v = [target p]"
    using owners_one_filter [OF currentRoutes_one [OF control_invD(1) [OF assms(1)] assms(3,6,5)]] by blast
  obtain c where c: "filter (inSlot namespace space v) (currentRoutes t) = [c]"
    "owners (currentRoutes t) namespace space v = [target c]"
    using owners_one_filter [OF currentRoutes_one [OF control_invD(1) [OF assms(2)] assms(4,7,5)]] by blast
  have "normalizeSpaceIdentity namespace space = Inr (namespace, space)"
    using assms(6) control_invD(1) [OF assms(1)] by (auto simp: catalog_inv_def)
  then have "namespace \<noteq> [] \<or> space \<noteq> []"
    using normalizeNamespace_not_Nil [of namespace] by (auto dest: normalizeSpaceIdentity_Inr)
  from one_task_per_move [OF this p(1) c(1), of event] show ?thesis
    by (intro exI [of _ "target p"] exI [of _ "target c"]) (auto simp: p c target_def)
qed

theorem one_task_for_each_moved_slot_witness:
  "\<forall>event. map (\<lambda>task. (mt_SourceNodeID task, mt_TargetNodeID task)) (filter (taskCovers ''a'' ''s'' 40000)
     (buildMigrationTasks event (currentRoutes oneNode) (currentRoutes sampleState))) = [(''n1'', ''n2'')]"
proof
  fix event
  have l: "fsmInputs (take 3 sampleLog)"
    using sampleLog_inputs by (auto simp: list_all_iff dest: in_set_takeD)
  have inv: "control_inv oneNode" "control_inv sampleState"
    unfolding oneNode_def sampleState_def applyLog_run
    by (rule fsm.run_inv [OF control_inv_New]; fact l sampleLog_inputs)+
  have h: "length (healthyNodes (sortedNodesLocked oneNode)) = 1"
    "length (healthyNodes (sortedNodesLocked sampleState)) = 2" by code_simp+
  have sp: "fmlookup (spaces oneNode) (''a'', ''s'') \<noteq> None"
    "fmlookup (spaces sampleState) (''a'', ''s'') \<noteq> None" by code_simp+
  have o: "owners (currentRoutes oneNode) ''a'' ''s'' 40000 = [(''n1'', ''h:1'')]"
    "owners (currentRoutes sampleState) ''a'' ''s'' 40000 = [(''n2'', ''h:2'')]" by code_simp+
  from one_task_for_each_moved_slot [OF inv _ _ _ sp, of 40000 event] h o
  have "map (\<lambda>task. (taskSource task, mt_TargetNodeID task, mt_TargetAddr task))
      (filter (taskCovers ''a'' ''s'' 40000)
        (buildMigrationTasks event (currentRoutes oneNode) (currentRoutes sampleState))) =
      [((''n1'', ''h:1''), ''n2'', ''h:2'')]" by (auto simp: routable_def)
  then have "map (\<lambda>x. (fst (fst x), fst (snd x)))
      (map (\<lambda>task. (taskSource task, mt_TargetNodeID task, mt_TargetAddr task))
      (filter (taskCovers ''a'' ''s'' 40000)
        (buildMigrationTasks event (currentRoutes oneNode) (currentRoutes sampleState)))) = [(''n1'', ''n2'')]"
    by simp
  then show "map (\<lambda>task. (mt_SourceNodeID task, mt_TargetNodeID task)) (filter (taskCovers ''a'' ''s'' 40000)
      (buildMigrationTasks event (currentRoutes oneNode) (currentRoutes sampleState))) = [(''n1'', ''n2'')]"
    by (simp add: o_def taskSource_def)
qed

section \<open>Migration tasks\<close>

text \<open>
  C36: A claim takes the first claimable task in the order of the plans, planned, cleaning up, or
  failed with its retry time reached, marks it running and derives the state of its plan; such a task
  cannot be claimed again while it runs. A claim that takes nothing leaves the state as it is, and
  then no task is claimable.
\<close>

theorem claim_takes_first:
  "case ClaimMigrationTask s now of (t, result) \<Rightarrow>
     if mr_Claimed result then
       (\<exists>us plan vs a task b. plans s = us @ plan # vs \<and> mp_Tasks plan = a @ task # b \<and>
          claimableMigrationTask task now \<and>
          (\<forall>x\<in>set (concat (map mp_Tasks us) @ a). \<not> claimableMigrationTask x now) \<and>
          mr_Task result = markTaskRunning task now \<and> mt_State (mr_Task result) = migrationTaskRunning \<and>
          (\<forall>later. \<not> claimableMigrationTask (mr_Task result) later) \<and>
          plans t = us @ withTask plan (length a) (mr_Task result) # vs \<and>
          revision t = revision s + 1)
     else t = s \<and> (\<forall>plan\<in>set (plans s). \<forall>x\<in>set (mp_Tasks plan). \<not> claimableMigrationTask x now)"
proof (cases "claimLoop now (plans s)")
  case None
  then have "\<forall>plan\<in>set (plans s). \<forall>x\<in>set (mp_Tasks plan). \<not> claimableMigrationTask x now"
    by (simp add: claimLoop_None)
  with None show ?thesis by (simp add: ClaimMigrationTask_def)
next
  case (Some r)
  obtain ps task where r: "r = (ps, task)" by fastforce
  have run: "mt_State (markTaskRunning x now) = migrationTaskRunning"
    "\<not> claimableMigrationTask (markTaskRunning x now) later" for x later
    by (simp_all add: markTaskRunning_def claimableMigrationTask_def Let_def task_states)
  from Some [unfolded r] obtain us plan vs a x b where *: "plans s = us @ plan # vs"
    "mp_Tasks plan = a @ x # b" "claimableMigrationTask x now"
    "\<forall>y\<in>set (concat (map mp_Tasks us)) \<union> set a. \<not> claimableMigrationTask y now"
    "task = markTaskRunning x now" "ps = us @ withTask plan (length a) task # vs"
    by (rule claimLoop_Some) blast
  have "\<exists>us plan vs a x b. plans s = us @ plan # vs \<and> mp_Tasks plan = a @ x # b \<and>
      claimableMigrationTask x now \<and>
      (\<forall>y\<in>set (concat (map mp_Tasks us) @ a). \<not> claimableMigrationTask y now) \<and>
      task = markTaskRunning x now \<and> mt_State task = migrationTaskRunning \<and>
      (\<forall>later. \<not> claimableMigrationTask task later) \<and>
      ps = us @ withTask plan (length a) task # vs"
    by (intro exI [of _ us] exI [of _ plan] exI [of _ vs] exI [of _ a] exI [of _ x] exI [of _ b])
      (use * run in simp)
  then show ?thesis
    by (simp add: ClaimMigrationTask_def Some r Let_def replacePlansLocked_def)
qed

theorem claim_takes_first_witness:
  "\<exists>us plan vs a task b. plans sampleState = us @ plan # vs \<and> mp_Tasks plan = a @ task # b \<and>
     mr_Task (snd (ClaimMigrationTask sampleState sampleClock)) = markTaskRunning task sampleClock \<and>
     mt_SourceNodeID (mr_Task (snd (ClaimMigrationTask sampleState sampleClock))) = ''n1''"
proof -
  obtain t result where r: "ClaimMigrationTask sampleState sampleClock = (t, result)" by fastforce
  have "mr_Claimed (snd (ClaimMigrationTask sampleState sampleClock))"
    "mt_SourceNodeID (mr_Task (snd (ClaimMigrationTask sampleState sampleClock))) = ''n1''" by code_simp+
  with claim_takes_first [of sampleState sampleClock] show ?thesis
    unfolding r by (simp only: case_prod_conv snd_conv if_True) blast
qed

text \<open>
  Cutting a task over takes exactly this task out of the tasks that override the route table and
  puts it into cleanup; an unknown plan or task is refused. With the last task over a slot gone, the
  slot belongs to the node the table gives it.
\<close>

theorem cutover_hands_over:
  assumes "UnixOf now \<noteq> 0"
  shows "case CutoverMigrationTask s planID taskID imported now of
     (t, Inl err) \<Rightarrow> t = s \<and> \<not> (\<exists>plan\<in>set (plans s). mp_ID plan = planID \<and>
       taskID \<in> mt_TaskID ` set (mp_Tasks plan))
   | (t, Inr task) \<Rightarrow> (\<exists>old before after. mt_TaskID old = taskID \<and>
       mt_State task = migrationTaskCleanup \<and> mt_CutoverAtUnix task = UnixOf now \<and>
       pendingTasks (plans s) = before @ (if migrationTaskRoutesSource old then [old] else []) @ after \<and>
       pendingTasks (plans t) = before @ after)"
proof (cases "updateLoop planID taskID (\<lambda>task. task\<lparr>mt_State := migrationTaskCleanup, mt_Error := [],
    mt_ImportedEntries := imported, mt_CutoverAtUnix := UnixOf now, mt_NextRetryUnix := 0\<rparr>) (plans s)")
  case None
  then have "\<not> (\<exists>plan\<in>set (plans s). mp_ID plan = planID \<and> taskID \<in> mt_TaskID ` set (mp_Tasks plan))"
    by (simp add: updateLoop_None)
  with None show ?thesis by (simp add: CutoverMigrationTask_def updateMigrationTask_def)
next
  case (Some r)
  obtain ps task where r: "r = (ps, task)" by fastforce
  from Some [unfolded r] obtain us plan vs a x b where ps: "plans s = us @ plan # vs"
    and p: "mp_Tasks plan = a @ x # b" and x: "mt_TaskID x = taskID"
    and t: "task = x\<lparr>mt_State := migrationTaskCleanup, mt_Error := [],
      mt_ImportedEntries := imported, mt_CutoverAtUnix := UnixOf now, mt_NextRetryUnix := 0\<rparr>"
    and ps': "ps = us @ withTask plan (length a) task # vs" by (rule updateLoop_Some) blast
  let ?before = "pendingTasks us @ filter migrationTaskRoutesSource a"
  let ?after = "filter migrationTaskRoutesSource b @ pendingTasks vs"
  have "\<not> migrationTaskRoutesSource task" using assms by (simp add: t migrationTaskRoutesSource_def)
  then have "pendingTasks ps = ?before @ ?after" by (simp add: ps' p pendingTasks_def)
  moreover have "pendingTasks (plans s) =
      ?before @ (if migrationTaskRoutesSource x then [x] else []) @ ?after"
    by (simp add: ps p pendingTasks_def)
  moreover have "mt_State task = migrationTaskCleanup" "mt_CutoverAtUnix task = UnixOf now"
    by (simp_all add: t)
  ultimately have "\<exists>old before after. mt_TaskID old = taskID \<and>
      mt_State task = migrationTaskCleanup \<and> mt_CutoverAtUnix task = UnixOf now \<and>
      pendingTasks (plans s) = before @ (if migrationTaskRoutesSource old then [old] else []) @ after \<and>
      pendingTasks ps = before @ after" using x by blast
  then show ?thesis
    by (simp add: CutoverMigrationTask_def updateMigrationTask_def Some r Let_def replacePlansLocked_def)
qed

theorem cutover_hands_over_witness:
  "\<exists>t. fst (CutoverMigrationTask sampleState 1 1 0 sampleClock) = t \<and>
     map fst (owners (effectiveRoutesLocked sort_by t) ''a'' ''s'' 40000) = [''n2''] \<and>
     length (pendingTasks (plans sampleState)) = 1 \<and> pendingTasks (plans t) = []"
proof -
  have "UnixOf sampleClock \<noteq> 0" by (simp add: sampleClock_def)
  note h = cutover_hands_over [OF this, of sampleState 1 1 0]
  obtain t r where tr: "CutoverMigrationTask sampleState 1 1 0 sampleClock = (t, r)" by fastforce
  have "case snd (CutoverMigrationTask sampleState 1 1 0 sampleClock) of Inl _ \<Rightarrow> False | Inr _ \<Rightarrow> True"
    by code_simp
  then obtain task where r: "r = Inr task" using tr by (auto split: sum.splits)
  have p: "length (pendingTasks (plans sampleState)) = 1"
    and q: "list_all (\<lambda>x. mt_TaskID x = 1) (pendingTasks (plans sampleState))" by code_simp+
  have o: "map fst (owners (effectiveRoutesLocked sort_by
      (fst (CutoverMigrationTask sampleState 1 1 0 sampleClock))) ''a'' ''s'' 40000) = [''n2'']" by code_simp
  have "length (pendingTasks (plans (fst (CutoverMigrationTask sampleState 1 1 0 sampleClock)))) = 0"
    by code_simp
  with h p o show ?thesis by (simp add: tr r)
qed

section \<open>Revisions and replicas\<close>



text \<open>
  Replicas of the control plane that apply the same log can end in different states: creating a
  namespace stores the clock of the replica that applies the command, not a time of the command, so
  two replicas one second apart disagree on its creation time.
\<close>

theorem replicas_disagree_on_creation_time:
  "applyLog (NewControlState ''c'') [(sorted_list_of_fmap, TimeUnix 1000, cmdNamespace ''a'')] \<noteq>
   applyLog (NewControlState ''c'') [(sorted_list_of_fmap, TimeUnix 1001, cmdNamespace ''a'')]"
proof -
  have "map_option ns_CreatedAtUnix (fmlookup (namespaces (applyLog (NewControlState ''c'')
      [(sorted_list_of_fmap, TimeUnix 1000, cmdNamespace ''a'')])) ''a'') = Some 1000"
    "map_option ns_CreatedAtUnix (fmlookup (namespaces (applyLog (NewControlState ''c'')
      [(sorted_list_of_fmap, TimeUnix 1001, cmdNamespace ''a'')])) ''a'') = Some 1001" by code_simp+
  then show ?thesis by auto
qed

end
