(* ===== verification/Control_Service.thy ===== *)
theory Control_Service
  imports Control_FSM
begin

text \<open>
  The control service (\<open>control/service.go\<close>, \<open>migration_service.go\<close>, \<open>liveness.go\<close>): every change is a
  command that is proposed to raft when a raft runtime is running and applied to the local state
  machine otherwise. \<open>sv_propose\<close> is raft: what proposing a command does to the state of this replica and
  what it returns. The HTTP status of an error is the one the endpoints answer with.
\<close>

datatype service_error = StateError control_error | RaftError string

type_synonym service_result = "ControlState \<times> (service_error + ApplyResult)"

record serviceEnv =
  sv_propose :: "(Command \<Rightarrow> ControlState \<Rightarrow> service_result) option"
  sv_rng :: node_range
  sv_clock :: gotime
  sv_now :: gotime

definition nowUnix :: "serviceEnv \<Rightarrow> int" where
  "nowUnix env = UnixOf (sv_now env)"

definition svcApply :: "serviceEnv \<Rightarrow> Command \<Rightarrow> ControlState \<Rightarrow> service_result" where
  "svcApply env command s =
     (case sv_propose env of
        Some propose \<Rightarrow> propose command s
      | None \<Rightarrow>
          (case Apply (sv_rng env) (sv_clock env) s command of
             (s, Inl e) \<Rightarrow> (s, Inl (StateError e))
           | (s, Inr result) \<Rightarrow> (s, Inr result)))"

definition onApplied :: "(ApplyResult \<Rightarrow> 'a) \<Rightarrow> service_result \<Rightarrow> ControlState \<times> (service_error + 'a)" where
  "onApplied f r = (case r of (s, Inl e) \<Rightarrow> (s, Inl e) | (s, Inr result) \<Rightarrow> (s, Inr (f result)))"

definition svcCreateNamespace ::
  "serviceEnv \<Rightarrow> string \<Rightarrow> ControlState \<Rightarrow> ControlState \<times> (service_error + CreateNamespaceResponse)" where
  "svcCreateNamespace env namespace s =
     onApplied ar_CreateNamespace
       (svcApply env (zeroCommandBody\<lparr>cm_Type := CommandCreateNamespace, cm_Namespace := namespace\<rparr>) s)"

definition svcCreateSpace ::
  "serviceEnv \<Rightarrow> string \<Rightarrow> string \<Rightarrow> ControlState \<Rightarrow> ControlState \<times> (service_error + CreateSpaceResponse)" where
  "svcCreateSpace env namespace space s =
     onApplied ar_CreateSpace
       (svcApply env (zeroCommandBody\<lparr>cm_Type := CommandCreateSpace, cm_Namespace := namespace,
          cm_Space := space\<rparr>) s)"

definition svcCreateEntity ::
  "serviceEnv \<Rightarrow> string \<Rightarrow> string \<Rightarrow> string \<Rightarrow> ControlState \<Rightarrow>
     ControlState \<times> (service_error + CreateEntityResponse)" where
  "svcCreateEntity env namespace space entity s =
     onApplied ar_CreateEntity
       (svcApply env (zeroCommandBody\<lparr>cm_Type := CommandCreateEntity, cm_Namespace := namespace,
          cm_Space := space, cm_Entity := entity\<rparr>) s)"

definition svcBumpNamespaceVersion ::
  "serviceEnv \<Rightarrow> string \<Rightarrow> ControlState \<Rightarrow> ControlState \<times> (service_error + BumpNamespaceVersionResponse)" where
  "svcBumpNamespaceVersion env namespace s =
     onApplied ar_BumpNamespace
       (svcApply env (zeroCommandBody\<lparr>cm_Type := CommandBumpNamespace, cm_Namespace := namespace\<rparr>) s)"

definition svcBumpSpaceVersion ::
  "serviceEnv \<Rightarrow> string \<Rightarrow> string \<Rightarrow> ControlState \<Rightarrow> ControlState \<times> (service_error + BumpSpaceVersionResponse)" where
  "svcBumpSpaceVersion env namespace space s =
     onApplied ar_BumpSpace
       (svcApply env (zeroCommandBody\<lparr>cm_Type := CommandBumpSpace, cm_Namespace := namespace,
          cm_Space := space\<rparr>) s)"

definition svcRegisterNode ::
  "serviceEnv \<Rightarrow> string \<Rightarrow> string \<Rightarrow> ControlState \<Rightarrow> ControlState \<times> (service_error + RegisterNodeResponse)" where
  "svcRegisterNode env nodeID addr s =
     onApplied ar_RegisterNode
       (svcApply env (zeroCommandBody\<lparr>cm_Type := CommandRegisterNode, cm_NodeID := nodeID, cm_Addr := addr,
          cm_NowUnix := nowUnix env\<rparr>) s)"

definition svcHeartbeat ::
  "serviceEnv \<Rightarrow> string \<Rightarrow> string \<Rightarrow> ControlState \<Rightarrow> ControlState \<times> (service_error + HeartbeatResponse)" where
  "svcHeartbeat env nodeID addr s =
     onApplied ar_Heartbeat
       (svcApply env (zeroCommandBody\<lparr>cm_Type := CommandHeartbeat, cm_NodeID := nodeID, cm_Addr := addr,
          cm_NowUnix := nowUnix env\<rparr>) s)"

definition svcRemoveNode ::
  "serviceEnv \<Rightarrow> string \<Rightarrow> ControlState \<Rightarrow> ControlState \<times> (service_error + RemoveNodeResponse)" where
  "svcRemoveNode env nodeID s =
     onApplied ar_RemoveNode (svcApply env (zeroCommandBody\<lparr>cm_Type := CommandRemoveNode, cm_NodeID := nodeID\<rparr>) s)"

text \<open>\<open>Milliseconds\<close> of a duration divides towards zero.\<close>

definition Milliseconds :: "duration \<Rightarrow> int" where
  "Milliseconds d = (if d < 0 then - ((- d) div 1000000) else d div 1000000)"

definition advanceLiveness ::
  "serviceEnv \<Rightarrow> gotime \<Rightarrow> duration \<Rightarrow> duration \<Rightarrow> ControlState \<Rightarrow> ControlState \<times> (service_error + LivenessResult)" where
  "advanceLiveness env now suspectAfter deadAfter s =
     onApplied ar_Liveness
       (svcApply env (zeroCommandBody\<lparr>cm_Type := CommandAdvanceNodeLiveness, cm_NowUnix := UnixOf now,
          cm_SuspectAfterMS := Milliseconds suspectAfter, cm_DeadAfterMS := Milliseconds deadAfter\<rparr>) s)"

definition claimMigrationTask ::
  "serviceEnv \<Rightarrow> ControlState \<Rightarrow> ControlState \<times> (service_error + MigrationTaskResult)" where
  "claimMigrationTask env s =
     onApplied ar_MigrationTask
       (svcApply env (zeroCommandBody\<lparr>cm_Type := CommandClaimMigrationTask, cm_NowUnix := nowUnix env\<rparr>) s)"

definition timedOutMigrationTasks :: "ControlState \<Rightarrow> gotime \<Rightarrow> duration \<Rightarrow> MigrationTaskBody list" where
  "timedOutMigrationTasks s now timeout = TimedOutMigrationTasks s now timeout"

definition applied_error :: "service_result \<Rightarrow> ControlState \<times> service_error option" where
  "applied_error r = (case r of (s, Inl e) \<Rightarrow> (s, Some e) | (s, Inr _) \<Rightarrow> (s, None))"

definition completeMigrationTask ::
  "serviceEnv \<Rightarrow> MigrationTaskBody \<Rightarrow> u64 \<Rightarrow> u64 \<Rightarrow> ControlState \<Rightarrow> ControlState \<times> service_error option" where
  "completeMigrationTask env task imported deleted s =
     applied_error (svcApply env (zeroCommandBody\<lparr>cm_Type := CommandCompleteMigrationTask,
       cm_PlanID := mt_PlanID task, cm_TaskID := mt_TaskID task, cm_ImportedEntries := imported,
       cm_DeletedEntries := deleted, cm_NowUnix := nowUnix env\<rparr>) s)"

definition failMigrationTask ::
  "serviceEnv \<Rightarrow> MigrationTaskBody \<Rightarrow> duration \<Rightarrow> string \<Rightarrow> ControlState \<Rightarrow> ControlState \<times> service_error option" where
  "failMigrationTask env task retryAfter cause s =
     applied_error (svcApply env (zeroCommandBody\<lparr>cm_Type := CommandFailMigrationTask,
       cm_PlanID := mt_PlanID task, cm_TaskID := mt_TaskID task, cm_MigrationError := cause,
       cm_RetryAfterMS := Milliseconds retryAfter, cm_NowUnix := nowUnix env\<rparr>) s)"

definition cutoverMigrationTask ::
  "serviceEnv \<Rightarrow> MigrationTaskBody \<Rightarrow> u64 \<Rightarrow> ControlState \<Rightarrow> ControlState \<times> service_error option" where
  "cutoverMigrationTask env task imported s =
     applied_error (svcApply env (zeroCommandBody\<lparr>cm_Type := CommandCutoverMigrationTask,
       cm_PlanID := mt_PlanID task, cm_TaskID := mt_TaskID task, cm_ImportedEntries := imported,
       cm_NowUnix := nowUnix env\<rparr>) s)"

section \<open>Errors over HTTP\<close>

fun controlOopsCode :: "service_error \<Rightarrow> string option" where
  "controlOopsCode (StateError (ErrInvalidNamespace _)) = Some ''invalid_namespace''"
| "controlOopsCode (StateError (ErrInvalidSpace _)) = Some ''invalid_space''"
| "controlOopsCode (StateError (ErrInvalidEntity _)) = Some ''invalid_entity''"
| "controlOopsCode (StateError (ErrNamespaceNotFound _)) = Some ''namespace_not_found''"
| "controlOopsCode (StateError (ErrSpaceNotFound _ _)) = Some ''space_not_found''"
| "controlOopsCode (StateError (ErrInvalidNode _)) = Some ''invalid_node''"
| "controlOopsCode (StateError ErrNodeNotFound) = Some ''node_not_found''"
| "controlOopsCode (StateError (ErrMigrationTaskNotFound _ _)) = Some ''migration_task_not_found''"
| "controlOopsCode (StateError (ErrUnknownCommand _)) = None"
| "controlOopsCode (RaftError code) = (if code = [] then None else Some code)"

definition hasControlOopsCode :: "service_error \<Rightarrow> string list \<Rightarrow> bool" where
  "hasControlOopsCode err codes =
     (case controlOopsCode err of None \<Rightarrow> False | Some code \<Rightarrow> code \<in> set codes)"

definition controlStateError :: "service_error \<Rightarrow> nat" where
  "controlStateError err =
     (if hasControlOopsCode err [''namespace_not_found'', ''space_not_found''] then 404
      else if hasControlOopsCode err [''control_raft_not_available'', ''control_raft_operation_failed''] then 503
      else if hasControlOopsCode err [''invalid_node'', ''invalid_namespace'', ''invalid_space'', ''invalid_entity'',
          ''control_raft_node_invalid'', ''control_raft_member_invalid'', ''control_raft_invalid_member'',
          ''control_raft_invalid_addr''] then 400
      else if hasControlOopsCode err [''node_not_found''] then 404
      else 500)"

end
