(* ===== verification/Wire_Base.thy ===== *)
theory Wire_Base
  imports Engine_Types GoStrings
begin

text \<open>
  The metadata encoding of the TCP protocol (\<open>cachewire/binary_cursor.go\<close> and the payload packing
  helpers of \<open>cachewire/types.go\<close>). A \<open>metadataCursor\<close> is the bytes it has not read yet
  (\<open>raw[pos:]\<close>), so \<open>len(c.raw) - c.pos\<close> is their number and a cursor at the end of the metadata is
  the empty list; a method that reads is a \<open>reader\<close>: it fails, or gives the value and the bytes that
  are left. An \<open>int64\<close> is an integer in its range.

  The interface \<open>wire_code\<close> is what every pair of an append function and a read method promises: the
  bytes are appended at the end, there is at least one of them, and the reader takes exactly them off
  the front and gives back what of the item travels in the metadata (\<open>arrive\<close>). The lemmas on counted lists and whole messages are proved once from it. The interface
  \<open>payload_code\<close> is the promise of a pair of functions that move values into and out of the payload.
\<close>

named_theorems wire_defs \<open>definitions of append functions and read methods\<close>
named_theorems wire_read \<open>what a reader takes off the front of an encoding\<close>

datatype wire_error =
    ErrInvalidMetadata string
  | ErrUnsupportedMetadata u8
  | ErrInvalidBool u8
  | ErrInvalidPayloadRange

type_synonym 'a reader = "bytes \<Rightarrow> wire_error + ('a \<times> bytes)"

definition thenRead :: "'a reader \<Rightarrow> ('a \<Rightarrow> 'b reader) \<Rightarrow> 'b reader" where
  "thenRead r f c = (case r c of Inl e \<Rightarrow> Inl e | Inr (x, c') \<Rightarrow> f x c')"

definition readDone :: "'a \<Rightarrow> 'a reader" where
  "readDone x c = Inr (x, c)"

section \<open>Varints\<close>

text \<open>
  \<open>binary.Uvarint\<close> reads at most ten bytes and the tenth may only be 0 or 1, so the value is below
  \<open>2^64\<close>; \<open>binary.AppendVarint\<close> and \<open>binary.Varint\<close> map an \<open>int64\<close> to an unsigned one and back
  (zig-zag).
\<close>

fun uvarintFrom :: "nat \<Rightarrow> bytes \<Rightarrow> (nat \<times> bytes) option" where
  "uvarintFrom i [] = None"
| "uvarintFrom i (b # bs) =
     (if i = 10 then None
      else if unat b < 128 then
        if i = 9 \<and> unat b > 1 then None else Some (unat b, bs)
      else case uvarintFrom (Suc i) bs of
             None \<Rightarrow> None
           | Some (n, r) \<Rightarrow> Some (unat b - 128 + 128 * n, r))"

definition Uvarint :: "bytes \<Rightarrow> (nat \<times> bytes) option" where
  "Uvarint bs = uvarintFrom 0 bs"

definition AppendVarint :: "bytes \<Rightarrow> int \<Rightarrow> bytes" where
  "AppendVarint raw x = raw @ put_uvarint (nat (if x < 0 then - 2 * x - 1 else 2 * x))"

definition Varint :: "bytes \<Rightarrow> (int \<times> bytes) option" where
  "Varint bs =
     (case Uvarint bs of
        None \<Rightarrow> None
      | Some (ux, r) \<Rightarrow> Some (if ux mod 2 = 0 then int (ux div 2) else - int (ux div 2) - 1, r))"

section \<open>Appending\<close>

definition binaryMetadataVersion :: u8 where "binaryMetadataVersion = 1"
definition boolFalse :: u8 where "boolFalse = 0"
definition boolTrue :: u8 where "boolTrue = 1"
definition uint64Size :: nat where "uint64Size = 8"

definition newMetadata :: bytes where "newMetadata = [binaryMetadataVersion]"

definition appendString :: "bytes \<Rightarrow> string \<Rightarrow> bytes" where
  "appendString raw value = (raw @ put_uvarint (length value)) @ bytes_of_string value"

definition appendKey :: "bytes \<Rightarrow> Key \<Rightarrow> bytes" where
  "appendKey raw key =
     (let raw = appendString raw (k_Namespace key);
          raw = appendString raw (k_Space key);
          raw = appendString raw (k_Entity key)
      in appendString raw (k_Key key))"

definition appendBool :: "bytes \<Rightarrow> bool \<Rightarrow> bytes" where
  "appendBool raw value = (if value then raw @ [boolTrue] else raw @ [boolFalse])"

definition appendUint64 :: "bytes \<Rightarrow> u64 \<Rightarrow> bytes" where
  "appendUint64 raw value = raw @ put_u64 value"

definition appendUint32 :: "bytes \<Rightarrow> u32 \<Rightarrow> bytes" where
  "appendUint32 raw value = raw @ put_u32 value"

definition appendInt64 :: "bytes \<Rightarrow> int \<Rightarrow> bytes" where
  "appendInt64 raw value = AppendVarint raw value"

definition appendFloat64 :: "bytes \<Rightarrow> float64 \<Rightarrow> bytes" where
  "appendFloat64 raw value = raw @ put_u64 value"

definition appendCount :: "bytes \<Rightarrow> u64 \<Rightarrow> bytes" where
  "appendCount raw n = appendUint64 raw n"

definition itemCount :: "'a list \<Rightarrow> u64" where
  "itemCount items = of_nat (length items)"

section \<open>Reading\<close>

definition newCursor :: "bytes \<Rightarrow> wire_error + bytes" where
  "newCursor raw =
     (case raw of
        [] \<Rightarrow> Inl (ErrInvalidMetadata ''missing version'')
      | v # rest \<Rightarrow>
          if v \<noteq> binaryMetadataVersion then Inl (ErrUnsupportedMetadata v) else Inr rest)"

definition checkedStringLength :: "nat \<Rightarrow> nat \<Rightarrow> wire_error + nat" where
  "checkedStringLength sz remaining =
     (if int sz > MaxInt64 then Inl (ErrInvalidMetadata ''string exceeds metadata'')
      else if sz > remaining then Inl (ErrInvalidMetadata ''string exceeds metadata'')
      else Inr sz)"

definition readString :: "string reader" where
  "readString c =
     (case Uvarint c of
        None \<Rightarrow> Inl (ErrInvalidMetadata ''invalid string size'')
      | Some (n, c1) \<Rightarrow>
          (case checkedStringLength n (length c1) of
             Inl e \<Rightarrow> Inl e
           | Inr len \<Rightarrow> Inr (string_of_bytes (take len c1), drop len c1)))"

definition readKey :: "Key reader" where
  "readKey =
     thenRead readString (\<lambda>namespace.
     thenRead readString (\<lambda>space.
     thenRead readString (\<lambda>entity.
     thenRead readString (\<lambda>key.
     readDone \<lparr>k_Namespace = namespace, k_Space = space, k_Entity = entity, k_Key = key\<rparr>))))"

definition readByte :: "u8 reader" where
  "readByte c =
     (case c of [] \<Rightarrow> Inl (ErrInvalidMetadata ''missing byte'') | b # r \<Rightarrow> Inr (b, r))"

definition readBool :: "bool reader" where
  "readBool c =
     (case c of
        [] \<Rightarrow> Inl (ErrInvalidMetadata ''missing bool'')
      | b # r \<Rightarrow>
          if b = boolFalse then Inr (False, r)
          else if b = boolTrue then Inr (True, r)
          else Inl (ErrInvalidBool b))"

definition readUint64 :: "u64 reader" where
  "readUint64 c =
     (if length c < uint64Size then Inl (ErrInvalidMetadata ''missing uint64'')
      else Inr (get_u64 (take uint64Size c), drop uint64Size c))"

definition readUint32 :: "u32 reader" where
  "readUint32 c =
     (if length c < 4 then Inl (ErrInvalidMetadata ''missing uint32'')
      else Inr (get_u32 (take 4 c), drop 4 c))"

definition readFloat64 :: "float64 reader" where
  "readFloat64 c =
     (if length c < uint64Size then Inl (ErrInvalidMetadata ''missing float64'')
      else Inr (get_u64 (take uint64Size c), drop uint64Size c))"

definition readInt64 :: "int reader" where
  "readInt64 c =
     (case Varint c of
        None \<Rightarrow> Inl (ErrInvalidMetadata ''invalid int64'')
      | Some (value, r) \<Rightarrow> Inr (value, r))"

definition readCount :: "nat reader" where
  "readCount =
     thenRead readUint64 (\<lambda>n c.
     case checkedStringLength (unat n) (length c) of Inl e \<Rightarrow> Inl e | Inr len \<Rightarrow> Inr (len, c))"

definition ensureEOF :: "bytes \<Rightarrow> wire_error option" where
  "ensureEOF c = (if c \<noteq> [] then Some (ErrInvalidMetadata ''trailing bytes'') else None)"

text \<open>The loop \<open>for range count\<close> over a read method, and a whole message: version, body, end.\<close>

primrec readTimes :: "nat \<Rightarrow> 'a reader \<Rightarrow> 'a list reader" where
  "readTimes 0 r = readDone []"
| "readTimes (Suc n) r = thenRead r (\<lambda>x. thenRead (readTimes n r) (\<lambda>xs. readDone (x # xs)))"

definition readList :: "'a reader \<Rightarrow> 'a list reader" where
  "readList r = thenRead readCount (\<lambda>n. readTimes n r)"

definition decodeWith :: "'a reader \<Rightarrow> bytes \<Rightarrow> wire_error + 'a" where
  "decodeWith r raw =
     (case newCursor raw of
        Inl e \<Rightarrow> Inl e
      | Inr c \<Rightarrow>
          (case r c of
             Inl e \<Rightarrow> Inl e
           | Inr (x, c') \<Rightarrow> (case ensureEOF c' of Some e \<Rightarrow> Inl e | None \<Rightarrow> Inr x)))"

definition decodeBatchItems :: "bytes \<Rightarrow> 'a reader \<Rightarrow> wire_error + 'a list" where
  "decodeBatchItems raw read = decodeWith (readList read) raw"

section \<open>Payload ranges\<close>

definition checkedPayloadRange :: "nat \<Rightarrow> nat \<Rightarrow> wire_error + (u32 \<times> u32)" where
  "checkedPayloadRange offset sz =
     (if int offset > 2 ^ 32 - 1 then Inl ErrInvalidPayloadRange
      else if int sz > 2 ^ 32 - 1 then Inl ErrInvalidPayloadRange
      else Inr (of_nat offset, of_nat sz))"

definition SlicePayload :: "bytes \<Rightarrow> u32 \<Rightarrow> u32 \<Rightarrow> wire_error + bytes" where
  "SlicePayload payload offset sz =
     (let start = unat offset; stop = start + unat sz in
      if stop > length payload then Inl ErrInvalidPayloadRange
      else Inr (take (stop - start) (drop start payload)))"

text \<open>The loops that move the values of a list into the payload, and back.\<close>

primrec packLoop :: "('a \<Rightarrow> bytes \<Rightarrow> wire_error + ('a \<times> bytes)) \<Rightarrow> 'a list \<Rightarrow> bytes
    \<Rightarrow> wire_error + ('a list \<times> bytes)" where
  "packLoop pack [] payload = Inr ([], payload)"
| "packLoop pack (x # xs) payload =
     (case pack x payload of
        Inl e \<Rightarrow> Inl e
      | Inr (y, payload1) \<Rightarrow>
          (case packLoop pack xs payload1 of
             Inl e \<Rightarrow> Inl e
           | Inr (ys, payload2) \<Rightarrow> Inr (y # ys, payload2)))"

primrec unpackLoop :: "('a \<Rightarrow> bytes \<Rightarrow> wire_error + 'a) \<Rightarrow> 'a list \<Rightarrow> bytes \<Rightarrow> wire_error + 'a list" where
  "unpackLoop unpack [] payload = Inr []"
| "unpackLoop unpack (x # xs) payload =
     (case unpack x payload of
        Inl e \<Rightarrow> Inl e
      | Inr y \<Rightarrow>
          (case unpackLoop unpack xs payload of Inl e \<Rightarrow> Inl e | Inr ys \<Rightarrow> Inr (y # ys)))"

section \<open>Lemmas\<close>

lemma uvarintFrom_put:
  "i \<le> 9 \<Longrightarrow> x < 2 ^ (64 - 7 * i) \<Longrightarrow> uvarintFrom i (put_uvarint x @ rest) = Some (x, rest)"
proof (induction x arbitrary: i rest rule: put_uvarint.induct)
  case (1 x)
  show ?case
  proof (cases "x < 128")
    case True
    moreover have "\<not> (i = 9 \<and> 1 < x)" using "1.prems" by auto
    ultimately show ?thesis
      using "1.prems" by (simp add: put_uvarint.simps [of x] unat_of_nat_byte)
  next
    case False
    have b: "unat (of_nat (x mod 128 + 128) :: u8) = x mod 128 + 128"
      by (rule unat_of_nat_byte) simp
    have i: "Suc i \<le> 9" using "1.prems" False by (cases "i = 9") auto
    then have "64 - 7 * i = 7 + (64 - 7 * Suc i)" by simp
    then have "(2::nat) ^ (64 - 7 * i) = 128 * 2 ^ (64 - 7 * Suc i)"
      by (simp only: power_add) simp
    then have "x < 128 * 2 ^ (64 - 7 * Suc i)" using "1.prems" by (simp only:)
    then have "x div 128 < 2 ^ (64 - 7 * Suc i)" by (simp add: less_mult_imp_div_less mult.commute)
    then have "uvarintFrom (Suc i) (put_uvarint (x div 128) @ rest) = Some (x div 128, rest)"
      using "1.IH" [OF False i] by simp
    with False b i show ?thesis
      by (simp add: put_uvarint.simps [of x] del: of_nat_add)
  qed
qed

lemma uvarintFrom_less:
  "uvarintFrom i bs = Some (x, r) \<Longrightarrow> i \<le> 9 \<Longrightarrow> x < 2 ^ (64 - 7 * i)"
proof (induction i bs arbitrary: x r rule: uvarintFrom.induct)
  case (1 i)
  then show ?case by simp
next
  case (2 i b bs)
  have b: "unat b < 256" using unsigned_less [of b, where ?'a = nat] by simp
  show ?case
  proof (cases "unat b < 128")
    case True
    then have x: "x = unat b" and "\<not> (i = 9 \<and> 1 < unat b)"
      using "2.prems" by (auto split: if_splits)
    then have last: "i = 9 \<Longrightarrow> x < 2" by auto
    have "128 \<le> (2::nat) ^ (64 - 7 * i)" if "i \<noteq> 9"
      using power_increasing [of 7 "64 - 7 * i" "2::nat"] that "2.prems" by simp
    then show ?thesis
      using last x True by (cases "i = 9") fastforce+
  next
    case False
    then obtain n where n: "uvarintFrom (Suc i) bs = Some (n, r)" and x: "x = unat b - 128 + 128 * n"
      using "2.prems" by (auto split: if_splits option.splits)
    then have i: "Suc i \<le> 9"
      using "2.prems" False by (cases "i = 9") (cases bs, auto)
    then have "n < 2 ^ (64 - 7 * Suc i)"
      using "2.IH" [OF _ False n] "2.prems" by simp
    moreover from i have "64 - 7 * i = 7 + (64 - 7 * Suc i)" by simp
    then have "(2::nat) ^ (64 - 7 * i) = 128 * 2 ^ (64 - 7 * Suc i)"
      by (simp only: power_add) simp
    ultimately show ?thesis using b x by linarith
  qed
qed

lemma Uvarint_less: "Uvarint bs = Some (x, r) \<Longrightarrow> x < 2 ^ 64"
  using uvarintFrom_less [of 0] by (simp add: Uvarint_def)

lemma Uvarint_put [wire_read]: "x < 2 ^ 64 \<Longrightarrow> Uvarint (put_uvarint x @ rest) = Some (x, rest)"
  by (simp add: Uvarint_def uvarintFrom_put)

lemma Varint_Append: "int64 x \<Longrightarrow> Varint (AppendVarint [] x @ rest) = Some (x, rest)"
proof -
  assume x: "int64 x"
  define ux where "ux = nat (if x < 0 then - 2 * x - 1 else 2 * x)"
  have "ux < 2 ^ 64" using x by (auto simp: ux_def int64_def MinInt64_def MaxInt64_def)
  moreover have "(if ux mod 2 = 0 then int (ux div 2) else - int (ux div 2) - 1) = x"
  proof (cases "x < 0")
    case True
    then have "ux = 2 * nat (- x - 1) + 1" by (simp add: ux_def nat_eq_iff)
    then show ?thesis using True by simp
  next
    case False
    then have "ux = 2 * nat x" by (simp add: ux_def nat_eq_iff)
    then show ?thesis using False by simp
  qed
  ultimately show ?thesis
    by (simp add: Varint_def AppendVarint_def Uvarint_put flip: ux_def)
qed

text \<open>What a read method of the cursor finds at the front of what the append function wrote.\<close>

lemma thenRead_Inr [simp]: "r c = Inr (x, c') \<Longrightarrow> thenRead r f c = f x c'"
  by (simp add: thenRead_def)

lemma readDone_apply [simp]: "readDone x c = Inr (x, c)"
  by (simp add: readDone_def)

definition wireString :: "string \<Rightarrow> bool" where
  "wireString s \<longleftrightarrow> int (length s) \<le> MaxInt64"

definition wireKey :: "Key \<Rightarrow> bool" where
  "wireKey k \<longleftrightarrow> wireString (k_Namespace k) \<and> wireString (k_Space k) \<and> wireString (k_Entity k)
     \<and> wireString (k_Key k)"

lemma readString_put [wire_read]:
  "wireString s \<Longrightarrow> readString (put_uvarint (length s) @ bytes_of_string s @ rest) = Inr (s, rest)"
proof -
  assume s: "wireString s"
  then have "length s < 2 ^ 64" by (simp add: wireString_def MaxInt64_def)
  with s show ?thesis
    by (simp add: readString_def Uvarint_put checkedStringLength_def wireString_def)
qed

lemma readUint64_put [wire_read]: "readUint64 (put_u64 x @ rest) = Inr (x, rest)"
  by (simp add: readUint64_def uint64Size_def)

lemma readUint32_put [wire_read]: "readUint32 (put_u32 x @ rest) = Inr (x, rest)"
  by (simp add: readUint32_def)

lemma readFloat64_put [wire_read]: "readFloat64 (put_u64 x @ rest) = Inr (x, rest)"
  by (simp add: readFloat64_def uint64Size_def)

lemma readBool_put [wire_read]:
  "readBool ((if b then boolTrue else boolFalse) # rest) = Inr (b, rest)"
  by (simp add: readBool_def boolTrue_def boolFalse_def)

lemma readBool_flags [wire_read]:
  "readBool (boolTrue # rest) = Inr (True, rest)" "readBool (boolFalse # rest) = Inr (False, rest)"
  by (simp_all add: readBool_def boolTrue_def boolFalse_def)

lemma readByte_put [wire_read]: "readByte (b # rest) = Inr (b, rest)"
  by (simp add: readByte_def)

lemma readInt64_put [wire_read]:
  "int64 x \<Longrightarrow> readInt64 (AppendVarint [] x @ rest) = Inr (x, rest)"
  by (simp add: readInt64_def Varint_Append)

lemma put_not_Nil [simp]: "put_u64 x \<noteq> []" "put_u32 y \<noteq> []"
  using length_put_uint(2,3) by (metis list.size(3) zero_neq_numeral)+

lemma AppendVarint_not_Nil [simp]: "AppendVarint raw x \<noteq> []"
  by (simp add: AppendVarint_def)

lemma AppendVarint_app: "NO_MATCH [] raw \<Longrightarrow> AppendVarint raw x = raw @ AppendVarint [] x"
  by (simp add: AppendVarint_def)

lemma appendBool_app: "appendBool raw b = raw @ [if b then boolTrue else boolFalse]"
  by (simp add: appendBool_def)

lemmas append_defs [wire_defs] =
  appendString_def appendKey_def appendBool_app appendUint64_def appendUint32_def appendInt64_def
  appendFloat64_def appendCount_def Let_def AppendVarint_app

lemma readKey_put [wire_read]: "wireKey k \<Longrightarrow> readKey (appendKey [] k @ rest) = Inr (k, rest)"
  by (cases k) (simp add: readKey_def wireKey_def wire_defs wire_read)

section \<open>The interfaces\<close>

locale wire_code =
  fixes app :: "bytes \<Rightarrow> 'a \<Rightarrow> bytes"
    and read :: "'a reader"
    and arrive :: "'a \<Rightarrow> 'a"
    and ok :: "'a \<Rightarrow> bool"
  assumes app_end: "app raw x = raw @ app [] x"
    and app_some: "app [] x \<noteq> []"
    and read_app: "ok x \<Longrightarrow> read (app [] x @ rest) = Inr (arrive x, rest)"
begin

lemma app_cons: "app (b # raw) x = b # app raw x"
  using app_end [of "b # raw"] app_end [of raw] by simp

lemma foldl_app: "foldl app raw xs = raw @ concat (map (app []) xs)"
proof (induction xs arbitrary: raw)
  case Nil
  then show ?case by simp
next
  case (Cons x xs)
  have "app raw x = raw @ app [] x" by (rule app_end)
  with Cons show ?case by simp
qed

lemma length_concat_app: "length xs \<le> length (concat (map (app []) xs))"
proof (induction xs)
  case Nil
  then show ?case by simp
next
  case (Cons x xs)
  have "1 \<le> length (app [] x)" using app_some [of x] by (simp add: Suc_le_eq)
  with Cons show ?case by simp
qed

lemma readTimes_app:
  "list_all ok xs \<Longrightarrow> readTimes (length xs) read (concat (map (app []) xs) @ rest)
     = Inr (map arrive xs, rest)"
  by (induction xs) (simp_all add: read_app)

lemma readList_app:
  assumes "list_all ok xs" and "int (length xs) \<le> MaxInt64"
  shows "readList read (foldl app (appendCount [] (itemCount xs)) xs @ rest)
    = Inr (map arrive xs, rest)"
proof -
  have "length xs < 2 ^ 64" using assms(2) by (simp add: MaxInt64_def)
  then have n: "unat (itemCount xs) = length xs"
    by (simp add: itemCount_def unat_of_nat_len)
  have "readCount (put_u64 (itemCount xs) @ concat (map (app []) xs) @ rest)
      = Inr (length xs, concat (map (app []) xs) @ rest)"
    using assms(2) length_concat_app [of xs]
    by (simp add: readCount_def wire_read n checkedStringLength_def del: of_nat_unat)
  then show ?thesis
    by (simp add: readList_def foldl_app appendCount_def appendUint64_def readTimes_app assms(1))
qed

lemma decode_app: "ok x \<Longrightarrow> decodeWith read (app newMetadata x) = Inr (arrive x)"
  using app_end [of newMetadata x] read_app [of x "[]"]
  by (simp add: decodeWith_def newMetadata_def newCursor_def ensureEOF_def)

lemma decode_list:
  assumes "list_all ok xs" and "int (length xs) \<le> MaxInt64"
  shows "decodeWith (readList read) (foldl app (appendCount newMetadata (itemCount xs)) xs)
    = Inr (map arrive xs)"
  using readList_app [OF assms, of "[]"]
  by (simp add: decodeWith_def newMetadata_def newCursor_def ensureEOF_def foldl_app appendCount_def
      appendUint64_def)

end

sublocale wire_code \<subseteq> code: prefix_code "app []"
    "\<lambda>c. case read c of Inl e \<Rightarrow> None | Inr x \<Rightarrow> Some x" "\<lambda>x. ok x \<and> arrive x = x"
  by unfold_locales (simp add: read_app)

text \<open>
  \<open>psize\<close> is the number of payload bytes an item takes and \<open>view\<close> what of it must arrive: everything
  but the range fields, which the packing sets.
\<close>

locale payload_code =
  fixes pack :: "'a \<Rightarrow> bytes \<Rightarrow> wire_error + ('a \<times> bytes)"
    and unpack :: "'a \<Rightarrow> bytes \<Rightarrow> wire_error + 'a"
    and arrive :: "'a \<Rightarrow> 'a"
    and psize :: "'a \<Rightarrow> nat"
    and view :: "'a \<Rightarrow> 'v"
    and ok :: "'a \<Rightarrow> bool"
  assumes pack_fits: "length payload + psize x < 2 ^ 32 \<Longrightarrow>
      \<exists>y ext. pack x payload = Inr (y, payload @ ext) \<and> length ext = psize x \<and> (ok x \<longrightarrow> ok y) \<and>
        (\<forall>tail. \<exists>z. unpack (arrive y) ((payload @ ext) @ tail) = Inr z \<and> view z = view x)"
begin

lemma packLoop_fits:
  assumes "length payload + sum_list (map psize xs) < 2 ^ 32"
  shows "\<exists>ys ext. packLoop pack xs payload = Inr (ys, payload @ ext) \<and>
      length ext = sum_list (map psize xs) \<and> length ys = length xs \<and>
      (list_all ok xs \<longrightarrow> list_all ok ys) \<and>
      (\<forall>tail. \<exists>zs. unpackLoop unpack (map arrive ys) ((payload @ ext) @ tail) = Inr zs \<and> map view zs = map view xs)"
  using assms
proof (induction xs arbitrary: payload)
  case Nil
  then show ?case by (intro exI [of _ "[]"]) simp
next
  case (Cons x xs)
  have "length payload + psize x < 2 ^ 32" using Cons.prems by simp
  then obtain y ext where y: "pack x payload = Inr (y, payload @ ext)" "length ext = psize x"
      "ok x \<longrightarrow> ok y" "\<forall>tail. \<exists>z. unpack (arrive y) ((payload @ ext) @ tail) = Inr z \<and> view z = view x"
    using pack_fits by blast
  have "length (payload @ ext) + sum_list (map psize xs) < 2 ^ 32" using Cons.prems y(2) by simp
  from Cons.IH [OF this] obtain ys ext2 where ys:
      "packLoop pack xs (payload @ ext) = Inr (ys, (payload @ ext) @ ext2)"
      "length ext2 = sum_list (map psize xs)" "length ys = length xs"
      "list_all ok xs \<longrightarrow> list_all ok ys"
      "\<forall>tail. \<exists>zs. unpackLoop unpack (map arrive ys) (((payload @ ext) @ ext2) @ tail) = Inr zs
        \<and> map view zs = map view xs"
    by blast
  have "\<exists>zs. unpackLoop unpack (map arrive (y # ys)) ((payload @ ext @ ext2) @ tail) = Inr zs
      \<and> map view zs = map view (x # xs)" for tail
  proof -
    obtain z where "unpack (arrive y) ((payload @ ext) @ ext2 @ tail) = Inr z" "view z = view x"
      using y(4) by blast
    moreover obtain zs where "unpackLoop unpack (map arrive ys) (((payload @ ext) @ ext2) @ tail) = Inr zs"
        "map view zs = map view xs"
      using ys(5) by blast
    ultimately show ?thesis by simp
  qed
  then show ?case
    using y ys by (intro exI [of _ "y # ys"] exI [of _ "ext @ ext2"]) simp
qed

end

lemma SlicePayload_ext:
  assumes "length payload + length v < 2 ^ 32"
  shows "SlicePayload (payload @ v @ tail) (of_nat (length payload)) (of_nat (length v)) = Inr v"
proof -
  have "unat (of_nat (length payload) :: u32) = length payload" "unat (of_nat (length v) :: u32) = length v"
    using assms by (simp_all add: unat_of_nat_len)
  then show ?thesis by (simp add: SlicePayload_def)
qed

lemma checkedPayloadRange_fits:
  "m + n < 2 ^ 32 \<Longrightarrow> checkedPayloadRange m n = Inr (of_nat m, of_nat n)"
  by (simp add: checkedPayloadRange_def)

end
