(* ===== verification/Wire_Messages.thy ===== *)
theory Wire_Messages
  imports Wire_Base
begin

text \<open>
  The messages of the cache protocol (\<open>cachewire/types.go\<close>, \<open>migration_types.go\<close>) and their
  encodings: single operations and their answers (\<open>binary.go\<close>, \<open>binary_response.go\<close>), batches
  (\<open>binary_batch*.go\<close>) and range migration (\<open>binary_migration*.go\<close>, \<open>migration_payload.go\<close>). A
  message that has values moves them into the payload of the frame and keeps their ranges in the
  metadata. \<open>RouteEpoch\<close> travels in the frame header and not in the metadata. A response that is one
  slice is that list. The wire key is the key of the engine, field by field.
\<close>

record SetRequest =
  sr_Key :: Key
  sr_Value :: bytes
  sr_RouteEpoch :: u64
  sr_TTLMillis :: int
  sr_NamespaceVersion :: u64
  sr_SpaceVersion :: u64
  sr_ExpectedVersion :: u64
  sr_PayloadOffset :: u32
  sr_PayloadSize :: u32

record GetRequest =
  gr_Key :: Key
  gr_RouteEpoch :: u64
  gr_NamespaceVersion :: u64
  gr_SpaceVersion :: u64

record DeleteRequest =
  dr_Key :: Key
  dr_RouteEpoch :: u64
  dr_ExpectedVersion :: u64

record ExistsRequest =
  xr_Key :: Key
  xr_RouteEpoch :: u64
  xr_NamespaceVersion :: u64
  xr_SpaceVersion :: u64

record TouchRequest =
  tr_Key :: Key
  tr_RouteEpoch :: u64
  tr_TTLMillis :: int
  tr_NamespaceVersion :: u64
  tr_SpaceVersion :: u64
  tr_ExpectedVersion :: u64

record AdjustRequest =
  ar_Key :: Key
  ar_RouteEpoch :: u64
  ar_TTLMillis :: int
  ar_InitialValue :: int
  ar_Delta :: int
  ar_NamespaceVersion :: u64
  ar_SpaceVersion :: u64
  ar_ExpectedVersion :: u64

record BatchSetRequest =
  bs_RouteEpoch :: u64
  bs_Items :: "SetRequest list"

record BatchGetRequest =
  bg_RouteEpoch :: u64
  bg_Items :: "GetRequest list"

record BatchDeleteRequest =
  bd_RouteEpoch :: u64
  bd_Items :: "DeleteRequest list"

record BatchExistsRequest =
  bx_RouteEpoch :: u64
  bx_Items :: "ExistsRequest list"

record BatchTouchRequest =
  bt_RouteEpoch :: u64
  bt_Items :: "TouchRequest list"

record WireRecord =
  wr_Found :: bool
  wr_Namespace :: string
  wr_Space :: string
  wr_Entity :: string
  wr_Key :: string
  wr_Value :: bytes
  wr_Version :: u64
  wr_NamespaceVersion :: u64
  wr_SpaceVersion :: u64
  wr_ExpireAtUnixMs :: int
  wr_PayloadOffset :: u32
  wr_PayloadSize :: u32

record MigrationRangeRequest =
  mr_Namespace :: string
  mr_Space :: string
  mr_VSlotStart :: u32
  mr_VSlotEnd :: u32
  mr_RouteEpoch :: u64

record MigrationSnapshotEntry =
  me_Key :: Key
  me_Value :: bytes
  me_Version :: u64
  me_NamespaceVersion :: u64
  me_SpaceVersion :: u64
  me_ExpireAtUnixMs :: int
  me_CreatedAtUnixMs :: int
  me_UpdatedAtUnixMs :: int
  me_LastAccessAtUnixMs :: int
  me_AccessCount :: u64
  me_PayloadOffset :: u32
  me_PayloadSize :: u32

type_synonym MigrationSnapshot = "MigrationSnapshotEntry list"

definition missRecord :: WireRecord where
  "missRecord = \<lparr>wr_Found = False, wr_Namespace = [], wr_Space = [], wr_Entity = [], wr_Key = [],
     wr_Value = [], wr_Version = 0, wr_NamespaceVersion = 0, wr_SpaceVersion = 0,
     wr_ExpireAtUnixMs = 0, wr_PayloadOffset = 0, wr_PayloadSize = 0\<rparr>"

section \<open>Items\<close>

definition appendSetFields :: "bytes \<Rightarrow> SetRequest \<Rightarrow> bytes" where
  "appendSetFields raw request =
     (let raw = appendKey raw (sr_Key request);
          raw = appendInt64 raw (sr_TTLMillis request);
          raw = appendUint64 raw (sr_NamespaceVersion request);
          raw = appendUint64 raw (sr_SpaceVersion request);
          raw = appendUint64 raw (sr_ExpectedVersion request)
      in raw)"

definition readSetFields :: "SetRequest reader" where
  "readSetFields =
     thenRead readKey (\<lambda>key.
     thenRead readInt64 (\<lambda>ttlMillis.
     thenRead readUint64 (\<lambda>namespaceVersion.
     thenRead readUint64 (\<lambda>spaceVersion.
     thenRead readUint64 (\<lambda>expectedVersion.
     readDone \<lparr>sr_Key = key, sr_Value = [], sr_RouteEpoch = 0, sr_TTLMillis = ttlMillis,
       sr_NamespaceVersion = namespaceVersion, sr_SpaceVersion = spaceVersion,
       sr_ExpectedVersion = expectedVersion, sr_PayloadOffset = 0, sr_PayloadSize = 0\<rparr>)))))"

definition appendBatchSetItem :: "bytes \<Rightarrow> SetRequest \<Rightarrow> bytes" where
  "appendBatchSetItem raw item =
     (let raw = appendKey raw (sr_Key item);
          raw = appendInt64 raw (sr_TTLMillis item);
          raw = appendUint64 raw (sr_NamespaceVersion item);
          raw = appendUint64 raw (sr_SpaceVersion item);
          raw = appendUint64 raw (sr_ExpectedVersion item);
          raw = appendUint32 raw (sr_PayloadOffset item)
      in appendUint32 raw (sr_PayloadSize item))"

definition readBatchSetItem :: "SetRequest reader" where
  "readBatchSetItem =
     thenRead readKey (\<lambda>key.
     thenRead readInt64 (\<lambda>ttlMillis.
     thenRead readUint64 (\<lambda>namespaceVersion.
     thenRead readUint64 (\<lambda>spaceVersion.
     thenRead readUint64 (\<lambda>expectedVersion.
     thenRead readUint32 (\<lambda>payloadOffset.
     thenRead readUint32 (\<lambda>payloadSize.
     readDone \<lparr>sr_Key = key, sr_Value = [], sr_RouteEpoch = 0, sr_TTLMillis = ttlMillis,
       sr_NamespaceVersion = namespaceVersion, sr_SpaceVersion = spaceVersion,
       sr_ExpectedVersion = expectedVersion, sr_PayloadOffset = payloadOffset,
       sr_PayloadSize = payloadSize\<rparr>)))))))"

definition readVersionedKey :: "(Key \<times> u64 \<times> u64) reader" where
  "readVersionedKey =
     thenRead readKey (\<lambda>key.
     thenRead readUint64 (\<lambda>namespaceVersion.
     thenRead readUint64 (\<lambda>spaceVersion.
     readDone (key, namespaceVersion, spaceVersion))))"

definition appendBatchGetItem :: "bytes \<Rightarrow> GetRequest \<Rightarrow> bytes" where
  "appendBatchGetItem raw item =
     (let raw = appendKey raw (gr_Key item);
          raw = appendUint64 raw (gr_NamespaceVersion item)
      in appendUint64 raw (gr_SpaceVersion item))"

definition readBatchGetItem :: "GetRequest reader" where
  "readBatchGetItem =
     thenRead readKey (\<lambda>key.
     thenRead readUint64 (\<lambda>namespaceVersion.
     thenRead readUint64 (\<lambda>spaceVersion.
     readDone \<lparr>gr_Key = key, gr_RouteEpoch = 0, gr_NamespaceVersion = namespaceVersion,
       gr_SpaceVersion = spaceVersion\<rparr>)))"

definition appendBatchDeleteItem :: "bytes \<Rightarrow> DeleteRequest \<Rightarrow> bytes" where
  "appendBatchDeleteItem raw item =
     (let raw = appendKey raw (dr_Key item) in appendUint64 raw (dr_ExpectedVersion item))"

definition readBatchDeleteItem :: "DeleteRequest reader" where
  "readBatchDeleteItem =
     thenRead readKey (\<lambda>key.
     thenRead readUint64 (\<lambda>expectedVersion.
     readDone \<lparr>dr_Key = key, dr_RouteEpoch = 0, dr_ExpectedVersion = expectedVersion\<rparr>))"

definition appendBatchExistsItem :: "bytes \<Rightarrow> ExistsRequest \<Rightarrow> bytes" where
  "appendBatchExistsItem raw item =
     (let raw = appendKey raw (xr_Key item);
          raw = appendUint64 raw (xr_NamespaceVersion item)
      in appendUint64 raw (xr_SpaceVersion item))"

definition readBatchExistsItem :: "ExistsRequest reader" where
  "readBatchExistsItem =
     thenRead readVersionedKey (\<lambda>(key, namespaceVersion, spaceVersion).
     readDone \<lparr>xr_Key = key, xr_RouteEpoch = 0, xr_NamespaceVersion = namespaceVersion,
       xr_SpaceVersion = spaceVersion\<rparr>)"

definition appendBatchTouchItem :: "bytes \<Rightarrow> TouchRequest \<Rightarrow> bytes" where
  "appendBatchTouchItem raw item =
     (let raw = appendKey raw (tr_Key item);
          raw = appendInt64 raw (tr_TTLMillis item);
          raw = appendUint64 raw (tr_NamespaceVersion item);
          raw = appendUint64 raw (tr_SpaceVersion item)
      in appendUint64 raw (tr_ExpectedVersion item))"

definition readBatchTouchItem :: "TouchRequest reader" where
  "readBatchTouchItem =
     thenRead readKey (\<lambda>key.
     thenRead readInt64 (\<lambda>ttlMillis.
     thenRead readUint64 (\<lambda>namespaceVersion.
     thenRead readUint64 (\<lambda>spaceVersion.
     thenRead readUint64 (\<lambda>expectedVersion.
     readDone \<lparr>tr_Key = key, tr_RouteEpoch = 0, tr_TTLMillis = ttlMillis,
       tr_NamespaceVersion = namespaceVersion, tr_SpaceVersion = spaceVersion,
       tr_ExpectedVersion = expectedVersion\<rparr>)))))"

definition appendAdjustFields :: "bytes \<Rightarrow> AdjustRequest \<Rightarrow> bytes" where
  "appendAdjustFields raw request =
     (let raw = appendKey raw (ar_Key request);
          raw = appendInt64 raw (ar_TTLMillis request);
          raw = appendInt64 raw (ar_InitialValue request);
          raw = appendInt64 raw (ar_Delta request);
          raw = appendUint64 raw (ar_NamespaceVersion request);
          raw = appendUint64 raw (ar_SpaceVersion request);
          raw = appendUint64 raw (ar_ExpectedVersion request)
      in raw)"

definition readAdjustFields :: "AdjustRequest reader" where
  "readAdjustFields =
     thenRead readKey (\<lambda>key.
     thenRead readInt64 (\<lambda>ttlMillis.
     thenRead readInt64 (\<lambda>initialValue.
     thenRead readInt64 (\<lambda>delta.
     thenRead readUint64 (\<lambda>namespaceVersion.
     thenRead readUint64 (\<lambda>spaceVersion.
     thenRead readUint64 (\<lambda>expectedVersion.
     readDone \<lparr>ar_Key = key, ar_RouteEpoch = 0, ar_TTLMillis = ttlMillis,
       ar_InitialValue = initialValue, ar_Delta = delta, ar_NamespaceVersion = namespaceVersion,
       ar_SpaceVersion = spaceVersion, ar_ExpectedVersion = expectedVersion\<rparr>)))))))"

definition appendBatchRecord :: "bytes \<Rightarrow> WireRecord \<Rightarrow> bytes" where
  "appendBatchRecord raw rec =
     (let raw = appendBool raw (wr_Found rec) in
      if \<not> wr_Found rec then raw
      else
        let raw = appendString raw (wr_Namespace rec);
            raw = appendString raw (wr_Space rec);
            raw = appendString raw (wr_Entity rec);
            raw = appendString raw (wr_Key rec);
            raw = appendUint64 raw (wr_Version rec);
            raw = appendUint64 raw (wr_NamespaceVersion rec);
            raw = appendUint64 raw (wr_SpaceVersion rec);
            raw = appendInt64 raw (wr_ExpireAtUnixMs rec);
            raw = appendUint32 raw (wr_PayloadOffset rec)
        in appendUint32 raw (wr_PayloadSize rec))"

definition readBatchRecordNumbers :: "string \<Rightarrow> string \<Rightarrow> string \<Rightarrow> string \<Rightarrow> WireRecord reader" where
  "readBatchRecordNumbers namespace space entity key =
     thenRead readUint64 (\<lambda>version.
     thenRead readUint64 (\<lambda>namespaceVersion.
     thenRead readUint64 (\<lambda>spaceVersion.
     thenRead readInt64 (\<lambda>expireAtUnixMs.
     thenRead readUint32 (\<lambda>payloadOffset.
     thenRead readUint32 (\<lambda>payloadSize.
     readDone \<lparr>wr_Found = True, wr_Namespace = namespace, wr_Space = space, wr_Entity = entity,
       wr_Key = key, wr_Value = [], wr_Version = version, wr_NamespaceVersion = namespaceVersion,
       wr_SpaceVersion = spaceVersion, wr_ExpireAtUnixMs = expireAtUnixMs,
       wr_PayloadOffset = payloadOffset, wr_PayloadSize = payloadSize\<rparr>))))))"

definition readBatchRecordFields :: "WireRecord reader" where
  "readBatchRecordFields =
     thenRead readString (\<lambda>namespace.
     thenRead readString (\<lambda>space.
     thenRead readString (\<lambda>entity.
     thenRead readString (\<lambda>key.
     readBatchRecordNumbers namespace space entity key))))"

definition readBatchRecord :: "WireRecord reader" where
  "readBatchRecord =
     thenRead readBool (\<lambda>found. if \<not> found then readDone missRecord else readBatchRecordFields)"

section \<open>Single requests and answers\<close>

definition EncodeSetRequest :: "SetRequest \<Rightarrow> bytes" where
  "EncodeSetRequest request = appendSetFields newMetadata request"

definition DecodeSetRequest :: "bytes \<Rightarrow> wire_error + SetRequest" where
  "DecodeSetRequest raw = decodeWith readSetFields raw"

definition EncodeGetRequest :: "GetRequest \<Rightarrow> bytes" where
  "EncodeGetRequest request =
     (let raw = newMetadata;
          raw = appendKey raw (gr_Key request);
          raw = appendUint64 raw (gr_NamespaceVersion request)
      in appendUint64 raw (gr_SpaceVersion request))"

definition decodeVersionedKey :: "bytes \<Rightarrow> wire_error + (Key \<times> u64 \<times> u64)" where
  "decodeVersionedKey raw = decodeWith readVersionedKey raw"

definition DecodeGetRequest :: "bytes \<Rightarrow> wire_error + GetRequest" where
  "DecodeGetRequest raw =
     (case decodeVersionedKey raw of
        Inl e \<Rightarrow> Inl e
      | Inr (key, namespaceVersion, spaceVersion) \<Rightarrow>
          Inr \<lparr>gr_Key = key, gr_RouteEpoch = 0, gr_NamespaceVersion = namespaceVersion,
            gr_SpaceVersion = spaceVersion\<rparr>)"

definition EncodeDeleteRequest :: "DeleteRequest \<Rightarrow> bytes" where
  "EncodeDeleteRequest request =
     (let raw = newMetadata; raw = appendKey raw (dr_Key request)
      in appendUint64 raw (dr_ExpectedVersion request))"

definition DecodeDeleteRequest :: "bytes \<Rightarrow> wire_error + DeleteRequest" where
  "DecodeDeleteRequest raw =
     decodeWith
       (thenRead readKey (\<lambda>key.
        thenRead readUint64 (\<lambda>expectedVersion.
        readDone \<lparr>dr_Key = key, dr_RouteEpoch = 0, dr_ExpectedVersion = expectedVersion\<rparr>))) raw"

definition EncodeExistsRequest :: "ExistsRequest \<Rightarrow> bytes" where
  "EncodeExistsRequest request =
     (let raw = newMetadata;
          raw = appendKey raw (xr_Key request);
          raw = appendUint64 raw (xr_NamespaceVersion request)
      in appendUint64 raw (xr_SpaceVersion request))"

definition DecodeExistsRequest :: "bytes \<Rightarrow> wire_error + ExistsRequest" where
  "DecodeExistsRequest raw =
     (case decodeVersionedKey raw of
        Inl e \<Rightarrow> Inl e
      | Inr (key, namespaceVersion, spaceVersion) \<Rightarrow>
          Inr \<lparr>xr_Key = key, xr_RouteEpoch = 0, xr_NamespaceVersion = namespaceVersion,
            xr_SpaceVersion = spaceVersion\<rparr>)"

definition EncodeTouchRequest :: "TouchRequest \<Rightarrow> bytes" where
  "EncodeTouchRequest request =
     (let raw = newMetadata;
          raw = appendKey raw (tr_Key request);
          raw = appendInt64 raw (tr_TTLMillis request);
          raw = appendUint64 raw (tr_NamespaceVersion request);
          raw = appendUint64 raw (tr_SpaceVersion request)
      in appendUint64 raw (tr_ExpectedVersion request))"

definition DecodeTouchRequest :: "bytes \<Rightarrow> wire_error + TouchRequest" where
  "DecodeTouchRequest raw =
     decodeWith
       (thenRead readKey (\<lambda>key.
        thenRead readInt64 (\<lambda>ttlMillis.
        thenRead readUint64 (\<lambda>namespaceVersion.
        thenRead readUint64 (\<lambda>spaceVersion.
        thenRead readUint64 (\<lambda>expectedVersion.
        readDone \<lparr>tr_Key = key, tr_RouteEpoch = 0, tr_TTLMillis = ttlMillis,
          tr_NamespaceVersion = namespaceVersion, tr_SpaceVersion = spaceVersion,
          tr_ExpectedVersion = expectedVersion\<rparr>)))))) raw"

definition EncodeAdjustRequest :: "AdjustRequest \<Rightarrow> bytes" where
  "EncodeAdjustRequest request = appendAdjustFields newMetadata request"

definition DecodeAdjustRequest :: "bytes \<Rightarrow> wire_error + AdjustRequest" where
  "DecodeAdjustRequest raw = decodeWith readAdjustFields raw"

definition EncodeRecord :: "WireRecord \<Rightarrow> bytes" where
  "EncodeRecord rec =
     (let raw = newMetadata; raw = appendBool raw (wr_Found rec) in
      if \<not> wr_Found rec then raw
      else
        let raw = appendString raw (wr_Namespace rec);
            raw = appendString raw (wr_Space rec);
            raw = appendString raw (wr_Entity rec);
            raw = appendString raw (wr_Key rec);
            raw = appendUint64 raw (wr_Version rec);
            raw = appendUint64 raw (wr_NamespaceVersion rec);
            raw = appendUint64 raw (wr_SpaceVersion rec)
        in appendInt64 raw (wr_ExpireAtUnixMs rec))"

definition readRecord :: "WireRecord reader" where
  "readRecord =
     thenRead readString (\<lambda>namespace.
     thenRead readString (\<lambda>space.
     thenRead readString (\<lambda>entity.
     thenRead readString (\<lambda>key.
     thenRead readUint64 (\<lambda>version.
     thenRead readUint64 (\<lambda>namespaceVersion.
     thenRead readUint64 (\<lambda>spaceVersion.
     thenRead readInt64 (\<lambda>expireAtUnixMs.
     readDone \<lparr>wr_Found = True, wr_Namespace = namespace, wr_Space = space, wr_Entity = entity,
       wr_Key = key, wr_Value = [], wr_Version = version, wr_NamespaceVersion = namespaceVersion,
       wr_SpaceVersion = spaceVersion, wr_ExpireAtUnixMs = expireAtUnixMs,
       wr_PayloadOffset = 0, wr_PayloadSize = 0\<rparr>))))))))"

definition DecodeRecord :: "bytes \<Rightarrow> wire_error + WireRecord" where
  "DecodeRecord raw =
     decodeWith (thenRead readBool (\<lambda>found. if \<not> found then readDone missRecord else readRecord)) raw"

definition encodeBool :: "bool \<Rightarrow> bytes" where
  "encodeBool value = appendBool newMetadata value"

definition decodeBool :: "bytes \<Rightarrow> wire_error + bool" where
  "decodeBool raw = decodeWith readBool raw"

text \<open>The delete, exists, touch and fence responses are one flag each.\<close>

definition EncodeDeleteResponse :: "bool \<Rightarrow> bytes" where "EncodeDeleteResponse d = encodeBool d"
definition DecodeDeleteResponse :: "bytes \<Rightarrow> wire_error + bool" where "DecodeDeleteResponse raw = decodeBool raw"
definition EncodeExistsResponse :: "bool \<Rightarrow> bytes" where "EncodeExistsResponse x = encodeBool x"
definition DecodeExistsResponse :: "bytes \<Rightarrow> wire_error + bool" where "DecodeExistsResponse raw = decodeBool raw"
definition EncodeTouchResponse :: "bool \<Rightarrow> bytes" where "EncodeTouchResponse t = encodeBool t"
definition DecodeTouchResponse :: "bytes \<Rightarrow> wire_error + bool" where "DecodeTouchResponse raw = decodeBool raw"

section \<open>Batches\<close>

definition packSetItem :: "SetRequest \<Rightarrow> bytes \<Rightarrow> wire_error + (SetRequest \<times> bytes)" where
  "packSetItem item payload =
     (case checkedPayloadRange (length payload) (length (sr_Value item)) of
        Inl e \<Rightarrow> Inl e
      | Inr (offset, sz) \<Rightarrow>
          Inr (item\<lparr>sr_PayloadOffset := offset, sr_PayloadSize := sz, sr_Value := []\<rparr>,
            payload @ sr_Value item))"

definition PackBatchSet :: "BatchSetRequest \<Rightarrow> wire_error + (BatchSetRequest \<times> bytes)" where
  "PackBatchSet request =
     (case packLoop packSetItem (bs_Items request) [] of
        Inl e \<Rightarrow> Inl e
      | Inr (items, payload) \<Rightarrow>
          Inr (\<lparr>bs_RouteEpoch = bs_RouteEpoch request, bs_Items = items\<rparr>, payload))"

definition unpackSetItem :: "SetRequest \<Rightarrow> bytes \<Rightarrow> wire_error + SetRequest" where
  "unpackSetItem item payload =
     (case SlicePayload payload (sr_PayloadOffset item) (sr_PayloadSize item) of
        Inl e \<Rightarrow> Inl e
      | Inr value \<Rightarrow> Inr (item\<lparr>sr_Value := value\<rparr>))"

definition UnpackBatchSet :: "BatchSetRequest \<Rightarrow> bytes \<Rightarrow> wire_error + SetRequest list" where
  "UnpackBatchSet request payload = unpackLoop unpackSetItem (bs_Items request) payload"

definition packRecord :: "WireRecord \<Rightarrow> bytes \<Rightarrow> wire_error + (WireRecord \<times> bytes)" where
  "packRecord rec payload =
     (if wr_Found rec then
        (case checkedPayloadRange (length payload) (length (wr_Value rec)) of
           Inl e \<Rightarrow> Inl e
         | Inr (offset, sz) \<Rightarrow>
             Inr (rec\<lparr>wr_PayloadOffset := offset, wr_PayloadSize := sz, wr_Value := []\<rparr>,
               payload @ wr_Value rec))
      else Inr (rec\<lparr>wr_Value := []\<rparr>, payload))"

definition PackRecords :: "WireRecord list \<Rightarrow> wire_error + (WireRecord list \<times> bytes)" where
  "PackRecords recs = packLoop packRecord recs []"

definition unpackRecord :: "WireRecord \<Rightarrow> bytes \<Rightarrow> wire_error + WireRecord" where
  "unpackRecord rec payload =
     (if wr_Found rec then
        (case SlicePayload payload (wr_PayloadOffset rec) (wr_PayloadSize rec) of
           Inl e \<Rightarrow> Inl e
         | Inr value \<Rightarrow> Inr (rec\<lparr>wr_Value := value\<rparr>))
      else Inr rec)"

definition UnpackRecords :: "WireRecord list \<Rightarrow> bytes \<Rightarrow> wire_error + WireRecord list" where
  "UnpackRecords recs payload = unpackLoop unpackRecord recs payload"

definition EncodeBatchSetRequest :: "BatchSetRequest \<Rightarrow> wire_error + (bytes \<times> bytes)" where
  "EncodeBatchSetRequest request =
     (case PackBatchSet request of
        Inl e \<Rightarrow> Inl e
      | Inr (packed, payload) \<Rightarrow>
          Inr (foldl appendBatchSetItem (appendCount newMetadata (itemCount (bs_Items packed)))
            (bs_Items packed), payload))"

definition DecodeBatchSetRequest :: "bytes \<Rightarrow> bytes \<Rightarrow> wire_error + BatchSetRequest" where
  "DecodeBatchSetRequest raw payload =
     (case decodeWith (readList readBatchSetItem) raw of
        Inl e \<Rightarrow> Inl e
      | Inr items \<Rightarrow>
          (case UnpackBatchSet \<lparr>bs_RouteEpoch = 0, bs_Items = items\<rparr> payload of
             Inl e \<Rightarrow> Inl e
           | Inr items \<Rightarrow> Inr \<lparr>bs_RouteEpoch = 0, bs_Items = items\<rparr>))"

definition EncodeBatchGetRequest :: "BatchGetRequest \<Rightarrow> bytes" where
  "EncodeBatchGetRequest request =
     foldl appendBatchGetItem (appendCount newMetadata (itemCount (bg_Items request)))
       (bg_Items request)"

definition DecodeBatchGetRequest :: "bytes \<Rightarrow> wire_error + BatchGetRequest" where
  "DecodeBatchGetRequest raw =
     (case decodeWith (readList readBatchGetItem) raw of
        Inl e \<Rightarrow> Inl e
      | Inr items \<Rightarrow> Inr \<lparr>bg_RouteEpoch = 0, bg_Items = items\<rparr>)"

definition EncodeBatchDeleteRequest :: "BatchDeleteRequest \<Rightarrow> bytes" where
  "EncodeBatchDeleteRequest request =
     foldl appendBatchDeleteItem (appendCount newMetadata (itemCount (bd_Items request)))
       (bd_Items request)"

definition DecodeBatchDeleteRequest :: "bytes \<Rightarrow> wire_error + BatchDeleteRequest" where
  "DecodeBatchDeleteRequest raw =
     (case decodeBatchItems raw readBatchDeleteItem of
        Inl e \<Rightarrow> Inl e
      | Inr items \<Rightarrow> Inr \<lparr>bd_RouteEpoch = 0, bd_Items = items\<rparr>)"

definition EncodeBatchExistsRequest :: "BatchExistsRequest \<Rightarrow> bytes" where
  "EncodeBatchExistsRequest request =
     foldl appendBatchExistsItem (appendCount newMetadata (itemCount (bx_Items request)))
       (bx_Items request)"

definition DecodeBatchExistsRequest :: "bytes \<Rightarrow> wire_error + BatchExistsRequest" where
  "DecodeBatchExistsRequest raw =
     (case decodeBatchItems raw readBatchExistsItem of
        Inl e \<Rightarrow> Inl e
      | Inr items \<Rightarrow> Inr \<lparr>bx_RouteEpoch = 0, bx_Items = items\<rparr>)"

definition EncodeBatchTouchRequest :: "BatchTouchRequest \<Rightarrow> bytes" where
  "EncodeBatchTouchRequest request =
     foldl appendBatchTouchItem (appendCount newMetadata (itemCount (bt_Items request)))
       (bt_Items request)"

definition DecodeBatchTouchRequest :: "bytes \<Rightarrow> wire_error + BatchTouchRequest" where
  "DecodeBatchTouchRequest raw =
     (case decodeBatchItems raw readBatchTouchItem of
        Inl e \<Rightarrow> Inl e
      | Inr items \<Rightarrow> Inr \<lparr>bt_RouteEpoch = 0, bt_Items = items\<rparr>)"

definition decodeBatchRecords :: "bytes \<Rightarrow> wire_error + WireRecord list" where
  "decodeBatchRecords raw = decodeWith (readList readBatchRecord) raw"

definition EncodeBatchSetResponse :: "WireRecord list \<Rightarrow> bytes" where
  "EncodeBatchSetResponse recs =
     foldl appendBatchRecord (appendCount newMetadata (itemCount recs)) recs"

definition DecodeBatchSetResponse :: "bytes \<Rightarrow> wire_error + WireRecord list" where
  "DecodeBatchSetResponse raw = decodeBatchRecords raw"

definition EncodeBatchGetResponse :: "WireRecord list \<Rightarrow> wire_error + (bytes \<times> bytes)" where
  "EncodeBatchGetResponse recs =
     (case PackRecords recs of
        Inl e \<Rightarrow> Inl e
      | Inr (packed, payload) \<Rightarrow>
          Inr (foldl appendBatchRecord (appendCount newMetadata (itemCount packed)) packed, payload))"

definition DecodeBatchGetResponse :: "bytes \<Rightarrow> bytes \<Rightarrow> wire_error + WireRecord list" where
  "DecodeBatchGetResponse raw payload =
     (case decodeBatchRecords raw of
        Inl e \<Rightarrow> Inl e
      | Inr recs \<Rightarrow> UnpackRecords recs payload)"

definition encodeBatchBoolResponses :: "bool list \<Rightarrow> bytes" where
  "encodeBatchBoolResponses items = foldl appendBool (appendCount newMetadata (itemCount items)) items"

definition decodeBatchBoolResponses :: "bytes \<Rightarrow> wire_error + bool list" where
  "decodeBatchBoolResponses raw = decodeWith (readList readBool) raw"

definition EncodeBatchDeleteResponse :: "bool list \<Rightarrow> bytes" where
  "EncodeBatchDeleteResponse rs = encodeBatchBoolResponses rs"
definition DecodeBatchDeleteResponse :: "bytes \<Rightarrow> wire_error + bool list" where
  "DecodeBatchDeleteResponse raw = decodeBatchBoolResponses raw"
definition EncodeBatchExistsResponse :: "bool list \<Rightarrow> bytes" where
  "EncodeBatchExistsResponse rs = encodeBatchBoolResponses rs"
definition DecodeBatchExistsResponse :: "bytes \<Rightarrow> wire_error + bool list" where
  "DecodeBatchExistsResponse raw = decodeBatchBoolResponses raw"
definition EncodeBatchTouchResponse :: "bool list \<Rightarrow> bytes" where
  "EncodeBatchTouchResponse rs = encodeBatchBoolResponses rs"
definition DecodeBatchTouchResponse :: "bytes \<Rightarrow> wire_error + bool list" where
  "DecodeBatchTouchResponse raw = decodeBatchBoolResponses raw"

section \<open>Range migration\<close>

definition appendMigrationRange :: "bytes \<Rightarrow> MigrationRangeRequest \<Rightarrow> bytes" where
  "appendMigrationRange raw request =
     (let raw = appendString raw (mr_Namespace request);
          raw = appendString raw (mr_Space request);
          raw = appendUint32 raw (mr_VSlotStart request)
      in appendUint32 raw (mr_VSlotEnd request))"

definition EncodeMigrationRangeRequest :: "MigrationRangeRequest \<Rightarrow> bytes" where
  "EncodeMigrationRangeRequest request = appendMigrationRange newMetadata request"

definition readMigrationRangeRequest :: "MigrationRangeRequest reader" where
  "readMigrationRangeRequest =
     thenRead readString (\<lambda>namespace.
     thenRead readString (\<lambda>space.
     thenRead readUint32 (\<lambda>start.
     thenRead readUint32 (\<lambda>stop.
     readDone \<lparr>mr_Namespace = namespace, mr_Space = space, mr_VSlotStart = start, mr_VSlotEnd = stop,
       mr_RouteEpoch = 0\<rparr>))))"

definition DecodeMigrationRangeRequest :: "bytes \<Rightarrow> wire_error + MigrationRangeRequest" where
  "DecodeMigrationRangeRequest raw = decodeWith readMigrationRangeRequest raw"

definition appendMigrationSnapshotEntry :: "bytes \<Rightarrow> MigrationSnapshotEntry \<Rightarrow> bytes" where
  "appendMigrationSnapshotEntry raw entry =
     (let raw = appendKey raw (me_Key entry);
          raw = appendUint64 raw (me_Version entry);
          raw = appendUint64 raw (me_NamespaceVersion entry);
          raw = appendUint64 raw (me_SpaceVersion entry);
          raw = appendInt64 raw (me_ExpireAtUnixMs entry);
          raw = appendInt64 raw (me_CreatedAtUnixMs entry);
          raw = appendInt64 raw (me_UpdatedAtUnixMs entry);
          raw = appendInt64 raw (me_LastAccessAtUnixMs entry);
          raw = appendUint64 raw (me_AccessCount entry);
          raw = appendUint32 raw (me_PayloadOffset entry)
      in appendUint32 raw (me_PayloadSize entry))"

type_synonym migrationVersions = "u64 \<times> u64"
type_synonym migrationTimes = "int \<times> int \<times> int \<times> int"

definition readMigrationSnapshotVersions :: "migrationVersions reader" where
  "readMigrationSnapshotVersions =
     thenRead readUint64 (\<lambda>namespace. thenRead readUint64 (\<lambda>space. readDone (namespace, space)))"

definition readMigrationSnapshotTimes :: "migrationTimes reader" where
  "readMigrationSnapshotTimes =
     thenRead readInt64 (\<lambda>expire.
     thenRead readInt64 (\<lambda>created.
     thenRead readInt64 (\<lambda>updated.
     thenRead readInt64 (\<lambda>lastAccess.
     readDone (expire, created, updated, lastAccess)))))"

definition readMigrationSnapshotTail ::
  "Key \<Rightarrow> u64 \<Rightarrow> migrationVersions \<Rightarrow> migrationTimes \<Rightarrow> MigrationSnapshotEntry reader" where
  "readMigrationSnapshotTail key version versions instants =
     thenRead readUint64 (\<lambda>accessCount.
     thenRead readUint32 (\<lambda>payloadOffset.
     thenRead readUint32 (\<lambda>payloadSize.
     case (versions, instants) of
       ((namespaceVersion, spaceVersion), (expire, created, updated, lastAccess)) \<Rightarrow>
         readDone \<lparr>me_Key = key, me_Value = [], me_Version = version,
           me_NamespaceVersion = namespaceVersion, me_SpaceVersion = spaceVersion,
           me_ExpireAtUnixMs = expire, me_CreatedAtUnixMs = created, me_UpdatedAtUnixMs = updated,
           me_LastAccessAtUnixMs = lastAccess, me_AccessCount = accessCount,
           me_PayloadOffset = payloadOffset, me_PayloadSize = payloadSize\<rparr>)))"

definition readMigrationSnapshotEntryBody :: "Key \<Rightarrow> MigrationSnapshotEntry reader" where
  "readMigrationSnapshotEntryBody key =
     thenRead readUint64 (\<lambda>version.
     thenRead readMigrationSnapshotVersions (\<lambda>versions.
     thenRead readMigrationSnapshotTimes (\<lambda>instants.
     readMigrationSnapshotTail key version versions instants)))"

definition readMigrationSnapshotEntry :: "MigrationSnapshotEntry reader" where
  "readMigrationSnapshotEntry = thenRead readKey readMigrationSnapshotEntryBody"

definition packSnapshotEntry ::
  "MigrationSnapshotEntry \<Rightarrow> bytes \<Rightarrow> wire_error + (MigrationSnapshotEntry \<times> bytes)" where
  "packSnapshotEntry entry payload =
     (case checkedPayloadRange (length payload) (length (me_Value entry)) of
        Inl e \<Rightarrow> Inl e
      | Inr (offset, sz) \<Rightarrow>
          Inr (entry\<lparr>me_PayloadOffset := offset, me_PayloadSize := sz, me_Value := []\<rparr>,
            payload @ me_Value entry))"

definition PackMigrationSnapshot :: "MigrationSnapshot \<Rightarrow> wire_error + (MigrationSnapshot \<times> bytes)" where
  "PackMigrationSnapshot snapshot = packLoop packSnapshotEntry snapshot []"

definition unpackSnapshotEntry ::
  "MigrationSnapshotEntry \<Rightarrow> bytes \<Rightarrow> wire_error + MigrationSnapshotEntry" where
  "unpackSnapshotEntry entry payload =
     (case SlicePayload payload (me_PayloadOffset entry) (me_PayloadSize entry) of
        Inl e \<Rightarrow> Inl e
      | Inr value \<Rightarrow> Inr (entry\<lparr>me_Value := value\<rparr>))"

definition UnpackMigrationSnapshot :: "MigrationSnapshot \<Rightarrow> bytes \<Rightarrow> wire_error + MigrationSnapshot" where
  "UnpackMigrationSnapshot snapshot payload = unpackLoop unpackSnapshotEntry snapshot payload"

definition EncodeMigrationSnapshot :: "MigrationSnapshot \<Rightarrow> wire_error + (bytes \<times> bytes)" where
  "EncodeMigrationSnapshot snapshot =
     (case PackMigrationSnapshot snapshot of
        Inl e \<Rightarrow> Inl e
      | Inr (packed, payload) \<Rightarrow>
          Inr (foldl appendMigrationSnapshotEntry (appendCount newMetadata (itemCount packed)) packed,
            payload))"

definition DecodeMigrationSnapshot :: "bytes \<Rightarrow> bytes \<Rightarrow> wire_error + MigrationSnapshot" where
  "DecodeMigrationSnapshot raw payload =
     (case decodeWith (readList readMigrationSnapshotEntry) raw of
        Inl e \<Rightarrow> Inl e
      | Inr es \<Rightarrow> UnpackMigrationSnapshot es payload)"

definition decodeUint64Response :: "bytes \<Rightarrow> wire_error + u64" where
  "decodeUint64Response raw = decodeWith readUint64 raw"

definition EncodeMigrationImportResponse :: "u64 \<Rightarrow> bytes" where
  "EncodeMigrationImportResponse imported = appendUint64 newMetadata imported"
definition DecodeMigrationImportResponse :: "bytes \<Rightarrow> wire_error + u64" where
  "DecodeMigrationImportResponse raw = decodeUint64Response raw"
definition EncodeMigrationDeleteRangeResponse :: "u64 \<Rightarrow> bytes" where
  "EncodeMigrationDeleteRangeResponse deleted = appendUint64 newMetadata deleted"
definition DecodeMigrationDeleteRangeResponse :: "bytes \<Rightarrow> wire_error + u64" where
  "DecodeMigrationDeleteRangeResponse raw = decodeUint64Response raw"
definition EncodeMigrationFenceResponse :: "bool \<Rightarrow> bytes" where
  "EncodeMigrationFenceResponse applied = encodeBool applied"
definition DecodeMigrationFenceResponse :: "bytes \<Rightarrow> wire_error + bool" where
  "DecodeMigrationFenceResponse raw = decodeBool raw"

section \<open>Lemmas\<close>

lemmas item_defs [wire_defs] =
  appendSetFields_def appendBatchSetItem_def appendBatchGetItem_def appendBatchDeleteItem_def
  appendBatchExistsItem_def appendBatchTouchItem_def appendAdjustFields_def appendBatchRecord_def
  appendMigrationRange_def appendMigrationSnapshotEntry_def

lemma appendKey_app: "NO_MATCH [] raw \<Longrightarrow> appendKey raw k = raw @ appendKey [] k"
  by (simp add: wire_defs)

text \<open>
  What an encoding carries of an item: not \<open>RouteEpoch\<close>, which is in the frame header, and not the
  value, which is in the payload; and the items it can carry, which in Go are all (a length is an
  \<open>int\<close>, a time an \<open>int64\<close>).
\<close>

definition arriveSet :: "SetRequest \<Rightarrow> SetRequest" where
  "arriveSet r = r\<lparr>sr_Value := [], sr_RouteEpoch := 0, sr_PayloadOffset := 0, sr_PayloadSize := 0\<rparr>"

definition arriveSetItem :: "SetRequest \<Rightarrow> SetRequest" where
  "arriveSetItem r = r\<lparr>sr_Value := [], sr_RouteEpoch := 0\<rparr>"

definition arriveRecord :: "WireRecord \<Rightarrow> WireRecord" where
  "arriveRecord r = (if wr_Found r then r\<lparr>wr_Value := []\<rparr> else missRecord)"

definition wireSet :: "SetRequest \<Rightarrow> bool" where
  "wireSet r \<longleftrightarrow> wireKey (sr_Key r) \<and> int64 (sr_TTLMillis r)"

definition wireTouch :: "TouchRequest \<Rightarrow> bool" where
  "wireTouch r \<longleftrightarrow> wireKey (tr_Key r) \<and> int64 (tr_TTLMillis r)"

definition wireAdjust :: "AdjustRequest \<Rightarrow> bool" where
  "wireAdjust r \<longleftrightarrow> wireKey (ar_Key r) \<and> int64 (ar_TTLMillis r) \<and> int64 (ar_InitialValue r)
     \<and> int64 (ar_Delta r)"

definition wireRecord :: "WireRecord \<Rightarrow> bool" where
  "wireRecord r \<longleftrightarrow> wireString (wr_Namespace r) \<and> wireString (wr_Space r)
     \<and> wireString (wr_Entity r) \<and> wireString (wr_Key r) \<and> int64 (wr_ExpireAtUnixMs r)"

definition wireSnapshotEntry :: "MigrationSnapshotEntry \<Rightarrow> bool" where
  "wireSnapshotEntry m \<longleftrightarrow> wireKey (me_Key m) \<and> int64 (me_ExpireAtUnixMs m)
     \<and> int64 (me_CreatedAtUnixMs m) \<and> int64 (me_UpdatedAtUnixMs m) \<and> int64 (me_LastAccessAtUnixMs m)"

lemmas wire_ok =
  wireSet_def wireTouch_def wireAdjust_def wireRecord_def wireSnapshotEntry_def arriveSet_def
  arriveSetItem_def arriveRecord_def missRecord_def

lemmas append_items =
  item_defs Let_def appendKey_app appendUint64_def appendUint32_def appendInt64_def AppendVarint_app
  appendBool_app appendString_def

lemmas read_items =
  readSetFields_def readBatchSetItem_def readBatchGetItem_def readBatchDeleteItem_def
  readBatchExistsItem_def readVersionedKey_def readBatchTouchItem_def readAdjustFields_def
  readBatchRecord_def readBatchRecordFields_def readBatchRecordNumbers_def
  readMigrationRangeRequest_def readMigrationSnapshotEntry_def readMigrationSnapshotEntryBody_def
  readMigrationSnapshotVersions_def readMigrationSnapshotTimes_def readMigrationSnapshotTail_def

interpretation set_fields: wire_code appendSetFields readSetFields arriveSet wireSet
  by unfold_locales (simp_all add: append_items read_items wire_read wire_ok)

interpretation set_item: wire_code appendBatchSetItem readBatchSetItem arriveSetItem wireSet
  by unfold_locales (simp_all add: append_items read_items wire_read wire_ok)

interpretation get_item: wire_code appendBatchGetItem readBatchGetItem "gr_RouteEpoch_update (\<lambda>_. 0)"
    "\<lambda>r. wireKey (gr_Key r)"
  by unfold_locales (simp_all add: append_items read_items wire_read)

interpretation delete_item: wire_code appendBatchDeleteItem readBatchDeleteItem
    "dr_RouteEpoch_update (\<lambda>_. 0)" "\<lambda>r. wireKey (dr_Key r)"
  by unfold_locales (simp_all add: append_items read_items wire_read)

interpretation exists_item: wire_code appendBatchExistsItem readBatchExistsItem
    "xr_RouteEpoch_update (\<lambda>_. 0)" "\<lambda>r. wireKey (xr_Key r)"
  by unfold_locales (simp_all add: append_items read_items wire_read)

interpretation touch_item: wire_code appendBatchTouchItem readBatchTouchItem
    "tr_RouteEpoch_update (\<lambda>_. 0)" wireTouch
  by unfold_locales (simp_all add: append_items read_items wire_read wire_ok)

interpretation adjust_fields: wire_code appendAdjustFields readAdjustFields
    "ar_RouteEpoch_update (\<lambda>_. 0)" wireAdjust
  by unfold_locales (simp_all add: append_items read_items wire_read wire_ok)

interpretation record_item: wire_code appendBatchRecord readBatchRecord arriveRecord wireRecord
  by unfold_locales (simp_all add: append_items read_items wire_read wire_ok)

interpretation range_request: wire_code appendMigrationRange readMigrationRangeRequest
    "mr_RouteEpoch_update (\<lambda>_. 0)" "\<lambda>r. wireString (mr_Namespace r) \<and> wireString (mr_Space r)"
  by unfold_locales (simp_all add: append_items read_items wire_read)

interpretation snapshot_entry: wire_code appendMigrationSnapshotEntry readMigrationSnapshotEntry
    "me_Value_update (\<lambda>_. [])" wireSnapshotEntry
  by unfold_locales (simp_all add: append_items read_items wire_read wire_ok)

interpretation bool_item: wire_code appendBool readBool "\<lambda>b. b" "\<lambda>_. True"
  by unfold_locales (simp_all add: append_items wire_read)

interpretation uint64_item: wire_code appendUint64 readUint64 "\<lambda>x. x" "\<lambda>_. True"
  by unfold_locales (simp_all add: append_items wire_read)

subsection \<open>Payloads\<close>

definition setView :: "SetRequest \<Rightarrow> SetRequest" where
  "setView r = r\<lparr>sr_RouteEpoch := 0, sr_PayloadOffset := 0, sr_PayloadSize := 0\<rparr>"

definition recordView :: "WireRecord \<Rightarrow> WireRecord" where
  "recordView r =
     (if wr_Found r then r\<lparr>wr_PayloadOffset := 0, wr_PayloadSize := 0\<rparr> else missRecord)"

definition snapshotView :: "MigrationSnapshotEntry \<Rightarrow> MigrationSnapshotEntry" where
  "snapshotView m = m\<lparr>me_PayloadOffset := 0, me_PayloadSize := 0\<rparr>"

definition recordSize :: "WireRecord \<Rightarrow> nat" where
  "recordSize r = (if wr_Found r then length (wr_Value r) else 0)"

lemmas payload_simps = checkedPayloadRange_fits SlicePayload_ext

interpretation set_payload: payload_code packSetItem unpackSetItem arriveSetItem
    "\<lambda>r. length (sr_Value r)" setView wireSet
  by unfold_locales
    (simp add: packSetItem_def unpackSetItem_def payload_simps setView_def wire_ok)

interpretation record_payload: payload_code packRecord unpackRecord arriveRecord recordSize
    recordView wireRecord
proof unfold_locales
  fix payload :: bytes and x :: WireRecord
  assume "length payload + recordSize x < 2 ^ 32"
  then show "\<exists>y ext. packRecord x payload = Inr (y, payload @ ext) \<and> length ext = recordSize x \<and>
      (wireRecord x \<longrightarrow> wireRecord y) \<and>
      (\<forall>tail. \<exists>z. unpackRecord (arriveRecord y) ((payload @ ext) @ tail) = Inr z
        \<and> recordView z = recordView x)"
    by (cases "wr_Found x")
      (simp_all add: packRecord_def unpackRecord_def payload_simps recordView_def recordSize_def wire_ok)
qed

interpretation snapshot_payload: payload_code packSnapshotEntry unpackSnapshotEntry
    "me_Value_update (\<lambda>_. [])" "\<lambda>m. length (me_Value m)" snapshotView wireSnapshotEntry
  by unfold_locales
    (simp add: packSnapshotEntry_def unpackSnapshotEntry_def payload_simps snapshotView_def wire_ok)

subsection \<open>Messages\<close>

lemma decode_single:
  "wireSet s \<Longrightarrow> DecodeSetRequest (EncodeSetRequest s) = Inr (arriveSet s)"
  "wireKey (gr_Key g) \<Longrightarrow> DecodeGetRequest (EncodeGetRequest g) = Inr (g\<lparr>gr_RouteEpoch := 0\<rparr>)"
  "wireKey (dr_Key d) \<Longrightarrow> DecodeDeleteRequest (EncodeDeleteRequest d) = Inr (d\<lparr>dr_RouteEpoch := 0\<rparr>)"
  "wireKey (xr_Key x) \<Longrightarrow> DecodeExistsRequest (EncodeExistsRequest x) = Inr (x\<lparr>xr_RouteEpoch := 0\<rparr>)"
  "wireTouch t \<Longrightarrow> DecodeTouchRequest (EncodeTouchRequest t) = Inr (t\<lparr>tr_RouteEpoch := 0\<rparr>)"
  "wireAdjust a \<Longrightarrow> DecodeAdjustRequest (EncodeAdjustRequest a) = Inr (a\<lparr>ar_RouteEpoch := 0\<rparr>)"
proof -
  assume "wireSet s"
  then show "DecodeSetRequest (EncodeSetRequest s) = Inr (arriveSet s)"
    by (simp add: DecodeSetRequest_def EncodeSetRequest_def set_fields.decode_app)
next
  assume "wireAdjust a"
  then show "DecodeAdjustRequest (EncodeAdjustRequest a) = Inr (a\<lparr>ar_RouteEpoch := 0\<rparr>)"
    by (simp add: DecodeAdjustRequest_def EncodeAdjustRequest_def adjust_fields.decode_app)
next
  assume k: "wireKey (gr_Key g)"
  have "EncodeGetRequest g = appendBatchGetItem newMetadata g"
    by (simp add: EncodeGetRequest_def appendBatchGetItem_def)
  then show "DecodeGetRequest (EncodeGetRequest g) = Inr (g\<lparr>gr_RouteEpoch := 0\<rparr>)"
    using k by (simp add: DecodeGetRequest_def decodeVersionedKey_def decodeWith_def newMetadata_def
        newCursor_def ensureEOF_def append_items read_items wire_read [where rest = "[]", simplified] wire_read)
next
  assume k: "wireKey (dr_Key d)"
  have "EncodeDeleteRequest d = appendBatchDeleteItem newMetadata d"
    by (simp add: EncodeDeleteRequest_def appendBatchDeleteItem_def)
  with k show "DecodeDeleteRequest (EncodeDeleteRequest d) = Inr (d\<lparr>dr_RouteEpoch := 0\<rparr>)"
    using delete_item.decode_app [of d] by (simp add: DecodeDeleteRequest_def readBatchDeleteItem_def)
next
  assume k: "wireKey (xr_Key x)"
  have "EncodeExistsRequest x = appendBatchExistsItem newMetadata x"
    by (simp add: EncodeExistsRequest_def appendBatchExistsItem_def)
  then show "DecodeExistsRequest (EncodeExistsRequest x) = Inr (x\<lparr>xr_RouteEpoch := 0\<rparr>)"
    using k by (simp add: DecodeExistsRequest_def decodeVersionedKey_def decodeWith_def newMetadata_def
        newCursor_def ensureEOF_def append_items read_items wire_read [where rest = "[]", simplified] wire_read)
next
  assume k: "wireTouch t"
  have "EncodeTouchRequest t = appendBatchTouchItem newMetadata t"
    by (simp add: EncodeTouchRequest_def appendBatchTouchItem_def)
  with k show "DecodeTouchRequest (EncodeTouchRequest t) = Inr (t\<lparr>tr_RouteEpoch := 0\<rparr>)"
    using touch_item.decode_app [of t] by (simp add: DecodeTouchRequest_def readBatchTouchItem_def)
qed

lemma decode_answers:
  "decodeBool (encodeBool b) = Inr b"
  "int (length bs) \<le> MaxInt64 \<Longrightarrow> decodeBatchBoolResponses (encodeBatchBoolResponses bs) = Inr bs"
  "DecodeMigrationImportResponse (EncodeMigrationImportResponse n) = Inr n"
  "DecodeMigrationDeleteRangeResponse (EncodeMigrationDeleteRangeResponse n) = Inr n"
  "DecodeMigrationFenceResponse (EncodeMigrationFenceResponse b) = Inr b"
  using bool_item.decode_app [of b] bool_item.decode_list [of bs] uint64_item.decode_app [of n]
  by (simp_all add: decodeBool_def encodeBool_def decodeBatchBoolResponses_def
      encodeBatchBoolResponses_def DecodeMigrationImportResponse_def EncodeMigrationImportResponse_def
      DecodeMigrationDeleteRangeResponse_def EncodeMigrationDeleteRangeResponse_def
      decodeUint64Response_def DecodeMigrationFenceResponse_def EncodeMigrationFenceResponse_def
      list_all_iff)

lemma decode_record:
  "wireRecord r \<Longrightarrow> DecodeRecord (EncodeRecord r) =
     Inr (if wr_Found r then r\<lparr>wr_Value := [], wr_PayloadOffset := 0, wr_PayloadSize := 0\<rparr> else missRecord)"
  using readInt64_put [of _ "[]"]
  by (cases "wr_Found r") (simp_all add: DecodeRecord_def EncodeRecord_def decodeWith_def newMetadata_def newCursor_def
      ensureEOF_def append_items readRecord_def wire_read wireRecord_def)

lemma decode_range:
  "wireString (mr_Namespace r) \<Longrightarrow> wireString (mr_Space r) \<Longrightarrow>
     DecodeMigrationRangeRequest (EncodeMigrationRangeRequest r) = Inr (r\<lparr>mr_RouteEpoch := 0\<rparr>)"
  using range_request.decode_app [of r]
  by (simp add: DecodeMigrationRangeRequest_def EncodeMigrationRangeRequest_def)

lemma decode_batch:
  "list_all (\<lambda>r. wireKey (gr_Key r)) (bg_Items g) \<Longrightarrow> int (length (bg_Items g)) \<le> MaxInt64 \<Longrightarrow>
     DecodeBatchGetRequest (EncodeBatchGetRequest g) =
     Inr \<lparr>bg_RouteEpoch = 0, bg_Items = map (gr_RouteEpoch_update (\<lambda>_. 0)) (bg_Items g)\<rparr>"
  "list_all (\<lambda>r. wireKey (dr_Key r)) (bd_Items d) \<Longrightarrow> int (length (bd_Items d)) \<le> MaxInt64 \<Longrightarrow>
     DecodeBatchDeleteRequest (EncodeBatchDeleteRequest d) =
     Inr \<lparr>bd_RouteEpoch = 0, bd_Items = map (dr_RouteEpoch_update (\<lambda>_. 0)) (bd_Items d)\<rparr>"
  "list_all (\<lambda>r. wireKey (xr_Key r)) (bx_Items x) \<Longrightarrow> int (length (bx_Items x)) \<le> MaxInt64 \<Longrightarrow>
     DecodeBatchExistsRequest (EncodeBatchExistsRequest x) =
     Inr \<lparr>bx_RouteEpoch = 0, bx_Items = map (xr_RouteEpoch_update (\<lambda>_. 0)) (bx_Items x)\<rparr>"
  "list_all wireTouch (bt_Items t) \<Longrightarrow> int (length (bt_Items t)) \<le> MaxInt64 \<Longrightarrow>
     DecodeBatchTouchRequest (EncodeBatchTouchRequest t) =
     Inr \<lparr>bt_RouteEpoch = 0, bt_Items = map (tr_RouteEpoch_update (\<lambda>_. 0)) (bt_Items t)\<rparr>"
  by (simp_all add: DecodeBatchGetRequest_def EncodeBatchGetRequest_def get_item.decode_list
      DecodeBatchDeleteRequest_def EncodeBatchDeleteRequest_def delete_item.decode_list
      DecodeBatchExistsRequest_def EncodeBatchExistsRequest_def exists_item.decode_list
      DecodeBatchTouchRequest_def EncodeBatchTouchRequest_def touch_item.decode_list decodeBatchItems_def)

lemma decode_set_response:
  "list_all wireRecord rs \<Longrightarrow> int (length rs) \<le> MaxInt64 \<Longrightarrow>
     DecodeBatchSetResponse (EncodeBatchSetResponse rs) = Inr (map arriveRecord rs)"
  by (simp add: DecodeBatchSetResponse_def EncodeBatchSetResponse_def decodeBatchRecords_def
      record_item.decode_list)

lemma decode_batch_set:
  assumes "list_all wireSet (bs_Items r)" and "int (length (bs_Items r)) \<le> MaxInt64"
    and "(\<Sum>x\<leftarrow>bs_Items r. length (sr_Value x)) < 2 ^ 32"
  shows "\<exists>meta payload items. EncodeBatchSetRequest r = Inr (meta, payload) \<and>
      DecodeBatchSetRequest meta payload = Inr \<lparr>bs_RouteEpoch = 0, bs_Items = items\<rparr> \<and>
      map setView items = map setView (bs_Items r)"
proof -
  obtain ys ext where ys: "packLoop packSetItem (bs_Items r) [] = Inr (ys, ext)"
      "length ys = length (bs_Items r)" "list_all wireSet ys"
    and unpacked: "\<forall>tail. \<exists>zs. unpackLoop unpackSetItem (map arriveSetItem ys) (ext @ tail) = Inr zs
      \<and> map setView zs = map setView (bs_Items r)"
    using set_payload.packLoop_fits [of "[]" "bs_Items r"] assms by auto
  from unpacked obtain zs where "unpackLoop unpackSetItem (map arriveSetItem ys) ext = Inr zs"
      "map setView zs = map setView (bs_Items r)"
    by (metis append_Nil2)
  with ys show ?thesis
    using assms set_item.decode_list [of ys]
    by (simp add: EncodeBatchSetRequest_def PackBatchSet_def DecodeBatchSetRequest_def UnpackBatchSet_def)
qed

lemma decode_batch_get_response:
  assumes "list_all wireRecord rs" and "int (length rs) \<le> MaxInt64"
    and "sum_list (map recordSize rs) < 2 ^ 32"
  shows "\<exists>meta payload out. EncodeBatchGetResponse rs = Inr (meta, payload) \<and>
      DecodeBatchGetResponse meta payload = Inr out \<and> map recordView out = map recordView rs"
proof -
  obtain ys ext where ys: "packLoop packRecord rs [] = Inr (ys, ext)"
      "length ys = length rs" "list_all wireRecord ys"
    and unpacked: "\<forall>tail. \<exists>zs. unpackLoop unpackRecord (map arriveRecord ys) (ext @ tail) = Inr zs
      \<and> map recordView zs = map recordView rs"
    using record_payload.packLoop_fits [of "[]" rs] assms by auto
  from unpacked obtain zs where "unpackLoop unpackRecord (map arriveRecord ys) ext = Inr zs"
      "map recordView zs = map recordView rs"
    by (metis append_Nil2)
  with ys show ?thesis
    using assms record_item.decode_list [of ys]
    by (simp add: EncodeBatchGetResponse_def PackRecords_def DecodeBatchGetResponse_def
        UnpackRecords_def decodeBatchRecords_def)
qed

lemma decode_snapshot:
  assumes "list_all wireSnapshotEntry ms" and "int (length ms) \<le> MaxInt64"
    and "(\<Sum>m\<leftarrow>ms. length (me_Value m)) < 2 ^ 32"
  shows "\<exists>meta payload out. EncodeMigrationSnapshot ms = Inr (meta, payload) \<and>
      DecodeMigrationSnapshot meta payload = Inr out \<and> map snapshotView out = map snapshotView ms"
proof -
  let ?arrive = "me_Value_update (\<lambda>_. [])"
  obtain ys ext where ys: "packLoop packSnapshotEntry ms [] = Inr (ys, ext)"
      "length ys = length ms" "list_all wireSnapshotEntry ys"
    and unpacked: "\<forall>tail. \<exists>zs. unpackLoop unpackSnapshotEntry (map ?arrive ys) (ext @ tail) = Inr zs
      \<and> map snapshotView zs = map snapshotView ms"
    using snapshot_payload.packLoop_fits [of "[]" ms] assms by auto
  from unpacked obtain zs where "unpackLoop unpackSnapshotEntry (map ?arrive ys) ext = Inr zs"
      "map snapshotView zs = map snapshotView ms"
    by (metis append_Nil2)
  with ys show ?thesis
    using assms snapshot_entry.decode_list [of ys]
    by (simp add: EncodeMigrationSnapshot_def PackMigrationSnapshot_def DecodeMigrationSnapshot_def
        UnpackMigrationSnapshot_def)
qed

end
