(* ===== verification/Wire_Primitive.thy ===== *)
theory Wire_Primitive
  imports Wire_Messages
begin

text \<open>
  The messages of the collection primitives (\<open>cachewire/primitive_types.go\<close>) and their encodings
  (\<open>binary_primitive*.go\<close>, \<open>primitive_payload.go\<close>, \<open>primitive_result_payload.go\<close>). The kind of a
  primitive is one byte on the wire; a \<open>float64\<close> is its bit pattern. A result moves its value, the
  values of its map fields and its list values into one payload.
\<close>

record WirePrimitiveRequest =
  wp_Key :: Key
  wp_RouteEpoch :: u64
  wp_Kind :: u8
  wp_TTLMillis :: int
  wp_NamespaceVersion :: u64
  wp_SpaceVersion :: u64
  wp_ExpectedVersion :: u64
  wp_Field :: string
  wp_Member :: string
  wp_Value :: bytes
  wp_Delta :: int
  wp_InitialValue :: int
  wp_Score :: float64
  wp_MinScore :: float64
  wp_MaxScore :: float64
  wp_HasMinScore :: bool
  wp_HasMaxScore :: bool
  wp_Limit :: u64
  wp_Start :: int
  wp_Reverse :: bool
  wp_PayloadOffset :: u32
  wp_PayloadSize :: u32

record WireMapField =
  wf_Field :: string
  wf_Value :: bytes
  wf_PayloadOffset :: u32
  wf_PayloadSize :: u32

record ListValue =
  lv_Value :: bytes
  lv_PayloadOffset :: u32
  lv_PayloadSize :: u32

record WirePrimitiveResult =
  wq_Record :: WireRecord
  wq_Found :: bool
  wq_Applied :: bool
  wq_Value :: bytes
  wq_Bool :: bool
  wq_Count :: u64
  wq_Fields :: "WireMapField list"
  wq_Members :: "string list"
  wq_ScoredMembers :: "ScoredMember list"
  wq_Values :: "ListValue list"
  wq_PayloadOffset :: u32
  wq_PayloadSize :: u32

record BatchPrimitiveRequest =
  bp_RouteEpoch :: u64
  bp_Items :: "WirePrimitiveRequest list"

record primitiveOptions =
  opt_ttlMillis :: int
  opt_namespaceVersion :: u64
  opt_spaceVersion :: u64
  opt_expectedVersion :: u64

record primitiveNumbers =
  num_delta :: int
  num_initialValue :: int
  num_score :: float64
  num_minScore :: float64
  num_maxScore :: float64
  num_limit :: u64
  num_start :: int

type_synonym payloadRange = "u32 \<times> u32"

section \<open>Requests\<close>

definition appendPrimitiveOptions :: "bytes \<Rightarrow> WirePrimitiveRequest \<Rightarrow> bytes" where
  "appendPrimitiveOptions raw item =
     (let raw = appendInt64 raw (wp_TTLMillis item);
          raw = appendUint64 raw (wp_NamespaceVersion item);
          raw = appendUint64 raw (wp_SpaceVersion item)
      in appendUint64 raw (wp_ExpectedVersion item))"

definition appendPrimitiveNumbers :: "bytes \<Rightarrow> WirePrimitiveRequest \<Rightarrow> bytes" where
  "appendPrimitiveNumbers raw item =
     (let raw = appendInt64 raw (wp_Delta item);
          raw = appendInt64 raw (wp_InitialValue item);
          raw = appendFloat64 raw (wp_Score item);
          raw = appendFloat64 raw (wp_MinScore item);
          raw = appendFloat64 raw (wp_MaxScore item);
          raw = appendUint64 raw (wp_Limit item)
      in appendInt64 raw (wp_Start item))"

definition appendPrimitiveRequest :: "bytes \<Rightarrow> WirePrimitiveRequest \<Rightarrow> bytes" where
  "appendPrimitiveRequest raw item =
     (let raw = raw @ [wp_Kind item];
          raw = appendKey raw (wp_Key item);
          raw = appendPrimitiveOptions raw item;
          raw = appendString raw (wp_Field item);
          raw = appendString raw (wp_Member item);
          raw = appendPrimitiveNumbers raw item;
          raw = appendBool raw (wp_HasMinScore item);
          raw = appendBool raw (wp_HasMaxScore item);
          raw = appendBool raw (wp_Reverse item);
          raw = appendUint32 raw (wp_PayloadOffset item)
      in appendUint32 raw (wp_PayloadSize item))"

definition readPrimitiveKind :: "u8 reader" where
  "readPrimitiveKind = readByte"

definition readVersionTriplet :: "(u64 \<times> u64 \<times> u64) reader" where
  "readVersionTriplet =
     thenRead readUint64 (\<lambda>namespaceVersion.
     thenRead readUint64 (\<lambda>spaceVersion.
     thenRead readUint64 (\<lambda>expectedVersion.
     readDone (namespaceVersion, spaceVersion, expectedVersion))))"

definition readPrimitiveOptions :: "primitiveOptions reader" where
  "readPrimitiveOptions =
     thenRead readInt64 (\<lambda>ttlMillis.
     thenRead readVersionTriplet (\<lambda>(namespaceVersion, spaceVersion, expectedVersion).
     readDone \<lparr>opt_ttlMillis = ttlMillis, opt_namespaceVersion = namespaceVersion,
       opt_spaceVersion = spaceVersion, opt_expectedVersion = expectedVersion\<rparr>))"

definition readPrimitiveNames :: "(string \<times> string) reader" where
  "readPrimitiveNames =
     thenRead readString (\<lambda>field. thenRead readString (\<lambda>member. readDone (field, member)))"

definition readPrimitiveIntPair :: "(int \<times> int) reader" where
  "readPrimitiveIntPair =
     thenRead readInt64 (\<lambda>delta. thenRead readInt64 (\<lambda>initialValue. readDone (delta, initialValue)))"

definition readPrimitiveScores :: "(float64 \<times> float64 \<times> float64) reader" where
  "readPrimitiveScores =
     thenRead readFloat64 (\<lambda>score.
     thenRead readFloat64 (\<lambda>minScore.
     thenRead readFloat64 (\<lambda>maxScore.
     readDone (score, minScore, maxScore))))"

definition readPrimitiveNumbers :: "primitiveNumbers reader" where
  "readPrimitiveNumbers =
     thenRead readPrimitiveIntPair (\<lambda>(delta, initialValue).
     thenRead readPrimitiveScores (\<lambda>(score, minScore, maxScore).
     thenRead readUint64 (\<lambda>limit.
     thenRead readInt64 (\<lambda>start.
     readDone \<lparr>num_delta = delta, num_initialValue = initialValue, num_score = score,
       num_minScore = minScore, num_maxScore = maxScore, num_limit = limit, num_start = start\<rparr>))))"

definition readPrimitiveFlags :: "(bool \<times> bool \<times> bool) reader" where
  "readPrimitiveFlags =
     thenRead readBool (\<lambda>hasMin.
     thenRead readBool (\<lambda>hasMax.
     thenRead readBool (\<lambda>reverse.
     readDone (hasMin, hasMax, reverse))))"

definition readPayloadRange :: "payloadRange reader" where
  "readPayloadRange =
     thenRead readUint32 (\<lambda>offset. thenRead readUint32 (\<lambda>sz. readDone (offset, sz)))"

definition buildPrimitiveRequest ::
  "u8 \<Rightarrow> Key \<Rightarrow> primitiveOptions \<Rightarrow> string \<Rightarrow> string \<Rightarrow> primitiveNumbers \<Rightarrow> bool \<Rightarrow> bool \<Rightarrow> bool
    \<Rightarrow> payloadRange \<Rightarrow> WirePrimitiveRequest" where
  "buildPrimitiveRequest kind key opts field member numbers hasMin hasMax reverse valueRange =
     \<lparr>wp_Key = key, wp_RouteEpoch = 0, wp_Kind = kind, wp_TTLMillis = opt_ttlMillis opts,
       wp_NamespaceVersion = opt_namespaceVersion opts, wp_SpaceVersion = opt_spaceVersion opts,
       wp_ExpectedVersion = opt_expectedVersion opts, wp_Field = field, wp_Member = member,
       wp_Value = [], wp_Delta = num_delta numbers, wp_InitialValue = num_initialValue numbers,
       wp_Score = num_score numbers, wp_MinScore = num_minScore numbers,
       wp_MaxScore = num_maxScore numbers, wp_HasMinScore = hasMin, wp_HasMaxScore = hasMax,
       wp_Limit = num_limit numbers, wp_Start = num_start numbers, wp_Reverse = reverse,
       wp_PayloadOffset = fst valueRange, wp_PayloadSize = snd valueRange\<rparr>"

definition readPrimitiveRequestTail ::
  "u8 \<Rightarrow> Key \<Rightarrow> primitiveOptions \<Rightarrow> string \<Rightarrow> string \<Rightarrow> WirePrimitiveRequest reader" where
  "readPrimitiveRequestTail kind key opts field member =
     thenRead readPrimitiveNumbers (\<lambda>numbers.
     thenRead readPrimitiveFlags (\<lambda>(hasMin, hasMax, reverse).
     thenRead readPayloadRange (\<lambda>valueRange.
     readDone
       (buildPrimitiveRequest kind key opts field member numbers hasMin hasMax reverse valueRange))))"

definition readPrimitiveRequestBody :: "u8 \<Rightarrow> Key \<Rightarrow> WirePrimitiveRequest reader" where
  "readPrimitiveRequestBody kind key =
     thenRead readPrimitiveOptions (\<lambda>opts.
     thenRead readPrimitiveNames (\<lambda>(field, member).
     readPrimitiveRequestTail kind key opts field member))"

definition readPrimitiveRequest :: "WirePrimitiveRequest reader" where
  "readPrimitiveRequest =
     thenRead readPrimitiveKind (\<lambda>kind.
     thenRead readKey (\<lambda>key.
     readPrimitiveRequestBody kind key))"

definition packPrimitiveRequest ::
  "WirePrimitiveRequest \<Rightarrow> wire_error + (WirePrimitiveRequest \<times> bytes)" where
  "packPrimitiveRequest request =
     (let payload = wp_Value request in
      case checkedPayloadRange 0 (length payload) of
        Inl e \<Rightarrow> Inl e
      | Inr (offset, sz) \<Rightarrow>
          Inr (request\<lparr>wp_PayloadOffset := offset, wp_PayloadSize := sz, wp_Value := []\<rparr>, payload))"

definition appendPrimitiveRequestPayload ::
  "WirePrimitiveRequest \<Rightarrow> bytes \<Rightarrow> wire_error + (WirePrimitiveRequest \<times> bytes)" where
  "appendPrimitiveRequestPayload request payload =
     (case checkedPayloadRange (length payload) (length (wp_Value request)) of
        Inl e \<Rightarrow> Inl e
      | Inr (offset, sz) \<Rightarrow>
          Inr (request\<lparr>wp_PayloadOffset := offset, wp_PayloadSize := sz, wp_Value := []\<rparr>,
            payload @ wp_Value request))"

definition packPrimitiveRequests ::
  "WirePrimitiveRequest list \<Rightarrow> wire_error + (WirePrimitiveRequest list \<times> bytes)" where
  "packPrimitiveRequests items = packLoop appendPrimitiveRequestPayload items []"

definition unpackPrimitiveRequest ::
  "WirePrimitiveRequest \<Rightarrow> bytes \<Rightarrow> wire_error + WirePrimitiveRequest" where
  "unpackPrimitiveRequest request payload =
     (case SlicePayload payload (wp_PayloadOffset request) (wp_PayloadSize request) of
        Inl e \<Rightarrow> Inl e
      | Inr value \<Rightarrow> Inr (request\<lparr>wp_Value := value\<rparr>))"

definition unpackPrimitiveRequests ::
  "WirePrimitiveRequest list \<Rightarrow> bytes \<Rightarrow> wire_error + WirePrimitiveRequest list" where
  "unpackPrimitiveRequests items payload = unpackLoop unpackPrimitiveRequest items payload"

definition EncodePrimitiveRequest :: "WirePrimitiveRequest \<Rightarrow> wire_error + (bytes \<times> bytes)" where
  "EncodePrimitiveRequest request =
     (case packPrimitiveRequest request of
        Inl e \<Rightarrow> Inl e
      | Inr (packed, payload) \<Rightarrow> Inr (appendPrimitiveRequest newMetadata packed, payload))"

definition DecodePrimitiveRequest :: "bytes \<Rightarrow> bytes \<Rightarrow> wire_error + WirePrimitiveRequest" where
  "DecodePrimitiveRequest raw payload =
     (case decodeWith readPrimitiveRequest raw of
        Inl e \<Rightarrow> Inl e
      | Inr request \<Rightarrow> unpackPrimitiveRequest request payload)"

definition readPrimitiveRequests :: "WirePrimitiveRequest list reader" where
  "readPrimitiveRequests = thenRead readCount (\<lambda>n. readTimes n readPrimitiveRequest)"

definition EncodeBatchPrimitiveRequest :: "BatchPrimitiveRequest \<Rightarrow> wire_error + (bytes \<times> bytes)" where
  "EncodeBatchPrimitiveRequest request =
     (case packPrimitiveRequests (bp_Items request) of
        Inl e \<Rightarrow> Inl e
      | Inr (packed, payload) \<Rightarrow>
          Inr (foldl appendPrimitiveRequest (appendCount newMetadata (itemCount packed)) packed,
            payload))"

definition DecodeBatchPrimitiveRequest :: "bytes \<Rightarrow> bytes \<Rightarrow> wire_error + BatchPrimitiveRequest" where
  "DecodeBatchPrimitiveRequest raw payload =
     (case decodeWith readPrimitiveRequests raw of
        Inl e \<Rightarrow> Inl e
      | Inr items \<Rightarrow>
          (case unpackPrimitiveRequests items payload of
             Inl e \<Rightarrow> Inl e
           | Inr items \<Rightarrow> Inr \<lparr>bp_RouteEpoch = 0, bp_Items = items\<rparr>))"

section \<open>Results\<close>

definition appendMapField :: "bytes \<Rightarrow> WireMapField \<Rightarrow> bytes" where
  "appendMapField raw field =
     (let raw = appendString raw (wf_Field field);
          raw = appendUint32 raw (wf_PayloadOffset field)
      in appendUint32 raw (wf_PayloadSize field))"

definition appendMapFields :: "bytes \<Rightarrow> WireMapField list \<Rightarrow> bytes" where
  "appendMapFields raw fs = foldl appendMapField (appendCount raw (itemCount fs)) fs"

definition readMapField :: "WireMapField reader" where
  "readMapField =
     thenRead readString (\<lambda>field.
     thenRead readPayloadRange (\<lambda>(offset, sz).
     readDone \<lparr>wf_Field = field, wf_Value = [], wf_PayloadOffset = offset, wf_PayloadSize = sz\<rparr>))"

definition readMapFields :: "WireMapField list reader" where
  "readMapFields = thenRead readCount (\<lambda>n. readTimes n readMapField)"

definition appendMembers :: "bytes \<Rightarrow> string list \<Rightarrow> bytes" where
  "appendMembers raw members = foldl appendString (appendCount raw (itemCount members)) members"

definition readMembers :: "string list reader" where
  "readMembers = thenRead readCount (\<lambda>n. readTimes n readString)"

definition appendScoredMember :: "bytes \<Rightarrow> ScoredMember \<Rightarrow> bytes" where
  "appendScoredMember raw m = appendFloat64 (appendString raw (sm_Member m)) (sm_Score m)"

definition appendScoredMembers :: "bytes \<Rightarrow> ScoredMember list \<Rightarrow> bytes" where
  "appendScoredMembers raw members =
     foldl appendScoredMember (appendCount raw (itemCount members)) members"

definition readScoredMember :: "ScoredMember reader" where
  "readScoredMember =
     thenRead readString (\<lambda>member.
     thenRead readFloat64 (\<lambda>score.
     readDone \<lparr>sm_Member = member, sm_Score = score\<rparr>))"

definition readScoredMembers :: "ScoredMember list reader" where
  "readScoredMembers = thenRead readCount (\<lambda>n. readTimes n readScoredMember)"

definition appendListValue :: "bytes \<Rightarrow> ListValue \<Rightarrow> bytes" where
  "appendListValue raw v = appendUint32 (appendUint32 raw (lv_PayloadOffset v)) (lv_PayloadSize v)"

definition appendListValues :: "bytes \<Rightarrow> ListValue list \<Rightarrow> bytes" where
  "appendListValues raw values = foldl appendListValue (appendCount raw (itemCount values)) values"

definition readListValue :: "ListValue reader" where
  "readListValue =
     thenRead readPayloadRange (\<lambda>(offset, sz).
     readDone \<lparr>lv_Value = [], lv_PayloadOffset = offset, lv_PayloadSize = sz\<rparr>)"

definition readListValues :: "ListValue list reader" where
  "readListValues = thenRead readCount (\<lambda>n. readTimes n readListValue)"

definition appendPrimitiveResult :: "bytes \<Rightarrow> WirePrimitiveResult \<Rightarrow> bytes" where
  "appendPrimitiveResult raw result =
     (let raw = appendBool raw (wq_Found result);
          raw = appendBool raw (wq_Applied result);
          raw = appendBatchRecord raw (wq_Record result);
          raw = appendBool raw (wq_Bool result);
          raw = appendUint64 raw (wq_Count result);
          raw = appendUint32 raw (wq_PayloadOffset result);
          raw = appendUint32 raw (wq_PayloadSize result);
          raw = appendMapFields raw (wq_Fields result);
          raw = appendMembers raw (wq_Members result);
          raw = appendScoredMembers raw (wq_ScoredMembers result)
      in appendListValues raw (wq_Values result))"

definition readResultState :: "(bool \<times> bool) reader" where
  "readResultState =
     thenRead readBool (\<lambda>found. thenRead readBool (\<lambda>applied. readDone (found, applied)))"

definition readResultNumbers :: "(bool \<times> u64 \<times> payloadRange) reader" where
  "readResultNumbers =
     thenRead readBool (\<lambda>boolValue.
     thenRead readUint64 (\<lambda>n.
     thenRead readPayloadRange (\<lambda>valueRange.
     readDone (boolValue, n, valueRange))))"

definition readPrimitiveResultBody :: "bool \<Rightarrow> bool \<Rightarrow> WireRecord \<Rightarrow> WirePrimitiveResult reader" where
  "readPrimitiveResultBody found applied rec =
     thenRead readResultNumbers (\<lambda>(boolValue, n, offset, sz).
     thenRead readMapFields (\<lambda>fs.
     thenRead readMembers (\<lambda>members.
     thenRead readScoredMembers (\<lambda>scored.
     thenRead readListValues (\<lambda>values.
     readDone \<lparr>wq_Record = rec, wq_Found = found, wq_Applied = applied, wq_Value = [],
       wq_Bool = boolValue, wq_Count = n, wq_Fields = fs, wq_Members = members,
       wq_ScoredMembers = scored, wq_Values = values, wq_PayloadOffset = offset,
       wq_PayloadSize = sz\<rparr>)))))"

definition readPrimitiveResult :: "WirePrimitiveResult reader" where
  "readPrimitiveResult =
     thenRead readResultState (\<lambda>(found, applied).
     thenRead readBatchRecord (\<lambda>rec.
     readPrimitiveResultBody found applied rec))"

definition appendPrimitiveValuePayload ::
  "WirePrimitiveResult \<Rightarrow> bytes \<Rightarrow> wire_error + (WirePrimitiveResult \<times> bytes)" where
  "appendPrimitiveValuePayload result payload =
     (case checkedPayloadRange (length payload) (length (wq_Value result)) of
        Inl e \<Rightarrow> Inl e
      | Inr (offset, sz) \<Rightarrow>
          Inr (result\<lparr>wq_PayloadOffset := offset, wq_PayloadSize := sz, wq_Value := []\<rparr>,
            payload @ wq_Value result))"

definition appendMapFieldPayload :: "WireMapField \<Rightarrow> bytes \<Rightarrow> wire_error + (WireMapField \<times> bytes)" where
  "appendMapFieldPayload field payload =
     (case checkedPayloadRange (length payload) (length (wf_Value field)) of
        Inl e \<Rightarrow> Inl e
      | Inr (offset, sz) \<Rightarrow>
          Inr (field\<lparr>wf_PayloadOffset := offset, wf_PayloadSize := sz, wf_Value := []\<rparr>,
            payload @ wf_Value field))"

definition appendMapFieldsPayload ::
  "WireMapField list \<Rightarrow> bytes \<Rightarrow> wire_error + (WireMapField list \<times> bytes)" where
  "appendMapFieldsPayload fs payload = packLoop appendMapFieldPayload fs payload"

definition appendListValuePayload :: "ListValue \<Rightarrow> bytes \<Rightarrow> wire_error + (ListValue \<times> bytes)" where
  "appendListValuePayload value payload =
     (case checkedPayloadRange (length payload) (length (lv_Value value)) of
        Inl e \<Rightarrow> Inl e
      | Inr (offset, sz) \<Rightarrow>
          Inr (value\<lparr>lv_PayloadOffset := offset, lv_PayloadSize := sz, lv_Value := []\<rparr>,
            payload @ lv_Value value))"

definition appendListValuesPayload ::
  "ListValue list \<Rightarrow> bytes \<Rightarrow> wire_error + (ListValue list \<times> bytes)" where
  "appendListValuesPayload values payload = packLoop appendListValuePayload values payload"

definition appendPrimitiveResultPayload ::
  "WirePrimitiveResult \<Rightarrow> bytes \<Rightarrow> wire_error + (WirePrimitiveResult \<times> bytes)" where
  "appendPrimitiveResultPayload result payload =
     (case appendPrimitiveValuePayload result payload of
        Inl e \<Rightarrow> Inl e
      | Inr (result, payload) \<Rightarrow>
          (case appendMapFieldsPayload (wq_Fields result) payload of
             Inl e \<Rightarrow> Inl e
           | Inr (fs, payload) \<Rightarrow>
               (case appendListValuesPayload (wq_Values result) payload of
                  Inl e \<Rightarrow> Inl e
                | Inr (values, payload) \<Rightarrow>
                    Inr (result\<lparr>wq_Fields := fs, wq_Values := values\<rparr>, payload))))"

definition packPrimitiveResult ::
  "WirePrimitiveResult \<Rightarrow> wire_error + (WirePrimitiveResult \<times> bytes)" where
  "packPrimitiveResult result = appendPrimitiveResultPayload result []"

definition packPrimitiveResults ::
  "WirePrimitiveResult list \<Rightarrow> wire_error + (WirePrimitiveResult list \<times> bytes)" where
  "packPrimitiveResults items = packLoop appendPrimitiveResultPayload items []"

definition unpackMapField :: "WireMapField \<Rightarrow> bytes \<Rightarrow> wire_error + WireMapField" where
  "unpackMapField field payload =
     (case SlicePayload payload (wf_PayloadOffset field) (wf_PayloadSize field) of
        Inl e \<Rightarrow> Inl e
      | Inr value \<Rightarrow> Inr (field\<lparr>wf_Value := value\<rparr>))"

definition unpackMapFields :: "WireMapField list \<Rightarrow> bytes \<Rightarrow> wire_error + WireMapField list" where
  "unpackMapFields fs payload = unpackLoop unpackMapField fs payload"

definition unpackListValue :: "ListValue \<Rightarrow> bytes \<Rightarrow> wire_error + ListValue" where
  "unpackListValue item payload =
     (case SlicePayload payload (lv_PayloadOffset item) (lv_PayloadSize item) of
        Inl e \<Rightarrow> Inl e
      | Inr value \<Rightarrow> Inr (item\<lparr>lv_Value := value\<rparr>))"

definition unpackListValues :: "ListValue list \<Rightarrow> bytes \<Rightarrow> wire_error + ListValue list" where
  "unpackListValues values payload = unpackLoop unpackListValue values payload"

definition unpackPrimitiveResult ::
  "WirePrimitiveResult \<Rightarrow> bytes \<Rightarrow> wire_error + WirePrimitiveResult" where
  "unpackPrimitiveResult result payload =
     (case SlicePayload payload (wq_PayloadOffset result) (wq_PayloadSize result) of
        Inl e \<Rightarrow> Inl e
      | Inr value \<Rightarrow>
          (case unpackMapFields (wq_Fields result) payload of
             Inl e \<Rightarrow> Inl e
           | Inr fs \<Rightarrow>
               (case unpackListValues (wq_Values result) payload of
                  Inl e \<Rightarrow> Inl e
                | Inr values \<Rightarrow>
                    Inr (result\<lparr>wq_Value := value, wq_Fields := fs, wq_Values := values\<rparr>))))"

definition unpackPrimitiveResults ::
  "WirePrimitiveResult list \<Rightarrow> bytes \<Rightarrow> wire_error + WirePrimitiveResult list" where
  "unpackPrimitiveResults items payload = unpackLoop unpackPrimitiveResult items payload"

definition EncodePrimitiveResponse :: "WirePrimitiveResult \<Rightarrow> wire_error + (bytes \<times> bytes)" where
  "EncodePrimitiveResponse result =
     (case packPrimitiveResult result of
        Inl e \<Rightarrow> Inl e
      | Inr (packed, payload) \<Rightarrow> Inr (appendPrimitiveResult newMetadata packed, payload))"

definition DecodePrimitiveResponse :: "bytes \<Rightarrow> bytes \<Rightarrow> wire_error + WirePrimitiveResult" where
  "DecodePrimitiveResponse raw payload =
     (case decodeWith readPrimitiveResult raw of
        Inl e \<Rightarrow> Inl e
      | Inr result \<Rightarrow> unpackPrimitiveResult result payload)"

definition readPrimitiveResults :: "WirePrimitiveResult list reader" where
  "readPrimitiveResults = thenRead readCount (\<lambda>n. readTimes n readPrimitiveResult)"

definition EncodeBatchPrimitiveResponse ::
  "WirePrimitiveResult list \<Rightarrow> wire_error + (bytes \<times> bytes)" where
  "EncodeBatchPrimitiveResponse results =
     (case packPrimitiveResults results of
        Inl e \<Rightarrow> Inl e
      | Inr (packed, payload) \<Rightarrow>
          Inr (foldl appendPrimitiveResult (appendCount newMetadata (itemCount packed)) packed,
            payload))"

definition DecodeBatchPrimitiveResponse :: "bytes \<Rightarrow> bytes \<Rightarrow> wire_error + WirePrimitiveResult list" where
  "DecodeBatchPrimitiveResponse raw payload =
     (case decodeWith readPrimitiveResults raw of
        Inl e \<Rightarrow> Inl e
      | Inr results \<Rightarrow> unpackPrimitiveResults results payload)"

section \<open>Lemmas\<close>

definition wirePrimitive :: "WirePrimitiveRequest \<Rightarrow> bool" where
  "wirePrimitive r \<longleftrightarrow> wireKey (wp_Key r) \<and> int64 (wp_TTLMillis r) \<and> wireString (wp_Field r)
     \<and> wireString (wp_Member r) \<and> int64 (wp_Delta r) \<and> int64 (wp_InitialValue r) \<and> int64 (wp_Start r)"

definition arrivePrimitive :: "WirePrimitiveRequest \<Rightarrow> WirePrimitiveRequest" where
  "arrivePrimitive r = r\<lparr>wp_Value := [], wp_RouteEpoch := 0\<rparr>"

definition primitiveView :: "WirePrimitiveRequest \<Rightarrow> WirePrimitiveRequest" where
  "primitiveView r = r\<lparr>wp_RouteEpoch := 0, wp_PayloadOffset := 0, wp_PayloadSize := 0\<rparr>"

lemmas append_primitive = appendPrimitiveRequest_def appendPrimitiveOptions_def
  appendPrimitiveNumbers_def appendFloat64_def append_items

lemmas read_primitive = readPrimitiveRequest_def readPrimitiveKind_def readPrimitiveRequestBody_def
  readPrimitiveRequestTail_def readPrimitiveOptions_def readVersionTriplet_def readPrimitiveNames_def
  readPrimitiveNumbers_def readPrimitiveIntPair_def readPrimitiveScores_def readPrimitiveFlags_def
  readPayloadRange_def buildPrimitiveRequest_def

interpretation primitive_item: wire_code appendPrimitiveRequest readPrimitiveRequest arrivePrimitive
    wirePrimitive
  by unfold_locales
    (simp_all add: append_primitive read_primitive wire_read wirePrimitive_def arrivePrimitive_def)

interpretation primitive_payload: payload_code appendPrimitiveRequestPayload unpackPrimitiveRequest
    arrivePrimitive "\<lambda>r. length (wp_Value r)" primitiveView wirePrimitive
  by unfold_locales
    (simp add: appendPrimitiveRequestPayload_def unpackPrimitiveRequest_def payload_simps
      primitiveView_def wirePrimitive_def arrivePrimitive_def)

interpretation map_field: wire_code appendMapField readMapField "wf_Value_update (\<lambda>_. [])"
    "\<lambda>f. wireString (wf_Field f)"
  by unfold_locales (simp_all add: appendMapField_def readMapField_def readPayloadRange_def
      append_items wire_read)

interpretation member: wire_code appendString readString "\<lambda>s. s" wireString
  by unfold_locales (simp_all add: appendString_def wire_read)

interpretation scored_member: wire_code appendScoredMember readScoredMember "\<lambda>m. m"
    "\<lambda>m. wireString (sm_Member m)"
  by unfold_locales (simp_all add: appendScoredMember_def readScoredMember_def append_primitive wire_read)

interpretation list_value: wire_code appendListValue readListValue "lv_Value_update (\<lambda>_. [])"
    "\<lambda>_. True"
  by unfold_locales (simp_all add: appendListValue_def readListValue_def readPayloadRange_def
      append_items wire_read)

interpretation field_payload: payload_code appendMapFieldPayload unpackMapField
    "wf_Value_update (\<lambda>_. [])" "\<lambda>f. length (wf_Value f)" "\<lambda>f. (wf_Field f, wf_Value f)"
    "\<lambda>f. wireString (wf_Field f)"
  by unfold_locales (simp add: appendMapFieldPayload_def unpackMapField_def payload_simps)

interpretation value_payload: payload_code appendListValuePayload unpackListValue
    "lv_Value_update (\<lambda>_. [])" "\<lambda>v. length (lv_Value v)" lv_Value "\<lambda>_. True"
  by unfold_locales (simp add: appendListValuePayload_def unpackListValue_def payload_simps)

definition wireResult :: "WirePrimitiveResult \<Rightarrow> bool" where
  "wireResult r \<longleftrightarrow> wireRecord (wq_Record r)
     \<and> list_all (\<lambda>f. wireString (wf_Field f)) (wq_Fields r) \<and> int (length (wq_Fields r)) \<le> MaxInt64
     \<and> list_all wireString (wq_Members r) \<and> int (length (wq_Members r)) \<le> MaxInt64
     \<and> list_all (\<lambda>m. wireString (sm_Member m)) (wq_ScoredMembers r)
     \<and> int (length (wq_ScoredMembers r)) \<le> MaxInt64 \<and> int (length (wq_Values r)) \<le> MaxInt64"

definition arriveResult :: "WirePrimitiveResult \<Rightarrow> WirePrimitiveResult" where
  "arriveResult r = r\<lparr>wq_Record := arriveRecord (wq_Record r), wq_Value := [],
     wq_Fields := map (wf_Value_update (\<lambda>_. [])) (wq_Fields r),
     wq_Values := map (lv_Value_update (\<lambda>_. [])) (wq_Values r)\<rparr>"

definition resultView :: "WirePrimitiveResult \<Rightarrow> (string \<times> bytes) list \<times> bytes list \<times> WirePrimitiveResult" where
  "resultView r = (map (\<lambda>f. (wf_Field f, wf_Value f)) (wq_Fields r), map lv_Value (wq_Values r),
     r\<lparr>wq_Record := arriveRecord (wq_Record r), wq_Fields := [], wq_Values := [],
       wq_PayloadOffset := 0, wq_PayloadSize := 0\<rparr>)"

definition resultSize :: "WirePrimitiveResult \<Rightarrow> nat" where
  "resultSize r = length (wq_Value r) + (\<Sum>f\<leftarrow>wq_Fields r. length (wf_Value f))
     + (\<Sum>v\<leftarrow>wq_Values r. length (lv_Value v))"

lemma appendCount_app: "NO_MATCH [] raw \<Longrightarrow> appendCount raw n = raw @ appendCount [] n"
  by (simp add: appendCount_def appendUint64_def)

lemma lists_app:
  "NO_MATCH [] raw \<Longrightarrow> appendMapFields raw fs = raw @ appendMapFields [] fs"
  "NO_MATCH [] raw \<Longrightarrow> appendMembers raw ms = raw @ appendMembers [] ms"
  "NO_MATCH [] raw \<Longrightarrow> appendScoredMembers raw ss = raw @ appendScoredMembers [] ss"
  "NO_MATCH [] raw \<Longrightarrow> appendListValues raw vs = raw @ appendListValues [] vs"
  by (simp_all add: appendMapFields_def appendMembers_def appendScoredMembers_def
      appendListValues_def map_field.foldl_app member.foldl_app scored_member.foldl_app
      list_value.foldl_app appendCount_app)

lemma lists_read [wire_read]:
  "list_all (\<lambda>f. wireString (wf_Field f)) fs \<Longrightarrow> int (length fs) \<le> MaxInt64 \<Longrightarrow>
     readMapFields (appendMapFields [] fs @ rest) = Inr (map (wf_Value_update (\<lambda>_. [])) fs, rest)"
  "list_all wireString ms \<Longrightarrow> int (length ms) \<le> MaxInt64 \<Longrightarrow>
     readMembers (appendMembers [] ms @ rest) = Inr (ms, rest)"
  "list_all (\<lambda>m. wireString (sm_Member m)) ss \<Longrightarrow> int (length ss) \<le> MaxInt64 \<Longrightarrow>
     readScoredMembers (appendScoredMembers [] ss @ rest) = Inr (ss, rest)"
  "int (length vs) \<le> MaxInt64 \<Longrightarrow>
     readListValues (appendListValues [] vs @ rest) = Inr (map (lv_Value_update (\<lambda>_. [])) vs, rest)"
  using map_field.readList_app [of fs rest] member.readList_app [of ms rest]
    scored_member.readList_app [of ss rest] list_value.readList_app [of vs rest]
  by (simp_all add: readMapFields_def appendMapFields_def readMembers_def appendMembers_def
      readScoredMembers_def appendScoredMembers_def readListValues_def appendListValues_def
      readList_def list_all_iff)

lemma appendBatchRecord_app: "NO_MATCH [] raw \<Longrightarrow> appendBatchRecord raw r = raw @ appendBatchRecord [] r"
  by (rule record_item.app_end)

interpretation result_item: wire_code appendPrimitiveResult readPrimitiveResult arriveResult wireResult
proof unfold_locales
  fix raw and x :: WirePrimitiveResult
  show "appendPrimitiveResult raw x = raw @ appendPrimitiveResult [] x"
    by (simp add: appendPrimitiveResult_def Let_def appendBool_app appendUint64_def appendUint32_def
        appendBatchRecord_app lists_app)
  show "appendPrimitiveResult [] x \<noteq> []"
    by (simp add: appendPrimitiveResult_def Let_def appendBool_app appendUint64_def appendUint32_def
        appendBatchRecord_app lists_app)
next
  fix x :: WirePrimitiveResult and rest
  assume "wireResult x"
  then show "readPrimitiveResult (appendPrimitiveResult [] x @ rest) = Inr (arriveResult x, rest)"
    by (simp add: appendPrimitiveResult_def Let_def appendBool_app appendUint64_def appendUint32_def
        appendBatchRecord_app lists_app readPrimitiveResult_def readResultState_def
        readPrimitiveResultBody_def readResultNumbers_def readPayloadRange_def wire_read
        record_item.read_app wireResult_def arriveResult_def)
qed

lemma arriveRecord_idem [simp]: "arriveRecord (arriveRecord r) = arriveRecord r"
  by (simp add: arriveRecord_def missRecord_def)

interpretation result_payload: payload_code appendPrimitiveResultPayload unpackPrimitiveResult
    arriveResult resultSize resultView wireResult
proof unfold_locales
  fix payload :: bytes and x :: WirePrimitiveResult
  assume fits: "length payload + resultSize x < 2 ^ 32"
  let ?arriveF = "map (wf_Value_update (\<lambda>_. []))" and ?arriveV = "map (lv_Value_update (\<lambda>_. []))"
  have "length (payload @ wq_Value x) + (\<Sum>f\<leftarrow>wq_Fields x. length (wf_Value f)) < 2 ^ 32"
    using fits by (simp add: resultSize_def)
  from field_payload.packLoop_fits [OF this]
  obtain fs ext1 where fs: "packLoop appendMapFieldPayload (wq_Fields x) (payload @ wq_Value x)
        = Inr (fs, (payload @ wq_Value x) @ ext1)" "length ext1 = (\<Sum>f\<leftarrow>wq_Fields x. length (wf_Value f))"
      "length fs = length (wq_Fields x)"
      "list_all (\<lambda>f. wireString (wf_Field f)) (wq_Fields x) \<longrightarrow> list_all (\<lambda>f. wireString (wf_Field f)) fs"
    and fs_unpacked: "\<forall>tail. \<exists>zs. unpackLoop unpackMapField (?arriveF fs) (((payload @ wq_Value x) @ ext1) @ tail)
        = Inr zs \<and> map (\<lambda>f. (wf_Field f, wf_Value f)) zs = map (\<lambda>f. (wf_Field f, wf_Value f)) (wq_Fields x)"
    by blast
  have "length ((payload @ wq_Value x) @ ext1) + (\<Sum>v\<leftarrow>wq_Values x. length (lv_Value v)) < 2 ^ 32"
    using fits fs(2) by (simp add: resultSize_def)
  from value_payload.packLoop_fits [OF this]
  obtain vs ext2 where vs: "packLoop appendListValuePayload (wq_Values x) ((payload @ wq_Value x) @ ext1)
        = Inr (vs, ((payload @ wq_Value x) @ ext1) @ ext2)"
      "length ext2 = (\<Sum>v\<leftarrow>wq_Values x. length (lv_Value v))" "length vs = length (wq_Values x)"
    and vs_unpacked: "\<forall>tail. \<exists>zs. unpackLoop unpackListValue (?arriveV vs)
        ((((payload @ wq_Value x) @ ext1) @ ext2) @ tail) = Inr zs \<and> map lv_Value zs = map lv_Value (wq_Values x)"
    by blast
  define y where "y = x\<lparr>wq_PayloadOffset := of_nat (length payload),
      wq_PayloadSize := of_nat (length (wq_Value x)), wq_Value := [], wq_Fields := fs, wq_Values := vs\<rparr>"
  define ext where "ext = wq_Value x @ ext1 @ ext2"
  have v: "length payload + length (wq_Value x) < 2 ^ 32" using fits by (simp add: resultSize_def)
  have "appendPrimitiveResultPayload x payload = Inr (y, payload @ ext)"
    using v fs(1) vs(1)
    by (simp add: appendPrimitiveResultPayload_def appendPrimitiveValuePayload_def payload_simps
        appendMapFieldsPayload_def appendListValuesPayload_def y_def ext_def)
  moreover have "length ext = resultSize x" using fs(2) vs(2) by (simp add: ext_def resultSize_def)
  moreover have "wireResult x \<longrightarrow> wireResult y" using fs(3,4) vs(3) by (simp add: wireResult_def y_def)
  moreover have "\<exists>z. unpackPrimitiveResult (arriveResult y) ((payload @ ext) @ tail) = Inr z
      \<and> resultView z = resultView x" for tail
  proof -
    obtain zs where zs: "unpackLoop unpackMapField (?arriveF fs) ((payload @ ext) @ tail) = Inr zs"
        "map (\<lambda>f. (wf_Field f, wf_Value f)) zs = map (\<lambda>f. (wf_Field f, wf_Value f)) (wq_Fields x)"
      using fs_unpacked [rule_format, of "ext2 @ tail"] by (auto simp: ext_def)
    obtain ws where ws: "unpackLoop unpackListValue (?arriveV vs) ((payload @ ext) @ tail) = Inr ws"
        "map lv_Value ws = map lv_Value (wq_Values x)"
      using vs_unpacked [rule_format, of tail] by (auto simp: ext_def)
    have "SlicePayload ((payload @ ext) @ tail) (of_nat (length payload)) (of_nat (length (wq_Value x)))
        = Inr (wq_Value x)"
      using SlicePayload_ext [OF v, of "ext1 @ ext2 @ tail"] by (simp add: ext_def)
    with zs ws show ?thesis
      by (simp add: unpackPrimitiveResult_def arriveResult_def y_def unpackMapFields_def
          unpackListValues_def resultView_def)
  qed
  ultimately show "\<exists>y ext. appendPrimitiveResultPayload x payload = Inr (y, payload @ ext) \<and>
      length ext = resultSize x \<and> (wireResult x \<longrightarrow> wireResult y) \<and>
      (\<forall>tail. \<exists>z. unpackPrimitiveResult (arriveResult y) ((payload @ ext) @ tail) = Inr z
        \<and> resultView z = resultView x)"
    by blast
qed

subsection \<open>Messages\<close>

lemma decode_primitive:
  assumes "wirePrimitive r" and "length (wp_Value r) < 2 ^ 32"
  shows "\<exists>meta payload out. EncodePrimitiveRequest r = Inr (meta, payload) \<and>
      DecodePrimitiveRequest meta payload = Inr out \<and> primitiveView out = primitiveView r"
proof -
  let ?packed = "r\<lparr>wp_PayloadOffset := 0, wp_PayloadSize := of_nat (length (wp_Value r)), wp_Value := []\<rparr>"
  have "EncodePrimitiveRequest r = Inr (appendPrimitiveRequest newMetadata ?packed, wp_Value r)"
    using assms(2) by (simp add: EncodePrimitiveRequest_def packPrimitiveRequest_def
        checkedPayloadRange_def Let_def)
  moreover have "decodeWith readPrimitiveRequest (appendPrimitiveRequest newMetadata ?packed)
      = Inr (arrivePrimitive ?packed)"
    using assms(1) by (intro primitive_item.decode_app) (simp add: wirePrimitive_def)
  moreover have "SlicePayload (wp_Value r) 0 (of_nat (length (wp_Value r))) = Inr (wp_Value r)"
    using SlicePayload_ext [of "[]" "wp_Value r" "[]"] assms(2) by simp
  ultimately show ?thesis
    by (simp add: DecodePrimitiveRequest_def unpackPrimitiveRequest_def arrivePrimitive_def
        primitiveView_def)
qed

lemma decode_batch_primitive:
  assumes "list_all wirePrimitive (bp_Items r)" and "int (length (bp_Items r)) \<le> MaxInt64"
    and "(\<Sum>x\<leftarrow>bp_Items r. length (wp_Value x)) < 2 ^ 32"
  shows "\<exists>meta payload items. EncodeBatchPrimitiveRequest r = Inr (meta, payload) \<and>
      DecodeBatchPrimitiveRequest meta payload = Inr \<lparr>bp_RouteEpoch = 0, bp_Items = items\<rparr> \<and>
      map primitiveView items = map primitiveView (bp_Items r)"
proof -
  obtain ys ext where ys: "packLoop appendPrimitiveRequestPayload (bp_Items r) [] = Inr (ys, ext)"
      "length ys = length (bp_Items r)" "list_all wirePrimitive ys"
    and unpacked: "\<forall>tail. \<exists>zs. unpackLoop unpackPrimitiveRequest (map arrivePrimitive ys) (ext @ tail)
      = Inr zs \<and> map primitiveView zs = map primitiveView (bp_Items r)"
    using primitive_payload.packLoop_fits [of "[]" "bp_Items r"] assms by auto
  from unpacked obtain zs where
    "unpackLoop unpackPrimitiveRequest (map arrivePrimitive ys) ext = Inr zs"
    "map primitiveView zs = map primitiveView (bp_Items r)"
    by (metis append_Nil2)
  with ys show ?thesis
    using assms primitive_item.decode_list [of ys]
    by (simp add: EncodeBatchPrimitiveRequest_def packPrimitiveRequests_def
        DecodeBatchPrimitiveRequest_def unpackPrimitiveRequests_def readPrimitiveRequests_def readList_def)
qed

lemma decode_batch_primitive_response:
  assumes "list_all wireResult rs" and "int (length rs) \<le> MaxInt64"
    and "sum_list (map resultSize rs) < 2 ^ 32"
  shows "\<exists>meta payload out. EncodeBatchPrimitiveResponse rs = Inr (meta, payload) \<and>
      DecodeBatchPrimitiveResponse meta payload = Inr out \<and> map resultView out = map resultView rs"
proof -
  obtain ys ext where ys: "packLoop appendPrimitiveResultPayload rs [] = Inr (ys, ext)"
      "length ys = length rs" "list_all wireResult ys"
    and unpacked: "\<forall>tail. \<exists>zs. unpackLoop unpackPrimitiveResult (map arriveResult ys) (ext @ tail)
      = Inr zs \<and> map resultView zs = map resultView rs"
    using result_payload.packLoop_fits [of "[]" rs] assms by auto
  from unpacked obtain zs where "unpackLoop unpackPrimitiveResult (map arriveResult ys) ext = Inr zs"
    "map resultView zs = map resultView rs"
    by (metis append_Nil2)
  with ys show ?thesis
    using assms result_item.decode_list [of ys]
    by (simp add: EncodeBatchPrimitiveResponse_def packPrimitiveResults_def
        DecodeBatchPrimitiveResponse_def unpackPrimitiveResults_def readPrimitiveResults_def readList_def)
qed

lemma decode_primitive_response:
  assumes "wireResult r" and "resultSize r < 2 ^ 32"
  shows "\<exists>meta payload out. EncodePrimitiveResponse r = Inr (meta, payload) \<and>
      DecodePrimitiveResponse meta payload = Inr out \<and> resultView out = resultView r"
proof -
  from result_payload.pack_fits [of "[]" r] assms(2)
  obtain y ext where y: "appendPrimitiveResultPayload r [] = Inr (y, ext)" "wireResult r \<longrightarrow> wireResult y"
    and unpacked: "\<forall>tail. \<exists>z. unpackPrimitiveResult (arriveResult y) (ext @ tail) = Inr z
      \<and> resultView z = resultView r"
    by auto
  from unpacked obtain z where "unpackPrimitiveResult (arriveResult y) ext = Inr z"
      "resultView z = resultView r"
    by (metis append_Nil2)
  with y show ?thesis
    using result_item.decode_app [of y] assms(1)
    by (simp add: EncodePrimitiveResponse_def packPrimitiveResult_def DecodePrimitiveResponse_def)
qed

end
