(* ===== verification/Tcp_Replication.thy ===== *)
theory Tcp_Replication
  imports Wire_Primitive Frame GoStrings
begin

text \<open>
  Asynchronous replication of the TCP server (\<open>transport/tcp/server_replication*.go\<close>): the commands
  that are sent to replicas, the outbox they are logged in, the acknowledged offsets and the
  dispatcher with its bounded queue. The outbox file is the list of the entries written to it (its JSON
  lines read back as what was written); the acknowledgement store is the map in memory and the map in
  its file. The jobs channel is a list with a capacity. What the file system and the network answer
  is an argument: the outcome of a write, of an attempt to send, the clock. A \<open>replicationCommand\<close>
  is a constructor per kind, and the zero value of the struct is \<open>NoCommand\<close>.
\<close>

section \<open>Operation codes\<close>

definition OpCacheGet :: u16 where "OpCacheGet = 1"
definition OpCacheSet :: u16 where "OpCacheSet = 2"
definition OpCacheDelete :: u16 where "OpCacheDelete = 3"
definition OpCacheBatchGet :: u16 where "OpCacheBatchGet = 4"
definition OpCacheBatchSet :: u16 where "OpCacheBatchSet = 5"
definition OpNodeHeartbeat :: u16 where "OpNodeHeartbeat = 6"
definition OpControlSnapshot :: u16 where "OpControlSnapshot = 7"
definition OpControlWatch :: u16 where "OpControlWatch = 8"
definition OpCacheExists :: u16 where "OpCacheExists = 9"
definition OpCacheTouch :: u16 where "OpCacheTouch = 10"
definition OpCacheAdjust :: u16 where "OpCacheAdjust = 11"
definition OpCachePrimitive :: u16 where "OpCachePrimitive = 12"
definition OpCacheBatchPrimitive :: u16 where "OpCacheBatchPrimitive = 13"
definition OpCacheBatchDelete :: u16 where "OpCacheBatchDelete = 14"
definition OpCacheBatchExists :: u16 where "OpCacheBatchExists = 15"
definition OpCacheBatchTouch :: u16 where "OpCacheBatchTouch = 16"
definition OpNodeExportRange :: u16 where "OpNodeExportRange = 17"
definition OpNodeImportSnapshot :: u16 where "OpNodeImportSnapshot = 18"
definition OpNodeDeleteRange :: u16 where "OpNodeDeleteRange = 19"
definition OpNodeFenceRange :: u16 where "OpNodeFenceRange = 20"
definition OpNodeUnfenceRange :: u16 where "OpNodeUnfenceRange = 21"

lemmas op_codes = OpCacheGet_def OpCacheSet_def OpCacheDelete_def OpCacheBatchGet_def
  OpCacheBatchSet_def OpNodeHeartbeat_def OpControlSnapshot_def OpControlWatch_def OpCacheExists_def
  OpCacheTouch_def OpCacheAdjust_def OpCachePrimitive_def OpCacheBatchPrimitive_def
  OpCacheBatchDelete_def OpCacheBatchExists_def OpCacheBatchTouch_def OpNodeExportRange_def
  OpNodeImportSnapshot_def OpNodeDeleteRange_def OpNodeFenceRange_def OpNodeUnfenceRange_def

section \<open>Commands\<close>

datatype replicationCommand =
    NoCommand
  | CommandSet SetRequest
  | CommandDelete DeleteRequest
  | CommandTouch TouchRequest
  | CommandAdjust AdjustRequest
  | CommandPrimitive WirePrimitiveRequest
  | CommandBatchSet BatchSetRequest
  | CommandBatchDelete BatchDeleteRequest
  | CommandBatchTouch BatchTouchRequest
  | CommandBatchPrimitive BatchPrimitiveRequest

fun commandCode :: "replicationCommand \<Rightarrow> u8" where
  "commandCode NoCommand = 0"
| "commandCode (CommandSet _) = 1"
| "commandCode (CommandDelete _) = 2"
| "commandCode (CommandTouch _) = 3"
| "commandCode (CommandAdjust _) = 4"
| "commandCode (CommandPrimitive _) = 5"
| "commandCode (CommandBatchSet _) = 6"
| "commandCode (CommandBatchDelete _) = 7"
| "commandCode (CommandBatchTouch _) = 8"
| "commandCode (CommandBatchPrimitive _) = 9"

definition replicaSetRequest :: "SetRequest \<Rightarrow> SetRequest" where
  "replicaSetRequest request = request\<lparr>sr_RouteEpoch := 0, sr_ExpectedVersion := 0\<rparr>"

definition replicaDeleteRequest :: "DeleteRequest \<Rightarrow> DeleteRequest" where
  "replicaDeleteRequest request = request\<lparr>dr_RouteEpoch := 0, dr_ExpectedVersion := 0\<rparr>"

definition replicaTouchRequest :: "TouchRequest \<Rightarrow> TouchRequest" where
  "replicaTouchRequest request = request\<lparr>tr_RouteEpoch := 0, tr_ExpectedVersion := 0\<rparr>"

definition replicaPrimitiveRequest :: "WirePrimitiveRequest \<Rightarrow> WirePrimitiveRequest" where
  "replicaPrimitiveRequest request = request\<lparr>wp_RouteEpoch := 0, wp_ExpectedVersion := 0\<rparr>"

definition newSetReplicationCommand :: "SetRequest \<Rightarrow> replicationCommand" where
  "newSetReplicationCommand request = CommandSet (replicaSetRequest request)"

definition newDeleteReplicationCommand :: "DeleteRequest \<Rightarrow> replicationCommand" where
  "newDeleteReplicationCommand request = CommandDelete (replicaDeleteRequest request)"

definition newTouchReplicationCommand :: "TouchRequest \<Rightarrow> replicationCommand" where
  "newTouchReplicationCommand request = CommandTouch (replicaTouchRequest request)"

definition newAdjustReplicationCommand :: "AdjustRequest \<Rightarrow> replicationCommand" where
  "newAdjustReplicationCommand request =
     CommandAdjust (request\<lparr>ar_RouteEpoch := 0, ar_ExpectedVersion := 0\<rparr>)"

definition newPrimitiveReplicationCommand :: "WirePrimitiveRequest \<Rightarrow> replicationCommand" where
  "newPrimitiveReplicationCommand request = CommandPrimitive (replicaPrimitiveRequest request)"

definition newBatchSetReplicationCommand :: "SetRequest list \<Rightarrow> replicationCommand" where
  "newBatchSetReplicationCommand items =
     CommandBatchSet \<lparr>bs_RouteEpoch = 0, bs_Items = map replicaSetRequest items\<rparr>"

definition newBatchDeleteReplicationCommand :: "DeleteRequest list \<Rightarrow> replicationCommand" where
  "newBatchDeleteReplicationCommand items =
     CommandBatchDelete \<lparr>bd_RouteEpoch = 0, bd_Items = map replicaDeleteRequest items\<rparr>"

definition newBatchTouchReplicationCommand :: "TouchRequest list \<Rightarrow> replicationCommand" where
  "newBatchTouchReplicationCommand items =
     CommandBatchTouch \<lparr>bt_RouteEpoch = 0, bt_Items = map replicaTouchRequest items\<rparr>"

definition newBatchPrimitiveReplicationCommand :: "WirePrimitiveRequest list \<Rightarrow> replicationCommand" where
  "newBatchPrimitiveReplicationCommand items =
     CommandBatchPrimitive \<lparr>bp_RouteEpoch = 0, bp_Items = map replicaPrimitiveRequest items\<rparr>"

section \<open>Outbox entries\<close>

datatype repl_error =
    UnknownCommand u8
  | EncodeFailed wire_error
  | DecodeFailed wire_error
  | IOFailed string

type_synonym commandFrame = "u16 \<times> bytes \<times> bytes"

definition withPayload :: "u16 \<Rightarrow> wire_error + (bytes \<times> bytes) \<Rightarrow> repl_error + commandFrame" where
  "withPayload op x =
     (case x of Inl e \<Rightarrow> Inl (EncodeFailed e) | Inr (meta, payload) \<Rightarrow> Inr (op, meta, payload))"

fun encodeFrame :: "replicationCommand \<Rightarrow> repl_error + commandFrame" where
  "encodeFrame NoCommand = Inl (UnknownCommand 0)"
| "encodeFrame (CommandSet r) = Inr (OpCacheSet, EncodeSetRequest r, sr_Value r)"
| "encodeFrame (CommandDelete r) = Inr (OpCacheDelete, EncodeDeleteRequest r, [])"
| "encodeFrame (CommandTouch r) = Inr (OpCacheTouch, EncodeTouchRequest r, [])"
| "encodeFrame (CommandAdjust r) = Inr (OpCacheAdjust, EncodeAdjustRequest r, [])"
| "encodeFrame (CommandPrimitive r) = withPayload OpCachePrimitive (EncodePrimitiveRequest r)"
| "encodeFrame (CommandBatchSet r) = withPayload OpCacheBatchSet (EncodeBatchSetRequest r)"
| "encodeFrame (CommandBatchDelete r) = Inr (OpCacheBatchDelete, EncodeBatchDeleteRequest r, [])"
| "encodeFrame (CommandBatchTouch r) = Inr (OpCacheBatchTouch, EncodeBatchTouchRequest r, [])"
| "encodeFrame (CommandBatchPrimitive r) =
     withPayload OpCacheBatchPrimitive (EncodeBatchPrimitiveRequest r)"

record replicationOutboxEntry =
  ob_Sequence :: u64
  ob_Target :: string
  ob_Kind :: u8
  ob_Op :: u16
  ob_Metadata :: bytes
  ob_Payload :: bytes
  ob_CreatedUnix :: int

definition newReplicationOutboxEntry ::
  "int \<Rightarrow> u64 \<Rightarrow> string \<Rightarrow> replicationCommand \<Rightarrow> repl_error + replicationOutboxEntry" where
  "newReplicationOutboxEntry nowMs sequence target command =
     (case encodeFrame command of
        Inl e \<Rightarrow> Inl e
      | Inr (op, meta, payload) \<Rightarrow>
          Inr \<lparr>ob_Sequence = sequence, ob_Target = target, ob_Kind = commandCode command, ob_Op = op,
            ob_Metadata = meta, ob_Payload = payload, ob_CreatedUnix = nowMs\<rparr>)"

definition decodedWith :: "('a \<Rightarrow> replicationCommand) \<Rightarrow> wire_error + 'a \<Rightarrow> repl_error + replicationCommand" where
  "decodedWith f x = (case x of Inl e \<Rightarrow> Inl (DecodeFailed e) | Inr r \<Rightarrow> Inr (f r))"

definition replicationCommandFromOutboxEntry ::
  "replicationOutboxEntry \<Rightarrow> repl_error + replicationCommand" where
  "replicationCommandFromOutboxEntry entry =
     (let meta = ob_Metadata entry; payload = ob_Payload entry; kind = ob_Kind entry in
      if kind = 1 then
        decodedWith (\<lambda>r. CommandSet (r\<lparr>sr_RouteEpoch := 0, sr_ExpectedVersion := 0, sr_Value := payload\<rparr>))
          (DecodeSetRequest meta)
      else if kind = 2 then
        decodedWith (\<lambda>r. CommandDelete (r\<lparr>dr_RouteEpoch := 0, dr_ExpectedVersion := 0\<rparr>))
          (DecodeDeleteRequest meta)
      else if kind = 3 then
        decodedWith (\<lambda>r. CommandTouch (r\<lparr>tr_RouteEpoch := 0, tr_ExpectedVersion := 0\<rparr>))
          (DecodeTouchRequest meta)
      else if kind = 4 then
        decodedWith (\<lambda>r. CommandAdjust (r\<lparr>ar_RouteEpoch := 0, ar_ExpectedVersion := 0\<rparr>))
          (DecodeAdjustRequest meta)
      else if kind = 5 then
        decodedWith (\<lambda>r. CommandPrimitive (r\<lparr>wp_RouteEpoch := 0, wp_ExpectedVersion := 0\<rparr>))
          (DecodePrimitiveRequest meta payload)
      else if kind = 6 then
        decodedWith (\<lambda>r. CommandBatchSet
            \<lparr>bs_RouteEpoch = 0, bs_Items = map replicaSetRequest (bs_Items r)\<rparr>)
          (DecodeBatchSetRequest meta payload)
      else if kind = 7 then
        decodedWith (\<lambda>r. CommandBatchDelete
            \<lparr>bd_RouteEpoch = 0, bd_Items = map replicaDeleteRequest (bd_Items r)\<rparr>)
          (DecodeBatchDeleteRequest meta)
      else if kind = 8 then
        decodedWith (\<lambda>r. CommandBatchTouch
            \<lparr>bt_RouteEpoch = 0, bt_Items = map replicaTouchRequest (bt_Items r)\<rparr>)
          (DecodeBatchTouchRequest meta)
      else if kind = 9 then
        decodedWith (\<lambda>r. CommandBatchPrimitive
            \<lparr>bp_RouteEpoch = 0, bp_Items = map replicaPrimitiveRequest (bp_Items r)\<rparr>)
          (DecodeBatchPrimitiveRequest meta payload)
      else Inl (UnknownCommand kind))"

section \<open>The dispatcher\<close>

record replicationJob =
  job_sequence :: u64
  job_target :: string
  job_command :: replicationCommand

record ReplicationStats =
  rs_QueueDepth :: u64
  rs_QueueCapacity :: u64
  rs_Enqueued :: u64
  rs_Dropped :: u64
  rs_Attempts :: u64
  rs_Successes :: u64
  rs_Failures :: u64
  rs_OutboxEntries :: u64
  rs_OutboxFailures :: u64
  rs_AckTargets :: u64
  rs_AckFailures :: u64
  rs_LastQueuedSequence :: u64
  rs_LastAttemptSequence :: u64
  rs_LastSuccessSequence :: u64
  rs_LastFailureSequence :: u64
  rs_LastDroppedSequence :: u64
  rs_LastOutboxSequence :: u64
  rs_LastAckSequence :: u64
  rs_Retrying :: bool
  rs_ActiveTarget :: string
  rs_LastAckTarget :: string
  rs_LastAckError :: "repl_error option"
  rs_LastOutboxError :: "repl_error option"
  rs_LastError :: "repl_error option"
  rs_LastErrorUnixMs :: int
  rs_LastSuccessUnixMs :: int

record replicationAckStore =
  ack_offsets :: "(string, u64) fmap"
  ack_file :: "(string, u64) fmap"

record replicationDispatcher =
  rd_retryInitialDelay :: duration
  rd_retryMaxDelay :: duration
  rd_jobs :: "replicationJob list"
  rd_capacity :: nat
  rd_done :: bool
  rd_stats :: ReplicationStats
  rd_nextSequence :: u64
  rd_outbox :: "replicationOutboxEntry list option"
  rd_acks :: "replicationAckStore option"
  rd_outboxPath :: string
  rd_queued :: "(string, u64) fmap"

definition zeroReplicationStats :: ReplicationStats where
  "zeroReplicationStats = \<lparr>rs_QueueDepth = 0, rs_QueueCapacity = 0, rs_Enqueued = 0, rs_Dropped = 0,
     rs_Attempts = 0, rs_Successes = 0, rs_Failures = 0, rs_OutboxEntries = 0, rs_OutboxFailures = 0,
     rs_AckTargets = 0, rs_AckFailures = 0, rs_LastQueuedSequence = 0, rs_LastAttemptSequence = 0,
     rs_LastSuccessSequence = 0, rs_LastFailureSequence = 0, rs_LastDroppedSequence = 0,
     rs_LastOutboxSequence = 0, rs_LastAckSequence = 0, rs_Retrying = False, rs_ActiveTarget = [],
     rs_LastAckTarget = [], rs_LastAckError = None, rs_LastOutboxError = None, rs_LastError = None,
     rs_LastErrorUnixMs = 0, rs_LastSuccessUnixMs = 0\<rparr>"

definition defaultReplicationQueueSize :: int where "defaultReplicationQueueSize = 1024"
definition defaultReplicationRetryInitialDelay :: duration where
  "defaultReplicationRetryInitialDelay = 25 * 1000000"
definition defaultReplicationRetryMaxDelay :: duration where
  "defaultReplicationRetryMaxDelay = 500 * 1000000"

definition newReplicationDispatcher :: "int \<Rightarrow> replicationDispatcher" where
  "newReplicationDispatcher queueSize =
     (let queueSize = (if queueSize \<le> 0 then defaultReplicationQueueSize else queueSize) in
      \<lparr>rd_retryInitialDelay = defaultReplicationRetryInitialDelay,
        rd_retryMaxDelay = defaultReplicationRetryMaxDelay, rd_jobs = [], rd_capacity = nat queueSize,
        rd_done = False, rd_stats = zeroReplicationStats, rd_nextSequence = 0, rd_outbox = None,
        rd_acks = None, rd_outboxPath = [], rd_queued = fmempty\<rparr>)"

definition onStats :: "(ReplicationStats \<Rightarrow> ReplicationStats) \<Rightarrow> replicationDispatcher \<Rightarrow> replicationDispatcher" where
  "onStats f d = d\<lparr>rd_stats := f (rd_stats d)\<rparr>"

definition dispatcherStats :: "replicationDispatcher \<Rightarrow> ReplicationStats" where
  "dispatcherStats d = (rd_stats d)\<lparr>rs_QueueDepth := of_nat (length (rd_jobs d)),
     rs_QueueCapacity := of_nat (rd_capacity d)\<rparr>"

definition recordEnqueued :: "u64 \<Rightarrow> replicationDispatcher \<Rightarrow> replicationDispatcher" where
  "recordEnqueued sequence =
     onStats (\<lambda>s. s\<lparr>rs_Enqueued := rs_Enqueued s + 1, rs_LastQueuedSequence := sequence\<rparr>)"

definition recordDropped :: "u64 \<Rightarrow> replicationDispatcher \<Rightarrow> replicationDispatcher" where
  "recordDropped sequence =
     onStats (\<lambda>s. s\<lparr>rs_Dropped := rs_Dropped s + 1, rs_LastDroppedSequence := sequence\<rparr>)"

definition recordAttempt :: "replicationJob \<Rightarrow> replicationDispatcher \<Rightarrow> replicationDispatcher" where
  "recordAttempt job =
     onStats (\<lambda>s. s\<lparr>rs_Attempts := rs_Attempts s + 1, rs_ActiveTarget := job_target job,
       rs_LastAttemptSequence := job_sequence job\<rparr>)"

definition recordSuccess :: "int \<Rightarrow> replicationJob \<Rightarrow> replicationDispatcher \<Rightarrow> replicationDispatcher" where
  "recordSuccess nowMs job =
     onStats (\<lambda>s. s\<lparr>rs_Successes := rs_Successes s + 1, rs_Retrying := False, rs_ActiveTarget := [],
       rs_LastSuccessSequence := job_sequence job, rs_LastSuccessUnixMs := nowMs\<rparr>)"

definition recordFailure ::
  "int \<Rightarrow> replicationJob \<Rightarrow> repl_error \<Rightarrow> replicationDispatcher \<Rightarrow> replicationDispatcher" where
  "recordFailure nowMs job err =
     onStats (\<lambda>s. s\<lparr>rs_Failures := rs_Failures s + 1, rs_Retrying := True,
       rs_ActiveTarget := job_target job, rs_LastFailureSequence := job_sequence job,
       rs_LastError := Some err, rs_LastErrorUnixMs := nowMs\<rparr>)"

definition recordOutboxAppended :: "u64 \<Rightarrow> replicationDispatcher \<Rightarrow> replicationDispatcher" where
  "recordOutboxAppended sequence =
     onStats (\<lambda>s. s\<lparr>rs_OutboxEntries := rs_OutboxEntries s + 1, rs_LastOutboxSequence := sequence\<rparr>)"

definition recordOutboxFailure :: "u64 \<Rightarrow> repl_error \<Rightarrow> replicationDispatcher \<Rightarrow> replicationDispatcher" where
  "recordOutboxFailure sequence err =
     onStats (\<lambda>s. s\<lparr>rs_OutboxFailures := rs_OutboxFailures s + 1, rs_LastOutboxSequence := sequence,
       rs_LastOutboxError := Some err\<rparr>)"

definition recordReplayError :: "int \<Rightarrow> repl_error \<Rightarrow> replicationDispatcher \<Rightarrow> replicationDispatcher" where
  "recordReplayError nowMs err =
     onStats (\<lambda>s. s\<lparr>rs_LastError := Some err, rs_LastErrorUnixMs := nowMs\<rparr>)"

definition recordQueued :: "u64 \<Rightarrow> string \<Rightarrow> replicationDispatcher \<Rightarrow> replicationDispatcher" where
  "recordQueued sequence target d =
     (if target = [] \<or> sequence = 0 then d
      else case fmlookup (rd_queued d) target of
             None \<Rightarrow> d\<lparr>rd_queued := fmupd target sequence (rd_queued d)\<rparr>
           | Some current \<Rightarrow>
               if sequence > current then d\<lparr>rd_queued := fmupd target sequence (rd_queued d)\<rparr> else d)"

text \<open>A write to the outbox may fail before the entry is in the file or, at the sync, after.\<close>

datatype appendOutcome = Appended | WriteFailed string | SyncFailed string

record replicationEnv =
  renv_append :: appendOutcome
  renv_nowMs :: int

definition outboxAppend ::
  "appendOutcome \<Rightarrow> replicationOutboxEntry \<Rightarrow> replicationDispatcher \<Rightarrow> replicationDispatcher \<times> repl_error option" where
  "outboxAppend outcome entry d =
     (let written = d\<lparr>rd_outbox := map_option (\<lambda>es. es @ [entry]) (rd_outbox d)\<rparr> in
      case outcome of
        Appended \<Rightarrow> (written, None)
      | WriteFailed e \<Rightarrow> (d, Some (IOFailed e))
      | SyncFailed e \<Rightarrow> (written, Some (IOFailed e)))"

definition appendOutbox ::
  "replicationEnv \<Rightarrow> u64 \<Rightarrow> string \<Rightarrow> replicationCommand \<Rightarrow> replicationDispatcher \<Rightarrow> replicationDispatcher" where
  "appendOutbox env sequence target command d =
     (case rd_outbox d of
        None \<Rightarrow> d
      | Some _ \<Rightarrow>
          (case newReplicationOutboxEntry (renv_nowMs env) sequence target command of
             Inl err \<Rightarrow> recordOutboxFailure sequence err d
           | Inr entry \<Rightarrow>
               (case outboxAppend (renv_append env) entry d of
                  (d', Some err) \<Rightarrow> recordOutboxFailure sequence err d'
                | (d', None) \<Rightarrow> recordOutboxAppended sequence d')))"

definition nextReplicationSequence :: "replicationDispatcher \<Rightarrow> replicationDispatcher \<times> u64" where
  "nextReplicationSequence d =
     (let n = rd_nextSequence d + 1 in (d\<lparr>rd_nextSequence := n\<rparr>, n))"

definition enqueueReplicationJob :: "replicationJob \<Rightarrow> replicationDispatcher \<Rightarrow> replicationDispatcher" where
  "enqueueReplicationJob job d =
     (if rd_done d then d
      else if length (rd_jobs d) < rd_capacity d then
        recordQueued (job_sequence job) (job_target job)
          (recordEnqueued (job_sequence job) (d\<lparr>rd_jobs := rd_jobs d @ [job]\<rparr>))
      else recordDropped (job_sequence job) d)"

definition Enqueue ::
  "replicationEnv \<Rightarrow> string \<Rightarrow> replicationCommand \<Rightarrow> replicationDispatcher \<Rightarrow> replicationDispatcher" where
  "Enqueue env target command d =
     (if target = [] \<or> commandCode command = 0 then d
      else
        let (d, sequence) = nextReplicationSequence d;
            d = appendOutbox env sequence target command d
        in enqueueReplicationJob
             \<lparr>job_sequence = sequence, job_target = target, job_command = command\<rparr> d)"

section \<open>Acknowledgements\<close>

definition Ack ::
  "string option \<Rightarrow> string \<Rightarrow> u64 \<Rightarrow> replicationAckStore \<Rightarrow> replicationAckStore \<times> repl_error option" where
  "Ack saveError target sequence s =
     (if TrimSpace target = [] \<or> sequence = 0 then (s, None)
      else
        case fmlookup (ack_offsets s) target of
          Some current \<Rightarrow>
            if current \<ge> sequence then (s, None)
            else let s = s\<lparr>ack_offsets := fmupd target sequence (ack_offsets s)\<rparr> in
                 (case saveError of
                    Some e \<Rightarrow> (s, Some (IOFailed e))
                  | None \<Rightarrow> (s\<lparr>ack_file := ack_offsets s\<rparr>, None))
        | None \<Rightarrow>
            let s = s\<lparr>ack_offsets := fmupd target sequence (ack_offsets s)\<rparr> in
            (case saveError of
               Some e \<Rightarrow> (s, Some (IOFailed e))
             | None \<Rightarrow> (s\<lparr>ack_file := ack_offsets s\<rparr>, None)))"

definition ackSnapshot :: "replicationAckStore \<Rightarrow> u64 \<times> u64" where
  "ackSnapshot s =
     (of_nat (fcard (fmdom (ack_offsets s))),
      Max (insert 0 (fset (fmran (ack_offsets s)))))"

definition restoreAckSnapshot :: "u64 \<times> u64 \<Rightarrow> replicationDispatcher \<Rightarrow> replicationDispatcher" where
  "restoreAckSnapshot snapshot =
     onStats (\<lambda>s. s\<lparr>rs_AckTargets := fst snapshot,
       rs_LastAckSequence :=
         (if snd snapshot > rs_LastAckSequence s then snd snapshot else rs_LastAckSequence s)\<rparr>)"

definition recordAckSuccess ::
  "replicationJob \<Rightarrow> u64 \<times> u64 \<Rightarrow> replicationDispatcher \<Rightarrow> replicationDispatcher" where
  "recordAckSuccess job snapshot d =
     restoreAckSnapshot snapshot
       (onStats (\<lambda>s. s\<lparr>rs_LastAckTarget := job_target job, rs_LastAckSequence := job_sequence job\<rparr>) d)"

definition recordAckFailure :: "replicationJob \<Rightarrow> repl_error \<Rightarrow> replicationDispatcher \<Rightarrow> replicationDispatcher" where
  "recordAckFailure job err =
     onStats (\<lambda>s. s\<lparr>rs_AckFailures := rs_AckFailures s + 1, rs_LastAckTarget := job_target job,
       rs_LastAckSequence := job_sequence job, rs_LastAckError := Some err\<rparr>)"

definition ackSuccess :: "string option \<Rightarrow> replicationJob \<Rightarrow> replicationDispatcher \<Rightarrow> replicationDispatcher" where
  "ackSuccess saveError job d =
     (case rd_acks d of
        None \<Rightarrow> d
      | Some acks \<Rightarrow>
          (case Ack saveError (job_target job) (job_sequence job) acks of
             (acks', Some err) \<Rightarrow> recordAckFailure job err (d\<lparr>rd_acks := Some acks'\<rparr>)
           | (acks', None) \<Rightarrow> recordAckSuccess job (ackSnapshot acks') (d\<lparr>rd_acks := Some acks'\<rparr>)))"

section \<open>Sending\<close>

definition nextReplicationRetryDelay :: "duration \<Rightarrow> duration \<Rightarrow> duration" where
  "nextReplicationRetryDelay current maxDelay =
     (if current \<le> 0 then maxDelay
      else let nxt = current * 2 in if nxt > maxDelay then maxDelay else nxt)"

text \<open>
  One attempt: the answer of the network (\<open>None\<close>: the replica took the command), whether the
  acknowledgement could be saved, the clock, and whether the dispatcher is stopped during the wait
  that follows a failure. \<open>send\<close> runs over the attempts there are answers for and returns the delay
  before the next one when it is still retrying.
\<close>

record attempt =
  at_error :: "string option"
  at_saveError :: "string option"
  at_nowMs :: int
  at_stopped :: bool

fun sendFrom :: "duration \<Rightarrow> replicationJob \<Rightarrow> attempt list \<Rightarrow> replicationDispatcher
    \<Rightarrow> replicationDispatcher \<times> duration option" where
  "sendFrom delay job [] d = (d, Some delay)"
| "sendFrom delay job (a # as) d =
     (let d = recordAttempt job d in
      case at_error a of
        None \<Rightarrow> (ackSuccess (at_saveError a) job (recordSuccess (at_nowMs a) job d), None)
      | Some e \<Rightarrow>
          let d = recordFailure (at_nowMs a) job (IOFailed e) d in
          if at_stopped a then (d, None)
          else sendFrom (nextReplicationRetryDelay delay (rd_retryMaxDelay d)) job as d)"

definition sendJob :: "replicationJob \<Rightarrow> attempt list \<Rightarrow> replicationDispatcher \<Rightarrow> replicationDispatcher \<times> duration option" where
  "sendJob job as d = sendFrom (rd_retryInitialDelay d) job as d"

definition takeJob :: "replicationDispatcher \<Rightarrow> (replicationJob \<times> replicationDispatcher) option" where
  "takeJob d = (case rd_jobs d of [] \<Rightarrow> None | job # js \<Rightarrow> Some (job, d\<lparr>rd_jobs := js\<rparr>))"

section \<open>Replay\<close>

definition shouldReplay :: "replicationDispatcher \<Rightarrow> replicationAckStore \<Rightarrow> replicationOutboxEntry \<Rightarrow> bool" where
  "shouldReplay d acks entry =
     (if ob_Sequence entry = 0 \<or> ob_Target entry = [] then False
      else if (case fmlookup (ack_offsets acks) (ob_Target entry) of
                 Some acknowledged \<Rightarrow> ob_Sequence entry \<le> acknowledged | None \<Rightarrow> False) then False
      else if (case fmlookup (rd_queued d) (ob_Target entry) of
                 Some queued \<Rightarrow> ob_Sequence entry \<le> queued | None \<Rightarrow> False) then False
      else True)"

definition enqueueReplayEntry :: "int \<Rightarrow> replicationOutboxEntry \<Rightarrow> replicationDispatcher \<Rightarrow> replicationDispatcher" where
  "enqueueReplayEntry nowMs entry d =
     (case replicationCommandFromOutboxEntry entry of
        Inl err \<Rightarrow> recordReplayError nowMs err d
      | Inr command \<Rightarrow>
          enqueueReplicationJob \<lparr>job_sequence = ob_Sequence entry, job_target = ob_Target entry,
            job_command = command\<rparr> d)"

fun replayOutbox :: "int \<Rightarrow> replicationOutboxEntry list \<Rightarrow> replicationDispatcher \<Rightarrow> replicationDispatcher" where
  "replayOutbox nowMs [] d = d"
| "replayOutbox nowMs (entry # es) d =
     (case rd_acks d of
        None \<Rightarrow> d
      | Some acks \<Rightarrow>
          replayOutbox nowMs es (if shouldReplay d acks entry then enqueueReplayEntry nowMs entry d else d))"

definition replayOutboxFromDisk :: "int \<Rightarrow> repl_error option \<Rightarrow> replicationDispatcher \<Rightarrow> replicationDispatcher" where
  "replayOutboxFromDisk nowMs scanError d =
     (case rd_outbox d of
        None \<Rightarrow> d
      | Some es \<Rightarrow>
          if rd_outboxPath d = [] \<or> rd_acks d = None then d
          else case scanError of
                 Some err \<Rightarrow> recordReplayError nowMs err d
               | None \<Rightarrow> replayOutbox nowMs es d)"

definition replayableReplicationOutboxSnapshot :: "replicationOutboxEntry list \<Rightarrow> u64 \<times> u64" where
  "replayableReplicationOutboxSnapshot es =
     foldl (\<lambda>(n, m) entry. (n + 1, if ob_Sequence entry > m then ob_Sequence entry else m)) (0, 0) es"

definition restoreOutboxSnapshot :: "u64 \<times> u64 \<Rightarrow> replicationDispatcher \<Rightarrow> replicationDispatcher" where
  "restoreOutboxSnapshot snapshot d =
     (let d = onStats (\<lambda>s. s\<lparr>rs_OutboxEntries := fst snapshot, rs_LastOutboxSequence := snd snapshot\<rparr>) d in
      if snd snapshot > rd_nextSequence d then d\<lparr>rd_nextSequence := snd snapshot\<rparr> else d)"

text \<open>The outbox and the acknowledgement file as they are found on disk, or the error of reading them.\<close>

definition OpenOutbox ::
  "int \<Rightarrow> string \<Rightarrow> repl_error + (replicationOutboxEntry list \<times> (string, u64) fmap) \<Rightarrow>
     replicationDispatcher \<Rightarrow> replicationDispatcher \<times> repl_error option" where
  "OpenOutbox nowMs path files d =
     (if TrimSpace path = [] then (d, None)
      else
        let d = d\<lparr>rd_outboxPath := path\<rparr> in
        case files of
          Inl err \<Rightarrow> (d, Some err)
        | Inr (es, offsets) \<Rightarrow>
            let acks = \<lparr>ack_offsets = offsets, ack_file = offsets\<rparr>;
                d = d\<lparr>rd_outbox := Some es, rd_acks := Some acks\<rparr>;
                d = restoreOutboxSnapshot (replayableReplicationOutboxSnapshot es) d;
                d = restoreAckSnapshot (ackSnapshot acks) d
            in (replayOutbox nowMs es d, None))"

section \<open>Lemmas\<close>

subsection \<open>The outbox keeps commands\<close>

text \<open>The commands the server builds: no route epoch and no expected version.\<close>

fun replicaCommand :: "replicationCommand \<Rightarrow> bool" where
  "replicaCommand NoCommand = False"
| "replicaCommand (CommandSet r) = (replicaSetRequest r = r)"
| "replicaCommand (CommandDelete r) = (replicaDeleteRequest r = r)"
| "replicaCommand (CommandTouch r) = (replicaTouchRequest r = r)"
| "replicaCommand (CommandAdjust r) = (ar_RouteEpoch r = 0 \<and> ar_ExpectedVersion r = 0)"
| "replicaCommand (CommandPrimitive r) = (replicaPrimitiveRequest r = r)"
| "replicaCommand (CommandBatchSet r) =
     (bs_RouteEpoch r = 0 \<and> list_all (\<lambda>x. replicaSetRequest x = x) (bs_Items r))"
| "replicaCommand (CommandBatchDelete r) =
     (bd_RouteEpoch r = 0 \<and> list_all (\<lambda>x. replicaDeleteRequest x = x) (bd_Items r))"
| "replicaCommand (CommandBatchTouch r) =
     (bt_RouteEpoch r = 0 \<and> list_all (\<lambda>x. replicaTouchRequest x = x) (bt_Items r))"
| "replicaCommand (CommandBatchPrimitive r) =
     (bp_RouteEpoch r = 0 \<and> list_all (\<lambda>x. replicaPrimitiveRequest x = x) (bp_Items r))"

text \<open>The commands whose frame the protocol can carry.\<close>

fun wireCommand :: "replicationCommand \<Rightarrow> bool" where
  "wireCommand NoCommand = False"
| "wireCommand (CommandSet r) = wireSet r"
| "wireCommand (CommandDelete r) = wireKey (dr_Key r)"
| "wireCommand (CommandTouch r) = wireTouch r"
| "wireCommand (CommandAdjust r) = wireAdjust r"
| "wireCommand (CommandPrimitive r) = (wirePrimitive r \<and> length (wp_Value r) < 2 ^ 32)"
| "wireCommand (CommandBatchSet r) =
     (list_all wireSet (bs_Items r) \<and> int (length (bs_Items r)) \<le> MaxInt64
      \<and> (\<Sum>x\<leftarrow>bs_Items r. length (sr_Value x)) < 2 ^ 32)"
| "wireCommand (CommandBatchDelete r) =
     (list_all (\<lambda>x. wireKey (dr_Key x)) (bd_Items r) \<and> int (length (bd_Items r)) \<le> MaxInt64)"
| "wireCommand (CommandBatchTouch r) =
     (list_all wireTouch (bt_Items r) \<and> int (length (bt_Items r)) \<le> MaxInt64)"
| "wireCommand (CommandBatchPrimitive r) =
     (list_all wirePrimitive (bp_Items r) \<and> int (length (bp_Items r)) \<le> MaxInt64
      \<and> (\<Sum>x\<leftarrow>bp_Items r. length (wp_Value x)) < 2 ^ 32)"

text \<open>A command up to the payload ranges of its requests.\<close>

fun commandView :: "replicationCommand \<Rightarrow> replicationCommand" where
  "commandView (CommandSet r) = CommandSet (setView r)"
| "commandView (CommandPrimitive r) = CommandPrimitive (primitiveView r)"
| "commandView (CommandBatchSet r) = CommandBatchSet (r\<lparr>bs_Items := map setView (bs_Items r)\<rparr>)"
| "commandView (CommandBatchPrimitive r) =
     CommandBatchPrimitive (r\<lparr>bp_Items := map primitiveView (bp_Items r)\<rparr>)"
| "commandView c = c"

lemma replica_idem [simp]:
  "replicaSetRequest (replicaSetRequest s) = replicaSetRequest s"
  "replicaDeleteRequest (replicaDeleteRequest d) = replicaDeleteRequest d"
  "replicaTouchRequest (replicaTouchRequest t) = replicaTouchRequest t"
  "replicaPrimitiveRequest (replicaPrimitiveRequest p) = replicaPrimitiveRequest p"
  by (simp_all add: replicaSetRequest_def replicaDeleteRequest_def replicaTouchRequest_def
      replicaPrimitiveRequest_def)

lemma built_replica:
  "replicaCommand (newSetReplicationCommand s)" "replicaCommand (newDeleteReplicationCommand d)"
  "replicaCommand (newTouchReplicationCommand t)" "replicaCommand (newAdjustReplicationCommand a)"
  "replicaCommand (newPrimitiveReplicationCommand p)"
  "replicaCommand (newBatchSetReplicationCommand ss)" "replicaCommand (newBatchDeleteReplicationCommand ds)"
  "replicaCommand (newBatchTouchReplicationCommand ts)"
  "replicaCommand (newBatchPrimitiveReplicationCommand ps)"
  by (simp_all add: newSetReplicationCommand_def newDeleteReplicationCommand_def
      newTouchReplicationCommand_def newAdjustReplicationCommand_def newPrimitiveReplicationCommand_def
      newBatchSetReplicationCommand_def newBatchDeleteReplicationCommand_def
      newBatchTouchReplicationCommand_def newBatchPrimitiveReplicationCommand_def list_all_iff)

lemma map_view_replica:
  "map setView xs = map setView ys \<Longrightarrow> list_all (\<lambda>x. replicaSetRequest x = x) ys \<Longrightarrow>
     map (setView \<circ> replicaSetRequest) xs = map setView ys"
  "map primitiveView ps = map primitiveView qs \<Longrightarrow> list_all (\<lambda>x. replicaPrimitiveRequest x = x) qs \<Longrightarrow>
     map (primitiveView \<circ> replicaPrimitiveRequest) ps = map primitiveView qs"
proof -
  have set1: "setView (replicaSetRequest x) = replicaSetRequest (setView x)" for x
    by (simp add: setView_def replicaSetRequest_def)
  have prim1: "primitiveView (replicaPrimitiveRequest x) = replicaPrimitiveRequest (primitiveView x)" for x
    by (simp add: primitiveView_def replicaPrimitiveRequest_def)
  show "map (setView \<circ> replicaSetRequest) xs = map setView ys"
    if "map setView xs = map setView ys" "list_all (\<lambda>x. replicaSetRequest x = x) ys"
  proof -
    have "map (setView \<circ> replicaSetRequest) xs = map replicaSetRequest (map setView xs)"
      by (simp add: set1)
    also have "\<dots> = map (setView \<circ> replicaSetRequest) ys" unfolding that(1) by (simp add: set1)
    also have "\<dots> = map setView ys" using that(2) by (simp add: list_all_iff)
    finally show ?thesis .
  qed
  show "map (primitiveView \<circ> replicaPrimitiveRequest) ps = map primitiveView qs"
    if "map primitiveView ps = map primitiveView qs" "list_all (\<lambda>x. replicaPrimitiveRequest x = x) qs"
  proof -
    have "map (primitiveView \<circ> replicaPrimitiveRequest) ps = map replicaPrimitiveRequest (map primitiveView ps)"
      by (simp add: prim1)
    also have "\<dots> = map (primitiveView \<circ> replicaPrimitiveRequest) qs" unfolding that(1) by (simp add: prim1)
    also have "\<dots> = map primitiveView qs" using that(2) by (simp add: list_all_iff)
    finally show ?thesis .
  qed
qed

lemma replica_fields:
  "replicaSetRequest s = s \<longleftrightarrow> sr_RouteEpoch s = 0 \<and> sr_ExpectedVersion s = 0"
  "replicaDeleteRequest d = d \<longleftrightarrow> dr_RouteEpoch d = 0 \<and> dr_ExpectedVersion d = 0"
  "replicaTouchRequest t = t \<longleftrightarrow> tr_RouteEpoch t = 0 \<and> tr_ExpectedVersion t = 0"
  "replicaPrimitiveRequest p = p \<longleftrightarrow> wp_RouteEpoch p = 0 \<and> wp_ExpectedVersion p = 0"
proof -
  show "replicaSetRequest s = s \<longleftrightarrow> sr_RouteEpoch s = 0 \<and> sr_ExpectedVersion s = 0"
    by (cases s) (auto simp: replicaSetRequest_def)
  show "replicaDeleteRequest d = d \<longleftrightarrow> dr_RouteEpoch d = 0 \<and> dr_ExpectedVersion d = 0"
    by (cases d) (auto simp: replicaDeleteRequest_def)
  show "replicaTouchRequest t = t \<longleftrightarrow> tr_RouteEpoch t = 0 \<and> tr_ExpectedVersion t = 0"
    by (cases t) (auto simp: replicaTouchRequest_def)
  show "replicaPrimitiveRequest p = p \<longleftrightarrow> wp_RouteEpoch p = 0 \<and> wp_ExpectedVersion p = 0"
    by (cases p) (auto simp: replicaPrimitiveRequest_def)
qed

lemma map_replica:
  "list_all (\<lambda>x. replicaDeleteRequest x = x) ds \<Longrightarrow>
     map (replicaDeleteRequest \<circ> dr_RouteEpoch_update (\<lambda>_. 0)) ds = ds"
  "list_all (\<lambda>x. replicaTouchRequest x = x) ts \<Longrightarrow>
     map (replicaTouchRequest \<circ> tr_RouteEpoch_update (\<lambda>_. 0)) ts = ts"
proof -
  have "replicaDeleteRequest (x\<lparr>dr_RouteEpoch := 0\<rparr>) = replicaDeleteRequest x" for x
    by (simp add: replicaDeleteRequest_def)
  then show "map (replicaDeleteRequest \<circ> dr_RouteEpoch_update (\<lambda>_. 0)) ds = ds"
    if "list_all (\<lambda>x. replicaDeleteRequest x = x) ds"
    using that by (intro map_idI) (simp add: list_all_iff)
  have "replicaTouchRequest (x\<lparr>tr_RouteEpoch := 0\<rparr>) = replicaTouchRequest x" for x
    by (simp add: replicaTouchRequest_def)
  then show "map (replicaTouchRequest \<circ> tr_RouteEpoch_update (\<lambda>_. 0)) ts = ts"
    if "list_all (\<lambda>x. replicaTouchRequest x = x) ts"
    using that by (intro map_idI) (simp add: list_all_iff)
qed

lemma outbox_entry_decodes:
  assumes "replicaCommand c" and "wireCommand c"
  shows "\<exists>entry c'. newReplicationOutboxEntry now n target c = Inr entry \<and> ob_Sequence entry = n \<and>
      ob_Target entry = target \<and> replicationCommandFromOutboxEntry entry = Inr c' \<and>
      commandView c' = commandView c"
proof (cases c)
  case NoCommand
  with assms show ?thesis by simp
next
  case (CommandSet r)
  with assms show ?thesis
    by (simp add: newReplicationOutboxEntry_def replicationCommandFromOutboxEntry_def Let_def
        decodedWith_def decode_single replica_fields setView_def arriveSet_def)
next
  case (CommandDelete r)
  with assms show ?thesis
    by (simp add: newReplicationOutboxEntry_def replicationCommandFromOutboxEntry_def Let_def
        decodedWith_def decode_single replica_fields)
next
  case (CommandTouch r)
  with assms show ?thesis
    by (simp add: newReplicationOutboxEntry_def replicationCommandFromOutboxEntry_def Let_def
        decodedWith_def decode_single replica_fields)
next
  case (CommandAdjust r)
  with assms show ?thesis
    by (simp add: newReplicationOutboxEntry_def replicationCommandFromOutboxEntry_def Let_def
        decodedWith_def decode_single)
next
  case (CommandPrimitive r)
  then obtain meta payload out where "EncodePrimitiveRequest r = Inr (meta, payload)"
      "DecodePrimitiveRequest meta payload = Inr out" and v: "primitiveView out = primitiveView r"
    using decode_primitive [of r] assms by auto
  moreover have "primitiveView (out\<lparr>wp_RouteEpoch := 0, wp_ExpectedVersion := 0\<rparr>) = primitiveView r"
  proof -
    have "wp_ExpectedVersion (primitiveView r) = 0"
      using assms CommandPrimitive by (simp add: replica_fields primitiveView_def)
    then show ?thesis unfolding v [symmetric] by (simp add: primitiveView_def)
  qed
  ultimately show ?thesis
    using CommandPrimitive
    by (simp add: newReplicationOutboxEntry_def replicationCommandFromOutboxEntry_def Let_def
        decodedWith_def withPayload_def)
next
  case (CommandBatchSet r)
  then obtain meta payload items where "EncodeBatchSetRequest r = Inr (meta, payload)"
      "DecodeBatchSetRequest meta payload = Inr \<lparr>bs_RouteEpoch = 0, bs_Items = items\<rparr>"
      "map setView items = map setView (bs_Items r)"
    using decode_batch_set [of r] assms by auto
  with CommandBatchSet assms show ?thesis
    by (simp add: newReplicationOutboxEntry_def replicationCommandFromOutboxEntry_def Let_def
        decodedWith_def withPayload_def map_view_replica)
next
  case (CommandBatchDelete r)
  with assms show ?thesis
    by (simp add: newReplicationOutboxEntry_def replicationCommandFromOutboxEntry_def Let_def
        decodedWith_def decode_batch map_replica)
next
  case (CommandBatchTouch r)
  with assms show ?thesis
    by (simp add: newReplicationOutboxEntry_def replicationCommandFromOutboxEntry_def Let_def
        decodedWith_def decode_batch map_replica)
next
  case (CommandBatchPrimitive r)
  then obtain meta payload items where "EncodeBatchPrimitiveRequest r = Inr (meta, payload)"
      "DecodeBatchPrimitiveRequest meta payload = Inr \<lparr>bp_RouteEpoch = 0, bp_Items = items\<rparr>"
      "map primitiveView items = map primitiveView (bp_Items r)"
    using decode_batch_primitive [of r] assms by auto
  with CommandBatchPrimitive assms show ?thesis
    by (simp add: newReplicationOutboxEntry_def replicationCommandFromOutboxEntry_def Let_def
        decodedWith_def withPayload_def map_view_replica)
qed

subsection \<open>The queue\<close>

lemma onStats_fields [simp]:
  "rd_jobs (onStats f d) = rd_jobs d" "rd_capacity (onStats f d) = rd_capacity d"
  "rd_done (onStats f d) = rd_done d" "rd_nextSequence (onStats f d) = rd_nextSequence d"
  "rd_outbox (onStats f d) = rd_outbox d" "rd_acks (onStats f d) = rd_acks d"
  "rd_queued (onStats f d) = rd_queued d" "rd_outboxPath (onStats f d) = rd_outboxPath d"
  "rd_retryMaxDelay (onStats f d) = rd_retryMaxDelay d"
  by (simp_all add: onStats_def)

lemmas stats_defs = recordEnqueued_def recordDropped_def recordAttempt_def recordSuccess_def
  recordFailure_def recordOutboxAppended_def recordOutboxFailure_def recordReplayError_def

lemma recordQueued_fields [simp]:
  "rd_jobs (recordQueued n t d) = rd_jobs d" "rd_capacity (recordQueued n t d) = rd_capacity d"
  "rd_done (recordQueued n t d) = rd_done d" "rd_nextSequence (recordQueued n t d) = rd_nextSequence d"
  "rd_outbox (recordQueued n t d) = rd_outbox d" "rd_acks (recordQueued n t d) = rd_acks d"
  by (auto simp: recordQueued_def split: option.splits)

text \<open>The largest sequence number queued so far for a target, 0 when there is none.\<close>

definition highWater :: "replicationDispatcher \<Rightarrow> string \<Rightarrow> u64" where
  "highWater d t = (case fmlookup (rd_queued d) t of Some q \<Rightarrow> q | None \<Rightarrow> 0)"

definition ackedUpTo :: "replicationAckStore \<Rightarrow> string \<Rightarrow> u64" where
  "ackedUpTo a t = (case fmlookup (ack_offsets a) t of Some q \<Rightarrow> q | None \<Rightarrow> 0)"

lemma highWater_fields [simp]:
  "highWater (onStats f d) t = highWater d t"
  "highWater (d\<lparr>rd_jobs := js\<rparr>) t = highWater d t"
  by (simp_all add: highWater_def)

lemma highWater_recordQueued [simp]:
  "t \<noteq> [] \<Longrightarrow> highWater (recordQueued n t d) t' = (if t' = t then max n (highWater d t) else highWater d t')"
  by (auto simp: recordQueued_def highWater_def max_def split: option.splits)

lemma shouldReplay_iff:
  "shouldReplay d acks entry \<longleftrightarrow> ob_Target entry \<noteq> [] \<and>
     ob_Sequence entry > ackedUpTo acks (ob_Target entry) \<and> ob_Sequence entry > highWater d (ob_Target entry)"
  by (auto simp: shouldReplay_def ackedUpTo_def highWater_def word_neq_0_conv not_le
      split: option.splits)

lemma enqueueReplicationJob_jobs:
  "rd_jobs (enqueueReplicationJob job d) =
     (if \<not> rd_done d \<and> length (rd_jobs d) < rd_capacity d then rd_jobs d @ [job] else rd_jobs d)"
  by (simp add: enqueueReplicationJob_def stats_defs)

lemma enqueueReplicationJob_water:
  "job_target job \<noteq> [] \<Longrightarrow> highWater (enqueueReplicationJob job d) t =
     (if \<not> rd_done d \<and> length (rd_jobs d) < rd_capacity d \<and> t = job_target job
      then max (job_sequence job) (highWater d t) else highWater d t)"
  by (auto simp: enqueueReplicationJob_def stats_defs)

lemma enqueueReplicationJob_fields [simp]:
  "rd_capacity (enqueueReplicationJob job d) = rd_capacity d"
  "rd_done (enqueueReplicationJob job d) = rd_done d" "rd_acks (enqueueReplicationJob job d) = rd_acks d"
  "rd_outbox (enqueueReplicationJob job d) = rd_outbox d"
  "rd_nextSequence (enqueueReplicationJob job d) = rd_nextSequence d"
  by (simp_all add: enqueueReplicationJob_def stats_defs)

lemma enqueueReplayEntry_fields [simp]:
  "rd_acks (enqueueReplayEntry now entry d) = rd_acks d"
  "rd_capacity (enqueueReplayEntry now entry d) = rd_capacity d"
  "rd_done (enqueueReplayEntry now entry d) = rd_done d"
  by (simp_all add: enqueueReplayEntry_def stats_defs split: sum.splits)

subsection \<open>Replay\<close>

lemma enqueueReplayEntry_water:
  "ob_Target entry \<noteq> [] \<Longrightarrow> highWater d t \<le> highWater (enqueueReplayEntry now entry d) t"
  by (auto simp: enqueueReplayEntry_def enqueueReplicationJob_water stats_defs split: sum.splits)

lemma enqueueReplayEntry_jobs:
  "job \<in> set (rd_jobs (enqueueReplayEntry now entry d)) \<Longrightarrow> job \<in> set (rd_jobs d) \<or>
     job_sequence job = ob_Sequence entry \<and> job_target job = ob_Target entry"
  by (auto simp: enqueueReplayEntry_def enqueueReplicationJob_jobs stats_defs split: sum.splits if_splits)

text \<open>A sequence number at or below the high-water mark of its target is never queued by a replay.\<close>

lemma replayOutbox_skips:
  assumes "job \<in> set (rd_jobs (replayOutbox now es d))" and "job_sequence job \<le> highWater d (job_target job)"
  shows "job \<in> set (rd_jobs d)"
  using assms
proof (induction es arbitrary: d)
  case Nil
  then show ?case by simp
next
  case (Cons entry es)
  show ?case
  proof (cases "rd_acks d")
    case None
    with Cons.prems show ?thesis by simp
  next
    case (Some acks)
    show ?thesis
    proof (cases "shouldReplay d acks entry")
      case True
      let ?d = "enqueueReplayEntry now entry d"
      have t: "ob_Target entry \<noteq> []" using True by (simp add: shouldReplay_iff)
      have "job_sequence job \<le> highWater ?d (job_target job)"
        using Cons.prems(2) enqueueReplayEntry_water [OF t] by (rule order.trans)
      then have "job \<in> set (rd_jobs ?d)" using Cons.IH [of ?d] Cons.prems(1) True Some by simp
      then show ?thesis
        using enqueueReplayEntry_jobs True Cons.prems(2) by (fastforce simp: shouldReplay_iff)
    next
      case False
      with Some Cons show ?thesis by simp
    qed
  qed
qed

text \<open>
  The job an entry stands for, and the replay of an outbox written in order: with room in the queue
  every entry above the acknowledged offset and the high-water mark is queued, in order.
\<close>

definition entryJob :: "replicationOutboxEntry \<Rightarrow> replicationJob option" where
  "entryJob entry =
     (case replicationCommandFromOutboxEntry entry of
        Inl err \<Rightarrow> None
      | Inr command \<Rightarrow> Some \<lparr>job_sequence = ob_Sequence entry, job_target = ob_Target entry,
          job_command = command\<rparr>)"

lemma replayOutbox_complete:
  assumes "rd_acks d = Some acks" and "\<not> rd_done d"
    and "length (rd_jobs d) + length es \<le> rd_capacity d"
    and "sorted_wrt (\<lambda>x y. ob_Sequence x < ob_Sequence y) es"
    and "list_all (\<lambda>entry. entryJob entry \<noteq> None) es"
  shows "rd_jobs (replayOutbox now es d) =
      rd_jobs d @ map (the \<circ> entryJob) (filter (shouldReplay d acks) es)"
  using assms
proof (induction es arbitrary: d)
  case Nil
  then show ?case by simp
next
  case (Cons entry es)
  from Cons.prems(5) obtain c where c: "replicationCommandFromOutboxEntry entry = Inr c"
    by (auto simp: entryJob_def split: sum.splits)
  let ?job = "\<lparr>job_sequence = ob_Sequence entry, job_target = ob_Target entry, job_command = c\<rparr>"
  have job: "entryJob entry = Some ?job" by (simp add: entryJob_def c)
  show ?case
  proof (cases "shouldReplay d acks entry")
    case False
    with Cons show ?thesis by simp
  next
    case True
    let ?d = "enqueueReplayEntry now entry d"
    have d: "?d = enqueueReplicationJob ?job d" by (simp add: enqueueReplayEntry_def c)
    have room: "\<not> rd_done d \<and> length (rd_jobs d) < rd_capacity d" using Cons.prems by simp
    have t: "ob_Target entry \<noteq> []" using True by (simp add: shouldReplay_iff)
    have "shouldReplay ?d acks x = shouldReplay d acks x" if "x \<in> set es" for x
    proof -
      have "ob_Sequence entry < ob_Sequence x" using Cons.prems(4) that by simp
      then show ?thesis using room t by (simp add: shouldReplay_iff d enqueueReplicationJob_water)
    qed
    then have "filter (shouldReplay ?d acks) es = filter (shouldReplay d acks) es"
      by (rule filter_cong [OF refl])
    moreover have "rd_jobs (replayOutbox now es ?d) =
        rd_jobs ?d @ map (the \<circ> entryJob) (filter (shouldReplay ?d acks) es)"
      using Cons.prems room by (intro Cons.IH) (simp_all add: d enqueueReplicationJob_jobs)
    ultimately show ?thesis
      using True Cons.prems(1) room by (simp add: d enqueueReplicationJob_jobs job)
  qed
qed

lemma OpenOutbox_requeues:
  assumes "TrimSpace path \<noteq> []" and "rd_jobs d = []" and "rd_queued d = fmempty" and "\<not> rd_done d"
    and "length es \<le> rd_capacity d"
    and "sorted_wrt (\<lambda>x y. ob_Sequence x < ob_Sequence y) es"
    and "list_all (\<lambda>entry. entryJob entry \<noteq> None \<and> ob_Target entry \<noteq> [] \<and> ob_Sequence entry \<noteq> 0) es"
  shows "rd_jobs (fst (OpenOutbox now path (Inr (es, offsets)) d)) =
      map (the \<circ> entryJob)
        (filter (\<lambda>entry. ob_Sequence entry > ackedUpTo \<lparr>ack_offsets = offsets, ack_file = offsets\<rparr> (ob_Target entry)) es)"
proof -
  let ?acks = "\<lparr>ack_offsets = offsets, ack_file = offsets\<rparr>"
  define d1 where "d1 = restoreAckSnapshot (ackSnapshot ?acks)
      (restoreOutboxSnapshot (replayableReplicationOutboxSnapshot es)
        (d\<lparr>rd_outboxPath := path, rd_outbox := Some es, rd_acks := Some ?acks\<rparr>))"
  have f: "rd_acks d1 = Some ?acks" "rd_done d1 = rd_done d" "rd_jobs d1 = rd_jobs d"
      "rd_capacity d1 = rd_capacity d" "rd_queued d1 = rd_queued d"
    by (simp_all add: d1_def restoreAckSnapshot_def restoreOutboxSnapshot_def Let_def)
  have w: "highWater d1 t = 0" for t using f(5) assms(3) by (simp add: highWater_def)
  have "rd_jobs (replayOutbox now es d1) =
      rd_jobs d1 @ map (the \<circ> entryJob) (filter (shouldReplay d1 ?acks) es)"
    using assms f by (intro replayOutbox_complete) (auto simp: list_all_iff)
  moreover have "filter (shouldReplay d1 ?acks) es =
      filter (\<lambda>entry. ob_Sequence entry > ackedUpTo ?acks (ob_Target entry)) es"
    using assms(7) by (intro filter_cong) (auto simp: shouldReplay_iff w list_all_iff word_neq_0_conv)
  ultimately show ?thesis
    using assms f by (simp add: OpenOutbox_def d1_def [symmetric] Let_def)
qed

subsection \<open>Sending\<close>

lemma retry_delay_bounds:
  assumes "0 < m" and "0 < delay" and "delay \<le> m"
  shows "0 < nextReplicationRetryDelay delay m \<and> nextReplicationRetryDelay delay m \<le> m
    \<and> delay \<le> nextReplicationRetryDelay delay m"
  using assms by (simp add: nextReplicationRetryDelay_def Let_def)

lemma sendFrom_delay:
  assumes "sendFrom delay job as d = (d', Some delay')" and "0 < delay" and "delay \<le> rd_retryMaxDelay d"
  shows "delay \<le> delay' \<and> delay' \<le> rd_retryMaxDelay d"
  using assms
proof (induction delay job as d rule: sendFrom.induct)
  case (1 delay job d)
  then show ?case by simp
next
  case (2 delay job a as d)
  let ?d = "recordFailure (at_nowMs a) job (IOFailed (the (at_error a))) (recordAttempt job d)"
  have m: "rd_retryMaxDelay ?d = rd_retryMaxDelay d" by (simp add: stats_defs)
  obtain e where e: "at_error a = Some e" and a: "\<not> at_stopped a"
    and rest: "sendFrom (nextReplicationRetryDelay delay (rd_retryMaxDelay d)) job as ?d = (d', Some delay')"
    using "2.prems"(1) m by (auto simp: Let_def split: option.splits if_splits)
  have b: "0 < nextReplicationRetryDelay delay (rd_retryMaxDelay d)"
      "nextReplicationRetryDelay delay (rd_retryMaxDelay d) \<le> rd_retryMaxDelay d"
      "delay \<le> nextReplicationRetryDelay delay (rd_retryMaxDelay d)"
    using retry_delay_bounds [of "rd_retryMaxDelay d" delay] "2.prems" by auto
  from "2.IH" [of "recordAttempt job d" e ?d] e a rest b m show ?case by (auto simp: Let_def)
qed

end
