(* ===== verification/Tcp_Server.thy ===== *)
theory Tcp_Server
  imports Tcp_Replication Cache_Service Routing
begin

text \<open>
  The TCP cache server (\<open>transport/tcp/server*.go\<close>, \<open>range_fence.go\<close>, \<open>wire*.go\<close>): the conversions
  between wire and cache types, range fences, the check of the route epoch, and one handler per
  operation. A handler is a function of the server state and a frame to the next state and the
  answer; the state is the engine behind the service, the fences and the replication dispatcher. What
  a handler gets from outside is \<open>serverEnv\<close>: the engine, its quotas, the contexts and clocks of its
  engine calls, the current route epoch, the replica targets, the outcomes of the outbox writes, the
  order in which Go ranges over the map of replica batches, and the JSON body of an error. Accepting
  and closing connections is not modelled: a connection is a sequence of frames.
\<close>

section \<open>Conversions\<close>

definition keyFromWire :: "Key \<Rightarrow> Key" where
  "keyFromWire key = \<lparr>k_Namespace = k_Namespace key, k_Space = k_Space key, k_Entity = k_Entity key,
     k_Key = k_Key key\<rparr>"

definition ttlFromMillis :: "int \<Rightarrow> duration" where
  "ttlFromMillis ms = (if ms \<le> 0 then 0 else int64_wrap (ms * 1000000))"

definition setOptionsFromWire :: "SetRequest \<Rightarrow> SetOptions" where
  "setOptionsFromWire request =
     \<lparr>so_TTL = ttlFromMillis (sr_TTLMillis request), so_NamespaceVersion = sr_NamespaceVersion request,
       so_SpaceVersion = sr_SpaceVersion request, so_ExpectedVersion = sr_ExpectedVersion request\<rparr>"

definition batchSetRequests :: "SetRequest list \<Rightarrow> (Key \<times> bytes \<times> SetOptions) list" where
  "batchSetRequests items =
     map (\<lambda>item. (keyFromWire (sr_Key item), sr_Value item, setOptionsFromWire item)) items"

definition batchGetRequests :: "GetRequest list \<Rightarrow> (Key \<times> GetOptions) list" where
  "batchGetRequests items =
     map (\<lambda>item. (keyFromWire (gr_Key item),
       \<lparr>go_NamespaceVersion = gr_NamespaceVersion item, go_SpaceVersion = gr_SpaceVersion item\<rparr>)) items"

definition getOptionsFromExists :: "ExistsRequest \<Rightarrow> GetOptions" where
  "getOptionsFromExists request =
     \<lparr>go_NamespaceVersion = xr_NamespaceVersion request, go_SpaceVersion = xr_SpaceVersion request\<rparr>"

definition touchOptionsFromWire :: "TouchRequest \<Rightarrow> TouchOptions" where
  "touchOptionsFromWire request =
     \<lparr>to_TTL = ttlFromMillis (tr_TTLMillis request), to_NamespaceVersion = tr_NamespaceVersion request,
       to_SpaceVersion = tr_SpaceVersion request, to_ExpectedVersion = tr_ExpectedVersion request\<rparr>"

definition adjustOptionsFromWire :: "AdjustRequest \<Rightarrow> AdjustOptions" where
  "adjustOptionsFromWire request =
     \<lparr>ao_Delta = ar_Delta request, ao_InitialValue = ar_InitialValue request,
       ao_TTL = ttlFromMillis (ar_TTLMillis request), ao_NamespaceVersion = ar_NamespaceVersion request,
       ao_SpaceVersion = ar_SpaceVersion request, ao_ExpectedVersion = ar_ExpectedVersion request\<rparr>"

definition batchDeleteRequests :: "DeleteRequest list \<Rightarrow> (Key \<times> u64) list" where
  "batchDeleteRequests items = map (\<lambda>item. (keyFromWire (dr_Key item), dr_ExpectedVersion item)) items"

definition batchExistsRequests :: "ExistsRequest list \<Rightarrow> (Key \<times> GetOptions) list" where
  "batchExistsRequests items =
     map (\<lambda>item. (keyFromWire (xr_Key item),
       \<lparr>go_NamespaceVersion = xr_NamespaceVersion item, go_SpaceVersion = xr_SpaceVersion item\<rparr>)) items"

definition batchTouchRequests :: "TouchRequest list \<Rightarrow> (Key \<times> TouchOptions) list" where
  "batchTouchRequests items =
     map (\<lambda>item. (keyFromWire (tr_Key item), touchOptionsFromWire item)) items"

definition recordFromCache :: "Record \<Rightarrow> bool \<Rightarrow> WireRecord" where
  "recordFromCache rec found =
     (if \<not> found then missRecord
      else \<lparr>wr_Found = True, wr_Namespace = k_Namespace (r_Key rec), wr_Space = k_Space (r_Key rec),
        wr_Entity = k_Entity (r_Key rec), wr_Key = k_Key (r_Key rec), wr_Value = r_Value rec,
        wr_Version = r_Version rec, wr_NamespaceVersion = r_NamespaceVersion rec,
        wr_SpaceVersion = r_SpaceVersion rec,
        wr_ExpireAtUnixMs = (if r_ExpireAt rec \<noteq> 0 then UnixMilli (r_ExpireAt rec) else 0),
        wr_PayloadOffset = 0, wr_PayloadSize = 0\<rparr>)"

definition recordsFromResults :: "(Record \<times> bool) list \<Rightarrow> WireRecord list" where
  "recordsFromResults results = map (\<lambda>(rec, found). recordFromCache rec found) results"

definition deleteResultsFromCache :: "(bool \<times> bool) list \<Rightarrow> bool list" where
  "deleteResultsFromCache results = map fst results"

text \<open>The kinds of primitives, with the number each has on the wire and in the engine.\<close>

definition primitiveKinds :: "PrimitiveKind list" where
  "primitiveKinds = [PrimitiveCounterAdjust, PrimitiveMapSet, PrimitiveMapGet, PrimitiveMapDelete,
     PrimitiveMapGetAll, PrimitiveSetAdd, PrimitiveSetRemove, PrimitiveSetContains, PrimitiveSetMembers,
     PrimitiveScoredSetPut, PrimitiveScoredSetRemove, PrimitiveScoredSetRange, PrimitiveListPushFront,
     PrimitiveListPushBack, PrimitiveListPopFront, PrimitiveListPopBack, PrimitiveListRange,
     PrimitiveBitmapSetBit, PrimitiveBitmapGetBit, PrimitiveBitmapBitCount, PrimitiveHLLAdd,
     PrimitiveHLLCount, PrimitiveHLLMerge, PrimitiveHLLMembers, PrimitiveGeoAdd, PrimitiveGeoDist,
     PrimitiveGeoRadius]"

definition kindFromWire :: "u8 \<Rightarrow> PrimitiveKind" where
  "kindFromWire b =
     (if 1 \<le> unat b \<and> unat b \<le> length primitiveKinds then primitiveKinds ! (unat b - 1)
      else PrimitiveOther b)"

fun position :: "'a list \<Rightarrow> 'a \<Rightarrow> nat" where
  "position [] x = 0"
| "position (y # ys) x = (if x = y then 0 else Suc (position ys x))"

definition kindCode :: "PrimitiveKind \<Rightarrow> u8" where
  "kindCode k =
     (case k of PrimitiveOther b \<Rightarrow> b | _ \<Rightarrow> of_nat (Suc (position primitiveKinds k)))"

definition primitiveOptionsFromWire :: "WirePrimitiveRequest \<Rightarrow> PrimitiveOptions" where
  "primitiveOptionsFromWire request =
     \<lparr>po_TTL = ttlFromMillis (wp_TTLMillis request), po_NamespaceVersion = wp_NamespaceVersion request,
       po_SpaceVersion = wp_SpaceVersion request, po_ExpectedVersion = wp_ExpectedVersion request\<rparr>"

definition primitiveRequestFromWire :: "WirePrimitiveRequest \<Rightarrow> PrimitiveRequest" where
  "primitiveRequestFromWire request =
     \<lparr>pr_Kind = kindFromWire (wp_Kind request), pr_Key = keyFromWire (wp_Key request),
       pr_Options = primitiveOptionsFromWire request, pr_Field = wp_Field request,
       pr_Member = wp_Member request, pr_Value = wp_Value request, pr_Delta = wp_Delta request,
       pr_InitialValue = wp_InitialValue request, pr_Score = wp_Score request,
       pr_MinScore = wp_MinScore request, pr_MaxScore = wp_MaxScore request,
       pr_HasMinScore = wp_HasMinScore request, pr_HasMaxScore = wp_HasMaxScore request,
       pr_Limit = wp_Limit request, pr_Start = wp_Start request, pr_Reverse = wp_Reverse request\<rparr>"

definition primitiveRequestsFromWire :: "WirePrimitiveRequest list \<Rightarrow> PrimitiveRequest list" where
  "primitiveRequestsFromWire items = map primitiveRequestFromWire items"

definition mapFieldsFromCache :: "MapField list \<Rightarrow> WireMapField list" where
  "mapFieldsFromCache items =
     map (\<lambda>item. \<lparr>wf_Field = mf_Field item, wf_Value = mf_Value item, wf_PayloadOffset = 0,
       wf_PayloadSize = 0\<rparr>) items"

definition scoredMembersFromCache :: "ScoredMember list \<Rightarrow> ScoredMember list" where
  "scoredMembersFromCache items =
     map (\<lambda>item. \<lparr>sm_Member = sm_Member item, sm_Score = sm_Score item\<rparr>) items"

definition listValuesFromCache :: "bytes list \<Rightarrow> ListValue list" where
  "listValuesFromCache items =
     map (\<lambda>item. \<lparr>lv_Value = item, lv_PayloadOffset = 0, lv_PayloadSize = 0\<rparr>) items"

definition primitiveResultFromCache :: "PrimitiveResult \<Rightarrow> WirePrimitiveResult" where
  "primitiveResultFromCache result =
     \<lparr>wq_Record = recordFromCache (ps_Record result) (r_Version (ps_Record result) > 0),
       wq_Found = ps_Found result, wq_Applied = ps_Applied result, wq_Value = ps_Value result,
       wq_Bool = ps_Bool result, wq_Count = ps_Count result,
       wq_Fields = mapFieldsFromCache (ps_Fields result), wq_Members = ps_Members result,
       wq_ScoredMembers = scoredMembersFromCache (ps_ScoredMembers result),
       wq_Values = listValuesFromCache (ps_Values result), wq_PayloadOffset = 0, wq_PayloadSize = 0\<rparr>"

definition primitiveResultsFromCache :: "PrimitiveResult list \<Rightarrow> WirePrimitiveResult list" where
  "primitiveResultsFromCache items = map primitiveResultFromCache items"

definition rangeFromWire :: "MigrationRangeRequest \<Rightarrow> RangeOptions" where
  "rangeFromWire request =
     \<lparr>ro_Namespace = mr_Namespace request, ro_Space = mr_Space request,
       ro_VSlotStart = mr_VSlotStart request, ro_VSlotEnd = mr_VSlotEnd request, ro_Now = 0\<rparr>"

definition timeToUnixMilli :: "gotime \<Rightarrow> int" where
  "timeToUnixMilli value = (if value = 0 then 0 else UnixMilli value)"

definition timeFromUnixMilli :: "int \<Rightarrow> gotime" where
  "timeFromUnixMilli value = (if value = 0 then 0 else TimeUnixMilli value)"

definition snapshotEntryToWire :: "SnapshotEntry \<Rightarrow> MigrationSnapshotEntry" where
  "snapshotEntryToWire entry =
     \<lparr>me_Key = \<lparr>k_Namespace = k_Namespace (sn_Key entry), k_Space = k_Space (sn_Key entry),
         k_Entity = k_Entity (sn_Key entry), k_Key = k_Key (sn_Key entry)\<rparr>,
       me_Value = sn_Value entry, me_Version = sn_Version entry,
       me_NamespaceVersion = sn_NamespaceVersion entry, me_SpaceVersion = sn_SpaceVersion entry,
       me_ExpireAtUnixMs = timeToUnixMilli (sn_ExpireAt entry),
       me_CreatedAtUnixMs = timeToUnixMilli (sn_CreatedAt entry),
       me_UpdatedAtUnixMs = timeToUnixMilli (sn_UpdatedAt entry),
       me_LastAccessAtUnixMs = timeToUnixMilli (sn_LastAccessAt entry),
       me_AccessCount = sn_AccessCount entry, me_PayloadOffset = 0, me_PayloadSize = 0\<rparr>"

definition snapshotEntryFromWire :: "MigrationSnapshotEntry \<Rightarrow> SnapshotEntry" where
  "snapshotEntryFromWire entry =
     \<lparr>sn_Key = \<lparr>k_Namespace = k_Namespace (me_Key entry), k_Space = k_Space (me_Key entry),
         k_Entity = k_Entity (me_Key entry), k_Key = k_Key (me_Key entry)\<rparr>,
       sn_Value = me_Value entry, sn_Version = me_Version entry,
       sn_NamespaceVersion = me_NamespaceVersion entry, sn_SpaceVersion = me_SpaceVersion entry,
       sn_ExpireAt = timeFromUnixMilli (me_ExpireAtUnixMs entry),
       sn_CreatedAt = timeFromUnixMilli (me_CreatedAtUnixMs entry),
       sn_UpdatedAt = timeFromUnixMilli (me_UpdatedAtUnixMs entry),
       sn_LastAccessAt = timeFromUnixMilli (me_LastAccessAtUnixMs entry),
       sn_AccessCount = me_AccessCount entry\<rparr>"

definition snapshotToWire :: "SnapshotEntry list \<Rightarrow> MigrationSnapshot" where
  "snapshotToWire snapshot = map snapshotEntryToWire snapshot"

definition snapshotFromWire :: "MigrationSnapshot \<Rightarrow> SnapshotEntry list" where
  "snapshotFromWire snapshot = map snapshotEntryFromWire snapshot"

section \<open>Answers\<close>

datatype server_error =
    StaleRoute u64 u64
  | FencedRange u16
  | UnsupportedOp u16
  | BadRequest wire_error
  | BadAnswer wire_error
  | CacheFailed cache_error

definition ErrorBadFrame :: u16 where "ErrorBadFrame = 2"
definition ErrorTooLarge :: u16 where "ErrorTooLarge = 4"
definition ErrorNoRoute :: u16 where "ErrorNoRoute = 5"
definition ErrorTimeout :: u16 where "ErrorTimeout = 6"
definition ErrorUnavailable :: u16 where "ErrorUnavailable = 7"
definition ErrorInternal :: u16 where "ErrorInternal = 8"
definition ErrorInvalidArgument :: u16 where "ErrorInvalidArgument = 9"

definition FlagResponse :: u8 where "FlagResponse = 1"
definition FlagError :: u8 where "FlagError = 2"

record 'e serverEnv =
  se_ops :: "'e engineOps"
  se_quota :: QuotaConfig
  se_calls :: callEnvs
  se_deadline :: bool
  se_epoch :: "u64 option"
  se_targets :: "(Key \<Rightarrow> string list) option"
  se_order :: "string fset \<Rightarrow> string list"
  se_outbox :: "u64 \<Rightarrow> replicationEnv"
  se_marshal :: "u16 \<Rightarrow> server_error \<Rightarrow> bytes"

definition metadataFrame :: "Frame \<Rightarrow> bytes \<Rightarrow> bytes \<Rightarrow> Frame" where
  "metadataFrame request meta payload =
     \<lparr>fr_Flags = FlagResponse, fr_Op = fr_Op request, fr_RequestID = fr_RequestID request,
       fr_RouteEpoch = fr_RouteEpoch request, fr_Metadata = meta, fr_Payload = payload\<rparr>"

definition errorFrame :: "'e serverEnv \<Rightarrow> Frame \<Rightarrow> u16 \<Rightarrow> server_error \<Rightarrow> Frame" where
  "errorFrame env request code err =
     \<lparr>fr_Flags = FlagResponse OR FlagError, fr_Op = fr_Op request, fr_RequestID = fr_RequestID request,
       fr_RouteEpoch = fr_RouteEpoch request, fr_Metadata = se_marshal env code err, fr_Payload = []\<rparr>"

definition recordFrame :: "Frame \<Rightarrow> Record \<Rightarrow> bool \<Rightarrow> Frame" where
  "recordFrame frame rec found =
     (if \<not> found then metadataFrame frame (EncodeRecord missRecord) []
      else metadataFrame frame (EncodeRecord (recordFromCache rec True)) (r_Value rec))"

text \<open>
  The codes along the chain of wrapped errors. A failed send or wait wraps the error of the context,
  which is the deadline or the cancellation.
\<close>

fun engineErrorCodes :: "engine_error \<Rightarrow> string list" where
  "engineErrorCodes ErrInvalidKey = [''invalid_key'']"
| "engineErrorCodes ErrNotFound = [''not_found'']"
| "engineErrorCodes ErrClosed = [''closed'']"
| "engineErrorCodes ErrNilContext = [''nil_context'']"
| "engineErrorCodes ErrSendFailed = [''shard_command_send_failed'']"
| "engineErrorCodes ErrWaitFailed = [''shard_command_wait_failed'']"
| "engineErrorCodes ErrInvalidCounter = [''invalid_counter_value'', ''invalid_counter'']"
| "engineErrorCodes ErrCounterOverflow = [''counter_overflow'', ''invalid_counter'']"
| "engineErrorCodes (ErrInvalidPrimitive _) = [''invalid_primitive'']"
| "engineErrorCodes (ErrInvalidCollection _) = [''invalid_collection'']"
| "engineErrorCodes ErrUnknownCommand = [''unknown_shard_command'']"

fun cacheErrorCodes :: "cache_error \<Rightarrow> string list" where
  "cacheErrorCodes (ErrQuotaExceeded _ _ _ _) = [''quota_exceeded'']"
| "cacheErrorCodes (ErrEngine _ e) = engineErrorCodes e"
| "cacheErrorCodes (ErrWrapped _ e) = cacheErrorCodes e"
| "cacheErrorCodes ErrNestedTransactionUnsupported = [''nested_transaction_unsupported'']"

fun contextError :: "cache_error \<Rightarrow> bool" where
  "contextError (ErrEngine _ e) = (e = ErrSendFailed \<or> e = ErrWaitFailed)"
| "contextError (ErrWrapped _ e) = contextError e"
| "contextError _ = False"

definition invalidArgumentOopsCodes :: "string list" where
  "invalidArgumentOopsCodes = [''invalid_counter'', ''invalid_counter_value'', ''invalid_primitive'',
     ''invalid_collection'', ''counter_overflow'']"

definition hasOopsCode :: "cache_error \<Rightarrow> string list \<Rightarrow> bool" where
  "hasOopsCode err codes = list_ex (\<lambda>code. code \<in> set codes) (cacheErrorCodes err)"

definition cacheErrorFrame :: "'e serverEnv \<Rightarrow> Frame \<Rightarrow> cache_error \<Rightarrow> Frame" where
  "cacheErrorFrame env request err =
     (if hasOopsCode err [''invalid_key''] then errorFrame env request ErrorBadFrame (CacheFailed err)
      else if hasOopsCode err invalidArgumentOopsCodes then
        errorFrame env request ErrorInvalidArgument (CacheFailed err)
      else if hasOopsCode err [''quota_exceeded''] then
        errorFrame env request ErrorTooLarge (CacheFailed err)
      else if contextError err \<and> se_deadline env then
        errorFrame env request ErrorTimeout (CacheFailed err)
      else if contextError err then errorFrame env request ErrorUnavailable (CacheFailed err)
      else errorFrame env request ErrorInternal (CacheFailed err))"

section \<open>Fences\<close>

record rangeFence =
  rf_namespace :: string
  rf_space :: string
  rf_start :: u32
  rf_end :: u32

definition rangeFenceFromWire :: "MigrationRangeRequest \<Rightarrow> rangeFence" where
  "rangeFenceFromWire request =
     \<lparr>rf_namespace = mr_Namespace request, rf_space = mr_Space request,
       rf_start = mr_VSlotStart request, rf_end = mr_VSlotEnd request\<rparr>"

definition sameRangeFence :: "rangeFence \<Rightarrow> rangeFence \<Rightarrow> bool" where
  "sameRangeFence left right \<longleftrightarrow>
     rf_namespace left = rf_namespace right \<and> rf_space left = rf_space right \<and>
     rf_start left = rf_start right \<and> rf_end left = rf_end right"

definition keyInRangeFence :: "Key \<Rightarrow> rangeFence \<Rightarrow> bool" where
  "keyInRangeFence key fence =
     (if k_Namespace key \<noteq> rf_namespace fence \<or> k_Space key \<noteq> rf_space fence then False
      else
        let slot = VSlotFor (k_Namespace key) (k_Space key) (k_Key key)
        in slot \<ge> rf_start fence \<and> slot \<le> rf_end fence)"

definition fenceAdd :: "rangeFence list \<Rightarrow> rangeFence \<Rightarrow> rangeFence list" where
  "fenceAdd ranges fence =
     (if list_ex (\<lambda>r. sameRangeFence r fence) ranges then ranges else ranges @ [fence])"

definition fenceRemove :: "rangeFence list \<Rightarrow> rangeFence \<Rightarrow> rangeFence list" where
  "fenceRemove ranges fence = filter (\<lambda>r. \<not> sameRangeFence r fence) ranges"

definition fencesContainKey :: "rangeFence list \<Rightarrow> Key \<Rightarrow> bool" where
  "fencesContainKey ranges key = list_ex (keyInRangeFence key) ranges"

definition mutatingCacheOps :: "u16 list" where
  "mutatingCacheOps = [OpCacheSet, OpCacheDelete, OpCacheTouch, OpCacheAdjust, OpCachePrimitive,
     OpCacheBatchSet, OpCacheBatchDelete, OpCacheBatchTouch, OpCacheBatchPrimitive]"

definition cacheOpCanMutate :: "u16 \<Rightarrow> bool" where
  "cacheOpCanMutate op = (op \<in> set mutatingCacheOps)"

definition mutatingPrimitiveKinds :: "u8 list" where
  "mutatingPrimitiveKinds = map kindCode
     [PrimitiveCounterAdjust, PrimitiveMapSet, PrimitiveMapDelete, PrimitiveSetAdd, PrimitiveSetRemove,
      PrimitiveScoredSetPut, PrimitiveScoredSetRemove, PrimitiveListPushFront, PrimitiveListPushBack,
      PrimitiveListPopFront, PrimitiveListPopBack]"

definition primitiveWireKindMutates :: "u8 \<Rightarrow> bool" where
  "primitiveWireKindMutates kind = (kind \<in> set mutatingPrimitiveKinds)"

definition mapDecoded :: "('a \<Rightarrow> Key list) \<Rightarrow> wire_error + 'a \<Rightarrow> wire_error + Key list" where
  "mapDecoded f x = (case x of Inl e \<Rightarrow> Inl e | Inr r \<Rightarrow> Inr (f r))"

definition keysFromPrimitiveFrame :: "Frame \<Rightarrow> wire_error + Key list" where
  "keysFromPrimitiveFrame frame =
     mapDecoded (\<lambda>request. if \<not> primitiveWireKindMutates (wp_Kind request) then [] else [wp_Key request])
       (DecodePrimitiveRequest (fr_Metadata frame) (fr_Payload frame))"

definition keysFromBatchPrimitiveFrame :: "Frame \<Rightarrow> wire_error + Key list" where
  "keysFromBatchPrimitiveFrame frame =
     mapDecoded (\<lambda>request. map wp_Key (filter (\<lambda>item. primitiveWireKindMutates (wp_Kind item)) (bp_Items request)))
       (DecodeBatchPrimitiveRequest (fr_Metadata frame) (fr_Payload frame))"

definition mutationKeys :: "Frame \<Rightarrow> wire_error + Key list" where
  "mutationKeys frame =
     (let op = fr_Op frame; meta = fr_Metadata frame; payload = fr_Payload frame in
      if op = OpCacheSet then mapDecoded (\<lambda>r. [sr_Key r]) (DecodeSetRequest meta)
      else if op = OpCacheDelete then mapDecoded (\<lambda>r. [dr_Key r]) (DecodeDeleteRequest meta)
      else if op = OpCacheTouch then mapDecoded (\<lambda>r. [tr_Key r]) (DecodeTouchRequest meta)
      else if op = OpCacheAdjust then mapDecoded (\<lambda>r. [ar_Key r]) (DecodeAdjustRequest meta)
      else if op = OpCachePrimitive then keysFromPrimitiveFrame frame
      else if op = OpCacheBatchSet then
        mapDecoded (\<lambda>r. map sr_Key (bs_Items r)) (DecodeBatchSetRequest meta payload)
      else if op = OpCacheBatchDelete then
        mapDecoded (\<lambda>r. map dr_Key (bd_Items r)) (DecodeBatchDeleteRequest meta)
      else if op = OpCacheBatchTouch then
        mapDecoded (\<lambda>r. map tr_Key (bt_Items r)) (DecodeBatchTouchRequest meta)
      else if op = OpCacheBatchPrimitive then keysFromBatchPrimitiveFrame frame
      else Inr [])"

section \<open>Server state and replication\<close>

record 'e Server =
  srv_engine :: 'e
  srv_fences :: "rangeFence list"
  srv_replication :: replicationDispatcher

definition NewServer :: "int \<Rightarrow> 'e \<Rightarrow> 'e Server" where
  "NewServer queueSize engine =
     \<lparr>srv_engine = engine, srv_fences = [],
       srv_replication = newReplicationDispatcher
         (if queueSize > 0 then queueSize else defaultReplicationQueueSize)\<rparr>"

definition srvEnqueue :: "'e serverEnv \<Rightarrow> 'e Server \<Rightarrow> string \<Rightarrow> replicationCommand \<Rightarrow> 'e Server" where
  "srvEnqueue env s target command =
     s\<lparr>srv_replication :=
       Enqueue (se_outbox env (rd_nextSequence (srv_replication s) + 1)) target command (srv_replication s)\<rparr>"

definition srvReplicate :: "'e serverEnv \<Rightarrow> 'e Server \<Rightarrow> Key \<Rightarrow> replicationCommand \<Rightarrow> 'e Server" where
  "srvReplicate env s key command =
     (case se_targets env of
        None \<Rightarrow> s
      | Some targetsOf \<Rightarrow> foldl (\<lambda>s target. srvEnqueue env s target command) s (targetsOf key))"

definition addReplicaBatchItem ::
  "'e serverEnv \<Rightarrow> (string, 'a list) fmap \<Rightarrow> Key \<Rightarrow> 'a \<Rightarrow> (string, 'a list) fmap" where
  "addReplicaBatchItem env batches key item =
     (case se_targets env of
        None \<Rightarrow> batches
      | Some targetsOf \<Rightarrow>
          foldl (\<lambda>batches target.
              if target = [] then batches
              else fmupd target (case fmlookup batches target of None \<Rightarrow> [item] | Some xs \<Rightarrow> xs @ [item]) batches)
            batches (targetsOf key))"

definition replicateBatch ::
  "'e serverEnv \<Rightarrow> ('a \<Rightarrow> Key) \<Rightarrow> ('a list \<Rightarrow> replicationCommand) \<Rightarrow> 'e Server \<Rightarrow> ('a \<times> bool) list \<Rightarrow> 'e Server" where
  "replicateBatch env keyOf command s items =
     (let batches = foldl (\<lambda>batches (item, done).
            if \<not> done then batches else addReplicaBatchItem env batches (keyOf item) item) fmempty items
      in foldl (\<lambda>s target.
             case fmlookup batches target of
               None \<Rightarrow> s | Some xs \<Rightarrow> srvEnqueue env s target (command xs))
           s (se_order env (fmdom batches)))"

definition replicateSet :: "'e serverEnv \<Rightarrow> 'e Server \<Rightarrow> SetRequest \<Rightarrow> 'e Server" where
  "replicateSet env s request = srvReplicate env s (sr_Key request) (newSetReplicationCommand request)"

definition replicateDelete :: "'e serverEnv \<Rightarrow> 'e Server \<Rightarrow> DeleteRequest \<Rightarrow> 'e Server" where
  "replicateDelete env s request = srvReplicate env s (dr_Key request) (newDeleteReplicationCommand request)"

definition replicateTouch :: "'e serverEnv \<Rightarrow> 'e Server \<Rightarrow> TouchRequest \<Rightarrow> 'e Server" where
  "replicateTouch env s request = srvReplicate env s (tr_Key request) (newTouchReplicationCommand request)"

definition replicateAdjust :: "'e serverEnv \<Rightarrow> 'e Server \<Rightarrow> AdjustRequest \<Rightarrow> 'e Server" where
  "replicateAdjust env s request = srvReplicate env s (ar_Key request) (newAdjustReplicationCommand request)"

definition replicatePrimitive :: "'e serverEnv \<Rightarrow> 'e Server \<Rightarrow> WirePrimitiveRequest \<Rightarrow> 'e Server" where
  "replicatePrimitive env s request =
     srvReplicate env s (wp_Key request) (newPrimitiveReplicationCommand request)"

definition replicateBatchSet ::
  "'e serverEnv \<Rightarrow> 'e Server \<Rightarrow> BatchSetRequest \<Rightarrow> (Record \<times> bool) list \<Rightarrow> 'e Server" where
  "replicateBatchSet env s request results =
     replicateBatch env sr_Key newBatchSetReplicationCommand s
       (zip (bs_Items request) (map snd results))"

definition replicateBatchDelete ::
  "'e serverEnv \<Rightarrow> 'e Server \<Rightarrow> BatchDeleteRequest \<Rightarrow> (bool \<times> bool) list \<Rightarrow> 'e Server" where
  "replicateBatchDelete env s request results =
     replicateBatch env dr_Key newBatchDeleteReplicationCommand s
       (zip (bd_Items request) (map fst results))"

definition replicateBatchTouch ::
  "'e serverEnv \<Rightarrow> 'e Server \<Rightarrow> BatchTouchRequest \<Rightarrow> bool list \<Rightarrow> 'e Server" where
  "replicateBatchTouch env s request results =
     replicateBatch env tr_Key newBatchTouchReplicationCommand s (zip (bt_Items request) results)"

definition replicateBatchPrimitive ::
  "'e serverEnv \<Rightarrow> 'e Server \<Rightarrow> BatchPrimitiveRequest \<Rightarrow> PrimitiveResult list \<Rightarrow> 'e Server" where
  "replicateBatchPrimitive env s request results =
     replicateBatch env wp_Key newBatchPrimitiveReplicationCommand s
       (map (\<lambda>(item, result). (item, ps_Applied result \<and> Mutates (kindFromWire (wp_Kind item))))
         (zip (bp_Items request) results))"

section \<open>Handlers\<close>

type_synonym 'e handler = "'e serverEnv \<Rightarrow> 'e Server \<Rightarrow> Frame \<Rightarrow> 'e Server \<times> Frame"

definition badFrame :: "'e serverEnv \<Rightarrow> 'e Server \<Rightarrow> Frame \<Rightarrow> wire_error \<Rightarrow> 'e Server \<times> Frame" where
  "badFrame env s frame e = (s, errorFrame env frame ErrorBadFrame (BadRequest e))"

definition handleSet :: "'e handler" where
  "handleSet env s frame =
     (case DecodeSetRequest (fr_Metadata frame) of
        Inl e \<Rightarrow> badFrame env s frame e
      | Inr request \<Rightarrow>
          let value = fr_Payload frame in
          (case setLocked (se_ops env) (se_quota env) (se_calls env) (srv_engine s)
                  (keyFromWire (sr_Key request)) value (setOptionsFromWire request) of
             (e, Inl err) \<Rightarrow> (s\<lparr>srv_engine := e\<rparr>, cacheErrorFrame env frame err)
           | (e, Inr (rec, found)) \<Rightarrow>
               let s = s\<lparr>srv_engine := e\<rparr>;
                   s = (if found then replicateSet env s (request\<lparr>sr_Value := value\<rparr>) else s)
               in (s, recordFrame frame rec found)))"

definition handleGet :: "'e handler" where
  "handleGet env s frame =
     (case DecodeGetRequest (fr_Metadata frame) of
        Inl e \<Rightarrow> badFrame env s frame e
      | Inr request \<Rightarrow>
          (case getLocked (se_ops env) (se_calls env) (srv_engine s) (keyFromWire (gr_Key request))
                  \<lparr>go_NamespaceVersion = gr_NamespaceVersion request, go_SpaceVersion = gr_SpaceVersion request\<rparr> of
             (e, Inl err) \<Rightarrow> (s\<lparr>srv_engine := e\<rparr>, cacheErrorFrame env frame err)
           | (e, Inr (rec, found)) \<Rightarrow> (s\<lparr>srv_engine := e\<rparr>, recordFrame frame rec found)))"

definition handleDelete :: "'e handler" where
  "handleDelete env s frame =
     (case DecodeDeleteRequest (fr_Metadata frame) of
        Inl e \<Rightarrow> badFrame env s frame e
      | Inr request \<Rightarrow>
          (case deleteLocked (se_ops env) (se_calls env) (srv_engine s) (keyFromWire (dr_Key request))
                  \<lparr>do_ExpectedVersion = dr_ExpectedVersion request\<rparr> of
             (e, Inl err) \<Rightarrow> (s\<lparr>srv_engine := e\<rparr>, cacheErrorFrame env frame err)
           | (e, Inr (deleted, found)) \<Rightarrow>
               let s = s\<lparr>srv_engine := e\<rparr>;
                   s = (if deleted \<and> found then replicateDelete env s request else s)
               in (s, metadataFrame frame (EncodeDeleteResponse (deleted \<and> found)) [])))"

definition handleExists :: "'e handler" where
  "handleExists env s frame =
     (case DecodeExistsRequest (fr_Metadata frame) of
        Inl e \<Rightarrow> badFrame env s frame e
      | Inr request \<Rightarrow>
          (case existsLocked (se_ops env) (se_calls env) (srv_engine s) (keyFromWire (xr_Key request))
                  (getOptionsFromExists request) of
             (e, Inl err) \<Rightarrow> (s\<lparr>srv_engine := e\<rparr>, cacheErrorFrame env frame err)
           | (e, Inr ex) \<Rightarrow> (s\<lparr>srv_engine := e\<rparr>, metadataFrame frame (EncodeExistsResponse ex) [])))"

definition handleTouch :: "'e handler" where
  "handleTouch env s frame =
     (case DecodeTouchRequest (fr_Metadata frame) of
        Inl e \<Rightarrow> badFrame env s frame e
      | Inr request \<Rightarrow>
          (case touchLocked (se_ops env) (se_calls env) (srv_engine s) (keyFromWire (tr_Key request))
                  (touchOptionsFromWire request) of
             (e, Inl err) \<Rightarrow> (s\<lparr>srv_engine := e\<rparr>, cacheErrorFrame env frame err)
           | (e, Inr touched) \<Rightarrow>
               let s = s\<lparr>srv_engine := e\<rparr>;
                   s = (if touched then replicateTouch env s request else s)
               in (s, metadataFrame frame (EncodeTouchResponse touched) [])))"

definition handleAdjust :: "'e handler" where
  "handleAdjust env s frame =
     (case DecodeAdjustRequest (fr_Metadata frame) of
        Inl e \<Rightarrow> badFrame env s frame e
      | Inr request \<Rightarrow>
          (case adjustLocked (se_ops env) (se_quota env) (se_calls env) (srv_engine s)
                  (keyFromWire (ar_Key request)) (adjustOptionsFromWire request) of
             (e, Inl err) \<Rightarrow> (s\<lparr>srv_engine := e\<rparr>, cacheErrorFrame env frame err)
           | (e, Inr (rec, found)) \<Rightarrow>
               let s = s\<lparr>srv_engine := e\<rparr>;
                   s = (if found then replicateAdjust env s request else s)
               in (s, recordFrame frame rec found)))"

definition handlePrimitive :: "'e handler" where
  "handlePrimitive env s frame =
     (case DecodePrimitiveRequest (fr_Metadata frame) (fr_Payload frame) of
        Inl e \<Rightarrow> badFrame env s frame e
      | Inr request \<Rightarrow>
          (case primitiveLocked (se_ops env) (se_quota env) (se_calls env) (srv_engine s)
                  (primitiveRequestFromWire request) of
             (e, Inl err) \<Rightarrow> (s\<lparr>srv_engine := e\<rparr>, cacheErrorFrame env frame err)
           | (e, Inr result) \<Rightarrow>
               let s = s\<lparr>srv_engine := e\<rparr>;
                   s = (if ps_Applied result \<and> Mutates (kindFromWire (wp_Kind request))
                        then replicatePrimitive env s request else s)
               in (case EncodePrimitiveResponse (primitiveResultFromCache result) of
                     Inl e \<Rightarrow> (s, errorFrame env frame ErrorInternal (BadAnswer e))
                   | Inr (meta, payload) \<Rightarrow> (s, metadataFrame frame meta payload))))"

definition handleBatchSet :: "'e handler" where
  "handleBatchSet env s frame =
     (case DecodeBatchSetRequest (fr_Metadata frame) (fr_Payload frame) of
        Inl e \<Rightarrow> badFrame env s frame e
      | Inr request \<Rightarrow>
          (case batchSetLocked (se_ops env) (se_quota env) (se_calls env) (srv_engine s)
                  (batchSetRequests (bs_Items request)) of
             (e, records, err) \<Rightarrow>
               let s = replicateBatchSet env (s\<lparr>srv_engine := e\<rparr>) request records in
               (case err of
                  Some er \<Rightarrow> (s, cacheErrorFrame env frame er)
                | None \<Rightarrow>
                    (s, metadataFrame frame (EncodeBatchSetResponse (recordsFromResults records)) []))))"

definition handleBatchGet :: "'e handler" where
  "handleBatchGet env s frame =
     (case DecodeBatchGetRequest (fr_Metadata frame) of
        Inl e \<Rightarrow> badFrame env s frame e
      | Inr request \<Rightarrow>
          (case batchGetLocked (se_ops env) (se_calls env) (srv_engine s)
                  (batchGetRequests (bg_Items request)) of
             (e, results, Some er) \<Rightarrow> (s\<lparr>srv_engine := e\<rparr>, cacheErrorFrame env frame er)
           | (e, results, None) \<Rightarrow>
               (case EncodeBatchGetResponse (recordsFromResults results) of
                  Inl we \<Rightarrow> (s\<lparr>srv_engine := e\<rparr>, errorFrame env frame ErrorInternal (BadAnswer we))
                | Inr (meta, payload) \<Rightarrow> (s\<lparr>srv_engine := e\<rparr>, metadataFrame frame meta payload))))"

definition handleBatchDelete :: "'e handler" where
  "handleBatchDelete env s frame =
     (case DecodeBatchDeleteRequest (fr_Metadata frame) of
        Inl e \<Rightarrow> badFrame env s frame e
      | Inr request \<Rightarrow>
          (case batchDeleteLocked (se_ops env) (se_calls env) (srv_engine s)
                  (batchDeleteRequests (bd_Items request)) of
             (e, results, err) \<Rightarrow>
               let s = replicateBatchDelete env (s\<lparr>srv_engine := e\<rparr>) request results in
               (case err of
                  Some er \<Rightarrow> (s, cacheErrorFrame env frame er)
                | None \<Rightarrow>
                    (s, metadataFrame frame (EncodeBatchDeleteResponse (deleteResultsFromCache results)) []))))"

definition handleBatchExists :: "'e handler" where
  "handleBatchExists env s frame =
     (case DecodeBatchExistsRequest (fr_Metadata frame) of
        Inl e \<Rightarrow> badFrame env s frame e
      | Inr request \<Rightarrow>
          (case batchExistsLocked (se_ops env) (se_calls env) (srv_engine s)
                  (batchExistsRequests (bx_Items request)) of
             (e, results, Some er) \<Rightarrow> (s\<lparr>srv_engine := e\<rparr>, cacheErrorFrame env frame er)
           | (e, results, None) \<Rightarrow>
               (s\<lparr>srv_engine := e\<rparr>, metadataFrame frame (EncodeBatchExistsResponse results) [])))"

definition handleBatchTouch :: "'e handler" where
  "handleBatchTouch env s frame =
     (case DecodeBatchTouchRequest (fr_Metadata frame) of
        Inl e \<Rightarrow> badFrame env s frame e
      | Inr request \<Rightarrow>
          (case batchTouchLocked (se_ops env) (se_calls env) (srv_engine s)
                  (batchTouchRequests (bt_Items request)) of
             (e, results, err) \<Rightarrow>
               let s = replicateBatchTouch env (s\<lparr>srv_engine := e\<rparr>) request results in
               (case err of
                  Some er \<Rightarrow> (s, cacheErrorFrame env frame er)
                | None \<Rightarrow> (s, metadataFrame frame (EncodeBatchTouchResponse results) []))))"

definition handleBatchPrimitive :: "'e handler" where
  "handleBatchPrimitive env s frame =
     (case DecodeBatchPrimitiveRequest (fr_Metadata frame) (fr_Payload frame) of
        Inl e \<Rightarrow> badFrame env s frame e
      | Inr request \<Rightarrow>
          (case batchPrimitiveLocked (se_ops env) (se_quota env) (se_calls env) (srv_engine s)
                  (primitiveRequestsFromWire (bp_Items request)) of
             (e, results, err) \<Rightarrow>
               let s = replicateBatchPrimitive env (s\<lparr>srv_engine := e\<rparr>) request results in
               (case err of
                  Some er \<Rightarrow> (s, cacheErrorFrame env frame er)
                | None \<Rightarrow>
                    (case EncodeBatchPrimitiveResponse (primitiveResultsFromCache results) of
                       Inl we \<Rightarrow> (s, errorFrame env frame ErrorInternal (BadAnswer we))
                     | Inr (meta, payload) \<Rightarrow> (s, metadataFrame frame meta payload)))))"

definition handleExportRange :: "'e handler" where
  "handleExportRange env s frame =
     (case DecodeMigrationRangeRequest (fr_Metadata frame) of
        Inl e \<Rightarrow> badFrame env s frame e
      | Inr request \<Rightarrow>
          (case exportLocked (se_ops env) (se_calls env) (srv_engine s) (rangeFromWire request) of
             (e, Inl err) \<Rightarrow> (s\<lparr>srv_engine := e\<rparr>, cacheErrorFrame env frame err)
           | (e, Inr snapshot) \<Rightarrow>
               (case EncodeMigrationSnapshot (snapshotToWire snapshot) of
                  Inl we \<Rightarrow> (s\<lparr>srv_engine := e\<rparr>, errorFrame env frame ErrorInternal (BadAnswer we))
                | Inr (meta, payload) \<Rightarrow> (s\<lparr>srv_engine := e\<rparr>, metadataFrame frame meta payload))))"

definition handleImportSnapshot :: "'e handler" where
  "handleImportSnapshot env s frame =
     (case DecodeMigrationSnapshot (fr_Metadata frame) (fr_Payload frame) of
        Inl e \<Rightarrow> badFrame env s frame e
      | Inr snapshot \<Rightarrow>
          (case importLocked (se_ops env) (se_calls env) (srv_engine s) (snapshotFromWire snapshot) of
             (e, Inl err) \<Rightarrow> (s\<lparr>srv_engine := e\<rparr>, cacheErrorFrame env frame err)
           | (e, Inr imported) \<Rightarrow>
               (s\<lparr>srv_engine := e\<rparr>, metadataFrame frame (EncodeMigrationImportResponse imported) [])))"

definition handleDeleteRange :: "'e handler" where
  "handleDeleteRange env s frame =
     (case DecodeMigrationRangeRequest (fr_Metadata frame) of
        Inl e \<Rightarrow> badFrame env s frame e
      | Inr request \<Rightarrow>
          (case deleteRangeLocked (se_ops env) (se_calls env) (srv_engine s) (rangeFromWire request) of
             (e, Inl err) \<Rightarrow> (s\<lparr>srv_engine := e\<rparr>, cacheErrorFrame env frame err)
           | (e, Inr deleted) \<Rightarrow>
               (s\<lparr>srv_engine := e\<rparr>,
                metadataFrame frame (EncodeMigrationDeleteRangeResponse deleted) [])))"

definition handleFenceRange :: "'e handler" where
  "handleFenceRange env s frame =
     (case DecodeMigrationRangeRequest (fr_Metadata frame) of
        Inl e \<Rightarrow> badFrame env s frame e
      | Inr request \<Rightarrow>
          (s\<lparr>srv_fences := fenceAdd (srv_fences s) (rangeFenceFromWire request)\<rparr>,
           metadataFrame frame (EncodeMigrationFenceResponse True) []))"

definition handleUnfenceRange :: "'e handler" where
  "handleUnfenceRange env s frame =
     (case DecodeMigrationRangeRequest (fr_Metadata frame) of
        Inl e \<Rightarrow> badFrame env s frame e
      | Inr request \<Rightarrow>
          (s\<lparr>srv_fences := fenceRemove (srv_fences s) (rangeFenceFromWire request)\<rparr>,
           metadataFrame frame (EncodeMigrationFenceResponse True) []))"

definition handleUnsupportedFrame :: "'e handler" where
  "handleUnsupportedFrame env s frame =
     (s, errorFrame env frame ErrorBadFrame (UnsupportedOp (fr_Op frame)))"

definition cacheHandlers :: "(u16 \<times> 'e handler) list" where
  "cacheHandlers = [
     (OpCacheSet, handleSet), (OpCacheGet, handleGet), (OpCacheDelete, handleDelete),
     (OpCacheExists, handleExists), (OpCacheTouch, handleTouch), (OpCacheAdjust, handleAdjust),
     (OpCachePrimitive, handlePrimitive), (OpCacheBatchSet, handleBatchSet),
     (OpCacheBatchGet, handleBatchGet), (OpCacheBatchPrimitive, handleBatchPrimitive),
     (OpCacheBatchDelete, handleBatchDelete), (OpCacheBatchExists, handleBatchExists),
     (OpCacheBatchTouch, handleBatchTouch), (OpNodeHeartbeat, handleUnsupportedFrame),
     (OpNodeExportRange, handleExportRange), (OpNodeImportSnapshot, handleImportSnapshot),
     (OpNodeDeleteRange, handleDeleteRange), (OpNodeFenceRange, handleFenceRange),
     (OpNodeUnfenceRange, handleUnfenceRange), (OpControlSnapshot, handleUnsupportedFrame),
     (OpControlWatch, handleUnsupportedFrame)]"

definition dispatchFrame :: "'e handler" where
  "dispatchFrame env s frame =
     (case map_of cacheHandlers (fr_Op frame) of
        None \<Rightarrow> (s, errorFrame env frame ErrorBadFrame (UnsupportedOp (fr_Op frame)))
      | Some handler \<Rightarrow> handler env s frame)"

definition staleRoute :: "'e serverEnv \<Rightarrow> u64 \<Rightarrow> bool \<times> u64" where
  "staleRoute env routeEpoch =
     (if routeEpoch = 0 then (False, 0)
      else case se_epoch env of
             None \<Rightarrow> (False, 0)
           | Some current \<Rightarrow> (current > 0 \<and> routeEpoch < current, current))"

definition fencedMutation :: "'e Server \<Rightarrow> Frame \<Rightarrow> wire_error + bool" where
  "fencedMutation s frame =
     (if srv_fences s = [] \<or> \<not> cacheOpCanMutate (fr_Op frame) then Inr False
      else case mutationKeys frame of
             Inl e \<Rightarrow> Inl e
           | Inr keys \<Rightarrow> Inr (list_ex (fencesContainKey (srv_fences s)) keys))"

definition handleFrame :: "'e handler" where
  "handleFrame env s frame =
     (case staleRoute env (fr_RouteEpoch frame) of
        (True, current) \<Rightarrow>
          (s, errorFrame env frame ErrorNoRoute (StaleRoute (fr_RouteEpoch frame) current))
      | (False, _) \<Rightarrow>
          (case fencedMutation s frame of
             Inl e \<Rightarrow> (s, errorFrame env frame ErrorBadFrame (BadRequest e))
           | Inr True \<Rightarrow> (s, errorFrame env frame ErrorNoRoute (FencedRange (fr_Op frame)))
           | Inr False \<Rightarrow> dispatchFrame env s frame))"

text \<open>
  One connection: the frames it sends are decoded one after the other and answered in order, each
  with the environment of its turn, until the stream ends or a frame cannot be read or an answer
  cannot be written. \<open>n\<close> counts the frames.
\<close>

function serveConn ::
  "Codec \<Rightarrow> (nat \<Rightarrow> 'e serverEnv) \<Rightarrow> nat \<Rightarrow> 'e Server \<Rightarrow> bytes \<Rightarrow> bytes \<Rightarrow> 'e Server \<times> bytes" where
  "serveConn c env n s input output =
     (case DecodeFrame c input of
        Inl e \<Rightarrow> (s, output)
      | Inr (frame, rest) \<Rightarrow>
          let (s, answer) = handleFrame (env n) s frame in
          (case EncodeFrame c buffer_write output answer of
             (output, Some e) \<Rightarrow> (s, output)
           | (output, None) \<Rightarrow> serveConn c env (Suc n) s rest output))"
  by pat_completeness auto

termination
  by (relation "measure (\<lambda>(c, env, n, s, input, output). length input)")
    (auto dest: DecodeFrame_consumes)

declare serveConn.simps [simp del]

end
