(* ===== verification/Tcp_Client.thy ===== *)
theory Tcp_Client
  imports Tcp_Server
begin

text \<open>
  The TCP client (\<open>transport/tcp/client*.go\<close>). A call dials the address, writes one frame, reads one
  frame and decodes it; a pipeline writes all its frames before it reads the answers. What lies beyond
  the sockets is \<open>clientEnv\<close>: how an address is dialled, what a write on the connection does, and the
  bytes the peer has sent when the client reads, each acting on the state \<open>'w\<close> of the network; the
  host \<open>net/url\<close> finds in an address and the JSON reading of an error body are its other two members.
  \<open>cluster\<close> is the network made of this repository's own servers: what a client writes is served by
  \<open>serveConn\<close> of the peer.
\<close>

section \<open>Calls\<close>

record ErrorBody =
  eb_Code :: u16
  eb_Message :: string

datatype dial_error = DialCancelled | DialRefused

datatype client_error =
    DialFailed dial_error
  | WriteFailed frame_error
  | ReadFailed frame_error
  | RequestIDMismatch u64 u64
  | RemoteError ErrorBody
  | OpaqueRemoteError
  | EncodeFailed wire_error
  | DecodeFailed wire_error

record 'w clientEnv =
  ce_codec :: Codec
  ce_parseHost :: "string \<Rightarrow> string option"
  ce_dial :: "string \<Rightarrow> 'w \<Rightarrow> dial_error + 'w"
  ce_write :: "string \<Rightarrow> 'w writer"
  ce_read :: "string \<Rightarrow> 'w \<Rightarrow> 'w \<times> bytes"
  ce_unmarshal :: "bytes \<Rightarrow> ErrorBody option"

record 'w tcpClient =
  tc_nextID :: u64
  tc_net :: 'w

type_synonym ('w, 'a) call = "'w tcpClient \<Rightarrow> 'w tcpClient \<times> (client_error + 'a)"

definition normalizeAddr :: "'w clientEnv \<Rightarrow> string \<Rightarrow> string" where
  "normalizeAddr env addr =
     (let addr = TrimSpace addr in
      case ce_parseHost env addr of
        Some host \<Rightarrow> if host \<noteq> [] then host else addr
      | None \<Rightarrow> addr)"

definition decodeError :: "'w clientEnv \<Rightarrow> Frame \<Rightarrow> client_error" where
  "decodeError env frame =
     (case ce_unmarshal env (fr_Metadata frame) of
        None \<Rightarrow> OpaqueRemoteError
      | Some body \<Rightarrow> RemoteError body)"

definition doCall :: "'w clientEnv \<Rightarrow> string \<Rightarrow> u16 \<Rightarrow> u64 \<Rightarrow> bytes \<Rightarrow> bytes \<Rightarrow> ('w, Frame) call" where
  "doCall env addr op routeEpoch meta payload c =
     (let host = normalizeAddr env addr in
      case ce_dial env host (tc_net c) of
        Inl e \<Rightarrow> (c, Inl (DialFailed e))
      | Inr w \<Rightarrow>
          let requestID = tc_nextID c + 1;
              request = \<lparr>fr_Flags = 0, fr_Op = op, fr_RequestID = requestID, fr_RouteEpoch = routeEpoch,
                fr_Metadata = meta, fr_Payload = payload\<rparr>;
              c = c\<lparr>tc_nextID := requestID\<rparr>
          in (case EncodeFrame (ce_codec env) (ce_write env host) w request of
                (w, Some e) \<Rightarrow> (c\<lparr>tc_net := w\<rparr>, Inl (WriteFailed e))
              | (w, None) \<Rightarrow>
                  let (w, input) = ce_read env host w; c = c\<lparr>tc_net := w\<rparr> in
                  (case DecodeFrame (ce_codec env) input of
                     Inl e \<Rightarrow> (c, Inl (ReadFailed e))
                   | Inr (frame, _) \<Rightarrow>
                       if fr_RequestID frame \<noteq> requestID then
                         (c, Inl (RequestIDMismatch (fr_RequestID frame) requestID))
                       else if fr_Flags frame AND FlagError \<noteq> 0 then (c, Inl (decodeError env frame))
                       else (c, Inr frame))))"

definition decodeRecord :: "Frame \<Rightarrow> wire_error + WireRecord" where
  "decodeRecord frame =
     (case DecodeRecord (fr_Metadata frame) of
        Inl e \<Rightarrow> Inl e
      | Inr out \<Rightarrow> Inr (if length (fr_Payload frame) > 0 then out\<lparr>wr_Value := fr_Payload frame\<rparr> else out))"

definition decodeAnswer :: "(Frame \<Rightarrow> wire_error + 'a) \<Rightarrow> 'w tcpClient \<times> (client_error + Frame) \<Rightarrow>
    'w tcpClient \<times> (client_error + 'a)" where
  "decodeAnswer decode r =
     (case r of
        (c, Inl e) \<Rightarrow> (c, Inl e)
      | (c, Inr frame) \<Rightarrow>
          (case decode frame of Inl e \<Rightarrow> (c, Inl (DecodeFailed e)) | Inr out \<Rightarrow> (c, Inr out)))"

definition ClientSet :: "'w clientEnv \<Rightarrow> string \<Rightarrow> SetRequest \<Rightarrow> ('w, WireRecord) call" where
  "ClientSet env addr request c =
     decodeAnswer decodeRecord
       (doCall env addr OpCacheSet (sr_RouteEpoch request) (EncodeSetRequest request) (sr_Value request) c)"

definition ClientGet :: "'w clientEnv \<Rightarrow> string \<Rightarrow> GetRequest \<Rightarrow> ('w, WireRecord) call" where
  "ClientGet env addr request c =
     decodeAnswer decodeRecord
       (doCall env addr OpCacheGet (gr_RouteEpoch request) (EncodeGetRequest request) [] c)"

definition ClientDelete :: "'w clientEnv \<Rightarrow> string \<Rightarrow> DeleteRequest \<Rightarrow> ('w, bool) call" where
  "ClientDelete env addr request c =
     decodeAnswer (\<lambda>frame. DecodeDeleteResponse (fr_Metadata frame))
       (doCall env addr OpCacheDelete (dr_RouteEpoch request) (EncodeDeleteRequest request) [] c)"

definition ClientExists :: "'w clientEnv \<Rightarrow> string \<Rightarrow> ExistsRequest \<Rightarrow> ('w, bool) call" where
  "ClientExists env addr request c =
     decodeAnswer (\<lambda>frame. DecodeExistsResponse (fr_Metadata frame))
       (doCall env addr OpCacheExists (xr_RouteEpoch request) (EncodeExistsRequest request) [] c)"

definition ClientTouch :: "'w clientEnv \<Rightarrow> string \<Rightarrow> TouchRequest \<Rightarrow> ('w, bool) call" where
  "ClientTouch env addr request c =
     decodeAnswer (\<lambda>frame. DecodeTouchResponse (fr_Metadata frame))
       (doCall env addr OpCacheTouch (tr_RouteEpoch request) (EncodeTouchRequest request) [] c)"

definition ClientAdjust :: "'w clientEnv \<Rightarrow> string \<Rightarrow> AdjustRequest \<Rightarrow> ('w, WireRecord) call" where
  "ClientAdjust env addr request c =
     decodeAnswer decodeRecord
       (doCall env addr OpCacheAdjust (ar_RouteEpoch request) (EncodeAdjustRequest request) [] c)"

definition ClientPrimitive :: "'w clientEnv \<Rightarrow> string \<Rightarrow> WirePrimitiveRequest \<Rightarrow> ('w, WirePrimitiveResult) call" where
  "ClientPrimitive env addr request c =
     (case EncodePrimitiveRequest request of
        Inl e \<Rightarrow> (c, Inl (EncodeFailed e))
      | Inr (meta, payload) \<Rightarrow>
          decodeAnswer (\<lambda>frame. DecodePrimitiveResponse (fr_Metadata frame) (fr_Payload frame))
            (doCall env addr OpCachePrimitive (wp_RouteEpoch request) meta payload c))"

definition ClientBatchSet :: "'w clientEnv \<Rightarrow> string \<Rightarrow> BatchSetRequest \<Rightarrow> ('w, WireRecord list) call" where
  "ClientBatchSet env addr request c =
     (case EncodeBatchSetRequest request of
        Inl e \<Rightarrow> (c, Inl (EncodeFailed e))
      | Inr (meta, payload) \<Rightarrow>
          decodeAnswer (\<lambda>frame. DecodeBatchSetResponse (fr_Metadata frame))
            (doCall env addr OpCacheBatchSet (bs_RouteEpoch request) meta payload c))"

definition ClientBatchGet :: "'w clientEnv \<Rightarrow> string \<Rightarrow> BatchGetRequest \<Rightarrow> ('w, WireRecord list) call" where
  "ClientBatchGet env addr request c =
     decodeAnswer (\<lambda>frame. DecodeBatchGetResponse (fr_Metadata frame) (fr_Payload frame))
       (doCall env addr OpCacheBatchGet (bg_RouteEpoch request) (EncodeBatchGetRequest request) [] c)"

definition ClientBatchDelete :: "'w clientEnv \<Rightarrow> string \<Rightarrow> BatchDeleteRequest \<Rightarrow> ('w, bool list) call" where
  "ClientBatchDelete env addr request c =
     decodeAnswer (\<lambda>frame. DecodeBatchDeleteResponse (fr_Metadata frame))
       (doCall env addr OpCacheBatchDelete (bd_RouteEpoch request) (EncodeBatchDeleteRequest request) [] c)"

definition ClientBatchExists :: "'w clientEnv \<Rightarrow> string \<Rightarrow> BatchExistsRequest \<Rightarrow> ('w, bool list) call" where
  "ClientBatchExists env addr request c =
     decodeAnswer (\<lambda>frame. DecodeBatchExistsResponse (fr_Metadata frame))
       (doCall env addr OpCacheBatchExists (bx_RouteEpoch request) (EncodeBatchExistsRequest request) [] c)"

definition ClientBatchTouch :: "'w clientEnv \<Rightarrow> string \<Rightarrow> BatchTouchRequest \<Rightarrow> ('w, bool list) call" where
  "ClientBatchTouch env addr request c =
     decodeAnswer (\<lambda>frame. DecodeBatchTouchResponse (fr_Metadata frame))
       (doCall env addr OpCacheBatchTouch (bt_RouteEpoch request) (EncodeBatchTouchRequest request) [] c)"

definition ClientBatchPrimitive ::
  "'w clientEnv \<Rightarrow> string \<Rightarrow> BatchPrimitiveRequest \<Rightarrow> ('w, WirePrimitiveResult list) call" where
  "ClientBatchPrimitive env addr request c =
     (case EncodeBatchPrimitiveRequest request of
        Inl e \<Rightarrow> (c, Inl (EncodeFailed e))
      | Inr (meta, payload) \<Rightarrow>
          decodeAnswer (\<lambda>frame. DecodeBatchPrimitiveResponse (fr_Metadata frame) (fr_Payload frame))
            (doCall env addr OpCacheBatchPrimitive (bp_RouteEpoch request) meta payload c))"

definition ClientExportRange ::
  "'w clientEnv \<Rightarrow> string \<Rightarrow> MigrationRangeRequest \<Rightarrow> ('w, MigrationSnapshot) call" where
  "ClientExportRange env addr request c =
     decodeAnswer (\<lambda>frame. DecodeMigrationSnapshot (fr_Metadata frame) (fr_Payload frame))
       (doCall env addr OpNodeExportRange (mr_RouteEpoch request) (EncodeMigrationRangeRequest request) [] c)"

definition ClientImportSnapshot :: "'w clientEnv \<Rightarrow> string \<Rightarrow> MigrationSnapshot \<Rightarrow> ('w, u64) call" where
  "ClientImportSnapshot env addr snapshot c =
     (case EncodeMigrationSnapshot snapshot of
        Inl e \<Rightarrow> (c, Inl (EncodeFailed e))
      | Inr (meta, payload) \<Rightarrow>
          decodeAnswer (\<lambda>frame. DecodeMigrationImportResponse (fr_Metadata frame))
            (doCall env addr OpNodeImportSnapshot 0 meta payload c))"

definition ClientDeleteRange :: "'w clientEnv \<Rightarrow> string \<Rightarrow> MigrationRangeRequest \<Rightarrow> ('w, u64) call" where
  "ClientDeleteRange env addr request c =
     decodeAnswer (\<lambda>frame. DecodeMigrationDeleteRangeResponse (fr_Metadata frame))
       (doCall env addr OpNodeDeleteRange (mr_RouteEpoch request) (EncodeMigrationRangeRequest request) [] c)"

definition rangeFenceCommand :: "'w clientEnv \<Rightarrow> string \<Rightarrow> u16 \<Rightarrow> MigrationRangeRequest \<Rightarrow> ('w, bool) call" where
  "rangeFenceCommand env addr op request c =
     decodeAnswer (\<lambda>frame. DecodeMigrationFenceResponse (fr_Metadata frame))
       (doCall env addr op (mr_RouteEpoch request) (EncodeMigrationRangeRequest request) [] c)"

definition ClientFenceRange :: "'w clientEnv \<Rightarrow> string \<Rightarrow> MigrationRangeRequest \<Rightarrow> ('w, bool) call" where
  "ClientFenceRange env addr request c = rangeFenceCommand env addr OpNodeFenceRange request c"

definition ClientUnfenceRange :: "'w clientEnv \<Rightarrow> string \<Rightarrow> MigrationRangeRequest \<Rightarrow> ('w, bool) call" where
  "ClientUnfenceRange env addr request c = rangeFenceCommand env addr OpNodeUnfenceRange request c"

section \<open>Pipelines\<close>

datatype pipeline_error =
    DuplicateRequestID u64
  | PipelineCancelled
  | PipelineDial dial_error
  | PipelineWrite frame_error
  | PipelineRead frame_error
  | ResponseNotInBatch u64
  | DuplicateResponse u64

definition OpenPipeline :: "'w clientEnv \<Rightarrow> string \<Rightarrow> 'w \<Rightarrow> pipeline_error + string \<times> 'w" where
  "OpenPipeline env addr w =
     (let host = normalizeAddr env addr in
      case ce_dial env host w of Inl e \<Rightarrow> Inl (PipelineDial e) | Inr w \<Rightarrow> Inr (host, w))"

definition NewPipelineSetFrame :: "'w tcpClient \<Rightarrow> SetRequest \<Rightarrow> 'w tcpClient \<times> Frame" where
  "NewPipelineSetFrame c request =
     (let requestID = tc_nextID c + 1 in
      (c\<lparr>tc_nextID := requestID\<rparr>,
       \<lparr>fr_Flags = 0, fr_Op = OpCacheSet, fr_RequestID = requestID, fr_RouteEpoch = sr_RouteEpoch request,
         fr_Metadata = EncodeSetRequest request, fr_Payload = sr_Value request\<rparr>))"

definition NewPipelineGetFrame :: "'w tcpClient \<Rightarrow> GetRequest \<Rightarrow> 'w tcpClient \<times> Frame" where
  "NewPipelineGetFrame c request =
     (let requestID = tc_nextID c + 1 in
      (c\<lparr>tc_nextID := requestID\<rparr>,
       \<lparr>fr_Flags = 0, fr_Op = OpCacheGet, fr_RequestID = requestID, fr_RouteEpoch = gr_RouteEpoch request,
         fr_Metadata = EncodeGetRequest request, fr_Payload = []\<rparr>))"

fun positionsFrom :: "nat \<Rightarrow> Frame list \<Rightarrow> (u64, nat) fmap \<Rightarrow> pipeline_error + (u64, nat) fmap" where
  "positionsFrom index [] positions = Inr positions"
| "positionsFrom index (frame # frames) positions =
     (let requestID = fr_RequestID frame in
      if fmlookup positions requestID \<noteq> None then Inl (DuplicateRequestID requestID)
      else positionsFrom (Suc index) frames (fmupd requestID index positions))"

definition pipelineFramePositions :: "Frame list \<Rightarrow> pipeline_error + (u64, nat) fmap" where
  "pipelineFramePositions frames = positionsFrom 0 frames fmempty"

text \<open>\<open>ctx\<close> says, for each check of the context in order, whether it is already cancelled.\<close>

fun writePipelineFrames ::
  "'w clientEnv \<Rightarrow> string \<Rightarrow> (nat \<Rightarrow> bool) \<Rightarrow> nat \<Rightarrow> Frame list \<Rightarrow> 'w \<Rightarrow> 'w \<times> pipeline_error option" where
  "writePipelineFrames env host ctx n [] w = (w, None)"
| "writePipelineFrames env host ctx n (frame # frames) w =
     (if ctx n then (w, Some PipelineCancelled)
      else case EncodeFrame (ce_codec env) (ce_write env host) w frame of
             (w, Some e) \<Rightarrow> (w, Some (PipelineWrite e))
           | (w, None) \<Rightarrow> writePipelineFrames env host ctx (Suc n) frames w)"

definition recordPipelineResponse ::
  "Frame list \<Rightarrow> u64 fset \<Rightarrow> (u64, nat) fmap \<Rightarrow> Frame \<Rightarrow> pipeline_error + Frame list \<times> u64 fset" where
  "recordPipelineResponse responses seen positions response =
     (case fmlookup positions (fr_RequestID response) of
        None \<Rightarrow> Inl (ResponseNotInBatch (fr_RequestID response))
      | Some index \<Rightarrow>
          if fr_RequestID response |\<in>| seen then Inl (DuplicateResponse (fr_RequestID response))
          else Inr (responses[index := response], finsert (fr_RequestID response) seen))"

fun readPipelineLoop ::
  "Codec \<Rightarrow> (nat \<Rightarrow> bool) \<Rightarrow> nat \<Rightarrow> (u64, nat) fmap \<Rightarrow> nat \<Rightarrow> Frame list \<Rightarrow> u64 fset \<Rightarrow> bytes \<Rightarrow>
     pipeline_error + Frame list" where
  "readPipelineLoop codec ctx n positions 0 responses seen input = Inr responses"
| "readPipelineLoop codec ctx n positions (Suc k) responses seen input =
     (if ctx n then Inl PipelineCancelled
      else case DecodeFrame codec input of
             Inl e \<Rightarrow> Inl (PipelineRead e)
           | Inr (response, input) \<Rightarrow>
               (case recordPipelineResponse responses seen positions response of
                  Inl e \<Rightarrow> Inl e
                | Inr (responses, seen) \<Rightarrow>
                    readPipelineLoop codec ctx (Suc n) positions k responses seen input))"

definition zeroFrame :: Frame where
  "zeroFrame = \<lparr>fr_Flags = 0, fr_Op = 0, fr_RequestID = 0, fr_RouteEpoch = 0, fr_Metadata = [], fr_Payload = []\<rparr>"

definition readPipelineResponses ::
  "Codec \<Rightarrow> (nat \<Rightarrow> bool) \<Rightarrow> nat \<Rightarrow> (u64, nat) fmap \<Rightarrow> nat \<Rightarrow> bytes \<Rightarrow> pipeline_error + Frame list" where
  "readPipelineResponses codec ctx n positions k input =
     readPipelineLoop codec ctx n positions k (replicate k zeroFrame) {||} input"

definition RoundTrip ::
  "'w clientEnv \<Rightarrow> string \<Rightarrow> (nat \<Rightarrow> bool) \<Rightarrow> Frame list \<Rightarrow> 'w \<Rightarrow> 'w \<times> (pipeline_error + Frame list)" where
  "RoundTrip env host ctx frames w =
     (if frames = [] then (w, Inr [])
      else case pipelineFramePositions frames of
             Inl e \<Rightarrow> (w, Inl e)
           | Inr positions \<Rightarrow>
               (case writePipelineFrames env host ctx 0 frames w of
                  (w, Some e) \<Rightarrow> (w, Inl e)
                | (w, None) \<Rightarrow>
                    let (w, input) = ce_read env host w in
                    (w, readPipelineResponses (ce_codec env) ctx (length frames) positions
                          (length frames) input)))"

section \<open>A network of servers\<close>

record 'e peer =
  pe_server :: "'e Server"
  pe_turn :: nat
  pe_inbox :: bytes

type_synonym 'e cluster = "(string, 'e peer) fmap"

definition clusterDial :: "string \<Rightarrow> 'e cluster \<Rightarrow> dial_error + 'e cluster" where
  "clusterDial host w =
     (case fmlookup w host of
        None \<Rightarrow> Inl DialRefused
      | Some p \<Rightarrow> Inr (fmupd host (p\<lparr>pe_inbox := []\<rparr>) w))"

definition clusterWrite :: "string \<Rightarrow> 'e cluster writer" where
  "clusterWrite host w bs =
     (case fmlookup w host of
        None \<Rightarrow> (w, 0, True)
      | Some p \<Rightarrow> (fmupd host (p\<lparr>pe_inbox := pe_inbox p @ bs\<rparr>) w, length bs, False))"

text \<open>\<open>envs host turn n\<close> is what the server at \<open>host\<close> meets at the \<open>n\<close>-th frame of its \<open>turn\<close>-th connection.\<close>

definition clusterRead ::
  "Codec \<Rightarrow> (string \<Rightarrow> nat \<Rightarrow> nat \<Rightarrow> 'e serverEnv) \<Rightarrow> string \<Rightarrow> 'e cluster \<Rightarrow> 'e cluster \<times> bytes" where
  "clusterRead codec envs host w =
     (case fmlookup w host of
        None \<Rightarrow> (w, [])
      | Some p \<Rightarrow>
          let (s, out) = serveConn codec (envs host (pe_turn p)) 0 (pe_server p) (pe_inbox p) []
          in (fmupd host \<lparr>pe_server = s, pe_turn = Suc (pe_turn p), pe_inbox = []\<rparr> w, out))"

definition clusterEnv ::
  "Codec \<Rightarrow> (string \<Rightarrow> nat \<Rightarrow> nat \<Rightarrow> 'e serverEnv) \<Rightarrow> (bytes \<Rightarrow> ErrorBody option) \<Rightarrow> 'e cluster clientEnv" where
  "clusterEnv codec envs unmarshal =
     \<lparr>ce_codec = codec, ce_parseHost = (\<lambda>_. None), ce_dial = clusterDial, ce_write = clusterWrite,
       ce_read = clusterRead codec envs, ce_unmarshal = unmarshal\<rparr>"

end
