(* ===== verification/Migration_Executor.thy ===== *)
theory Migration_Executor
  imports Control_Service Tcp_Client
begin

text \<open>
  The migration executor of the control plane (\<open>control/migration_executor.go\<close>,
  \<open>migration_executor_batch.go\<close>): it claims tasks, sorts them into waves that share no node, and moves the
  range of each task: fence the source, export, import into the target, cut over in the control state,
  delete at the source, lift the fence. A task that was cut over before is only cleaned up.

  The client the executor calls is the record \<open>migrationRangeClient\<close>; \<open>tcpRangeClient\<close> is the one the
  service starts it with. The tasks of a wave run in goroutines of their own; they share no node and every
  change of the control state is one command, and the model runs them one after the other in the order
  \<open>mx_order\<close> gives. \<open>mx_text\<close> is the text of an error.
\<close>

record MigrationConfig =
  mc_Enabled :: bool
  mc_SweepInterval :: duration
  mc_TaskTimeout :: duration
  mc_RetryBackoff :: duration
  mc_MaxParallelTasks :: int

definition defaultMigrationSweepInterval :: duration where "defaultMigrationSweepInterval = 1000000000"
definition defaultMigrationTaskTimeout :: duration where "defaultMigrationTaskTimeout = 10000000000"
definition defaultMigrationRetryBackoff :: duration where "defaultMigrationRetryBackoff = 2000000000"
definition defaultMigrationMaxParallel :: int where "defaultMigrationMaxParallel = 1"

definition normalizeMigrationConfig :: "MigrationConfig \<Rightarrow> MigrationConfig" where
  "normalizeMigrationConfig cfg =
     (let cfg = (if mc_SweepInterval cfg \<le> 0 then cfg\<lparr>mc_SweepInterval := defaultMigrationSweepInterval\<rparr> else cfg);
          cfg = (if mc_TaskTimeout cfg \<le> 0 then cfg\<lparr>mc_TaskTimeout := defaultMigrationTaskTimeout\<rparr> else cfg);
          cfg = (if mc_RetryBackoff cfg \<le> 0 then cfg\<lparr>mc_RetryBackoff := defaultMigrationRetryBackoff\<rparr> else cfg);
          cfg = (if mc_MaxParallelTasks cfg \<le> 0
                 then cfg\<lparr>mc_MaxParallelTasks := defaultMigrationMaxParallel\<rparr> else cfg)
      in cfg)"

fun retryDelayLoop :: "duration \<Rightarrow> duration \<Rightarrow> nat \<Rightarrow> duration" where
  "retryDelayLoop timeout delay 0 = delay"
| "retryDelayLoop timeout delay (Suc n) =
     (let delay = int64_wrap (delay * 2) in
      if delay \<ge> timeout then timeout else retryDelayLoop timeout delay n)"

definition retryDelay :: "MigrationTaskBody \<Rightarrow> MigrationConfig \<Rightarrow> duration" where
  "retryDelay task cfg = retryDelayLoop (mc_TaskTimeout cfg) (mc_RetryBackoff cfg) (unat (mt_Attempts task))"

definition migrationRangeRequest :: "MigrationTaskBody \<Rightarrow> MigrationRangeRequest" where
  "migrationRangeRequest task =
     \<lparr>mr_Namespace = mt_Namespace task, mr_Space = mt_Space task, mr_VSlotStart = mt_VSlotStart task,
       mr_VSlotEnd = mt_VSlotEnd task, mr_RouteEpoch = mt_Revision task\<rparr>"

section \<open>Moving one range\<close>

datatype migration_error =
    FenceFailed client_error
  | ExportFailed client_error
  | ImportFailed client_error
  | CutoverFailed service_error
  | DeleteFailed client_error
  | UnfenceFailed client_error
  | CleanupFailed client_error client_error
  | TaskTimedOut

record 'w migrationRangeClient =
  xc_FenceRange :: "string \<Rightarrow> MigrationRangeRequest \<Rightarrow> 'w \<Rightarrow> 'w \<times> (client_error + bool)"
  xc_UnfenceRange :: "string \<Rightarrow> MigrationRangeRequest \<Rightarrow> 'w \<Rightarrow> 'w \<times> (client_error + bool)"
  xc_ExportRange :: "string \<Rightarrow> MigrationRangeRequest \<Rightarrow> 'w \<Rightarrow> 'w \<times> (client_error + MigrationSnapshot)"
  xc_ImportSnapshot :: "string \<Rightarrow> MigrationSnapshot \<Rightarrow> 'w \<Rightarrow> 'w \<times> (client_error + u64)"
  xc_DeleteRange :: "string \<Rightarrow> MigrationRangeRequest \<Rightarrow> 'w \<Rightarrow> 'w \<times> (client_error + u64)"

definition tcpRangeClient :: "'w clientEnv \<Rightarrow> 'w tcpClient migrationRangeClient" where
  "tcpRangeClient env =
     \<lparr>xc_FenceRange = ClientFenceRange env, xc_UnfenceRange = ClientUnfenceRange env,
       xc_ExportRange = ClientExportRange env, xc_ImportSnapshot = ClientImportSnapshot env,
       xc_DeleteRange = ClientDeleteRange env\<rparr>"

record 'w Executor =
  ex_state :: ControlState
  ex_calls :: nat
  ex_net :: 'w

text \<open>\<open>ex_calls\<close> counts the commands so far: \<open>svc n\<close> is what the \<open>n\<close>-th of them meets.\<close>

type_synonym 'w migration = "'w Executor \<Rightarrow> 'w Executor \<times> u64 \<times> u64 \<times> migration_error option"

definition onNet :: "('w \<Rightarrow> 'w \<times> 'a) \<Rightarrow> 'w Executor \<Rightarrow> 'w Executor \<times> 'a" where
  "onNet f x = (let (w, r) = f (ex_net x) in (x\<lparr>ex_net := w\<rparr>, r))"

definition onState ::
  "(nat \<Rightarrow> serviceEnv) \<Rightarrow> (serviceEnv \<Rightarrow> ControlState \<Rightarrow> ControlState \<times> 'a) \<Rightarrow> 'w Executor \<Rightarrow> 'w Executor \<times> 'a" where
  "onState svc f x =
     (let (s, r) = f (svc (ex_calls x)) (ex_state x) in (x\<lparr>ex_state := s, ex_calls := Suc (ex_calls x)\<rparr>, r))"

definition deleteMigrationSource ::
  "'w migrationRangeClient \<Rightarrow> MigrationTaskBody \<Rightarrow> MigrationRangeRequest \<Rightarrow> 'w Executor \<Rightarrow>
     'w Executor \<times> (client_error + u64)" where
  "deleteMigrationSource client task request = onNet (xc_DeleteRange client (mt_SourceAddr task) request)"

definition unfenceMigrationSource ::
  "'w migrationRangeClient \<Rightarrow> MigrationTaskBody \<Rightarrow> MigrationRangeRequest \<Rightarrow> 'w Executor \<Rightarrow>
     'w Executor \<times> client_error option" where
  "unfenceMigrationSource client task request x =
     (case onNet (xc_UnfenceRange client (mt_SourceAddr task) request) x of
        (x, Inl e) \<Rightarrow> (x, Some e)
      | (x, Inr _) \<Rightarrow> (x, None))"

definition migrationCleanupResult ::
  "u64 \<Rightarrow> u64 \<Rightarrow> client_error option \<Rightarrow> client_error option \<Rightarrow> u64 \<times> u64 \<times> migration_error option" where
  "migrationCleanupResult imported deleted deleteErr unfenceErr =
     (case (deleteErr, unfenceErr) of
        (Some d, Some u) \<Rightarrow> (imported, deleted, Some (CleanupFailed d u))
      | (Some d, None) \<Rightarrow> (imported, deleted, Some (DeleteFailed d))
      | (None, Some u) \<Rightarrow> (imported, deleted, Some (UnfenceFailed u))
      | (None, None) \<Rightarrow> (imported, deleted, None))"

definition cleanupMigratedRange ::
  "'w migrationRangeClient \<Rightarrow> MigrationTaskBody \<Rightarrow> MigrationRangeRequest \<Rightarrow> 'w migration" where
  "cleanupMigratedRange client task request x =
     (let (x, del) = deleteMigrationSource client task request x;
          deleted = (case del of Inl _ \<Rightarrow> 0 | Inr n \<Rightarrow> n);
          deleteErr = (case del of Inl e \<Rightarrow> Some e | Inr _ \<Rightarrow> None);
          (x, unfenceErr) = unfenceMigrationSource client task request x
      in (x, migrationCleanupResult (mt_ImportedEntries task) deleted deleteErr unfenceErr))"

definition migrateRangeToTarget ::
  "(nat \<Rightarrow> serviceEnv) \<Rightarrow> 'w migrationRangeClient \<Rightarrow> MigrationTaskBody \<Rightarrow> MigrationRangeRequest \<Rightarrow> 'w migration" where
  "migrateRangeToTarget svc client task request x =
     (case onNet (xc_FenceRange client (mt_SourceAddr task) request) x of
        (x, Inl e) \<Rightarrow> (x, 0, 0, Some (FenceFailed e))
      | (x, Inr _) \<Rightarrow>
          (case onNet (xc_ExportRange client (mt_SourceAddr task) request) x of
             (x, Inl e) \<Rightarrow> (x, 0, 0, Some (ExportFailed e))
           | (x, Inr snapshot) \<Rightarrow>
               (case onNet (xc_ImportSnapshot client (mt_TargetAddr task) snapshot) x of
                  (x, Inl e) \<Rightarrow> (x, 0, 0, Some (ImportFailed e))
                | (x, Inr imported) \<Rightarrow>
                    (case onState svc (\<lambda>env. cutoverMigrationTask env task imported) x of
                       (x, Some e) \<Rightarrow> (x, imported, 0, Some (CutoverFailed e))
                     | (x, None) \<Rightarrow>
                         (case deleteMigrationSource client task request x of
                            (x, Inl e) \<Rightarrow> (x, imported, 0, Some (DeleteFailed e))
                          | (x, Inr deleted) \<Rightarrow>
                              (case unfenceMigrationSource client task request x of
                                 (x, Some e) \<Rightarrow> (x, imported, deleted, Some (UnfenceFailed e))
                               | (x, None) \<Rightarrow> (x, imported, deleted, None)))))))"

definition migrateRange ::
  "(nat \<Rightarrow> serviceEnv) \<Rightarrow> 'w migrationRangeClient \<Rightarrow> MigrationTaskBody \<Rightarrow> 'w migration" where
  "migrateRange svc client task x =
     (let request = migrationRangeRequest task in
      if mt_CutoverAtUnix task > 0 then cleanupMigratedRange client task request x
      else migrateRangeToTarget svc client task request x)"

section \<open>Waves\<close>

definition appendMigrationTaskNodeKey :: "string list \<Rightarrow> string \<Rightarrow> string \<Rightarrow> string \<Rightarrow> string list" where
  "appendMigrationTaskNodeKey keys nodeID addr role =
     (if nodeID \<noteq> [] then keys @ [''node:'' @ nodeID]
      else if addr \<noteq> [] then keys @ [''addr:'' @ addr]
      else keys @ [''unknown:'' @ role])"

definition migrationTaskNodeKeys :: "MigrationTaskBody \<Rightarrow> string list" where
  "migrationTaskNodeKeys task =
     (let keys = appendMigrationTaskNodeKey [] (mt_SourceNodeID task) (mt_SourceAddr task) ''source''
      in appendMigrationTaskNodeKey keys (mt_TargetNodeID task) (mt_TargetAddr task) ''target'')"

definition migrationTaskNodeConflict :: "string fset \<Rightarrow> MigrationTaskBody \<Rightarrow> bool" where
  "migrationTaskNodeConflict used task = list_ex (\<lambda>node. node |\<in>| used) (migrationTaskNodeKeys task)"

definition recordMigrationTaskNodes :: "string fset \<Rightarrow> MigrationTaskBody \<Rightarrow> string fset" where
  "recordMigrationTaskNodes used task = foldl (\<lambda>used node. finsert node used) used (migrationTaskNodeKeys task)"

fun migrationTaskWaveIndex :: "string fset list \<Rightarrow> MigrationTaskBody \<Rightarrow> nat" where
  "migrationTaskWaveIndex [] task = 0"
| "migrationTaskWaveIndex (used # usedNodes) task =
     (if \<not> migrationTaskNodeConflict used task then 0 else Suc (migrationTaskWaveIndex usedNodes task))"

fun wavesLoop ::
  "MigrationTaskBody list list \<Rightarrow> string fset list \<Rightarrow> MigrationTaskBody list \<Rightarrow> MigrationTaskBody list list" where
  "wavesLoop waves usedNodes [] = waves"
| "wavesLoop waves usedNodes (task # tasks) =
     (let i = migrationTaskWaveIndex usedNodes task;
          (waves, usedNodes) = (if i = length waves then (waves @ [[]], usedNodes @ [{||}]) else (waves, usedNodes))
      in wavesLoop (waves[i := waves ! i @ [task]])
           (usedNodes[i := recordMigrationTaskNodes (usedNodes ! i) task]) tasks)"

definition migrationTaskWaves :: "MigrationTaskBody list \<Rightarrow> MigrationTaskBody list list" where
  "migrationTaskWaves tasks = wavesLoop [] [] tasks"

section \<open>The sweep\<close>

record 'w migrationEnv =
  mx_svc :: "nat \<Rightarrow> serviceEnv"
  mx_client :: "'w migrationRangeClient"
  mx_order :: "MigrationTaskBody list \<Rightarrow> MigrationTaskBody list"
  mx_text :: "migration_error \<Rightarrow> string"

definition migrationTaskConcurrency :: "MigrationConfig \<Rightarrow> int" where
  "migrationTaskConcurrency cfg =
     (if mc_MaxParallelTasks cfg \<le> 0 then defaultMigrationMaxParallel else mc_MaxParallelTasks cfg)"

definition executeClaimedMigrationTask ::
  "'w migrationEnv \<Rightarrow> MigrationConfig \<Rightarrow> MigrationTaskBody \<Rightarrow> 'w Executor \<Rightarrow> 'w Executor" where
  "executeClaimedMigrationTask mx cfg task x =
     (case migrateRange (mx_svc mx) (mx_client mx) task x of
        (x, _, _, Some err) \<Rightarrow>
          fst (onState (mx_svc mx) (\<lambda>env. failMigrationTask env task (retryDelay task cfg) (mx_text mx err)) x)
      | (x, imported, deleted, None) \<Rightarrow>
          fst (onState (mx_svc mx) (\<lambda>env. completeMigrationTask env task imported deleted) x))"

definition executeMigrationTaskWave ::
  "'w migrationEnv \<Rightarrow> MigrationConfig \<Rightarrow> MigrationTaskBody list \<Rightarrow> 'w Executor \<Rightarrow> 'w Executor" where
  "executeMigrationTaskWave mx cfg tasks x =
     foldl (\<lambda>x task. executeClaimedMigrationTask mx cfg task x) x (mx_order mx tasks)"

definition executeClaimedMigrationTaskBatch ::
  "'w migrationEnv \<Rightarrow> MigrationConfig \<Rightarrow> MigrationTaskBody list \<Rightarrow> 'w Executor \<Rightarrow> 'w Executor" where
  "executeClaimedMigrationTaskBatch mx cfg tasks x =
     foldl (\<lambda>x wave. executeMigrationTaskWave mx cfg wave x) x (migrationTaskWaves tasks)"

fun claimBatchLoop ::
  "'w migrationEnv \<Rightarrow> nat \<Rightarrow> MigrationTaskBody list \<Rightarrow> 'w Executor \<Rightarrow>
     'w Executor \<times> MigrationTaskBody list \<times> bool" where
  "claimBatchLoop mx 0 tasks x = (x, tasks, True)"
| "claimBatchLoop mx (Suc n) tasks x =
     (case onState (mx_svc mx) claimMigrationTask x of
        (x, Inl e) \<Rightarrow> (x, tasks, False)
      | (x, Inr result) \<Rightarrow>
          if \<not> mr_Claimed result then (x, tasks, True)
          else claimBatchLoop mx n (tasks @ [mr_Task result]) x)"

definition claimMigrationTaskBatch ::
  "'w migrationEnv \<Rightarrow> MigrationConfig \<Rightarrow> 'w Executor \<Rightarrow> 'w Executor \<times> MigrationTaskBody list \<times> bool" where
  "claimMigrationTaskBatch mx cfg x = claimBatchLoop mx (nat (migrationTaskConcurrency cfg)) [] x"

definition reapTimedOutMigrationTasks ::
  "'w migrationEnv \<Rightarrow> MigrationConfig \<Rightarrow> gotime \<Rightarrow> 'w Executor \<Rightarrow> 'w Executor" where
  "reapTimedOutMigrationTasks mx cfg now x =
     foldl (\<lambda>x task. fst (onState (mx_svc mx)
         (\<lambda>env. failMigrationTask env task (retryDelay task cfg) (mx_text mx TaskTimedOut)) x))
       x (timedOutMigrationTasks (ex_state x) now (mc_TaskTimeout cfg))"

text \<open>The loop of one sweep: it ends only when a round claims less than it may, so it may not end.\<close>

partial_function (option) claimRounds ::
  "'w migrationEnv \<Rightarrow> MigrationConfig \<Rightarrow> 'w Executor \<Rightarrow> 'w Executor option" where
  "claimRounds mx cfg x =
     (case claimMigrationTaskBatch mx cfg x of
        (x, tasks, keepClaiming) \<Rightarrow>
          if tasks = [] then Some x
          else
            let x = executeClaimedMigrationTaskBatch mx cfg tasks x in
            if \<not> keepClaiming \<or> int (length tasks) < migrationTaskConcurrency cfg then Some x
            else claimRounds mx cfg x)"

definition executePendingMigrationTasks ::
  "'w migrationEnv \<Rightarrow> MigrationConfig \<Rightarrow> gotime \<Rightarrow> 'w Executor \<Rightarrow> 'w Executor option" where
  "executePendingMigrationTasks mx cfg now x = claimRounds mx cfg (reapTimedOutMigrationTasks mx cfg now x)"

end
