(* ===== verification/Tcp_Laws.thy ===== *)
theory Tcp_Laws
  imports Tcp_Client Cache_Quota Engine_Transfer
begin

text \<open>
  Lemmas on the TCP server and the TCP client: every answer carries the header of its request; every
  handler keeps what the engine's operations keep; a fenced or stale request changes nothing; a
  connection answers its frames in order. The interface \<open>frame_service\<close> is what a call relies on in the
  network between client and server, and \<open>cluster\<close> interprets it.
\<close>

section \<open>Answers\<close>

definition answers :: "Frame \<Rightarrow> Frame \<Rightarrow> bool" where
  "answers frame a \<longleftrightarrow> fr_Op a = fr_Op frame \<and> fr_RequestID a = fr_RequestID frame \<and>
     fr_RouteEpoch a = fr_RouteEpoch frame \<and>
     (fr_Flags a = FlagResponse \<or> fr_Flags a = FlagResponse OR FlagError \<and> fr_Payload a = [])"

lemma answer_frames [simp]:
  "answers frame (metadataFrame frame meta payload)" "answers frame (errorFrame env frame code err)"
  "answers frame (cacheErrorFrame env frame cerr)" "answers frame (recordFrame frame rec found)"
  by (simp_all add: answers_def metadataFrame_def errorFrame_def cacheErrorFrame_def recordFrame_def)

lemmas single_handlers = handleSet_def handleGet_def handleDelete_def handleExists_def handleTouch_def
  handleAdjust_def handlePrimitive_def
lemmas batch_handlers = handleBatchSet_def handleBatchGet_def handleBatchDelete_def
  handleBatchExists_def handleBatchTouch_def handleBatchPrimitive_def
lemmas range_handlers = handleExportRange_def handleImportSnapshot_def handleDeleteRange_def
  handleFenceRange_def handleUnfenceRange_def handleUnsupportedFrame_def

lemma single_answers:
  "answers frame (snd (handleSet env s frame))" "answers frame (snd (handleGet env s frame))"
  "answers frame (snd (handleDelete env s frame))" "answers frame (snd (handleExists env s frame))"
  "answers frame (snd (handleTouch env s frame))" "answers frame (snd (handleAdjust env s frame))"
  "answers frame (snd (handlePrimitive env s frame))"
  by (simp_all add: single_handlers badFrame_def Let_def split: sum.split prod.split)

lemma batch_answers:
  "answers frame (snd (handleBatchSet env s frame))" "answers frame (snd (handleBatchGet env s frame))"
  "answers frame (snd (handleBatchDelete env s frame))" "answers frame (snd (handleBatchExists env s frame))"
  "answers frame (snd (handleBatchTouch env s frame))" "answers frame (snd (handleBatchPrimitive env s frame))"
  by (simp_all add: batch_handlers badFrame_def Let_def split: sum.split prod.split option.split)

lemma range_answers:
  "answers frame (snd (handleExportRange env s frame))" "answers frame (snd (handleImportSnapshot env s frame))"
  "answers frame (snd (handleDeleteRange env s frame))" "answers frame (snd (handleFenceRange env s frame))"
  "answers frame (snd (handleUnfenceRange env s frame))" "answers frame (snd (handleUnsupportedFrame env s frame))"
  by (simp_all add: range_handlers badFrame_def split: sum.split prod.split)

lemma handler_mem:
  "map_of cacheHandlers op = Some h \<Longrightarrow> (op, h) \<in> set cacheHandlers"
  by (rule map_of_SomeD)

lemma dispatch_answers: "answers frame (snd (dispatchFrame env s frame))"
proof (cases "map_of cacheHandlers (fr_Op frame) :: 'a handler option")
  case (Some h)
  then have "(fr_Op frame, h) \<in> set cacheHandlers" by (rule handler_mem)
  then have "answers frame (snd (h env s frame))"
    by (auto simp: cacheHandlers_def single_answers batch_answers range_answers)
  with Some show ?thesis by (simp add: dispatchFrame_def)
qed (simp add: dispatchFrame_def)

lemma handle_answers: "answers frame (snd (handleFrame env s frame))"
  by (simp add: handleFrame_def dispatch_answers split: prod.split sum.split bool.split)

section \<open>What the handlers keep\<close>

lemma srvReplicate_engine [simp]:
  "srv_engine (srvEnqueue env s target command) = srv_engine s"
  "srv_fences (srvEnqueue env s target command) = srv_fences s"
  by (simp_all add: srvEnqueue_def)

lemma foldl_keeps: "(\<And>s x. f (g s x) = f s) \<Longrightarrow> f (foldl g s xs) = f s"
  by (induction xs arbitrary: s) simp_all

lemma replicate_engine [simp]:
  "srv_engine (srvReplicate env s key command) = srv_engine s"
  "srv_fences (srvReplicate env s key command) = srv_fences s"
  "srv_engine (replicateBatch env keyOf mk s items) = srv_engine s"
  "srv_fences (replicateBatch env keyOf mk s items) = srv_fences s"
  by (auto simp: srvReplicate_def replicateBatch_def Let_def intro!: foldl_keeps split: option.split)

lemmas replicate_defs = replicateSet_def replicateDelete_def replicateTouch_def replicateAdjust_def
  replicatePrimitive_def replicateBatchSet_def replicateBatchDelete_def replicateBatchTouch_def
  replicateBatchPrimitive_def

text \<open>The engine a handler leaves is the one its call of the service leaves.\<close>

lemma single_engine:
  "srv_engine (fst (handleSet env s frame)) = (case DecodeSetRequest (fr_Metadata frame) of
     Inl e \<Rightarrow> srv_engine s
   | Inr r \<Rightarrow> fst (setLocked (se_ops env) (se_quota env) (se_calls env) (srv_engine s)
       (keyFromWire (sr_Key r)) (fr_Payload frame) (setOptionsFromWire r)))"
  "srv_engine (fst (handleGet env s frame)) = (case DecodeGetRequest (fr_Metadata frame) of
     Inl e \<Rightarrow> srv_engine s
   | Inr r \<Rightarrow> fst (getLocked (se_ops env) (se_calls env) (srv_engine s) (keyFromWire (gr_Key r))
       \<lparr>go_NamespaceVersion = gr_NamespaceVersion r, go_SpaceVersion = gr_SpaceVersion r\<rparr>))"
  "srv_engine (fst (handleDelete env s frame)) = (case DecodeDeleteRequest (fr_Metadata frame) of
     Inl e \<Rightarrow> srv_engine s
   | Inr r \<Rightarrow> fst (deleteLocked (se_ops env) (se_calls env) (srv_engine s) (keyFromWire (dr_Key r))
       \<lparr>do_ExpectedVersion = dr_ExpectedVersion r\<rparr>))"
  "srv_engine (fst (handleExists env s frame)) = (case DecodeExistsRequest (fr_Metadata frame) of
     Inl e \<Rightarrow> srv_engine s
   | Inr r \<Rightarrow> fst (existsLocked (se_ops env) (se_calls env) (srv_engine s) (keyFromWire (xr_Key r))
       (getOptionsFromExists r)))"
  "srv_engine (fst (handleTouch env s frame)) = (case DecodeTouchRequest (fr_Metadata frame) of
     Inl e \<Rightarrow> srv_engine s
   | Inr r \<Rightarrow> fst (touchLocked (se_ops env) (se_calls env) (srv_engine s) (keyFromWire (tr_Key r))
       (touchOptionsFromWire r)))"
  "srv_engine (fst (handleAdjust env s frame)) = (case DecodeAdjustRequest (fr_Metadata frame) of
     Inl e \<Rightarrow> srv_engine s
   | Inr r \<Rightarrow> fst (adjustLocked (se_ops env) (se_quota env) (se_calls env) (srv_engine s)
       (keyFromWire (ar_Key r)) (adjustOptionsFromWire r)))"
  "srv_engine (fst (handlePrimitive env s frame)) =
     (case DecodePrimitiveRequest (fr_Metadata frame) (fr_Payload frame) of
        Inl e \<Rightarrow> srv_engine s
      | Inr r \<Rightarrow> fst (primitiveLocked (se_ops env) (se_quota env) (se_calls env) (srv_engine s)
          (primitiveRequestFromWire r)))"
  by (simp_all add: single_handlers badFrame_def Let_def replicate_defs split: sum.split prod.split)

lemma batch_engine:
  "srv_engine (fst (handleBatchSet env s frame)) =
     (case DecodeBatchSetRequest (fr_Metadata frame) (fr_Payload frame) of
        Inl e \<Rightarrow> srv_engine s
      | Inr r \<Rightarrow> fst (batchSetLocked (se_ops env) (se_quota env) (se_calls env) (srv_engine s)
          (batchSetRequests (bs_Items r))))"
  "srv_engine (fst (handleBatchGet env s frame)) = (case DecodeBatchGetRequest (fr_Metadata frame) of
     Inl e \<Rightarrow> srv_engine s
   | Inr r \<Rightarrow> fst (batchGetLocked (se_ops env) (se_calls env) (srv_engine s) (batchGetRequests (bg_Items r))))"
  "srv_engine (fst (handleBatchDelete env s frame)) = (case DecodeBatchDeleteRequest (fr_Metadata frame) of
     Inl e \<Rightarrow> srv_engine s
   | Inr r \<Rightarrow> fst (batchDeleteLocked (se_ops env) (se_calls env) (srv_engine s)
       (batchDeleteRequests (bd_Items r))))"
  "srv_engine (fst (handleBatchExists env s frame)) = (case DecodeBatchExistsRequest (fr_Metadata frame) of
     Inl e \<Rightarrow> srv_engine s
   | Inr r \<Rightarrow> fst (batchExistsLocked (se_ops env) (se_calls env) (srv_engine s)
       (batchExistsRequests (bx_Items r))))"
  "srv_engine (fst (handleBatchTouch env s frame)) = (case DecodeBatchTouchRequest (fr_Metadata frame) of
     Inl e \<Rightarrow> srv_engine s
   | Inr r \<Rightarrow> fst (batchTouchLocked (se_ops env) (se_calls env) (srv_engine s)
       (batchTouchRequests (bt_Items r))))"
  "srv_engine (fst (handleBatchPrimitive env s frame)) =
     (case DecodeBatchPrimitiveRequest (fr_Metadata frame) (fr_Payload frame) of
        Inl e \<Rightarrow> srv_engine s
      | Inr r \<Rightarrow> fst (batchPrimitiveLocked (se_ops env) (se_quota env) (se_calls env) (srv_engine s)
          (primitiveRequestsFromWire (bp_Items r))))"
  by (simp_all add: batch_handlers badFrame_def Let_def replicate_defs split: sum.split prod.split option.split)

lemma range_engine:
  "srv_engine (fst (handleExportRange env s frame)) = (case DecodeMigrationRangeRequest (fr_Metadata frame) of
     Inl e \<Rightarrow> srv_engine s
   | Inr r \<Rightarrow> fst (exportLocked (se_ops env) (se_calls env) (srv_engine s) (rangeFromWire r)))"
  "srv_engine (fst (handleImportSnapshot env s frame)) =
     (case DecodeMigrationSnapshot (fr_Metadata frame) (fr_Payload frame) of
        Inl e \<Rightarrow> srv_engine s
      | Inr r \<Rightarrow> fst (importLocked (se_ops env) (se_calls env) (srv_engine s) (snapshotFromWire r)))"
  "srv_engine (fst (handleDeleteRange env s frame)) = (case DecodeMigrationRangeRequest (fr_Metadata frame) of
     Inl e \<Rightarrow> srv_engine s
   | Inr r \<Rightarrow> fst (deleteRangeLocked (se_ops env) (se_calls env) (srv_engine s) (rangeFromWire r)))"
  "srv_engine (fst (handleFenceRange env s frame)) = srv_engine s"
  "srv_engine (fst (handleUnfenceRange env s frame)) = srv_engine s"
  "srv_engine (fst (handleUnsupportedFrame env s frame)) = srv_engine s"
  by (simp_all add: range_handlers badFrame_def split: sum.split prod.split)

lemmas handler_engine = single_engine batch_engine range_engine

context engine_keeps
begin

lemma dispatch_keeps:
  assumes "se_ops env = ops" and "inv (srv_engine s)"
  shows "inv (srv_engine (fst (dispatchFrame env s frame)))"
proof (cases "map_of cacheHandlers (fr_Op frame) :: 'e handler option")
  case (Some h)
  note locked_keeps [OF assms(2), simp] batch_keeps [OF assms(2), simp]
  have "(fr_Op frame, h) \<in> set cacheHandlers" using Some by (rule handler_mem)
  then have "inv (srv_engine (fst (h env s frame)))"
    by (auto simp: cacheHandlers_def handler_engine assms split: sum.split)
  with Some show ?thesis by (simp add: dispatchFrame_def)
qed (simp add: dispatchFrame_def assms)

lemma handle_keeps:
  assumes "se_ops env = ops" and "inv (srv_engine s)"
  shows "inv (srv_engine (fst (handleFrame env s frame)))"
  by (simp add: handleFrame_def dispatch_keeps assms split: prod.split sum.split bool.split)

end

interpretation tcp: state_machine "\<lambda>s (env, frame). handleFrame (env\<lparr>se_ops := memoryOps d\<rparr>) s frame"
    "\<lambda>s. deps_ok d \<and> engine_inv (srv_engine s)" "\<lambda>_. True" for d
  using memory_keeps.handle_keeps [of _ d] by unfold_locales (auto simp: split_beta)

section \<open>Fences and epochs\<close>

lemma fences_of_handlers:
  assumes "op \<noteq> OpNodeFenceRange" and "op \<noteq> OpNodeUnfenceRange"
    and "map_of cacheHandlers op = Some h"
  shows "srv_fences (fst (h env s frame)) = srv_fences s"
proof -
  have "(op, h) \<in> set cacheHandlers" using assms(3) by (rule handler_mem)
  then show ?thesis using assms(1,2)
    by (auto simp: cacheHandlers_def single_handlers batch_handlers range_handlers badFrame_def Let_def
        replicate_defs split: sum.split prod.split option.split)
qed

lemma sameRangeFence_eq [simp]: "sameRangeFence r f \<longleftrightarrow> r = f"
  by (cases r; cases f) (auto simp: sameRangeFence_def)

lemma mem_fenceAdd:
  "fencesContainKey (fenceAdd fs f) key \<longleftrightarrow> keyInRangeFence key f \<or> fencesContainKey fs key"
  by (auto simp: fenceAdd_def fencesContainKey_def list_ex_iff)

lemma fence_add_remove: "f \<notin> set fs \<Longrightarrow> fenceRemove (fenceAdd fs f) f = fs"
  by (auto simp: fenceAdd_def fenceRemove_def list_ex_iff intro!: filter_True)

text \<open>The epoch a request must carry not to be refused as stale.\<close>

lemma staleRoute_iff:
  "fst (staleRoute env n) \<longleftrightarrow> n \<noteq> 0 \<and> (\<exists>m. se_epoch env = Some m \<and> n < m)"
  by (auto simp: staleRoute_def word_gt_0 split: option.split) 

lemma stale_unchanged:
  assumes "n \<noteq> 0" and "se_epoch env = Some m" and "n < m" and "fr_RouteEpoch frame = n"
  shows "handleFrame env s frame = (s, errorFrame env frame ErrorNoRoute (StaleRoute n m))"
proof -
  have "0 < m" using assms(3) by (simp add: word_less_nat_alt)
  with assms show ?thesis by (simp add: handleFrame_def staleRoute_def)
qed

lemma fenced_unchanged:
  assumes "\<not> fst (staleRoute env (fr_RouteEpoch frame))" and "cacheOpCanMutate (fr_Op frame)"
    and "mutationKeys frame = Inr keys" and "key \<in> set keys" and "fencesContainKey (srv_fences s) key"
  shows "handleFrame env s frame = (s, errorFrame env frame ErrorNoRoute (FencedRange (fr_Op frame)))"
proof -
  have "srv_fences s \<noteq> []" using assms(5) by (auto simp: fencesContainKey_def)
  then have "fencedMutation s frame = Inr True"
    using assms(2-5) by (auto simp: fencedMutation_def list_ex_iff)
  with assms(1) show ?thesis by (auto simp: handleFrame_def split: prod.split bool.split)
qed

lemma free_dispatched:
  assumes "\<not> fst (staleRoute env (fr_RouteEpoch frame))" and "srv_fences s = [] \<or> \<not> cacheOpCanMutate (fr_Op frame)"
  shows "handleFrame env s frame = dispatchFrame env s frame"
  using assms by (auto simp: handleFrame_def fencedMutation_def split: prod.split bool.split)

section \<open>Connections\<close>

fun serveFrames :: "(nat \<Rightarrow> 'e serverEnv) \<Rightarrow> nat \<Rightarrow> 'e Server \<Rightarrow> Frame list \<Rightarrow> 'e Server \<times> Frame list" where
  "serveFrames env n s [] = (s, [])"
| "serveFrames env n s (f # fs) =
     (let (s, a) = handleFrame (env n) s f; (s, as) = serveFrames env (Suc n) s fs in (s, a # as))"

lemma DecodeFrame_Nil [simp]: "DecodeFrame c [] = Inl ErrReadHeader"
  by (simp add: DecodeFrame_def readHeader_def ReadFull_def FixedHeaderSize_def)

lemma length_serveFrames: "length (snd (serveFrames env n s fs)) = length fs"
  by (induction fs arbitrary: n s) (simp_all add: split_beta Let_def)

lemma serveConn_frames:
  assumes "list_all (frame_ok c) fs" and "serveFrames env n s fs = (s', as)" and "list_all (frame_ok c) as"
  shows "serveConn c env n s (concat (map frame_bytes fs)) out = (s', out @ concat (map frame_bytes as))"
  using assms
proof (induction fs arbitrary: n s as out)
  case Nil
  then show ?case by (simp add: serveConn.simps)
next
  case (Cons f fs)
  obtain s1 a where a: "handleFrame (env n) s f = (s1, a)" by fastforce
  obtain as' where as: "serveFrames env (Suc n) s1 fs = (s', as')" "as = a # as'"
    using Cons.prems(2) a by (auto split: prod.splits)
  with Cons.prems have "frame_ok c f" "list_all (frame_ok c) fs" "frame_ok c a" "list_all (frame_ok c) as'"
    by simp_all
  with Cons.IH [of "Suc n" s1 as'] as a show ?case
    by (simp add: serveConn.simps [of c env n s] DecodeFrame_bytes EncodeFrame_buffer)
qed

lemma serveFrames_answers:
  "serveFrames env n s fs = (s', as) \<Longrightarrow> list_all2 answers fs as"
proof (induction fs arbitrary: n s as)
  case (Cons f fs)
  then show ?case using handle_answers [of f "env n" s]
    by (fastforce simp: Let_def split: prod.splits)
qed simp

text \<open>A writer that appends to a buffer inside a larger state writes a frame as the buffer does.\<close>

lemma EncodeFrame_through:
  assumes "\<And>b p. wr (g b) p = (g (b @ p), length p, False)"
  shows "EncodeFrame c wr (g b) f =
    (g (fst (EncodeFrame c buffer_write b f)), snd (EncodeFrame c buffer_write b f))"
proof -
  have w: "writeFull wr (g b) p = (g (b @ p), None)" for b p
    by (simp add: writeFull_def assms)
  have b: "writeFull buffer_write b p = (b @ p, None)" for b p
    by (simp add: writeFull_def buffer_write_def)
  show ?thesis
    by (auto simp: EncodeFrame_def w b split: sum.split option.split prod.split)
qed

section \<open>Calls over a network\<close>

abbreviation requestFrame :: "u16 \<Rightarrow> u64 \<Rightarrow> u64 \<Rightarrow> bytes \<Rightarrow> bytes \<Rightarrow> Frame" where
  "requestFrame op n epoch meta payload \<equiv>
     \<lparr>fr_Flags = 0, fr_Op = op, fr_RequestID = n, fr_RouteEpoch = epoch, fr_Metadata = meta, fr_Payload = payload\<rparr>"

locale frame_service =
  fixes env :: "'w clientEnv"
    and host :: string
    and up :: "'w \<Rightarrow> bool"
    and serve :: "'w \<Rightarrow> Frame \<Rightarrow> 'w \<times> Frame"
  assumes exchange: "up w \<Longrightarrow> frame_ok (ce_codec env) f \<Longrightarrow> serve w f = (w', a) \<Longrightarrow>
      frame_ok (ce_codec env) a \<Longrightarrow>
      \<exists>w1 w2. ce_dial env host w = Inr w1 \<and>
        EncodeFrame (ce_codec env) (ce_write env host) w1 f = (w2, None) \<and>
        ce_read env host w2 = (w', frame_bytes a)"
    and serve_answers: "up w \<Longrightarrow> answers f (snd (serve w f))"
begin

text \<open>A call whose frames fit the codec returns what the service answers.\<close>

lemma doCall_served:
  assumes "up (tc_net c)" and "normalizeAddr env addr = host"
    and "serve (tc_net c) (requestFrame op (tc_nextID c + 1) epoch meta payload) = (w, a)"
    and "frame_ok (ce_codec env) (requestFrame op (tc_nextID c + 1) epoch meta payload)"
    and "frame_ok (ce_codec env) a"
  shows "doCall env addr op epoch meta payload c =
    (\<lparr>tc_nextID = tc_nextID c + 1, tc_net = w\<rparr>,
     if fr_Flags a = FlagResponse then Inr a else Inl (decodeError env a))"
proof -
  obtain w1 w2 where "ce_dial env host (tc_net c) = Inr w1"
      "EncodeFrame (ce_codec env) (ce_write env host) w1 (requestFrame op (tc_nextID c + 1) epoch meta payload) = (w2, None)"
      "ce_read env host w2 = (w, frame_bytes a)"
    using exchange [OF assms(1) assms(4) assms(3) assms(5)] by blast
  moreover have "DecodeFrame (ce_codec env) (frame_bytes a) = Inr (a, [])"
    using DecodeFrame_bytes [OF assms(5), of "[]"] by simp
  moreover have "answers (requestFrame op (tc_nextID c + 1) epoch meta payload) a"
    using serve_answers [OF assms(1)] assms(3) by (metis snd_conv)
  then have "fr_RequestID a = tc_nextID c + 1"
      "(fr_Flags a AND FlagError \<noteq> 0) = (fr_Flags a \<noteq> FlagResponse)"
    by (auto simp: answers_def FlagResponse_def FlagError_def)
  ultimately show ?thesis
    by (cases c) (simp add: doCall_def assms(2))
qed

end

definition clusterServe ::
  "(string \<Rightarrow> nat \<Rightarrow> nat \<Rightarrow> 'e serverEnv) \<Rightarrow> string \<Rightarrow> 'e cluster \<Rightarrow> Frame \<Rightarrow> 'e cluster \<times> Frame" where
  "clusterServe envs host w f =
     (case fmlookup w host of
        None \<Rightarrow> (w, f)
      | Some p \<Rightarrow>
          let (s, a) = handleFrame (envs host (pe_turn p) 0) (pe_server p) f
          in (fmupd host \<lparr>pe_server = s, pe_turn = Suc (pe_turn p), pe_inbox = []\<rparr> w, a))"

lemma clusterWrite_buffer:
  "EncodeFrame c (clusterWrite host) (fmupd host (p\<lparr>pe_inbox := b\<rparr>) w) f =
    (fmupd host (p\<lparr>pe_inbox := fst (EncodeFrame c buffer_write b f)\<rparr>) w, snd (EncodeFrame c buffer_write b f))"
  by (rule EncodeFrame_through [where g = "\<lambda>b. fmupd host (p\<lparr>pe_inbox := b\<rparr>) w"])
    (simp add: clusterWrite_def)

lemma serveConn_one:
  assumes "frame_ok c f" and "handleFrame (env 0) s f = (s', a)" and "frame_ok c a"
  shows "serveConn c env 0 s (frame_bytes f) [] = (s', frame_bytes a)"
  using serveConn_frames [of c "[f]" env 0 s s' "[a]" "[]"] assms by simp

interpretation cluster: frame_service "clusterEnv codec envs um" host
    "\<lambda>w. fmlookup w host \<noteq> None" "clusterServe envs host" for codec envs um host
proof unfold_locales
  fix w :: "'a cluster" and f w' a
  assume up: "fmlookup w host \<noteq> None" and f: "frame_ok (ce_codec (clusterEnv codec envs um)) f"
    and serve: "clusterServe envs host w f = (w', a)" and a: "frame_ok (ce_codec (clusterEnv codec envs um)) a"
  obtain p where p: "fmlookup w host = Some p" using up by blast
  let ?w = "\<lambda>b. fmupd host (p\<lparr>pe_inbox := b\<rparr>) w"
  have "clusterRead codec envs host (?w (frame_bytes f)) = (w', frame_bytes a)"
    using serve p f a serveConn_one [of codec f "envs host (pe_turn p)" "pe_server p"]
    by (auto simp: clusterRead_def clusterServe_def clusterEnv_def split: prod.splits)
  moreover have "EncodeFrame codec (clusterWrite host) (?w []) f = (?w (frame_bytes f), None)"
    using f by (simp add: clusterWrite_buffer EncodeFrame_buffer clusterEnv_def)
  ultimately show "\<exists>w1 w2. ce_dial (clusterEnv codec envs um) host w = Inr w1 \<and>
      EncodeFrame (ce_codec (clusterEnv codec envs um)) (ce_write (clusterEnv codec envs um) host) w1 f = (w2, None) \<and>
      ce_read (clusterEnv codec envs um) host w2 = (w', frame_bytes a)"
    using p by (intro exI [of _ "?w []"] exI [of _ "?w (frame_bytes f)"]) (simp add: clusterEnv_def clusterDial_def)
next
  fix w :: "'a cluster" and f
  assume "fmlookup w host \<noteq> None"
  then show "answers f (snd (clusterServe envs host w f))"
    by (auto simp: clusterServe_def split_beta Let_def handle_answers)
qed

text \<open>The state of a client after the server at \<open>host\<close> has answered it.\<close>

definition served :: "'e cluster tcpClient \<Rightarrow> string \<Rightarrow> 'e Server \<Rightarrow> 'e cluster tcpClient" where
  "served c host s =
     \<lparr>tc_nextID = tc_nextID c + 1,
       tc_net = fmupd host \<lparr>pe_server = s, pe_turn = Suc (pe_turn (the (fmlookup (tc_net c) host))), pe_inbox = []\<rparr>
         (tc_net c)\<rparr>"

definition envAt :: "(string \<Rightarrow> nat \<Rightarrow> nat \<Rightarrow> 'e serverEnv) \<Rightarrow> string \<Rightarrow> 'e cluster tcpClient \<Rightarrow> 'e serverEnv" where
  "envAt envs host c = envs host (pe_turn (the (fmlookup (tc_net c) host))) 0"

definition serverAt :: "'e cluster tcpClient \<Rightarrow> string \<Rightarrow> 'e Server option" where
  "serverAt c host = map_option pe_server (fmlookup (tc_net c) host)"

lemma serverAt_served: "serverAt (served c host s) h = (if h = host then Some s else serverAt c h)"
  by (simp add: serverAt_def served_def)

lemma remote_call:
  assumes "serverAt c (TrimSpace addr) = Some s"
    and "handleFrame (envAt envs (TrimSpace addr) c) s (requestFrame op (tc_nextID c + 1) epoch meta payload) = (s', a)"
    and "frame_ok codec (requestFrame op (tc_nextID c + 1) epoch meta payload)" and "frame_ok codec a"
  shows "doCall (clusterEnv codec envs um) addr op epoch meta payload c =
    (served c (TrimSpace addr) s',
     if fr_Flags a = FlagResponse then Inr a else Inl (decodeError (clusterEnv codec envs um) a))"
proof -
  obtain p where p: "fmlookup (tc_net c) (TrimSpace addr) = Some p" "pe_server p = s"
    using assms(1) by (auto simp: serverAt_def)
  have "normalizeAddr (clusterEnv codec envs um) addr = TrimSpace addr"
    by (simp add: normalizeAddr_def clusterEnv_def)
  moreover have "clusterServe envs (TrimSpace addr) (tc_net c) (requestFrame op (tc_nextID c + 1) epoch meta payload)
      = (tc_net (served c (TrimSpace addr) s'), a)"
    using assms(2) p by (simp add: clusterServe_def served_def envAt_def)
  moreover have "ce_codec (clusterEnv codec envs um) = codec" by (simp add: clusterEnv_def)
  ultimately show ?thesis
    using cluster.doCall_served [of c "TrimSpace addr" codec envs um addr op epoch meta payload] assms(3,4) p
    by (simp add: served_def)
qed

text \<open>A request whose epoch is current, to a server without fences, reaches its handler.\<close>

definition admits :: "'e serverEnv \<Rightarrow> 'e Server \<Rightarrow> u64 \<Rightarrow> bool" where
  "admits env s epoch \<longleftrightarrow> \<not> fst (staleRoute env epoch) \<and> srv_fences s = []"

lemma admits_dispatched:
  "admits env s (fr_RouteEpoch frame) \<Longrightarrow> handleFrame env s frame = dispatchFrame env s frame"
  by (rule free_dispatched) (simp_all add: admits_def)

lemma dispatch_ops:
  "fr_Op f = OpCacheSet \<Longrightarrow> dispatchFrame env s f = handleSet env s f"
  "fr_Op f = OpCacheGet \<Longrightarrow> dispatchFrame env s f = handleGet env s f"
  "fr_Op f = OpCacheDelete \<Longrightarrow> dispatchFrame env s f = handleDelete env s f"
  "fr_Op f = OpCachePrimitive \<Longrightarrow> dispatchFrame env s f = handlePrimitive env s f"
  "fr_Op f = OpNodeExportRange \<Longrightarrow> dispatchFrame env s f = handleExportRange env s f"
  "fr_Op f = OpNodeImportSnapshot \<Longrightarrow> dispatchFrame env s f = handleImportSnapshot env s f"
  "fr_Op f = OpNodeDeleteRange \<Longrightarrow> dispatchFrame env s f = handleDeleteRange env s f"
  "fr_Op f = OpNodeFenceRange \<Longrightarrow> dispatchFrame env s f = handleFenceRange env s f"
  "fr_Op f = OpNodeUnfenceRange \<Longrightarrow> dispatchFrame env s f = handleUnfenceRange env s f"
  by (simp_all add: dispatchFrame_def cacheHandlers_def op_codes)

lemma keyFromWire_id [simp]: "keyFromWire k = k"
  by (simp add: keyFromWire_def)

text \<open>What a record is when it arrives: what the server sent, the value from the payload.\<close>

lemma decodeRecord_frame:
  assumes "wireRecord (recordFromCache rec found)"
  shows "decodeRecord (recordFrame f rec found) = Inr (recordFromCache rec found)"
proof (cases found)
  case True
  then show ?thesis using decode_record [OF assms]
    by (simp add: decodeRecord_def recordFrame_def metadataFrame_def recordFromCache_def)
next
  case False
  then show ?thesis using decode_record [OF assms]
    by (simp add: decodeRecord_def recordFrame_def metadataFrame_def recordFromCache_def missRecord_def)
qed

text \<open>
  Whatever the sizes of the frames: a call leaves the other servers alone; the server it reaches is left
  as it was or as the handler of the request leaves it, and a call that returns an answer returns the
  one that handler gave.
\<close>

lemma serveConn_unwritable:
  assumes "frame_ok c f" and "handleFrame (env 0) s f = (s', a)" and "\<not> frame_ok c a"
  shows "serveConn c env 0 s (frame_bytes f) [] = (s', [])"
  using DecodeFrame_bytes [OF assms(1), of "[]"] assms(2,3)
  by (simp add: serveConn.simps [of c env 0 s] EncodeFrame_buffer)

lemma cluster_call_cases:
  fixes c :: "'e cluster tcpClient"
  assumes call: "doCall (clusterEnv codec envs um) addr op epoch meta payload c = (c', r)"
    and s: "serverAt c (TrimSpace addr) = Some s"
  defines "f \<equiv> requestFrame op (tc_nextID c + 1) epoch meta payload"
  shows "\<not> frame_ok codec f \<and> serverAt c' (TrimSpace addr) = Some s \<and> (\<exists>e. r = Inl e) \<or>
    (\<exists>s' a. handleFrame (envAt envs (TrimSpace addr) c) s f = (s', a) \<and> frame_ok codec f \<and>
      serverAt c' (TrimSpace addr) = Some s' \<and>
      ((\<exists>e. r = Inl e) \<or> r = Inr a \<and> frame_ok codec a \<and> fr_Flags a = FlagResponse))"
    and "host \<noteq> TrimSpace addr \<Longrightarrow> serverAt c' host = serverAt c host"
proof -
  obtain p where p: "fmlookup (tc_net c) (TrimSpace addr) = Some p" "pe_server p = s"
    using s by (auto simp: serverAt_def)
  obtain s' a where h: "handleFrame (envAt envs (TrimSpace addr) c) s f = (s', a)" by fastforce
  have addr: "normalizeAddr (clusterEnv codec envs um) addr = TrimSpace addr"
    by (simp add: normalizeAddr_def clusterEnv_def)
  let ?w = "\<lambda>b. fmupd (TrimSpace addr) (p\<lparr>pe_inbox := b\<rparr>) (tc_net c)"
  consider (ok) "frame_ok codec f" "frame_ok codec a" | (long) "frame_ok codec f" "\<not> frame_ok codec a"
    | (bad) "\<not> frame_ok codec f" by blast
  then have "(\<not> frame_ok codec f \<and> serverAt c' (TrimSpace addr) = Some s \<and> (\<exists>e. r = Inl e) \<or>
      frame_ok codec f \<and> serverAt c' (TrimSpace addr) = Some s' \<and>
      ((\<exists>e. r = Inl e) \<or> r = Inr a \<and> frame_ok codec a \<and> fr_Flags a = FlagResponse)) \<and>
      (host \<noteq> TrimSpace addr \<longrightarrow> serverAt c' host = serverAt c host)"
  proof cases
    case ok
    with remote_call [OF s, of envs op epoch meta payload s' a codec um] h call show ?thesis
      by (auto simp: f_def serverAt_served split: if_splits)
  next
    case long
    have "serveConn codec (envs (TrimSpace addr) (pe_turn p)) 0 s (frame_bytes f) [] = (s', [])"
      using serveConn_unwritable [OF long(1) _ long(2)] h p by (simp add: envAt_def)
    then have "c' = served c (TrimSpace addr) s'" "\<exists>e. r = Inl e"
      using call p long(1) clusterWrite_buffer [where c = codec and host = "TrimSpace addr" and p = p and b = "[]" and w = "tc_net c" and f = f]
      by (auto simp: doCall_def addr [unfolded clusterEnv_def] clusterEnv_def clusterDial_def
          EncodeFrame_buffer clusterRead_def f_def served_def Let_def)
    then show ?thesis using long by (simp add: serverAt_served)
  next
    case bad
    then have "c' = \<lparr>tc_nextID = tc_nextID c + 1, tc_net = ?w []\<rparr>" "\<exists>e. r = Inl e"
      using call p clusterWrite_buffer [where c = codec and host = "TrimSpace addr" and p = p and b = "[]" and w = "tc_net c" and f = f]
      by (auto simp: doCall_def addr [unfolded clusterEnv_def] clusterEnv_def clusterDial_def
          EncodeFrame_buffer f_def Let_def split: if_splits)
    then show ?thesis using p bad by (simp add: serverAt_def)
  qed
  with h show "\<not> frame_ok codec f \<and> serverAt c' (TrimSpace addr) = Some s \<and> (\<exists>e. r = Inl e) \<or>
    (\<exists>s' a. handleFrame (envAt envs (TrimSpace addr) c) s f = (s', a) \<and> frame_ok codec f \<and>
      serverAt c' (TrimSpace addr) = Some s' \<and>
      ((\<exists>e. r = Inl e) \<or> r = Inr a \<and> frame_ok codec a \<and> fr_Flags a = FlagResponse))"
    and "host \<noteq> TrimSpace addr \<Longrightarrow> serverAt c' host = serverAt c host" by blast+
qed

lemma cluster_call_refused:
  assumes "serverAt c (TrimSpace addr) = None"
  shows "doCall (clusterEnv codec envs um) addr op epoch meta payload c = (c, Inl (DialFailed DialRefused))"
  using assms by (simp add: doCall_def normalizeAddr_def clusterEnv_def clusterDial_def serverAt_def)

end
