(* ===== verification/Migration_Laws.thy ===== *)
theory Migration_Laws
  imports Migration_Executor Tcp_Laws
begin

text \<open>
  Lemmas on the migration executor. The interface \<open>range_nodes\<close> is what a migration relies on in the
  client it calls: what fencing, exporting, importing and deleting do to the entries the nodes hold.
  From it: an attempt loses no entry, whichever step fails. The cluster of this repository's servers over
  memory engines interprets it. Then the waves, the delays between attempts, and the end of a sweep.
\<close>

section \<open>Moving a range\<close>

definition shippable :: "MigrationSnapshot \<Rightarrow> bool" where
  "shippable snap \<longleftrightarrow> list_all wireSnapshotEntry snap \<and> int (length snap) \<le> MaxInt64"

text \<open>The contents of a node whose entries can be written to the wire.\<close>

definition wireable :: "(string \<Rightarrow> entry option) \<Rightarrow> bool" where
  "wireable m \<longleftrightarrow> finite (dom m) \<and> int (card (dom m)) \<le> MaxInt64 \<and>
     (\<forall>k ent. m k = Some ent \<longrightarrow> wireSnapshotEntry (snapshotEntryToWire (snapshotEntryFromEntry ent)))"

definition inWireRange :: "MigrationRangeRequest \<Rightarrow> Key \<Rightarrow> bool" where
  "inWireRange r key = keyInRange key (rangeFromWire r)"

locale range_nodes =
  fixes client :: "'w migrationRangeClient"
    and inv :: "'w \<Rightarrow> bool"
    and held :: "'w \<Rightarrow> string \<Rightarrow> string \<Rightarrow> entry option"
    and gone :: "entry \<Rightarrow> bool"
  assumes fence_quiet: "inv w \<Longrightarrow> xc_FenceRange client a r w = (w', x) \<Longrightarrow> inv w' \<and> held w' = held w"
    and unfence_quiet: "inv w \<Longrightarrow> xc_UnfenceRange client a r w = (w', x) \<Longrightarrow> inv w' \<and> held w' = held w"
    and export_quiet: "inv w \<Longrightarrow> xc_ExportRange client a r w = (w', y) \<Longrightarrow> inv w' \<and> held w' = held w"
    and export_all: "inv w \<Longrightarrow> xc_ExportRange client a r w = (w', Inr snap) \<Longrightarrow> wireable (held w a) \<Longrightarrow>
      wireString (mr_Namespace r) \<Longrightarrow> wireString (mr_Space r) \<Longrightarrow>
      shippable snap \<and> (\<forall>k ent. held w a k = Some ent \<longrightarrow> inWireRange r (e_key ent) \<longrightarrow> \<not> gone ent \<longrightarrow>
        (\<exists>m \<in> set snap. physicalKey (me_Key m) = k \<and> me_Version m = e_version ent))"
    and import_all: "inv w \<Longrightarrow> xc_ImportSnapshot client b snap w = (w', Inr n) \<Longrightarrow> shippable snap \<Longrightarrow>
      m \<in> set snap \<Longrightarrow>
      \<exists>ent. held w' b (physicalKey (me_Key m)) = Some ent \<and> me_Version m \<le> e_version ent"
    and import_local: "inv w \<Longrightarrow> xc_ImportSnapshot client b snap w = (w', z) \<Longrightarrow>
      inv w' \<and> (TrimSpace a \<noteq> TrimSpace b \<longrightarrow> held w' a = held w a)"
    and delete_local: "inv w \<Longrightarrow> xc_DeleteRange client a r w = (w', z) \<Longrightarrow>
      inv w' \<and> (TrimSpace b \<noteq> TrimSpace a \<longrightarrow> held w' b = held w b)"
begin

lemma attempt_keeps_entries:
  assumes inv: "inv (ex_net x)" and move: "migrateRange svc client task x = (x', imported, deleted, err)"
    and fresh: "mt_CutoverAtUnix task \<le> 0" and apart: "TrimSpace (mt_SourceAddr task) \<noteq> TrimSpace (mt_TargetAddr task)"
    and wire: "wireable (held (ex_net x) (mt_SourceAddr task))"
      "wireString (mt_Namespace task)" "wireString (mt_Space task)"
    and ent: "held (ex_net x) (mt_SourceAddr task) k = Some ent" "inWireRange (migrationRangeRequest task) (e_key ent)"
      "\<not> gone ent"
  shows "inv (ex_net x') \<and> (held (ex_net x') (mt_SourceAddr task) k = Some ent \<or>
    (\<exists>ent'. held (ex_net x') (mt_TargetAddr task) k = Some ent' \<and> e_version ent \<le> e_version ent'))"
proof -
  let ?src = "mt_SourceAddr task" and ?dst = "mt_TargetAddr task" and ?r = "migrationRangeRequest task"
  have r: "wireString (mr_Namespace ?r)" "wireString (mr_Space ?r)"
    using wire(2,3) by (simp_all add: migrationRangeRequest_def)
  obtain w1 f where 1: "xc_FenceRange client ?src ?r (ex_net x) = (w1, f)" by fastforce
  note q1 = fence_quiet [OF inv 1]
  obtain w2 e where 2: "xc_ExportRange client ?src ?r w1 = (w2, e)" by fastforce
  note q2 = export_quiet [OF conjunct1 [OF q1] 2]
  have held2: "held w2 = held (ex_net x)" using q1 q2 by simp
  show ?thesis
  proof (cases "(\<exists>a. f = Inl a) \<or> (\<exists>a. e = Inl a)")
    case True
    with move fresh 1 2 have "ex_net x' = w1 \<or> ex_net x' = w2"
      by (cases f; cases e) (auto simp: migrateRange_def migrateRangeToTarget_def onNet_def Let_def)
    with q1 q2 ent show ?thesis by auto
  next
    case False
    then obtain b snap where f: "f = Inr b" and e: "e = Inr snap" by (metis sum.exhaust)
    have snap: "shippable snap" "\<exists>m \<in> set snap. physicalKey (me_Key m) = k \<and> me_Version m = e_version ent"
      using export_all [OF conjunct1 [OF q1] 2 [unfolded e]] q1 wire(1) r ent by auto
    obtain w3 i where 3: "xc_ImportSnapshot client ?dst snap w2 = (w3, i)" by fastforce
    note q3 = import_local [OF conjunct1 [OF q2] 3, of ?src]
    obtain w4 d where 4: "xc_DeleteRange client ?src ?r w3 = (w4, d)" by fastforce
    note q4 = delete_local [OF conjunct1 [OF q3] 4, of ?dst]
    obtain w5 u where 5: "xc_UnfenceRange client ?src ?r w4 = (w5, u)" by fastforce
    note q5 = unfence_quiet [OF conjunct1 [OF q4] 5]
    consider (kept) "ex_net x' = w3" | (moved) n where "i = Inr n" "ex_net x' = w4 \<or> ex_net x' = w5"
      using move fresh 1 2 3 4 5
      by (auto simp: migrateRange_def migrateRangeToTarget_def onNet_def onState_def f e Let_def
          deleteMigrationSource_def unfenceMigrationSource_def split: sum.splits prod.splits option.splits)
    then show ?thesis
    proof cases
      case kept
      with q3 apart held2 ent show ?thesis by simp
    next
      case moved
      obtain m where m: "m \<in> set snap" "physicalKey (me_Key m) = k" "me_Version m = e_version ent"
        using snap(2) by blast
      from import_all [OF conjunct1 [OF q2] 3 [unfolded moved(1)] snap(1) m(1)] m
      have "\<exists>ent'. held w3 ?dst k = Some ent' \<and> e_version ent \<le> e_version ent'" by simp
      with moved(2) q4 q5 apart show ?thesis by auto
    qed
  qed
qed

end

section \<open>The cluster as nodes\<close>

definition clusterInv ::
  "deps \<Rightarrow> (string \<Rightarrow> nat \<Rightarrow> nat \<Rightarrow> MemoryEngine serverEnv) \<Rightarrow> MemoryEngine cluster tcpClient \<Rightarrow> bool" where
  "clusterInv d envs c \<longleftrightarrow> deps_ok d \<and> (\<forall>host turn n. se_ops (envs host turn n) = memoryOps d) \<and>
     (\<forall>host s. serverAt c host = Some s \<longrightarrow> engine_inv (srv_engine s))"

definition clusterHeld :: "MemoryEngine cluster tcpClient \<Rightarrow> string \<Rightarrow> string \<Rightarrow> entry option" where
  "clusterHeld c addr k =
     (case serverAt c (TrimSpace addr) of None \<Rightarrow> None | Some s \<Rightarrow> contents (srv_engine s) k)"

text \<open>An entry that some export of the cluster may find expired.\<close>

definition clusterGone :: "(string \<Rightarrow> nat \<Rightarrow> nat \<Rightarrow> MemoryEngine serverEnv) \<Rightarrow> entry \<Rightarrow> bool" where
  "clusterGone envs ent \<longleftrightarrow> (\<exists>host turn. expired ent (ce_now (se_calls (envs host turn 0) 3)))"

lemma handle_engine_cases:
  "srv_engine (fst (handleFrame env s f)) = srv_engine s \<or>
   srv_engine (fst (handleFrame env s f)) = srv_engine (fst (dispatchFrame env s f))"
  by (simp add: handleFrame_def split: prod.split sum.split bool.split)

lemma handle_success:
  assumes "handleFrame env s f = (s', a)" and "fr_Flags a = FlagResponse"
  shows "dispatchFrame env s f = (s', a)"
  using assms
  by (auto simp: handleFrame_def errorFrame_def FlagResponse_def FlagError_def
      split: prod.splits sum.splits bool.splits)

lemma cluster_call_keeps:
  assumes inv: "clusterInv d envs c" and call: "doCall (clusterEnv codec envs um) addr op epoch meta payload c = (c', r)"
  shows "clusterInv d envs c'" and "TrimSpace b \<noteq> TrimSpace addr \<Longrightarrow> clusterHeld c' b = clusterHeld c b"
    and "(\<And>env s f. se_ops env = memoryOps d \<Longrightarrow> engine_inv (srv_engine s) \<Longrightarrow> fr_Op f = op \<Longrightarrow>
        contents (srv_engine (fst (dispatchFrame env s f))) = contents (srv_engine s)) \<Longrightarrow>
      clusterHeld c' = clusterHeld c"
proof -
  let ?f = "requestFrame op (tc_nextID c + 1) epoch meta payload"
  have ops: "se_ops (envAt envs h c) = memoryOps d" for h
    using inv by (simp add: clusterInv_def envAt_def)
  have d: "deps_ok d" using inv by (simp add: clusterInv_def)
  show other: "TrimSpace b \<noteq> TrimSpace addr \<Longrightarrow> clusterHeld c' b = clusterHeld c b" for b
    using cluster_call_cases(2) [OF call] cluster_call_refused [of c addr] call
    by (cases "serverAt c (TrimSpace addr)") (auto simp: clusterHeld_def)
  have here: "serverAt c (TrimSpace addr) = None \<and> c' = c \<or> (\<exists>s s'. serverAt c (TrimSpace addr) = Some s \<and>
      serverAt c' (TrimSpace addr) = Some s' \<and>
      (s' = s \<or> s' = fst (handleFrame (envAt envs (TrimSpace addr) c) s ?f)))"
  proof (cases "serverAt c (TrimSpace addr)")
    case None
    with cluster_call_refused [OF None] call show ?thesis by auto
  next
    case (Some s)
    from cluster_call_cases(1) [OF call Some] Some show ?thesis by fastforce
  qed
  have "engine_inv (srv_engine s')" if s': "serverAt c' h = Some s'" for h s'
  proof (cases "h = TrimSpace addr")
    case True
    have "engine_inv (srv_engine s)" if "serverAt c (TrimSpace addr) = Some s" for s
      using inv that by (simp add: clusterInv_def)
    with here True s' memory_keeps.handle_keeps [OF ops, of _ "TrimSpace addr" ?f] d inv show ?thesis
      by (auto simp: clusterInv_def)
  next
    case False
    have "serverAt c' h = serverAt c h"
      using cluster_call_cases(2) [OF call _ False] cluster_call_refused [of c addr] call
      by (cases "serverAt c (TrimSpace addr)") auto
    with s' inv show ?thesis by (simp add: clusterInv_def)
  qed
  with inv show "clusterInv d envs c'" by (simp add: clusterInv_def)
  assume quiet: "\<And>env s f. se_ops env = memoryOps d \<Longrightarrow> engine_inv (srv_engine s) \<Longrightarrow> fr_Op f = op \<Longrightarrow>
      contents (srv_engine (fst (dispatchFrame env s f))) = contents (srv_engine s)"
  show "clusterHeld c' = clusterHeld c"
  proof
    fix b
    show "clusterHeld c' b = clusterHeld c b"
    proof (cases "TrimSpace b = TrimSpace addr")
      case True
      have "contents (srv_engine (fst (handleFrame (envAt envs (TrimSpace addr) c) s ?f))) = contents (srv_engine s)"
        if "serverAt c (TrimSpace addr) = Some s" for s
        using handle_engine_cases [of "envAt envs (TrimSpace addr) c" s ?f] quiet [OF ops, of s ?f] that inv
        by (auto simp: clusterInv_def)
      with here True show ?thesis by (auto simp: clusterHeld_def fun_eq_iff)
    qed (rule other)
  qed
qed

lemma decodeAnswer_cases:
  assumes "decodeAnswer dec (doCall env addr op epoch meta payload c) = (c', z)"
  obtains r where "doCall env addr op epoch meta payload c = (c', r)"
    and "\<And>v. z = Inr v \<Longrightarrow> \<exists>a. r = Inr a \<and> dec a = Inr v"
  using assms by (cases "doCall env addr op epoch meta payload c")
    (auto simp: decodeAnswer_def split: sum.splits)

lemma EngineExport_state: "fst (EngineExport d ctx now e opts) = e"
proof -
  have "fst (eachShard d ctx (\<lambda>_. (zeroCommand commandExport)\<lparr>c_rangeOpts := o'\<rparr>) add e acc is) = e"
    for o' add and acc :: "SnapshotEntry list" and "is"
    by (rule eachShard_read_state) (simp add: applyCommand_def applyExportCommand_def)
  then show ?thesis
    by (auto simp: EngineExport_def Let_def split_beta split: option.split)
qed

lemma quiet_dispatch:
  assumes "se_ops env = memoryOps d" and "fr_Op f \<in> {OpNodeFenceRange, OpNodeUnfenceRange, OpNodeExportRange}"
  shows "contents (srv_engine (fst (dispatchFrame env s f))) = contents (srv_engine s)"
proof -
  have "fst (exportLocked (memoryOps d) calls e opts) = e" for calls e opts
    using EngineExport_state [of d "ce_ctx (calls 3)" "ce_now (calls 3)" e opts]
    by (auto simp: exportLocked_def wrapError_def memoryOps_def split: prod.split sum.split)
  with assms show ?thesis by (auto simp: dispatch_ops handler_engine split: sum.split)
qed

subsection \<open>Snapshots on the wire\<close>

lemma packed_length:
  "packLoop packSnapshotEntry ms p = Inr (ys, p') \<Longrightarrow> length p' = length p + (\<Sum>m\<leftarrow>ms. length (me_Value m))"
  by (induction ms arbitrary: p ys) (auto simp: packSnapshotEntry_def split: sum.splits prod.splits)

lemma frame_payload_small: "frame_ok c f \<Longrightarrow> length (fr_Payload f) < 2 ^ 32"
  using unsigned_less [where ?'a = nat, of "snd (limits c)"] by (simp add: frame_ok_def)

lemma view_wire: "snapshotView m = snapshotView m' \<Longrightarrow> wireSnapshotEntry m = wireSnapshotEntry m'
    \<and> me_Key m = me_Key m' \<and> me_Version m = me_Version m'"
  by (cases m; cases m') (auto simp: snapshotView_def wireSnapshotEntry_def)

lemma views_shippable:
  assumes "map snapshotView out = map snapshotView ms" and "shippable ms"
  shows "shippable out"
proof -
  have "list_all2 (\<lambda>m m'. snapshotView m = snapshotView m') out ms"
    using assms(1) by (auto simp: list_all2_conv_all_nth list_eq_iff_nth_eq)
  then have "list_all wireSnapshotEntry out = list_all wireSnapshotEntry ms"
    by (induction rule: list_all2_induct) (auto dest: view_wire)
  with assms show ?thesis by (metis length_map shippable_def)
qed

lemma views_member:
  assumes "map snapshotView out = map snapshotView ms" and "m \<in> set ms"
  shows "\<exists>m' \<in> set out. me_Key m' = me_Key m \<and> me_Version m' = me_Version m"
proof -
  have "snapshotView m \<in> snapshotView ` set out" using assms by (metis image_eqI list.set_map)
  then obtain m' where "m' \<in> set out" "snapshotView m' = snapshotView m" by auto
  with view_wire [of m' m] show ?thesis by blast
qed

lemma snapshot_arrives:
  assumes "EncodeMigrationSnapshot ms = Inr (meta, payload)" and "length payload < 2 ^ 32" and "shippable ms"
  shows "\<exists>out. DecodeMigrationSnapshot meta payload = Inr out \<and> map snapshotView out = map snapshotView ms"
proof -
  obtain ys where "packLoop packSnapshotEntry ms [] = Inr (ys, payload)"
    using assms(1) by (auto simp: EncodeMigrationSnapshot_def PackMigrationSnapshot_def split: sum.splits)
  then have "(\<Sum>m\<leftarrow>ms. length (me_Value m)) < 2 ^ 32" using assms(2) packed_length by fastforce
  from decode_snapshot [OF _ _ this] assms(1,3) show ?thesis by (auto simp: shippable_def)
qed

text \<open>A successful export and a successful import, as the handlers see them.\<close>

lemma answer_flags [simp]:
  "fr_Flags (errorFrame env f code err) \<noteq> FlagResponse" "fr_Flags (cacheErrorFrame env f cerr) \<noteq> FlagResponse"
  "fr_Flags (metadataFrame f meta payload) = FlagResponse" "fr_Metadata (metadataFrame f meta payload) = meta"
  "fr_Payload (metadataFrame f meta payload) = payload"
  by (simp_all add: errorFrame_def cacheErrorFrame_def metadataFrame_def FlagResponse_def FlagError_def)

lemma export_success:
  assumes "dispatchFrame env s f = (s', a)" and "fr_Op f = OpNodeExportRange" and "fr_Flags a = FlagResponse"
    and "DecodeMigrationRangeRequest (fr_Metadata f) = Inr r"
  shows "\<exists>e' items. exportLocked (se_ops env) (se_calls env) (srv_engine s) (rangeFromWire r) = (e', Inr items) \<and>
    EncodeMigrationSnapshot (snapshotToWire items) = Inr (fr_Metadata a, fr_Payload a)"
proof -
  have h: "handleExportRange env s f = (s', a)" using assms(1,2) by (simp add: dispatch_ops)
  obtain e' z where z: "exportLocked (se_ops env) (se_calls env) (srv_engine s) (rangeFromWire r) = (e', z)" by fastforce
  show ?thesis
  proof (cases z)
    case (Inl err)
    with h z assms(3,4) show ?thesis by (auto simp: handleExportRange_def)
  next
    case (Inr items)
    with h z assms(3,4) show ?thesis
      by (cases "EncodeMigrationSnapshot (snapshotToWire items)") (auto simp: handleExportRange_def)
  qed
qed

lemma import_success:
  assumes "dispatchFrame env s f = (s', a)" and "fr_Op f = OpNodeImportSnapshot" and "fr_Flags a = FlagResponse"
    and "DecodeMigrationSnapshot (fr_Metadata f) (fr_Payload f) = Inr snap"
  shows "\<exists>n. importLocked (se_ops env) (se_calls env) (srv_engine s) (snapshotFromWire snap) = (srv_engine s', Inr n)"
proof -
  have h: "handleImportSnapshot env s f = (s', a)" using assms(1,2) by (simp add: dispatch_ops)
  obtain e' z where z: "importLocked (se_ops env) (se_calls env) (srv_engine s) (snapshotFromWire snap) = (e', z)"
    by fastforce
  with h assms(3,4) show ?thesis by (cases z) (auto simp: handleImportSnapshot_def)
qed

lemma cluster_export_all:
  assumes inv: "clusterInv d envs c" and ex: "ClientExportRange (clusterEnv codec envs um) addr r c = (c', Inr snap)"
    and wire: "wireable (clusterHeld c addr)" "wireString (mr_Namespace r)" "wireString (mr_Space r)"
  shows "shippable snap \<and> (\<forall>k ent. clusterHeld c addr k = Some ent \<longrightarrow> inWireRange r (e_key ent) \<longrightarrow>
    \<not> clusterGone envs ent \<longrightarrow> (\<exists>m \<in> set snap. physicalKey (me_Key m) = k \<and> me_Version m = e_version ent))"
proof -
  let ?env = "envAt envs (TrimSpace addr) c" and ?r = "r\<lparr>mr_RouteEpoch := 0\<rparr>"
  let ?f = "requestFrame OpNodeExportRange (tc_nextID c + 1) (mr_RouteEpoch r) (EncodeMigrationRangeRequest r) []"
  obtain a where call: "doCall (clusterEnv codec envs um) addr OpNodeExportRange (mr_RouteEpoch r)
      (EncodeMigrationRangeRequest r) [] c = (c', Inr a)"
    and snap: "DecodeMigrationSnapshot (fr_Metadata a) (fr_Payload a) = Inr snap"
    using ex [unfolded ClientExportRange_def] by (auto elim: decodeAnswer_cases)
  obtain s where s: "serverAt c (TrimSpace addr) = Some s"
    using call cluster_call_refused [of c addr] by (cases "serverAt c (TrimSpace addr)") auto
  obtain s' where h: "handleFrame ?env s ?f = (s', a)" and a: "frame_ok codec a" "fr_Flags a = FlagResponse"
    using cluster_call_cases(1) [OF call s] by auto
  have ops: "deps_ok d" "se_ops ?env = memoryOps d" "engine_inv (srv_engine s)"
    using inv s by (simp_all add: clusterInv_def envAt_def)
  obtain e' items where loc: "exportLocked (se_ops ?env) (se_calls ?env) (srv_engine s) (rangeFromWire ?r) = (e', Inr items)"
    and enc: "EncodeMigrationSnapshot (snapshotToWire items) = Inr (fr_Metadata a, fr_Payload a)"
    using export_success [OF handle_success [OF h a(2)] _ a(2), of ?r] decode_range [OF wire(2,3)] by auto
  let ?now = "ce_now (se_calls ?env 3)"
  have exp: "EngineExport d (ce_ctx (se_calls ?env 3)) ?now (srv_engine s) (rangeFromWire ?r) = (e', Inr items)"
    using loc ops by (auto simp: exportLocked_def wrapError_def memoryOps_def split: prod.splits sum.splits)
  have now0: "ro_Now (rangeFromWire ?r) = 0" by (simp add: rangeFromWire_def)
  note spec = EngineExport_spec [OF ops(1,3) exp, unfolded now0, simplified]
  have held: "clusterHeld c addr = contents (srv_engine s)" by (simp add: clusterHeld_def s fun_eq_iff)
  have range: "inWireRange r key = entryInRange key (rangeFromWire ?r)" for key
    by (simp add: inWireRange_def keyInRange_entry entryInRange_def rangeFromWire_def)
  have "length items = card (item_key ` set items)" using distinct_card [OF spec(3)] by simp
  also have "\<dots> \<le> card (dom (contents (srv_engine s)))"
    using wire(1) spec(2) by (intro card_mono) (auto simp: wireable_def held)
  finally have "shippable (snapshotToWire items)"
    using wire(1) spec(2) by (auto simp: shippable_def wireable_def held snapshotToWire_def list_all_iff)
  then have out: "map snapshotView snap = map snapshotView (snapshotToWire items)" "shippable snap"
    using snapshot_arrives [OF enc frame_payload_small [OF a(1)]] snap views_shippable by auto
  have "\<exists>m \<in> set snap. physicalKey (me_Key m) = k \<and> me_Version m = e_version ent"
    if k: "contents (srv_engine s) k = Some ent" "entryInRange (e_key ent) (rangeFromWire ?r)" "\<not> clusterGone envs ent" for k ent
  proof -
    let ?item = "snapshotEntryFromEntry ent"
    have "shard_inv (shards (srv_engine s) ! shardFor (srv_engine s) k)"
      by (intro engine_invD(1) [OF ops(3)] shardFor_less [OF ops(3)])
    with k(1) have "wf_entry k ent" by (auto simp: contents_def shard_inv_def intro: wf_entriesD)
    then have key: "item_key ?item = k" by (simp add: snapshotEntryFromEntry_def wf_entry_def)
    have "\<not> expired ent ?now" using k(3) by (auto simp: clusterGone_def envAt_def)
    with k(1,2) key have "?item \<in> set items" unfolding spec(2) by auto
    then have "snapshotEntryToWire ?item \<in> set (snapshotToWire items)" by (simp add: snapshotToWire_def)
    moreover have "physicalKey (me_Key (snapshotEntryToWire ?item)) = k" "me_Version (snapshotEntryToWire ?item) = e_version ent"
      using key by (simp_all add: snapshotEntryToWire_def snapshotEntryFromEntry_def physicalKey_def)
    ultimately show ?thesis using views_member [OF out(1)] by metis
  qed
  with out(2) show ?thesis by (simp add: held range)
qed

lemma fold_mergeStamp_ge:
  "item \<in> set items \<Longrightarrow> item_key item = k \<Longrightarrow> Some (itemStamp item) \<le> fold (mergeStamp k) items m"
proof (induction items arbitrary: m)
  case (Cons i items)
  have mono: "m \<le> fold (mergeStamp k) xs m" for xs m
    by (induction xs arbitrary: m) (auto simp: mergeStamp_def intro: order_trans [OF max.cobounded1])
  show ?case
  proof (cases "item = i")
    case True
    then have "Some (itemStamp item) \<le> mergeStamp k i m" using Cons.prems by (simp add: mergeStamp_def)
    with mono [of "mergeStamp k i m" items] show ?thesis by (simp add: order_trans)
  next
    case False
    with Cons show ?thesis by simp
  qed
qed simp

lemma cluster_import_all:
  assumes inv: "clusterInv d envs c" and im: "ClientImportSnapshot (clusterEnv codec envs um) addr snap c = (c', Inr n)"
    and ship: "shippable snap" and m: "m \<in> set snap"
  shows "\<exists>ent. clusterHeld c' addr (physicalKey (me_Key m)) = Some ent \<and> me_Version m \<le> e_version ent"
proof -
  let ?env = "envAt envs (TrimSpace addr) c" and ?k = "physicalKey (me_Key m)"
  obtain meta payload where enc: "EncodeMigrationSnapshot snap = Inr (meta, payload)"
    using im by (cases "EncodeMigrationSnapshot snap") (auto simp: ClientImportSnapshot_def)
  let ?f = "requestFrame OpNodeImportSnapshot (tc_nextID c + 1) 0 meta payload"
  obtain a where call: "doCall (clusterEnv codec envs um) addr OpNodeImportSnapshot 0 meta payload c = (c', Inr a)"
    using im by (auto simp: ClientImportSnapshot_def enc elim: decodeAnswer_cases)
  obtain s where s: "serverAt c (TrimSpace addr) = Some s"
    using call cluster_call_refused [of c addr] by (cases "serverAt c (TrimSpace addr)") auto
  obtain s' where h: "handleFrame ?env s ?f = (s', a)" and f: "frame_ok codec ?f"
    and a: "fr_Flags a = FlagResponse" and s': "serverAt c' (TrimSpace addr) = Some s'"
    using cluster_call_cases(1) [OF call s] by auto
  have "length payload < 2 ^ 32" using frame_payload_small [OF f] by simp
  from snapshot_arrives [OF enc this ship] obtain out where
    out: "DecodeMigrationSnapshot meta payload = Inr out" "map snapshotView out = map snapshotView snap" by blast
  have ops: "se_ops ?env = memoryOps d" "engine_inv (srv_engine s)"
    using inv s by (simp_all add: clusterInv_def envAt_def)
  obtain n' where "importLocked (se_ops ?env) (se_calls ?env) (srv_engine s) (snapshotFromWire out) = (srv_engine s', Inr n')"
    using import_success [OF handle_success [OF h a] _ a] out(1) by auto
  then have imp: "EngineImport d (ce_ctx (se_calls ?env 3)) (srv_engine s) (snapshotFromWire out) = (srv_engine s', n', None)"
    using ops by (auto simp: importLocked_def wrapCount_def memoryOps_def split: prod.splits option.splits)
  obtain m' where m': "m' \<in> set out" "me_Key m' = me_Key m" "me_Version m' = me_Version m"
    using views_member [OF out(2) m] by blast
  let ?item = "snapshotEntryFromWire m'"
  have item: "?item \<in> set (snapshotFromWire out)" using m'(1) by (simp add: snapshotFromWire_def)
  have key: "item_key ?item = ?k" using m'(2) by (simp add: snapshotEntryFromWire_def physicalKey_def)
  have "Some (itemStamp ?item) \<le> map_option stampOf (contents (srv_engine s') ?k)"
    unfolding EngineImport_stamp [OF ops(2) imp] by (rule fold_mergeStamp_ge [OF item key])
  then obtain ent where ent: "contents (srv_engine s') ?k = Some ent" "itemStamp ?item \<le> stampOf ent"
    by (cases "contents (srv_engine s') ?k") auto
  have "me_Version m \<le> fst (itemStamp ?item)" using m' by (simp add: itemStamp_def snapshotEntryFromWire_def)
  also have "\<dots> \<le> e_version ent" using ent(2) by (auto simp: stampOf_def less_eq_prod_def)
  finally show ?thesis using ent(1) s' by (simp add: clusterHeld_def)
qed

lemma cluster_answer_keeps:
  assumes "clusterInv d envs c" and "decodeAnswer dec (doCall (clusterEnv codec envs um) addr op epoch meta payload c) = (c', z)"
  shows "clusterInv d envs c'" and "TrimSpace b \<noteq> TrimSpace addr \<Longrightarrow> clusterHeld c' b = clusterHeld c b"
    and "op \<in> {OpNodeFenceRange, OpNodeUnfenceRange, OpNodeExportRange} \<Longrightarrow> clusterHeld c' = clusterHeld c"
proof -
  obtain r where call: "doCall (clusterEnv codec envs um) addr op epoch meta payload c = (c', r)"
    using assms(2) by (rule decodeAnswer_cases)
  show "clusterInv d envs c'" "TrimSpace b \<noteq> TrimSpace addr \<Longrightarrow> clusterHeld c' b = clusterHeld c b"
    by (fact cluster_call_keeps(1,2) [OF assms(1) call])+
  show "clusterHeld c' = clusterHeld c" if "op \<in> {OpNodeFenceRange, OpNodeUnfenceRange, OpNodeExportRange}"
    using cluster_call_keeps(3) [OF assms(1) call] quiet_dispatch that by blast
qed

interpretation cluster_nodes: range_nodes "tcpRangeClient (clusterEnv codec envs um)" "clusterInv d envs"
    clusterHeld "clusterGone envs" for codec envs um d
proof unfold_locales
  fix w w' a b r x y z snap n m k ent
  assume inv: "clusterInv d envs w"
  show "xc_FenceRange (tcpRangeClient (clusterEnv codec envs um)) a r w = (w', x) \<Longrightarrow>
      clusterInv d envs w' \<and> clusterHeld w' = clusterHeld w"
    by (auto simp: tcpRangeClient_def ClientFenceRange_def rangeFenceCommand_def
        intro: cluster_answer_keeps(1) [OF inv] cluster_answer_keeps(3) [OF inv])
  show "xc_UnfenceRange (tcpRangeClient (clusterEnv codec envs um)) a r w = (w', x) \<Longrightarrow>
      clusterInv d envs w' \<and> clusterHeld w' = clusterHeld w"
    by (auto simp: tcpRangeClient_def ClientUnfenceRange_def rangeFenceCommand_def
        intro: cluster_answer_keeps(1) [OF inv] cluster_answer_keeps(3) [OF inv])
  show "xc_ExportRange (tcpRangeClient (clusterEnv codec envs um)) a r w = (w', y) \<Longrightarrow>
      clusterInv d envs w' \<and> clusterHeld w' = clusterHeld w"
    by (auto simp: tcpRangeClient_def ClientExportRange_def
        intro: cluster_answer_keeps(1) [OF inv] cluster_answer_keeps(3) [OF inv])
  show "xc_ImportSnapshot (tcpRangeClient (clusterEnv codec envs um)) b snap w = (w', z) \<Longrightarrow>
      clusterInv d envs w' \<and> (TrimSpace a \<noteq> TrimSpace b \<longrightarrow> clusterHeld w' a = clusterHeld w a)"
    using inv by (auto simp: tcpRangeClient_def ClientImportSnapshot_def split: sum.splits
        intro: cluster_answer_keeps(1) [OF inv] cluster_answer_keeps(2) [OF inv])
  show "xc_DeleteRange (tcpRangeClient (clusterEnv codec envs um)) a r w = (w', z) \<Longrightarrow>
      clusterInv d envs w' \<and> (TrimSpace b \<noteq> TrimSpace a \<longrightarrow> clusterHeld w' b = clusterHeld w b)"
    by (auto simp: tcpRangeClient_def ClientDeleteRange_def
        intro: cluster_answer_keeps(1) [OF inv] cluster_answer_keeps(2) [OF inv])
qed (simp_all add: tcpRangeClient_def cluster_export_all cluster_import_all)

section \<open>Waves\<close>

definition sharesNoNode :: "MigrationTaskBody \<Rightarrow> MigrationTaskBody \<Rightarrow> bool" where
  "sharesNoNode a b \<longleftrightarrow> set (migrationTaskNodeKeys a) \<inter> set (migrationTaskNodeKeys b) = {}"

definition waveUses :: "MigrationTaskBody list \<Rightarrow> string fset \<Rightarrow> bool" where
  "waveUses wave used \<longleftrightarrow> fset used = (\<Union>t \<in> set wave. set (migrationTaskNodeKeys t)) \<and> sorted_wrt sharesNoNode wave"

lemma recorded_nodes: "fset (recordMigrationTaskNodes used task) = fset used \<union> set (migrationTaskNodeKeys task)"
proof -
  have "fset (foldl (\<lambda>used node. finsert node used) used xs) = fset used \<union> set xs" for xs
    by (induction xs arbitrary: used) auto
  then show ?thesis by (simp add: recordMigrationTaskNodes_def)
qed

lemma wave_snoc:
  "waveUses wave used \<Longrightarrow> \<not> migrationTaskNodeConflict used task \<Longrightarrow>
     waveUses (wave @ [task]) (recordMigrationTaskNodes used task)"
  by (auto simp: waveUses_def recorded_nodes sorted_wrt_append migrationTaskNodeConflict_def list_ex_iff
      sharesNoNode_def)

lemma waveIndex_free:
  "migrationTaskWaveIndex used task \<le> length used \<and>
   (migrationTaskWaveIndex used task < length used \<longrightarrow>
     \<not> migrationTaskNodeConflict (used ! migrationTaskWaveIndex used task) task)"
  by (induction used) auto

lemma mset_concat_snoc:
  "i < length ws \<Longrightarrow> mset (concat (ws[i := ws ! i @ [x]])) = add_mset x (mset (concat ws))"
  by (induction ws arbitrary: i) (auto split: nat.split)

lemma wavesLoop_ok:
  assumes "list_all2 waveUses waves used"
  shows "(\<forall>wave \<in> set (wavesLoop waves used tasks). sorted_wrt sharesNoNode wave) \<and>
    mset (concat (wavesLoop waves used tasks)) = mset (concat waves) + mset tasks"
  using assms
proof (induction tasks arbitrary: waves used)
  case Nil
  then show ?case by (auto simp: list_all2_conv_all_nth in_set_conv_nth waveUses_def)
next
  case (Cons task tasks)
  let ?i = "migrationTaskWaveIndex used task"
  define waves' where "waves' = (if ?i = length waves then waves @ [[]] else waves)"
  define used' where "used' = (if ?i = length waves then used @ [{||}] else used)"
  have len: "length waves = length used" using Cons.prems by (rule list_all2_lengthD)
  have ok: "list_all2 waveUses waves' used'"
    using Cons.prems list_all2_appendI [of waveUses waves used "[[]]" "[{||}]"]
    by (simp add: waves'_def used'_def) (simp add: waveUses_def)
  have i: "?i < length waves'" using waveIndex_free [of used task] len by (auto simp: waves'_def)
  have free: "\<not> migrationTaskNodeConflict (used' ! ?i) task"
    using waveIndex_free [of used task] len
    by (auto simp: used'_def nth_append migrationTaskNodeConflict_def list_ex_iff)
  have "list_all2 waveUses (waves'[?i := waves' ! ?i @ [task]]) (used'[?i := recordMigrationTaskNodes (used' ! ?i) task])"
    using ok free i by (intro list_all2_update_cong wave_snoc) (auto simp: list_all2_conv_all_nth)
  from Cons.IH [OF this] mset_concat_snoc [OF i, of task] show ?case
    by (auto simp: Let_def waves'_def used'_def)
qed

lemma waves_ok:
  "\<forall>wave \<in> set (migrationTaskWaves tasks). sorted_wrt sharesNoNode wave"
  "mset (concat (migrationTaskWaves tasks)) = mset tasks"
  using wavesLoop_ok [of "[]" "[]" tasks] by (simp_all add: migrationTaskWaves_def)

section \<open>Delays\<close>

lemma retryDelayLoop_bounds:
  assumes "0 < delay" and "0 < timeout" and "delay \<le> timeout \<or> n = 0" and "timeout < 2 ^ 62"
  shows "min delay timeout \<le> retryDelayLoop timeout delay n \<and> retryDelayLoop timeout delay n \<le> max delay timeout"
  using assms
proof (induction n arbitrary: delay)
  case (Suc n)
  then have w: "int64_wrap (delay * 2) = delay * 2"
    by (intro int64_wrap_small) (simp add: int64_def MaxInt64_def MinInt64_def)
  show ?case
  proof (cases "delay * 2 \<ge> timeout")
    case True
    with Suc.prems w show ?thesis by (simp add: Let_def)
  next
    case False
    with Suc.IH [of "delay * 2"] Suc.prems w show ?thesis by (simp add: Let_def min_def max_def)
  qed
qed simp

lemma retryDelay_bounds:
  assumes "0 < mc_RetryBackoff cfg" and "mc_RetryBackoff cfg \<le> mc_TaskTimeout cfg" and "mc_TaskTimeout cfg < 2 ^ 62"
  shows "mc_RetryBackoff cfg \<le> retryDelay task cfg \<and> retryDelay task cfg \<le> mc_TaskTimeout cfg"
  using retryDelayLoop_bounds [of "mc_RetryBackoff cfg" "mc_TaskTimeout cfg" "unat (mt_Attempts task)"] assms
  by (simp add: retryDelay_def)

end
