(* ===== verification/Migration_Sweep.thy ===== *)
theory Migration_Sweep
  imports Migration_Laws
begin

text \<open>
  The end of a sweep of the migration executor. The tasks a claim may take at a time are counted; a claim
  takes one away, and executing a claimed task ends in a command that leaves it done, or failed with its
  retry in the future. So a sweep that is shorter than the backoff ends, and leaves no task planned.
\<close>

definition openTask :: "int \<Rightarrow> MigrationTaskBody \<Rightarrow> bool" where
  "openTask u task \<longleftrightarrow> mt_State task = migrationTaskPlanned \<or> mt_State task = migrationTaskCleanup \<or>
     mt_State task = migrationTaskFailed \<and> mt_NextRetryUnix task \<le> u"

definition openIn :: "int \<Rightarrow> MigrationPlanBody list \<Rightarrow> nat" where
  "openIn u ps = length (filter (openTask u) (concat (map mp_Tasks ps)))"

lemma claimable_open: "claimableMigrationTask task now = openTask (UnixOf now) task"
  by (auto simp: claimableMigrationTask_def openTask_def migrationTaskPlanned_def migrationTaskCleanup_def
      migrationTaskFailed_def)

lemma openTask_mono: "openTask u task \<Longrightarrow> u \<le> v \<Longrightarrow> openTask v task"
  by (auto simp: openTask_def)

lemma openIn_append [simp]: "openIn u (ps @ qs) = openIn u ps + openIn u qs"
  by (simp add: openIn_def)

lemma openIn_Cons: "openIn u (p # ps) = length (filter (openTask u) (mp_Tasks p)) + openIn u ps"
  by (simp add: openIn_def)

lemma openIn_withTask:
  "mp_Tasks plan = a @ x # b \<Longrightarrow> openIn u (us @ withTask plan (length a) y # vs) + (if openTask u x then 1 else 0) =
     openIn u (us @ plan # vs) + (if openTask u y then 1 else 0)"
  by (simp add: openIn_Cons)

lemma openIn_zero: "openIn u ps = 0 \<longleftrightarrow> (\<forall>plan \<in> set ps. \<forall>task \<in> set (mp_Tasks plan). \<not> openTask u task)"
  by (auto simp: openIn_def filter_empty_conv)

section \<open>Claims\<close>

lemma claim_open:
  assumes "ClaimMigrationTask s now = (s', r)"
  shows "mr_Claimed r \<Longrightarrow> UnixOf now \<le> u \<Longrightarrow> Suc (openIn u (plans s')) = openIn u (plans s)"
    and "\<not> mr_Claimed r \<Longrightarrow> s' = s \<and> openIn (UnixOf now) (plans s) = 0"
proof -
  {
    assume "mr_Claimed r" and u: "UnixOf now \<le> u"
    then obtain ps task where c: "claimLoop now (plans s) = Some (ps, task)" and s': "plans s' = ps"
      using assms by (auto simp: ClaimMigrationTask_def replacePlansLocked_def Let_def split: option.splits)
    from c obtain us plan vs a x b where "plans s = us @ plan # vs" "mp_Tasks plan = a @ x # b"
      and x: "claimableMigrationTask x now" and t: "task = markTaskRunning x now"
      and "ps = us @ withTask plan (length a) task # vs"
      by (rule claimLoop_Some)
    moreover have "openTask u x" using x u openTask_mono by (simp add: claimable_open)
    moreover have "\<not> openTask u task"
      by (simp add: t markTaskRunning_def openTask_def Let_def migrationTaskPlanned_def
          migrationTaskCleanup_def migrationTaskFailed_def migrationTaskRunning_def)
    ultimately show "Suc (openIn u (plans s')) = openIn u (plans s)"
      using openIn_withTask [of plan a x b u us task vs] s' by simp
  }
  show "s' = s \<and> openIn (UnixOf now) (plans s) = 0" if "\<not> mr_Claimed r"
    using assms that claimLoop_None [of now "plans s"]
    by (auto simp: ClaimMigrationTask_def Let_def openIn_zero claimable_open split: option.splits)
qed

section \<open>Updates\<close>

lemma update_open:
  assumes "\<And>x. \<not> openTask u (m x)"
  shows "openIn u (plans (fst (updateMigrationTask s p t m))) \<le> openIn u (plans s)"
proof (cases "updateLoop p t m (plans s)")
  case (Some r)
  obtain ps task where r: "updateLoop p t m (plans s) = Some (ps, task)" using Some by (cases r) auto
  then obtain us plan vs a x b where "plans s = us @ plan # vs" "mp_Tasks plan = a @ x # b"
    "task = m x" "ps = us @ withTask plan (length a) task # vs"
    by (rule updateLoop_Some)
  with openIn_withTask [of plan a x b u us task vs] assms r show ?thesis
    by (simp add: updateMigrationTask_def replacePlansLocked_def Let_def split: if_splits)
qed (simp add: updateMigrationTask_def)

text \<open>Two updates of one task are one.\<close>

lemma taskIndexLoop_same:
  "map mt_TaskID xs = map mt_TaskID ys \<Longrightarrow> taskIndexLoop t k xs = taskIndexLoop t k ys"
proof (induction xs arbitrary: ys k)
  case (Cons x xs)
  then show ?case by (cases ys) auto
qed simp

lemma updateLoop_twice:
  assumes "\<And>x. mt_TaskID (m1 x) = mt_TaskID x" and "updateLoop p t m1 ps = Some (ps', r)"
  shows "map_option fst (updateLoop p t m2 ps') = map_option fst (updateLoop p t (m2 \<circ> m1) ps)"
  using assms(2)
proof (induction ps arbitrary: ps')
  case (Cons plan ps)
  let ?i = "if mp_ID plan \<noteq> p then None else taskIndexLoop t 0 (mp_Tasks plan)"
  show ?case
  proof (cases ?i)
    case None
    with Cons show ?thesis by (auto simp: map_option_case split: option.splits prod.splits)
  next
    case (Some i)
    then have p: "mp_ID plan = p" and idx: "taskIndexLoop t 0 (mp_Tasks plan) = Some i" by (auto split: if_splits)
    from idx obtain a x b where tasks: "mp_Tasks plan = a @ x # b" "i = length a"
      by (rule taskIndexLoop_Some) simp
    have ps': "ps' = withTask plan i (m1 (mp_Tasks plan ! i)) # ps" using Cons.prems Some by (auto simp: Let_def)
    have "taskIndexLoop t 0 (mp_Tasks (withTask plan i (m1 (mp_Tasks plan ! i)))) = Some i"
      using idx taskIndexLoop_same [of "(mp_Tasks plan)[i := m1 (mp_Tasks plan ! i)]" "mp_Tasks plan" t 0] assms(1)
      by (simp add: map_update tasks)
    moreover have "withTask (withTask plan i y) i z = withTask plan i z" for y z
      by (simp add: withTask_def Let_def deriveMigrationPlanState_def)
    ultimately show ?thesis using Some p by (simp add: ps' tasks Let_def)
  qed
qed simp

lemma update_twice:
  assumes "\<And>x. mt_TaskID (m1 x) = mt_TaskID x"
  shows "plans (fst (updateMigrationTask (fst (updateMigrationTask s p t m1)) p t m2)) =
    plans (fst (updateMigrationTask s p t (m2 \<circ> m1)))"
proof (cases "updateLoop p t m1 (plans s)")
  case None
  then have "updateLoop p t (m2 \<circ> m1) (plans s) = None" "updateLoop p t m2 (plans s) = None"
    by (simp_all add: updateLoop_None)
  with None show ?thesis by (simp add: updateMigrationTask_def)
next
  case (Some r)
  obtain ps x where r: "updateLoop p t m1 (plans s) = Some (ps, x)" using Some by (cases r) auto
  have "updateLoop p t (m2 \<circ> m1) (plans s) \<noteq> None" using r updateLoop_None by (metis option.distinct(1))
  with updateLoop_twice [OF assms r, of m2] r show ?thesis
    by (auto simp: updateMigrationTask_def replacePlansLocked_def Let_def split: option.splits prod.splits)
qed

section \<open>Commands of the service\<close>

lemmas command_types = CommandCreateNamespace_def CommandCreateSpace_def CommandCreateEntity_def
  CommandBumpNamespace_def CommandBumpSpace_def CommandRegisterNode_def CommandHeartbeat_def
  CommandRemoveNode_def CommandAdvanceNodeLiveness_def CommandClaimMigrationTask_def
  CommandCutoverMigrationTask_def CommandCompleteMigrationTask_def CommandFailMigrationTask_def

lemma local_commands:
  assumes "sv_propose env = None" and "0 < nowUnix env"
  shows "claimMigrationTask env s = (case ClaimMigrationTask s (TimeUnix (nowUnix env)) of (s', r) \<Rightarrow> (s', Inr r))"
    and "fst (cutoverMigrationTask env task n s) =
      fst (CutoverMigrationTask s (mt_PlanID task) (mt_TaskID task) n (TimeUnix (nowUnix env)))"
    and "fst (completeMigrationTask env task n m s) =
      fst (CompleteMigrationTask s (mt_PlanID task) (mt_TaskID task) n m (TimeUnix (nowUnix env)))"
    and "fst (failMigrationTask env task delay cause s) =
      fst (FailMigrationTask s (mt_PlanID task) (mt_TaskID task) cause (milliseconds (Milliseconds delay))
        (TimeUnix (nowUnix env)))"
  using assms
  by (simp_all add: claimMigrationTask_def cutoverMigrationTask_def completeMigrationTask_def
      failMigrationTask_def svcApply_def Apply_def command_types applyClaimMigrationTask_def
      applyCutoverMigrationTask_def applyCompleteMigrationTask_def applyFailMigrationTask_def
      zeroCommandBody_def commandTime_def onApplied_def applied_error_def fsmResult_def taskResult_def
      zeroApplyResult_def split: prod.splits sum.splits)

section \<open>A sweep\<close>

text \<open>A sweep between the seconds \<open>t\<close> and \<open>T\<close>, without raft, that is shorter than the backoff.\<close>

definition sweepWithin :: "'w migrationEnv \<Rightarrow> MigrationConfig \<Rightarrow> int \<Rightarrow> int \<Rightarrow> bool" where
  "sweepWithin mx cfg t T \<longleftrightarrow> 0 < t \<and>
     (\<forall>n. sv_propose (mx_svc mx n) = None \<and> t \<le> nowUnix (mx_svc mx n) \<and> nowUnix (mx_svc mx n) \<le> T) \<and>
     (T - t + 1) * nanos \<le> mc_RetryBackoff cfg \<and> mc_RetryBackoff cfg \<le> mc_TaskTimeout cfg \<and>
     mc_TaskTimeout cfg < 2 ^ 62"

lemma next_retry_later:
  assumes "(T - t + 1) * nanos \<le> delay" and "delay < 2 ^ 62" and "t \<le> n" and "n \<le> T"
  shows "T < migrationTaskNextRetryUnix (TimeUnix n) (milliseconds (Milliseconds delay))"
proof -
  let ?d = "delay div 1000000 * 1000000"
  have pos: "nanos \<le> delay" using assms by (simp add: nanos_def)
  then have "int64 ?d" using assms(2) by (simp add: int64_def MaxInt64_def MinInt64_def nanos_def) linarith
  with pos have ms: "milliseconds (Milliseconds delay) = ?d"
    by (simp add: milliseconds_def Milliseconds_def int64_wrap_small nanos_def)
  have "(T - t + 1) * 1000 \<le> delay div 1000000" using assms(1) by (simp add: nanos_def)
  then have d: "(T - t + 1) * nanos \<le> ?d" by (simp add: nanos_def)
  then have "T - t + 1 \<le> ?d div nanos" by (simp add: nanos_def)
  moreover have "UnixOf (TimeUnix n + ?d) = n + ?d div nanos" by (simp add: UnixOf_def TimeUnix_def nanos_def)
  moreover have "nanos \<le> ?d" using d assms(3,4) by (simp add: nanos_def)
  ultimately show ?thesis using assms(3,4) by (simp add: migrationTaskNextRetryUnix_def ms nanos_def)
qed

lemma final_commands_close:
  assumes env: "sv_propose env = None" "0 < nowUnix env" "t \<le> nowUnix env" "nowUnix env \<le> T"
    and delay: "(T - t + 1) * nanos \<le> delay" "delay < 2 ^ 62" and u: "u \<le> T"
    and s: "s = s0 \<or> (\<exists>n now. s = fst (CutoverMigrationTask s0 (mt_PlanID task) (mt_TaskID task) n now))"
  shows "openIn u (plans (fst (completeMigrationTask env task i d s))) \<le> openIn u (plans s0)"
    and "openIn u (plans (fst (failMigrationTask env task delay cause s))) \<le> openIn u (plans s0)"
proof -
  have closes: "openIn u (plans (fst (updateMigrationTask s (mt_PlanID task) (mt_TaskID task) m))) \<le> openIn u (plans s0)"
    if m: "\<And>x. \<not> openTask u (m x)" for m
    using s update_open [of u m, OF m]
  proof (elim disjE exE)
    fix n now
    let ?m1 = "\<lambda>task. task\<lparr>mt_State := migrationTaskCleanup, mt_Error := [], mt_ImportedEntries := n,
        mt_CutoverAtUnix := UnixOf now, mt_NextRetryUnix := 0\<rparr>"
    assume "s = fst (CutoverMigrationTask s0 (mt_PlanID task) (mt_TaskID task) n now)"
    moreover have "openIn u (plans (fst (updateMigrationTask s0 (mt_PlanID task) (mt_TaskID task) (m \<circ> ?m1))))
        \<le> openIn u (plans s0)"
      by (rule update_open) (simp add: m)
    ultimately show ?thesis using update_twice [of ?m1 s0 "mt_PlanID task" "mt_TaskID task" m]
      by (simp add: CutoverMigrationTask_def)
  qed simp
  show "openIn u (plans (fst (completeMigrationTask env task i d s))) \<le> openIn u (plans s0)"
    unfolding local_commands(3) [OF env(1,2)] CompleteMigrationTask_def
    by (rule closes) (simp add: openTask_def migrationTaskDone_def migrationTaskPlanned_def
        migrationTaskCleanup_def migrationTaskFailed_def)
  show "openIn u (plans (fst (failMigrationTask env task delay cause s))) \<le> openIn u (plans s0)"
    unfolding local_commands(4) [OF env(1,2)] FailMigrationTask_def
    using next_retry_later [OF delay env(3,4)] u
    by (intro closes) (simp add: openTask_def migrationTaskPlanned_def migrationTaskCleanup_def
        migrationTaskFailed_def)
qed

lemma migrateRange_state:
  assumes "migrateRange svc client task x = (x', i, d, err)" and "\<And>n. sv_propose (svc n) = None \<and> 0 < nowUnix (svc n)"
  shows "ex_state x' = ex_state x \<or>
    (\<exists>n now. ex_state x' = fst (CutoverMigrationTask (ex_state x) (mt_PlanID task) (mt_TaskID task) n now))"
proof -
  have cut: "\<exists>n' now. fst (cutoverMigrationTask (svc k) task n s) =
      fst (CutoverMigrationTask s (mt_PlanID task) (mt_TaskID task) n' now)" for k n s
    using local_commands(2) assms(2) by blast
  show ?thesis
  proof (cases "mt_CutoverAtUnix task > 0")
    case True
    with assms(1) show ?thesis
      by (auto simp: migrateRange_def cleanupMigratedRange_def onNet_def Let_def deleteMigrationSource_def
          unfenceMigrationSource_def split: prod.splits sum.splits)
  next
    case False
    have "ex_state x' = ex_state x \<or> (\<exists>k n. ex_state x' = fst (cutoverMigrationTask (svc k) task n (ex_state x)))"
      using assms(1) False
      by (auto simp: migrateRange_def migrateRangeToTarget_def onNet_def onState_def Let_def
          deleteMigrationSource_def unfenceMigrationSource_def split: prod.splits sum.splits option.splits)
        (metis fst_conv)+
    with cut show ?thesis by metis
  qed
qed

lemma execute_closes:
  assumes within: "sweepWithin mx cfg t T" and u: "u \<le> T"
  shows "openIn u (plans (ex_state (executeClaimedMigrationTask mx cfg task x))) \<le> openIn u (plans (ex_state x))"
proof -
  obtain x' i d err where m: "migrateRange (mx_svc mx) (mx_client mx) task x = (x', i, d, err)"
    by (metis prod.exhaust)
  have env: "sv_propose (mx_svc mx n) = None" "0 < nowUnix (mx_svc mx n)" "t \<le> nowUnix (mx_svc mx n)"
    "nowUnix (mx_svc mx n) \<le> T" for n
    using within by (auto simp: sweepWithin_def intro: order.strict_trans2)
  have cfg: "mc_RetryBackoff cfg \<le> mc_TaskTimeout cfg" "mc_TaskTimeout cfg < 2 ^ 62"
    "(T - t + 1) * nanos \<le> mc_RetryBackoff cfg"
    using within by (simp_all add: sweepWithin_def)
  have "t \<le> T" using env(3,4) [of 0] by linarith
  then have "0 < (T - t + 1) * nanos" by (simp add: nanos_def)
  with cfg(3) have pos: "0 < mc_RetryBackoff cfg" by linarith
  from retryDelay_bounds [OF pos cfg(1,2), of task] cfg
  have delay: "(T - t + 1) * nanos \<le> retryDelay task cfg" "retryDelay task cfg < 2 ^ 62" by simp_all
  note s = migrateRange_state [OF m, simplified env, simplified]
  note close = final_commands_close [OF env delay u s]
  show ?thesis using close
    by (cases err) (simp_all add: executeClaimedMigrationTask_def m onState_def split_beta Let_def)
qed

lemma foldl_closes:
  assumes "\<And>x y. f (g x y) \<le> (f x :: nat)"
  shows "f (foldl g x ys) \<le> f x"
  using assms by (induction ys arbitrary: x) (auto intro: order_trans)

lemma batch_closes:
  assumes "sweepWithin mx cfg t T" and "u \<le> T"
  shows "openIn u (plans (ex_state (executeClaimedMigrationTaskBatch mx cfg tasks x))) \<le> openIn u (plans (ex_state x))"
  unfolding executeClaimedMigrationTaskBatch_def executeMigrationTaskWave_def
  by (intro foldl_closes [where f = "\<lambda>x. openIn u (plans (ex_state x))"]) (rule execute_closes [OF assms])

lemma claimBatchLoop_open:
  assumes within: "sweepWithin mx cfg t T"
  shows "claimBatchLoop mx n tasks x = (x', tasks', keep) \<Longrightarrow>
    keep \<and> length tasks \<le> length tasks' \<and> length tasks' \<le> length tasks + n \<and>
    openIn T (plans (ex_state x')) + length tasks' = openIn T (plans (ex_state x)) + length tasks \<and>
    (length tasks' < length tasks + n \<longrightarrow> openIn t (plans (ex_state x')) = 0)"
proof (induction n arbitrary: tasks x)
  case (Suc n)
  let ?env = "mx_svc mx (ex_calls x)"
  have env: "sv_propose ?env = None" "0 < nowUnix ?env" "t \<le> nowUnix ?env" "nowUnix ?env \<le> T"
    using within by (auto simp: sweepWithin_def intro: order.strict_trans2)
  obtain s r where c: "ClaimMigrationTask (ex_state x) (TimeUnix (nowUnix ?env)) = (s, r)" by fastforce
  let ?x = "x\<lparr>ex_state := s, ex_calls := Suc (ex_calls x)\<rparr>"
  have step: "onState (mx_svc mx) claimMigrationTask x = (?x, Inr r)"
    by (simp add: onState_def local_commands(1) [OF env(1,2)] c)
  show ?case
  proof (cases "mr_Claimed r")
    case True
    with claim_open(1) [OF c True, of T] env(4) Suc.IH [of "tasks @ [mr_Task r]" ?x] Suc.prems step
    show ?thesis by auto
  next
    case False
    have "openIn t (plans (ex_state x)) = 0"
      using claim_open(2) [OF c False] env(3) openTask_mono by (simp add: openIn_zero) blast
    with False claim_open(2) [OF c False] Suc.prems step show ?thesis by auto
  qed
qed simp

lemma claimRounds_ends:
  assumes within: "sweepWithin mx cfg t T"
  shows "\<exists>x'. claimRounds mx cfg x = Some x' \<and> openIn t (plans (ex_state x')) = 0"
proof (induction "openIn T (plans (ex_state x))" arbitrary: x rule: less_induct)
  case less
  let ?n = "nat (migrationTaskConcurrency cfg)"
  have conc: "0 < migrationTaskConcurrency cfg"
    by (simp add: migrationTaskConcurrency_def defaultMigrationMaxParallel_def)
  have tT: "t \<le> T" using within by (auto simp: sweepWithin_def intro: order_trans)
  obtain x1 tasks keep where c: "claimMigrationTaskBatch mx cfg x = (x1, tasks, keep)" by (metis prod.exhaust)
  note claimed = claimBatchLoop_open [OF within c [unfolded claimMigrationTaskBatch_def], simplified]
  let ?x2 = "executeClaimedMigrationTaskBatch mx cfg tasks x1"
  have closes: "openIn u (plans (ex_state ?x2)) \<le> openIn u (plans (ex_state x1))" if "u \<le> T" for u
    by (rule batch_closes [OF within that])
  consider (none) "tasks = []" | (fewer) "tasks \<noteq> []" "int (length tasks) < migrationTaskConcurrency cfg"
    | (full) "tasks \<noteq> []" "\<not> int (length tasks) < migrationTaskConcurrency cfg" by blast
  then show ?case
  proof cases
    case none
    with claimed conc c show ?thesis by (subst claimRounds.simps) auto
  next
    case fewer
    then have "openIn t (plans (ex_state x1)) = 0" using claimed by auto
    with closes [OF tT] fewer c show ?thesis by (subst claimRounds.simps) (auto simp: Let_def)
  next
    case full
    then have "openIn T (plans (ex_state x1)) < openIn T (plans (ex_state x))" using claimed by (cases tasks) auto
    with closes [of T] have "openIn T (plans (ex_state ?x2)) < openIn T (plans (ex_state x))" by simp
    from less [OF this] full c claimed show ?thesis by (subst claimRounds.simps) (simp add: Let_def)
  qed
qed

end
