(* ===== verification/Properties_Cluster.thy ===== *)
theory Properties_Cluster
  imports Migration_Sweep Properties_Cache Control_Samples
begin

text \<open>
  The properties of the TCP server and client and of the migration executor over a cluster of servers.
  The sample cluster has two nodes, one with the sample store and one that is empty.
\<close>

section \<open>A small cluster\<close>

definition sampleServer :: "MemoryEngine \<Rightarrow> MemoryEngine Server" where
  "sampleServer e = NewServer 4 e"

definition sampleServerEnv :: "u64 option \<Rightarrow> MemoryEngine serverEnv" where
  "sampleServerEnv epoch =
     \<lparr>se_ops = memoryOps sampleDeps, se_quota = noQuota, se_calls = sampleEnv 120, se_deadline = False,
       se_epoch = epoch, se_targets = None, se_order = sorted_list_of_fset, se_outbox = (\<lambda>_. \<lparr>renv_append = Appended, renv_nowMs = 0\<rparr>),
       se_marshal = (\<lambda>code err. [ucast code])\<rparr>"

definition sampleEnvs :: "u64 option \<Rightarrow> string \<Rightarrow> nat \<Rightarrow> nat \<Rightarrow> MemoryEngine serverEnv" where
  "sampleEnvs epoch host turn n = sampleServerEnv epoch"

definition sampleUnmarshal :: "bytes \<Rightarrow> ErrorBody option" where
  "sampleUnmarshal raw = (case raw of [b] \<Rightarrow> Some \<lparr>eb_Code = ucast b, eb_Message = []\<rparr> | _ \<Rightarrow> None)"

definition sampleCluster :: "MemoryEngine cluster tcpClient" where
  "sampleCluster =
     \<lparr>tc_nextID = 0,
       tc_net = fmupd ''a'' \<lparr>pe_server = sampleServer sampleStore, pe_turn = 0, pe_inbox = []\<rparr>
         (fmupd ''b'' \<lparr>pe_server = sampleServer (NewMemory sampleConfig), pe_turn = 0, pe_inbox = []\<rparr> fmempty)\<rparr>"

lemma TrimSpace_ab [simp]: "TrimSpace ''a'' = ''a''" "TrimSpace ''b'' = ''b''"
  by code_simp+

lemma sampleCluster_servers:
  "serverAt sampleCluster h = (if h = ''a'' then Some (sampleServer sampleStore)
     else if h = ''b'' then Some (sampleServer (NewMemory sampleConfig)) else None)"
  by (simp add: serverAt_def sampleCluster_def)

lemma sampleCluster_inv: "clusterInv sampleDeps (sampleEnvs epoch) sampleCluster"
  by (simp add: clusterInv_def sampleDeps_ok sampleEnvs_def sampleServerEnv_def sampleCluster_servers
      sampleServer_def NewServer_def sampleStore_inv engine_inv_NewMemory)

section \<open>The server\<close>

lemma serveConn_inv:
  assumes "deps_ok d" and "\<And>n. se_ops (env n) = memoryOps d" and "engine_inv (srv_engine s)"
  shows "engine_inv (srv_engine (fst (serveConn c env n s input out)))"
  using assms(2,3)
proof (induction c env n s input out rule: serveConn.induct)
  case (1 c env n s input out)
  show ?case
  proof (cases "DecodeFrame c input")
    case (Inl e)
    with 1 show ?thesis by (simp add: serveConn.simps [of c env n s])
  next
    case (Inr r)
    obtain frame rest s' a where f: "DecodeFrame c input = Inr (frame, rest)" "handleFrame (env n) s frame = (s', a)"
      using Inr by (metis prod.exhaust)
    have "engine_inv (srv_engine s')"
      using memory_keeps.handle_keeps [OF 1(2) [of n], of s frame] assms(1) 1(3) f(2) by simp
    with 1 f show ?thesis
      by (auto simp: serveConn.simps [of c env n s] split: prod.split option.split)
  qed
qed

text \<open>
  C15: whatever bytes a client sends on a connection, well-formed frames or not, a server over a memory
  engine leaves the engine consistent: every entry filed under the shard and the physical key of its own
  key, every cost and every usage total exact.
\<close>

theorem server_keeps_invariant:
  assumes "deps_ok d" and "\<And>n. se_ops (env n) = memoryOps d" and "engine_inv (srv_engine s)"
  shows "engine_inv (srv_engine (fst (serveConn c env n s input out)))"
  by (rule serveConn_inv [OF assms])

theorem server_keeps_invariant_witness:
  "engine_inv (srv_engine (fst (serveConn (NewCodec []) (\<lambda>_. sampleServerEnv None) 0 (sampleServer sampleStore)
     [1, 2, 3] [])))"
  by (rule server_keeps_invariant [OF sampleDeps_ok])
    (simp_all add: sampleServerEnv_def sampleServer_def NewServer_def sampleStore_inv)

section \<open>Fences\<close>

text \<open>The requests that write a key, as a client encodes them.\<close>

definition writesKey :: "Key \<Rightarrow> u16 \<Rightarrow> bytes \<Rightarrow> bool" where
  "writesKey key op meta \<longleftrightarrow>
     (\<exists>r. op = OpCacheSet \<and> meta = EncodeSetRequest r \<and> sr_Key r = key \<and> int64 (sr_TTLMillis r)) \<or>
     (\<exists>r. op = OpCacheDelete \<and> meta = EncodeDeleteRequest r \<and> dr_Key r = key) \<or>
     (\<exists>r. op = OpCacheTouch \<and> meta = EncodeTouchRequest r \<and> tr_Key r = key \<and> int64 (tr_TTLMillis r)) \<or>
     (\<exists>r. op = OpCacheAdjust \<and> meta = EncodeAdjustRequest r \<and> ar_Key r = key \<and> wireAdjust r) \<or>
     (\<exists>r. op = OpCacheBatchDelete \<and> meta = EncodeBatchDeleteRequest r \<and> key \<in> dr_Key ` set (bd_Items r) \<and>
        list_all (\<lambda>d. wireKey (dr_Key d)) (bd_Items r) \<and> int (length (bd_Items r)) \<le> MaxInt64) \<or>
     (\<exists>r. op = OpCacheBatchTouch \<and> meta = EncodeBatchTouchRequest r \<and> key \<in> tr_Key ` set (bt_Items r) \<and>
        list_all wireTouch (bt_Items r) \<and> int (length (bt_Items r)) \<le> MaxInt64)"

lemma writesKey_mutationKeys:
  assumes "writesKey key (fr_Op frame) (fr_Metadata frame)" and "wireKey key"
  shows "cacheOpCanMutate (fr_Op frame) \<and> (\<exists>keys. mutationKeys frame = Inr keys \<and> key \<in> set keys)"
  using assms
  by (auto simp: writesKey_def cacheOpCanMutate_def mutatingCacheOps_def mutationKeys_def mapDecoded_def
      decode_single decode_batch op_codes wireSet_def wireTouch_def arriveSet_def)


definition sampleFence :: rangeFence where
  "sampleFence = \<lparr>rf_namespace = ''n'', rf_space = ''s'', rf_start = 0, rf_end = 65535\<rparr>"

definition sampleDelete :: Frame where
  "sampleDelete = requestFrame OpCacheDelete 7 0
     (EncodeDeleteRequest \<lparr>dr_Key = sampleKey, dr_RouteEpoch = 0, dr_ExpectedVersion = 0\<rparr>) []"


text \<open>
  The fence looks at a shorter list of primitives than the engine: setting a bit, adding to or merging a
  HyperLogLog and adding a location change the store, and go through a fence over their key.
\<close>

lemma fence_misses_primitives:
  assumes "wp_Kind r \<in> {18, 21, 23, 25}" and "fr_Op frame = OpCachePrimitive"
    and "DecodePrimitiveRequest (fr_Metadata frame) (fr_Payload frame) = Inr r"
  shows "kindFromWire (wp_Kind r) \<in> {PrimitiveBitmapSetBit, PrimitiveHLLAdd, PrimitiveHLLMerge, PrimitiveGeoAdd} \<and>
    Mutates (kindFromWire (wp_Kind r)) \<and> fencedMutation s frame = Inr False"
proof -
  have "kindFromWire 18 = PrimitiveBitmapSetBit" "kindFromWire 21 = PrimitiveHLLAdd"
    "kindFromWire 23 = PrimitiveHLLMerge" "kindFromWire 25 = PrimitiveGeoAdd"
    by (simp_all add: kindFromWire_def primitiveKinds_def)
  moreover have "\<not> primitiveWireKindMutates (wp_Kind r)"
    using assms(1) by (auto simp: primitiveWireKindMutates_def mutatingPrimitiveKinds_def kindCode_def primitiveKinds_def)
  ultimately show ?thesis using assms
    by (auto simp: fencedMutation_def mutationKeys_def keysFromPrimitiveFrame_def mapDecoded_def op_codes Let_def)
qed

section \<open>Migrations\<close>

text \<open>
  C3: an attempt to move a range loses no entry, whichever of its steps fails: in a cluster of servers over
  memory engines, an entry of the range that the source holds and that no clock of the cluster takes
  for expired is afterwards still at the source, unchanged, or at the target in a version that is no older;
  and every engine is still consistent.
\<close>

theorem migration_attempt_loses_nothing:
  assumes "clusterInv d envs (ex_net x)"
    and "migrateRange svc (tcpRangeClient (clusterEnv codec envs um)) task x = (x', imported, deleted, err)"
    and "mt_CutoverAtUnix task \<le> 0" and "TrimSpace (mt_SourceAddr task) \<noteq> TrimSpace (mt_TargetAddr task)"
    and "wireable (clusterHeld (ex_net x) (mt_SourceAddr task))"
    and "wireString (mt_Namespace task)" and "wireString (mt_Space task)"
    and "clusterHeld (ex_net x) (mt_SourceAddr task) k = Some ent"
    and "inWireRange (migrationRangeRequest task) (e_key ent)" and "\<not> clusterGone envs ent"
  shows "clusterInv d envs (ex_net x') \<and> (clusterHeld (ex_net x') (mt_SourceAddr task) k = Some ent \<or>
    (\<exists>ent'. clusterHeld (ex_net x') (mt_TargetAddr task) k = Some ent' \<and> e_version ent \<le> e_version ent'))"
  by (rule cluster_nodes.attempt_keeps_entries [OF assms])

definition sampleTask :: MigrationTaskBody where
  "sampleTask =
     \<lparr>mt_PlanID = 1, mt_TaskID = 1, mt_Revision = 4, mt_Namespace = ''n'', mt_Space = ''s'', mt_VSlotStart = 0,
       mt_VSlotEnd = 65535, mt_SourceNodeID = ''n1'', mt_SourceAddr = ''a'', mt_TargetNodeID = ''n2'',
       mt_TargetAddr = ''b'', mt_State = migrationTaskRunning, mt_CreatedAtUnix = 1000, mt_StartedAtUnix = 1000,
       mt_CutoverAtUnix = 0, mt_FinishedAtUnix = 0, mt_ImportedEntries = 0, mt_DeletedEntries = 0,
       mt_Attempts = 0, mt_NextRetryUnix = 0, mt_Error = []\<rparr>"

definition sampleExecutor :: "MemoryEngine cluster tcpClient Executor" where
  "sampleExecutor = \<lparr>ex_state = sampleState, ex_calls = 0, ex_net = sampleCluster\<rparr>"

definition sampleService :: "nat \<Rightarrow> serviceEnv" where
  "sampleService n =
     \<lparr>sv_propose = None, sv_rng = sorted_list_of_fmap, sv_clock = sampleClock, sv_now = sampleClock\<rparr>"

lemma sampleHeld: "clusterHeld sampleCluster ''a'' = contents sampleStore"
  by (simp add: fun_eq_iff clusterHeld_def sampleCluster_servers sampleServer_def NewServer_def TrimSpace_ab)

theorem migration_attempt_loses_nothing_witness:
  "\<exists>x' imported deleted err. migrateRange sampleService
      (tcpRangeClient (clusterEnv (NewCodec []) (sampleEnvs None) sampleUnmarshal)) sampleTask sampleExecutor =
        (x', imported, deleted, err) \<and>
    (clusterHeld (ex_net x') ''a'' (physicalKey sampleKey) \<noteq> None \<or>
     clusterHeld (ex_net x') ''b'' (physicalKey sampleKey) \<noteq> None)"
proof -
  let ?ent = "setEntry 100 sampleKey [1, 2] plainSet None"
  obtain x' imported deleted err where m: "migrateRange sampleService
      (tcpRangeClient (clusterEnv (NewCodec []) (sampleEnvs None) sampleUnmarshal)) sampleTask sampleExecutor =
        (x', imported, deleted, err)"
    by (metis prod.exhaust)
  have net: "ex_net sampleExecutor = sampleCluster" by (simp add: sampleExecutor_def)
  have src: "mt_SourceAddr sampleTask = ''a''" "mt_TargetAddr sampleTask = ''b''" by (simp_all add: sampleTask_def)
  have dom: "dom (contents sampleStore) = {physicalKey otherKey, physicalKey sampleKey}"
    by (auto simp: sampleStore_contents split: if_splits)
  have ne: "physicalKey otherKey \<noteq> physicalKey sampleKey" by (simp add: physicalKey_inject otherKey_def sampleKey_def)
  have wire: "wireable (contents sampleStore)"
    using ne by (auto simp: wireable_def dom sampleStore_contents setEntry_def snapshotEntryFromEntry_def
        snapshotEntryToWire_def wireSnapshotEntry_def wireKey_def wireString_def sampleKey_def otherKey_def
        plainSet_def timeToUnixMilli_def UnixMilli_def unixEpoch_def int64_def MaxInt64_def MinInt64_def
        split: if_splits)
  have "VSlotFor ''n'' ''s'' ''k'' \<le> 65535" by code_simp
  then have "inWireRange (migrationRangeRequest sampleTask) (e_key ?ent)"
    by (simp add: inWireRange_def keyInRange_def rangeFromWire_def migrationRangeRequest_def sampleTask_def
        setEntry_def sampleKey_def)
  moreover have "\<not> clusterGone (sampleEnvs None) ?ent"
    by (simp add: clusterGone_def expired_def setEntry_def plainSet_def)
  moreover have "contents sampleStore (physicalKey sampleKey) = Some ?ent" using ne by (simp add: sampleStore_contents)
  ultimately have "clusterHeld (ex_net x') ''a'' (physicalKey sampleKey) = Some ?ent \<or>
      (\<exists>ent'. clusterHeld (ex_net x') ''b'' (physicalKey sampleKey) = Some ent' \<and> e_version ?ent \<le> e_version ent')"
    using migration_attempt_loses_nothing [OF _ m, of sampleDeps "physicalKey sampleKey" ?ent] wire
      sampleCluster_inv [of None]
    by (simp add: net src sampleHeld TrimSpace_ab wireString_def MaxInt64_def sampleTask_def)
  with m show ?thesis by auto
qed

lemma stale_call:
  fixes c :: "'e cluster tcpClient"
  assumes stale: "\<And>turn n. \<exists>m. se_epoch (envs (TrimSpace addr) turn n) = Some m \<and> epoch < m" and "epoch \<noteq> 0"
    and call: "doCall (clusterEnv codec envs um) addr op epoch meta payload c = (c', r)"
  shows "(\<exists>e. r = Inl e) \<and> serverAt c' = serverAt c"
proof (cases "serverAt c (TrimSpace addr)")
  case None
  with cluster_call_refused [OF None] call show ?thesis by auto
next
  case (Some s)
  let ?f = "requestFrame op (tc_nextID c + 1) epoch meta payload"
  obtain m where "se_epoch (envAt envs (TrimSpace addr) c) = Some m" "epoch < m"
    using stale unfolding envAt_def by blast
  then have "\<exists>err. handleFrame (envAt envs (TrimSpace addr) c) s ?f = (s, errorFrame (envAt envs (TrimSpace addr) c) ?f ErrorNoRoute err)"
    using stale_unchanged [OF assms(2), of "envAt envs (TrimSpace addr) c" m ?f s] by auto
  then have "(\<exists>e. r = Inl e) \<and> serverAt c' (TrimSpace addr) = Some s"
    using cluster_call_cases(1) [OF call Some] by auto
  moreover have "serverAt c' h = serverAt c h" if "h \<noteq> TrimSpace addr" for h
    by (rule cluster_call_cases(2) [OF call Some that])
  ultimately show ?thesis using Some by (metis ext)
qed

lemma stale_answer:
  assumes "\<And>turn n. \<exists>m. se_epoch (envs (TrimSpace addr) turn n) = Some m \<and> epoch < m" and "epoch \<noteq> 0"
    and "decodeAnswer dec (doCall (clusterEnv codec envs um) addr op epoch meta payload c) = (c', z)"
  shows "(\<exists>e. z = Inl e) \<and> serverAt c' = serverAt c"
  using stale_call [where envs = envs and addr = addr and epoch = epoch, OF assms(1,2)] assms(3)
  by (cases "doCall (clusterEnv codec envs um) addr op epoch meta payload c")
    (fastforce simp: decodeAnswer_def split: sum.splits)



text \<open>Claiming a task already publishes a revision later than the one the task carries.\<close>

lemma claim_outdates_task:
  "case ClaimMigrationTask sampleState sampleClock of
     (s, r) \<Rightarrow> mr_Claimed r \<and> mt_Revision (mr_Task r) \<noteq> 0 \<and> mt_Revision (mr_Task r) < revision s"
  by code_simp

text \<open>
  The waves a batch of tasks is split into hold exactly the tasks of the batch, each as often as it was
  claimed, and two tasks of one wave have no node in common, neither as source nor as target.
\<close>

theorem waves_share_no_node:
  "mset (concat (migrationTaskWaves tasks)) = mset tasks
   \<and> (\<forall>wave \<in> set (migrationTaskWaves tasks). \<forall>i j. i < j \<longrightarrow> j < length wave \<longrightarrow>
        set (migrationTaskNodeKeys (wave ! i)) \<inter> set (migrationTaskNodeKeys (wave ! j)) = {})"
  using waves_ok [of tasks] by (auto simp: sorted_wrt_iff_nth_less sharesNoNode_def)

definition taskBetween :: "string \<Rightarrow> string \<Rightarrow> MigrationTaskBody" where
  "taskBetween src dst = sampleTask\<lparr>mt_SourceNodeID := src, mt_TargetNodeID := dst\<rparr>"

theorem waves_share_no_node_witness:
  "migrationTaskWaves [taskBetween ''a'' ''b'', taskBetween ''b'' ''c''] =
     [[taskBetween ''a'' ''b''], [taskBetween ''b'' ''c'']] \<and>
   mset (concat (migrationTaskWaves [taskBetween ''a'' ''b'', taskBetween ''b'' ''c''])) =
     mset [taskBetween ''a'' ''b'', taskBetween ''b'' ''c'']"
proof
  show "migrationTaskWaves [taskBetween ''a'' ''b'', taskBetween ''b'' ''c''] =
     [[taskBetween ''a'' ''b''], [taskBetween ''b'' ''c'']]" by code_simp
qed (rule conjunct1 [OF waves_share_no_node])

text \<open>
  The waves do not keep the order of the claims: of three tasks a to b, a to c and c to d the third runs in the
  first wave, before the second has moved its range to c.
\<close>

lemma waves_overtake:
  "migrationTaskWaves [taskBetween ''a'' ''b'', taskBetween ''a'' ''c'', taskBetween ''c'' ''d''] =
     [[taskBetween ''a'' ''b'', taskBetween ''c'' ''d''], [taskBetween ''a'' ''c'']]"
  by code_simp


definition sampleMigrationEnv :: "MemoryEngine cluster tcpClient migrationEnv" where
  "sampleMigrationEnv =
     \<lparr>mx_svc = sampleService,
       mx_client = tcpRangeClient (clusterEnv (NewCodec []) (sampleEnvs None) sampleUnmarshal),
       mx_order = (\<lambda>tasks. tasks), mx_text = (\<lambda>_. ''failed'')\<rparr>"

definition sampleMigrationConfig :: MigrationConfig where
  "sampleMigrationConfig = normalizeMigrationConfig
     \<lparr>mc_Enabled = True, mc_SweepInterval = 0, mc_TaskTimeout = 0, mc_RetryBackoff = 0, mc_MaxParallelTasks = 0\<rparr>"


section \<open>Calls\<close>


definition sampleSetRequest :: SetRequest where
  "sampleSetRequest =
     \<lparr>sr_Key = sampleKey, sr_Value = [9], sr_RouteEpoch = 0, sr_TTLMillis = 0, sr_NamespaceVersion = 0,
       sr_SpaceVersion = 0, sr_ExpectedVersion = 0, sr_PayloadOffset = 0, sr_PayloadSize = 0\<rparr>"

definition smallCodec :: Codec where
  "smallCodec = \<lparr>MaxMetadataBytes = 200, MaxPayloadBytes = 200\<rparr>"


end
