(* ===== verification/Client_Routed.thy ===== *)
theory Client_Routed
  imports Tcp_Client "HOL-Library.List_Lexorder" "HOL-Library.Char_ord"
begin

text \<open>
  The public client (\<open>client/*.go\<close>): the client of one server, the routed client, which keeps a
  snapshot of the control plane, resolves a key to the address of its route and retries once after a
  refresh, its batches, which are split by address, and the counter loop. The snapshot comes from the
  control service over HTTP: \<open>re_fetch\<close> is that request. \<open>re_nilRange\<close> says whether ranging over a nil
  list of \<open>collectionx\<close> visits nothing or panics.
\<close>

section \<open>One server\<close>

datatype routed_error =
    InvalidConfig
  | RouteNotFound Key
  | CatalogVersionNotFound Key
  | SnapshotFetch bool
  | RefreshFailed bool
  | SnapshotReadFailed bool
  | Transport client_error
  | NilListPanic
  | CounterValueInvalid string
  | CounterOverflowed int int
  | CounterRetriesExhausted nat

definition NewTCP :: "string \<Rightarrow> routed_error + string" where
  "NewTCP addr = (let addr = TrimSpace addr in if addr = [] then Inl InvalidConfig else Inr addr)"

section \<open>Routes\<close>

record routeDecision =
  dn_addr :: string
  dn_routeEpoch :: u64
  dn_namespaceVersion :: u64
  dn_spaceVersion :: u64

record 'w routedEnv =
  re_client :: "'w clientEnv"
  re_fetch :: "'w \<Rightarrow> 'w \<times> (bool + SnapshotBody)"
  re_nilRange :: bool

record 'w RoutedTCPClient =
  rc_snapshot :: SnapshotBody
  rc_transport :: "'w tcpClient"

text \<open>A fetch that fails says whether its context was cancelled or ran out.\<close>

definition Refresh :: "'w routedEnv \<Rightarrow> 'w RoutedTCPClient \<Rightarrow> 'w RoutedTCPClient \<times> bool option" where
  "Refresh env c =
     (case re_fetch env (tc_net (rc_transport c)) of
        (w, Inl cancelled) \<Rightarrow> (c\<lparr>rc_transport := (rc_transport c)\<lparr>tc_net := w\<rparr>\<rparr>, Some cancelled)
      | (w, Inr snapshot) \<Rightarrow>
          (c\<lparr>rc_snapshot := snapshot, rc_transport := (rc_transport c)\<lparr>tc_net := w\<rparr>\<rparr>, None))"

definition currentSnapshot ::
  "'w routedEnv \<Rightarrow> 'w RoutedTCPClient \<Rightarrow> 'w RoutedTCPClient \<times> (bool + SnapshotBody)" where
  "currentSnapshot env c =
     (if cs_Revision (rc_snapshot c) \<noteq> 0 then (c, Inr (rc_snapshot c))
      else case Refresh env c of
             (c, Some e) \<Rightarrow> (c, Inl e)
           | (c, None) \<Rightarrow> (c, Inr (rc_snapshot c)))"

definition resolveSnapshot :: "SnapshotBody \<Rightarrow> Key \<Rightarrow> routed_error + routeDecision" where
  "resolveSnapshot snapshot key =
     (case Select (cs_Routes snapshot) (k_Namespace key) (k_Space key) (k_Key key) of
        None \<Rightarrow> Inl (RouteNotFound key)
      | Some route \<Rightarrow>
          (case NamespaceVersion (cs_Namespaces snapshot) (k_Namespace key) of
             None \<Rightarrow> Inl (CatalogVersionNotFound key)
           | Some nsVersion \<Rightarrow>
               (case SpaceVersion (cs_Spaces snapshot) (k_Namespace key) (k_Space key) of
                  None \<Rightarrow> Inl (CatalogVersionNotFound key)
                | Some spVersion \<Rightarrow>
                    Inr \<lparr>dn_addr = rt_Addr route, dn_routeEpoch = cs_Revision snapshot,
                      dn_namespaceVersion = nsVersion, dn_spaceVersion = spVersion\<rparr>)))"

definition resolve ::
  "'w routedEnv \<Rightarrow> Key \<Rightarrow> 'w RoutedTCPClient \<Rightarrow> 'w RoutedTCPClient \<times> (routed_error + routeDecision)" where
  "resolve env key c =
     (case currentSnapshot env c of
        (c, Inl e) \<Rightarrow> (c, Inl (SnapshotFetch e))
      | (c, Inr snapshot) \<Rightarrow> (c, resolveSnapshot snapshot key))"

definition sameRouteDecision :: "routeDecision \<Rightarrow> routeDecision \<Rightarrow> bool" where
  "sameRouteDecision left right \<longleftrightarrow>
     dn_addr left = dn_addr right \<and> dn_routeEpoch left = dn_routeEpoch right \<and>
     dn_namespaceVersion left = dn_namespaceVersion right \<and> dn_spaceVersion left = dn_spaceVersion right"

fun contextCancelled :: "routed_error \<Rightarrow> bool" where
  "contextCancelled (Transport (DialFailed DialCancelled)) = True"
| "contextCancelled (SnapshotFetch cancelled) = cancelled"
| "contextCancelled (RefreshFailed cancelled) = cancelled"
| "contextCancelled (SnapshotReadFailed cancelled) = cancelled"
| "contextCancelled _ = False"

definition shouldRefreshRoute :: "routed_error \<Rightarrow> bool \<times> bool" where
  "shouldRefreshRoute err =
     (if contextCancelled err then (False, False)
      else case err of
             Transport (RemoteError body) \<Rightarrow>
               if eb_Code body = ErrorNoRoute then (True, False)
               else if eb_Code body = ErrorTimeout \<or> eb_Code body = ErrorUnavailable then (True, True)
               else (False, False)
           | _ \<Rightarrow> (True, True))"

text \<open>
  A Go call returns a response and an error; \<open>zero\<close> is the response that comes with an error. The
  second \<open>resolve\<close> assigns to the same \<open>err\<close> that held the error of the send.
\<close>

definition runSend ::
  "'a \<Rightarrow> (routeDecision \<Rightarrow> ('w, 'a) call) \<Rightarrow> routeDecision \<Rightarrow> 'w RoutedTCPClient \<Rightarrow>
     'w RoutedTCPClient \<times> 'a \<times> routed_error option" where
  "runSend zero send decision c =
     (case send decision (rc_transport c) of
        (t, Inl e) \<Rightarrow> (c\<lparr>rc_transport := t\<rparr>, zero, Some (Transport e))
      | (t, Inr x) \<Rightarrow> (c\<lparr>rc_transport := t\<rparr>, x, None))"

definition sendWithRouteRetry ::
  "'w routedEnv \<Rightarrow> 'a \<Rightarrow> Key \<Rightarrow> (routeDecision \<Rightarrow> ('w, 'a) call) \<Rightarrow> 'w RoutedTCPClient \<Rightarrow>
     'w RoutedTCPClient \<times> 'a \<times> routed_error option" where
  "sendWithRouteRetry env zero key send c =
     (case resolve env key c of
        (c, Inl e) \<Rightarrow> (c, zero, Some e)
      | (c, Inr decision) \<Rightarrow>
          (case runSend zero send decision c of
             (c, response, None) \<Rightarrow> (c, response, None)
           | (c, response, Some err) \<Rightarrow>
               let (refresh, requireChange) = shouldRefreshRoute err in
               if \<not> refresh then (c, response, Some err)
               else case Refresh env c of
                      (c, Some e) \<Rightarrow> (c, zero, Some (RefreshFailed e))
                    | (c, None) \<Rightarrow>
                        (case resolve env key c of
                           (c, Inl e) \<Rightarrow> (c, zero, Some e)
                         | (c, Inr next) \<Rightarrow>
                             if requireChange \<and> sameRouteDecision decision next then (c, response, None)
                             else runSend zero send next c)))"

definition routedResult ::
  "'a \<Rightarrow> 'w RoutedTCPClient \<times> 'a \<times> routed_error option \<Rightarrow> 'w RoutedTCPClient \<times> (routed_error + 'a)" where
  "routedResult zero r =
     (case r of (c, x, Some e) \<Rightarrow> (c, Inl e) | (c, x, None) \<Rightarrow> (c, Inr x))"

definition stampSetRequest :: "SetRequest \<Rightarrow> routeDecision \<Rightarrow> SetRequest" where
  "stampSetRequest request decision =
     request\<lparr>sr_RouteEpoch := dn_routeEpoch decision, sr_NamespaceVersion := dn_namespaceVersion decision,
       sr_SpaceVersion := dn_spaceVersion decision\<rparr>"

definition stampGetRequest :: "GetRequest \<Rightarrow> routeDecision \<Rightarrow> GetRequest" where
  "stampGetRequest request decision =
     request\<lparr>gr_RouteEpoch := dn_routeEpoch decision, gr_NamespaceVersion := dn_namespaceVersion decision,
       gr_SpaceVersion := dn_spaceVersion decision\<rparr>"

definition stampExistsRequest :: "ExistsRequest \<Rightarrow> routeDecision \<Rightarrow> ExistsRequest" where
  "stampExistsRequest request decision =
     request\<lparr>xr_RouteEpoch := dn_routeEpoch decision, xr_NamespaceVersion := dn_namespaceVersion decision,
       xr_SpaceVersion := dn_spaceVersion decision\<rparr>"

definition stampTouchRequest :: "TouchRequest \<Rightarrow> routeDecision \<Rightarrow> TouchRequest" where
  "stampTouchRequest request decision =
     request\<lparr>tr_RouteEpoch := dn_routeEpoch decision, tr_NamespaceVersion := dn_namespaceVersion decision,
       tr_SpaceVersion := dn_spaceVersion decision\<rparr>"

definition stampAdjustRequest :: "AdjustRequest \<Rightarrow> routeDecision \<Rightarrow> AdjustRequest" where
  "stampAdjustRequest request decision =
     request\<lparr>ar_RouteEpoch := dn_routeEpoch decision, ar_NamespaceVersion := dn_namespaceVersion decision,
       ar_SpaceVersion := dn_spaceVersion decision\<rparr>"

definition stampPrimitiveRequest :: "WirePrimitiveRequest \<Rightarrow> routeDecision \<Rightarrow> WirePrimitiveRequest" where
  "stampPrimitiveRequest request decision =
     request\<lparr>wp_RouteEpoch := dn_routeEpoch decision, wp_NamespaceVersion := dn_namespaceVersion decision,
       wp_SpaceVersion := dn_spaceVersion decision\<rparr>"

definition stampDeleteRequest :: "DeleteRequest \<Rightarrow> routeDecision \<Rightarrow> DeleteRequest" where
  "stampDeleteRequest request decision = request\<lparr>dr_RouteEpoch := dn_routeEpoch decision\<rparr>"

type_synonym ('w, 'a) routedCall = "'w RoutedTCPClient \<Rightarrow> 'w RoutedTCPClient \<times> (routed_error + 'a)"

definition RoutedSet :: "'w routedEnv \<Rightarrow> SetRequest \<Rightarrow> ('w, WireRecord) routedCall" where
  "RoutedSet env request c =
     routedResult missRecord (sendWithRouteRetry env missRecord (sr_Key request)
       (\<lambda>decision. ClientSet (re_client env) (dn_addr decision) (stampSetRequest request decision)) c)"

definition RoutedGet :: "'w routedEnv \<Rightarrow> GetRequest \<Rightarrow> ('w, WireRecord) routedCall" where
  "RoutedGet env request c =
     routedResult missRecord (sendWithRouteRetry env missRecord (gr_Key request)
       (\<lambda>decision. ClientGet (re_client env) (dn_addr decision) (stampGetRequest request decision)) c)"

definition RoutedDelete :: "'w routedEnv \<Rightarrow> DeleteRequest \<Rightarrow> ('w, bool) routedCall" where
  "RoutedDelete env request c =
     routedResult False (sendWithRouteRetry env False (dr_Key request)
       (\<lambda>decision. ClientDelete (re_client env) (dn_addr decision)
          (request\<lparr>dr_RouteEpoch := dn_routeEpoch decision\<rparr>)) c)"

definition RoutedExists :: "'w routedEnv \<Rightarrow> ExistsRequest \<Rightarrow> ('w, bool) routedCall" where
  "RoutedExists env request c =
     routedResult False (sendWithRouteRetry env False (xr_Key request)
       (\<lambda>decision. ClientExists (re_client env) (dn_addr decision) (stampExistsRequest request decision)) c)"

definition RoutedTouch :: "'w routedEnv \<Rightarrow> TouchRequest \<Rightarrow> ('w, bool) routedCall" where
  "RoutedTouch env request c =
     routedResult False (sendWithRouteRetry env False (tr_Key request)
       (\<lambda>decision. ClientTouch (re_client env) (dn_addr decision) (stampTouchRequest request decision)) c)"

definition RoutedAdjust :: "'w routedEnv \<Rightarrow> AdjustRequest \<Rightarrow> ('w, WireRecord) routedCall" where
  "RoutedAdjust env request c =
     routedResult missRecord (sendWithRouteRetry env missRecord (ar_Key request)
       (\<lambda>decision. ClientAdjust (re_client env) (dn_addr decision) (stampAdjustRequest request decision)) c)"

definition zeroPrimitiveResult :: WirePrimitiveResult where
  "zeroPrimitiveResult =
     \<lparr>wq_Record = missRecord, wq_Found = False, wq_Applied = False, wq_Value = [], wq_Bool = False,
       wq_Count = 0, wq_Fields = [], wq_Members = [], wq_ScoredMembers = [], wq_Values = [],
       wq_PayloadOffset = 0, wq_PayloadSize = 0\<rparr>"

definition RoutedPrimitive :: "'w routedEnv \<Rightarrow> WirePrimitiveRequest \<Rightarrow> ('w, WirePrimitiveResult) routedCall" where
  "RoutedPrimitive env request c =
     routedResult zeroPrimitiveResult (sendWithRouteRetry env zeroPrimitiveResult (wp_Key request)
       (\<lambda>decision. ClientPrimitive (re_client env) (dn_addr decision) (stampPrimitiveRequest request decision)) c)"

section \<open>Batches\<close>

type_synonym 'i indexed = "nat \<times> 'i"
type_synonym 'i batchGroup = "string \<times> 'i indexed list"

definition indexBatchItems :: "'i list \<Rightarrow> 'i indexed list" where
  "indexBatchItems items = zip [0..<length items] items"

definition addBatchGroup :: "(string, 'i indexed list) fmap \<Rightarrow> string \<Rightarrow> 'i indexed \<Rightarrow> (string, 'i indexed list) fmap" where
  "addBatchGroup groups addr item =
     (case fmlookup groups addr of
        None \<Rightarrow> fmupd addr [item] groups
      | Some items \<Rightarrow> fmupd addr (items @ [item]) groups)"

definition orderedBatchGroups :: "(string, 'i indexed list) fmap \<Rightarrow> 'i batchGroup list" where
  "orderedBatchGroups groups =
     map (\<lambda>addr. (addr, case fmlookup groups addr of Some items \<Rightarrow> items | None \<Rightarrow> []))
       (sorted_list_of_fset (fmdom groups))"

fun groupLoop ::
  "SnapshotBody \<Rightarrow> ('i \<Rightarrow> Key) \<Rightarrow> ('i \<Rightarrow> routeDecision \<Rightarrow> 'i) \<Rightarrow> (string, 'i indexed list) fmap \<Rightarrow>
     'i indexed list \<Rightarrow> routed_error + (string, 'i indexed list) fmap" where
  "groupLoop snapshot keyOf stamp groups [] = Inr groups"
| "groupLoop snapshot keyOf stamp groups ((index, request) # items) =
     (case resolveSnapshot snapshot (keyOf request) of
        Inl e \<Rightarrow> Inl e
      | Inr decision \<Rightarrow>
          groupLoop snapshot keyOf stamp
            (addBatchGroup groups (dn_addr decision) (index, stamp request decision)) items)"

definition groupRoutedWireRequests ::
  "('i \<Rightarrow> Key) \<Rightarrow> ('i \<Rightarrow> routeDecision \<Rightarrow> 'i) \<Rightarrow> SnapshotBody \<Rightarrow> 'i indexed list \<Rightarrow>
     routed_error + 'i batchGroup list" where
  "groupRoutedWireRequests keyOf stamp snapshot items =
     (case groupLoop snapshot keyOf stamp fmempty items of
        Inl e \<Rightarrow> Inl e
      | Inr groups \<Rightarrow> Inr (orderedBatchGroups groups))"

definition groupSetRequests :: "SnapshotBody \<Rightarrow> SetRequest indexed list \<Rightarrow> routed_error + SetRequest batchGroup list" where
  "groupSetRequests = groupRoutedWireRequests sr_Key stampSetRequest"

definition groupGetRequests :: "SnapshotBody \<Rightarrow> GetRequest indexed list \<Rightarrow> routed_error + GetRequest batchGroup list" where
  "groupGetRequests = groupRoutedWireRequests gr_Key stampGetRequest"

definition groupDeleteRequests ::
  "SnapshotBody \<Rightarrow> DeleteRequest indexed list \<Rightarrow> routed_error + DeleteRequest batchGroup list" where
  "groupDeleteRequests = groupRoutedWireRequests dr_Key stampDeleteRequest"

definition groupExistsRequests ::
  "SnapshotBody \<Rightarrow> ExistsRequest indexed list \<Rightarrow> routed_error + ExistsRequest batchGroup list" where
  "groupExistsRequests = groupRoutedWireRequests xr_Key stampExistsRequest"

definition groupTouchRequests ::
  "SnapshotBody \<Rightarrow> TouchRequest indexed list \<Rightarrow> routed_error + TouchRequest batchGroup list" where
  "groupTouchRequests = groupRoutedWireRequests tr_Key stampTouchRequest"

definition groupPrimitiveRequests ::
  "SnapshotBody \<Rightarrow> WirePrimitiveRequest indexed list \<Rightarrow> routed_error + WirePrimitiveRequest batchGroup list" where
  "groupPrimitiveRequests = groupRoutedWireRequests wp_Key stampPrimitiveRequest"

definition batchItems :: "'i indexed list \<Rightarrow> 'i list" where
  "batchItems grp = map snd grp"

fun copyBatchResults :: "'r list \<Rightarrow> 'i indexed list \<Rightarrow> 'r list \<Rightarrow> 'r list" where
  "copyBatchResults results ((index, _) # grp) (r # response) =
     copyBatchResults (results[index := r]) grp response"
| "copyBatchResults results _ _ = results"

fun runGroups ::
  "(u64 \<Rightarrow> string \<Rightarrow> 'i indexed list \<Rightarrow> ('w, 'r list) call) \<Rightarrow> u64 \<Rightarrow> 'i batchGroup list \<Rightarrow> 'r list \<Rightarrow>
     'w RoutedTCPClient \<Rightarrow> 'w RoutedTCPClient \<times> 'r list \<times> 'i batchGroup list option \<times> routed_error option" where
  "runGroups send epoch [] records c = (c, records, None, None)"
| "runGroups send epoch ((addr, items) # groups) records c =
     (case send epoch addr items (rc_transport c) of
        (t, Inl e) \<Rightarrow> (c\<lparr>rc_transport := t\<rparr>, records, Some ((addr, items) # groups), Some (Transport e))
      | (t, Inr response) \<Rightarrow>
          runGroups send epoch groups (copyBatchResults records items response) (c\<lparr>rc_transport := t\<rparr>))"

definition runRoutedBatch ::
  "'r \<Rightarrow> nat \<Rightarrow> u64 \<Rightarrow> 'i batchGroup list \<Rightarrow> 'r list \<Rightarrow>
     (u64 \<Rightarrow> string \<Rightarrow> 'i indexed list \<Rightarrow> ('w, 'r list) call) \<Rightarrow> 'w RoutedTCPClient \<Rightarrow>
     'w RoutedTCPClient \<times> 'r list \<times> 'i batchGroup list option \<times> routed_error option" where
  "runRoutedBatch zero n epoch groups records send c =
     runGroups send epoch groups (if length records \<noteq> n then replicate n zero else records) c"

definition runRoutedBatchWithCurrentSnapshot ::
  "'w routedEnv \<Rightarrow> 'r \<Rightarrow> nat \<Rightarrow> 'i indexed list \<Rightarrow>
     (SnapshotBody \<Rightarrow> 'i indexed list \<Rightarrow> routed_error + 'i batchGroup list) \<Rightarrow>
     (u64 \<Rightarrow> string \<Rightarrow> 'i indexed list \<Rightarrow> ('w, 'r list) call) \<Rightarrow> 'w RoutedTCPClient \<Rightarrow>
     'w RoutedTCPClient \<times> 'r list \<times> 'i batchGroup list option \<times> routed_error option" where
  "runRoutedBatchWithCurrentSnapshot env zero n items grp send c =
     (case currentSnapshot env c of
        (c, Inl e) \<Rightarrow> (c, [], None, Some (SnapshotFetch e))
      | (c, Inr snapshot) \<Rightarrow>
          (case grp snapshot items of
             Inl e \<Rightarrow> (c, [], None, Some e)
           | Inr groups \<Rightarrow>
               runRoutedBatch zero n (cs_Revision snapshot) groups (replicate n zero) send c))"

definition flattenBatchGroups :: "'w routedEnv \<Rightarrow> 'i batchGroup list option \<Rightarrow> 'i indexed list option" where
  "flattenBatchGroups env groups =
     (case groups of
        None \<Rightarrow> if re_nilRange env then Some [] else None
      | Some gs \<Rightarrow> Some (concat (map snd gs)))"

definition routedBatch ::
  "'w routedEnv \<Rightarrow> 'r \<Rightarrow> nat \<Rightarrow> 'i indexed list \<Rightarrow>
     (SnapshotBody \<Rightarrow> 'i indexed list \<Rightarrow> routed_error + 'i batchGroup list) \<Rightarrow>
     (u64 \<Rightarrow> string \<Rightarrow> 'i indexed list \<Rightarrow> ('w, 'r list) call) \<Rightarrow> 'w RoutedTCPClient \<Rightarrow>
     'w RoutedTCPClient \<times> 'r list \<times> routed_error option" where
  "routedBatch env zero n items grp send c =
     (if n = 0 then (c, [], None)
      else case runRoutedBatchWithCurrentSnapshot env zero n items grp send c of
             (c, records, _, None) \<Rightarrow> (c, records, None)
           | (c, records, remaining, Some err) \<Rightarrow>
               if \<not> fst (shouldRefreshRoute err) then (c, records, Some err)
               else case Refresh env c of
                      (c, Some e) \<Rightarrow> (c, [], Some (RefreshFailed e))
                    | (c, None) \<Rightarrow>
                        (case currentSnapshot env c of
                           (c, Inl e) \<Rightarrow> (c, [], Some (SnapshotReadFailed e))
                         | (c, Inr snapshot) \<Rightarrow>
                             (case flattenBatchGroups env remaining of
                                None \<Rightarrow> (c, [], Some NilListPanic)
                              | Some retryItems \<Rightarrow>
                                  (case grp snapshot retryItems of
                                     Inl e \<Rightarrow> (c, records, Some e)
                                   | Inr groups \<Rightarrow>
                                       (case runRoutedBatch zero n (cs_Revision snapshot) groups records send c of
                                          (c, records, _, err) \<Rightarrow> (c, records, err))))))"

definition RoutedBatchSet :: "'w routedEnv \<Rightarrow> BatchSetRequest \<Rightarrow> ('w, WireRecord list) routedCall" where
  "RoutedBatchSet env request c =
     routedResult [] (routedBatch env missRecord (length (bs_Items request)) (indexBatchItems (bs_Items request))
       groupSetRequests
       (\<lambda>epoch addr grp. ClientBatchSet (re_client env) addr
          \<lparr>bs_RouteEpoch = epoch, bs_Items = batchItems grp\<rparr>) c)"

definition RoutedBatchGet :: "'w routedEnv \<Rightarrow> BatchGetRequest \<Rightarrow> ('w, WireRecord list) routedCall" where
  "RoutedBatchGet env request c =
     routedResult [] (routedBatch env missRecord (length (bg_Items request)) (indexBatchItems (bg_Items request))
       groupGetRequests
       (\<lambda>epoch addr grp. ClientBatchGet (re_client env) addr
          \<lparr>bg_RouteEpoch = epoch, bg_Items = batchItems grp\<rparr>) c)"

text \<open>These give back the results they have together with the error.\<close>

definition RoutedBatchDelete ::
  "'w routedEnv \<Rightarrow> BatchDeleteRequest \<Rightarrow> 'w RoutedTCPClient \<Rightarrow> 'w RoutedTCPClient \<times> bool list \<times> routed_error option" where
  "RoutedBatchDelete env request c =
     routedBatch env False (length (bd_Items request)) (indexBatchItems (bd_Items request)) groupDeleteRequests
       (\<lambda>epoch addr grp. ClientBatchDelete (re_client env) addr
          \<lparr>bd_RouteEpoch = epoch, bd_Items = batchItems grp\<rparr>) c"

definition RoutedBatchExists ::
  "'w routedEnv \<Rightarrow> BatchExistsRequest \<Rightarrow> 'w RoutedTCPClient \<Rightarrow> 'w RoutedTCPClient \<times> bool list \<times> routed_error option" where
  "RoutedBatchExists env request c =
     routedBatch env False (length (bx_Items request)) (indexBatchItems (bx_Items request)) groupExistsRequests
       (\<lambda>epoch addr grp. ClientBatchExists (re_client env) addr
          \<lparr>bx_RouteEpoch = epoch, bx_Items = batchItems grp\<rparr>) c"

definition RoutedBatchTouch ::
  "'w routedEnv \<Rightarrow> BatchTouchRequest \<Rightarrow> 'w RoutedTCPClient \<Rightarrow> 'w RoutedTCPClient \<times> bool list \<times> routed_error option" where
  "RoutedBatchTouch env request c =
     routedBatch env False (length (bt_Items request)) (indexBatchItems (bt_Items request)) groupTouchRequests
       (\<lambda>epoch addr grp. ClientBatchTouch (re_client env) addr
          \<lparr>bt_RouteEpoch = epoch, bt_Items = batchItems grp\<rparr>) c"

definition RoutedBatchPrimitive ::
  "'w routedEnv \<Rightarrow> BatchPrimitiveRequest \<Rightarrow> 'w RoutedTCPClient \<Rightarrow>
     'w RoutedTCPClient \<times> WirePrimitiveResult list \<times> routed_error option" where
  "RoutedBatchPrimitive env request c =
     routedBatch env zeroPrimitiveResult (length (bp_Items request)) (indexBatchItems (bp_Items request))
       groupPrimitiveRequests
       (\<lambda>epoch addr grp. ClientBatchPrimitive (re_client env) addr
          \<lparr>bp_RouteEpoch = epoch, bp_Items = batchItems grp\<rparr>) c"

section \<open>Counters\<close>

record CounterRequest =
  cr_Key :: Key
  cr_Delta :: int
  cr_InitialValue :: int
  cr_TTLMillis :: int
  cr_NamespaceVersion :: u64
  cr_SpaceVersion :: u64
  cr_MaxRetries :: int

record CounterResult =
  cu_Record :: WireRecord
  cu_Value :: int

record currentCounterResult =
  cc_next :: int
  cc_version :: u64
  cc_ttlMillis :: int
  cc_namespaceVersion :: u64
  cc_spaceVersion :: u64

definition defaultCounterMaxRetries :: nat where "defaultCounterMaxRetries = 8"

definition clientParseInt64 :: "bytes \<Rightarrow> routed_error + int" where
  "clientParseInt64 raw =
     (let text = TrimSpace (string_of_bytes raw) in
      case ParseInt text of None \<Rightarrow> Inl (CounterValueInvalid text) | Some v \<Rightarrow> Inr v)"

definition clientSafeAdd :: "int \<Rightarrow> int \<Rightarrow> int \<times> bool" where
  "clientSafeAdd base delta =
     (if delta > 0 \<and> base > MaxInt64 - delta then (0, True)
      else if delta < 0 \<and> base < MinInt64 - delta then (0, True)
      else (base + delta, False))"

definition recordTTLMillis :: "int \<Rightarrow> gotime \<Rightarrow> int" where
  "recordTTLMillis expireAtUnixMs now =
     (if expireAtUnixMs \<le> 0 then 0
      else
        let remaining = int64_wrap (expireAtUnixMs - UnixMilli now)
        in if remaining \<le> 0 then 0 else remaining)"

text \<open>\<open>now\<close> is the clock of the client when the record has been read.\<close>

definition currentCounter ::
  "(GetRequest \<Rightarrow> 's \<Rightarrow> 's \<times> (routed_error + WireRecord)) \<Rightarrow> gotime \<Rightarrow> CounterRequest \<Rightarrow> 's \<Rightarrow>
     's \<times> (routed_error + currentCounterResult)" where
  "currentCounter get now request s =
     (case get \<lparr>gr_Key = cr_Key request, gr_RouteEpoch = 0, gr_NamespaceVersion = cr_NamespaceVersion request,
                gr_SpaceVersion = cr_SpaceVersion request\<rparr> s of
        (s, Inl e) \<Rightarrow> (s, Inl e)
      | (s, Inr rec) \<Rightarrow>
          if \<not> wr_Found rec then
            (case clientSafeAdd (cr_InitialValue request) (cr_Delta request) of
               (next, True) \<Rightarrow> (s, Inl (CounterOverflowed (cr_InitialValue request) (cr_Delta request)))
             | (next, False) \<Rightarrow>
                 (s, Inr \<lparr>cc_next = next, cc_version = 0, cc_ttlMillis = cr_TTLMillis request,
                   cc_namespaceVersion = cr_NamespaceVersion request, cc_spaceVersion = cr_SpaceVersion request\<rparr>))
          else
            (case clientParseInt64 (wr_Value rec) of
               Inl e \<Rightarrow> (s, Inl e)
             | Inr decoded \<Rightarrow>
                 (case clientSafeAdd decoded (cr_Delta request) of
                    (next, True) \<Rightarrow> (s, Inl (CounterOverflowed decoded (cr_Delta request)))
                  | (next, False) \<Rightarrow>
                      (s, Inr \<lparr>cc_next = next, cc_version = wr_Version rec,
                        cc_ttlMillis = recordTTLMillis (wr_ExpireAtUnixMs rec) now,
                        cc_namespaceVersion = wr_NamespaceVersion rec, cc_spaceVersion = wr_SpaceVersion rec\<rparr>))))"

definition counterSetRequest :: "CounterRequest \<Rightarrow> currentCounterResult \<Rightarrow> SetRequest" where
  "counterSetRequest request current =
     \<lparr>sr_Key = cr_Key request, sr_Value = bytes_of_string (FormatInt (cc_next current)),
       sr_RouteEpoch = 0, sr_TTLMillis = cc_ttlMillis current,
       sr_NamespaceVersion = cc_namespaceVersion current, sr_SpaceVersion = cc_spaceVersion current,
       sr_ExpectedVersion = cc_version current, sr_PayloadOffset = 0, sr_PayloadSize = 0\<rparr>"

text \<open>The attempts that are left count down; \<open>limit\<close> is what the error of the last one reports.\<close>

fun counterAttempts ::
  "(GetRequest \<Rightarrow> 's \<Rightarrow> 's \<times> (routed_error + WireRecord)) \<Rightarrow>
   (SetRequest \<Rightarrow> 's \<Rightarrow> 's \<times> (routed_error + WireRecord)) \<Rightarrow> (nat \<Rightarrow> gotime) \<Rightarrow> CounterRequest \<Rightarrow> nat \<Rightarrow> nat \<Rightarrow> 's \<Rightarrow>
     's \<times> (routed_error + CounterResult)" where
  "counterAttempts get put now request limit 0 s = (s, Inl (CounterRetriesExhausted limit))"
| "counterAttempts get put now request limit (Suc n) s =
     (case currentCounter get (now (limit - n)) request s of
        (s, Inl e) \<Rightarrow> (s, Inl e)
      | (s, Inr current) \<Rightarrow>
          (case put (counterSetRequest request current) s of
             (s, Inl e) \<Rightarrow> (s, Inl e)
           | (s, Inr response) \<Rightarrow>
               if wr_Found response then (s, Inr \<lparr>cu_Record = response, cu_Value = cc_next current\<rparr>)
               else counterAttempts get put now request limit n s))"

definition applyCounter ::
  "(GetRequest \<Rightarrow> 's \<Rightarrow> 's \<times> (routed_error + WireRecord)) \<Rightarrow>
   (SetRequest \<Rightarrow> 's \<Rightarrow> 's \<times> (routed_error + WireRecord)) \<Rightarrow> (nat \<Rightarrow> gotime) \<Rightarrow> CounterRequest \<Rightarrow> 's \<Rightarrow>
     's \<times> (routed_error + CounterResult)" where
  "applyCounter get put now request s =
     (let maxRetries = (if cr_MaxRetries request \<le> 0 then defaultCounterMaxRetries else nat (cr_MaxRetries request))
      in counterAttempts get put now request maxRetries maxRetries s)"

definition transportResult :: "'w tcpClient \<times> (client_error + 'a) \<Rightarrow> 'w tcpClient \<times> (routed_error + 'a)" where
  "transportResult r = (case r of (c, Inl e) \<Rightarrow> (c, Inl (Transport e)) | (c, Inr x) \<Rightarrow> (c, Inr x))"

definition TCPCounter ::
  "'w clientEnv \<Rightarrow> string \<Rightarrow> (nat \<Rightarrow> gotime) \<Rightarrow> CounterRequest \<Rightarrow> 'w tcpClient \<Rightarrow>
     'w tcpClient \<times> (routed_error + CounterResult)" where
  "TCPCounter env addr now request =
     applyCounter
       (\<lambda>get c. transportResult (ClientGet env addr
          (get\<lparr>gr_Key := cr_Key request, gr_NamespaceVersion := cr_NamespaceVersion request,
            gr_SpaceVersion := cr_SpaceVersion request\<rparr>) c))
       (\<lambda>put c. transportResult (ClientSet env addr
          (put\<lparr>sr_Key := cr_Key request, sr_NamespaceVersion := cr_NamespaceVersion request,
            sr_SpaceVersion := cr_SpaceVersion request\<rparr>) c))
       now request"

definition RoutedCounter ::
  "'w routedEnv \<Rightarrow> (nat \<Rightarrow> gotime) \<Rightarrow> CounterRequest \<Rightarrow> 'w RoutedTCPClient \<Rightarrow>
     'w RoutedTCPClient \<times> (routed_error + CounterResult)" where
  "RoutedCounter env now request =
     applyCounter (\<lambda>get. RoutedGet env (get\<lparr>gr_Key := cr_Key request\<rparr>))
       (\<lambda>put. RoutedSet env (put\<lparr>sr_Key := cr_Key request\<rparr>)) now request"

end
