(* ===== verification/Client_Laws.thy ===== *)
theory Client_Laws
  imports Client_Routed
begin

text \<open>
  What the routed client does with a request. The locale \<open>stamped_requests\<close> is what its batches rely on
  of a kind of request: stamping it with a route keeps the key, and a second stamp replaces the first. It
  is interpreted on the six kinds of request, and gives, for a batch that was split by address, sent in
  parts, and sent again in part after a refresh of the routes, where each result comes from.
\<close>

section \<open>Single requests\<close>

lemma Refresh_ok:
  assumes "Refresh env c = (c', None)"
  shows "\<exists>w. re_fetch env (tc_net (rc_transport c)) = (w, Inr (rc_snapshot c'))"
  using assms by (auto simp: Refresh_def split: prod.splits sum.splits)

lemma currentSnapshot_held:
  assumes "currentSnapshot env c = (c', Inr snapshot)"
  shows "rc_snapshot c' = snapshot" and "cs_Revision (rc_snapshot c) \<noteq> 0 \<Longrightarrow> c' = c"
  using assms by (auto simp: currentSnapshot_def split: if_splits prod.splits option.splits)

lemma resolve_held:
  assumes "resolve env key c = (c', Inr decision)"
  shows "resolveSnapshot (rc_snapshot c') key = Inr decision"
  using assms currentSnapshot_held(1) by (auto simp: resolve_def split: prod.splits sum.splits)

lemma resolveSnapshot_route:
  assumes "resolveSnapshot snapshot key = Inr decision"
  shows "\<exists>route. Select (cs_Routes snapshot) (k_Namespace key) (k_Space key) (k_Key key) = Some route \<and>
    dn_addr decision = rt_Addr route \<and> dn_routeEpoch decision = cs_Revision snapshot \<and>
    NamespaceVersion (cs_Namespaces snapshot) (k_Namespace key) = Some (dn_namespaceVersion decision) \<and>
    SpaceVersion (cs_Spaces snapshot) (k_Namespace key) (k_Space key) = Some (dn_spaceVersion decision)"
  using assms by (auto simp: resolveSnapshot_def split: option.splits)

lemma runSend_ok:
  assumes "runSend zero send decision c = (c', x, None)"
  shows "\<exists>t'. send decision (rc_transport c) = (t', Inr x) \<and> c' = c\<lparr>rc_transport := t'\<rparr>"
  using assms by (auto simp: runSend_def split: prod.splits sum.splits)

lemma runSend_fails:
  assumes "runSend zero send decision c = (c', x, Some e)"
  shows "x = zero" and "rc_snapshot c' = rc_snapshot c"
  using assms by (auto simp: runSend_def split: prod.splits sum.splits)

text \<open>A call without an error is the answer of a node the snapshot routes the key to, or no answer at all.\<close>

lemma sendWithRouteRetry_answer:
  assumes "sendWithRouteRetry env zero key send c = (c', x, None)"
  shows "x = zero \<or> (\<exists>decision t t'. resolveSnapshot (rc_snapshot c') key = Inr decision \<and>
    send decision t = (t', Inr x) \<and> rc_transport c' = t')"
proof -
  obtain c1 d where r1: "resolve env key c = (c1, d)" by fastforce
  obtain decision where d: "d = Inr decision"
    using assms r1 by (cases d) (auto simp: sendWithRouteRetry_def)
  obtain c2 x2 e2 where s1: "runSend zero send decision c1 = (c2, x2, e2)" by (metis prod_cases3)
  show ?thesis
  proof (cases e2)
    case None
    with assms r1 d s1 have "c' = c2" "x = x2" by (auto simp: sendWithRouteRetry_def)
    with None runSend_ok [OF s1 [unfolded None]] resolve_held r1 d show ?thesis by fastforce
  next
    case (Some err)
    have x2: "x2 = zero" using runSend_fails(1) [of zero send decision c1 c2 x2 err] s1 Some by simp
    show ?thesis using assms r1 d s1 Some x2 resolve_held runSend_ok
      by (fastforce simp: sendWithRouteRetry_def Let_def split: prod.splits option.splits sum.splits if_splits)
  qed
qed

text \<open>
  When the send fails for a reason that calls for another route, and the refreshed snapshot has the same
  route, the error is forgotten: the second \<open>resolve\<close> has overwritten it.
\<close>

lemma sendWithRouteRetry_forgets:
  assumes "resolve env key c = (c1, Inr decision)" and "runSend zero send decision c1 = (c2, zero, Some err)"
    and "shouldRefreshRoute err = (True, True)" and "Refresh env c2 = (c3, None)"
    and "resolve env key c3 = (c4, Inr decision)"
  shows "sendWithRouteRetry env zero key send c = (c4, zero, None)"
  using assms by (simp add: sendWithRouteRetry_def sameRouteDecision_def)

section \<open>Batches\<close>

text \<open>
  \<open>answered send zero epoch addr i q r\<close>: the request \<open>q\<close> with index \<open>i\<close> was sent to \<open>addr\<close> in some part of
  the batch, and \<open>r\<close> is what came back at its position (the zero result, if the answer was too short).
\<close>

definition answered ::
  "(u64 \<Rightarrow> string \<Rightarrow> 'i indexed list \<Rightarrow> ('w, 'r list) call) \<Rightarrow> 'r \<Rightarrow> u64 \<Rightarrow> string \<Rightarrow> nat \<Rightarrow> 'i \<Rightarrow> 'r \<Rightarrow> bool" where
  "answered send zero epoch addr i q r \<longleftrightarrow>
     (\<exists>grp t t' resp j. send epoch addr grp t = (t', Inr resp) \<and> j < length grp \<and> grp ! j = (i, q) \<and>
        r = (if j < length resp then resp ! j else zero))"

lemma length_copyBatchResults [simp]: "length (copyBatchResults rs grp resp) = length rs"
  by (induction rs grp resp rule: copyBatchResults.induct) simp_all

lemma copyBatchResults_other:
  "i \<notin> fst ` set grp \<Longrightarrow> copyBatchResults rs grp resp ! i = rs ! i"
  by (induction rs grp resp rule: copyBatchResults.induct) auto

lemma copyBatchResults_at:
  assumes "distinct (map fst grp)" and "j < length grp" and "fst (grp ! j) < length rs"
  shows "copyBatchResults rs grp resp ! fst (grp ! j) = (if j < length resp then resp ! j else rs ! fst (grp ! j))"
  using assms
proof (induction rs grp resp arbitrary: j rule: copyBatchResults.induct)
  case (1 rs i q grp r resp)
  then show ?case
  proof (cases j)
    case 0
    with 1 show ?thesis by (simp add: copyBatchResults_other)
  next
    case (Suc k)
    with 1 have "grp ! k \<in> set grp" by simp
    with 1(2) have "fst (grp ! k) \<noteq> i" by force
    with 1 Suc show ?thesis by auto
  qed
qed simp_all

definition indicesOf :: "'i batchGroup list \<Rightarrow> nat list" where
  "indicesOf groups = map fst (concat (map snd groups))"

lemma indicesOf_simps [simp]:
  "indicesOf [] = []" "indicesOf ((addr, its) # groups) = map fst its @ indicesOf groups"
  by (simp_all add: indicesOf_def)

lemma in_indicesOf: "(addr, its) \<in> set groups \<Longrightarrow> (i, q) \<in> set its \<Longrightarrow> i \<in> set (indicesOf groups)"
  by (force simp: indicesOf_def)

text \<open>A run over the groups answers a prefix of them, leaves the other results alone, and reports the rest.\<close>

lemma runGroups_answers:
  assumes "runGroups send epoch groups records c = (c', recs, rem, err)"
    and "distinct (indicesOf groups)" and "\<forall>i \<in> set (indicesOf groups). i < length records \<and> records ! i = zero"
  shows "rc_snapshot c' = rc_snapshot c \<and> length recs = length records \<and>
    (\<forall>i. i \<notin> set (indicesOf groups) \<longrightarrow> recs ! i = records ! i) \<and>
    (\<exists>gs1 gs2. groups = gs1 @ gs2 \<and> (err = None \<longrightarrow> gs2 = []) \<and> (err \<noteq> None \<longrightarrow> rem = Some gs2) \<and>
       (\<forall>addr its i q. (addr, its) \<in> set gs1 \<and> (i, q) \<in> set its \<longrightarrow> answered send zero epoch addr i q (recs ! i)) \<and>
       (\<forall>i \<in> set (indicesOf gs2). recs ! i = zero))"
  using assms
proof (induction send epoch groups records c rule: runGroups.induct)
  case (1 send epoch records c)
  then show ?case by simp
next
  case (2 send epoch addr items groups records c)
  obtain t a where s: "send epoch addr items (rc_transport c) = (t, a)" by fastforce
  show ?case
  proof (cases a)
    case (Inl e)
    with 2 s have "c' = c\<lparr>rc_transport := t\<rparr>" "recs = records" "rem = Some ((addr, items) # groups)" "err = Some (Transport e)"
      by auto
    with 2(4) show ?thesis by (auto intro!: exI [of _ "[]"])
  next
    case (Inr resp)
    let ?records = "copyBatchResults records items resp"
    have run: "runGroups send epoch groups ?records (c\<lparr>rc_transport := t\<rparr>) = (c', recs, rem, err)"
      using 2(2) s Inr by simp
    have dis: "distinct (map fst items)" "distinct (indicesOf groups)" "fst ` set items \<inter> set (indicesOf groups) = {}"
      using 2(3) by auto
    have other: "\<And>i. i \<notin> fst ` set items \<Longrightarrow> ?records ! i = records ! i" by (rule copyBatchResults_other)
    have zs: "\<forall>i \<in> set (indicesOf groups). i < length ?records \<and> ?records ! i = zero"
    proof
      fix i
      assume "i \<in> set (indicesOf groups)"
      then show "i < length ?records \<and> ?records ! i = zero" using 2(4) dis(3) other [of i] by auto
    qed
    obtain gs1 gs2 where IH: "rc_snapshot c' = rc_snapshot c" "length recs = length records"
        "\<forall>i. i \<notin> set (indicesOf groups) \<longrightarrow> recs ! i = ?records ! i" "groups = gs1 @ gs2"
        "err = None \<longrightarrow> gs2 = []" "err \<noteq> None \<longrightarrow> rem = Some gs2"
        "\<forall>addr its i q. (addr, its) \<in> set gs1 \<and> (i, q) \<in> set its \<longrightarrow> answered send zero epoch addr i q (recs ! i)"
        "\<forall>i \<in> set (indicesOf gs2). recs ! i = zero"
      using 2(1) [OF s [symmetric] Inr run dis(2) zs] by (elim conjE exE) simp
    have here: "answered send zero epoch addr i q (recs ! i)" if q: "(i, q) \<in> set items" for i q
    proof -
      obtain j where j: "j < length items" "items ! j = (i, q)" using q by (auto simp: in_set_conv_nth)
      have "i \<notin> set (indicesOf groups)" using dis(3) q by force
      moreover have "i < length records" "records ! i = zero" using 2(4) q by force+
      ultimately have "recs ! i = (if j < length resp then resp ! j else zero)"
        using IH(3) copyBatchResults_at [OF dis(1) j(1), of records resp] j(2) by simp
      with s Inr j show ?thesis unfolding answered_def by blast
    qed
    have "\<forall>i. i \<notin> set (indicesOf ((addr, items) # groups)) \<longrightarrow> recs ! i = records ! i"
      using IH(3) other by auto
    moreover have "\<forall>a its i q. (a, its) \<in> set ((addr, items) # gs1) \<and> (i, q) \<in> set its \<longrightarrow> answered send zero epoch a i q (recs ! i)"
      using IH(7) here by auto
    ultimately show ?thesis using IH(1,2,4,5,6,8)
      by (intro conjI exI [of _ "(addr, items) # gs1"] exI [of _ gs2]) simp_all
  qed
qed

text \<open>Grouping keeps every item once.\<close>

definition groupedItems :: "(string, 'i indexed list) fmap \<Rightarrow> 'i indexed multiset" where
  "groupedItems groups = (\<Sum>addr \<in> fset (fmdom groups). mset (the (fmlookup groups addr)))"

lemma mset_orderedBatchGroups: "mset (concat (map snd (orderedBatchGroups groups))) = groupedItems groups"
proof -
  let ?xs = "sorted_list_of_fset (fmdom groups)"
  have eq: "map snd (orderedBatchGroups groups) = map (\<lambda>addr. the (fmlookup groups addr)) ?xs"
    by (auto simp: orderedBatchGroups_def fmlookup_dom_iff split: option.split)
  have "mset (concat (map (\<lambda>addr. the (fmlookup groups addr)) ?xs)) =
      sum_list (map (\<lambda>addr. mset (the (fmlookup groups addr))) ?xs)"
    by (simp add: mset_concat comp_def)
  also have "\<dots> = groupedItems groups"
    by (simp add: groupedItems_def sum_list_distinct_conv_sum_set sorted_list_of_fset.rep_eq)
  finally show ?thesis unfolding eq .
qed

lemma groupedItems_add: "groupedItems (addBatchGroup groups addr item) = add_mset item (groupedItems groups)"
proof (cases "fmlookup groups addr")
  case None
  then have "addr \<notin> fset (fmdom groups)" by (simp add: fmdom_notI)
  with None show ?thesis
    by (simp add: groupedItems_def addBatchGroup_def) (intro sum.cong, auto)
next
  case (Some its)
  then have a: "addr \<in> fset (fmdom groups)" by (simp add: fmdomI)
  let ?F = "fset (fmdom groups) - {addr}"
  have "groupedItems (addBatchGroup groups addr item) =
      mset (its @ [item]) + (\<Sum>x \<in> ?F. mset (the (fmlookup (addBatchGroup groups addr item) x)))"
    using Some a by (simp add: groupedItems_def addBatchGroup_def insert_absorb)
      (subst sum.remove [OF _ a], simp_all)
  also have "(\<Sum>x \<in> ?F. mset (the (fmlookup (addBatchGroup groups addr item) x))) = (\<Sum>x \<in> ?F. mset (the (fmlookup groups x)))"
    using Some by (intro sum.cong) (auto simp: addBatchGroup_def)
  finally show ?thesis using Some a sum.remove [OF _ a, of "\<lambda>x. mset (the (fmlookup groups x))"]
    by (simp add: groupedItems_def)
qed

lemma groupedItems_empty [simp]: "groupedItems fmempty = {#}"
  by (simp add: groupedItems_def)

locale stamped_requests =
  fixes keyOf :: "'i \<Rightarrow> Key" and stamp :: "'i \<Rightarrow> routeDecision \<Rightarrow> 'i"
  assumes key_stamp: "keyOf (stamp q d) = keyOf q"
    and stamp_stamp: "stamp (stamp q d) d' = stamp q d'"
begin

definition routedBy :: "SnapshotBody \<Rightarrow> 'i indexed \<Rightarrow> 'i indexed" where
  "routedBy snapshot item = (fst item, stamp (snd item) (projr (resolveSnapshot snapshot (keyOf (snd item)))))"

lemma groupLoop_items:
  assumes "groupLoop snapshot keyOf stamp groups items = Inr groups'"
  shows "groupedItems groups' = groupedItems groups + mset (map (routedBy snapshot) items)"
  using assms
proof (induction items arbitrary: groups)
  case (Cons item items)
  then show ?case by (cases item) (auto simp: groupedItems_add routedBy_def split: sum.splits)
qed simp

lemma groups_items:
  assumes "groupRoutedWireRequests keyOf stamp snapshot items = Inr groups"
  shows "mset (concat (map snd groups)) = mset (map (routedBy snapshot) items)"
    and "distinct (map fst items) \<Longrightarrow> distinct (indicesOf groups)"
    and "set (indicesOf groups) = fst ` set items"
proof -
  show m: "mset (concat (map snd groups)) = mset (map (routedBy snapshot) items)"
    using assms groupLoop_items [of snapshot fmempty items]
    by (auto simp: groupRoutedWireRequests_def mset_orderedBatchGroups split: sum.splits)
  have f: "map fst (map (routedBy snapshot) items) = map fst items" by (simp add: routedBy_def comp_def)
  have "mset (indicesOf groups) = mset (map fst items)"
    unfolding indicesOf_def mset_map [of fst] m by (simp add: routedBy_def comp_def image_mset.compositionality)
  then show "distinct (map fst items) \<Longrightarrow> distinct (indicesOf groups)" "set (indicesOf groups) = fst ` set items"
    by (metis mset_eq_imp_distinct_iff, metis list.set_map mset_eq_setD)
qed

text \<open>Every group holds items whose route has its address.\<close>

definition routedTo :: "SnapshotBody \<Rightarrow> string \<Rightarrow> 'i indexed set \<Rightarrow> 'i indexed \<Rightarrow> bool" where
  "routedTo snapshot addr items item \<longleftrightarrow>
     (\<exists>q d. (fst item, q) \<in> items \<and> snd item = stamp q d \<and> resolveSnapshot snapshot (keyOf q) = Inr d \<and> dn_addr d = addr)"

lemma groupLoop_routed:
  assumes "groupLoop snapshot keyOf stamp groups items = Inr groups'"
    and "\<And>addr its item. fmlookup groups addr = Some its \<Longrightarrow> item \<in> set its \<Longrightarrow> routedTo snapshot addr I item"
    and "set items \<subseteq> I" and "fmlookup groups' addr = Some its" and "item \<in> set its"
  shows "routedTo snapshot addr I item"
  using assms
proof (induction items arbitrary: groups)
  case (Cons head items)
  obtain index request where head: "head = (index, request)" by fastforce
  note 2 = Cons [unfolded head]
  obtain d where d: "resolveSnapshot snapshot (keyOf request) = Inr d"
    using 2(2) by (cases "resolveSnapshot snapshot (keyOf request)") simp_all
  have new: "routedTo snapshot (dn_addr d) I (index, stamp request d)"
    using 2(4) d by (auto simp: routedTo_def)
  show ?case
  proof (rule 2(1) [OF _ _ _ 2(5,6)])
    show "groupLoop snapshot keyOf stamp (addBatchGroup groups (dn_addr d) (index, stamp request d)) items = Inr groups'"
      using 2(2) d by simp
    show "set items \<subseteq> I" using 2(4) by simp
    fix addr its item
    assume "fmlookup (addBatchGroup groups (dn_addr d) (index, stamp request d)) addr = Some its" "item \<in> set its"
    then show "routedTo snapshot addr I item"
      using 2(3) [of addr _ item] new
      by (cases "fmlookup groups (dn_addr d)") (auto simp: addBatchGroup_def split: if_splits)
  qed
qed simp

lemma groups_routed:
  assumes "groupRoutedWireRequests keyOf stamp snapshot items = Inr groups" and "(addr, its) \<in> set groups"
    and "(i, q) \<in> set its"
  shows "\<exists>q0 d. (i, q0) \<in> set items \<and> q = stamp q0 d \<and> resolveSnapshot snapshot (keyOf q0) = Inr d \<and> dn_addr d = addr"
proof -
  obtain m where m: "groupLoop snapshot keyOf stamp fmempty items = Inr m" "groups = orderedBatchGroups m"
    using assms(1) by (auto simp: groupRoutedWireRequests_def split: sum.splits)
  then have "fmlookup m addr = Some its"
    using assms(2) by (auto simp: orderedBatchGroups_def fmlookup_dom_iff)
  from groupLoop_routed [OF m(1) _ subset_refl this assms(3)] show ?thesis by (simp add: routedTo_def)
qed

definition delivered ::
  "(u64 \<Rightarrow> string \<Rightarrow> 'i indexed list \<Rightarrow> ('w, 'r list) call) \<Rightarrow> 'r \<Rightarrow> nat \<Rightarrow> 'i \<Rightarrow> 'r \<Rightarrow> bool" where
  "delivered send zero i q r \<longleftrightarrow> (\<exists>d. answered send zero (dn_routeEpoch d) (dn_addr d) i (stamp q d) r)"

lemma delivered_stamped: "delivered send zero i (stamp q d) r \<Longrightarrow> delivered send zero i q r"
  by (auto simp: delivered_def stamp_stamp)

text \<open>One pass over the items of a batch delivers an item or leaves it, stamped, among those that remain.\<close>

lemma pass_answers:
  assumes groups: "groupRoutedWireRequests keyOf stamp snapshot items = Inr groups"
    and items: "distinct (map fst items)" and zeros: "\<forall>i \<in> fst ` set items. i < n \<and> records ! i = zero"
    and len: "length records = n"
    and run: "runRoutedBatch zero n (cs_Revision snapshot) groups records send c = (c', recs, rem, err)"
  shows "length recs = n \<and> (\<forall>i. i \<notin> fst ` set items \<longrightarrow> recs ! i = records ! i) \<and>
    (err = None \<longrightarrow> (\<forall>(i, q) \<in> set items. delivered send zero i q (recs ! i))) \<and>
    (err \<noteq> None \<longrightarrow> (\<exists>gs. rem = Some gs \<and> distinct (indicesOf gs) \<and> set (indicesOf gs) \<subseteq> fst ` set items \<and>
       (\<forall>i \<in> set (indicesOf gs). recs ! i = zero) \<and>
       (\<forall>(i, q) \<in> set items. i \<notin> set (indicesOf gs) \<and> delivered send zero i q (recs ! i) \<or>
          (\<exists>d. (i, stamp q d) \<in> set (concat (map snd gs))))))"
proof -
  have ix: "distinct (indicesOf groups)" "set (indicesOf groups) = fst ` set items"
    using groups_items [OF groups] items by simp_all
  have go: "runGroups send (cs_Revision snapshot) groups records c = (c', recs, rem, err)"
    using run len by (simp add: runRoutedBatch_def)
  have at: "\<forall>i \<in> set (indicesOf groups). i < length records \<and> records ! i = zero" using zeros len ix(2) by simp
  obtain gs1 gs2 where r: "length recs = n" "\<forall>i. i \<notin> set (indicesOf groups) \<longrightarrow> recs ! i = records ! i"
      "groups = gs1 @ gs2" "err = None \<longrightarrow> gs2 = []" "err \<noteq> None \<longrightarrow> rem = Some gs2"
      "\<forall>addr its i q. (addr, its) \<in> set gs1 \<and> (i, q) \<in> set its \<longrightarrow> answered send zero (cs_Revision snapshot) addr i q (recs ! i)"
      "\<forall>i \<in> set (indicesOf gs2). recs ! i = zero"
    using runGroups_answers [OF go ix(1) at] len by (elim conjE exE) simp
  have each: "i \<notin> set (indicesOf gs2) \<and> delivered send zero i q (recs ! i) \<or> (\<exists>d. (i, stamp q d) \<in> set (concat (map snd gs2)))"
    if q: "(i, q) \<in> set items" for i q
  proof -
    let ?d = "projr (resolveSnapshot snapshot (keyOf q))"
    have "(i, stamp q ?d) \<in> routedBy snapshot ` set items" using q by (force simp: routedBy_def)
    then have "(i, stamp q ?d) \<in> set (concat (map snd groups))"
      using mset_eq_setD [OF groups_items(1) [OF groups]] by simp
    then have "(i, stamp q ?d) \<in> set (concat (map snd gs2)) \<or> (\<exists>addr its. (addr, its) \<in> set gs1 \<and> (i, stamp q ?d) \<in> set its)"
      using r(3) by auto
    moreover have "i \<notin> set (indicesOf gs2) \<and> delivered send zero i q (recs ! i)" if a: "(addr, its) \<in> set gs1" "(i, stamp q ?d) \<in> set its" for addr its
    proof -
      obtain q0 d where d: "(i, q0) \<in> set items" "stamp q ?d = stamp q0 d" "resolveSnapshot snapshot (keyOf q0) = Inr d" "dn_addr d = addr"
        using groups_routed [OF groups, of addr its i "stamp q ?d"] a r(3) by auto
      then have "q0 = q" using items q eq_key_imp_eq_value by metis
      moreover have "dn_routeEpoch d = cs_Revision snapshot" using resolveSnapshot_route [OF d(3)] by auto
      ultimately have "delivered send zero i q (recs ! i)" using r(6) a d unfolding delivered_def by metis
      moreover have "i \<in> set (indicesOf gs1)" using a by (rule in_indicesOf)
      ultimately show ?thesis using ix(1) r(3) by (auto simp: indicesOf_def)
    qed
    ultimately show ?thesis by blast
  qed
  have "indicesOf groups = indicesOf gs1 @ indicesOf gs2" using r(3) by (simp add: indicesOf_def)
  then have "distinct (indicesOf gs2)" "set (indicesOf gs2) \<subseteq> fst ` set items" using ix by auto
  moreover have "\<forall>(i, q) \<in> set items. i \<notin> set (indicesOf gs2) \<and> delivered send zero i q (recs ! i) \<or>
      (\<exists>d. (i, stamp q d) \<in> set (concat (map snd gs2)))"
    using each by blast
  moreover from this r(4) have "err = None \<longrightarrow> (\<forall>(i, q) \<in> set items. delivered send zero i q (recs ! i))" by auto
  ultimately show ?thesis using r(1,2,5,7) ix(2) by simp
qed

text \<open>
  If the client's snapshot routes every key of a batch, then a batch that ends without an error has a result
  for each item, and it is what the node the item was routed to answered for that item.
\<close>

lemma group_total:
  assumes "\<And>i q. (i, q) \<in> set items \<Longrightarrow> \<exists>d. resolveSnapshot s (keyOf q) = Inr d"
  shows "\<exists>groups. groupRoutedWireRequests keyOf stamp s items = Inr groups"
proof -
  have "\<exists>m'. groupLoop s keyOf stamp m items = Inr m'" for m
    using assms by (induction items arbitrary: m) force+
  from this [of fmempty] show ?thesis by (auto simp: groupRoutedWireRequests_def)
qed

lemma routedBatch_answers:
  assumes run: "routedBatch env zero (length xs) (indexBatchItems xs) (groupRoutedWireRequests keyOf stamp) send c = (c', rs, None)"
    and snap: "currentSnapshot env c = (c1, Inr s1)"
    and routes: "\<And>q. q \<in> set xs \<Longrightarrow> \<exists>d. resolveSnapshot s1 (keyOf q) = Inr d"
  shows "length rs = length xs \<and> (\<forall>i < length xs. delivered send zero i (xs ! i) (rs ! i))"
proof (cases "xs = []")
  case True
  with run show ?thesis by (simp add: routedBatch_def)
next
  case False
  let ?n = "length xs" and ?items = "indexBatchItems xs"
  have items: "map fst ?items = [0..<?n]" "set ?items = {(i, xs ! i) |i. i < ?n}"
    by (force simp: indexBatchItems_def set_zip)+
  have dis: "distinct (map fst ?items)" using items(1) by simp
  have fst_items: "fst ` set ?items = {0..<?n}" using items(1) by (metis atLeastLessThan_upt list.set_map)
  obtain groups where groups: "groupRoutedWireRequests keyOf stamp s1 ?items = Inr groups"
  proof -
    have "\<exists>groups. groupRoutedWireRequests keyOf stamp s1 ?items = Inr groups"
    proof (rule group_total)
      fix i q
      assume "(i, q) \<in> set ?items"
      then show "\<exists>d. resolveSnapshot s1 (keyOf q) = Inr d" using routes items(2) by auto
    qed
    with that show ?thesis by blast
  qed
  obtain c2 recs rem err where first:
    "runRoutedBatch zero ?n (cs_Revision s1) groups (replicate ?n zero) send c1 = (c2, recs, rem, err)"
    by (metis prod_cases4)
  have run1: "runRoutedBatchWithCurrentSnapshot env zero ?n ?items (groupRoutedWireRequests keyOf stamp) send c = (c2, recs, rem, err)"
    by (simp add: runRoutedBatchWithCurrentSnapshot_def snap groups first)
  note p1 = pass_answers [OF groups dis _ _ first]
  show ?thesis
  proof (cases err)
    case None
    with run run1 False have "rs = recs" by (simp add: routedBatch_def)
    with p1 None items(2) fst_items show ?thesis by auto
  next
    case (Some e)
    obtain gs where gs: "rem = Some gs" "distinct (indicesOf gs)" "set (indicesOf gs) \<subseteq> {0..<?n}" "length recs = ?n"
        "\<forall>i \<in> set (indicesOf gs). recs ! i = zero"
        "\<forall>(i, q) \<in> set ?items. i \<notin> set (indicesOf gs) \<and> delivered send zero i q (recs ! i) \<or>
          (\<exists>d. (i, stamp q d) \<in> set (concat (map snd gs)))"
      using p1 Some fst_items by auto
    let ?retry = "concat (map snd gs)"
    obtain s2 groups2 c3 c4 rem2 where second: "groupRoutedWireRequests keyOf stamp s2 ?retry = Inr groups2"
        "runRoutedBatch zero ?n (cs_Revision s2) groups2 recs send c3 = (c4, rs, rem2, None)"
      using run run1 Some False gs(1)
      by (auto simp: routedBatch_def flattenBatchGroups_def split: if_splits prod.splits option.splits sum.splits)
    have ix: "map fst ?retry = indicesOf gs" by (simp add: indicesOf_def)
    have "distinct (map fst ?retry)" "\<forall>i \<in> fst ` set ?retry. i < ?n \<and> recs ! i = zero"
      using gs(2,3,5) ix by (simp_all add: image_set del: set_concat set_map) auto
    note p2 = pass_answers [OF second(1) this gs(4) second(2)]
    have "delivered send zero i (xs ! i) (rs ! i)" if "i < ?n" for i
    proof -
      have "(i, xs ! i) \<in> set ?items" using that items(2) by blast
      with gs(6) consider "i \<notin> set (indicesOf gs)" "delivered send zero i (xs ! i) (recs ! i)"
        | d where "(i, stamp (xs ! i) d) \<in> set ?retry" by blast
      then show ?thesis
      proof cases
        case 1
        then have "i \<notin> fst ` set ?retry" using ix by (metis list.set_map)
        with 1(2) p2 show ?thesis by simp
      next
        case 2
        then have "delivered send zero i (stamp (xs ! i) d) (rs ! i)" using p2 by blast
        then show ?thesis by (rule delivered_stamped)
      qed
    qed
    with p2 show ?thesis by simp
  qed
qed

end

interpretation sets: stamped_requests sr_Key stampSetRequest
  by unfold_locales (simp_all add: stampSetRequest_def)

interpretation lookups: stamped_requests gr_Key stampGetRequest
  by unfold_locales (simp_all add: stampGetRequest_def)

interpretation deletes: stamped_requests dr_Key stampDeleteRequest
  by unfold_locales (simp_all add: stampDeleteRequest_def)

interpretation existences: stamped_requests xr_Key stampExistsRequest
  by unfold_locales (simp_all add: stampExistsRequest_def)

interpretation touchings: stamped_requests tr_Key stampTouchRequest
  by unfold_locales (simp_all add: stampTouchRequest_def)

interpretation primitives: stamped_requests wp_Key stampPrimitiveRequest
  by unfold_locales (simp_all add: stampPrimitiveRequest_def)

text \<open>
  A batch whose keys the first snapshot does not route is sent to nobody. If ranging over a nil list visits
  nothing, it still ends without an error: what remained to be sent is lost between the two passes.
\<close>

lemma routedBatch_forgets:
  assumes "n \<noteq> 0" and "currentSnapshot env c = (c1, Inr s1)" and "grp s1 items = Inl (RouteNotFound key)"
    and "Refresh env c1 = (c2, None)" and "cs_Revision (rc_snapshot c2) \<noteq> 0" and "re_nilRange env"
    and "grp (rc_snapshot c2) [] = Inr []"
  shows "routedBatch env zero n items grp send c = (c2, replicate n zero, None)"
  using assms
  by (auto simp: routedBatch_def runRoutedBatchWithCurrentSnapshot_def shouldRefreshRoute_def
      currentSnapshot_def [of env c2] flattenBatchGroups_def runRoutedBatch_def)

section \<open>Counters\<close>

text \<open>
  The attempt that ends a counter update read the record, added the delta and wrote the sum under the
  version it had read, with nothing between the read and the write.
\<close>

definition storedCount :: "CounterRequest \<Rightarrow> WireRecord \<Rightarrow> int option" where
  "storedCount request rec =
     (if wr_Found rec then ParseInt (TrimSpace (string_of_bytes (wr_Value rec))) else Some (cr_InitialValue request))"

lemma clientSafeAdd_exact:
  assumes "int64 a" and "int64 b"
  shows "clientSafeAdd a b = (if int64 (a + b) then (a + b, False) else (0, True))"
  using assms by (auto simp: clientSafeAdd_def int64_def)

lemma currentCounter_ok:
  assumes "currentCounter get now request s = (s', Inr current)"
  shows "\<exists>rec v. get \<lparr>gr_Key = cr_Key request, gr_RouteEpoch = 0, gr_NamespaceVersion = cr_NamespaceVersion request,
        gr_SpaceVersion = cr_SpaceVersion request\<rparr> s = (s', Inr rec) \<and> storedCount request rec = Some v \<and>
      clientSafeAdd v (cr_Delta request) = (cc_next current, False) \<and>
      cc_version current = (if wr_Found rec then wr_Version rec else 0)"
  using assms
  by (auto simp: currentCounter_def clientParseInt64_def storedCount_def Let_def
      split: prod.splits sum.splits if_splits bool.splits option.splits)

lemma counterAttempts_ok:
  assumes "counterAttempts get put now request limit n s = (s', Inr res)"
  shows "\<exists>s1 s2 rec v current. get \<lparr>gr_Key = cr_Key request, gr_RouteEpoch = 0, gr_NamespaceVersion = cr_NamespaceVersion request,
        gr_SpaceVersion = cr_SpaceVersion request\<rparr> s1 = (s2, Inr rec) \<and> storedCount request rec = Some v \<and>
      clientSafeAdd v (cr_Delta request) = (cu_Value res, False) \<and>
      cc_version current = (if wr_Found rec then wr_Version rec else 0) \<and> cc_next current = cu_Value res \<and>
      put (counterSetRequest request current) s2 = (s', Inr (cu_Record res)) \<and> wr_Found (cu_Record res)"
  using assms
proof (induction n arbitrary: s)
  case (Suc n)
  obtain s2 a where c: "currentCounter get (now (limit - n)) request s = (s2, a)" by fastforce
  then obtain current where a: "a = Inr current" using Suc.prems by (cases a) simp_all
  obtain s3 b where p: "put (counterSetRequest request current) s2 = (s3, b)" by fastforce
  then obtain response where b: "b = Inr response" using Suc.prems c a by (cases b) simp_all
  show ?case
  proof (cases "wr_Found response")
    case True
    with Suc.prems c a p b have "s' = s3" "res = \<lparr>cu_Record = response, cu_Value = cc_next current\<rparr>" by auto
    with currentCounter_ok c a p b True show ?thesis by fastforce
  next
    case False
    with Suc c a p b show ?thesis by simp
  qed
qed simp

end
