(* ===== verification/Pipeline_Laws.thy ===== *)
theory Pipeline_Laws
  imports Tcp_Laws
begin

text \<open>
  Pipelines: a round trip of frames with different request ids over a connection to one of the servers
  gives back, in the order of the requests, the answers of the server to them.
\<close>

fun positionsOf :: "nat \<Rightarrow> u64 list \<Rightarrow> (u64, nat) fmap \<Rightarrow> (u64, nat) fmap" where
  "positionsOf n [] m = m"
| "positionsOf n (x # xs) m = positionsOf (Suc n) xs (fmupd x n m)"

lemma positionsFrom_distinct:
  assumes "distinct (map fr_RequestID fs)" and "\<forall>f \<in> set fs. fmlookup m (fr_RequestID f) = None"
  shows "positionsFrom n fs m = Inr (positionsOf n (map fr_RequestID fs) m)"
  using assms
proof (induction fs arbitrary: n m)
  case (Cons f fs)
  have "\<forall>g \<in> set fs. fmlookup (fmupd (fr_RequestID f) n m) (fr_RequestID g) = None"
    using Cons.prems by (auto simp: image_iff)
  with Cons show ?case by (simp add: Let_def)
qed simp

lemma positionsFrom_repeated:
  assumes "positionsFrom n fs m = Inr p"
  shows "distinct (map fr_RequestID fs) \<and> (\<forall>f \<in> set fs. fmlookup m (fr_RequestID f) = None)"
  using assms
proof (induction fs arbitrary: n m)
  case (Cons f fs)
  then have "positionsFrom (Suc n) fs (fmupd (fr_RequestID f) n m) = Inr p" "fmlookup m (fr_RequestID f) = None"
    by (auto simp: Let_def split: if_splits)
  with Cons.IH show ?case by (fastforce split: if_splits)
qed simp

lemma positionsOf_lookup:
  "distinct ids \<Longrightarrow> j < length ids \<Longrightarrow> fmlookup (positionsOf n ids m) (ids ! j) = Some (n + j)"
proof (induction ids arbitrary: n m j)
  case (Cons x ids)
  have keep: "y \<notin> set ids \<Longrightarrow> fmlookup (positionsOf n ids m) y = fmlookup m y" for n m y
    by (induction ids arbitrary: n m) auto
  show ?case
  proof (cases j)
    case 0
    with Cons.prems keep [of x] show ?thesis by simp
  next
    case (Suc i)
    with Cons show ?thesis by simp
  qed
qed simp

lemma readPipelineLoop_answers:
  assumes "distinct ids" and "map fr_RequestID as = drop j ids" and "list_all (frame_ok c) as"
    and "length rs = length ids" and "j + length as = length ids"
    and "\<And>n. \<not> ctx n" and "fset seen = set (take j ids)"
    and "\<And>i. i < length ids \<Longrightarrow> fmlookup p (ids ! i) = Some i"
  shows "readPipelineLoop c ctx n p (length as) rs seen (concat (map frame_bytes as)) = Inr (take j rs @ as)"
  using assms
proof (induction as arbitrary: j rs seen n)
  case Nil
  then show ?case by simp
next
  case (Cons a as)
  have j: "j < length ids" using Cons.prems(5) by simp
  have dr: "drop j ids = ids ! j # drop (Suc j) ids" using j by (simp add: Cons_nth_drop_Suc)
  have a: "fr_RequestID a = ids ! j" using Cons.prems(2) dr by simp
  have "ids ! j \<notin> set (take j ids)"
    using \<open>distinct ids\<close> j by (auto simp: in_set_conv_nth nth_eq_iff_index_eq)
  then have fresh: "fr_RequestID a |\<notin>| seen" using Cons.prems(7) a by simp
  have step: "recordPipelineResponse rs seen p a = Inr (rs[j := a], finsert (fr_RequestID a) seen)"
    using fresh Cons.prems(8) [OF j] by (simp add: recordPipelineResponse_def a)
  have IH: "readPipelineLoop c ctx (Suc n) p (length as) (rs[j := a]) (finsert (fr_RequestID a) seen)
      (concat (map frame_bytes as)) = Inr (take (Suc j) (rs[j := a]) @ as)"
    using Cons.prems dr a j by (intro Cons.IH) (auto simp: take_Suc_conv_app_nth)
  have "take (Suc j) (rs[j := a]) @ as = take j rs @ a # as"
    using j Cons.prems(4) by (simp add: take_Suc_conv_app_nth)
  with IH step Cons.prems(3) Cons.prems(6) [of n] show ?case by (simp add: DecodeFrame_bytes)
qed

lemma writePipelineFrames_cluster:
  assumes "list_all (frame_ok codec) fs" and "\<And>n. \<not> ctx n"
  shows "writePipelineFrames (clusterEnv codec envs um) host ctx n fs (fmupd host (p\<lparr>pe_inbox := b\<rparr>) w) =
    (fmupd host (p\<lparr>pe_inbox := b @ concat (map frame_bytes fs)\<rparr>) w, None)"
  using assms
proof (induction fs arbitrary: n b)
  case (Cons f fs)
  then show ?case by (simp add: clusterEnv_def clusterWrite_buffer EncodeFrame_buffer)
qed simp

lemma RoundTrip_answers:
  assumes p: "fmlookup w host = Some p" and ids: "distinct (map fr_RequestID fs)"
    and fs: "list_all (frame_ok codec) fs" and ctx: "\<And>n. \<not> ctx n"
    and serve: "serveFrames (envs host (pe_turn p)) 0 (pe_server p) fs = (s', as)" and as: "list_all (frame_ok codec) as"
  shows "RoundTrip (clusterEnv codec envs um) host ctx fs (fmupd host (p\<lparr>pe_inbox := []\<rparr>) w) =
    (if fs = [] then fmupd host (p\<lparr>pe_inbox := []\<rparr>) w
     else fmupd host \<lparr>pe_server = s', pe_turn = Suc (pe_turn p), pe_inbox = []\<rparr> w, Inr as)"
proof (cases "fs = []")
  case True
  with serve show ?thesis by (simp add: RoundTrip_def)
next
  case False
  let ?ids = "map fr_RequestID fs"
  have len: "length as = length fs" using length_serveFrames [of "envs host (pe_turn p)" 0 "pe_server p" fs] serve by simp
  have same: "map fr_RequestID as = ?ids"
    using serveFrames_answers [OF serve] by (induction rule: list_all2_induct) (simp_all add: answers_def)
  have pos: "pipelineFramePositions fs = Inr (positionsOf 0 ?ids fmempty)"
    using positionsFrom_distinct [OF ids, of fmempty 0] by (simp add: pipelineFramePositions_def)
  have conn: "serveConn codec (envs host (pe_turn p)) 0 (pe_server p) (concat (map frame_bytes fs)) [] =
      (s', concat (map frame_bytes as))"
    using serveConn_frames [OF fs serve as, of "[]"] by simp
  have read: "readPipelineLoop codec ctx (length fs) (positionsOf 0 ?ids fmempty) (length as)
      (replicate (length as) zeroFrame) {||} (concat (map frame_bytes as)) = Inr (take 0 (replicate (length as) zeroFrame) @ as)"
    using ids ctx as len same positionsOf_lookup [OF ids, where n = 0 and m = fmempty]
    by (intro readPipelineLoop_answers [where ids = ?ids and j = 0]) simp_all
  have written: "writePipelineFrames (clusterEnv codec envs um) host ctx 0 fs (fmupd host (p\<lparr>pe_inbox := []\<rparr>) w) =
      (fmupd host (p\<lparr>pe_inbox := concat (map frame_bytes fs)\<rparr>) w, None)"
    using writePipelineFrames_cluster [OF fs ctx, where b = "[]"] by simp
  have env: "ce_codec (clusterEnv codec envs um) = codec" "ce_read (clusterEnv codec envs um) = clusterRead codec envs"
    by (simp_all add: clusterEnv_def)
  show ?thesis using False read
    by (simp add: RoundTrip_def pos written env clusterRead_def conn readPipelineResponses_def len)
qed

end
