(* ===== verification/Properties_Client.thy ===== *)
theory Properties_Client
  imports Client_Laws Pipeline_Laws Properties_Cluster
begin

text \<open>
  The properties of the clients (pipelines, routed requests and batches, counters) and of the outbox that
  replicates a node's writes. The sample network answers every frame with one fixed answer.
\<close>

section \<open>Pipelines\<close>

lemma pipeline_repeated:
  assumes "\<not> distinct (map fr_RequestID fs)"
  shows "\<exists>i. RoundTrip env host ctx fs w = (w, Inl (DuplicateRequestID i))"
proof -
  have "\<exists>i. positionsFrom n gs m = Inl (DuplicateRequestID i)" if "positionsFrom n gs m = Inl e" for n gs m e
    using that by (induction n gs m rule: positionsFrom.induct) (auto simp: Let_def split: if_splits)
  moreover have "\<exists>e. pipelineFramePositions fs = Inl e"
    using assms positionsFrom_repeated [of 0 fs fmempty]
    by (cases "pipelineFramePositions fs") (auto simp: pipelineFramePositions_def)
  ultimately have "\<exists>i. pipelineFramePositions fs = Inl (DuplicateRequestID i)"
    unfolding pipelineFramePositions_def by blast
  with assms show ?thesis by (auto simp: RoundTrip_def)
qed

text \<open>
  C23: a pipeline to a server answers its frames in the order they were given. When the frames fit the codec
  and the context is not cancelled, a round trip with distinct request identifiers returns, at the position of
  each frame, the answer that the server gives when it handles the frames one after the other, and leaves the
  server in the state this leads to; a round trip with a repeated identifier is refused and writes nothing.
\<close>

theorem pipeline_answers_in_order:
  assumes "fmlookup w (TrimSpace addr) = Some p" and "list_all (frame_ok codec) fs" and "\<And>n. \<not> ctx n"
    and "serveFrames (envs (TrimSpace addr) (pe_turn p)) 0 (pe_server p) fs = (s', as)"
    and "list_all (frame_ok codec) as" and "fs \<noteq> []"
  shows "\<exists>host w1. OpenPipeline (clusterEnv codec envs um) addr w = Inr (host, w1) \<and>
    (if distinct (map fr_RequestID fs)
     then \<exists>w2. RoundTrip (clusterEnv codec envs um) host ctx fs w1 = (w2, Inr as) \<and>
       map_option pe_server (fmlookup w2 (TrimSpace addr)) = Some s' \<and>
       list_all2 (\<lambda>f a. fr_RequestID a = fr_RequestID f \<and> fr_Op a = fr_Op f) fs as
     else \<exists>i. RoundTrip (clusterEnv codec envs um) host ctx fs w1 = (w1, Inl (DuplicateRequestID i)))"
proof -
  let ?w1 = "fmupd (TrimSpace addr) (p\<lparr>pe_inbox := []\<rparr>) w"
  have dialled: "OpenPipeline (clusterEnv codec envs um) addr w = Inr (TrimSpace addr, ?w1)"
    using assms(1) by (simp add: OpenPipeline_def normalizeAddr_def clusterEnv_def clusterDial_def Let_def)
  have pairs: "list_all2 (\<lambda>f a. fr_RequestID a = fr_RequestID f \<and> fr_Op a = fr_Op f) fs as"
    using serveFrames_answers [OF assms(4)] by (rule list_all2_mono) (simp add: answers_def)
  show ?thesis
  proof (cases "distinct (map fr_RequestID fs)")
    case True
    note go = RoundTrip_answers [where envs = envs and host = "TrimSpace addr" and ctx = ctx, OF assms(1) True assms(2,3,4,5)]
    with dialled pairs True assms(6) show ?thesis by simp
  next
    case False
    with dialled pipeline_repeated [OF False] show ?thesis by simp
  qed
qed

definition sampleFrames :: "Frame list" where
  "sampleFrames =
     [snd (NewPipelineGetFrame sampleCluster \<lparr>gr_Key = sampleKey, gr_RouteEpoch = 0, gr_NamespaceVersion = 0, gr_SpaceVersion = 0\<rparr>),
      (snd (NewPipelineGetFrame sampleCluster \<lparr>gr_Key = otherKey, gr_RouteEpoch = 0, gr_NamespaceVersion = 0, gr_SpaceVersion = 0\<rparr>))
        \<lparr>fr_RequestID := 2\<rparr>]"

theorem pipeline_answers_in_order_witness:
  "\<exists>host w1 w2 a b. OpenPipeline (clusterEnv smallCodec (sampleEnvs None) sampleUnmarshal) ''a'' (tc_net sampleCluster) = Inr (host, w1) \<and>
     RoundTrip (clusterEnv smallCodec (sampleEnvs None) sampleUnmarshal) host (\<lambda>_. False) sampleFrames w1 = (w2, Inr [a, b]) \<and>
     fr_RequestID a = 1 \<and> fr_RequestID b = 2"
proof -
  let ?p = "\<lparr>pe_server = sampleServer sampleStore, pe_turn = 0, pe_inbox = []\<rparr>"
  have p: "fmlookup (tc_net sampleCluster) (TrimSpace ''a'') = Some ?p" by (simp add: sampleCluster_def)
  have fs: "list_all (frame_ok smallCodec) sampleFrames" by code_simp
  obtain s' as where as: "serveFrames (sampleEnvs None (TrimSpace ''a'') (pe_turn ?p)) 0 (pe_server ?p) sampleFrames = (s', as)"
    by fastforce
  have ok: "list_all (frame_ok smallCodec) (snd (serveFrames (\<lambda>_. sampleServerEnv None) 0 (sampleServer sampleStore) sampleFrames))"
    by code_simp
  have "(\<lambda>_. sampleServerEnv None) = sampleEnvs None ''a'' 0" by (rule ext) (simp add: sampleEnvs_def)
  with ok as have "list_all (frame_ok smallCodec) as" by simp
  note go = pipeline_answers_in_order [where envs = "sampleEnvs None" and addr = "''a''" and ctx = "\<lambda>_. False"
      and um = sampleUnmarshal, OF p fs _ as this]
  have ids: "map fr_RequestID sampleFrames = [1, 2]" by (simp add: sampleFrames_def NewPipelineGetFrame_def sampleCluster_def Let_def)
  then have ne: "sampleFrames \<noteq> []" "distinct (map fr_RequestID sampleFrames)" by auto
  obtain f g where fg: "sampleFrames = [f, g]" by (simp add: sampleFrames_def)
  show ?thesis using go ne ids by (auto simp: fg list_all2_Cons1)
qed

section \<open>The outbox\<close>

fun enqueueAll :: "replicationEnv \<Rightarrow> (string \<times> replicationCommand) list \<Rightarrow> replicationDispatcher \<Rightarrow> replicationDispatcher" where
  "enqueueAll env [] d = d"
| "enqueueAll env ((t, c) # cs) d = enqueueAll env cs (Enqueue env t c d)"

definition entryFor :: "nat \<times> string \<times> replicationCommand \<Rightarrow> replicationOutboxEntry \<Rightarrow> bool" where
  "entryFor = (\<lambda>(n, t, c) entry. ob_Sequence entry = of_nat n \<and> ob_Target entry = t \<and>
     (\<exists>c'. replicationCommandFromOutboxEntry entry = Inr c' \<and> commandView c' = commandView c))"

lemma commandCode_wire: "wireCommand c \<Longrightarrow> commandCode c \<noteq> 0"
  by (cases c) simp_all

lemma enqueueAll_outbox:
  assumes "list_all (\<lambda>(t, c). t \<noteq> [] \<and> replicaCommand c \<and> wireCommand c) cs"
    and "renv_append env = Appended" and "rd_outbox d = Some es" and "rd_nextSequence d = of_nat n"
  shows "\<exists>es'. rd_outbox (enqueueAll env cs d) = Some (es @ es') \<and> list_all2 entryFor (enumerate (Suc n) cs) es'"
  using assms(1,3,4)
proof (induction cs arbitrary: d es n)
  case (Cons tc cs)
  obtain t c where tc: "tc = (t, c)" by fastforce
  obtain entry c' where e: "newReplicationOutboxEntry (renv_nowMs env) (of_nat (Suc n)) t c = Inr entry"
      "ob_Sequence entry = of_nat (Suc n)" "ob_Target entry = t" "replicationCommandFromOutboxEntry entry = Inr c'"
      "commandView c' = commandView c"
    using outbox_entry_decodes [of c "renv_nowMs env" "of_nat (Suc n)" t] Cons.prems(1) tc by auto
  let ?d = "Enqueue env t c d"
  have "rd_outbox ?d = Some (es @ [entry])" "rd_nextSequence ?d = of_nat (Suc n)"
    using Cons.prems tc e(1) commandCode_wire [of c] assms(2)
    by (simp_all add: Enqueue_def Let_def nextReplicationSequence_def appendOutbox_def outboxAppend_def stats_defs add.commute)
  from Cons.IH [OF _ this] Cons.prems(1) tc e show ?case by (auto simp: entryFor_def)
qed simp

lemma list_all2_filter:
  assumes "list_all2 R xs ys" and "\<And>x y. R x y \<Longrightarrow> P x = Q y"
  shows "list_all2 R (filter P xs) (filter Q ys)"
  using assms by (induction rule: list_all2_induct) auto


definition sampleDeletes :: "(string \<times> replicationCommand) list" where
  "sampleDeletes = map (\<lambda>t. (t, newDeleteReplicationCommand
     \<lparr>dr_Key = sampleKey, dr_RouteEpoch = 3, dr_ExpectedVersion = 4\<rparr>)) [''x'', ''y'', ''x'']"

lemma list_all2_pairs:
  "list_all2 (\<lambda>(n, t, c) job. job_sequence job = of_nat n \<and> job_target job = t \<and> commandView (job_command job) = commandView c)
     [(2, ''y'', a), (3, ''x'', b)] js \<Longrightarrow> map (\<lambda>job. (job_sequence job, job_target job)) js = [(2, ''y''), (3, ''x'')]"
  by (auto simp: list_all2_Cons1)


text \<open>
  A command that found the queue full is in the outbox, but as soon as a later command for the same target
  is queued, no replay of the running dispatcher queues it again.
\<close>

lemma dropped_replication_lost:
  assumes "length (rd_jobs d) = rd_capacity d" and "\<not> rd_done d" and "t \<noteq> []" and "commandCode c \<noteq> 0" and "commandCode c' \<noteq> 0"
    and "unat (rd_nextSequence d) + 2 < 2 ^ 64" and "takeJob (Enqueue env t c d) = Some (j, d1)"
    and "job \<in> set (rd_jobs (replayOutbox now es (Enqueue env' t c' d1)))" and "job_target job = t"
    and "job_sequence job = rd_nextSequence d + 1"
  shows "job \<in> set (rd_jobs d)"
proof -
  let ?n = "rd_nextSequence d"
  have ob: "rd_jobs (appendOutbox e n u x y) = rd_jobs y" "rd_capacity (appendOutbox e n u x y) = rd_capacity y"
      "rd_done (appendOutbox e n u x y) = rd_done y" "rd_nextSequence (appendOutbox e n u x y) = rd_nextSequence y"
      "highWater (appendOutbox e n u x y) v = highWater y v" for e n u x y v
    by (auto simp: appendOutbox_def outboxAppend_def stats_defs Let_def highWater_def
        split: option.splits sum.splits appendOutcome.splits)
  obtain js where js: "rd_jobs d = j # js" "d1 = (Enqueue env t c d)\<lparr>rd_jobs := js\<rparr>"
    using assms(1-5,7)
    by (auto simp: takeJob_def Enqueue_def nextReplicationSequence_def Let_def enqueueReplicationJob_jobs ob split: list.splits)
  let ?d2 = "Enqueue env' t c' d1"
  have fields: "rd_capacity d1 = rd_capacity d" "rd_done d1 = rd_done d" "rd_nextSequence d1 = ?n + 1"
    using assms(3,4) by (simp_all add: js(2) Enqueue_def nextReplicationSequence_def Let_def ob)
  have d2: "rd_jobs ?d2 = js @ [\<lparr>job_sequence = ?n + 1 + 1, job_target = t, job_command = c'\<rparr>]"
      "highWater ?d2 t \<ge> ?n + 1 + 1"
    using assms(1-5) js fields
    by (simp_all add: Enqueue_def [of env'] nextReplicationSequence_def Let_def enqueueReplicationJob_jobs
        enqueueReplicationJob_water ob)
  have "?n + 1 < ?n + 1 + 1" using assms(6) by (unat_arith, simp)
  then have "job_sequence job \<le> highWater ?d2 (job_target job)" using d2(2) assms(9,10) by (simp add: less_imp_le)
  from replayOutbox_skips [OF assms(8) this] have "job \<in> set (rd_jobs ?d2)" .
  with d2(1) assms(10) \<open>?n + 1 < ?n + 1 + 1\<close> js(1) show ?thesis by auto
qed

section \<open>Routed requests\<close>

text \<open>
  C21: a routed set goes where the routes say. When it ends with a stored record, the record is the answer
  of the node that the client's snapshot selects for the key, to the request stamped with the revision of that
  snapshot and with the versions it has for the namespace and the space; the client holds that snapshot when the
  call returns, whether the first route was good or the routes had to be refreshed.
\<close>

theorem routed_set_follows_routes:
  assumes "RoutedSet env request c = (c', Inr rec)" and "wr_Found rec"
  shows "\<exists>route nsVersion spVersion t.
    Select (cs_Routes (rc_snapshot c')) (k_Namespace (sr_Key request)) (k_Space (sr_Key request)) (k_Key (sr_Key request)) = Some route \<and>
    NamespaceVersion (cs_Namespaces (rc_snapshot c')) (k_Namespace (sr_Key request)) = Some nsVersion \<and>
    SpaceVersion (cs_Spaces (rc_snapshot c')) (k_Namespace (sr_Key request)) (k_Space (sr_Key request)) = Some spVersion \<and>
    ClientSet (re_client env) (rt_Addr route)
      (request\<lparr>sr_RouteEpoch := cs_Revision (rc_snapshot c'), sr_NamespaceVersion := nsVersion, sr_SpaceVersion := spVersion\<rparr>) t =
    (rc_transport c', Inr rec)"
proof -
  let ?send = "\<lambda>decision. ClientSet (re_client env) (dn_addr decision) (stampSetRequest request decision)"
  have "sendWithRouteRetry env missRecord (sr_Key request) ?send c = (c', rec, None)"
    using assms(1) by (auto simp: RoutedSet_def routedResult_def split: prod.splits option.splits)
  from sendWithRouteRetry_answer [OF this] assms(2) obtain decision t where d:
      "resolveSnapshot (rc_snapshot c') (sr_Key request) = Inr decision" "?send decision t = (rc_transport c', Inr rec)"
    by (auto simp: missRecord_def)
  from resolveSnapshot_route [OF d(1)] d(2) show ?thesis by (auto simp: stampSetRequest_def)
qed

text \<open>A network that takes every byte and answers every frame with the same metadata and payload.\<close>

definition echoReply :: "bytes \<Rightarrow> bytes \<Rightarrow> bytes \<Rightarrow> bytes" where
  "echoReply meta payload input =
     (case DecodeFrame smallCodec input of
        Inl e \<Rightarrow> []
      | Inr (f, rest) \<Rightarrow> frame_bytes (f\<lparr>fr_Flags := FlagResponse, fr_Metadata := meta, fr_Payload := payload\<rparr>))"

definition echoEnv :: "bytes \<Rightarrow> bytes \<Rightarrow> bytes clientEnv" where
  "echoEnv meta payload =
     \<lparr>ce_codec = smallCodec, ce_parseHost = (\<lambda>_. None), ce_dial = (\<lambda>_ w. Inr []), ce_write = (\<lambda>_. buffer_write),
       ce_read = (\<lambda>_ w. ([], echoReply meta payload w)), ce_unmarshal = sampleUnmarshal\<rparr>"

lemma echo_call:
  assumes "frame_ok smallCodec (requestFrame op (tc_nextID c + 1) epoch m p)" and "length meta \<le> 200" and "length payload \<le> 200"
  shows "doCall (echoEnv meta payload) addr op epoch m p c =
    (c\<lparr>tc_nextID := tc_nextID c + 1, tc_net := []\<rparr>,
     Inr \<lparr>fr_Flags = FlagResponse, fr_Op = op, fr_RequestID = tc_nextID c + 1, fr_RouteEpoch = epoch, fr_Metadata = meta, fr_Payload = payload\<rparr>)"
proof -
  let ?f = "requestFrame op (tc_nextID c + 1) epoch m p"
  let ?a = "?f\<lparr>fr_Flags := FlagResponse, fr_Metadata := meta, fr_Payload := payload\<rparr>"
  have a: "frame_ok smallCodec ?a" using assms by (simp add: frame_ok_def smallCodec_def limits_def)
  have "echoReply meta payload (frame_bytes ?f) = frame_bytes ?a"
    using DecodeFrame_bytes [OF assms(1), of "[]"] by (simp add: echoReply_def)
  then show ?thesis using DecodeFrame_bytes [OF a, of "[]"] assms(1)
    by (simp add: doCall_def echoEnv_def Let_def EncodeFrame_buffer FlagResponse_def FlagError_def)
qed

definition echoRecord :: WireRecord where
  "echoRecord = missRecord\<lparr>wr_Found := True, wr_Namespace := ''n'', wr_Space := ''s'', wr_Entity := ''e'', wr_Key := ''k'',
     wr_Value := bytes_of_string ''41'', wr_Version := 7\<rparr>"

definition sampleSnapshot :: SnapshotBody where
  "sampleSnapshot =
     \<lparr>cs_ClusterID = ''c'', cs_Revision = 5, cs_Mode = [],
       cs_Namespaces = [\<lparr>ns_Namespace = ''n'', ns_Version = 1, ns_CreatedAtUnix = 0\<rparr>],
       cs_Spaces = [\<lparr>sp_Namespace = ''n'', sp_Space = ''s'', sp_Version = 2, sp_CreatedAtUnix = 0\<rparr>],
       cs_Entities = [], cs_Nodes = [],
       cs_Routes = [\<lparr>rt_Namespace = ''n'', rt_Space = ''s'', rt_VSlotStart = 0, rt_VSlotEnd = 65535, rt_NodeID = ''1'',
         rt_Addr = ''a'', rt_Weight = 1, rt_Replicas = []\<rparr>]\<rparr>"

definition echoRouted :: "bytes \<Rightarrow> bytes \<Rightarrow> bytes routedEnv" where
  "echoRouted meta payload =
     \<lparr>re_client = echoEnv meta payload, re_fetch = (\<lambda>w. (w, Inr sampleSnapshot)), re_nilRange = True\<rparr>"

definition sampleRouted :: "bytes RoutedTCPClient" where
  "sampleRouted = \<lparr>rc_snapshot = sampleSnapshot, rc_transport = \<lparr>tc_nextID = 0, tc_net = []\<rparr>\<rparr>"

lemma echo_ok: "wireRecord echoRecord" "length (EncodeRecord echoRecord) \<le> 200" "length (wr_Value echoRecord) \<le> 200"
    "wr_Value echoRecord \<noteq> []" "length (EncodeBatchSetResponse [echoRecord, missRecord]) \<le> 200" "wireRecord missRecord"
  by code_simp+

lemma echo_routes:
  "resolveSnapshot sampleSnapshot sampleKey = Inr \<lparr>dn_addr = ''a'', dn_routeEpoch = 5, dn_namespaceVersion = 1, dn_spaceVersion = 2\<rparr>"
  "resolveSnapshot sampleSnapshot otherKey = Inr \<lparr>dn_addr = ''a'', dn_routeEpoch = 5, dn_namespaceVersion = 1, dn_spaceVersion = 2\<rparr>"
  by code_simp+

lemma sampleRouted_snapshot: "currentSnapshot env sampleRouted = (sampleRouted, Inr sampleSnapshot)"
  by (simp add: currentSnapshot_def sampleRouted_def sampleSnapshot_def)

lemma sampleRouted_resolve: "resolve env key sampleRouted = (sampleRouted, resolveSnapshot sampleSnapshot key)"
  by (simp add: resolve_def sampleRouted_snapshot)

theorem routed_set_follows_routes_witness:
  "\<exists>c' rec route t.
     RoutedSet (echoRouted (EncodeRecord echoRecord) (wr_Value echoRecord)) sampleSetRequest sampleRouted = (c', Inr rec) \<and> wr_Version rec = 7 \<and>
     Select (cs_Routes (rc_snapshot c')) ''n'' ''s'' ''k'' = Some route \<and>
     ClientSet (echoEnv (EncodeRecord echoRecord) (wr_Value echoRecord)) (rt_Addr route)
       (sampleSetRequest\<lparr>sr_RouteEpoch := cs_Revision (rc_snapshot c'), sr_NamespaceVersion := 1, sr_SpaceVersion := 2\<rparr>) t =
     (rc_transport c', Inr rec)"
proof -
  let ?env = "echoRouted (EncodeRecord echoRecord) (wr_Value echoRecord)"
  let ?d = "\<lparr>dn_addr = ''a'', dn_routeEpoch = 5, dn_namespaceVersion = 1, dn_spaceVersion = 2\<rparr>"
  let ?q = "stampSetRequest sampleSetRequest ?d"
  have "frame_ok smallCodec (requestFrame OpCacheSet 1 5 (EncodeSetRequest ?q) (sr_Value ?q))" by code_simp
  then have call: "doCall (echoEnv (EncodeRecord echoRecord) (wr_Value echoRecord)) ''a'' OpCacheSet 5 (EncodeSetRequest ?q) (sr_Value ?q)
      (rc_transport sampleRouted) = (\<lparr>tc_nextID = 1, tc_net = []\<rparr>,
      Inr \<lparr>fr_Flags = FlagResponse, fr_Op = OpCacheSet, fr_RequestID = 1, fr_RouteEpoch = 5,
        fr_Metadata = EncodeRecord echoRecord, fr_Payload = wr_Value echoRecord\<rparr>)"
    using echo_call [OF _ echo_ok(2,3), of OpCacheSet "rc_transport sampleRouted" 5] by (simp add: sampleRouted_def)
  have sent: "ClientSet (echoEnv (EncodeRecord echoRecord) (wr_Value echoRecord)) ''a'' ?q (rc_transport sampleRouted) =
      (\<lparr>tc_nextID = 1, tc_net = []\<rparr>, Inr echoRecord)"
    using call decode_record [OF echo_ok(1)] echo_ok(4)
    by (simp add: ClientSet_def decodeAnswer_def decodeRecord_def echoRecord_def stampSetRequest_def missRecord_def)
  have r: "RoutedSet ?env sampleSetRequest sampleRouted = (sampleRouted\<lparr>rc_transport := \<lparr>tc_nextID = 1, tc_net = []\<rparr>\<rparr>, Inr echoRecord)"
    using sent echo_routes(1)
    by (simp add: RoutedSet_def sendWithRouteRetry_def sampleRouted_resolve routedResult_def runSend_def echoRouted_def
        sampleSetRequest_def)
  have f: "wr_Found echoRecord" by (simp add: echoRecord_def)
  have "NamespaceVersion (cs_Namespaces sampleSnapshot) ''n'' = Some 1" "SpaceVersion (cs_Spaces sampleSnapshot) ''n'' ''s'' = Some 2"
    by code_simp+
  with routed_set_follows_routes [OF r f] r show ?thesis
    by (intro exI [of _ "sampleRouted\<lparr>rc_transport := \<lparr>tc_nextID = 1, tc_net = []\<rparr>\<rparr>"] exI [of _ echoRecord])
      (auto simp: sampleSetRequest_def sampleKey_def echoRouted_def echoRecord_def sampleRouted_def)
qed


definition sampleBatch :: "SetRequest list" where
  "sampleBatch = [sampleSetRequest, sampleSetRequest\<lparr>sr_Key := otherKey\<rparr>]"

lemma sampleBatch_groups:
  "groupSetRequests sampleSnapshot (indexBatchItems sampleBatch) =
     Inr [(''a'', map (\<lambda>(i, q). (i, stampSetRequest q \<lparr>dn_addr = ''a'', dn_routeEpoch = 5, dn_namespaceVersion = 1, dn_spaceVersion = 2\<rparr>))
       (indexBatchItems sampleBatch))]"
  by code_simp

lemma sampleBatch_sent:
  "ClientBatchSet (echoEnv (EncodeBatchSetResponse [echoRecord, missRecord]) []) ''a''
     \<lparr>bs_RouteEpoch = 5, bs_Items = map (\<lambda>q. stampSetRequest q \<lparr>dn_addr = ''a'', dn_routeEpoch = 5, dn_namespaceVersion = 1, dn_spaceVersion = 2\<rparr>) sampleBatch\<rparr>
     \<lparr>tc_nextID = 0, tc_net = []\<rparr> = (\<lparr>tc_nextID = 1, tc_net = []\<rparr>, Inr (map arriveRecord [echoRecord, missRecord]))"
proof -
  let ?r = "\<lparr>bs_RouteEpoch = 5, bs_Items = map (\<lambda>q. stampSetRequest q \<lparr>dn_addr = ''a'', dn_routeEpoch = 5, dn_namespaceVersion = 1, dn_spaceVersion = 2\<rparr>) sampleBatch\<rparr>"
  have "case EncodeBatchSetRequest ?r of Inl _ \<Rightarrow> False | Inr (m, p) \<Rightarrow> frame_ok smallCodec (requestFrame OpCacheBatchSet 1 5 m p)"
    by code_simp
  then obtain m p where e: "EncodeBatchSetRequest ?r = Inr (m, p)" "frame_ok smallCodec (requestFrame OpCacheBatchSet 1 5 m p)"
    by (auto split: sum.splits)
  have "DecodeBatchSetResponse (EncodeBatchSetResponse [echoRecord, missRecord]) = Inr (map arriveRecord [echoRecord, missRecord])"
    using echo_ok(1,6) by (intro decode_set_response) (simp_all add: MaxInt64_def)
  with e echo_call [of OpCacheBatchSet "\<lparr>tc_nextID = 0, tc_net = []\<rparr>" 5 m p "EncodeBatchSetResponse [echoRecord, missRecord]" "[]" "''a''"] echo_ok(5)
  show ?thesis by (simp add: ClientBatchSet_def decodeAnswer_def)
qed


text \<open>
  A send that fails because the node cannot be reached, followed by a refresh that finds the same route, ends
  without an error: the caller sees a record that was not found, and nothing was stored.
\<close>

definition downEnv :: "bytes routedEnv" where
  "downEnv = (echoRouted [] [])\<lparr>re_client := (echoEnv [] [])\<lparr>ce_dial := (\<lambda>_ _. Inl DialRefused)\<rparr>\<rparr>"

lemma routed_retry_swallows_error:
  "\<exists>c'. RoutedSet downEnv sampleSetRequest sampleRouted = (c', Inr missRecord)"
proof -
  let ?d = "\<lparr>dn_addr = ''a'', dn_routeEpoch = 5, dn_namespaceVersion = 1, dn_spaceVersion = 2\<rparr>"
  let ?send = "\<lambda>decision. ClientSet (re_client downEnv) (dn_addr decision) (stampSetRequest sampleSetRequest decision)"
  have key: "sr_Key sampleSetRequest = sampleKey" by (simp add: sampleSetRequest_def)
  have res: "resolve downEnv sampleKey sampleRouted = (sampleRouted, Inr ?d)"
    using echo_routes(1) by (simp add: sampleRouted_resolve)
  have dial: "ce_dial (re_client downEnv) h w = Inl DialRefused" for h w by (simp add: downEnv_def)
  have sent: "runSend missRecord ?send ?d sampleRouted = (sampleRouted, missRecord, Some (Transport (DialFailed DialRefused)))"
    by (simp add: runSend_def ClientSet_def doCall_def Let_def dial decodeAnswer_def sampleRouted_def)
  have fetch: "Refresh downEnv sampleRouted = (sampleRouted, None)"
    by (simp add: Refresh_def downEnv_def echoRouted_def sampleRouted_def)
  have "sendWithRouteRetry downEnv missRecord sampleKey ?send sampleRouted = (sampleRouted, missRecord, None)"
    by (rule sendWithRouteRetry_forgets [OF res sent _ fetch res]) (simp add: shouldRefreshRoute_def)
  then show ?thesis by (simp add: RoutedSet_def key routedResult_def)
qed

section \<open>Counters\<close>


definition sampleCounter :: CounterRequest where
  "sampleCounter = \<lparr>cr_Key = sampleKey, cr_Delta = 1, cr_InitialValue = 0, cr_TTLMillis = 0, cr_NamespaceVersion = 0,
     cr_SpaceVersion = 0, cr_MaxRetries = 3\<rparr>"

lemma echo_record_call:
  assumes "frame_ok smallCodec (requestFrame op (tc_nextID c + 1) epoch m p)"
  shows "decodeAnswer decodeRecord (doCall (echoEnv (EncodeRecord echoRecord) (wr_Value echoRecord)) addr op epoch m p c) =
    (c\<lparr>tc_nextID := tc_nextID c + 1, tc_net := []\<rparr>, Inr echoRecord)"
  using echo_call [OF assms echo_ok(2,3)] decode_record [OF echo_ok(1)] echo_ok(4)
  by (simp add: decodeAnswer_def decodeRecord_def echoRecord_def missRecord_def)

lemma sampleCounter_runs:
  "TCPCounter (echoEnv (EncodeRecord echoRecord) (wr_Value echoRecord)) ''a'' now sampleCounter \<lparr>tc_nextID = 0, tc_net = []\<rparr> =
     (\<lparr>tc_nextID = 2, tc_net = []\<rparr>, Inr \<lparr>cu_Record = echoRecord, cu_Value = 42\<rparr>)"
proof -
  let ?get = "\<lparr>gr_Key = sampleKey, gr_RouteEpoch = 0, gr_NamespaceVersion = 0, gr_SpaceVersion = 0\<rparr>"
  let ?put = "\<lparr>sr_Key = sampleKey, sr_Value = bytes_of_string (FormatInt 42), sr_RouteEpoch = 0, sr_TTLMillis = 0,
      sr_NamespaceVersion = 0, sr_SpaceVersion = 0, sr_ExpectedVersion = 7, sr_PayloadOffset = 0, sr_PayloadSize = 0\<rparr>"
  let ?env = "echoEnv (EncodeRecord echoRecord) (wr_Value echoRecord)"
  have "frame_ok smallCodec (requestFrame OpCacheGet 1 0 (EncodeGetRequest ?get) [])"
    "frame_ok smallCodec (requestFrame OpCacheSet 2 0 (EncodeSetRequest ?put) (sr_Value ?put))"
    by code_simp+
  then have "ClientGet ?env ''a'' ?get \<lparr>tc_nextID = 0, tc_net = []\<rparr> = (\<lparr>tc_nextID = 1, tc_net = []\<rparr>, Inr echoRecord)"
      "ClientSet ?env ''a'' ?put \<lparr>tc_nextID = 1, tc_net = []\<rparr> = (\<lparr>tc_nextID = 2, tc_net = []\<rparr>, Inr echoRecord)"
    using echo_record_call by (simp_all add: ClientGet_def ClientSet_def)
  moreover have "clientParseInt64 (wr_Value echoRecord) = Inr 41" "clientSafeAdd 41 1 = (42, False)" by code_simp+
  ultimately show ?thesis
    by (simp add: TCPCounter_def applyCounter_def Let_def numeral_3_eq_3 currentCounter_def sampleCounter_def transportResult_def
        counterSetRequest_def echoRecord_def missRecord_def recordTTLMillis_def)
qed


text \<open>
  A counter that is read in the last moments of its life, when less than a millisecond is left by the clock of
  the client, is written back without an expiry.
\<close>

lemma counter_ttl_lost: "expireAt \<le> UnixMilli now \<Longrightarrow> 0 < expireAt \<Longrightarrow> expireAt \<le> MaxInt64 \<Longrightarrow> UnixMilli now \<le> MaxInt64 \<Longrightarrow>
    recordTTLMillis expireAt now = 0 \<and> ttlFromMillis (recordTTLMillis expireAt now) = 0"
  by (simp add: recordTTLMillis_def Let_def int64_wrap_small int64_def MinInt64_def MaxInt64_def ttlFromMillis_def)

end
