(* ===== verification/Snapshot_File.thy ===== *)
theory Snapshot_File
  imports Engine
begin

text \<open>
  The snapshot file of an engine (\<open>cache/engine/snapshot.go\<close>): writing a snapshot to a temporary file that then
  takes the place of the old one, and reading it back. A file is found by its directory and its name. Which of
  the calls to the file system fail is given by \<open>fileCalls\<close>; the JSON encoding of a snapshot is a parameter.
\<close>

section \<open>Paths\<close>

text \<open>\<open>filepath.Clean\<close> and \<open>filepath.Split\<close>, with \<open>/\<close> as the separator.\<close>

fun pathParts :: "string \<Rightarrow> string \<Rightarrow> string list" where
  "pathParts acc [] = [acc]"
| "pathParts acc (c # cs) = (if c = CHR ''/'' then acc # pathParts [] cs else pathParts (acc @ [c]) cs)"

fun cleanParts :: "bool \<Rightarrow> string list \<Rightarrow> string list \<Rightarrow> string list" where
  "cleanParts rooted acc [] = acc"
| "cleanParts rooted acc (p # ps) =
     (if p = '''' \<or> p = ''.'' then cleanParts rooted acc ps
      else if p = ''..'' then
        if acc \<noteq> [] \<and> last acc \<noteq> ''..'' then cleanParts rooted (butlast acc) ps
        else if rooted then cleanParts rooted acc ps
        else cleanParts rooted (acc @ [p]) ps
      else cleanParts rooted (acc @ [p]) ps)"

fun joinParts :: "string list \<Rightarrow> string" where
  "joinParts [] = ''''"
| "joinParts [p] = p"
| "joinParts (p # ps) = p @ CHR ''/'' # joinParts ps"

definition cleanPath :: "string \<Rightarrow> string" where
  "cleanPath path =
     (let rooted = (case path of c # _ \<Rightarrow> c = CHR ''/'' | [] \<Rightarrow> False);
          out = joinParts (cleanParts rooted [] (pathParts [] path))
      in if rooted then CHR ''/'' # out else if out = '''' then ''.'' else out)"

definition splitPath :: "string \<Rightarrow> string \<times> string" where
  "splitPath path =
     (rev (dropWhile (\<lambda>c. c \<noteq> CHR ''/'') (rev path)), rev (takeWhile (\<lambda>c. c \<noteq> CHR ''/'') (rev path)))"

definition snapshotDirAndName :: "string \<Rightarrow> string \<times> string" where
  "snapshotDirAndName path =
     (let (dir, name) = splitPath (cleanPath path) in (if dir = '''' then ''.'' else dir, name))"

section \<open>Files\<close>

type_synonym files = "string \<times> string \<rightharpoonup> bytes"

text \<open>
  What the calls to the file system do: the text in place of the \<open>*\<close> in the name of the temporary file, if one
  can be created; how many bytes are written before a write fails; whether the other calls succeed.
\<close>

record fileCalls =
  fc_mkdir :: bool
  fc_temp :: "string option"
  fc_write :: "nat option"
  fc_close :: bool
  fc_rename :: bool
  fc_remove :: bool
  fc_read :: bool

record snapshotCodec =
  sc_marshal :: "SnapshotEntry list \<Rightarrow> bytes option"
  sc_unmarshal :: "bytes \<Rightarrow> SnapshotEntry list option"

datatype file_error =
    ReadNotExist
  | FileReadFailed
  | FileDecodeFailed
  | FileEncodeFailed
  | MkdirFailed
  | TempFailed
  | FileWriteFailed bool bool
  | CloseFailed bool
  | RenameFailed bool

text \<open>Names that are no files: reading them fails, and no file can be renamed to them.\<close>

definition noFile :: "string \<Rightarrow> bool" where
  "noFile name \<longleftrightarrow> name \<in> set ['''', ''.'', ''..'']"

definition LoadSnapshotFile ::
  "snapshotCodec \<Rightarrow> fileCalls \<Rightarrow> files \<Rightarrow> string \<Rightarrow> file_error + SnapshotEntry list" where
  "LoadSnapshotFile codec fc fs path =
     (let (dir, name) = snapshotDirAndName path in
      if noFile name \<or> \<not> fc_read fc then Inl FileReadFailed
      else case fs (dir, name) of
             None \<Rightarrow> Inl ReadNotExist
           | Some raw \<Rightarrow>
               (case sc_unmarshal codec raw of None \<Rightarrow> Inl FileDecodeFailed | Some snapshot \<Rightarrow> Inr snapshot))"

text \<open>Removing the temporary file; whether an error is reported.\<close>

definition removeSnapshotTemp :: "fileCalls \<Rightarrow> string \<times> string \<Rightarrow> files \<Rightarrow> files \<times> bool" where
  "removeSnapshotTemp fc tmp fs = (if fc_remove fc then (fs(tmp := None), False) else (fs, fs tmp \<noteq> None))"

definition SaveSnapshotFile ::
  "snapshotCodec \<Rightarrow> fileCalls \<Rightarrow> files \<Rightarrow> string \<Rightarrow> SnapshotEntry list \<Rightarrow> files \<times> file_error option" where
  "SaveSnapshotFile codec fc fs path snapshot =
     (case sc_marshal codec snapshot of
        None \<Rightarrow> (fs, Some FileEncodeFailed)
      | Some raw \<Rightarrow>
          let (dir, name) = snapshotDirAndName path in
          if \<not> fc_mkdir fc then (fs, Some MkdirFailed)
          else case fc_temp fc of
                 None \<Rightarrow> (fs, Some TempFailed)
               | Some r \<Rightarrow>
                   let tmp = (dir, ''.'' @ name @ ''.'' @ r @ ''.tmp'') in
                   (case fc_write fc of
                      Some n \<Rightarrow>
                        (case removeSnapshotTemp fc tmp (fs(tmp \<mapsto> take n raw)) of
                           (fs, failed) \<Rightarrow> (fs, Some (FileWriteFailed (\<not> fc_close fc) failed)))
                    | None \<Rightarrow>
                        let fs = fs(tmp \<mapsto> raw) in
                        if \<not> fc_close fc then
                          (case removeSnapshotTemp fc tmp fs of (fs, failed) \<Rightarrow> (fs, Some (CloseFailed failed)))
                        else if noFile name \<or> \<not> fc_rename fc then
                          (case removeSnapshotTemp fc tmp fs of (fs, failed) \<Rightarrow> (fs, Some (RenameFailed failed)))
                        else (fs(tmp := None, (dir, name) \<mapsto> raw), None)))"

section \<open>Laws\<close>

lemma tempName_neq: "''.'' @ name @ ''.'' @ r @ ''.tmp'' \<noteq> name"
  by (rule notI, drule arg_cong [where f = length]) simp

lemma tempName_neq' [simp]:
  "CHR ''.'' # name @ CHR ''.'' # r @ ''.tmp'' \<noteq> name" "name \<noteq> CHR ''.'' # name @ CHR ''.'' # r @ ''.tmp''"
  using tempName_neq [of name r] by (auto simp del: append_assoc)

text \<open>A save replaces the file as a whole or, whatever fails, leaves it as it was; no other file but the temporary one changes.\<close>

lemma SaveSnapshotFile_atomic:
  assumes "SaveSnapshotFile codec fc fs path snapshot = (fs', err)"
  shows "err \<noteq> None \<Longrightarrow> fs' (snapshotDirAndName path) = fs (snapshotDirAndName path)"
    and "err = None \<Longrightarrow> fs' (snapshotDirAndName path) = sc_marshal codec snapshot \<and> sc_marshal codec snapshot \<noteq> None"
    and "err = None \<Longrightarrow> \<not> noFile (snd (snapshotDirAndName path))"
  using assms
  by (auto simp: SaveSnapshotFile_def removeSnapshotTemp_def Let_def split: option.splits prod.splits if_splits)

lemma LoadSnapshotFile_cong:
  "fs' (snapshotDirAndName path) = fs (snapshotDirAndName path) \<Longrightarrow>
     LoadSnapshotFile codec fc fs' path = LoadSnapshotFile codec fc fs path"
  by (simp add: LoadSnapshotFile_def split_beta)

lemma load_after_save:
  assumes "SaveSnapshotFile codec fc fs path snapshot = (fs', None)"
    and "\<And>raw. sc_marshal codec snapshot = Some raw \<Longrightarrow> sc_unmarshal codec raw = Some snapshot"
    and "fc_read fc'"
  shows "LoadSnapshotFile codec fc' fs' path = Inr snapshot"
  using SaveSnapshotFile_atomic(2,3) [OF assms(1)] assms(2,3)
  by (auto simp: LoadSnapshotFile_def split_beta)

end
