(* ===== verification/Node_Runtime.thy ===== *)
theory Node_Runtime
  imports Snapshot_File Routing Control_API
begin

text \<open>
  A data node beside its servers (\<open>node/service.go\<close>, \<open>node/control_client.go\<close>, \<open>node/persistence.go\<close>): it
  registers with the control plane and sends heartbeats over HTTP, keeps the snapshot of the routes it was given
  and the revision it has heard of, tells the TCP server to which nodes a key is replicated, and saves and
  restores its engine. The HTTP transport and the JSON encodings are parameters; the calls act on a world \<open>'w\<close>.
\<close>

section \<open>The control client\<close>

record RegisterNodeBody =
  rb_NodeID :: string
  rb_Addr :: string

record HeartbeatBody =
  hbb_NodeID :: string
  hbb_Addr :: string

record httpRequest =
  hq_method :: string
  hq_target :: string
  hq_json :: bool
  hq_body :: bytes

text \<open>A response: its status, its body, and whether reading and closing the body succeed.\<close>

record httpResponse =
  hp_status :: int
  hp_body :: bytes
  hp_read :: bool
  hp_close :: bool

record 'w httpClient =
  hc_request :: "string \<Rightarrow> bool"
  hc_do :: "httpRequest \<Rightarrow> 'w \<Rightarrow> 'w \<times> httpResponse option"

record nodeCodec =
  nj_register :: "RegisterNodeBody \<Rightarrow> bytes option"
  nj_heartbeat :: "HeartbeatBody \<Rightarrow> bytes option"
  nj_registered :: "bytes \<Rightarrow> RegisterNodeResponse option"
  nj_heard :: "bytes \<Rightarrow> HeartbeatResponse option"
  nj_snapshot :: "bytes \<Rightarrow> SnapshotBody option"

datatype control_client_error =
    RequestEncoding
  | HttpError int string
  | BodyClose

text \<open>\<open>TrimRight\<close> with the cutset of a slash.\<close>

definition trimSlashes :: "string \<Rightarrow> string" where
  "trimSlashes s = rev (dropWhile (\<lambda>c. c = CHR ''/'') (rev s))"

fun hasScheme :: "string \<Rightarrow> bool" where
  "hasScheme [] = False"
| "hasScheme (c # cs) = (take 3 (c # cs) = ''://'' \<or> hasScheme cs)"

definition normalizeBaseURL :: "string \<Rightarrow> string" where
  "normalizeBaseURL addr =
     (let addr = TrimSpace addr in
      if addr = '''' then ''''
      else trimSlashes (if hasScheme addr then addr else ''http://'' @ addr))"

definition closeResponseBody :: "httpResponse \<Rightarrow> control_client_error + 'a \<Rightarrow> control_client_error + 'a" where
  "closeResponseBody resp r = (case r of Inr v \<Rightarrow> if hp_close resp then Inr v else Inl BodyClose | Inl e \<Rightarrow> Inl e)"

definition decodeResponse :: "(bytes \<Rightarrow> 'a option) \<Rightarrow> httpResponse \<Rightarrow> control_client_error + 'a" where
  "decodeResponse unmarshal resp =
     closeResponseBody resp
       (if hp_status resp < 200 \<or> hp_status resp \<ge> 300 then
          if \<not> hp_read resp then Inl (HttpError (hp_status resp) ''read control-plane error response'')
          else Inl (HttpError (hp_status resp) ''control-plane request failed'')
        else case (if hp_read resp then unmarshal (hp_body resp) else None) of
               None \<Rightarrow> Inl (HttpError 502 ''decode control-plane response'')
             | Some v \<Rightarrow> Inr v)"

definition sendRequest ::
  "'w httpClient \<Rightarrow> (bytes \<Rightarrow> 'a option) \<Rightarrow> httpRequest \<Rightarrow> 'w \<Rightarrow> 'w \<times> (control_client_error + 'a)" where
  "sendRequest client unmarshal req w =
     (if \<not> hc_request client (hq_target req) then (w, Inl (HttpError 502 ''invalid control-plane request''))
      else case hc_do client req w of
             (w, None) \<Rightarrow> (w, Inl (HttpError 502 ''control-plane request failed''))
           | (w, Some resp) \<Rightarrow> (w, decodeResponse unmarshal resp))"

definition controlDoJSON ::
  "'w httpClient \<Rightarrow> (bytes \<Rightarrow> 'a option) \<Rightarrow> string \<Rightarrow> string \<Rightarrow> bytes option \<Rightarrow> 'w \<Rightarrow> 'w \<times> (control_client_error + 'a)" where
  "controlDoJSON client unmarshal verb url payload w =
     (case payload of
        None \<Rightarrow> (w, Inl RequestEncoding)
      | Some raw \<Rightarrow>
          sendRequest client unmarshal \<lparr>hq_method = verb, hq_target = url, hq_json = True, hq_body = raw\<rparr> w)"

definition controlGetJSON ::
  "'w httpClient \<Rightarrow> (bytes \<Rightarrow> 'a option) \<Rightarrow> string \<Rightarrow> 'w \<Rightarrow> 'w \<times> (control_client_error + 'a)" where
  "controlGetJSON client unmarshal url w =
     sendRequest client unmarshal \<lparr>hq_method = ''GET'', hq_target = url, hq_json = False, hq_body = []\<rparr> w"

record 'w ControlClient =
  ctl_baseURL :: string
  ctl_client :: "'w httpClient"
  ctl_codec :: nodeCodec

definition NewControlClient :: "'w httpClient \<Rightarrow> nodeCodec \<Rightarrow> string \<Rightarrow> 'w ControlClient" where
  "NewControlClient client codec addr =
     \<lparr>ctl_baseURL = normalizeBaseURL addr, ctl_client = client, ctl_codec = codec\<rparr>"

definition ClientRegisterNode ::
  "'w ControlClient \<Rightarrow> RegisterNodeBody \<Rightarrow> 'w \<Rightarrow> 'w \<times> (control_client_error + RegisterNodeResponse)" where
  "ClientRegisterNode c body =
     controlDoJSON (ctl_client c) (nj_registered (ctl_codec c)) ''POST'' (ctl_baseURL c @ ''/v1/control/nodes'')
       (nj_register (ctl_codec c) body)"

definition ClientHeartbeat ::
  "'w ControlClient \<Rightarrow> HeartbeatBody \<Rightarrow> 'w \<Rightarrow> 'w \<times> (control_client_error + HeartbeatResponse)" where
  "ClientHeartbeat c body =
     controlDoJSON (ctl_client c) (nj_heard (ctl_codec c)) ''PUT'' (ctl_baseURL c @ ''/v1/control/nodes/heartbeat'')
       (nj_heartbeat (ctl_codec c) body)"

definition ClientSnapshot :: "'w ControlClient \<Rightarrow> 'w \<Rightarrow> 'w \<times> (control_client_error + SnapshotBody)" where
  "ClientSnapshot c =
     controlGetJSON (ctl_client c) (nj_snapshot (ctl_codec c)) (ctl_baseURL c @ ''/v1/control/snapshot'')"

section \<open>The runtime of a node\<close>

record NodeConfig =
  nc_Addr :: string
  nc_ControlAddr :: string
  nc_NodeID :: string
  nc_HeartbeatInterval :: duration
  nc_SnapshotPath :: string
  nc_SnapshotInterval :: duration
  nc_ReplicationOutboxPath :: string
  nc_DefaultNamespaceMemoryBytes :: u64
  nc_DefaultSpaceMemoryBytes :: u64

record 'w NodeRuntime =
  nr_cfg :: NodeConfig
  nr_controlClient :: "'w ControlClient"
  nr_heartbeatInterval :: duration
  nr_routeEpoch :: u64
  nr_snapshot :: SnapshotBody

definition zeroSnapshot :: SnapshotBody where
  "zeroSnapshot = \<lparr>cs_ClusterID = '''', cs_Revision = 0, cs_Mode = '''', cs_Namespaces = [], cs_Spaces = [],
     cs_Entities = [], cs_Nodes = [], cs_Routes = []\<rparr>"

definition NewNodeRuntime :: "'w httpClient \<Rightarrow> nodeCodec \<Rightarrow> NodeConfig \<Rightarrow> 'w NodeRuntime" where
  "NewNodeRuntime client codec cfg =
     \<lparr>nr_cfg = cfg, nr_controlClient = NewControlClient client codec (nc_ControlAddr cfg),
      nr_heartbeatInterval = (if nc_HeartbeatInterval cfg \<le> 0 then 5000000000 else nc_HeartbeatInterval cfg),
      nr_routeEpoch = 0, nr_snapshot = zeroSnapshot\<rparr>"

definition RouteEpoch :: "'w NodeRuntime \<Rightarrow> u64" where
  "RouteEpoch s = nr_routeEpoch s"

definition primaryForRoute :: "'w NodeRuntime \<Rightarrow> RouteBody \<Rightarrow> bool" where
  "primaryForRoute s route \<longleftrightarrow>
     (rt_NodeID route \<noteq> '''' \<and> rt_NodeID route = nc_NodeID (nr_cfg s)) \<or>
     (rt_Addr route \<noteq> '''' \<and> rt_Addr route = nc_Addr (nr_cfg s))"

definition replicaAddrs :: "RouteReplicaBody list \<Rightarrow> NodeConfig \<Rightarrow> string list" where
  "replicaAddrs replicas cfg =
     map rr_Addr (filter (\<lambda>replica. \<not> (rr_Addr replica = '''' \<or> rr_Addr replica = nc_Addr cfg \<or>
       rr_NodeID replica = nc_NodeID cfg)) replicas)"

definition ReplicationTargets :: "'w NodeRuntime \<Rightarrow> Key \<Rightarrow> string list" where
  "ReplicationTargets s key =
     (case Select (cs_Routes (nr_snapshot s)) (k_Namespace key) (k_Space key) (k_Key key) of
        None \<Rightarrow> []
      | Some route \<Rightarrow> if primaryForRoute s route then replicaAddrs (rt_Replicas route) (nr_cfg s) else [])"

text \<open>Only the goroutine of the heartbeats stores the epoch once the node is registered, so the swap succeeds.\<close>

definition observeRevision :: "'w NodeRuntime \<Rightarrow> u64 \<Rightarrow> 'w NodeRuntime" where
  "observeRevision s revision =
     (if revision \<le> nr_routeEpoch s then s else s\<lparr>nr_routeEpoch := revision\<rparr>)"

definition observeSnapshot :: "'w NodeRuntime \<Rightarrow> SnapshotBody \<Rightarrow> 'w NodeRuntime" where
  "observeSnapshot s snapshot = observeRevision (s\<lparr>nr_snapshot := snapshot\<rparr>) (cs_Revision snapshot)"

definition refreshControlSnapshot :: "'w NodeRuntime \<Rightarrow> u64 \<Rightarrow> 'w \<Rightarrow> 'w \<times> 'w NodeRuntime" where
  "refreshControlSnapshot s revision w =
     (if revision \<le> RouteEpoch s then (w, s)
      else case ClientSnapshot (nr_controlClient s) w of
             (w, Inl err) \<Rightarrow> (w, observeRevision s revision)
           | (w, Inr snapshot) \<Rightarrow> (w, observeSnapshot s snapshot))"

definition registerWithControl :: "'w NodeRuntime \<Rightarrow> 'w \<Rightarrow> 'w \<times> 'w NodeRuntime" where
  "registerWithControl s w =
     (case ClientRegisterNode (nr_controlClient s) \<lparr>rb_NodeID = nc_NodeID (nr_cfg s), rb_Addr = nc_Addr (nr_cfg s)\<rparr> w of
        (w, Inl err) \<Rightarrow> (w, s)
      | (w, Inr resp) \<Rightarrow> refreshControlSnapshot s (rn_Revision resp) w)"

text \<open>A tick of the heartbeat; between two ticks the world goes on by itself.\<close>

definition heartbeatTick :: "'w NodeRuntime \<Rightarrow> 'w \<Rightarrow> 'w \<times> 'w NodeRuntime" where
  "heartbeatTick s w =
     (case ClientHeartbeat (nr_controlClient s) \<lparr>hbb_NodeID = nc_NodeID (nr_cfg s), hbb_Addr = nc_Addr (nr_cfg s)\<rparr> w of
        (w, Inl err) \<Rightarrow> (w, s)
      | (w, Inr resp) \<Rightarrow> refreshControlSnapshot s (hb_Revision resp) w)"

fun runControlHeartbeat :: "('w \<Rightarrow> 'w) list \<Rightarrow> 'w NodeRuntime \<Rightarrow> 'w \<Rightarrow> 'w \<times> 'w NodeRuntime" where
  "runControlHeartbeat [] s w = (w, s)"
| "runControlHeartbeat (tick # ticks) s w =
     (case heartbeatTick s (tick w) of (w, s) \<Rightarrow> runControlHeartbeat ticks s w)"

definition StartControlRegistration :: "('w \<Rightarrow> 'w) list \<Rightarrow> 'w NodeRuntime \<Rightarrow> 'w \<Rightarrow> 'w \<times> 'w NodeRuntime" where
  "StartControlRegistration ticks s w =
     (if TrimSpace (nc_ControlAddr (nr_cfg s)) = '''' then (w, s)
      else case registerWithControl s w of (w, s) \<Rightarrow> runControlHeartbeat ticks s w)"

section \<open>Persistence\<close>

datatype persistence_error =
    LoadFailed file_error
  | RestoreFailed engine_error
  | SnapshotFailed engine_error
  | SaveFailed file_error

definition RestoreEngineSnapshot ::
  "deps \<Rightarrow> callContext \<Rightarrow> snapshotCodec \<Rightarrow> fileCalls \<Rightarrow> NodeConfig \<Rightarrow> files \<Rightarrow> MemoryEngine \<Rightarrow>
     MemoryEngine \<times> persistence_error option" where
  "RestoreEngineSnapshot d ctx codec fc cfg fs eng =
     (let path = TrimSpace (nc_SnapshotPath cfg) in
      if path = '''' then (eng, None)
      else case LoadSnapshotFile codec fc fs path of
             Inl ReadNotExist \<Rightarrow> (eng, None)
           | Inl err \<Rightarrow> (eng, Some (LoadFailed err))
           | Inr snapshot \<Rightarrow>
               (case EngineRestore d ctx eng snapshot of
                  (eng, Some err) \<Rightarrow> (eng, Some (RestoreFailed err))
                | (eng, None) \<Rightarrow> (eng, None)))"

definition SaveEngineSnapshot ::
  "deps \<Rightarrow> callContext \<Rightarrow> snapshotCodec \<Rightarrow> fileCalls \<Rightarrow> NodeConfig \<Rightarrow> files \<Rightarrow> MemoryEngine \<Rightarrow>
     MemoryEngine \<times> files \<times> persistence_error option" where
  "SaveEngineSnapshot d ctx codec fc cfg fs eng =
     (let path = TrimSpace (nc_SnapshotPath cfg) in
      if path = '''' then (eng, fs, None)
      else case EngineSnapshot d ctx eng of
             (eng, Inl err) \<Rightarrow> (eng, fs, Some (SnapshotFailed err))
           | (eng, Inr snapshot) \<Rightarrow>
               (case SaveSnapshotFile codec fc fs path snapshot of
                  (fs, Some err) \<Rightarrow> (eng, fs, Some (SaveFailed err))
                | (fs, None) \<Rightarrow> (eng, fs, None)))"

text \<open>
  A tick of the scheduler: what the node did to its engine since the last one, the context of the snapshot and
  the calls to the file system.
\<close>

record saveTick =
  tk_work :: "MemoryEngine \<Rightarrow> MemoryEngine"
  tk_ctx :: callContext
  tk_calls :: fileCalls

fun snapshotTicks ::
  "deps \<Rightarrow> snapshotCodec \<Rightarrow> NodeConfig \<Rightarrow> saveTick list \<Rightarrow> files \<Rightarrow> MemoryEngine \<Rightarrow> MemoryEngine \<times> files" where
  "snapshotTicks d codec cfg [] fs eng = (eng, fs)"
| "snapshotTicks d codec cfg (tick # ticks) fs eng =
     (case SaveEngineSnapshot d (tk_ctx tick) codec (tk_calls tick) cfg fs (tk_work tick eng) of
        (eng, fs, _) \<Rightarrow> snapshotTicks d codec cfg ticks fs eng)"

definition RunSnapshotScheduler ::
  "deps \<Rightarrow> snapshotCodec \<Rightarrow> NodeConfig \<Rightarrow> saveTick list \<Rightarrow> files \<Rightarrow> MemoryEngine \<Rightarrow> MemoryEngine \<times> files" where
  "RunSnapshotScheduler d codec cfg ticks fs eng =
     (if nc_SnapshotInterval cfg \<le> 0 then (eng, fs) else snapshotTicks d codec cfg ticks fs eng)"

end
