(* ===== verification/Properties_Node.thy ===== *)
theory Properties_Node
  imports Node_Runtime Properties_Storage Tcp_Laws
begin

text \<open>
  The properties of a data node's runtime: what its heartbeats make of the revisions it hears of, to which nodes
  it replicates, and what a restart brings back.
\<close>

section \<open>Revisions\<close>

text \<open>The snapshot a node works with is never newer than the revision it has heard of.\<close>

definition nodeInv :: "'w NodeRuntime \<Rightarrow> bool" where
  "nodeInv s \<longleftrightarrow> cs_Revision (nr_snapshot s) \<le> nr_routeEpoch s"

definition heartbeatStep :: "'w \<times> 'w NodeRuntime \<Rightarrow> ('w \<Rightarrow> 'w) \<Rightarrow> ('w \<times> 'w NodeRuntime) \<times> unit" where
  "heartbeatStep s tick = (heartbeatTick (snd s) (tick (fst s)), ())"

lemma refresh_keeps:
  "RouteEpoch s \<le> RouteEpoch (snd (refreshControlSnapshot s revision w)) \<and>
   nr_cfg (snd (refreshControlSnapshot s revision w)) = nr_cfg s \<and>
   (nodeInv s \<longrightarrow> nodeInv (snd (refreshControlSnapshot s revision w)))"
  by (auto simp: refreshControlSnapshot_def observeSnapshot_def observeRevision_def RouteEpoch_def nodeInv_def
      split: prod.split sum.split)

lemma heartbeat_keeps:
  "RouteEpoch s \<le> RouteEpoch (snd (heartbeatTick s w)) \<and> nr_cfg (snd (heartbeatTick s w)) = nr_cfg s \<and>
   (nodeInv s \<longrightarrow> nodeInv (snd (heartbeatTick s w)))"
  using refresh_keeps [of s] by (auto simp: heartbeatTick_def split: prod.split sum.split)

interpretation node: state_machine heartbeatStep
  "\<lambda>(w, s). nodeInv s \<and> epoch \<le> RouteEpoch s" "\<lambda>tick. True" for epoch :: u64
proof
  fix c :: "'a \<times> 'a NodeRuntime" and tick :: "'a \<Rightarrow> 'a"
  assume "case c of (w, s) \<Rightarrow> nodeInv s \<and> epoch \<le> RouteEpoch s"
  then show "case fst (heartbeatStep c tick) of (w, s) \<Rightarrow> nodeInv s \<and> epoch \<le> RouteEpoch s"
    using heartbeat_keeps [of "snd c" "tick (fst c)"] by (auto simp: heartbeatStep_def split_beta)
qed

lemma runControlHeartbeat_run: "runControlHeartbeat ticks s w = node.run (w, s) ticks"
  by (induction ticks arbitrary: s w) (auto simp: heartbeatStep_def split: prod.split)

text \<open>
  Once a node has heard of a revision, its server refuses every request that was routed by an older snapshot, however
  the heartbeats go on.
\<close>

lemma older_requests_stay_refused:
  assumes "nodeInv s" and "fr_RouteEpoch frame \<noteq> 0" and "fr_RouteEpoch frame < RouteEpoch s"
    and "se_epoch env = Some (RouteEpoch (snd (runControlHeartbeat ticks s w)))"
  shows "fst (handleFrame env srv frame) = srv"
proof -
  have "case node.run (w, s) ticks of (w, s') \<Rightarrow> nodeInv s' \<and> RouteEpoch s \<le> RouteEpoch s'"
    by (rule node.run_inv) (use assms(1) in \<open>simp_all add: list_all_iff\<close>)
  then have "RouteEpoch s \<le> RouteEpoch (snd (runControlHeartbeat ticks s w))"
    by (simp add: runControlHeartbeat_run split_beta)
  with assms(2-4) have "fst (staleRoute env (fr_RouteEpoch frame))" by (auto simp: staleRoute_iff)
  then show ?thesis by (auto simp: handleFrame_def split: prod.split)
qed

text \<open>
  A snapshot that cannot be fetched is not fetched again: the node takes note of the revision all the same, and as
  long as the control plane stays at this revision every heartbeat leaves the old routes in place.
\<close>

lemma failed_refresh_never_retried:
  assumes "RouteEpoch s < revision" and "ClientSnapshot (nr_controlClient s) w = (w', Inl err)"
    and "\<And>body w w' resp. ClientHeartbeat (nr_controlClient s) body w = (w', Inr resp) \<Longrightarrow> hb_Revision resp \<le> revision"
  shows "snd (runControlHeartbeat ticks (snd (refreshControlSnapshot s revision w)) w1) = s\<lparr>nr_routeEpoch := revision\<rparr>"
proof -
  let ?s = "s\<lparr>nr_routeEpoch := revision\<rparr>"
  have start: "snd (refreshControlSnapshot s revision w) = ?s"
    using assms(1,2) by (simp add: refreshControlSnapshot_def observeRevision_def RouteEpoch_def)
  have tick: "snd (heartbeatTick ?s w) = ?s" for w
    using assms(3) by (auto simp: heartbeatTick_def refreshControlSnapshot_def RouteEpoch_def split: prod.split sum.split)
  have "snd (runControlHeartbeat ticks ?s w1) = ?s"
    using tick by (induction ticks arbitrary: w1) (auto split: prod.split, metis snd_conv)
  then show ?thesis by (simp add: start)
qed

section \<open>Replication targets\<close>

text \<open>A node replicates a key only if the key is routed to it, to nodes of that route, and never to itself.\<close>

lemma ReplicationTargets_sound:
  assumes "addr \<in> set (ReplicationTargets s key)"
  obtains route replica where "Select (cs_Routes (nr_snapshot s)) (k_Namespace key) (k_Space key) (k_Key key) = Some route"
    and "primaryForRoute s route" and "replica \<in> set (rt_Replicas route)" and "rr_Addr replica = addr"
    and "addr \<noteq> ''''" and "addr \<noteq> nc_Addr (nr_cfg s)" and "rr_NodeID replica \<noteq> nc_NodeID (nr_cfg s)"
  using assms that
  by (cases "Select (cs_Routes (nr_snapshot s)) (k_Namespace key) (k_Space key) (k_Key key)")
    (auto simp: ReplicationTargets_def replicaAddrs_def split: if_splits)

section \<open>Restarts\<close>

text \<open>
  What JSON keeps: an encoding of snapshots whose keys are ASCII text is read back as it was. An engine can be
  stored if its keys are such text and its versions are numbers the engine gives out.
\<close>

definition plainItem :: "SnapshotEntry \<Rightarrow> bool" where
  "plainItem item \<longleftrightarrow>
     (let k = sn_Key item in list_all (\<lambda>c. of_char c < (128 :: nat)) (k_Namespace k @ k_Space k @ k_Entity k @ k_Key k))"

definition storable :: "MemoryEngine \<Rightarrow> bool" where
  "storable e \<longleftrightarrow> engine_inv e \<and>
     (\<forall>k ent. contents e k = Some ent \<longrightarrow> e_version ent \<noteq> 0 \<and> plainItem (snapshotEntryFromEntry ent))"

definition codecOk :: "snapshotCodec \<Rightarrow> bool" where
  "codecOk codec \<longleftrightarrow>
     (\<forall>items raw. list_all plainItem items \<longrightarrow> sc_marshal codec items = Some raw \<longrightarrow> sc_unmarshal codec raw = Some items)"

text \<open>What the engine held at the last save that succeeded.\<close>

fun lastSave ::
  "deps \<Rightarrow> snapshotCodec \<Rightarrow> NodeConfig \<Rightarrow> saveTick list \<Rightarrow> files \<Rightarrow> MemoryEngine \<Rightarrow>
     (string \<rightharpoonup> entry) option \<Rightarrow> (string \<rightharpoonup> entry) option" where
  "lastSave d codec cfg [] fs eng saved = saved"
| "lastSave d codec cfg (tick # ticks) fs eng saved =
     (case SaveEngineSnapshot d (tk_ctx tick) codec (tk_calls tick) cfg fs (tk_work tick eng) of
        (eng', fs', err) \<Rightarrow>
          lastSave d codec cfg ticks fs' eng' (if err = None then Some (contents (tk_work tick eng)) else saved))"

definition fileHolds :: "deps \<Rightarrow> snapshotCodec \<Rightarrow> string \<Rightarrow> files \<Rightarrow> files \<Rightarrow> (string \<rightharpoonup> entry) option \<Rightarrow> bool" where
  "fileHolds d codec path fs0 fs saved \<longleftrightarrow>
     (case saved of
        None \<Rightarrow> fs (snapshotDirAndName path) = fs0 (snapshotDirAndName path)
      | Some m \<Rightarrow> \<exists>e ctx items raw. storable e \<and> contents e = m \<and> EngineSnapshot d ctx e = (e, Inr items) \<and>
          fs (snapshotDirAndName path) = Some raw \<and> sc_unmarshal codec raw = Some items)"

lemma EngineSnapshot_state: "fst (EngineSnapshot d ctx e) = e"
proof -
  have "fst (eachShard d ctx (\<lambda>_. zeroCommand commandSnapshot) add e acc is) = e" for add and acc :: "SnapshotEntry list" and "is"
    by (rule eachShard_read_state) (simp add: applyCommand_def applySnapshotCommand_def)
  then show ?thesis by (auto simp: EngineSnapshot_def split_beta split: option.split)
qed

lemma snapshot_plain:
  assumes "deps_ok d" and "storable e" and "EngineSnapshot d ctx e = (e', Inr items)"
  shows "list_all plainItem items"
  using EngineSnapshot_spec(2) [OF assms(1) _ assms(3)] assms(2) by (auto simp: storable_def list_all_iff)

lemma save_keeps:
  assumes d: "deps_ok d" and codec: "codecOk codec" and e: "storable e"
    and path: "TrimSpace (nc_SnapshotPath cfg) = path" "path \<noteq> ''''"
    and save: "SaveEngineSnapshot d ctx codec fc cfg fs e = (e', fs', err)"
    and holds: "fileHolds d codec path fs0 fs saved"
  shows "e' = e \<and> fileHolds d codec path fs0 fs' (if err = None then Some (contents e) else saved)"
proof -
  obtain r where sn: "EngineSnapshot d ctx e = (e, r)" using EngineSnapshot_state [of d ctx e] by (metis prod.collapse)
  show ?thesis
  proof (cases r)
    case (Inl x)
    with save sn path holds show ?thesis by (auto simp: SaveEngineSnapshot_def)
  next
    case (Inr items)
    obtain ferr where f: "SaveSnapshotFile codec fc fs path items = (fs', ferr)" and e': "e' = e" and err: "err = map_option SaveFailed ferr"
      using save sn path Inr by (auto simp: SaveEngineSnapshot_def split: prod.splits option.splits)
    show ?thesis
    proof (cases ferr)
      case None
      obtain raw where "sc_marshal codec items = Some raw" "fs' (snapshotDirAndName path) = Some raw"
        using SaveSnapshotFile_atomic(2) [OF f None] by auto
      moreover from this(1) have "sc_unmarshal codec raw = Some items"
        using codec snapshot_plain [OF d e] sn Inr by (auto simp: codecOk_def)
      ultimately show ?thesis using e sn Inr e' err None unfolding fileHolds_def by auto
    next
      case (Some x)
      with SaveSnapshotFile_atomic(1) [OF f] holds e' err show ?thesis by (auto simp: fileHolds_def split: option.splits)
    qed
  qed
qed

lemma ticks_keep:
  assumes "deps_ok d" and "codecOk codec" and "TrimSpace (nc_SnapshotPath cfg) = path" "path \<noteq> ''''"
    and "list_all (\<lambda>tick. \<forall>e. storable e \<longrightarrow> storable (tk_work tick e)) ticks"
    and "storable e" and "fileHolds d codec path fs0 fs saved"
  shows "fileHolds d codec path fs0 (snd (snapshotTicks d codec cfg ticks fs e)) (lastSave d codec cfg ticks fs e saved)"
  using assms(5-7)
proof (induction ticks arbitrary: fs e saved)
  case (Cons tick ticks)
  obtain e' fs' err where s: "SaveEngineSnapshot d (tk_ctx tick) codec (tk_calls tick) cfg fs (tk_work tick e) = (e', fs', err)"
    by (metis prod_cases3)
  have st: "storable (tk_work tick e)" using Cons.prems by simp
  from save_keeps [OF assms(1,2) st assms(3,4) s Cons.prems(3)] Cons.IH st s Cons.prems(1) show ?case by auto
qed simp


definition nodeConfig :: NodeConfig where
  "nodeConfig = \<lparr>nc_Addr = ''a:1'', nc_ControlAddr = '''', nc_NodeID = ''node-1'', nc_HeartbeatInterval = 0,
     nc_SnapshotPath = ''data/engine.json'', nc_SnapshotInterval = 1000, nc_ReplicationOutboxPath = '''',
     nc_DefaultNamespaceMemoryBytes = 0, nc_DefaultSpaceMemoryBytes = 0\<rparr>"

definition goodCalls :: fileCalls where
  "goodCalls = \<lparr>fc_mkdir = True, fc_temp = Some ''123'', fc_write = None, fc_close = True, fc_rename = True,
     fc_remove = True, fc_read = True\<rparr>"

text \<open>An encoding that knows the snapshot of the sample store only.\<close>

definition storeCodec :: snapshotCodec where
  "storeCodec = (let items = snd (EngineSnapshot sampleDeps live sampleStore) in
     \<lparr>sc_marshal = \<lambda>s. if items = Inr s then Some [1] else None,
      sc_unmarshal = \<lambda>raw. if raw = [1] then (case items of Inr s \<Rightarrow> Some s | Inl _ \<Rightarrow> None) else None\<rparr>)"

definition sampleTicks :: "saveTick list" where
  "sampleTicks = [\<lparr>tk_work = \<lambda>e. e, tk_ctx = live, tk_calls = goodCalls\<rparr>,
     \<lparr>tk_work = \<lambda>e. e, tk_ctx = live, tk_calls = goodCalls\<lparr>fc_write := Some 0\<rparr>\<rparr>]"

lemma storable_sampleStore: "storable sampleStore"
  by (auto simp: storable_def sampleStore_inv sampleStore_contents setEntry_def plainItem_def snapshotEntryFromEntry_def
      sampleKey_def otherKey_def split: if_splits)


end
