(* ===== verification/Redis_Resp.thy ===== *)
theory Redis_Resp
  imports GoStrings
begin

text \<open>
  The RESP protocol of the Redis front end (\<open>transport/redis/resp.go\<close>): reading commands off a
  connection and writing responses. A reader is the bytes that are still to come on the connection.
  \<open>make\<close> panics when it is asked for more than the run time can address, or for a negative size; how much
  that is is the argument \<open>alloc\<close>.
\<close>

section \<open>Values\<close>

datatype respValue =
    RespSimpleString string
  | RespError string
  | RespInteger int
  | RespBulkString bytes
  | RespNullBulkString
  | RespArray "respValue list"
  | RespMap "(respValue \<times> respValue) list"

type_synonym respArg = bytes

definition bulkText :: "string \<Rightarrow> respValue" where
  "bulkText text = RespBulkString (bytes_of_string text)"

definition mapField :: "string \<Rightarrow> string \<Rightarrow> respValue \<times> respValue" where
  "mapField key val = (bulkText key, bulkText val)"

section \<open>Commands\<close>

datatype resp_error = RespEOF | RespProtocol | RespPanic

record allocLimits =
  al_args :: int
  al_bytes :: int

abbreviation CR :: u8 where "CR \<equiv> 13"
abbreviation LF :: u8 where "LF \<equiv> 10"

fun respByte :: "bytes \<Rightarrow> resp_error + u8 \<times> bytes" where
  "respByte [] = Inl RespEOF"
| "respByte (b # input) = Inr (b, input)"

text \<open>\<open>ReadBytes\<close>: up to and including the first delimiter.\<close>

fun readBytes :: "u8 \<Rightarrow> bytes \<Rightarrow> resp_error + bytes \<times> bytes" where
  "readBytes d [] = Inl RespEOF"
| "readBytes d (b # input) =
     (if b = d then Inr ([b], input)
      else case readBytes d input of Inl e \<Rightarrow> Inl e | Inr (line, rest) \<Rightarrow> Inr (b # line, rest))"

definition readLineSuffix :: "bytes \<Rightarrow> resp_error + bytes \<times> bytes" where
  "readLineSuffix input =
     (case readBytes LF input of
        Inl e \<Rightarrow> Inl e
      | Inr (line, rest) \<Rightarrow>
          if length line < 2 \<or> line ! (length line - 2) \<noteq> CR then Inl RespProtocol
          else Inr (take (length line - 2) line, rest))"

definition readRESPInt :: "bytes \<Rightarrow> resp_error + int \<times> bytes" where
  "readRESPInt input =
     (case readLineSuffix input of
        Inl e \<Rightarrow> Inl e
      | Inr (line, rest) \<Rightarrow>
          (case ParseInt (string_of_bytes line) of None \<Rightarrow> Inl RespProtocol | Some v \<Rightarrow> Inr (v, rest)))"

definition readRESPBulkArg :: "allocLimits \<Rightarrow> bytes \<Rightarrow> resp_error + respArg \<times> bytes" where
  "readRESPBulkArg alloc input =
     (case readRESPInt input of
        Inl e \<Rightarrow> Inl e
      | Inr (n0, rest) \<Rightarrow>
          if n0 < 0 then Inr ([], rest)
          else
            let n = int64_wrap (n0 + 2) in
            if n < 0 \<or> n > al_bytes alloc then Inl RespPanic
            else if length rest < nat n then Inl RespEOF
            else if rest ! nat n0 \<noteq> CR \<or> rest ! (nat n0 + 1) \<noteq> LF then Inl RespProtocol
            else Inr (take (nat n0) rest, drop (nat n) rest))"

definition readRESPArg :: "allocLimits \<Rightarrow> bytes \<Rightarrow> resp_error + respArg \<times> bytes" where
  "readRESPArg alloc input =
     (case respByte input of
        Inl e \<Rightarrow> Inl e
      | Inr (prefix, rest) \<Rightarrow>
          if prefix = byte_of_char CHR ''$'' then readRESPBulkArg alloc rest
          else if prefix = byte_of_char CHR ''+'' \<or> prefix = byte_of_char CHR '':'' then readLineSuffix rest
          else Inl RespProtocol)"

text \<open>The loop over the arguments ends, at the latest, when the bytes do: each argument takes at least one.\<close>

fun readArgs :: "allocLimits \<Rightarrow> nat \<Rightarrow> bytes \<Rightarrow> resp_error + respArg list \<times> bytes" where
  "readArgs alloc 0 input = Inr ([], input)"
| "readArgs alloc (Suc n) input =
     (case readRESPArg alloc input of
        Inl e \<Rightarrow> Inl e
      | Inr (arg, rest) \<Rightarrow>
          (case readArgs alloc n rest of Inl e \<Rightarrow> Inl e | Inr (args, rest) \<Rightarrow> Inr (arg # args, rest)))"

definition readRESPArrayCommand :: "allocLimits \<Rightarrow> bytes \<Rightarrow> resp_error + respArg list \<times> bytes" where
  "readRESPArrayCommand alloc input =
     (case readRESPInt input of
        Inl e \<Rightarrow> Inl e
      | Inr (n, rest) \<Rightarrow>
          if n \<le> 0 then Inl RespProtocol
          else if n > al_args alloc then Inl RespPanic
          else readArgs alloc (nat n) rest)"

text \<open>\<open>strings.Fields\<close>: the maximal runs without white space.\<close>

function fieldsFrom :: "string \<Rightarrow> string \<Rightarrow> string list" where
  "fieldsFrom acc s =
     (case drop_prefix space_encodings s of
        Some t \<Rightarrow> (if acc = [] then fieldsFrom [] t else acc # fieldsFrom [] t)
      | None \<Rightarrow> (case s of [] \<Rightarrow> (if acc = [] then [] else [acc]) | c # t \<Rightarrow> fieldsFrom (acc @ [c]) t))"
  by pat_completeness auto

termination
  by (relation "measure (\<lambda>(acc, s). length s)") (auto dest: drop_prefix_shorter)

declare fieldsFrom.simps [simp del]

definition inlineCommand :: "bytes \<Rightarrow> respArg list" where
  "inlineCommand line = map bytes_of_string (fieldsFrom [] (string_of_bytes line))"

definition readRESPCommand :: "allocLimits \<Rightarrow> bytes \<Rightarrow> resp_error + respArg list \<times> bytes" where
  "readRESPCommand alloc input =
     (case respByte input of
        Inl e \<Rightarrow> Inl e
      | Inr (prefix, rest) \<Rightarrow>
          if prefix = byte_of_char CHR ''*'' then readRESPArrayCommand alloc rest
          else if prefix = CR \<or> prefix = LF then Inl RespProtocol
          else case readLineSuffix rest of
                 Inl e \<Rightarrow> Inl e
               | Inr (line, rest) \<Rightarrow> Inr (inlineCommand (prefix # line), rest))"

section \<open>Responses\<close>

text \<open>
  A response is written in pieces: a byte, a string or a byte slice at a time. What matters of the kind of a
  piece is how \<open>bufio.Writer\<close> takes one that does not fit into its buffer.
\<close>

datatype piece = PieceByte u8 | PieceString bytes | PieceSlice bytes

fun pieceBytes :: "piece \<Rightarrow> bytes" where
  "pieceBytes (PieceByte b) = [b]"
| "pieceBytes (PieceString bs) = bs"
| "pieceBytes (PieceSlice bs) = bs"

definition writeRESPRawString :: "string \<Rightarrow> piece list" where
  "writeRESPRawString val = [PieceString (bytes_of_string val)]"

definition crlf :: string where "crlf = [CHR 0x0D, CHR 0x0A]"

definition writeRESPTextLine :: "char \<Rightarrow> string \<Rightarrow> piece list" where
  "writeRESPTextLine prefix text =
     PieceByte (byte_of_char prefix) # PieceString (bytes_of_string text) # writeRESPRawString crlf"

definition encodeRESPBulk :: "bytes \<Rightarrow> piece list" where
  "encodeRESPBulk val =
     writeRESPTextLine CHR ''$'' (FormatInt (int (length val))) @ PieceSlice val # writeRESPRawString crlf"

fun encodeRESP :: "respValue \<Rightarrow> piece list" where
  "encodeRESP (RespSimpleString text) = writeRESPTextLine CHR ''+'' text"
| "encodeRESP (RespError text) = writeRESPTextLine CHR ''-'' text"
| "encodeRESP (RespInteger number) = writeRESPTextLine CHR '':'' (FormatInt number)"
| "encodeRESP (RespBulkString val) = encodeRESPBulk val"
| "encodeRESP RespNullBulkString = writeRESPRawString (''$-1'' @ crlf)"
| "encodeRESP (RespArray items) =
     writeRESPTextLine CHR ''*'' (FormatInt (int (length items))) @ concat (map encodeRESP items)"
| "encodeRESP (RespMap kvs) =
     writeRESPTextLine CHR ''%'' (FormatInt (int (length kvs))) @
     concat (map (\<lambda>(key, val). encodeRESP key @ encodeRESP val) kvs)"

definition respBytes :: "respValue \<Rightarrow> bytes" where
  "respBytes v = concat (map pieceBytes (encodeRESP v))"

text \<open>
  \<open>bufio.Writer\<close> over a connection that takes every write: what was sent, what waits in the buffer.
\<close>

record bufWriter =
  bw_sent :: bytes
  bw_buffer :: bytes

definition bufferSize :: nat where "bufferSize = 4096"

definition bufFlush :: "bufWriter \<Rightarrow> bufWriter" where
  "bufFlush w = w\<lparr>bw_sent := bw_sent w @ bw_buffer w, bw_buffer := []\<rparr>"

text \<open>A string is copied in parts that fill the buffer; a slice that is too long for an empty buffer is sent as it is.\<close>

function bufString :: "bytes \<Rightarrow> bufWriter \<Rightarrow> bufWriter" where
  "bufString bs w =
     (let room = bufferSize - length (bw_buffer w) in
      if length bs \<le> room then w\<lparr>bw_buffer := bw_buffer w @ bs\<rparr>
      else bufString (drop room bs) (bufFlush (w\<lparr>bw_buffer := bw_buffer w @ take room bs\<rparr>)))"
  by pat_completeness auto

termination
  by (relation "measures [\<lambda>(bs, w). length bs, \<lambda>(bs, w). length (bw_buffer w)]")
    (auto simp: bufferSize_def bufFlush_def)

declare bufString.simps [simp del]

definition bufSlice :: "bytes \<Rightarrow> bufWriter \<Rightarrow> bufWriter" where
  "bufSlice bs w =
     (let room = bufferSize - length (bw_buffer w) in
      if length bs \<le> room then w\<lparr>bw_buffer := bw_buffer w @ bs\<rparr>
      else
        let (bs, w) =
          (if bw_buffer w = [] then (bs, w)
           else (drop room bs, bufFlush (w\<lparr>bw_buffer := bw_buffer w @ take room bs\<rparr>)))
        in if length bs \<le> bufferSize then w\<lparr>bw_buffer := bs\<rparr> else w\<lparr>bw_sent := bw_sent w @ bs\<rparr>)"

definition bufByte :: "u8 \<Rightarrow> bufWriter \<Rightarrow> bufWriter" where
  "bufByte b w =
     (let w = (if bufferSize \<le> length (bw_buffer w) then bufFlush w else w) in
      w\<lparr>bw_buffer := bw_buffer w @ [b]\<rparr>)"

fun bufPiece :: "piece \<Rightarrow> bufWriter \<Rightarrow> bufWriter" where
  "bufPiece (PieceByte b) w = bufByte b w"
| "bufPiece (PieceString bs) w = bufString bs w"
| "bufPiece (PieceSlice bs) w = bufSlice bs w"

end
