(* ===== verification/Redis_Session.thy ===== *)
theory Redis_Session
  imports Redis_Resp Primitives Cache_Service "HOL-Library.State_Monad"
begin

text \<open>
  A connection of the Redis front end (\<open>transport/redis/server.go\<close>, \<open>key.go\<close>, \<open>range.go\<close>, \<open>response.go\<close>,
  \<open>script_cache.go\<close> and the types of \<open>command.go\<close>): what it knows, how it reaches the cache service, and the
  answers the handlers share. A handler is a program of the state monad over the connection: the engine
  behind the service, the scripts of the server, the session, and how many service calls were made so far.
  The \<open>n\<close>-th call gets the contexts and clock readings \<open>rx_calls n\<close>; before it, other connections may have
  changed the engine, as \<open>rx_others n\<close> says, unless this connection holds the service's lock because it is in
  a transaction. The scripts of the server have a lock of their own. Case mapping of text that is not ASCII,
  floating-point arithmetic, SHA-1, the text of an error and the Lua interpreter are parameters.
\<close>

section \<open>Text\<close>

record unicodeOps =
  uc_toUpper :: "string \<Rightarrow> string"
  uc_toLower :: "string \<Rightarrow> string"
  uc_equalFold :: "string \<Rightarrow> string \<Rightarrow> bool"
  uc_runes :: "string \<Rightarrow> nat list"
  uc_isLetter :: "nat \<Rightarrow> bool"
  uc_isDigit :: "nat \<Rightarrow> bool"

definition asciiText :: "string \<Rightarrow> bool" where
  "asciiText s = list_all (\<lambda>c. of_char c < (128 :: nat)) s"

definition upperChar :: "char \<Rightarrow> char" where
  "upperChar c = (if 97 \<le> (of_char c :: nat) \<and> (of_char c :: nat) \<le> 122 then char_of (of_char c - 32 :: nat) else c)"

definition lowerChar :: "char \<Rightarrow> char" where
  "lowerChar c = (if 65 \<le> (of_char c :: nat) \<and> (of_char c :: nat) \<le> 90 then char_of (of_char c + 32 :: nat) else c)"

definition ToUpper :: "unicodeOps \<Rightarrow> string \<Rightarrow> string" where
  "ToUpper uc s = (if asciiText s then map upperChar s else uc_toUpper uc s)"

definition ToLower :: "unicodeOps \<Rightarrow> string \<Rightarrow> string" where
  "ToLower uc s = (if asciiText s then map lowerChar s else uc_toLower uc s)"

definition EqualFold :: "unicodeOps \<Rightarrow> string \<Rightarrow> string \<Rightarrow> bool" where
  "EqualFold uc s t =
     (if asciiText s \<and> asciiText t then map lowerChar s = map lowerChar t else uc_equalFold uc s t)"

definition runesOf :: "unicodeOps \<Rightarrow> string \<Rightarrow> nat list" where
  "runesOf uc s = (if asciiText s then map of_char s else uc_runes uc s)"

definition IsLetter :: "unicodeOps \<Rightarrow> nat \<Rightarrow> bool" where
  "IsLetter uc r = (if r < 128 then 65 \<le> r \<and> r \<le> 90 \<or> 97 \<le> r \<and> r \<le> 122 else uc_isLetter uc r)"

definition IsDigit :: "unicodeOps \<Rightarrow> nat \<Rightarrow> bool" where
  "IsDigit uc r = (if r < 128 then 48 \<le> r \<and> r \<le> 57 else uc_isDigit uc r)"

section \<open>Credentials\<close>

definition validUsername :: "unicodeOps \<Rightarrow> string \<Rightarrow> bool" where
  "validUsername uc user \<longleftrightarrow>
     user \<noteq> '''' \<and>
     list_all (\<lambda>r. IsLetter uc r \<or> IsDigit uc r \<or> r = of_char CHR ''.'' \<or> r = of_char CHR ''_'' \<or> r = of_char CHR ''-'')
       (runesOf uc user)"

text \<open>\<open>SplitN\<close> at the first \<open>=\<close>.\<close>

definition splitCredential :: "string \<Rightarrow> (string \<times> string) option" where
  "splitCredential raw =
     (case dropWhile (\<lambda>c. c \<noteq> CHR ''='') raw of
        [] \<Rightarrow> None
      | _ # password \<Rightarrow> Some (takeWhile (\<lambda>c. c \<noteq> CHR ''='') raw, password))"

definition credentialStep :: "unicodeOps \<Rightarrow> (string \<rightharpoonup> string) \<Rightarrow> string \<Rightarrow> (string \<rightharpoonup> string)" where
  "credentialStep uc out item =
     (let raw = TrimSpace item in
      if raw = '''' then out
      else case splitCredential raw of
             None \<Rightarrow> out
           | Some (user, password) \<Rightarrow>
               let user = TrimSpace user in
               if validUsername uc user \<and> password \<noteq> '''' then out(user \<mapsto> password) else out)"

definition parseCredentials :: "unicodeOps \<Rightarrow> string list \<Rightarrow> (string \<rightharpoonup> string)" where
  "parseCredentials uc items = foldl (credentialStep uc) Map.empty items"

definition authenticate :: "(string \<rightharpoonup> string) \<Rightarrow> string \<Rightarrow> string \<Rightarrow> bool" where
  "authenticate credentials user password =
     (case credentials user of None \<Rightarrow> False | Some want \<Rightarrow> bytes_of_string want = bytes_of_string password)"

definition defaultAddr :: string where "defaultAddr = ''127.0.0.1:6379''"
definition defaultSpaceSuffix :: string where "defaultSpaceSuffix = ''-space''"

record redisServer =
  rv_addr :: string
  rv_credentials :: "string \<rightharpoonup> string"
  rv_scripts :: "string \<rightharpoonup> string"

definition NewRedisServer :: "unicodeOps \<Rightarrow> string \<Rightarrow> string list \<Rightarrow> redisServer" where
  "NewRedisServer uc addr users =
     (let addr = TrimSpace addr in
      \<lparr>rv_addr = (if addr = '''' then defaultAddr else addr), rv_credentials = parseCredentials uc users,
       rv_scripts = Map.empty\<rparr>)"

section \<open>Connections\<close>

record session =
  rs_authenticated :: bool
  rs_namespace :: string
  rs_db :: int
  rs_protocol :: int
  rs_close :: bool
  rs_inTransaction :: bool
  rs_queued :: "respArg list list"
  rs_tx :: bool

definition newSession :: session where
  "newSession = \<lparr>rs_authenticated = False, rs_namespace = '''', rs_db = 0, rs_protocol = 2, rs_close = False,
     rs_inTransaction = False, rs_queued = [], rs_tx = False\<rparr>"

record 'e conn =
  cn_engine :: 'e
  cn_scripts :: "string \<rightharpoonup> string"
  cn_session :: session
  cn_calls :: nat
  cn_crashed :: bool

text \<open>
  What a Lua value is to the front end: a table is its fields \<open>ok\<close> and \<open>err\<close> and its array part. A table may
  hold itself, so values are not well-founded.
\<close>

codatatype luaValue =
    LuaNil
  | LuaBool bool
  | LuaNumber float64
  | LuaString string
  | LuaTable luaValue luaValue "luaValue list"
  | LuaOther

text \<open>
  A run of a script, as the front end sees it: it does not compile, returns, fails (because its time is over,
  or not), or calls \<open>redis.call\<close> or \<open>redis.pcall\<close> and goes on with the answer. A run that does not end by itself
  is ended by the deadline.
\<close>

datatype luaAnswer = LuaPush luaValue | LuaRaise string

datatype luaRun =
    LuaCompileError string
  | LuaReturn luaValue
  | LuaFail bool string
  | LuaCall bool "luaValue list" "luaAnswer \<Rightarrow> luaRun"

record floatOps =
  fl_parse :: "string \<Rightarrow> float64 option"
  fl_format :: "float64 \<Rightarrow> string"
  fl_format4 :: "float64 \<Rightarrow> string"
  fl_mul :: "float64 \<Rightarrow> float64 \<Rightarrow> float64"
  fl_div :: "float64 \<Rightarrow> float64 \<Rightarrow> float64"
  fl_ofInt :: "int \<Rightarrow> float64"
  fl_toInt :: "float64 \<Rightarrow> int"
  fl_ceilSeconds :: "duration \<Rightarrow> int"

record 'e redisEnv =
  rx_ops :: "'e engineOps"
  rx_quota :: QuotaConfig
  rx_calls :: "nat \<Rightarrow> callEnvs"
  rx_others :: "nat \<Rightarrow> 'e \<Rightarrow> 'e"
  rx_otherScripts :: "nat \<Rightarrow> (string \<rightharpoonup> string) \<Rightarrow> (string \<rightharpoonup> string)"
  rx_now :: "nat \<Rightarrow> gotime"
  rx_credentials :: "string \<rightharpoonup> string"
  rx_unicode :: unicodeOps
  rx_floats :: floatOps
  rx_errorText :: "cache_error \<Rightarrow> string"
  rx_setOrder :: "string fset \<Rightarrow> string list"
  rx_sha1 :: "bytes \<Rightarrow> bytes"
  rx_lua :: "nat \<Rightarrow> string \<Rightarrow> respArg list \<Rightarrow> respArg list \<Rightarrow> luaRun"
  rx_luaText :: "luaValue \<Rightarrow> string"
  rx_contextErr :: "nat \<Rightarrow> string option"
  rx_stack :: nat

abbreviation answer :: "'a \<Rightarrow> ('s, 'a) state" where
  "answer \<equiv> State_Monad.return"

type_synonym ('e, 'a) redis = "('e conn, 'a) state"
type_synonym 'e redisHandler = "respArg list \<Rightarrow> ('e conn, respValue) state"

definition readSession :: "('e, session) redis" where
  "readSession = State (\<lambda>c. (cn_session c, c))"

definition updateSession :: "(session \<Rightarrow> session) \<Rightarrow> ('e, unit) redis" where
  "updateSession f = State (\<lambda>c. ((), c\<lparr>cn_session := f (cn_session c)\<rparr>))"

definition callNumber :: "('e, nat) redis" where
  "callNumber = State (\<lambda>c. (cn_calls c, c))"

text \<open>The process ends: nothing of it runs any more.\<close>

definition crash :: "('e, respValue) redis" where
  "crash = State (\<lambda>c. (RespNullBulkString, c\<lparr>cn_crashed := True\<rparr>))"

section \<open>Answers\<close>

definition noAuth :: respValue where "noAuth = RespError ''NOAUTH Authentication required.''"

definition wrongPass :: respValue where
  "wrongPass = RespError ''WRONGPASS invalid username-password pair or user is disabled.''"

definition wrongType :: respValue where
  "wrongType = RespError ''WRONGTYPE Operation against a key holding the wrong kind of value''"

definition syntaxError :: respValue where "syntaxError = RespError ''ERR syntax error''"

definition integerError :: respValue where
  "integerError = RespError ''ERR value is not an integer or out of range''"

definition invalidExpireTime :: respValue where
  "invalidExpireTime = RespError ''ERR invalid expire time in set''"

abbreviation statusOK :: respValue where "statusOK \<equiv> RespSimpleString ''OK''"

definition integerCount :: "u64 \<Rightarrow> respValue" where
  "integerCount n = (if int (unat n) > MaxInt64 then RespError ''ERR integer overflow'' else RespInteger (int (unat n)))"

text \<open>\<open>errors.Is\<close> along the chain of wrapped errors; the error of an overflow wraps \<open>ErrInvalidCounter\<close>.\<close>

fun isInvalidKey :: "cache_error \<Rightarrow> bool" where
  "isInvalidKey (ErrEngine _ err) = (err = ErrInvalidKey)"
| "isInvalidKey (ErrWrapped _ err) = isInvalidKey err"
| "isInvalidKey _ = False"

fun isInvalidCounter :: "cache_error \<Rightarrow> bool" where
  "isInvalidCounter (ErrEngine _ err) = (err = ErrInvalidCounter \<or> err = ErrCounterOverflow)"
| "isInvalidCounter (ErrWrapped _ err) = isInvalidCounter err"
| "isInvalidCounter _ = False"

definition serviceError :: "'e redisEnv \<Rightarrow> cache_error \<Rightarrow> respValue" where
  "serviceError rx err =
     (if isInvalidKey err then RespError ''ERR invalid key''
      else RespError (''ERR '' @ TrimSpace (rx_errorText rx err)))"

definition helloArray :: respValue where
  "helloArray = RespArray [bulkText ''server'', bulkText ''nespa'', bulkText ''version'', bulkText ''dev'',
     bulkText ''proto'', RespInteger 2, bulkText ''mode'', bulkText ''standalone'', bulkText ''role'', bulkText ''master'',
     bulkText ''modules'', RespArray []]"

definition helloMap :: respValue where
  "helloMap = RespMap [mapField ''server'' ''nespa'', mapField ''version'' ''dev'',
     (bulkText ''proto'', RespInteger 3), mapField ''mode'' ''standalone'', mapField ''role'' ''master'',
     (bulkText ''modules'', RespArray [])]"

definition sliceRedisRange :: "'a list \<Rightarrow> int \<Rightarrow> int \<Rightarrow> 'a list" where
  "sliceRedisRange xs start stop =
     (let len = int (length xs) in
      if len = 0 then []
      else
        let start = (if start < 0 then len + start else start);
            stop = (if stop < 0 then len + stop else stop);
            start = (if start < 0 then 0 else start);
            stop = (if stop \<ge> len then len - 1 else stop)
        in if start > stop \<or> start \<ge> len then []
           else take (nat (stop + 1) - nat start) (drop (nat start) xs))"

section \<open>Keys\<close>

definition entityString :: string where "entityString = ''redis:string''"
definition entityHash :: string where "entityHash = ''redis:hash''"
definition entitySet :: string where "entitySet = ''redis:set''"
definition entityList :: string where "entityList = ''redis:list''"
definition entityScoredSet :: string where "entityScoredSet = ''redis:zset''"
definition entityBitmap :: string where "entityBitmap = ''redis:bitmap''"
definition entityHLL :: string where "entityHLL = ''redis:hll''"
definition entityGeo :: string where "entityGeo = ''redis:geo''"

record redisType =
  rt_name :: string
  rt_entity :: string

definition redisEntities :: "redisType list" where
  "redisEntities = [
     \<lparr>rt_name = ''string'', rt_entity = entityString\<rparr>, \<lparr>rt_name = ''hash'', rt_entity = entityHash\<rparr>,
     \<lparr>rt_name = ''set'', rt_entity = entitySet\<rparr>, \<lparr>rt_name = ''list'', rt_entity = entityList\<rparr>,
     \<lparr>rt_name = ''zset'', rt_entity = entityScoredSet\<rparr>, \<lparr>rt_name = ''bitmap'', rt_entity = entityBitmap\<rparr>,
     \<lparr>rt_name = ''hll'', rt_entity = entityHLL\<rparr>, \<lparr>rt_name = ''geo'', rt_entity = entityGeo\<rparr>]"

definition spaceName :: "int \<Rightarrow> string" where
  "spaceName db = FormatInt db @ defaultSpaceSuffix"

definition redisKey :: "session \<Rightarrow> string \<Rightarrow> string \<Rightarrow> Key" where
  "redisKey state entity key =
     \<lparr>k_Namespace = rs_namespace state, k_Space = spaceName (rs_db state), k_Entity = entity, k_Key = key\<rparr>"

text \<open>
  A call of the service: \<open>activeService\<close> is the service of the transaction, which runs on as it is, or that of
  the server, which other connections use as well.
\<close>

definition activeService :: "'e redisEnv \<Rightarrow> 'e conn \<Rightarrow> 'e" where
  "activeService rx c = (if rs_tx (cn_session c) then cn_engine c else rx_others rx (cn_calls c) (cn_engine c))"

definition service ::
  "'e redisEnv \<Rightarrow> (session \<Rightarrow> callEnvs \<Rightarrow> 'e \<Rightarrow> 'e \<times> 'a) \<Rightarrow> ('e, 'a) redis" where
  "service rx f = State (\<lambda>c.
     let (e, r) = f (cn_session c) (rx_calls rx (cn_calls c)) (activeService rx c)
     in (r, c\<lparr>cn_engine := e, cn_calls := Suc (cn_calls c)\<rparr>))"

definition svGet :: "'e redisEnv \<Rightarrow> string \<Rightarrow> string \<Rightarrow> ('e, cache_error + Record \<times> bool) redis" where
  "svGet rx entity key =
     service rx (\<lambda>state env e. getLocked (rx_ops rx) env e (redisKey state entity key)
       \<lparr>go_NamespaceVersion = 0, go_SpaceVersion = 0\<rparr>)"

definition svSet ::
  "'e redisEnv \<Rightarrow> string \<Rightarrow> string \<Rightarrow> bytes \<Rightarrow> duration \<Rightarrow> u64 \<Rightarrow> ('e, cache_error + Record \<times> bool) redis" where
  "svSet rx entity key val ttl expected =
     service rx (\<lambda>state env e. setLocked (rx_ops rx) (rx_quota rx) env e (redisKey state entity key) val
       \<lparr>so_TTL = ttl, so_NamespaceVersion = 0, so_SpaceVersion = 0, so_ExpectedVersion = expected\<rparr>)"

definition svDelete :: "'e redisEnv \<Rightarrow> string \<Rightarrow> string \<Rightarrow> ('e, cache_error + bool \<times> bool) redis" where
  "svDelete rx entity key =
     service rx (\<lambda>state env e. deleteLocked (rx_ops rx) env e (redisKey state entity key) \<lparr>do_ExpectedVersion = 0\<rparr>)"

definition svTouch :: "'e redisEnv \<Rightarrow> string \<Rightarrow> string \<Rightarrow> duration \<Rightarrow> ('e, cache_error + bool) redis" where
  "svTouch rx entity key ttl =
     service rx (\<lambda>state env e. touchLocked (rx_ops rx) env e (redisKey state entity key)
       \<lparr>to_TTL = ttl, to_NamespaceVersion = 0, to_SpaceVersion = 0, to_ExpectedVersion = 0\<rparr>)"

definition svAdjust :: "'e redisEnv \<Rightarrow> string \<Rightarrow> string \<Rightarrow> int \<Rightarrow> ('e, cache_error + Record \<times> bool) redis" where
  "svAdjust rx entity key delta =
     service rx (\<lambda>state env e. adjustLocked (rx_ops rx) (rx_quota rx) env e (redisKey state entity key)
       \<lparr>ao_Delta = delta, ao_InitialValue = 0, ao_TTL = 0, ao_NamespaceVersion = 0, ao_SpaceVersion = 0,
         ao_ExpectedVersion = 0\<rparr>)"

text \<open>A primitive request, with its key filled in.\<close>

definition svPrimitive ::
  "'e redisEnv \<Rightarrow> string \<Rightarrow> string \<Rightarrow> PrimitiveRequest \<Rightarrow> ('e, cache_error + PrimitiveResult) redis" where
  "svPrimitive rx entity key request =
     service rx (\<lambda>state env e. primitiveLocked (rx_ops rx) (rx_quota rx) env e
       (request\<lparr>pr_Key := redisKey state entity key\<rparr>))"

abbreviation primitiveOf :: "PrimitiveKind \<Rightarrow> PrimitiveRequest" where
  "primitiveOf kind \<equiv> zeroPrimitiveRequest\<lparr>pr_Kind := kind\<rparr>"

section \<open>Types of keys\<close>

definition foundReply :: "cache_error + Record \<times> bool \<Rightarrow> bool" where
  "foundReply r = (case r of Inl _ \<Rightarrow> False | Inr (_, found) \<Rightarrow> found)"

primrec typeAmong :: "'e redisEnv \<Rightarrow> string \<Rightarrow> redisType list \<Rightarrow> ('e, redisType option) redis" where
  "typeAmong rx key [] = answer None"
| "typeAmong rx key (typ # typs) = do {
     r \<leftarrow> svGet rx (rt_entity typ) key;
     if foundReply r then answer (Some typ) else typeAmong rx key typs }"

definition typeOf :: "'e redisEnv \<Rightarrow> string \<Rightarrow> ('e, redisType option) redis" where
  "typeOf rx key = typeAmong rx key redisEntities"

definition existsAny :: "'e redisEnv \<Rightarrow> string \<Rightarrow> ('e, bool) redis" where
  "existsAny rx key = do { typ \<leftarrow> typeOf rx key; answer (typ \<noteq> None) }"

primrec deleteAmong :: "'e redisEnv \<Rightarrow> string \<Rightarrow> redisType list \<Rightarrow> bool \<Rightarrow> ('e, bool) redis" where
  "deleteAmong rx key [] deleted = answer deleted"
| "deleteAmong rx key (typ # typs) deleted = do {
     r \<leftarrow> svDelete rx (rt_entity typ) key;
     deleteAmong rx key typs (case r of Inr (removed, _) \<Rightarrow> deleted \<or> removed | Inl _ \<Rightarrow> deleted) }"

definition deleteAny :: "'e redisEnv \<Rightarrow> string \<Rightarrow> ('e, bool) redis" where
  "deleteAny rx key = deleteAmong rx key redisEntities False"

primrec deleteNonString :: "'e redisEnv \<Rightarrow> string \<Rightarrow> redisType list \<Rightarrow> ('e, unit) redis" where
  "deleteNonString rx key [] = answer ()"
| "deleteNonString rx key (typ # typs) =
     (if rt_entity typ = entityString then deleteNonString rx key typs
      else do { _ \<leftarrow> svDelete rx (rt_entity typ) key; deleteNonString rx key typs })"

definition deleteNonStringTypes :: "'e redisEnv \<Rightarrow> string \<Rightarrow> ('e, unit) redis" where
  "deleteNonStringTypes rx key = deleteNonString rx key redisEntities"

definition wrongTypeFor :: "'e redisEnv \<Rightarrow> string \<Rightarrow> string \<Rightarrow> ('e, respValue option) redis" where
  "wrongTypeFor rx key expectedEntity = do {
     typ \<leftarrow> typeOf rx key;
     answer (case typ of
       None \<Rightarrow> None
     | Some typ \<Rightarrow> if rt_entity typ = expectedEntity then None else Some wrongType) }"

text \<open>How the handlers begin, and how they go on after a call.\<close>

definition typed :: "'e redisEnv \<Rightarrow> string \<Rightarrow> string \<Rightarrow> ('e, respValue) redis \<Rightarrow> ('e, respValue) redis" where
  "typed rx key entity body = do {
     wrong \<leftarrow> wrongTypeFor rx key entity;
     (case wrong of Some resp \<Rightarrow> answer resp | None \<Rightarrow> body) }"

definition orFail ::
  "'e redisEnv \<Rightarrow> cache_error + 'a \<Rightarrow> ('a \<Rightarrow> ('e, respValue) redis) \<Rightarrow> ('e, respValue) redis" where
  "orFail rx r body = (case r of Inl err \<Rightarrow> answer (serviceError rx err) | Inr v \<Rightarrow> body v)"

definition parsePositiveInt64 :: "bytes \<Rightarrow> int option" where
  "parsePositiveInt64 raw =
     (case ParseInt (string_of_bytes raw) of Some v \<Rightarrow> if v > 0 then Some v else None | None \<Rightarrow> None)"

abbreviation textArg :: "respArg list \<Rightarrow> nat \<Rightarrow> string" where
  "textArg args i \<equiv> string_of_bytes (args ! i)"

section \<open>Scripts of the server\<close>

definition hexChar :: "nat \<Rightarrow> char" where
  "hexChar n = ''0123456789abcdef'' ! n"

definition EncodeToString :: "bytes \<Rightarrow> string" where
  "EncodeToString bs = concat (map (\<lambda>b. [hexChar (unat b div 16), hexChar (unat b mod 16)]) bs)"

definition scriptSHA :: "'e redisEnv \<Rightarrow> string \<Rightarrow> string" where
  "scriptSHA rx script = EncodeToString (rx_sha1 rx (bytes_of_string script))"

definition withScripts ::
  "'e redisEnv \<Rightarrow> ((string \<rightharpoonup> string) \<Rightarrow> 'a \<times> (string \<rightharpoonup> string)) \<Rightarrow> ('e, 'a) redis" where
  "withScripts rx f = State (\<lambda>c.
     let (r, scripts) = f (rx_otherScripts rx (cn_calls c) (cn_scripts c)) in (r, c\<lparr>cn_scripts := scripts\<rparr>))"

definition storeScript :: "'e redisEnv \<Rightarrow> string \<Rightarrow> string \<Rightarrow> ('e, unit) redis" where
  "storeScript rx sha script = withScripts rx (\<lambda>scripts. ((), scripts(sha \<mapsto> script)))"

definition scriptForSHA :: "'e redisEnv \<Rightarrow> string \<Rightarrow> ('e, string option) redis" where
  "scriptForSHA rx sha = withScripts rx (\<lambda>scripts. (scripts sha, scripts))"

definition flushScripts :: "'e redisEnv \<Rightarrow> ('e, unit) redis" where
  "flushScripts rx = withScripts rx (\<lambda>scripts. ((), Map.empty))"

end
