(* ===== verification/Redis_Commands.thy ===== *)
theory Redis_Commands
  imports Redis_Session
begin

text \<open>
  The commands of the Redis front end on data (\<open>transport/redis/string.go\<close>, \<open>hash.go\<close>, \<open>set.go\<close>, \<open>list.go\<close>,
  \<open>zset.go\<close>, \<open>bitmap.go\<close>, \<open>hll.go\<close>, \<open>geo.go\<close>): one handler per command. A loop over the arguments is a recursion
  over what is left of them.
\<close>

section \<open>Strings\<close>

record setOptions =
  st_ttl :: duration
  st_nx :: bool
  st_xx :: bool

definition timeSecond :: duration where "timeSecond = 1000000000"
definition timeMillisecond :: duration where "timeMillisecond = 1000000"

definition rhandleGet :: "'e redisEnv \<Rightarrow> 'e redisHandler" where
  "rhandleGet rx args =
     (if length args \<noteq> 2 then answer syntaxError
      else
        let key = textArg args 1 in
        typed rx key entityString (do {
          r \<leftarrow> svGet rx entityString key;
          orFail rx r (\<lambda>(rec, found).
            answer (if \<not> found then RespNullBulkString else RespBulkString (r_Value rec))) }))"

definition applySetTTL :: "respArg list \<Rightarrow> duration \<Rightarrow> setOptions \<Rightarrow> respValue + respArg list \<times> setOptions" where
  "applySetTTL rest unit out =
     (case rest of
        [] \<Rightarrow> Inl syntaxError
      | raw # rest \<Rightarrow>
          (case parsePositiveInt64 raw of
             None \<Rightarrow> Inl invalidExpireTime
           | Some v \<Rightarrow> Inr (rest, out\<lparr>st_ttl := int64_wrap (v * unit)\<rparr>)))"

definition applySetOption ::
  "unicodeOps \<Rightarrow> respArg \<Rightarrow> respArg list \<Rightarrow> setOptions \<Rightarrow> respValue + respArg list \<times> setOptions" where
  "applySetOption uc arg rest out =
     (let opt = ToUpper uc (string_of_bytes arg) in
      if opt = ''EX'' then applySetTTL rest timeSecond out
      else if opt = ''PX'' then applySetTTL rest timeMillisecond out
      else if opt = ''NX'' then Inr (rest, out\<lparr>st_nx := True\<rparr>)
      else if opt = ''XX'' then Inr (rest, out\<lparr>st_xx := True\<rparr>)
      else Inl syntaxError)"

lemma applySetOption_shorter: "applySetOption uc arg rest out = Inr (rest', out') \<Longrightarrow> length rest' \<le> length rest"
  by (auto simp: applySetOption_def applySetTTL_def Let_def split: if_splits list.splits option.splits)

function parseSetLoop :: "unicodeOps \<Rightarrow> respArg list \<Rightarrow> setOptions \<Rightarrow> respValue + setOptions" where
  "parseSetLoop uc [] out = Inr out"
| "parseSetLoop uc (arg # rest) out =
     (case applySetOption uc arg rest out of
        Inl resp \<Rightarrow> Inl resp
      | Inr (rest, out) \<Rightarrow> parseSetLoop uc rest out)"
  by pat_completeness auto

termination
  by (relation "measure (\<lambda>(uc, args, out). length args)") (auto dest: applySetOption_shorter)

definition parseSetOptions :: "unicodeOps \<Rightarrow> respArg list \<Rightarrow> respValue + setOptions" where
  "parseSetOptions uc args =
     (case parseSetLoop uc args \<lparr>st_ttl = 0, st_nx = False, st_xx = False\<rparr> of
        Inl resp \<Rightarrow> Inl resp
      | Inr out \<Rightarrow> if st_nx out \<and> st_xx out then Inl syntaxError else Inr out)"

definition rhandleSet :: "'e redisEnv \<Rightarrow> 'e redisHandler" where
  "rhandleSet rx args =
     (if length args < 3 then answer syntaxError
      else
        let key = textArg args 1 in
        case parseSetOptions (rx_unicode rx) (drop 3 args) of
          Inl resp \<Rightarrow> answer resp
        | Inr opts \<Rightarrow> do {
            r \<leftarrow> svGet rx entityString key;
            orFail rx r (\<lambda>(existing, found). do {
              taken \<leftarrow> (if st_nx opts then existsAny rx key else answer False);
              if taken then answer RespNullBulkString
              else if st_xx opts \<and> \<not> found then answer RespNullBulkString
              else do {
                _ \<leftarrow> deleteNonStringTypes rx key;
                r \<leftarrow> svSet rx entityString key (args ! 2) (st_ttl opts) (if st_xx opts then r_Version existing else 0);
                orFail rx r (\<lambda>_. answer statusOK) } }) })"

primrec delLoop :: "'e redisEnv \<Rightarrow> respArg list \<Rightarrow> int \<Rightarrow> ('e, respValue) redis" where
  "delLoop rx [] deleted = answer (RespInteger deleted)"
| "delLoop rx (arg # args) deleted = do {
     gone \<leftarrow> deleteAny rx (string_of_bytes arg);
     delLoop rx args (if gone then deleted + 1 else deleted) }"

definition rhandleDel :: "'e redisEnv \<Rightarrow> 'e redisHandler" where
  "rhandleDel rx args = (if length args < 2 then answer syntaxError else delLoop rx (tl args) 0)"

primrec existsLoop :: "'e redisEnv \<Rightarrow> respArg list \<Rightarrow> int \<Rightarrow> ('e, respValue) redis" where
  "existsLoop rx [] exists = answer (RespInteger exists)"
| "existsLoop rx (arg # args) exists = do {
     here \<leftarrow> existsAny rx (string_of_bytes arg);
     existsLoop rx args (if here then exists + 1 else exists) }"

definition rhandleExists :: "'e redisEnv \<Rightarrow> 'e redisHandler" where
  "rhandleExists rx args = (if length args < 2 then answer syntaxError else existsLoop rx (tl args) 0)"

definition flagInteger :: "bool \<Rightarrow> respValue" where
  "flagInteger b = (if b then RespInteger 1 else RespInteger 0)"

definition rhandleExpire :: "'e redisEnv \<Rightarrow> 'e redisHandler" where
  "rhandleExpire rx args =
     (if length args \<noteq> 3 then answer syntaxError
      else
        case parsePositiveInt64 (args ! 2) of
          None \<Rightarrow> answer invalidExpireTime
        | Some seconds \<Rightarrow> do {
            typ \<leftarrow> typeOf rx (textArg args 1);
            (case typ of
               None \<Rightarrow> answer (RespInteger 0)
             | Some typ \<Rightarrow> do {
                 r \<leftarrow> svTouch rx (rt_entity typ) (textArg args 1) (int64_wrap (seconds * timeSecond));
                 orFail rx r (\<lambda>touched. answer (flagInteger touched)) }) })"

definition readClock :: "'e redisEnv \<Rightarrow> ('e, gotime) redis" where
  "readClock rx = do { n \<leftarrow> callNumber; answer (rx_now rx n) }"

definition ttlResponse :: "'e redisEnv \<Rightarrow> Record \<Rightarrow> ('e, respValue) redis" where
  "ttlResponse rx rec =
     (if r_ExpireAt rec = 0 then answer (RespInteger (- 1))
      else do {
        now \<leftarrow> readClock rx;
        let ttl = SubTime (r_ExpireAt rec) now;
        answer (RespInteger (if ttl \<le> 0 then - 2 else fl_ceilSeconds (rx_floats rx) ttl)) })"

definition rhandleTTL :: "'e redisEnv \<Rightarrow> 'e redisHandler" where
  "rhandleTTL rx args =
     (if length args \<noteq> 2 then answer syntaxError
      else do {
        typ \<leftarrow> typeOf rx (textArg args 1);
        (case typ of
           None \<Rightarrow> answer (RespInteger (- 2))
         | Some typ \<Rightarrow> do {
             r \<leftarrow> svGet rx (rt_entity typ) (textArg args 1);
             orFail rx r (\<lambda>(rec, found).
               if \<not> found then answer (RespInteger (- 2)) else ttlResponse rx rec) }) })"

definition increment :: "'e redisEnv \<Rightarrow> string \<Rightarrow> int \<Rightarrow> ('e, respValue) redis" where
  "increment rx key delta =
     typed rx key entityString (do {
       r \<leftarrow> svAdjust rx entityString key delta;
       (case r of
          Inl err \<Rightarrow> answer (if isInvalidCounter err then integerError else serviceError rx err)
        | Inr (rec, _) \<Rightarrow>
            answer (case ParseInt (string_of_bytes (r_Value rec)) of
              None \<Rightarrow> integerError | Some v \<Rightarrow> RespInteger v)) })"

definition rhandleIncrement :: "'e redisEnv \<Rightarrow> int \<Rightarrow> 'e redisHandler" where
  "rhandleIncrement rx delta args =
     (if length args \<noteq> 2 then answer syntaxError else increment rx (textArg args 1) delta)"

definition rhandleIncrementBy :: "'e redisEnv \<Rightarrow> 'e redisHandler" where
  "rhandleIncrementBy rx args =
     (if length args \<noteq> 3 then answer syntaxError
      else case ParseInt (textArg args 2) of
             None \<Rightarrow> answer integerError
           | Some delta \<Rightarrow> increment rx (textArg args 1) delta)"

definition rhandleDecrementBy :: "'e redisEnv \<Rightarrow> 'e redisHandler" where
  "rhandleDecrementBy rx args =
     (if length args \<noteq> 3 then answer syntaxError
      else case ParseInt (textArg args 2) of
             None \<Rightarrow> answer integerError
           | Some delta \<Rightarrow>
               if delta = MinInt64 then answer integerError else increment rx (textArg args 1) (- delta))"

definition mgetItem :: "'e redisEnv \<Rightarrow> string \<Rightarrow> ('e, respValue) redis" where
  "mgetItem rx key = do {
     wrong \<leftarrow> wrongTypeFor rx key entityString;
     (case wrong of
        Some _ \<Rightarrow> answer RespNullBulkString
      | None \<Rightarrow> do {
          r \<leftarrow> svGet rx entityString key;
          answer (case r of
            Inr (rec, True) \<Rightarrow> RespBulkString (r_Value rec)
          | _ \<Rightarrow> RespNullBulkString) }) }"

definition rhandleMGet :: "'e redisEnv \<Rightarrow> 'e redisHandler" where
  "rhandleMGet rx args =
     (if length args < 2 then answer syntaxError
      else do {
        items \<leftarrow> State_Monad.traverse_list (\<lambda>arg. mgetItem rx (string_of_bytes arg)) (tl args);
        answer (RespArray items) })"

fun msetLoop :: "'e redisEnv \<Rightarrow> respArg list \<Rightarrow> ('e, respValue) redis" where
  "msetLoop rx (arg # val # rest) = do {
     _ \<leftarrow> deleteNonStringTypes rx (string_of_bytes arg);
     r \<leftarrow> svSet rx entityString (string_of_bytes arg) val 0 0;
     orFail rx r (\<lambda>_. msetLoop rx rest) }"
| "msetLoop rx _ = answer statusOK"

definition rhandleMSet :: "'e redisEnv \<Rightarrow> 'e redisHandler" where
  "rhandleMSet rx args =
     (if length args < 3 \<or> length args mod 2 = 0 then answer syntaxError else msetLoop rx (tl args))"

definition rhandleType :: "'e redisEnv \<Rightarrow> 'e redisHandler" where
  "rhandleType rx args =
     (if length args \<noteq> 2 then answer syntaxError
      else do {
        typ \<leftarrow> typeOf rx (textArg args 1);
        answer (RespSimpleString (case typ of None \<Rightarrow> ''none'' | Some typ \<Rightarrow> rt_name typ)) })"

section \<open>Hashes\<close>

definition hashFieldExists :: "'e redisEnv \<Rightarrow> string \<Rightarrow> string \<Rightarrow> ('e, bool) redis" where
  "hashFieldExists rx key field = do {
     r \<leftarrow> svPrimitive rx entityHash key ((primitiveOf PrimitiveMapGet)\<lparr>pr_Field := field\<rparr>);
     answer (case r of Inl _ \<Rightarrow> False | Inr result \<Rightarrow> ps_Found result) }"

definition mapSet :: "'e redisEnv \<Rightarrow> string \<Rightarrow> string \<Rightarrow> bytes \<Rightarrow> ('e, respValue option) redis" where
  "mapSet rx key field val = do {
     r \<leftarrow> svPrimitive rx entityHash key ((primitiveOf PrimitiveMapSet)\<lparr>pr_Field := field, pr_Value := val\<rparr>);
     answer (case r of Inl err \<Rightarrow> Some (serviceError rx err) | Inr _ \<Rightarrow> None) }"

text \<open>A read of a whole collection, with the text its error is wrapped in.\<close>

definition readAll ::
  "'e redisEnv \<Rightarrow> string \<Rightarrow> PrimitiveKind \<Rightarrow> string \<Rightarrow> string \<Rightarrow> ('e, cache_error + PrimitiveResult) redis" where
  "readAll rx what kind entity key = do {
     r \<leftarrow> svPrimitive rx entity key (primitiveOf kind);
     answer (case r of Inl err \<Rightarrow> Inl (ErrWrapped what err) | Inr result \<Rightarrow> Inr result) }"

definition rmapFields :: "'e redisEnv \<Rightarrow> string \<Rightarrow> ('e, cache_error + PrimitiveResult) redis" where
  "rmapFields rx = readAll rx ''read redis hash fields'' PrimitiveMapGetAll entityHash"

fun hsetLoop :: "'e redisEnv \<Rightarrow> string \<Rightarrow> respArg list \<Rightarrow> int \<Rightarrow> ('e, respValue) redis" where
  "hsetLoop rx key (field # val # rest) added = do {
     existed \<leftarrow> hashFieldExists rx key (string_of_bytes field);
     failed \<leftarrow> mapSet rx key (string_of_bytes field) val;
     (case failed of
        Some resp \<Rightarrow> answer resp
      | None \<Rightarrow> hsetLoop rx key rest (if existed then added else added + 1)) }"
| "hsetLoop rx key _ added = answer (RespInteger added)"

definition rhandleHSet :: "'e redisEnv \<Rightarrow> 'e redisHandler" where
  "rhandleHSet rx args =
     (if length args < 4 \<or> length args mod 2 \<noteq> 0 then answer syntaxError
      else let key = textArg args 1 in typed rx key entityHash (hsetLoop rx key (drop 2 args) 0))"

definition rhandleHGet :: "'e redisEnv \<Rightarrow> 'e redisHandler" where
  "rhandleHGet rx args =
     (if length args \<noteq> 3 then answer syntaxError
      else
        let key = textArg args 1 in
        typed rx key entityHash (do {
          r \<leftarrow> svPrimitive rx entityHash key ((primitiveOf PrimitiveMapGet)\<lparr>pr_Field := textArg args 2\<rparr>);
          orFail rx r (\<lambda>result.
            answer (if \<not> ps_Found result then RespNullBulkString else RespBulkString (ps_Value result))) }))"

text \<open>The loop of the commands that make one call per argument and count the calls that answer true.\<close>

primrec countLoop ::
  "'e redisEnv \<Rightarrow> string \<Rightarrow> string \<Rightarrow> (string \<Rightarrow> PrimitiveRequest) \<Rightarrow> respArg list \<Rightarrow> int \<Rightarrow> ('e, respValue) redis" where
  "countLoop rx entity key request [] n = answer (RespInteger n)"
| "countLoop rx entity key request (arg # args) n = do {
     r \<leftarrow> svPrimitive rx entity key (request (string_of_bytes arg));
     orFail rx r (\<lambda>result. countLoop rx entity key request args (if ps_Bool result then n + 1 else n)) }"

definition rhandleHDel :: "'e redisEnv \<Rightarrow> 'e redisHandler" where
  "rhandleHDel rx args =
     (if length args < 3 then answer syntaxError
      else
        let key = textArg args 1 in
        typed rx key entityHash
          (countLoop rx entityHash key (\<lambda>field. (primitiveOf PrimitiveMapDelete)\<lparr>pr_Field := field\<rparr>) (drop 2 args) 0))"

definition rhandleHGetAll :: "'e redisEnv \<Rightarrow> 'e redisHandler" where
  "rhandleHGetAll rx args =
     (if length args \<noteq> 2 then answer syntaxError
      else
        let key = textArg args 1 in
        typed rx key entityHash (do {
          r \<leftarrow> rmapFields rx key;
          orFail rx r (\<lambda>result. answer (RespArray
            (concat (map (\<lambda>f. [bulkText (mf_Field f), RespBulkString (mf_Value f)]) (ps_Fields result))))) }))"

definition rhandleHExists :: "'e redisEnv \<Rightarrow> 'e redisHandler" where
  "rhandleHExists rx args =
     (if length args \<noteq> 3 then answer syntaxError
      else
        let key = textArg args 1 in
        typed rx key entityHash (do {
          here \<leftarrow> hashFieldExists rx key (textArg args 2);
          answer (flagInteger here) }))"

text \<open>The commands that answer how many items a collection has.\<close>

definition lengthOf ::
  "'e redisEnv \<Rightarrow> string \<Rightarrow> (string \<Rightarrow> ('e, cache_error + PrimitiveResult) redis) \<Rightarrow> 'e redisHandler" where
  "lengthOf rx entity readItems args =
     (if length args \<noteq> 2 then answer syntaxError
      else
        let key = textArg args 1 in
        typed rx key entity (do {
          r \<leftarrow> readItems key;
          orFail rx r (\<lambda>result. answer (integerCount (ps_Count result))) }))"

definition rhandleHLen :: "'e redisEnv \<Rightarrow> 'e redisHandler" where
  "rhandleHLen rx = lengthOf rx entityHash (rmapFields rx)"

section \<open>Sets\<close>

definition memberRequest :: "PrimitiveKind \<Rightarrow> string \<Rightarrow> PrimitiveRequest" where
  "memberRequest kind member = (primitiveOf kind)\<lparr>pr_Member := member\<rparr>"

definition setMembers :: "'e redisEnv \<Rightarrow> string \<Rightarrow> ('e, cache_error + PrimitiveResult) redis" where
  "setMembers rx = readAll rx ''read redis set members'' PrimitiveSetMembers entitySet"

definition rhandleSAdd :: "'e redisEnv \<Rightarrow> 'e redisHandler" where
  "rhandleSAdd rx args =
     (if length args < 3 then answer syntaxError
      else
        let key = textArg args 1 in
        typed rx key entitySet (countLoop rx entitySet key (memberRequest PrimitiveSetAdd) (drop 2 args) 0))"

definition rhandleSRem :: "'e redisEnv \<Rightarrow> 'e redisHandler" where
  "rhandleSRem rx args =
     (if length args < 3 then answer syntaxError
      else
        let key = textArg args 1 in
        typed rx key entitySet (countLoop rx entitySet key (memberRequest PrimitiveSetRemove) (drop 2 args) 0))"

definition rhandleSIsMember :: "'e redisEnv \<Rightarrow> 'e redisHandler" where
  "rhandleSIsMember rx args =
     (if length args \<noteq> 3 then answer syntaxError
      else
        let key = textArg args 1 in
        typed rx key entitySet (do {
          r \<leftarrow> svPrimitive rx entitySet key (memberRequest PrimitiveSetContains (textArg args 2));
          orFail rx r (\<lambda>result. answer (flagInteger (ps_Bool result))) }))"

definition rhandleSMembers :: "'e redisEnv \<Rightarrow> 'e redisHandler" where
  "rhandleSMembers rx args =
     (if length args \<noteq> 2 then answer syntaxError
      else
        let key = textArg args 1 in
        typed rx key entitySet (do {
          r \<leftarrow> setMembers rx key;
          orFail rx r (\<lambda>result. answer (RespArray (map bulkText (ps_Members result)))) }))"

definition rhandleSCard :: "'e redisEnv \<Rightarrow> 'e redisHandler" where
  "rhandleSCard rx = lengthOf rx entitySet (setMembers rx)"

section \<open>Lists\<close>

primrec pushLoop ::
  "'e redisEnv \<Rightarrow> string \<Rightarrow> PrimitiveKind \<Rightarrow> respArg list \<Rightarrow> PrimitiveResult \<Rightarrow> ('e, respValue) redis" where
  "pushLoop rx key kind [] result = answer (integerCount (ps_Count result))"
| "pushLoop rx key kind (arg # args) result = do {
     r \<leftarrow> svPrimitive rx entityList key ((primitiveOf kind)\<lparr>pr_Value := arg\<rparr>);
     orFail rx r (\<lambda>result. pushLoop rx key kind args result) }"

definition pushList :: "'e redisEnv \<Rightarrow> PrimitiveKind \<Rightarrow> 'e redisHandler" where
  "pushList rx kind args =
     (if length args < 3 then answer syntaxError
      else
        let key = textArg args 1 in
        typed rx key entityList (pushLoop rx key kind (drop 2 args) zeroPrimitiveResult))"

definition rhandleLPush :: "'e redisEnv \<Rightarrow> 'e redisHandler" where
  "rhandleLPush rx = pushList rx PrimitiveListPushFront"

definition rhandleRPush :: "'e redisEnv \<Rightarrow> 'e redisHandler" where
  "rhandleRPush rx = pushList rx PrimitiveListPushBack"

definition popList :: "'e redisEnv \<Rightarrow> PrimitiveKind \<Rightarrow> 'e redisHandler" where
  "popList rx kind args =
     (if length args \<noteq> 2 then answer syntaxError
      else
        let key = textArg args 1 in
        typed rx key entityList (do {
          r \<leftarrow> svPrimitive rx entityList key (primitiveOf kind);
          orFail rx r (\<lambda>result.
            answer (if \<not> ps_Found result \<or> ps_Value result = [] then RespNullBulkString
                    else RespBulkString (ps_Value result))) }))"

definition rhandleLPop :: "'e redisEnv \<Rightarrow> 'e redisHandler" where
  "rhandleLPop rx = popList rx PrimitiveListPopFront"

definition rhandleRPop :: "'e redisEnv \<Rightarrow> 'e redisHandler" where
  "rhandleRPop rx = popList rx PrimitiveListPopBack"

definition listValues :: "'e redisEnv \<Rightarrow> string \<Rightarrow> ('e, cache_error + PrimitiveResult) redis" where
  "listValues rx = readAll rx ''read redis list values'' PrimitiveListRange entityList"

definition rhandleLRange :: "'e redisEnv \<Rightarrow> 'e redisHandler" where
  "rhandleLRange rx args =
     (if length args \<noteq> 4 then answer syntaxError
      else
        let key = textArg args 1 in
        typed rx key entityList
          (case (ParseInt (textArg args 2), ParseInt (textArg args 3)) of
             (Some start, Some stop) \<Rightarrow> do {
               r \<leftarrow> listValues rx key;
               orFail rx r (\<lambda>result.
                 answer (RespArray (map RespBulkString (sliceRedisRange (ps_Values result) start stop)))) }
           | _ \<Rightarrow> answer integerError))"

definition rhandleLLen :: "'e redisEnv \<Rightarrow> 'e redisHandler" where
  "rhandleLLen rx = lengthOf rx entityList (listValues rx)"

section \<open>Sorted sets\<close>

fun zaddLoop :: "'e redisEnv \<Rightarrow> string \<Rightarrow> respArg list \<Rightarrow> int \<Rightarrow> ('e, respValue) redis" where
  "zaddLoop rx key (raw # member # rest) added =
     (case fl_parse (rx_floats rx) (string_of_bytes raw) of
        None \<Rightarrow> answer (RespError ''ERR value is not a valid float'')
      | Some score \<Rightarrow> do {
          r \<leftarrow> svPrimitive rx entityScoredSet key
                ((memberRequest PrimitiveScoredSetPut (string_of_bytes member))\<lparr>pr_Score := score\<rparr>);
          orFail rx r (\<lambda>result. zaddLoop rx key rest (if ps_Bool result then added + 1 else added)) })"
| "zaddLoop rx key _ added = answer (RespInteger added)"

definition rhandleZAdd :: "'e redisEnv \<Rightarrow> 'e redisHandler" where
  "rhandleZAdd rx args =
     (if length args < 4 \<or> length args mod 2 \<noteq> 0 then answer syntaxError
      else let key = textArg args 1 in typed rx key entityScoredSet (zaddLoop rx key (drop 2 args) 0))"

definition rhandleZRem :: "'e redisEnv \<Rightarrow> 'e redisHandler" where
  "rhandleZRem rx args =
     (if length args < 3 then answer syntaxError
      else
        let key = textArg args 1 in
        typed rx key entityScoredSet
          (countLoop rx entityScoredSet key (memberRequest PrimitiveScoredSetRemove) (drop 2 args) 0))"

definition parseZRangeArgs :: "unicodeOps \<Rightarrow> respArg list \<Rightarrow> respValue + string \<times> int \<times> int \<times> bool" where
  "parseZRangeArgs uc args =
     (if length args \<noteq> 4 \<and> length args \<noteq> 5 then Inl syntaxError
      else
        case (ParseInt (textArg args 2), ParseInt (textArg args 3)) of
          (Some start, Some stop) \<Rightarrow>
            let withScores = (length args = 5 \<and> EqualFold uc (textArg args 4) ''WITHSCORES'') in
            if length args = 5 \<and> \<not> withScores then Inl syntaxError
            else Inr (textArg args 1, start, stop, withScores)
        | _ \<Rightarrow> Inl integerError)"

definition zrangeResponse :: "'e redisEnv \<Rightarrow> PrimitiveResult \<Rightarrow> int \<Rightarrow> int \<Rightarrow> bool \<Rightarrow> respValue" where
  "zrangeResponse rx result start stop withScores =
     RespArray (concat (map
       (\<lambda>m. bulkText (sm_Member m) #
             (if withScores then [bulkText (fl_format (rx_floats rx) (sm_Score m))] else []))
       (sliceRedisRange (ps_ScoredMembers result) start stop)))"

definition scoredValues :: "'e redisEnv \<Rightarrow> string \<Rightarrow> ('e, cache_error + PrimitiveResult) redis" where
  "scoredValues rx = readAll rx ''read redis zset values'' PrimitiveScoredSetRange entityScoredSet"

definition rhandleZRange :: "'e redisEnv \<Rightarrow> 'e redisHandler" where
  "rhandleZRange rx args =
     (case parseZRangeArgs (rx_unicode rx) args of
        Inl resp \<Rightarrow> answer resp
      | Inr (key, start, stop, withScores) \<Rightarrow>
          typed rx key entityScoredSet (do {
            r \<leftarrow> scoredValues rx key;
            orFail rx r (\<lambda>result. answer (zrangeResponse rx result start stop withScores)) }))"

definition rhandleZCard :: "'e redisEnv \<Rightarrow> 'e redisHandler" where
  "rhandleZCard rx = lengthOf rx entityScoredSet (scoredValues rx)"

section \<open>Bitmaps\<close>

definition parseBit :: "respArg \<Rightarrow> int option" where
  "parseBit raw =
     (case ParseInt (string_of_bytes raw) of Some v \<Rightarrow> if v = 0 \<or> v = 1 then Some v else None | None \<Rightarrow> None)"

definition parseNonNegativeInt64 :: "respArg \<Rightarrow> int option" where
  "parseNonNegativeInt64 raw =
     (case ParseInt (string_of_bytes raw) of Some v \<Rightarrow> if v \<ge> 0 then Some v else None | None \<Rightarrow> None)"

definition checkedRedisUint64 :: "int \<Rightarrow> u64" where
  "checkedRedisUint64 v = (if v < 0 then 0 else word_of_int v)"

definition parseBitCountRange :: "respArg \<Rightarrow> respArg \<Rightarrow> (int \<times> u64) option" where
  "parseBitCountRange startRaw endRaw =
     (case (parseNonNegativeInt64 startRaw, parseNonNegativeInt64 endRaw) of
        (Some start, Some stop) \<Rightarrow>
          if stop < start then None
          else Some (int64_wrap (start * 8), checkedRedisUint64 (int64_wrap (stop - start + 1)) * 8)
      | _ \<Rightarrow> None)"

definition rhandleSetBit :: "'e redisEnv \<Rightarrow> 'e redisHandler" where
  "rhandleSetBit rx args =
     (if length args \<noteq> 4 then answer syntaxError
      else
        let key = textArg args 1 in
        typed rx key entityBitmap
          (case (parseNonNegativeInt64 (args ! 2), parseBit (args ! 3)) of
             (Some offset, Some flag) \<Rightarrow> do {
               r \<leftarrow> svPrimitive rx entityBitmap key
                     ((primitiveOf PrimitiveBitmapSetBit)\<lparr>pr_Delta := offset, pr_InitialValue := flag\<rparr>);
               orFail rx r (\<lambda>result. answer (flagInteger (ps_Bool result))) }
           | _ \<Rightarrow> answer integerError))"

definition rhandleGetBit :: "'e redisEnv \<Rightarrow> 'e redisHandler" where
  "rhandleGetBit rx args =
     (if length args \<noteq> 3 then answer syntaxError
      else
        let key = textArg args 1 in
        typed rx key entityBitmap
          (case parseNonNegativeInt64 (args ! 2) of
             None \<Rightarrow> answer integerError
           | Some offset \<Rightarrow> do {
               r \<leftarrow> svPrimitive rx entityBitmap key ((primitiveOf PrimitiveBitmapGetBit)\<lparr>pr_Delta := offset\<rparr>);
               orFail rx r (\<lambda>result. answer (flagInteger (ps_Bool result))) }))"

definition rhandleBitCount :: "'e redisEnv \<Rightarrow> 'e redisHandler" where
  "rhandleBitCount rx args =
     (if length args \<noteq> 2 \<and> length args \<noteq> 4 then answer syntaxError
      else
        let key = textArg args 1; request = primitiveOf PrimitiveBitmapBitCount in
        typed rx key entityBitmap
          (case (if length args = 4 then map_option Some (parseBitCountRange (args ! 2) (args ! 3)) else Some None) of
             None \<Rightarrow> answer integerError
           | Some window \<Rightarrow> do {
               r \<leftarrow> svPrimitive rx entityBitmap key
                     (case window of
                        None \<Rightarrow> request
                      | Some (start, limit) \<Rightarrow> request\<lparr>pr_Start := start, pr_Limit := limit\<rparr>);
               orFail rx r (\<lambda>result. answer (integerCount (ps_Count result))) }))"

section \<open>Distinct counts\<close>

primrec pfaddLoop :: "'e redisEnv \<Rightarrow> string \<Rightarrow> respArg list \<Rightarrow> int \<Rightarrow> ('e, respValue) redis" where
  "pfaddLoop rx key [] changed = answer (RespInteger changed)"
| "pfaddLoop rx key (arg # args) changed = do {
     r \<leftarrow> svPrimitive rx entityHLL key (memberRequest PrimitiveHLLAdd (string_of_bytes arg));
     orFail rx r (\<lambda>result. pfaddLoop rx key args (if ps_Bool result then 1 else changed)) }"

definition rhandlePFAdd :: "'e redisEnv \<Rightarrow> 'e redisHandler" where
  "rhandlePFAdd rx args =
     (if length args < 3 then answer syntaxError
      else let key = textArg args 1 in typed rx key entityHLL (pfaddLoop rx key (drop 2 args) 0))"

definition hllMembers :: "'e redisEnv \<Rightarrow> string \<Rightarrow> ('e, cache_error + PrimitiveResult) redis" where
  "hllMembers rx = readAll rx ''read hll members'' PrimitiveHLLMembers entityHLL"

primrec hllUnion :: "'e redisEnv \<Rightarrow> respArg list \<Rightarrow> string fset \<Rightarrow> ('e, respValue + string fset) redis" where
  "hllUnion rx [] hashes = answer (Inr hashes)"
| "hllUnion rx (arg # args) hashes = do {
     wrong \<leftarrow> wrongTypeFor rx (string_of_bytes arg) entityHLL;
     (case wrong of
        Some resp \<Rightarrow> answer (Inl resp)
      | None \<Rightarrow> do {
          r \<leftarrow> hllMembers rx (string_of_bytes arg);
          (case r of
             Inl err \<Rightarrow> answer (Inl (serviceError rx err))
           | Inr result \<Rightarrow> hllUnion rx args (hashes |\<union>| fset_of_list (ps_Members result))) }) }"

fun encodeHLLHashValues :: "string list \<Rightarrow> bytes" where
  "encodeHLLHashValues [] = []"
| "encodeHLLHashValues [v] = bytes_of_string v"
| "encodeHLLHashValues (v # vs) = bytes_of_string v @ 0 # encodeHLLHashValues vs"

definition rhandlePFCount :: "'e redisEnv \<Rightarrow> 'e redisHandler" where
  "rhandlePFCount rx args =
     (if length args < 2 then answer syntaxError
      else if length args = 2 then lengthOf rx entityHLL (hllMembers rx) args
      else do {
        r \<leftarrow> hllUnion rx (tl args) {||};
        answer (case r of
          Inl resp \<Rightarrow> resp
        | Inr hashes \<Rightarrow> integerCount (checkedRedisUint64 (int (fcard hashes)))) })"

definition rhandlePFMerge :: "'e redisEnv \<Rightarrow> 'e redisHandler" where
  "rhandlePFMerge rx args =
     (if length args < 2 then answer syntaxError
      else
        let dest = textArg args 1 in
        typed rx dest entityHLL (do {
          u \<leftarrow> hllUnion rx (drop 2 args) {||};
          (case u of
             Inl resp \<Rightarrow> answer resp
           | Inr hashes \<Rightarrow> do {
               r \<leftarrow> svPrimitive rx entityHLL dest
                     ((primitiveOf PrimitiveHLLMerge)\<lparr>pr_Value := encodeHLLHashValues (rx_setOrder rx hashes)\<rparr>);
               orFail rx r (\<lambda>_. answer statusOK) }) }))"

section \<open>Positions\<close>

definition parseGeoPoint :: "'e redisEnv \<Rightarrow> respArg \<Rightarrow> respArg \<Rightarrow> respValue + float64 \<times> float64" where
  "parseGeoPoint rx longitudeRaw latitudeRaw =
     (case fl_parse (rx_floats rx) (string_of_bytes longitudeRaw) of
        None \<Rightarrow> Inl (RespError ''ERR longitude is not a valid float'')
      | Some longitude \<Rightarrow>
          (case fl_parse (rx_floats rx) (string_of_bytes latitudeRaw) of
             None \<Rightarrow> Inl (RespError ''ERR latitude is not a valid float'')
           | Some latitude \<Rightarrow> Inr (longitude, latitude)))"

fun geoaddLoop :: "'e redisEnv \<Rightarrow> string \<Rightarrow> respArg list \<Rightarrow> int \<Rightarrow> ('e, respValue) redis" where
  "geoaddLoop rx key (lon # lat # member # rest) added =
     (case parseGeoPoint rx lon lat of
        Inl resp \<Rightarrow> answer resp
      | Inr (longitude, latitude) \<Rightarrow> do {
          r \<leftarrow> svPrimitive rx entityGeo key
                ((memberRequest PrimitiveGeoAdd (string_of_bytes member))\<lparr>pr_Score := longitude, pr_MinScore := latitude\<rparr>);
          orFail rx r (\<lambda>result. geoaddLoop rx key rest (if ps_Bool result then added + 1 else added)) })"
| "geoaddLoop rx key _ added = answer (RespInteger added)"

definition rhandleGeoAdd :: "'e redisEnv \<Rightarrow> 'e redisHandler" where
  "rhandleGeoAdd rx args =
     (if length args < 5 \<or> (length args - 2) mod 3 \<noteq> 0 then answer syntaxError
      else let key = textArg args 1 in typed rx key entityGeo (geoaddLoop rx key (drop 2 args) 0))"

text \<open>The factors 1, 1000, 1609.344 and 0.3048.\<close>

definition geoUnitMultiplier :: "string \<Rightarrow> float64 option" where
  "geoUnitMultiplier unit =
     (if unit = ''m'' then Some 0x3ff0000000000000
      else if unit = ''km'' then Some 0x408f400000000000
      else if unit = ''mi'' then Some 0x409925604189374c
      else if unit = ''ft'' then Some 0x3fd381d7dbf487fd
      else None)"

definition geoUnit :: "unicodeOps \<Rightarrow> respArg list \<Rightarrow> nat \<Rightarrow> string \<times> bool" where
  "geoUnit uc args index =
     (if length args \<le> index then (''m'', True)
      else let unit = ToLower uc (textArg args index) in (unit, geoUnitMultiplier unit \<noteq> None))"

definition formatGeoDistance :: "'e redisEnv \<Rightarrow> float64 \<Rightarrow> string \<Rightarrow> string" where
  "formatGeoDistance rx meters unit =
     (let multiplier =
        (case geoUnitMultiplier unit of
           None \<Rightarrow> 0x3ff0000000000000
         | Some m \<Rightarrow> if f64_eq m 0 then 0x3ff0000000000000 else m)
      in fl_format4 (rx_floats rx) (fl_div (rx_floats rx) meters multiplier))"

definition rhandleGeoDist :: "'e redisEnv \<Rightarrow> 'e redisHandler" where
  "rhandleGeoDist rx args =
     (if length args \<noteq> 4 \<and> length args \<noteq> 5 then answer syntaxError
      else
        let (unit, ok) = geoUnit (rx_unicode rx) args 4 in
        if \<not> ok then answer (RespError ''ERR unsupported unit provided'')
        else
          let key = textArg args 1 in
          typed rx key entityGeo (do {
            r \<leftarrow> svPrimitive rx entityGeo key
                  ((memberRequest PrimitiveGeoDist (textArg args 2))\<lparr>pr_Field := textArg args 3\<rparr>);
            orFail rx r (\<lambda>result. answer
              (case ps_ScoredMembers result of
                 [] \<Rightarrow> RespNullBulkString
               | m # _ \<Rightarrow> bulkText (formatGeoDistance rx (sm_Score m) unit))) }))"

record geoRadiusRequest =
  gq_key :: string
  gq_longitude :: float64
  gq_latitude :: float64
  gq_radiusMeters :: float64
  gq_unit :: string
  gq_limit :: u64

fun applyGeoRadiusOptions ::
  "unicodeOps \<Rightarrow> respArg list \<Rightarrow> geoRadiusRequest \<Rightarrow> bool \<Rightarrow> respValue + geoRadiusRequest \<times> bool" where
  "applyGeoRadiusOptions uc [] request withDist = Inr (request, withDist)"
| "applyGeoRadiusOptions uc (arg # rest) request withDist =
     (let opt = ToUpper uc (string_of_bytes arg) in
      if opt = ''WITHDIST'' then applyGeoRadiusOptions uc rest request True
      else if opt = ''COUNT'' then
        (case rest of
           [] \<Rightarrow> Inl syntaxError
         | raw # rest \<Rightarrow>
             (case parseNonNegativeInt64 raw of
                None \<Rightarrow> Inl integerError
              | Some limit \<Rightarrow>
                  applyGeoRadiusOptions uc rest (request\<lparr>gq_limit := checkedRedisUint64 limit\<rparr>) withDist))
      else Inl syntaxError)"

definition parseGeoRadius :: "'e redisEnv \<Rightarrow> respArg list \<Rightarrow> respValue + geoRadiusRequest \<times> bool" where
  "parseGeoRadius rx args =
     (if length args < 6 then Inl syntaxError
      else
        case parseGeoPoint rx (args ! 2) (args ! 3) of
          Inl resp \<Rightarrow> Inl resp
        | Inr (longitude, latitude) \<Rightarrow>
            (case fl_parse (rx_floats rx) (textArg args 4) of
               None \<Rightarrow> Inl (RespError ''ERR radius is not a valid float'')
             | Some radius \<Rightarrow>
                 if f64_lt radius 0 then Inl (RespError ''ERR radius is not a valid float'')
                 else
                   let unit = ToLower (rx_unicode rx) (textArg args 5) in
                   (case geoUnitMultiplier unit of
                      None \<Rightarrow> Inl (RespError ''ERR unsupported unit provided'')
                    | Some multiplier \<Rightarrow>
                        applyGeoRadiusOptions (rx_unicode rx) (drop 6 args)
                          \<lparr>gq_key = textArg args 1, gq_longitude = longitude, gq_latitude = latitude,
                           gq_radiusMeters = fl_mul (rx_floats rx) radius multiplier, gq_unit = unit, gq_limit = 0\<rparr>
                          False)))"

definition geoRadiusResponse :: "'e redisEnv \<Rightarrow> ScoredMember list \<Rightarrow> string \<Rightarrow> bool \<Rightarrow> respValue" where
  "geoRadiusResponse rx members unit withDist =
     RespArray (map
       (\<lambda>m. if \<not> withDist then bulkText (sm_Member m)
             else RespArray [bulkText (sm_Member m), bulkText (formatGeoDistance rx (sm_Score m) unit)])
       members)"

definition rhandleGeoRadius :: "'e redisEnv \<Rightarrow> 'e redisHandler" where
  "rhandleGeoRadius rx args =
     (case parseGeoRadius rx args of
        Inl resp \<Rightarrow> answer resp
      | Inr (request, withDist) \<Rightarrow>
          typed rx (gq_key request) entityGeo (do {
            r \<leftarrow> svPrimitive rx entityGeo (gq_key request)
                  ((primitiveOf PrimitiveGeoRadius)\<lparr>pr_Score := gq_longitude request, pr_MinScore := gq_latitude request,
                     pr_MaxScore := gq_radiusMeters request, pr_Limit := gq_limit request\<rparr>);
            orFail rx r (\<lambda>result.
              answer (geoRadiusResponse rx (ps_ScoredMembers result) (gq_unit request) withDist)) }))"

end
