(* ===== verification/Redis_Resp_Laws.thy ===== *)
theory Redis_Resp_Laws
  imports Redis_Resp "HOL-Library.Sublist"
begin

text \<open>
  Commands are read back as they were written, every command takes at least one byte, responses can be told
  apart on the wire, and the buffer of the writer keeps every byte in order.
\<close>

section \<open>Lines\<close>

abbreviation crlfBytes :: bytes where "crlfBytes \<equiv> [CR, LF]"

lemma bytes_crlf [simp]: "bytes_of_string crlf = crlfBytes"
  by (simp add: crlf_def bytes_of_string_def byte_of_char_def)

lemma readBytes_line: "d \<notin> set bs \<Longrightarrow> readBytes d (bs @ d # rest) = Inr (bs @ [d], rest)"
  by (induction bs) auto

lemma readLineSuffix_line:
  assumes "LF \<notin> set bs"
  shows "readLineSuffix (bs @ CR # LF # rest) = Inr (bs, rest)"
  using readBytes_line [of LF "bs @ [CR]" rest] assms by (simp add: readLineSuffix_def nth_append)

lemma readBytes_consumes: "readBytes d input = Inr (line, rest) \<Longrightarrow> input = line @ rest \<and> line \<noteq> []"
  by (induction d input arbitrary: line rule: readBytes.induct) (auto split: if_splits sum.splits)

lemma readLineSuffix_consumes:
  assumes "readLineSuffix input = Inr (line, rest)"
  shows "length line + length rest < length input"
proof -
  obtain raw where r: "readBytes LF input = Inr (raw, rest)" "line = take (length raw - 2) raw"
    using assms by (auto simp: readLineSuffix_def split: sum.splits if_splits)
  with readBytes_consumes [OF r(1)] show ?thesis by (cases raw) auto
qed

lemma char_LF: "byte_of_char c = LF \<Longrightarrow> of_char c = (10 :: nat)"
  using char_of_byte_of_char [of c] by (auto simp: char_of_byte_def)

lemma FormatInt_chars: "c \<in> set (FormatInt i) \<Longrightarrow> c = CHR ''-'' \<or> 48 \<le> (of_char c :: nat)"
  using nat_digits_digits by (fastforce simp: FormatInt_def list_all_iff is_digit_def split: if_splits)

lemma LF_digits [simp]: "LF \<notin> set (bytes_of_string (FormatInt i))"
  using char_LF FormatInt_chars by (fastforce simp: bytes_of_string_def)

lemma FormatInt_inject [simp]: "FormatInt i = FormatInt j \<longleftrightarrow> i = j"
proof
  assume eq: "FormatInt i = FormatInt j"
  have d: "nat_digits m = nat_digits n \<Longrightarrow> m = n" for m n
    using digits_val_nat_digits by metis
  have sign: "nat_digits n \<noteq> CHR ''-'' # cs" for n cs
    using nat_digits_digits [of n] digit_not_sign by fastforce
  show "i = j" using eq sign sign [symmetric] by (auto simp: FormatInt_def dest!: d split: if_splits)
qed simp

section \<open>Commands\<close>

lemma readRESPInt_line:
  "int64 i \<Longrightarrow> readRESPInt (bytes_of_string (FormatInt i) @ CR # LF # rest) = Inr (i, rest)"
  by (simp add: readRESPInt_def readLineSuffix_line ParseInt_FormatInt)

lemma readRESPInt_consumes: "readRESPInt input = Inr (i, rest) \<Longrightarrow> length rest < length input"
  by (auto simp: readRESPInt_def dest: readLineSuffix_consumes split: sum.splits option.splits)

lemma readRESPArg_bulk:
  assumes "int (length a) + 2 \<le> al_bytes alloc" and "int (length a) + 2 \<le> MaxInt64"
  shows "readRESPArg alloc (concat (map pieceBytes (encodeRESPBulk a)) @ rest) = Inr (a, rest)"
proof -
  have i: "int64 (int (length a))" using assms(2) by (simp add: int64_def MinInt64_def)
  have w: "int64_wrap (int (length a) + 2) = int (length a) + 2"
    using assms(2) by (intro int64_wrap_small) (simp add: int64_def MinInt64_def)
  have n: "nat (int (length a) + 2) = length a + 2" by simp
  show ?thesis using assms(1)
    by (simp add: readRESPArg_def encodeRESPBulk_def writeRESPTextLine_def writeRESPRawString_def readRESPBulkArg_def
        readRESPInt_line [OF i] Let_def w n nth_append)
qed

lemma readRESPArg_consumes: "readRESPArg alloc input = Inr (a, rest) \<Longrightarrow> length rest < length input"
  by (cases input) (auto simp: readRESPArg_def readRESPBulkArg_def Let_def
      dest!: readRESPInt_consumes readLineSuffix_consumes split: if_splits sum.splits)

lemma readArgs_bulk:
  assumes "list_all (\<lambda>a. int (length a) + 2 \<le> al_bytes alloc \<and> int (length a) + 2 \<le> MaxInt64) args"
  shows "readArgs alloc (length args) (concat (map pieceBytes (concat (map encodeRESPBulk args))) @ rest) = Inr (args, rest)"
  using assms by (induction args) (simp_all add: readRESPArg_bulk)

lemma readArgs_consumes: "readArgs alloc n input = Inr (args, rest) \<Longrightarrow> length rest \<le> length input"
  by (induction alloc n input arbitrary: args rule: readArgs.induct)
    (fastforce dest!: readRESPArg_consumes split: sum.splits)+

text \<open>A client sends a command as an array of bulk strings.\<close>

definition commandFits :: "allocLimits \<Rightarrow> respArg list \<Rightarrow> bool" where
  "commandFits alloc args \<longleftrightarrow> args \<noteq> [] \<and> int (length args) \<le> al_args alloc \<and> int (length args) \<le> MaxInt64 \<and>
     list_all (\<lambda>a. int (length a) + 2 \<le> al_bytes alloc \<and> int (length a) + 2 \<le> MaxInt64) args"

lemma readRESPCommand_array:
  assumes "commandFits alloc args"
  shows "readRESPCommand alloc (respBytes (RespArray (map RespBulkString args)) @ rest) = Inr (args, rest)"
proof -
  have n: "int64 (int (length args))" "0 < length args" using assms by (auto simp: commandFits_def int64_def MinInt64_def)
  have a: "list_all (\<lambda>a. int (length a) + 2 \<le> al_bytes alloc \<and> int (length a) + 2 \<le> MaxInt64) args"
    "int (length args) \<le> al_args alloc" using assms by (simp_all add: commandFits_def)
  have m: "map encodeRESP (map RespBulkString args) = map encodeRESPBulk args" by simp
  show ?thesis using n a
    by (simp add: readRESPCommand_def respBytes_def writeRESPTextLine_def writeRESPRawString_def readRESPArrayCommand_def
        readRESPInt_line readArgs_bulk m del: map_map)
qed

lemma readRESPCommand_consumes:
  assumes "readRESPCommand alloc input = Inr (args, rest)"
  shows "length rest < length input"
proof (cases input)
  case (Cons b bs)
  have "length rest < length bs" if "readRESPArrayCommand alloc bs = Inr (args, rest)"
    using that
    by (auto simp: readRESPArrayCommand_def dest!: readRESPInt_consumes readArgs_consumes split: sum.splits if_splits)
  with assms Cons show ?thesis
    by (auto simp: readRESPCommand_def dest!: readLineSuffix_consumes split: if_splits sum.splits)
qed (use assms in \<open>simp add: readRESPCommand_def\<close>)

section \<open>Where arguments come from\<close>

text \<open>Every argument of a command stands in the bytes it was read from, and what is left is their end.\<close>

lemma readBytes_suffix: "readBytes d input = Inr (line, rest) \<Longrightarrow> sublist line input \<and> suffix rest input"
  using readBytes_consumes [of d input line rest] by (auto simp: sublist_appendI suffix_def)

lemma readLineSuffix_suffix:
  assumes "readLineSuffix input = Inr (line, rest)"
  shows "sublist line input \<and> suffix rest input"
proof -
  obtain raw where "readBytes LF input = Inr (raw, rest)" "line = take (length raw - 2) raw"
    using assms by (auto simp: readLineSuffix_def split: sum.splits if_splits)
  then show ?thesis
    using readBytes_suffix [of LF input raw rest] sublist_take [of "length raw - 2" raw] sublist_order.order.trans by blast
qed

lemma readRESPInt_suffix: "readRESPInt input = Inr (i, rest) \<Longrightarrow> suffix rest input"
  by (auto simp: readRESPInt_def dest: readLineSuffix_suffix split: sum.splits option.splits)

lemma readRESPArg_suffix:
  assumes "readRESPArg alloc input = Inr (a, rest)"
  shows "sublist a input \<and> suffix rest input"
proof (cases input)
  case (Cons b bs)
  have "sublist a bs \<and> suffix rest bs" if bulk: "readRESPBulkArg alloc bs = Inr (a, rest)"
  proof -
    obtain n mid where n: "readRESPInt bs = Inr (n, mid)" using bulk by (auto simp: readRESPBulkArg_def split: sum.splits)
    have "sublist a mid \<and> suffix rest mid"
      using bulk n by (auto simp: readRESPBulkArg_def Let_def suffix_drop sublist_take split: if_splits)
    with readRESPInt_suffix [OF n] show ?thesis
      by (meson sublist_order.order.trans suffix_imp_sublist suffix_order.trans)
  qed
  then have "sublist a bs \<and> suffix rest bs"
    using assms Cons by (auto simp: readRESPArg_def dest: readLineSuffix_suffix split: if_splits)
  with Cons show ?thesis by (simp add: sublist_Cons_right suffix_ConsI)
qed (use assms in \<open>simp add: readRESPArg_def\<close>)

lemma readArgs_suffix:
  "readArgs alloc n input = Inr (args, rest) \<Longrightarrow> list_all (\<lambda>a. sublist a input) args \<and> suffix rest input"
proof (induction alloc n input arbitrary: args rule: readArgs.induct)
  case (2 alloc n input)
  obtain a mid args' where a: "readRESPArg alloc input = Inr (a, mid)" "readArgs alloc n mid = Inr (args', rest)" "args = a # args'"
    using "2.prems" by (auto split: sum.splits)
  note h = readRESPArg_suffix [OF a(1)]
  have "list_all (\<lambda>a. sublist a mid) args' \<and> suffix rest mid" using "2.IH" [OF a(1) _ a(2)] by simp
  moreover have "sublist x input" if "sublist x mid" for x
    using that h by (meson sublist_order.order.trans suffix_imp_sublist)
  ultimately show ?case using h a(3) by (auto simp: list_all_iff intro: suffix_order.trans)
qed simp

lemma drop_prefix_suffix: "drop_prefix ps s = Some t \<Longrightarrow> suffix t s"
  by (auto simp: drop_prefix_def suffix_drop split: list.splits)

lemma fieldsFrom_sublist: "f \<in> set (fieldsFrom acc s) \<Longrightarrow> sublist f (acc @ s)"
proof (induction acc s rule: fieldsFrom.induct)
  case (1 acc s)
  show ?case
  proof (cases "drop_prefix space_encodings s")
    case None
    then show ?thesis using 1 by (auto simp: fieldsFrom.simps [of acc s] split: list.splits if_splits)
  next
    case (Some t)
    have "f = acc \<or> f \<in> set (fieldsFrom [] t)"
      using "1.prems" Some by (auto simp: fieldsFrom.simps [of acc s] split: if_splits)
    moreover have "sublist f (acc @ s)" if "f \<in> set (fieldsFrom [] t)"
    proof -
      have "sublist f t" using that "1.IH"(2,3) [OF Some] by (cases "acc = []") simp_all
      moreover have "suffix t (acc @ s)" using drop_prefix_suffix [OF Some] by (rule suffix_appendI)
      ultimately show ?thesis by (meson sublist_order.order.trans suffix_imp_sublist)
    qed
    ultimately show ?thesis by auto
  qed
qed

lemma inlineCommand_sublist: "a \<in> set (inlineCommand line) \<Longrightarrow> sublist a line"
proof -
  assume "a \<in> set (inlineCommand line)"
  then obtain f where f: "a = bytes_of_string f" "sublist f (string_of_bytes line)"
    using fieldsFrom_sublist by (fastforce simp: inlineCommand_def)
  then obtain ps ss where "string_of_bytes line = ps @ f @ ss" by (auto simp: sublist_def)
  then have "line = bytes_of_string ps @ a @ bytes_of_string ss"
    using f(1) by (metis bytes_of_string_of_bytes bytes_of_string_def map_append)
  then show "sublist a line" by (auto simp: sublist_def)
qed

lemma readRESPCommand_suffix:
  assumes "readRESPCommand alloc input = Inr (args, rest)"
  shows "list_all (\<lambda>a. sublist a input) args \<and> suffix rest input"
proof (cases input)
  case (Cons b bs)
  have array: "list_all (\<lambda>a. sublist a bs) args \<and> suffix rest bs" if array: "readRESPArrayCommand alloc bs = Inr (args, rest)"
  proof -
    obtain n mid where n: "readRESPInt bs = Inr (n, mid)" "readArgs alloc (nat n) mid = Inr (args, rest)"
      using array by (auto simp: readRESPArrayCommand_def split: sum.splits if_splits)
    show ?thesis using readArgs_suffix [OF n(2)] readRESPInt_suffix [OF n(1)]
      by (auto simp: list_all_iff intro: suffix_order.trans)
        (meson sublist_order.order.trans suffix_imp_sublist)
  qed
  have inline: "list_all (\<lambda>a. sublist a input) args \<and> suffix rest bs"
    if line: "readLineSuffix bs = Inr (line, rest)" "args = inlineCommand (b # line)" for line
  proof -
    obtain raw where "readBytes LF bs = Inr (raw, rest)" "line = take (length raw - 2) raw"
      using line(1) by (auto simp: readLineSuffix_def split: sum.splits if_splits)
    then have "prefix (b # line) input"
      using readBytes_consumes [of LF bs raw rest] Cons by (auto simp: take_is_prefix prefix_order.trans)
    then have "sublist (b # line) input" by (rule prefix_imp_sublist)
    then show ?thesis using inlineCommand_sublist readLineSuffix_suffix [OF line(1)] line(2)
      by (auto simp: list_all_iff intro: sublist_order.order.trans)
  qed
  show ?thesis using assms array inline Cons
    by (auto simp: readRESPCommand_def list_all_iff sublist_Cons_right suffix_ConsI split: if_splits sum.splits)
qed (use assms in \<open>simp add: readRESPCommand_def\<close>)

section \<open>Responses\<close>

text \<open>Texts that stay on their line.\<close>

fun cleanResp :: "respValue \<Rightarrow> bool" where
  "cleanResp (RespSimpleString text) = (CHR 0x0A \<notin> set text)"
| "cleanResp (RespError text) = (CHR 0x0A \<notin> set text)"
| "cleanResp (RespArray items) = list_all cleanResp items"
| "cleanResp (RespMap kvs) = list_all (\<lambda>(key, val). cleanResp key \<and> cleanResp val) kvs"
| "cleanResp _ = True"

lemma line_inject:
  assumes "LF \<notin> set x" and "LF \<notin> set y" and "x @ CR # LF # s = y @ CR # LF # t"
  shows "x = y \<and> s = t"
proof -
  have "readBytes LF ((x @ [CR]) @ LF # s) = Inr ((x @ [CR]) @ [LF], s)" "readBytes LF ((y @ [CR]) @ LF # t) = Inr ((y @ [CR]) @ [LF], t)"
    using assms(1,2) by (intro readBytes_line; simp)+
  with assms(3) show ?thesis by simp
qed

lemma line_injectD:
  "x @ CR # LF # s = y @ CR # LF # t \<Longrightarrow> LF \<notin> set x \<Longrightarrow> LF \<notin> set y \<Longrightarrow> x = y \<and> s = t"
  by (rule line_inject)

lemma number_line [simp]:
  "bytes_of_string (FormatInt i) @ CR # LF # s = bytes_of_string (FormatInt j) @ CR # LF # t \<longleftrightarrow> i = j \<and> s = t"
  using line_inject [OF LF_digits LF_digits] by fastforce

lemma LF_text: "CHR 0x0A \<notin> set text \<Longrightarrow> LF \<notin> set (bytes_of_string text)"
proof -
  have "c = CHR 0x0A" if "byte_of_char c = LF" for c
    using that char_of_byte_of_char [of c] by (auto simp: char_of_byte_def char_of_def bit_simps bit_0)
  then show "CHR 0x0A \<notin> set text \<Longrightarrow> ?thesis" by (auto simp: bytes_of_string_def)
qed

lemma respBytes_simps [simp]:
  "respBytes (RespSimpleString text) = byte_of_char CHR ''+'' # bytes_of_string text @ crlfBytes"
  "respBytes (RespError text) = byte_of_char CHR ''-'' # bytes_of_string text @ crlfBytes"
  "respBytes (RespInteger number) = byte_of_char CHR '':'' # bytes_of_string (FormatInt number) @ crlfBytes"
  "respBytes (RespBulkString val) =
     byte_of_char CHR ''$'' # bytes_of_string (FormatInt (int (length val))) @ CR # LF # val @ crlfBytes"
  "respBytes RespNullBulkString = byte_of_char CHR ''$'' # bytes_of_string (FormatInt (- 1)) @ crlfBytes"
  "respBytes (RespArray items) =
     byte_of_char CHR ''*'' # bytes_of_string (FormatInt (int (length items))) @ CR # LF # concat (map respBytes items)"
  "respBytes (RespMap kvs) =
     byte_of_char CHR ''%'' # bytes_of_string (FormatInt (int (length kvs))) @ CR # LF #
     concat (map (\<lambda>(key, val). respBytes key @ respBytes val) kvs)"
proof -
  have flat: "concat (map pieceBytes (concat (map f xs))) = concat (map (concat \<circ> map pieceBytes \<circ> f) xs)" for f :: "'a \<Rightarrow> piece list" and xs
    by (induction xs) simp_all
  have rb: "respBytes = (\<lambda>v. concat (map pieceBytes (encodeRESP v)))" by (simp add: fun_eq_iff respBytes_def)
  have m1: "FormatInt (- 1) = ''-1''" by code_simp
  show "respBytes RespNullBulkString = byte_of_char CHR ''$'' # bytes_of_string (FormatInt (- 1)) @ crlfBytes"
    by (simp add: respBytes_def writeRESPRawString_def m1 bytes_of_string_def crlf_def byte_of_char_def)
  show "respBytes (RespArray items) =
     byte_of_char CHR ''*'' # bytes_of_string (FormatInt (int (length items))) @ CR # LF # concat (map respBytes items)"
    by (simp add: rb writeRESPTextLine_def writeRESPRawString_def flat comp_def)
  show "respBytes (RespMap kvs) =
     byte_of_char CHR ''%'' # bytes_of_string (FormatInt (int (length kvs))) @ CR # LF #
     concat (map (\<lambda>(key, val). respBytes key @ respBytes val) kvs)"
    by (simp add: rb writeRESPTextLine_def writeRESPRawString_def flat comp_def case_prod_beta')
qed (simp_all add: respBytes_def writeRESPTextLine_def writeRESPRawString_def encodeRESPBulk_def)

lemma byte_of_char_inject [simp]: "byte_of_char c = byte_of_char d \<longleftrightarrow> c = d"
  by (metis char_of_byte_of_char)

lemma concat_inject:
  assumes "length xs = length ys" and "concat (map f xs) @ s = concat (map f ys) @ t"
    and "\<And>x y s t. x \<in> set xs \<Longrightarrow> y \<in> set ys \<Longrightarrow> f x @ s = f y @ t \<Longrightarrow> x = y \<and> s = t"
  shows "xs = ys \<and> s = t"
  using assms
proof (induction xs ys rule: list_induct2)
  case (Cons x xs y ys)
  have "x = y \<and> concat (map f xs) @ s = concat (map f ys) @ t"
    using Cons.prems(1) by (intro Cons.prems(2); simp)
  moreover have "xs = ys \<and> s = t"
    using calculation Cons.prems(2) by (intro Cons.IH) auto
  ultimately show ?case by simp
qed simp

text \<open>Two clean responses that begin the same bytes are the same response.\<close>

lemma respBytes_inject:
  assumes "cleanResp v" and "cleanResp w" and "respBytes v @ s = respBytes w @ t"
  shows "v = w \<and> s = t"
  using assms
proof (induction v arbitrary: w s t rule: respValue.induct)
  case (RespSimpleString line)
  then show ?case by (cases w) (auto dest!: LF_text line_injectD)
next
  case (RespError line)
  then show ?case by (cases w) (auto dest!: LF_text line_injectD)
next
  case (RespInteger number)
  then show ?case by (cases w) auto
next
  case (RespBulkString val)
  then show ?case by (cases w) auto
next
  case RespNullBulkString
  then show ?case by (cases w) auto
next
  case (RespArray items)
  then obtain items' where w: "w = RespArray items'" by (cases w) auto
  with RespArray.prems(3) have "length items = length items'" "concat (map respBytes items) @ s = concat (map respBytes items') @ t"
    by auto
  then have "items = items' \<and> s = t"
    using RespArray.IH RespArray.prems(1,2) w by (intro concat_inject [where f = respBytes]) (auto simp: list_all_iff)
  with w show ?case by simp
next
  case (RespMap kvs)
  then obtain kvs' where w: "w = RespMap kvs'" by (cases w) auto
  let ?f = "\<lambda>(key, val). respBytes key @ respBytes val"
  have "length kvs = length kvs'" "concat (map ?f kvs) @ s = concat (map ?f kvs') @ t"
    using RespMap.prems(3) w by auto
  then have "kvs = kvs' \<and> s = t"
  proof (rule concat_inject)
    fix x y s t
    assume x: "x \<in> set kvs" and y: "y \<in> set kvs'" and eq: "?f x @ s = ?f y @ t"
    have c: "cleanResp (fst x)" "cleanResp (snd x)" "cleanResp (fst y)" "cleanResp (snd y)"
      using x y RespMap.prems(1,2) w by (auto simp: list_all_iff split_beta)
    have k: "fst x = fst y \<and> respBytes (snd x) @ s = respBytes (snd y) @ t"
      by (rule RespMap.IH [of x "fst x"]) (use x c eq in \<open>auto simp: split_beta Basic_BNFs.fsts.simps\<close>)
    have "snd x = snd y \<and> s = t"
      by (rule RespMap.IH [of x "snd x"]) (use x c k in \<open>auto simp: Basic_BNFs.snds.simps\<close>)
    with k show "x = y \<and> s = t" by (simp add: prod_eq_iff)
  qed
  with w show ?case by simp
qed

section \<open>The buffered writer\<close>

abbreviation bufAll :: "bufWriter \<Rightarrow> bytes" where
  "bufAll w \<equiv> bw_sent w @ bw_buffer w"

lemma bufString_all: "bufAll (bufString bs w) = bufAll w @ bs"
proof (induction bs w rule: bufString.induct)
  case (1 bs w)
  show ?case
  proof (cases "length bs \<le> bufferSize - length (bw_buffer w)")
    case False
    with 1 show ?thesis by (simp add: bufString.simps [of bs w] Let_def bufFlush_def)
  qed (simp add: bufString.simps [of bs w] Let_def)
qed

lemma bufPiece_all: "bufAll (bufPiece p w) = bufAll w @ pieceBytes p"
proof (cases p)
  case (PieceSlice bs)
  then show ?thesis by (auto simp: bufSlice_def bufFlush_def Let_def split: prod.splits if_splits)
qed (simp_all add: bufString_all bufByte_def bufFlush_def Let_def)

lemma fold_bufPiece_all: "bufAll (fold bufPiece ps w) = bufAll w @ concat (map pieceBytes ps)"
  by (induction ps arbitrary: w) (simp_all add: bufPiece_all)

text \<open>A piece that fits stays in the buffer.\<close>

lemma fold_bufPiece_fits:
  assumes "length (bw_buffer w) + length (concat (map pieceBytes ps)) \<le> bufferSize"
  shows "fold bufPiece ps w = w\<lparr>bw_buffer := bw_buffer w @ concat (map pieceBytes ps)\<rparr>"
  using assms
proof (induction ps arbitrary: w)
  case (Cons p ps)
  then have "bufPiece p w = w\<lparr>bw_buffer := bw_buffer w @ pieceBytes p\<rparr>"
    by (cases p) (simp_all add: bufByte_def bufString.simps [of _ w] bufSlice_def Let_def)
  with Cons show ?case by simp
qed simp

end
