(* ===== verification/Redis_Server.thy ===== *)
theory Redis_Server
  imports Redis_Commands Redis_Resp_Laws
begin

text \<open>
  The rest of the Redis front end (\<open>transport/redis/command.go\<close>, \<open>transaction.go\<close>, \<open>script.go\<close>,
  \<open>script_lua.go\<close>, \<open>script_response.go\<close>, \<open>server.go\<close>): the commands on the session, scripts, transactions, the
  dispatch of a command, and serving a connection from the bytes it receives to the bytes it sends.
  \<open>EXEC\<close> and \<open>EVAL\<close> call the dispatcher again; \<open>handleCommandD\<close> counts how deep that may still go, and the
  laws show that three levels are enough.
\<close>

section \<open>The session\<close>

definition authAs :: "string \<Rightarrow> session \<Rightarrow> session" where
  "authAs user state = state\<lparr>rs_authenticated := True, rs_namespace := user\<rparr>"

definition rhandleAuth :: "'e redisEnv \<Rightarrow> 'e redisHandler" where
  "rhandleAuth rx args =
     (if length args \<noteq> 3 then answer (RespError ''ERR AUTH requires username and password'')
      else
        let user = textArg args 1; password = textArg args 2 in
        if \<not> validUsername (rx_unicode rx) user \<or> \<not> authenticate (rx_credentials rx) user password then answer wrongPass
        else do { _ \<leftarrow> updateSession (authAs user); answer statusOK })"

definition applyHelloAuth :: "'e redisEnv \<Rightarrow> respArg list \<Rightarrow> ('e, respValue + respArg list) redis" where
  "applyHelloAuth rx rest =
     (case rest of
        user # password # rest \<Rightarrow>
          if \<not> validUsername (rx_unicode rx) (string_of_bytes user) \<or>
             \<not> authenticate (rx_credentials rx) (string_of_bytes user) (string_of_bytes password)
          then answer (Inl wrongPass)
          else do { _ \<leftarrow> updateSession (authAs (string_of_bytes user)); answer (Inr rest) }
      | _ \<Rightarrow> answer (Inl syntaxError))"

text \<open>What is left of the arguments after an option.\<close>

definition applyHelloOption :: "'e redisEnv \<Rightarrow> respArg \<Rightarrow> respArg list \<Rightarrow> ('e, respValue + respArg list) redis" where
  "applyHelloOption rx arg rest =
     (let opt = ToUpper (rx_unicode rx) (string_of_bytes arg) in
      if opt = ''AUTH'' then applyHelloAuth rx rest
      else if opt = ''SETNAME'' then answer (case rest of [] \<Rightarrow> Inl syntaxError | _ # rest \<Rightarrow> Inr rest)
      else answer (Inl syntaxError))"

text \<open>Every option takes at least its own argument, so there are at most as many as arguments.\<close>

fun applyHelloOptions :: "'e redisEnv \<Rightarrow> nat \<Rightarrow> respArg list \<Rightarrow> ('e, respValue option) redis" where
  "applyHelloOptions rx fuel [] = answer None"
| "applyHelloOptions rx 0 (arg # rest) = answer None"
| "applyHelloOptions rx (Suc fuel) (arg # rest) = do {
     r \<leftarrow> applyHelloOption rx arg rest;
     (case r of Inl resp \<Rightarrow> answer (Some resp) | Inr rest \<Rightarrow> applyHelloOptions rx fuel rest) }"

definition rhandleHello :: "'e redisEnv \<Rightarrow> 'e redisHandler" where
  "rhandleHello rx args =
     (if length args < 2 then answer syntaxError
      else
        case ParseInt (textArg args 1) of
          None \<Rightarrow> answer (RespError ''NOPROTO unsupported protocol version'')
        | Some version \<Rightarrow>
            if version < 2 \<or> version > 3 then answer (RespError ''NOPROTO unsupported protocol version'')
            else do {
              failed \<leftarrow> applyHelloOptions rx (length args) (drop 2 args);
              (case failed of
                 Some resp \<Rightarrow> answer resp
               | None \<Rightarrow> do {
                   state \<leftarrow> readSession;
                   if \<not> rs_authenticated state then answer noAuth
                   else do {
                     _ \<leftarrow> updateSession (rs_protocol_update (\<lambda>_. version));
                     answer (if version = 3 then helloMap else helloArray) } }) })"

definition rhandlePing :: "'e redisHandler" where
  "rhandlePing args =
     answer (if length args = 1 then RespSimpleString ''PONG''
             else if length args = 2 then RespBulkString (args ! 1)
             else syntaxError)"

definition rhandleQuit :: "'e redisHandler" where
  "rhandleQuit args = do { _ \<leftarrow> updateSession (rs_close_update (\<lambda>_. True)); answer statusOK }"

definition rhandleSelect :: "'e redisHandler" where
  "rhandleSelect args =
     (if length args \<noteq> 2 then answer syntaxError
      else
        case ParseInt (textArg args 1) of
          None \<Rightarrow> answer (RespError ''ERR invalid DB index'')
        | Some db \<Rightarrow>
            if db < 0 then answer (RespError ''ERR invalid DB index'')
            else do { _ \<leftarrow> updateSession (rs_db_update (\<lambda>_. db)); answer statusOK })"

definition rhandleClient :: "'e redisEnv \<Rightarrow> 'e redisHandler" where
  "rhandleClient rx args =
     (if length args < 2 then answer syntaxError
      else
        let sub = ToUpper (rx_unicode rx) (textArg args 1) in
        answer (if sub = ''SETINFO'' \<or> sub = ''SETNAME'' then statusOK
                else if sub = ''GETNAME'' then RespNullBulkString
                else if sub = ''ID'' then RespInteger 0
                else statusOK))"

section \<open>Transactions\<close>

definition openTransaction :: "bool \<Rightarrow> session \<Rightarrow> session" where
  "openTransaction b state = state\<lparr>rs_inTransaction := b, rs_queued := []\<rparr>"

definition rhandleMulti :: "'e redisHandler" where
  "rhandleMulti args =
     (if length args \<noteq> 1 then answer syntaxError
      else do {
        state \<leftarrow> readSession;
        if rs_inTransaction state then answer (RespError ''ERR MULTI calls can not be nested'')
        else do { _ \<leftarrow> updateSession (openTransaction True); answer statusOK } })"

definition rhandleDiscard :: "'e redisHandler" where
  "rhandleDiscard args =
     (if length args \<noteq> 1 then answer syntaxError
      else do {
        state \<leftarrow> readSession;
        if \<not> rs_inTransaction state then answer (RespError ''ERR DISCARD without MULTI'')
        else do { _ \<leftarrow> updateSession (openTransaction False); answer statusOK } })"

text \<open>
  \<open>Transaction\<close> of the service: once it has the lock, what other connections did before is done, and the
  session uses the service of the transaction until the function returns.
\<close>

definition enterTransaction :: "'e redisEnv \<Rightarrow> ('e, unit) redis" where
  "enterTransaction rx = State (\<lambda>c. ((),
     c\<lparr>cn_engine := activeService rx c, cn_session := (cn_session c)\<lparr>rs_tx := True\<rparr>\<rparr>))"

definition leaveTransaction :: "('e, unit) redis" where
  "leaveTransaction = updateSession (rs_tx_update (\<lambda>_. False))"

definition atomically :: "'e redisEnv \<Rightarrow> ('e, 'a) redis \<Rightarrow> ('e, 'a) redis" where
  "atomically rx body = do {
     _ \<leftarrow> enterTransaction rx;
     r \<leftarrow> body;
     _ \<leftarrow> leaveTransaction;
     answer r }"

definition rhandleExec :: "'e redisEnv \<Rightarrow> 'e redisHandler \<Rightarrow> 'e redisHandler" where
  "rhandleExec rx dispatch args =
     (if length args \<noteq> 1 then answer syntaxError
      else do {
        state \<leftarrow> readSession;
        if \<not> rs_inTransaction state then answer (RespError ''ERR EXEC without MULTI'')
        else do {
          _ \<leftarrow> updateSession (openTransaction False);
          if rs_tx state then answer (serviceError rx ErrNestedTransactionUnsupported)
          else do {
            responses \<leftarrow> atomically rx (State_Monad.traverse_list dispatch (rs_queued state));
            answer (RespArray responses) } } })"

section \<open>Scripts\<close>

definition defaultScriptMaxCalls :: nat where "defaultScriptMaxCalls = 1000"

definition scriptCommandAllowed :: "string \<Rightarrow> bool" where
  "scriptCommandAllowed command \<longleftrightarrow>
     command \<notin> set [''AUTH'', ''HELLO'', ''QUIT'', ''SELECT'', ''CLIENT'', ''COMMAND'',
       ''MULTI'', ''EXEC'', ''DISCARD'', ''EVAL'', ''EVALSHA'', ''SCRIPT'']"

definition luaStatusTable :: "string \<Rightarrow> luaValue" where
  "luaStatusTable message = LuaTable (LuaString message) LuaNil []"

definition luaErrorTable :: "string \<Rightarrow> luaValue" where
  "luaErrorTable message = LuaTable LuaNil (LuaString message) []"

fun respToLuaValue :: "floatOps \<Rightarrow> respValue \<Rightarrow> luaValue" where
  "respToLuaValue fl (RespSimpleString t) = luaStatusTable t"
| "respToLuaValue fl (RespError t) = luaErrorTable t"
| "respToLuaValue fl (RespInteger n) = LuaNumber (fl_ofInt fl n)"
| "respToLuaValue fl (RespBulkString bs) = LuaString (string_of_bytes bs)"
| "respToLuaValue fl RespNullBulkString = LuaBool False"
| "respToLuaValue fl (RespArray items) = LuaTable LuaNil LuaNil (map (respToLuaValue fl) items)"
| "respToLuaValue fl (RespMap kvs) = LuaNil"

definition luaValueToArg :: "floatOps \<Rightarrow> luaValue \<Rightarrow> string + respArg" where
  "luaValueToArg fl v =
     (case v of
        LuaString t \<Rightarrow> Inr (bytes_of_string t)
      | LuaNumber x \<Rightarrow> Inr (bytes_of_string (fl_format fl x))
      | LuaBool b \<Rightarrow> Inr (bytes_of_string (if b then ''1'' else ''0''))
      | _ \<Rightarrow> Inl ''ERR Lua redis command arguments must be strings or integers'')"

fun luaArgs :: "floatOps \<Rightarrow> luaValue list \<Rightarrow> string + respArg list" where
  "luaArgs fl [] = Inr []"
| "luaArgs fl (v # vs) =
     (case luaValueToArg fl v of
        Inl err \<Rightarrow> Inl err
      | Inr arg \<Rightarrow> (case luaArgs fl vs of Inl err \<Rightarrow> Inl err | Inr args \<Rightarrow> Inr (arg # args)))"

text \<open>The result, and how many calls the script has made.\<close>

definition callRedis ::
  "'e redisEnv \<Rightarrow> 'e redisHandler \<Rightarrow> nat \<Rightarrow> luaValue list \<Rightarrow> ('e, nat \<times> (string + respValue)) redis" where
  "callRedis rx dispatch callCount vs = do {
     n \<leftarrow> callNumber;
     (case rx_contextErr rx n of
        Some err \<Rightarrow> answer (callCount, Inl (''check Lua script context: '' @ err))
      | None \<Rightarrow>
          let callCount = Suc callCount in
          if callCount > defaultScriptMaxCalls then answer (callCount, Inl ''ERR Lua redis.call limit exceeded'')
          else
            case luaArgs (rx_floats rx) vs of
              Inl err \<Rightarrow> answer (callCount, Inl err)
            | Inr [] \<Rightarrow> answer (callCount, Inl ''ERR redis.call requires a command'')
            | Inr (arg # args) \<Rightarrow>
                if \<not> scriptCommandAllowed (ToUpper (rx_unicode rx) (string_of_bytes arg))
                then answer (callCount, Inl ''ERR command is not allowed from Lua script'')
                else do { resp \<leftarrow> dispatch (arg # args); answer (callCount, Inr resp) }) }"

text \<open>\<open>redis.call\<close> raises an error in the script; \<open>redis.pcall\<close> hands it a table.\<close>

definition luaAnswerOf :: "floatOps \<Rightarrow> bool \<Rightarrow> string + respValue \<Rightarrow> luaAnswer" where
  "luaAnswerOf fl protected r =
     (case r of
        Inl err \<Rightarrow> if protected then LuaPush (luaErrorTable err) else LuaRaise err
      | Inr (RespError err) \<Rightarrow> if protected then LuaPush (luaErrorTable err) else LuaRaise err
      | Inr resp \<Rightarrow> LuaPush (respToLuaValue fl resp))"

definition isNilValue :: "luaValue \<Rightarrow> bool" where
  "isNilValue v = (case v of LuaNil \<Rightarrow> True | _ \<Rightarrow> False)"

definition luaTableArrayToRESP :: "(luaValue \<Rightarrow> respValue option) \<Rightarrow> luaValue list \<Rightarrow> respValue option" where
  "luaTableArrayToRESP convert items = map_option RespArray (those (map convert items))"

definition luaTableToRESP ::
  "'e redisEnv \<Rightarrow> (luaValue \<Rightarrow> respValue option) \<Rightarrow> luaValue \<Rightarrow> luaValue \<Rightarrow> luaValue list \<Rightarrow> respValue option" where
  "luaTableToRESP rx convert status err items =
     (if \<not> isNilValue status then Some (RespSimpleString (rx_luaText rx status))
      else if \<not> isNilValue err then Some (RespError (rx_luaText rx err))
      else luaTableArrayToRESP convert items)"

text \<open>The conversion of a value, as deep as the stack of the goroutine allows.\<close>

fun luaValueToRESP :: "'e redisEnv \<Rightarrow> nat \<Rightarrow> luaValue \<Rightarrow> respValue option" where
  "luaValueToRESP rx 0 v = None"
| "luaValueToRESP rx (Suc stack) v =
     (case v of
        LuaNil \<Rightarrow> Some RespNullBulkString
      | LuaBool b \<Rightarrow> Some (if b then RespInteger 1 else RespNullBulkString)
      | LuaNumber x \<Rightarrow> Some (RespInteger (fl_toInt (rx_floats rx) x))
      | LuaString t \<Rightarrow> Some (bulkText t)
      | LuaTable status err items \<Rightarrow> luaTableToRESP rx (luaValueToRESP rx stack) status err items
      | LuaOther \<Rightarrow> Some RespNullBulkString)"

primrec runLuaScript :: "'e redisEnv \<Rightarrow> 'e redisHandler \<Rightarrow> luaRun \<Rightarrow> nat \<Rightarrow> ('e, respValue) redis" where
  "runLuaScript rx dispatch (LuaCompileError err) callCount = answer (RespError (''ERR Error compiling script: '' @ err))"
| "runLuaScript rx dispatch (LuaReturn v) callCount =
     (case luaValueToRESP rx (rx_stack rx) v of Some resp \<Rightarrow> answer resp | None \<Rightarrow> crash)"
| "runLuaScript rx dispatch (LuaFail deadline err) callCount =
     answer (RespError (if deadline then ''BUSY Redis Lua script timed out'' else ''ERR Error running script: '' @ err))"
| "runLuaScript rx dispatch (LuaCall protected vs go_on) callCount = do {
     (callCount, r) \<leftarrow> callRedis rx dispatch callCount vs;
     runLuaScript rx dispatch (go_on (luaAnswerOf (rx_floats rx) protected r)) callCount }"

definition runScriptAtomically :: "'e redisEnv \<Rightarrow> ('e, respValue) redis \<Rightarrow> ('e, respValue) redis" where
  "runScriptAtomically rx body = do {
     state \<leftarrow> readSession;
     if rs_tx state then body else atomically rx body }"

definition parseScriptKeyCount :: "respArg list \<Rightarrow> respValue + nat \<times> respArg list" where
  "parseScriptKeyCount args =
     (case args of
        [] \<Rightarrow> Inl syntaxError
      | arg # rest \<Rightarrow>
          (case ParseInt (string_of_bytes arg) of
             None \<Rightarrow> Inl (RespError ''ERR Number of keys can't be greater than number of args'')
           | Some numKeys \<Rightarrow>
               if numKeys < 0 \<or> int (length rest) < numKeys
               then Inl (RespError ''ERR Number of keys can't be greater than number of args'')
               else Inr (nat numKeys, rest)))"

text \<open>
  A script that answers an error returns an error from its transaction, and the answer is that of the script;
  the service's transaction itself does not fail.
\<close>

definition evalScript :: "'e redisEnv \<Rightarrow> 'e redisHandler \<Rightarrow> string \<Rightarrow> respArg list \<Rightarrow> ('e, respValue) redis" where
  "evalScript rx dispatch script keySpec =
     (case parseScriptKeyCount keySpec of
        Inl resp \<Rightarrow> answer resp
      | Inr (numKeys, rest) \<Rightarrow> do {
          _ \<leftarrow> storeScript rx (scriptSHA rx script) script;
          runScriptAtomically rx (do {
            n \<leftarrow> callNumber;
            runLuaScript rx dispatch (rx_lua rx n script (take numKeys rest) (drop numKeys rest)) 0 }) })"

definition rhandleEval :: "'e redisEnv \<Rightarrow> 'e redisHandler \<Rightarrow> 'e redisHandler" where
  "rhandleEval rx dispatch args =
     (if length args < 3 then answer syntaxError
      else evalScript rx dispatch (textArg args 1) (drop 2 args))"

definition rhandleEvalSHA :: "'e redisEnv \<Rightarrow> 'e redisHandler \<Rightarrow> 'e redisHandler" where
  "rhandleEvalSHA rx dispatch args =
     (if length args < 3 then answer syntaxError
      else do {
        script \<leftarrow> scriptForSHA rx (textArg args 1);
        (case script of
           None \<Rightarrow> answer (RespError ''NOSCRIPT No matching script. Please use EVAL.'')
         | Some script \<Rightarrow> evalScript rx dispatch script (drop 2 args)) })"

definition rhandleScriptLoad :: "'e redisEnv \<Rightarrow> 'e redisHandler" where
  "rhandleScriptLoad rx args =
     (if length args \<noteq> 3 then answer syntaxError
      else
        let sha = scriptSHA rx (textArg args 2) in
        do { _ \<leftarrow> storeScript rx sha (textArg args 2); answer (bulkText sha) })"

definition scriptExistsResponse :: "'e redisEnv \<Rightarrow> string \<Rightarrow> ('e, respValue) redis" where
  "scriptExistsResponse rx sha = do {
     script \<leftarrow> scriptForSHA rx sha;
     answer (case script of Some _ \<Rightarrow> RespInteger 1 | None \<Rightarrow> RespInteger 0) }"

definition rhandleScriptExists :: "'e redisEnv \<Rightarrow> 'e redisHandler" where
  "rhandleScriptExists rx args =
     (if length args < 3 then answer syntaxError
      else do {
        items \<leftarrow> State_Monad.traverse_list (\<lambda>arg. scriptExistsResponse rx (string_of_bytes arg)) (drop 2 args);
        answer (RespArray items) })"

definition rhandleScriptFlush :: "'e redisEnv \<Rightarrow> 'e redisHandler" where
  "rhandleScriptFlush rx args =
     (if length args \<noteq> 2 then answer syntaxError
      else do { _ \<leftarrow> flushScripts rx; answer statusOK })"

definition rhandleScript :: "'e redisEnv \<Rightarrow> 'e redisHandler" where
  "rhandleScript rx args =
     (if length args < 2 then answer syntaxError
      else
        let sub = ToUpper (rx_unicode rx) (textArg args 1) in
        if sub = ''LOAD'' then rhandleScriptLoad rx args
        else if sub = ''EXISTS'' then rhandleScriptExists rx args
        else if sub = ''FLUSH'' then rhandleScriptFlush rx args
        else answer syntaxError)"

section \<open>Dispatch\<close>

definition dataHandlers :: "'e redisEnv \<Rightarrow> (string \<times> 'e redisHandler) list" where
  "dataHandlers rx = [
     (''GET'', rhandleGet rx), (''SET'', rhandleSet rx), (''DEL'', rhandleDel rx), (''EXISTS'', rhandleExists rx),
     (''EXPIRE'', rhandleExpire rx), (''TTL'', rhandleTTL rx),
     (''INCR'', rhandleIncrement rx 1), (''DECR'', rhandleIncrement rx (- 1)),
     (''INCRBY'', rhandleIncrementBy rx), (''DECRBY'', rhandleDecrementBy rx),
     (''MGET'', rhandleMGet rx), (''MSET'', rhandleMSet rx), (''TYPE'', rhandleType rx),
     (''HSET'', rhandleHSet rx), (''HGET'', rhandleHGet rx), (''HDEL'', rhandleHDel rx),
     (''HGETALL'', rhandleHGetAll rx), (''HEXISTS'', rhandleHExists rx), (''HLEN'', rhandleHLen rx),
     (''SADD'', rhandleSAdd rx), (''SREM'', rhandleSRem rx), (''SISMEMBER'', rhandleSIsMember rx),
     (''SMEMBERS'', rhandleSMembers rx), (''SCARD'', rhandleSCard rx),
     (''LPUSH'', rhandleLPush rx), (''RPUSH'', rhandleRPush rx), (''LPOP'', rhandleLPop rx), (''RPOP'', rhandleRPop rx),
     (''LRANGE'', rhandleLRange rx), (''LLEN'', rhandleLLen rx),
     (''ZADD'', rhandleZAdd rx), (''ZREM'', rhandleZRem rx), (''ZRANGE'', rhandleZRange rx), (''ZCARD'', rhandleZCard rx),
     (''SETBIT'', rhandleSetBit rx), (''GETBIT'', rhandleGetBit rx), (''BITCOUNT'', rhandleBitCount rx),
     (''PFADD'', rhandlePFAdd rx), (''PFCOUNT'', rhandlePFCount rx), (''PFMERGE'', rhandlePFMerge rx),
     (''GEOADD'', rhandleGeoAdd rx), (''GEODIST'', rhandleGeoDist rx), (''GEORADIUS'', rhandleGeoRadius rx)]"

definition sessionHandlers :: "'e redisEnv \<Rightarrow> 'e redisHandler \<Rightarrow> (string \<times> 'e redisHandler) list" where
  "sessionHandlers rx dispatch = [
     (''AUTH'', rhandleAuth rx), (''HELLO'', rhandleHello rx), (''PING'', rhandlePing), (''QUIT'', rhandleQuit),
     (''SELECT'', rhandleSelect), (''CLIENT'', rhandleClient rx), (''COMMAND'', \<lambda>args. answer (RespArray [])),
     (''MULTI'', rhandleMulti), (''EXEC'', rhandleExec rx dispatch), (''DISCARD'', rhandleDiscard),
     (''EVAL'', rhandleEval rx dispatch), (''EVALSHA'', rhandleEvalSHA rx dispatch), (''SCRIPT'', rhandleScript rx)]"

definition rcommandHandlers :: "'e redisEnv \<Rightarrow> 'e redisHandler \<Rightarrow> string \<rightharpoonup> 'e redisHandler" where
  "rcommandHandlers rx dispatch = map_of (sessionHandlers rx dispatch @ dataHandlers rx)"

definition commandAllowedBeforeAuth :: "string \<Rightarrow> bool" where
  "commandAllowedBeforeAuth command \<longleftrightarrow> command \<in> set [''AUTH'', ''HELLO'', ''PING'', ''QUIT'']"

definition unknownCommand :: "'e redisEnv \<Rightarrow> string \<Rightarrow> respValue" where
  "unknownCommand rx command = RespError (''ERR unknown command '' @ [CHR 0x27] @ ToLower (rx_unicode rx) command @ [CHR 0x27])"

definition enqueue :: "respArg list \<Rightarrow> session \<Rightarrow> session" where
  "enqueue args state = state\<lparr>rs_queued := rs_queued state @ [args]\<rparr>"

definition handleQueuedCommand :: "'e redisEnv \<Rightarrow> 'e redisHandler \<Rightarrow> string \<Rightarrow> 'e redisHandler" where
  "handleQueuedCommand rx dispatch command args =
     (if command = ''EXEC'' then rhandleExec rx dispatch args
      else if command = ''DISCARD'' then rhandleDiscard args
      else if command = ''MULTI'' then answer (RespError ''ERR MULTI calls can not be nested'')
      else if rcommandHandlers rx dispatch command = None then answer (unknownCommand rx command)
      else do { _ \<leftarrow> updateSession (enqueue args); answer (RespSimpleString ''QUEUED'') })"

definition dispatchWith :: "'e redisEnv \<Rightarrow> 'e redisHandler \<Rightarrow> 'e redisHandler" where
  "dispatchWith rx dispatch args =
     (case args of
        [] \<Rightarrow> crash
      | arg # _ \<Rightarrow>
          let command = ToUpper (rx_unicode rx) (string_of_bytes arg) in
          do {
            state \<leftarrow> readSession;
            if \<not> rs_authenticated state \<and> \<not> commandAllowedBeforeAuth command then answer noAuth
            else if rs_inTransaction state then handleQueuedCommand rx dispatch command args
            else
              case rcommandHandlers rx dispatch command of
                None \<Rightarrow> answer (unknownCommand rx command)
              | Some handler \<Rightarrow> handler args })"

text \<open>Nothing is dispatched any more once the process has crashed.\<close>

definition unlessCrashed :: "('e, respValue) redis \<Rightarrow> ('e, respValue) redis" where
  "unlessCrashed body = State (\<lambda>c. if cn_crashed c then (RespNullBulkString, c) else run_state body c)"

fun handleCommandD :: "'e redisEnv \<Rightarrow> nat \<Rightarrow> 'e redisHandler" where
  "handleCommandD rx 0 args = crash"
| "handleCommandD rx (Suc depth) args = unlessCrashed (dispatchWith rx (handleCommandD rx depth) args)"

definition handleCommand :: "'e redisEnv \<Rightarrow> 'e redisHandler" where
  "handleCommand rx = handleCommandD rx 3"

definition responseForCommand :: "'e redisEnv \<Rightarrow> 'e redisHandler" where
  "responseForCommand rx args = (if args = [] then answer (RespError ''ERR empty command'') else handleCommand rx args)"

section \<open>Serving a connection\<close>

text \<open>
  The bytes a connection receives, and whether the reader holds the rest of them already (\<open>buffered\<close>) when a
  command has been handled, are arguments.
\<close>

definition writeCommandResponse ::
  "'e redisEnv \<Rightarrow> (bytes \<Rightarrow> bool) \<Rightarrow> bytes \<Rightarrow> respArg list \<Rightarrow> bufWriter \<Rightarrow> 'e conn \<Rightarrow> bool \<times> bufWriter \<times> 'e conn" where
  "writeCommandResponse rx buffered rest args w c =
     (let (resp, c) = run_state (responseForCommand rx args) c in
      if cn_crashed c then (True, w, c)
      else
        let w = fold bufPiece (encodeRESP resp) w; close = rs_close (cn_session c) in
        if (rest \<noteq> [] \<and> buffered rest) \<and> \<not> close then (False, w, c)
        else (close, bufFlush w, c))"

function runSession ::
  "'e redisEnv \<Rightarrow> allocLimits \<Rightarrow> (bytes \<Rightarrow> bool) \<Rightarrow> bytes \<Rightarrow> bufWriter \<Rightarrow> 'e conn \<Rightarrow> bufWriter \<times> 'e conn" where
  "runSession rx alloc buffered input w c =
     (case readRESPCommand alloc input of
        Inl RespPanic \<Rightarrow> (w, c\<lparr>cn_crashed := True\<rparr>)
      | Inl _ \<Rightarrow> (w, c)
      | Inr (args, rest) \<Rightarrow>
          (case writeCommandResponse rx buffered rest args w c of
             (True, w, c) \<Rightarrow> (w, c)
           | (False, w, c) \<Rightarrow> runSession rx alloc buffered rest w c))"
  by pat_completeness auto

termination
  by (relation "measure (\<lambda>(rx, alloc, buffered, input, w, c). length input)") (auto dest: readRESPCommand_consumes)

declare runSession.simps [simp del]

text \<open>What a connection sends, and what it leaves behind.\<close>

definition serveRedisConn ::
  "'e redisEnv \<Rightarrow> allocLimits \<Rightarrow> (bytes \<Rightarrow> bool) \<Rightarrow> bytes \<Rightarrow> 'e conn \<Rightarrow> bytes \<times> 'e conn" where
  "serveRedisConn rx alloc buffered input c =
     (let (w, c) = runSession rx alloc buffered input \<lparr>bw_sent = [], bw_buffer = []\<rparr> (c\<lparr>cn_session := newSession\<rparr>)
      in (bw_sent w, c))"

end
