(* ===== verification/Redis_Laws.thy ===== *)
theory Redis_Laws
  imports Redis_Server Cache_Quota
begin

text \<open>
  Two front ends side by side. \<open>related R m m'\<close>: started in connections that \<open>R\<close> relates, two programs answer
  the same and end in related connections. The locale \<open>service_pair\<close> has what the commands on data rely on, the
  calls of the service; \<open>front_pair\<close> adds what the session and the scripts rely on. With one front end twice and
  \<open>R\<close> an invariant, this shows that every command keeps the invariant; with two, that they cannot be told apart.
\<close>

section \<open>Related programs\<close>

definition related :: "('s \<Rightarrow> 't \<Rightarrow> bool) \<Rightarrow> ('s, 'a) state \<Rightarrow> ('t, 'a) state \<Rightarrow> bool" where
  "related R m m' \<longleftrightarrow> (\<forall>s s'. R s s' \<longrightarrow>
     fst (run_state m s) = fst (run_state m' s') \<and> R (snd (run_state m s)) (snd (run_state m' s')))"

named_theorems rel

lemma relatedD:
  assumes "related R m m'" and "R s s'"
  shows "fst (run_state m s) = fst (run_state m' s')" and "R (snd (run_state m s)) (snd (run_state m' s'))"
  using assms by (simp_all add: related_def)

lemma related_answer [rel]: "related R (answer x) (answer x)"
  by (simp add: related_def)

lemma related_bind [rel]:
  assumes "related R m m'" and "\<And>x. related R (f x) (f' x)"
  shows "related R (State_Monad.bind m f) (State_Monad.bind m' f')"
  using assms by (simp add: related_def split_beta)

lemma related_if [rel]:
  assumes "b \<Longrightarrow> related R m m'" and "\<not> b \<Longrightarrow> related R n n'"
  shows "related R (if b then m else n) (if b then m' else n')"
  using assms by simp

lemma related_option [rel]:
  assumes "x = None \<Longrightarrow> related R m m'" and "\<And>v. x = Some v \<Longrightarrow> related R (f v) (f' v)"
  shows "related R (case x of None \<Rightarrow> m | Some v \<Rightarrow> f v) (case x of None \<Rightarrow> m' | Some v \<Rightarrow> f' v)"
  using assms by (cases x) simp_all

lemma related_sum [rel]:
  assumes "\<And>v. x = Inl v \<Longrightarrow> related R (f v) (f' v)" and "\<And>v. x = Inr v \<Longrightarrow> related R (g v) (g' v)"
  shows "related R (case x of Inl v \<Rightarrow> f v | Inr v \<Rightarrow> g v) (case x of Inl v \<Rightarrow> f' v | Inr v \<Rightarrow> g' v)"
  using assms by (cases x) simp_all

lemma related_prod [rel]:
  assumes "\<And>a b. x = (a, b) \<Longrightarrow> related R (f a b) (f' a b)"
  shows "related R (case x of (a, b) \<Rightarrow> f a b) (case x of (a, b) \<Rightarrow> f' a b)"
  using assms by (cases x) simp_all

lemma related_list [rel]:
  assumes "x = [] \<Longrightarrow> related R m m'" and "\<And>y ys. x = y # ys \<Longrightarrow> related R (f y ys) (f' y ys)"
  shows "related R (case x of [] \<Rightarrow> m | y # ys \<Rightarrow> f y ys) (case x of [] \<Rightarrow> m' | y # ys \<Rightarrow> f' y ys)"
  using assms by (cases x) simp_all

lemma related_traverse:
  assumes "\<And>x. x \<in> set xs \<Longrightarrow> related R (f x) (f' x)"
  shows "related R (State_Monad.traverse_list f xs) (State_Monad.traverse_list f' xs)"
  using assms by (induction xs) (auto intro!: rel)

text \<open>How to show that a program keeps an invariant.\<close>

abbreviation both :: "('s \<Rightarrow> bool) \<Rightarrow> 's \<Rightarrow> 's \<Rightarrow> bool" where
  "both P \<equiv> \<lambda>s s'. s' = s \<and> P s"

lemma related_both: "related (both P) m m \<longleftrightarrow> (\<forall>s. P s \<longrightarrow> P (snd (run_state m s)))"
  by (auto simp: related_def)

section \<open>Commands on data\<close>

locale service_pair =
  fixes rx rx' :: "'e redisEnv" and R :: "'e conn \<Rightarrow> 'e conn \<Rightarrow> bool"
  assumes get_rel: "related R (svGet rx entity key) (svGet rx' entity key)"
    and set_rel: "related R (svSet rx entity key val ttl expected) (svSet rx' entity key val ttl expected)"
    and delete_rel: "related R (svDelete rx entity key) (svDelete rx' entity key)"
    and touch_rel: "related R (svTouch rx entity key ttl) (svTouch rx' entity key ttl)"
    and adjust_rel: "related R (svAdjust rx entity key delta) (svAdjust rx' entity key delta)"
    and primitive_rel: "related R (svPrimitive rx entity key request) (svPrimitive rx' entity key request)"
    and number_rel: "related R callNumber callNumber"
    and same_text: "rx_unicode rx' = rx_unicode rx" "rx_errorText rx' = rx_errorText rx"
    and same_floats: "rx_floats rx' = rx_floats rx"
    and same_order: "rx_setOrder rx' = rx_setOrder rx"
    and same_now: "rx_now rx' = rx_now rx"
begin

lemma serviceError_same: "serviceError rx' err = serviceError rx err"
  by (simp add: serviceError_def same_text)

lemmas same = same_text same_floats same_order same_now serviceError_same

lemmas calls_rel = get_rel set_rel delete_rel touch_rel adjust_rel primitive_rel number_rel

lemma typeAmong_rel: "related R (typeAmong rx key typs) (typeAmong rx' key typs)"
  by (induction typs) (auto intro!: rel calls_rel)

lemma deleteAmong_rel: "related R (deleteAmong rx key typs b) (deleteAmong rx' key typs b)"
  by (induction typs arbitrary: b) (auto intro!: rel calls_rel)

lemma deleteNonString_rel: "related R (deleteNonString rx key typs) (deleteNonString rx' key typs)"
  by (induction typs) (auto intro!: rel calls_rel)

lemma key_rel:
  "related R (typeOf rx key) (typeOf rx' key)"
  "related R (existsAny rx key) (existsAny rx' key)"
  "related R (deleteAny rx key) (deleteAny rx' key)"
  "related R (deleteNonStringTypes rx key) (deleteNonStringTypes rx' key)"
  "related R (wrongTypeFor rx key entity) (wrongTypeFor rx' key entity)"
  by (auto simp: typeOf_def existsAny_def deleteAny_def deleteNonStringTypes_def wrongTypeFor_def
      intro!: rel typeAmong_rel deleteAmong_rel deleteNonString_rel)

lemma typed_rel:
  assumes "related R m m'"
  shows "related R (typed rx key entity m) (typed rx' key entity m')"
  unfolding typed_def by (intro rel key_rel assms)

lemma orFail_rel:
  assumes "\<And>v. r = Inr v \<Longrightarrow> related R (f v) (f' v)"
  shows "related R (orFail rx r f) (orFail rx' r f')"
  unfolding orFail_def same using assms by (intro rel)

lemmas body_rel = rel calls_rel key_rel typed_rel orFail_rel

lemma readAll_rel: "related R (readAll rx what kind entity key) (readAll rx' what kind entity key)"
  unfolding readAll_def by (intro body_rel)

lemma collection_rel:
  "related R (rmapFields rx key) (rmapFields rx' key)"
  "related R (setMembers rx key) (setMembers rx' key)"
  "related R (listValues rx key) (listValues rx' key)"
  "related R (scoredValues rx key) (scoredValues rx' key)"
  "related R (hllMembers rx key) (hllMembers rx' key)"
  "related R (hashFieldExists rx key field) (hashFieldExists rx' key field)"
  "related R (mapSet rx key field val) (mapSet rx' key field val)"
  "related R (readClock rx) (readClock rx')"
  unfolding rmapFields_def setMembers_def listValues_def scoredValues_def hllMembers_def hashFieldExists_def
    mapSet_def readClock_def same
  by (intro body_rel readAll_rel)+

lemma ttlResponse_rel: "related R (ttlResponse rx r) (ttlResponse rx' r)"
  unfolding ttlResponse_def Let_def same by (intro body_rel collection_rel)

lemma increment_rel: "related R (increment rx key delta) (increment rx' key delta)"
  unfolding increment_def same by (intro body_rel)

lemma mgetItem_rel: "related R (mgetItem rx key) (mgetItem rx' key)"
  unfolding mgetItem_def by (intro body_rel)

lemma delLoop_rel: "related R (delLoop rx args n) (delLoop rx' args n)"
  by (induction args arbitrary: n) (auto intro!: body_rel)

lemma existsLoop_rel: "related R (existsLoop rx args n) (existsLoop rx' args n)"
  by (induction args arbitrary: n) (auto intro!: body_rel)

lemma msetLoop_rel: "related R (msetLoop rx args) (msetLoop rx' args)"
  by (induction r\<equiv>rx args rule: msetLoop.induct) (auto intro!: body_rel)

lemma hsetLoop_rel: "related R (hsetLoop rx key args n) (hsetLoop rx' key args n)"
  by (induction r\<equiv>rx key args n rule: hsetLoop.induct) (auto intro!: body_rel collection_rel)

lemma countLoop_rel: "related R (countLoop rx entity key request args n) (countLoop rx' entity key request args n)"
  by (induction args arbitrary: n) (auto intro!: body_rel)

lemma pushLoop_rel: "related R (pushLoop rx key kind args result) (pushLoop rx' key kind args result)"
  by (induction args arbitrary: result) (auto intro!: body_rel)

lemma zaddLoop_rel: "related R (zaddLoop rx key args n) (zaddLoop rx' key args n)"
  by (induction r\<equiv>rx key args n rule: zaddLoop.induct) (auto simp: same intro!: body_rel)

lemma pfaddLoop_rel: "related R (pfaddLoop rx key args n) (pfaddLoop rx' key args n)"
  by (induction args arbitrary: n) (auto intro!: body_rel)

lemma hllUnion_rel: "related R (hllUnion rx args hashes) (hllUnion rx' args hashes)"
  by (induction args arbitrary: hashes) (auto simp: same intro!: body_rel collection_rel)

lemma parseGeoPoint_same: "parseGeoPoint rx' lon lat = parseGeoPoint rx lon lat"
  unfolding parseGeoPoint_def same ..

lemma geoaddLoop_rel: "related R (geoaddLoop rx key args n) (geoaddLoop rx' key args n)"
  by (induction r\<equiv>rx key args n rule: geoaddLoop.induct) (auto simp: parseGeoPoint_same intro!: body_rel)

lemma pure_same:
  "parseGeoRadius rx' args = parseGeoRadius rx args"
  "zrangeResponse rx' result start stop ws = zrangeResponse rx result start stop ws"
  "formatGeoDistance rx' meters unit = formatGeoDistance rx meters unit"
  "geoRadiusResponse rx' members unit wd = geoRadiusResponse rx members unit wd"
  unfolding parseGeoRadius_def parseGeoPoint_same zrangeResponse_def formatGeoDistance_def geoRadiusResponse_def same
  by (rule refl)+

lemmas loops_rel = delLoop_rel existsLoop_rel msetLoop_rel hsetLoop_rel countLoop_rel pushLoop_rel zaddLoop_rel
  pfaddLoop_rel hllUnion_rel geoaddLoop_rel ttlResponse_rel increment_rel mgetItem_rel collection_rel related_traverse

lemma lengthOf_rel:
  assumes "\<And>key. related R (f key) (f' key)"
  shows "related R (lengthOf rx entity f args) (lengthOf rx' entity f' args)"
  unfolding lengthOf_def Let_def by (intro body_rel assms)

lemma string_rel:
  "related R (rhandleGet rx args) (rhandleGet rx' args)"
  "related R (rhandleSet rx args) (rhandleSet rx' args)"
  "related R (rhandleDel rx args) (rhandleDel rx' args)"
  "related R (rhandleExists rx args) (rhandleExists rx' args)"
  "related R (rhandleExpire rx args) (rhandleExpire rx' args)"
  "related R (rhandleTTL rx args) (rhandleTTL rx' args)"
  "related R (rhandleIncrement rx delta args) (rhandleIncrement rx' delta args)"
  "related R (rhandleIncrementBy rx args) (rhandleIncrementBy rx' args)"
  "related R (rhandleDecrementBy rx args) (rhandleDecrementBy rx' args)"
  "related R (rhandleMGet rx args) (rhandleMGet rx' args)"
  "related R (rhandleMSet rx args) (rhandleMSet rx' args)"
  "related R (rhandleType rx args) (rhandleType rx' args)"
  unfolding rhandleGet_def rhandleSet_def rhandleDel_def rhandleExists_def rhandleExpire_def rhandleTTL_def
    rhandleIncrement_def rhandleIncrementBy_def rhandleDecrementBy_def rhandleMGet_def rhandleMSet_def
    rhandleType_def Let_def same
  by (intro body_rel loops_rel)+

lemma collection_handlers_rel:
  "related R (rhandleHSet rx args) (rhandleHSet rx' args)"
  "related R (rhandleHGet rx args) (rhandleHGet rx' args)"
  "related R (rhandleHDel rx args) (rhandleHDel rx' args)"
  "related R (rhandleHGetAll rx args) (rhandleHGetAll rx' args)"
  "related R (rhandleHExists rx args) (rhandleHExists rx' args)"
  "related R (rhandleHLen rx args) (rhandleHLen rx' args)"
  "related R (rhandleSAdd rx args) (rhandleSAdd rx' args)"
  "related R (rhandleSRem rx args) (rhandleSRem rx' args)"
  "related R (rhandleSIsMember rx args) (rhandleSIsMember rx' args)"
  "related R (rhandleSMembers rx args) (rhandleSMembers rx' args)"
  "related R (rhandleSCard rx args) (rhandleSCard rx' args)"
  unfolding rhandleHSet_def rhandleHGet_def rhandleHDel_def rhandleHGetAll_def rhandleHExists_def rhandleHLen_def
    rhandleSAdd_def rhandleSRem_def rhandleSIsMember_def rhandleSMembers_def rhandleSCard_def Let_def
  by (intro lengthOf_rel body_rel loops_rel)+

lemma list_handlers_rel:
  "related R (rhandleLPush rx args) (rhandleLPush rx' args)"
  "related R (rhandleRPush rx args) (rhandleRPush rx' args)"
  "related R (rhandleLPop rx args) (rhandleLPop rx' args)"
  "related R (rhandleRPop rx args) (rhandleRPop rx' args)"
  "related R (rhandleLRange rx args) (rhandleLRange rx' args)"
  "related R (rhandleLLen rx args) (rhandleLLen rx' args)"
  "related R (rhandleZAdd rx args) (rhandleZAdd rx' args)"
  "related R (rhandleZRem rx args) (rhandleZRem rx' args)"
  "related R (rhandleZRange rx args) (rhandleZRange rx' args)"
  "related R (rhandleZCard rx args) (rhandleZCard rx' args)"
  unfolding rhandleLPush_def rhandleRPush_def pushList_def rhandleLPop_def rhandleRPop_def popList_def
    rhandleLRange_def rhandleLLen_def rhandleZAdd_def rhandleZRem_def rhandleZRange_def rhandleZCard_def Let_def
    same pure_same
  by (intro lengthOf_rel body_rel loops_rel)+

lemma other_handlers_rel:
  "related R (rhandleSetBit rx args) (rhandleSetBit rx' args)"
  "related R (rhandleGetBit rx args) (rhandleGetBit rx' args)"
  "related R (rhandleBitCount rx args) (rhandleBitCount rx' args)"
  "related R (rhandlePFAdd rx args) (rhandlePFAdd rx' args)"
  "related R (rhandlePFCount rx args) (rhandlePFCount rx' args)"
  "related R (rhandlePFMerge rx args) (rhandlePFMerge rx' args)"
  "related R (rhandleGeoAdd rx args) (rhandleGeoAdd rx' args)"
  "related R (rhandleGeoDist rx args) (rhandleGeoDist rx' args)"
  "related R (rhandleGeoRadius rx args) (rhandleGeoRadius rx' args)"
  unfolding rhandleSetBit_def rhandleGetBit_def rhandleBitCount_def rhandlePFAdd_def rhandlePFCount_def
    rhandlePFMerge_def rhandleGeoAdd_def rhandleGeoDist_def rhandleGeoRadius_def Let_def same pure_same
  by (intro lengthOf_rel body_rel loops_rel)+

lemmas data_rel = string_rel collection_handlers_rel list_handlers_rel other_handlers_rel

end

section \<open>The session and the scripts\<close>

abbreviation commandName :: "'e redisEnv \<Rightarrow> respArg list \<Rightarrow> string" where
  "commandName rx args \<equiv> ToUpper (rx_unicode rx) (string_of_bytes (hd args))"

text \<open>Two sessions that differ at most in whether they are in a transaction of the service.\<close>

definition agreeing :: "session \<Rightarrow> session \<Rightarrow> bool" where
  "agreeing s s' \<longleftrightarrow> s'\<lparr>rs_tx := rs_tx s\<rparr> = s"

lemma agreeing_fields:
  assumes "agreeing s s'"
  shows "rs_authenticated s' = rs_authenticated s" and "rs_inTransaction s' = rs_inTransaction s"
    and "rs_queued s' = rs_queued s"
  using assms unfolding agreeing_def by (cases s; cases s'; simp)+

text \<open>\<open>ok\<close> are the commands that may be dispatched, \<open>A\<close> the arguments of a login.\<close>

locale front_pair = service_pair rx rx' R
  for rx rx' :: "'e redisEnv" and R :: "'e conn \<Rightarrow> 'e conn \<Rightarrow> bool" +
  fixes ok :: "respArg list \<Rightarrow> bool" and A :: "respArg set"
  assumes session_agree: "R c c' \<Longrightarrow> agreeing (cn_session c) (cn_session c')"
    and crashed_agree: "R c c' \<Longrightarrow> cn_crashed c' = cn_crashed c"
    and crash_rel: "related R crash crash"
    and protocol_rel: "related R (updateSession (rs_protocol_update (\<lambda>_. v))) (updateSession (rs_protocol_update (\<lambda>_. v)))"
    and close_rel: "related R (updateSession (rs_close_update (\<lambda>_. True))) (updateSession (rs_close_update (\<lambda>_. True)))"
    and select_rel: "related R (updateSession (rs_db_update (\<lambda>_. v))) (updateSession (rs_db_update (\<lambda>_. v)))"
    and discard_rel: "related R (updateSession (openTransaction False)) (updateSession (openTransaction False))"
    and multi_rel: "ok args \<Longrightarrow> commandName rx args = ''MULTI'' \<Longrightarrow>
      related R (updateSession (openTransaction True)) (updateSession (openTransaction True))"
    and enqueue_rel: "ok args \<Longrightarrow> commandName rx args \<notin> {''EXEC'', ''DISCARD'', ''MULTI''} \<Longrightarrow>
      related R (updateSession (enqueue args)) (updateSession (enqueue args))"
    and login_rel: "user \<in> A \<Longrightarrow> password \<in> A \<Longrightarrow>
      authenticate (rx_credentials rx) (string_of_bytes user) (string_of_bytes password) \<Longrightarrow>
      related R (updateSession (authAs (string_of_bytes user))) (updateSession (authAs (string_of_bytes user)))"
    and ok_login: "ok args \<Longrightarrow> commandName rx args \<in> {''AUTH'', ''HELLO''} \<Longrightarrow> set args \<subseteq> A"
    and ok_script: "scriptCommandAllowed (commandName rx args) \<Longrightarrow> ok args"
    and store_rel: "related R (storeScript rx sha script) (storeScript rx' sha script)"
    and lookup_rel: "related R (scriptForSHA rx sha) (scriptForSHA rx' sha)"
    and flush_rel: "related R (flushScripts rx) (flushScripts rx')"
    and atomic_rel: "related R b b' \<Longrightarrow> related R (runScriptAtomically rx b) (runScriptAtomically rx' b')"
    and same_credentials: "rx_credentials rx' = rx_credentials rx"
    and same_lua: "rx_lua rx' = rx_lua rx" "rx_luaText rx' = rx_luaText rx" "rx_stack rx' = rx_stack rx"
      "rx_contextErr rx' = rx_contextErr rx" "rx_sha1 rx' = rx_sha1 rx"
begin

lemma read_rel:
  assumes "\<And>s s'. agreeing s s' \<Longrightarrow> related R (f s) (f' s')"
  shows "related R (State_Monad.bind readSession f) (State_Monad.bind readSession f')"
  unfolding related_def
proof (intro allI impI)
  fix c c' assume r: "R c c'"
  show "fst (run_state (State_Monad.bind readSession f) c) = fst (run_state (State_Monad.bind readSession f') c') \<and>
    R (snd (run_state (State_Monad.bind readSession f) c)) (snd (run_state (State_Monad.bind readSession f') c'))"
    using relatedD [OF assms [OF session_agree [OF r]] r] by (simp add: readSession_def)
qed

lemma unlessCrashed_rel: "related R m m' \<Longrightarrow> related R (unlessCrashed m) (unlessCrashed m')"
  using crashed_agree by (fastforce simp: related_def unlessCrashed_def)

lemma pure_lua_same:
  "luaValueToRESP rx' n v = luaValueToRESP rx n v"
  "scriptSHA rx' script = scriptSHA rx script"
proof -
  show "luaValueToRESP rx' n v = luaValueToRESP rx n v"
  proof (induction n arbitrary: v)
    case (Suc n)
    then have "luaValueToRESP rx' n = luaValueToRESP rx n" by (simp add: fun_eq_iff)
    then show ?case by (simp add: luaTableToRESP_def same same_lua split: luaValue.split)
  qed simp
qed (simp add: scriptSHA_def same_lua)

lemma applyHelloAuth_rel:
  assumes "set rest \<subseteq> A"
  shows "related R (applyHelloAuth rx rest) (applyHelloAuth rx' rest)"
  unfolding applyHelloAuth_def same same_credentials using assms by (intro rel) (auto intro: login_rel)

lemma applyHelloOption_rest:
  assumes "run_state (applyHelloOption rx arg rest) c = (Inr rest', c')"
  shows "set rest' \<subseteq> set rest" and "length rest' \<le> length rest"
  using assms by (auto simp: applyHelloOption_def applyHelloAuth_def Let_def split: if_splits list.splits prod.splits)

lemma applyHelloOptions_rel:
  "set args \<subseteq> A \<Longrightarrow> related R (applyHelloOptions rx fuel args) (applyHelloOptions rx' fuel args)"
proof (induction fuel arbitrary: args)
  case 0
  show ?case by (cases args) (simp_all add: rel)
next
  case (Suc fuel)
  show ?case
  proof (cases args)
    case (Cons arg rest)
    have opt: "related R (applyHelloOption rx arg rest) (applyHelloOption rx' arg rest)"
      unfolding applyHelloOption_def Let_def same using Suc.prems Cons by (intro rel applyHelloAuth_rel) auto
    let ?k = "\<lambda>rx r. case r of Inl resp \<Rightarrow> answer (Some resp) | Inr rest \<Rightarrow> applyHelloOptions rx fuel rest"
    show ?thesis unfolding Cons applyHelloOptions.simps related_def
    proof (intro allI impI)
      fix c c' assume r: "R c c'"
      obtain x s where x: "run_state (applyHelloOption rx arg rest) c = (x, s)" by fastforce
      obtain s' where x': "run_state (applyHelloOption rx' arg rest) c' = (x, s')"
        using relatedD(1) [OF opt r] x by (metis fst_conv prod.collapse)
      have rs: "R s s'" using relatedD(2) [OF opt r] x x' by simp
      have k: "related R (?k rx x) (?k rx' x)"
        using Suc.IH applyHelloOption_rest(1) [of arg rest c _ s] x Suc.prems Cons
        by (cases x) (fastforce intro!: rel)+
      show "fst (run_state (State_Monad.bind (applyHelloOption rx arg rest) (?k rx)) c) =
          fst (run_state (State_Monad.bind (applyHelloOption rx' arg rest) (?k rx')) c') \<and>
        R (snd (run_state (State_Monad.bind (applyHelloOption rx arg rest) (?k rx)) c))
          (snd (run_state (State_Monad.bind (applyHelloOption rx' arg rest) (?k rx')) c'))"
        using relatedD [OF k rs] x x' by simp
    qed
  qed (simp add: rel)
qed

lemma session_handlers_rel:
  assumes "ok args"
  shows "commandName rx args = ''AUTH'' \<Longrightarrow> args \<noteq> [] \<Longrightarrow> related R (rhandleAuth rx args) (rhandleAuth rx' args)"
    and "commandName rx args = ''HELLO'' \<Longrightarrow> related R (rhandleHello rx args) (rhandleHello rx' args)"
    and "related R (rhandlePing args) (rhandlePing args)"
    and "related R (rhandleQuit args) (rhandleQuit args)"
    and "related R (rhandleSelect args) (rhandleSelect args)"
    and "related R (rhandleClient rx args) (rhandleClient rx' args)"
    and "commandName rx args = ''MULTI'' \<Longrightarrow> related R (rhandleMulti args) (rhandleMulti args)"
    and "related R (rhandleDiscard args) (rhandleDiscard args)"
    and "related R (rhandleScript rx args) (rhandleScript rx' args)"
proof -
  {
    assume c: "commandName rx args = ''AUTH''" "args \<noteq> []"
    show "related R (rhandleAuth rx args) (rhandleAuth rx' args)"
      unfolding rhandleAuth_def Let_def same same_credentials
      using ok_login [OF assms] c by (intro rel login_rel) auto
  next
    assume c: "commandName rx args = ''HELLO''"
    have "set (drop 2 args) \<subseteq> A" using ok_login [OF assms] c set_drop_subset [of 2 args] by auto
    then show "related R (rhandleHello rx args) (rhandleHello rx' args)"
      unfolding rhandleHello_def same
      by (intro rel applyHelloOptions_rel read_rel) (auto simp: agreeing_fields intro!: rel protocol_rel)
  next
    assume c: "commandName rx args = ''MULTI''"
    show "related R (rhandleMulti args) (rhandleMulti args)"
      unfolding rhandleMulti_def using multi_rel [OF assms c]
      by (intro rel read_rel) (auto simp: agreeing_fields intro!: rel)
  next
    show "related R (rhandleDiscard args) (rhandleDiscard args)"
      unfolding rhandleDiscard_def by (intro rel read_rel) (auto simp: agreeing_fields intro!: rel discard_rel)
  }
  show "related R (rhandlePing args) (rhandlePing args)" "related R (rhandleQuit args) (rhandleQuit args)"
    "related R (rhandleSelect args) (rhandleSelect args)" "related R (rhandleClient rx args) (rhandleClient rx' args)"
    unfolding rhandlePing_def rhandleQuit_def rhandleSelect_def rhandleClient_def Let_def same
    by (intro rel close_rel select_rel)+
  show "related R (rhandleScript rx args) (rhandleScript rx' args)"
    unfolding rhandleScript_def rhandleScriptLoad_def rhandleScriptExists_def rhandleScriptFlush_def
      scriptExistsResponse_def Let_def same pure_lua_same
    by (intro rel store_rel lookup_rel flush_rel related_traverse)
qed

lemma callRedis_rel:
  assumes "\<And>q. q \<noteq> [] \<Longrightarrow> scriptCommandAllowed (commandName rx q) \<Longrightarrow> related R (d q) (d' q)"
  shows "related R (callRedis rx d n vs) (callRedis rx' d' n vs)"
  unfolding callRedis_def Let_def same same_lua using assms by (intro rel number_rel) auto

lemma runLuaScript_rel:
  assumes "\<And>q. q \<noteq> [] \<Longrightarrow> scriptCommandAllowed (commandName rx q) \<Longrightarrow> related R (d q) (d' q)"
  shows "related R (runLuaScript rx d lua n) (runLuaScript rx' d' lua n)"
proof (induction lua arbitrary: n)
  case (LuaReturn v)
  show ?case by (auto simp: pure_lua_same same_lua intro!: rel crash_rel split: option.split)
next
  case (LuaCall p vs k)
  show ?case unfolding runLuaScript.simps same by (intro rel callRedis_rel LuaCall assms) auto
qed (auto intro: rel)

lemma evalScript_rel:
  assumes "\<And>q. q \<noteq> [] \<Longrightarrow> scriptCommandAllowed (commandName rx q) \<Longrightarrow> related R (d q) (d' q)"
  shows "related R (evalScript rx d script spec) (evalScript rx' d' script spec)"
  unfolding evalScript_def pure_lua_same same_lua
  by (intro rel store_rel atomic_rel number_rel runLuaScript_rel assms)

lemma eval_handlers_rel:
  assumes "\<And>q. q \<noteq> [] \<Longrightarrow> scriptCommandAllowed (commandName rx q) \<Longrightarrow> related R (d q) (d' q)"
  shows "related R (rhandleEval rx d args) (rhandleEval rx' d' args)"
    and "related R (rhandleEvalSHA rx d args) (rhandleEvalSHA rx' d' args)"
  unfolding rhandleEval_def rhandleEvalSHA_def by (intro rel lookup_rel evalScript_rel assms; assumption)+

end

section \<open>Dispatch\<close>

lemma map_of_related:
  assumes "list_all2 (\<lambda>(n, h) (n', h'). n' = n \<and> (n = cmd \<longrightarrow> Q h h')) xs ys"
  shows "rel_option Q (map_of xs cmd) (map_of ys cmd)"
  using assms by (induction xs ys rule: list_all2_induct) auto

lemma handler_names:
  "map fst (sessionHandlers rx d @ dataHandlers rx) = map fst (sessionHandlers rx' d' @ dataHandlers rx')"
  by (simp add: sessionHandlers_def dataHandlers_def)

lemma commandHandlers_known: "(rcommandHandlers rx d cmd = None) = (rcommandHandlers rx' d' cmd = None)"
  using handler_names [of rx d rx' d'] unfolding rcommandHandlers_def map_of_eq_None_iff by (metis map_append set_map)

context front_pair
begin

lemma unknownCommand_same: "unknownCommand rx' cmd = unknownCommand rx cmd"
  by (simp add: unknownCommand_def same)

lemma handlers_rel:
  assumes ok: "ok args" "args \<noteq> []"
    and scripts: "\<And>q. q \<noteq> [] \<Longrightarrow> scriptCommandAllowed (commandName rx q) \<Longrightarrow> related R (d q) (d' q)"
    and exec: "commandName rx args = ''EXEC'' \<Longrightarrow> related R (rhandleExec rx d args) (rhandleExec rx' d' args)"
  shows "rel_option (\<lambda>h h'. related R (h args) (h' args))
    (rcommandHandlers rx d (commandName rx args)) (rcommandHandlers rx' d' (commandName rx args))"
proof -
  have "list_all2 (\<lambda>(n, h) (n', h'). n' = n \<and> (n = commandName rx args \<longrightarrow> related R (h args) (h' args)))
    (sessionHandlers rx d) (sessionHandlers rx' d')"
    unfolding sessionHandlers_def
    by (auto simp: eq_commute [of _ "ToUpper _ _"] intro!: session_handlers_rel ok exec eval_handlers_rel scripts rel)
  moreover have "list_all2 (\<lambda>(n, h) (n', h'). n' = n \<and> (n = commandName rx args \<longrightarrow> related R (h args) (h' args)))
    (dataHandlers rx) (dataHandlers rx')"
    unfolding dataHandlers_def by (simp add: data_rel)
  ultimately show ?thesis
    unfolding rcommandHandlers_def by (intro map_of_related list_all2_appendI)
qed

lemma queued_rel:
  assumes ok: "ok args"
    and exec: "commandName rx args = ''EXEC'' \<Longrightarrow> related R (rhandleExec rx d args) (rhandleExec rx' d' args)"
  shows "related R (handleQueuedCommand rx d (commandName rx args) args) (handleQueuedCommand rx' d' (commandName rx args) args)"
  unfolding handleQueuedCommand_def unknownCommand_same commandHandlers_known [of rx' d' _ rx d]
  using exec enqueue_rel [OF ok] by (intro rel) (auto intro: session_handlers_rel(8) [OF ok])

lemma dispatch_rel:
  assumes ok: "ok args"
    and scripts: "\<And>q. q \<noteq> [] \<Longrightarrow> scriptCommandAllowed (commandName rx q) \<Longrightarrow> related R (d q) (d' q)"
    and exec: "commandName rx args = ''EXEC'' \<Longrightarrow> related R (rhandleExec rx d args) (rhandleExec rx' d' args)"
  shows "related R (dispatchWith rx d args) (dispatchWith rx' d' args)"
proof (cases args)
  case (Cons arg rest)
  let ?cmd = "commandName rx args"
  have body: "related R (case rcommandHandlers rx d ?cmd of None \<Rightarrow> answer (unknownCommand rx ?cmd) | Some h \<Rightarrow> h args)
      (case rcommandHandlers rx' d' ?cmd of None \<Rightarrow> answer (unknownCommand rx' ?cmd) | Some h \<Rightarrow> h args)"
    using handlers_rel [OF ok _ scripts exec] Cons
    by (auto simp: unknownCommand_same option_rel_Some1 option_rel_Some2 intro: rel
        split: option.split elim: option.rel_cases)
  have "dispatchWith rx d args = State_Monad.bind readSession (\<lambda>state.
      if \<not> rs_authenticated state \<and> \<not> commandAllowedBeforeAuth ?cmd then answer noAuth
      else if rs_inTransaction state then handleQueuedCommand rx d ?cmd args
      else case rcommandHandlers rx d ?cmd of None \<Rightarrow> answer (unknownCommand rx ?cmd) | Some h \<Rightarrow> h args)"
    "dispatchWith rx' d' args = State_Monad.bind readSession (\<lambda>state.
      if \<not> rs_authenticated state \<and> \<not> commandAllowedBeforeAuth ?cmd then answer noAuth
      else if rs_inTransaction state then handleQueuedCommand rx' d' ?cmd args
      else case rcommandHandlers rx' d' ?cmd of None \<Rightarrow> answer (unknownCommand rx' ?cmd) | Some h \<Rightarrow> h args)"
    unfolding Cons dispatchWith_def Let_def same list.case list.sel by (rule refl)+
  then show ?thesis
    by (simp only:, intro read_rel) (simp add: agreeing_fields rel body queued_rel [OF ok exec])
qed (simp add: dispatchWith_def crash_rel)

lemma command_rel:
  assumes exec: "\<And>d d' args. (\<And>q. ok q \<Longrightarrow> related R (d q) (d' q)) \<Longrightarrow> ok args \<Longrightarrow>
      commandName rx args = ''EXEC'' \<Longrightarrow> related R (rhandleExec rx d args) (rhandleExec rx' d' args)"
  shows "ok args \<Longrightarrow> related R (handleCommandD rx n args) (handleCommandD rx' n args)"
proof (induction n arbitrary: args)
  case (Suc n)
  show ?case unfolding handleCommandD.simps
    by (intro unlessCrashed_rel dispatch_rel [OF Suc.prems]) (auto intro: Suc.IH exec ok_script Suc.prems)
qed (simp add: crash_rel)

end

end
