(* ===== verification/Redis_Inv.thy ===== *)
theory Redis_Inv
  imports Redis_Laws
begin

text \<open>
  Invariants of the front end. The locale \<open>front_invariant\<close> has a property \<open>I\<close> of the engine that every call of the
  service in one of the namespaces \<open>N\<close> keeps; commands, scripts, transactions and whole connections then keep
  it as well, as long as the session only gets into such namespaces. From the same relations: how deep
  commands call each other, and that a transaction is not disturbed.
\<close>

section \<open>Serving a connection\<close>

lemma writeCommandResponse_conn:
  "snd (snd (writeCommandResponse rx buffered rest args w c)) = snd (run_state (responseForCommand rx args) c)"
  by (simp add: writeCommandResponse_def Let_def split_beta)

text \<open>What every command keeps, a connection keeps.\<close>

lemma runSession_keeps:
  assumes step: "\<And>args c. ok args \<Longrightarrow> P c \<Longrightarrow> P (snd (run_state (responseForCommand rx args) c))"
    and crash: "\<And>c. P c \<Longrightarrow> P (c\<lparr>cn_crashed := True\<rparr>)"
    and ok: "\<And>s args rest. suffix s input \<Longrightarrow> readRESPCommand alloc s = Inr (args, rest) \<Longrightarrow> ok args" and P: "P c"
  shows "P (snd (runSession rx alloc buffered input w c))"
  using ok P
proof (induction input arbitrary: w c rule: length_induct)
  case (1 input)
  show ?case
  proof (cases "readRESPCommand alloc input")
    case (Inl err)
    then show ?thesis using "1.prems"(2) crash by (cases err) (simp_all add: runSession.simps [of _ _ _ input])
  next
    case (Inr p)
    obtain args rest where p: "p = (args, rest)" by fastforce
    obtain stop w' c' where go: "writeCommandResponse rx buffered rest args w c = (stop, w', c')" by (metis prod_cases3)
    have "ok args" using "1.prems"(1) [of input] Inr p by simp
    then have "P c'" using step [OF _ "1.prems"(2)] writeCommandResponse_conn [of rx buffered rest args w c] go by simp
    moreover have "ok args'" if "suffix s rest" "readRESPCommand alloc s = Inr (args', rest')" for s args' rest'
      using that "1.prems"(1) readRESPCommand_suffix [of alloc input args rest] Inr p suffix_order.trans by blast
    moreover have "length rest < length input" using readRESPCommand_consumes Inr p by simp
    ultimately have "P (snd (runSession rx alloc buffered rest w' c'))" using "1.IH" by blast
    with \<open>P c'\<close> show ?thesis using Inr p go by (cases stop) (simp_all add: runSession.simps [of _ _ _ input])
  qed
qed

section \<open>Invariants\<close>

definition connInv :: "('e \<Rightarrow> bool) \<Rightarrow> (string \<Rightarrow> bool) \<Rightarrow> (respArg list \<Rightarrow> bool) \<Rightarrow> 'e conn \<Rightarrow> bool" where
  "connInv I N ok c \<longleftrightarrow>
     I (cn_engine c) \<and> N (rs_namespace (cn_session c)) \<and> list_all ok (rs_queued (cn_session c))"

locale front_invariant =
  fixes rx :: "'e redisEnv" and I :: "'e \<Rightarrow> bool" and N :: "string \<Rightarrow> bool"
    and ok :: "respArg list \<Rightarrow> bool" and A :: "respArg set"
  assumes get_inv: "I e \<Longrightarrow> N (k_Namespace key) \<Longrightarrow> I (fst (getLocked (rx_ops rx) env e key go))"
    and set_inv: "I e \<Longrightarrow> N (k_Namespace key) \<Longrightarrow> I (fst (setLocked (rx_ops rx) (rx_quota rx) env e key val so))"
    and delete_inv: "I e \<Longrightarrow> N (k_Namespace key) \<Longrightarrow> I (fst (deleteLocked (rx_ops rx) env e key del))"
    and touch_inv: "I e \<Longrightarrow> N (k_Namespace key) \<Longrightarrow> I (fst (touchLocked (rx_ops rx) env e key to))"
    and adjust_inv: "I e \<Longrightarrow> N (k_Namespace key) \<Longrightarrow> I (fst (adjustLocked (rx_ops rx) (rx_quota rx) env e key ao))"
    and primitive_inv: "I e \<Longrightarrow> N (k_Namespace (pr_Key request)) \<Longrightarrow>
      I (fst (primitiveLocked (rx_ops rx) (rx_quota rx) env e request))"
    and others_inv: "I e \<Longrightarrow> I (rx_others rx n e)"
    and login_inv: "user \<in> A \<Longrightarrow> password \<in> A \<Longrightarrow>
      authenticate (rx_credentials rx) (string_of_bytes user) (string_of_bytes password) \<Longrightarrow> N (string_of_bytes user)"
    and login_ok: "ok args \<Longrightarrow> commandName rx args \<in> {''AUTH'', ''HELLO''} \<Longrightarrow> set args \<subseteq> A"
    and script_ok: "scriptCommandAllowed (commandName rx args) \<Longrightarrow> ok args"
begin

abbreviation P :: "'e conn \<Rightarrow> bool" where "P \<equiv> connInv I N ok"

lemma service_inv:
  assumes "\<And>state env e. I e \<Longrightarrow> N (rs_namespace state) \<Longrightarrow> I (fst (f state env e))"
  shows "related (both P) (service rx f) (service rx f)"
  using assms others_inv
  by (auto simp: related_both service_def activeService_def connInv_def split_beta Let_def)

lemma redisKey_namespace [simp]: "k_Namespace (redisKey state entity key) = rs_namespace state"
  by (simp add: redisKey_def)

lemma atomically_rel:
  assumes "related (both P) b b'"
  shows "related (both P) (atomically rx b) (atomically rx b')"
proof -
  have "related (both P) (enterTransaction rx) (enterTransaction rx)"
    using others_inv by (auto simp: related_both enterTransaction_def activeService_def connInv_def)
  moreover have "related (both P) leaveTransaction leaveTransaction"
    by (auto simp: related_both leaveTransaction_def updateSession_def connInv_def)
  ultimately show ?thesis unfolding atomically_def by (intro rel assms)
qed

lemma read_inv:
  assumes "\<And>s. list_all ok (rs_queued s) \<Longrightarrow> related (both P) (f s) (f' s)"
  shows "related (both P) (State_Monad.bind readSession f) (State_Monad.bind readSession f')"
  using assms by (auto simp: related_def readSession_def connInv_def)

end

sublocale front_invariant \<subseteq> front_pair rx rx "both (connInv I N ok)" ok A
proof unfold_locales
  fix entity key val ttl expected delta request
  show "related (both P) (svGet rx entity key) (svGet rx entity key)"
    "related (both P) (svSet rx entity key val ttl expected) (svSet rx entity key val ttl expected)"
    "related (both P) (svDelete rx entity key) (svDelete rx entity key)"
    "related (both P) (svTouch rx entity key ttl) (svTouch rx entity key ttl)"
    "related (both P) (svAdjust rx entity key delta) (svAdjust rx entity key delta)"
    "related (both P) (svPrimitive rx entity key request) (svPrimitive rx entity key request)"
    unfolding svGet_def svSet_def svDelete_def svTouch_def svAdjust_def svPrimitive_def
    by (intro service_inv; simp add: get_inv set_inv delete_inv touch_inv adjust_inv primitive_inv)+
next
  fix b b' :: "('e conn, respValue) state" assume "related (both P) b b'"
  then show "related (both P) (runScriptAtomically rx b) (runScriptAtomically rx b')"
    unfolding runScriptAtomically_def by (intro read_inv rel atomically_rel)
next
  fix user password args
  show "user \<in> A \<Longrightarrow> password \<in> A \<Longrightarrow>
      authenticate (rx_credentials rx) (string_of_bytes user) (string_of_bytes password) \<Longrightarrow>
      related (both P) (updateSession (authAs (string_of_bytes user))) (updateSession (authAs (string_of_bytes user)))"
    using login_inv by (auto simp: related_both updateSession_def authAs_def connInv_def)
  show "ok args \<Longrightarrow> commandName rx args \<in> {''AUTH'', ''HELLO''} \<Longrightarrow> set args \<subseteq> A" by (rule login_ok)
  show "scriptCommandAllowed (commandName rx args) \<Longrightarrow> ok args" by (rule script_ok)
qed (auto simp: related_both updateSession_def openTransaction_def enqueue_def connInv_def callNumber_def crash_def
    storeScript_def scriptForSHA_def flushScripts_def withScripts_def agreeing_def Let_def split_beta)

context front_invariant
begin

lemma exec_inv:
  assumes "\<And>q. ok q \<Longrightarrow> related (both P) (d q) (d' q)"
  shows "related (both P) (rhandleExec rx d args) (rhandleExec rx d' args)"
  unfolding rhandleExec_def
  by (intro rel read_inv atomically_rel related_traverse assms discard_rel) (auto simp: list_all_iff)

lemma handleCommand_inv: "ok args \<Longrightarrow> P c \<Longrightarrow> P (snd (run_state (handleCommand rx args) c))"
  using command_rel [OF exec_inv, of args 3] unfolding handleCommand_def related_both by blast

lemma responseForCommand_inv: "ok args \<Longrightarrow> P c \<Longrightarrow> P (snd (run_state (responseForCommand rx args) c))"
  using handleCommand_inv by (simp add: responseForCommand_def)

lemma serveRedisConn_inv:
  assumes "\<And>s args rest. suffix s input \<Longrightarrow> readRESPCommand alloc s = Inr (args, rest) \<Longrightarrow> ok args"
    and "I (cn_engine c)" and "N []"
  shows "I (cn_engine (snd (serveRedisConn rx alloc buffered input c)))"
proof -
  have "P (snd (runSession rx alloc buffered input w (c\<lparr>cn_session := newSession\<rparr>)))" for w
  proof (rule runSession_keeps [where ok = ok and P = P, OF responseForCommand_inv _ assms(1)])
    show "P (c\<lparr>cn_session := newSession\<rparr>)" using assms(2,3) by (simp add: connInv_def newSession_def)
  qed (simp_all add: connInv_def)
  then show ?thesis by (simp add: serveRedisConn_def Let_def split_beta connInv_def)
qed

end

end
