(* ===== verification/Redis_Tenant.thy ===== *)
theory Redis_Tenant
  imports Redis_Inv
begin

text \<open>
  What the commands of one tenant leave of another's entries. An engine that refuses the keys of a namespace
  (\<open>guarded\<close>) keeps what is stored there, by the contract of the service; and a service call in another
  namespace does the same with the guard as without it.
\<close>

section \<open>Calls in another namespace\<close>

definition guarded :: "string \<Rightarrow> 'e engineOps \<Rightarrow> 'e engineOps" where
  "guarded t ops = ops\<lparr>
     op_Set := \<lambda>c e key val so. if k_Namespace key = t then (e, Inl ErrInvalidKey) else op_Set ops c e key val so,
     op_Get := \<lambda>c e key go. if k_Namespace key = t then (e, Inl ErrInvalidKey) else op_Get ops c e key go,
     op_Delete := \<lambda>c e key del. if k_Namespace key = t then (e, Inl ErrInvalidKey) else op_Delete ops c e key del,
     op_Exists := \<lambda>c e key go. if k_Namespace key = t then (e, Inl ErrInvalidKey) else op_Exists ops c e key go,
     op_Touch := \<lambda>c e key to. if k_Namespace key = t then (e, Inl ErrInvalidKey) else op_Touch ops c e key to,
     op_Adjust := \<lambda>c e key ao. if k_Namespace key = t then (e, Inl ErrInvalidKey) else op_Adjust ops c e key ao,
     op_EstimateAdjust := \<lambda>c e key ao.
       if k_Namespace key = t then (e, Inl ErrInvalidKey) else op_EstimateAdjust ops c e key ao,
     op_Primitive := \<lambda>c e pr. if k_Namespace (pr_Key pr) = t then (e, Inl ErrInvalidKey) else op_Primitive ops c e pr,
     op_EstimatePrimitive := \<lambda>c e pr.
       if k_Namespace (pr_Key pr) = t then (e, Inl ErrInvalidKey) else op_EstimatePrimitive ops c e pr,
     op_Evict := \<lambda>c e eo. if eo_Namespace eo = t then (e, zeroEvictResult, Some ErrInvalidKey) else op_Evict ops c e eo,
     op_Export := \<lambda>c e ro. (e, Inl ErrInvalidKey),
     op_Import := \<lambda>c e items. (e, 0, Some ErrInvalidKey),
     op_DeleteRange := \<lambda>c e ro. (e, 0, Some ErrInvalidKey)\<rparr>"

definition tenantInv :: "deps \<Rightarrow> string \<Rightarrow> (Key \<Rightarrow> entry option) \<Rightarrow> MemoryEngine \<Rightarrow> bool" where
  "tenantInv d t v e \<longleftrightarrow> deps_ok d \<and> engine_inv e \<and>
     (\<forall>key. k_Namespace key = t \<longrightarrow> contents e (physicalKey key) = v key)"

lemma tenantInv_step:
  assumes "tenantInv d t v e" and "engine_inv e'"
    and "\<And>key. k_Namespace key = t \<Longrightarrow> contents e' (physicalKey key) = contents e (physicalKey key)"
  shows "tenantInv d t v e'"
  using assms by (simp add: tenantInv_def)

lemma key_ops_frame:
  assumes "engine_inv e" and "k_Namespace key \<noteq> k_Namespace other"
  shows "contents (fst (EngineSet d ctx now e key val so)) (physicalKey other) = contents e (physicalKey other)"
    and "contents (fst (EngineGet d ctx now e key g)) (physicalKey other) = contents e (physicalKey other)"
    and "contents (fst (EngineDelete d ctx e key del)) (physicalKey other) = contents e (physicalKey other)"
    and "contents (fst (EngineTouch d ctx now e key t)) (physicalKey other) = contents e (physicalKey other)"
    and "contents (fst (EngineAdjust d ctx now e key a)) (physicalKey other) = contents e (physicalKey other)"
    and "contents (fst (EngineEstimateAdjust d ctx now e key a)) (physicalKey other) = contents e (physicalKey other)"
    and "pr_Key req = key \<Longrightarrow>
      contents (fst (EnginePrimitive d ctx now e req)) (physicalKey other) = contents e (physicalKey other)"
    and "pr_Key req = key \<Longrightarrow>
      contents (fst (EngineEstimatePrimitive d ctx now e req)) (physicalKey other) = contents e (physicalKey other)"
proof -
  have ne: "physicalKey other \<noteq> physicalKey key" using assms(2) physicalKey_inject by metis
  note frame = execute_frame [OF assms(1)]
  show "contents (fst (EngineSet d ctx now e key val so)) (physicalKey other) = contents e (physicalKey other)"
    and "contents (fst (EngineGet d ctx now e key g)) (physicalKey other) = contents e (physicalKey other)"
    and "contents (fst (EngineDelete d ctx e key del)) (physicalKey other) = contents e (physicalKey other)"
    and "contents (fst (EngineTouch d ctx now e key t)) (physicalKey other) = contents e (physicalKey other)"
    and "contents (fst (EngineAdjust d ctx now e key a)) (physicalKey other) = contents e (physicalKey other)"
    and "contents (fst (EngineEstimateAdjust d ctx now e key a)) (physicalKey other) = contents e (physicalKey other)"
    and "pr_Key req = key \<Longrightarrow>
      contents (fst (EnginePrimitive d ctx now e req)) (physicalKey other) = contents e (physicalKey other)"
    and "pr_Key req = key \<Longrightarrow>
      contents (fst (EngineEstimatePrimitive d ctx now e req)) (physicalKey other) = contents e (physicalKey other)"
    using ne by (auto simp: engine_key_ops frame split: option.split)
qed

interpretation guarded_memory: engine_keeps "guarded t (memoryOps d)" "tenantInv d t v" for d t v
proof unfold_locales
  fix e :: MemoryEngine assume inv: "tenantInv d t v e"
  then have e: "deps_ok d" "engine_inv e" by (simp_all add: tenantInv_def)
  fix c key val so go del to ao pr eo ro items
  note keep = tenantInv_step [OF inv] key_ops_inv [OF e] key_ops_frame [OF e(2)]
  show "tenantInv d t v (fst (op_Set (guarded t (memoryOps d)) c e key val so))"
    using inv by (auto simp: guarded_def memoryOps_def intro!: keep)
  show "tenantInv d t v (fst (op_Get (guarded t (memoryOps d)) c e key go))"
    using inv by (auto simp: guarded_def memoryOps_def intro!: keep)
  show "tenantInv d t v (fst (op_Delete (guarded t (memoryOps d)) c e key del))"
    using inv by (auto simp: guarded_def memoryOps_def intro!: keep)
  show "tenantInv d t v (fst (op_Exists (guarded t (memoryOps d)) c e key go))"
    using inv by (auto simp: guarded_def memoryOps_def intro!: keep)
  show "tenantInv d t v (fst (op_Touch (guarded t (memoryOps d)) c e key to))"
    using inv by (auto simp: guarded_def memoryOps_def intro!: keep)
  show "tenantInv d t v (fst (op_Adjust (guarded t (memoryOps d)) c e key ao))"
    using inv by (auto simp: guarded_def memoryOps_def intro!: keep)
  show "tenantInv d t v (fst (op_EstimateAdjust (guarded t (memoryOps d)) c e key ao))"
    using inv by (auto simp: guarded_def memoryOps_def intro!: keep)
  show "tenantInv d t v (fst (op_Primitive (guarded t (memoryOps d)) c e pr))"
    using inv by (auto simp: guarded_def memoryOps_def intro!: keep)
  show "tenantInv d t v (fst (op_EstimatePrimitive (guarded t (memoryOps d)) c e pr))"
    using inv by (auto simp: guarded_def memoryOps_def intro!: keep)
  show "tenantInv d t v (fst (op_Stats (guarded t (memoryOps d)) c e))"
    using inv by (simp add: guarded_def memoryOps_def EngineStats_state)
  show "tenantInv d t v (fst (op_Evict (guarded t (memoryOps d)) c e eo))"
    using inv by (auto simp: guarded_def memoryOps_def intro!: tenantInv_step [OF inv] all_ops_inv(3) [OF e] EngineEvict_frame [OF e])
qed (simp_all add: guarded_def)

lemma guarded_locked:
  assumes "k_Namespace key \<noteq> t"
  shows "getLocked (guarded t ops) env e key go = getLocked ops env e key go"
    and "setLocked (guarded t ops) q env e key val so = setLocked ops q env e key val so"
    and "deleteLocked (guarded t ops) env e key del = deleteLocked ops env e key del"
    and "touchLocked (guarded t ops) env e key to = touchLocked ops env e key to"
    and "adjustLocked (guarded t ops) q env e key ao = adjustLocked ops q env e key ao"
    and "pr_Key pr = key \<Longrightarrow> primitiveLocked (guarded t ops) q env e pr = primitiveLocked ops q env e pr"
proof -
  have evict: "evictLocked (guarded t ops) c e r = evictLocked ops c e r" if "evr_Namespace r \<noteq> t" for c e r
    using that by (simp add: evictLocked_def guarded_def)
  have quota: "ensureSpaceQuota (guarded t ops) q c e key a b delta = ensureSpaceQuota ops q c e key a b delta" for c e a b delta
    using assms by (simp add: ensureSpaceQuota_def evict Let_def)
  have stats: "op_Stats (guarded t ops) = op_Stats ops" by (simp add: guarded_def)
  have grow: "admitCostGrowth (guarded t ops) q env e key a b = admitCostGrowth ops q env e key a b" for env e a b
    by (simp add: admitCostGrowth_def quota stats)
  show "getLocked (guarded t ops) env e key go = getLocked ops env e key go"
    and "deleteLocked (guarded t ops) env e key del = deleteLocked ops env e key del"
    and "touchLocked (guarded t ops) env e key to = touchLocked ops env e key to"
    using assms by (simp_all add: getLocked_def deleteLocked_def touchLocked_def guarded_def)
  show "setLocked (guarded t ops) q env e key val so = setLocked ops q env e key val so"
    unfolding setLocked_def admitSet_def currentRecord_def grow using assms by (simp add: guarded_def)
  show "adjustLocked (guarded t ops) q env e key ao = adjustLocked ops q env e key ao"
    unfolding adjustLocked_def admitAdjust_def grow using assms by (simp add: guarded_def)
  show "primitiveLocked (guarded t ops) q env e pr = primitiveLocked ops q env e pr" if "pr_Key pr = key"
    unfolding primitiveLocked_def executePrimitive_def admitPrimitive_def that grow using assms that by (simp add: guarded_def)
qed

lemma tenant_locked:
  assumes "tenantInv d t v e" and "k_Namespace key \<noteq> t"
  shows "tenantInv d t v (fst (getLocked (memoryOps d) env e key go))"
    and "tenantInv d t v (fst (setLocked (memoryOps d) q env e key val so))"
    and "tenantInv d t v (fst (deleteLocked (memoryOps d) env e key del))"
    and "tenantInv d t v (fst (touchLocked (memoryOps d) env e key to))"
    and "tenantInv d t v (fst (adjustLocked (memoryOps d) q env e key ao))"
    and "pr_Key pr = key \<Longrightarrow> tenantInv d t v (fst (primitiveLocked (memoryOps d) q env e pr))"
  using guarded_memory.locked_keeps [OF assms(1)] by (simp_all flip: guarded_locked [OF assms(2), where ops = "memoryOps d"])

section \<open>Tenants of the front end\<close>

text \<open>A front end over the memory engine whose other connections make these engine calls.\<close>

definition redisOver :: "deps \<Rightarrow> (nat \<Rightarrow> engineCall list) \<Rightarrow> MemoryEngine redisEnv \<Rightarrow> MemoryEngine redisEnv" where
  "redisOver d work rx = rx\<lparr>rx_ops := memoryOps d, rx_others := \<lambda>n e. foldl (engineStep d) e (filter allowedCall (work n))\<rparr>"

lemma redisOver_fields [simp]:
  "rx_ops (redisOver d work rx) = memoryOps d" "rx_credentials (redisOver d work rx) = rx_credentials rx"
  "rx_unicode (redisOver d work rx) = rx_unicode rx"
  "rx_others (redisOver d work rx) n e = foldl (engineStep d) e (filter allowedCall (work n))"
  by (simp_all add: redisOver_def)

lemma foldl_engineStep_inv:
  "deps_ok d \<and> engine_inv e \<Longrightarrow> deps_ok d \<and> engine_inv (foldl (engineStep d) e (filter allowedCall calls))"
  using engine.step_inv [of _ d] by (induction calls arbitrary: e) auto

interpretation redis_engine: front_invariant "redisOver d work rx" "\<lambda>e. deps_ok d \<and> engine_inv e" "\<lambda>_. True" "\<lambda>_. True" UNIV
  for d work rx
  by unfold_locales (auto simp: memory_keeps.locked_keeps foldl_engineStep_inv)

text \<open>The arguments that are not the tenant's password.\<close>

definition lacking :: "(string \<rightharpoonup> string) \<Rightarrow> string \<Rightarrow> respArg set" where
  "lacking credentials t = {a. credentials t \<noteq> Some (string_of_bytes a)}"

definition okFor :: "'e redisEnv \<Rightarrow> string \<Rightarrow> respArg list \<Rightarrow> bool" where
  "okFor rx t args \<longleftrightarrow> (commandName rx args \<in> {''AUTH'', ''HELLO''} \<longrightarrow> set args \<subseteq> lacking (rx_credentials rx) t)"

text \<open>Engine calls on keys of other namespaces.\<close>

definition callElsewhere :: "string \<Rightarrow> engineCall \<Rightarrow> bool" where
  "callElsewhere t call = (case callKey call of Some key \<Rightarrow> k_Namespace key \<noteq> t | None \<Rightarrow> False)"

lemma engineStep_tenant:
  assumes "tenantInv d t v e" and "callElsewhere t call" and "allowedCall call"
  shows "tenantInv d t v (engineStep d e call)"
proof (rule tenantInv_step [OF assms(1)])
  have e: "deps_ok d" "engine_inv e" using assms(1) by (simp_all add: tenantInv_def)
  show "engine_inv (engineStep d e call)" using engine.step_inv [OF e(2), of d call] e(1) assms(3) by simp
  fix key :: Key assume "k_Namespace key = t"
  then show "contents (engineStep d e call) (physicalKey key) = contents e (physicalKey key)"
    using assms(2) physicalKey_inject
    by (auto simp: callElsewhere_def split: option.splits intro!: engineStep_frame [OF e(2)])
qed

lemma foldl_engineStep_tenant:
  "tenantInv d t v e \<Longrightarrow>
     tenantInv d t v (foldl (engineStep d) e (filter (\<lambda>call. callElsewhere t call \<and> allowedCall call) calls))"
  by (induction calls arbitrary: e) (auto intro: engineStep_tenant)

interpretation tenant: front_invariant "redisOver d (\<lambda>n. filter (callElsewhere t) (work n)) rx" "tenantInv d t v"
    "\<lambda>ns. ns \<noteq> t" "okFor rx t" "lacking (rx_credentials rx) t"
  for d t v work rx
  by unfold_locales
    (auto simp: tenant_locked foldl_engineStep_tenant lacking_def okFor_def authenticate_def scriptCommandAllowed_def
      split: option.splits)

lemma okFor_redisOver [simp]: "okFor (redisOver d work rx) t = okFor rx t"
  by (simp add: fun_eq_iff okFor_def)

end
