(* ===== verification/Redis_Exec.thy ===== *)
theory Redis_Exec
  imports Redis_Laws
begin

text \<open>
  How commands call commands: \<open>EXEC\<close> runs the queued commands and \<open>EVAL\<close> the calls of a script, three levels at
  most. A transaction runs as if no other connection existed.
\<close>

section \<open>Relations\<close>

lemma related_eq: "related (=) m m' \<longleftrightarrow> m = m'"
  by (auto simp: related_def intro!: state_ext prod_eqI)

abbreviation inTx :: "'e conn \<Rightarrow> bool" where
  "inTx c \<equiv> rs_tx (cn_session c)"

text \<open>Equal connections; equal connections in a transaction.\<close>

interpretation equal_front: front_pair rx rx "(=)" "\<lambda>_. True" UNIV for rx
  by unfold_locales (simp_all add: related_eq agreeing_def)

interpretation tx_front: front_pair rx rx "both inTx" "\<lambda>_. True" UNIV for rx
proof unfold_locales
  fix m m' :: "('a conn, respValue) state"
  assume "related (both inTx) m m'"
  then show "related (both inTx) (runScriptAtomically rx m) (runScriptAtomically rx m')"
    by (auto simp: related_def runScriptAtomically_def readSession_def)
qed (auto simp: svGet_def svSet_def svDelete_def svTouch_def svAdjust_def svPrimitive_def service_def related_both
    callNumber_def agreeing_def crash_def updateSession_def openTransaction_def enqueue_def authAs_def
    storeScript_def scriptForSHA_def flushScripts_def withScripts_def Let_def split_beta)

text \<open>
  On the left a front end in a transaction, on the right one without other connections, in a transaction or not.
\<close>

definition alone :: "'e redisEnv \<Rightarrow> 'e redisEnv" where
  "alone rx = rx\<lparr>rx_others := \<lambda>n e. e\<rparr>"

definition setTx :: "bool \<Rightarrow> 'e conn \<Rightarrow> 'e conn" where
  "setTx b c = c\<lparr>cn_session := (cn_session c)\<lparr>rs_tx := b\<rparr>\<rparr>"

definition undisturbed :: "'e conn \<Rightarrow> 'e conn \<Rightarrow> bool" where
  "undisturbed c c' \<longleftrightarrow> c = setTx True c' \<and> \<not> rs_inTransaction (cn_session c')"

definition queueable :: "'e redisEnv \<Rightarrow> respArg list \<Rightarrow> bool" where
  "queueable rx args \<longleftrightarrow> commandName rx args \<notin> {''MULTI'', ''EXEC'', ''DISCARD''}"

lemma alone_fields [simp]:
  "rx_ops (alone rx) = rx_ops rx" "rx_quota (alone rx) = rx_quota rx" "rx_calls (alone rx) = rx_calls rx"
  "rx_others (alone rx) = (\<lambda>n e. e)" "rx_otherScripts (alone rx) = rx_otherScripts rx" "rx_now (alone rx) = rx_now rx"
  "rx_credentials (alone rx) = rx_credentials rx" "rx_unicode (alone rx) = rx_unicode rx" "rx_floats (alone rx) = rx_floats rx"
  "rx_errorText (alone rx) = rx_errorText rx" "rx_setOrder (alone rx) = rx_setOrder rx" "rx_sha1 (alone rx) = rx_sha1 rx"
  "rx_lua (alone rx) = rx_lua rx" "rx_luaText (alone rx) = rx_luaText rx" "rx_contextErr (alone rx) = rx_contextErr rx"
  "rx_stack (alone rx) = rx_stack rx"
  by (simp_all add: alone_def)

lemma service_undisturbed:
  assumes "\<And>state env e b. f (state\<lparr>rs_tx := b\<rparr>) env e = f state env e"
  shows "related undisturbed (service rx f) (service (alone rx) f)"
  using assms
  by (auto simp: related_def undisturbed_def setTx_def service_def activeService_def Let_def split_beta)

lemma redisKey_tx [simp]: "redisKey (state\<lparr>rs_tx := b\<rparr>) entity key = redisKey state entity key"
  by (simp add: redisKey_def)

lemma updateSession_undisturbed:
  assumes "\<And>s b. f (s\<lparr>rs_tx := b\<rparr>) = (f s)\<lparr>rs_tx := b\<rparr>" and "\<And>s. rs_inTransaction (f s) \<Longrightarrow> rs_inTransaction s"
  shows "related undisturbed (updateSession f) (updateSession f)"
  using assms by (auto simp: related_def undisturbed_def setTx_def updateSession_def)

lemma enter_undisturbed: "undisturbed c c' \<Longrightarrow> undisturbed c (snd (run_state (enterTransaction (alone rx)) c'))"
  by (auto simp: undisturbed_def setTx_def enterTransaction_def activeService_def)

lemma leave_undisturbed: "undisturbed c c' \<Longrightarrow> undisturbed c (snd (run_state leaveTransaction c'))"
  by (auto simp: undisturbed_def setTx_def leaveTransaction_def updateSession_def)

lemma script_undisturbed:
  assumes "related undisturbed m m'"
  shows "related undisturbed (runScriptAtomically rx m) (runScriptAtomically (alone rx) m')"
  unfolding related_def
proof (intro allI impI)
  fix c c' :: "'a conn" assume u: "undisturbed c c'"
  let ?in = "snd (run_state (enterTransaction (alone rx)) c')"
  have tx: "inTx c" using u by (simp add: undisturbed_def setTx_def)
  have un: "undisturbed c ?in" by (rule enter_undisturbed [OF u])
  show "fst (run_state (runScriptAtomically rx m) c) = fst (run_state (runScriptAtomically (alone rx) m') c') \<and>
    undisturbed (snd (run_state (runScriptAtomically rx m) c)) (snd (run_state (runScriptAtomically (alone rx) m') c'))"
  proof (cases "inTx c'")
    case True
    with tx relatedD [OF assms u] show ?thesis by (simp add: runScriptAtomically_def readSession_def)
  next
    case False
    have "run_state (runScriptAtomically (alone rx) m') c' =
        (fst (run_state m' ?in), snd (run_state leaveTransaction (snd (run_state m' ?in))))"
      using False by (simp add: runScriptAtomically_def readSession_def atomically_def split_beta)
    then show ?thesis using tx relatedD [OF assms un] leave_undisturbed
      by (simp add: runScriptAtomically_def readSession_def)
  qed
qed

interpretation sim: front_pair rx "alone rx" undisturbed "queueable rx" UNIV for rx
proof unfold_locales
  fix entity key val ttl expected delta request
  show "related undisturbed (svGet rx entity key) (svGet (alone rx) entity key)"
    "related undisturbed (svSet rx entity key val ttl expected) (svSet (alone rx) entity key val ttl expected)"
    "related undisturbed (svDelete rx entity key) (svDelete (alone rx) entity key)"
    "related undisturbed (svTouch rx entity key ttl) (svTouch (alone rx) entity key ttl)"
    "related undisturbed (svAdjust rx entity key delta) (svAdjust (alone rx) entity key delta)"
    "related undisturbed (svPrimitive rx entity key request) (svPrimitive (alone rx) entity key request)"
    unfolding svGet_def svSet_def svDelete_def svTouch_def svAdjust_def svPrimitive_def alone_fields
    by (rule service_undisturbed; simp)+
next
  fix user args v
  show "related undisturbed (updateSession (authAs (string_of_bytes user))) (updateSession (authAs (string_of_bytes user)))"
    "related undisturbed (updateSession (rs_protocol_update (\<lambda>_. v))) (updateSession (rs_protocol_update (\<lambda>_. v)))"
    "related undisturbed (updateSession (rs_close_update (\<lambda>_. True))) (updateSession (rs_close_update (\<lambda>_. True)))"
    "related undisturbed (updateSession (rs_db_update (\<lambda>_. v))) (updateSession (rs_db_update (\<lambda>_. v)))"
    "related undisturbed (updateSession (openTransaction False)) (updateSession (openTransaction False))"
    "related undisturbed (updateSession (enqueue args)) (updateSession (enqueue args))"
    by (rule updateSession_undisturbed; simp add: authAs_def openTransaction_def enqueue_def)+
next
  fix m m' :: "('a conn, respValue) state"
  assume "related undisturbed m m'"
  then show "related undisturbed (runScriptAtomically rx m) (runScriptAtomically (alone rx) m')" by (rule script_undisturbed)
qed (auto simp: related_def undisturbed_def setTx_def callNumber_def agreeing_def crash_def queueable_def
    scriptCommandAllowed_def storeScript_def scriptForSHA_def flushScripts_def withScripts_def Let_def split_beta)

section \<open>How deep commands go\<close>

lemma handlers_flat:
  assumes "commandName rx args \<notin> {''EXEC'', ''EVAL'', ''EVALSHA''}"
  shows "rcommandHandlers rx d (commandName rx args) = rcommandHandlers rx d' (commandName rx args)"
  using assms by (auto simp: rcommandHandlers_def sessionHandlers_def)

text \<open>A command that a script may call calls no other command.\<close>

lemma script_command_flat:
  assumes "scriptCommandAllowed (commandName rx args)"
  shows "dispatchWith rx d args = dispatchWith rx d' args"
proof (cases args)
  case (Cons arg rest)
  have n: "commandName rx args \<notin> {''EXEC'', ''EVAL'', ''EVALSHA''}" using assms by (auto simp: scriptCommandAllowed_def)
  have "rcommandHandlers rx d (commandName rx args) = rcommandHandlers rx d' (commandName rx args)" by (rule handlers_flat [OF n])
  moreover have "handleQueuedCommand rx d (commandName rx args) args = handleQueuedCommand rx d' (commandName rx args) args"
    using n by (simp add: handleQueuedCommand_def commandHandlers_known [of rx d _ rx d'])
  ultimately show ?thesis using Cons by (simp add: dispatchWith_def Let_def cong: if_cong)
qed (simp add: dispatchWith_def)

lemma depth_script:
  "scriptCommandAllowed (commandName rx args) \<Longrightarrow> handleCommandD rx (Suc n) args = handleCommandD rx (Suc m) args"
  using script_command_flat by (metis handleCommandD.simps(2))

lemma exec_inTx: "related (both inTx) (rhandleExec rx d args) (rhandleExec rx d' args)"
  by (auto simp: related_def rhandleExec_def readSession_def updateSession_def openTransaction_def)

lemma command_inTx: "related (both inTx) (handleCommandD rx n args) (handleCommandD rx n args)"
  by (rule tx_front.command_rel) (simp_all add: exec_inTx)

lemma depth_inTx: "related (both inTx) (handleCommandD rx (Suc (Suc n)) args) (handleCommandD rx (Suc (Suc m)) args)"
proof -
  have "related (both inTx) (handleCommandD rx (Suc n) q) (handleCommandD rx (Suc m) q)"
    if "scriptCommandAllowed (commandName rx q)" for q
    using command_inTx [of rx "Suc n" q] unfolding depth_script [OF that, of n m] .
  then show ?thesis
    unfolding handleCommandD.simps(2) [of rx "Suc n"] handleCommandD.simps(2) [of rx "Suc m"]
    by (intro tx_front.unlessCrashed_rel tx_front.dispatch_rel) (simp_all add: exec_inTx)
qed

lemma traverse_inTx:
  assumes "\<And>q. related (both inTx) (d q) (d' q)" and "inTx c"
  shows "run_state (State_Monad.traverse_list d qs) c = run_state (State_Monad.traverse_list d' qs) c"
  using relatedD [OF related_traverse [of qs "both inTx" d d', OF assms(1)], of c c] assms(2) by (simp add: prod_eq_iff)

lemma exec_same:
  assumes "\<And>q. related (both inTx) (d q) (d' q)"
  shows "rhandleExec rx d args = rhandleExec rx d' args"
proof -
  have atomic: "atomically rx (State_Monad.traverse_list d qs) = atomically rx (State_Monad.traverse_list d' qs)" for qs
    using traverse_inTx [of d d', OF assms]
    by (intro state_ext) (simp add: atomically_def enterTransaction_def)
  show ?thesis unfolding rhandleExec_def atomic ..
qed

lemma depth_step:
  assumes "\<And>q. scriptCommandAllowed (commandName rx q) \<Longrightarrow> d q = d' q"
    and "commandName rx args = ''EXEC'' \<Longrightarrow> rhandleExec rx d args = rhandleExec rx d' args"
  shows "unlessCrashed (dispatchWith rx d args) = unlessCrashed (dispatchWith rx d' args)"
  using equal_front.dispatch_rel [where rx = rx and d = d and d' = d' and args = args] assms by (simp add: related_eq)

theorem depth_enough: "handleCommandD rx (Suc (Suc (Suc n))) args = handleCommand rx args"
  unfolding handleCommand_def numeral_3_eq_3 handleCommandD.simps(2) [of rx "Suc (Suc n)"] handleCommandD.simps(2) [of rx "Suc (Suc 0)"]
  by (intro depth_step depth_script exec_same depth_inTx)

lemma depth_no_exec:
  assumes "commandName rx args \<noteq> ''EXEC''"
  shows "handleCommandD rx (Suc (Suc n)) args = handleCommand rx args"
  unfolding handleCommand_def numeral_3_eq_3 handleCommandD.simps(2) [of rx "Suc n"] handleCommandD.simps(2) [of rx "Suc (Suc 0)"]
  using assms by (intro depth_step depth_script) simp_all

section \<open>Transactions\<close>

lemma sim_command:
  assumes "queueable rx args"
  shows "related undisturbed (handleCommandD rx (Suc (Suc 0)) args) (handleCommand (alone rx) args)"
proof -
  have ne: "commandName (alone rx) args \<noteq> ''EXEC''" using assms by (simp add: queueable_def)
  have "related undisturbed (handleCommandD rx (Suc (Suc 0)) args) (handleCommandD (alone rx) (Suc (Suc 0)) args)"
    by (rule sim.command_rel [OF _ assms]) (simp add: queueable_def)
  then show ?thesis unfolding depth_no_exec [OF ne] .
qed

lemma commandName_text [simp]:
  "commandName rx (bytes_of_string ''EXEC'' # args) = ''EXEC''"
  "commandName rx (bytes_of_string ''MULTI'' # args) = ''MULTI''"
  by (simp_all add: ToUpper_def asciiText_def upperChar_def)

text \<open>The session after \<open>EXEC\<close> has read its queue.\<close>

abbreviation beginExec :: "'e redisEnv \<Rightarrow> 'e conn \<Rightarrow> 'e conn" where
  "beginExec rx c \<equiv> c\<lparr>cn_engine := rx_others rx (cn_calls c) (cn_engine c),
     cn_session := openTransaction False (cn_session c)\<rparr>"

lemma exec_alone:
  assumes "rs_authenticated (cn_session c)" and "rs_inTransaction (cn_session c)" and "\<not> inTx c" and "\<not> cn_crashed c"
    and "list_all (queueable rx) (rs_queued (cn_session c))"
    and "run_state (State_Monad.traverse_list (handleCommand (alone rx)) (rs_queued (cn_session c))) (beginExec rx c) = (responses, c')"
  shows "run_state (handleCommand rx [bytes_of_string ''EXEC'']) c = (RespArray responses, setTx False c')"
proof -
  let ?d = "handleCommandD rx (Suc (Suc 0))" and ?qs = "rs_queued (cn_session c)"
  let ?in = "setTx True (beginExec rx c)"
  have "related undisturbed (State_Monad.traverse_list ?d ?qs) (State_Monad.traverse_list (handleCommand (alone rx)) ?qs)"
    using assms(5) by (intro related_traverse sim_command) (simp add: list_all_iff)
  moreover have "undisturbed ?in (beginExec rx c)" by (simp add: undisturbed_def openTransaction_def)
  ultimately have t: "run_state (State_Monad.traverse_list ?d ?qs) ?in = (responses, setTx True c')"
    using relatedD [of undisturbed _ _ ?in "beginExec rx c"] assms(6) by (auto simp: prod_eq_iff undisturbed_def)
  have "run_state (handleCommand rx [bytes_of_string ''EXEC'']) c = run_state (rhandleExec rx ?d [bytes_of_string ''EXEC'']) c"
    using assms(1,2,4) commandName_text(1) [of rx "[]"]
    by (simp add: handleCommand_def numeral_3_eq_3 unlessCrashed_def dispatchWith_def readSession_def
        handleQueuedCommand_def Let_def del: string_of_bytes_of_string)
  also have "\<dots> = (RespArray responses, setTx False c')"
    using assms(2,3) t
    by (simp add: rhandleExec_def readSession_def updateSession_def atomically_def enterTransaction_def activeService_def
        leaveTransaction_def setTx_def openTransaction_def del: traverse_list.simps)
  finally show ?thesis .
qed

end
