(* ===== verification/Redis_Types.thy ===== *)
theory Redis_Types
  imports Redis_Server
begin

text \<open>
  Types of answers: what a client may expect of each command, besides an error. \<open>answers Q m\<close>: whatever the
  connection, the program \<open>m\<close> answers a value with \<open>Q\<close>.
\<close>

section \<open>Types\<close>

datatype answerType =
    AnswerStatus
  | AnswerStatusOrNull
  | AnswerStatusOrText
  | AnswerInteger
  | AnswerBulk
  | AnswerText
  | AnswerBulks
  | AnswerPairs
  | AnswerIntegers
  | AnswerPlaces
  | AnswerHello
  | AnswerItems
  | AnswerAny

fun isText :: "respValue \<Rightarrow> bool" where
  "isText (RespBulkString _) = True"
| "isText _ = False"

fun isInteger :: "respValue \<Rightarrow> bool" where
  "isInteger (RespInteger _) = True"
| "isInteger _ = False"

fun isPlace :: "respValue \<Rightarrow> bool" where
  "isPlace (RespArray [member, dist]) = (isText member \<and> isText dist)"
| "isPlace v = isText v"

fun hasType :: "answerType \<Rightarrow> respValue \<Rightarrow> bool" where
  "hasType _ (RespError _) = True"
| "hasType AnswerStatus v = (case v of RespSimpleString _ \<Rightarrow> True | _ \<Rightarrow> False)"
| "hasType AnswerStatusOrNull v = (case v of RespSimpleString _ \<Rightarrow> True | _ \<Rightarrow> v = RespNullBulkString)"
| "hasType AnswerStatusOrText v = (case v of RespSimpleString _ \<Rightarrow> True | _ \<Rightarrow> isText v)"
| "hasType AnswerInteger v = isInteger v"
| "hasType AnswerBulk v = (isText v \<or> v = RespNullBulkString)"
| "hasType AnswerText v = isText v"
| "hasType AnswerBulks v = (case v of RespArray items \<Rightarrow> list_all (\<lambda>i. isText i \<or> i = RespNullBulkString) items | _ \<Rightarrow> False)"
| "hasType AnswerPairs v = (case v of RespArray items \<Rightarrow> even (length items) \<and> list_all isText items | _ \<Rightarrow> False)"
| "hasType AnswerIntegers v = (case v of RespArray items \<Rightarrow> list_all isInteger items | _ \<Rightarrow> False)"
| "hasType AnswerPlaces v = (case v of RespArray items \<Rightarrow> list_all isPlace items | _ \<Rightarrow> False)"
| "hasType AnswerHello v = (v = helloMap \<or> v = helloArray)"
| "hasType AnswerItems v = (case v of RespArray items \<Rightarrow> True | _ \<Rightarrow> False)"
| "hasType AnswerAny v = True"

definition answerTypes :: "(string \<times> answerType) list" where
  "answerTypes = [
     (''AUTH'', AnswerStatus), (''HELLO'', AnswerHello), (''PING'', AnswerStatusOrText), (''QUIT'', AnswerStatus),
     (''SELECT'', AnswerStatus), (''CLIENT'', AnswerAny), (''COMMAND'', AnswerItems),
     (''MULTI'', AnswerStatus), (''EXEC'', AnswerItems), (''DISCARD'', AnswerStatus),
     (''EVAL'', AnswerAny), (''EVALSHA'', AnswerAny), (''SCRIPT'', AnswerAny),
     (''GET'', AnswerBulk), (''SET'', AnswerStatusOrNull), (''DEL'', AnswerInteger), (''EXISTS'', AnswerInteger),
     (''EXPIRE'', AnswerInteger), (''TTL'', AnswerInteger), (''INCR'', AnswerInteger), (''DECR'', AnswerInteger),
     (''INCRBY'', AnswerInteger), (''DECRBY'', AnswerInteger), (''MGET'', AnswerBulks), (''MSET'', AnswerStatus),
     (''TYPE'', AnswerStatus), (''HSET'', AnswerInteger), (''HGET'', AnswerBulk), (''HDEL'', AnswerInteger),
     (''HGETALL'', AnswerPairs), (''HEXISTS'', AnswerInteger), (''HLEN'', AnswerInteger),
     (''SADD'', AnswerInteger), (''SREM'', AnswerInteger), (''SISMEMBER'', AnswerInteger),
     (''SMEMBERS'', AnswerBulks), (''SCARD'', AnswerInteger),
     (''LPUSH'', AnswerInteger), (''RPUSH'', AnswerInteger), (''LPOP'', AnswerBulk), (''RPOP'', AnswerBulk),
     (''LRANGE'', AnswerBulks), (''LLEN'', AnswerInteger),
     (''ZADD'', AnswerInteger), (''ZREM'', AnswerInteger), (''ZRANGE'', AnswerBulks), (''ZCARD'', AnswerInteger),
     (''SETBIT'', AnswerInteger), (''GETBIT'', AnswerInteger), (''BITCOUNT'', AnswerInteger),
     (''PFADD'', AnswerInteger), (''PFCOUNT'', AnswerInteger), (''PFMERGE'', AnswerStatus),
     (''GEOADD'', AnswerInteger), (''GEODIST'', AnswerBulk), (''GEORADIUS'', AnswerPlaces)]"

text \<open>A command that does not exist is answered with an error.\<close>

definition typeOfAnswer :: "string \<Rightarrow> respValue \<Rightarrow> bool" where
  "typeOfAnswer command v =
     (case map_of answerTypes command of Some t \<Rightarrow> hasType t v | None \<Rightarrow> (case v of RespError _ \<Rightarrow> True | _ \<Rightarrow> False))"

section \<open>Programs that answer a type\<close>

definition answers :: "('a \<Rightarrow> bool) \<Rightarrow> ('s, 'a) state \<Rightarrow> bool" where
  "answers Q m \<longleftrightarrow> (\<forall>c. Q (fst (run_state m c)))"

named_theorems ans

lemma answers_answer [ans]: "Q x \<Longrightarrow> answers Q (answer x)"
  by (simp add: answers_def)

lemma answers_bind [ans]: "(\<And>x. answers Q (f x)) \<Longrightarrow> answers Q (State_Monad.bind m f)"
  by (simp add: answers_def split_beta)

lemma answers_bind_with:
  "answers P m \<Longrightarrow> (\<And>x. P x \<Longrightarrow> answers Q (f x)) \<Longrightarrow> answers Q (State_Monad.bind m f)"
  by (simp add: answers_def split_beta)

lemma answers_if [ans]: "(b \<Longrightarrow> answers Q m) \<Longrightarrow> (\<not> b \<Longrightarrow> answers Q n) \<Longrightarrow> answers Q (if b then m else n)"
  by simp

lemma answers_option [ans]:
  "(x = None \<Longrightarrow> answers Q m) \<Longrightarrow> (\<And>v. x = Some v \<Longrightarrow> answers Q (f v)) \<Longrightarrow>
     answers Q (case x of None \<Rightarrow> m | Some v \<Rightarrow> f v)"
  by (cases x) simp_all

lemma answers_sum [ans]:
  "(\<And>v. x = Inl v \<Longrightarrow> answers Q (f v)) \<Longrightarrow> (\<And>v. x = Inr v \<Longrightarrow> answers Q (g v)) \<Longrightarrow>
     answers Q (case x of Inl v \<Rightarrow> f v | Inr v \<Rightarrow> g v)"
  by (cases x) simp_all

lemma answers_prod [ans]: "(\<And>a b. x = (a, b) \<Longrightarrow> answers Q (f a b)) \<Longrightarrow> answers Q (case x of (a, b) \<Rightarrow> f a b)"
  by (cases x) simp

lemma answers_traverse: "(\<And>x. answers P (f x)) \<Longrightarrow> answers (list_all P) (State_Monad.traverse_list f xs)"
  by (induction xs) (auto simp: answers_def split_beta)

lemma hasType_errors [simp]:
  "hasType t syntaxError" "hasType t integerError" "hasType t invalidExpireTime" "hasType t wrongType"
  "hasType t noAuth" "hasType t wrongPass" "hasType t (serviceError rx err)"
  by (simp_all add: syntaxError_def integerError_def invalidExpireTime_def wrongType_def noAuth_def wrongPass_def serviceError_def)

lemma hasType_values [simp]:
  "hasType AnswerInteger (integerCount n)" "hasType AnswerInteger (flagInteger b)"
  "isText (bulkText t)"
  by (simp_all add: integerCount_def flagInteger_def bulkText_def)

lemma wrongTypeFor_error: "answers (\<lambda>r. case r of None \<Rightarrow> True | Some resp \<Rightarrow> resp = wrongType) (wrongTypeFor rx key entity)"
  unfolding wrongTypeFor_def by (intro ans) (simp split: option.split)

lemma typed_ans: "answers (hasType t) m \<Longrightarrow> answers (hasType t) (typed rx key entity m)"
  unfolding typed_def by (rule answers_bind_with [OF wrongTypeFor_error]) (auto intro!: ans split: option.splits)

lemma orFail_ans: "(\<And>v. r = Inr v \<Longrightarrow> answers (hasType t) (f v)) \<Longrightarrow> answers (hasType t) (orFail rx r f)"
  unfolding orFail_def by (intro ans) simp_all

lemmas body_ans = typed_ans orFail_ans ans

lemma applySetOption_error: "applySetOption uc arg rest out = Inl resp \<Longrightarrow> hasType t resp"
  by (auto simp: applySetOption_def applySetTTL_def Let_def split: if_splits list.splits option.splits)

lemma parseSetLoop_error: "parseSetLoop uc args out = Inl resp \<Longrightarrow> hasType t resp"
  by (induction uc args out rule: parseSetLoop.induct) (auto dest: applySetOption_error split: sum.splits)

lemma parse_error:
  "parseSetOptions uc args = Inl resp \<Longrightarrow> hasType t resp"
  "parseZRangeArgs uc args = Inl resp \<Longrightarrow> hasType t resp"
  "parseGeoPoint rx lon lat = Inl resp \<Longrightarrow> hasType t resp"
  "parseScriptKeyCount args = Inl resp \<Longrightarrow> hasType t resp"
  by (auto simp: parseSetOptions_def parseZRangeArgs_def parseGeoPoint_def parseScriptKeyCount_def Let_def
      dest: parseSetLoop_error split: if_splits sum.splits option.splits list.splits prod.splits)

lemma applyGeoRadiusOptions_error: "applyGeoRadiusOptions uc args request wd = Inl resp \<Longrightarrow> hasType t resp"
  by (induction uc args request wd rule: applyGeoRadiusOptions.induct)
    (auto simp: Let_def split: if_splits list.splits option.splits)

lemma parseGeoRadius_error: "parseGeoRadius rx args = Inl resp \<Longrightarrow> hasType t resp"
  by (auto simp: parseGeoRadius_def Let_def dest: parse_error(3) applyGeoRadiusOptions_error
      split: if_splits sum.splits option.splits)

section \<open>Commands on data\<close>

lemma delLoop_ans: "answers (hasType AnswerInteger) (delLoop rx args n)"
  by (induction args arbitrary: n) (auto intro!: body_ans)

lemma existsLoop_ans: "answers (hasType AnswerInteger) (existsLoop rx args n)"
  by (induction args arbitrary: n) (auto intro!: body_ans)

lemma msetLoop_ans: "answers (hasType AnswerStatus) (msetLoop rx args)"
  by (induction rx args rule: msetLoop.induct) (auto intro!: body_ans)

lemma mapSet_ans: "answers (\<lambda>r. case r of None \<Rightarrow> True | Some resp \<Rightarrow> hasType t resp) (mapSet rx key field val)"
  unfolding mapSet_def by (intro ans) (simp split: sum.split)

lemma hsetLoop_ans: "answers (hasType AnswerInteger) (hsetLoop rx key args n)"
proof (induction args arbitrary: n rule: induct_list012)
  case (3 field val rest)
  show ?case unfolding hsetLoop.simps
    by (rule answers_bind, rule answers_bind_with [OF mapSet_ans [of AnswerInteger]]) (auto intro!: ans 3 split: option.splits)
qed (auto intro: ans)

lemma countLoop_ans: "answers (hasType AnswerInteger) (countLoop rx entity key request args n)"
  by (induction args arbitrary: n) (auto intro!: body_ans)

lemma pushLoop_ans: "answers (hasType AnswerInteger) (pushLoop rx key kind args result)"
  by (induction args arbitrary: result) (auto intro!: body_ans)

lemma zaddLoop_ans: "answers (hasType AnswerInteger) (zaddLoop rx key args n)"
  by (induction rx key args n rule: zaddLoop.induct) (auto intro!: body_ans)

lemma pfaddLoop_ans: "answers (hasType AnswerInteger) (pfaddLoop rx key args n)"
  by (induction args arbitrary: n) (auto intro!: body_ans)

lemma geoaddLoop_ans: "answers (hasType AnswerInteger) (geoaddLoop rx key args n)"
  by (induction rx key args n rule: geoaddLoop.induct) (auto intro!: body_ans intro: parse_error)

lemma hllUnion_ans: "answers (\<lambda>r. case r of Inl resp \<Rightarrow> hasType t resp | Inr _ \<Rightarrow> True) (hllUnion rx args hashes)"
proof (induction args arbitrary: hashes)
  case (Cons arg args)
  show ?case unfolding hllUnion.simps
    by (rule answers_bind_with [OF wrongTypeFor_error]) (auto intro!: ans Cons split: option.splits)
qed (auto intro: ans)

lemma increment_ans: "answers (hasType AnswerInteger) (increment rx key delta)"
  unfolding increment_def by (intro body_ans) (auto split: option.split)

lemma ttlResponse_ans: "answers (hasType AnswerInteger) (ttlResponse rx r)"
  unfolding ttlResponse_def Let_def by (intro body_ans) simp_all

lemma mgetItem_ans: "answers (\<lambda>i. isText i \<or> i = RespNullBulkString) (mgetItem rx key)"
  unfolding mgetItem_def by (intro ans) (auto split: sum.split prod.split bool.split)

lemma lengthOf_ans: "answers (hasType AnswerInteger) (lengthOf rx entity f args)"
  unfolding lengthOf_def Let_def by (intro body_ans) simp_all

lemma list_all_slice: "list_all P xs \<Longrightarrow> list_all P (sliceRedisRange xs start stop)"
  by (auto simp: sliceRedisRange_def Let_def list_all_iff dest!: in_set_takeD in_set_dropD)

lemmas loops_ans = delLoop_ans existsLoop_ans msetLoop_ans hsetLoop_ans countLoop_ans pushLoop_ans zaddLoop_ans
  pfaddLoop_ans geoaddLoop_ans increment_ans ttlResponse_ans lengthOf_ans

lemma string_ans:
  "answers (hasType AnswerBulk) (rhandleGet rx args)"
  "answers (hasType AnswerStatusOrNull) (rhandleSet rx args)"
  "answers (hasType AnswerInteger) (rhandleDel rx args)"
  "answers (hasType AnswerInteger) (rhandleExists rx args)"
  "answers (hasType AnswerInteger) (rhandleExpire rx args)"
  "answers (hasType AnswerInteger) (rhandleTTL rx args)"
  "answers (hasType AnswerInteger) (rhandleIncrement rx delta args)"
  "answers (hasType AnswerInteger) (rhandleIncrementBy rx args)"
  "answers (hasType AnswerInteger) (rhandleDecrementBy rx args)"
  "answers (hasType AnswerStatus) (rhandleMSet rx args)"
  "answers (hasType AnswerStatus) (rhandleType rx args)"
  unfolding rhandleGet_def rhandleSet_def rhandleDel_def rhandleExists_def rhandleExpire_def rhandleTTL_def
    rhandleIncrement_def rhandleIncrementBy_def rhandleDecrementBy_def rhandleMSet_def rhandleType_def Let_def
  by (auto intro!: body_ans loops_ans intro: parse_error split: option.split)

lemma mget_ans: "answers (hasType AnswerBulks) (rhandleMGet rx args)"
  unfolding rhandleMGet_def
  by (intro answers_if answers_answer answers_bind_with [OF answers_traverse [OF mgetItem_ans]]) simp_all

lemma hash_ans:
  "answers (hasType AnswerInteger) (rhandleHSet rx args)"
  "answers (hasType AnswerBulk) (rhandleHGet rx args)"
  "answers (hasType AnswerInteger) (rhandleHDel rx args)"
  "answers (hasType AnswerPairs) (rhandleHGetAll rx args)"
  "answers (hasType AnswerInteger) (rhandleHExists rx args)"
  "answers (hasType AnswerInteger) (rhandleHLen rx args)"
proof -
  have pairs: "even (length (concat (map (\<lambda>f. [bulkText (mf_Field f), RespBulkString (mf_Value f)]) fs))) \<and>
      list_all isText (concat (map (\<lambda>f. [bulkText (mf_Field f), RespBulkString (mf_Value f)]) fs))" for fs
    by (induction fs) simp_all
  show "answers (hasType AnswerPairs) (rhandleHGetAll rx args)"
    unfolding rhandleHGetAll_def Let_def by (intro body_ans) (simp_all add: pairs)
qed (unfold rhandleHSet_def rhandleHGet_def rhandleHDel_def rhandleHExists_def rhandleHLen_def Let_def,
    auto intro!: body_ans loops_ans)

lemma set_ans:
  "answers (hasType AnswerInteger) (rhandleSAdd rx args)"
  "answers (hasType AnswerInteger) (rhandleSRem rx args)"
  "answers (hasType AnswerInteger) (rhandleSIsMember rx args)"
  "answers (hasType AnswerBulks) (rhandleSMembers rx args)"
  "answers (hasType AnswerInteger) (rhandleSCard rx args)"
  unfolding rhandleSAdd_def rhandleSRem_def rhandleSIsMember_def rhandleSMembers_def rhandleSCard_def Let_def
  by (auto intro!: body_ans loops_ans simp: list.pred_map list_all_iff)

lemma list_ans:
  "answers (hasType AnswerInteger) (rhandleLPush rx args)"
  "answers (hasType AnswerInteger) (rhandleRPush rx args)"
  "answers (hasType AnswerBulk) (rhandleLPop rx args)"
  "answers (hasType AnswerBulk) (rhandleRPop rx args)"
  "answers (hasType AnswerBulks) (rhandleLRange rx args)"
  "answers (hasType AnswerInteger) (rhandleLLen rx args)"
  unfolding rhandleLPush_def rhandleRPush_def pushList_def rhandleLPop_def rhandleRPop_def popList_def
    rhandleLRange_def rhandleLLen_def Let_def
  by (auto intro!: body_ans loops_ans simp: list.pred_map list_all_iff)

lemma zset_ans:
  "answers (hasType AnswerInteger) (rhandleZAdd rx args)"
  "answers (hasType AnswerInteger) (rhandleZRem rx args)"
  "answers (hasType AnswerBulks) (rhandleZRange rx args)"
  "answers (hasType AnswerInteger) (rhandleZCard rx args)"
  unfolding rhandleZAdd_def rhandleZRem_def rhandleZRange_def rhandleZCard_def Let_def zrangeResponse_def
  by (auto intro!: body_ans loops_ans intro: parse_error simp: list_all_iff split: if_splits)

lemma other_ans:
  "answers (hasType AnswerInteger) (rhandleSetBit rx args)"
  "answers (hasType AnswerInteger) (rhandleGetBit rx args)"
  "answers (hasType AnswerInteger) (rhandleBitCount rx args)"
  "answers (hasType AnswerInteger) (rhandlePFAdd rx args)"
  "answers (hasType AnswerInteger) (rhandleGeoAdd rx args)"
  "answers (hasType AnswerBulk) (rhandleGeoDist rx args)"
  "answers (hasType AnswerPlaces) (rhandleGeoRadius rx args)"
  unfolding rhandleSetBit_def rhandleGetBit_def rhandleBitCount_def rhandlePFAdd_def rhandleGeoAdd_def
    rhandleGeoDist_def rhandleGeoRadius_def Let_def geoRadiusResponse_def
  by (auto intro!: body_ans loops_ans intro: parseGeoRadius_error simp: list.pred_map list_all_iff bulkText_def split: list.splits)

lemma hll_ans:
  "answers (hasType AnswerInteger) (rhandlePFCount rx args)"
  "answers (hasType AnswerStatus) (rhandlePFMerge rx args)"
proof -
  show "answers (hasType AnswerInteger) (rhandlePFCount rx args)"
    unfolding rhandlePFCount_def
    by (intro answers_if answers_answer lengthOf_ans answers_bind_with [OF hllUnion_ans [of AnswerInteger]])
      (auto split: sum.split)
  show "answers (hasType AnswerStatus) (rhandlePFMerge rx args)"
    unfolding rhandlePFMerge_def Let_def
    by (intro answers_if answers_answer typed_ans answers_bind_with [OF hllUnion_ans [of AnswerStatus]])
      (auto intro!: body_ans split: sum.split)
qed

section \<open>Every command\<close>

lemma hasType_any [simp]: "hasType AnswerAny v"
  by (cases v) simp_all

lemma answers_True [simp]: "answers (\<lambda>v. True) m"
  by (simp add: answers_def)

lemma hasType_hello [simp]: "hasType AnswerHello helloMap" "hasType AnswerHello helloArray"
  by (simp_all add: helloMap_def helloArray_def)

lemma session_ans:
  "answers (hasType AnswerStatus) (rhandleAuth rx args)"
  "answers (hasType AnswerStatus) (rhandleQuit args)"
  "answers (hasType AnswerStatus) (rhandleSelect args)"
  "answers (hasType AnswerStatus) (rhandleMulti args)"
  "answers (hasType AnswerStatus) (rhandleDiscard args)"
  "answers (hasType AnswerItems) (rhandleExec rx d args)"
  "answers (hasType AnswerStatusOrText) (rhandlePing args)"
  unfolding rhandlePing_def rhandleAuth_def rhandleQuit_def rhandleSelect_def rhandleMulti_def rhandleDiscard_def rhandleExec_def Let_def
  by (auto intro!: ans)

lemma applyHelloOption_ans:
  "answers (\<lambda>r. case r of Inl resp \<Rightarrow> hasType t resp | Inr _ \<Rightarrow> True) (applyHelloOption rx arg rest)"
  unfolding applyHelloOption_def applyHelloAuth_def Let_def by (auto intro!: ans split: list.split)

lemma applyHelloOptions_ans:
  "answers (\<lambda>r. case r of None \<Rightarrow> True | Some resp \<Rightarrow> hasType t resp) (applyHelloOptions rx fuel args)"
proof (induction rx fuel args rule: applyHelloOptions.induct)
  case (3 rx fuel arg rest)
  show ?case unfolding applyHelloOptions.simps
    by (rule answers_bind_with [OF applyHelloOption_ans [of t]]) (auto intro!: ans 3 split: sum.splits)
qed (auto intro: ans)

lemma hello_ans: "answers (hasType AnswerHello) (rhandleHello rx args)"
  unfolding rhandleHello_def
  by (intro answers_if answers_option answers_answer answers_bind_with [OF applyHelloOptions_ans [of AnswerHello]])
    (auto intro!: ans split: option.splits)

lemma typeOfAnswer_error [simp]: "typeOfAnswer cmd (RespError t)"
  by (simp add: typeOfAnswer_def split: option.split)

lemma handlers_ans: "list_all (\<lambda>(n, h). \<forall>args. answers (typeOfAnswer n) (h args)) (sessionHandlers rx d @ dataHandlers rx)"
  unfolding sessionHandlers_def dataHandlers_def append.simps list.pred_inject prod.case typeOfAnswer_def answerTypes_def
  by (simp add: session_ans hello_ans string_ans mget_ans hash_ans set_ans list_ans zset_ans other_ans hll_ans ans)

lemma handler_ans: "rcommandHandlers rx d cmd = Some h \<Longrightarrow> answers (typeOfAnswer cmd) (h args)"
  using handlers_ans [of rx d] by (auto simp: rcommandHandlers_def list_all_iff dest!: map_of_SomeD)

lemma error_answers [simp]: "typeOfAnswer cmd noAuth" "typeOfAnswer cmd (unknownCommand rx name)"
  by (simp_all add: noAuth_def unknownCommand_def)

lemma exec_ans: "answers (typeOfAnswer ''EXEC'') (rhandleExec rx d args)"
  unfolding typeOfAnswer_def answerTypes_def by (simp add: session_ans)

lemma discard_ans: "answers (typeOfAnswer ''DISCARD'') (rhandleDiscard args)"
  unfolding typeOfAnswer_def answerTypes_def by (simp add: session_ans)

lemma queued_ans:
  fixes rx :: "'e redisEnv"
  shows "answers (\<lambda>v. v = RespSimpleString ''QUEUED'' \<or> typeOfAnswer cmd v) (handleQueuedCommand rx d cmd args)"
proof -
  have "answers (\<lambda>v. v = RespSimpleString ''QUEUED'' \<or> typeOfAnswer ''EXEC'' v) (rhandleExec rx d args)"
    "answers (\<lambda>v. v = RespSimpleString ''QUEUED'' \<or> typeOfAnswer ''DISCARD'' v) (rhandleDiscard args :: ('e conn, respValue) state)"
    using exec_ans [of rx d args] discard_ans [of args, where 'a = 'e] by (simp_all add: answers_def)
  then show ?thesis unfolding handleQueuedCommand_def by (auto intro!: ans)
qed

lemma dispatch_ans:
  assumes "args \<noteq> []"
  shows "answers (\<lambda>v. v = RespSimpleString ''QUEUED'' \<or> typeOfAnswer (ToUpper (rx_unicode rx) (string_of_bytes (hd args))) v)
    (dispatchWith rx d args)"
proof -
  obtain arg rest where a: "args = arg # rest" using assms by (cases args) auto
  let ?cmd = "ToUpper (rx_unicode rx) (string_of_bytes arg)"
  have "answers (\<lambda>v. v = RespSimpleString ''QUEUED'' \<or> typeOfAnswer ?cmd v) (h args)" if "rcommandHandlers rx d ?cmd = Some h" for h
    using handler_ans [OF that, of args] by (simp add: answers_def)
  then show ?thesis unfolding a dispatchWith_def list.case list.sel Let_def
    by (intro answers_bind answers_if answers_option answers_answer queued_ans) (simp_all add: a)
qed

lemma handleCommand_ans:
  "cn_crashed (snd (run_state (handleCommand rx args) c)) \<or>
   fst (run_state (handleCommand rx args) c) = RespSimpleString ''QUEUED'' \<or>
   typeOfAnswer (ToUpper (rx_unicode rx) (string_of_bytes (hd args))) (fst (run_state (handleCommand rx args) c))"
proof (cases "args = []")
  case True
  then show ?thesis by (simp add: handleCommand_def numeral_3_eq_3 unlessCrashed_def dispatchWith_def crash_def)
next
  case False
  from dispatch_ans [OF this, of rx "handleCommandD rx (Suc (Suc 0))"] show ?thesis
    by (simp add: handleCommand_def numeral_3_eq_3 unlessCrashed_def answers_def)
qed

end
