(* ===== verification/Properties_Redis.thy ===== *)
theory Properties_Redis
  imports Redis_Tenant Redis_Exec Redis_Types Samples
begin

text \<open>The properties of the Redis front end, with the inputs they are applied at.\<close>

section \<open>Samples\<close>

definition sampleUnicode :: unicodeOps where
  "sampleUnicode = \<lparr>uc_toUpper = \<lambda>s. s, uc_toLower = \<lambda>s. s, uc_equalFold = \<lambda>s t. s = t, uc_runes = \<lambda>s. [],
     uc_isLetter = \<lambda>r. False, uc_isDigit = \<lambda>r. False\<rparr>"

definition sampleFloats :: floatOps where
  "sampleFloats = \<lparr>fl_parse = \<lambda>s. None, fl_format = \<lambda>x. ''0'', fl_format4 = \<lambda>x. ''0.0000'', fl_mul = \<lambda>x y. x,
     fl_div = \<lambda>x y. x, fl_ofInt = \<lambda>i. 0, fl_toInt = \<lambda>x. 0, fl_ceilSeconds = \<lambda>t. t div 1000000000\<rparr>"

definition sampleQuotas :: QuotaConfig where
  "sampleQuotas = \<lparr>DefaultNamespaceMemoryBytes = 0, DefaultSpaceMemoryBytes = 0, Namespaces = fmempty, Spaces = fmempty\<rparr>"

definition sampleRedis :: "MemoryEngine redisEnv" where
  "sampleRedis = \<lparr>rx_ops = memoryOps sampleDeps, rx_quota = sampleQuotas,
     rx_calls = \<lambda>n k. \<lparr>ce_ctx = live, ce_now = 100\<rparr>, rx_others = \<lambda>n e. e, rx_otherScripts = \<lambda>n scripts. scripts,
     rx_now = \<lambda>n. 100, rx_credentials = [''alice'' \<mapsto> ''alice-password''], rx_unicode = sampleUnicode,
     rx_floats = sampleFloats, rx_errorText = \<lambda>err. ''failed'', rx_setOrder = \<lambda>hashes. sorted_list_of_fset hashes,
     rx_sha1 = \<lambda>bs. [], rx_lua = \<lambda>n script keys argv. LuaReturn LuaNil, rx_luaText = \<lambda>v. '''',
     rx_contextErr = \<lambda>n. None, rx_stack = 1000\<rparr>"

definition sampleConn :: "MemoryEngine conn" where
  "sampleConn = \<lparr>cn_engine = NewMemory sampleConfig, cn_scripts = Map.empty, cn_session = newSession, cn_calls = 0,
     cn_crashed = False\<rparr>"

definition sampleAlloc :: allocLimits where
  "sampleAlloc = \<lparr>al_args = 2 ^ 32, al_bytes = 2 ^ 32\<rparr>"

section \<open>Tenants\<close>

lemma read_args_in_input:
  assumes "suffix s input" and "readRESPCommand alloc s = Inr (args, rest)" and "a \<in> set args"
  shows "sublist a input"
  using readRESPCommand_suffix [OF assms(2)] assms(1,3) sublist_order.order.trans
  by (auto simp: list_all_iff dest: suffix_imp_sublist)

text \<open>
  C7: the tenants of the Redis front end cannot touch each other. A connection whose bytes do not
  contain the password of a user, whatever they are otherwise (commands, pipelines, transactions, Lua scripts,
  other users' logins, garbage), changes no entry of this user's namespace, provided the other connections do not
  either; it cannot even make room at this user's expense.
\<close>

theorem tenant_isolation:
  assumes "deps_ok d" and "engine_inv (cn_engine c)" and "t \<noteq> ''''" and "k_Namespace key = t"
    and "\<forall>password. rx_credentials rx t = Some password \<longrightarrow> \<not> sublist (bytes_of_string password) input"
    and "\<forall>n. list_all (callElsewhere t) (work n)"
  shows "contents (cn_engine (snd (serveRedisConn (redisOver d work rx) alloc buffered input c))) (physicalKey key) =
    contents (cn_engine c) (physicalKey key)"
proof -
  let ?rx = "redisOver d (\<lambda>n. filter (callElsewhere t) (work n)) rx"
  let ?v = "\<lambda>key. contents (cn_engine c) (physicalKey key)"
  have same: "?rx = redisOver d work rx" using assms(6) by (simp add: list_all_iff filter_id_conv)
  have "tenantInv d t ?v (cn_engine (snd (serveRedisConn ?rx alloc buffered input c)))"
  proof (rule tenant.serveRedisConn_inv)
    fix s args rest assume "suffix s input" "readRESPCommand alloc s = Inr (args, rest)"
    then have "sublist a input" if "a \<in> set args" for a using read_args_in_input that by blast
    with assms(5) show "okFor rx t args" by (fastforce simp: okFor_def lacking_def)
  qed (use assms in \<open>simp_all add: tenantInv_def\<close>)
  then show ?thesis using assms(4) by (simp add: tenantInv_def same)
qed

definition twoTenants :: "MemoryEngine redisEnv" where
  "twoTenants = sampleRedis\<lparr>rx_credentials := [''alice'' \<mapsto> ''secret'', ''bob'' \<mapsto> ''hunter'']\<rparr>"

theorem tenant_isolation_witness:
  "contents (cn_engine (snd (serveRedisConn (redisOver sampleDeps (\<lambda>n. []) twoTenants) sampleAlloc (\<lambda>rest. True)
      (bytes_of_string (''AUTH bob hunter'' @ crlf @ ''SET k v'' @ crlf @ ''AUTH alice hunter'' @ crlf @ ''SET k v'' @ crlf)) sampleConn)))
      (physicalKey \<lparr>k_Namespace = ''alice'', k_Space = ''0-space'', k_Entity = entityString, k_Key = ''k''\<rparr>) =
   contents (cn_engine sampleConn)
      (physicalKey \<lparr>k_Namespace = ''alice'', k_Space = ''0-space'', k_Entity = entityString, k_Key = ''k''\<rparr>)"
  by (rule tenant_isolation [where t = "''alice''"])
    (simp_all add: sampleDeps_ok sampleConn_def engine_inv_NewMemory twoTenants_def sampleRedis_def bytes_of_string_def
      crlf_def byte_of_char_def sublist_Cons_right)

section \<open>Strangers\<close>

definition unknownTo :: "'e redisEnv \<Rightarrow> respArg list \<Rightarrow> bool" where
  "unknownTo rx args \<longleftrightarrow> (\<forall>a\<in>set args. \<forall>user. rx_credentials rx user \<noteq> Some (string_of_bytes a))"

lemma unknown_authenticate:
  "unknownTo rx args \<Longrightarrow> a \<in> set args \<Longrightarrow> \<not> authenticate (rx_credentials rx) user (string_of_bytes a)"
  by (auto simp: unknownTo_def authenticate_def split: option.splits)

lemma applyHelloOptions_unknown:
  "unknownTo rx args \<Longrightarrow> snd (run_state (applyHelloOptions rx fuel args) c) = c"
proof (induction fuel arbitrary: args)
  case 0
  show ?case by (cases args) simp_all
next
  case (Suc fuel)
  show ?case
  proof (cases args)
    case (Cons arg rest)
    have u: "unknownTo rx rest" using Suc.prems Cons by (simp add: unknownTo_def)
    have "snd (run_state (applyHelloOption rx arg rest) c) = c"
      using unknown_authenticate [OF u] by (auto simp: applyHelloOption_def applyHelloAuth_def Let_def split: list.split)
    moreover have "unknownTo rx rest'" if "fst (run_state (applyHelloOption rx arg rest) c) = Inr rest'" for rest'
      using that u by (auto simp: applyHelloOption_def applyHelloAuth_def unknownTo_def Let_def split_beta split: if_splits list.splits)
    ultimately show ?thesis using Suc.IH Cons by (auto simp: split_beta split: sum.split)
  qed simp
qed

definition strangerIn :: "'e conn \<Rightarrow> 'e conn \<Rightarrow> bool" where
  "strangerIn c0 c \<longleftrightarrow> \<not> rs_authenticated (cn_session c) \<and> \<not> rs_inTransaction (cn_session c) \<and>
     cn_engine c = cn_engine c0 \<and> cn_scripts c = cn_scripts c0 \<and> cn_calls c = cn_calls c0"

lemma stranger_command:
  assumes "unknownTo rx args" and "strangerIn c0 c"
  shows "strangerIn c0 (snd (run_state (responseForCommand rx args) c))"
proof -
  have auth: "snd (run_state (rhandleAuth rx args) c) = c"
    using unknown_authenticate [OF assms(1), of "args ! 2"] by (simp add: rhandleAuth_def Let_def)
  have "unknownTo rx (drop 2 args)" using assms(1) by (auto simp: unknownTo_def dest: in_set_dropD)
  from applyHelloOptions_unknown [OF this] have hello: "snd (run_state (rhandleHello rx args) c) = c"
    using assms(2) by (auto simp: rhandleHello_def readSession_def strangerIn_def split_beta split: option.split)
  have quit: "strangerIn c0 (snd (run_state (rhandleQuit args) c))"
    using assms(2) by (simp add: rhandleQuit_def updateSession_def strangerIn_def)
  have crash: "strangerIn c0 (snd (run_state crash c))" using assms(2) by (simp add: crash_def strangerIn_def)
  have ping: "snd (run_state (rhandlePing args) c) = c" by (simp add: rhandlePing_def)
  show ?thesis
    using assms(2) auth hello quit crash ping
    by (cases args)
      (auto simp: responseForCommand_def handleCommand_def numeral_3_eq_3 unlessCrashed_def dispatchWith_def
        readSession_def commandAllowedBeforeAuth_def rcommandHandlers_def sessionHandlers_def strangerIn_def [of c0 c] Let_def)
qed

text \<open>
  C18: a client that does not know a password does nothing. If no configured password occurs in the
  bytes of a connection, it makes no call of the cache at all: the engine and the scripts of the server are left
  as they were, whatever the bytes are.
\<close>

theorem stranger_changes_nothing:
  assumes "\<forall>user password. rx_credentials rx user = Some password \<longrightarrow> \<not> sublist (bytes_of_string password) input"
  shows "cn_engine (snd (serveRedisConn rx alloc buffered input c)) = cn_engine c \<and>
    cn_scripts (snd (serveRedisConn rx alloc buffered input c)) = cn_scripts c \<and>
    cn_calls (snd (serveRedisConn rx alloc buffered input c)) = cn_calls c"
proof -
  have "strangerIn c (snd (runSession rx alloc buffered input w (c\<lparr>cn_session := newSession\<rparr>)))" for w
  proof (rule runSession_keeps [where ok = "unknownTo rx" and P = "strangerIn c", OF stranger_command])
    fix s args rest assume "suffix s input" "readRESPCommand alloc s = Inr (args, rest)"
    then have "sublist a input" if "a \<in> set args" for a using read_args_in_input that by blast
    with assms show "unknownTo rx args" by (fastforce simp: unknownTo_def)
  qed (auto simp: strangerIn_def newSession_def)
  then show ?thesis by (simp add: serveRedisConn_def Let_def split_beta strangerIn_def)
qed

theorem stranger_changes_nothing_witness:
  "cn_engine (snd (serveRedisConn sampleRedis sampleAlloc (\<lambda>rest. True) (bytes_of_string ''SET k v'' @ [13, 10]) sampleConn)) =
   cn_engine sampleConn"
proof -
  have "\<forall>user password. rx_credentials sampleRedis user = Some password \<longrightarrow>
      \<not> sublist (bytes_of_string password) (bytes_of_string ''SET k v'' @ [13, 10])"
    by (auto simp: sampleRedis_def bytes_of_string_def split: if_splits dest!: sublist_length_le)
  from stranger_changes_nothing [OF this] show ?thesis by blast
qed

section \<open>Pipelines\<close>

definition commandBytes :: "respArg list \<Rightarrow> bytes" where
  "commandBytes args = respBytes (RespArray (map RespBulkString args))"

text \<open>What a connection is meant to do: answer command by command until it is closed.\<close>

fun converse :: "'e redisEnv \<Rightarrow> respArg list list \<Rightarrow> 'e conn \<Rightarrow> respValue list \<times> 'e conn" where
  "converse rx [] c = ([], c)"
| "converse rx (args # qs) c =
     (let (resp, c) = run_state (responseForCommand rx args) c in
      if cn_crashed c then ([], c)
      else if rs_close (cn_session c) then ([resp], c)
      else let (resps, c) = converse rx qs c in (resp # resps, c))"

lemma readRESPCommand_empty: "readRESPCommand alloc [] = Inl RespEOF"
  by (simp add: readRESPCommand_def)

lemma runSession_converse:
  assumes "list_all (commandFits alloc) qs" and "converse rx qs c = (resps, c')" and "\<not> cn_crashed c'"
  shows "\<exists>w'. runSession rx alloc buffered (concat (map commandBytes qs)) w c = (w', c') \<and>
    bufAll w' = bufAll w @ concat (map respBytes resps) \<and> (bw_buffer w = [] \<or> qs \<noteq> [] \<longrightarrow> bw_buffer w' = [])"
  using assms
proof (induction qs arbitrary: w c resps)
  case Nil
  then show ?case by (auto simp: runSession.simps [of _ _ _ "[]"] readRESPCommand_empty)
next
  case (Cons args qs)
  let ?rest = "concat (map commandBytes qs)"
  obtain resp c1 where r: "run_state (responseForCommand rx args) c = (resp, c1)" by fastforce
  have nc: "\<not> cn_crashed c1" using Cons.prems(2,3) r by (auto simp: Let_def split: if_splits prod.splits)
  have read: "readRESPCommand alloc (commandBytes args @ ?rest) = Inr (args, ?rest)"
    using Cons.prems(1) readRESPCommand_array by (simp add: commandBytes_def)
  define w1 where "w1 = fold bufPiece (encodeRESP resp) w"
  have w1: "bufAll w1 = bufAll w @ respBytes resp" by (simp add: w1_def fold_bufPiece_all respBytes_def)
  have fl: "bufAll (bufFlush w1) = bufAll w1" "bw_buffer (bufFlush w1) = []" by (simp_all add: bufFlush_def)
  show ?case
  proof (cases "rs_close (cn_session c1)")
    case True
    then have "writeCommandResponse rx buffered ?rest args w c = (True, bufFlush w1, c1)"
      using r nc by (simp add: writeCommandResponse_def w1_def)
    moreover have "resps = [resp]" "c' = c1" using Cons.prems(2) r nc True by simp_all
    ultimately show ?thesis using read w1 fl by (simp add: runSession.simps [of _ _ _ "commandBytes args @ ?rest"])
  next
    case False
    obtain resps1 where c: "converse rx qs c1 = (resps1, c')" and resps: "resps = resp # resps1"
      using Cons.prems(2) r nc False by (auto simp: Let_def split: prod.splits)
    define w2 where "w2 = (if ?rest \<noteq> [] \<and> buffered ?rest then w1 else bufFlush w1)"
    have w2: "bufAll w2 = bufAll w @ respBytes resp" using w1 fl by (simp add: w2_def)
    have step: "writeCommandResponse rx buffered ?rest args w c = (False, w2, c1)"
      using r nc False by (simp add: writeCommandResponse_def w1_def w2_def)
    obtain w' where w': "runSession rx alloc buffered ?rest w2 c1 = (w', c')"
      "bufAll w' = bufAll w2 @ concat (map respBytes resps1)" "bw_buffer w2 = [] \<or> qs \<noteq> [] \<longrightarrow> bw_buffer w' = []"
      using Cons.IH [of c1 resps1 w2] Cons.prems(1,3) c by auto
    have "bw_buffer w2 = [] \<or> qs \<noteq> []" using fl by (auto simp: w2_def)
    then show ?thesis using read step w' w2 resps
      by (simp add: runSession.simps [of _ _ _ "commandBytes args @ ?rest"])
  qed
qed

text \<open>
  C17: pipelining. However the bytes of a sequence of commands arrive, the connection sends exactly the
  encoded answers, one per command and in the order of the commands, and ends in the state of handling the commands
  one after the other; it stops after the command that closes it. Nothing is kept back in the buffer of the writer.
\<close>

theorem pipeline_of_commands:
  assumes "list_all (commandFits alloc) qs"
    and "converse rx qs (c\<lparr>cn_session := newSession\<rparr>) = (resps, c')" and "\<not> cn_crashed c'"
  shows "serveRedisConn rx alloc buffered (concat (map commandBytes qs)) c = (concat (map respBytes resps), c')"
proof -
  obtain w' where "runSession rx alloc buffered (concat (map commandBytes qs)) \<lparr>bw_sent = [], bw_buffer = []\<rparr>
      (c\<lparr>cn_session := newSession\<rparr>) = (w', c')" "bufAll w' = concat (map respBytes resps)" "bw_buffer w' = []"
    using runSession_converse [OF assms, of buffered "\<lparr>bw_sent = [], bw_buffer = []\<rparr>"] by auto
  then show ?thesis by (simp add: serveRedisConn_def)
qed

theorem pipeline_of_commands_witness:
  "serveRedisConn sampleRedis sampleAlloc (\<lambda>rest. True)
     (concat (map commandBytes [[bytes_of_string ''GET'', bytes_of_string ''k''], [bytes_of_string ''PING'']])) sampleConn =
   (concat (map respBytes [noAuth, RespSimpleString ''PONG'']), sampleConn)"
proof -
  have fits: "list_all (commandFits sampleAlloc) [[bytes_of_string ''GET'', bytes_of_string ''k''], [bytes_of_string ''PING'']]"
    by (simp add: commandFits_def sampleAlloc_def MaxInt64_def)
  have same: "sampleConn\<lparr>cn_session := newSession\<rparr> = sampleConn" by (simp add: sampleConn_def)
  have "converse sampleRedis [[bytes_of_string ''GET'', bytes_of_string ''k''], [bytes_of_string ''PING'']]
      (sampleConn\<lparr>cn_session := newSession\<rparr>) = ([noAuth, RespSimpleString ''PONG''], sampleConn)"
    unfolding same
    by (simp add: responseForCommand_def handleCommand_def numeral_3_eq_3 unlessCrashed_def dispatchWith_def readSession_def
        ToUpper_def asciiText_def upperChar_def sampleConn_def newSession_def commandAllowedBeforeAuth_def
        rcommandHandlers_def sessionHandlers_def rhandlePing_def Let_def)
  from pipeline_of_commands [OF fits this, of "\<lambda>rest. True"] show ?thesis by (simp add: sampleConn_def)
qed

section \<open>Transactions\<close>

abbreviation queueing :: "respArg list list \<Rightarrow> 'e conn \<Rightarrow> 'e conn" where
  "queueing qs c \<equiv> c\<lparr>cn_session := (cn_session c)\<lparr>rs_inTransaction := True, rs_queued := qs\<rparr>\<rparr>"

definition queuedCommand :: "'e redisEnv \<Rightarrow> respArg list \<Rightarrow> bool" where
  "queuedCommand rx q \<longleftrightarrow> q \<noteq> [] \<and> queueable rx q \<and> rcommandHandlers rx (\<lambda>_. crash) (commandName rx q) \<noteq> None"

lemma multi_opens:
  assumes "rs_authenticated (cn_session c)" and "\<not> rs_inTransaction (cn_session c)" and "\<not> cn_crashed c"
  shows "run_state (handleCommand rx [bytes_of_string ''MULTI'']) c = (statusOK, queueing [] c)"
  using assms commandName_text(2) [of rx "[]"]
  by (simp add: handleCommand_def numeral_3_eq_3 unlessCrashed_def dispatchWith_def readSession_def rcommandHandlers_def
      sessionHandlers_def rhandleMulti_def updateSession_def openTransaction_def Let_def del: string_of_bytes_of_string)

lemma command_queued:
  assumes "rs_authenticated (cn_session c)" and "\<not> cn_crashed c" and "queuedCommand rx q"
  shows "run_state (handleCommand rx q) (queueing qs c) = (RespSimpleString ''QUEUED'', queueing (qs @ [q]) c)"
proof -
  obtain arg rest where q: "q = arg # rest" using assms(3) by (cases q) (auto simp: queuedCommand_def)
  have "rcommandHandlers rx (handleCommandD rx (Suc (Suc 0))) (commandName rx q) \<noteq> None"
    using assms(3) commandHandlers_known [of rx "handleCommandD rx (Suc (Suc 0))" "commandName rx q" rx "\<lambda>_. crash"]
    unfolding queuedCommand_def by (elim conjE) (simp only: simp_thms)
  with assms q show ?thesis
    by (auto simp: handleCommand_def numeral_3_eq_3 unlessCrashed_def dispatchWith_def readSession_def handleQueuedCommand_def
        updateSession_def enqueue_def queuedCommand_def queueable_def Let_def)
qed

lemma commands_queued:
  assumes "rs_authenticated (cn_session c)" and "\<not> cn_crashed c" and "list_all (queuedCommand rx) qs"
  shows "run_state (State_Monad.traverse_list (handleCommand rx) qs) (queueing qs0 c) =
    (replicate (length qs) (RespSimpleString ''QUEUED''), queueing (qs0 @ qs) c)"
  using assms(3) command_queued [OF assms(1,2)] by (induction qs arbitrary: qs0) simp_all

text \<open>
  C16: transactions. \<open>MULTI\<close>, some commands and \<open>EXEC\<close> answer \<open>OK\<close>, \<open>QUEUED\<close> for each command, and then the
  answers the commands have when they run one after the other on an engine nobody else uses: whatever other
  connections do, and when, counts as done before the first of them. This includes scripts among the commands.
\<close>

theorem transaction_runs_alone:
  assumes "rs_authenticated (cn_session c)" and "\<not> rs_inTransaction (cn_session c)" and "rs_queued (cn_session c) = []"
    and "\<not> rs_tx (cn_session c)" and "\<not> cn_crashed c" and "list_all (queuedCommand rx) qs"
    and "run_state (State_Monad.traverse_list (handleCommand (alone rx)) qs)
      (c\<lparr>cn_engine := rx_others rx (cn_calls c) (cn_engine c)\<rparr>) = (responses, c')"
  shows "run_state (State_Monad.traverse_list (handleCommand rx)
      ([bytes_of_string ''MULTI''] # qs @ [[bytes_of_string ''EXEC'']])) c =
    (statusOK # replicate (length qs) (RespSimpleString ''QUEUED'') @ [RespArray responses], setTx False c')"
proof -
  have start: "beginExec rx (queueing qs c) = c\<lparr>cn_engine := rx_others rx (cn_calls c) (cn_engine c)\<rparr>"
    using assms(2,3) by (simp add: openTransaction_def)
  have ok: "list_all (queueable rx) qs" using assms(6) by (auto simp: list_all_iff queuedCommand_def)
  have "run_state (handleCommand rx [bytes_of_string ''EXEC'']) (queueing qs c) = (RespArray responses, setTx False c')"
    by (rule exec_alone) (use assms start ok in simp_all)
  then show ?thesis
    using multi_opens [OF assms(1,2,5)] commands_queued [OF assms(1,5,6), of "[]"] by simp
qed

definition sampleMember :: "MemoryEngine conn" where
  "sampleMember = sampleConn\<lparr>cn_session := authAs ''alice'' newSession\<rparr>"

definition sampleBatch :: "respArg list list" where
  "sampleBatch = [[bytes_of_string ''set'', bytes_of_string ''k'', bytes_of_string ''v''],
     [bytes_of_string ''get'', bytes_of_string ''k'']]"

theorem transaction_runs_alone_witness:
  "let (responses, c') = run_state (State_Monad.traverse_list (handleCommand (alone sampleRedis)) sampleBatch) sampleMember
   in run_state (State_Monad.traverse_list (handleCommand sampleRedis)
        ([bytes_of_string ''MULTI''] # sampleBatch @ [[bytes_of_string ''EXEC'']])) sampleMember =
      ([statusOK, RespSimpleString ''QUEUED'', RespSimpleString ''QUEUED'', RespArray responses], setTx False c')"
proof -
  have name: "commandName sampleRedis [bytes_of_string ''set'', x, y] = ''SET''" "commandName sampleRedis [bytes_of_string ''get'', x] = ''GET''"
    for x y by (simp_all add: ToUpper_def asciiText_def upperChar_def char_of_def bit_iff_odd)
  have q: "list_all (queuedCommand sampleRedis) sampleBatch"
    using name by (simp add: sampleBatch_def queuedCommand_def queueable_def rcommandHandlers_def sessionHandlers_def dataHandlers_def
        del: string_of_bytes_of_string)
  obtain responses c' where run: "run_state (State_Monad.traverse_list (handleCommand (alone sampleRedis)) sampleBatch) sampleMember = (responses, c')"
    by fastforce
  have s: "sampleMember\<lparr>cn_engine := rx_others sampleRedis (cn_calls sampleMember) (cn_engine sampleMember)\<rparr> = sampleMember"
    by (simp add: sampleMember_def sampleConn_def sampleRedis_def)
  have "run_state (State_Monad.traverse_list (handleCommand sampleRedis)
      ([bytes_of_string ''MULTI''] # sampleBatch @ [[bytes_of_string ''EXEC'']])) sampleMember =
    (statusOK # replicate (length sampleBatch) (RespSimpleString ''QUEUED'') @ [RespArray responses], setTx False c')"
    by (rule transaction_runs_alone [OF _ _ _ _ _ q])
      (simp_all only: s run, simp_all add: sampleMember_def sampleConn_def newSession_def authAs_def)
  then show ?thesis unfolding run prod.case Let_def by (simp add: sampleBatch_def)
qed

section \<open>Types of answers\<close>


section \<open>Answers on the wire\<close>



section \<open>Ranges\<close>

lemma upt_filter: "b \<le> n \<Longrightarrow> filter (\<lambda>i. a \<le> i \<and> i < b) [0..<n] = [a..<b]"
  by (rule sorted_distinct_set_unique) (auto simp: sorted_wrt_filter)

text \<open>
  \<open>LRANGE\<close> and \<open>ZRANGE\<close> select the items between two positions, both included; a negative position counts from
  the end, and positions beyond the ends are cut.
\<close>

lemma sliceRedisRange_items:
  fixes xs :: "'a list" and start stop :: int
  defines "pos \<equiv> \<lambda>p. if p < 0 then int (length xs) + p else p"
  shows "sliceRedisRange xs start stop =
    map (nth xs) (filter (\<lambda>i. pos start \<le> int i \<and> int i \<le> pos stop) [0..<length xs])"
proof -
  define a where "a = nat (pos start)"
  define b where "b = min (nat (pos stop + 1)) (length xs)"
  have "filter (\<lambda>i. pos start \<le> int i \<and> int i \<le> pos stop) [0..<length xs] = filter (\<lambda>i. a \<le> i \<and> i < b) [0..<length xs]"
    by (rule filter_cong) (auto simp: a_def b_def)
  also have "\<dots> = [a..<b]" by (rule upt_filter) (simp add: b_def)
  finally have "map (nth xs) (filter (\<lambda>i. pos start \<le> int i \<and> int i \<le> pos stop) [0..<length xs]) = take (b - a) (drop a xs)"
    by (auto simp: b_def less_diff_conv add.commute [of a] intro!: nth_equalityI)
  moreover have "sliceRedisRange xs start stop = take (b - a) (drop a xs)"
    by (auto simp: sliceRedisRange_def Let_def a_def b_def pos_def min_def nat_le_iff le_nat_iff)
  ultimately show ?thesis by simp
qed

section \<open>Limits of the front end\<close>

text \<open>
  The lifetime of \<open>SET \<dots> EX\<close> is computed in 64 bits and wraps: 9223372037 seconds become a negative lifetime.
\<close>

lemma set_ttl_wraps:
  "parseSetOptions uc [bytes_of_string ''EX'', bytes_of_string ''9223372037''] =
     Inr \<lparr>st_ttl = - 9223372036709551616, st_nx = False, st_xx = False\<rparr>"
proof -
  have "ParseInt ''9223372037'' = Some 9223372037"
    by (simp add: ParseInt_def is_digit_def digit_val_def digits_val_def int64_def MaxInt64_def MinInt64_def)
  then show ?thesis
    by (simp add: parseSetOptions_def applySetOption_def applySetTTL_def parsePositiveInt64_def ToUpper_def asciiText_def
        upperChar_def timeSecond_def int64_wrap_def Let_def)
qed

text \<open>
  Before any login, a command that announces more arguments than can be addressed, or an argument of
  \<open>MaxInt64\<close> bytes, ends the process.
\<close>

lemma huge_number: "readRESPInt (bytes_of_string ''9223372036854775807'' @ [CR, LF]) = Inr (MaxInt64, [])"
proof -
  have f: "FormatInt MaxInt64 = ''9223372036854775807''"
    by (simp add: FormatInt_def MaxInt64_def nat_digits.simps char_of_def bit_iff_odd)
  have "int64 MaxInt64" by (simp add: int64_def MaxInt64_def MinInt64_def)
  then show ?thesis using readRESPInt_line [of MaxInt64 "[]"] by (simp add: f)
qed

lemma huge_count_crashes:
  assumes "al_args alloc < MaxInt64"
  shows "cn_crashed (snd (serveRedisConn rx alloc buffered (bytes_of_string ''*9223372036854775807'' @ [CR, LF]) c))"
proof -
  have i: "bytes_of_string ''*9223372036854775807'' = byte_of_char CHR ''*'' # bytes_of_string ''9223372036854775807''"
    by (simp add: bytes_of_string_def)
  have "readRESPCommand alloc (bytes_of_string ''*9223372036854775807'' @ [CR, LF]) = Inl RespPanic"
    unfolding i using assms huge_number by (simp add: readRESPCommand_def readRESPArrayCommand_def MaxInt64_def)
  then show ?thesis by (simp add: serveRedisConn_def runSession.simps Let_def split_beta)
qed

lemma huge_argument_crashes:
  "readRESPArg alloc (bytes_of_string ''$9223372036854775807'' @ [CR, LF]) = Inl RespPanic"
proof -
  have i: "bytes_of_string ''$9223372036854775807'' = byte_of_char CHR ''$'' # bytes_of_string ''9223372036854775807''"
    by (simp add: bytes_of_string_def)
  show ?thesis unfolding i using huge_number
    by (simp add: readRESPArg_def readRESPBulkArg_def MaxInt64_def int64_wrap_def Let_def)
qed

text \<open>An answer that waits in the buffer is lost when what follows in the pipeline cannot be read.\<close>

lemma pipelined_answer_lost:
  "fst (serveRedisConn sampleRedis sampleAlloc (\<lambda>rest. True) (commandBytes [bytes_of_string ''PING''] @ [CR]) sampleConn) = []"
proof -
  let ?c = "sampleConn\<lparr>cn_session := newSession\<rparr>"
  let ?in = "commandBytes [bytes_of_string ''PING''] @ [CR]"
  have fits: "commandFits sampleAlloc [bytes_of_string ''PING'']"
    by (simp add: commandFits_def sampleAlloc_def MaxInt64_def)
  have read: "readRESPCommand sampleAlloc ?in = Inr ([bytes_of_string ''PING''], [CR])"
    using readRESPCommand_array [OF fits] by (simp add: commandBytes_def)
  have bad: "readRESPCommand sampleAlloc [CR] = Inl RespProtocol" by (simp add: readRESPCommand_def byte_of_char_def)
  have run: "run_state (responseForCommand sampleRedis [bytes_of_string ''PING'']) ?c = (RespSimpleString ''PONG'', ?c)"
    by (simp add: responseForCommand_def handleCommand_def numeral_3_eq_3 unlessCrashed_def dispatchWith_def readSession_def
        ToUpper_def asciiText_def upperChar_def sampleConn_def newSession_def commandAllowedBeforeAuth_def
        rcommandHandlers_def sessionHandlers_def rhandlePing_def Let_def)
  have "fold bufPiece (encodeRESP (RespSimpleString ''PONG'')) \<lparr>bw_sent = [], bw_buffer = []\<rparr> =
      \<lparr>bw_sent = [], bw_buffer = respBytes (RespSimpleString ''PONG'')\<rparr>"
    using fold_bufPiece_fits [of "\<lparr>bw_sent = [], bw_buffer = []\<rparr>" "encodeRESP (RespSimpleString ''PONG'')", folded respBytes_def]
    by (simp add: bufferSize_def del: encodeRESP.simps)
  then have wrote: "writeCommandResponse sampleRedis (\<lambda>rest. True) [CR] [bytes_of_string ''PING''] \<lparr>bw_sent = [], bw_buffer = []\<rparr> ?c =
      (False, \<lparr>bw_sent = [], bw_buffer = respBytes (RespSimpleString ''PONG'')\<rparr>, ?c)"
    using run by (simp add: writeCommandResponse_def sampleConn_def newSession_def del: encodeRESP.simps)
  have "runSession sampleRedis sampleAlloc (\<lambda>rest. True) ?in \<lparr>bw_sent = [], bw_buffer = []\<rparr> ?c =
      (\<lparr>bw_sent = [], bw_buffer = respBytes (RespSimpleString ''PONG'')\<rparr>, ?c)"
    using read bad wrote by (simp add: runSession.simps [of _ _ _ ?in] runSession.simps [of _ _ _ "[CR]"])
  then show ?thesis by (simp add: serveRedisConn_def)
qed

text \<open>The name of an unknown command is copied into the error as it is, line ends included: the client reads two answers.\<close>

lemma unknown_command_splits:
  "respBytes (unknownCommand rx (''X'' @ crlf @ ''+OK'')) =
     respBytes (RespError (''ERR unknown command '' @ [CHR 0x27] @ ''x'')) @ respBytes (RespSimpleString (''ok'' @ [CHR 0x27]))"
  by (simp add: unknownCommand_def ToLower_def asciiText_def lowerChar_def crlf_def bytes_of_string_def byte_of_char_def)

text \<open>A script that returns a table which holds itself ends the process, however deep the stack is.\<close>

primcorec selfTable :: luaValue where
  "selfTable = LuaTable LuaNil LuaNil (map (\<lambda>_. selfTable) [()])"

lemma self_table_crashes: "cn_crashed (snd (run_state (runLuaScript rx d (LuaReturn selfTable) n) c))"
proof -
  have "luaValueToRESP rx k selfTable = None" for k
  proof (induction k)
    case (Suc k)
    then show ?case by (subst selfTable.code) (simp add: luaTableToRESP_def isNilValue_def luaTableArrayToRESP_def)
  qed simp
  then show ?thesis by (simp add: crash_def)
qed

text \<open>The options of \<open>HELLO\<close> are all read: more fuel than arguments changes nothing.\<close>

lemma applyHelloOption_shorter:
  "fst (run_state (applyHelloOption rx arg rest) c) = Inr rest' \<Longrightarrow> length rest' \<le> length rest"
  by (auto simp: applyHelloOption_def applyHelloAuth_def updateSession_def Let_def split: if_splits list.splits)

lemma applyHelloOptions_fuel:
  "length args \<le> fuel \<Longrightarrow> applyHelloOptions rx fuel args = applyHelloOptions rx (length args) args"
proof (induction "length args" arbitrary: args fuel rule: less_induct)
  case less
  show ?case
  proof (cases args)
    case Nil
    then show ?thesis by (cases fuel) simp_all
  next
    case (Cons arg rest)
    with less.prems obtain n where n: "fuel = Suc n" "length rest \<le> n" by (cases fuel) auto
    have "applyHelloOptions rx n rest' = applyHelloOptions rx (length rest) rest'"
      if "length rest' \<le> length rest" for rest'
      using that less.hyps [of rest' n] less.hyps [of rest' "length rest"] n Cons by simp
    then show ?thesis
      using n Cons applyHelloOption_shorter [of rx arg rest]
      by (auto simp: State_Monad.bind_def split_beta fun_eq_iff split: sum.splits)
  qed
qed

text \<open>Every configured user has a valid name and a password.\<close>

lemma parseCredentials_valid:
  "parseCredentials uc items user = Some password \<Longrightarrow> validUsername uc user \<and> password \<noteq> ''''"
proof -
  let ?ok = "\<lambda>m. \<forall>u p. m u = Some p \<longrightarrow> validUsername uc u \<and> p \<noteq> ''''"
  have "?ok (foldl (credentialStep uc) m items)" if "?ok m" for m
    using that
  proof (induction items arbitrary: m)
    case (Cons item items)
    have "?ok (credentialStep uc m item)"
      using Cons.prems by (auto simp: credentialStep_def Let_def split: if_splits option.splits prod.splits)
    from Cons.IH [OF this] show ?case by simp
  qed simp
  from this [of Map.empty] show "parseCredentials uc items user = Some password \<Longrightarrow> validUsername uc user \<and> password \<noteq> ''''"
    by (simp add: parseCredentials_def)
qed

end
