(* ===== verification/Spec2Isabelle.thy ===== *)
theory Spec2Isabelle
  imports Properties_Wire Properties_Cache Properties_Control Properties_Cluster Properties_Client Properties_Node
    Properties_Redis
begin

text \<open>
  \<^bold>\<open>A verification of nespa\<close>

  nespa is a distributed in-memory cache written in Go. A cluster has \<^emph>\<open>data nodes\<close>, which hold entries
  in a sharded memory engine behind a cache service with quotas, and a \<^emph>\<open>control plane\<close>, a replicated
  state machine that keeps the catalog of namespaces, spaces and entities, the nodes and their
  liveness, the table of routes from slots to nodes, and the plans that migrate slots when the members
  change. Clients hash a key to one of 65536 virtual slots, select a route from the table and talk to
  the node in length-prefixed frames.

  \<^bold>\<open>The parts and the theories that model them\<close>

  \<^item> \<open>Prelude\<close>: Go's integers, strings, times and maps, the byte encodings of the standard library,
    sums over finite maps, and the interfaces \<open>prefix_code\<close> (an encoding that can be read off the front
    of a byte string) and \<open>state_machine\<close> (a step function with an invariant). \<open>GoStrings\<close>: what is used
    of \<open>strings\<close> and \<open>strconv\<close>.
  \<^item> Storage, \<open>src/cache/engine\<close>: \<open>Engine_Types\<close> (the structs), \<open>Shard\<close> (\<open>entry.go\<close>, \<open>worker.go\<close>: entries,
    accounting, set, get, delete, touch), \<open>Counter\<close> (\<open>adjust.go\<close>, \<open>adjust_estimate.go\<close>), \<open>Eviction\<close>
    (\<open>eviction.go\<close>), \<open>Shard_Snapshot\<close> (\<open>snapshot*.go\<close>, \<open>migration.go\<close>), \<open>Primitives\<close>, \<open>Primitive_Handlers\<close>
    and \<open>Primitive_Estimate\<close> (\<open>collection_value.go\<close>, \<open>primitive*.go\<close>), \<open>Worker\<close> (the command table and the
    goroutine that serves a shard's channel, as an inductive step relation), \<open>Engine\<close> (\<open>memory.go\<close>,
    \<open>stats.go\<close>: sharding, delivery under a context, every operation of the engine).
  \<^item> The cache service, \<open>src/cache\<close>: \<open>Cache_Service\<close> (quotas, admission, the operations under the
    service's lock, batches, transactions) over a record of the engine's operations.
  \<^item> The wire: \<open>Frame\<close> (\<open>src/protocol/frame.go\<close>), \<open>Routing\<close> (\<open>src/routing/routing.go\<close>), and the binary
    messages of \<open>src/cachewire\<close> in \<open>Wire_Base\<close> (integers, strings, keys, payload ranges), \<open>Wire_Messages\<close>
    (single, batch and migration messages) and \<open>Wire_Primitive\<close>.
  \<^item> The TCP transport, \<open>src/transport/tcp\<close>: \<open>Tcp_Server\<close> (\<open>server*.go\<close>, \<open>range_fence.go\<close>, \<open>wire*.go\<close>: the
    stale-route and fence checks, all handlers, and \<open>serveConn\<close>, the loop of one connection over its bytes),
    \<open>Tcp_Replication\<close> (\<open>server_replication*.go\<close>: the commands sent to replicas, the outbox, the queue, the
    acknowledgements and the replay), \<open>Tcp_Client\<close> (\<open>client*.go\<close>: calls and pipelines). A client acts on a
    network \<open>'w\<close> through \<open>clientEnv\<close>; \<open>clusterEnv\<close> is the network in which every host runs \<open>serveConn\<close>.
  \<^item> The public client, \<open>src/client\<close>: \<open>Client_Routed\<close> (routing by a snapshot, one retry after a refresh,
    batches split by address, counters).
  \<^item> The Redis front end, \<open>src/transport/redis\<close>: \<open>Redis_Resp\<close> (\<open>resp.go\<close>: commands off the bytes of a connection,
    answers through the buffered writer), \<open>Redis_Session\<close> (\<open>server.go\<close>, \<open>key.go\<close>, \<open>range.go\<close>, \<open>response.go\<close>,
    \<open>script_cache.go\<close>: users, sessions, keys, the calls of the cache service, in a state monad over a connection),
    \<open>Redis_Commands\<close> (\<open>string.go\<close>, \<open>hash.go\<close>, \<open>set.go\<close>, \<open>list.go\<close>, \<open>zset.go\<close>, \<open>bitmap.go\<close>, \<open>hll.go\<close>, \<open>geo.go\<close>: the 43 data
    commands) and \<open>Redis_Server\<close> (\<open>command.go\<close>, \<open>transaction.go\<close>, \<open>script*.go\<close>, \<open>server.go\<close>: the session commands,
    \<open>MULTI\<close> and \<open>EXEC\<close>, scripts, the dispatch and the loop of a connection). A definition \<open>rhandleX\<close> is the method
    \<open>handleX\<close>; the handlers of \<open>transport/tcp\<close> have the plain names. Between two service calls other connections may do
    anything to the engine, unless this one is in a transaction.
  \<^item> A data node beside its servers: \<open>Snapshot_File\<close> (the snapshot file of \<open>src/cache/engine/snapshot.go\<close>, over a file
    system whose calls may fail) and \<open>Node_Runtime\<close> (\<open>src/node\<close>: registration and heartbeats over HTTP, the routes it
    keeps, the replication targets, saving and restoring the engine).
  \<^item> The control plane, \<open>src/control\<close>: \<open>Control_API\<close> (\<open>src/controlapi/types.go\<close>), \<open>Control_Names\<close>
    (\<open>catalog_validation.go\<close>, \<open>node_validation.go\<close>), \<open>Control_Routes\<close> (\<open>routing.go\<close>,
    \<open>migration_routes.go\<close>), \<open>Control_State\<close> (\<open>state.go\<close>, \<open>catalog.go\<close>, \<open>node_state.go\<close>, \<open>rebalance.go\<close>),
    \<open>Control_Migration\<close> (\<open>migration_state.go\<close>), \<open>Control_FSM\<close> (\<open>fsm.go\<close>, \<open>snapshot.go\<close>, \<open>liveness.go\<close>),
    \<open>Control_Service\<close> (\<open>service.go\<close>, \<open>migration_service.go\<close>), \<open>Migration_Executor\<close> (\<open>migration_executor*.go\<close>:
    an attempt to move a range with its calls to the two nodes, waves of tasks, a sweep).

  A Go struct is a record with prefixed fields, a method is a function from the state to the new state
  and its results, an error is a value of a sum or option type, a 32- or 64-bit unsigned integer is a
  word and wraps. A mutex makes an operation one step. Code outside the repository is a parameter: the
  order in which a map of the container library is ranged over (\<open>enumerates\<close>), its and the standard
  library's sort (\<open>sorts\<close>), the serialisation of collections, contexts that may fail anywhere
  (\<open>callContext\<close>), the clock.

  \<^bold>\<open>What is shown\<close>

  \<^item> \<open>Engine_Inv\<close>, \<open>Engine_Store\<close>, \<open>Engine_Transfer\<close>: every engine operation, with a context failing
    anywhere, keeps each entry under its own key and shard with its true cost and the counters equal to
    the sums over the entries; set, get, delete, evict, import, export, snapshot and restore in terms
    of one map from keys to entries.
  \<^item> \<open>Cache_Quota\<close>: over the interface of an engine (locales \<open>engine_keeps\<close>, \<open>engine_contract\<close>,
    interpreted on the memory engine) a set the service applies stays within the quotas.
  \<^item> \<open>Control_Inv\<close>: every command keeps the control state consistent (interpretation \<open>fsm\<close> of
    \<open>state_machine\<close>). \<open>Control_Spec\<close>: refused commands, the liveness sweep, snapshots, identifiers.
    \<open>Control_Moves\<close>: which node serves a slot while migrations are pending, and the revision.
  \<^item> \<open>Tcp_Laws\<close>: the server answers every frame once and keeps its engine (interpretation \<open>tcp\<close>), fences
    and stale epochs block writes, and a call in a cluster is the handler of one server (locale
    \<open>frame_service\<close>, interpretation \<open>cluster\<close>). \<open>Pipeline_Laws\<close>: the answers of a pipeline.
  \<^item> \<open>Migration_Laws\<close>: over the nodes of a range (locale \<open>range_nodes\<close>, interpretation \<open>cluster_nodes\<close>) an
    attempt keeps every entry; the waves; the retry delay. \<open>Migration_Sweep\<close>: a sweep ends.
  \<^item> \<open>Client_Laws\<close>: which node answered a routed request, and where each result of a batch comes from
    (locale \<open>stamped_requests\<close>, interpreted on the six kinds of request).
  \<^item> \<open>Redis_Resp_Laws\<close>: what a client writes is read back, answers can be told apart, the buffered writer loses
    nothing. \<open>Redis_Laws\<close>, \<open>Redis_Inv\<close>: over the interface of two services that agree (locales \<open>service_pair\<close>,
    \<open>front_pair\<close>) or of a service with an invariant (\<open>front_invariant\<close>) every command, script and transaction keeps
    the agreement or the invariant; proved once for all handlers. \<open>Redis_Tenant\<close> interprets them on the memory
    engine for what a tenant may touch, \<open>Redis_Exec\<close> for a transaction beside other connections and for the depth of the
    dispatch. \<open>Redis_Types\<close>: the type of every command's answer.
  \<^item> \<open>Properties_Node\<close>: the epoch of a node only grows (interpretation \<open>node\<close>), replication targets, restarts.
  \<^item> \<open>Properties_Redis\<close>, \<open>Properties_Engine\<close>, \<open>Properties_Storage\<close>, \<open>Properties_Cache\<close>, \<open>Properties_Wire\<close>,
    \<open>Properties_Control\<close>, \<open>Properties_Cluster\<close>, \<open>Properties_Client\<close>: the properties, each with a run on the inputs of \<open>Samples\<close> or
    \<open>Control_Samples\<close> that applies it. Some show where the code does not do what it means to.

  \<^bold>\<open>Bounds\<close>

  Loops are structural recursions, so there is no fuel, except these: \<open>serveConn\<close> and \<open>runSession\<close> recurse on the bytes
  that are left, with a termination proof; the dispatcher of the Redis front end, which \<open>EXEC\<close> and scripts call
  again, goes at most three levels deep, which is shown to be enough (\<open>depth_enough\<close>); the options of \<open>HELLO\<close> have the
  number of arguments as fuel, which is enough (\<open>applyHelloOptions_fuel\<close>); the conversion of a Lua value recurses as
  deep as the stack, and a script that is still running is cut off by its deadline; and the rounds of a sweep (\<open>claimRounds\<close>) are a partial function,
  which is shown to return when the clock moves less than the retry backoff. Byte counts are 64-bit words; a property that
  compares sums of costs assumes that the sums stay below \<open>2^64\<close>. The identifiers of events and plans
  are 64-bit counters; a log of fewer than \<open>2^32\<close> commands cannot make them wrap. Routes from slot 0
  to slot 0 are read as full ranges, which more than 32768 nodes would produce; the routing property
  assumes fewer.

  \<^bold>\<open>Not modelled\<close>

  The control snapshot as a JSON file, the lines of the outbox on disk, sockets and their deadlines, the accept loops
  of the servers, HTTP endpoints, the raft library and its glue (\<open>control/dragonboat*.go\<close>), the parallel run of the tasks
  of one wave (they share no node and are run in sequence), the event bus, the SDK wrappers, the admin server and
  its web frontend, configuration, logging and metrics. A ticker is the sequence of its ticks. The Lua interpreter, SHA-1,
  floating-point numbers, tables of Unicode and JSON are parameters.
\<close>

end
